(* ===== verification/Shop_Prelude.thy ===== *)
theory Shop_Prelude
  imports Main "HOL-Library.AList"
begin

text \<open>
  Shared vocabulary of the development: the exceptions a service throws, the
  combinators that make an early return explicit, the rows-of-a-table operations
  of the Prisma client (\<open>findFirst\<close>, \<open>count\<close>, \<open>updateMany\<close>, \<open>deleteMany\<close>,
  aggregate sums), and the loop ``claim one row per key or fail'' which the stock
  services run over raw \<open>UPDATE\<close> statements, with the lemmas every component uses.
\<close>

named_theorems table_simps "rewrite rules for counting, updating and summing rows"

section \<open>Exceptions and early returns\<close>

text \<open>
  The NestJS exceptions the services throw, with a short tag for the message.
  \<open>UniqueViolation\<close> is Prisma's P2002, raised by the database itself; \<open>Unavailable\<close> is what is answered when
  the server is not set up for the request.
\<close>

datatype error =
    BadRequest string
  | NotFound string
  | Conflict string
  | Forbidden string
  | Unauthorized string
  | UniqueViolation string
  | Unavailable string

type_synonym 'a res = "error + 'a"

text \<open>\<open>require b e k\<close> is \<open>if (!b) throw e; k\<close>.\<close>

definition require :: "bool \<Rightarrow> error \<Rightarrow> 'a res \<Rightarrow> 'a res" where
  "require b e k = (if b then k else Inl e)"

text \<open>\<open>fetch x e k\<close> is \<open>if (!x) throw e; k(x)\<close> for a row that may be missing.\<close>

definition fetch :: "'a option \<Rightarrow> error \<Rightarrow> ('a \<Rightarrow> 'b res) \<Rightarrow> 'b res" where
  "fetch x e k = (case x of None \<Rightarrow> Inl e | Some a \<Rightarrow> k a)"

text \<open>\<open>andThen m k\<close> is \<open>k(await m)\<close>: an exception of \<open>m\<close> propagates.\<close>

definition andThen :: "'a res \<Rightarrow> ('a \<Rightarrow> 'b res) \<Rightarrow> 'b res" where
  "andThen m k = (case m of Inl e \<Rightarrow> Inl e | Inr a \<Rightarrow> k a)"

lemma require_Inr_iff [simp]: "require b e k = Inr x \<longleftrightarrow> b \<and> k = Inr x"
  by (simp add: require_def)

lemma require_Inl_iff: "require b e k = Inl x \<longleftrightarrow> (\<not> b \<and> x = e) \<or> (b \<and> k = Inl x)"
  by (auto simp: require_def)

lemma fetch_Inr_iff [simp]: "fetch x e k = Inr y \<longleftrightarrow> (\<exists>a. x = Some a \<and> k a = Inr y)"
  by (simp add: fetch_def split: option.splits)

lemma fetch_Inl_iff: "fetch x e k = Inl y \<longleftrightarrow> (x = None \<and> y = e) \<or> (\<exists>a. x = Some a \<and> k a = Inl y)"
  by (auto simp: fetch_def split: option.splits)

lemma andThen_Inr_iff [simp]: "andThen m k = Inr y \<longleftrightarrow> (\<exists>a. m = Inr a \<and> k a = Inr y)"
  by (simp add: andThen_def split: sum.splits)

lemma andThen_Inl_iff: "andThen m k = Inl y \<longleftrightarrow> m = Inl y \<or> (\<exists>a. m = Inr a \<and> k a = Inl y)"
  by (auto simp: andThen_def split: sum.splits)

lemma require_simps [simp]: "require True e k = k" "require False e k = Inl e"
  by (simp_all add: require_def)

lemma fetch_simps [simp]: "fetch (Some a) e k = k a" "fetch None e k = Inl e"
  by (simp_all add: fetch_def)

lemma andThen_simps [simp]: "andThen (Inr a) k = k a" "andThen (Inl e) k = Inl e"
  by (simp_all add: andThen_def)

text \<open>
  Weak congruences: the simplifier decides a guard before it looks at the code after it.
\<close>

lemma require_cong [cong]: "b = b' \<Longrightarrow> require b e k = require b' e k"
  by simp

lemma fetch_cong [cong]: "x = x' \<Longrightarrow> fetch x e k = fetch x' e k"
  by simp

lemma andThen_cong [cong]: "m = m' \<Longrightarrow> andThen m k = andThen m' k"
  by simp

definition ok :: "'a res \<Rightarrow> bool" where
  "ok r = (case r of Inl _ \<Rightarrow> False | Inr _ \<Rightarrow> True)"

definition value_of :: "'a res \<Rightarrow> 'a" where
  "value_of r = (case r of Inr x \<Rightarrow> x)"

lemma ok_simps [simp]: "ok (Inr x)" "\<not> ok (Inl e)"
  by (simp_all add: ok_def)

lemma value_of_Inr [simp]: "value_of (Inr x) = x"
  by (simp add: value_of_def)

lemma ok_value_of: "ok r \<Longrightarrow> r = Inr (value_of r)"
  by (cases r) auto

text \<open>\<open>orOld x old\<close> is \<open>x ?? old\<close>.\<close>

definition orOld :: "'a option \<Rightarrow> 'a \<Rightarrow> 'a" where
  "orOld x old = (case x of None \<Rightarrow> old | Some v \<Rightarrow> v)"

lemma orOld_simps [simp]: "orOld None old = old" "orOld (Some v) old = v"
  by (simp_all add: orOld_def)

text \<open>A step of a transaction that has no result of its own returns the new state.\<close>

fun run_all :: "('x \<Rightarrow> 's \<Rightarrow> 's res) \<Rightarrow> 'x list \<Rightarrow> 's \<Rightarrow> 's res" where
  "run_all f [] s = Inr s"
| "run_all f (x # xs) s = andThen (f x s) (run_all f xs)"

lemma run_all_invariant:
  assumes "run_all f xs s = Inr s'" and "P s"
    and "\<And>x s s'. x \<in> set xs \<Longrightarrow> f x s = Inr s' \<Longrightarrow> P s \<Longrightarrow> P s'"
  shows "P s'"
  using assms by (induction xs arbitrary: s) auto

lemma run_all_frame:
  assumes "run_all f xs s = Inr s'" and frame: "\<And>x s s'. x \<in> set xs \<Longrightarrow> f x s = Inr s' \<Longrightarrow> h s' = h s"
  shows "h s' = h s"
proof (rule run_all_invariant [where P = "\<lambda>t. h t = h s", OF assms(1)])
  fix x t t' assume x: "x \<in> set xs" "f x t = Inr t'" and h: "h t = h s"
  have "h t' = h t" by (rule frame [OF x])
  then show "h t' = h s" using h by simp
qed (rule refl)

text \<open>\<open>I xs s\<close>: what holds in state \<open>s\<close> while the elements \<open>xs\<close> are still to come.\<close>

lemma run_all_pending:
  assumes "run_all f xs s = Inr s'" and "I xs s"
    and "\<And>x xs s s'. f x s = Inr s' \<Longrightarrow> I (x # xs) s \<Longrightarrow> I xs s'"
  shows "I [] s'"
  using assms(1,2)
proof (induction xs arbitrary: s)
  case (Cons x xs)
  then obtain s1 where one: "f x s = Inr s1" and rest: "run_all f xs s1 = Inr s'" by auto
  show ?case by (rule Cons.IH [OF rest assms(3) [OF one Cons.prems(2)]])
qed simp

text \<open>\<open>mapM f xs\<close> is \<open>xs.map(f)\<close> where \<open>f\<close> may throw.\<close>

fun mapM :: "('a \<Rightarrow> 'b res) \<Rightarrow> 'a list \<Rightarrow> 'b list res" where
  "mapM f [] = Inr []"
| "mapM f (x # xs) = andThen (f x) (\<lambda>y. andThen (mapM f xs) (\<lambda>ys. Inr (y # ys)))"

lemma mapM_Inr_iff: "mapM f xs = Inr ys \<longleftrightarrow> list_all2 (\<lambda>x y. f x = Inr y) xs ys"
  by (induction xs arbitrary: ys) (auto simp: list_all2_Cons1)

lemma mapM_ok_iff: "(\<exists>ys. mapM f xs = Inr ys) \<longleftrightarrow> (\<forall>x\<in>set xs. \<exists>y. f x = Inr y)"
  by (induction xs) auto

lemma mapM_map: "mapM f xs = Inr ys \<Longrightarrow> (\<And>x y. x \<in> set xs \<Longrightarrow> f x = Inr y \<Longrightarrow> h y = h' x) \<Longrightarrow> map h ys = map h' xs"
  by (induction xs arbitrary: ys) auto

lemma mapM_mem: "mapM f xs = Inr ys \<Longrightarrow> y \<in> set ys \<Longrightarrow> \<exists>x\<in>set xs. f x = Inr y"
  by (induction xs arbitrary: ys) auto

section \<open>Strings\<close>

text \<open>JavaScript's \<open>toUpperCase\<close> on ASCII letters, and \<open>trim\<close> on single-byte white space.\<close>

definition upperChar :: "char \<Rightarrow> char" where
  "upperChar c = (if 97 \<le> (of_char c :: nat) \<and> (of_char c :: nat) \<le> 122 then char_of ((of_char c :: nat) - 32) else c)"

definition toUpperCase :: "string \<Rightarrow> string" where
  "toUpperCase s = map upperChar s"

definition whiteSpace :: "char \<Rightarrow> bool" where
  "whiteSpace c \<longleftrightarrow> (let n = (of_char c :: nat) in 9 \<le> n \<and> n \<le> 13 \<or> n = 32 \<or> n = 160)"

definition trim :: "string \<Rightarrow> string" where
  "trim s = rev (dropWhile whiteSpace (rev (dropWhile whiteSpace s)))"

section \<open>Tables as lists of rows\<close>

definition cnt :: "('r \<Rightarrow> bool) \<Rightarrow> 'r list \<Rightarrow> nat" where
  "cnt P t = length (filter P t)"

definition upd :: "('r \<Rightarrow> bool) \<Rightarrow> ('r \<Rightarrow> 'r) \<Rightarrow> 'r list \<Rightarrow> 'r list" where
  "upd P f t = map (\<lambda>r. if P r then f r else r) t"

definition del :: "('r \<Rightarrow> bool) \<Rightarrow> 'r list \<Rightarrow> 'r list" where
  "del P t = filter (\<lambda>r. \<not> P r) t"

definition sumw :: "('r \<Rightarrow> bool) \<Rightarrow> ('r \<Rightarrow> int) \<Rightarrow> 'r list \<Rightarrow> int" where
  "sumw P g t = (\<Sum>r\<leftarrow>filter P t. g r)"

lemma cnt_rules [simp]:
  "cnt P [] = 0"
  "cnt P (r # t) = (if P r then Suc (cnt P t) else cnt P t)"
  "cnt P (t @ u) = cnt P t + cnt P u"
  by (simp_all add: cnt_def)

lemma upd_rules [simp]:
  "upd P f [] = []"
  "upd P f (r # t) = (if P r then f r else r) # upd P f t"
  "upd P f (t @ u) = upd P f t @ upd P f u"
  "length (upd P f t) = length t"
  by (simp_all add: upd_def)

lemma del_rules [simp]:
  "del P [] = []"
  "del P (r # t) = (if P r then del P t else r # del P t)"
  "del P (t @ u) = del P t @ del P u"
  "set (del P t) = {r \<in> set t. \<not> P r}"
  by (auto simp: del_def)

lemma sumw_rules [simp]:
  "sumw P g [] = 0"
  "sumw P g (r # t) = (if P r then g r else 0) + sumw P g t"
  "sumw P g (t @ u) = sumw P g t + sumw P g u"
  by (simp_all add: sumw_def)

lemma find_SomeD: "find P xs = Some x \<Longrightarrow> x \<in> set xs \<and> P x"
  by (induction xs) (auto split: if_splits)

lemma find_Some_mem: "find P xs = Some x \<Longrightarrow> x \<in> set xs"
  and find_Some_prop: "find P xs = Some x \<Longrightarrow> P x"
  by (auto dest: find_SomeD)

lemma find_unique:
  "distinct (map key t) \<Longrightarrow> r \<in> set t \<Longrightarrow> key r = k \<Longrightarrow> find (\<lambda>r. key r = k) t = Some r"
  by (induction t) auto

lemma distinct_key_eq:
  "distinct (map key t) \<Longrightarrow> r \<in> set t \<Longrightarrow> r' \<in> set t \<Longrightarrow> key r = key r' \<Longrightarrow> r = r'"
  by (induction t) (auto simp: image_iff)

lemma set_upd: "set (upd P f t) = (\<lambda>r. if P r then f r else r) ` set t"
  by (simp add: upd_def)

lemma mem_updE:
  assumes "r \<in> set (upd P f t)"
  obtains r0 where "r0 \<in> set t" and "r = (if P r0 then f r0 else r0)"
  using assms by (auto simp: set_upd)

lemma ball_upd: "(\<forall>r\<in>set (upd P f t). Q r) \<longleftrightarrow> (\<forall>r\<in>set t. Q (if P r then f r else r))"
  by (auto simp: upd_def)

lemma map_key_upd [table_simps]:
  "(\<And>r. key (f r) = key r) \<Longrightarrow> map key (upd P f t) = map key t"
  by (induction t) auto

lemma upd_ident: "(\<And>r. r \<in> set t \<Longrightarrow> P r \<Longrightarrow> f r = r) \<Longrightarrow> upd P f t = t"
  by (induction t) auto

lemma upd_none: "(\<And>r. r \<in> set t \<Longrightarrow> \<not> P r) \<Longrightarrow> upd P f t = t"
  by (induction t) auto

lemma cnt_upd_same:
  "(\<And>r. r \<in> set t \<Longrightarrow> P r \<Longrightarrow> Q (f r) = Q r) \<Longrightarrow> cnt Q (upd P f t) = cnt Q t"
  by (induction t) auto

lemma sumw_upd_same:
  "(\<And>r. r \<in> set t \<Longrightarrow> P r \<Longrightarrow> Q (f r) = Q r \<and> (Q r \<longrightarrow> g (f r) = g r))
    \<Longrightarrow> sumw Q g (upd P f t) = sumw Q g t"
  by (induction t) auto

lemma sumw_cong:
  "(\<And>r. r \<in> set t \<Longrightarrow> P r = Q r) \<Longrightarrow> (\<And>r. r \<in> set t \<Longrightarrow> P r \<Longrightarrow> g r = h r) \<Longrightarrow> sumw P g t = sumw Q h t"
  by (induction t) auto

lemma sumw_del: "sumw P g (del Q t) = sumw P g t - sumw (\<lambda>r. P r \<and> Q r) g t"
  by (induction t) auto

lemma sumw_zero: "(\<And>r. r \<in> set t \<Longrightarrow> \<not> P r) \<Longrightarrow> sumw P g t = 0"
  by (induction t) auto

lemma sumw_nonneg: "(\<And>r. r \<in> set t \<Longrightarrow> P r \<Longrightarrow> 0 \<le> g r) \<Longrightarrow> 0 \<le> sumw P g t"
  by (induction t) (auto intro: add_nonneg_nonneg)

lemma sumw_mem_le:
  "(\<And>r. r \<in> set t \<Longrightarrow> P r \<Longrightarrow> 0 \<le> g r) \<Longrightarrow> r \<in> set t \<Longrightarrow> P r \<Longrightarrow> g r \<le> sumw P g t"
proof (induction t)
  case (Cons a t)
  have "0 \<le> sumw P g t" using Cons.prems(1) by (intro sumw_nonneg) auto
  with Cons show ?case by (cases "r = a") (auto, fastforce)
qed simp

lemma sumw_split: "sumw P g t = sumw (\<lambda>r. P r \<and> Q r) g t + sumw (\<lambda>r. P r \<and> \<not> Q r) g t"
  by (induction t) auto

lemma sumw_map: "sumw P g (map h t) = sumw (\<lambda>x. P (h x)) (\<lambda>x. g (h x)) t"
  by (induction t) auto

lemma sumw_filter: "sumw P g (filter Q t) = sumw (\<lambda>r. P r \<and> Q r) g t"
  by (induction t) auto

lemma cnt_zero_iff: "cnt P t = 0 \<longleftrightarrow> (\<forall>r\<in>set t. \<not> P r)"
  by (induction t) auto

lemma cnt_pos_iff: "0 < cnt P t \<longleftrightarrow> (\<exists>r\<in>set t. P r)"
  by (induction t) auto

lemma cnt_le: "(\<And>r. r \<in> set t \<Longrightarrow> P r \<Longrightarrow> Q r) \<Longrightarrow> cnt P t \<le> cnt Q t"
  by (induction t) auto

lemma cnt_cong: "(\<And>r. r \<in> set t \<Longrightarrow> P r = Q r) \<Longrightarrow> cnt P t = cnt Q t"
  by (induction t) auto

text \<open>A row picked by its key is unique, so a count on key and guard is 0 or 1.\<close>

lemma cnt_key_le_1: "distinct (map key t) \<Longrightarrow> cnt (\<lambda>r. key r = k \<and> P r) t \<le> 1"
proof (induction t)
  case (Cons a t)
  have "key a = k \<Longrightarrow> cnt (\<lambda>r. key r = k \<and> P r) t = 0"
    using Cons.prems by (auto simp: cnt_zero_iff image_iff)
  with Cons show ?case by auto
qed simp

lemma cnt_key_1_iff:
  "distinct (map key t) \<Longrightarrow> cnt (\<lambda>r. key r = k \<and> P r) t = 1 \<longleftrightarrow> (\<exists>r\<in>set t. key r = k \<and> P r)"
  using cnt_key_le_1 [of key t k P] cnt_pos_iff [of "\<lambda>r. key r = k \<and> P r" t] by linarith

lemma cnt_le_1_unique: "cnt P t \<le> 1 \<Longrightarrow> r \<in> set t \<Longrightarrow> r' \<in> set t \<Longrightarrow> P r \<Longrightarrow> P r' \<Longrightarrow> r = r'"
proof (induction t)
  case (Cons a t)
  have "P a \<Longrightarrow> cnt P t = 0" using Cons.prems(1) by simp
  then have "P a \<Longrightarrow> x \<in> set t \<Longrightarrow> \<not> P x" for x by (auto simp: cnt_zero_iff)
  with Cons show ?case by (auto split: if_splits)
qed simp

lemma cnt_upd_key:
  assumes "distinct (map key t)" and "r \<in> set t" and "P r" and "\<And>x. P x \<Longrightarrow> key x = k"
  shows "cnt Q (upd P f t) + of_bool (Q r) = cnt Q t + of_bool (Q (f r))"
  using assms
proof (induction t)
  case (Cons a t)
  show ?case
  proof (cases "a = r")
    case True
    have "\<not> P x" if x: "x \<in> set t" for x
    proof
      assume "P x"
      then have "key x = key a" using Cons.prems(3,4) True by metis
      moreover have "key a \<notin> key ` set t" using Cons.prems(1) by simp
      ultimately show False using x by (metis imageI)
    qed
    then have "upd P f t = t" by (intro upd_none) blast
    then show ?thesis using True Cons.prems(3) by simp
  next
    case False
    then have r: "r \<in> set t" using Cons.prems(2) by simp
    then have "key a \<noteq> key r" using Cons.prems(1) by force
    then have "\<not> P a" using Cons.prems(3,4) by metis
    moreover have "cnt Q (upd P f t) + of_bool (Q r) = cnt Q t + of_bool (Q (f r))"
      by (rule Cons.IH) (use Cons.prems r in simp_all)
    ultimately show ?thesis by simp
  qed
qed simp

lemma sumw_upd_one:
  assumes "distinct (map key t)" and "r \<in> set t" and "P r" and "\<And>x. P x \<Longrightarrow> key x = k"
  shows "sumw Q h (upd P f t) = sumw Q h t - (if Q r then h r else 0) + (if Q (f r) then h (f r) else 0)"
  using assms
proof (induction t)
  case (Cons a t)
  show ?case
  proof (cases "a = r")
    case True
    have "\<not> P x" if x: "x \<in> set t" for x
    proof
      assume "P x"
      then have "key x = key a" using Cons.prems(3,4) True by metis
      moreover have "key a \<notin> key ` set t" using Cons.prems(1) by simp
      ultimately show False using x by (metis imageI)
    qed
    then have "upd P f t = t" by (intro upd_none) blast
    then show ?thesis using True Cons.prems(3) by simp
  next
    case False
    then have r: "r \<in> set t" using Cons.prems(2) by simp
    then have "key a \<noteq> key r" using Cons.prems(1) by force
    then have "\<not> P a" using Cons.prems(3,4) by metis
    moreover have "sumw Q h (upd P f t) = sumw Q h t - (if Q r then h r else 0) + (if Q (f r) then h (f r) else 0)"
      by (rule Cons.IH) (use Cons.prems r in simp_all)
    ultimately show ?thesis by simp
  qed
qed simp

lemma cnt_1_obtain: "cnt P t = 1 \<Longrightarrow> \<exists>r\<in>set t. P r"
  using cnt_pos_iff [of P t] by simp

lemma sumw_upd_key:
  assumes "distinct (map key t)" and "\<And>r. key (f r) = key r" and "r \<in> set t" and "key r = k"
    and "\<And>r. Q (f r) = Q r"
  shows "sumw Q g (upd (\<lambda>r. key r = k) f t) = sumw Q g t + (if Q r then g (f r) - g r else 0)"
  using assms
proof (induction t)
  case (Cons a t)
  show ?case
  proof (cases "key a = k")
    case True
    with Cons.prems have "a = r" by (auto simp: image_iff)
    moreover from True Cons.prems have "upd (\<lambda>r. key r = k) f t = t"
      by (intro upd_none) (auto simp: image_iff)
    ultimately show ?thesis using True Cons.prems by auto
  next
    case False
    with Cons show ?thesis by auto
  qed
qed simp

section \<open>Claiming one row per key\<close>

text \<open>
  The stock services loop over \<open>(key, argument)\<close> pairs; each turn is an \<open>UPDATE\<close>
  guarded by the row's current values and throws unless exactly one row changed.
\<close>

fun claim_rows ::
  "('r \<Rightarrow> 'k) \<Rightarrow> ('x \<Rightarrow> 'r \<Rightarrow> bool) \<Rightarrow> ('x \<Rightarrow> 'r \<Rightarrow> 'r) \<Rightarrow> error \<Rightarrow> ('k \<times> 'x) list \<Rightarrow> 'r list \<Rightarrow> 'r list res"
where
  "claim_rows key g f e [] t = Inr t"
| "claim_rows key g f e ((k, x) # kxs) t =
     require (cnt (\<lambda>r. key r = k \<and> g x r) t = 1) e
       (claim_rows key g f e kxs (upd (\<lambda>r. key r = k \<and> g x r) (f x) t))"

definition apply_claims :: "('r \<Rightarrow> 'k) \<Rightarrow> ('x \<Rightarrow> 'r \<Rightarrow> 'r) \<Rightarrow> ('k \<times> 'x) list \<Rightarrow> 'r list \<Rightarrow> 'r list" where
  "apply_claims key f kxs t =
     map (\<lambda>r. case map_of kxs (key r) of None \<Rightarrow> r | Some x \<Rightarrow> f x r) t"

lemma apply_claims_Cons:
  assumes "distinct (map key t)" and "\<And>x r. key (f x r) = key r" and "k \<notin> fst ` set kxs"
    and "r0 \<in> set t" and "key r0 = k" and "g x r0"
  shows "apply_claims key f kxs (upd (\<lambda>r. key r = k \<and> g x r) (f x) t) = apply_claims key f ((k, x) # kxs) t"
proof -
  have "map_of kxs k = None" using assms(3) by (simp add: map_of_eq_None_iff)
  moreover have "\<And>r. r \<in> set t \<Longrightarrow> key r = k \<Longrightarrow> g x r"
    using assms distinct_key_eq by metis
  ultimately show ?thesis
    using assms(2) by (auto simp: apply_claims_def upd_def)
qed

lemma claim_rows_iff:
  assumes "distinct (map key t)" and "\<And>x r. key (f x r) = key r" and "distinct (map fst kxs)"
  shows "claim_rows key g f e kxs t = Inr t' \<longleftrightarrow>
    (\<forall>(k, x) \<in> set kxs. \<exists>r\<in>set t. key r = k \<and> g x r) \<and> t' = apply_claims key f kxs t"
  using assms(1,3)
proof (induction kxs arbitrary: t)
  case Nil
  then show ?case by (auto simp: apply_claims_def)
next
  case (Cons kx kxs)
  obtain k x where kx: "kx = (k, x)" by (cases kx)
  let ?t = "upd (\<lambda>r. key r = k \<and> g x r) (f x) t"
  have keys: "map key ?t = map key t" by (rule map_key_upd) (rule assms(2))
  have k: "k \<notin> fst ` set kxs" and dist: "distinct (map fst kxs)" using Cons.prems kx by auto
  have other: "(\<exists>r\<in>set ?t. key r = k' \<and> g x' r) \<longleftrightarrow> (\<exists>r\<in>set t. key r = k' \<and> g x' r)"
    if "(k', x') \<in> set kxs" for k' x'
  proof -
    have "k' \<noteq> k" using that k by force
    then show ?thesis using assms(2) by (auto simp: set_upd)
  qed
  show ?case
  proof (cases "\<exists>r\<in>set t. key r = k \<and> g x r")
    case True
    then obtain r0 where r0: "r0 \<in> set t" "key r0 = k" "g x r0" by blast
    have "cnt (\<lambda>r. key r = k \<and> g x r) t = 1"
      using True cnt_key_1_iff [OF Cons.prems(1)] by blast
    moreover have "distinct (map key ?t)" using keys Cons.prems(1) by simp
    moreover have "apply_claims key f kxs ?t = apply_claims key f ((k, x) # kxs) t"
      using apply_claims_Cons [where f = f and g = g and key = key, OF Cons.prems(1) assms(2) k r0] .
    moreover have "(\<forall>(k', x')\<in>set kxs. \<exists>r\<in>set ?t. key r = k' \<and> g x' r)
        \<longleftrightarrow> (\<forall>(k', x')\<in>set kxs. \<exists>r\<in>set t. key r = k' \<and> g x' r)"
      using other by fast
    ultimately show ?thesis
      using Cons.IH [of ?t] dist True kx by simp
  next
    case False
    then have "cnt (\<lambda>r. key r = k \<and> g x r) t \<noteq> 1"
      using cnt_key_1_iff [OF Cons.prems(1)] by blast
    with False show ?thesis using kx by auto
  qed
qed

lemma claim_rows_Inl: "claim_rows key g f e kxs t = Inl e' \<Longrightarrow> e' = e"
  by (induction key g f e kxs t rule: claim_rows.induct) (auto simp: require_Inl_iff)

lemma map_key_apply_claims: "(\<And>x r. key (f x r) = key r) \<Longrightarrow> map key (apply_claims key f kxs t) = map key t"
  by (auto simp: apply_claims_def split: option.splits)

end
