(* ===== verification/Fixed_Point.thy ===== *)
theory Fixed_Point
  imports Complex_Main Shop_Prelude
begin

text \<open>
  The fixed-point values of the schema and the decimal arithmetic of the services.
  A \<open>Decimal(18,2)\<close> column is an integer number of hundredths (\<open>money\<close>), a
  \<open>Decimal(18,4)\<close> column an integer number of ten-thousandths (\<open>qty\<close>); sums,
  differences and products of column values are exact, and \<open>toDecimalPlaces\<close> rounds
  half away from zero (decimal.js's default \<open>ROUND_HALF_UP\<close>). Values a request carries
  before they are rounded to a column's scale are rationals. decimal.js keeps 20 significant
  digits in a result; the model is exact, so the two agree while results fit in 20 digits.
\<close>

type_synonym money = int
type_synonym qty = int

section \<open>Rounding half away from zero\<close>

text \<open>\<open>round_div a b\<close> is \<open>a.div(b)\<close> rounded to an integer, for \<open>b > 0\<close>.\<close>

definition round_div :: "int \<Rightarrow> int \<Rightarrow> int" where
  "round_div a b = (if 0 \<le> a then (2 * a + b) div (2 * b) else - ((2 * (- a) + b) div (2 * b)))"

definition round_rat :: "rat \<Rightarrow> int" where
  "round_rat x = (if 0 \<le> x then \<lfloor>x + 1 / 2\<rfloor> else - \<lfloor>- x + 1 / 2\<rfloor>)"

text \<open>\<open>to_dp n x\<close> is \<open>x.toDecimalPlaces(n)\<close>, as a number of units of \<open>10\<^sup>-\<^sup>n\<close>.\<close>

definition to_dp :: "nat \<Rightarrow> rat \<Rightarrow> int" where
  "to_dp n x = round_rat (x * 10 ^ n)"

lemma round_div_half:
  assumes "0 < b"
  shows "2 * b * round_div a b \<le> 2 * a + b" and "2 * a - b \<le> 2 * b * round_div a b"
proof -
  have pos: "2 * b * ((2 * x + b) div (2 * b)) \<le> 2 * x + b"
    and pos': "2 * x - b < 2 * b * ((2 * x + b) div (2 * b))" if "0 \<le> x" for x :: int
  proof -
    have "2 * x + b = 2 * b * ((2 * x + b) div (2 * b)) + (2 * x + b) mod (2 * b)" by simp
    moreover have "0 \<le> (2 * x + b) mod (2 * b)" "(2 * x + b) mod (2 * b) < 2 * b"
      using assms by simp_all
    ultimately show "2 * b * ((2 * x + b) div (2 * b)) \<le> 2 * x + b"
      and "2 * x - b < 2 * b * ((2 * x + b) div (2 * b))" by linarith+
  qed
  show "2 * b * round_div a b \<le> 2 * a + b"
    using pos [of a] pos' [of "- a"] by (cases "0 \<le> a") (auto simp: round_div_def)
  show "2 * a - b \<le> 2 * b * round_div a b"
    using pos [of "- a"] pos' [of a] by (cases "0 \<le> a") (auto simp: round_div_def)
qed

lemma round_div_0 [simp]: "0 < b \<Longrightarrow> round_div 0 b = 0"
  by (simp add: round_div_def)

lemma round_div_nonneg: "0 < b \<Longrightarrow> 0 \<le> a \<Longrightarrow> 0 \<le> round_div a b"
  by (simp add: round_div_def pos_imp_zdiv_nonneg_iff)

lemma round_div_mono_nonneg: "0 < b \<Longrightarrow> 0 \<le> a \<Longrightarrow> a \<le> a' \<Longrightarrow> round_div a b \<le> round_div a' b"
  by (simp add: round_div_def zdiv_mono1)

lemma round_div_mult: "0 < b \<Longrightarrow> round_div (b * k) b = k"
proof -
  assume b: "0 < b"
  have "(2 * (b * k) + b) div (2 * b) = k" if "0 \<le> k" for k
  proof -
    have "2 * (b * k) + b = 2 * b * k + b" by simp
    then show ?thesis using b by (intro int_div_pos_eq) auto
  qed
  from this [of k] this [of "- k"] b show ?thesis
    by (auto simp: round_div_def zero_le_mult_iff)
qed

text \<open>A quotient between two integers rounds to a value between them.\<close>

lemma round_div_between:
  assumes "0 < b" and "0 \<le> lo" and "b * lo \<le> a" and "a \<le> b * hi"
  shows "lo \<le> round_div a b" and "round_div a b \<le> hi"
proof -
  have a: "0 \<le> a" using assms by (meson mult_nonneg_nonneg order.trans less_imp_le)
  show "lo \<le> round_div a b"
    using round_div_mono_nonneg [of b "b * lo" a] round_div_mult [of b lo] assms by simp
  show "round_div a b \<le> hi"
    using round_div_mono_nonneg [OF assms(1) a assms(4)] round_div_mult [of b hi] assms(1) by simp
qed

lemma round_rat_of_int [simp]: "round_rat (of_int k) = k"
proof -
  have "\<lfloor>rat_of_int m + 1 / 2\<rfloor> = m" for m by (simp add: floor_unique)
  from this [of k] this [of "- k"] show ?thesis by (auto simp: round_rat_def)
qed

lemma to_dp_exact: "to_dp n (of_int k / 10 ^ n) = k"
  by (simp add: to_dp_def)

section \<open>Costs (inventory-costing.ts)\<close>

text \<open>
  \<open>calculateInventoryValue\<close>: quantity in ten-thousandths times unit cost in hundredths is a
  count of millionths, rounded to hundredths.
\<close>

definition calculateInventoryValue :: "qty \<Rightarrow> money \<Rightarrow> money" where
  "calculateInventoryValue quantity unitCost = round_div (quantity * unitCost) 10000"

definition calculateWeightedAverageCost :: "qty \<Rightarrow> money \<Rightarrow> qty \<Rightarrow> money \<Rightarrow> money" where
  "calculateWeightedAverageCost stock averageUnitCost importedQuantity importedUnitCost =
     (let quantityAfter = stock + importedQuantity in
      if quantityAfter = 0 then 0
      else round_div (stock * averageUnitCost + importedQuantity * importedUnitCost) quantityAfter)"

lemma calculateInventoryValue_nonneg:
  "0 \<le> q \<Longrightarrow> 0 \<le> c \<Longrightarrow> 0 \<le> calculateInventoryValue q c"
  by (simp add: calculateInventoryValue_def round_div_nonneg)

lemma weighted_average_between_lemma:
  assumes "0 \<le> stock" and "0 < q" and "0 \<le> avg" and "0 \<le> c"
  shows "min avg c \<le> calculateWeightedAverageCost stock avg q c"
    and "calculateWeightedAverageCost stock avg q c \<le> max avg c"
proof -
  let ?s = "stock + q"
  have s: "0 < ?s" using assms by simp
  have "stock * min avg c \<le> stock * avg" "q * min avg c \<le> q * c"
    using assms by (simp_all add: mult_left_mono)
  then have lo: "?s * min avg c \<le> stock * avg + q * c" by (simp add: distrib_right)
  have "stock * avg \<le> stock * max avg c" "q * c \<le> q * max avg c"
    using assms by (simp_all add: mult_left_mono)
  then have hi: "stock * avg + q * c \<le> ?s * max avg c" by (simp add: distrib_right)
  have m: "0 \<le> min avg c" using assms by simp
  show "min avg c \<le> calculateWeightedAverageCost stock avg q c"
    and "calculateWeightedAverageCost stock avg q c \<le> max avg c"
    using round_div_between [OF s m lo hi] s by (simp_all add: calculateWeightedAverageCost_def)
qed

text \<open>The moving average cost of an inventory item after an import lies between the average
  before it and the price of the imported batch, whatever the rounding to hundredths does.\<close>

theorem weighted_average_between:
  assumes "0 \<le> stock" and "0 < q" and "0 \<le> avg" and "0 \<le> c"
  shows "min avg c \<le> calculateWeightedAverageCost stock avg q c
    \<and> calculateWeightedAverageCost stock avg q c \<le> max avg c"
  using weighted_average_between_lemma [OF assms] by simp

theorem weighted_average_between_witness:
  "(100::int) \<le> calculateWeightedAverageCost 30000 100 10000 251
    \<and> calculateWeightedAverageCost 30000 100 10000 251 \<le> 251
    \<and> calculateWeightedAverageCost 30000 100 10000 251 = 138"
  using weighted_average_between [of 30000 10000 100 251]
  by (simp add: calculateWeightedAverageCost_def round_div_def)

end
