(* ===== verification/Schema.thy ===== *)
theory Schema
  imports Fixed_Point
begin

text \<open>
  The part of \<open>prisma/schema.prisma\<close> the modelled services read and write: one
  \<^theory_text>\<open>record\<close> per table with the columns they use, the enums with the schema's values,
  and the database as one record of tables. UUIDs are natural numbers drawn from a counter
  (\<open>nextId\<close>), so every generated id is new; the services compare ids for equality and sort
  by them. Instants are milliseconds (\<open>int\<close>). A soft-deleted row has \<open>deletedAt\<close> set.
  \<open>keys_ok\<close> collects the primary keys and unique indexes the database enforces.
\<close>

type_synonym id = nat
type_synonym time = int

section \<open>Enums\<close>

datatype TableStatus = Table_EMPTY | Table_OCCUPIED | Table_RESERVED
datatype SessionStatus = Session_ACTIVE | Session_COMPLETED | Session_CANCELLED
datatype ServeStatus = Serve_PENDING | Serve_COOKING | Serve_READY | Serve_SERVED | Serve_CANCELLED
datatype PaymentMethod = Method_CASH | Method_CARD | Method_TRANSFER
datatype PaymentStatus =
  Pay_UNPAID | Pay_PAID | Pay_VOIDED | Pay_PARTIALLY_REFUNDED | Pay_REFUNDED
datatype PaymentAttemptStatus =
  Attempt_PENDING | Attempt_SUCCEEDED | Attempt_FAILED | Attempt_EXPIRED | Attempt_REQUIRES_REVIEW
datatype PaymentProvider = VNPAY | MOMO | PAYOS
datatype PaymentRefundType = Refund_FULL | Refund_PARTIAL
datatype PaymentRefundStatus =
  Refund_PENDING | Refund_PROCESSING | Refund_SUCCEEDED | Refund_FAILED | Refund_REJECTED | Refund_REQUIRES_REVIEW
datatype PaymentProviderRequestType = Request_QUERY | Request_REFUND
datatype PaymentProviderRequestStatus = Request_PENDING | Request_SUCCEEDED | Request_FAILED
datatype PaymentIncidentType =
  STALE_ATTEMPT | PAYMENT_STATE_CONFLICT | PROVIDER_PAYMENT_MISMATCH | REFUND_STATE_MISMATCH | PROVIDER_UNAVAILABLE
datatype PaymentIncidentStatus = Incident_OPEN | Incident_RESOLVED | Incident_IGNORED
datatype InventoryTxType = Tx_IMPORT | Tx_EXPORT
datatype DocumentStatus = Doc_DRAFT | Doc_POSTED | Doc_CANCELLED
datatype FundType = Fund_CASH | Fund_BANK | Fund_OTHER
datatype CashFlowType = Flow_INCOME | Flow_EXPENSE
datatype ShiftStatus = Shift_OPEN | Shift_CLOSED
datatype RequestStatus = Req_PENDING | Req_APPROVED | Req_REJECTED | Req_CANCELLED
datatype SettlementStatus = Settle_NOT_REQUIRED | Settle_PENDING | Settle_SETTLED
datatype DiscountType = Discount_PERCENTAGE | Discount_FIXED
datatype PrintJobType = Job_RECEIPT | Job_KITCHEN_TICKET | Job_PRECHECK
datatype PrintJobStatus =
  Print_PENDING | Print_PROCESSING | Print_REQUIRES_REVIEW | Print_PRINTED | Print_FAILED | Print_CANCELLED
datatype OutboxEventStatus =
  Out_PENDING | Out_ENQUEUED | Out_PROCESSING | Out_PUBLISHED | Out_DEAD_LETTER

section \<open>Staff, tables and orders\<close>

record employee =
  e_id :: id
  e_fullName :: string
  e_isActive :: bool
  e_deletedAt :: "time option"

record diningTable =
  t_id :: id
  t_status :: TableStatus
  t_deletedAt :: "time option"

text \<open>\<open>s_online\<close> is the online order request that refers to the session, if any.\<close>

record orderSession =
  s_id :: id
  s_status :: SessionStatus
  s_tableId :: "id option"
  s_employeeId :: id
  s_shiftId :: "id option"
  s_guestCount :: "int option"
  s_online :: "id option"

record selectedOption =
  so_id :: id
  so_groupName :: string
  so_name :: string
  so_priceDelta :: money

record orderItem =
  o_id :: id
  o_sessionId :: id
  o_menuItemId :: id
  o_quantity :: int
  o_price :: money
  o_note :: "string option"
  o_options :: "selectedOption list"
  o_recipeAt :: "time option"
  o_status :: ServeStatus
  o_isPaid :: bool
  o_invoiceId :: "id option"
  o_readyAt :: "time option"

text \<open>\<open>OrderRemake\<close>: the replacement line made for a handed-off line.\<close>

record orderRemake =
  m_id :: id
  m_originalId :: id
  m_replacementId :: id
  m_requestedById :: id
  m_reason :: string
  m_key :: string

record reservationRow =
  b_id :: id
  b_arrived :: bool
  b_pending :: bool
  b_startsAt :: time
  b_tableId :: id
  b_guestCount :: "int option"
  b_sessionId :: "id option"
  b_checkedInAt :: "time option"

section \<open>Inventory\<close>

record namedRow =
  n_id :: id
  n_name :: string
  n_deletedAt :: "time option"

record inventoryItem =
  i_id :: id
  i_name :: string
  i_stock :: qty
  i_reserved :: qty
  i_avgCost :: money
  i_reorder :: qty
  i_categoryId :: id
  i_unitId :: id
  i_deletedAt :: "time option"

text \<open>\<open>MenuItemIngredient\<close>: the current recipe of a menu item.\<close>

record menuIngredient =
  g_menuItemId :: id
  g_inventoryItemId :: id
  g_quantity :: qty

text \<open>\<open>OrderItemRecipeIngredient\<close>: the recipe copied to an order line.\<close>

record recipeRow =
  r_orderItemId :: id
  r_inventoryItemId :: id
  r_quantity :: qty

text \<open>\<open>InventoryReservation\<close>: stock held for an order line.\<close>

record reservation =
  h_orderItemId :: id
  h_inventoryItemId :: id
  h_quantity :: qty

text \<open>\<open>OrderItemIngredientSnapshot\<close>: what a line consumed when it was cooked.\<close>

record snapshotRow =
  n_orderItemId :: id
  n_inventoryItemId :: id
  n_perItem :: qty
  n_total :: qty
  n_unitCost :: money
  n_totalCost :: money

record inventoryTx =
  x_id :: id
  x_inventoryItemId :: id
  x_orderItemId :: "id option"
  x_documentLineId :: "id option"
  x_type :: InventoryTxType
  x_quantity :: qty
  x_unitPrice :: money
  x_total :: money
  x_date :: time

record wasteRow =
  w_id :: id
  w_orderItemId :: id
  w_inventoryItemId :: id
  w_quantity :: qty
  w_employeeId :: id
  w_reason :: string

record receiptLine =
  rl_id :: id
  rl_inventoryItemId :: id
  rl_quantity :: qty
  rl_unitPrice :: money
  rl_total :: money

record purchaseReceipt =
  pr_id :: id
  pr_status :: DocumentStatus
  pr_supplierId :: id
  pr_createdById :: id
  pr_receivedAt :: time
  pr_updatedAt :: time
  pr_total :: money
  pr_lines :: "receiptLine list"

record stocktakeLine =
  sl_id :: id
  sl_inventoryItemId :: id
  sl_expected :: qty
  sl_counted :: "qty option"
  sl_difference :: "qty option"

record stocktakeRow =
  st_id :: id
  st_status :: DocumentStatus
  st_createdById :: id
  st_lines :: "stocktakeLine list"

section \<open>Kitchen and printing\<close>

record kitchenStation =
  ks_id :: id
  ks_isActive :: bool
  ks_deletedAt :: "time option"
  ks_prepSlaSeconds :: int
  ks_printDeviceId :: "id option"

record kitchenTicket =
  kt_id :: id
  kt_stationId :: id
  kt_sessionId :: id
  kt_dueAt :: time
  kt_availableAt :: "time option"

record kitchenTicketItem =
  ki_id :: id
  ki_ticketId :: id
  ki_orderItemId :: id
  ki_quantity :: int

record printDevice =
  pd_id :: id
  pd_isActive :: bool
  pd_deletedAt :: "time option"

text \<open>
  A kitchen print payload is the list of lines on the paper; \<open>None\<close> is a JSON value that
  \<open>isKitchenOrderPayload\<close> rejects. Deduplication keys are the three shapes the service builds.
\<close>

record printLine =
  pl_orderItemId :: id
  pl_quantity :: int

datatype dedupKey =
    KitchenTicketKey id
  | KitchenSplitKey id id
  | KitchenCancellationKey id "id list"

record printJob =
  j_id :: id
  j_type :: PrintJobType
  j_status :: PrintJobStatus
  j_ticketId :: "id option"
  j_invoiceId :: "id option"
  j_deviceId :: "id option"
  j_requestedById :: "id option"
  j_availableAt :: time
  j_failedAt :: "time option"
  j_dedup :: "dedupKey option"
  j_payload :: "printLine list option"

section \<open>Menu, promotions and invoices\<close>

record optionIngredient =
  og_inventoryItemId :: id
  og_quantity :: qty

record menuOption =
  mo_id :: id
  mo_name :: string
  mo_priceDelta :: money
  mo_ingredients :: "optionIngredient list"

record optionGroup =
  gr_name :: string
  gr_minSelected :: nat
  gr_maxSelected :: nat
  gr_options :: "menuOption list"

record menuItem =
  mi_id :: id
  mi_price :: money
  mi_isAvailable :: bool
  mi_deletedAt :: "time option"
  mi_categoryId :: id
  mi_stationId :: "id option"
  mi_groups :: "optionGroup list"

record promotion =
  p_id :: id
  p_name :: string
  p_show :: bool
  p_description :: "string option"
  p_updatedAt :: time
  p_discountType :: DiscountType
  p_discountValue :: int
  p_maxDiscount :: "money option"
  p_startDate :: time
  p_endDate :: time
  p_deletedAt :: "time option"

record invoice =
  v_id :: id
  v_number :: string
  v_subTotal :: money
  v_discount :: money
  v_tax :: money
  v_taxRate :: int
  v_total :: money
  v_tendered :: "money option"
  v_change :: "money option"
  v_method :: PaymentMethod
  v_status :: PaymentStatus
  v_sessionId :: id
  v_employeeId :: id
  v_shiftId :: "id option"
  v_promotionId :: "id option"
  v_snapshot :: bool
  v_createdAt :: time
  v_codeVersion :: "int option"
  v_codeIssuedAt :: "time option"

record paymentAttempt =
  a_id :: id
  a_provider :: PaymentProvider
  a_status :: PaymentAttemptStatus
  a_amount :: money
  a_currency :: string
  a_merchantReference :: string
  a_idempotencyKey :: string
  a_requestHash :: string
  a_paymentUrl :: "string option"
  a_linkId :: "string option"
  a_transactionNo :: "string option"
  a_failureCode :: "string option"
  a_closeSession :: bool
  a_createdAt :: time
  a_expiresAt :: time
  a_completedAt :: "time option"
  a_nextReconcileAt :: "time option"
  a_reconciliations :: nat
  a_lockedAt :: "time option"
  a_invoiceId :: id
  a_createdById :: id
  a_shiftId :: id

record paymentRefund =
  pf_id :: id
  pf_type :: PaymentRefundType
  pf_status :: PaymentRefundStatus
  pf_amount :: money
  pf_idempotencyKey :: string
  pf_requestHash :: string
  pf_transactionNo :: "string option"
  pf_requestedAt :: time
  pf_completedAt :: "time option"
  pf_lockedAt :: "time option"
  pf_attemptId :: id
  pf_requestedById :: id

text \<open>\<open>processingCode\<close> is null until the notification has been dealt with.\<close>

record webhookEvent =
  wh_id :: id
  wh_provider :: PaymentProvider
  wh_payloadHash :: string
  wh_processingCode :: "string option"
  wh_attemptId :: "id option"

record providerRequest =
  rq_id :: id
  rq_type :: PaymentProviderRequestType
  rq_status :: PaymentProviderRequestStatus
  rq_attemptId :: id
  rq_refundId :: "id option"

text \<open>The deduplication keys, strings \<open>kind:id\<close> with five kinds of prefix.\<close>

datatype incidentKey =
    Attempt_incident PaymentIncidentType id
  | Refund_interrupted id
  | Refund_state id
  | Refund_provider id
  | Refund_invoice_state id

record incident =
  in_id :: id
  in_type :: PaymentIncidentType
  in_status :: PaymentIncidentStatus
  in_key :: incidentKey
  in_attemptId :: id
  in_refundId :: "id option"
  in_resolvedById :: "id option"

section \<open>Cash\<close>

record fund =
  f_id :: id
  f_name :: string
  f_type :: FundType
  f_balance :: money
  f_deletedAt :: "time option"

record cashierShift =
  c_id :: id
  c_status :: ShiftStatus
  c_employeeId :: id
  c_fundId :: "id option"
  c_startingCash :: money
  c_expectedStartingCash :: money
  c_openingDifference :: money
  c_reportedEndingCash :: "money option"
  c_actualEndingCash :: "money option"
  c_closingNote :: "string option"
  c_closedAt :: "time option"

record cashTx =
  k_id :: id
  k_type :: CashFlowType
  k_amount :: money
  k_fundId :: id
  k_employeeId :: id
  k_shiftId :: "id option"
  k_invoiceId :: "id option"

record expenseRequest =
  q_id :: id
  q_status :: RequestStatus
  q_amount :: money
  q_description :: string
  q_requestedById :: id
  q_shiftId :: id
  q_fundId :: id
  q_resolvedById :: "id option"
  q_cashTxId :: "id option"

record cashHandover =
  d_id :: id
  d_status :: RequestStatus
  d_shiftId :: id
  d_sourceFundId :: id
  d_destinationFundId :: id
  d_requestedById :: id
  d_resolvedById :: "id option"
  d_expectedCash :: money
  d_countedCash :: money
  d_variance :: money
  d_retained :: money
  d_transfer :: money
  d_settlement :: "SettlementStatus option"
  d_settlementDueAt :: "time option"
  d_settledById :: "id option"
  d_bankReference :: "string option"
  d_evidence :: "string option"
  d_sourceTxId :: "id option"
  d_destinationTxId :: "id option"
  d_varianceTxId :: "id option"

record cashRefund =
  y_id :: id
  y_invoiceId :: id
  y_amount :: money
  y_reason :: string
  y_requestedById :: id
  y_key :: string
  y_cashTxId :: id

record bankImport =
  bi_id :: id
  bi_fundId :: id

section \<open>Audit log, outbox, settings\<close>

record actionLog =
  l_employeeId :: id
  l_actionType :: string
  l_subject :: id

record outboxEvent =
  z_id :: id
  z_topic :: string
  z_eventName :: string
  z_aggregateId :: id
  z_tables :: "id list"
  z_status :: OutboxEventStatus
  z_attempts :: nat
  z_availableAt :: time
  z_lockedAt :: "time option"
  z_lockedBy :: "id option"
  z_publishedAt :: "time option"

text \<open>A numeric setting: the key and the JSON number stored for it.\<close>

record numberSetting =
  g_key :: string
  g_value :: rat

section \<open>The database\<close>

record db =
  nextId :: nat
  employees :: "employee list"
  diningTables :: "diningTable list"
  orderSessions :: "orderSession list"
  orderItems :: "orderItem list"
  orderRemakes :: "orderRemake list"
  tableReservations :: "reservationRow list"
  units :: "namedRow list"
  categories :: "namedRow list"
  suppliers :: "namedRow list"
  menuCategories :: "namedRow list"
  inventoryItems :: "inventoryItem list"
  menuIngredients :: "menuIngredient list"
  recipeRows :: "recipeRow list"
  reservations :: "reservation list"
  snapshots :: "snapshotRow list"
  inventoryTxs :: "inventoryTx list"
  wastes :: "wasteRow list"
  purchaseReceipts :: "purchaseReceipt list"
  stocktakes :: "stocktakeRow list"
  kitchenStations :: "kitchenStation list"
  kitchenTickets :: "kitchenTicket list"
  kitchenTicketItems :: "kitchenTicketItem list"
  printDevices :: "printDevice list"
  printJobs :: "printJob list"
  menuItems :: "menuItem list"
  promotions :: "promotion list"
  invoices :: "invoice list"
  paymentAttempts :: "paymentAttempt list"
  paymentRefunds :: "paymentRefund list"
  webhookEvents :: "webhookEvent list"
  providerRequests :: "providerRequest list"
  incidents :: "incident list"
  funds :: "fund list"
  cashierShifts :: "cashierShift list"
  cashTxs :: "cashTx list"
  expenseRequests :: "expenseRequest list"
  cashHandovers :: "cashHandover list"
  cashRefunds :: "cashRefund list"
  bankImports :: "bankImport list"
  settings :: "numberSetting list"
  actionLogs :: "actionLog list"
  outbox :: "outboxEvent list"

end
