(* ===== verification/Db_Core.thy ===== *)
theory Db_Core
  imports Schema
begin

text \<open>
  What every service does with the database: draw a new id, append to the audit log and to
  the transactional outbox, check that the acting employee is active; and the keys the
  database itself enforces (\<open>keys_ok\<close>). A service call is a function
  \<open>db \<Rightarrow> error + db\<close>; an exception leaves the database as it was, because
  \<open>runSerializableTransaction\<close> rolls back.
\<close>

definition addLog :: "id \<Rightarrow> string \<Rightarrow> id \<Rightarrow> db \<Rightarrow> db" where
  "addLog emp act subj d =
     d\<lparr>actionLogs := actionLogs d @ [\<lparr>l_employeeId = emp, l_actionType = act, l_subject = subj\<rparr>]\<rparr>"

text \<open>\<open>OutboxService.enqueue\<close>: a PENDING event, available at once.\<close>

definition enqueue :: "string \<Rightarrow> string \<Rightarrow> id \<Rightarrow> id list \<Rightarrow> time \<Rightarrow> db \<Rightarrow> db" where
  "enqueue topic eventName aggregateId tables now d =
     d\<lparr>nextId := Suc (nextId d),
       outbox := outbox d @ [\<lparr>z_id = nextId d, z_topic = topic, z_eventName = eventName,
         z_aggregateId = aggregateId, z_tables = tables, z_status = Out_PENDING, z_attempts = 0,
         z_availableAt = now, z_lockedAt = None, z_lockedBy = None, z_publishedAt = None\<rparr>]\<rparr>"

text \<open>\<open>createEventBase\<close>: the affected tables, without nulls and duplicates, in first-seen order.\<close>

definition affectedTableIds :: "id option list \<Rightarrow> id list" where
  "affectedTableIds ts = rev (remdups (rev (concat (map (\<lambda>t. case t of None \<Rightarrow> [] | Some i \<Rightarrow> [i]) ts))))"

definition activeEmployee :: "id \<Rightarrow> db \<Rightarrow> bool" where
  "activeEmployee emp d =
     (\<exists>e\<in>set (employees d). e_id e = emp \<and> e_isActive e \<and> e_deletedAt e = None)"

definition assertActiveEmployee :: "id \<Rightarrow> db \<Rightarrow> db res \<Rightarrow> db res" where
  "assertActiveEmployee emp d k = require (activeEmployee emp d) (Unauthorized ''employee'') k"

lemma assertActiveEmployee_Inr_iff [simp]:
  "assertActiveEmployee emp d k = Inr d' \<longleftrightarrow> activeEmployee emp d \<and> k = Inr d'"
  by (simp add: assertActiveEmployee_def)

section \<open>Keys the database enforces\<close>

definition one_open_shift :: "db \<Rightarrow> bool" where
  "one_open_shift d =
     (distinct (map c_employeeId (filter (\<lambda>c. c_status c = Shift_OPEN) (cashierShifts d))) \<and>
      distinct (map c_fundId (filter (\<lambda>c. c_status c = Shift_OPEN \<and> c_fundId c \<noteq> None) (cashierShifts d))))"

definition stock_keys :: "db \<Rightarrow> bool" where
  "stock_keys d =
     (distinct (map i_id (inventoryItems d)) \<and>
      distinct (map (\<lambda>g. (g_menuItemId g, g_inventoryItemId g)) (menuIngredients d)) \<and>
      distinct (map (\<lambda>r. (r_orderItemId r, r_inventoryItemId r)) (recipeRows d)) \<and>
      distinct (map (\<lambda>h. (h_orderItemId h, h_inventoryItemId h)) (reservations d)))"

definition keys_ok :: "db \<Rightarrow> bool" where
  "keys_ok d =
     (distinct (map e_id (employees d)) \<and>
      distinct (map t_id (diningTables d)) \<and>
      distinct (map s_id (orderSessions d)) \<and>
      distinct (map o_id (orderItems d)) \<and>
      distinct (map m_replacementId (orderRemakes d)) \<and>
      stock_keys d \<and>
      distinct (map v_id (invoices d)) \<and>
      distinct (map a_id (paymentAttempts d)) \<and>
      distinct (map pf_id (paymentRefunds d)) \<and>
      distinct (map f_id (funds d)) \<and>
      distinct (map c_id (cashierShifts d)) \<and>
      distinct (map k_id (cashTxs d)) \<and>
      distinct (map d_id (cashHandovers d)) \<and>
      distinct (map q_id (expenseRequests d)) \<and>
      distinct (map pr_id (purchaseReceipts d)) \<and>
      distinct (map st_id (stocktakes d)) \<and>
      distinct (map z_id (outbox d)) \<and>
      one_open_shift d)"

lemma stock_keysD:
  assumes "stock_keys d"
  shows "distinct (map i_id (inventoryItems d))"
    "distinct (map (\<lambda>g. (g_menuItemId g, g_inventoryItemId g)) (menuIngredients d))"
    "distinct (map (\<lambda>r. (r_orderItemId r, r_inventoryItemId r)) (recipeRows d))"
    "distinct (map (\<lambda>h. (h_orderItemId h, h_inventoryItemId h)) (reservations d))"
  using assms by (simp_all add: stock_keys_def)

lemma keys_okD:
  assumes "keys_ok d"
  shows "distinct (map t_id (diningTables d))" "distinct (map s_id (orderSessions d))"
    "distinct (map o_id (orderItems d))" "stock_keys d"
    "distinct (map v_id (invoices d))" "distinct (map f_id (funds d))"
    "distinct (map c_id (cashierShifts d))" "distinct (map k_id (cashTxs d))"
    "distinct (map d_id (cashHandovers d))" "distinct (map pr_id (purchaseReceipts d))"
    "distinct (map st_id (stocktakes d))" "one_open_shift d"
    "distinct (map m_replacementId (orderRemakes d))" "distinct (map z_id (outbox d))"
    "distinct (map q_id (expenseRequests d))" "distinct (map a_id (paymentAttempts d))"
    "distinct (map pf_id (paymentRefunds d))"
  using assms by (simp_all add: keys_ok_def)

lemma stock_keys_cong:
  "inventoryItems d' = inventoryItems d \<Longrightarrow> menuIngredients d' = menuIngredients d \<Longrightarrow>
   recipeRows d' = recipeRows d \<Longrightarrow> reservations d' = reservations d \<Longrightarrow> stock_keys d' = stock_keys d"
  by (simp add: stock_keys_def)

section \<open>The empty database\<close>

definition empty_db :: db where
  "empty_db = \<lparr>nextId = 1000, employees = [], diningTables = [], orderSessions = [], orderItems = [],
     orderRemakes = [], tableReservations = [], units = [], categories = [], suppliers = [],
     menuCategories = [], inventoryItems = [], menuIngredients = [], recipeRows = [],
     reservations = [], snapshots = [], inventoryTxs = [], wastes = [], purchaseReceipts = [],
     stocktakes = [], kitchenStations = [], kitchenTickets = [], kitchenTicketItems = [],
     printDevices = [], printJobs = [], menuItems = [], promotions = [], invoices = [],
     paymentAttempts = [], paymentRefunds = [], webhookEvents = [],
     providerRequests = [], incidents = [], funds = [], cashierShifts = [], cashTxs = [],
     expenseRequests = [], cashHandovers = [], cashRefunds = [], bankImports = [], settings = [],
     actionLogs = [], outbox = []\<rparr>"

section \<open>Frame rules of the audit log and the outbox\<close>

lemma addLog_sel [simp]:
  "inventoryItems (addLog e a s d) = inventoryItems d" "reservations (addLog e a s d) = reservations d"
  "inventoryTxs (addLog e a s d) = inventoryTxs d" "orderItems (addLog e a s d) = orderItems d"
  "orderSessions (addLog e a s d) = orderSessions d" "diningTables (addLog e a s d) = diningTables d"
  "invoices (addLog e a s d) = invoices d" "funds (addLog e a s d) = funds d"
  "cashTxs (addLog e a s d) = cashTxs d" "cashierShifts (addLog e a s d) = cashierShifts d"
  "cashRefunds (addLog e a s d) = cashRefunds d" "cashHandovers (addLog e a s d) = cashHandovers d"
  "orderRemakes (addLog e a s d) = orderRemakes d" "nextId (addLog e a s d) = nextId d"
  "recipeRows (addLog e a s d) = recipeRows d" "outbox (addLog e a s d) = outbox d"
  "menuIngredients (addLog e a s d) = menuIngredients d" "snapshots (addLog e a s d) = snapshots d"
  "paymentRefunds (addLog e a s d) = paymentRefunds d" "paymentAttempts (addLog e a s d) = paymentAttempts d"
  "expenseRequests (addLog e a s d) = expenseRequests d" "webhookEvents (addLog e a s d) = webhookEvents d"
  "providerRequests (addLog e a s d) = providerRequests d" "incidents (addLog e a s d) = incidents d"
  "employees (addLog e a s d) = employees d"
  by (simp_all add: addLog_def)

lemma enqueue_sel [simp]:
  "inventoryItems (enqueue p n a t w d) = inventoryItems d" "reservations (enqueue p n a t w d) = reservations d"
  "inventoryTxs (enqueue p n a t w d) = inventoryTxs d" "orderItems (enqueue p n a t w d) = orderItems d"
  "orderSessions (enqueue p n a t w d) = orderSessions d" "diningTables (enqueue p n a t w d) = diningTables d"
  "invoices (enqueue p n a t w d) = invoices d" "funds (enqueue p n a t w d) = funds d"
  "cashTxs (enqueue p n a t w d) = cashTxs d" "cashierShifts (enqueue p n a t w d) = cashierShifts d"
  "cashRefunds (enqueue p n a t w d) = cashRefunds d" "cashHandovers (enqueue p n a t w d) = cashHandovers d"
  "orderRemakes (enqueue p n a t w d) = orderRemakes d"
  "recipeRows (enqueue p n a t w d) = recipeRows d"
  "menuIngredients (enqueue p n a t w d) = menuIngredients d" "snapshots (enqueue p n a t w d) = snapshots d"
  "paymentRefunds (enqueue p n a t w d) = paymentRefunds d" "paymentAttempts (enqueue p n a t w d) = paymentAttempts d"
  "expenseRequests (enqueue p n a t w d) = expenseRequests d" "webhookEvents (enqueue p n a t w d) = webhookEvents d"
  "providerRequests (enqueue p n a t w d) = providerRequests d" "incidents (enqueue p n a t w d) = incidents d"
  "employees (enqueue p n a t w d) = employees d"
  "nextId (enqueue p n a t w d) = Suc (nextId d)"
  by (simp_all add: enqueue_def)

end
