(* ===== verification/Stock.thy ===== *)
theory Stock
  imports Db_Core
begin

text \<open>
  \<open>InventoryConsumptionService\<close> (\<open>src/app/inventory/services/inventory-consumption.service.ts\<close>):
  reserving the ingredients of order lines, releasing them, consuming them when a line is
  cooked, and recording waste. The raw \<open>UPDATE\<close> statements are \<open>claim_rows\<close> loops.
\<close>

section \<open>Totals per ingredient\<close>

text \<open>
  \<open>totalRequirements\<close>: a \<open>Map\<close> filled row by row (a new key goes last), then sorted by key.
\<close>

definition addRequirement :: "(id \<times> qty) list \<Rightarrow> id \<times> qty \<Rightarrow> (id \<times> qty) list" where
  "addRequirement m row = AList.map_default (fst row) (0 + snd row) (\<lambda>q. q + snd row) m"

definition totalRequirements :: "(id \<times> qty) list \<Rightarrow> (id \<times> qty) list" where
  "totalRequirements rows = sort_key fst (foldl addRequirement [] rows)"

definition itemActive :: "db \<Rightarrow> inventoryItem \<Rightarrow> bool" where
  "itemActive d i =
     (i_deletedAt i = None \<and>
      (\<exists>u\<in>set (units d). n_id u = i_unitId i \<and> n_deletedAt u = None) \<and>
      (\<exists>c\<in>set (categories d). n_id c = i_categoryId i \<and> n_deletedAt c = None))"

definition canFulfill :: "(id \<times> qty) list \<Rightarrow> db \<Rightarrow> bool" where
  "canFulfill requirements d =
     (let totals = totalRequirements requirements in
      if totals = [] then True
      else let items = filter (\<lambda>i. i_id i \<in> fst ` set totals \<and> itemActive d i) (inventoryItems d)
           in length items = length totals \<and>
              (\<forall>i\<in>set items. the (map_of totals (i_id i)) \<le> i_stock i - i_reserved i))"

section \<open>Reserving\<close>

text \<open>The recipe an order line is charged: its snapshot, or the menu recipe for a legacy line.\<close>

definition recipeOf :: "db \<Rightarrow> orderItem \<Rightarrow> (id \<times> qty) list" where
  "recipeOf d oi =
     (if o_recipeAt oi = None
      then map (\<lambda>g. (g_inventoryItemId g, g_quantity g))
             (filter (\<lambda>g. g_menuItemId g = o_menuItemId oi) (menuIngredients d))
      else map (\<lambda>r. (r_inventoryItemId r, r_quantity r))
             (filter (\<lambda>r. r_orderItemId r = o_id oi) (recipeRows d)))"

definition required :: "db \<Rightarrow> orderItem \<Rightarrow> (id \<times> qty) list" where
  "required d oi = map (\<lambda>(i, q). (i, q * o_quantity oi)) (recipeOf d oi)"

definition heldBy :: "db \<Rightarrow> id \<Rightarrow> (id \<times> qty) list" where
  "heldBy d oid =
     map (\<lambda>h. (h_inventoryItemId h, h_quantity h)) (filter (\<lambda>h. h_orderItemId h = oid) (reservations d))"

text \<open>\<open>new Map(rows)\<close>: a later entry wins; \<open>held.size\<close> counts its keys.\<close>

definition heldMatches :: "(id \<times> qty) list \<Rightarrow> (id \<times> qty) list \<Rightarrow> bool" where
  "heldMatches held req \<longleftrightarrow>
     length (remdups (map fst held)) = length req \<and>
     (\<forall>(i, q)\<in>set req. map_of (rev held) i = Some q)"

definition itemReservations :: "db \<Rightarrow> orderItem \<Rightarrow> reservation list res" where
  "itemReservations d oi =
     (let req = required d oi; held = heldBy d (o_id oi) in
      if held = []
      then Inr (map (\<lambda>(i, q). \<lparr>h_orderItemId = o_id oi, h_inventoryItemId = i, h_quantity = q\<rparr>) req)
      else require (heldMatches held req) (Conflict ''reservation mismatch'') (Inr []))"

text \<open>Snapshots of the current menu recipe for the legacy lines among \<open>items\<close>.\<close>

definition snapshotLegacy :: "orderItem list \<Rightarrow> time \<Rightarrow> db \<Rightarrow> db" where
  "snapshotLegacy items now d =
     (let legacy = filter (\<lambda>oi. o_recipeAt oi = None) items;
          rows = concat (map (\<lambda>oi. map (\<lambda>(i, q). \<lparr>r_orderItemId = o_id oi, r_inventoryItemId = i, r_quantity = q\<rparr>)
                                      (recipeOf d oi)) legacy)
      in d\<lparr>recipeRows := recipeRows d @ rows,
           orderItems := upd (\<lambda>oi. o_id oi \<in> o_id ` set legacy \<and> o_recipeAt oi = None)
                             (\<lambda>oi. oi\<lparr>o_recipeAt := Some now\<rparr>) (orderItems d)\<rparr>)"

definition addReserved :: "qty \<Rightarrow> inventoryItem \<Rightarrow> inventoryItem" where
  "addReserved q i = i\<lparr>i_reserved := i_reserved i + q\<rparr>"

text \<open>
  \<open>createMany\<close> on \<open>InventoryReservation\<close> is subject to its \<open>CHECK (quantity > 0)\<close>.
\<close>

definition reservePendingItems :: "(orderItem \<Rightarrow> bool) \<Rightarrow> time \<Rightarrow> db \<Rightarrow> db res" where
  "reservePendingItems whr now d =
     (let items = filter (\<lambda>oi. whr oi \<and> o_status oi = Serve_PENDING) (orderItems d);
          d1 = snapshotLegacy items now d
      in andThen (mapM (itemReservations d) items) (\<lambda>rowss.
         let rows = concat rowss;
             totals = totalRequirements (map (\<lambda>h. (h_inventoryItemId h, h_quantity h)) rows)
         in andThen
              (claim_rows i_id (\<lambda>q i. i_deletedAt i = None \<and> q \<le> i_stock i - i_reserved i \<and> itemActive d i)
                 addReserved (Conflict ''INVENTORY_INSUFFICIENT_STOCK'') totals (inventoryItems d1)) (\<lambda>its.
            require (\<forall>h\<in>set rows. 0 < h_quantity h) (Conflict ''check quantity'')
              (Inr (d1\<lparr>inventoryItems := its, reservations := reservations d1 @ rows\<rparr>)))))"

definition reserveSession :: "id \<Rightarrow> time \<Rightarrow> db \<Rightarrow> db res" where
  "reserveSession sid now d = reservePendingItems (\<lambda>oi. o_sessionId oi = sid) now d"

section \<open>Releasing\<close>

definition subReserved :: "qty \<Rightarrow> inventoryItem \<Rightarrow> inventoryItem" where
  "subReserved q i = i\<lparr>i_reserved := i_reserved i - q\<rparr>"

definition releaseReservations :: "id list \<Rightarrow> db \<Rightarrow> db res" where
  "releaseReservations orderItemIds d =
     (if orderItemIds = [] then Inr d
      else let rows = filter (\<lambda>h. h_orderItemId h \<in> set orderItemIds) (reservations d);
               totals = totalRequirements (map (\<lambda>h. (h_inventoryItemId h, h_quantity h)) rows)
           in andThen
                (claim_rows i_id (\<lambda>q i. q \<le> i_reserved i) subReserved
                   (Conflict ''reservation state'') totals (inventoryItems d)) (\<lambda>its.
              Inr (d\<lparr>inventoryItems := its,
                     reservations := (if rows = [] then reservations d
                       else del (\<lambda>h. h_orderItemId h \<in> set orderItemIds) (reservations d))\<rparr>)))"

section \<open>Consuming\<close>

record ingredient =
  gi_inventoryItemId :: id
  gi_perItem :: qty
  gi_total :: qty
  gi_unitCost :: money
  gi_totalCost :: money

record movementResult =
  mv_inventoryItemId :: id
  mv_transactionId :: id
  mv_type :: InventoryTxType
  mv_quantity :: qty
  mv_unitCost :: money
  mv_total :: money
  mv_stockAfter :: qty
  mv_avgCost :: money

definition findItem :: "db \<Rightarrow> id \<Rightarrow> inventoryItem option" where
  "findItem d i = find (\<lambda>r. i_id r = i) (inventoryItems d)"

text \<open>One recipe row joined with its inventory item (the foreign key makes it present).\<close>

definition ingredientOf :: "db \<Rightarrow> orderItem \<Rightarrow> id \<times> qty \<Rightarrow> ingredient res" where
  "ingredientOf d oi row =
     fetch (findItem d (fst row)) (NotFound ''inventory item'') (\<lambda>i.
     require (i_deletedAt i = None) (Conflict ''inactive recipe item'')
       (let total = snd row * o_quantity oi in
        Inr \<lparr>gi_inventoryItemId = i_id i, gi_perItem = snd row, gi_total = total,
             gi_unitCost = i_avgCost i, gi_totalCost = calculateInventoryValue total (i_avgCost i)\<rparr>))"

text \<open>The claim of one ingredient: \<open>(total, own)\<close>, the amount used and the amount held for it.\<close>

definition consumable :: "qty \<times> qty \<Rightarrow> inventoryItem \<Rightarrow> bool" where
  "consumable x i \<longleftrightarrow>
     i_deletedAt i = None \<and> snd x \<le> i_reserved i \<and> fst x - snd x \<le> i_stock i - i_reserved i"

definition consumeRow :: "qty \<times> qty \<Rightarrow> inventoryItem \<Rightarrow> inventoryItem" where
  "consumeRow x i = i\<lparr>i_stock := i_stock i - fst x, i_reserved := i_reserved i - snd x\<rparr>"

definition ownHeld :: "(id \<times> qty) list \<Rightarrow> id \<Rightarrow> qty" where
  "ownHeld held i = (case map_of (rev held) i of None \<Rightarrow> 0 | Some q \<Rightarrow> q)"

definition exportTx :: "id \<Rightarrow> time \<Rightarrow> id \<times> ingredient \<Rightarrow> inventoryTx" where
  "exportTx oid now p =
     \<lparr>x_id = fst p, x_inventoryItemId = gi_inventoryItemId (snd p), x_orderItemId = Some oid,
      x_documentLineId = None, x_type = Tx_EXPORT, x_quantity = gi_total (snd p),
      x_unitPrice = gi_unitCost (snd p), x_total = gi_totalCost (snd p), x_date = now\<rparr>"

definition consumptionMovement :: "db \<Rightarrow> id \<times> ingredient \<Rightarrow> movementResult res" where
  "consumptionMovement d p =
     fetch (findItem d (gi_inventoryItemId (snd p))) (Conflict ''consumption inconsistent'') (\<lambda>i.
       Inr \<lparr>mv_inventoryItemId = gi_inventoryItemId (snd p), mv_transactionId = fst p,
            mv_type = Tx_EXPORT, mv_quantity = gi_total (snd p), mv_unitCost = gi_unitCost (snd p),
            mv_total = gi_totalCost (snd p), mv_stockAfter = i_stock i, mv_avgCost = i_avgCost i\<rparr>)"

definition snapshotRowOf :: "id \<Rightarrow> ingredient \<Rightarrow> snapshotRow" where
  "snapshotRowOf oid g =
     \<lparr>n_orderItemId = oid, n_inventoryItemId = gi_inventoryItemId g, n_perItem = gi_perItem g,
      n_total = gi_total g, n_unitCost = gi_unitCost g, n_totalCost = gi_totalCost g\<rparr>"

definition consumptionClaims :: "(id \<times> qty) list \<Rightarrow> ingredient list \<Rightarrow> (id \<times> (qty \<times> qty)) list" where
  "consumptionClaims held ings =
     map (\<lambda>g. (gi_inventoryItemId g, (gi_total g, ownHeld held (gi_inventoryItemId g)))) ings"

text \<open>
  What the database refuses of the two \<open>createMany\<close>: the CHECK constraints of the snapshots (that on costs is of migration
  \<open>20260923000000_add_inventory_procurement_costing\<close>) and of the ledger, the
  primary key \<open>(orderItemId, inventoryItemId)\<close> of a snapshot and the unique index on the same columns of the ledger.
\<close>

definition snapshotRowCheck :: "snapshotRow \<Rightarrow> bool" where
  "snapshotRowCheck n \<longleftrightarrow> 0 < n_perItem n \<and> 0 < n_total n \<and> 0 \<le> n_unitCost n \<and> 0 \<le> n_totalCost n"

definition ledgerRowCheck :: "inventoryTx \<Rightarrow> bool" where
  "ledgerRowCheck x \<longleftrightarrow> 0 < x_quantity x \<and> 0 \<le> x_unitPrice x \<and> 0 \<le> x_total x"

definition snapshotKey :: "snapshotRow \<Rightarrow> id \<times> id" where
  "snapshotKey n = (n_orderItemId n, n_inventoryItemId n)"

definition snapshotKeysFree :: "snapshotRow list \<Rightarrow> snapshotRow list \<Rightarrow> bool" where
  "snapshotKeysFree ns old \<longleftrightarrow> distinct (map snapshotKey ns) \<and> (\<forall>n\<in>set ns. snapshotKey n \<notin> snapshotKey ` set old)"

definition ledgerKey :: "inventoryTx \<Rightarrow> id option \<times> id" where
  "ledgerKey x = (x_orderItemId x, x_inventoryItemId x)"

definition ledgerKeysFree :: "inventoryTx list \<Rightarrow> inventoryTx list \<Rightarrow> bool" where
  "ledgerKeysFree xs old \<longleftrightarrow> (let new = filter (\<lambda>x. x_orderItemId x \<noteq> None) xs in
     distinct (map ledgerKey new) \<and> (\<forall>x\<in>set new. ledgerKey x \<notin> ledgerKey ` set old))"

text \<open>The snapshots, ledger entries and event of a line that consumed \<open>ings\<close>.\<close>

definition recordConsumption :: "id \<Rightarrow> ingredient list \<Rightarrow> time \<Rightarrow> db \<Rightarrow> (movementResult list \<times> db) res" where
  "recordConsumption oid ings now d =
     (if ings = [] then Inr ([], d)
      else let ns = map (snapshotRowOf oid) ings;
               numbered = zip [nextId d..<nextId d + length ings] ings;
               xs = map (exportTx oid now) numbered;
               d' = d\<lparr>nextId := nextId d + length ings,
                      snapshots := snapshots d @ ns,
                      inventoryTxs := inventoryTxs d @ xs\<rparr>
           in require (\<forall>n\<in>set ns. snapshotRowCheck n) (Conflict ''check snapshot'')
              (require (snapshotKeysFree ns (snapshots d)) (UniqueViolation ''OrderItemIngredientSnapshot'')
              (require (\<forall>x\<in>set xs. ledgerRowCheck x) (Conflict ''check ledger'')
              (require (ledgerKeysFree xs (inventoryTxs d)) (UniqueViolation ''InventoryTransaction'')
              (andThen (mapM (consumptionMovement d') numbered) (\<lambda>mvs.
                Inr (mvs, enqueue ''inventory'' ''STOCK_EXPORTED'' oid [] now d')))))))"

text \<open>
  The service reads the recipe first, so that an inactive item is reported before any
  reservation is compared; \<open>held.size\<close> is truthy when the line holds stock.
\<close>

definition consumeOrderItem :: "orderItem \<Rightarrow> time \<Rightarrow> db \<Rightarrow> (movementResult list \<times> db) res" where
  "consumeOrderItem oi now d =
     andThen (mapM (ingredientOf d oi) (sort_key fst (recipeOf d oi))) (\<lambda>ings.
     let held = heldBy d (o_id oi) in
     require (held = [] \<or> heldMatches held (map (\<lambda>g. (gi_inventoryItemId g, gi_total g)) ings))
       (Conflict ''reservation mismatch'')
     (andThen
       (claim_rows i_id consumable consumeRow (Conflict ''INVENTORY_INSUFFICIENT_STOCK'')
          (consumptionClaims held ings) (inventoryItems d)) (\<lambda>its.
      recordConsumption (o_id oi) ings now
        (d\<lparr>inventoryItems := its,
           reservations := (if held = [] then reservations d
             else del (\<lambda>h. h_orderItemId h = o_id oi) (reservations d))\<rparr>))))"

section \<open>Waste\<close>

definition recordWaste :: "id \<Rightarrow> id \<Rightarrow> string \<Rightarrow> db \<Rightarrow> db" where
  "recordWaste oid emp reason d =
     (let used = sort_key n_inventoryItemId (filter (\<lambda>n. n_orderItemId n = oid) (snapshots d));
          numbered = zip [nextId d..<nextId d + length used] used
      in d\<lparr>nextId := nextId d + length used,
           wastes := wastes d @ map (\<lambda>(w, n). \<lparr>w_id = w, w_orderItemId = oid,
             w_inventoryItemId = n_inventoryItemId n, w_quantity = n_total n,
             w_employeeId = emp, w_reason = reason\<rparr>) numbered\<rparr>)"

end
