(* ===== verification/Stock_Facts.thy ===== *)
theory Stock_Facts
  imports Stock
begin

text \<open>
  Correctness of the stock operations: totals per ingredient, the reservation invariant
  (an item's \<open>reservedStock\<close> is the sum of the reservations that name it, and never more
  than its stock), the stock ledger, and what a reservation buys: a reserved line can be cooked.
\<close>

section \<open>Totals per ingredient\<close>

definition reqSum :: "(id \<times> qty) list \<Rightarrow> id \<Rightarrow> qty" where
  "reqSum rows i = sumw (\<lambda>p. fst p = i) snd rows"

lemma map_of_map_default:
  "map_of (AList.map_default k v f m) i =
     (if i = k then Some (case map_of m k of None \<Rightarrow> v | Some q \<Rightarrow> f q) else map_of m i)"
  by (induction m) auto

lemma fst_map_default: "fst ` set (AList.map_default k v f m) = insert k (fst ` set m)"
  by (induction m) auto

lemma distinct_map_default: "distinct (map fst m) \<Longrightarrow> distinct (map fst (AList.map_default k v f m))"
  by (induction m) (auto simp: fst_map_default)

lemma foldl_addRequirement_distinct:
  "distinct (map fst m) \<Longrightarrow> distinct (map fst (foldl addRequirement m rows))"
  by (induction rows arbitrary: m) (simp_all add: addRequirement_def distinct_map_default)

lemma reqSum_rules [simp]:
  "reqSum [] i = 0"
  "reqSum (row # rows) i = (if fst row = i then snd row else 0) + reqSum rows i"
  by (simp_all add: reqSum_def)

lemma reqSum_absent: "i \<notin> fst ` set rows \<Longrightarrow> reqSum rows i = 0"
  by (induction rows) auto

lemma map_of_addRequirement:
  "map_of (addRequirement m row) i =
     (if i = fst row then Some (case map_of m i of None \<Rightarrow> snd row | Some q \<Rightarrow> q + snd row) else map_of m i)"
  by (simp add: addRequirement_def map_of_map_default)

lemma map_of_foldl_addRequirement:
  "map_of (foldl addRequirement m rows) i =
     (case map_of m i of
        None \<Rightarrow> (if i \<in> fst ` set rows then Some (reqSum rows i) else None)
      | Some q \<Rightarrow> Some (q + reqSum rows i))"
proof (induction rows arbitrary: m)
  case Nil
  show ?case by (simp split: option.splits)
next
  case (Cons row rows)
  show ?case
    by (auto simp: Cons.IH map_of_addRequirement reqSum_absent split: option.splits)
qed

lemma totals_distinct [simp]: "distinct (map fst (totalRequirements rows))"
proof -
  have "distinct (map fst (foldl addRequirement [] rows))" by (rule foldl_addRequirement_distinct) simp
  then show ?thesis by (simp add: totalRequirements_def distinct_map)
qed

lemma totals_map_of [simp]:
  "map_of (totalRequirements rows) i = (if i \<in> fst ` set rows then Some (reqSum rows i) else None)"
proof -
  let ?m = "foldl addRequirement [] rows"
  have "distinct (map fst ?m)" by (rule foldl_addRequirement_distinct) simp
  then have "map_of (totalRequirements rows) = map_of ?m"
    using totals_distinct [of rows] by (subst map_of_inject_set) (simp_all add: totalRequirements_def)
  then show ?thesis by (simp add: map_of_foldl_addRequirement)
qed

lemma totals_set: "(i, q) \<in> set (totalRequirements rows) \<longleftrightarrow> i \<in> fst ` set rows \<and> q = reqSum rows i"
  unfolding map_of_eq_Some_iff [OF totals_distinct, symmetric] totals_map_of by (simp; blast)

lemma totals_keys: "fst ` set (totalRequirements rows) = fst ` set rows"
proof -
  have "i \<in> fst ` set (totalRequirements rows) \<longleftrightarrow> i \<in> fst ` set rows" for i
    using totals_set [of i _ rows] by (metis (no_types, lifting) fst_conv image_iff surj_pair)
  then show ?thesis by blast
qed

lemma reqSum_rows:
  "reqSum (map (\<lambda>h. (h_inventoryItemId h, h_quantity h)) rows) i = sumw (\<lambda>h. h_inventoryItemId h = i) h_quantity rows"
  by (simp add: reqSum_def sumw_map)

section \<open>The reservation invariant\<close>

definition reservedIn :: "reservation list \<Rightarrow> id \<Rightarrow> qty" where
  "reservedIn hs i = sumw (\<lambda>h. h_inventoryItemId h = i) h_quantity hs"

definition stock_ok :: "inventoryItem list \<Rightarrow> reservation list \<Rightarrow> bool" where
  "stock_ok items hs \<longleftrightarrow>
     (\<forall>i\<in>set items. i_reserved i = reservedIn hs (i_id i) \<and> i_reserved i \<le> i_stock i) \<and>
     (\<forall>h\<in>set hs. 0 < h_quantity h)"

definition stock_inv :: "db \<Rightarrow> bool" where
  "stock_inv d = stock_ok (inventoryItems d) (reservations d)"

lemma reservedIn_nonneg: "stock_ok items hs \<Longrightarrow> 0 \<le> reservedIn hs i"
  unfolding reservedIn_def stock_ok_def by (rule sumw_nonneg) (auto simp: less_imp_le)

lemma stock_inv_reserved: "stock_inv d \<Longrightarrow> i \<in> set (inventoryItems d) \<Longrightarrow> i_reserved i = reservedIn (reservations d) (i_id i)"
  by (simp add: stock_inv_def stock_ok_def)

lemma stock_inv_reserved_nonneg: "stock_inv d \<Longrightarrow> i \<in> set (inventoryItems d) \<Longrightarrow> 0 \<le> i_reserved i"
  by (metis reservedIn_nonneg stock_inv_def stock_ok_def)

lemma stock_inv_le: "stock_inv d \<Longrightarrow> i \<in> set (inventoryItems d) \<Longrightarrow> i_reserved i \<le> i_stock i"
  unfolding stock_inv_def stock_ok_def by blast

lemma stock_inv_stock_nonneg: "stock_inv d \<Longrightarrow> i \<in> set (inventoryItems d) \<Longrightarrow> 0 \<le> i_stock i"
  using reservedIn_nonneg [of "inventoryItems d" "reservations d" "i_id i"]
  by (force simp: stock_inv_def stock_ok_def)

text \<open>A claim that succeeded met its guard on the very row it changed.\<close>

lemma claimed_guard:
  assumes "distinct (map key t)" and "r \<in> set t" and "map_of kxs (key r) = Some x"
    and "\<forall>(k, x)\<in>set kxs. \<exists>r\<in>set t. key r = k \<and> g x r"
  shows "g x r"
  using assms distinct_key_eq [OF assms(1,2)] by (fastforce dest: map_of_SomeD)

lemma i_id_updates [simp]:
  "i_id (addReserved q i) = i_id i" "i_id (subReserved q i) = i_id i" "i_id (consumeRow x i) = i_id i"
  by (simp_all add: addReserved_def subReserved_def consumeRow_def)

lemma stock_ok_reserve:
  assumes inv: "stock_ok items hs" and key: "distinct (map i_id items)"
    and tot: "totals = totalRequirements (map (\<lambda>h. (h_inventoryItemId h, h_quantity h)) rows)"
    and claim: "claim_rows i_id (\<lambda>q i. i_deletedAt i = None \<and> q \<le> i_stock i - i_reserved i \<and> act i)
       addReserved e totals items = Inr items'"
    and pos: "\<forall>h\<in>set rows. 0 < h_quantity h"
  shows "stock_ok items' (hs @ rows)"
proof -
  let ?g = "\<lambda>q i. i_deletedAt i = None \<and> q \<le> i_stock i - i_reserved i \<and> act i"
  have guard: "\<forall>(k, x)\<in>set totals. \<exists>r\<in>set items. i_id r = k \<and> ?g x r"
    and items': "items' = apply_claims i_id addReserved totals items"
    using claim claim_rows_iff [OF key, of addReserved totals ?g] tot by simp_all
  have sum: "reservedIn (hs @ rows) k = reservedIn hs k + (case map_of totals k of None \<Rightarrow> 0 | Some q \<Rightarrow> q)" for k
    using reqSum_rows [of rows k] reqSum_absent [of k "map (\<lambda>h. (h_inventoryItemId h, h_quantity h)) rows"]
    by (auto simp: reservedIn_def tot)
  have "i_reserved i' = reservedIn (hs @ rows) (i_id i') \<and> i_reserved i' \<le> i_stock i'" if "i' \<in> set items'" for i'
  proof -
    from that obtain i where i: "i \<in> set items"
      and i': "i' = (case map_of totals (i_id i) of None \<Rightarrow> i | Some q \<Rightarrow> addReserved q i)"
      by (auto simp: items' apply_claims_def)
    show ?thesis
    proof (cases "map_of totals (i_id i)")
      case None
      then show ?thesis using i i' inv by (auto simp: sum stock_ok_def)
    next
      case (Some q)
      have "?g q i" by (rule claimed_guard [OF key i Some guard])
      then show ?thesis using i i' inv Some by (auto simp: sum stock_ok_def addReserved_def)
    qed
  qed
  moreover have "\<forall>h\<in>set (hs @ rows). 0 < h_quantity h" using pos inv by (auto simp: stock_ok_def)
  ultimately show ?thesis unfolding stock_ok_def by blast
qed

lemma snapshotLegacy_sel [simp]:
  "inventoryItems (snapshotLegacy its now d) = inventoryItems d"
  "reservations (snapshotLegacy its now d) = reservations d"
  "inventoryTxs (snapshotLegacy its now d) = inventoryTxs d"
  by (simp_all add: snapshotLegacy_def Let_def)

lemma reserve_stock_inv:
  assumes "reservePendingItems whr now d = Inr d'" and "stock_keys d" and "stock_inv d"
  shows "stock_inv d'"
  using assms(1) stock_ok_reserve [OF _ stock_keysD(1) [OF assms(2)] refl] assms(3)
  by (fastforce simp: reservePendingItems_def Let_def stock_inv_def)

lemma stock_ok_release:
  assumes inv: "stock_ok items hs" and key: "distinct (map i_id items)"
    and tot: "totals = totalRequirements (map (\<lambda>h. (h_inventoryItemId h, h_quantity h)) (filter P hs))"
    and claim: "claim_rows i_id (\<lambda>q i. q \<le> i_reserved i) subReserved e totals items = Inr items'"
  shows "stock_ok items' (del P hs)"
proof -
  let ?g = "\<lambda>q i. q \<le> i_reserved i"
  have items': "items' = apply_claims i_id subReserved totals items"
    using claim claim_rows_iff [OF key, of subReserved totals ?g] tot by simp
  have pos: "0 \<le> sumw (\<lambda>h. h_inventoryItemId h = k) h_quantity (filter P hs)" for k
    using inv by (intro sumw_nonneg) (auto simp: stock_ok_def less_imp_le)
  have sum: "reservedIn (del P hs) k = reservedIn hs k - (case map_of totals k of None \<Rightarrow> 0 | Some q \<Rightarrow> q)" for k
    using reqSum_rows [of "filter P hs" k]
      reqSum_absent [of k "map (\<lambda>h. (h_inventoryItemId h, h_quantity h)) (filter P hs)"]
    by (auto simp: reservedIn_def tot sumw_del sumw_filter)
  have nonneg: "map_of totals k = Some q \<Longrightarrow> 0 \<le> q" for k q
    using pos [of k] by (auto simp: tot reqSum_rows split: if_splits)
  have "i_reserved i' = reservedIn (del P hs) (i_id i') \<and> i_reserved i' \<le> i_stock i'" if "i' \<in> set items'" for i'
  proof -
    from that obtain i where i: "i \<in> set items"
      and i': "i' = (case map_of totals (i_id i) of None \<Rightarrow> i | Some q \<Rightarrow> subReserved q i)"
      by (auto simp: items' apply_claims_def)
    have "i_reserved i = reservedIn hs (i_id i)" "i_reserved i \<le> i_stock i"
      using i inv by (auto simp: stock_ok_def)
    then show ?thesis
      using i' nonneg [of "i_id i"] by (cases "map_of totals (i_id i)") (auto simp: sum subReserved_def)
  qed
  moreover have "\<forall>h\<in>set (del P hs). 0 < h_quantity h" using inv by (auto simp: stock_ok_def)
  ultimately show ?thesis unfolding stock_ok_def by blast
qed


lemma release_stock_inv:
  assumes "releaseReservations ids d = Inr d'" and "stock_keys d" and "stock_inv d"
  shows "stock_inv d'"
proof (cases "ids = []")
  case True
  then show ?thesis using assms by (simp add: releaseReservations_def)
next
  case False
  let ?P = "\<lambda>h. h_orderItemId h \<in> set ids"
  have none: "filter ?P (reservations d) = [] \<Longrightarrow> del ?P (reservations d) = reservations d"
    by (simp add: del_def filter_empty_conv)
  obtain its where claim: "claim_rows i_id (\<lambda>q i. q \<le> i_reserved i) subReserved (Conflict ''reservation state'')
      (totalRequirements (map (\<lambda>h. (h_inventoryItemId h, h_quantity h)) (filter ?P (reservations d))))
      (inventoryItems d) = Inr its"
    and d': "inventoryItems d' = its" "reservations d' = del ?P (reservations d)"
    using assms(1) False none by (auto simp: releaseReservations_def Let_def)
  have "stock_ok its (del ?P (reservations d))"
    by (rule stock_ok_release [OF _ stock_keysD(1) [OF assms(2)] refl claim])
       (use assms(3) in \<open>simp add: stock_inv_def\<close>)
  then show ?thesis by (simp add: stock_inv_def d')
qed

section \<open>Consuming keeps the invariant\<close>

lemma distinct_pk_filter:
  "distinct (map (\<lambda>r. (a r, b r)) t) \<Longrightarrow> distinct (map b (filter (\<lambda>r. a r = k) t))"
  by (induction t) (auto simp: image_iff)

lemma recipe_distinct: "stock_keys d \<Longrightarrow> distinct (map fst (recipeOf d oi))"
  using distinct_pk_filter [OF stock_keysD(2), of d "o_menuItemId oi"]
    distinct_pk_filter [OF stock_keysD(3), of d "o_id oi"]
  by (simp add: recipeOf_def comp_def)

lemma held_distinct: "stock_keys d \<Longrightarrow> distinct (map fst (heldBy d oid))"
  using distinct_pk_filter [OF stock_keysD(4), of d oid] by (simp add: heldBy_def comp_def)

lemma ownHeld_eq: "distinct (map fst held) \<Longrightarrow> ownHeld held i = reqSum held i"
proof -
  assume dist: "distinct (map fst held)"
  then have "map_of (rev held) = map_of held"
    by (intro map_of_inject_set [THEN iffD2]) (simp_all add: distinct_map)
  moreover have "(case map_of held i of None \<Rightarrow> 0 | Some q \<Rightarrow> q) = reqSum held i"
    using dist
  proof (induction held)
    case (Cons p held)
    then show ?case by (cases "fst p = i") (simp_all add: reqSum_absent)
  qed simp
  ultimately show ?thesis by (simp add: ownHeld_def)
qed

lemma heldMatches_keys:
  assumes "heldMatches held req" and "distinct (map fst req)"
  shows "fst ` set held = fst ` set req"
proof (rule sym, rule card_subset_eq)
  show "fst ` set req \<subseteq> fst ` set held"
  proof
    fix i assume "i \<in> fst ` set req"
    then obtain q where "map_of (rev held) i = Some q" using assms(1) by (fastforce simp: heldMatches_def)
    then show "i \<in> fst ` set held" by (force dest: map_of_SomeD)
  qed
  show "card (fst ` set req) = card (fst ` set held)"
    using assms distinct_card [OF assms(2)] by (simp add: heldMatches_def length_remdups_card_conv)
qed simp

lemma ingredients_ids:
  "mapM (ingredientOf d oi) xs = Inr ings \<Longrightarrow> map gi_inventoryItemId ings = map fst xs"
  by (rule mapM_map) (auto simp: ingredientOf_def Let_def findItem_def dest!: find_SomeD)

lemma ingredients_totals:
  "mapM (ingredientOf d oi) xs = Inr ings \<Longrightarrow>
     map (\<lambda>g. (gi_inventoryItemId g, gi_total g)) ings = map (\<lambda>(i, q). (i, q * o_quantity oi)) xs"
  by (rule mapM_map) (auto simp: ingredientOf_def Let_def findItem_def dest!: find_SomeD)

lemma distinct_fst_sort_key: "distinct (map fst xs) \<Longrightarrow> distinct (map fst (sort_key fst xs))"
  by (simp add: distinct_map)

lemma recordConsumption_effect:
  assumes "recordConsumption oid ings now d = Inr (mvs, d')"
  shows "inventoryItems d' = inventoryItems d" "reservations d' = reservations d"
    "inventoryTxs d' = inventoryTxs d @ map (exportTx oid now) (zip [nextId d..<nextId d + length ings] ings)"
  using assms by (auto simp: recordConsumption_def Let_def split: if_splits)

text \<open>What a successful consumption did to the stock tables.\<close>

lemma consume_success:
  assumes "consumeOrderItem oi now d = Inr (mvs, d')" and keys: "stock_keys d"
  obtains ings where
    "mapM (ingredientOf d oi) (sort_key fst (recipeOf d oi)) = Inr ings"
    "distinct (map gi_inventoryItemId ings)"
    "heldBy d (o_id oi) = [] \<or> fst ` set (heldBy d (o_id oi)) = gi_inventoryItemId ` set ings"
    "\<forall>(k, x)\<in>set (consumptionClaims (heldBy d (o_id oi)) ings). \<exists>i\<in>set (inventoryItems d). i_id i = k \<and> consumable x i"
    "inventoryItems d' = apply_claims i_id consumeRow (consumptionClaims (heldBy d (o_id oi)) ings) (inventoryItems d)"
    "reservations d' = del (\<lambda>h. h_orderItemId h = o_id oi) (reservations d)"
    "\<exists>n. inventoryTxs d' = inventoryTxs d @ map (exportTx (o_id oi) now) (zip [n..<n + length ings] ings)"
proof -
  let ?held = "heldBy d (o_id oi)"
  obtain ings its where ings: "mapM (ingredientOf d oi) (sort_key fst (recipeOf d oi)) = Inr ings"
    and match: "?held = [] \<or> heldMatches ?held (map (\<lambda>g. (gi_inventoryItemId g, gi_total g)) ings)"
    and claim: "claim_rows i_id consumable consumeRow (Conflict ''INVENTORY_INSUFFICIENT_STOCK'')
      (consumptionClaims ?held ings) (inventoryItems d) = Inr its"
    and d': "inventoryItems d' = its"
      "reservations d' = (if ?held = [] then reservations d else del (\<lambda>h. h_orderItemId h = o_id oi) (reservations d))"
      "\<exists>n. inventoryTxs d' = inventoryTxs d @ map (exportTx (o_id oi) now) (zip [n..<n + length ings] ings)"
    using assms(1) recordConsumption_effect
    by (fastforce simp: consumeOrderItem_def Let_def)
  have dist: "distinct (map gi_inventoryItemId ings)"
    using ingredients_ids [OF ings] distinct_fst_sort_key [OF recipe_distinct [OF keys, of oi]] by simp
  have cdist: "distinct (map fst (consumptionClaims ?held ings))"
    using dist by (simp add: consumptionClaims_def comp_def)
  have mdist: "distinct (map fst (map (\<lambda>g. (gi_inventoryItemId g, gi_total g)) ings))"
    using dist by (simp add: comp_def)
  have "?held = [] \<or> fst ` set ?held = gi_inventoryItemId ` set ings"
    using match heldMatches_keys [OF _ mdist] by (auto simp: image_image)
  moreover have "?held = [] \<Longrightarrow> del (\<lambda>h. h_orderItemId h = o_id oi) (reservations d) = reservations d"
    by (simp add: heldBy_def del_def filter_empty_conv)
  ultimately show ?thesis
    using that [OF ings dist] claim d'
      claim_rows_iff [OF stock_keysD(1) [OF keys], of consumeRow _ consumable] cdist by auto
qed

lemma consume_stock_inv:
  assumes "consumeOrderItem oi now d = Inr (mvs, d')" and keys: "stock_keys d" and inv: "stock_inv d"
  shows "stock_inv d'"
proof -
  let ?held = "heldBy d (o_id oi)" and ?P = "\<lambda>h. h_orderItemId h = o_id oi"
  obtain ings where dist: "distinct (map gi_inventoryItemId ings)"
    and hk: "?held = [] \<or> fst ` set ?held = gi_inventoryItemId ` set ings"
    and guard: "\<forall>(k, x)\<in>set (consumptionClaims ?held ings). \<exists>i\<in>set (inventoryItems d). i_id i = k \<and> consumable x i"
    and items': "inventoryItems d' = apply_claims i_id consumeRow (consumptionClaims ?held ings) (inventoryItems d)"
    and res': "reservations d' = del ?P (reservations d)"
    by (rule consume_success [OF assms(1,2)]) (rule that)
  have ok: "stock_ok (inventoryItems d) (reservations d)" using inv by (simp add: stock_inv_def)
  have own: "ownHeld ?held k = reqSum ?held k" for k by (rule ownHeld_eq [OF held_distinct [OF keys]])
  have sum: "reservedIn (del ?P (reservations d)) k = reservedIn (reservations d) k - reqSum ?held k" for k
    by (simp add: reservedIn_def sumw_del reqSum_rows heldBy_def sumw_filter)
  have absent: "map_of (consumptionClaims ?held ings) k = None \<Longrightarrow> reqSum ?held k = 0" for k
    using hk by (auto simp: map_of_eq_None_iff consumptionClaims_def image_image intro!: reqSum_absent)
  have claimed: "map_of (consumptionClaims ?held ings) k = Some x \<Longrightarrow> snd x = reqSum ?held k" for k x
    by (drule map_of_SomeD) (auto simp: consumptionClaims_def own)
  have "i_reserved i' = reservedIn (reservations d') (i_id i') \<and> i_reserved i' \<le> i_stock i'"
    if "i' \<in> set (inventoryItems d')" for i'
  proof -
    from that obtain i where i: "i \<in> set (inventoryItems d)"
      and i': "i' = (case map_of (consumptionClaims ?held ings) (i_id i) of None \<Rightarrow> i | Some x \<Rightarrow> consumeRow x i)"
      by (auto simp: items' apply_claims_def)
    have r: "i_reserved i = reservedIn (reservations d) (i_id i)" "i_reserved i \<le> i_stock i"
      using i ok by (auto simp: stock_ok_def)
    show ?thesis
    proof (cases "map_of (consumptionClaims ?held ings) (i_id i)")
      case None
      then show ?thesis using r i' absent by (simp add: res' sum)
    next
      case (Some x)
      have "consumable x i" by (rule claimed_guard [OF stock_keysD(1) [OF keys] i Some guard])
      then show ?thesis
        using r i' Some claimed [OF Some] by (simp add: res' sum consumeRow_def consumable_def)
    qed
  qed
  moreover have "\<forall>h\<in>set (reservations d'). 0 < h_quantity h" using ok by (auto simp: stock_ok_def res')
  ultimately show ?thesis unfolding stock_inv_def stock_ok_def by blast
qed

section \<open>The stock ledger\<close>

definition signedQty :: "inventoryTx \<Rightarrow> qty" where
  "signedQty x = (case x_type x of Tx_IMPORT \<Rightarrow> x_quantity x | Tx_EXPORT \<Rightarrow> - x_quantity x)"

definition netTx :: "inventoryTx list \<Rightarrow> id \<Rightarrow> qty" where
  "netTx txs i = sumw (\<lambda>x. x_inventoryItemId x = i) signedQty txs"

text \<open>Every unit of stock is explained by the opening stock and the ledger entries.\<close>

definition ledger_ok :: "(id \<Rightarrow> qty) \<Rightarrow> db \<Rightarrow> bool" where
  "ledger_ok opening d \<longleftrightarrow>
     (\<forall>i\<in>set (inventoryItems d). i_stock i = opening (i_id i) + netTx (inventoryTxs d) (i_id i))"

lemma netTx_append [simp]: "netTx (xs @ ys) i = netTx xs i + netTx ys i"
  by (simp add: netTx_def)

lemma apply_claims_stock:
  assumes "\<And>x i. i_stock (f x i) = i_stock i" and "\<And>x i. i_id (f x i) = i_id i"
  shows "(\<forall>i\<in>set (apply_claims i_id f kxs items). i_stock i = h (i_id i)) \<longleftrightarrow> (\<forall>i\<in>set items. i_stock i = h (i_id i))"
proof -
  have "i_stock (case map_of kxs (i_id i) of None \<Rightarrow> i | Some x \<Rightarrow> f x i) = i_stock i
    \<and> i_id (case map_of kxs (i_id i) of None \<Rightarrow> i | Some x \<Rightarrow> f x i) = i_id i" for i
    using assms by (simp split: option.splits)
  then show ?thesis by (simp add: apply_claims_def)
qed

lemma i_stock_updates [simp]:
  "i_stock (addReserved q i) = i_stock i" "i_stock (subReserved q i) = i_stock i"
  by (simp_all add: addReserved_def subReserved_def)

lemma reserve_ledger_ok:
  assumes "reservePendingItems whr now d = Inr d'" and "stock_keys d" and "ledger_ok op d"
  shows "ledger_ok op d'"
proof -
  from assms(1) obtain tot its e g where "claim_rows i_id g addReserved e (totalRequirements tot) (inventoryItems d) = Inr its"
    and "inventoryItems d' = its" "inventoryTxs d' = inventoryTxs d"
    by (auto simp: reservePendingItems_def Let_def)
  then have "inventoryItems d' = apply_claims i_id addReserved (totalRequirements tot) (inventoryItems d)"
    using claim_rows_iff [OF stock_keysD(1) [OF assms(2)], of addReserved "totalRequirements tot" g e its] by simp
  then show ?thesis
    using assms(3) \<open>inventoryTxs d' = _\<close> 
    by (simp add: ledger_ok_def apply_claims_stock [where h = "\<lambda>k. op k + netTx (inventoryTxs d) k"])
qed

lemma release_ledger_ok:
  assumes "releaseReservations ids d = Inr d'" and "stock_keys d" and "ledger_ok op d"
  shows "ledger_ok op d'"
proof (cases "ids = []")
  case True
  then show ?thesis using assms by (simp add: releaseReservations_def)
next
  case False
  with assms(1) obtain tot its e g where "claim_rows i_id g subReserved e (totalRequirements tot) (inventoryItems d) = Inr its"
    and "inventoryItems d' = its" "inventoryTxs d' = inventoryTxs d"
    by (auto simp: releaseReservations_def Let_def)
  then have "inventoryItems d' = apply_claims i_id subReserved (totalRequirements tot) (inventoryItems d)"
    using claim_rows_iff [OF stock_keysD(1) [OF assms(2)], of subReserved "totalRequirements tot" g e its] by simp
  then show ?thesis
    using assms(3) \<open>inventoryTxs d' = _\<close> 
    by (simp add: ledger_ok_def apply_claims_stock [where h = "\<lambda>k. op k + netTx (inventoryTxs d) k"])
qed

lemma netTx_exports:
  "length ns = length ings \<Longrightarrow> netTx (map (exportTx oid now) (zip ns ings)) k
     = - sumw (\<lambda>g. gi_inventoryItemId g = k) gi_total ings"
  by (induction ns ings rule: list_induct2) (auto simp: netTx_def exportTx_def signedQty_def)

lemma sumw_distinct:
  assumes "distinct (map key t)"
  shows "sumw (\<lambda>g. key g = k) v t = (case map_of (map (\<lambda>g. (key g, v g)) t) k of None \<Rightarrow> 0 | Some q \<Rightarrow> q)"
  using assms
proof (induction t)
  case (Cons a t)
  have "key a = k \<Longrightarrow> sumw (\<lambda>g. key g = k) v t = 0"
    using Cons.prems by (intro sumw_zero) (auto simp: image_iff)
  then show ?case using Cons by (cases "key a = k") simp_all
qed simp

lemma claims_stock_of:
  "map_of (consumptionClaims held ings) k =
     map_option (\<lambda>t. (t, ownHeld held k)) (map_of (map (\<lambda>g. (gi_inventoryItemId g, gi_total g)) ings) k)"
  by (induction ings) (auto simp: consumptionClaims_def)

lemma consume_ledger_ok:
  assumes "consumeOrderItem oi now d = Inr (mvs, d')" and "stock_keys d" and ok: "ledger_ok op d"
  shows "ledger_ok op d'"
proof -
  let ?held = "heldBy d (o_id oi)"
  obtain ings n where dist: "distinct (map gi_inventoryItemId ings)"
    and items': "inventoryItems d' = apply_claims i_id consumeRow (consumptionClaims ?held ings) (inventoryItems d)"
    and txs': "inventoryTxs d' = inventoryTxs d @ map (exportTx (o_id oi) now) (zip [n..<n + length ings] ings)"
    by (rule consume_success [OF assms(1,2)]) (elim exE, rule that)
  have net: "netTx (inventoryTxs d') k = netTx (inventoryTxs d) k
      - (case map_of (consumptionClaims ?held ings) k of None \<Rightarrow> 0 | Some x \<Rightarrow> fst x)" for k
    by (simp add: txs' netTx_exports sumw_distinct [OF dist] claims_stock_of split: option.splits)
  show ?thesis
    using ok by (auto simp: ledger_ok_def items' apply_claims_def net consumeRow_def split: option.splits)
qed

section \<open>The contract of a stock invariant\<close>

text \<open>
  What orders and invoices need to know of the stock service to keep a property of the stock
  tables: it only depends on those tables, and reserving, releasing and consuming keep it.
\<close>

locale stock_invariant =
  fixes Inv :: "db \<Rightarrow> bool"
  assumes frame: "\<lbrakk>inventoryItems d' = inventoryItems d; reservations d' = reservations d;
      inventoryTxs d' = inventoryTxs d; Inv d\<rbrakk> \<Longrightarrow> Inv d'"
    and reserve: "\<lbrakk>reservePendingItems whr now d = Inr d'; stock_keys d; Inv d\<rbrakk> \<Longrightarrow> Inv d'"
    and release: "\<lbrakk>releaseReservations ids d = Inr d'; stock_keys d; Inv d\<rbrakk> \<Longrightarrow> Inv d'"
    and consume: "\<lbrakk>consumeOrderItem oi now d = Inr (mvs, d'); stock_keys d; Inv d\<rbrakk> \<Longrightarrow> Inv d'"
begin

lemma waste: "Inv d \<Longrightarrow> Inv (recordWaste oid emp reason d)"
  by (rule frame [of _ d]) (simp_all add: recordWaste_def Let_def)

lemma logged: "Inv d \<Longrightarrow> Inv (addLog emp act subj d)"
  by (rule frame [of _ d]) simp_all

lemma enqueued: "Inv d \<Longrightarrow> Inv (enqueue topic ev agg tabs now d)"
  by (rule frame [of _ d]) simp_all

lemma reserve_session: "\<lbrakk>reserveSession sid now d = Inr d'; stock_keys d; Inv d\<rbrakk> \<Longrightarrow> Inv d'"
  unfolding reserveSession_def by (rule reserve)

end

interpretation reserved: stock_invariant stock_inv
  by unfold_locales
     (simp add: stock_inv_def, (rule reserve_stock_inv release_stock_inv consume_stock_inv; assumption)+)

interpretation ledger: stock_invariant "ledger_ok op" for op
  by unfold_locales
     (simp add: ledger_ok_def, (rule reserve_ledger_ok release_ledger_ok consume_ledger_ok; assumption)+)

end
