(* ===== verification/Menu_Selection.thy ===== *)
theory Menu_Selection
  imports Stock_Facts
begin

text \<open>
  \<open>resolveMenuSelection\<close> (\<open>src/app/menu/menu-option-selection.ts\<close>): the unit price, the
  option snapshot and the recipe of a menu item with a choice of options. The JavaScript
  \<open>Set\<close> of ids not yet found is the list \<open>left\<close>; the \<open>Map\<close> of the recipe is the
  association list of \<open>addRequirement\<close>.
\<close>

record selection =
  sel_unitPrice :: money
  sel_options :: "selectedOption list"
  sel_recipe :: "(id \<times> qty) list"

definition addIngredient :: "db \<Rightarrow> id \<times> qty \<Rightarrow> (id \<times> qty) list \<Rightarrow> (id \<times> qty) list res" where
  "addIngredient d g recipe =
     fetch (findItem d (fst g)) (NotFound ''inventory item'') (\<lambda>i.
     require (i_deletedAt i = None) (Conflict ''inactive ingredient'')
       (Inr (addRequirement recipe g)))"

text \<open>One selected option: its id leaves the set, its price is added, its ingredients join the recipe.\<close>

definition selectOption :: "db \<Rightarrow> string \<Rightarrow> menuOption \<Rightarrow> id list \<times> selection \<Rightarrow> (id list \<times> selection) res" where
  "selectOption d gname mo s =
     andThen (run_all (addIngredient d) (map (\<lambda>og. (og_inventoryItemId og, og_quantity og)) (mo_ingredients mo))
               (sel_recipe (snd s))) (\<lambda>recipe.
       Inr (filter (\<lambda>i. i \<noteq> mo_id mo) (fst s),
            \<lparr>sel_unitPrice = sel_unitPrice (snd s) + mo_priceDelta mo,
             sel_options = sel_options (snd s) @ [\<lparr>so_id = mo_id mo, so_groupName = gname,
               so_name = mo_name mo, so_priceDelta = mo_priceDelta mo\<rparr>],
             sel_recipe = recipe\<rparr>))"

definition selectedIn :: "optionGroup \<Rightarrow> id list \<Rightarrow> menuOption list" where
  "selectedIn gr left = filter (\<lambda>mo. mo_id mo \<in> set left) (gr_options gr)"

definition selectGroup :: "db \<Rightarrow> optionGroup \<Rightarrow> id list \<times> selection \<Rightarrow> (id list \<times> selection) res" where
  "selectGroup d gr s =
     (let chosen = selectedIn gr (fst s) in
      require (gr_minSelected gr \<le> length chosen \<and> length chosen \<le> gr_maxSelected gr)
        (Conflict ''option group'') (run_all (selectOption d (gr_name gr)) chosen s))"

text \<open>The largest price, 9999999999999999.99, in hundredths.\<close>

definition maxPrice :: money where
  "maxPrice = 999999999999999999"

definition resolveMenuSelection :: "db \<Rightarrow> menuItem \<Rightarrow> id list \<Rightarrow> selection res" where
  "resolveMenuSelection d mi optionIds =
     require (length optionIds \<le> 20 \<and> distinct optionIds) (Conflict ''option selection'')
     (andThen (run_all (addIngredient d)
         (map (\<lambda>g. (g_inventoryItemId g, g_quantity g))
           (filter (\<lambda>g. g_menuItemId g = mi_id mi) (menuIngredients d))) []) (\<lambda>recipe.
      andThen (run_all (selectGroup d) (mi_groups mi)
         (optionIds, \<lparr>sel_unitPrice = mi_price mi, sel_options = [], sel_recipe = recipe\<rparr>)) (\<lambda>s.
      require (fst s = []) (Conflict ''options unavailable'')
      (require (sel_unitPrice (snd s) \<le> maxPrice) (Conflict ''price'')
        (Inr ((snd s)\<lparr>sel_recipe := sort_key fst (sel_recipe (snd s))\<rparr>))))))"

text \<open>\<open>readSelectedOptions\<close>: the snapshot schema of the saved JSON, at most 20 options.\<close>

definition readSelectedOptions :: "selectedOption list \<Rightarrow> selectedOption list res" where
  "readSelectedOptions opts = require (length opts \<le> 20) (Conflict ''saved options'') (Inr opts)"

end
