(* ===== verification/Kitchen.thy ===== *)
theory Kitchen
  imports Menu_Selection
begin

text \<open>
  Kitchen routing (\<open>src/app/kitchen/kitchen-routing.service.ts\<close>) and the kitchen part of
  printing (\<open>src/app/printing/printing.service.ts\<close>): the ticket and print job of new lines,
  and what happens to unprinted and printed paper when lines are cancelled or split. A job's
  SHA-256 cancellation signature stands for the sorted list of ids it hashes.
\<close>

section \<open>Tickets\<close>

definition stationOf :: "db \<Rightarrow> menuItem \<Rightarrow> kitchenStation option" where
  "stationOf d mi =
     (case mi_stationId mi of None \<Rightarrow> None | Some s \<Rightarrow> find (\<lambda>k. ks_id k = s) (kitchenStations d))"

definition itemStation :: "db \<Rightarrow> menuItem list \<Rightarrow> orderItem \<Rightarrow> kitchenStation option" where
  "itemStation d mis oi =
     (case find (\<lambda>m. mi_id m = o_menuItemId oi) mis of None \<Rightarrow> None | Some m \<Rightarrow> stationOf d m)"

type_synonym stationGroups = "(id \<times> (kitchenStation \<times> orderItem list)) list"

definition addToGroup :: "kitchenStation \<Rightarrow> orderItem \<Rightarrow> stationGroups \<Rightarrow> stationGroups" where
  "addToGroup st oi groups =
     AList.map_default (ks_id st) (st, [oi]) (\<lambda>p. (fst p, snd p @ [oi])) groups"

definition groupItem :: "db \<Rightarrow> menuItem list \<Rightarrow> bool \<Rightarrow> orderItem \<Rightarrow> stationGroups \<Rightarrow> stationGroups res" where
  "groupItem d mis scheduled oi groups =
     (case itemStation d mis oi of
        None \<Rightarrow> require (\<not> scheduled) (Conflict ''scheduled station'') (Inr groups)
      | Some st \<Rightarrow> Inr (addToGroup st oi groups))"

definition printerOf :: "db \<Rightarrow> kitchenStation \<Rightarrow> printDevice option" where
  "printerOf d st =
     (case ks_printDeviceId st of None \<Rightarrow> None
      | Some p \<Rightarrow> find (\<lambda>v. pd_id v = p \<and> pd_isActive v \<and> pd_deletedAt v = None) (printDevices d))"

definition enqueueKitchenTicket :: "id \<Rightarrow> id \<Rightarrow> printLine list \<Rightarrow> time \<Rightarrow> db \<Rightarrow> db" where
  "enqueueKitchenTicket ticketId deviceId payload availableAt d =
     d\<lparr>nextId := Suc (nextId d),
       printJobs := printJobs d @ [\<lparr>j_id = nextId d, j_type = Job_KITCHEN_TICKET,
         j_status = Print_PENDING, j_ticketId = Some ticketId, j_invoiceId = None,
         j_deviceId = Some deviceId, j_requestedById = None, j_availableAt = availableAt, j_failedAt = None,
         j_dedup = Some (KitchenTicketKey ticketId), j_payload = Some payload\<rparr>]\<rparr>"

definition dueTime :: "time option \<Rightarrow> time \<Rightarrow> kitchenStation \<Rightarrow> time" where
  "dueTime pickupAt now st =
     (case pickupAt of Some p \<Rightarrow> p | None \<Rightarrow> now + ks_prepSlaSeconds st * 1000)"

definition availableTime :: "time option \<Rightarrow> time \<Rightarrow> kitchenStation \<Rightarrow> time" where
  "availableTime pickupAt now st = max now (dueTime pickupAt now st - ks_prepSlaSeconds st * 1000)"

text \<open>\<open>KitchenTicketItem.orderItemId\<close> is unique: an order line is on one ticket.\<close>

definition createTicket :: "id \<Rightarrow> time option \<Rightarrow> time \<Rightarrow> kitchenStation \<times> orderItem list \<Rightarrow> db \<Rightarrow> db res" where
  "createTicket sid pickupAt now grp d =
     (let st = fst grp; ois = snd grp; tid = nextId d;
          numbered = zip [Suc tid..<Suc tid + length ois] ois;
          rows = map (\<lambda>(k, oi). \<lparr>ki_id = k, ki_ticketId = tid, ki_orderItemId = o_id oi,
                                  ki_quantity = o_quantity oi\<rparr>) numbered;
          d1 = d\<lparr>nextId := Suc tid + length ois,
                 kitchenTickets := kitchenTickets d @ [\<lparr>kt_id = tid, kt_stationId = ks_id st,
                   kt_sessionId = sid, kt_dueAt = dueTime pickupAt now st,
                   kt_availableAt = Some (availableTime pickupAt now st)\<rparr>],
                 kitchenTicketItems := kitchenTicketItems d @ rows\<rparr>
      in require (distinct (map ki_orderItemId (kitchenTicketItems d1))) (UniqueViolation ''orderItemId'')
         (Inr (case printerOf d1 st of
            None \<Rightarrow> d1
          | Some p \<Rightarrow> enqueueKitchenTicket tid (pd_id p)
              (map (\<lambda>oi. \<lparr>pl_orderItemId = o_id oi, pl_quantity = o_quantity oi\<rparr>) ois)
              (availableTime pickupAt now st) d1)))"

definition createTickets :: "id \<Rightarrow> menuItem list \<Rightarrow> orderItem list \<Rightarrow> time option \<Rightarrow> time \<Rightarrow> db \<Rightarrow> db res" where
  "createTickets sid mis ois pickupAt now d =
     require (case pickupAt of None \<Rightarrow> True | Some p \<Rightarrow> now < p) (Conflict ''pickup elapsed'')
     (andThen (run_all (groupItem d mis (pickupAt \<noteq> None)) ois []) (\<lambda>groups.
      if groups = [] then Inr d
      else require (\<exists>s\<in>set (orderSessions d). s_id s = sid) (NotFound ''session'')
        (require (\<forall>g\<in>set groups. \<forall>oi\<in>set (snd (snd g)). ok (readSelectedOptions (o_options oi)))
           (Conflict ''saved options'')
        (run_all (createTicket sid pickupAt now) (map snd groups) d))))"

section \<open>Print jobs of lines that are cancelled or split\<close>

text \<open>Jobs of kitchen tickets that hold one of the lines, and whose key starts with
  \<open>KITCHEN_TICKET:\<close> (original and split tickets, not cancellation slips).\<close>

definition ticketKey :: "dedupKey option \<Rightarrow> bool" where
  "ticketKey k = (case k of Some (KitchenTicketKey _) \<Rightarrow> True | Some (KitchenSplitKey _ _) \<Rightarrow> True | _ \<Rightarrow> False)"

definition kitchenJobs :: "id list \<Rightarrow> db \<Rightarrow> printJob list" where
  "kitchenJobs ids d = sort_key j_id
     (filter (\<lambda>j. j_type j = Job_KITCHEN_TICKET \<and> ticketKey (j_dedup j) \<and>
        (\<exists>k\<in>set (kitchenTicketItems d). j_ticketId j = Some (ki_ticketId k) \<and> ki_orderItemId k \<in> set ids))
      (printJobs d))"

text \<open>\<open>PrintJob_state_check\<close>: \<open>failedAt\<close> is set exactly on FAILED jobs.\<close>

definition jobCheck :: "printJob \<Rightarrow> bool" where
  "jobCheck j \<longleftrightarrow> (j_status j = Print_FAILED) = (j_failedAt j \<noteq> None)"

definition unprinted :: "PrintJobStatus \<Rightarrow> bool" where
  "unprinted st \<longleftrightarrow> st = Print_PENDING \<or> st = Print_FAILED"

record kitchenMove =
  km_orderItemId :: id
  km_moved :: id
  km_original :: int
  km_toMove :: int

definition moveFor :: "kitchenMove list \<Rightarrow> id \<Rightarrow> kitchenMove option" where
  "moveFor moves i = find (\<lambda>m. km_orderItemId m = i) (rev moves)"

definition keptLine :: "kitchenMove list \<Rightarrow> printLine \<Rightarrow> printLine" where
  "keptLine moves l = (case moveFor moves (pl_orderItemId l) of None \<Rightarrow> l
     | Some m \<Rightarrow> l\<lparr>pl_quantity := km_original m - km_toMove m\<rparr>)"

definition movedLines :: "kitchenMove list \<Rightarrow> printLine list \<Rightarrow> printLine list" where
  "movedLines moves ls = concat (map (\<lambda>l. case moveFor moves (pl_orderItemId l) of None \<Rightarrow> []
     | Some m \<Rightarrow> [l\<lparr>pl_orderItemId := km_moved m, pl_quantity := km_toMove m\<rparr>]) ls)"

definition splitJob :: "id \<Rightarrow> id \<Rightarrow> kitchenMove list \<Rightarrow> printJob \<Rightarrow> db \<Rightarrow> db res" where
  "splitJob emp dest moves j d =
     (if j_status j = Print_CANCELLED then Inr d
      else fetch (j_payload j) (Conflict ''print payload'') (\<lambda>ls.
        require (\<forall>l\<in>set ls. case moveFor moves (pl_orderItemId l) of None \<Rightarrow> True
            | Some m \<Rightarrow> pl_quantity l = km_original m) (Conflict ''print quantity'')
        (if movedLines moves ls = [] then Inr d
         else require (unprinted (j_status j)) (Conflict ''KITCHEN_SPLIT_REQUIRES_UNPRINTED'')
          (require (cnt (\<lambda>r. r = j) (printJobs d) = 1) (Conflict ''print state'')
          (require (\<forall>r\<in>set (printJobs d). j_dedup r \<noteq> Some (KitchenSplitKey (j_id j) dest))
             (UniqueViolation ''deduplicationKey'')
          (let slip = j\<lparr>j_id := nextId d, j_requestedById := Some emp, j_failedAt := None,
                 j_dedup := Some (KitchenSplitKey (j_id j) dest), j_payload := Some (movedLines moves ls)\<rparr>
           in require (jobCheck slip) (Conflict ''PrintJob_state_check'')
              (Inr (d\<lparr>nextId := Suc (nextId d),
                printJobs := upd (\<lambda>r. r = j) (\<lambda>r. r\<lparr>j_payload := Some (map (keptLine moves) ls)\<rparr>) (printJobs d)
                  @ [slip]\<rparr>))))))))"

definition splitKitchenItems :: "id \<Rightarrow> id \<Rightarrow> kitchenMove list \<Rightarrow> db \<Rightarrow> db res" where
  "splitKitchenItems emp dest moves d =
     (if moves = [] then Inr d
      else run_all (splitJob emp dest moves) (kitchenJobs (map km_orderItemId moves) d) d)"

text \<open>Paper that is not printed loses the lines; printed paper is followed by a cancellation slip.\<close>

definition dropLines :: "printJob \<Rightarrow> printLine list \<Rightarrow> db \<Rightarrow> db res" where
  "dropLines j remaining d =
     require (cnt (\<lambda>r. r = j) (printJobs d) = 1) (Conflict ''print state'')
       (Inr (d\<lparr>printJobs := upd (\<lambda>r. r = j) (\<lambda>r. r\<lparr>j_payload := Some remaining,
          j_status := (if remaining = [] then Print_CANCELLED else j_status r),
          j_failedAt := (if remaining = [] then None else j_failedAt r)\<rparr>) (printJobs d)\<rparr>))"

definition cancellationSlip :: "id \<Rightarrow> time \<Rightarrow> printJob \<Rightarrow> printLine list \<Rightarrow> db \<Rightarrow> db" where
  "cancellationSlip emp now j gone d =
     (let key = Some (KitchenCancellationKey (j_id j) (sort (map pl_orderItemId gone)))
      in if \<exists>r\<in>set (printJobs d). j_dedup r = key then d
         else d\<lparr>nextId := Suc (nextId d),
           printJobs := printJobs d @ [\<lparr>j_id = nextId d, j_type = Job_KITCHEN_TICKET,
             j_status = Print_PENDING, j_ticketId = j_ticketId j, j_invoiceId = None,
             j_deviceId = j_deviceId j, j_requestedById = Some emp, j_availableAt = now, j_failedAt = None,
             j_dedup = key, j_payload = Some gone\<rparr>]\<rparr>)"

definition cancelJob :: "id \<Rightarrow> id list \<Rightarrow> time \<Rightarrow> printJob \<Rightarrow> db \<Rightarrow> db res" where
  "cancelJob emp ids now j d =
     (if j_status j = Print_CANCELLED then Inr d
      else fetch (j_payload j) (Conflict ''print payload'') (\<lambda>ls.
        let gone = filter (\<lambda>l. pl_orderItemId l \<in> set ids) ls in
        if gone = [] then Inr d
        else if unprinted (j_status j)
        then dropLines j (filter (\<lambda>l. pl_orderItemId l \<notin> set ids) ls) d
        else Inr (cancellationSlip emp now j gone d)))"

definition cancelKitchenItems :: "id list \<Rightarrow> id \<Rightarrow> time \<Rightarrow> db \<Rightarrow> db res" where
  "cancelKitchenItems ids emp now d =
     (if ids = [] then Inr d else run_all (cancelJob emp ids now) (kitchenJobs ids d) d)"

end
