(* ===== verification/Takeaway.thy ===== *)
theory Takeaway
  imports Db_Core
begin

text \<open>
  Pickup codes (\<open>src/app/orders/takeaway.service.ts\<close>): a code is an HMAC of the invoice id
  and the version stored on the invoice. The HMAC with the server's key is the parameter
  \<open>sign\<close> of the definitions; it comes from Node's crypto library.
\<close>

type_synonym 'c signer = "id \<Rightarrow> int option \<Rightarrow> 'c"

definition PICKUP_CODE_TTL_MS :: time where
  "PICKUP_CODE_TTL_MS = 72 * 60 * 60 * 1000"

definition MAX_PICKUP_CODE_VERSION :: int where
  "MAX_PICKUP_CODE_VERSION = 2147483647"

definition sessionItems :: "db \<Rightarrow> id \<Rightarrow> orderItem list" where
  "sessionItems d sid = filter (\<lambda>oi. o_sessionId oi = sid) (orderItems d)"

definition invoiceItems :: "db \<Rightarrow> id \<Rightarrow> orderItem list" where
  "invoiceItems d vid = filter (\<lambda>oi. o_invoiceId oi = Some vid) (orderItems d)"

definition findSession :: "db \<Rightarrow> id \<Rightarrow> orderSession option" where
  "findSession d i = find (\<lambda>s. s_id s = i) (orderSessions d)"

definition findInvoice :: "db \<Rightarrow> id \<Rightarrow> invoice option" where
  "findInvoice d i = find (\<lambda>v. v_id v = i) (invoices d)"

definition getPickupCodeExpiry :: "invoice \<Rightarrow> time option" where
  "getPickupCodeExpiry v =
     (case (if v_codeVersion v = None then Some (v_createdAt v) else v_codeIssuedAt v) of
        None \<Rightarrow> None | Some t \<Rightarrow> Some (t + PICKUP_CODE_TTL_MS))"

definition nextPickupCodeVersion :: "int option \<Rightarrow> int res" where
  "nextPickupCodeVersion ver =
     require (ver \<noteq> Some MAX_PICKUP_CODE_VERSION) (Conflict ''cannot rotate'')
       (Inr ((case ver of None \<Rightarrow> 0 | Some n \<Rightarrow> n) + 1))"

text \<open>The expiry of a code that is right and in time, otherwise \<open>None\<close>.\<close>

definition verifyPickupCode :: "'c signer \<Rightarrow> id \<Rightarrow> 'c \<Rightarrow> time \<Rightarrow> invoice \<Rightarrow> time option" where
  "verifyPickupCode sign invoiceId code now v =
     (case getPickupCodeExpiry v of
        None \<Rightarrow> None
      | Some expiresAt \<Rightarrow>
          (if expiresAt \<le> now then None
           else if code = sign invoiceId (v_codeVersion v) then Some expiresAt else None))"

definition assertPickupInvoice :: "db \<Rightarrow> id \<Rightarrow> invoice res" where
  "assertPickupInvoice d vid =
     fetch (findInvoice d vid) (NotFound ''pickup'') (\<lambda>v.
     fetch (findSession d (v_sessionId v)) (NotFound ''pickup'') (\<lambda>s.
     require (v_status v = Pay_PAID \<and> s_tableId s = None \<and> s_status s \<noteq> Session_CANCELLED \<and>
        invoiceItems d vid \<noteq> [] \<and>
        (\<forall>oi\<in>set (invoiceItems d vid). o_isPaid oi \<and> o_status oi \<noteq> Serve_CANCELLED))
       (NotFound ''pickup'') (Inr v)))"

definition setPickupCode :: "invoice \<Rightarrow> int \<Rightarrow> time option \<Rightarrow> db \<Rightarrow> db res" where
  "setPickupCode v ver issuedAt d =
     (let g = (\<lambda>r. v_id r = v_id v \<and> v_status r = Pay_PAID \<and> v_codeVersion r = v_codeVersion v \<and>
                   v_codeIssuedAt r = v_codeIssuedAt v)
      in require (cnt g (invoices d) = 1) (Conflict ''code changed'')
         (Inr (d\<lparr>invoices := upd g (\<lambda>r. r\<lparr>v_codeVersion := Some ver, v_codeIssuedAt := issuedAt\<rparr>) (invoices d)\<rparr>)))"

text \<open>The expiry of a code that has not expired.\<close>

definition liveUntil :: "invoice \<Rightarrow> time \<Rightarrow> time option" where
  "liveUntil v now =
     (case getPickupCodeExpiry v of None \<Rightarrow> None | Some e \<Rightarrow> if now < e then Some e else None)"

text \<open>Issue (\<open>current = None\<close>) or rotate a code; a live code is returned as it is when issuing.\<close>

definition provisionPickupCode ::
  "'c signer \<Rightarrow> id \<Rightarrow> id \<Rightarrow> 'c option \<Rightarrow> time \<Rightarrow> db \<Rightarrow> (('c \<times> time) \<times> db) res"
where
  "provisionPickupCode sign invoiceId emp current now d =
     require (activeEmployee emp d) (Unauthorized ''employee'')
     (andThen (assertPickupInvoice d invoiceId) (\<lambda>v.
      require (case current of None \<Rightarrow> True
          | Some c \<Rightarrow> verifyPickupCode sign invoiceId c now v \<noteq> None) (Conflict ''code changed'')
      (case (if current = None then liveUntil v now else None) of
         Some expiry \<Rightarrow> Inr ((sign invoiceId (v_codeVersion v), expiry), d)
       | None \<Rightarrow>
           andThen (nextPickupCodeVersion (v_codeVersion v)) (\<lambda>ver.
           andThen (setPickupCode v ver (Some now) d) (\<lambda>d1.
           Inr ((sign invoiceId (Some ver), now + PICKUP_CODE_TTL_MS),
             addLog emp (if current = None then ''PICKUP_CODE_ISSUED'' else ''PICKUP_CODE_ROTATED'') invoiceId d1))))))"

definition revokePickupCode :: "'c signer \<Rightarrow> id \<Rightarrow> 'c \<Rightarrow> id \<Rightarrow> time \<Rightarrow> db \<Rightarrow> db res" where
  "revokePickupCode sign invoiceId code emp now d =
     assertActiveEmployee emp d
     (andThen (assertPickupInvoice d invoiceId) (\<lambda>v.
      require (verifyPickupCode sign invoiceId code now v \<noteq> None) (Conflict ''code changed'')
      (andThen (nextPickupCodeVersion (v_codeVersion v)) (\<lambda>ver.
       andThen (setPickupCode v ver None d) (\<lambda>d1.
       Inr (addLog emp ''PICKUP_CODE_REVOKED'' invoiceId d1))))))"

end
