(* ===== verification/Cash_Ledger.thy ===== *)
theory Cash_Ledger
  imports Db_Core
begin

text \<open>
  \<open>CashierShiftLedgerService\<close> (\<open>src/app/cashier-shifts/cashier-shift-ledger.service.ts\<close>) and
  the two writes every cash operation is made of: a \<open>CashTransaction\<close> row and an increment of
  the fund's balance, with the checks the database puts on them.
\<close>

definition findOpenShift :: "id \<Rightarrow> db \<Rightarrow> cashierShift option" where
  "findOpenShift emp d = find (\<lambda>c. c_employeeId c = emp \<and> c_status c = Shift_OPEN) (cashierShifts d)"

definition findOpenShiftId :: "id \<Rightarrow> db \<Rightarrow> id option" where
  "findOpenShiftId emp d = map_option c_id (findOpenShift emp d)"

definition findFund :: "db \<Rightarrow> id \<Rightarrow> fund option" where
  "findFund d i = find (\<lambda>f. f_id f = i) (funds d)"

definition activeCashFund :: "fund \<Rightarrow> bool" where
  "activeCashFund f \<longleftrightarrow> f_deletedAt f = None \<and> f_type f = Fund_CASH"

text \<open>The open shift and its fund.\<close>

definition requireOpenShift :: "id \<Rightarrow> db \<Rightarrow> (id \<times> id) res" where
  "requireOpenShift emp d =
     fetch (findOpenShift emp d) (Conflict ''CASHIER_SHIFT_REQUIRED'') (\<lambda>c.
     fetch (c_fundId c) (Conflict ''CASHIER_SHIFT_FUND_INVALID'') (\<lambda>fid.
     fetch (findFund d fid) (Conflict ''CASHIER_SHIFT_FUND_INVALID'') (\<lambda>f.
     require (activeCashFund f) (Conflict ''CASHIER_SHIFT_FUND_INVALID'') (Inr (c_id c, fid)))))"

text \<open>Checks: a positive amount, one entry per invoice, an invoice entry is INCOME in a shift.\<close>

definition createCashTx :: "cashTx \<Rightarrow> db \<Rightarrow> db res" where
  "createCashTx k d =
     require (0 < k_amount k) (Conflict ''check amount'')
     (require (k_invoiceId k = None \<or> (k_type k = Flow_INCOME \<and> k_shiftId k \<noteq> None)) (Conflict ''check invoice'')
     (require (k_invoiceId k = None \<or> (\<forall>r\<in>set (cashTxs d). k_invoiceId r \<noteq> k_invoiceId k))
        (UniqueViolation ''invoiceId'')
     (Inr (d\<lparr>nextId := Suc (nextId d), cashTxs := cashTxs d @ [k\<lparr>k_id := nextId d\<rparr>]\<rparr>))))"

text \<open>\<open>fund.update\<close> with \<open>balance: {increment}\<close>; a balance is never negative.\<close>

definition addBalance :: "money \<Rightarrow> fund \<Rightarrow> fund" where
  "addBalance amt f = f\<lparr>f_balance := f_balance f + amt\<rparr>"

definition incrementFund :: "id \<Rightarrow> money \<Rightarrow> db \<Rightarrow> db res" where
  "incrementFund fid amt d =
     fetch (findFund d fid) (NotFound ''fund'') (\<lambda>f.
     require (0 \<le> f_balance f + amt) (Conflict ''check balance'')
       (Inr (d\<lparr>funds := upd (\<lambda>f. f_id f = fid) (addBalance amt) (funds d)\<rparr>)))"

text \<open>\<open>fund.updateMany\<close> that only takes what an active fund of the type holds, or fails.\<close>

definition decrementFund :: "id \<Rightarrow> FundType option \<Rightarrow> money \<Rightarrow> error \<Rightarrow> db \<Rightarrow> db res" where
  "decrementFund fid ty amt e d =
     (let g = (\<lambda>f. f_id f = fid \<and> f_deletedAt f = None \<and> (ty = None \<or> ty = Some (f_type f)) \<and> amt \<le> f_balance f)
      in require (cnt g (funds d) = 1) e (Inr (d\<lparr>funds := upd g (addBalance (- amt)) (funds d)\<rparr>)))"

definition recordCashInvoice :: "id \<times> id \<Rightarrow> id \<Rightarrow> id \<Rightarrow> money \<Rightarrow> db \<Rightarrow> db res" where
  "recordCashInvoice shift invoiceId emp amount d =
     andThen (createCashTx \<lparr>k_id = 0, k_type = Flow_INCOME, k_amount = amount, k_fundId = snd shift,
                k_employeeId = emp, k_shiftId = Some (fst shift), k_invoiceId = Some invoiceId\<rparr> d)
       (incrementFund (snd shift) amount)"

end
