(* ===== verification/Order_Policy.thy ===== *)
theory Order_Policy
  imports Db_Core
begin

text \<open>
  \<open>OrderPolicyService\<close> (\<open>src/app/orders/order-policy.service.ts\<close>) and the guard of
  \<open>online-order-policy.ts\<close>. Serve statuses are ordered by their progress, so that the
  allowed transitions are increasing steps.
\<close>

definition assertActiveSession :: "SessionStatus \<Rightarrow> 'a res \<Rightarrow> 'a res" where
  "assertActiveSession st k = require (st = Session_ACTIVE) (BadRequest ''inactive session'') k"

definition paidOrInvoiced :: "orderItem \<Rightarrow> bool" where
  "paidOrInvoiced oi \<longleftrightarrow> o_isPaid oi \<or> o_invoiceId oi \<noteq> None"

definition assertNoPaidOrInvoicedItems :: "orderItem list \<Rightarrow> 'a res \<Rightarrow> 'a res" where
  "assertNoPaidOrInvoicedItems items k =
     require (\<not> list_ex paidOrInvoiced items) (BadRequest ''paid or invoiced'') k"

definition processed :: "ServeStatus \<Rightarrow> bool" where
  "processed st \<longleftrightarrow> st = Serve_COOKING \<or> st = Serve_READY \<or> st = Serve_SERVED"

definition assertNoProcessedItems :: "orderItem list \<Rightarrow> 'a res \<Rightarrow> 'a res" where
  "assertNoProcessedItems items k =
     require (\<not> list_ex (\<lambda>oi. processed (o_status oi)) items) (BadRequest ''processed items'') k"

definition serveTransition :: "ServeStatus \<Rightarrow> ServeStatus \<Rightarrow> bool" where
  "serveTransition cur nxt \<longleftrightarrow>
     (cur = Serve_PENDING \<and> nxt = Serve_COOKING) \<or>
     (cur = Serve_COOKING \<and> (nxt = Serve_READY \<or> nxt = Serve_SERVED)) \<or>
     (cur = Serve_READY \<and> nxt = Serve_SERVED)"

definition assertServeStatusTransition :: "ServeStatus \<Rightarrow> ServeStatus \<Rightarrow> 'a res \<Rightarrow> 'a res" where
  "assertServeStatusTransition cur nxt k = require (serveTransition cur nxt) (BadRequest ''transition'') k"

definition assertPosOrderMutationAllowed :: "id option \<Rightarrow> 'a res \<Rightarrow> 'a res" where
  "assertPosOrderMutationAllowed online k = require (online = None) (Conflict ''ONLINE_ORDER_PICKUP_REQUIRED'') k"

lemma policy_Inr_iff [simp]:
  "assertActiveSession st k = Inr x \<longleftrightarrow> st = Session_ACTIVE \<and> k = Inr x"
  "assertNoPaidOrInvoicedItems items k = Inr x \<longleftrightarrow> (\<forall>oi\<in>set items. \<not> paidOrInvoiced oi) \<and> k = Inr x"
  "assertNoProcessedItems items k = Inr x \<longleftrightarrow> (\<forall>oi\<in>set items. \<not> processed (o_status oi)) \<and> k = Inr x"
  "assertServeStatusTransition a b k = Inr x \<longleftrightarrow> serveTransition a b \<and> k = Inr x"
  "assertPosOrderMutationAllowed online k = Inr x \<longleftrightarrow> online = None \<and> k = Inr x"
  by (simp_all add: assertActiveSession_def assertNoPaidOrInvoicedItems_def assertNoProcessedItems_def
      assertServeStatusTransition_def assertPosOrderMutationAllowed_def list_ex_iff)

section \<open>Progress of an order line\<close>

fun progress :: "ServeStatus \<Rightarrow> nat" where
  "progress Serve_PENDING = 0"
| "progress Serve_COOKING = 1"
| "progress Serve_READY = 2"
| "progress Serve_SERVED = 3"
| "progress Serve_CANCELLED = 4"

instantiation ServeStatus :: linorder
begin

definition less_eq_ServeStatus_def: "(a :: ServeStatus) \<le> b \<longleftrightarrow> progress a \<le> progress b"

definition less_ServeStatus_def: "(a :: ServeStatus) < b \<longleftrightarrow> progress a < progress b"

instance
proof
  fix a b :: ServeStatus
  show "a \<le> b \<Longrightarrow> b \<le> a \<Longrightarrow> a = b"
    by (cases a; cases b) (simp_all add: less_eq_ServeStatus_def)
qed (auto simp: less_eq_ServeStatus_def less_ServeStatus_def)

end

lemma serveTransition_less: "serveTransition a b \<Longrightarrow> a < b"
  by (auto simp: serveTransition_def less_ServeStatus_def)

lemma cancelled_top: "(a :: ServeStatus) \<le> Serve_CANCELLED"
  by (cases a) (simp_all add: less_eq_ServeStatus_def)

end
