(* ===== verification/Orders.thy ===== *)
theory Orders
  imports Kitchen Takeaway Cash_Ledger Order_Policy
begin

text \<open>
  \<open>OrdersService\<close> (\<open>src/app/orders/orders.service.ts\<close>): opening a session, adding lines,
  moving a line through the kitchen, cancelling, remaking. Every operation is one serializable
  transaction; \<open>now\<close> is the instant it reads from the clock. Idempotent requests are
  wrapped by the theory of the idempotency service; here is the operation they run.
\<close>

section \<open>Sessions\<close>

definition enqueueOrderEvent :: "string \<Rightarrow> id \<Rightarrow> id list \<Rightarrow> time \<Rightarrow> db \<Rightarrow> db" where
  "enqueueOrderEvent eventName aggregateId tables now d =
     enqueue ''order'' eventName aggregateId tables now d"

definition findTable :: "db \<Rightarrow> id \<Rightarrow> diningTable option" where
  "findTable d i = find (\<lambda>t. t_id t = i \<and> t_deletedAt t = None) (diningTables d)"

definition setTables :: "(diningTable \<Rightarrow> bool) \<Rightarrow> TableStatus \<Rightarrow> db \<Rightarrow> db" where
  "setTables g st d = d\<lparr>diningTables := upd g (\<lambda>t. t\<lparr>t_status := st\<rparr>) (diningTables d)\<rparr>"

definition activeOn :: "db \<Rightarrow> id \<Rightarrow> orderSession option" where
  "activeOn d t = find (\<lambda>s. s_tableId s = Some t \<and> s_status s = Session_ACTIVE) (orderSessions d)"

text \<open>\<open>order_session_one_active_per_table\<close> is the unique index on active sessions.\<close>

definition insertSession :: "orderSession \<Rightarrow> db \<Rightarrow> (id \<times> db) res" where
  "insertSession s d =
     require (case s_tableId s of None \<Rightarrow> True | Some t \<Rightarrow> activeOn d t = None)
       (UniqueViolation ''order_session_one_active_per_table'')
       (Inr (nextId d, d\<lparr>nextId := Suc (nextId d), orderSessions := orderSessions d @ [s\<lparr>s_id := nextId d\<rparr>]\<rparr>))"

definition claimTable :: "id option \<Rightarrow> db \<Rightarrow> db res" where
  "claimTable tableId d =
     (case tableId of
        None \<Rightarrow> Inr d
      | Some t \<Rightarrow>
          fetch (findTable d t) (NotFound ''table'') (\<lambda>_.
          let g = (\<lambda>r. t_id r = t \<and> t_deletedAt r = None \<and> t_status r = Table_EMPTY)
          in require (cnt g (diningTables d) = 1) (BadRequest ''table not empty'')
               (Inr (setTables g Table_OCCUPIED d))))"

definition createOrderSession :: "id option \<Rightarrow> id \<Rightarrow> int option \<Rightarrow> time \<Rightarrow> db \<Rightarrow> (id \<times> db) res" where
  "createOrderSession tableId emp guests now d =
     require (activeEmployee emp d) (Unauthorized ''employee'')
     (andThen (claimTable tableId d) (\<lambda>d1.
      andThen (insertSession \<lparr>s_id = 0, s_status = Session_ACTIVE, s_tableId = tableId, s_employeeId = emp,
         s_shiftId = findOpenShiftId emp d, s_guestCount = guests, s_online = None\<rparr> d1) (\<lambda>sd.
      Inr (fst sd, enqueueOrderEvent ''SESSION_OPENED'' (fst sd) (affectedTableIds [tableId]) now (snd sd)))))"

definition RESERVATION_CHECK_IN_EARLY_MS :: time where
  "RESERVATION_CHECK_IN_EARLY_MS = 30 * 60 * 1000"

definition RESERVATION_NO_SHOW_GRACE_MS :: time where
  "RESERVATION_NO_SHOW_GRACE_MS = 15 * 60 * 1000"

definition checkInReservation :: "id \<Rightarrow> id \<Rightarrow> time \<Rightarrow> db \<Rightarrow> (id \<times> db) res" where
  "checkInReservation rid emp now d =
     fetch (find (\<lambda>b. b_id b = rid) (tableReservations d)) (NotFound ''reservation'') (\<lambda>b.
     require (b_pending b \<and> b_sessionId b = None) (Conflict ''reservation not pending'')
     (require (b_startsAt b - RESERVATION_CHECK_IN_EARLY_MS \<le> now) (BadRequest ''check-in early'')
     (require (now < b_startsAt b + RESERVATION_NO_SHOW_GRACE_MS) (Conflict ''check-in closed'')
     (andThen (createOrderSession (Some (b_tableId b)) emp (b_guestCount b) now d) (\<lambda>sd.
      let g = (\<lambda>r. b_id r = rid \<and> b_pending r \<and> b_sessionId r = None) in
      require (cnt g (tableReservations (snd sd)) = 1) (Conflict ''reservation changed'')
        (Inr (fst sd, addLog emp ''RESERVATION_CHECKED_IN'' rid
           ((snd sd)\<lparr>tableReservations := upd g (\<lambda>r. r\<lparr>b_pending := False, b_arrived := True,
              b_checkedInAt := Some now, b_sessionId := Some (fst sd)\<rparr>)
              (tableReservations (snd sd))\<rparr>))))))))"

section \<open>Adding lines\<close>

record orderLine =
  ol_menuItemId :: id
  ol_optionIds :: "id list"
  ol_quantity :: int
  ol_note :: "string option"

type_synonym quote = "money \<times> selectedOption list"

definition orderable :: "db \<Rightarrow> menuItem \<Rightarrow> bool" where
  "orderable d mi \<longleftrightarrow>
     mi_deletedAt mi = None \<and> mi_isAvailable mi \<and>
     (\<exists>c\<in>set (menuCategories d). n_id c = mi_categoryId mi \<and> n_deletedAt c = None) \<and>
     (case mi_stationId mi of None \<Rightarrow> True
      | Some s \<Rightarrow> \<exists>k\<in>set (kitchenStations d). ks_id k = s \<and> ks_isActive k \<and> ks_deletedAt k = None)"

definition planLine :: "db \<Rightarrow> menuItem list \<Rightarrow> orderLine \<times> quote option \<Rightarrow> (orderLine \<times> selection) res" where
  "planLine d mis p =
     fetch (find (\<lambda>m. mi_id m = ol_menuItemId (fst p)) mis) (NotFound ''menu item'') (\<lambda>mi.
     andThen (resolveMenuSelection d mi (ol_optionIds (fst p))) (\<lambda>sel.
     require (case snd p of None \<Rightarrow> True
        | Some q \<Rightarrow> fst q = sel_unitPrice sel \<and> snd q = sel_options sel) (Conflict ''quote changed'')
       (Inr (fst p, sel))))"

definition plannedItem :: "id \<Rightarrow> time \<Rightarrow> id \<times> (orderLine \<times> selection) \<Rightarrow> orderItem" where
  "plannedItem sid now p =
     \<lparr>o_id = fst p, o_sessionId = sid, o_menuItemId = ol_menuItemId (fst (snd p)),
      o_quantity = ol_quantity (fst (snd p)), o_price = sel_unitPrice (snd (snd p)),
      o_note = ol_note (fst (snd p)), o_options = sel_options (snd (snd p)), o_recipeAt = Some now,
      o_status = Serve_PENDING, o_isPaid = False, o_invoiceId = None, o_readyAt = None\<rparr>"

definition plannedRecipe :: "id \<times> (orderLine \<times> selection) \<Rightarrow> recipeRow list" where
  "plannedRecipe p =
     map (\<lambda>(i, q). \<lparr>r_orderItemId = fst p, r_inventoryItemId = i, r_quantity = q\<rparr>) (sel_recipe (snd (snd p)))"

definition insertPlanned :: "id \<Rightarrow> (orderLine \<times> selection) list \<Rightarrow> time \<Rightarrow> db \<Rightarrow> (orderItem list \<times> db) res" where
  "insertPlanned sid planned now d =
     (let numbered = zip [nextId d..<nextId d + length planned] planned;
          created = map (plannedItem sid now) numbered
      in require (\<forall>oi\<in>set created. 0 < o_quantity oi \<and> 0 \<le> o_price oi) (Conflict ''check order item'')
         (Inr (created, d\<lparr>nextId := nextId d + length planned,
            orderItems := orderItems d @ created,
            recipeRows := recipeRows d @ concat (map plannedRecipe numbered)\<rparr>)))"

definition addOrderItemsInTransaction ::
  "id \<Rightarrow> orderLine list \<Rightarrow> quote list option \<Rightarrow> time option \<Rightarrow> time \<Rightarrow> db \<Rightarrow> db res"
where
  "addOrderItemsInTransaction sid lines quotes pickupAt now d =
     (let ids = remdups (map ol_menuItemId lines);
          mis = filter (\<lambda>m. mi_id m \<in> set ids \<and> orderable d m) (menuItems d)
      in fetch (findSession d sid) (NotFound ''session'') (\<lambda>s.
         assertActiveSession (s_status s)
         (require (s_online s = None) (Conflict ''online order'')
         (require (length mis = length ids) (NotFound ''menu items'')
         (require (case quotes of None \<Rightarrow> True | Some qs \<Rightarrow> length qs = length lines) (Conflict ''quotes'')
         (andThen (mapM (planLine d mis)
             (zip lines (case quotes of None \<Rightarrow> replicate (length lines) None | Some qs \<Rightarrow> map Some qs))) (\<lambda>planned.
          andThen (insertPlanned sid planned now d) (\<lambda>cd.
          andThen (createTickets sid mis (fst cd) pickupAt now (snd cd)) (\<lambda>d2.
          Inr (enqueueOrderEvent ''ITEMS_ADDED'' sid (affectedTableIds [s_tableId s]) now d2))))))))))"

definition addOrderItems :: "id \<Rightarrow> orderLine list \<Rightarrow> id \<Rightarrow> time \<Rightarrow> db \<Rightarrow> db res" where
  "addOrderItems sid lines emp now d =
     assertActiveEmployee emp d (addOrderItemsInTransaction sid lines None None now d)"

definition createOnlineTakeawaySession ::
  "id \<Rightarrow> orderLine list \<Rightarrow> quote list \<Rightarrow> time option \<Rightarrow> time \<Rightarrow> db \<Rightarrow> (id \<times> db) res"
where
  "createOnlineTakeawaySession emp lines quotes pickupAt now d =
     andThen (createOrderSession None emp None now d) (\<lambda>sd.
     andThen (addOrderItemsInTransaction (fst sd) lines (Some quotes) pickupAt now (snd sd)) (\<lambda>d2.
     andThen (reserveSession (fst sd) now d2) (\<lambda>d3. Inr (fst sd, d3))))"

text \<open>\<open>getHandoffItems\<close>: the takeaway lines waiting at the counter, oldest first.\<close>

definition isReplacement :: "db \<Rightarrow> id \<Rightarrow> bool" where
  "isReplacement d i \<longleftrightarrow> (\<exists>m\<in>set (orderRemakes d). m_replacementId m = i)"

definition isRemade :: "db \<Rightarrow> id \<Rightarrow> bool" where
  "isRemade d i \<longleftrightarrow> (\<exists>m\<in>set (orderRemakes d). m_originalId m = i)"

definition waitingHandoff :: "db \<Rightarrow> orderItem \<Rightarrow> bool" where
  "waitingHandoff d oi \<longleftrightarrow>
     o_status oi = Serve_READY \<and>
     (\<exists>s\<in>set (orderSessions d). s_id s = o_sessionId oi \<and> s_tableId s = None \<and> s_status s \<noteq> Session_CANCELLED \<and>
        (s_online s = None \<or> isReplacement d (o_id oi)))"

definition getHandoffItems :: "db \<Rightarrow> orderItem list" where
  "getHandoffItems d =
     (let rows = sort_key o_id (filter (waitingHandoff d) (orderItems d))
      in sort_key (\<lambda>oi. the (o_readyAt oi)) (filter (\<lambda>oi. o_readyAt oi \<noteq> None) rows)
         @ filter (\<lambda>oi. o_readyAt oi = None) rows)"

section \<open>Remaking a handed-off line\<close>

definition findOrderItem :: "db \<Rightarrow> id \<Rightarrow> orderItem option" where
  "findOrderItem d i = find (\<lambda>oi. o_id oi = i) (orderItems d)"

definition invoicePaid :: "db \<Rightarrow> orderItem \<Rightarrow> bool" where
  "invoicePaid d oi =
     (case o_invoiceId oi of None \<Rightarrow> False
      | Some v \<Rightarrow> (case findInvoice d v of None \<Rightarrow> False | Some iv \<Rightarrow> v_status iv = Pay_PAID))"

definition originalRecipe :: "db \<Rightarrow> orderItem \<Rightarrow> (id \<times> qty) list" where
  "originalRecipe d oi =
     (if o_recipeAt oi \<noteq> None
      then map (\<lambda>r. (r_inventoryItemId r, r_quantity r)) (filter (\<lambda>r. r_orderItemId r = o_id oi) (recipeRows d))
      else map (\<lambda>n. (n_inventoryItemId n, n_perItem n)) (filter (\<lambda>n. n_orderItemId n = o_id oi) (snapshots d)))"

definition insertReplacement :: "orderItem \<Rightarrow> string \<Rightarrow> time \<Rightarrow> db \<Rightarrow> orderItem \<times> db" where
  "insertReplacement oi reason now d =
     (let new = \<lparr>o_id = nextId d, o_sessionId = o_sessionId oi, o_menuItemId = o_menuItemId oi,
            o_quantity = o_quantity oi, o_price = 0, o_note = Some (''Remake: '' @ reason),
            o_options = o_options oi, o_recipeAt = Some now, o_status = Serve_PENDING, o_isPaid = True,
            o_invoiceId = None, o_readyAt = None\<rparr>
      in (new, d\<lparr>nextId := Suc (nextId d), orderItems := orderItems d @ [new],
            recipeRows := recipeRows d @ map (\<lambda>(i, q). \<lparr>r_orderItemId = nextId d, r_inventoryItemId = i, r_quantity = q\<rparr>)
              (originalRecipe d oi)\<rparr>))"

definition insertRemake :: "id \<Rightarrow> id \<Rightarrow> id \<Rightarrow> string \<Rightarrow> string \<Rightarrow> db \<Rightarrow> db res" where
  "insertRemake orig repl emp reason key d =
     require (\<forall>m\<in>set (orderRemakes d). m_originalId m \<noteq> orig \<and> m_replacementId m \<noteq> repl)
       (Conflict ''already remade'')
       (Inr (d\<lparr>nextId := Suc (nextId d), orderRemakes := orderRemakes d @ [\<lparr>m_id = nextId d, m_originalId = orig,
          m_replacementId = repl, m_requestedById = emp, m_reason = reason, m_key = key\<rparr>]\<rparr>))"

definition remakable :: "db \<Rightarrow> orderSession \<Rightarrow> orderItem \<Rightarrow> bool" where
  "remakable d s oi \<longleftrightarrow>
     o_isPaid oi \<and> o_status oi = Serve_SERVED \<and> invoicePaid d oi \<and> s_status s \<noteq> Session_CANCELLED \<and>
     (s_tableId s = None \<or> s_status s = Session_ACTIVE)"

definition remakeItem :: "id \<Rightarrow> id \<Rightarrow> string \<Rightarrow> string \<Rightarrow> time \<Rightarrow> db \<Rightarrow> db res" where
  "remakeItem oid emp reason key now d =
     assertActiveEmployee emp d
     (case find (\<lambda>m. m_requestedById m = emp \<and> m_key m = key) (orderRemakes d) of
        Some m \<Rightarrow> require (m_originalId m = oid \<and> m_reason m = reason) (Conflict ''different remake'') (Inr d)
      | None \<Rightarrow>
          fetch (findOrderItem d oid) (NotFound ''order item'') (\<lambda>oi.
          fetch (findSession d (o_sessionId oi)) (NotFound ''session'') (\<lambda>s.
          require (remakable d s oi) (Conflict ''not handed off'')
          (require (\<not> isRemade d oid \<and> \<not> isReplacement d oid) (Conflict ''already remade'')
          (fetch (find (\<lambda>m. mi_id m = o_menuItemId oi) (menuItems d)) (NotFound ''menu item'') (\<lambda>mi.
           require (mi_deletedAt mi = None \<and>
               (case stationOf d mi of None \<Rightarrow> False | Some k \<Rightarrow> ks_deletedAt k = None \<and> ks_isActive k))
             (Conflict ''station required'')
           (require (o_recipeAt oi \<noteq> None \<or> (\<exists>n\<in>set (snapshots d). n_orderItemId n = oid)) (Conflict ''no recipe'')
           (andThen (readSelectedOptions (o_options oi)) (\<lambda>_.
            let nd = insertReplacement oi reason now d in
            andThen (insertRemake oid (o_id (fst nd)) emp reason key (snd nd)) (\<lambda>d2.
            andThen (createTickets (o_sessionId oi) [mi] [fst nd] None now (recordWaste oid emp reason d2)) (\<lambda>d3.
            Inr (enqueueOrderEvent ''ITEMS_ADDED'' (nextId (snd nd)) (affectedTableIds [s_tableId s]) now
              (addLog emp ''ORDER_ITEM_REMADE'' oid d3)))))))))))))"

section \<open>Moving a line through the kitchen\<close>

definition sessionIs :: "db \<Rightarrow> id \<Rightarrow> SessionStatus \<Rightarrow> bool" where
  "sessionIs d sid st \<longleftrightarrow> (\<exists>s\<in>set (orderSessions d). s_id s = sid \<and> s_status s = st)"

definition ticketAvailable :: "db \<Rightarrow> id \<Rightarrow> time option" where
  "ticketAvailable d oid =
     (case find (\<lambda>k. ki_orderItemId k = oid) (kitchenTicketItems d) of None \<Rightarrow> None
      | Some k \<Rightarrow> (case find (\<lambda>t. kt_id t = ki_ticketId k) (kitchenTickets d) of None \<Rightarrow> None
          | Some t \<Rightarrow> kt_availableAt t))"

text \<open>The pickup argument carries the invoice and the code shown at the counter.\<close>

definition pickupAccepted :: "'c signer \<Rightarrow> db \<Rightarrow> orderItem \<Rightarrow> id \<times> 'c \<Rightarrow> time \<Rightarrow> bool" where
  "pickupAccepted sign d oi p now \<longleftrightarrow>
     o_invoiceId oi = Some (fst p) \<and> o_isPaid oi \<and> invoicePaid d oi \<and>
     (case findInvoice d (fst p) of None \<Rightarrow> False
      | Some v \<Rightarrow> verifyPickupCode sign (fst p) (snd p) now v \<noteq> None)"

definition statusGuard :: "db \<Rightarrow> orderItem \<Rightarrow> orderSession \<Rightarrow> (id \<times> 'c) option \<Rightarrow> orderItem \<Rightarrow> bool" where
  "statusGuard d oi s pickup r \<longleftrightarrow>
     o_id r = o_id oi \<and> o_status r = o_status oi \<and> sessionIs d (o_sessionId r) (s_status s) \<and>
     (case pickup of None \<Rightarrow> True
      | Some p \<Rightarrow> o_invoiceId r = Some (fst p) \<and> o_isPaid r \<and> invoicePaid d r)"

definition applyStatus :: "orderItem \<Rightarrow> orderSession \<Rightarrow> ServeStatus \<Rightarrow> (id \<times> 'c) option \<Rightarrow> time \<Rightarrow> db \<Rightarrow> db res" where
  "applyStatus oi s st pickup now d =
     (let g = statusGuard d oi s pickup in
      require (cnt g (orderItems d) = 1) (Conflict ''order item changed'')
        (Inr (d\<lparr>orderItems := upd g (\<lambda>r. r\<lparr>o_status := st,
           o_readyAt := (if st = Serve_READY then Some now else o_readyAt r)\<rparr>) (orderItems d)\<rparr>)))"

definition changeItemStatus ::
  "'c signer \<Rightarrow> id \<Rightarrow> id \<Rightarrow> ServeStatus \<Rightarrow> bool \<Rightarrow> (id \<times> 'c) option \<Rightarrow> time \<Rightarrow> db \<Rightarrow> db res"
where
  "changeItemStatus sign oid emp st handoffOnly pickup now d =
     assertActiveEmployee emp d
     (fetch (findOrderItem d oid) (NotFound ''order item'') (\<lambda>oi.
      fetch (findSession d (o_sessionId oi)) (NotFound ''session'') (\<lambda>s.
      require (\<not> (s_status s = Session_CANCELLED \<or>
          (s_status s = Session_COMPLETED \<and> o_invoiceId oi = None \<and> \<not> isReplacement d oid)))
        (BadRequest ''session status'')
      (require (o_status oi \<noteq> Serve_CANCELLED) (BadRequest ''cancelled item'')
      (require (\<not> (st = Serve_SERVED \<and> s_online s \<noteq> None \<and> \<not> isReplacement d oid \<and> pickup = None))
        (Conflict ''pickup flow'')
      (require (case pickup of None \<Rightarrow> True | Some p \<Rightarrow> pickupAccepted sign d oi p now) (Conflict ''pickup unavailable'')
      (require (\<not> (handoffOnly \<and> (s_tableId s \<noteq> None \<or> (o_status oi \<noteq> Serve_READY \<and> o_status oi \<noteq> Serve_SERVED))))
        (Conflict ''not ready for handoff'')
      (require (\<not> (st = Serve_READY \<and> s_tableId s \<noteq> None)) (BadRequest ''takeaway only'')
      (if o_status oi = st then Inr d
       else assertServeStatusTransition (o_status oi) st
         (require (\<not> (st = Serve_COOKING \<and> (case ticketAvailable d oid of None \<Rightarrow> False | Some t \<Rightarrow> now < t)))
           (Conflict ''not due'')
         (andThen (applyStatus oi s st pickup now d) (\<lambda>d1.
          andThen (if st = Serve_COOKING then consumeOrderItem oi now d1 else Inr ([], d1)) (\<lambda>md.
          Inr (enqueueOrderEvent ''ITEM_STATUS_UPDATED'' oid (affectedTableIds [s_tableId s]) now
            (addLog emp ''ORDER_ITEM_STATUS_UPDATED'' oid (snd md))))))))))))))))"

definition updateItemStatus :: "'c signer \<Rightarrow> id \<Rightarrow> id \<Rightarrow> ServeStatus \<Rightarrow> time \<Rightarrow> db \<Rightarrow> db res" where
  "updateItemStatus sign oid emp st now d = changeItemStatus sign oid emp st False None now d"

definition handoffTakeawayItem :: "'c signer \<Rightarrow> id \<Rightarrow> id \<Rightarrow> time \<Rightarrow> db \<Rightarrow> db res" where
  "handoffTakeawayItem sign oid emp now d = changeItemStatus sign oid emp Serve_SERVED True None now d"

definition handoffWithPickupCode :: "'c signer \<Rightarrow> id \<Rightarrow> 'c \<Rightarrow> id \<Rightarrow> id \<Rightarrow> time \<Rightarrow> db \<Rightarrow> db res" where
  "handoffWithPickupCode sign vid code oid emp now d =
     changeItemStatus sign oid emp Serve_SERVED True (Some (vid, code)) now d"

section \<open>Cancelling\<close>

definition given :: "string option \<Rightarrow> bool" where
  "given r \<longleftrightarrow> (case r of None \<Rightarrow> False | Some x \<Rightarrow> x \<noteq> [])"

definition cancelNote :: "string option \<Rightarrow> string option \<Rightarrow> string option" where
  "cancelNote old reason =
     (if given reason
      then Some ((if given old then the old @ [CHR 0x0A] else []) @ ''Cancel reason: '' @ the reason)
      else old)"

definition cancelAllowed :: "db \<Rightarrow> orderItem \<Rightarrow> orderSession \<Rightarrow> db res \<Rightarrow> db res" where
  "cancelAllowed d oi s k =
     (if \<not> isReplacement d (o_id oi)
      then assertPosOrderMutationAllowed (s_online s)
        (assertNoPaidOrInvoicedItems [oi] (assertActiveSession (s_status s) k))
      else require (\<not> (s_status s = Session_CANCELLED \<or> o_status oi = Serve_SERVED))
        (Conflict ''handed-off remake'') k)"

definition cancelItem :: "id \<Rightarrow> id \<Rightarrow> string option \<Rightarrow> time \<Rightarrow> db \<Rightarrow> db res" where
  "cancelItem oid emp reason now d =
     assertActiveEmployee emp d
     (fetch (findOrderItem d oid) (NotFound ''order item'') (\<lambda>oi.
      fetch (findSession d (o_sessionId oi)) (NotFound ''session'') (\<lambda>s.
      cancelAllowed d oi s
      (require (o_status oi \<noteq> Serve_CANCELLED) (BadRequest ''already cancelled'')
      (require (\<not> (processed (o_status oi) \<and> \<not> given reason)) (BadRequest ''reason required'')
      (let g = (\<lambda>r. o_id r = oid \<and> o_isPaid r = isReplacement d oid \<and> o_invoiceId r = None \<and>
                   o_status r = o_status oi \<and> sessionIs d (o_sessionId r) (s_status s)) in
       require (cnt g (orderItems d) = 1) (Conflict ''order item changed'')
       (andThen (releaseReservations [oid] (d\<lparr>orderItems := upd g (\<lambda>r. r\<lparr>o_status := Serve_CANCELLED,
           o_note := cancelNote (o_note oi) reason\<rparr>) (orderItems d)\<rparr>)) (\<lambda>d1.
        andThen (cancelKitchenItems [oid] emp now d1) (\<lambda>d2.
        let d3 = (if processed (o_status oi) \<and> given reason then recordWaste oid emp (the reason) d2 else d2) in
        Inr (enqueueOrderEvent ''ITEM_STATUS_UPDATED'' oid (affectedTableIds [s_tableId s]) now
          (addLog emp ''ORDER_ITEM_CANCELLED'' oid d3)))))))))))"

text \<open>Common to \<open>cancelSession\<close> and \<open>clearTable\<close>: the lines, the session, the stock, the paper.\<close>

definition cancelLines :: "orderSession \<Rightarrow> id \<Rightarrow> time \<Rightarrow> db \<Rightarrow> db res" where
  "cancelLines s emp now d =
     assertNoPaidOrInvoicedItems (sessionItems d (s_id s))
     (assertNoProcessedItems (sessionItems d (s_id s))
     (let itemIds = map o_id (filter (\<lambda>oi. o_status oi \<noteq> Serve_CANCELLED) (sessionItems d (s_id s)));
          g = (\<lambda>r. s_id r = s_id s \<and> s_status r = Session_ACTIVE) in
      require (cnt g (orderSessions d) = 1) (Conflict ''session changed'')
      (andThen (releaseReservations itemIds
          (d\<lparr>orderItems := upd (\<lambda>oi. o_sessionId oi = s_id s \<and> \<not> paidOrInvoiced oi)
                (\<lambda>oi. oi\<lparr>o_status := Serve_CANCELLED\<rparr>) (orderItems d),
             orderSessions := upd g (\<lambda>r. r\<lparr>s_status := Session_CANCELLED\<rparr>) (orderSessions d)\<rparr>))
        (cancelKitchenItems itemIds emp now))))"

definition cancelSession :: "id \<Rightarrow> id \<Rightarrow> time \<Rightarrow> db \<Rightarrow> db res" where
  "cancelSession sid emp now d =
     assertActiveEmployee emp d
     (fetch (findSession d sid) (NotFound ''session'') (\<lambda>s.
      assertActiveSession (s_status s)
      (require (s_online s = None) (Conflict ''online order'')
      (andThen (cancelLines s emp now d) (\<lambda>d1.
       let d2 = (case s_tableId s of None \<Rightarrow> d1 | Some t \<Rightarrow> setTables (\<lambda>r. t_id r = t) Table_EMPTY d1) in
       Inr (enqueueOrderEvent ''SESSION_CANCELLED'' sid (affectedTableIds [s_tableId s]) now
         (addLog emp ''ORDER_SESSION_CANCELLED'' sid d2)))))))"

definition clearTable :: "id \<Rightarrow> id option \<Rightarrow> id \<Rightarrow> time \<Rightarrow> db \<Rightarrow> db res" where
  "clearTable tid expected emp now d =
     assertActiveEmployee emp d
     (fetch (findTable d tid) (NotFound ''table'') (\<lambda>_.
      require (map_option s_id (activeOn d tid) = expected) (Conflict ''table session changed'')
      (andThen (case activeOn d tid of None \<Rightarrow> Inr d | Some s \<Rightarrow> cancelLines s emp now d) (\<lambda>d1.
       Inr (enqueueOrderEvent ''TABLE_CLEARED'' tid (affectedTableIds [Some tid]) now
         (addLog emp ''ORDER_TABLE_CLEARED'' tid (setTables (\<lambda>r. t_id r = tid) Table_EMPTY d1)))))))"

end
