(* ===== verification/Order_Tables.thy ===== *)
theory Order_Tables
  imports Orders
begin

text \<open>
  The operations of \<open>OrdersService\<close> (\<open>src/app/orders/orders.service.ts\<close>) that move
  sessions and lines between tables: transfer, merge, split, and completing a session.
\<close>

section \<open>Transfer\<close>

definition transferTable :: "id \<Rightarrow> id \<Rightarrow> id \<Rightarrow> id \<Rightarrow> time \<Rightarrow> db \<Rightarrow> db res" where
  "transferTable sid fromT toT emp now d =
     assertActiveEmployee emp d
     (fetch (findTable d fromT) (NotFound ''table'') (\<lambda>_.
      fetch (findTable d toT) (NotFound ''table'') (\<lambda>t.
      require (t_status t = Table_EMPTY) (BadRequest ''target not empty'')
      (fetch (find (\<lambda>s. s_id s = sid \<and> s_tableId s = Some fromT \<and> s_status s = Session_ACTIVE) (orderSessions d))
         (Conflict ''source session changed'') (\<lambda>s.
      require (activeOn d toT = None) (Conflict ''target has session'')
      (let gt = (\<lambda>r. t_id r = toT \<and> t_status r = Table_EMPTY);
           gs = (\<lambda>r. s_id r = s_id s \<and> s_tableId r = Some fromT \<and> s_status r = Session_ACTIVE);
           d1 = setTables gt Table_OCCUPIED d;
           d2 = d1\<lparr>orderSessions := upd gs (\<lambda>r. r\<lparr>s_tableId := Some toT\<rparr>) (orderSessions d1)\<rparr>;
           d3 = setTables (\<lambda>r. t_id r = fromT \<and> t_status r = Table_OCCUPIED) Table_EMPTY d2
       in require (cnt gt (diningTables d) = 1) (Conflict ''target changed'')
         (require (cnt gs (orderSessions d1) = 1) (Conflict ''session changed'')
           (Inr (enqueueOrderEvent ''SESSION_TABLE_TRANSFERRED'' (s_id s) (affectedTableIds [Some fromT, Some toT]) now
             (addLog emp ''ORDER_TABLE_TRANSFERRED'' (s_id s) d3))))))))))"

section \<open>Merge\<close>

text \<open>\<open>MergeDiningTableSchema\<close>: the shape of the request that reaches the service.\<close>

definition mergeRequest :: "id list \<Rightarrow> id \<Rightarrow> id list \<Rightarrow> id \<Rightarrow> bool" where
  "mergeRequest sourceTables destTable sources dest \<longleftrightarrow>
     sources \<noteq> [] \<and> length sources \<le> 20 \<and> sourceTables \<noteq> [] \<and> length sourceTables \<le> 20 \<and>
     length sources = length sourceTables \<and> distinct sources \<and> dest \<notin> set sources \<and>
     destTable \<notin> set sourceTables \<and> distinct sourceTables"

definition sourceSessionsOf :: "db \<Rightarrow> id list \<Rightarrow> id list \<Rightarrow> orderSession list" where
  "sourceSessionsOf d sources tables =
     filter (\<lambda>s. s_id s \<in> set sources \<and> s_tableId s \<in> Some ` set tables \<and> s_status s = Session_ACTIVE)
       (orderSessions d)"

definition mergeTables :: "id list \<Rightarrow> id \<Rightarrow> id list \<Rightarrow> id \<Rightarrow> id \<Rightarrow> time \<Rightarrow> db \<Rightarrow> db res" where
  "mergeTables sourceTables destTable sources dest emp now d =
     assertActiveEmployee emp d
     (fetch (find (\<lambda>s. s_id s = dest \<and> s_tableId s = Some destTable \<and> s_status s = Session_ACTIVE) (orderSessions d))
        (Conflict ''destination changed'') (\<lambda>target.
      let tables = remdups sourceTables;
          srcs = sourceSessionsOf d sources tables;
          srcIds = map s_id srcs;
          g = (\<lambda>s. s_id s \<in> set srcIds \<and> s_status s = Session_ACTIVE)
      in require (length srcs = length tables) (Conflict ''sources changed'')
         (assertNoPaidOrInvoicedItems (sessionItems d (s_id target) @ concat (map (sessionItems d) srcIds))
         (require (cnt g (orderSessions d) = length srcIds) (Conflict ''sources changed'')
           (Inr (enqueueOrderEvent ''SESSIONS_MERGED'' (s_id target)
              (affectedTableIds (map Some tables @ [Some destTable])) now
              (addLog emp ''ORDER_TABLES_MERGED'' (s_id target)
                (setTables (\<lambda>t. t_id t \<in> set tables) Table_EMPTY
                  (d\<lparr>orderItems := upd (\<lambda>oi. o_sessionId oi \<in> set srcIds \<and> \<not> paidOrInvoiced oi)
                       (\<lambda>oi. oi\<lparr>o_sessionId := s_id target\<rparr>) (orderItems d),
                     orderSessions := upd g (\<lambda>s. s\<lparr>s_status := Session_COMPLETED\<rparr>) (orderSessions d)\<rparr>)))))))))"

section \<open>Split\<close>

record splitMove =
  sm_orderItemId :: id
  sm_toMove :: int
  sm_expected :: int

definition splitRequest :: "splitMove list \<Rightarrow> bool" where
  "splitRequest moves \<longleftrightarrow>
     moves \<noteq> [] \<and> length moves \<le> 100 \<and> distinct (map sm_orderItemId moves) \<and>
     (\<forall>m\<in>set moves. 0 < sm_toMove m \<and> 0 < sm_expected m)"

definition splitCheck :: "db \<Rightarrow> id \<Rightarrow> splitMove \<Rightarrow> unit \<Rightarrow> unit res" where
  "splitCheck d src m u =
     fetch (findOrderItem d (sm_orderItemId m)) (NotFound ''order item'') (\<lambda>oi.
     require (o_sessionId oi = src) (BadRequest ''not in source session'')
     (require (\<not> paidOrInvoiced oi) (BadRequest ''paid or invoiced'')
     (require (o_status oi \<noteq> Serve_CANCELLED) (BadRequest ''cancelled'')
     (require (o_quantity oi = sm_expected m) (Conflict ''data sync'')
     (require (sm_toMove m \<le> o_quantity oi) (BadRequest ''too many'')
     (require (\<not> (sm_toMove m < o_quantity oi \<and> o_status oi \<noteq> Serve_PENDING)) (BadRequest ''whole line only'')
       (Inr ())))))))"

definition splitGuard :: "orderItem \<Rightarrow> id \<Rightarrow> splitMove \<Rightarrow> orderItem \<Rightarrow> bool" where
  "splitGuard oi src m r \<longleftrightarrow>
     o_id r = o_id oi \<and> o_sessionId r = src \<and> o_quantity r = sm_expected m \<and> \<not> paidOrInvoiced r \<and>
     o_status r = o_status oi"

text \<open>The kitchen ticket item of a partly moved line is divided in the same proportion.\<close>

definition splitTicketItem :: "orderItem \<Rightarrow> id \<Rightarrow> int \<Rightarrow> db \<Rightarrow> db" where
  "splitTicketItem oi moved q d =
     (case find (\<lambda>k. ki_orderItemId k = o_id oi) (kitchenTicketItems d) of
        None \<Rightarrow> d
      | Some k \<Rightarrow> d\<lparr>nextId := Suc (nextId d),
          kitchenTicketItems := upd (\<lambda>r. ki_id r = ki_id k) (\<lambda>r. r\<lparr>ki_quantity := o_quantity oi - q\<rparr>)
              (kitchenTicketItems d)
            @ [\<lparr>ki_id = nextId d, ki_ticketId = ki_ticketId k, ki_orderItemId = moved, ki_quantity = q\<rparr>]\<rparr>)"

definition splitPart :: "orderItem \<Rightarrow> id \<Rightarrow> splitMove \<Rightarrow> db \<Rightarrow> orderItem \<times> db" where
  "splitPart oi dest m d =
     (let new = oi\<lparr>o_id := nextId d, o_sessionId := dest, o_quantity := sm_toMove m, o_isPaid := False,
            o_invoiceId := None, o_readyAt := None\<rparr>;
          recipe = (if o_recipeAt oi = None then []
            else map (\<lambda>r. r\<lparr>r_orderItemId := nextId d\<rparr>) (filter (\<lambda>r. r_orderItemId r = o_id oi) (recipeRows d)))
      in (new, d\<lparr>nextId := Suc (nextId d), orderItems := orderItems d @ [new],
            recipeRows := recipeRows d @ recipe\<rparr>))"

text \<open>\<open>d0\<close> is the state the lines were read in, \<open>OrderItem_quantity_positive_check\<close> the check.\<close>

definition splitLine :: "db \<Rightarrow> id \<Rightarrow> id \<Rightarrow> splitMove \<Rightarrow> kitchenMove list \<times> db \<Rightarrow> (kitchenMove list \<times> db) res" where
  "splitLine d0 src dest m st =
     fetch (findOrderItem d0 (sm_orderItemId m)) (NotFound ''order item'') (\<lambda>oi.
     let g = splitGuard oi src m; d = snd st in
     require (cnt g (orderItems d) = 1) (Conflict ''order item changed'')
     (if sm_toMove m = o_quantity oi
      then Inr (fst st, d\<lparr>orderItems := upd g (\<lambda>r. r\<lparr>o_sessionId := dest\<rparr>) (orderItems d)\<rparr>)
      else require (0 < sm_toMove m \<and> sm_toMove m < o_quantity oi) (Conflict ''OrderItem_quantity_positive_check'')
        (andThen (readSelectedOptions (o_options oi)) (\<lambda>_.
         let nd = splitPart oi dest m
               (d\<lparr>orderItems := upd g (\<lambda>r. r\<lparr>o_quantity := o_quantity oi - sm_toMove m\<rparr>) (orderItems d)\<rparr>)
         in Inr (fst st @ [\<lparr>km_orderItemId = o_id oi, km_moved = o_id (fst nd), km_original = o_quantity oi,
                   km_toMove = sm_toMove m\<rparr>],
                 splitTicketItem oi (o_id (fst nd)) (sm_toMove m) (snd nd))))))"

definition splitTable :: "id \<Rightarrow> id \<Rightarrow> splitMove list \<Rightarrow> id \<Rightarrow> time \<Rightarrow> db \<Rightarrow> db res" where
  "splitTable src destTable moves emp now d =
     require (distinct (map sm_orderItemId moves)) (BadRequest ''duplicate items'')
     (assertActiveEmployee emp d
     (fetch (findTable d destTable) (NotFound ''table'') (\<lambda>t.
      require (t_status t = Table_EMPTY) (BadRequest ''destination not available'')
      (fetch (find (\<lambda>s. s_id s = src \<and> s_status s = Session_ACTIVE) (orderSessions d))
         (BadRequest ''source not active'') (\<lambda>s.
      require (s_online s = None) (Conflict ''online order'')
      (require (activeOn d destTable = None) (Conflict ''destination has session'')
      (require (cnt (\<lambda>oi. o_id oi \<in> sm_orderItemId ` set moves) (orderItems d) = length moves)
         (NotFound ''order items'')
      (andThen (run_all (splitCheck d src) moves ()) (\<lambda>_.
       let gt = (\<lambda>r. t_id r = destTable \<and> t_status r = Table_EMPTY) in
       require (cnt gt (diningTables d) = 1) (Conflict ''destination changed'')
       (andThen (insertSession \<lparr>s_id = 0, s_status = Session_ACTIVE, s_tableId = Some destTable,
           s_employeeId = s_employeeId s, s_shiftId = s_shiftId s, s_guestCount = None, s_online = None\<rparr>
           (setTables gt Table_OCCUPIED d)) (\<lambda>sd.
        andThen (run_all (splitLine d src (fst sd)) moves ([], snd sd)) (\<lambda>md.
        andThen (splitKitchenItems emp (fst sd) (fst md) (snd md)) (\<lambda>d2.
        Inr (enqueueOrderEvent ''SESSION_SPLIT'' src (affectedTableIds [s_tableId s, Some destTable]) now
          (addLog emp ''ORDER_TABLE_SPLIT'' src d2)))))))))))))))"

section \<open>Completing a dine-in session\<close>

definition completeSession :: "id \<Rightarrow> id \<Rightarrow> time \<Rightarrow> db \<Rightarrow> db res" where
  "completeSession sid emp now d =
     assertActiveEmployee emp d
     (fetch (findSession d sid) (NotFound ''session'') (\<lambda>s.
      fetch (s_tableId s) (Conflict ''dine-in only'') (\<lambda>t.
      if s_status s = Session_COMPLETED then Inr d
      else require (s_status s = Session_ACTIVE \<and>
          (\<forall>oi\<in>set (sessionItems d sid). o_status oi = Serve_CANCELLED \<or> (o_isPaid oi \<and> o_status oi = Serve_SERVED)))
          (Conflict ''ORDER_SESSION_NOT_COMPLETE'')
        (let gs = (\<lambda>r. s_id r = sid \<and> s_status r = Session_ACTIVE);
             gt = (\<lambda>r. t_id r = t \<and> t_status r = Table_OCCUPIED)
         in require (cnt gs (orderSessions d) = 1 \<and> cnt gt (diningTables d) = 1) (Conflict ''session changed'')
            (Inr (enqueueOrderEvent ''SESSION_COMPLETED'' sid (affectedTableIds [s_tableId s]) now
              (addLog emp ''ORDER_SESSION_COMPLETED'' sid
                (setTables gt Table_EMPTY
                  (d\<lparr>orderSessions := upd gs (\<lambda>r. r\<lparr>s_status := Session_COMPLETED\<rparr>) (orderSessions d)\<rparr>)))))))))"

text \<open>
  Which tables the services called by an order operation leave alone. \<open>nonKitchen\<close> and
  \<open>nonStock\<close> blank the tables a service may write; equal images mean that it wrote no other.
\<close>

section \<open>Kitchen and printing\<close>

definition nonKitchen :: "db \<Rightarrow> db" where
  "nonKitchen d = d\<lparr>nextId := 0, kitchenTickets := [], kitchenTicketItems := [], printJobs := []\<rparr>"

lemma nonKitchenD:
  assumes "nonKitchen d' = nonKitchen d"
  shows "diningTables d' = diningTables d" "orderSessions d' = orderSessions d" "orderItems d' = orderItems d"
    "inventoryItems d' = inventoryItems d" "reservations d' = reservations d" "inventoryTxs d' = inventoryTxs d"
    "menuIngredients d' = menuIngredients d" "recipeRows d' = recipeRows d" "orderRemakes d' = orderRemakes d"
    "invoices d' = invoices d" "wastes d' = wastes d" "snapshots d' = snapshots d"
  using arg_cong [OF assms, of diningTables] arg_cong [OF assms, of orderSessions]
    arg_cong [OF assms, of orderItems] arg_cong [OF assms, of inventoryItems]
    arg_cong [OF assms, of reservations] arg_cong [OF assms, of inventoryTxs]
    arg_cong [OF assms, of menuIngredients] arg_cong [OF assms, of recipeRows]
    arg_cong [OF assms, of orderRemakes] arg_cong [OF assms, of invoices] arg_cong [OF assms, of wastes]
    arg_cong [OF assms, of snapshots]
  by (simp_all add: nonKitchen_def)

lemma createTicket_frame: "createTicket sid p now g d = Inr d' \<Longrightarrow> nonKitchen d' = nonKitchen d"
  by (auto simp: createTicket_def Let_def nonKitchen_def enqueueKitchenTicket_def split: option.splits)

lemma createTickets_frame: "createTickets sid mis ois p now d = Inr d' \<Longrightarrow> nonKitchen d' = nonKitchen d"
  using run_all_frame [where h = nonKitchen, OF _ createTicket_frame] by (auto simp: createTickets_def split: if_splits)

lemma splitJob_frame: "splitJob emp dest moves j d = Inr d' \<Longrightarrow> nonKitchen d' = nonKitchen d"
  by (auto simp: splitJob_def Let_def nonKitchen_def split: if_splits)

lemma splitKitchenItems_frame: "splitKitchenItems emp dest moves d = Inr d' \<Longrightarrow> nonKitchen d' = nonKitchen d"
  using run_all_frame [where h = nonKitchen, OF _ splitJob_frame] by (auto simp: splitKitchenItems_def split: if_splits)

lemma cancellation_parts_frame:
  "dropLines j ls d = Inr d' \<Longrightarrow> nonKitchen d' = nonKitchen d"
  "nonKitchen (cancellationSlip emp now j ls d) = nonKitchen d"
  by (auto simp: dropLines_def) (simp_all add: nonKitchen_def cancellationSlip_def Let_def)

lemma cancelJob_frame: "cancelJob emp ids now j d = Inr d' \<Longrightarrow> nonKitchen d' = nonKitchen d"
  by (cases "j_payload j")
     (auto simp: cancelJob_def Let_def cancellation_parts_frame(2) split: if_split_asm dest: cancellation_parts_frame(1))

lemma cancelKitchenItems_frame: "cancelKitchenItems ids emp now d = Inr d' \<Longrightarrow> nonKitchen d' = nonKitchen d"
  using run_all_frame [where h = nonKitchen, OF _ cancelJob_frame] by (auto simp: cancelKitchenItems_def split: if_splits)

lemmas createTickets_sel = nonKitchenD [OF createTickets_frame]
lemmas cancelKitchenItems_sel = nonKitchenD [OF cancelKitchenItems_frame]
lemmas splitKitchenItems_sel = nonKitchenD [OF splitKitchenItems_frame]

section \<open>Stock\<close>

definition nonStock :: "db \<Rightarrow> db" where
  "nonStock d = d\<lparr>nextId := 0, inventoryItems := [], reservations := [], recipeRows := [], orderItems := [],
     snapshots := [], inventoryTxs := [], wastes := [], outbox := []\<rparr>"

lemma nonStockD:
  assumes "nonStock d' = nonStock d"
  shows "diningTables d' = diningTables d" "orderSessions d' = orderSessions d"
    "menuIngredients d' = menuIngredients d" "orderRemakes d' = orderRemakes d" "invoices d' = invoices d"
    "funds d' = funds d" "cashTxs d' = cashTxs d" "cashierShifts d' = cashierShifts d" "printJobs d' = printJobs d"
    "kitchenTicketItems d' = kitchenTicketItems d"
  using arg_cong [OF assms, of diningTables] arg_cong [OF assms, of orderSessions]
    arg_cong [OF assms, of menuIngredients] arg_cong [OF assms, of orderRemakes]
    arg_cong [OF assms, of invoices] arg_cong [OF assms, of funds] arg_cong [OF assms, of cashTxs]
    arg_cong [OF assms, of cashierShifts] arg_cong [OF assms, of printJobs]
    arg_cong [OF assms, of kitchenTicketItems]
  by (simp_all add: nonStock_def)

lemma release_frame: "releaseReservations ids d = Inr d' \<Longrightarrow> nonStock d' = nonStock d \<and> orderItems d' = orderItems d
    \<and> recipeRows d' = recipeRows d"
  by (auto simp: releaseReservations_def Let_def nonStock_def split: if_splits)

lemma recordConsumption_frame:
  "recordConsumption oid ings now d = Inr (mvs, d') \<Longrightarrow> nonStock d' = nonStock d \<and> orderItems d' = orderItems d
    \<and> recipeRows d' = recipeRows d"
  by (auto simp: recordConsumption_def Let_def nonStock_def enqueue_def split: if_splits)

lemma consume_frame: "consumeOrderItem oi now d = Inr (mvs, d') \<Longrightarrow> nonStock d' = nonStock d \<and> orderItems d' = orderItems d
    \<and> recipeRows d' = recipeRows d"
  by (auto simp: consumeOrderItem_def Let_def nonStock_def dest!: recordConsumption_frame)

lemma waste_frame: "nonStock (recordWaste oid emp reason d) = nonStock d
    \<and> orderItems (recordWaste oid emp reason d) = orderItems d \<and> recipeRows (recordWaste oid emp reason d) = recipeRows d"
  by (simp add: recordWaste_def Let_def nonStock_def)

lemma reserve_frame: "reservePendingItems whr now d = Inr d' \<Longrightarrow> nonStock d' = nonStock d"
  by (auto simp: reservePendingItems_def Let_def nonStock_def snapshotLegacy_def)

lemma reserve_lines:
  assumes "reservePendingItems whr now d = Inr d'"
  obtains P where "orderItems d' = upd P (\<lambda>oi. oi\<lparr>o_recipeAt := Some now\<rparr>) (orderItems d)"
  using assms by (auto simp: reservePendingItems_def Let_def snapshotLegacy_def)

lemmas release_sel = nonStockD [OF conjunct1 [OF release_frame]]
lemmas consume_sel = nonStockD [OF conjunct1 [OF consume_frame]]
lemmas waste_sel = nonStockD [OF conjunct1 [OF waste_frame]]
lemmas reserve_sel = nonStockD [OF reserve_frame]

lemma release_lines: "releaseReservations ids d = Inr d' \<Longrightarrow> orderItems d' = orderItems d"
  using release_frame by blast

lemma consume_lines: "consumeOrderItem oi now d = Inr (mvs, d') \<Longrightarrow> orderItems d' = orderItems d"
  using consume_frame by blast

lemma waste_lines [simp]: "orderItems (recordWaste oid emp reason d) = orderItems d"
  using waste_frame by blast

section \<open>Setting tables\<close>

lemma setTables_sel [simp]:
  "orderSessions (setTables g st d) = orderSessions d" "orderItems (setTables g st d) = orderItems d"
  "inventoryItems (setTables g st d) = inventoryItems d" "reservations (setTables g st d) = reservations d"
  "inventoryTxs (setTables g st d) = inventoryTxs d" "menuIngredients (setTables g st d) = menuIngredients d"
  "recipeRows (setTables g st d) = recipeRows d" "orderRemakes (setTables g st d) = orderRemakes d"
  "invoices (setTables g st d) = invoices d" "nextId (setTables g st d) = nextId d"
  by (simp_all add: setTables_def)

lemma enqueueOrderEvent_sel [simp]:
  "diningTables (enqueueOrderEvent n a t w d) = diningTables d"
  "orderSessions (enqueueOrderEvent n a t w d) = orderSessions d"
  "orderItems (enqueueOrderEvent n a t w d) = orderItems d"
  "inventoryItems (enqueueOrderEvent n a t w d) = inventoryItems d"
  "reservations (enqueueOrderEvent n a t w d) = reservations d"
  "inventoryTxs (enqueueOrderEvent n a t w d) = inventoryTxs d"
  "menuIngredients (enqueueOrderEvent n a t w d) = menuIngredients d"
  "recipeRows (enqueueOrderEvent n a t w d) = recipeRows d"
  "orderRemakes (enqueueOrderEvent n a t w d) = orderRemakes d"
  "invoices (enqueueOrderEvent n a t w d) = invoices d"
  by (simp_all add: enqueueOrderEvent_def)

end
