(* ===== verification/Table_Facts.thy ===== *)
theory Table_Facts
  imports Order_Tables
begin

text \<open>
  Tables and sessions: a dining table is OCCUPIED exactly while one active session sits at it.
  The list lemmas say how the updates the order operations make keep this; the operation lemmas
  put them together.
\<close>

section \<open>Occupancy of a list of tables by a list of sessions\<close>

definition sitsAt :: "id \<Rightarrow> orderSession \<Rightarrow> bool" where
  "sitsAt t s \<longleftrightarrow> s_tableId s = Some t \<and> s_status s = Session_ACTIVE"

definition occ :: "diningTable list \<Rightarrow> orderSession list \<Rightarrow> bool" where
  "occ ts ss \<longleftrightarrow>
     (\<forall>r\<in>set ts. cnt (sitsAt (t_id r)) ss = of_bool (t_status r = Table_OCCUPIED)) \<and>
     (\<forall>s\<in>set ss. \<forall>t. sitsAt t s \<longrightarrow> t \<in> t_id ` set ts)"

definition table_inv :: "db \<Rightarrow> bool" where
  "table_inv d \<longleftrightarrow> occ (diningTables d) (orderSessions d)"

lemma table_inv_cong:
  "diningTables d' = diningTables d \<Longrightarrow> orderSessions d' = orderSessions d \<Longrightarrow> table_inv d' = table_inv d"
  by (simp add: table_inv_def)

lemma occD:
  assumes "occ ts ss"
  shows "r \<in> set ts \<Longrightarrow> cnt (sitsAt (t_id r)) ss = of_bool (t_status r = Table_OCCUPIED)"
    and "s \<in> set ss \<Longrightarrow> sitsAt t s \<Longrightarrow> t \<in> t_id ` set ts"
  using assms by (auto simp: occ_def)

lemma occ_tableI:
  assumes "\<And>r. r \<in> set ts \<Longrightarrow> cnt (sitsAt (t_id r)) ss = of_bool (t_status r = Table_OCCUPIED)"
    and "\<And>s t. s \<in> set ss \<Longrightarrow> sitsAt t s \<Longrightarrow> t \<in> t_id ` set ts"
  shows "occ ts ss"
  using assms by (auto simp: occ_def)

lemma t_id_upd_status: "t_id ` set (upd g (\<lambda>t. t\<lparr>t_status := st\<rparr>) ts) = t_id ` set ts"
proof -
  have "map t_id (upd g (\<lambda>t. t\<lparr>t_status := st\<rparr>) ts) = map t_id ts" by (rule map_key_upd) simp
  then show ?thesis by (metis set_map)
qed

lemma occ_unique: "occ ts ss \<Longrightarrow> s \<in> set ss \<Longrightarrow> s' \<in> set ss \<Longrightarrow> sitsAt t s \<Longrightarrow> sitsAt t s' \<Longrightarrow> s = s'"
proof -
  assume a: "occ ts ss" "s \<in> set ss" "s' \<in> set ss" "sitsAt t s" "sitsAt t s'"
  then obtain r where "r \<in> set ts" "t_id r = t" using occD(2) by blast
  then have "cnt (sitsAt t) ss \<le> 1" using occD(1) [OF a(1)] by force
  then show ?thesis using a cnt_le_1_unique by metis
qed

lemma occ_takeaway: "occ ts ss \<Longrightarrow> s_tableId s = None \<Longrightarrow> occ ts (ss @ [s])"
  by (auto simp: occ_def sitsAt_def)

lemma occ_open:
  assumes "occ ts ss" and "distinct (map t_id ts)" and "\<exists>r\<in>set ts. t_id r = t \<and> P r"
    and "\<And>r. P r \<Longrightarrow> t_status r \<noteq> Table_OCCUPIED" and s: "sitsAt t s"
  shows "occ (upd (\<lambda>r. t_id r = t \<and> P r) (\<lambda>r. r\<lparr>t_status := Table_OCCUPIED\<rparr>) ts) (ss @ [s])"
proof (rule occ_tableI)
  obtain r0 where r0: "r0 \<in> set ts" "t_id r0 = t" "P r0" using assms(3) by blast
  fix r assume "r \<in> set (upd (\<lambda>r. t_id r = t \<and> P r) (\<lambda>r. r\<lparr>t_status := Table_OCCUPIED\<rparr>) ts)"
  then obtain r1 where r1: "r1 \<in> set ts" "r = (if t_id r1 = t \<and> P r1 then r1\<lparr>t_status := Table_OCCUPIED\<rparr> else r1)"
    by (rule mem_updE)
  show "cnt (sitsAt (t_id r)) (ss @ [s]) = of_bool (t_status r = Table_OCCUPIED)"
  proof (cases "t_id r1 = t")
    case True
    then have "r1 = r0" using distinct_key_eq [OF assms(2) r1(1) r0(1)] r0(2) by simp
    then show ?thesis using occD(1) [OF assms(1) r0(1)] assms(4) [OF r0(3)] r0 r1(2) s by simp
  next
    case False
    then have "\<not> sitsAt (t_id r1) s" using s by (simp add: sitsAt_def)
    then show ?thesis using False occD(1) [OF assms(1) r1(1)] r1(2) by simp
  qed
next
  fix s' t' assume "s' \<in> set (ss @ [s])" "sitsAt t' s'"
  moreover have "t \<in> t_id ` set ts" using assms(3) by blast
  ultimately show "t' \<in> t_id ` set (upd (\<lambda>r. t_id r = t \<and> P r) (\<lambda>r. r\<lparr>t_status := Table_OCCUPIED\<rparr>) ts)"
    using occD(2) [OF assms(1)] s unfolding t_id_upd_status by (auto simp: sitsAt_def)
qed

text \<open>Sessions \<open>I\<close> leave, tables \<open>T\<close> become free: whoever sits at \<open>T\<close> is in \<open>I\<close> and conversely.\<close>

lemma occ_close:
  assumes "occ ts ss" and st: "st \<noteq> Session_ACTIVE"
    and out: "\<And>s t. s \<in> set ss \<Longrightarrow> s_id s \<in> I \<Longrightarrow> sitsAt t s \<Longrightarrow> t \<in> T"
    and sole: "\<And>s t. s \<in> set ss \<Longrightarrow> sitsAt t s \<Longrightarrow> t \<in> T \<Longrightarrow> s_id s \<in> I"
    and P: "\<And>r. r \<in> set ts \<Longrightarrow> t_id r \<in> T \<Longrightarrow> t_status r = Table_OCCUPIED \<Longrightarrow> P r"
    and P': "\<And>r. r \<in> set ts \<Longrightarrow> P r \<Longrightarrow> t_id r \<in> T"
  shows "occ (upd P (\<lambda>r. r\<lparr>t_status := Table_EMPTY\<rparr>) ts)
    (upd (\<lambda>s. s_id s \<in> I \<and> s_status s = Session_ACTIVE) (\<lambda>s. s\<lparr>s_status := st\<rparr>) ss)" (is "occ ?ts ?ss")
proof (rule occ_tableI)
  have gone: "cnt (sitsAt t) ?ss = (if t \<in> T then 0 else cnt (sitsAt t) ss)" for t
  proof (cases "t \<in> T")
    case True
    have "\<not> sitsAt t s" if "s \<in> set ?ss" for s
    proof
      assume s: "sitsAt t s"
      from that obtain s0 where s0: "s0 \<in> set ss"
        and eq: "s = (if s_id s0 \<in> I \<and> s_status s0 = Session_ACTIVE then s0\<lparr>s_status := st\<rparr> else s0)"
        by (rule mem_updE)
      show False
        using sole [OF s0 _ True] s eq st by (cases "s_id s0 \<in> I \<and> s_status s0 = Session_ACTIVE") (auto simp: sitsAt_def)
    qed
    then show ?thesis using True by (simp add: cnt_zero_iff)
  next
    case False
    have "cnt (sitsAt t) ?ss = cnt (sitsAt t) ss"
    proof (rule cnt_upd_same)
      fix s assume "s \<in> set ss" "s_id s \<in> I \<and> s_status s = Session_ACTIVE"
      then have "\<not> sitsAt t s" using out False by blast
      then show "sitsAt t (s\<lparr>s_status := st\<rparr>) = sitsAt t s" using st by (simp add: sitsAt_def)
    qed
    then show ?thesis using False by simp
  qed
  fix r assume "r \<in> set ?ts"
  then obtain r0 where r0: "r0 \<in> set ts" "r = (if P r0 then r0\<lparr>t_status := Table_EMPTY\<rparr> else r0)"
    by (rule mem_updE)
  show "cnt (sitsAt (t_id r)) ?ss = of_bool (t_status r = Table_OCCUPIED)"
    using gone [of "t_id r0"] occD(1) [OF assms(1) r0(1)] P [OF r0(1)] P' [OF r0(1)] r0(2)
    by (auto split: if_splits)
next
  fix s t assume s: "s \<in> set ?ss" "sitsAt t s"
  then obtain s0 where "s0 \<in> set ss"
    "s = (if s_id s0 \<in> I \<and> s_status s0 = Session_ACTIVE then s0\<lparr>s_status := st\<rparr> else s0)"
    by (blast elim: mem_updE)
  then have "sitsAt t s0" using s(2) st by (auto simp: sitsAt_def split: if_splits)
  then show "t \<in> t_id ` set ?ts" using occD(2) [OF assms(1) \<open>s0 \<in> set ss\<close>] by (simp add: t_id_upd_status)
qed

lemma occ_move:
  assumes "occ ts ss" and "distinct (map t_id ts)" and "distinct (map s_id ss)"
    and s0: "s0 \<in> set ss" "sitsAt from s0" and free: "\<exists>r\<in>set ts. t_id r = to \<and> t_status r = Table_EMPTY"
  shows "occ (upd (\<lambda>r. t_id r = from \<and> t_status r = Table_OCCUPIED) (\<lambda>r. r\<lparr>t_status := Table_EMPTY\<rparr>)
        (upd (\<lambda>r. t_id r = to \<and> t_status r = Table_EMPTY) (\<lambda>r. r\<lparr>t_status := Table_OCCUPIED\<rparr>) ts))
      (upd (\<lambda>s. s_id s = s_id s0 \<and> s_tableId s = Some from \<and> s_status s = Session_ACTIVE) (\<lambda>s. s\<lparr>s_tableId := Some to\<rparr>) ss)"
    (is "occ ?ts (upd ?g ?f ss)")
proof (rule occ_tableI)
  obtain rt where rt: "rt \<in> set ts" "t_id rt = to" "t_status rt = Table_EMPTY" using free by blast
  have notto: "\<not> sitsAt to s" if "s \<in> set ss" for s
    using occD(1) [OF assms(1) rt(1)] rt that by (simp add: cnt_zero_iff)
  then have ne: "from \<noteq> to" using s0 by blast
  have "?g s0" using s0(2) by (simp add: sitsAt_def)
  have count: "cnt (sitsAt t) (upd ?g ?f ss) + of_bool (sitsAt t s0) = cnt (sitsAt t) ss + of_bool (sitsAt t (?f s0))" for t
    by (rule cnt_upd_key [where P = ?g and f = ?f and key = s_id, OF assms(3) s0(1) \<open>?g s0\<close>]) simp
  fix r assume "r \<in> set ?ts"
  then obtain r1 where "r1 \<in> set (upd (\<lambda>r. t_id r = to \<and> t_status r = Table_EMPTY) (\<lambda>r. r\<lparr>t_status := Table_OCCUPIED\<rparr>) ts)"
    and r1: "r = (if t_id r1 = from \<and> t_status r1 = Table_OCCUPIED then r1\<lparr>t_status := Table_EMPTY\<rparr> else r1)"
    by (rule mem_updE)
  then obtain r2 where r2: "r2 \<in> set ts"
    "r1 = (if t_id r2 = to \<and> t_status r2 = Table_EMPTY then r2\<lparr>t_status := Table_OCCUPIED\<rparr> else r2)"
    by (blast elim: mem_updE)
  have pre: "cnt (sitsAt (t_id r2)) ss = of_bool (t_status r2 = Table_OCCUPIED)" by (rule occD(1) [OF assms(1) r2(1)])
  show "cnt (sitsAt (t_id r)) (upd ?g ?f ss) = of_bool (t_status r = Table_OCCUPIED)"
  proof (cases "t_id r2 = to")
    case True
    then have "r2 = rt" using distinct_key_eq [OF assms(2) r2(1) rt(1)] rt(2) by simp
    then show ?thesis using count [of to] pre rt r1 r2(2) ne notto [OF s0(1)] s0(2)
      by (simp add: sitsAt_def)
  next
    case False
    then show ?thesis
      using count [of "t_id r2"] pre r1 r2(2) s0(2) 
      by (cases "t_id r2 = from"; cases "t_status r2 = Table_OCCUPIED") (auto simp: sitsAt_def)
  qed
next
  fix s t assume s: "s \<in> set (upd ?g ?f ss)" "sitsAt t s"
  then obtain s1 where s1: "s1 \<in> set ss" "s = (if ?g s1 then ?f s1 else s1)" by (blast elim: mem_updE)
  show "t \<in> t_id ` set ?ts"
  proof (cases "?g s1")
    case True
    then show ?thesis using s(2) s1(2) free by (auto simp: sitsAt_def t_id_upd_status)
  next
    case False
    then have "s = s1" using s1(2) by presburger
    then show ?thesis using s(2) occD(2) [OF assms(1) s1(1)] by (simp add: t_id_upd_status)
  qed
qed


section \<open>Operations keep the table invariant\<close>

lemma insertSession_effect:
  assumes "insertSession s d = Inr (sid, d')"
  shows "sid = nextId d" "orderSessions d' = orderSessions d @ [s\<lparr>s_id := nextId d\<rparr>]"
    "d' = d\<lparr>nextId := Suc (nextId d), orderSessions := orderSessions d @ [s\<lparr>s_id := nextId d\<rparr>]\<rparr>"
  using assms by (auto simp: insertSession_def)

lemma createOrderSession_effect:
  assumes "createOrderSession tableId emp guests now d = Inr (sid, d')"
  obtains s where "s_id s = sid" "s_status s = Session_ACTIVE" "s_tableId s = tableId" "s_online s = None"
    "orderSessions d' = orderSessions d @ [s]" "orderItems d' = orderItems d" "orderRemakes d' = orderRemakes d"
    "inventoryItems d' = inventoryItems d" "reservations d' = reservations d" "inventoryTxs d' = inventoryTxs d"
    "menuIngredients d' = menuIngredients d" "recipeRows d' = recipeRows d" "invoices d' = invoices d"
    "nextId d \<le> nextId d'" "menuItems d' = menuItems d" "sid = nextId d"
    "case tableId of None \<Rightarrow> diningTables d' = diningTables d
     | Some t \<Rightarrow> (\<exists>r\<in>set (diningTables d). t_id r = t \<and> t_deletedAt r = None \<and> t_status r = Table_EMPTY) \<and>
         diningTables d' = upd (\<lambda>r. t_id r = t \<and> t_deletedAt r = None \<and> t_status r = Table_EMPTY)
           (\<lambda>r. r\<lparr>t_status := Table_OCCUPIED\<rparr>) (diningTables d)"
proof -
  let ?s = "\<lparr>s_id = 0, s_status = Session_ACTIVE, s_tableId = tableId, s_employeeId = emp,
    s_shiftId = findOpenShiftId emp d, s_guestCount = guests, s_online = None\<rparr>"
  obtain d1 d2 where claim: "claimTable tableId d = Inr d1" and ins: "insertSession ?s d1 = Inr (sid, d2)"
    and d': "d' = enqueueOrderEvent ''SESSION_OPENED'' sid (affectedTableIds [tableId]) now d2"
    using assms by (auto simp: createOrderSession_def)
  have frame: "d1\<lparr>diningTables := []\<rparr> = d\<lparr>diningTables := []\<rparr>"
    using claim by (auto simp: claimTable_def setTables_def Let_def split: option.splits)
  note f = arg_cong [OF frame, of orderSessions] arg_cong [OF frame, of orderItems] arg_cong [OF frame, of orderRemakes]
    arg_cong [OF frame, of inventoryItems] arg_cong [OF frame, of reservations] arg_cong [OF frame, of inventoryTxs]
    arg_cong [OF frame, of menuIngredients] arg_cong [OF frame, of recipeRows] arg_cong [OF frame, of invoices]
    arg_cong [OF frame, of nextId] arg_cong [OF frame, of menuItems]
  have tables: "case tableId of None \<Rightarrow> diningTables d1 = diningTables d
     | Some t \<Rightarrow> (\<exists>r\<in>set (diningTables d). t_id r = t \<and> t_deletedAt r = None \<and> t_status r = Table_EMPTY) \<and>
         diningTables d1 = upd (\<lambda>r. t_id r = t \<and> t_deletedAt r = None \<and> t_status r = Table_EMPTY)
           (\<lambda>r. r\<lparr>t_status := Table_OCCUPIED\<rparr>) (diningTables d)"
  proof (cases tableId)
    case None
    then show ?thesis using claim by (simp add: claimTable_def)
  next
    case (Some t)
    let ?g = "\<lambda>r. t_id r = t \<and> t_deletedAt r = None \<and> t_status r = Table_EMPTY"
    have "cnt ?g (diningTables d) = 1" and "d1 = setTables ?g Table_OCCUPIED d"
      using claim Some by (simp_all add: claimTable_def Let_def)
    then show ?thesis using Some cnt_pos_iff [of ?g "diningTables d"] by (simp add: setTables_def)
  qed
  have dt: "diningTables d' = diningTables d1"
    using insertSession_effect [OF ins] d' by (simp add: enqueueOrderEvent_def enqueue_def)
  show ?thesis
    by (rule that [of "?s\<lparr>s_id := nextId d1\<rparr>"], unfold dt)
       (use insertSession_effect [OF ins] f tables d' in \<open>simp_all add: enqueueOrderEvent_def enqueue_def\<close>)
qed

end
