(* ===== verification/Order_Facts.thy ===== *)
theory Order_Facts
  imports Table_Facts
begin

text \<open>
  What each order operation does to tables, sessions and lines: the table invariant, the
  progress of lines, and, for any invariant of the stock contract, that it is kept.
\<close>

section \<open>Operations on lines leave tables and sessions alone\<close>

lemma insertPlanned_effect:
  assumes "insertPlanned sid planned now d = Inr (created, d')"
  shows "created = map (plannedItem sid now) (zip [nextId d..<nextId d + length planned] planned)"
    "d' = d\<lparr>nextId := nextId d + length planned, orderItems := orderItems d @ created,
       recipeRows := recipeRows d @ concat (map plannedRecipe (zip [nextId d..<nextId d + length planned] planned))\<rparr>"
    "\<forall>oi\<in>set created. 0 < o_quantity oi \<and> 0 \<le> o_price oi"
  using assms by (auto simp: insertPlanned_def Let_def)

lemma addOrderItems_steps:
  assumes "addOrderItemsInTransaction sid lines quotes p now d = Inr d'"
  obtains s mis planned created d1 d2 where
    "findSession d sid = Some s" "s_status s = Session_ACTIVE" "s_online s = None"
    "mapM (planLine d mis) (zip lines (case quotes of None \<Rightarrow> replicate (length lines) None | Some qs \<Rightarrow> map Some qs)) = Inr planned"
    "insertPlanned sid planned now d = Inr (created, d1)"
    "createTickets sid mis created p now d1 = Inr d2"
    "d' = enqueueOrderEvent ''ITEMS_ADDED'' sid (affectedTableIds [s_tableId s]) now d2"
    "mis = filter (\<lambda>m. mi_id m \<in> set (remdups (map ol_menuItemId lines)) \<and> orderable d m) (menuItems d)"
    "\<forall>qs. quotes = Some qs \<longrightarrow> length qs = length lines"
  using assms by (auto simp: addOrderItemsInTransaction_def Let_def split: option.splits)

lemma addOrderItems_effect:
  assumes "addOrderItemsInTransaction sid lines quotes p now d = Inr d'"
  shows "diningTables d' = diningTables d" "orderSessions d' = orderSessions d"
    "inventoryItems d' = inventoryItems d" "reservations d' = reservations d" "inventoryTxs d' = inventoryTxs d"
    "menuIngredients d' = menuIngredients d" "orderRemakes d' = orderRemakes d" "invoices d' = invoices d"
    "\<exists>new. orderItems d' = orderItems d @ new"
proof -
  obtain s :: orderSession and mis planned created d1 d2 where ins: "insertPlanned sid planned now d = Inr (created, d1)"
    and kit: "createTickets sid mis created p now d1 = Inr d2"
    and d': "d' = enqueueOrderEvent ''ITEMS_ADDED'' sid (affectedTableIds [s_tableId s]) now d2"
    by (rule addOrderItems_steps [OF assms]) (rule that)
  note e = createTickets_sel [OF kit] insertPlanned_effect(2) [OF ins]
  show "diningTables d' = diningTables d" "orderSessions d' = orderSessions d"
    "inventoryItems d' = inventoryItems d" "reservations d' = reservations d" "inventoryTxs d' = inventoryTxs d"
    "menuIngredients d' = menuIngredients d" "orderRemakes d' = orderRemakes d" "invoices d' = invoices d"
    "\<exists>new. orderItems d' = orderItems d @ new"
    by (simp_all add: d' e)
qed

lemma remake_steps:
  assumes "remakeItem oid emp reason key now d = Inr d'"
  obtains (replay) "d' = d" "find (\<lambda>m. m_requestedById m = emp \<and> m_key m = key) (orderRemakes d) \<noteq> None"
  | (new) oi s mi d2 d3 where
    "findOrderItem d oid = Some oi" "findSession d (o_sessionId oi) = Some s" "remakable d s oi"
    "\<not> isRemade d oid" "\<not> isReplacement d oid"
    "insertRemake oid (o_id (fst (insertReplacement oi reason now d))) emp reason key
       (snd (insertReplacement oi reason now d)) = Inr d2"
    "createTickets (o_sessionId oi) [mi] [fst (insertReplacement oi reason now d)] None now (recordWaste oid emp reason d2) = Inr d3"
    "d' = enqueueOrderEvent ''ITEMS_ADDED'' (nextId (snd (insertReplacement oi reason now d))) (affectedTableIds [s_tableId s]) now
       (addLog emp ''ORDER_ITEM_REMADE'' oid d3)"
proof (cases "find (\<lambda>m. m_requestedById m = emp \<and> m_key m = key) (orderRemakes d)")
  case None
  obtain oi s where os: "findOrderItem d oid = Some oi" "findSession d (o_sessionId oi) = Some s"
    using assms None by (auto simp: remakeItem_def)
  obtain mi where mi: "find (\<lambda>m. mi_id m = o_menuItemId oi) (menuItems d) = Some mi"
    using assms None os by (auto simp: remakeItem_def)
  show ?thesis
    using assms None os mi by (clarsimp simp: remakeItem_def Let_def) (rule new [OF os])
next
  case (Some m)
  then have "d' = d" using assms by (simp add: remakeItem_def)
  then show ?thesis by (rule replay) (simp add: Some)
qed

lemma insertReplacement_sel:
  "orderItems (snd (insertReplacement oi reason now d)) = orderItems d @ [fst (insertReplacement oi reason now d)]"
  "diningTables (snd (insertReplacement oi reason now d)) = diningTables d"
  "orderSessions (snd (insertReplacement oi reason now d)) = orderSessions d"
  "inventoryItems (snd (insertReplacement oi reason now d)) = inventoryItems d"
  "reservations (snd (insertReplacement oi reason now d)) = reservations d"
  "inventoryTxs (snd (insertReplacement oi reason now d)) = inventoryTxs d"
  "menuIngredients (snd (insertReplacement oi reason now d)) = menuIngredients d"
  "orderRemakes (snd (insertReplacement oi reason now d)) = orderRemakes d"
  "invoices (snd (insertReplacement oi reason now d)) = invoices d"
  by (simp_all add: insertReplacement_def Let_def)

lemma insertRemake_effect:
  assumes "insertRemake orig repl emp reason key d = Inr d'"
  shows "orderRemakes d' = orderRemakes d @ [\<lparr>m_id = nextId d, m_originalId = orig, m_replacementId = repl,
      m_requestedById = emp, m_reason = reason, m_key = key\<rparr>]"
    "\<forall>m\<in>set (orderRemakes d). m_originalId m \<noteq> orig \<and> m_replacementId m \<noteq> repl"
    "orderItems d' = orderItems d" "diningTables d' = diningTables d" "orderSessions d' = orderSessions d"
    "inventoryItems d' = inventoryItems d" "reservations d' = reservations d" "inventoryTxs d' = inventoryTxs d"
    "menuIngredients d' = menuIngredients d" "invoices d' = invoices d"
  using assms by (auto simp: insertRemake_def)

lemma recordWaste_sel [simp]:
  "inventoryItems (recordWaste oid emp reason d) = inventoryItems d"
  "reservations (recordWaste oid emp reason d) = reservations d"
  "inventoryTxs (recordWaste oid emp reason d) = inventoryTxs d"
  by (simp_all add: recordWaste_def Let_def)

lemma remake_effect:
  assumes "remakeItem oid emp reason key now d = Inr d'"
  shows "diningTables d' = diningTables d" "orderSessions d' = orderSessions d"
    "inventoryItems d' = inventoryItems d" "reservations d' = reservations d" "inventoryTxs d' = inventoryTxs d"
    "menuIngredients d' = menuIngredients d" "invoices d' = invoices d"
    "\<exists>new. orderItems d' = orderItems d @ new"
proof -
  have "diningTables d' = diningTables d \<and> orderSessions d' = orderSessions d
    \<and> inventoryItems d' = inventoryItems d \<and> reservations d' = reservations d \<and> inventoryTxs d' = inventoryTxs d
    \<and> menuIngredients d' = menuIngredients d \<and> invoices d' = invoices d \<and> (\<exists>new. orderItems d' = orderItems d @ new)"
    using assms
  proof (cases rule: remake_steps)
    case (new oi s mi d2 d3)
    then show ?thesis
      using createTickets_sel [OF new(7)] insertRemake_effect [OF new(6)] insertReplacement_sel [of oi reason now d]
        waste_sel [of oid emp reason d2]
      by simp
  qed simp
  then show "diningTables d' = diningTables d" "orderSessions d' = orderSessions d"
    "inventoryItems d' = inventoryItems d" "reservations d' = reservations d" "inventoryTxs d' = inventoryTxs d"
    "menuIngredients d' = menuIngredients d" "invoices d' = invoices d" "\<exists>new. orderItems d' = orderItems d @ new"
    by blast+
qed

lemma changeItemStatus_steps:
  assumes "changeItemStatus sign oid emp st handoffOnly pickup now d = Inr d'"
  obtains oi s where "findOrderItem d oid = Some oi" "findSession d (o_sessionId oi) = Some s"
    "s_status s \<noteq> Session_CANCELLED" "o_status oi \<noteq> Serve_CANCELLED"
    "s_status s = Session_COMPLETED \<longrightarrow> o_invoiceId oi \<noteq> None \<or> isReplacement d oid"
    "st = Serve_SERVED \<longrightarrow> s_online s \<noteq> None \<longrightarrow> \<not> isReplacement d oid \<longrightarrow> pickup \<noteq> None"
    "case pickup of None \<Rightarrow> True | Some p \<Rightarrow> pickupAccepted sign d oi p now"
    "st = Serve_READY \<longrightarrow> s_tableId s = None"
    "(o_status oi = st \<and> d' = d) \<or>
     (\<exists>d1 mvs d2. serveTransition (o_status oi) st \<and> applyStatus oi s st pickup now d = Inr d1 \<and>
        (if st = Serve_COOKING then consumeOrderItem oi now d1 else Inr ([], d1)) = Inr (mvs, d2) \<and>
        d' = enqueueOrderEvent ''ITEM_STATUS_UPDATED'' oid (affectedTableIds [s_tableId s]) now
          (addLog emp ''ORDER_ITEM_STATUS_UPDATED'' oid d2))"
proof -
  obtain oi s where os: "findOrderItem d oid = Some oi" "findSession d (o_sessionId oi) = Some s"
    using assms by (auto simp: changeItemStatus_def)
  show ?thesis
    apply (rule that [OF os])
    using assms os
          apply (simp_all add: changeItemStatus_def split: if_split_asm)
    by (cases "st = Serve_COOKING"; auto)+
qed


lemma applyStatus_effect:
  "applyStatus oi s st pickup now d = Inr d' \<Longrightarrow>
     cnt (statusGuard d oi s pickup) (orderItems d) = 1 \<and>
     d' = d\<lparr>orderItems := upd (statusGuard d oi s pickup) (\<lambda>r. r\<lparr>o_status := st,
       o_readyAt := (if st = Serve_READY then Some now else o_readyAt r)\<rparr>) (orderItems d)\<rparr>"
  by (auto simp: applyStatus_def Let_def)

lemma cooking_step_sel:
  assumes "(if st = Serve_COOKING then consumeOrderItem oi now d1 else Inr ([], d1)) = Inr (mvs, d2)"
  shows "diningTables d2 = diningTables d1" "orderSessions d2 = orderSessions d1" "orderItems d2 = orderItems d1"
    "invoices d2 = invoices d1" "orderRemakes d2 = orderRemakes d1"
  using assms consume_sel [of oi now d1 mvs d2] consume_lines [of oi now d1 mvs d2] by (auto split: if_splits)

lemma changeItemStatus_effect:
  assumes "changeItemStatus sign oid emp st handoffOnly pickup now d = Inr d'"
  shows "diningTables d' = diningTables d" "orderSessions d' = orderSessions d" "invoices d' = invoices d"
    "orderRemakes d' = orderRemakes d"
proof -
  obtain oi :: orderItem and s :: orderSession where "(o_status oi = st \<and> d' = d) \<or>
     (\<exists>d1 mvs d2. serveTransition (o_status oi) st \<and> applyStatus oi s st pickup now d = Inr d1 \<and>
        (if st = Serve_COOKING then consumeOrderItem oi now d1 else Inr ([], d1)) = Inr (mvs, d2) \<and>
        d' = enqueueOrderEvent ''ITEM_STATUS_UPDATED'' oid (affectedTableIds [s_tableId s]) now
          (addLog emp ''ORDER_ITEM_STATUS_UPDATED'' oid d2))"
    by (rule changeItemStatus_steps [OF assms]) (rule that)
  then have "diningTables d' = diningTables d \<and> orderSessions d' = orderSessions d \<and> invoices d' = invoices d
      \<and> orderRemakes d' = orderRemakes d"
  proof (elim disjE exE conjE)
    fix d1 mvs d2
    assume "applyStatus oi s st pickup now d = Inr d1"
      and c: "(if st = Serve_COOKING then consumeOrderItem oi now d1 else Inr ([], d1)) = Inr (mvs, d2)"
      and d': "d' = enqueueOrderEvent ''ITEM_STATUS_UPDATED'' oid (affectedTableIds [s_tableId s]) now
          (addLog emp ''ORDER_ITEM_STATUS_UPDATED'' oid d2)"
    then show ?thesis using applyStatus_effect [of oi s st pickup now d d1] cooking_step_sel [OF c] by simp
  qed simp
  then show "diningTables d' = diningTables d" "orderSessions d' = orderSessions d" "invoices d' = invoices d"
    "orderRemakes d' = orderRemakes d" by blast+
qed

section \<open>Cancelling\<close>

lemma cancelItem_steps:
  assumes "cancelItem oid emp reason now d = Inr d'"
  obtains oi s d1 d2 where "findOrderItem d oid = Some oi" "findSession d (o_sessionId oi) = Some s"
    "o_status oi \<noteq> Serve_CANCELLED" "processed (o_status oi) \<longrightarrow> given reason"
    "\<not> isReplacement d oid \<longrightarrow> s_online s = None \<and> \<not> paidOrInvoiced oi \<and> s_status s = Session_ACTIVE"
    "isReplacement d oid \<longrightarrow> s_status s \<noteq> Session_CANCELLED \<and> o_status oi \<noteq> Serve_SERVED"
    "releaseReservations [oid] (d\<lparr>orderItems := upd (\<lambda>r. o_id r = oid \<and> o_isPaid r = isReplacement d oid \<and>
         o_invoiceId r = None \<and> o_status r = o_status oi \<and> sessionIs d (o_sessionId r) (s_status s))
       (\<lambda>r. r\<lparr>o_status := Serve_CANCELLED, o_note := cancelNote (o_note oi) reason\<rparr>) (orderItems d)\<rparr>) = Inr d1"
    "cnt (\<lambda>r. o_id r = oid \<and> o_isPaid r = isReplacement d oid \<and>
         o_invoiceId r = None \<and> o_status r = o_status oi \<and> sessionIs d (o_sessionId r) (s_status s)) (orderItems d) = 1"
    "cancelKitchenItems [oid] emp now d1 = Inr d2"
    "d' = enqueueOrderEvent ''ITEM_STATUS_UPDATED'' oid (affectedTableIds [s_tableId s]) now
       (addLog emp ''ORDER_ITEM_CANCELLED'' oid
         (if processed (o_status oi) \<and> given reason then recordWaste oid emp (the reason) d2 else d2))"
proof -
  obtain oi s where os: "findOrderItem d oid = Some oi" "findSession d (o_sessionId oi) = Some s"
    using assms by (auto simp: cancelItem_def)
  have oid: "o_id oi = oid" using os(1) find_Some_prop by (fastforce simp: findOrderItem_def)
  show ?thesis
    using assms os oid
    by (cases "isReplacement d oid")
       (clarsimp simp: cancelItem_def cancelAllowed_def Let_def; rule that [OF os]; simp)+
qed

lemma cancelItem_effect:
  assumes "cancelItem oid emp reason now d = Inr d'"
  shows "diningTables d' = diningTables d" "orderSessions d' = orderSessions d" "invoices d' = invoices d"
    "orderRemakes d' = orderRemakes d"
proof -
  obtain oi :: orderItem and s :: orderSession and P f d1 d2 where
    rel: "releaseReservations [oid] (d\<lparr>orderItems := upd P f (orderItems d)\<rparr>) = Inr d1"
    and kit: "cancelKitchenItems [oid] emp now d1 = Inr d2"
    and d': "d' = enqueueOrderEvent ''ITEM_STATUS_UPDATED'' oid (affectedTableIds [s_tableId s]) now
       (addLog emp ''ORDER_ITEM_CANCELLED'' oid
         (if processed (o_status oi) \<and> given reason then recordWaste oid emp (the reason) d2 else d2))"
    by (rule cancelItem_steps [OF assms]) (rule that)
  show "diningTables d' = diningTables d" "orderSessions d' = orderSessions d" "invoices d' = invoices d"
    "orderRemakes d' = orderRemakes d"
    using release_sel [OF rel] cancelKitchenItems_sel [OF kit] waste_sel [of oid emp "the reason" d2]
    by (simp_all add: d')
qed

lemma cancelLines_steps:
  assumes "cancelLines s emp now d = Inr d'"
  obtains d1 itemIds where
    "\<forall>oi\<in>set (sessionItems d (s_id s)). \<not> paidOrInvoiced oi \<and> \<not> processed (o_status oi)"
    "itemIds = map o_id (filter (\<lambda>oi. o_status oi \<noteq> Serve_CANCELLED) (sessionItems d (s_id s)))"
    "cnt (\<lambda>r. s_id r = s_id s \<and> s_status r = Session_ACTIVE) (orderSessions d) = 1"
    "releaseReservations itemIds (d\<lparr>orderItems := upd (\<lambda>oi. o_sessionId oi = s_id s \<and> \<not> paidOrInvoiced oi)
          (\<lambda>oi. oi\<lparr>o_status := Serve_CANCELLED\<rparr>) (orderItems d),
        orderSessions := upd (\<lambda>r. s_id r = s_id s \<and> s_status r = Session_ACTIVE)
          (\<lambda>r. r\<lparr>s_status := Session_CANCELLED\<rparr>) (orderSessions d)\<rparr>) = Inr d1"
    "cancelKitchenItems itemIds emp now d1 = Inr d'"
  using assms by (auto simp: cancelLines_def Let_def)

lemma cancelLines_effect:
  assumes "cancelLines s emp now d = Inr d'"
  shows "diningTables d' = diningTables d"
    "orderSessions d' = upd (\<lambda>r. s_id r = s_id s \<and> s_status r = Session_ACTIVE)
       (\<lambda>r. r\<lparr>s_status := Session_CANCELLED\<rparr>) (orderSessions d)"
    "orderItems d' = upd (\<lambda>oi. o_sessionId oi = s_id s \<and> \<not> paidOrInvoiced oi)
       (\<lambda>oi. oi\<lparr>o_status := Serve_CANCELLED\<rparr>) (orderItems d)"
    "invoices d' = invoices d" "orderRemakes d' = orderRemakes d"
  by (rule cancelLines_steps [OF assms],
      simp add: release_sel release_lines cancelKitchenItems_sel)+

end
