(* ===== verification/Order_Invariants.thy ===== *)
theory Order_Invariants
  imports Order_Facts
begin

text \<open>
  Every order operation keeps the table invariant and never moves a line backwards.
\<close>

section \<open>The table invariant\<close>

lemma findSession_SomeD: "findSession d i = Some s \<Longrightarrow> s \<in> set (orderSessions d) \<and> s_id s = i"
  unfolding findSession_def by (rule find_SomeD)

lemma activeOn_SomeD: "activeOn d t = Some s \<Longrightarrow> s \<in> set (orderSessions d) \<and> sitsAt t s"
  unfolding activeOn_def sitsAt_def by (drule find_SomeD) simp

lemma activeOn_NoneD: "activeOn d t = None \<Longrightarrow> s \<in> set (orderSessions d) \<Longrightarrow> \<not> sitsAt t s"
  by (auto simp: activeOn_def sitsAt_def find_None_iff)

lemma create_table_inv:
  assumes "createOrderSession tableId emp guests now d = Inr (sid, d')" and "keys_ok d" and "table_inv d"
  shows "table_inv d'"
proof -
  obtain s where s: "s_status s = Session_ACTIVE" "s_tableId s = tableId" "orderSessions d' = orderSessions d @ [s]"
    and t: "case tableId of None \<Rightarrow> diningTables d' = diningTables d
     | Some t \<Rightarrow> (\<exists>r\<in>set (diningTables d). t_id r = t \<and> t_deletedAt r = None \<and> t_status r = Table_EMPTY) \<and>
         diningTables d' = upd (\<lambda>r. t_id r = t \<and> t_deletedAt r = None \<and> t_status r = Table_EMPTY)
           (\<lambda>r. r\<lparr>t_status := Table_OCCUPIED\<rparr>) (diningTables d)"
    by (rule createOrderSession_effect [OF assms(1)]) (rule that)
  show ?thesis
  proof (cases tableId)
    case None
    then show ?thesis using s t assms(3) by (simp add: table_inv_def occ_takeaway)
  next
    case (Some t0)
    have "occ (upd (\<lambda>r. t_id r = t0 \<and> t_deletedAt r = None \<and> t_status r = Table_EMPTY)
           (\<lambda>r. r\<lparr>t_status := Table_OCCUPIED\<rparr>) (diningTables d)) (orderSessions d @ [s])"
      by (rule occ_open) (use assms(2,3) s t Some keys_okD(1) in \<open>auto simp: table_inv_def sitsAt_def\<close>)
    then show ?thesis using s t Some by (simp add: table_inv_def)
  qed
qed

lemma checkIn_steps:
  assumes "checkInReservation rid emp now d = Inr (sid, d')"
  obtains b d1 where "createOrderSession (Some (b_tableId b)) emp (b_guestCount b) now d = Inr (sid, d1)"
    "d' = addLog emp ''RESERVATION_CHECKED_IN'' rid (d1\<lparr>tableReservations :=
       upd (\<lambda>r. b_id r = rid \<and> b_pending r \<and> b_sessionId r = None)
         (\<lambda>r. r\<lparr>b_pending := False, b_arrived := True, b_checkedInAt := Some now, b_sessionId := Some sid\<rparr>)
         (tableReservations d1)\<rparr>)"
    "find (\<lambda>b. b_id b = rid) (tableReservations d) = Some b"
  using assms by (auto simp: checkInReservation_def Let_def)

lemma checkIn_table_inv:
  assumes "checkInReservation rid emp now d = Inr (sid, d')" and "keys_ok d" and "table_inv d"
  shows "table_inv d'"
  by (rule checkIn_steps [OF assms(1)]) (use create_table_inv [OF _ assms(2,3)] in \<open>simp add: table_inv_def\<close>)

lemma add_table_inv:
  "addOrderItems sid lines emp now d = Inr d' \<Longrightarrow> table_inv d \<Longrightarrow> table_inv d'"
  using addOrderItems_effect(1,2) by (auto simp: addOrderItems_def table_inv_def)

lemma online_steps:
  assumes "createOnlineTakeawaySession emp lines quotes p now d = Inr (sid, d')"
  obtains d1 d2 where "createOrderSession None emp None now d = Inr (sid, d1)"
    "addOrderItemsInTransaction sid lines (Some quotes) p now d1 = Inr d2"
    "reserveSession sid now d2 = Inr d'"
  using assms by (auto simp: createOnlineTakeawaySession_def)

lemma online_table_inv:
  assumes "createOnlineTakeawaySession emp lines quotes p now d = Inr (sid, d')" and "keys_ok d" and "table_inv d"
  shows "table_inv d'"
proof -
  obtain d1 d2 where st: "createOrderSession None emp None now d = Inr (sid, d1)"
    "addOrderItemsInTransaction sid lines (Some quotes) p now d1 = Inr d2" "reserveSession sid now d2 = Inr d'"
    by (rule online_steps [OF assms(1)]) (rule that)
  have "table_inv d1" by (rule create_table_inv [OF st(1) assms(2,3)])
  then show ?thesis
    using addOrderItems_effect [OF st(2)] reserve_sel [OF st(3) [unfolded reserveSession_def]]
    by (simp add: table_inv_def)
qed

lemma remake_table_inv: "remakeItem oid emp reason key now d = Inr d' \<Longrightarrow> table_inv d \<Longrightarrow> table_inv d'"
  using remake_effect(1,2) by (simp add: table_inv_def)

lemma status_table_inv:
  "changeItemStatus sign oid emp st h p now d = Inr d' \<Longrightarrow> table_inv d \<Longrightarrow> table_inv d'"
  by (frule changeItemStatus_effect(1), drule changeItemStatus_effect(2)) (simp add: table_inv_def)

lemma cancelItem_table_inv: "cancelItem oid emp reason now d = Inr d' \<Longrightarrow> table_inv d \<Longrightarrow> table_inv d'"
  using cancelItem_effect(1,2) by (simp add: table_inv_def)

text \<open>One active session leaves its table.\<close>

lemma occ_leave:
  assumes "occ ts ss" and "distinct (map s_id ss)" and "s \<in> set ss" and "s_status s = Session_ACTIVE"
    and "st \<noteq> Session_ACTIVE" and P: "\<And>r. P r \<Longrightarrow> Some (t_id r) = s_tableId s"
    and P': "\<And>r. Some (t_id r) = s_tableId s \<Longrightarrow> t_status r = Table_OCCUPIED \<Longrightarrow> P r"
  shows "occ (upd P (\<lambda>r. r\<lparr>t_status := Table_EMPTY\<rparr>) ts)
    (upd (\<lambda>r. s_id r = s_id s \<and> s_status r = Session_ACTIVE) (\<lambda>r. r\<lparr>s_status := st\<rparr>) ss)"
proof -
  have "occ (upd P (\<lambda>r. r\<lparr>t_status := Table_EMPTY\<rparr>) ts)
    (upd (\<lambda>r. s_id r \<in> {s_id s} \<and> s_status r = Session_ACTIVE) (\<lambda>r. r\<lparr>s_status := st\<rparr>) ss)"
  proof (rule occ_close [where T = "{t. Some t = s_tableId s}", OF assms(1,5)])
    fix s' t assume "s' \<in> set ss" "s_id s' \<in> {s_id s}" "sitsAt t s'"
    moreover then have "s' = s" using distinct_key_eq [OF assms(2) _ assms(3)] by simp
    ultimately show "t \<in> {t. Some t = s_tableId s}" by (simp add: sitsAt_def)
  next
    fix s' t assume "s' \<in> set ss" "sitsAt t s'" "t \<in> {t. Some t = s_tableId s}"
    moreover then have "sitsAt t s" using assms(4) by (simp add: sitsAt_def)
    ultimately show "s_id s' \<in> {s_id s}" using occ_unique [OF assms(1) _ assms(3)] by blast
  next
    fix r :: diningTable assume "t_id r \<in> {t. Some t = s_tableId s}" "t_status r = Table_OCCUPIED"
    then show "P r" by (intro P') simp_all
  next
    fix r :: diningTable assume "P r"
    then show "t_id r \<in> {t. Some t = s_tableId s}" by (drule_tac P) simp
  qed
  then show ?thesis by simp
qed

lemma cancelSession_steps:
  assumes "cancelSession sid emp now d = Inr d'"
  obtains s d1 where "findSession d sid = Some s" "s_status s = Session_ACTIVE" "s_online s = None"
    "cancelLines s emp now d = Inr d1"
    "d' = enqueueOrderEvent ''SESSION_CANCELLED'' sid (affectedTableIds [s_tableId s]) now
       (addLog emp ''ORDER_SESSION_CANCELLED'' sid
         (case s_tableId s of None \<Rightarrow> d1 | Some t \<Rightarrow> setTables (\<lambda>r. t_id r = t) Table_EMPTY d1))"
  using assms by (auto simp: cancelSession_def Let_def)

lemma cancelSession_table_inv:
  assumes "cancelSession sid emp now d = Inr d'" and "keys_ok d" and "table_inv d"
  shows "table_inv d'"
proof -
  obtain s d1 where s: "findSession d sid = Some s" "s_status s = Session_ACTIVE"
    and c: "cancelLines s emp now d = Inr d1"
    and d': "d' = enqueueOrderEvent ''SESSION_CANCELLED'' sid (affectedTableIds [s_tableId s]) now
       (addLog emp ''ORDER_SESSION_CANCELLED'' sid
         (case s_tableId s of None \<Rightarrow> d1 | Some t \<Rightarrow> setTables (\<lambda>r. t_id r = t) Table_EMPTY d1))"
    by (rule cancelSession_steps [OF assms(1)]) (rule that)
  note e = cancelLines_effect [OF c]
  have "occ (upd (\<lambda>r. Some (t_id r) = s_tableId s) (\<lambda>r. r\<lparr>t_status := Table_EMPTY\<rparr>) (diningTables d)) (orderSessions d1)"
    unfolding e(2) by (rule occ_leave) (use assms(2,3) s findSession_SomeD [OF s(1)] keys_okD(2) in \<open>auto simp: table_inv_def\<close>)
  moreover have "upd (\<lambda>r. False) f (diningTables d) = diningTables d" for f by (rule upd_none) simp
  ultimately show ?thesis
    by (cases "s_tableId s") (simp_all add: d' table_inv_def setTables_def e(1))
qed

lemma clearTable_steps:
  assumes "clearTable tid expected emp now d = Inr d'"
  obtains d1 where "map_option s_id (activeOn d tid) = expected"
    "(case activeOn d tid of None \<Rightarrow> Inr d | Some s \<Rightarrow> cancelLines s emp now d) = Inr d1"
    "d' = enqueueOrderEvent ''TABLE_CLEARED'' tid (affectedTableIds [Some tid]) now
       (addLog emp ''ORDER_TABLE_CLEARED'' tid (setTables (\<lambda>r. t_id r = tid) Table_EMPTY d1))"
  using assms by (auto simp: clearTable_def)

lemma clearTable_table_inv:
  assumes "clearTable tid expected emp now d = Inr d'" and "keys_ok d" and "table_inv d"
  shows "table_inv d'"
proof -
  obtain d1 where c: "(case activeOn d tid of None \<Rightarrow> Inr d | Some s \<Rightarrow> cancelLines s emp now d) = Inr d1"
    and d': "d' = enqueueOrderEvent ''TABLE_CLEARED'' tid (affectedTableIds [Some tid]) now
       (addLog emp ''ORDER_TABLE_CLEARED'' tid (setTables (\<lambda>r. t_id r = tid) Table_EMPTY d1))"
    by (rule clearTable_steps [OF assms(1)]) (rule that)
  have "occ (upd (\<lambda>r. t_id r = tid) (\<lambda>r. r\<lparr>t_status := Table_EMPTY\<rparr>) (diningTables d)) (orderSessions d1)"
  proof (cases "activeOn d tid")
    case None
    have "occ (upd (\<lambda>r. t_id r = tid) (\<lambda>r. r\<lparr>t_status := Table_EMPTY\<rparr>) (diningTables d))
        (upd (\<lambda>s. s_id s \<in> {} \<and> s_status s = Session_ACTIVE) (\<lambda>s. s\<lparr>s_status := Session_CANCELLED\<rparr>) (orderSessions d))"
      by (rule occ_close [where T = "{tid}"]) (use assms(3) activeOn_NoneD [OF None] in \<open>auto simp: table_inv_def\<close>)
    moreover have "upd (\<lambda>s. s_id s \<in> {} \<and> s_status s = Session_ACTIVE) f (orderSessions d) = orderSessions d" for f
      by (rule upd_none) simp
    ultimately show ?thesis using c None by simp
  next
    case (Some s)
    note s = activeOn_SomeD [OF Some]
    have cl: "cancelLines s emp now d = Inr d1" using c Some by simp
    show ?thesis
      unfolding cancelLines_effect(2) [OF cl]
      by (rule occ_leave) (use assms(2,3) s keys_okD(2) in \<open>auto simp: table_inv_def sitsAt_def\<close>)
  qed
  moreover have "diningTables d1 = diningTables d"
    using c cancelLines_effect(1) by (auto split: option.splits)
  ultimately show ?thesis by (simp add: d' table_inv_def setTables_def)
qed

lemma complete_steps:
  assumes "completeSession sid emp now d = Inr d'"
  obtains (already) s where "d' = d" "findSession d sid = Some s" "s_status s = Session_COMPLETED"
  | (completes) s t where "findSession d sid = Some s" "s_tableId s = Some t" "s_status s = Session_ACTIVE"
    "\<forall>oi\<in>set (sessionItems d sid). o_status oi = Serve_CANCELLED \<or> (o_isPaid oi \<and> o_status oi = Serve_SERVED)"
    "d' = enqueueOrderEvent ''SESSION_COMPLETED'' sid (affectedTableIds [s_tableId s]) now
       (addLog emp ''ORDER_SESSION_COMPLETED'' sid
         (setTables (\<lambda>r. t_id r = t \<and> t_status r = Table_OCCUPIED) Table_EMPTY
           (d\<lparr>orderSessions := upd (\<lambda>r. s_id r = sid \<and> s_status r = Session_ACTIVE)
              (\<lambda>r. r\<lparr>s_status := Session_COMPLETED\<rparr>) (orderSessions d)\<rparr>)))"
  using assms by (auto simp: completeSession_def Let_def split: if_split_asm)

lemma complete_table_inv:
  assumes "completeSession sid emp now d = Inr d'" and "keys_ok d" and "table_inv d"
  shows "table_inv d'"
  using assms(1)
proof (cases rule: complete_steps)
  case already
  then show ?thesis using assms(3) by simp
next
  case (completes s t)
  have "occ (upd (\<lambda>r. t_id r = t \<and> t_status r = Table_OCCUPIED) (\<lambda>r. r\<lparr>t_status := Table_EMPTY\<rparr>) (diningTables d))
     (upd (\<lambda>r. s_id r = s_id s \<and> s_status r = Session_ACTIVE) (\<lambda>r. r\<lparr>s_status := Session_COMPLETED\<rparr>) (orderSessions d))"
    by (rule occ_leave) (use assms(2,3) completes findSession_SomeD [OF completes(1)] keys_okD(2) in \<open>auto simp: table_inv_def\<close>)
  then show ?thesis using findSession_SomeD [OF completes(1)] by (simp add: completes(5) table_inv_def setTables_def)
qed

lemma transfer_steps:
  assumes "transferTable sid from to emp now d = Inr d'"
  obtains s where "s \<in> set (orderSessions d)" "s_id s = sid" "sitsAt from s"
    "\<exists>r\<in>set (diningTables d). t_id r = to \<and> t_status r = Table_EMPTY"
    "d' = enqueueOrderEvent ''SESSION_TABLE_TRANSFERRED'' (s_id s) (affectedTableIds [Some from, Some to]) now
       (addLog emp ''ORDER_TABLE_TRANSFERRED'' (s_id s)
         (setTables (\<lambda>r. t_id r = from \<and> t_status r = Table_OCCUPIED) Table_EMPTY
           ((setTables (\<lambda>r. t_id r = to \<and> t_status r = Table_EMPTY) Table_OCCUPIED d)
             \<lparr>orderSessions := upd (\<lambda>r. s_id r = s_id s \<and> s_tableId r = Some from \<and> s_status r = Session_ACTIVE)
                (\<lambda>r. r\<lparr>s_tableId := Some to\<rparr>) (orderSessions d)\<rparr>)))"
proof -
  obtain s where f: "find (\<lambda>s. s_id s = sid \<and> s_tableId s = Some from \<and> s_status s = Session_ACTIVE) (orderSessions d) = Some s"
    using assms by (auto simp: transferTable_def)
  obtain r where r: "findTable d to = Some r" "t_status r = Table_EMPTY"
    using assms by (auto simp: transferTable_def)
  have "r \<in> set (diningTables d) \<and> t_id r = to"
    using r(1) find_SomeD by (fastforce simp: findTable_def)
  then show ?thesis
    using assms f r find_SomeD [OF f]
    by (intro that [of s]) (auto simp: transferTable_def Let_def sitsAt_def)
qed

lemma transfer_table_inv:
  assumes "transferTable sid from to emp now d = Inr d'" and "keys_ok d" and "table_inv d"
  shows "table_inv d'"
proof -
  obtain s where s: "s \<in> set (orderSessions d)" "sitsAt from s"
    and t: "\<exists>r\<in>set (diningTables d). t_id r = to \<and> t_status r = Table_EMPTY"
    and d': "d' = enqueueOrderEvent ''SESSION_TABLE_TRANSFERRED'' (s_id s) (affectedTableIds [Some from, Some to]) now
       (addLog emp ''ORDER_TABLE_TRANSFERRED'' (s_id s)
         (setTables (\<lambda>r. t_id r = from \<and> t_status r = Table_OCCUPIED) Table_EMPTY
           ((setTables (\<lambda>r. t_id r = to \<and> t_status r = Table_EMPTY) Table_OCCUPIED d)
             \<lparr>orderSessions := upd (\<lambda>r. s_id r = s_id s \<and> s_tableId r = Some from \<and> s_status r = Session_ACTIVE)
                (\<lambda>r. r\<lparr>s_tableId := Some to\<rparr>) (orderSessions d)\<rparr>)))"
    by (rule transfer_steps [OF assms(1)]) (rule that)
  show ?thesis
    using occ_move [OF _ keys_okD(1) [OF assms(2)] keys_okD(2) [OF assms(2)] s t] assms(3)
    by (simp add: d' table_inv_def setTables_def)
qed


section \<open>Merging and splitting\<close>

lemma merge_steps:
  assumes "mergeTables sourceTables destTable sources dest emp now d = Inr d'"
  obtains target srcs where "target \<in> set (orderSessions d)" "s_id target = dest" "sitsAt destTable target"
    "srcs = sourceSessionsOf d sources (remdups sourceTables)" "length srcs = length (remdups sourceTables)"
    "\<forall>oi\<in>set (sessionItems d dest). \<not> paidOrInvoiced oi"
    "\<forall>s\<in>set srcs. \<forall>oi\<in>set (sessionItems d (s_id s)). \<not> paidOrInvoiced oi"
    "d' = enqueueOrderEvent ''SESSIONS_MERGED'' dest
       (affectedTableIds (map Some (remdups sourceTables) @ [Some destTable])) now
       (addLog emp ''ORDER_TABLES_MERGED'' dest
         (setTables (\<lambda>t. t_id t \<in> set sourceTables) Table_EMPTY
           (d\<lparr>orderItems := upd (\<lambda>oi. o_sessionId oi \<in> s_id ` set srcs \<and> \<not> paidOrInvoiced oi)
                (\<lambda>oi. oi\<lparr>o_sessionId := dest\<rparr>) (orderItems d),
              orderSessions := upd (\<lambda>s. s_id s \<in> s_id ` set srcs \<and> s_status s = Session_ACTIVE)
                (\<lambda>s. s\<lparr>s_status := Session_COMPLETED\<rparr>) (orderSessions d)\<rparr>)))"
proof -
  obtain target where f: "find (\<lambda>s. s_id s = dest \<and> s_tableId s = Some destTable \<and> s_status s = Session_ACTIVE)
      (orderSessions d) = Some target"
    using assms by (auto simp: mergeTables_def)
  have t: "target \<in> set (orderSessions d)" "s_id target = dest" "sitsAt destTable target"
    using find_SomeD [OF f] by (auto simp: sitsAt_def)
  show ?thesis
    by (rule that [OF t refl]) (use assms f t(2) in \<open>auto simp: mergeTables_def Let_def\<close>)
qed

lemma merge_table_inv:
  assumes "mergeTables sourceTables destTable sources dest emp now d = Inr d'" and "keys_ok d" and "table_inv d"
  shows "table_inv d'"
proof -
  obtain srcs where srcs: "srcs = sourceSessionsOf d sources (remdups sourceTables)"
    and len: "length srcs = length (remdups sourceTables)"
    and d': "diningTables d' = upd (\<lambda>t. t_id t \<in> set sourceTables) (\<lambda>t. t\<lparr>t_status := Table_EMPTY\<rparr>) (diningTables d)"
      "orderSessions d' = upd (\<lambda>s. s_id s \<in> s_id ` set srcs \<and> s_status s = Session_ACTIVE)
         (\<lambda>s. s\<lparr>s_status := Session_COMPLETED\<rparr>) (orderSessions d)"
    by (rule merge_steps [OF assms(1)], rule that) (simp_all add: setTables_def)
  have inv: "occ (diningTables d) (orderSessions d)" using assms(3) by (simp add: table_inv_def)
  have src: "s \<in> set (orderSessions d) \<and> (\<exists>t\<in>set sourceTables. sitsAt t s)" if "s \<in> set srcs" for s
    using that by (auto simp: srcs sourceSessionsOf_def sitsAt_def)
  have sd: "distinct srcs" using keys_okD(2) [OF assms(2)] by (simp add: srcs sourceSessionsOf_def distinct_map)
  have "inj_on s_tableId (set srcs)"
  proof (rule inj_onI)
    fix s s' assume s: "s \<in> set srcs" "s' \<in> set srcs" "s_tableId s = s_tableId s'"
    then obtain t where "sitsAt t s" "sitsAt t s'" using src by (fastforce simp: sitsAt_def)
    then show "s = s'" using s src occ_unique [OF inv] by blast
  qed
  then have "card (s_tableId ` set srcs) = length srcs" using sd by (simp add: card_image distinct_card)
  moreover have "card (Some ` set sourceTables) = length srcs"
    using len by (simp add: card_image length_remdups_card_conv)
  moreover have "s_tableId ` set srcs \<subseteq> Some ` set sourceTables" using src by (fastforce simp: sitsAt_def)
  ultimately have all: "s_tableId ` set srcs = Some ` set sourceTables" by (simp add: card_subset_eq)
  have "occ (diningTables d') (orderSessions d')"
    unfolding d'
  proof (rule occ_close [where T = "set sourceTables", OF inv])
    fix s t assume s: "s \<in> set (orderSessions d)" "s_id s \<in> s_id ` set srcs" "sitsAt t s"
    then obtain s' where "s' \<in> set srcs" "s_id s' = s_id s" by force
    then have "s \<in> set srcs" using src s(1) distinct_key_eq [OF keys_okD(2) [OF assms(2)]] by metis
    then obtain t' where "t' \<in> set sourceTables" "sitsAt t' s" using src by blast
    then show "t \<in> set sourceTables" using s(3) by (simp add: sitsAt_def)
  next
    fix s t assume s: "s \<in> set (orderSessions d)" "sitsAt t s" "t \<in> set sourceTables"
    then have "Some t \<in> s_tableId ` set srcs" using all by blast
    then obtain s' where s': "s' \<in> set srcs" "s_tableId s' = Some t" by force
    then obtain t' where "sitsAt t' s'" using src by blast
    then have "sitsAt t s'" using s'(2) by (simp add: sitsAt_def)
    then have "s = s'" using occ_unique [OF inv s(1)] src s(2) s' by blast
    then show "s_id s \<in> s_id ` set srcs" using s' by blast
  qed simp_all
  then show ?thesis by (simp add: table_inv_def)
qed

text \<open>Splitting a line writes lines, recipes and kitchen ticket items only.\<close>

definition nonLines :: "kitchenMove list \<times> db \<Rightarrow> db" where
  "nonLines st = (snd st)\<lparr>nextId := 0, orderItems := [], recipeRows := [], kitchenTicketItems := []\<rparr>"

lemma splitLine_frame: "splitLine d0 src dest m st = Inr st' \<Longrightarrow> nonLines st' = nonLines st"
  by (auto simp: splitLine_def Let_def splitPart_def splitTicketItem_def nonLines_def split: if_split_asm option.splits)

lemma splitLines_sel:
  assumes "run_all (splitLine d0 src dest) moves st = Inr st'"
  shows "diningTables (snd st') = diningTables (snd st)" "orderSessions (snd st') = orderSessions (snd st)"
    "inventoryItems (snd st') = inventoryItems (snd st)" "reservations (snd st') = reservations (snd st)"
    "inventoryTxs (snd st') = inventoryTxs (snd st)" "invoices (snd st') = invoices (snd st)"
    "orderRemakes (snd st') = orderRemakes (snd st)"
proof -
  have f: "nonLines st' = nonLines st" by (rule run_all_frame [OF assms]) (rule splitLine_frame)
  show "diningTables (snd st') = diningTables (snd st)" "orderSessions (snd st') = orderSessions (snd st)"
    "inventoryItems (snd st') = inventoryItems (snd st)" "reservations (snd st') = reservations (snd st)"
    "inventoryTxs (snd st') = inventoryTxs (snd st)" "invoices (snd st') = invoices (snd st)"
    "orderRemakes (snd st') = orderRemakes (snd st)"
    using arg_cong [OF f, of diningTables] arg_cong [OF f, of orderSessions] arg_cong [OF f, of inventoryItems]
      arg_cong [OF f, of reservations] arg_cong [OF f, of inventoryTxs] arg_cong [OF f, of invoices]
      arg_cong [OF f, of orderRemakes]
    by (simp_all add: nonLines_def)
qed

lemma split_steps:
  assumes "splitTable src destTable moves emp now d = Inr d'"
  obtains s sid d1 ms d2 d3 where
    "distinct (map sm_orderItemId moves)"
    "s \<in> set (orderSessions d)" "s_id s = src" "s_status s = Session_ACTIVE" "s_online s = None"
    "\<exists>r\<in>set (diningTables d). t_id r = destTable \<and> t_status r = Table_EMPTY"
    "run_all (splitCheck d src) moves () = Inr ()"
    "insertSession \<lparr>s_id = 0, s_status = Session_ACTIVE, s_tableId = Some destTable, s_employeeId = s_employeeId s,
        s_shiftId = s_shiftId s, s_guestCount = None, s_online = None\<rparr>
       (setTables (\<lambda>r. t_id r = destTable \<and> t_status r = Table_EMPTY) Table_OCCUPIED d) = Inr (sid, d1)"
    "run_all (splitLine d src sid) moves ([], d1) = Inr (ms, d2)"
    "splitKitchenItems emp sid ms d2 = Inr d3"
    "d' = enqueueOrderEvent ''SESSION_SPLIT'' src (affectedTableIds [s_tableId s, Some destTable]) now
       (addLog emp ''ORDER_TABLE_SPLIT'' src d3)"
proof -
  obtain r where r: "findTable d destTable = Some r" "t_status r = Table_EMPTY"
    using assms by (auto simp: splitTable_def)
  have rt: "\<exists>r\<in>set (diningTables d). t_id r = destTable \<and> t_status r = Table_EMPTY"
    using r find_SomeD by (fastforce simp: findTable_def)
  obtain s where f: "find (\<lambda>s. s_id s = src \<and> s_status s = Session_ACTIVE) (orderSessions d) = Some s"
    using assms by (auto simp: splitTable_def)
  have s: "s \<in> set (orderSessions d)" "s_id s = src" "s_status s = Session_ACTIVE"
    using find_SomeD [OF f] by auto
  show ?thesis
    using assms r f by (clarsimp simp: splitTable_def Let_def) (rule that [OF _ s _ rt]; simp)
qed

lemma split_table_inv:
  assumes "splitTable src destTable moves emp now d = Inr d'" and "keys_ok d" and "table_inv d"
  shows "table_inv d'"
proof -
  obtain s :: orderSession and sid d1 ms d2 d3 where
    free: "\<exists>r\<in>set (diningTables d). t_id r = destTable \<and> t_status r = Table_EMPTY"
    and ins: "insertSession \<lparr>s_id = 0, s_status = Session_ACTIVE, s_tableId = Some destTable, s_employeeId = s_employeeId s,
        s_shiftId = s_shiftId s, s_guestCount = None, s_online = None\<rparr>
       (setTables (\<lambda>r. t_id r = destTable \<and> t_status r = Table_EMPTY) Table_OCCUPIED d) = Inr (sid, d1)"
    and lines: "run_all (splitLine d src sid) moves ([], d1) = Inr (ms, d2)"
    and kit: "splitKitchenItems emp sid ms d2 = Inr d3"
    and d': "d' = enqueueOrderEvent ''SESSION_SPLIT'' src (affectedTableIds [s_tableId s, Some destTable]) now
       (addLog emp ''ORDER_TABLE_SPLIT'' src d3)"
    by (rule split_steps [OF assms(1)]) (rule that)
  have e: "diningTables d2 = diningTables d1" "orderSessions d2 = orderSessions d1"
    using splitLines_sel [OF lines] by simp_all
  have "occ (upd (\<lambda>r. t_id r = destTable \<and> t_status r = Table_EMPTY) (\<lambda>r. r\<lparr>t_status := Table_OCCUPIED\<rparr>) (diningTables d))
      (orderSessions d1)"
    unfolding insertSession_effect(2) [OF ins] setTables_sel
    by (rule occ_open) (use assms(2,3) free keys_okD(1) in \<open>auto simp: table_inv_def sitsAt_def\<close>)
  moreover have "diningTables d1 = upd (\<lambda>r. t_id r = destTable \<and> t_status r = Table_EMPTY)
      (\<lambda>r. r\<lparr>t_status := Table_OCCUPIED\<rparr>) (diningTables d)"
    unfolding insertSession_effect(3) [OF ins] by (simp add: setTables_def)
  ultimately show ?thesis using e splitKitchenItems_sel [OF kit] by (simp add: d' table_inv_def)
qed

end
