(* ===== verification/Stock_Claims.thy ===== *)
theory Stock_Claims
  imports Stock_Facts
begin

text \<open>
  The properties of the stock service: the availability check agrees with the reservation
  loop, releasing undoes reserving, a reserved line can always be cooked, and cooking takes
  exactly the recipe out of stock.
\<close>

section \<open>Availability and reservation agree\<close>

lemma card_eq_subset: "finite B \<Longrightarrow> A \<subseteq> B \<Longrightarrow> card A = card B \<longleftrightarrow> B \<subseteq> A"
  using card_subset_eq [of B A] by auto

lemma canFulfill_iff:
  assumes "stock_keys d"
  shows "canFulfill reqs d \<longleftrightarrow>
    (\<forall>(k, q)\<in>set (totalRequirements reqs). \<exists>i\<in>set (inventoryItems d).
       i_id i = k \<and> itemActive d i \<and> q \<le> i_stock i - i_reserved i)"
proof (cases "totalRequirements reqs = []")
  case True
  then show ?thesis by (simp add: canFulfill_def)
next
  case False
  let ?T = "totalRequirements reqs"
  let ?F = "filter (\<lambda>i. i_id i \<in> fst ` set ?T \<and> itemActive d i) (inventoryItems d)"
  have key: "distinct (map i_id (inventoryItems d))" by (rule stock_keysD [OF assms])
  have "length ?F = card (i_id ` set ?F)"
    using distinct_card [of "map i_id ?F"] key by (simp add: distinct_map inj_on_def)
  moreover have "length ?T = card (fst ` set ?T)"
    using distinct_card [OF totals_distinct, of reqs] by simp
  moreover have "i_id ` set ?F \<subseteq> fst ` set ?T" by auto
  ultimately have len: "length ?F = length ?T \<longleftrightarrow> fst ` set ?T \<subseteq> i_id ` set ?F"
    using card_eq_subset [of "fst ` set ?T" "i_id ` set ?F"] by simp
  have mem: "(k, q) \<in> set ?T \<Longrightarrow> the (map_of ?T k) = q" for k q
    using map_of_eq_Some_iff [OF totals_distinct, of reqs k q] by simp
  have cf: "canFulfill reqs d \<longleftrightarrow> fst ` set ?T \<subseteq> i_id ` set ?F
      \<and> (\<forall>i\<in>set ?F. the (map_of ?T (i_id i)) \<le> i_stock i - i_reserved i)"
    unfolding canFulfill_def Let_def len using False by (simp only: if_False)
  show ?thesis
  proof
    assume "canFulfill reqs d"
    note LQ = this [unfolded cf]
    note L = LQ [THEN conjunct1] and Q = LQ [THEN conjunct2]
    show "\<forall>(k, q)\<in>set ?T. \<exists>i\<in>set (inventoryItems d). i_id i = k \<and> itemActive d i \<and> q \<le> i_stock i - i_reserved i"
    proof (clarify)
      fix k q assume kq: "(k, q) \<in> set ?T"
      then have "k \<in> fst ` set ?T" by force
      then have "k \<in> i_id ` set ?F" by (rule subsetD [OF L])
      then obtain i where i: "i \<in> set ?F" "i_id i = k" by (rule imageE) (rule that, simp_all)
      have "q \<le> i_stock i - i_reserved i" using bspec [OF Q i(1)] mem [OF kq] i(2) by simp
      then show "\<exists>i\<in>set (inventoryItems d). i_id i = k \<and> itemActive d i \<and> q \<le> i_stock i - i_reserved i"
        using i by auto
    qed
  next
    assume R: "\<forall>(k, q)\<in>set ?T. \<exists>i\<in>set (inventoryItems d). i_id i = k \<and> itemActive d i \<and> q \<le> i_stock i - i_reserved i"
    have "fst ` set ?T \<subseteq> i_id ` set ?F"
    proof
      fix k assume k: "k \<in> fst ` set ?T"
      then obtain q where "(k, q) \<in> set ?T" by force
      with R obtain i where "i \<in> set (inventoryItems d)" "i_id i = k" "itemActive d i" by blast
      with k show "k \<in> i_id ` set ?F" by auto
    qed
    moreover have "the (map_of ?T (i_id i)) \<le> i_stock i - i_reserved i" if i: "i \<in> set ?F" for i
    proof -
      from i obtain q where q: "(i_id i, q) \<in> set ?T" by auto
      with R obtain i' where "i' \<in> set (inventoryItems d)" "i_id i' = i_id i" "q \<le> i_stock i' - i_reserved i'" by blast
      then have "q \<le> i_stock i - i_reserved i" using distinct_key_eq [OF key, of i' i] i by auto
      then show ?thesis using mem [OF q] by simp
    qed
    ultimately show "canFulfill reqs d"
      unfolding cf by (intro conjI ballI)
  qed
qed

definition selected :: "(orderItem \<Rightarrow> bool) \<Rightarrow> db \<Rightarrow> orderItem list" where
  "selected whr d = filter (\<lambda>oi. whr oi \<and> o_status oi = Serve_PENDING) (orderItems d)"

definition newRows :: "db \<Rightarrow> orderItem \<Rightarrow> reservation list" where
  "newRows d oi = map (\<lambda>(i, q). \<lparr>h_orderItemId = o_id oi, h_inventoryItemId = i, h_quantity = q\<rparr>) (required d oi)"

lemma mapM_fresh:
  "(\<And>oi. oi \<in> set items \<Longrightarrow> heldBy d (o_id oi) = []) \<Longrightarrow> mapM (itemReservations d) items = Inr (map (newRows d) items)"
  by (induction items) (simp_all add: itemReservations_def newRows_def Let_def)

lemma newRows_pairs:
  "map (\<lambda>h. (h_inventoryItemId h, h_quantity h)) (concat (map (newRows d) items)) = concat (map (required d) items)"
  by (induction items) (simp_all add: newRows_def comp_def case_prod_unfold)

lemma newRows_positive:
  "(\<forall>h\<in>set (newRows d oi). 0 < h_quantity h) \<longleftrightarrow> (\<forall>(i, q)\<in>set (required d oi). 0 < q)"
  by (auto simp: newRows_def)

lemma reserve_fresh:
  assumes "\<And>oi. oi \<in> set (selected whr d) \<Longrightarrow> heldBy d (o_id oi) = []"
  shows "reservePendingItems whr now d =
    andThen (claim_rows i_id (\<lambda>q i. i_deletedAt i = None \<and> q \<le> i_stock i - i_reserved i \<and>
        itemActive d i) addReserved
        (Conflict ''INVENTORY_INSUFFICIENT_STOCK'')
        (totalRequirements (concat (map (required d) (selected whr d)))) (inventoryItems d))
      (\<lambda>its. require (\<forall>oi\<in>set (selected whr d). \<forall>(i, q)\<in>set (required d oi). 0 < q) (Conflict ''check quantity'')
        (Inr ((snapshotLegacy (selected whr d) now d)\<lparr>inventoryItems := its,
           reservations := reservations d @ concat (map (newRows d) (selected whr d))\<rparr>)))"
  using mapM_fresh [of "selected whr d" d] assms
  by (simp add: reservePendingItems_def selected_def [symmetric] Let_def newRows_pairs newRows_positive
      cong del: andThen_cong require_cong)

text \<open>C34: Reserving order lines that hold nothing yet succeeds exactly when the availability check
  \<open>canFulfill\<close> accepts the sum of their recipe requirements: the check shown to a customer
  and the guarded \<open>UPDATE\<close>s that take the stock agree.\<close>

theorem reserve_iff_canFulfill:
  assumes "stock_keys d"
    and "\<forall>oi\<in>set (selected whr d). heldBy d (o_id oi) = [] \<and> (\<forall>(i, q)\<in>set (required d oi). 0 < q)"
  shows "ok (reservePendingItems whr now d) \<longleftrightarrow> canFulfill (concat (map (required d) (selected whr d))) d"
proof -
  let ?T = "totalRequirements (concat (map (required d) (selected whr d)))"
  let ?g = "\<lambda>q i. i_deletedAt i = None \<and> q \<le> i_stock i - i_reserved i \<and> itemActive d i"
  have fresh: "oi \<in> set (selected whr d) \<Longrightarrow> heldBy d (o_id oi) = []" for oi using assms(2) by blast
  have "ok (reservePendingItems whr now d) \<longleftrightarrow>
      (\<exists>its. claim_rows i_id ?g addReserved (Conflict ''INVENTORY_INSUFFICIENT_STOCK'') ?T (inventoryItems d) = Inr its)"
    using assms(2) by (auto simp: reserve_fresh [OF fresh] ok_def andThen_def split: sum.splits)
  also have "\<dots> \<longleftrightarrow> (\<forall>(k, x)\<in>set ?T. \<exists>r\<in>set (inventoryItems d). i_id r = k \<and> ?g x r)"
    using claim_rows_iff [OF stock_keysD(1) [OF assms(1)], of addReserved ?T ?g] by simp
  also have "\<dots> \<longleftrightarrow> canFulfill (concat (map (required d) (selected whr d))) d"
    unfolding canFulfill_iff [OF assms(1)] by (fastforce simp: itemActive_def)
  finally show ?thesis .
qed

section \<open>A sample store\<close>

text \<open>Milk (10) and beans (11), one latte line (5) of two cups waiting to be cooked, and a
  served tea line (6).\<close>

definition sample_store :: db where
  "sample_store = empty_db\<lparr>
     employees := [\<lparr>e_id = 1, e_fullName = ''An'', e_isActive = True, e_deletedAt = None\<rparr>],
     units := [\<lparr>n_id = 2, n_name = ''gram'', n_deletedAt = None\<rparr>], categories := [\<lparr>n_id = 3, n_name = ''raw'', n_deletedAt = None\<rparr>],
     inventoryItems := [
       \<lparr>i_id = 10, i_name = ''beans'', i_stock = 50000, i_reserved = 0, i_avgCost = 120, i_reorder = 0, i_categoryId = 3, i_unitId = 2, i_deletedAt = None\<rparr>,
       \<lparr>i_id = 11, i_name = ''milk'', i_stock = 20000, i_reserved = 0, i_avgCost = 900, i_reorder = 0, i_categoryId = 3, i_unitId = 2, i_deletedAt = None\<rparr>],
     recipeRows := [\<lparr>r_orderItemId = 5, r_inventoryItemId = 11, r_quantity = 1800\<rparr>,
       \<lparr>r_orderItemId = 5, r_inventoryItemId = 10, r_quantity = 2500\<rparr>],
     orderSessions := [\<lparr>s_id = 4, s_status = Session_ACTIVE, s_tableId = None, s_employeeId = 1,
       s_shiftId = None, s_guestCount = None, s_online = None\<rparr>],
     orderItems := [
       \<lparr>o_id = 5, o_sessionId = 4, o_menuItemId = 20, o_quantity = 2, o_price = 4500, o_note = None, o_options = [],
        o_recipeAt = Some 0, o_status = Serve_PENDING, o_isPaid = False, o_invoiceId = None, o_readyAt = None\<rparr>,
       \<lparr>o_id = 6, o_sessionId = 4, o_menuItemId = 21, o_quantity = 1, o_price = 3000, o_note = None, o_options = [],
        o_recipeAt = Some 0, o_status = Serve_SERVED, o_isPaid = False, o_invoiceId = None, o_readyAt = None\<rparr>]\<rparr>"

lemmas sample_store_simps = sample_store_def empty_db_def

lemmas stock_eval = reserveSession_def reservePendingItems_def snapshotLegacy_def itemReservations_def heldBy_def
  required_def recipeOf_def totalRequirements_def addRequirement_def addReserved_def subReserved_def
  itemActive_def Let_def selected_def canFulfill_def releaseReservations_def

lemma sample_store_keys: "keys_ok sample_store" "stock_keys sample_store"
  by (simp_all add: keys_ok_def stock_keys_def one_open_shift_def sample_store_simps)

lemma sample_store_inv: "stock_inv sample_store"
  by (simp add: stock_inv_def stock_ok_def reservedIn_def sample_store_simps)

theorem reserve_iff_canFulfill_witness:
  "ok (reservePendingItems (\<lambda>oi. o_sessionId oi = 4) 7 sample_store)
    \<and> canFulfill [(11, 3600), (10, 5000)] sample_store"
proof -
  let ?w = "\<lambda>oi. o_sessionId oi = 4"
  have "\<forall>oi\<in>set (selected ?w sample_store). heldBy sample_store (o_id oi) = []
      \<and> (\<forall>(i, q)\<in>set (required sample_store oi). 0 < q)"
    by (simp add: stock_eval sample_store_simps)
  moreover have "concat (map (required sample_store) (selected ?w sample_store)) = [(11, 3600), (10, 5000)]"
    by (simp add: stock_eval sample_store_simps)
  moreover have "canFulfill [(11, 3600), (10, 5000)] sample_store"
    by (simp add: stock_eval sample_store_simps)
  ultimately show ?thesis
    using reserve_iff_canFulfill [OF sample_store_keys(2), of ?w 7] by simp
qed

section \<open>Releasing undoes reserving\<close>

lemma apply_claims_undo:
  "apply_claims i_id subReserved kxs (apply_claims i_id addReserved kxs items) = items"
  by (induction items) (simp_all add: apply_claims_def addReserved_def subReserved_def split: option.splits)

lemma filter_new_rows:
  "filter (\<lambda>h. h_orderItemId h \<in> o_id ` set items) (concat (map (newRows d) items)) = concat (map (newRows d) items)"
  by (rule filter_True) (auto simp: newRows_def)

lemma filter_old_rows:
  "(\<And>oi. oi \<in> set items \<Longrightarrow> heldBy d (o_id oi) = []) \<Longrightarrow>
     filter (\<lambda>h. h_orderItemId h \<in> o_id ` set items) (reservations d) = []"
  by (auto simp: heldBy_def filter_empty_conv)

text \<open>Releasing the reservations a session has just taken always succeeds and puts every
  inventory row and every reservation back exactly as they were.\<close>

theorem reserve_release_roundtrip:
  assumes "reservePendingItems whr now d = Inr d1" and "stock_keys d" and "stock_inv d"
    and "\<forall>oi\<in>set (selected whr d). heldBy d (o_id oi) = []"
  shows "\<exists>d2. releaseReservations (map o_id (selected whr d)) d1 = Inr d2
    \<and> inventoryItems d2 = inventoryItems d \<and> reservations d2 = reservations d"
proof -
  let ?items = "selected whr d" and ?rows = "concat (map (newRows d) (selected whr d))"
  let ?T = "totalRequirements (concat (map (required d) (selected whr d)))"
  have fresh: "oi \<in> set ?items \<Longrightarrow> heldBy d (o_id oi) = []" for oi using assms(4) by blast
  have key: "distinct (map i_id (inventoryItems d))" by (rule stock_keysD [OF assms(2)])
  have items1: "inventoryItems d1 = apply_claims i_id addReserved ?T (inventoryItems d)"
    and res1: "reservations d1 = reservations d @ ?rows"
    and hit: "\<forall>(k, x)\<in>set ?T. \<exists>r\<in>set (inventoryItems d). i_id r = k"
    using assms(1) by (auto simp: reserve_fresh [OF fresh] claim_rows_iff [OF key])
  have key1: "distinct (map i_id (inventoryItems d1))"
    using key by (simp add: items1 map_key_apply_claims)
  have filt: "filter (\<lambda>h. h_orderItemId h \<in> o_id ` set ?items) (reservations d1) = ?rows"
    using filter_new_rows [of ?items d] filter_old_rows [OF fresh] by (simp add: res1)
  have gone: "del (\<lambda>h. h_orderItemId h \<in> o_id ` set ?items) (reservations d1) = reservations d"
    using filter_old_rows [of ?items d, OF fresh]
    by (auto simp: res1 del_def filter_empty_conv filter_id_conv newRows_def)
  have "\<exists>r\<in>set (inventoryItems d1). i_id r = k \<and> x \<le> i_reserved r" if "(k, x) \<in> set ?T" for k x
  proof -
    obtain r where r: "r \<in> set (inventoryItems d)" "i_id r = k" using hit \<open>(k, x) \<in> set ?T\<close> by blast
    have "map_of ?T k = Some x" using that map_of_eq_Some_iff [OF totals_distinct] by blast
    then have "addReserved x r \<in> set (inventoryItems d1)"
      using r by (auto simp: items1 apply_claims_def intro!: image_eqI [of _ _ r] simp del: totals_map_of)
    moreover have "0 \<le> i_reserved r"
      using stock_inv_reserved_nonneg [OF assms(3) r(1)] .
    ultimately show ?thesis using r by (intro bexI [of _ "addReserved x r"]) (simp_all add: addReserved_def)
  qed
  then have "claim_rows i_id (\<lambda>q i. q \<le> i_reserved i) subReserved (Conflict ''reservation state'') ?T (inventoryItems d1)
      = Inr (inventoryItems d)"
    by (subst claim_rows_iff [OF key1]) (auto simp: items1 apply_claims_undo)
  then show ?thesis
    using filt gone items1 by (auto simp: releaseReservations_def Let_def newRows_pairs apply_claims_def res1)
qed

theorem reserve_release_roundtrip_witness:
  "\<exists>d1 d2. reservePendingItems (\<lambda>oi. o_sessionId oi = 4) 7 sample_store = Inr d1
    \<and> inventoryItems d1 \<noteq> inventoryItems sample_store
    \<and> releaseReservations [5] d1 = Inr d2 \<and> inventoryItems d2 = inventoryItems sample_store"
proof -
  let ?w = "\<lambda>oi. o_sessionId oi = 4"
  obtain d1 where d1: "reservePendingItems ?w 7 sample_store = Inr d1"
      "inventoryItems d1 \<noteq> inventoryItems sample_store"
    by (simp add: stock_eval sample_store_simps)
  have fresh: "\<forall>oi\<in>set (selected ?w sample_store). heldBy sample_store (o_id oi) = []"
    and sel: "map o_id (selected ?w sample_store) = [5]"
    by (simp_all add: stock_eval sample_store_simps)
  show ?thesis
    using reserve_release_roundtrip [OF d1(1) sample_store_keys(2) sample_store_inv fresh] d1
    unfolding sel by blast
qed

section \<open>A reserved line can be cooked\<close>

lemma heldMatches_cong: "length req = length req' \<Longrightarrow> set req = set req' \<Longrightarrow> heldMatches held req = heldMatches held req'"
  by (simp add: heldMatches_def)

lemma findItem_Some: "stock_keys d \<Longrightarrow> r \<in> set (inventoryItems d) \<Longrightarrow> findItem d (i_id r) = Some r"
  unfolding findItem_def by (rule find_unique [OF stock_keysD(1)]) auto

lemma map_zip_snd: "map (\<lambda>p. f (snd p)) (zip ns ys) = map f (take (length ns) ys)"
  by (induction ns arbitrary: ys) (auto simp: zip_Cons1 split: list.split)

lemma consumption_unique:
  assumes "distinct (map gi_inventoryItemId ings)"
    and "\<forall>n\<in>set (snapshots d). n_orderItemId n \<noteq> oid" and "\<forall>x\<in>set (inventoryTxs d). x_orderItemId x \<noteq> Some oid"
  shows "snapshotKeysFree (map (snapshotRowOf oid) ings) (snapshots d)"
    and "ledgerKeysFree (map (exportTx oid now) (zip ns ings)) (inventoryTxs d)"
proof -
  show "snapshotKeysFree (map (snapshotRowOf oid) ings) (snapshots d)"
    using assms by (auto simp: snapshotKeysFree_def snapshotKey_def snapshotRowOf_def distinct_map inj_on_def)
  have "distinct (map (\<lambda>p. gi_inventoryItemId (snd p)) (zip ns ings))"
    using distinct_take [OF assms(1)] by (simp add: map_zip_snd take_map)
  then show "ledgerKeysFree (map (exportTx oid now) (zip ns ings)) (inventoryTxs d)"
    using assms(3) by (auto simp: ledgerKeysFree_def Let_def ledgerKey_def exportTx_def distinct_map inj_on_def)
qed

definition fairAmounts :: "ingredient \<Rightarrow> bool" where
  "fairAmounts g \<longleftrightarrow> 0 < gi_perItem g \<and> 0 < gi_total g \<and> 0 \<le> gi_unitCost g \<and> 0 \<le> gi_totalCost g"

lemma fairAmounts_rows:
  "fairAmounts g \<Longrightarrow> snapshotRowCheck (snapshotRowOf oid g)"
  "fairAmounts g \<Longrightarrow> ledgerRowCheck (exportTx oid now (n, g))"
  by (simp_all add: fairAmounts_def snapshotRowCheck_def snapshotRowOf_def ledgerRowCheck_def exportTx_def)

lemma recordConsumption_ok:
  assumes "\<And>g. g \<in> set ings \<Longrightarrow> \<exists>i\<in>set (inventoryItems d). i_id i = gi_inventoryItemId g"
    and "\<And>g. g \<in> set ings \<Longrightarrow> fairAmounts g" and "distinct (map gi_inventoryItemId ings)"
    and "\<forall>n\<in>set (snapshots d). n_orderItemId n \<noteq> oid" and "\<forall>x\<in>set (inventoryTxs d). x_orderItemId x \<noteq> Some oid"
  shows "ok (recordConsumption oid ings now d)"
proof -
  have "\<exists>mvs. mapM (consumptionMovement d') ps = Inr mvs"
    if "inventoryItems d' = inventoryItems d" and "set (map snd ps) \<subseteq> set ings" for d' ps
    unfolding mapM_ok_iff
  proof (rule ballI)
    fix p assume p: "p \<in> set ps"
    then have "snd p \<in> set ings" using that(2) by auto
    then obtain i where "i \<in> set (inventoryItems d)" "i_id i = gi_inventoryItemId (snd p)" using assms(1) by blast
    then have "findItem d' (gi_inventoryItemId (snd p)) \<noteq> None"
      by (auto simp: findItem_def find_None_iff that(1))
    then show "\<exists>y. consumptionMovement d' p = Inr y" by (auto simp: consumptionMovement_def)
  qed
  note all_ok = this
  let ?ps = "zip [nextId d..<nextId d + length ings] ings"
  let ?d' = "d\<lparr>nextId := nextId d + length ings, snapshots := snapshots d @ map (snapshotRowOf oid) ings,
      inventoryTxs := inventoryTxs d @ map (exportTx oid now) ?ps\<rparr>"
  obtain mvs where "mapM (consumptionMovement ?d') ?ps = Inr mvs" using all_ok [of ?d' ?ps] by auto
  moreover have "\<forall>n\<in>set (map (snapshotRowOf oid) ings). snapshotRowCheck n" using assms(2) fairAmounts_rows(1) by auto
  moreover have "\<forall>x\<in>set (map (exportTx oid now) ?ps). ledgerRowCheck x"
    using assms(2) fairAmounts_rows(2) by (auto dest: set_zip_rightD)
  ultimately show ?thesis
    unfolding recordConsumption_def using consumption_unique [OF assms(3-5)] by (simp add: Let_def)
qed


lemma ingredient_fair:
  assumes "mapM (ingredientOf d oi) rows = Inr ings" and "g \<in> set ings" and "0 < gi_total g" and "0 < o_quantity oi"
    and "\<forall>r\<in>set (inventoryItems d). 0 \<le> i_avgCost r"
  shows "fairAmounts g"
proof -
  obtain row where "ingredientOf d oi row = Inr g" using mapM_mem [OF assms(1,2)] by blast
  then obtain i where i: "findItem d (fst row) = Some i"
    and g: "gi_perItem g = snd row" "gi_total g = snd row * o_quantity oi" "gi_unitCost g = i_avgCost i"
      "gi_totalCost g = calculateInventoryValue (snd row * o_quantity oi) (i_avgCost i)"
    by (auto simp: ingredientOf_def Let_def)
  have "0 \<le> i_avgCost i" using assms(5) i unfolding findItem_def by (blast dest: find_SomeD)
  moreover have "0 < snd row" using assms(3,4) unfolding g by (simp add: zero_less_mult_iff)
  ultimately show ?thesis using assms(3) calculateInventoryValue_nonneg by (simp add: fairAmounts_def g)
qed

text \<open>C35: A reservation guarantees its ingredients: a line that was not cooked before, whose reservations match its recipe
  snapshot and whose ingredients are not deleted can be cooked, whatever other lines hold. (The quantity of the
  line is positive and the unit costs are not negative, as the tables check.) The stock is enough, and the
  database refuses neither the snapshots of the ingredients nor the ledger entries.\<close>

theorem reserved_line_cooks:
  assumes keys: "stock_keys d" and inv: "stock_inv d"
    and held: "heldBy d (o_id oi) \<noteq> []" and match: "heldMatches (heldBy d (o_id oi)) (required d oi)"
    and active: "\<forall>(i, q)\<in>set (recipeOf d oi). \<exists>r\<in>set (inventoryItems d). i_id r = i \<and> i_deletedAt r = None"
    and checks: "0 < o_quantity oi" "\<forall>r\<in>set (inventoryItems d). 0 \<le> i_avgCost r"
    and uncooked: "\<forall>n\<in>set (snapshots d). n_orderItemId n \<noteq> o_id oi" "\<forall>x\<in>set (inventoryTxs d). x_orderItemId x \<noteq> Some (o_id oi)"
  shows "ok (consumeOrderItem oi now d)"
proof -
  let ?held = "heldBy d (o_id oi)"
  have "\<exists>g. ingredientOf d oi row = Inr g" if row: "row \<in> set (sort_key fst (recipeOf d oi))" for row
  proof -
    obtain r where "r \<in> set (inventoryItems d)" "i_id r = fst row" "i_deletedAt r = None"
      using bspec [OF active, of row] row by (cases row) auto
    then show ?thesis using findItem_Some [OF keys, of r] by (auto simp: ingredientOf_def Let_def)
  qed
  then obtain ings where ings: "mapM (ingredientOf d oi) (sort_key fst (recipeOf d oi)) = Inr ings"
    using mapM_ok_iff [of "ingredientOf d oi"] by blast
  have pairs: "map (\<lambda>g. (gi_inventoryItemId g, gi_total g)) ings
      = map (\<lambda>(i, q). (i, q * o_quantity oi)) (sort_key fst (recipeOf d oi))"
    by (rule ingredients_totals [OF ings])
  have m: "heldMatches ?held (map (\<lambda>g. (gi_inventoryItemId g, gi_total g)) ings)"
    unfolding pairs using match by (subst heldMatches_cong [of _ "required d oi"]) (simp_all add: required_def)
  have dist: "distinct (map gi_inventoryItemId ings)"
    using ingredients_ids [OF ings] distinct_fst_sort_key [OF recipe_distinct [OF keys, of oi]] by simp
  have can: "\<exists>i\<in>set (inventoryItems d). i_id i = gi_inventoryItemId g
      \<and> consumable (gi_total g, ownHeld ?held (gi_inventoryItemId g)) i"
    and fair: "fairAmounts g" if g: "g \<in> set ings" for g
  proof -
    let ?k = "gi_inventoryItemId g"
    have "map_of (rev ?held) ?k = Some (gi_total g)" using m g by (fastforce simp: heldMatches_def)
    then have own: "ownHeld ?held ?k = gi_total g" and mem: "(?k, gi_total g) \<in> set ?held"
      by (simp_all add: ownHeld_def) (force dest: map_of_SomeD)
    then obtain h where h: "h \<in> set (reservations d)" "h_inventoryItemId h = ?k" "h_quantity h = gi_total g"
      by (auto simp: heldBy_def)
    have "?k \<in> fst ` set (recipeOf d oi)" using ingredients_ids [OF ings] g by (metis image_eqI set_map set_sort)
    then obtain i where i: "i \<in> set (inventoryItems d)" "i_id i = ?k" "i_deletedAt i = None" using active by fastforce
    have "h_quantity h \<le> reservedIn (reservations d) ?k" unfolding reservedIn_def
      by (rule sumw_mem_le) (use h inv in \<open>auto simp: stock_inv_def stock_ok_def less_imp_le\<close>)
    then have "gi_total g \<le> i_reserved i" using stock_inv_reserved [OF inv i(1)] h i by simp
    moreover have "i_reserved i \<le> i_stock i" by (rule stock_inv_le [OF inv i(1)])
    ultimately show "\<exists>i\<in>set (inventoryItems d). i_id i = ?k \<and> consumable (gi_total g, ownHeld ?held ?k) i"
      using i own by (intro bexI [of _ i]) (simp_all add: consumable_def)
    have "0 < gi_total g" using h inv by (auto simp: stock_inv_def stock_ok_def)
    then show "fairAmounts g" by (rule ingredient_fair [OF ings g _ checks])
  qed
  from can have "claim_rows i_id consumable consumeRow (Conflict ''INVENTORY_INSUFFICIENT_STOCK'')
      (consumptionClaims ?held ings) (inventoryItems d)
      = Inr (apply_claims i_id consumeRow (consumptionClaims ?held ings) (inventoryItems d))"
    using dist by (subst claim_rows_iff [OF stock_keysD(1) [OF keys]]) (auto simp: consumptionClaims_def comp_def)
  moreover have "ok (recordConsumption (o_id oi) ings now
      (d\<lparr>inventoryItems := apply_claims i_id consumeRow (consumptionClaims ?held ings) (inventoryItems d), reservations := r\<rparr>))" for r
  proof (rule recordConsumption_ok)
    fix g assume "g \<in> set ings"
    then obtain i where "i \<in> set (inventoryItems d)" "i_id i = gi_inventoryItemId g" using can by blast
    moreover have "i_id ` set (apply_claims i_id consumeRow (consumptionClaims ?held ings) (inventoryItems d))
        = i_id ` set (inventoryItems d)"
      using map_key_apply_claims [of i_id consumeRow "consumptionClaims ?held ings" "inventoryItems d"]
      by (metis i_id_updates(3) set_map)
    ultimately show "\<exists>i\<in>set (inventoryItems (d\<lparr>inventoryItems := apply_claims i_id consumeRow
        (consumptionClaims ?held ings) (inventoryItems d), reservations := r\<rparr>)). i_id i = gi_inventoryItemId g"
      by (simp, metis imageE imageI)
  qed (use dist fair uncooked in simp_all)
  ultimately show ?thesis using ings m held by (simp add: consumeOrderItem_def Let_def)
qed

theorem reserved_line_cooks_witness:
  "\<exists>d oi. oi \<in> set (orderItems d) \<and> heldBy d (o_id oi) = [(11, 3600), (10, 5000)] \<and> ok (consumeOrderItem oi 9 d)"
proof -
  let ?w = "\<lambda>oi. o_sessionId oi = 4"
  obtain d where d: "reservePendingItems ?w 7 sample_store = Inr d"
    and res: "reservations d = map (\<lambda>(i, q). \<lparr>h_orderItemId = 5, h_inventoryItemId = i, h_quantity = q\<rparr>) [(11, 3600), (10, 5000)]"
    and rows: "recipeRows d = recipeRows sample_store" "menuIngredients d = []" "orderItems d = orderItems sample_store"
      "map i_id (inventoryItems d) = [10, 11]" "map i_deletedAt (inventoryItems d) = [None, None]"
      "map i_avgCost (inventoryItems d) = [120, 900]" "snapshots d = []" "inventoryTxs d = []"
    by (simp add: stock_eval sample_store_simps)
  have keys: "stock_keys d"
    using rows res by (simp add: stock_keys_def sample_store_simps)
  let ?oi = "hd (orderItems sample_store)"
  have held: "heldBy d (o_id ?oi) = [(11, 3600), (10, 5000)]"
    by (simp add: heldBy_def res sample_store_simps)
  have recipe: "recipeOf d ?oi = [(11, 1800), (10, 2500)]"
    by (simp add: recipeOf_def rows sample_store_simps)
  have "heldMatches (heldBy d (o_id ?oi)) (required d ?oi)"
    unfolding held required_def recipe by (simp add: heldMatches_def sample_store_simps)
  moreover have "\<forall>(i, q)\<in>set (recipeOf d ?oi). \<exists>r\<in>set (inventoryItems d). i_id r = i \<and> i_deletedAt r = None"
    using rows(4,5) unfolding recipe by (auto simp: map_eq_Cons_conv)
  moreover have costs: "\<forall>r\<in>set (inventoryItems d). 0 \<le> i_avgCost r" using rows(6) by (auto simp: map_eq_Cons_conv)
  moreover have cups: "0 < o_quantity ?oi" by (simp add: sample_store_simps)
  ultimately have "ok (consumeOrderItem ?oi 9 d)"
    by (intro reserved_line_cooks [OF keys reserve_stock_inv [OF d sample_store_keys(2) sample_store_inv]])
       (use costs cups rows(7,8) in \<open>simp_all add: held\<close>)
  then show ?thesis using held rows(3) by (intro exI [of _ d] exI [of _ ?oi]) (simp add: sample_store_simps)
qed

section \<open>Cooking takes exactly the recipe\<close>

text \<open>Cooking a line takes from every ingredient exactly the recipe quantity times the number of
  cups, takes nothing from any other item, and leaves no reservation of the line behind.\<close>

theorem consume_takes_recipe:
  assumes "consumeOrderItem oi now d = Inr (mvs, d')" and "stock_keys d" and "i \<in> set (inventoryItems d)"
  shows "(\<exists>i'\<in>set (inventoryItems d'). i_id i' = i_id i \<and>
       i_stock i' = i_stock i - o_quantity oi * reqSum (recipeOf d oi) (i_id i))
    \<and> heldBy d' (o_id oi) = []"
proof -
  let ?held = "heldBy d (o_id oi)"
  obtain ings where ings: "mapM (ingredientOf d oi) (sort_key fst (recipeOf d oi)) = Inr ings"
    and dist: "distinct (map gi_inventoryItemId ings)"
    and items': "inventoryItems d' = apply_claims i_id consumeRow (consumptionClaims ?held ings) (inventoryItems d)"
    and res': "reservations d' = del (\<lambda>h. h_orderItemId h = o_id oi) (reservations d)"
    by (rule consume_success [OF assms(1,2)]) (rule that)
  have rd: "distinct (map fst (recipeOf d oi))" by (rule recipe_distinct [OF assms(2)])
  have sum: "reqSum (recipeOf d oi) k = (case map_of (recipeOf d oi) k of None \<Rightarrow> 0 | Some q \<Rightarrow> q)" for k
    using sumw_distinct [OF rd, of k snd] by (simp add: reqSum_def)
  have "map_of (sort_key fst (recipeOf d oi)) = map_of (recipeOf d oi)"
    using rd distinct_fst_sort_key [OF rd] by (subst map_of_inject_set) simp_all
  then have tot: "map_of (map (\<lambda>g. (gi_inventoryItemId g, gi_total g)) ings) k
      = map_option (\<lambda>q. q * o_quantity oi) (map_of (recipeOf d oi) k)" for k
    unfolding ingredients_totals [OF ings] by (simp add: map_of_map)
  let ?i' = "case map_of (consumptionClaims ?held ings) (i_id i) of None \<Rightarrow> i | Some x \<Rightarrow> consumeRow x i"
  have "?i' \<in> set (inventoryItems d')" using assms(3) by (auto simp: items' apply_claims_def)
  moreover have "i_id ?i' = i_id i" by (simp split: option.splits)
  moreover have "i_stock ?i' = i_stock i - o_quantity oi * reqSum (recipeOf d oi) (i_id i)"
    by (simp add: claims_stock_of tot sum consumeRow_def split: option.splits)
  moreover have "heldBy d' (o_id oi) = []" by (simp add: heldBy_def res' del_def filter_empty_conv)
  ultimately show ?thesis by blast
qed

theorem consume_takes_recipe_witness:
  "\<exists>d'. consumeOrderItem (hd (orderItems sample_store)) 9 sample_store = Inr (value_of (consumeOrderItem (hd (orderItems sample_store)) 9 sample_store))
    \<and> d' = snd (value_of (consumeOrderItem (hd (orderItems sample_store)) 9 sample_store))
    \<and> (\<exists>i'\<in>set (inventoryItems d'). i_id i' = 10 \<and> i_stock i' = 45000)"
proof -
  let ?oi = "hd (orderItems sample_store)" and ?i = "hd (inventoryItems sample_store)"
  have "ok (consumeOrderItem ?oi 9 sample_store)"
    by (simp add: consumeOrderItem_def stock_eval ingredientOf_def findItem_def consumptionClaims_def ownHeld_def
        consumable_def consumeRow_def recordConsumption_def consumptionMovement_def snapshotRowOf_def
        exportTx_def enqueue_def upt_rec snapshotRowCheck_def ledgerRowCheck_def snapshotKeysFree_def ledgerKeysFree_def
        snapshotKey_def ledgerKey_def calculateInventoryValue_nonneg sample_store_simps)
  then obtain mvs d' where d': "consumeOrderItem ?oi 9 sample_store = Inr (mvs, d')"
    by (metis ok_value_of surj_pair)
  have "reqSum (recipeOf sample_store ?oi) (i_id ?i) = 2500" "i_id ?i = 10" "o_quantity ?oi = 2"
      "i_stock ?i = 50000" "?i \<in> set (inventoryItems sample_store)"
    by (simp_all add: recipeOf_def sample_store_simps)
  with consume_takes_recipe [OF d' sample_store_keys(2), of ?i] show ?thesis by (auto simp: d')
qed

end
