(* ===== verification/Menu_Facts.thy ===== *)
theory Menu_Facts
  imports Menu_Selection Stock_Claims
begin

text \<open>
  A selection of menu options: which options it holds, what it costs, and its recipe.
\<close>

definition optionSnap :: "optionGroup \<Rightarrow> menuOption \<Rightarrow> selectedOption" where
  "optionSnap gr mo = \<lparr>so_id = mo_id mo, so_groupName = gr_name gr, so_name = mo_name mo,
     so_priceDelta = mo_priceDelta mo\<rparr>"

definition optionIngredients :: "menuOption \<Rightarrow> (id \<times> qty) list" where
  "optionIngredients mo = map (\<lambda>og. (og_inventoryItemId og, og_quantity og)) (mo_ingredients mo)"

definition baseRecipe :: "db \<Rightarrow> menuItem \<Rightarrow> (id \<times> qty) list" where
  "baseRecipe d mi = map (\<lambda>g. (g_inventoryItemId g, g_quantity g))
     (filter (\<lambda>g. g_menuItemId g = mi_id mi) (menuIngredients d))"

text \<open>The options of a menu item that a list of ids selects, group by group.\<close>

definition chosen :: "menuItem \<Rightarrow> id list \<Rightarrow> (optionGroup \<times> menuOption) list" where
  "chosen mi ids = concat (map (\<lambda>gr. map (Pair gr) (selectedIn gr ids)) (mi_groups mi))"

lemma reqSum_addRequirement:
  "reqSum (addRequirement m row) i = reqSum m i + (if fst row = i then snd row else 0)"
  unfolding addRequirement_def by (induction m) (auto simp: reqSum_def)

lemma reqSum_append [simp]: "reqSum (xs @ ys) i = reqSum xs i + reqSum ys i"
  by (simp add: reqSum_def)

lemma addIngredient_Inr:
  "addIngredient d g m = Inr m' \<longleftrightarrow>
     (\<exists>r. findItem d (fst g) = Some r \<and> i_deletedAt r = None) \<and> m' = addRequirement m g"
  by (auto simp: addIngredient_def)

lemma selectGroup_Inr:
  "selectGroup d gr s = Inr s' \<longleftrightarrow>
     gr_minSelected gr \<le> length (selectedIn gr (fst s)) \<and> length (selectedIn gr (fst s)) \<le> gr_maxSelected gr \<and>
     run_all (selectOption d (gr_name gr)) (selectedIn gr (fst s)) s = Inr s'"
  by (auto simp: selectGroup_def Let_def)

lemma addIngredients_effect:
  assumes "run_all (addIngredient d) gs m = Inr m'"
  shows "reqSum m' i = reqSum m i + reqSum gs i" and "distinct (map fst m) \<Longrightarrow> distinct (map fst m')"
    and "\<forall>g\<in>set gs. \<exists>r. findItem d (fst g) = Some r \<and> i_deletedAt r = None"
proof -
  have "reqSum m' i = reqSum m i + reqSum gs i \<and> (distinct (map fst m) \<longrightarrow> distinct (map fst m'))
      \<and> (\<forall>g\<in>set gs. \<exists>r. findItem d (fst g) = Some r \<and> i_deletedAt r = None)"
    using assms
  proof (induction gs arbitrary: m)
    case (Cons g gs)
    obtain r where r: "findItem d (fst g) = Some r" "i_deletedAt r = None"
      and rest: "run_all (addIngredient d) gs (addRequirement m g) = Inr m'"
      using Cons.prems by (auto simp: addIngredient_Inr)
    have "distinct (map fst m) \<Longrightarrow> distinct (map fst (addRequirement m g))"
      by (simp add: addRequirement_def distinct_map_default)
    then show ?case using Cons.IH [OF rest] r by (simp add: reqSum_addRequirement)
  qed simp
  then show "reqSum m' i = reqSum m i + reqSum gs i" and "distinct (map fst m) \<Longrightarrow> distinct (map fst m')"
    and "\<forall>g\<in>set gs. \<exists>r. findItem d (fst g) = Some r \<and> i_deletedAt r = None" by blast+
qed

lemma selectOptions_effect:
  assumes "run_all (selectOption d (gr_name gr)) mos (ids, sel) = Inr (ids', sel')"
  shows "ids' = filter (\<lambda>i. i \<notin> mo_id ` set mos) ids \<and>
    sel_unitPrice sel' = sel_unitPrice sel + (\<Sum>mo\<leftarrow>mos. mo_priceDelta mo) \<and>
    sel_options sel' = sel_options sel @ map (optionSnap gr) mos \<and>
    reqSum (sel_recipe sel') i = reqSum (sel_recipe sel) i + (\<Sum>mo\<leftarrow>mos. reqSum (optionIngredients mo) i) \<and>
    (distinct (map fst (sel_recipe sel)) \<longrightarrow> distinct (map fst (sel_recipe sel')))"
  using assms
proof (induction mos arbitrary: ids sel)
  case (Cons mo mos)
  obtain ids1 sel1 where one: "selectOption d (gr_name gr) mo (ids, sel) = Inr (ids1, sel1)"
    and rest: "run_all (selectOption d (gr_name gr)) mos (ids1, sel1) = Inr (ids', sel')"
    using Cons.prems by auto
  from one obtain recipe where recipe: "run_all (addIngredient d) (optionIngredients mo) (sel_recipe sel) = Inr recipe"
    and eq: "ids1 = filter (\<lambda>i. i \<noteq> mo_id mo) ids"
      "sel1 = \<lparr>sel_unitPrice = sel_unitPrice sel + mo_priceDelta mo,
         sel_options = sel_options sel @ [optionSnap gr mo], sel_recipe = recipe\<rparr>"
    by (auto simp: selectOption_def optionIngredients_def optionSnap_def)
  have "filter (\<lambda>i. i \<notin> mo_id ` set mos) (filter (\<lambda>i. i \<noteq> mo_id mo) ids) = filter (\<lambda>i. i \<notin> mo_id ` set (mo # mos)) ids"
    by (simp add: conj_commute)
  then show ?case
    using Cons.IH [OF rest] addIngredients_effect(1,2) [OF recipe] by (simp add: eq)
qed simp

lemma selectGroups_effect:
  assumes "run_all (selectGroup d) grs (ids, sel) = Inr (ids', sel')"
    and "distinct (concat (map (\<lambda>gr. map mo_id (gr_options gr)) grs))"
  shows "ids' = filter (\<lambda>i. \<forall>gr\<in>set grs. i \<notin> mo_id ` set (selectedIn gr ids)) ids \<and>
    sel_unitPrice sel' = sel_unitPrice sel + (\<Sum>gr\<leftarrow>grs. \<Sum>mo\<leftarrow>selectedIn gr ids. mo_priceDelta mo) \<and>
    sel_options sel' = sel_options sel @ concat (map (\<lambda>gr. map (optionSnap gr) (selectedIn gr ids)) grs) \<and>
    reqSum (sel_recipe sel') i = reqSum (sel_recipe sel) i
      + (\<Sum>gr\<leftarrow>grs. \<Sum>mo\<leftarrow>selectedIn gr ids. reqSum (optionIngredients mo) i) \<and>
    (distinct (map fst (sel_recipe sel)) \<longrightarrow> distinct (map fst (sel_recipe sel'))) \<and>
    (\<forall>gr\<in>set grs. gr_minSelected gr \<le> length (selectedIn gr ids) \<and> length (selectedIn gr ids) \<le> gr_maxSelected gr)"
  using assms
proof (induction grs arbitrary: ids sel)
  case (Cons gr grs)
  obtain ids1 sel1 where bounds: "gr_minSelected gr \<le> length (selectedIn gr ids)" "length (selectedIn gr ids) \<le> gr_maxSelected gr"
    and one: "run_all (selectOption d (gr_name gr)) (selectedIn gr ids) (ids, sel) = Inr (ids1, sel1)"
    and rest: "run_all (selectGroup d) grs (ids1, sel1) = Inr (ids', sel')"
    using Cons.prems(1) by (auto simp: selectGroup_Inr)
  note e = selectOptions_effect [OF one, of i]
  have ids1: "ids1 = filter (\<lambda>i. i \<notin> mo_id ` set (selectedIn gr ids)) ids" using e by blast
  have disj: "set (map mo_id (gr_options gr)) \<inter> set (concat (map (\<lambda>gr. map mo_id (gr_options gr)) grs)) = {}"
    using Cons.prems(2) by (simp only: list.map concat.simps distinct_append)
  have same: "selectedIn g ids1 = selectedIn g ids" if "g \<in> set grs" for g
  proof -
    have "mo_id mo \<notin> mo_id ` set (selectedIn gr ids)" if "mo \<in> set (gr_options g)" for mo
    proof
      assume "mo_id mo \<in> mo_id ` set (selectedIn gr ids)"
      then have "mo_id mo \<in> set (map mo_id (gr_options gr))" by (auto simp: selectedIn_def)
      moreover have "mo_id mo \<in> set (concat (map (\<lambda>gr. map mo_id (gr_options gr)) grs))"
        using \<open>g \<in> set grs\<close> that by auto
      ultimately show False using disj by blast
    qed
    then have "(mo_id mo \<in> set ids1) = (mo_id mo \<in> set ids)" if "mo \<in> set (gr_options g)" for mo
      using ids1 that by simp
    then show ?thesis unfolding selectedIn_def by (rule filter_cong [OF refl])
  qed
  have maps: "(\<Sum>gr\<leftarrow>grs. \<Sum>mo\<leftarrow>selectedIn gr ids1. h mo) = (\<Sum>gr\<leftarrow>grs. \<Sum>mo\<leftarrow>selectedIn gr ids. h mo)"
    for h :: "menuOption \<Rightarrow> int"
    by (rule arg_cong [where f = sum_list], rule map_cong [OF refl]) (simp add: same)
  have snaps: "concat (map (\<lambda>gr. map (optionSnap gr) (selectedIn gr ids1)) grs)
      = concat (map (\<lambda>gr. map (optionSnap gr) (selectedIn gr ids)) grs)"
    by (rule arg_cong [where f = concat], rule map_cong [OF refl]) (simp add: same)
  have left: "filter (\<lambda>i. \<forall>g\<in>set grs. i \<notin> mo_id ` set (selectedIn g ids1)) ids1
      = filter (\<lambda>i. \<forall>g\<in>set (gr # grs). i \<notin> mo_id ` set (selectedIn g ids)) ids"
    unfolding ids1 filter_filter by (rule filter_cong [OF refl]) (use same ids1 in simp)
  have "distinct (concat (map (\<lambda>gr. map mo_id (gr_options gr)) grs))" using Cons.prems(2) by simp
  note ih = Cons.IH [OF rest this]
  have bd: "\<forall>g\<in>set grs. gr_minSelected g \<le> length (selectedIn g ids) \<and> length (selectedIn g ids) \<le> gr_maxSelected g"
    using ih same by simp
  show ?case
    using ih e bounds bd unfolding left maps snaps by simp
qed simp

lemma reqSum_sort: "reqSum (sort_key fst xs) i = reqSum xs i"
  by (simp add: reqSum_def sumw_def sort_key_stable)

lemma resolve_steps:
  assumes "resolveMenuSelection d mi ids = Inr sel"
  obtains recipe s where "distinct ids" "length ids \<le> 20"
    "run_all (addIngredient d) (baseRecipe d mi) [] = Inr recipe"
    "run_all (selectGroup d) (mi_groups mi) (ids, \<lparr>sel_unitPrice = mi_price mi, sel_options = [], sel_recipe = recipe\<rparr>) = Inr ([], s)"
    "sel_unitPrice s \<le> maxPrice" "sel = s\<lparr>sel_recipe := sort_key fst (sel_recipe s)\<rparr>"
  using assms by (auto simp: resolveMenuSelection_def baseRecipe_def)

lemma selectGroup_distinct:
  assumes "run_all (selectGroup d) grs (ids, sel) = Inr (ids', sel')" and "distinct (map fst (sel_recipe sel))"
  shows "distinct (map fst (sel_recipe sel'))"
proof -
  have "distinct (map fst (sel_recipe (snd (ids', sel'))))"
  proof (rule run_all_invariant [where P = "\<lambda>s. distinct (map fst (sel_recipe (snd s)))", OF assms(1)])
    fix gr and s s' :: "id list \<times> selection"
    assume "selectGroup d gr s = Inr s'" and "distinct (map fst (sel_recipe (snd s)))"
    moreover obtain a b a' b' where "s = (a, b)" "s' = (a', b')" by (cases s; cases s')
    ultimately show "distinct (map fst (sel_recipe (snd s')))"
      using selectOptions_effect [of d gr "selectedIn gr a" a b a' b'] by (auto simp: selectGroup_Inr)
  qed (use assms(2) in simp)
  then show ?thesis by simp
qed

lemma resolve_recipe_distinct:
  assumes "resolveMenuSelection d mi ids = Inr sel"
  shows "distinct (map fst (sel_recipe sel))"
proof -
  obtain recipe s where r: "run_all (addIngredient d) (baseRecipe d mi) [] = Inr recipe"
    and g: "run_all (selectGroup d) (mi_groups mi) (ids, \<lparr>sel_unitPrice = mi_price mi, sel_options = [], sel_recipe = recipe\<rparr>) = Inr ([], s)"
    and sel: "sel = s\<lparr>sel_recipe := sort_key fst (sel_recipe s)\<rparr>"
    by (rule resolve_steps [OF assms]) (rule that)
  have "distinct (map fst recipe)" using addIngredients_effect(2) [OF r] by simp
  then have "distinct (map fst (sel_recipe s))" using selectGroup_distinct [OF g] by simp
  then show ?thesis by (simp add: sel distinct_fst_sort_key)
qed

section \<open>The contract of a selection\<close>

lemma resolve_contract:
  assumes "resolveMenuSelection d mi ids = Inr sel"
    and "distinct (concat (map (\<lambda>gr. map mo_id (gr_options gr)) (mi_groups mi)))"
  shows "sel_options sel = map (\<lambda>(gr, mo). optionSnap gr mo) (chosen mi ids)"
    and "mo_id ` snd ` set (chosen mi ids) = set ids"
    and "sel_unitPrice sel = mi_price mi + (\<Sum>(gr, mo)\<leftarrow>chosen mi ids. mo_priceDelta mo)"
    and "reqSum (sel_recipe sel) i = reqSum (baseRecipe d mi) i + (\<Sum>(gr, mo)\<leftarrow>chosen mi ids. reqSum (optionIngredients mo) i)"
    and "\<forall>gr\<in>set (mi_groups mi). gr_minSelected gr \<le> length (selectedIn gr ids) \<and> length (selectedIn gr ids) \<le> gr_maxSelected gr"
proof -
  obtain recipe s where r: "run_all (addIngredient d) (baseRecipe d mi) [] = Inr recipe"
    and g: "run_all (selectGroup d) (mi_groups mi) (ids, \<lparr>sel_unitPrice = mi_price mi, sel_options = [], sel_recipe = recipe\<rparr>) = Inr ([], s)"
    and sel: "sel = s\<lparr>sel_recipe := sort_key fst (sel_recipe s)\<rparr>"
    by (rule resolve_steps [OF assms(1)]) (rule that)
  note e = selectGroups_effect [OF g assms(2), of i]
  have nested: "(\<Sum>gr\<leftarrow>grs. \<Sum>mo\<leftarrow>selectedIn gr ids. h mo)
      = (\<Sum>(gr, mo)\<leftarrow>concat (map (\<lambda>gr. map (Pair gr) (selectedIn gr ids)) grs). h mo)" for grs and h :: "menuOption \<Rightarrow> int"
    by (induction grs) (simp_all add: comp_def)
  show "sel_options sel = map (\<lambda>(gr, mo). optionSnap gr mo) (chosen mi ids)"
    using e by (simp add: sel chosen_def map_concat comp_def)
  show "sel_unitPrice sel = mi_price mi + (\<Sum>(gr, mo)\<leftarrow>chosen mi ids. mo_priceDelta mo)"
    using e nested [of mo_priceDelta "mi_groups mi"] by (simp add: sel chosen_def)
  show "reqSum (sel_recipe sel) i = reqSum (baseRecipe d mi) i + (\<Sum>(gr, mo)\<leftarrow>chosen mi ids. reqSum (optionIngredients mo) i)"
    using e nested [of "\<lambda>mo. reqSum (optionIngredients mo) i" "mi_groups mi"] addIngredients_effect(1) [OF r, of i]
    by (simp add: sel chosen_def reqSum_sort)
  show "\<forall>gr\<in>set (mi_groups mi). gr_minSelected gr \<le> length (selectedIn gr ids) \<and> length (selectedIn gr ids) \<le> gr_maxSelected gr"
    using e by blast
  have "filter (\<lambda>i. \<forall>gr\<in>set (mi_groups mi). i \<notin> mo_id ` set (selectedIn gr ids)) ids = []" using e by simp
  then have "set ids \<subseteq> mo_id ` snd ` set (chosen mi ids)"
    by (force simp: filter_empty_conv chosen_def)
  moreover have "mo_id ` snd ` set (chosen mi ids) \<subseteq> set ids" by (auto simp: chosen_def selectedIn_def)
  ultimately show "mo_id ` snd ` set (chosen mi ids) = set ids" by blast
qed

text \<open>A resolved selection holds exactly the options asked for, each group within its bounds;
  its unit price is the item's price plus the price of those options, and for every ingredient
  its recipe is the item's recipe plus the ingredients of those options.\<close>

theorem selection_is_chosen:
  assumes "resolveMenuSelection d mi ids = Inr sel"
    and "distinct (concat (map (\<lambda>gr. map mo_id (gr_options gr)) (mi_groups mi)))"
  shows "sel_options sel = map (\<lambda>(gr, mo). optionSnap gr mo) (chosen mi ids) \<and>
    mo_id ` snd ` set (chosen mi ids) = set ids \<and>
    sel_unitPrice sel = mi_price mi + (\<Sum>(gr, mo)\<leftarrow>chosen mi ids. mo_priceDelta mo) \<and>
    reqSum (sel_recipe sel) i = reqSum (baseRecipe d mi) i + (\<Sum>(gr, mo)\<leftarrow>chosen mi ids. reqSum (optionIngredients mo) i) \<and>
    (\<forall>gr\<in>set (mi_groups mi). gr_minSelected gr \<le> length (selectedIn gr ids) \<and> length (selectedIn gr ids) \<le> gr_maxSelected gr)"
  by (intro conjI; rule resolve_contract [OF assms])

text \<open>A latte whose milk group offers oat (31) or soy (32).\<close>

definition sample_latte :: menuItem where
  "sample_latte = \<lparr>mi_id = 20, mi_price = 4500, mi_isAvailable = True, mi_deletedAt = None, mi_categoryId = 40,
     mi_stationId = None, mi_groups = [\<lparr>gr_name = ''Milk'', gr_minSelected = 0, gr_maxSelected = 1,
       gr_options = [\<lparr>mo_id = 31, mo_name = ''Oat'', mo_priceDelta = 500,
           mo_ingredients = [\<lparr>og_inventoryItemId = 10, og_quantity = 2500\<rparr>]\<rparr>,
         \<lparr>mo_id = 32, mo_name = ''Soy'', mo_priceDelta = 300, mo_ingredients = []\<rparr>]\<rparr>]\<rparr>"

lemma sample_latte_oat:
  "resolveMenuSelection sample_store sample_latte [31] = Inr \<lparr>sel_unitPrice = 5000,
     sel_options = [\<lparr>so_id = 31, so_groupName = ''Milk'', so_name = ''Oat'', so_priceDelta = 500\<rparr>],
     sel_recipe = [(10, 2500)]\<rparr>"
  by (simp add: resolveMenuSelection_def selectGroup_def selectedIn_def selectOption_def addIngredient_def
      addRequirement_def findItem_def maxPrice_def sample_latte_def sample_store_simps)

theorem selection_is_chosen_witness:
  "(5000 :: money) = mi_price sample_latte + (\<Sum>(gr, mo)\<leftarrow>chosen sample_latte [31]. mo_priceDelta mo)"
  using selection_is_chosen [OF sample_latte_oat, of 10] by (simp add: sample_latte_def)

end
