(* ===== verification/Order_Stock.thy ===== *)
theory Order_Stock
  imports Order_Invariants Menu_Facts
begin

text \<open>
  Every order operation keeps every invariant of the stock contract (the locale
  \<open>stock_invariant\<close>): the reservation invariant and the stock ledger are two of them.
  An online order reserves right after it has inserted its lines, so the new recipe rows must
  have fresh keys; \<open>recipes_fresh\<close> says that new ids are new.
\<close>

definition recipes_fresh :: "db \<Rightarrow> bool" where
  "recipes_fresh d \<longleftrightarrow> (\<forall>r\<in>set (recipeRows d). r_orderItemId r < nextId d)"

abbreviation recipeKey :: "recipeRow \<Rightarrow> id \<times> id" where
  "recipeKey r \<equiv> (r_orderItemId r, r_inventoryItemId r)"

lemma plannedRecipe_keys: "map recipeKey (plannedRecipe p) = map (\<lambda>x. (fst p, fst x)) (sel_recipe (snd (snd p)))"
  by (simp add: plannedRecipe_def case_prod_unfold)

lemma plannedRecipe_owner: "r \<in> set (concat (map plannedRecipe ps)) \<Longrightarrow> r_orderItemId r \<in> fst ` set ps"
  by (force simp: plannedRecipe_def)

lemma distinct_plannedRecipe:
  assumes "distinct (map fst ps)" and "\<forall>p\<in>set ps. distinct (map fst (sel_recipe (snd (snd p))))"
  shows "distinct (map recipeKey (concat (map plannedRecipe ps)))"
  using assms
proof (induction ps)
  case (Cons p ps)
  let ?A = "map recipeKey (plannedRecipe p)" and ?B = "map recipeKey (concat (map plannedRecipe ps))"
  have A: "distinct ?A" unfolding plannedRecipe_keys using Cons.prems(2) by (simp add: distinct_map inj_on_def)
  have B: "distinct ?B" by (rule Cons.IH) (use Cons.prems in simp_all)
  have "fst k \<noteq> fst p" if "k \<in> set ?B" for k
  proof -
    from that have "fst k \<in> fst ` set ps" using plannedRecipe_owner [of _ ps] by force
    moreover have "fst p \<notin> fst ` set ps" using Cons.prems(1) by simp
    ultimately show ?thesis by metis
  qed
  moreover have "fst k = fst p" if "k \<in> set ?A" for k
    using that unfolding plannedRecipe_keys by auto
  ultimately have "set ?A \<inter> set ?B = {}" by blast
  with A B show ?case by (simp only: list.map concat.simps map_append distinct_append)
qed simp

lemma insertPlanned_keys:
  assumes "insertPlanned sid planned now d = Inr (created, d')" and "stock_keys d" and "recipes_fresh d"
    and "\<forall>p\<in>set planned. distinct (map fst (sel_recipe (snd p)))"
  shows "stock_keys d'"
proof -
  let ?ps = "zip [nextId d..<nextId d + length planned] planned"
  have new: "distinct (map recipeKey (concat (map plannedRecipe ?ps)))"
    by (rule distinct_plannedRecipe) (use assms(4) in \<open>auto dest!: set_zip_rightD\<close>)
  have "nextId d \<le> fst k" if "k \<in> set (map recipeKey (concat (map plannedRecipe ?ps)))" for k
  proof -
    from that have "fst k \<in> fst ` set ?ps" using plannedRecipe_owner [of _ ?ps] by force
    then show ?thesis by (auto dest!: set_zip_leftD)
  qed
  moreover have "fst k < nextId d" if "k \<in> set (map recipeKey (recipeRows d))" for k
    using that assms(3) by (auto simp: recipes_fresh_def)
  ultimately have "set (map recipeKey (recipeRows d)) \<inter> set (map recipeKey (concat (map plannedRecipe ?ps))) = {}"
    by (meson disjoint_iff leD)
  then have "distinct (map recipeKey (recipeRows d @ concat (map plannedRecipe ?ps)))"
    using new stock_keysD(3) [OF assms(2)] by (simp only: map_append distinct_append)
  then show ?thesis
    using assms(2) unfolding insertPlanned_effect(2) [OF assms(1)] by (simp add: stock_keys_def)
qed

lemma add_keys:
  assumes "addOrderItemsInTransaction sid lines quotes p now d = Inr d'" and "stock_keys d" and "recipes_fresh d"
  shows "stock_keys d'"
proof -
  obtain s :: orderSession and mis planned created d1 d2 where
    pl: "mapM (planLine d mis) (zip lines (case quotes of None \<Rightarrow> replicate (length lines) None | Some qs \<Rightarrow> map Some qs)) = Inr planned"
    and ins: "insertPlanned sid planned now d = Inr (created, d1)"
    and kit: "createTickets sid mis created p now d1 = Inr d2"
    and d': "d' = enqueueOrderEvent ''ITEMS_ADDED'' sid (affectedTableIds [s_tableId s]) now d2"
    by (rule addOrderItems_steps [OF assms(1)]) (rule that)
  have "distinct (map fst (sel_recipe (snd q)))" if "q \<in> set planned" for q
    using mapM_mem [OF pl that] resolve_recipe_distinct by (auto simp: planLine_def)
  then have "stock_keys d1" using insertPlanned_keys [OF ins assms(2,3)] by blast
  then show ?thesis using createTickets_sel [OF kit] by (simp add: d' stock_keys_def)
qed

context stock_invariant
begin

lemma event: "Inv d \<Longrightarrow> Inv (enqueueOrderEvent n a t w d)"
  by (rule frame [of _ d]) simp_all

lemma create: "createOrderSession t emp g now d = Inr (sid, d') \<Longrightarrow> Inv d \<Longrightarrow> Inv d'"
  by (erule createOrderSession_effect) (rule frame [of _ d]; simp)

lemma check_in:
  assumes "checkInReservation rid emp now d = Inr (sid, d')" and inv: "Inv d"
  shows "Inv d'"
proof -
  obtain b :: reservationRow and d1 rs where
    c: "createOrderSession (Some (b_tableId b)) emp (b_guestCount b) now d = Inr (sid, d1)"
    and d': "d' = addLog emp ''RESERVATION_CHECKED_IN'' rid (d1\<lparr>tableReservations := rs\<rparr>)"
    by (rule checkIn_steps [OF assms(1)]) (rule that)
  show ?thesis unfolding d' by (rule logged, rule frame [OF _ _ _ create [OF c inv]]) simp_all
qed

lemma add_items: "addOrderItemsInTransaction sid lines quotes p now d = Inr d' \<Longrightarrow> Inv d \<Longrightarrow> Inv d'"
  by (frule addOrderItems_effect(3), frule addOrderItems_effect(4), drule addOrderItems_effect(5), rule frame)

lemma online:
  assumes "createOnlineTakeawaySession emp lines quotes p now d = Inr (sid, d')"
    and keys: "stock_keys d" and fresh: "recipes_fresh d" and inv: "Inv d"
  shows "Inv d'"
proof -
  obtain d1 d2 where st: "createOrderSession None emp None now d = Inr (sid, d1)"
    "addOrderItemsInTransaction sid lines (Some quotes) p now d1 = Inr d2" "reserveSession sid now d2 = Inr d'"
    by (rule online_steps [OF assms(1)]) (rule that)
  obtain e: "inventoryItems d1 = inventoryItems d" "reservations d1 = reservations d"
    "menuIngredients d1 = menuIngredients d" "recipeRows d1 = recipeRows d" "nextId d \<le> nextId d1"
    by (rule createOrderSession_effect [OF st(1)]) (rule that)
  have "stock_keys d1" using keys e by (simp add: stock_keys_def)
  moreover have "recipes_fresh d1"
    unfolding recipes_fresh_def e(4)
  proof
    fix r assume "r \<in> set (recipeRows d)"
    then have "r_orderItemId r < nextId d" using fresh by (simp add: recipes_fresh_def)
    then show "r_orderItemId r < nextId d1" using e(5) by linarith
  qed
  ultimately
  have "stock_keys d2" by (rule add_keys [OF st(2)])
  then show ?thesis by (rule reserve_session [OF st(3)]) (rule add_items [OF st(2)], rule create [OF st(1) inv])
qed

lemma remake: "remakeItem oid emp reason key now d = Inr d' \<Longrightarrow> Inv d \<Longrightarrow> Inv d'"
  by (frule remake_effect(3), frule remake_effect(4), drule remake_effect(5), rule frame)

lemma item_status:
  assumes "changeItemStatus sign oid emp st h p now d = Inr d'" and keys: "stock_keys d" and inv: "Inv d"
  shows "Inv d'"
proof -
  obtain oi :: orderItem and s :: orderSession where "(o_status oi = st \<and> d' = d) \<or>
     (\<exists>d1 mvs d2. serveTransition (o_status oi) st \<and> applyStatus oi s st p now d = Inr d1 \<and>
        (if st = Serve_COOKING then consumeOrderItem oi now d1 else Inr ([], d1)) = Inr (mvs, d2) \<and>
        d' = enqueueOrderEvent ''ITEM_STATUS_UPDATED'' oid (affectedTableIds [s_tableId s]) now
          (addLog emp ''ORDER_ITEM_STATUS_UPDATED'' oid d2))"
    by (rule changeItemStatus_steps [OF assms(1)]) (rule that)
  then show ?thesis
  proof (elim disjE exE conjE)
    fix d1 mvs d2
    assume a: "applyStatus oi s st p now d = Inr d1"
      and c: "(if st = Serve_COOKING then consumeOrderItem oi now d1 else Inr ([], d1)) = Inr (mvs, d2)"
      and d': "d' = enqueueOrderEvent ''ITEM_STATUS_UPDATED'' oid (affectedTableIds [s_tableId s]) now
          (addLog emp ''ORDER_ITEM_STATUS_UPDATED'' oid d2)"
    have d1: "d1 = d\<lparr>orderItems := orderItems d1\<rparr>" using applyStatus_effect [OF a] by simp
    have i1: "Inv d1" by (subst d1) (rule frame [of _ d]; use inv in simp)
    have "stock_keys d1" using keys by (subst d1) (simp add: stock_keys_def)
    then have "Inv d2" using c i1 consume [of oi now d1 mvs d2] by (auto split: if_splits)
    then show ?thesis unfolding d' by (intro event logged)
  qed (use inv in simp)
qed

lemma cancel_item:
  assumes "cancelItem oid emp reason now d = Inr d'" and keys: "stock_keys d" and inv: "Inv d"
  shows "Inv d'"
proof -
  obtain oi :: orderItem and s :: orderSession and P f d1 d2 where
    rel: "releaseReservations [oid] (d\<lparr>orderItems := upd P f (orderItems d)\<rparr>) = Inr d1"
    and kit: "cancelKitchenItems [oid] emp now d1 = Inr d2"
    and d': "d' = enqueueOrderEvent ''ITEM_STATUS_UPDATED'' oid (affectedTableIds [s_tableId s]) now
       (addLog emp ''ORDER_ITEM_CANCELLED'' oid
         (if processed (o_status oi) \<and> given reason then recordWaste oid emp (the reason) d2 else d2))"
    by (rule cancelItem_steps [OF assms(1)]) (rule that)
  have "Inv (d\<lparr>orderItems := upd P f (orderItems d)\<rparr>)" by (rule frame [of _ d]) (use inv in simp_all)
  then have "Inv d1" by (rule release [OF rel, rotated]) (use keys in \<open>simp add: stock_keys_def\<close>)
  then have "Inv d2" using cancelKitchenItems_sel [OF kit] by (intro frame [of d2 d1])
  then show ?thesis unfolding d' by (intro event logged) (simp add: waste)
qed

lemma cancel_lines:
  assumes "cancelLines s emp now d = Inr d'" and keys: "stock_keys d" and inv: "Inv d"
  shows "Inv d'"
proof -
  obtain d1 itemIds P f Q g where
    rel: "releaseReservations itemIds (d\<lparr>orderItems := upd P f (orderItems d), orderSessions := upd Q g (orderSessions d)\<rparr>) = Inr d1"
    and kit: "cancelKitchenItems itemIds emp now d1 = Inr d'"
    by (rule cancelLines_steps [OF assms(1)]) (rule that)
  have "Inv (d\<lparr>orderItems := upd P f (orderItems d), orderSessions := upd Q g (orderSessions d)\<rparr>)"
    by (rule frame [of _ d]) (use inv in simp_all)
  then have "Inv d1" by (rule release [OF rel, rotated]) (use keys in \<open>simp add: stock_keys_def\<close>)
  then show ?thesis using cancelKitchenItems_sel [OF kit] by (intro frame [of d' d1])
qed

lemma tables: "Inv d \<Longrightarrow> Inv (setTables g st d)"
  by (rule frame [of _ d]) simp_all

lemma cancel_session:
  assumes "cancelSession sid emp now d = Inr d'" and "stock_keys d" and "Inv d"
  shows "Inv d'"
  by (rule cancelSession_steps [OF assms(1)])
     (use assms cancel_lines in \<open>auto intro!: event logged tables split: option.splits\<close>)

lemma clear_table:
  assumes "clearTable tid expected emp now d = Inr d'" and "stock_keys d" and "Inv d"
  shows "Inv d'"
  by (rule clearTable_steps [OF assms(1)])
     (use assms cancel_lines in \<open>auto intro!: event logged tables split: option.splits\<close>)

lemma complete: "completeSession sid emp now d = Inr d' \<Longrightarrow> Inv d \<Longrightarrow> Inv d'"
  by (erule complete_steps) (auto intro!: event logged tables intro: frame [of _ d])

lemma transfer: "transferTable sid from to emp now d = Inr d' \<Longrightarrow> Inv d \<Longrightarrow> Inv d'"
  by (erule transfer_steps) (auto intro!: event logged tables intro: frame [of _ d])

lemma merge: "mergeTables ts t ss s emp now d = Inr d' \<Longrightarrow> Inv d \<Longrightarrow> Inv d'"
  by (erule merge_steps) (auto intro!: event logged tables intro: frame [of _ d])

lemma split_table:
  assumes "splitTable src destTable moves emp now d = Inr d'" and inv: "Inv d"
  shows "Inv d'"
proof -
  obtain s :: orderSession and sid d1 ms d2 d3 g where
    ins: "insertSession \<lparr>s_id = 0, s_status = Session_ACTIVE, s_tableId = Some destTable, s_employeeId = s_employeeId s,
        s_shiftId = s_shiftId s, s_guestCount = None, s_online = None\<rparr> (setTables g Table_OCCUPIED d) = Inr (sid, d1)"
    and lines: "run_all (splitLine d src sid) moves ([], d1) = Inr (ms, d2)"
    and kit: "splitKitchenItems emp sid ms d2 = Inr d3"
    and d': "d' = enqueueOrderEvent ''SESSION_SPLIT'' src (affectedTableIds [s_tableId s, Some destTable]) now
       (addLog emp ''ORDER_TABLE_SPLIT'' src d3)"
    by (rule split_steps [OF assms(1)]) (rule that)
  have "Inv d3"
    by (rule frame [of _ d])
       (use splitLines_sel [OF lines] splitKitchenItems_sel [OF kit] insertSession_effect(3) [OF ins] inv in simp_all)
  then show ?thesis unfolding d' by (intro event logged)
qed

end

end
