(* ===== verification/Split_Claims.thy ===== *)
theory Split_Claims
  imports Order_Stock
begin

text \<open>
  Splitting a table divides lines without losing or inventing any: for every kind of line (same
  menu item, price, options, recipe date and status) the quantities of the two sessions add up
  to what the source session had.
\<close>

type_synonym lineKind = "id \<times> money \<times> selectedOption list \<times> time option \<times> ServeStatus"

definition kindOf :: "orderItem \<Rightarrow> lineKind" where
  "kindOf oi = (o_menuItemId oi, o_price oi, o_options oi, o_recipeAt oi, o_status oi)"

definition qtyIn :: "id set \<Rightarrow> lineKind set \<Rightarrow> db \<Rightarrow> int" where
  "qtyIn S K d = sumw (\<lambda>oi. o_sessionId oi \<in> S \<and> kindOf oi \<in> K) o_quantity (orderItems d)"

definition lines_fresh :: "db \<Rightarrow> bool" where
  "lines_fresh d \<longleftrightarrow>
     (\<forall>oi\<in>set (orderItems d). o_id oi < nextId d \<and> o_sessionId oi < nextId d) \<and>
     (\<forall>s\<in>set (orderSessions d). s_id s < nextId d)"

text \<open>What a run of \<open>splitLine\<close> may rely on: the lines still to be moved are as they were read.\<close>

definition splitReady :: "db \<Rightarrow> splitMove list \<Rightarrow> db \<Rightarrow> bool" where
  "splitReady d0 moves d \<longleftrightarrow>
     distinct (map o_id (orderItems d)) \<and> (\<forall>oi\<in>set (orderItems d). o_id oi < nextId d) \<and>
     (\<forall>m\<in>set moves. \<forall>oi. findOrderItem d0 (sm_orderItemId m) = Some oi \<longrightarrow> oi \<in> set (orderItems d))"

lemma findOrderItem_SomeD: "findOrderItem d i = Some oi \<Longrightarrow> oi \<in> set (orderItems d) \<and> o_id oi = i"
  unfolding findOrderItem_def by (rule find_SomeD)

lemma nextId_splitTicketItem: "nextId d \<le> nextId (splitTicketItem oi k q d)"
  by (simp add: splitTicketItem_def split: option.splits)

lemma orderItems_splitTicketItem [simp]: "orderItems (splitTicketItem oi k q d) = orderItems d"
  by (simp add: splitTicketItem_def split: option.splits)

lemma splitLine_cases:
  assumes "splitLine d0 src dest m (ms, d) = Inr (ms', d')"
  obtains (whole) oi where "findOrderItem d0 (sm_orderItemId m) = Some oi" "cnt (splitGuard oi src m) (orderItems d) = 1"
    "sm_toMove m = o_quantity oi" "ms' = ms" "nextId d' = nextId d"
    "orderItems d' = upd (splitGuard oi src m) (\<lambda>r. r\<lparr>o_sessionId := dest\<rparr>) (orderItems d)"
  | (part) oi where "findOrderItem d0 (sm_orderItemId m) = Some oi" "cnt (splitGuard oi src m) (orderItems d) = 1"
    "0 < sm_toMove m" "sm_toMove m < o_quantity oi" "Suc (nextId d) \<le> nextId d'"
    "ms' = ms @ [\<lparr>km_orderItemId = o_id oi, km_moved = nextId d, km_original = o_quantity oi, km_toMove = sm_toMove m\<rparr>]"
    "orderItems d' = upd (splitGuard oi src m) (\<lambda>r. r\<lparr>o_quantity := o_quantity oi - sm_toMove m\<rparr>) (orderItems d)
       @ [oi\<lparr>o_id := nextId d, o_sessionId := dest, o_quantity := sm_toMove m, o_isPaid := False,
            o_invoiceId := None, o_readyAt := None\<rparr>]"
proof -
  obtain oi where oi: "findOrderItem d0 (sm_orderItemId m) = Some oi" "cnt (splitGuard oi src m) (orderItems d) = 1"
    using assms by (auto simp: splitLine_def Let_def)
  show ?thesis
  proof (cases "sm_toMove m = o_quantity oi")
    case True
    then show ?thesis using assms oi by (intro whole [OF oi]) (auto simp: splitLine_def Let_def)
  next
    case False
    then show ?thesis
      using assms oi nextId_splitTicketItem [of "d\<lparr>nextId := Suc (nextId d)\<rparr>"]
      by (intro part [OF oi])
         (auto simp: splitLine_def Let_def splitPart_def splitTicketItem_def split: option.splits)
  qed
qed

lemma splitGuard_row:
  assumes "splitReady d0 (m # moves) d" and "findOrderItem d0 (sm_orderItemId m) = Some oi"
    and "cnt (splitGuard oi src m) (orderItems d) = 1"
  shows "oi \<in> set (orderItems d)" "splitGuard oi src m oi" "o_sessionId oi = src" "\<not> paidOrInvoiced oi"
proof -
  show mem: "oi \<in> set (orderItems d)" using assms(1,2) by (simp add: splitReady_def)
  obtain r where r: "r \<in> set (orderItems d)" "splitGuard oi src m r" using cnt_1_obtain [OF assms(3)] by blast
  have "distinct (map o_id (orderItems d))" using assms(1) by (simp add: splitReady_def)
  then have "r = oi" using distinct_key_eq [of o_id "orderItems d" r oi] r mem by (simp add: splitGuard_def)
  then show "splitGuard oi src m oi" "o_sessionId oi = src" "\<not> paidOrInvoiced oi" using r by (auto simp: splitGuard_def)
qed

lemma splitLine_qty:
  assumes step: "splitLine d0 src dest m (ms, d) = Inr (ms', d')" and ready: "splitReady d0 (m # moves) d"
    and ne: "dest \<noteq> src"
  shows "qtyIn S K d' = qtyIn S K d + (case findOrderItem d0 (sm_orderItemId m) of None \<Rightarrow> 0
     | Some oi \<Rightarrow> of_bool (kindOf oi \<in> K) * sm_toMove m * (of_bool (dest \<in> S) - of_bool (src \<in> S)))"
  using step
proof (cases rule: splitLine_cases)
  case (whole oi)
  note row = splitGuard_row [OF ready whole(1,2)]
  have "distinct (map o_id (orderItems d))" using ready by (simp add: splitReady_def)
  note u = sumw_upd_one [where P = "splitGuard oi src m" and f = "\<lambda>r. r\<lparr>o_sessionId := dest\<rparr>" and k = "o_id oi",
      OF this row(1,2), of "\<lambda>oi. o_sessionId oi \<in> S \<and> kindOf oi \<in> K" o_quantity]
  have "splitGuard oi src m x \<Longrightarrow> o_id x = o_id oi" for x by (simp add: splitGuard_def)
  then show ?thesis
    using u row(3) whole(1,3) unfolding qtyIn_def whole(6) by (auto simp: kindOf_def)
next
  case (part oi)
  note row = splitGuard_row [OF ready part(1,2)]
  have "distinct (map o_id (orderItems d))" using ready by (simp add: splitReady_def)
  note u = sumw_upd_one [where P = "splitGuard oi src m" and f = "\<lambda>r. r\<lparr>o_quantity := o_quantity oi - sm_toMove m\<rparr>"
      and k = "o_id oi", OF this row(1,2), of "\<lambda>oi. o_sessionId oi \<in> S \<and> kindOf oi \<in> K" o_quantity]
  have "splitGuard oi src m x \<Longrightarrow> o_id x = o_id oi" for x by (simp add: splitGuard_def)
  then show ?thesis
    using u row(3) part(1) unfolding qtyIn_def part(7) sumw_rules by (auto simp: kindOf_def)
qed

lemma splitLine_ready:
  assumes step: "splitLine d0 src dest m (ms, d) = Inr (ms', d')" and ready: "splitReady d0 (m # moves) d"
    and dist: "distinct (map sm_orderItemId (m # moves))"
  shows "splitReady d0 moves d'"
proof -
  have keep: "oi' \<in> set (upd (splitGuard oi src m) f (orderItems d))"
    if "findOrderItem d0 (sm_orderItemId m) = Some oi" "m' \<in> set moves" "findOrderItem d0 (sm_orderItemId m') = Some oi'"
    for oi oi' m' f
  proof -
    have "sm_orderItemId m' \<noteq> sm_orderItemId m" using that(2) dist by (auto simp: image_iff)
    then have "o_id oi' \<noteq> o_id oi"
      using findOrderItem_SomeD [OF that(1)] findOrderItem_SomeD [OF that(3)] by simp
    moreover have "oi' \<in> set (orderItems d)" using ready that by (simp add: splitReady_def)
    ultimately show ?thesis by (force simp: set_upd splitGuard_def)
  qed
  have ids: "map o_id (upd (splitGuard oi src m) f (orderItems d)) = map o_id (orderItems d)"
    if "\<And>r. o_id (f r) = o_id r" for oi f
    using that by (rule map_key_upd)
  have less: "\<forall>i\<in>set (map o_id (orderItems d)). i < nextId d" and dist': "distinct (map o_id (orderItems d))"
    using ready by (auto simp: splitReady_def)
  from step show ?thesis
  proof (cases rule: splitLine_cases)
    case (whole oi)
    have e: "map o_id (orderItems d') = map o_id (orderItems d)" unfolding whole(6) by (rule ids) simp
    have "distinct (map o_id (orderItems d'))" unfolding e by (rule dist')
    moreover have "\<forall>i\<in>set (map o_id (orderItems d')). i < nextId d'" unfolding e using less whole(5) by simp
    moreover have "oi' \<in> set (orderItems d')" if "m' \<in> set moves" "findOrderItem d0 (sm_orderItemId m') = Some oi'" for m' oi'
      unfolding whole(6) by (rule keep [OF whole(1) that])
    ultimately show ?thesis by (simp add: splitReady_def)
  next
    case (part oi)
    have e: "map o_id (orderItems d') = map o_id (orderItems d) @ [nextId d]"
      unfolding part(7) map_append by (subst ids) simp_all
    have "\<forall>i\<in>set (map o_id (orderItems d')). i < nextId d'" unfolding e using less part(5) by fastforce
    moreover have "distinct (map o_id (orderItems d'))" unfolding e using less dist' by fastforce
    moreover have "oi' \<in> set (orderItems d')" if "m' \<in> set moves" "findOrderItem d0 (sm_orderItemId m') = Some oi'" for m' oi'
      unfolding part(7) using keep [OF part(1) that] by simp
    ultimately show ?thesis by (simp add: splitReady_def)
  qed
qed


lemma splitLines_qty:
  assumes "run_all (splitLine d0 src dest) moves (ms, d) = Inr (ms', d')" and "splitReady d0 moves d"
    and "distinct (map sm_orderItemId moves)" and ne: "dest \<noteq> src"
    and "\<forall>m\<in>set moves. findOrderItem d0 (sm_orderItemId m) \<noteq> None"
  shows "qtyIn S K d' = qtyIn S K d + (of_bool (dest \<in> S) - of_bool (src \<in> S)) *
    (\<Sum>m\<leftarrow>moves. of_bool (kindOf (the (findOrderItem d0 (sm_orderItemId m))) \<in> K) * sm_toMove m)"
  using assms(1-3,5)
proof (induction moves arbitrary: ms d)
  case (Cons m moves)
  obtain ms1 d1 where one: "splitLine d0 src dest m (ms, d) = Inr (ms1, d1)"
    and rest: "run_all (splitLine d0 src dest) moves (ms1, d1) = Inr (ms', d')"
    using Cons.prems(1) by auto
  obtain oi where oi: "findOrderItem d0 (sm_orderItemId m) = Some oi" using Cons.prems(4) by auto
  have "qtyIn S K d' = qtyIn S K d1 + (of_bool (dest \<in> S) - of_bool (src \<in> S)) *
    (\<Sum>m\<leftarrow>moves. of_bool (kindOf (the (findOrderItem d0 (sm_orderItemId m))) \<in> K) * sm_toMove m)"
    by (rule Cons.IH [OF rest splitLine_ready [OF one Cons.prems(2,3)]]) (use Cons.prems in simp_all)
  then show ?case
    using splitLine_qty [OF one Cons.prems(2) ne, of S K] oi by (simp add: algebra_simps)
qed simp

lemma splitChecks_found:
  "run_all (splitCheck d src) moves u = Inr u' \<Longrightarrow> \<forall>m\<in>set moves. findOrderItem d (sm_orderItemId m) \<noteq> None"
  by (induction moves arbitrary: u) (auto simp: splitCheck_def)

text \<open>C36: Splitting a table loses and invents nothing: for every set of kinds of lines (same menu
  item, price, options, recipe date and status) the quantities left in the source session and
  moved to the new session add up to what the source session had, lines of every other session
  are untouched, and the new session holds exactly the quantities the request named.\<close>

theorem split_conserves_lines:
  assumes "splitTable src destTable moves emp now d = Inr d'" and "keys_ok d" and "lines_fresh d"
  shows "\<exists>sid. s_id ` set (orderSessions d') = insert sid (s_id ` set (orderSessions d)) \<and> sid \<notin> s_id ` set (orderSessions d) \<and>
    (\<forall>K. qtyIn {src} K d' + qtyIn {sid} K d' = qtyIn {src} K d) \<and>
    (\<forall>S K. src \<notin> S \<and> sid \<notin> S \<longrightarrow> qtyIn S K d' = qtyIn S K d) \<and>
    qtyIn {sid} UNIV d' = (\<Sum>m\<leftarrow>moves. sm_toMove m)"
proof -
  obtain s :: orderSession and sid d1 ms d2 d3 g where dist: "distinct (map sm_orderItemId moves)"
    and s: "s \<in> set (orderSessions d)" "s_id s = src"
    and checks: "run_all (splitCheck d src) moves () = Inr ()"
    and ins: "insertSession \<lparr>s_id = 0, s_status = Session_ACTIVE, s_tableId = Some destTable, s_employeeId = s_employeeId s,
        s_shiftId = s_shiftId s, s_guestCount = None, s_online = None\<rparr> (setTables g Table_OCCUPIED d) = Inr (sid, d1)"
    and lines: "run_all (splitLine d src sid) moves ([], d1) = Inr (ms, d2)"
    and kit: "splitKitchenItems emp sid ms d2 = Inr d3"
    and d': "d' = enqueueOrderEvent ''SESSION_SPLIT'' src (affectedTableIds [s_tableId s, Some destTable]) now
       (addLog emp ''ORDER_TABLE_SPLIT'' src d3)"
    by (rule split_steps [OF assms(1)]) (rule that)
  have sid: "sid = nextId d" using insertSession_effect(1) [OF ins] by simp
  have d1: "orderItems d1 = orderItems d" "nextId d1 = Suc (nextId d)"
    "s_id ` set (orderSessions d1) = insert sid (s_id ` set (orderSessions d))"
    using insertSession_effect(3) [OF ins] sid by simp_all
  have ss: "orderSessions d' = orderSessions d1"
    using splitKitchenItems_sel [OF kit] splitLines_sel [OF lines] by (simp add: d')
  have items: "orderItems d' = orderItems d2" using splitKitchenItems_sel [OF kit] by (simp add: d')
  have ne: "sid \<noteq> src" using assms(3) s sid by (auto simp: lines_fresh_def)
  have ready: "splitReady d moves d1"
    using assms(2,3) keys_okD(3) findOrderItem_SomeD
    by (fastforce simp: splitReady_def d1 lines_fresh_def)
  note q = splitLines_qty [OF lines ready dist ne splitChecks_found [OF checks]]
  have same: "qtyIn S K d1 = qtyIn S K d" "qtyIn S K d' = qtyIn S K d2" for S K by (simp_all add: qtyIn_def d1 items)
  have none: "qtyIn {sid} K d = 0" for K
    unfolding qtyIn_def by (rule sumw_zero) (use assms(3) sid in \<open>auto simp: lines_fresh_def\<close>)
  show ?thesis
  proof (rule exI [of _ sid], intro conjI allI impI)
    show "s_id ` set (orderSessions d') = insert sid (s_id ` set (orderSessions d))" using d1(3) ss by simp
    show "sid \<notin> s_id ` set (orderSessions d)" using assms(3) sid by (auto simp: lines_fresh_def)
    show "qtyIn {src} K d' + qtyIn {sid} K d' = qtyIn {src} K d" for K
      using q [of "{src}" K] q [of "{sid}" K] none [of K] ne by (simp add: same)
    show "qtyIn S K d' = qtyIn S K d" if "src \<notin> S \<and> sid \<notin> S" for S K
      using q [of S K] that by (simp add: same)
    show "qtyIn {sid} UNIV d' = (\<Sum>m\<leftarrow>moves. sm_toMove m)"
      using q [of "{sid}" UNIV] none [of UNIV] ne by (simp add: same)
  qed
qed


section \<open>A sample floor\<close>

text \<open>The sample store with its session at table 50, table 51 free, a bar (60) that prints on
  device 61, the latte on the menu, and the ticket (70) and print job (72) of the latte line.\<close>

definition sample_floor :: db where
  "sample_floor = sample_store\<lparr>
     diningTables := [\<lparr>t_id = 50, t_status = Table_OCCUPIED, t_deletedAt = None\<rparr>,
       \<lparr>t_id = 51, t_status = Table_EMPTY, t_deletedAt = None\<rparr>],
     orderSessions := [\<lparr>s_id = 4, s_status = Session_ACTIVE, s_tableId = Some 50, s_employeeId = 1,
       s_shiftId = None, s_guestCount = Some 2, s_online = None\<rparr>],
     menuCategories := [\<lparr>n_id = 40, n_name = ''drinks'', n_deletedAt = None\<rparr>],
     kitchenStations := [\<lparr>ks_id = 60, ks_isActive = True, ks_deletedAt = None, ks_prepSlaSeconds = 300,
       ks_printDeviceId = Some 61\<rparr>],
     printDevices := [\<lparr>pd_id = 61, pd_isActive = True, pd_deletedAt = None\<rparr>],
     menuItems := [sample_latte\<lparr>mi_stationId := Some 60\<rparr>],
     kitchenTickets := [\<lparr>kt_id = 70, kt_stationId = 60, kt_sessionId = 4, kt_dueAt = 300000, kt_availableAt = Some 0\<rparr>],
     kitchenTicketItems := [\<lparr>ki_id = 71, ki_ticketId = 70, ki_orderItemId = 5, ki_quantity = 2\<rparr>],
     printJobs := [\<lparr>j_id = 72, j_type = Job_KITCHEN_TICKET, j_status = Print_PENDING, j_ticketId = Some 70,
       j_invoiceId = None, j_deviceId = Some 61, j_requestedById = None, j_availableAt = 0, j_failedAt = None,
       j_dedup = Some (KitchenTicketKey 70), j_payload = Some [\<lparr>pl_orderItemId = 5, pl_quantity = 2\<rparr>]\<rparr>]\<rparr>"

lemmas sample_floor_simps = sample_floor_def sample_store_simps

lemma sample_floor_ok: "keys_ok sample_floor" "lines_fresh sample_floor" "table_inv sample_floor" "stock_inv sample_floor"
  by (simp_all add: keys_ok_def stock_keys_def one_open_shift_def lines_fresh_def table_inv_def occ_def sitsAt_def
      stock_inv_def stock_ok_def reservedIn_def sample_floor_simps)

lemmas split_eval = splitTable_def findTable_def activeOn_def splitCheck_def findOrderItem_def paidOrInvoiced_def
  insertSession_def setTables_def splitLine_def splitGuard_def splitPart_def splitTicketItem_def Let_def
  readSelectedOptions_def assertActiveEmployee_def activeEmployee_def splitKitchenItems_def kitchenJobs_def
  ticketKey_def splitJob_def moveFor_def movedLines_def keptLine_def unprinted_def jobCheck_def
  enqueueOrderEvent_def enqueue_def addLog_def affectedTableIds_def

lemma sample_split_ok: "ok (splitTable 4 51 [\<lparr>sm_orderItemId = 5, sm_toMove = 1, sm_expected = 2\<rparr>] 1 9 sample_floor)"
  by (simp add: split_eval sample_floor_simps)

theorem split_conserves_lines_witness:
  "\<exists>sid. qtyIn {sid} UNIV (value_of (splitTable 4 51 [\<lparr>sm_orderItemId = 5, sm_toMove = 1, sm_expected = 2\<rparr>] 1 9 sample_floor)) = 1"
  using split_conserves_lines [OF ok_value_of [OF sample_split_ok] sample_floor_ok(1,2)] by auto

end
