(* ===== verification/Kitchen_Claims.thy ===== *)
theory Kitchen_Claims
  imports Split_Claims
begin

text \<open>
  The kitchen's paper: a cancelled line is on no ticket that can still be printed and on a
  cancellation slip for every ticket that already was; splitting divides the quantities on
  the paper; and a line whose ticket failed to print cannot be split at all.
\<close>

section \<open>Cancelling\<close>

definition ticketJobOf :: "id list \<Rightarrow> db \<Rightarrow> printJob \<Rightarrow> bool" where
  "ticketJobOf ids d j \<longleftrightarrow> j_type j = Job_KITCHEN_TICKET \<and> ticketKey (j_dedup j) \<and>
     (\<exists>k\<in>set (kitchenTicketItems d). j_ticketId j = Some (ki_ticketId k) \<and> ki_orderItemId k \<in> set ids)"

definition namesAny :: "id list \<Rightarrow> printJob \<Rightarrow> bool" where
  "namesAny ids j \<longleftrightarrow> (case j_payload j of None \<Rightarrow> False | Some ls \<Rightarrow> \<exists>l\<in>set ls. pl_orderItemId l \<in> set ids)"

definition slipFor :: "printJob \<Rightarrow> id list \<Rightarrow> printJob \<Rightarrow> bool" where
  "slipFor j ids r \<longleftrightarrow> j_dedup r = Some (KitchenCancellationKey (j_id j)
     (sort (map pl_orderItemId (filter (\<lambda>l. pl_orderItemId l \<in> set ids) (the (j_payload j))))))"

lemma kitchenJobs_set: "set (kitchenJobs ids d) = {j \<in> set (printJobs d). ticketJobOf ids d j}"
  by (auto simp: kitchenJobs_def ticketJobOf_def)

lemma cancelJob_cases:
  assumes "cancelJob emp ids now j d = Inr d'"
  obtains (cancelled) "j_status j = Print_CANCELLED" "d' = d"
  | (absent) "\<not> namesAny ids j" "d' = d"
  | (dropped) ls where "unprinted (j_status j)" "j_payload j = Some ls"
      "dropLines j (filter (\<lambda>l. pl_orderItemId l \<notin> set ids) ls) d = Inr d'"
  | (slip) "\<not> unprinted (j_status j)" "namesAny ids j"
      "d' = cancellationSlip emp now j (filter (\<lambda>l. pl_orderItemId l \<in> set ids) (the (j_payload j))) d"
proof (cases "j_status j = Print_CANCELLED")
  case True
  then show ?thesis using assms by (intro cancelled) (simp_all add: cancelJob_def)
next
  case False
  then obtain ls where ls: "j_payload j = Some ls" using assms by (auto simp: cancelJob_def)
  show ?thesis
  proof (cases "filter (\<lambda>l. pl_orderItemId l \<in> set ids) ls = []")
    case True
    then have "\<not> namesAny ids j" using ls by (simp add: namesAny_def filter_empty_conv)
    then show ?thesis using assms False ls True by (intro absent) (simp_all add: cancelJob_def)
  next
    case some: False
    then have "namesAny ids j" using ls by (auto simp: namesAny_def filter_empty_conv)
    then show ?thesis
      using assms False ls some
      by (cases "unprinted (j_status j)") (auto simp: cancelJob_def Let_def intro: dropped slip)
  qed
qed

text \<open>While \<open>js\<close> are to come: handled jobs are clean, handled printed jobs have their slip.\<close>

definition paperOk :: "id list \<Rightarrow> db \<Rightarrow> printJob list \<Rightarrow> db \<Rightarrow> bool" where
  "paperOk ids d0 js d \<longleftrightarrow> kitchenTicketItems d = kitchenTicketItems d0 \<and>
     (\<forall>r\<in>set (printJobs d). ticketJobOf ids d0 r \<longrightarrow> unprinted (j_status r) \<longrightarrow> namesAny ids r \<longrightarrow> r \<in> set js) \<and>
     (\<forall>j\<in>set (kitchenJobs ids d0). \<not> unprinted (j_status j) \<longrightarrow> j_status j \<noteq> Print_CANCELLED \<longrightarrow> namesAny ids j \<longrightarrow>
        j \<in> set js \<or> (\<exists>r\<in>set (printJobs d). slipFor j ids r))"

lemma cancellationSlip_jobs:
  "printJobs (cancellationSlip emp now j gone d) = printJobs d \<or>
   (\<exists>r. printJobs (cancellationSlip emp now j gone d) = printJobs d @ [r] \<and> \<not> ticketKey (j_dedup r))"
  "\<exists>r\<in>set (printJobs (cancellationSlip emp now j gone d)).
     j_dedup r = Some (KitchenCancellationKey (j_id j) (sort (map pl_orderItemId gone)))"
  "set (printJobs d) \<subseteq> set (printJobs (cancellationSlip emp now j gone d))"
  "kitchenTicketItems (cancellationSlip emp now j gone d) = kitchenTicketItems d"
  by (auto simp: cancellationSlip_def Let_def ticketKey_def)

lemma slipFor_upd:
  assumes "\<exists>r\<in>set t. slipFor j ids r" and "\<And>r. j_dedup (f r) = j_dedup r"
  shows "\<exists>r\<in>set (upd P f t). slipFor j ids r"
proof -
  obtain r where r: "r \<in> set t" "slipFor j ids r" using assms(1) by blast
  have "(if P r then f r else r) \<in> set (upd P f t)" using r(1) by (auto simp: set_upd)
  moreover have "slipFor j ids (if P r then f r else r)" using r(2) assms(2) by (simp add: slipFor_def)
  ultimately show ?thesis by blast
qed

lemma paperOk_step:
  assumes step: "cancelJob emp ids now j d = Inr d'" and ok: "paperOk ids d0 (j # js) d"
  shows "paperOk ids d0 js d'"
  using step
proof (cases rule: cancelJob_cases)
  case cancelled
  then show ?thesis using ok by (auto simp: paperOk_def unprinted_def)
next
  case absent
  then show ?thesis using ok by (auto simp: paperOk_def)
next
  case (dropped ls)
  let ?f = "\<lambda>r. r\<lparr>j_payload := Some (filter (\<lambda>l. pl_orderItemId l \<notin> set ids) ls),
      j_status := (if filter (\<lambda>l. pl_orderItemId l \<notin> set ids) ls = [] then Print_CANCELLED else j_status r),
      j_failedAt := (if filter (\<lambda>l. pl_orderItemId l \<notin> set ids) ls = [] then None else j_failedAt r)\<rparr>"
  have jobs: "printJobs d' = upd (\<lambda>r. r = j) ?f (printJobs d)" "kitchenTicketItems d' = kitchenTicketItems d"
    using dropped(3) by (auto simp: dropLines_def)
  have "\<not> namesAny ids (?f j)" by (simp add: namesAny_def)
  then have "\<forall>r\<in>set (printJobs d'). ticketJobOf ids d0 r \<longrightarrow> unprinted (j_status r) \<longrightarrow> namesAny ids r \<longrightarrow> r \<in> set js"
    using ok unfolding jobs ball_upd paperOk_def by (auto split: if_splits)
  moreover have "k \<in> set js \<or> (\<exists>r\<in>set (printJobs d'). slipFor k ids r)"
    if "k \<in> set (kitchenJobs ids d0)" "\<not> unprinted (j_status k)" "j_status k \<noteq> Print_CANCELLED" "namesAny ids k" for k
  proof -
    have "k \<noteq> j" using that(2) dropped(1) by blast
    then have "k \<in> set js \<or> (\<exists>r\<in>set (printJobs d). slipFor k ids r)" using ok that by (auto simp: paperOk_def)
    then show ?thesis unfolding jobs using slipFor_upd [of "printJobs d" k ids ?f] by auto
  qed
  ultimately show ?thesis using ok jobs(2) by (simp add: paperOk_def)
next
  case slip
  note c = cancellationSlip_jobs [where emp = emp and now = now and j = j and d = d and
      gone = "filter (\<lambda>l. pl_orderItemId l \<in> set ids) (the (j_payload j))", folded slip(3)]
  have "\<forall>r\<in>set (printJobs d'). ticketJobOf ids d0 r \<longrightarrow> unprinted (j_status r) \<longrightarrow> namesAny ids r \<longrightarrow> r \<in> set js"
    using c(1) ok slip(1) by (auto simp: paperOk_def ticketJobOf_def)
  moreover have "k \<in> set js \<or> (\<exists>r\<in>set (printJobs d'). slipFor k ids r)"
    if "k \<in> set (kitchenJobs ids d0)" "\<not> unprinted (j_status k)" "j_status k \<noteq> Print_CANCELLED" "namesAny ids k" for k
  proof (cases "k = j")
    case True
    then show ?thesis using c(2) by (simp add: slipFor_def)
  next
    case False
    then have "k \<in> set js \<or> (\<exists>r\<in>set (printJobs d). slipFor k ids r)" using ok that by (auto simp: paperOk_def)
    then show ?thesis using c(3) by blast
  qed
  ultimately show ?thesis using ok c(4) by (simp add: paperOk_def)
qed

text \<open>C37: After lines are cancelled, no kitchen ticket that can still be printed (PENDING or
  FAILED) names any of them, and for every ticket already claimed or printed that names one there
  is a cancellation slip in the print queue.\<close>

theorem cancelled_lines_leave_paper:
  assumes "cancelKitchenItems ids emp now d = Inr d'"
  shows "(\<forall>r\<in>set (printJobs d'). ticketJobOf ids d' r \<and> unprinted (j_status r) \<longrightarrow> \<not> namesAny ids r) \<and>
    (\<forall>j\<in>set (kitchenJobs ids d). \<not> unprinted (j_status j) \<and> j_status j \<noteq> Print_CANCELLED \<and> namesAny ids j \<longrightarrow>
       (\<exists>r\<in>set (printJobs d'). slipFor j ids r))"
proof (cases "ids = []")
  case True
  then show ?thesis by (auto simp: namesAny_def split: option.splits)
next
  case False
  then have run: "run_all (cancelJob emp ids now) (kitchenJobs ids d) d = Inr d'"
    using assms by (simp add: cancelKitchenItems_def)
  have init: "paperOk ids d (kitchenJobs ids d) d" by (simp add: paperOk_def kitchenJobs_set)
  have "paperOk ids d [] d'"
    by (rule run_all_pending [where I = "paperOk ids d", OF run init]) (rule paperOk_step)
  then show ?thesis by (auto simp: paperOk_def ticketJobOf_def)
qed


lemmas cancel_eval = cancelKitchenItems_def cancelJob_def kitchenJobs_def ticketKey_def unprinted_def dropLines_def
  cancellationSlip_def Let_def

lemma sample_cancel_ok: "ok (cancelKitchenItems [5] 1 9 sample_floor)"
  by (simp add: cancel_eval sample_floor_simps)

theorem cancelled_lines_leave_paper_witness:
  "filter (\<lambda>r. ticketJobOf [5] (value_of (cancelKitchenItems [5] 1 9 sample_floor)) r \<and> unprinted (j_status r) \<and> namesAny [5] r)
     (printJobs (value_of (cancelKitchenItems [5] 1 9 sample_floor))) = []"
  using cancelled_lines_leave_paper [OF ok_value_of [OF sample_cancel_ok]] by (simp only: filter_empty_conv) blast

section \<open>Splitting\<close>

definition lineQty :: "printLine list \<Rightarrow> int" where
  "lineQty ls = (\<Sum>l\<leftarrow>ls. pl_quantity l)"

definition paperQty :: "printJob list \<Rightarrow> int" where
  "paperQty js = sumw (\<lambda>j. True) (\<lambda>j. case j_payload j of None \<Rightarrow> 0 | Some ls \<Rightarrow> lineQty ls) js"

lemma sumw_upd_eq:
  "cnt (\<lambda>r. r = j) t = 1 \<Longrightarrow> sumw (\<lambda>_. True) h (upd (\<lambda>r. r = j) f t) = sumw (\<lambda>_. True) h t - h j + h (f j)"
proof (induction t)
  case (Cons a t)
  show ?case
  proof (cases "a = j")
    case True
    then have "cnt (\<lambda>r. r = j) t = 0" using Cons.prems by simp
    then have "upd (\<lambda>r. r = j) f t = t" by (intro upd_none) (auto simp: cnt_zero_iff)
    then show ?thesis using True by simp
  next
    case False
    then show ?thesis using Cons by simp
  qed
qed simp

lemma lineQty_rules [simp]:
  "lineQty [] = 0" "lineQty (l # ls) = pl_quantity l + lineQty ls" "lineQty (xs @ ys) = lineQty xs + lineQty ys"
  by (simp_all add: lineQty_def)

lemma movedLines_rules [simp]:
  "movedLines moves [] = []"
  "movedLines moves (l # ls) = (case moveFor moves (pl_orderItemId l) of None \<Rightarrow> []
     | Some m \<Rightarrow> [l\<lparr>pl_orderItemId := km_moved m, pl_quantity := km_toMove m\<rparr>]) @ movedLines moves ls"
  by (simp_all add: movedLines_def)

lemma keptLine_qty: "pl_quantity (keptLine moves l) = (case moveFor moves (pl_orderItemId l) of None \<Rightarrow> pl_quantity l
     | Some m \<Rightarrow> km_original m - km_toMove m)"
  by (simp add: keptLine_def split: option.splits)

lemma moved_plus_kept:
  "\<forall>l\<in>set ls. case moveFor moves (pl_orderItemId l) of None \<Rightarrow> True | Some m \<Rightarrow> pl_quantity l = km_original m
    \<Longrightarrow> lineQty (map (keptLine moves) ls) + lineQty (movedLines moves ls) = lineQty ls"
proof (induction ls)
  case (Cons l ls)
  then have "lineQty (map (keptLine moves) ls) + lineQty (movedLines moves ls) = lineQty ls" by simp
  then show ?case
    using Cons.prems by (cases "moveFor moves (pl_orderItemId l)") (simp_all add: keptLine_qty)
qed simp

lemma splitJob_cases:
  assumes "splitJob emp dest moves j d = Inr d'"
  obtains (same) "d' = d" "j_status j = Print_CANCELLED \<or> (\<exists>ls. j_payload j = Some ls \<and> movedLines moves ls = [])"
  | (slip) ls where "j_payload j = Some ls" "movedLines moves ls \<noteq> []" "j_status j = Print_PENDING"
      "\<forall>l\<in>set ls. case moveFor moves (pl_orderItemId l) of None \<Rightarrow> True | Some m \<Rightarrow> pl_quantity l = km_original m"
      "cnt (\<lambda>r. r = j) (printJobs d) = 1"
      "printJobs d' = upd (\<lambda>r. r = j) (\<lambda>r. r\<lparr>j_payload := Some (map (keptLine moves) ls)\<rparr>) (printJobs d)
         @ [j\<lparr>j_id := nextId d, j_requestedById := Some emp, j_failedAt := None,
             j_dedup := Some (KitchenSplitKey (j_id j) dest), j_payload := Some (movedLines moves ls)\<rparr>]"
proof (cases "j_status j = Print_CANCELLED")
  case True
  then show ?thesis using assms by (intro same) (simp_all add: splitJob_def)
next
  case False
  then obtain ls where ls: "j_payload j = Some ls" using assms by (auto simp: splitJob_def)
  show ?thesis
  proof (cases "movedLines moves ls = []")
    case True
    then show ?thesis using assms False ls by (intro same) (simp_all add: splitJob_def)
  next
    case some: False
    have "j_status j = Print_PENDING"
      using assms False ls some by (auto simp: splitJob_def Let_def unprinted_def jobCheck_def)
    then show ?thesis
      using assms False ls some by (intro slip [OF ls some]) (auto simp: splitJob_def Let_def)
  qed
qed

text \<open>Splitting lines on kitchen paper conserves it: the quantities printed or to be printed
  over all jobs stay the same, each divided line leaving what is not moved on the old ticket and
  printing the moved part on a new one.\<close>

theorem split_conserves_paper:
  assumes "splitKitchenItems emp dest moves d = Inr d'"
  shows "paperQty (printJobs d') = paperQty (printJobs d)"
proof (cases "moves = []")
  case True
  then show ?thesis using assms by (simp add: splitKitchenItems_def)
next
  case False
  then have run: "run_all (splitJob emp dest moves) (kitchenJobs (map km_orderItemId moves) d) d = Inr d'"
    using assms by (simp add: splitKitchenItems_def)
  have step: "paperQty (printJobs t') = paperQty (printJobs t)" if "splitJob emp dest moves j t = Inr t'" for j t t'
    using that
  proof (cases rule: splitJob_cases)
    case (slip ls)
    then show ?thesis using moved_plus_kept [OF slip(4)] by (simp add: paperQty_def sumw_upd_eq [OF slip(5)])
  qed simp
  show ?thesis by (rule run_all_frame [where h = "\<lambda>t. paperQty (printJobs t)", OF run]) (rule step)
qed

lemmas split_jobs_eval = splitKitchenItems_def kitchenJobs_def ticketKey_def splitJob_def moveFor_def movedLines_def
  keptLine_def unprinted_def jobCheck_def Let_def

definition sample_moves :: "kitchenMove list" where
  "sample_moves = [\<lparr>km_orderItemId = 5, km_moved = 900, km_original = 2, km_toMove = 1\<rparr>]"

lemma sample_paper_ok: "ok (splitKitchenItems 1 901 sample_moves sample_floor)"
  by (simp add: split_jobs_eval sample_moves_def sample_floor_simps)

theorem split_conserves_paper_witness:
  "paperQty (printJobs (value_of (splitKitchenItems 1 901 sample_moves sample_floor))) = 2"
  using split_conserves_paper [OF ok_value_of [OF sample_paper_ok]]
  by (simp add: paperQty_def lineQty_def sample_floor_simps)

lemma run_all_each_ok: "run_all f xs s = Inr s' \<Longrightarrow> x \<in> set xs \<Longrightarrow> \<exists>t t'. f x t = Inr t'"
  by (induction xs arbitrary: s) auto

text \<open>C38: A line can only be divided while its kitchen ticket is PENDING: the service means to
  accept FAILED tickets too, but the split ticket it inserts copies the status without
  \<open>failedAt\<close>, which \<open>PrintJob_state_check\<close> rejects, so dividing a line of a FAILED ticket
  always throws.\<close>

theorem failed_ticket_cannot_split:
  assumes "j \<in> set (kitchenJobs (map km_orderItemId moves) d)" and "j_status j = Print_FAILED"
    and "j_payload j = Some ls" and "movedLines moves ls \<noteq> []"
  shows "\<not> ok (splitKitchenItems emp dest moves d)"
proof
  assume "ok (splitKitchenItems emp dest moves d)"
  then obtain d' where d': "splitKitchenItems emp dest moves d = Inr d'" using ok_value_of by blast
  have "moves \<noteq> []" using assms(4) by (auto simp: movedLines_def moveFor_def)
  then have "run_all (splitJob emp dest moves) (kitchenJobs (map km_orderItemId moves) d) d = Inr d'"
    using d' by (simp add: splitKitchenItems_def)
  from run_all_each_ok [OF this assms(1)] obtain t t' where "splitJob emp dest moves j t = Inr t'" by blast
  then show False by (cases rule: splitJob_cases) (use assms(2-4) in simp_all)
qed

text \<open>The sample floor with the latte's ticket failed.\<close>

definition failed_floor :: db where
  "failed_floor = sample_floor\<lparr>printJobs := map (\<lambda>j. j\<lparr>j_status := Print_FAILED, j_failedAt := Some 5\<rparr>) (printJobs sample_floor)\<rparr>"

theorem failed_ticket_cannot_split_witness: "\<not> ok (splitKitchenItems 1 901 sample_moves failed_floor)"
  by (rule failed_ticket_cannot_split [of "hd (printJobs failed_floor)" _ _ "[\<lparr>pl_orderItemId = 5, pl_quantity = 2\<rparr>]"])
     (simp_all add: kitchenJobs_def ticketKey_def movedLines_def moveFor_def sample_moves_def failed_floor_def sample_floor_simps)

end
