(* ===== verification/Order_Claims.thy ===== *)
theory Order_Claims
  imports Kitchen_Claims
begin

text \<open>
  Properties of single order operations: what cancelling a line does, who may collect an online
  order, rotating a pickup code, the price of an online order, remakes, and releasing a table.
\<close>

section \<open>Cancelling a line\<close>

lemma releaseReservations_held:
  assumes "releaseReservations ids d = Inr d'" and "oid \<in> set ids"
  shows "heldBy d' oid = []"
proof -
  have "ids \<noteq> []" using assms(2) by auto
  then have "\<forall>h\<in>set (reservations d'). h_orderItemId h \<notin> set ids"
    using assms(1) by (auto simp: releaseReservations_def Let_def filter_empty_conv split: if_splits)
  then show ?thesis using assms(2) by (auto simp: heldBy_def filter_empty_conv)
qed

lemma upd_as_key:
  assumes "distinct (map key t)" and "cnt P t = 1" and "\<And>r. P r \<Longrightarrow> key r = k"
  shows "upd P f t = upd (\<lambda>r. key r = k) f t"
proof -
  obtain r0 where r0: "r0 \<in> set t" "P r0" using cnt_1_obtain [OF assms(2)] by blast
  have "P r \<longleftrightarrow> key r = k" if "r \<in> set t" for r
    using distinct_key_eq [OF assms(1) that r0(1)] assms(3) r0(2) by metis
  then show ?thesis by (simp add: upd_def)
qed

text \<open>A line can be cancelled only while nothing has been charged for it (a remake, which is
  free, only until it is handed over). Cancelling changes the status and note of that line and of
  no other, gives back all the stock held for it, and keeps a reason once it was being prepared.\<close>

theorem cancel_item_effect:
  assumes "cancelItem oid emp reason now d = Inr d'" and "keys_ok d"
  shows "\<exists>oi s. findOrderItem d oid = Some oi \<and> findSession d (o_sessionId oi) = Some s \<and>
    (if isReplacement d oid then o_status oi \<noteq> Serve_SERVED else \<not> paidOrInvoiced oi \<and> s_status s = Session_ACTIVE) \<and>
    o_status oi \<noteq> Serve_CANCELLED \<and> (o_status oi \<noteq> Serve_PENDING \<longrightarrow> given reason) \<and>
    orderItems d' = upd (\<lambda>r. o_id r = oid) (\<lambda>r. r\<lparr>o_status := Serve_CANCELLED, o_note := cancelNote (o_note oi) reason\<rparr>)
      (orderItems d) \<and> heldBy d' oid = []"
proof -
  obtain oi s d1 d2 where os: "findOrderItem d oid = Some oi" "findSession d (o_sessionId oi) = Some s"
    and st: "o_status oi \<noteq> Serve_CANCELLED" "processed (o_status oi) \<longrightarrow> given reason"
      "\<not> isReplacement d oid \<longrightarrow> s_online s = None \<and> \<not> paidOrInvoiced oi \<and> s_status s = Session_ACTIVE"
      "isReplacement d oid \<longrightarrow> s_status s \<noteq> Session_CANCELLED \<and> o_status oi \<noteq> Serve_SERVED"
    and rel: "releaseReservations [oid] (d\<lparr>orderItems := upd (\<lambda>r. o_id r = oid \<and> o_isPaid r = isReplacement d oid \<and>
         o_invoiceId r = None \<and> o_status r = o_status oi \<and> sessionIs d (o_sessionId r) (s_status s))
       (\<lambda>r. r\<lparr>o_status := Serve_CANCELLED, o_note := cancelNote (o_note oi) reason\<rparr>) (orderItems d)\<rparr>) = Inr d1"
    and one: "cnt (\<lambda>r. o_id r = oid \<and> o_isPaid r = isReplacement d oid \<and>
         o_invoiceId r = None \<and> o_status r = o_status oi \<and> sessionIs d (o_sessionId r) (s_status s)) (orderItems d) = 1"
    and kit: "cancelKitchenItems [oid] emp now d1 = Inr d2"
    and d': "d' = enqueueOrderEvent ''ITEM_STATUS_UPDATED'' oid (affectedTableIds [s_tableId s]) now
       (addLog emp ''ORDER_ITEM_CANCELLED'' oid
         (if processed (o_status oi) \<and> given reason then recordWaste oid emp (the reason) d2 else d2))"
    by (rule cancelItem_steps [OF assms(1)]) (rule that)
  have items: "orderItems d' = upd (\<lambda>r. o_id r = oid) (\<lambda>r. r\<lparr>o_status := Serve_CANCELLED, o_note := cancelNote (o_note oi) reason\<rparr>)
      (orderItems d)"
    using cancelKitchenItems_sel [OF kit] release_lines [OF rel] upd_as_key [OF keys_okD(3) [OF assms(2)] one, of oid]
    by (simp add: d')
  have "heldBy d1 oid = []" by (rule releaseReservations_held [OF rel]) simp
  then have held: "heldBy d' oid = []"
    using cancelKitchenItems_sel [OF kit] by (simp add: d' heldBy_def)
  have "o_status oi \<noteq> Serve_PENDING \<longrightarrow> processed (o_status oi)"
    using st(1) by (cases "o_status oi") (simp_all add: processed_def)
  then show ?thesis using os st items held by auto
qed

lemma sample_cancel_item_ok: "ok (cancelItem 5 1 None 9 sample_floor)"
  by (simp add: cancelItem_def findOrderItem_def findSession_def cancelAllowed_def isReplacement_def processed_def
      given_def sessionIs_def releaseReservations_def totalRequirements_def cancel_eval
      assertActiveEmployee_def activeEmployee_def paidOrInvoiced_def assertPosOrderMutationAllowed_def
      assertNoPaidOrInvoicedItems_def assertActiveSession_def sample_floor_simps)

theorem cancel_item_effect_witness:
  "heldBy (value_of (cancelItem 5 1 None 9 sample_floor)) 5 = []"
  using cancel_item_effect [OF ok_value_of [OF sample_cancel_item_ok] sample_floor_ok(1)] by blast

section \<open>Collecting an online order\<close>

text \<open>C39: A line of an online order is handed over only to someone who shows the invoice's
  current pickup code: serving it succeeds only in the pickup flow, for a paid line of an invoice
  whose status is PAID, with the code signed for the invoice's version, before it expires.\<close>

theorem online_line_needs_code:
  assumes "changeItemStatus sign oid emp Serve_SERVED h pickup now d = Inr d'"
    and "findOrderItem d oid = Some oi" and "findSession d (o_sessionId oi) = Some s"
    and "s_online s \<noteq> None" and "\<not> isReplacement d oid"
  shows "\<exists>v code inv0 expiry. pickup = Some (v, code) \<and> findInvoice d v = Some inv0 \<and> o_invoiceId oi = Some v \<and>
    o_isPaid oi \<and> v_status inv0 = Pay_PAID \<and> code = sign v (v_codeVersion inv0) \<and>
    getPickupCodeExpiry inv0 = Some expiry \<and> now < expiry"
proof -
  obtain oi' s' where os: "findOrderItem d oid = Some oi'" "findSession d (o_sessionId oi') = Some s'"
    and p: "Serve_SERVED = Serve_SERVED \<longrightarrow> s_online s' \<noteq> None \<longrightarrow> \<not> isReplacement d oid \<longrightarrow> pickup \<noteq> None"
    and acc: "case pickup of None \<Rightarrow> True | Some p \<Rightarrow> pickupAccepted sign d oi' p now"
    by (rule changeItemStatus_steps [OF assms(1)]) (rule that)
  have eq: "oi' = oi" "s' = s" using os assms(2,3) by simp_all
  then obtain v code where pk: "pickup = Some (v, code)" using p assms(4,5) by (cases pickup) auto
  then have "pickupAccepted sign d oi (v, code) now" using acc eq by simp
  then show ?thesis
    using pk
    by (auto simp: pickupAccepted_def invoicePaid_def verifyPickupCode_def split: option.splits if_splits)
qed

definition sample_signer :: "int signer" where
  "sample_signer vid ver = int vid * 1000 + (case ver of None \<Rightarrow> 0 | Some n \<Rightarrow> n)"

text \<open>An online takeaway order (session 4), paid by invoice 80, its latte ready.\<close>

definition sample_invoice :: invoice where
  "sample_invoice = \<lparr>v_id = 80, v_number = ''INV-1'', v_subTotal = 9000, v_discount = 0, v_tax = 0, v_taxRate = 0,
     v_total = 9000, v_tendered = None, v_change = None, v_method = Method_TRANSFER, v_status = Pay_PAID, v_sessionId = 4,
     v_employeeId = 1, v_shiftId = None, v_promotionId = None, v_snapshot = True, v_createdAt = 100,
     v_codeVersion = Some 3, v_codeIssuedAt = Some 200\<rparr>"

definition sample_pickup :: db where
  "sample_pickup = sample_floor\<lparr>
     orderSessions := [\<lparr>s_id = 4, s_status = Session_ACTIVE, s_tableId = None, s_employeeId = 1,
       s_shiftId = None, s_guestCount = None, s_online = Some 90\<rparr>],
     diningTables := [],
     orderItems := [\<lparr>o_id = 5, o_sessionId = 4, o_menuItemId = 20, o_quantity = 2, o_price = 4500, o_note = None,
       o_options = [], o_recipeAt = Some 0, o_status = Serve_READY, o_isPaid = True, o_invoiceId = Some 80,
       o_readyAt = Some 500\<rparr>],
     invoices := [sample_invoice]\<rparr>"

lemmas sample_pickup_simps = sample_pickup_def sample_invoice_def sample_floor_simps

lemmas status_eval = changeItemStatus_def findOrderItem_def findSession_def isReplacement_def pickupAccepted_def
  invoicePaid_def findInvoice_def verifyPickupCode_def getPickupCodeExpiry_def PICKUP_CODE_TTL_MS_def
  assertServeStatusTransition_def serveTransition_def applyStatus_def statusGuard_def sessionIs_def Let_def
  assertActiveEmployee_def activeEmployee_def

lemma sample_pickup_ok: "ok (changeItemStatus sample_signer 5 1 Serve_SERVED True (Some (80, 80003)) 1000 sample_pickup)"
  by (simp add: status_eval sample_signer_def sample_pickup_simps)

theorem online_line_needs_code_witness:
  "\<exists>v code. Some (80, 80003) = Some (v, code :: int) \<and> code = sample_signer v (Some 3)"
proof -
  have "findOrderItem sample_pickup 5 = Some (hd (orderItems sample_pickup))"
    and "findSession sample_pickup (o_sessionId (hd (orderItems sample_pickup))) = Some (hd (orderSessions sample_pickup))"
    and "s_online (hd (orderSessions sample_pickup)) \<noteq> None" and "\<not> isReplacement sample_pickup 5"
    by (simp_all add: findOrderItem_def findSession_def isReplacement_def sample_pickup_simps)
  from online_line_needs_code [OF ok_value_of [OF sample_pickup_ok] this]
  show ?thesis by (auto simp: findInvoice_def sample_pickup_simps)
qed

section \<open>Rotating and revoking a pickup code\<close>

lemma setPickupCode_find:
  assumes "setPickupCode v ver iss d = Inr d'" and "keys_ok d" and "findInvoice d vid = Some v"
  shows "findInvoice d' vid = Some (v\<lparr>v_codeVersion := Some ver, v_codeIssuedAt := iss\<rparr>)"
proof -
  let ?g = "\<lambda>r. v_id r = v_id v \<and> v_status r = Pay_PAID \<and> v_codeVersion r = v_codeVersion v \<and>
                   v_codeIssuedAt r = v_codeIssuedAt v"
  let ?f = "\<lambda>r. r\<lparr>v_codeVersion := Some ver, v_codeIssuedAt := iss\<rparr>"
  have d': "cnt ?g (invoices d) = 1" "invoices d' = upd ?g ?f (invoices d)"
    using assms(1) by (auto simp: setPickupCode_def Let_def)
  have v: "v \<in> set (invoices d)" "v_id v = vid" using find_SomeD [OF assms(3) [unfolded findInvoice_def]] by auto
  have k: "distinct (map v_id (invoices d))" by (rule keys_okD(5) [OF assms(2)])
  have "upd ?g ?f (invoices d) = upd (\<lambda>r. v_id r = vid) ?f (invoices d)"
    by (rule upd_as_key [OF k d'(1)]) (use v(2) in simp)
  moreover have "?f v \<in> set (upd (\<lambda>r. v_id r = vid) ?f (invoices d))" using v by (auto simp: set_upd)
  moreover have "map v_id (upd (\<lambda>r. v_id r = vid) ?f (invoices d)) = map v_id (invoices d)" by (rule map_key_upd) simp
  ultimately show ?thesis
    unfolding findInvoice_def d'(2) using find_unique [of v_id _ "?f v" vid] k v(2) by simp
qed

text \<open>Rotating or revoking a pickup code kills the old one: after either succeeds the code that
  was valid before verifies no more at any time, provided the HMAC gives different codes for the
  two versions.\<close>

theorem old_pickup_code_is_dead:
  assumes "keys_ok d" and "findInvoice d vid = Some v"
    and "provisionPickupCode sign vid emp (Some code) now d = Inr (result, d') \<or>
         revokePickupCode sign vid code emp now d = Inr d'"
    and "\<forall>a b. sign vid a = sign vid b \<longrightarrow> a = b"
  shows "\<exists>v'. findInvoice d' vid = Some v' \<and> (\<forall>t. verifyPickupCode sign vid code t v' = None)"
proof -
  obtain v0 where inv: "assertPickupInvoice d vid = Inr v0" using assms(3)
    by (auto simp: provisionPickupCode_def revokePickupCode_def)
  have v0: "v0 = v" using inv assms(2) by (auto simp: assertPickupInvoice_def)
  have code: "verifyPickupCode sign vid code now v \<noteq> None"
    using assms(3) inv v0 by (auto simp: provisionPickupCode_def revokePickupCode_def)
  then have code: "code = sign vid (v_codeVersion v)"
    by (auto simp: verifyPickupCode_def split: option.splits if_splits)
  obtain ver iss d1 e a where ver: "nextPickupCodeVersion (v_codeVersion v) = Inr ver"
    and upd: "setPickupCode v ver iss d = Inr d1" and d': "d' = addLog e a vid d1"
    using assms(3) inv v0 by (auto simp: provisionPickupCode_def revokePickupCode_def)
  have "findInvoice d' vid = Some (v\<lparr>v_codeVersion := Some ver, v_codeIssuedAt := iss\<rparr>)"
    using setPickupCode_find [OF upd assms(1,2)] by (simp add: d' findInvoice_def)
  moreover have "Some ver \<noteq> v_codeVersion v" using ver by (cases "v_codeVersion v") (auto simp: nextPickupCodeVersion_def)
  then have "verifyPickupCode sign vid code t (v\<lparr>v_codeVersion := Some ver, v_codeIssuedAt := iss\<rparr>) = None" for t
    using assms(4) code by (auto simp: verifyPickupCode_def split: option.splits)
  ultimately show ?thesis by blast
qed

definition pair_signer :: "(id \<times> int option) signer" where
  "pair_signer vid ver = (vid, ver)"

lemma sample_revoke_ok: "ok (revokePickupCode pair_signer 80 (80, Some 3) 1 1000 sample_pickup)"
  by (simp add: revokePickupCode_def assertPickupInvoice_def invoiceItems_def nextPickupCodeVersion_def setPickupCode_def
      pair_signer_def MAX_PICKUP_CODE_VERSION_def status_eval sample_pickup_simps)

theorem old_pickup_code_is_dead_witness:
  "\<exists>v'. findInvoice (value_of (revokePickupCode pair_signer 80 (80, Some 3) 1 1000 sample_pickup)) 80 = Some v' \<and>
     verifyPickupCode pair_signer 80 (80, Some 3) 2000 v' = None"
proof -
  have "keys_ok sample_pickup"
    by (simp add: keys_ok_def stock_keys_def one_open_shift_def sample_pickup_simps)
  moreover have "findInvoice sample_pickup 80 = Some sample_invoice" by (simp add: findInvoice_def sample_pickup_simps)
  moreover have "\<forall>a b. pair_signer 80 a = pair_signer 80 b \<longrightarrow> a = b" by (simp add: pair_signer_def)
  ultimately show ?thesis
    using old_pickup_code_is_dead [of sample_pickup 80 sample_invoice pair_signer 1 "(80, Some 3)" 1000 _
      "value_of (revokePickupCode pair_signer 80 (80, Some 3) 1 1000 sample_pickup)"]
      ok_value_of [OF sample_revoke_ok] by blast
qed


section \<open>The price of an online order\<close>

lemma upd_sessions_prices:
  "map (\<lambda>oi. (o_menuItemId oi, o_quantity oi, o_price oi, o_options oi))
     (filter (\<lambda>oi. o_sessionId oi = sid) (upd P (\<lambda>oi. oi\<lparr>o_recipeAt := t\<rparr>) items))
   = map (\<lambda>oi. (o_menuItemId oi, o_quantity oi, o_price oi, o_options oi)) (filter (\<lambda>oi. o_sessionId oi = sid) items)"
  by (induction items) simp_all

lemma planLine_Inr:
  "planLine d mis (l, Some q) = Inr p \<longleftrightarrow> (\<exists>mi sel. find (\<lambda>m. mi_id m = ol_menuItemId l) mis = Some mi \<and>
     resolveMenuSelection d mi (ol_optionIds l) = Inr sel \<and> fst q = sel_unitPrice sel \<and> snd q = sel_options sel \<and> p = (l, sel))"
  by (auto simp: planLine_def)

lemma planLines_quoted:
  "mapM (planLine d mis) (zip lines (map Some qs)) = Inr planned \<Longrightarrow> length qs = length lines \<Longrightarrow>
     map (\<lambda>p. (ol_menuItemId (fst p), ol_quantity (fst p), sel_unitPrice (snd p), sel_options (snd p))) planned
     = map (\<lambda>(l, q). (ol_menuItemId l, ol_quantity l, fst q, snd q)) (zip lines qs)"
proof (induction lines arbitrary: qs planned)
  case (Cons l lines)
  then obtain q qs' where "qs = q # qs'" by (cases qs) auto
  then show ?case using Cons by (auto simp: planLine_Inr prod_eq_iff)
qed simp

lemma plannedItems_fields:
  "length ns = length planned \<Longrightarrow>
    map (\<lambda>oi. (o_menuItemId oi, o_quantity oi, o_price oi, o_options oi)) (map (plannedItem sid now) (zip ns planned))
    = map (\<lambda>p. (ol_menuItemId (fst p), ol_quantity (fst p), sel_unitPrice (snd p), sel_options (snd p))) planned"
  by (induction ns planned rule: list_induct2) (simp_all add: plannedItem_def)

text \<open>Accepting an online order puts on the new session exactly the lines the customer was
  quoted: the same menu items and quantities, at the quoted unit price and with the quoted
  options, even when the menu's prices changed in between (then the order is refused).\<close>

theorem online_order_as_quoted:
  assumes "createOnlineTakeawaySession emp lines quotes pickupAt now d = Inr (sid, d')" and "lines_fresh d"
  shows "map (\<lambda>oi. (o_menuItemId oi, o_quantity oi, o_price oi, o_options oi)) (sessionItems d' sid)
    = map (\<lambda>(l, q). (ol_menuItemId l, ol_quantity l, fst q, snd q)) (zip lines quotes) \<and> length quotes = length lines"
proof -
  obtain d1 d2 where st: "createOrderSession None emp None now d = Inr (sid, d1)"
    "addOrderItemsInTransaction sid lines (Some quotes) pickupAt now d1 = Inr d2" "reserveSession sid now d2 = Inr d'"
    by (rule online_steps [OF assms(1)]) (rule that)
  obtain d1_items: "orderItems d1 = orderItems d" "sid = nextId d"
    by (rule createOrderSession_effect [OF st(1)]) (rule that)
  obtain s :: orderSession and mis planned created d3 d4 where
    pl: "mapM (planLine d1 mis) (zip lines (case Some quotes of None \<Rightarrow> replicate (length lines) None | Some qs \<Rightarrow> map Some qs)) = Inr planned"
    and ins: "insertPlanned sid planned now d1 = Inr (created, d3)"
    and kit: "createTickets sid mis created pickupAt now d3 = Inr d4"
    and d2: "d2 = enqueueOrderEvent ''ITEMS_ADDED'' sid (affectedTableIds [s_tableId s]) now d4"
    and len: "\<forall>qs. Some quotes = Some qs \<longrightarrow> length qs = length lines"
    by (rule addOrderItems_steps [OF st(2)]) (rule that)
  have lq: "length quotes = length lines" using len by simp
  have none: "filter (\<lambda>oi. o_sessionId oi = sid) (orderItems d) = []"
    using assms(2) d1_items(2) by (auto simp: lines_fresh_def filter_empty_conv)
  have "filter (\<lambda>oi. o_sessionId oi = sid) created = created"
    unfolding insertPlanned_effect(1) [OF ins] by (rule filter_True) (auto simp: plannedItem_def)
  then have items2: "filter (\<lambda>oi. o_sessionId oi = sid) (orderItems d2) = created"
    using createTickets_sel [OF kit] insertPlanned_effect(2) [OF ins] none by (simp add: d2 d1_items(1))
  obtain P where "orderItems d' = upd P (\<lambda>oi. oi\<lparr>o_recipeAt := Some now\<rparr>) (orderItems d2)"
    by (rule reserve_lines [OF st(3) [unfolded reserveSession_def]])
  then have "map (\<lambda>oi. (o_menuItemId oi, o_quantity oi, o_price oi, o_options oi)) (sessionItems d' sid)
      = map (\<lambda>oi. (o_menuItemId oi, o_quantity oi, o_price oi, o_options oi)) created"
    by (simp add: sessionItems_def upd_sessions_prices items2)
  also have "\<dots> = map (\<lambda>p. (ol_menuItemId (fst p), ol_quantity (fst p), sel_unitPrice (snd p), sel_options (snd p))) planned"
    unfolding insertPlanned_effect(1) [OF ins] by (rule plannedItems_fields) simp
  also have "\<dots> = map (\<lambda>(l, q). (ol_menuItemId l, ol_quantity l, fst q, snd q)) (zip lines quotes)"
    by (rule planLines_quoted) (use pl lq in simp_all)
  finally show ?thesis using lq by simp
qed

definition sample_online_lines :: "orderLine list" where
  "sample_online_lines = [\<lparr>ol_menuItemId = 20, ol_optionIds = [], ol_quantity = 3, ol_note = None\<rparr>]"

lemmas order_eval = createOnlineTakeawaySession_def createOrderSession_def claimTable_def insertSession_def
  findOpenShiftId_def findOpenShift_def addOrderItemsInTransaction_def findSession_def orderable_def planLine_def
  resolveMenuSelection_def selectGroup_def selectedIn_def maxPrice_def insertPlanned_def plannedItem_def
  plannedRecipe_def createTickets_def groupItem_def itemStation_def stationOf_def addToGroup_def createTicket_def
  printerOf_def dueTime_def availableTime_def enqueueKitchenTicket_def readSelectedOptions_def
  assertActiveSession_def enqueueOrderEvent_def enqueue_def addLog_def affectedTableIds_def activeEmployee_def

lemma sample_online_ok:
  "ok (createOnlineTakeawaySession 1 sample_online_lines [(4500, [])] (Some 900000) 9 sample_floor)"
  by (simp add: order_eval stock_eval sample_online_lines_def sample_latte_def sample_floor_simps)

theorem online_order_as_quoted_witness:
  "map o_price (sessionItems (snd (value_of (createOnlineTakeawaySession 1 sample_online_lines [(4500, [])] (Some 900000) 9 sample_floor)))
     (fst (value_of (createOnlineTakeawaySession 1 sample_online_lines [(4500, [])] (Some 900000) 9 sample_floor)))) = [4500]"
proof -
  obtain sid d' where r: "createOnlineTakeawaySession 1 sample_online_lines [(4500, [])] (Some 900000) 9 sample_floor = Inr (sid, d')"
    using ok_value_of [OF sample_online_ok] by (metis prod.exhaust)
  from online_order_as_quoted [OF r sample_floor_ok(2)]
  have "map (\<lambda>oi. (o_menuItemId oi, o_quantity oi, o_price oi, o_options oi)) (sessionItems d' sid) = [(20, 3, 4500, [])]"
    by (simp add: sample_online_lines_def)
  then have "map (\<lambda>t. fst (snd (snd t))) (map (\<lambda>oi. (o_menuItemId oi, o_quantity oi, o_price oi, o_options oi)) (sessionItems d' sid))
      = [4500]" by (simp only: list.map fst_conv snd_conv)
  then show ?thesis unfolding r value_of_Inr fst_conv snd_conv by (simp add: comp_def)
qed

section \<open>Remakes\<close>

lemma insertReplacement_new:
  "o_price (fst (insertReplacement oi reason now d)) = 0" "o_isPaid (fst (insertReplacement oi reason now d))"
  "o_menuItemId (fst (insertReplacement oi reason now d)) = o_menuItemId oi"
  "o_quantity (fst (insertReplacement oi reason now d)) = o_quantity oi"
  "o_status (fst (insertReplacement oi reason now d)) = Serve_PENDING"
  by (simp_all add: insertReplacement_def Let_def)

text \<open>A handed-off paid line is remade at most once, and a replacement never: once a remake has
  succeeded there is a free, already paid replacement line of the same item and quantity, and no
  further request (with another idempotency key) can remake the original or the replacement.\<close>

theorem remake_only_once:
  assumes "remakeItem oid emp reason key now d = Inr d'"
    and "find (\<lambda>m. m_requestedById m = emp \<and> m_key m = key) (orderRemakes d) = None"
    and "find (\<lambda>m. m_requestedById m = emp' \<and> m_key m = key') (orderRemakes d') = None"
  shows "\<exists>oi new. findOrderItem d oid = Some oi \<and> orderItems d' = orderItems d @ [new] \<and> o_price new = 0 \<and>
    o_isPaid new \<and> o_menuItemId new = o_menuItemId oi \<and> o_quantity new = o_quantity oi \<and> o_status new = Serve_PENDING \<and>
    \<not> ok (remakeItem oid emp' reason' key' now' d') \<and> \<not> ok (remakeItem (o_id new) emp' reason' key' now' d')"
  using assms(1)
proof (cases rule: remake_steps)
  case replay
  then show ?thesis using assms(2) by simp
next
  case (new oi s mi d2 d3)
  let ?n = "fst (insertReplacement oi reason now d)"
  have items: "orderItems d' = orderItems d @ [?n]"
    using createTickets_sel [OF new(7)] insertRemake_effect [OF new(6)] insertReplacement_sel [of oi reason now d]
    by (simp add: new(8))
  have remakes: "isRemade d' oid" "isReplacement d' (o_id ?n)"
    using createTickets_sel [OF new(7)] insertRemake_effect(1) [OF new(6)] waste_sel [of oid emp reason d2]
    by (simp_all add: new(8) isRemade_def isReplacement_def)
  have "\<not> ok (remakeItem x emp' reason' key' now' d')" if "isRemade d' x \<or> isReplacement d' x" for x
  proof
    assume "ok (remakeItem x emp' reason' key' now' d')"
    then obtain d4 where "remakeItem x emp' reason' key' now' d' = Inr d4" using ok_value_of by blast
    then show False using that assms(3) by (auto simp: remakeItem_def)
  qed
  then have "\<not> ok (remakeItem oid emp' reason' key' now' d')" "\<not> ok (remakeItem (o_id ?n) emp' reason' key' now' d')"
    using remakes by blast+
  then show ?thesis using new(1) items insertReplacement_new [of oi reason now d] by blast
qed


text \<open>The paid latte of the pickup sample, handed over.\<close>

definition sample_served :: db where
  "sample_served = sample_pickup\<lparr>orderItems := map (\<lambda>oi. oi\<lparr>o_status := Serve_SERVED\<rparr>) (orderItems sample_pickup)\<rparr>"

lemma sample_remake_ok: "ok (remakeItem 5 1 ''cold'' ''k1'' 1000 sample_served)"
  by (simp add: remakeItem_def findOrderItem_def remakable_def invoicePaid_def findInvoice_def isRemade_def
      isReplacement_def insertReplacement_def originalRecipe_def insertRemake_def recordWaste_def
      sample_latte_def order_eval assertActiveEmployee_def Let_def sample_served_def sample_pickup_simps)

theorem remake_only_once_witness:
  "\<not> ok (remakeItem 5 1 ''again'' ''k2'' 2000 (value_of (remakeItem 5 1 ''cold'' ''k1'' 1000 sample_served)))"
proof -
  have "find (\<lambda>m. m_requestedById m = 1 \<and> m_key m = ''k1'') (orderRemakes sample_served) = None"
    by (simp add: sample_served_def sample_pickup_simps)
  moreover have "find (\<lambda>m. m_requestedById m = 1 \<and> m_key m = ''k2'')
      (orderRemakes (value_of (remakeItem 5 1 ''cold'' ''k1'' 1000 sample_served))) = None"
    by (simp add: remakeItem_def findOrderItem_def remakable_def invoicePaid_def findInvoice_def isRemade_def
      isReplacement_def insertReplacement_def originalRecipe_def insertRemake_def recordWaste_def
      sample_latte_def order_eval assertActiveEmployee_def Let_def sample_served_def sample_pickup_simps)
  ultimately show ?thesis
    using remake_only_once [OF ok_value_of [OF sample_remake_ok], of 1 "''k2''"] by blast
qed

section \<open>Releasing a table\<close>

lemma upd_status_find:
  assumes "distinct (map t_id ts)" and "r \<in> set ts" and "t_id r = t"
  shows "find (\<lambda>x. t_id x = t) (upd P (\<lambda>x. x\<lparr>t_status := st\<rparr>) ts) = Some (if P r then r\<lparr>t_status := st\<rparr> else r)"
proof (rule find_unique)
  show "distinct (map t_id (upd P (\<lambda>x. x\<lparr>t_status := st\<rparr>) ts))" using assms(1) by (simp add: table_simps)
qed (use assms in \<open>auto simp: set_upd\<close>)

text \<open>Completing a dine-in session releases its table only when nothing is left to pay or to
  serve: every line of the session was cancelled, or paid for and served. The session is then
  COMPLETED, the table EMPTY, and no other session or table changes.\<close>

theorem complete_releases_table:
  assumes "completeSession sid emp now d = Inr d'" and "keys_ok d" and "table_inv d"
    and "findSession d sid = Some s" and "s_status s = Session_ACTIVE" and "s_tableId s = Some t"
  shows "(\<forall>oi\<in>set (sessionItems d sid). o_status oi = Serve_CANCELLED \<or> o_isPaid oi \<and> o_status oi = Serve_SERVED) \<and>
    orderSessions d' = upd (\<lambda>r. s_id r = sid) (\<lambda>r. r\<lparr>s_status := Session_COMPLETED\<rparr>) (orderSessions d) \<and>
    diningTables d' = upd (\<lambda>r. t_id r = t) (\<lambda>r. r\<lparr>t_status := Table_EMPTY\<rparr>) (diningTables d)"
  using assms(1)
proof (cases rule: complete_steps)
  case (already s')
  then show ?thesis using assms(4,5) by simp
next
  case (completes s' t')
  have eq: "s' = s" "t' = t" using completes(1,2) assms(4,6) by simp_all
  note s = findSession_SomeD [OF assms(4)]
  have "upd (\<lambda>r. s_id r = sid \<and> s_status r = Session_ACTIVE) f (orderSessions d) = upd (\<lambda>r. s_id r = sid) f (orderSessions d)"
    for f :: "orderSession \<Rightarrow> orderSession"
    unfolding upd_def using s assms(5) distinct_key_eq [OF keys_okD(2) [OF assms(2)]] by (intro map_cong refl) metis
  moreover have "t_status r = Table_OCCUPIED" if "r \<in> set (diningTables d)" "t_id r = t" for r
  proof -
    have "0 < cnt (sitsAt t) (orderSessions d)"
      using s assms(5,6) by (auto simp: cnt_pos_iff sitsAt_def)
    then show ?thesis using occD(1) [of "diningTables d" "orderSessions d" r] assms(3) that
      by (simp add: table_inv_def split: if_splits)
  qed
  then have "upd (\<lambda>r. t_id r = t \<and> t_status r = Table_OCCUPIED) f (diningTables d) = upd (\<lambda>r. t_id r = t) f (diningTables d)"
    for f :: "diningTable \<Rightarrow> diningTable"
    unfolding upd_def by (intro map_cong refl) auto
  ultimately show ?thesis using completes(4) by (simp add: completes(5) setTables_def eq)
qed

text \<open>The sample floor with everything at table 50 served and paid for.\<close>

definition settled_floor :: db where
  "settled_floor = sample_floor\<lparr>orderItems := map (\<lambda>oi. oi\<lparr>o_status := Serve_SERVED, o_isPaid := True\<rparr>) (orderItems sample_floor)\<rparr>"

lemma settled_complete_ok: "ok (completeSession 4 1 9 settled_floor)"
  by (simp add: completeSession_def findSession_def sessionItems_def Let_def settled_floor_def sample_floor_simps
      assertActiveEmployee_def activeEmployee_def)

theorem complete_releases_table_witness:
  "diningTables (value_of (completeSession 4 1 9 settled_floor)) =
     [\<lparr>t_id = 50, t_status = Table_EMPTY, t_deletedAt = None\<rparr>, \<lparr>t_id = 51, t_status = Table_EMPTY, t_deletedAt = None\<rparr>]"
proof -
  have k: "keys_ok settled_floor" "table_inv settled_floor"
    by (simp_all add: keys_ok_def stock_keys_def one_open_shift_def table_inv_def occ_def sitsAt_def settled_floor_def sample_floor_simps)
  have s: "findSession settled_floor 4 = Some (hd (orderSessions settled_floor))"
    "s_status (hd (orderSessions settled_floor)) = Session_ACTIVE" "s_tableId (hd (orderSessions settled_floor)) = Some 50"
    by (simp_all add: findSession_def settled_floor_def sample_floor_simps)
  show ?thesis
    using complete_releases_table [OF ok_value_of [OF settled_complete_ok] k s]
    by (simp add: settled_floor_def sample_floor_simps)
qed

end
