(* ===== verification/Order_System.thy ===== *)
theory Order_System
  imports Order_Claims
begin

text \<open>
  The order service as a step relation: one rule per operation. A step starts in a committed
  state, in which the keys of the database hold and newly drawn ids are new.
\<close>

definition committed :: "db \<Rightarrow> bool" where
  "committed d \<longleftrightarrow> keys_ok d \<and> recipes_fresh d \<and> lines_fresh d"

inductive order_step :: "'c signer \<Rightarrow> db \<Rightarrow> db \<Rightarrow> bool" for sign where
  open_session: "createOrderSession tableId emp guests now d = Inr (sid, d') \<Longrightarrow> committed d \<Longrightarrow> order_step sign d d'"
| check_in_guest: "checkInReservation rid emp now d = Inr (sid, d') \<Longrightarrow> committed d \<Longrightarrow> order_step sign d d'"
| add_lines: "addOrderItems sid lines emp now d = Inr d' \<Longrightarrow> committed d \<Longrightarrow> order_step sign d d'"
| accept_online: "createOnlineTakeawaySession emp lines quotes pickupAt now d = Inr (sid, d') \<Longrightarrow> committed d \<Longrightarrow>
    order_step sign d d'"
| remake_line: "remakeItem oid emp reason key now d = Inr d' \<Longrightarrow> committed d \<Longrightarrow> order_step sign d d'"
| change_status: "changeItemStatus sign oid emp st handoffOnly pickup now d = Inr d' \<Longrightarrow> committed d \<Longrightarrow> order_step sign d d'"
| cancel_line: "cancelItem oid emp reason now d = Inr d' \<Longrightarrow> committed d \<Longrightarrow> order_step sign d d'"
| cancel_order: "cancelSession sid emp now d = Inr d' \<Longrightarrow> committed d \<Longrightarrow> order_step sign d d'"
| clear_floor: "clearTable tid expected emp now d = Inr d' \<Longrightarrow> committed d \<Longrightarrow> order_step sign d d'"
| transfer_order: "transferTable sid fromT toT emp now d = Inr d' \<Longrightarrow> committed d \<Longrightarrow> order_step sign d d'"
| merge_orders: "mergeTables sourceTables destTable sources dest emp now d = Inr d' \<Longrightarrow>
    mergeRequest sourceTables destTable sources dest \<Longrightarrow> committed d \<Longrightarrow> order_step sign d d'"
| split_order: "splitTable src destTable moves emp now d = Inr d' \<Longrightarrow> splitRequest moves \<Longrightarrow> committed d \<Longrightarrow>
    order_step sign d d'"
| complete_order: "completeSession sid emp now d = Inr d' \<Longrightarrow> committed d \<Longrightarrow> order_step sign d d'"

inductive_cases order_stepE: "order_step sign d d'"

lemma order_step_committed: "order_step sign d d' \<Longrightarrow> committed d"
  by (erule order_stepE)

lemma order_step_table_inv:
  assumes "order_step sign d d'" and inv: "table_inv d"
  shows "table_inv d'"
proof -
  have k: "keys_ok d" using order_step_committed [OF assms(1)] by (simp add: committed_def)
  from assms(1) show ?thesis
  proof (cases rule: order_step.cases)
    case open_session
    from open_session(1) show ?thesis
      by (rule create_table_inv) (fact k inv)+
  next
    case check_in_guest
    from check_in_guest(1) show ?thesis
      by (rule checkIn_table_inv) (fact k inv)+
  next
    case add_lines
    from add_lines(1) show ?thesis
      by (rule add_table_inv) (fact k inv)+
  next
    case accept_online
    from accept_online(1) show ?thesis
      by (rule online_table_inv) (fact k inv)+
  next
    case remake_line
    from remake_line(1) show ?thesis
      by (rule remake_table_inv) (fact k inv)+
  next
    case change_status
    from change_status(1) show ?thesis
      by (rule status_table_inv) (fact k inv)+
  next
    case cancel_line
    from cancel_line(1) show ?thesis
      by (rule cancelItem_table_inv) (fact k inv)+
  next
    case cancel_order
    from cancel_order(1) show ?thesis
      by (rule cancelSession_table_inv) (fact k inv)+
  next
    case clear_floor
    from clear_floor(1) show ?thesis
      by (rule clearTable_table_inv) (fact k inv)+
  next
    case transfer_order
    from transfer_order(1) show ?thesis
      by (rule transfer_table_inv) (fact k inv)+
  next
    case merge_orders
    from merge_orders(1) show ?thesis
      by (rule merge_table_inv) (fact k inv)+
  next
    case split_order
    from split_order(1) show ?thesis
      by (rule split_table_inv) (fact k inv)+
  next
    case complete_order
    from complete_order(1) show ?thesis
      by (rule complete_table_inv) (fact k inv)+
  qed
qed

context stock_invariant
begin

lemma order_step_keeps:
  assumes "order_step sign d d'" and inv: "Inv d"
  shows "Inv d'"
proof -
  have k: "stock_keys d" "recipes_fresh d"
    using order_step_committed [OF assms(1)] keys_okD(4) by (simp_all add: committed_def)
  from assms(1) show ?thesis
  proof (cases rule: order_step.cases)
    case open_session
    from open_session(1) show ?thesis
      by (rule create) (fact k inv)+
  next
    case check_in_guest
    from check_in_guest(1) show ?thesis
      by (rule check_in) (fact k inv)+
  next
    case add_lines
    from add_lines(1) show ?thesis
      unfolding addOrderItems_def assertActiveEmployee_Inr_iff by (elim conjE) (rule add_items [OF _ inv])
  next
    case accept_online
    from accept_online(1) show ?thesis
      by (rule online) (fact k inv)+
  next
    case remake_line
    from remake_line(1) show ?thesis
      by (rule remake) (fact k inv)+
  next
    case change_status
    from change_status(1) show ?thesis
      by (rule item_status) (fact k inv)+
  next
    case cancel_line
    from cancel_line(1) show ?thesis
      by (rule cancel_item) (fact k inv)+
  next
    case cancel_order
    from cancel_order(1) show ?thesis
      by (rule cancel_session) (fact k inv)+
  next
    case clear_floor
    from clear_floor(1) show ?thesis
      by (rule clear_table) (fact k inv)+
  next
    case transfer_order
    from transfer_order(1) show ?thesis
      by (rule transfer) (fact k inv)+
  next
    case merge_orders
    from merge_orders(1) show ?thesis
      by (rule merge) (fact k inv)+
  next
    case split_order
    from split_order(1) show ?thesis
      by (rule split_table) (fact k inv)+
  next
    case complete_order
    from complete_order(1) show ?thesis
      by (rule complete) (fact k inv)+
  qed
qed

end

section \<open>Lines only move forward\<close>

definition lines_advance :: "db \<Rightarrow> db \<Rightarrow> bool" where
  "lines_advance d d' \<longleftrightarrow> (\<forall>oi\<in>set (orderItems d). \<exists>oi'\<in>set (orderItems d'). o_id oi' = o_id oi \<and> o_status oi \<le> o_status oi')"

lemma lines_advance_refl: "lines_advance d d"
  by (auto simp: lines_advance_def)

lemma lines_advance_trans: "lines_advance a b \<Longrightarrow> lines_advance b c \<Longrightarrow> lines_advance a c"
  unfolding lines_advance_def by (metis order_trans)

lemma lines_advance_upd:
  assumes "orderItems d' = upd g f (orderItems d) @ new" and "\<And>r. o_id (f r) = o_id r"
    and "\<And>r. g r \<Longrightarrow> o_status r \<le> o_status (f r)"
  shows "lines_advance d d'"
  unfolding lines_advance_def
proof
  fix oi assume "oi \<in> set (orderItems d)"
  then have "(if g oi then f oi else oi) \<in> set (orderItems d')" by (auto simp: assms(1) set_upd)
  moreover have "o_id (if g oi then f oi else oi) = o_id oi" using assms(2) by simp
  moreover have "o_status oi \<le> o_status (if g oi then f oi else oi)" using assms(3) by simp
  ultimately show "\<exists>oi'\<in>set (orderItems d'). o_id oi' = o_id oi \<and> o_status oi \<le> o_status oi'" by blast
qed

lemma lines_advance_append: "orderItems d' = orderItems d @ new \<Longrightarrow> lines_advance d d'"
  by (auto simp: lines_advance_def)


lemma create_advance: "createOrderSession t emp g now d = Inr (sid, d') \<Longrightarrow> lines_advance d d'"
  by (erule createOrderSession_effect) (rule lines_advance_append [of _ _ "[]"], simp)

lemma add_advance: "addOrderItemsInTransaction sid lines quotes p now d = Inr d' \<Longrightarrow> lines_advance d d'"
  using addOrderItems_effect(9) lines_advance_append by blast

lemma reserve_advance:
  assumes "reserveSession sid now d = Inr d'"
  shows "lines_advance d d'"
proof -
  obtain P where "orderItems d' = upd P (\<lambda>oi. oi\<lparr>o_recipeAt := Some now\<rparr>) (orderItems d)"
    by (rule reserve_lines [OF assms [unfolded reserveSession_def]])
  then show ?thesis by (intro lines_advance_upd [where new = "[]" and g = P and f = "\<lambda>oi. oi\<lparr>o_recipeAt := Some now\<rparr>"]) simp_all
qed

lemma status_advance:
  assumes "changeItemStatus sign oid emp st h p now d = Inr d'"
  shows "lines_advance d d'"
proof -
  obtain oi :: orderItem and s :: orderSession where "(o_status oi = st \<and> d' = d) \<or>
     (\<exists>d1 mvs d2. serveTransition (o_status oi) st \<and> applyStatus oi s st p now d = Inr d1 \<and>
        (if st = Serve_COOKING then consumeOrderItem oi now d1 else Inr ([], d1)) = Inr (mvs, d2) \<and>
        d' = enqueueOrderEvent ''ITEM_STATUS_UPDATED'' oid (affectedTableIds [s_tableId s]) now
          (addLog emp ''ORDER_ITEM_STATUS_UPDATED'' oid d2))"
    by (rule changeItemStatus_steps [OF assms]) (rule that)
  then show ?thesis
  proof (elim disjE exE conjE)
    fix d1 mvs d2
    assume tr: "serveTransition (o_status oi) st" and a: "applyStatus oi s st p now d = Inr d1"
      and c: "(if st = Serve_COOKING then consumeOrderItem oi now d1 else Inr ([], d1)) = Inr (mvs, d2)"
      and d': "d' = enqueueOrderEvent ''ITEM_STATUS_UPDATED'' oid (affectedTableIds [s_tableId s]) now
          (addLog emp ''ORDER_ITEM_STATUS_UPDATED'' oid d2)"
    have "o_status r \<le> st" if "statusGuard d oi s p r" for r
      using that serveTransition_less [OF tr] by (simp add: statusGuard_def)
    then show ?thesis
      using applyStatus_effect [OF a] cooking_step_sel(3) [OF c]
      by (intro lines_advance_upd [where new = "[]" and g = "statusGuard d oi s p" and
          f = "\<lambda>r. r\<lparr>o_status := st, o_readyAt := (if st = Serve_READY then Some now else o_readyAt r)\<rparr>"]) (simp_all add: d')
  qed (simp add: lines_advance_refl)
qed

lemma cancelItem_advance:
  assumes "cancelItem oid emp reason now d = Inr d'"
  shows "lines_advance d d'"
proof -
  obtain oi :: orderItem and s :: orderSession and P d1 d2 where
    rel: "releaseReservations [oid] (d\<lparr>orderItems := upd P
      (\<lambda>r. r\<lparr>o_status := Serve_CANCELLED, o_note := cancelNote (o_note oi) reason\<rparr>) (orderItems d)\<rparr>) = Inr d1"
    and kit: "cancelKitchenItems [oid] emp now d1 = Inr d2"
    and d': "d' = enqueueOrderEvent ''ITEM_STATUS_UPDATED'' oid (affectedTableIds [s_tableId s]) now
       (addLog emp ''ORDER_ITEM_CANCELLED'' oid
         (if processed (o_status oi) \<and> given reason then recordWaste oid emp (the reason) d2 else d2))"
    by (rule cancelItem_steps [OF assms]) (rule that)
  show ?thesis
    by (rule lines_advance_upd [where new = "[]" and g = P and
          f = "\<lambda>r. r\<lparr>o_status := Serve_CANCELLED, o_note := cancelNote (o_note oi) reason\<rparr>"])
       (use release_lines [OF rel] cancelKitchenItems_sel [OF kit] in \<open>simp_all add: d' cancelled_top\<close>)
qed

lemma cancelLines_advance: "cancelLines s emp now d = Inr d' \<Longrightarrow> lines_advance d d'"
  by (rule lines_advance_upd [where new = "[]"], simp add: cancelLines_effect(3)) (simp_all add: cancelled_top)

lemma lines_advance_cong: "orderItems d2 = orderItems d1 \<Longrightarrow> lines_advance d d2 = lines_advance d d1"
  by (simp add: lines_advance_def)

lemma cancelSession_advance: "cancelSession sid emp now d = Inr d' \<Longrightarrow> lines_advance d d'"
  by (erule cancelSession_steps)
     (drule cancelLines_advance, subst lines_advance_cong; simp split: option.splits)

lemma clearTable_advance: "clearTable tid expected emp now d = Inr d' \<Longrightarrow> lines_advance d d'"
  by (erule clearTable_steps)
     (subst lines_advance_cong, simp, auto split: option.splits intro: cancelLines_advance lines_advance_refl)

lemma merge_advance: "mergeTables ts t ss s emp now d = Inr d' \<Longrightarrow> lines_advance d d'"
  by (erule merge_steps) (rule lines_advance_upd [where new = "[]"], simp, simp_all)

lemma splitLine_advance: "splitLine d0 src dest m st = Inr st' \<Longrightarrow> lines_advance (snd st) (snd st')"
proof (cases st; cases st')
  fix ms d ms' d'
  assume "splitLine d0 src dest m st = Inr st'" and e: "st = (ms, d)" "st' = (ms', d')"
  then have "splitLine d0 src dest m (ms, d) = Inr (ms', d')" by simp
  then have "lines_advance d d'"
  proof (cases rule: splitLine_cases)
    case (whole oi)
    show ?thesis
      by (rule lines_advance_upd [where new = "[]" and g = "splitGuard oi src m" and f = "\<lambda>r. r\<lparr>o_sessionId := dest\<rparr>"])
         (simp_all add: whole)
  next
    case (part oi)
    show ?thesis
      by (rule lines_advance_upd [where g = "splitGuard oi src m" and
            f = "\<lambda>r. r\<lparr>o_quantity := o_quantity oi - sm_toMove m\<rparr>"]) (simp add: part, simp_all)
  qed
  then show ?thesis by (simp add: e)
qed

lemma split_advance:
  assumes "splitTable src destTable moves emp now d = Inr d'"
  shows "lines_advance d d'"
proof -
  obtain s :: orderSession and sid d1 ms d2 d3 g where
    ins: "insertSession \<lparr>s_id = 0, s_status = Session_ACTIVE, s_tableId = Some destTable, s_employeeId = s_employeeId s,
        s_shiftId = s_shiftId s, s_guestCount = None, s_online = None\<rparr> (setTables g Table_OCCUPIED d) = Inr (sid, d1)"
    and lines: "run_all (splitLine d src sid) moves ([], d1) = Inr (ms, d2)"
    and kit: "splitKitchenItems emp sid ms d2 = Inr d3"
    and d': "d' = enqueueOrderEvent ''SESSION_SPLIT'' src (affectedTableIds [s_tableId s, Some destTable]) now
       (addLog emp ''ORDER_TABLE_SPLIT'' src d3)"
    by (rule split_steps [OF assms]) (rule that)
  have "lines_advance d1 (snd (ms, d2))"
  proof (rule run_all_invariant [where P = "\<lambda>st. lines_advance d1 (snd st)", OF lines])
    fix m and st st' :: "kitchenMove list \<times> db"
    assume "splitLine d src sid m st = Inr st'" "lines_advance d1 (snd st)"
    then show "lines_advance d1 (snd st')" using splitLine_advance lines_advance_trans by blast
  qed (simp add: lines_advance_refl)
  then show ?thesis
    using splitKitchenItems_sel(3) [OF kit] insertSession_effect(3) [OF ins] by (simp add: d' lines_advance_def)
qed

lemma order_step_advance:
  assumes "order_step sign d d'"
  shows "lines_advance d d'"
  using assms
proof (cases rule: order_step.cases)
  case (accept_online emp lines quotes p now sid)
  from this(1) show ?thesis
    by (rule online_steps) (meson create_advance add_advance reserve_advance lines_advance_trans)
next
  case (check_in_guest rid emp now sid)
  from this(1) show ?thesis
    by (rule checkIn_steps) (drule create_advance, simp add: lines_advance_def)
next
  case (remake_line oid emp reason key now)
  then show ?thesis using remake_effect(8) lines_advance_append by blast
next
  case (transfer_order sid fromT toT emp now)
  from this(1) show ?thesis by (rule transfer_steps) (simp add: lines_advance_def, blast)
next
  case (complete_order sid emp now)
  from this(1) show ?thesis by (rule complete_steps) (simp_all add: lines_advance_def, blast+)
next
  case (add_lines sid lines emp now)
  then show ?thesis using add_advance by (auto simp: addOrderItems_def)
qed (auto intro: create_advance status_advance cancelItem_advance cancelSession_advance clearTable_advance
       merge_advance split_advance)

end
