(* ===== verification/Outbox_Dispatch.thy ===== *)
theory Outbox_Dispatch
  imports Db_Core
begin

text \<open>
  The outbox dispatcher (\<open>src/app/durable/outbox-dispatcher.service.ts\<close>): claiming due events,
  delivering them to the listeners of \<open>DomainEventBusService\<close>, retrying with backoff, dead
  letters, recovery of abandoned leases, retention, and the manual retry of a dead letter
  (\<open>management-exceptions.service.ts\<close>). Each function is one SQL statement or one piece of
  program between two of them; \<open>dispatch_step\<close> interleaves any number of dispatchers and
  workers, which may crash at any point. Leases are drawn from a counter (they are UUIDs); what
  listeners answer and what state a BullMQ job is in are up to the environment. Events are
  ordered by id, which grows with \<open>occurredAt\<close>. Error messages, metrics and tracing are not kept.
\<close>

section \<open>Constants\<close>

definition LOCK_TIMEOUT_MS :: int where "LOCK_TIMEOUT_MS = 90000"
definition MAX_ATTEMPTS :: nat where "MAX_ATTEMPTS = 5"
definition BATCH_SIZE :: nat where "BATCH_SIZE = 50"
definition POLL_INTERVAL_MS :: int where "POLL_INTERVAL_MS = 1000"
definition RETENTION_BATCH_SIZE :: nat where "RETENTION_BATCH_SIZE = 500"
definition DAY_MS :: int where "DAY_MS = 86400000"
definition RECOVERY_INTERVAL_MS :: int where "RECOVERY_INTERVAL_MS = 15000"
definition HOUSEKEEPING_INTERVAL_MS :: int where "HOUSEKEEPING_INTERVAL_MS = 300000"

lemmas outbox_consts = RECOVERY_INTERVAL_MS_def HOUSEKEEPING_INTERVAL_MS_def LOCK_TIMEOUT_MS_def MAX_ATTEMPTS_def BATCH_SIZE_def POLL_INTERVAL_MS_def
  RETENTION_BATCH_SIZE_def DAY_MS_def

section \<open>Statements on the outbox table\<close>

text \<open>\<open>claimBatch\<close>: the oldest due events nobody has locked, all under one new lease.\<close>

definition dueEvent :: "time \<Rightarrow> outboxEvent \<Rightarrow> bool" where
  "dueEvent now e \<longleftrightarrow> z_status e = Out_PENDING \<and> z_availableAt e \<le> now"

definition claimCandidates :: "time \<Rightarrow> id list \<Rightarrow> outboxEvent list \<Rightarrow> id list" where
  "claimCandidates now busy rows =
     take BATCH_SIZE (map z_id (sort_key z_id (filter (\<lambda>e. dueEvent now e \<and> z_id e \<notin> set busy) rows)))"

definition lockRow :: "OutboxEventStatus \<Rightarrow> time \<Rightarrow> id \<Rightarrow> outboxEvent \<Rightarrow> outboxEvent" where
  "lockRow st now lease e = e\<lparr>z_status := st, z_lockedAt := Some now, z_lockedBy := Some lease\<rparr>"

definition unlockRow :: "OutboxEventStatus \<Rightarrow> outboxEvent \<Rightarrow> outboxEvent" where
  "unlockRow st e = e\<lparr>z_status := st, z_lockedAt := None, z_lockedBy := None\<rparr>"

definition claimBatch :: "time \<Rightarrow> id \<Rightarrow> id list \<Rightarrow> outboxEvent list \<Rightarrow> outboxEvent list" where
  "claimBatch now lease busy rows =
     (let ids = claimCandidates now busy rows
      in upd (\<lambda>e. z_id e \<in> set ids) (lockRow Out_ENQUEUED now lease) rows)"

definition locked :: "OutboxEventStatus \<Rightarrow> bool" where
  "locked st \<longleftrightarrow> st = Out_ENQUEUED \<or> st = Out_PROCESSING"

definition recoverAbandonedEvents :: "time \<Rightarrow> outboxEvent list \<Rightarrow> outboxEvent list" where
  "recoverAbandonedEvents now rows =
     upd (\<lambda>e. locked (z_status e) \<and> (case z_lockedAt e of None \<Rightarrow> False | Some t \<Rightarrow> t < now - LOCK_TIMEOUT_MS))
       (unlockRow Out_PENDING) rows"

text \<open>The claim a worker makes on the row it has read: nothing may have changed since.\<close>

definition claimable :: "time \<Rightarrow> outboxEvent \<Rightarrow> outboxEvent \<Rightarrow> bool" where
  "claimable now e r \<longleftrightarrow> z_id r = z_id e \<and> z_status r = z_status e \<and> z_lockedBy r = z_lockedBy e \<and>
     z_attempts r = z_attempts e \<and> z_availableAt r = z_availableAt e \<and> z_availableAt r \<le> now"

definition holds :: "outboxEvent \<Rightarrow> outboxEvent \<Rightarrow> bool" where
  "holds e r \<longleftrightarrow> z_id r = z_id e \<and> z_status r = Out_PROCESSING \<and> z_lockedBy r = z_lockedBy e"

definition renewLease :: "time \<Rightarrow> outboxEvent \<Rightarrow> outboxEvent list \<Rightarrow> outboxEvent list" where
  "renewLease now e rows = upd (holds e) (\<lambda>r. r\<lparr>z_lockedAt := Some now\<rparr>) rows"

definition markPublished :: "time \<Rightarrow> outboxEvent \<Rightarrow> outboxEvent list \<Rightarrow> outboxEvent list" where
  "markPublished now e rows = upd (holds e) (\<lambda>r. (unlockRow Out_PUBLISHED r)\<lparr>z_publishedAt := Some now\<rparr>) rows"

definition backoff :: "nat \<Rightarrow> int" where
  "backoff attempts = 2 ^ (attempts - 1) * 1000"

definition recordFailure :: "time \<Rightarrow> outboxEvent \<Rightarrow> nat \<Rightarrow> bool \<Rightarrow> outboxEvent list \<Rightarrow> outboxEvent list" where
  "recordFailure now e attempts deadLetter rows =
     upd (holds e)
       (\<lambda>r. (unlockRow (if deadLetter then Out_DEAD_LETTER else Out_PENDING) r)\<lparr>z_attempts := attempts,
          z_availableAt := (if deadLetter then z_availableAt r else now + backoff attempts)\<rparr>) rows"

text \<open>Giving a claim back, by whoever holds its lease; the dispatcher's interrupted batch does the same.\<close>

definition release :: "time \<Rightarrow> id \<Rightarrow> id option \<Rightarrow> int \<Rightarrow> outboxEvent list \<Rightarrow> outboxEvent list" where
  "release now i lease delayMs rows =
     upd (\<lambda>r. z_id r = i \<and> locked (z_status r) \<and> z_lockedBy r = lease)
       (\<lambda>r. (unlockRow Out_PENDING r)\<lparr>z_availableAt := now + max 1000 delayMs\<rparr>) rows"

definition releaseUnqueued :: "time \<Rightarrow> (id \<times> id) list \<Rightarrow> outboxEvent list \<Rightarrow> outboxEvent list" where
  "releaseUnqueued now claims rows =
     upd (\<lambda>r. z_status r = Out_ENQUEUED \<and> (\<exists>l. z_lockedBy r = Some l \<and> (z_id r, l) \<in> set claims))
       (\<lambda>r. (unlockRow Out_PENDING r)\<lparr>z_availableAt := now + POLL_INTERVAL_MS\<rparr>) rows"

text \<open>Published events are deleted after thirty days, at most 500 at a time.\<close>

definition expired :: "time \<Rightarrow> outboxEvent \<Rightarrow> bool" where
  "expired now e \<longleftrightarrow> z_status e = Out_PUBLISHED \<and>
     (case z_publishedAt e of None \<Rightarrow> False | Some t \<Rightarrow> t < now - 30 * DAY_MS)"

definition purgeCandidates :: "time \<Rightarrow> id list \<Rightarrow> outboxEvent list \<Rightarrow> id list" where
  "purgeCandidates now busy rows =
     take RETENTION_BATCH_SIZE
       (map z_id (sort_key (\<lambda>e. (case z_publishedAt e of None \<Rightarrow> 0 | Some t \<Rightarrow> t))
         (sort_key z_id (filter (\<lambda>e. expired now e \<and> z_id e \<notin> set busy) rows))))"

definition purge :: "time \<Rightarrow> id list \<Rightarrow> outboxEvent list \<Rightarrow> outboxEvent list" where
  "purge now busy rows = (let ids = purgeCandidates now busy rows in del (\<lambda>e. z_id e \<in> set ids) rows)"

text \<open>A manager sends a dead letter round again, if it is the one that was reviewed.\<close>

definition retryOutboxEvent :: "id \<Rightarrow> id \<Rightarrow> time \<Rightarrow> time \<Rightarrow> db \<Rightarrow> db res" where
  "retryOutboxEvent i emp expectedAvailableAt now d =
     assertActiveEmployee emp d
     (fetch (find (\<lambda>e. z_id e = i) (outbox d)) (NotFound ''outbox event'') (\<lambda>e.
      let g = (\<lambda>r. z_id r = i \<and> z_status r = Out_DEAD_LETTER \<and> z_availableAt r = expectedAvailableAt) in
      require (cnt g (outbox d) = 1) (Conflict ''outbox event changed'')
        (Inr (addLog emp ''OUTBOX_EVENT_RETRY'' i
          (d\<lparr>outbox := upd g (\<lambda>r. (unlockRow Out_PENDING r)\<lparr>z_attempts := 0, z_availableAt := now\<rparr>) (outbox d)\<rparr>)))))"

section \<open>Delivering one event\<close>

text \<open>How the listeners answered: all accepted, or the first rejection was of one of three kinds.\<close>

datatype answer = Accepted | Deferred int | Permanent | Failed

text \<open>\<open>DomainEventBusService.publish\<close>: every listener runs; the first rejection in their order is thrown.\<close>

definition publish :: "answer list \<Rightarrow> answer" where
  "publish answers = (case find (\<lambda>a. a \<noteq> Accepted) answers of None \<Rightarrow> Accepted | Some a \<Rightarrow> a)"

definition deliverable :: "outboxEvent \<Rightarrow> bool" where
  "deliverable e \<longleftrightarrow> z_status e = Out_ENQUEUED \<or> z_status e = Out_PENDING"

definition beginDelivery :: "time \<Rightarrow> id \<Rightarrow> outboxEvent \<Rightarrow> outboxEvent list \<Rightarrow> outboxEvent list" where
  "beginDelivery now lease e rows = upd (claimable now e) (lockRow Out_PROCESSING now lease) rows"

text \<open>\<open>jobLast\<close>: BullMQ's own attempts for the job are used up.\<close>

definition exhausted :: "nat \<Rightarrow> bool \<Rightarrow> bool" where
  "exhausted attempt jobLast \<longleftrightarrow> MAX_ATTEMPTS \<le> attempt \<or> jobLast"

text \<open>What the worker writes after the listeners have answered; \<open>e\<close> is the row as it was read.\<close>

definition settle :: "time \<Rightarrow> bool \<Rightarrow> outboxEvent \<Rightarrow> answer \<Rightarrow> outboxEvent list \<Rightarrow> outboxEvent list" where
  "settle now jobLast e a rows =
     (case a of
        Accepted \<Rightarrow> markPublished now e rows
      | Deferred ms \<Rightarrow> release now (z_id e) (z_lockedBy e) ms rows
      | Permanent \<Rightarrow> recordFailure now e (z_attempts e + 1) True rows
      | Failed \<Rightarrow> recordFailure now e (z_attempts e + 1) (exhausted (z_attempts e + 1) jobLast) rows)"

definition budgetSpent :: "outboxEvent \<Rightarrow> bool" where
  "budgetSpent e \<longleftrightarrow> MAX_ATTEMPTS \<le> z_attempts e"

text \<open>\<open>deliver\<close> when nothing else runs meanwhile.\<close>

definition deliver :: "time \<Rightarrow> id \<Rightarrow> bool \<Rightarrow> answer \<Rightarrow> id \<Rightarrow> outboxEvent list \<Rightarrow> outboxEvent list" where
  "deliver now lease jobLast a i rows =
     (case find (\<lambda>e. z_id e = i) rows of
        None \<Rightarrow> rows
      | Some e \<Rightarrow>
          if \<not> deliverable e \<or> cnt (claimable now e) rows \<noteq> 1 then rows
          else let held = e\<lparr>z_lockedBy := Some lease\<rparr>;
                   rows1 = beginDelivery now lease e rows
               in if budgetSpent e then recordFailure now held (z_attempts e) True rows1
                  else settle now jobLast held a rows1)"

section \<open>One dispatch cycle\<close>

text \<open>
  The state of the job BullMQ keeps for an event: none, or one \<open>getState\<close> reports on; a command
  that fails or times out throws.
\<close>

datatype jobState = No_job | Job_failed | Job_completed | Job_active | Job_waiting | Job_unknown | Job_error

definition enqueueJob :: "time \<Rightarrow> jobState \<Rightarrow> id \<times> id \<Rightarrow> outboxEvent list \<Rightarrow> bool \<times> outboxEvent list" where
  "enqueueJob now js claim rows =
     (case js of
        Job_error \<Rightarrow> (False, release now (fst claim) (Some (snd claim)) 1000 rows)
      | Job_active \<Rightarrow> (True, release now (fst claim) (Some (snd claim)) 1000 rows)
      | _ \<Rightarrow> (True, rows))"

text \<open>
  The environment of a cycle: the clock, when abandoned events were last recovered and old ones
  last deleted, the leases the deliveries draw, whether the process is stopping when event \<open>n\<close>
  is reached, the queue (if Redis is configured) and the listeners.
\<close>

record cycle =
  cy_now :: time
  cy_lastRecoveryAt :: time
  cy_lastHousekeepingAt :: time
  cy_lease :: id
  cy_stopping :: "nat \<Rightarrow> bool"
  cy_queue :: "(id \<Rightarrow> jobState) option"
  cy_answer :: "id \<Rightarrow> answer"

text \<open>The loop over the claimed events: the events not handled and the table.\<close>

fun dispatchLoop :: "cycle \<Rightarrow> nat \<Rightarrow> (id \<times> id) list \<Rightarrow> outboxEvent list \<Rightarrow> (id \<times> id) list \<times> outboxEvent list" where
  "dispatchLoop c n [] rows = ([], rows)"
| "dispatchLoop c n (ev # evs) rows =
     (if cy_stopping c n then (ev # evs, rows)
      else case cy_queue c of
        Some js \<Rightarrow>
          (let (enqueued, rows') = enqueueJob (cy_now c) (js (fst ev)) ev rows
           in if enqueued then dispatchLoop c (Suc n) evs rows' else (evs, rows'))
      | None \<Rightarrow>
          dispatchLoop c (Suc n) evs
            (deliver (cy_now c) (cy_lease c + Suc n) False (cy_answer c (fst ev)) (fst ev) rows))"

definition claimedBy :: "id \<Rightarrow> outboxEvent list \<Rightarrow> (id \<times> id) list" where
  "claimedBy lease rows = map (\<lambda>e. (z_id e, lease)) (filter (\<lambda>e. z_lockedBy e = Some lease) rows)"

definition maintain :: "cycle \<Rightarrow> outboxEvent list \<Rightarrow> outboxEvent list" where
  "maintain c rows =
     (let rows1 = (if RECOVERY_INTERVAL_MS \<le> cy_now c - cy_lastRecoveryAt c
                   then recoverAbandonedEvents (cy_now c) rows else rows)
      in if HOUSEKEEPING_INTERVAL_MS \<le> cy_now c - cy_lastHousekeepingAt c then purge (cy_now c) [] rows1 else rows1)"

definition dispatchBatch :: "cycle \<Rightarrow> outboxEvent list \<Rightarrow> outboxEvent list" where
  "dispatchBatch c rows =
     (if cy_stopping c 0 then maintain c rows
      else let rows1 = claimBatch (cy_now c) (cy_lease c) [] (maintain c rows);
               events = claimedBy (cy_lease c) rows1;
               (unqueued, rows2) = dispatchLoop c 0 events rows1
           in if unqueued = [] then rows2 else releaseUnqueued (cy_now c) unqueued rows2)"

section \<open>Interleaving\<close>

text \<open>
  A worker has read a row and not yet claimed it, has claimed it, or has its listeners' answer.
  \<open>ds_claims\<close> are the claims in the dispatchers' memory. Two ghost logs: the events whose
  listeners accepted, and those given up on.
\<close>

datatype worker =
    Reading outboxEvent bool
  | Holding outboxEvent bool
  | Settling outboxEvent bool answer
  | Spent outboxEvent

record dispatch =
  ds_rows :: "outboxEvent list"
  ds_clock :: time
  ds_lease :: id
  ds_claims :: "(id \<times> id) list"
  ds_workers :: "worker list"
  ds_submitted :: "id list"
  ds_accepted :: "id list"
  ds_givenUp :: "id list"

definition pendingEvent :: "outboxEvent \<Rightarrow> bool" where
  "pendingEvent e \<longleftrightarrow> z_status e = Out_PENDING \<and> z_attempts e = 0 \<and> z_lockedBy e = None \<and> z_lockedAt e = None \<and>
     z_publishedAt e = None"

definition workerEvent :: "worker \<Rightarrow> outboxEvent" where
  "workerEvent w = (case w of Reading e _ \<Rightarrow> e | Holding e _ \<Rightarrow> e | Settling e _ _ \<Rightarrow> e | Spent e \<Rightarrow> e)"

inductive dispatch_step :: "dispatch \<Rightarrow> dispatch \<Rightarrow> bool" where
  tick: "ds_clock s \<le> t \<Longrightarrow> dispatch_step s (s\<lparr>ds_clock := t\<rparr>)"
| submit: "pendingEvent e \<Longrightarrow> z_id e \<notin> set (ds_submitted s) \<Longrightarrow>
    dispatch_step s (s\<lparr>ds_rows := ds_rows s @ [e], ds_submitted := z_id e # ds_submitted s\<rparr>)"
| claim: "rows = claimBatch (ds_clock s) (ds_lease s) busy (ds_rows s) \<Longrightarrow>
    dispatch_step s (s\<lparr>ds_rows := rows, ds_lease := Suc (ds_lease s), ds_claims := ds_claims s @ claimedBy (ds_lease s) rows\<rparr>)"
| give_back: "c \<in> set (ds_claims s) \<Longrightarrow>
    dispatch_step s (s\<lparr>ds_rows := release (ds_clock s) (fst c) (Some (snd c)) 1000 (ds_rows s)\<rparr>)"
| give_back_rest: "set cs \<subseteq> set (ds_claims s) \<Longrightarrow>
    dispatch_step s (s\<lparr>ds_rows := releaseUnqueued (ds_clock s) cs (ds_rows s)\<rparr>)"
| recover: "dispatch_step s (s\<lparr>ds_rows := recoverAbandonedEvents (ds_clock s) (ds_rows s)\<rparr>)"
| retain: "dispatch_step s (s\<lparr>ds_rows := purge (ds_clock s) busy (ds_rows s)\<rparr>)"
| retry: "retryOutboxEvent i emp expected (ds_clock s) (d\<lparr>outbox := ds_rows s\<rparr>) = Inr d' \<Longrightarrow>
    dispatch_step s (s\<lparr>ds_rows := outbox d'\<rparr>)"
| read: "find (\<lambda>e. z_id e = i) (ds_rows s) = Some e \<Longrightarrow> deliverable e \<Longrightarrow>
    dispatch_step s (s\<lparr>ds_workers := Reading e jobLast # ds_workers s\<rparr>)"
| take_event: "ds_workers s = ws @ Reading e jobLast # ws' \<Longrightarrow> cnt (claimable (ds_clock s) e) (ds_rows s) = 1 \<Longrightarrow>
    dispatch_step s (s\<lparr>ds_rows := beginDelivery (ds_clock s) (ds_lease s) e (ds_rows s), ds_lease := Suc (ds_lease s),
      ds_workers := ws @ Holding (e\<lparr>z_lockedBy := Some (ds_lease s)\<rparr>) jobLast # ws'\<rparr>)"
| answered: "ds_workers s = ws @ Holding e jobLast # ws' \<Longrightarrow> \<not> budgetSpent e \<Longrightarrow> a = publish answers \<Longrightarrow>
    dispatch_step s (s\<lparr>ds_workers := ws @ Settling e jobLast a # ws',
      ds_accepted := (if a = Accepted then z_id e # ds_accepted s else ds_accepted s),
      ds_givenUp := (if a = Permanent \<or> a = Failed \<and> exhausted (z_attempts e + 1) jobLast
        then z_id e # ds_givenUp s else ds_givenUp s)\<rparr>)"
| spent: "ds_workers s = ws @ Holding e jobLast # ws' \<Longrightarrow> budgetSpent e \<Longrightarrow>
    dispatch_step s (s\<lparr>ds_workers := ws @ Spent e # ws', ds_givenUp := z_id e # ds_givenUp s\<rparr>)"
| renew: "w \<in> set (ds_workers s) \<Longrightarrow> workerEvent w = e \<Longrightarrow> \<forall>x b. w \<noteq> Reading x b \<Longrightarrow>
    dispatch_step s (s\<lparr>ds_rows := renewLease (ds_clock s) e (ds_rows s)\<rparr>)"
| settled: "ds_workers s = ws @ Settling e jobLast a # ws' \<Longrightarrow>
    dispatch_step s (s\<lparr>ds_rows := settle (ds_clock s) jobLast e a (ds_rows s), ds_workers := ws @ ws'\<rparr>)"
| write_off: "ds_workers s = ws @ Spent e # ws' \<Longrightarrow>
    dispatch_step s (s\<lparr>ds_rows := recordFailure (ds_clock s) e (z_attempts e) True (ds_rows s), ds_workers := ws @ ws'\<rparr>)"
| crash: "dispatch_step s (s\<lparr>ds_workers := filter alive (ds_workers s), ds_claims := filter known (ds_claims s)\<rparr>)"

definition no_dispatch :: dispatch where
  "no_dispatch = \<lparr>ds_rows = [], ds_clock = 0, ds_lease = 0, ds_claims = [], ds_workers = [], ds_submitted = [],
     ds_accepted = [], ds_givenUp = []\<rparr>"

end
