(* ===== verification/Outbox_Claims.thy ===== *)
theory Outbox_Claims
  imports Outbox_Dispatch
begin

text \<open>
  What the dispatcher guarantees whatever the interleaving: no event is lost, an event counts as
  published only after its listeners accepted it, a dead letter was given up on, and a row is in
  the hands of at most one worker. And what a quiet cycle achieves: it publishes what is due.
\<close>

section \<open>The invariant of the protocol\<close>

definition event_ok :: "id list \<Rightarrow> id list \<Rightarrow> outboxEvent \<Rightarrow> bool" where
  "event_ok accepted givenUp e \<longleftrightarrow>
     (z_status e = Out_PUBLISHED \<longrightarrow> z_id e \<in> set accepted) \<and>
     (z_status e = Out_DEAD_LETTER \<longrightarrow> z_id e \<in> set givenUp) \<and>
     (if z_status e = Out_DEAD_LETTER then z_attempts e \<le> MAX_ATTEMPTS else z_attempts e < MAX_ATTEMPTS)"

definition worker_ok :: "id list \<Rightarrow> id list \<Rightarrow> worker \<Rightarrow> bool" where
  "worker_ok accepted givenUp w \<longleftrightarrow> z_attempts (workerEvent w) < MAX_ATTEMPTS \<and>
     (case w of
        Settling e jobLast a \<Rightarrow>
          (a = Accepted \<longrightarrow> z_id e \<in> set accepted) \<and>
          (a = Permanent \<or> a = Failed \<and> exhausted (z_attempts e + 1) jobLast \<longrightarrow> z_id e \<in> set givenUp)
      | Spent e \<Rightarrow> False
      | _ \<Rightarrow> True)"

definition workerLease :: "worker \<Rightarrow> id option list" where
  "workerLease w = (case w of Reading e b \<Rightarrow> [] | _ \<Rightarrow> [z_lockedBy (workerEvent w)])"

definition leases :: "dispatch \<Rightarrow> id option list" where
  "leases s = concat (map workerLease (ds_workers s))"

definition dispatch_inv :: "dispatch \<Rightarrow> bool" where
  "dispatch_inv s \<longleftrightarrow>
     distinct (map z_id (ds_rows s)) \<and>
     (\<forall>e\<in>set (ds_rows s). z_id e \<in> set (ds_submitted s) \<and> event_ok (ds_accepted s) (ds_givenUp s) e) \<and>
     (\<forall>w\<in>set (ds_workers s). worker_ok (ds_accepted s) (ds_givenUp s) w) \<and>
     (\<forall>i\<in>set (ds_submitted s). i \<in> z_id ` set (ds_rows s) \<or> i \<in> set (ds_accepted s)) \<and>
     distinct (leases s) \<and> (\<forall>l\<in>set (leases s). \<exists>n. l = Some n \<and> n < ds_lease s)"

text \<open>A statement that only rewrites rows keeps the invariant if the rows it writes are allowed.\<close>

lemma rewrite_inv:
  assumes "dispatch_inv s" and "\<And>r. z_id (f r) = z_id r"
    and "\<And>r. r \<in> set (ds_rows s) \<Longrightarrow> P r \<Longrightarrow> event_ok (ds_accepted s) (ds_givenUp s) r \<Longrightarrow>
      event_ok (ds_accepted s) (ds_givenUp s) (f r)"
    and "ds_rows s' = upd P f (ds_rows s)" and "ds_submitted s' = ds_submitted s"
    and "ds_accepted s' = ds_accepted s" "ds_givenUp s' = ds_givenUp s"
    and "\<forall>w\<in>set (ds_workers s'). worker_ok (ds_accepted s) (ds_givenUp s) w"
    and "distinct (leases s')" "\<forall>l\<in>set (leases s'). \<exists>n. l = Some n \<and> n < ds_lease s'"
  shows "dispatch_inv s'"
proof -
  have keys: "map z_id (ds_rows s') = map z_id (ds_rows s)" unfolding assms(4) by (rule map_key_upd) (rule assms(2))
  then have "z_id ` set (ds_rows s') = z_id ` set (ds_rows s)" by (metis list.set_map)
  moreover have "\<forall>e\<in>set (ds_rows s'). z_id e \<in> set (ds_submitted s) \<and> event_ok (ds_accepted s) (ds_givenUp s) e"
    using assms(1,2,3) unfolding assms(4) ball_upd by (auto simp: dispatch_inv_def)
  ultimately show ?thesis using assms(1,5-10) keys by (simp add: dispatch_inv_def)
qed

lemma leases_same: "ds_workers s' = ds_workers s \<Longrightarrow> leases s' = leases s"
  by (simp add: leases_def)

lemma rewrite_rows_inv:
  assumes "dispatch_inv s" and "\<And>r. z_id (f r) = z_id r"
    and "\<And>r. r \<in> set (ds_rows s) \<Longrightarrow> P r \<Longrightarrow> event_ok (ds_accepted s) (ds_givenUp s) r \<Longrightarrow>
      event_ok (ds_accepted s) (ds_givenUp s) (f r)"
  shows "dispatch_inv (s\<lparr>ds_rows := upd P f (ds_rows s)\<rparr>)"
  by (rule rewrite_inv [where s = s, OF assms]) (use assms(1) in \<open>simp_all add: dispatch_inv_def leases_def\<close>)

lemma unlockRow_fields [simp]:
  "z_id (unlockRow st e) = z_id e" "z_status (unlockRow st e) = st" "z_attempts (unlockRow st e) = z_attempts e"
  "z_id (lockRow st now l e) = z_id e" "z_status (lockRow st now l e) = st" "z_attempts (lockRow st now l e) = z_attempts e"
  by (simp_all add: unlockRow_def lockRow_def)

lemma lock_ok:
  "event_ok acc giv e \<Longrightarrow> z_status e \<noteq> Out_DEAD_LETTER \<Longrightarrow> st = Out_ENQUEUED \<or> st = Out_PROCESSING \<Longrightarrow>
     event_ok acc giv (lockRow st now l e)"
  by (auto simp: event_ok_def split: if_splits)

lemma unlock_ok:
  "event_ok acc giv e \<Longrightarrow> z_status e \<noteq> Out_DEAD_LETTER \<Longrightarrow> event_ok acc giv ((unlockRow Out_PENDING e)\<lparr>z_availableAt := t\<rparr>)"
  "event_ok acc giv e \<Longrightarrow> z_status e \<noteq> Out_DEAD_LETTER \<Longrightarrow> event_ok acc giv (unlockRow Out_PENDING e)"
  by (auto simp: event_ok_def split: if_splits)

lemma candidate_pending:
  assumes "i \<in> set (claimCandidates now busy rows)"
  shows "\<exists>e\<in>set rows. z_id e = i \<and> dueEvent now e"
  using assms set_take_subset [of BATCH_SIZE] unfolding claimCandidates_def by fastforce

lemma claimBatch_inv:
  assumes "dispatch_inv s"
  shows "dispatch_inv (s\<lparr>ds_rows := claimBatch (ds_clock s) l busy (ds_rows s)\<rparr>)"
  unfolding claimBatch_def Let_def
proof (rule rewrite_rows_inv [OF assms])
  fix r assume r: "r \<in> set (ds_rows s)" "z_id r \<in> set (claimCandidates (ds_clock s) busy (ds_rows s))"
    and ok: "event_ok (ds_accepted s) (ds_givenUp s) r"
  obtain e where "e \<in> set (ds_rows s)" "z_id e = z_id r" "dueEvent (ds_clock s) e" using candidate_pending [OF r(2)] by blast
  moreover have "distinct (map z_id (ds_rows s))" using assms by (simp add: dispatch_inv_def)
  ultimately have "dueEvent (ds_clock s) r" using distinct_key_eq r(1) by metis
  then show "event_ok (ds_accepted s) (ds_givenUp s) (lockRow Out_ENQUEUED (ds_clock s) l r)"
    by (intro lock_ok [OF ok]) (simp_all add: dueEvent_def)
qed simp

lemma release_inv: "dispatch_inv s \<Longrightarrow> dispatch_inv (s\<lparr>ds_rows := release now i l delay (ds_rows s)\<rparr>)"
  unfolding release_def by (rule rewrite_rows_inv) (auto simp: locked_def intro!: unlock_ok)

lemma releaseUnqueued_inv: "dispatch_inv s \<Longrightarrow> dispatch_inv (s\<lparr>ds_rows := releaseUnqueued now cs (ds_rows s)\<rparr>)"
  unfolding releaseUnqueued_def by (rule rewrite_rows_inv) (auto intro!: unlock_ok)

lemma recover_inv: "dispatch_inv s \<Longrightarrow> dispatch_inv (s\<lparr>ds_rows := recoverAbandonedEvents now (ds_rows s)\<rparr>)"
  unfolding recoverAbandonedEvents_def by (rule rewrite_rows_inv) (auto simp: locked_def intro!: unlock_ok)

lemma renew_inv: "dispatch_inv s \<Longrightarrow> dispatch_inv (s\<lparr>ds_rows := renewLease now e (ds_rows s)\<rparr>)"
  unfolding renewLease_def by (rule rewrite_rows_inv) (auto simp: event_ok_def)

lemma retry_inv:
  assumes "dispatch_inv s" and "retryOutboxEvent i emp expected now (d\<lparr>outbox := ds_rows s\<rparr>) = Inr d'"
  shows "dispatch_inv (s\<lparr>ds_rows := outbox d'\<rparr>)"
proof -
  let ?g = "\<lambda>r. z_id r = i \<and> z_status r = Out_DEAD_LETTER \<and> z_availableAt r = expected"
  have "outbox d' = upd ?g (\<lambda>r. (unlockRow Out_PENDING r)\<lparr>z_attempts := 0, z_availableAt := now\<rparr>) (ds_rows s)"
    using assms(2) by (auto simp: retryOutboxEvent_def Let_def)
  then show ?thesis
    by (simp only:) (rule rewrite_rows_inv [OF assms(1)], simp, simp add: event_ok_def MAX_ATTEMPTS_def)
qed

lemma purge_inv:
  assumes "dispatch_inv s"
  shows "dispatch_inv (s\<lparr>ds_rows := purge now busy (ds_rows s)\<rparr>)"
proof -
  let ?ids = "set (purgeCandidates now busy (ds_rows s))"
  have d: "distinct (map z_id (ds_rows s))" using assms by (simp add: dispatch_inv_def)
  have old: "expired now e" if "e \<in> set (ds_rows s)" "z_id e \<in> ?ids" for e
  proof -
    have "\<exists>x\<in>set (ds_rows s). z_id x = z_id e \<and> expired now x"
      using that(2) set_take_subset [of RETENTION_BATCH_SIZE] unfolding purgeCandidates_def by fastforce
    then show ?thesis using distinct_key_eq [OF d] that(1) by metis
  qed
  have rows: "purge now busy (ds_rows s) = del (\<lambda>e. z_id e \<in> ?ids) (ds_rows s)" by (simp add: purge_def Let_def)
  have "i \<in> z_id ` set (purge now busy (ds_rows s)) \<or> i \<in> set (ds_accepted s)" if "i \<in> set (ds_submitted s)" for i
  proof (cases "i \<in> set (ds_accepted s)")
    case False
    then have "i \<in> z_id ` set (ds_rows s)" using assms that unfolding dispatch_inv_def by blast
    then obtain e where e: "e \<in> set (ds_rows s)" "z_id e = i" by blast
    have "z_id e \<notin> ?ids"
    proof
      assume "z_id e \<in> ?ids"
      then have "z_status e = Out_PUBLISHED" using old [OF e(1)] by (simp add: expired_def)
      moreover have "event_ok (ds_accepted s) (ds_givenUp s) e" using assms e(1) by (simp add: dispatch_inv_def)
      ultimately show False using False e(2) by (simp add: event_ok_def)
    qed
    then show ?thesis using e by (auto simp: rows)
  qed simp
  moreover have "distinct (map z_id (purge now busy (ds_rows s)))"
    unfolding rows del_def using d by (simp add: distinct_map_filter)
  ultimately show ?thesis using assms by (simp add: dispatch_inv_def leases_def rows)
qed

lemma event_ok_mono: "event_ok acc giv e \<Longrightarrow> set acc \<subseteq> set acc' \<Longrightarrow> set giv \<subseteq> set giv' \<Longrightarrow> event_ok acc' giv' e"
  by (auto simp: event_ok_def)

lemma worker_ok_mono: "worker_ok acc giv w \<Longrightarrow> set acc \<subseteq> set acc' \<Longrightarrow> set giv \<subseteq> set giv' \<Longrightarrow> worker_ok acc' giv' w"
  by (auto simp: worker_ok_def split: worker.splits)

lemma settle_row_inv:
  assumes "dispatch_inv s" and w: "worker_ok (ds_accepted s) (ds_givenUp s) (Settling e jobLast a)"
  shows "dispatch_inv (s\<lparr>ds_rows := settle now jobLast e a (ds_rows s)\<rparr>)"
proof (cases a)
  case Accepted
  then have "z_id e \<in> set (ds_accepted s)" using w by (simp add: worker_ok_def)
  then show ?thesis unfolding Accepted settle_def answer.case markPublished_def
    by (intro rewrite_rows_inv [OF assms(1)]) (auto simp: event_ok_def holds_def)
next
  case (Deferred ms)
  then show ?thesis using release_inv [OF assms(1)] by (simp add: settle_def)
next
  case Permanent
  then have "z_id e \<in> set (ds_givenUp s)" "z_attempts e < MAX_ATTEMPTS" using w by (simp_all add: worker_ok_def workerEvent_def)
  then show ?thesis unfolding Permanent settle_def answer.case recordFailure_def
    by (intro rewrite_rows_inv [OF assms(1)]) (auto simp: event_ok_def holds_def)
next
  case Failed
  show ?thesis
  proof (cases "exhausted (z_attempts e + 1) jobLast")
    case True
    then have "z_id e \<in> set (ds_givenUp s)" "z_attempts e < MAX_ATTEMPTS" using w Failed by (simp_all add: worker_ok_def workerEvent_def)
    then show ?thesis unfolding Failed settle_def answer.case recordFailure_def
      by (intro rewrite_rows_inv [OF assms(1)]) (auto simp: event_ok_def holds_def True [simplified])
  next
    case False
    then have "z_attempts e + 1 < MAX_ATTEMPTS" by (simp add: exhausted_def)
    then show ?thesis unfolding Failed settle_def answer.case recordFailure_def
      by (intro rewrite_rows_inv [OF assms(1)]) (auto simp: event_ok_def holds_def False [simplified])
  qed
qed

lemma leases_split [simp]:
  "ds_workers s = ws @ w # ws' \<Longrightarrow> leases s = concat (map workerLease ws) @ workerLease w @ concat (map workerLease ws')"
  by (simp add: leases_def)

lemma leases_filter:
  assumes "distinct (leases s)"
  shows "distinct (concat (map workerLease (filter P (ds_workers s))))"
    "set (concat (map workerLease (filter P (ds_workers s)))) \<subseteq> set (leases s)"
proof -
  have "distinct (concat (map workerLease ws)) \<Longrightarrow> distinct (concat (map workerLease (filter P ws)))" for ws
    by (induction ws) auto
  then show "distinct (concat (map workerLease (filter P (ds_workers s))))" using assms by (simp add: leases_def)
  show "set (concat (map workerLease (filter P (ds_workers s)))) \<subseteq> set (leases s)" by (auto simp: leases_def)
qed

text \<open>Changing one worker.\<close>

lemma worker_inv:
  assumes "dispatch_inv s" and "ds_workers s = ws @ w # ws'" and "workerLease w' = workerLease w"
    and "worker_ok acc giv w'" and "set (ds_accepted s) \<subseteq> set acc" "set (ds_givenUp s) \<subseteq> set giv"
  shows "dispatch_inv (s\<lparr>ds_workers := ws @ w' # ws', ds_accepted := acc, ds_givenUp := giv\<rparr>)"
proof -
  have "leases (s\<lparr>ds_workers := ws @ w' # ws', ds_accepted := acc, ds_givenUp := giv\<rparr>) = leases s"
    using assms(2,3) by (simp add: leases_def)
  moreover have "\<forall>e\<in>set (ds_rows s). z_id e \<in> set (ds_submitted s) \<and> event_ok acc giv e"
    using assms(1) event_ok_mono [OF _ assms(5,6)] unfolding dispatch_inv_def by blast
  moreover have "\<forall>x\<in>set (ws @ w' # ws'). worker_ok acc giv x"
    using assms(1,2,4) worker_ok_mono [OF _ assms(5,6)] unfolding dispatch_inv_def by auto
  moreover have "\<forall>i\<in>set (ds_submitted s). i \<in> z_id ` set (ds_rows s) \<or> i \<in> set acc"
    using assms(1,5) unfolding dispatch_inv_def by blast
  ultimately show ?thesis using assms(1) by (simp add: dispatch_inv_def)
qed

lemma drop_worker_inv:
  assumes "dispatch_inv s" and "ds_workers s = ws @ w # ws'"
  shows "dispatch_inv (s\<lparr>ds_workers := ws @ ws'\<rparr>)"
  using assms by (auto simp: dispatch_inv_def leases_def)

lemma beginDelivery_inv:
  assumes "dispatch_inv s" and "deliverable e"
  shows "dispatch_inv (s\<lparr>ds_rows := beginDelivery now l e (ds_rows s)\<rparr>)"
  unfolding beginDelivery_def
  by (rule rewrite_rows_inv [OF assms(1)]) (use assms(2) in \<open>auto simp: claimable_def deliverable_def intro!: lock_ok\<close>)

lemma take_inv:
  assumes "dispatch_inv s" and "ds_workers s = ws @ Reading e b # ws'" and "deliverable e"
  shows "dispatch_inv (s\<lparr>ds_rows := beginDelivery now (ds_lease s) e (ds_rows s), ds_lease := Suc (ds_lease s),
      ds_workers := ws @ Holding (e\<lparr>z_lockedBy := Some (ds_lease s)\<rparr>) b # ws'\<rparr>)"
proof -
  have "Some (ds_lease s) \<notin> set (leases s)" using assms(1) by (auto simp: dispatch_inv_def)
  moreover have "dispatch_inv (s\<lparr>ds_rows := beginDelivery now (ds_lease s) e (ds_rows s)\<rparr>)"
    by (rule beginDelivery_inv [OF assms(1,3)])
  ultimately show ?thesis
    using assms(2) unfolding dispatch_inv_def leases_def
    by (auto simp: workerLease_def worker_ok_def workerEvent_def less_Suc_eq)
qed

lemma read_ok:
  assumes "dispatch_inv s" and "find (\<lambda>e. z_id e = i) (ds_rows s) = Some e" and "deliverable e"
  shows "worker_ok (ds_accepted s) (ds_givenUp s) (Reading e b)"
proof -
  have "e \<in> set (ds_rows s)" using assms(2) by (auto dest: find_SomeD)
  then have "event_ok (ds_accepted s) (ds_givenUp s) e" using assms(1) by (simp add: dispatch_inv_def)
  then show ?thesis using assms(3) by (auto simp: event_ok_def worker_ok_def workerEvent_def deliverable_def split: if_splits)
qed

text \<open>Everything a worker has read was deliverable, also later.\<close>

definition readers_ok :: "dispatch \<Rightarrow> bool" where
  "readers_ok s \<longleftrightarrow> (\<forall>w\<in>set (ds_workers s). case w of Reading e b \<Rightarrow> deliverable e | _ \<Rightarrow> True)"

lemma workers_mid:
  assumes "dispatch_inv s" and "ds_workers s = ws @ w # ws'"
  shows "worker_ok (ds_accepted s) (ds_givenUp s) w"
  using assms by (simp add: dispatch_inv_def)

lemma lease_inv:
  assumes "dispatch_inv s"
  shows "dispatch_inv (s\<lparr>ds_lease := Suc (ds_lease s), ds_claims := cs\<rparr>)"
proof -
  have "\<forall>l\<in>set (leases s). \<exists>n. l = Some n \<and> n < Suc (ds_lease s)"
    using assms unfolding dispatch_inv_def by (meson less_SucI)
  then show ?thesis using assms by (simp add: dispatch_inv_def leases_def)
qed

lemma dispatch_step_inv:
  assumes "dispatch_step s s'" and "dispatch_inv s \<and> readers_ok s"
  shows "dispatch_inv s' \<and> readers_ok s'"
  using assms
proof (cases rule: dispatch_step.cases)
  case (tick t)
  then show ?thesis using assms(2) by (simp add: dispatch_inv_def readers_ok_def leases_def)
next
  case (submit e)
  then have "event_ok (ds_accepted s) (ds_givenUp s) e" by (auto simp: pendingEvent_def event_ok_def MAX_ATTEMPTS_def)
  then show ?thesis using submit assms(2) unfolding dispatch_inv_def readers_ok_def by (auto simp: leases_def)
next
  case (claim rows busy)
  have "dispatch_inv (s\<lparr>ds_rows := rows\<rparr>)" unfolding claim(2) by (rule claimBatch_inv) (use assms(2) in simp)
  then show ?thesis using claim(1) assms(2) lease_inv [of "s\<lparr>ds_rows := rows\<rparr>"] by (simp add: readers_ok_def)
next
  case (give_back c)
  then show ?thesis using release_inv assms(2) by (simp add: readers_ok_def)
next
  case (give_back_rest cs)
  then show ?thesis using releaseUnqueued_inv assms(2) by (simp add: readers_ok_def)
next
  case recover
  then show ?thesis using recover_inv assms(2) by (simp add: readers_ok_def)
next
  case (retain busy)
  then show ?thesis using purge_inv assms(2) by (simp add: readers_ok_def)
next
  case (retry i emp expected d d')
  then show ?thesis using retry_inv assms(2) by (simp add: readers_ok_def)
next
  case (read i e jobLast)
  then have "worker_ok (ds_accepted s) (ds_givenUp s) (Reading e jobLast)" using read_ok assms(2) by blast
  then show ?thesis using read assms(2) by (simp add: dispatch_inv_def readers_ok_def leases_def workerLease_def)
next
  case (take_event ws e jobLast ws')
  then have "deliverable e" using assms(2) by (simp add: readers_ok_def)
  then show ?thesis using take_event take_inv [of s ws e jobLast ws'] assms(2) by (auto simp: readers_ok_def)
next
  case (answered ws e jobLast ws' a answers)
  let ?acc = "if a = Accepted then z_id e # ds_accepted s else ds_accepted s"
  let ?giv = "if a = Permanent \<or> a = Failed \<and> exhausted (z_attempts e + 1) jobLast then z_id e # ds_givenUp s else ds_givenUp s"
  have "worker_ok (ds_accepted s) (ds_givenUp s) (Holding e jobLast)"
    by (rule workers_mid [OF _ answered(2)]) (use assms(2) in simp)
  then have "worker_ok ?acc ?giv (Settling e jobLast a)" by (auto simp: worker_ok_def workerEvent_def)
  then have "dispatch_inv s'" unfolding answered(1)
    by (intro worker_inv [OF _ answered(2)]) (use assms(2) in \<open>auto simp: workerLease_def workerEvent_def\<close>)
  moreover have "readers_ok s'" using answered(1,2) assms(2) by (simp add: readers_ok_def)
  ultimately show ?thesis ..
next
  case (spent ws e jobLast ws')
  have "worker_ok (ds_accepted s) (ds_givenUp s) (Holding e jobLast)"
    by (rule workers_mid [OF _ spent(2)]) (use assms(2) in simp)
  then show ?thesis using spent(3) by (simp add: worker_ok_def workerEvent_def budgetSpent_def)
next
  case (renew w e)
  then show ?thesis using renew_inv assms(2) by (simp add: readers_ok_def)
next
  case (settled ws e jobLast a ws')
  have w: "worker_ok (ds_accepted s) (ds_givenUp s) (Settling e jobLast a)"
    by (rule workers_mid [OF _ settled(2)]) (use assms(2) in simp)
  have "dispatch_inv (s\<lparr>ds_rows := settle (ds_clock s) jobLast e a (ds_rows s)\<rparr>)"
    by (rule settle_row_inv [OF _ w]) (use assms(2) in simp)
  then have "dispatch_inv (s\<lparr>ds_rows := settle (ds_clock s) jobLast e a (ds_rows s), ds_workers := ws @ ws'\<rparr>)"
    by (rule drop_worker_inv [of _ ws "Settling e jobLast a" ws', simplified]) (simp add: settled(2))
  then show ?thesis using settled(1,2) assms(2) by (simp add: readers_ok_def)
next
  case (write_off ws e ws')
  have "worker_ok (ds_accepted s) (ds_givenUp s) (Spent e)"
    by (rule workers_mid [OF _ write_off(2)]) (use assms(2) in simp)
  then show ?thesis by (simp add: worker_ok_def)
next
  case (crash known alive)
  have "distinct (leases s)" using assms(2) by (simp add: dispatch_inv_def)
  note f = leases_filter [OF this, of alive]
  have "leases s' = concat (map workerLease (filter alive (ds_workers s)))" using crash by (simp add: leases_def)
  then show ?thesis using crash f assms(2) unfolding dispatch_inv_def readers_ok_def by auto
qed

lemma dispatch_reachable:
  assumes "dispatch_step\<^sup>*\<^sup>* no_dispatch s"
  shows "dispatch_inv s \<and> readers_ok s"
  using assms
proof (induction rule: rtranclp_induct)
  case base
  show ?case by (simp add: no_dispatch_def dispatch_inv_def readers_ok_def leases_def)
next
  case (step y z)
  show ?case by (rule dispatch_step_inv [OF step.hyps(2) step.IH])
qed

lemma one_holder:
  assumes "distinct (concat (map workerLease ws))"
  shows "length (filter (\<lambda>w. (\<forall>e b. w \<noteq> Reading e b) \<and> holds (workerEvent w) r) ws) \<le> 1"
  using assms
proof (induction ws)
  case (Cons w ws)
  let ?P = "\<lambda>w. (\<forall>e b. w \<noteq> Reading e b) \<and> holds (workerEvent w) r"
  show ?case
  proof (cases "?P w")
    case True
    then have lw: "workerLease w = [z_lockedBy r]" by (cases w) (auto simp: workerLease_def holds_def)
    have "\<not> ?P x" if x: "x \<in> set ws" for x
    proof
      assume "?P x"
      then have "workerLease x = [z_lockedBy r]" by (cases x) (auto simp: workerLease_def holds_def)
      then have "z_lockedBy r \<in> set (concat (map workerLease ws))" using x by force
      then show False using Cons.prems lw by simp
    qed
    then have "filter ?P ws = []" by (simp add: filter_empty_conv)
    then show ?thesis using True by simp
  next
    case False
    then have "filter ?P (w # ws) = filter ?P ws" by (simp only: filter.simps if_False)
    moreover have "length (filter ?P ws) \<le> 1" using Cons by simp
    ultimately show ?thesis by metis
  qed
qed simp

text \<open>C9: The outbox loses nothing and promises nothing early. Whatever dispatchers, workers, listeners
  and timeouts do, in any order and with crashes anywhere: an event that was submitted is in the
  table or its listeners have accepted it; a row is PUBLISHED only if they have, and a dead letter
  only if delivery was refused for good or its retries ran out; undelivered events have attempts
  left; and at most one worker at a time can settle a row.\<close>

theorem outbox_delivery:
  assumes "dispatch_step\<^sup>*\<^sup>* no_dispatch s"
  shows "(\<forall>i\<in>set (ds_submitted s). (\<exists>e\<in>set (ds_rows s). z_id e = i) \<or> i \<in> set (ds_accepted s)) \<and>
    (\<forall>e\<in>set (ds_rows s).
       (z_status e = Out_PUBLISHED \<longrightarrow> z_id e \<in> set (ds_accepted s)) \<and>
       (z_status e = Out_DEAD_LETTER \<longrightarrow> z_id e \<in> set (ds_givenUp s)) \<and>
       (z_status e \<noteq> Out_DEAD_LETTER \<longrightarrow> z_attempts e < MAX_ATTEMPTS) \<and>
       length (filter (\<lambda>w. (\<forall>x b. w \<noteq> Reading x b) \<and> holds (workerEvent w) e) (ds_workers s)) \<le> 1)"
proof -
  have inv: "dispatch_inv s" using dispatch_reachable [OF assms] by simp
  then have "distinct (concat (map workerLease (ds_workers s)))" by (simp add: dispatch_inv_def leases_def)
  note one = one_holder [OF this]
  show ?thesis
  proof (intro conjI ballI)
    show "(\<exists>e\<in>set (ds_rows s). z_id e = i) \<or> i \<in> set (ds_accepted s)" if "i \<in> set (ds_submitted s)" for i
    proof -
      from inv that have "i \<in> z_id ` set (ds_rows s) \<or> i \<in> set (ds_accepted s)" unfolding dispatch_inv_def by blast
      then show ?thesis by blast
    qed
    fix e assume "e \<in> set (ds_rows s)"
    then have ok: "event_ok (ds_accepted s) (ds_givenUp s) e" using inv by (simp add: dispatch_inv_def)
    show "z_status e = Out_PUBLISHED \<longrightarrow> z_id e \<in> set (ds_accepted s)" "z_status e = Out_DEAD_LETTER \<longrightarrow> z_id e \<in> set (ds_givenUp s)"
      "z_status e \<noteq> Out_DEAD_LETTER \<longrightarrow> z_attempts e < MAX_ATTEMPTS"
      using ok by (simp_all add: event_ok_def)
    show "length (filter (\<lambda>w. (\<forall>x b. w \<noteq> Reading x b) \<and> holds (workerEvent w) e) (ds_workers s)) \<le> 1" by (rule one)
  qed
qed

definition sampleEvent :: "id \<Rightarrow> time \<Rightarrow> outboxEvent" where
  "sampleEvent i t = \<lparr>z_id = i, z_topic = ''order'', z_eventName = ''INVOICE_PAID'', z_aggregateId = 1, z_tables = [],
     z_status = Out_PENDING, z_attempts = 0, z_availableAt = t, z_lockedAt = None, z_lockedBy = None, z_publishedAt = None\<rparr>"

lemmas outbox_eval = no_dispatch_def sampleEvent_def upd_def cnt_def claimable_def holds_def lockRow_def unlockRow_def
  deliverable_def dueEvent_def

theorem outbox_delivery_witness:
  "\<exists>s. dispatch_step\<^sup>*\<^sup>* no_dispatch s \<and> map z_status (ds_rows s) = [Out_PUBLISHED] \<and> 7 \<in> set (ds_accepted s)"
proof -
  let ?e = "sampleEvent 7 0"
  let ?r = "lockRow Out_PROCESSING 0 0 ?e"
  let ?p = "(unlockRow Out_PUBLISHED ?r)\<lparr>z_publishedAt := Some 0\<rparr>"
  let ?s1 = "no_dispatch\<lparr>ds_rows := [?e], ds_submitted := [7]\<rparr>"
  let ?s2 = "?s1\<lparr>ds_workers := [Reading ?e False]\<rparr>"
  let ?h = "?e\<lparr>z_lockedBy := Some 0\<rparr>"
  let ?s3 = "?s2\<lparr>ds_rows := [?r], ds_lease := 1, ds_workers := [Holding ?h False]\<rparr>"
  let ?s4 = "?s3\<lparr>ds_workers := [Settling ?h False Accepted], ds_accepted := [7]\<rparr>"
  let ?s5 = "?s4\<lparr>ds_rows := [?p], ds_workers := []\<rparr>"
  have "dispatch_step no_dispatch ?s1"
    using dispatch_step.submit [of ?e no_dispatch] by (simp add: outbox_eval pendingEvent_def)
  moreover have "dispatch_step ?s1 ?s2"
    using dispatch_step.read [of 7 ?s1 ?e False] by (simp add: outbox_eval)
  moreover have "dispatch_step ?s2 ?s3"
    using dispatch_step.take_event [of ?s2 "[]" ?e False "[]"] by (simp add: outbox_eval beginDelivery_def)
  moreover have "dispatch_step ?s3 ?s4"
    using dispatch_step.answered [of ?s3 "[]" ?h False "[]" Accepted "[Accepted]"]
    by (simp add: outbox_eval budgetSpent_def publish_def MAX_ATTEMPTS_def)
  moreover have "dispatch_step ?s4 ?s5"
    using dispatch_step.settled [of ?s4 "[]" ?h False Accepted "[]"] by (simp add: outbox_eval settle_def markPublished_def)
  ultimately have run: "dispatch_step\<^sup>*\<^sup>* no_dispatch ?s5"
    by (intro converse_rtranclp_into_rtranclp [of dispatch_step no_dispatch ?s1]
        converse_rtranclp_into_rtranclp [of dispatch_step ?s1 ?s2]
        converse_rtranclp_into_rtranclp [of dispatch_step ?s2 ?s3]
        converse_rtranclp_into_rtranclp [of dispatch_step ?s3 ?s4] r_into_rtranclp)
  have "z_status ?p = Out_PUBLISHED \<longrightarrow> z_id ?p \<in> set (ds_accepted ?s5)"
    using outbox_delivery [OF run] by simp
  with run show ?thesis by (intro exI [of _ ?s5]) (simp add: outbox_eval)
qed

section \<open>A quiet cycle publishes what is due\<close>

definition published :: "time \<Rightarrow> outboxEvent \<Rightarrow> outboxEvent" where
  "published now e = (unlockRow Out_PUBLISHED e)\<lparr>z_publishedAt := Some now\<rparr>"

lemma published_id [simp]: "z_id (published now e) = z_id e"
  by (simp add: published_def)

lemma claimable_once:
  assumes "distinct (map z_id rows)" and "e \<in> set rows" and "z_availableAt e \<le> now"
  shows "cnt (claimable now e) rows = 1" and "r \<in> set rows \<Longrightarrow> claimable now e r \<longleftrightarrow> z_id r = z_id e"
proof -
  show iff: "claimable now e r \<longleftrightarrow> z_id r = z_id e" if "r \<in> set rows" for r
    using distinct_key_eq [OF assms(1) that assms(2)] assms(3) by (auto simp: claimable_def)
  have "cnt (claimable now e) rows = cnt (\<lambda>r. z_id r = z_id e \<and> True) rows" by (rule cnt_cong) (simp add: iff)
  also have "\<dots> = 1" using cnt_key_1_iff [OF assms(1), of "z_id e" "\<lambda>_. True"] assms(2) by blast
  finally show "cnt (claimable now e) rows = 1" .
qed

lemma deliver_published:
  assumes "distinct (map z_id rows)" and "e \<in> set rows" and "z_availableAt e \<le> now" and "deliverable e"
    and "z_attempts e < MAX_ATTEMPTS"
  shows "deliver now lease jobLast Accepted (z_id e) rows = upd (\<lambda>r. z_id r = z_id e) (published now) rows"
proof -
  have "find (\<lambda>r. z_id r = z_id e) rows = Some e" by (rule find_unique [OF assms(1,2) refl])
  moreover have "markPublished now (e\<lparr>z_lockedBy := Some lease\<rparr>) (beginDelivery now lease e rows)
      = upd (\<lambda>r. z_id r = z_id e) (published now) rows"
    unfolding markPublished_def beginDelivery_def upd_def list.map_comp comp_def
  proof (rule map_cong [OF refl])
    fix r assume "r \<in> set rows"
    then have "claimable now e r \<longleftrightarrow> z_id r = z_id e" by (rule claimable_once(2) [OF assms(1,2,3)])
    then show "(if holds (e\<lparr>z_lockedBy := Some lease\<rparr>) (if claimable now e r then lockRow Out_PROCESSING now lease r else r)
        then (unlockRow Out_PUBLISHED (if claimable now e r then lockRow Out_PROCESSING now lease r else r))\<lparr>z_publishedAt := Some now\<rparr>
        else (if claimable now e r then lockRow Out_PROCESSING now lease r else r)) =
        (if z_id r = z_id e then published now r else r)"
      by (simp add: holds_def published_def unlockRow_def lockRow_def)
  qed
  ultimately show ?thesis
    using assms(4,5) claimable_once(1) [OF assms(1,2,3)] by (simp add: deliver_def budgetSpent_def settle_def)
qed

lemma upd_upd_ids:
  assumes "\<And>r. f (f r) = f r" and "\<And>r. z_id (f r) = z_id r"
  shows "upd (\<lambda>r. z_id r \<in> B) f (upd (\<lambda>r. z_id r = a) f rows) = upd (\<lambda>r. z_id r = a \<or> z_id r \<in> B) f rows"
  using assms by (simp add: upd_def)

lemma dispatchLoop_published:
  assumes "distinct (map z_id rows)" and "distinct (map fst evs)"
    and "\<And>n. \<not> cy_stopping c n" "cy_queue c = None" "\<And>i. cy_answer c i = Accepted"
    and "\<forall>ev\<in>set evs. \<exists>e\<in>set rows. z_id e = fst ev \<and> z_availableAt e \<le> cy_now c \<and> deliverable e \<and> z_attempts e < MAX_ATTEMPTS"
  shows "dispatchLoop c n evs rows = ([], upd (\<lambda>r. z_id r \<in> fst ` set evs) (published (cy_now c)) rows)"
  using assms(1,2,6)
proof (induction evs arbitrary: n rows)
  case Nil
  show ?case by (simp add: upd_def)
next
  case (Cons ev evs)
  let ?f = "published (cy_now c)"
  let ?rows = "upd (\<lambda>r. z_id r = fst ev) ?f rows"
  obtain e where e: "e \<in> set rows" "z_id e = fst ev" "z_availableAt e \<le> cy_now c" "deliverable e" "z_attempts e < MAX_ATTEMPTS"
    using Cons.prems(3) by auto
  have one: "deliver (cy_now c) (cy_lease c + Suc n) False Accepted (fst ev) rows = ?rows"
    using deliver_published [OF Cons.prems(1) e(1,3,4,5)] e(2) by simp
  have keys: "map z_id ?rows = map z_id rows" by (rule map_key_upd) simp
  have "dispatchLoop c (Suc n) evs ?rows = ([], upd (\<lambda>r. z_id r \<in> fst ` set evs) ?f ?rows)"
  proof (rule Cons.IH)
    show "distinct (map z_id ?rows)" "distinct (map fst evs)" using Cons.prems keys by simp_all
    show "\<forall>ev\<in>set evs. \<exists>e\<in>set ?rows. z_id e = fst ev \<and> z_availableAt e \<le> cy_now c \<and> deliverable e \<and> z_attempts e < MAX_ATTEMPTS"
    proof
      fix x assume x: "x \<in> set evs"
      have "fst ev \<notin> fst ` set evs" using Cons.prems(2) by simp
      with x have "fst x \<noteq> fst ev" by (metis imageI)
      moreover obtain y where "y \<in> set rows" "z_id y = fst x" "z_availableAt y \<le> cy_now c" "deliverable y" "z_attempts y < MAX_ATTEMPTS"
        using Cons.prems(3) x by auto
      ultimately show "\<exists>e\<in>set ?rows. z_id e = fst x \<and> z_availableAt e \<le> cy_now c \<and> deliverable e \<and> z_attempts e < MAX_ATTEMPTS"
        by (intro bexI [of _ y]) (auto simp: set_upd image_iff)
    qed
  qed
  moreover have "upd (\<lambda>r. z_id r \<in> fst ` set evs) ?f ?rows = upd (\<lambda>r. z_id r \<in> fst ` set (ev # evs)) ?f rows"
    by (subst upd_upd_ids) (simp_all add: published_def unlockRow_def)
  ultimately show ?case using assms(3,4,5) one by simp
qed

lemma maintain_rows:
  assumes "distinct (map z_id rows)" and "\<forall>e\<in>set rows. z_lockedBy e \<noteq> Some l"
    and "\<forall>e\<in>set rows. z_status e \<noteq> Out_DEAD_LETTER \<longrightarrow> z_attempts e < MAX_ATTEMPTS"
  shows "distinct (map z_id (maintain c rows)) \<and> (\<forall>e\<in>set (maintain c rows). z_lockedBy e \<noteq> Some l) \<and>
    (\<forall>e\<in>set (maintain c rows). z_status e \<noteq> Out_DEAD_LETTER \<longrightarrow> z_attempts e < MAX_ATTEMPTS)"
proof -
  let ?P = "\<lambda>rows. distinct (map z_id rows) \<and> (\<forall>e\<in>set rows. z_lockedBy e \<noteq> Some l) \<and>
    (\<forall>e\<in>set rows. z_status e \<noteq> Out_DEAD_LETTER \<longrightarrow> z_attempts e < MAX_ATTEMPTS)"
  have rec: "?P (recoverAbandonedEvents now xs)" if "?P xs" for xs now
  proof -
    have "map z_id (recoverAbandonedEvents now xs) = map z_id xs"
      unfolding recoverAbandonedEvents_def by (rule map_key_upd) simp
    moreover have "\<forall>e\<in>set (recoverAbandonedEvents now xs). z_lockedBy e \<noteq> Some l \<and> (z_status e \<noteq> Out_DEAD_LETTER \<longrightarrow> z_attempts e < MAX_ATTEMPTS)"
      using that unfolding recoverAbandonedEvents_def ball_upd by (auto simp: unlockRow_def locked_def)
    ultimately show ?thesis using that by simp
  qed
  have del: "?P (purge now busy xs)" if "?P xs" for xs now busy
    using that by (auto simp: purge_def Let_def del_def distinct_map_filter)
  have P: "?P rows" using assms by blast
  show ?thesis
    unfolding maintain_def Let_def
    by (cases "RECOVERY_INTERVAL_MS \<le> cy_now c - cy_lastRecoveryAt c"; cases "HOUSEKEEPING_INTERVAL_MS \<le> cy_now c - cy_lastHousekeepingAt c")
       (simp_all only: if_True if_False, (rule P rec del)+)
qed

lemma claimed_events:
  assumes "distinct (map z_id rows)" and "\<forall>e\<in>set rows. z_lockedBy e \<noteq> Some l"
  shows "map fst (claimedBy l (claimBatch now l [] rows)) = map z_id (filter (\<lambda>e. z_id e \<in> set (claimCandidates now [] rows)) rows)"
proof -
  let ?C = "set (claimCandidates now [] rows)"
  have "map z_id (filter (\<lambda>e. z_lockedBy e = Some l) (upd (\<lambda>e. z_id e \<in> ?C) (lockRow Out_ENQUEUED now l) xs))
      = map z_id (filter (\<lambda>e. z_id e \<in> ?C) xs)" if "\<forall>e\<in>set xs. z_lockedBy e \<noteq> Some l" for xs
    using that by (induction xs) (auto simp: lockRow_def)
  from this [OF assms(2)] show ?thesis by (simp add: claimedBy_def claimBatch_def Let_def comp_def)
qed

text \<open>A dispatch cycle makes progress: without Redis, while the process is not stopping and the
  listeners accept, the cycle publishes exactly the fifty oldest due events and touches no other;
  when no more than fifty are due, none is left due.\<close>

theorem cycle_publishes_due:
  assumes "distinct (map z_id rows)" and "\<forall>e\<in>set rows. z_lockedBy e \<noteq> Some (cy_lease c)"
    and "\<forall>e\<in>set rows. z_status e \<noteq> Out_DEAD_LETTER \<longrightarrow> z_attempts e < MAX_ATTEMPTS"
    and "\<forall>n. \<not> cy_stopping c n" and "cy_queue c = None" and "\<forall>i. cy_answer c i = Accepted"
  shows "dispatchBatch c rows = upd (\<lambda>e. z_id e \<in> set (claimCandidates (cy_now c) [] (maintain c rows)))
      (published (cy_now c)) (maintain c rows) \<and>
    (length (filter (dueEvent (cy_now c)) (maintain c rows)) \<le> BATCH_SIZE \<longrightarrow>
      (\<forall>e\<in>set (dispatchBatch c rows). \<not> dueEvent (cy_now c) e))"
proof -
  let ?now = "cy_now c" and ?l = "cy_lease c" and ?m = "maintain c rows"
  let ?C = "set (claimCandidates ?now [] ?m)"
  let ?claimed = "claimBatch ?now ?l [] ?m"
  have m: "distinct (map z_id ?m)" "\<forall>e\<in>set ?m. z_lockedBy e \<noteq> Some ?l"
    "\<forall>e\<in>set ?m. z_status e \<noteq> Out_DEAD_LETTER \<longrightarrow> z_attempts e < MAX_ATTEMPTS"
    using maintain_rows [OF assms(1,2,3)] by blast+
  have cand: "dueEvent ?now e" if "e \<in> set ?m" "z_id e \<in> ?C" for e
    using candidate_pending [OF that(2)] distinct_key_eq [OF m(1)] that(1) by metis
  have keys: "map z_id ?claimed = map z_id ?m" unfolding claimBatch_def Let_def by (rule map_key_upd) simp
  have evs: "map fst (claimedBy ?l ?claimed) = map z_id (filter (\<lambda>e. z_id e \<in> ?C) ?m)" by (rule claimed_events [OF m(1,2)])
  have ids: "fst ` set (claimedBy ?l ?claimed) = {i \<in> z_id ` set ?m. i \<in> ?C}"
    unfolding set_map [symmetric] evs by auto
  have loop: "dispatchLoop c 0 (claimedBy ?l ?claimed) ?claimed =
      ([], upd (\<lambda>r. z_id r \<in> fst ` set (claimedBy ?l ?claimed)) (published ?now) ?claimed)"
  proof (rule dispatchLoop_published)
    show "distinct (map z_id ?claimed)" "distinct (map fst (claimedBy ?l ?claimed))"
      using m(1) by (simp_all add: keys evs distinct_map_filter)
    show "\<forall>ev\<in>set (claimedBy ?l ?claimed). \<exists>e\<in>set ?claimed. z_id e = fst ev \<and> z_availableAt e \<le> ?now \<and>
        deliverable e \<and> z_attempts e < MAX_ATTEMPTS"
    proof
      fix ev assume "ev \<in> set (claimedBy ?l ?claimed)"
      then have "fst ev \<in> {i \<in> z_id ` set ?m. i \<in> ?C}" unfolding ids [symmetric] by simp
      then obtain e where e: "e \<in> set ?m" "z_id e = fst ev" "z_id e \<in> ?C" by auto
      have due: "dueEvent ?now e" by (rule cand [OF e(1,3)])
      then have "z_attempts e < MAX_ATTEMPTS" using m(3) e(1) by (auto simp: dueEvent_def)
      then show "\<exists>e\<in>set ?claimed. z_id e = fst ev \<and> z_availableAt e \<le> ?now \<and> deliverable e \<and> z_attempts e < MAX_ATTEMPTS"
        using e due
        by (intro bexI [of _ "lockRow Out_ENQUEUED ?now ?l e"])
           (auto simp: claimBatch_def Let_def set_upd image_iff lockRow_def deliverable_def dueEvent_def)
    qed
  qed (use assms(4-6) in simp_all)
  have "upd (\<lambda>r. z_id r \<in> fst ` set (claimedBy ?l ?claimed)) (published ?now) ?claimed = upd (\<lambda>e. z_id e \<in> ?C) (published ?now) ?m"
  proof -
    have "upd (\<lambda>r. z_id r \<in> fst ` set (claimedBy ?l ?claimed)) (published ?now) ?claimed
        = upd (\<lambda>r. z_id r \<in> {i \<in> z_id ` set ?m. i \<in> ?C}) (published ?now) (upd (\<lambda>e. z_id e \<in> ?C) (lockRow Out_ENQUEUED ?now ?l) ?m)"
      unfolding ids by (simp only: claimBatch_def Let_def)
    also have "\<dots> = upd (\<lambda>e. z_id e \<in> ?C) (published ?now) ?m"
      unfolding upd_def list.map_comp comp_def
      by (rule map_cong [OF refl]) (auto simp: published_def unlockRow_def lockRow_def)
    finally show ?thesis .
  qed
  then have res: "dispatchBatch c rows = upd (\<lambda>e. z_id e \<in> ?C) (published ?now) ?m"
    using loop assms(4) by (simp add: dispatchBatch_def Let_def)
  moreover have "\<not> dueEvent ?now e" if few: "length (filter (dueEvent ?now) ?m) \<le> BATCH_SIZE" and e: "e \<in> set (dispatchBatch c rows)" for e
  proof
    assume due: "dueEvent ?now e"
    from e obtain r where r: "r \<in> set ?m" "e = (if z_id r \<in> ?C then published ?now r else r)" unfolding res by (rule mem_updE)
    then have "z_id r \<notin> ?C" "e = r" using due by (auto simp: published_def dueEvent_def split: if_splits)
    moreover have "claimCandidates ?now [] ?m = map z_id (sort_key z_id (filter (dueEvent ?now) ?m))"
      using few by (simp add: claimCandidates_def)
    ultimately show False using r(1) due by simp
  qed
  ultimately show ?thesis by blast
qed

definition sampleCycle :: cycle where
  "sampleCycle = \<lparr>cy_now = 10, cy_lastRecoveryAt = 0, cy_lastHousekeepingAt = 0, cy_lease = 3, cy_stopping = (\<lambda>n. False),
     cy_queue = None, cy_answer = (\<lambda>i. Accepted)\<rparr>"

theorem cycle_publishes_due_witness:
  "map z_status (dispatchBatch sampleCycle [sampleEvent 1 0, sampleEvent 2 99]) = [Out_PUBLISHED, Out_PENDING]"
proof -
  let ?rows = "[sampleEvent 1 0, sampleEvent 2 99]"
  have "dispatchBatch sampleCycle ?rows = upd (\<lambda>e. z_id e \<in> set (claimCandidates (cy_now sampleCycle) [] (maintain sampleCycle ?rows)))
      (published (cy_now sampleCycle)) (maintain sampleCycle ?rows)"
    using cycle_publishes_due [of ?rows sampleCycle] by (simp add: sampleCycle_def sampleEvent_def MAX_ATTEMPTS_def)
  then show ?thesis
    by (simp add: sampleCycle_def maintain_def outbox_consts claimCandidates_def published_def outbox_eval)
qed

end
