(* ===== verification/Transactions.thy ===== *)
theory Transactions
  imports Db_Core
begin

text \<open>
  \<open>runSerializableTransaction\<close> (\<open>src/common/prisma/transaction.util.ts\<close>): a transaction is
  tried again when the database reports a serialization conflict (or, if asked, a unique
  violation), at most \<open>maxRetries\<close> times. What an attempt meets is up to the database and the
  other transactions, so the outcome of attempt \<open>n\<close> is a parameter. Also \<open>PaginationUtilService\<close>.
\<close>

section \<open>Retried transactions\<close>

text \<open>
  P2034 is Prisma's write conflict, P2010 a failed raw query with PostgreSQL's own code, P2002 a
  unique violation; anything else (an exception of the callback included) is \<open>Rejected\<close>.
\<close>

datatype txFailure = P2034 | P2010 string | P2002 | Rejected error

definition isRetryableError :: "txFailure \<Rightarrow> bool \<Rightarrow> bool" where
  "isRetryableError err retryUnique =
     (case err of
        P2034 \<Rightarrow> True
      | P2010 code \<Rightarrow> code = ''40001'' \<or> code = ''40P01''
      | P2002 \<Rightarrow> retryUnique
      | Rejected _ \<Rightarrow> False)"

text \<open>
  The loop \<open>for (attempt = 1; attempt <= maxRetries; attempt++)\<close>; the result carries the number
  of attempts made. The exception after the loop is reached only when there is no attempt at all.
\<close>

function runAttempts ::
  "nat \<Rightarrow> bool \<Rightarrow> (nat \<Rightarrow> txFailure + 'a) \<Rightarrow> nat \<Rightarrow> (txFailure + 'a) \<times> nat"
where
  "runAttempts maxRetries retryUnique outcome attempt =
     (if maxRetries < attempt then (Inl (Rejected (Conflict ''transaction failed'')), attempt - 1)
      else case outcome attempt of
        Inr x \<Rightarrow> (Inr x, attempt)
      | Inl err \<Rightarrow>
          if isRetryableError err retryUnique \<and> attempt < maxRetries
          then runAttempts maxRetries retryUnique outcome (attempt + 1)
          else (Inl err, attempt))"
  by pat_completeness auto
termination
  by (relation "measure (\<lambda>(m, u, f, a). Suc m - a)") auto

declare runAttempts.simps [simp del]

definition runSerializableTransaction ::
  "nat \<Rightarrow> bool \<Rightarrow> (nat \<Rightarrow> txFailure + 'a) \<Rightarrow> (txFailure + 'a) \<times> nat"
where
  "runSerializableTransaction maxRetries retryUnique outcome = runAttempts maxRetries retryUnique outcome 1"

definition transient :: "bool \<Rightarrow> txFailure + 'a \<Rightarrow> bool" where
  "transient retryUnique r = (case r of Inl err \<Rightarrow> isRetryableError err retryUnique | Inr _ \<Rightarrow> False)"

lemma runAttempts_last:
  assumes "1 \<le> a" and "a \<le> m" and "runAttempts m u f a = (r, n)"
  shows "a \<le> n \<and> n \<le> m \<and> r = f n \<and> (\<forall>k. a \<le> k \<and> k < n \<longrightarrow> transient u (f k)) \<and> (n = m \<or> \<not> transient u (f n))"
  using assms
proof (induction "m - a" arbitrary: a)
  case 0
  then show ?case by (subst (asm) runAttempts.simps) (auto split: sum.splits)
next
  case (Suc j)
  show ?case
  proof (cases "transient u (f a)")
    case True
    then have next_try: "runAttempts m u f (Suc a) = (r, n)"
      using Suc.hyps(2) Suc.prems
      by (cases "a < m"; subst (asm) runAttempts.simps) (auto simp: transient_def split: sum.splits)
    have "Suc a \<le> n \<and> n \<le> m \<and> r = f n \<and> (\<forall>k. Suc a \<le> k \<and> k < n \<longrightarrow> transient u (f k)) \<and> (n = m \<or> \<not> transient u (f n))"
      by (rule Suc.hyps(1)) (use Suc.hyps(2) Suc.prems next_try in auto)
    moreover from this True have "\<forall>k. a \<le> k \<and> k < n \<longrightarrow> transient u (f k)" by (metis Suc_leI le_neq_implies_less)
    ultimately show ?thesis by auto
  next
    case False
    then have "n = a \<and> r = f a"
      using Suc.prems by (subst (asm) runAttempts.simps) (auto simp: transient_def split: sum.splits)
    then show ?thesis using False Suc.prems by auto
  qed
qed

text \<open>C40: A transaction is attempted at most \<open>maxRetries\<close> times; the caller gets the outcome of the
  last attempt, every attempt before it failed with an error worth retrying, and it is the last
  one because it was not worth retrying or no attempt was left. In particular the first commit
  ends the loop, so the callback never commits twice.\<close>

theorem transaction_attempts:
  assumes "1 \<le> maxRetries" and "runSerializableTransaction maxRetries retryUnique outcome = (r, n)"
  shows "1 \<le> n \<and> n \<le> maxRetries \<and> r = outcome n \<and>
    (\<forall>k. 1 \<le> k \<and> k < n \<longrightarrow> transient retryUnique (outcome k)) \<and>
    (n = maxRetries \<or> \<not> transient retryUnique (outcome n))"
  using runAttempts_last [of 1 maxRetries retryUnique outcome r n] assms
  by (simp add: runSerializableTransaction_def)

definition flaky :: "nat \<Rightarrow> txFailure + nat" where
  "flaky k = (if k = 1 then Inl P2034 else if k = 2 then Inl (P2010 ''40P01'') else Inr k)"

theorem transaction_attempts_witness:
  "fst (runSerializableTransaction 3 False flaky) = flaky 3 \<and> transient False (flaky 1) \<and> transient False (flaky 2)"
proof -
  have r: "runSerializableTransaction 3 False flaky = (Inr 3, 3)"
    by (simp add: runSerializableTransaction_def runAttempts.simps flaky_def isRetryableError_def)
  show ?thesis using transaction_attempts [OF _ r] r by simp
qed

section \<open>Pages of a list\<close>

text \<open>\<open>skip\<close> rows are dropped and at most \<open>itemPerPage\<close> taken; \<open>Math.ceil\<close> gives the page count.\<close>

definition pagingSkip :: "int \<Rightarrow> int \<Rightarrow> int" where
  "pagingSkip page itemPerPage = max ((page - 1) * itemPerPage) 0"

definition totalPages :: "nat \<Rightarrow> nat \<Rightarrow> nat" where
  "totalPages totalItems itemPerPage = (totalItems + itemPerPage - 1) div itemPerPage"

definition pageOf :: "nat \<Rightarrow> nat \<Rightarrow> 'r list \<Rightarrow> 'r list" where
  "pageOf page itemPerPage rows = take itemPerPage (drop (nat (pagingSkip (int page) (int itemPerPage))) rows)"

lemma pageOf_skip: "pageOf (Suc p) n rows = take n (drop (p * n) rows)"
  by (simp add: pageOf_def pagingSkip_def nat_mult_distrib)

lemma pages_prefix: "concat (map (\<lambda>p. pageOf (Suc p) n rows) [0..<k]) = take (k * n) rows"
proof (induction k)
  case (Suc k)
  have "take (Suc k * n) rows = take (k * n) rows @ take n (drop (k * n) rows)"
    by (simp add: take_add [symmetric] add.commute)
  then show ?case using Suc by (simp add: pageOf_skip)
qed simp

text \<open>Paging loses and repeats nothing: the pages of a list, from the first to \<open>totalPages\<close>,
  put together are the list, whatever the page size.\<close>

theorem pages_cover:
  assumes "0 < itemPerPage"
  shows "concat (map (\<lambda>p. pageOf (Suc p) itemPerPage rows) [0..<totalPages (length rows) itemPerPage]) = rows"
proof -
  have "length rows \<le> totalPages (length rows) itemPerPage * itemPerPage"
    using assms div_mult_mod_eq [of "length rows + itemPerPage - 1" itemPerPage]
      mod_less_divisor [OF assms, of "length rows + itemPerPage - 1"]
    unfolding totalPages_def by linarith
  then show ?thesis by (simp add: pages_prefix)
qed

theorem pages_cover_witness:
  "concat (map (\<lambda>p. pageOf (Suc p) 2 [7, 8, 9 :: nat]) [0..<totalPages 3 2]) = [7, 8, 9] \<and> totalPages 3 2 = 2"
proof -
  have len: "length [7, 8, 9 :: nat] = 3" and "totalPages 3 2 = 2" by (simp_all add: totalPages_def)
  moreover have "concat (map (\<lambda>p. pageOf (Suc p) 2 [7, 8, 9 :: nat]) [0..<totalPages 3 2]) = [7, 8, 9]"
    by (rule pages_cover [of 2 "[7, 8, 9 :: nat]", unfolded len]) simp
  ultimately show ?thesis by (intro conjI)
qed

end
