(* ===== verification/Promotions.thy ===== *)
theory Promotions
  imports Transactions
begin

text \<open>
  Promotions (\<open>src/app/promotions/\<close>): the policy, the discount calculator, the life cycle of a
  promotion and the filter of the search. Request values are rationals; the policy keeps four
  decimal places (integers in ten-thousandths), the columns keep two, so writing a row rounds
  again. Comparing names is left to the database's collation, the parameter \<open>sameName\<close>.
\<close>

section \<open>Policy\<close>

definition toPositiveDecimal :: "rat \<Rightarrow> int res" where
  "toPositiveDecimal x =
     (let d = to_dp 4 x in require (0 < d) (BadRequest ''must be greater than 0'') (Inr d))"

definition toNonNegativeDecimal :: "rat \<Rightarrow> int res" where
  "toNonNegativeDecimal x =
     (let d = to_dp 4 x in require (0 \<le> d) (BadRequest ''must not be negative'') (Inr d))"

definition assertPromotionEmployee :: "id \<Rightarrow> db \<Rightarrow> 'a res \<Rightarrow> 'a res" where
  "assertPromotionEmployee emp d k = require (activeEmployee emp d) (BadRequest ''employee'') k"

definition assertDateRangeValid :: "time \<Rightarrow> time \<Rightarrow> 'a res \<Rightarrow> 'a res" where
  "assertDateRangeValid startDate endDate k = require (startDate < endDate) (BadRequest ''date range'') k"

text \<open>Terms of a promotion before they are stored, in ten-thousandths.\<close>

record promotionInput =
  in_name :: string
  in_startDate :: time
  in_endDate :: time
  in_discountType :: DiscountType
  in_discountValue :: int
  in_maxDiscount :: "int option"

definition assertDiscountValueValid :: "promotionInput \<Rightarrow> 'a res \<Rightarrow> 'a res" where
  "assertDiscountValueValid p k =
     require (\<not> (in_discountType p = Discount_PERCENTAGE \<and> 1000000 < in_discountValue p)) (BadRequest ''percentage'')
     (require (0 < in_discountValue p) (BadRequest ''discount value'')
     (require (case in_maxDiscount p of None \<Rightarrow> True | Some m \<Rightarrow> 0 < m) (BadRequest ''max discount'') k))"

definition assertPromotionCanBeApplied :: "promotion \<Rightarrow> time \<Rightarrow> 'a res \<Rightarrow> 'a res" where
  "assertPromotionCanBeApplied p instant k =
     require (p_deletedAt p = None) (BadRequest ''promotion deleted'')
     (require (p_startDate p \<le> instant) (BadRequest ''promotion not active yet'')
     (require (instant < p_endDate p) (BadRequest ''promotion expired'') k))"

text \<open>Stored values are in hundredths; the comparison is between decimals.\<close>

definition assertFinancialFieldsNotChangedWhenUsed :: "nat \<Rightarrow> promotion \<Rightarrow> promotionInput \<Rightarrow> 'a res \<Rightarrow> 'a res" where
  "assertFinancialFieldsNotChangedWhenUsed used before after k =
     require (used = 0 \<or> (p_discountType before = in_discountType after \<and>
         p_discountValue before * 100 = in_discountValue after \<and>
         map_option (\<lambda>m. m * 100) (p_maxDiscount before) = in_maxDiscount after))
       (Conflict ''promotion used by invoices'') k"

section \<open>The discount of a promotion\<close>

text \<open>
  The sub total is a decimal of the caller, the stored terms are in hundredths; the products are
  exact and \<open>toDecimalPlaces(2)\<close> rounds the minimum.
\<close>

definition rawDiscount :: "rat \<Rightarrow> DiscountType \<Rightarrow> int \<Rightarrow> rat" where
  "rawDiscount subTotal discountType discountValue =
     (if discountType = Discount_PERCENTAGE then subTotal * (rat_of_int discountValue / 100) / 100
      else rat_of_int discountValue / 100)"

definition calculateDiscountAmount :: "rat \<Rightarrow> DiscountType \<Rightarrow> int \<Rightarrow> money option \<Rightarrow> money res" where
  "calculateDiscountAmount subTotal discountType discountValue maxDiscount =
     require (0 \<le> subTotal) (BadRequest ''sub total negative'')
     (let raw = rawDiscount subTotal discountType discountValue;
          cappedByPromotion = (case maxDiscount of None \<Rightarrow> raw | Some m \<Rightarrow> min raw (rat_of_int m / 100));
          discountAmount = to_dp 2 (min cappedByPromotion subTotal)
      in require (0 \<le> discountAmount) (BadRequest ''discount negative'')
        (require (rat_of_int discountAmount / 100 \<le> subTotal) (BadRequest ''discount exceeds sub total'')
          (Inr discountAmount)))"

definition findPromotion :: "db \<Rightarrow> id \<Rightarrow> promotion option" where
  "findPromotion d i = find (\<lambda>p. p_id p = i) (promotions d)"

definition calculateDiscountTx :: "id \<Rightarrow> rat \<Rightarrow> time \<Rightarrow> db \<Rightarrow> money res" where
  "calculateDiscountTx promotionId subTotal instant d =
     andThen (toNonNegativeDecimal subTotal) (\<lambda>resolved.
     fetch (findPromotion d promotionId) (NotFound ''promotion'') (\<lambda>p.
     assertPromotionCanBeApplied p instant
       (calculateDiscountAmount (rat_of_int resolved / 10000) (p_discountType p) (p_discountValue p) (p_maxDiscount p))))"

section \<open>Life cycle\<close>

record createPromotionDto =
  cp_name :: string
  cp_startDate :: time
  cp_endDate :: time
  cp_discountType :: DiscountType
  cp_discountValue :: rat
  cp_maxDiscount :: "rat option"

definition optPositive :: "rat option \<Rightarrow> int option res" where
  "optPositive x = (case x of None \<Rightarrow> Inr None | Some v \<Rightarrow> andThen (toPositiveDecimal v) (\<lambda>m. Inr (Some m)))"

definition normalizeInput :: "createPromotionDto \<Rightarrow> promotionInput res" where
  "normalizeInput dto =
     andThen (toPositiveDecimal (cp_discountValue dto)) (\<lambda>v.
     andThen (optPositive (cp_maxDiscount dto)) (\<lambda>m.
     Inr \<lparr>in_name = cp_name dto, in_startDate = cp_startDate dto, in_endDate = cp_endDate dto,
       in_discountType = cp_discountType dto, in_discountValue = v, in_maxDiscount = m\<rparr>))"

definition ensureNameAvailable :: "(string \<Rightarrow> string \<Rightarrow> bool) \<Rightarrow> string \<Rightarrow> id option \<Rightarrow> db \<Rightarrow> 'a res \<Rightarrow> 'a res" where
  "ensureNameAvailable sameName name excludeId d k =
     require (\<forall>p\<in>set (promotions d). \<not> (sameName (p_name p) name \<and> p_deletedAt p = None \<and> excludeId \<noteq> Some (p_id p)))
       (Conflict ''promotion name exists'') k"

text \<open>
  PostgreSQL rounds a value to the column's scale and rejects what does not fit the precision; the
  checks of the table want a positive value and cap, and at most 100 per cent.
\<close>

definition columnMoney :: "int \<Rightarrow> money" where
  "columnMoney v = round_div v 100"

definition fitsMoney :: "money \<Rightarrow> bool" where
  "fitsMoney m \<longleftrightarrow> \<bar>m\<bar> < 10 ^ 18"

definition fitsColumns :: "promotionInput \<Rightarrow> bool" where
  "fitsColumns i \<longleftrightarrow> fitsMoney (columnMoney (in_discountValue i)) \<and> 0 < columnMoney (in_discountValue i) \<and>
     (in_discountType i = Discount_PERCENTAGE \<longrightarrow> columnMoney (in_discountValue i) \<le> 10000) \<and>
     (case in_maxDiscount i of None \<Rightarrow> True | Some m \<Rightarrow> fitsMoney (columnMoney m) \<and> 0 < columnMoney m)"

definition storeTerms :: "promotionInput \<Rightarrow> time \<Rightarrow> promotion \<Rightarrow> promotion" where
  "storeTerms i now p =
     p\<lparr>p_name := in_name i, p_startDate := in_startDate i, p_endDate := in_endDate i,
       p_discountType := in_discountType i, p_discountValue := columnMoney (in_discountValue i),
       p_maxDiscount := map_option columnMoney (in_maxDiscount i), p_updatedAt := now\<rparr>"

definition createPromotion :: "(string \<Rightarrow> string \<Rightarrow> bool) \<Rightarrow> id \<Rightarrow> createPromotionDto \<Rightarrow> time \<Rightarrow> db \<Rightarrow> (id \<times> db) res" where
  "createPromotion sameName emp dto now d =
     andThen (normalizeInput dto) (\<lambda>input.
     assertDateRangeValid (in_startDate input) (in_endDate input)
     (assertDiscountValueValid input
     (assertPromotionEmployee emp d
     (ensureNameAvailable sameName (in_name input) None d
     (require (fitsColumns input) (Conflict ''check promotion'')
       (let p = storeTerms input now \<lparr>p_id = nextId d, p_name = [], p_show = False, p_description = None,
              p_updatedAt = now, p_discountType = Discount_FIXED, p_discountValue = 0, p_maxDiscount = None,
              p_startDate = 0, p_endDate = 0, p_deletedAt = None\<rparr>
        in Inr (nextId d, addLog emp ''PROMOTION_CREATED'' (nextId d)
             (d\<lparr>nextId := Suc (nextId d), promotions := promotions d @ [p]\<rparr>))))))))"

definition setPromotion :: "id \<Rightarrow> (promotion \<Rightarrow> promotion) \<Rightarrow> db \<Rightarrow> db" where
  "setPromotion i f d = d\<lparr>promotions := upd (\<lambda>p. p_id p = i) f (promotions d)\<rparr>"

record updatePromotionDto =
  up_name :: "string option"
  up_startDate :: "time option"
  up_endDate :: "time option"
  up_discountType :: "DiscountType option"
  up_discountValue :: "rat option"
  up_maxDiscount :: "rat option option"

definition orElse :: "'a option \<Rightarrow> 'a \<Rightarrow> 'a" where
  "orElse x y = (case x of None \<Rightarrow> y | Some a \<Rightarrow> a)"

definition mergePromotionInput :: "promotion \<Rightarrow> updatePromotionDto \<Rightarrow> promotionInput res" where
  "mergePromotionInput p dto =
     andThen (case up_discountValue dto of None \<Rightarrow> Inr (p_discountValue p * 100) | Some v \<Rightarrow> toPositiveDecimal v) (\<lambda>v.
     andThen (case up_maxDiscount dto of None \<Rightarrow> Inr (map_option (\<lambda>m. m * 100) (p_maxDiscount p))
        | Some x \<Rightarrow> optPositive x) (\<lambda>m.
     Inr \<lparr>in_name = orElse (up_name dto) (p_name p), in_startDate = orElse (up_startDate dto) (p_startDate p),
       in_endDate = orElse (up_endDate dto) (p_endDate p),
       in_discountType = orElse (up_discountType dto) (p_discountType p),
       in_discountValue = v, in_maxDiscount = m\<rparr>))"

definition findActivePromotion :: "db \<Rightarrow> id \<Rightarrow> promotion option" where
  "findActivePromotion d i = find (\<lambda>p. p_id p = i \<and> p_deletedAt p = None) (promotions d)"

definition countInvoicesUsingPromotion :: "id \<Rightarrow> db \<Rightarrow> nat" where
  "countInvoicesUsingPromotion i d = cnt (\<lambda>v. v_promotionId v = Some i) (invoices d)"

definition updatePromotion :: "(string \<Rightarrow> string \<Rightarrow> bool) \<Rightarrow> id \<Rightarrow> id \<Rightarrow> updatePromotionDto \<Rightarrow> time \<Rightarrow> db \<Rightarrow> db res" where
  "updatePromotion sameName i emp dto now d =
     assertPromotionEmployee emp d
     (fetch (findActivePromotion d i) (NotFound ''promotion'') (\<lambda>p.
      andThen (mergePromotionInput p dto) (\<lambda>nxt.
      assertDateRangeValid (in_startDate nxt) (in_endDate nxt)
      (assertDiscountValueValid nxt
      (assertFinancialFieldsNotChangedWhenUsed (countInvoicesUsingPromotion i d) p nxt
      ((if up_name dto \<noteq> None \<and> up_name dto \<noteq> Some [] \<and> up_name dto \<noteq> Some (p_name p)
        then ensureNameAvailable sameName (in_name nxt) (Some i) d else (\<lambda>k. k))
       (require (fitsColumns nxt) (Conflict ''check promotion'')
         (Inr (addLog emp ''PROMOTION_UPDATED'' i (setPromotion i (storeTerms nxt now) d))))))))))"

definition updateStorefront :: "id \<Rightarrow> id \<Rightarrow> bool \<Rightarrow> string option \<Rightarrow> time \<Rightarrow> time \<Rightarrow> db \<Rightarrow> db res" where
  "updateStorefront i emp showIt description expected now d =
     assertPromotionEmployee emp d
     (fetch (findActivePromotion d i) (NotFound ''promotion'') (\<lambda>p.
      require (\<not> (showIt \<and> p_endDate p \<le> now)) (Conflict ''PROMOTION_EXPIRED'')
      (let g = (\<lambda>r. p_id r = i \<and> p_deletedAt r = None \<and> p_updatedAt r = expected) in
       require (cnt g (promotions d) = 1) (Conflict ''PROMOTION_STOREFRONT_CHANGED'')
         (Inr (addLog emp ''PROMOTION_STOREFRONT_UPDATED'' i
           (d\<lparr>promotions := upd g (\<lambda>r. r\<lparr>p_show := showIt, p_description := description,
              p_updatedAt := max now (expected + 1)\<rparr>) (promotions d)\<rparr>))))))"

definition removePromotion :: "id \<Rightarrow> id \<Rightarrow> time \<Rightarrow> db \<Rightarrow> db res" where
  "removePromotion i emp now d =
     assertPromotionEmployee emp d
     (fetch (findPromotion d i) (BadRequest ''promotion not found'') (\<lambda>p.
      require (p_deletedAt p = None) (Conflict ''promotion already deleted'')
        (Inr (addLog emp ''PROMOTION_DELETED'' i
          (setPromotion i (\<lambda>r. r\<lparr>p_deletedAt := Some now, p_show := False, p_updatedAt := now\<rparr>) d)))))"

definition restorePromotion :: "(string \<Rightarrow> string \<Rightarrow> bool) \<Rightarrow> id \<Rightarrow> id \<Rightarrow> time \<Rightarrow> db \<Rightarrow> db res" where
  "restorePromotion sameName i emp now d =
     assertPromotionEmployee emp d
     (fetch (findPromotion d i) (BadRequest ''promotion not found'') (\<lambda>p.
      require (p_deletedAt p \<noteq> None) (Conflict ''promotion not deleted'')
      (assertDateRangeValid (p_startDate p) (p_endDate p)
      (ensureNameAvailable sameName (p_name p) (Some i) d
        (Inr (addLog emp ''PROMOTION_RESTORED'' i (setPromotion i (\<lambda>r. r\<lparr>p_deletedAt := None, p_updatedAt := now\<rparr>) d)))))))"

section \<open>Searching\<close>

datatype PromotionStatus = Promo_ACTIVE | Promo_UPCOMING | Promo_EXPIRED | Promo_DELETED

definition resolveStatus :: "promotion \<Rightarrow> time \<Rightarrow> PromotionStatus" where
  "resolveStatus p now =
     (if p_deletedAt p \<noteq> None then Promo_DELETED
      else if now < p_startDate p then Promo_UPCOMING
      else if p_endDate p \<le> now then Promo_EXPIRED
      else Promo_ACTIVE)"

text \<open>The status part of \<open>buildSearchWhere\<close>; \<open>now\<close> is \<open>validAt\<close> where it is given.\<close>

definition searchWhere :: "PromotionStatus option \<Rightarrow> time option \<Rightarrow> bool \<Rightarrow> time \<Rightarrow> promotion \<Rightarrow> bool" where
  "searchWhere status validAt includeDeleted now p =
     (if status = Some Promo_DELETED then p_deletedAt p \<noteq> None
      else if status = Some Promo_ACTIVE \<or> validAt \<noteq> None
      then (let instant = orElse validAt now in p_deletedAt p = None \<and> p_startDate p \<le> instant \<and> instant < p_endDate p)
      else if status = Some Promo_UPCOMING then p_deletedAt p = None \<and> now < p_startDate p
      else if status = Some Promo_EXPIRED then p_deletedAt p = None \<and> p_endDate p \<le> now
      else if includeDeleted then True
      else p_deletedAt p = None)"

definition searchPromotions :: "PromotionStatus option \<Rightarrow> time option \<Rightarrow> bool \<Rightarrow> time \<Rightarrow> db \<Rightarrow> (promotion \<times> PromotionStatus) list" where
  "searchPromotions status validAt includeDeleted clock d =
     (let now = orElse validAt clock in
      map (\<lambda>p. (p, resolveStatus p now)) (filter (searchWhere status validAt includeDeleted now) (promotions d)))"

text \<open>\<open>findActive\<close>: the promotions valid at an instant, with the discount each would give.\<close>

definition findActivePromotions :: "time \<Rightarrow> rat option \<Rightarrow> db \<Rightarrow> (promotion \<times> money option) list res" where
  "findActivePromotions instant subTotal d =
     mapM (\<lambda>p. case subTotal of None \<Rightarrow> Inr (p, None)
         | Some s \<Rightarrow> andThen (calculateDiscountAmount s (p_discountType p) (p_discountValue p) (p_maxDiscount p))
             (\<lambda>a. Inr (p, Some a)))
       (filter (\<lambda>p. p_deletedAt p = None \<and> p_startDate p \<le> instant \<and> instant < p_endDate p) (promotions d))"

end
