(* ===== verification/Cashier.thy ===== *)
theory Cashier
  imports Orders Promotions
begin

text \<open>
  \<open>CashierShiftsService\<close> (\<open>src/app/cashier-shifts/cashier-shifts.service.ts\<close>): opening and
  closing a shift on a cash fund, cash movements, expense requests that a second employee
  approves, and the reconciliation of a shift. Commands run under the idempotency service; here
  is the transaction each of them runs.
\<close>

section \<open>Posting a movement\<close>

text \<open>The two guarded updates of \<open>postMovement\<close>; an expense needs the balance.\<close>

definition movementGuard :: "CashFlowType \<Rightarrow> id \<Rightarrow> money \<Rightarrow> fund \<Rightarrow> bool" where
  "movementGuard ty fid amt f \<longleftrightarrow>
     f_id f = fid \<and> f_deletedAt f = None \<and> (ty = Flow_EXPENSE \<longrightarrow> amt \<le> f_balance f)"

definition flowSign :: "CashFlowType \<Rightarrow> money \<Rightarrow> money" where
  "flowSign ty amt = (case ty of Flow_INCOME \<Rightarrow> amt | Flow_EXPENSE \<Rightarrow> - amt)"

definition postMovement :: "id \<times> id \<Rightarrow> id \<Rightarrow> CashFlowType \<Rightarrow> money \<Rightarrow> db \<Rightarrow> (id \<times> db) res" where
  "postMovement shift emp ty amt d =
     (let g = movementGuard ty (snd shift) amt in
      require (cnt g (funds d) = 1) (Conflict ''insufficient fund balance'')
      (andThen (createCashTx \<lparr>k_id = 0, k_type = ty, k_amount = amt, k_fundId = snd shift, k_employeeId = emp,
          k_shiftId = Some (fst shift), k_invoiceId = None\<rparr>
          (d\<lparr>funds := upd g (addBalance (flowSign ty amt)) (funds d)\<rparr>)) (\<lambda>d'. Inr (nextId d, d'))))"

section \<open>Settings\<close>

definition EXPENSE_APPROVAL_THRESHOLD :: string where
  "EXPENSE_APPROVAL_THRESHOLD = ''cash.expense_approval_threshold''"

definition SHIFT_DISCREPANCY_NOTE_THRESHOLD :: string where
  "SHIFT_DISCREPANCY_NOTE_THRESHOLD = ''cash.shift_discrepancy_note_threshold''"

definition findSetting :: "string \<Rightarrow> db \<Rightarrow> rat option" where
  "findSetting key d = map_option g_value (find (\<lambda>s. g_key s = key) (settings d))"

definition getCashControlThreshold :: "string \<Rightarrow> db \<Rightarrow> rat" where
  "getCashControlThreshold key d = (case findSetting key d of None \<Rightarrow> 0 | Some v \<Rightarrow> if 0 \<le> v then v else 0)"

definition reaches :: "money \<Rightarrow> rat \<Rightarrow> bool" where
  "reaches amt threshold \<longleftrightarrow> threshold \<le> rat_of_int amt / 100"

section \<open>Opening a shift\<close>

text \<open>
  The partial unique indexes allow one open shift per employee and per fund; the service turns
  the violation into a conflict.
\<close>

definition insertShift :: "cashierShift \<Rightarrow> db \<Rightarrow> (id \<times> db) res" where
  "insertShift c d =
     require (\<forall>r\<in>set (cashierShifts d). c_status r = Shift_OPEN \<longrightarrow>
         c_employeeId r \<noteq> c_employeeId c \<and> (c_fundId c = None \<or> c_fundId r \<noteq> c_fundId c))
       (Conflict ''already an open shift'')
     (require (0 \<le> c_startingCash c \<and> 0 \<le> c_expectedStartingCash c) (Conflict ''check cash'')
       (Inr (nextId d, d\<lparr>nextId := Suc (nextId d), cashierShifts := cashierShifts d @ [c\<lparr>c_id := nextId d\<rparr>]\<rparr>)))"

definition openShift :: "id \<Rightarrow> id \<Rightarrow> money \<Rightarrow> db \<Rightarrow> (id \<times> db) res" where
  "openShift emp fid startingCash d =
     require (activeEmployee emp d) (Unauthorized ''employee'')
     (fetch (find (\<lambda>f. f_id f = fid \<and> f_deletedAt f = None) (funds d)) (NotFound ''fund'') (\<lambda>f.
      require (f_type f = Fund_CASH) (Conflict ''shifts require a CASH fund'')
      (require (\<forall>h\<in>set (cashHandovers d). \<not> (d_sourceFundId h = fid \<and> d_status h = Req_PENDING))
         (Conflict ''pending cash handover'')
      (andThen (insertShift \<lparr>c_id = 0, c_status = Shift_OPEN, c_employeeId = emp, c_fundId = Some fid,
          c_startingCash = startingCash, c_expectedStartingCash = f_balance f,
          c_openingDifference = startingCash - f_balance f, c_reportedEndingCash = None,
          c_actualEndingCash = None, c_closingNote = None, c_closedAt = None\<rparr> d) (\<lambda>cd.
       Inr (fst cd, addLog emp ''CASHIER_SHIFT_OPENED'' (fst cd) (snd cd)))))))"

section \<open>Movements and expense requests\<close>

definition insertExpenseRequest :: "expenseRequest \<Rightarrow> db \<Rightarrow> (id \<times> db) res" where
  "insertExpenseRequest q d =
     require (0 < q_amount q) (Conflict ''check amount'')
       (Inr (nextId d, d\<lparr>nextId := Suc (nextId d), expenseRequests := expenseRequests d @ [q\<lparr>q_id := nextId d\<rparr>]\<rparr>))"

text \<open>An expense that reaches the threshold only becomes a request.\<close>

definition addMovement :: "id \<Rightarrow> id \<Rightarrow> CashFlowType \<Rightarrow> money \<Rightarrow> string \<Rightarrow> db \<Rightarrow> db res" where
  "addMovement emp expectedShift ty amt description d =
     assertActiveEmployee emp d
     (andThen (requireOpenShift emp d) (\<lambda>shift.
      require (fst shift = expectedShift) (Conflict ''CASHIER_SHIFT_CHANGED'')
      (if ty = Flow_EXPENSE \<and> reaches amt (getCashControlThreshold EXPENSE_APPROVAL_THRESHOLD d)
       then andThen (insertExpenseRequest \<lparr>q_id = 0, q_status = Req_PENDING, q_amount = amt, q_description = description,
               q_requestedById = emp, q_shiftId = fst shift, q_fundId = snd shift, q_resolvedById = None, q_cashTxId = None\<rparr> d)
             (\<lambda>qd. Inr (addLog emp ''CASH_EXPENSE_REQUESTED'' (fst qd) (snd qd)))
       else andThen (postMovement shift emp ty amt d) (\<lambda>md.
             Inr (addLog emp ''CASH_MOVEMENT_CREATED'' (fst md) (snd md))))))"

definition findExpenseRequest :: "db \<Rightarrow> id \<Rightarrow> expenseRequest option" where
  "findExpenseRequest d i = find (\<lambda>q. q_id q = i) (expenseRequests d)"

definition findShift :: "db \<Rightarrow> id \<Rightarrow> cashierShift option" where
  "findShift d i = find (\<lambda>c. c_id c = i) (cashierShifts d)"

definition resolveRequest :: "id \<Rightarrow> RequestStatus \<Rightarrow> id \<Rightarrow> id option \<Rightarrow> db \<Rightarrow> db res" where
  "resolveRequest i st emp tx d =
     (let g = (\<lambda>q. q_id q = i \<and> q_status q = Req_PENDING) in
      require (cnt g (expenseRequests d) = 1) (Conflict ''request already resolved'')
        (Inr (d\<lparr>expenseRequests := upd g (\<lambda>q. q\<lparr>q_status := st, q_resolvedById := Some emp, q_cashTxId := tx\<rparr>)
           (expenseRequests d)\<rparr>)))"

definition approveExpenseRequest :: "id \<Rightarrow> id \<Rightarrow> db \<Rightarrow> db res" where
  "approveExpenseRequest i emp d =
     assertActiveEmployee emp d
     (fetch (findExpenseRequest d i) (NotFound ''expense request'') (\<lambda>q.
      fetch (findShift d (q_shiftId q)) (NotFound ''shift'') (\<lambda>c.
      fetch (findFund d (q_fundId q)) (NotFound ''fund'') (\<lambda>f.
      require (q_status q = Req_PENDING) (Conflict ''request already resolved'')
      (require (q_requestedById q \<noteq> emp) (Forbidden ''own expense request'')
      (require (c_status c = Shift_OPEN \<and> c_fundId c = Some (q_fundId q) \<and> f_deletedAt f = None \<and> f_type f = Fund_CASH)
         (Conflict ''no longer attached to an active cash shift'')
      (andThen (postMovement (q_shiftId q, q_fundId q) (q_requestedById q) Flow_EXPENSE (q_amount q) d) (\<lambda>md.
       andThen (resolveRequest i Req_APPROVED emp (Some (fst md)) (snd md)) (\<lambda>d2.
       Inr (addLog emp ''CASH_EXPENSE_APPROVED'' i d2))))))))))"

text \<open>\<open>resolveExpenseRequest\<close>: a different employee rejects, the requester cancels.\<close>

definition resolveExpenseRequest :: "id \<Rightarrow> id \<Rightarrow> RequestStatus \<Rightarrow> bool \<Rightarrow> bool \<Rightarrow> string \<Rightarrow> db \<Rightarrow> db res" where
  "resolveExpenseRequest i emp st requireDifferent requireRequester act d =
     assertActiveEmployee emp d
     (fetch (findExpenseRequest d i) (NotFound ''expense request'') (\<lambda>q.
      require (q_status q = Req_PENDING) (Conflict ''request already resolved'')
      (require (\<not> (requireDifferent \<and> q_requestedById q = emp)) (Forbidden ''own expense request'')
      (require (\<not> (requireRequester \<and> q_requestedById q \<noteq> emp)) (Forbidden ''only the requester'')
      (andThen (resolveRequest i st emp None d) (\<lambda>d2. Inr (addLog emp act i d2)))))))"

definition rejectExpenseRequest :: "id \<Rightarrow> id \<Rightarrow> db \<Rightarrow> db res" where
  "rejectExpenseRequest i emp d = resolveExpenseRequest i emp Req_REJECTED True False ''CASH_EXPENSE_REJECTED'' d"

definition cancelExpenseRequest :: "id \<Rightarrow> id \<Rightarrow> db \<Rightarrow> db res" where
  "cancelExpenseRequest i emp d = resolveExpenseRequest i emp Req_CANCELLED False True ''CASH_EXPENSE_CANCELLED'' d"

section \<open>Reconciliation\<close>

definition paidStatus :: "PaymentStatus \<Rightarrow> bool" where
  "paidStatus st \<longleftrightarrow> st = Pay_PAID \<or> st = Pay_PARTIALLY_REFUNDED \<or> st = Pay_REFUNDED"

definition refundTx :: "db \<Rightarrow> id \<Rightarrow> bool" where
  "refundTx d k \<longleftrightarrow> (\<exists>y\<in>set (cashRefunds d). y_cashTxId y = k)"

definition txInShift :: "db \<Rightarrow> id \<Rightarrow> id \<Rightarrow> bool" where
  "txInShift d k cid \<longleftrightarrow> (\<exists>r\<in>set (cashTxs d). k_id r = k \<and> k_shiftId r = Some cid)"

definition attemptInShift :: "db \<Rightarrow> id \<Rightarrow> id \<Rightarrow> bool" where
  "attemptInShift d a cid \<longleftrightarrow> (\<exists>r\<in>set (paymentAttempts d). a_id r = a \<and> a_shiftId r = cid)"

record reconciliation =
  rc_paidInvoiceCount :: nat
  rc_cashSales :: money
  rc_nonCashSales :: money
  rc_totalSales :: money
  rc_manualIncome :: money
  rc_manualExpense :: money
  rc_cashRefund :: money
  rc_actualEndingCash :: money

definition shiftSales :: "(PaymentMethod \<Rightarrow> bool) \<Rightarrow> id \<Rightarrow> db \<Rightarrow> money" where
  "shiftSales P cid d = sumw (\<lambda>v. v_shiftId v = Some cid \<and> paidStatus (v_status v) \<and> P (v_method v)) v_total (invoices d)"

definition manualFlow :: "CashFlowType \<Rightarrow> id \<Rightarrow> db \<Rightarrow> money" where
  "manualFlow ty cid d =
     sumw (\<lambda>k. k_shiftId k = Some cid \<and> k_invoiceId k = None \<and> \<not> refundTx d (k_id k) \<and> k_type k = ty) k_amount (cashTxs d)"

definition shiftRefunds :: "id \<Rightarrow> db \<Rightarrow> money" where
  "shiftRefunds cid d = sumw (\<lambda>y. txInShift d (y_cashTxId y) cid) y_amount (cashRefunds d)"

definition onlineRefunds :: "id \<Rightarrow> db \<Rightarrow> money" where
  "onlineRefunds cid d = sumw (\<lambda>r. pf_status r = Refund_SUCCEEDED \<and> attemptInShift d (pf_attemptId r) cid) pf_amount (paymentRefunds d)"

definition calculateReconciliation :: "cashierShift \<Rightarrow> db \<Rightarrow> reconciliation" where
  "calculateReconciliation c d =
     (let cid = c_id c; cash = shiftSales (\<lambda>m. m = Method_CASH) cid d; nonCash = shiftSales (\<lambda>m. m \<noteq> Method_CASH) cid d in
      \<lparr>rc_paidInvoiceCount = cnt (\<lambda>v. v_shiftId v = Some cid \<and> paidStatus (v_status v)) (invoices d),
       rc_cashSales = cash, rc_nonCashSales = nonCash - onlineRefunds cid d,
       rc_totalSales = cash + nonCash - onlineRefunds cid d,
       rc_manualIncome = manualFlow Flow_INCOME cid d, rc_manualExpense = manualFlow Flow_EXPENSE cid d,
       rc_cashRefund = shiftRefunds cid d,
       rc_actualEndingCash = c_expectedStartingCash c + cash + manualFlow Flow_INCOME cid d
          - manualFlow Flow_EXPENSE cid d - shiftRefunds cid d\<rparr>)"

text \<open>The difference of a shift: counted minus expected, when it was counted.\<close>

definition withReconciliation :: "cashierShift \<Rightarrow> db \<Rightarrow> reconciliation \<times> money option" where
  "withReconciliation c d =
     (let r = calculateReconciliation c d in
      (r, map_option (\<lambda>m. m - rc_actualEndingCash r) (c_reportedEndingCash c)))"

definition getCurrentShift :: "id \<Rightarrow> db \<Rightarrow> (reconciliation \<times> money option) res" where
  "getCurrentShift emp d =
     fetch (findOpenShift emp d) (NotFound ''no open shift'') (\<lambda>c. Inr (withReconciliation c d))"

section \<open>Closing a shift\<close>

definition openWork :: "id \<Rightarrow> db \<Rightarrow> 'a res \<Rightarrow> 'a res" where
  "openWork cid d k =
     require (\<forall>q\<in>set (expenseRequests d). \<not> (q_shiftId q = cid \<and> q_status q = Req_PENDING)) (Conflict ''pending expense requests'')
     (require (\<forall>a\<in>set (paymentAttempts d). \<not> (a_shiftId a = cid \<and>
          (a_status a = Attempt_PENDING \<or> a_status a = Attempt_EXPIRED \<or> a_status a = Attempt_REQUIRES_REVIEW)))
        (Conflict ''unresolved online payments'')
     (require (\<forall>s\<in>set (orderSessions d). \<not> (s_shiftId s = Some cid \<and> s_status s = Session_ACTIVE))
        (Conflict ''active order sessions'') k))"

definition noteRequired :: "money \<Rightarrow> db \<Rightarrow> bool" where
  "noteRequired difference d \<longleftrightarrow>
     difference \<noteq> 0 \<and> reaches \<bar>difference\<bar> (getCashControlThreshold SHIFT_DISCREPANCY_NOTE_THRESHOLD d)"

definition closeShift :: "id \<Rightarrow> id \<Rightarrow> money \<Rightarrow> string option \<Rightarrow> time \<Rightarrow> db \<Rightarrow> db res" where
  "closeShift emp cid reported note now d =
     assertActiveEmployee emp d
     (fetch (find (\<lambda>c. c_id c = cid \<and> c_employeeId c = emp \<and> c_status c = Shift_OPEN) (cashierShifts d))
        (Conflict ''CASHIER_SHIFT_CHANGED'') (\<lambda>c.
      openWork cid d
      (let actual = rc_actualEndingCash (calculateReconciliation c d);
           g = (\<lambda>r. c_id r = cid \<and> c_status r = Shift_OPEN) in
       require (\<not> (noteRequired (reported - actual) d \<and> \<not> given note)) (BadRequest ''closing note required'')
       (require (cnt g (cashierShifts d) = 1) (Conflict ''already closed'')
       (require (0 \<le> reported \<and> 0 \<le> actual) (Conflict ''check cash'')
         (Inr (addLog emp ''CASHIER_SHIFT_CLOSED'' cid
           (d\<lparr>cashierShifts := upd g (\<lambda>r. r\<lparr>c_status := Shift_CLOSED, c_closedAt := Some now,
              c_reportedEndingCash := Some reported, c_actualEndingCash := Some actual, c_closingNote := note\<rparr>)
              (cashierShifts d)\<rparr>))))))))"

text \<open>
  \<open>CashRefundsService\<close> (\<open>src/app/invoices/cash-refunds.service.ts\<close>): paying money of a cash
  invoice back out of the cashier's drawer, once all its lines were handed off. The refund row
  itself keeps the idempotency key, so a replay is answered even after the generic idempotency
  record expired; the request hash stands for the data it hashes.
\<close>

definition invoiceTx :: "db \<Rightarrow> id \<Rightarrow> cashTx option" where
  "invoiceTx d vid = find (\<lambda>k. k_invoiceId k = Some vid) (cashTxs d)"

definition refundable :: "db \<Rightarrow> invoice \<Rightarrow> 'a res \<Rightarrow> 'a res" where
  "refundable d v k =
     require (v_method v = Method_CASH \<and> (v_status v = Pay_PAID \<or> v_status v = Pay_PARTIALLY_REFUNDED))
       (Conflict ''only a paid cash invoice'')
     (require (case invoiceTx d (v_id v) of None \<Rightarrow> False | Some t \<Rightarrow> k_type t = Flow_INCOME \<and> k_amount t = v_total v)
       (Conflict ''ledger must be reconciled'')
     (require (invoiceItems d (v_id v) \<noteq> [] \<and> (\<forall>oi\<in>set (invoiceItems d (v_id v)). o_status oi = Serve_SERVED))
       (Conflict ''items must be handed off'') k))"

definition refundedTotal :: "db \<Rightarrow> id \<Rightarrow> money" where
  "refundedTotal d vid = sumw (\<lambda>y. y_invoiceId y = vid) y_amount (cashRefunds d)"

text \<open>The row of a refund, its money movement and the new state of the invoice.\<close>

definition refundStatus :: "invoice \<Rightarrow> money \<Rightarrow> PaymentStatus" where
  "refundStatus v refunded = (if refunded = v_total v then Pay_REFUNDED else Pay_PARTIALLY_REFUNDED)"

definition bookRefund :: "invoice \<Rightarrow> money \<Rightarrow> string \<Rightarrow> id \<times> id \<Rightarrow> id \<Rightarrow> string \<Rightarrow> time \<Rightarrow> db \<Rightarrow> db res" where
  "bookRefund v amt reason shift emp key now d =
     andThen (decrementFund (snd shift) None amt (Conflict ''insufficient cash fund balance'') d) (\<lambda>d1.
     andThen (createCashTx \<lparr>k_id = 0, k_type = Flow_EXPENSE, k_amount = amt, k_fundId = snd shift, k_employeeId = emp,
        k_shiftId = Some (fst shift), k_invoiceId = None\<rparr> d1) (\<lambda>d2.
     let g = (\<lambda>r. v_id r = v_id v \<and> v_status r = v_status v); refund = nextId d2;
         d3 = d2\<lparr>nextId := Suc refund, cashRefunds := cashRefunds d2 @ [\<lparr>y_id = refund, y_invoiceId = v_id v,
           y_amount = amt, y_reason = reason, y_requestedById = emp, y_key = key, y_cashTxId = nextId d1\<rparr>]\<rparr> in
     require (cnt g (invoices d3) = 1) (Conflict ''invoice payment state changed'')
       (Inr (enqueue ''payment'' ''CASH_REFUND_SUCCEEDED'' refund [] now (addLog emp ''CASH_REFUND_SUCCEEDED'' refund
         (d3\<lparr>invoices := upd g (\<lambda>r. r\<lparr>v_status := refundStatus v (refundedTotal d (v_id v) + amt)\<rparr>) (invoices d3)\<rparr>))))))"

definition createCashRefund :: "id \<Rightarrow> id \<Rightarrow> money \<Rightarrow> string \<Rightarrow> id \<Rightarrow> string \<Rightarrow> time \<Rightarrow> db \<Rightarrow> db res" where
  "createCashRefund vid emp amt reason expectedShift key now d =
     assertActiveEmployee emp d
     (case find (\<lambda>y. y_requestedById y = emp \<and> y_key y = key) (cashRefunds d) of
        Some y \<Rightarrow> require (y_invoiceId y = vid \<and> y_amount y = amt \<and> y_reason y = reason \<and> txInShift d (y_cashTxId y) expectedShift)
          (Conflict ''different cash refund'') (Inr d)
      | None \<Rightarrow>
          fetch (findInvoice d vid) (NotFound ''invoice'') (\<lambda>v.
          refundable d v
          (require (refundedTotal d vid + amt \<le> v_total v) (Conflict ''refund exceeds remaining amount'')
          (andThen (requireOpenShift emp d) (\<lambda>shift.
           require (fst shift = expectedShift) (Conflict ''CASHIER_SHIFT_CHANGED'')
             (bookRefund v amt reason shift emp key now d))))))"

end
