(* ===== verification/Invoices.thy ===== *)
theory Invoices
  imports Promotions Orders
begin

text \<open>
  \<open>InvoicesService\<close> (\<open>src/app/invoices/invoices.service.ts\<close>), its policy and the numbering of
  invoices. Amounts of a request are decimal strings with at most two places, so integers in
  hundredths; the quote fingerprint is a hash of the quoted data, the parameter \<open>hash\<close>.
\<close>

section \<open>Input\<close>

text \<open>\<open>MoneyInputSchema\<close> on a decimal string: at most 16 integer digits, not negative.\<close>

definition moneyInput :: "money \<Rightarrow> bool" where
  "moneyInput m \<longleftrightarrow> 0 \<le> m \<and> m < 10 ^ 18"

definition taxRateInput :: "int \<Rightarrow> bool" where
  "taxRateInput r \<longleftrightarrow> moneyInput r \<and> r \<le> 10000"

definition toDecimal :: "money \<Rightarrow> money res" where
  "toDecimal m = require (moneyInput m) (BadRequest ''money precision'') (Inr m)"

record 'h createInvoiceInput =
  ci_sessionId :: id
  ci_itemIds :: "id list option"
  ci_promotionId :: "id option"
  ci_taxRate :: "int option"
  ci_fingerprint :: "'h option"
  ci_expectedTotal :: "money option"

section \<open>Policy\<close>

definition assertInvoiceIsUnpaid :: "invoice \<Rightarrow> 'a res \<Rightarrow> 'a res" where
  "assertInvoiceIsUnpaid v k = require (v_status v = Pay_UNPAID) (BadRequest ''only unpaid invoices'') k"

definition billable :: "orderItem \<Rightarrow> bool" where
  "billable oi \<longleftrightarrow> \<not> (o_status oi = Serve_CANCELLED \<or> o_isPaid oi \<or> o_invoiceId oi \<noteq> None)"

definition assertInvoiceItemsAreBillable :: "orderItem list \<Rightarrow> 'a res \<Rightarrow> 'a res" where
  "assertInvoiceItemsAreBillable items k =
     require (items \<noteq> []) (BadRequest ''no billable items'')
     (require (\<forall>oi\<in>set items. billable oi) (BadRequest ''item cannot be invoiced'') k)"

definition assertPaidPaymentAmount :: "PaymentMethod \<Rightarrow> money option \<Rightarrow> money \<Rightarrow> 'a res \<Rightarrow> 'a res" where
  "assertPaidPaymentAmount m tendered totalAmount k =
     require (\<not> (m = Method_CASH \<and> tendered = None)) (BadRequest ''cash requires amount tendered'')
     (require (case tendered of None \<Rightarrow> True | Some t \<Rightarrow> totalAmount \<le> t) (BadRequest ''tendered below total'') k)"

section \<open>Calculation\<close>

record invoiceCalculation =
  q_subTotal :: money
  q_discount :: money
  q_tax :: money
  q_taxRate :: int
  q_total :: money
  q_tendered :: "money option"
  q_change :: "money option"

text \<open>Prices are in hundredths and quantities whole, so rounding to two places changes nothing.\<close>

definition calculateSubTotal :: "orderItem list \<Rightarrow> money" where
  "calculateSubTotal items = (\<Sum>oi\<leftarrow>items. o_price oi * o_quantity oi)"

definition resolvePaidAmountTendered :: "PaymentMethod \<Rightarrow> money \<Rightarrow> money option \<Rightarrow> money option res" where
  "resolvePaidAmountTendered m totalAmount tendered =
     (case tendered of
        Some t \<Rightarrow> andThen (toDecimal t) (\<lambda>x. Inr (Some x))
      | None \<Rightarrow> Inr (if m = Method_CASH then None else Some totalAmount))"

text \<open>The tax is rounded half up to hundredths; a rate is in hundredths of a percent.\<close>

definition calculateInvoice ::
  "money \<Rightarrow> money option \<Rightarrow> int option \<Rightarrow> PaymentStatus \<Rightarrow> PaymentMethod \<Rightarrow> money option \<Rightarrow> invoiceCalculation res"
where
  "calculateInvoice subTotal discount taxRate st m tendered =
     (let discountAmount = orElse discount 0; rate = orElse taxRate 0 in
      require (taxRateInput rate) (BadRequest ''tax rate'')
      (let taxable = max (subTotal - discountAmount) 0;
           tax = round_div (taxable * rate) 10000;
           totalAmount = taxable + tax
       in andThen (if st = Pay_PAID then resolvePaidAmountTendered m totalAmount tendered else Inr None) (\<lambda>paid.
          require (moneyInput totalAmount) (BadRequest ''invoice precision'')
            (Inr \<lparr>q_subTotal = subTotal, q_discount = discountAmount, q_tax = tax, q_taxRate = rate,
               q_total = totalAmount, q_tendered = paid, q_change = map_option (\<lambda>t. t - totalAmount) paid\<rparr>))))"

text \<open>What the fingerprint hashes: the lines sorted by id, and the amounts.\<close>

record quotedData =
  qd_sessionId :: id
  qd_tableId :: "id option"
  qd_items :: "(id \<times> int \<times> money) list"
  qd_promotionId :: "id option"
  qd_amounts :: "money \<times> money \<times> int \<times> money \<times> money"

definition quoteFingerprint ::
  "(quotedData \<Rightarrow> 'h) \<Rightarrow> 'h createInvoiceInput \<Rightarrow> orderSession \<Rightarrow> orderItem list \<Rightarrow> invoiceCalculation \<Rightarrow> 'h"
where
  "quoteFingerprint hash i s items c =
     hash \<lparr>qd_sessionId = ci_sessionId i, qd_tableId = s_tableId s,
       qd_items = map (\<lambda>oi. (o_id oi, o_quantity oi, o_price oi)) (sort_key o_id items),
       qd_promotionId = ci_promotionId i,
       qd_amounts = (q_subTotal c, q_discount c, q_taxRate c, q_tax c, q_total c)\<rparr>"

section \<open>Numbering\<close>

text \<open>
  Numbers are \<open>INV-yyyymmdd-nnnnnn\<close>: a prefix for the local day of the instant, the parameter
  \<open>prefix\<close> of the server's time zone, and a padded decimal counter. The latest number of the day
  is the greatest one as text.
\<close>

fun digitsFuel :: "nat \<Rightarrow> nat \<Rightarrow> string" where
  "digitsFuel 0 n = []"
| "digitsFuel (Suc f) n = (if n < 10 then [char_of (48 + n)] else digitsFuel f (n div 10) @ [char_of (48 + n mod 10)])"

definition digits :: "nat \<Rightarrow> string" where
  "digits n = digitsFuel (Suc n) n"

definition padStart :: "nat \<Rightarrow> char \<Rightarrow> string \<Rightarrow> string" where
  "padStart n c s = replicate (n - length s) c @ s"

definition textValue :: "string \<Rightarrow> nat" where
  "textValue s = foldl (\<lambda>n c. 10 * n + (of_char c - 48)) 0 s"

fun textLess :: "string \<Rightarrow> string \<Rightarrow> bool" where
  "textLess _ [] = False"
| "textLess [] (d # ds) = True"
| "textLess (c # cs) (d # ds) = ((of_char c :: nat) < of_char d \<or> c = d \<and> textLess cs ds)"

definition textMax :: "string \<Rightarrow> string \<Rightarrow> string" where
  "textMax a b = (if textLess a b then b else a)"

definition startsWith :: "string \<Rightarrow> string \<Rightarrow> bool" where
  "startsWith p s \<longleftrightarrow> take (length p) s = p"

definition lastPart :: "string \<Rightarrow> string" where
  "lastPart s = rev (takeWhile (\<lambda>c. c \<noteq> CHR ''-'') (rev s))"

definition latestNumber :: "string \<Rightarrow> db \<Rightarrow> string option" where
  "latestNumber prefix d =
     (case filter (startsWith prefix) (map v_number (invoices d)) of
        [] \<Rightarrow> None | n # ns \<Rightarrow> Some (foldl textMax n ns))"

definition getNextSequence :: "string option \<Rightarrow> nat" where
  "getNextSequence latest = (case latest of None \<Rightarrow> 1 | Some s \<Rightarrow> textValue (lastPart s) + 1)"

definition generateNumber :: "string \<Rightarrow> db \<Rightarrow> string" where
  "generateNumber prefix d = prefix @ ''-'' @ padStart 6 (CHR ''0'') (digits (getNextSequence (latestNumber prefix d)))"

section \<open>Creating an invoice\<close>

definition getInvoiceItems :: "id \<Rightarrow> id list option \<Rightarrow> db \<Rightarrow> orderItem list res" where
  "getInvoiceItems sid itemIds d =
     (case itemIds of
        None \<Rightarrow> Inr (filter (\<lambda>oi. o_sessionId oi = sid \<and> \<not> o_isPaid oi \<and> o_invoiceId oi = None \<and>
                   o_status oi \<noteq> Serve_CANCELLED) (orderItems d))
      | Some ids \<Rightarrow>
          require (distinct ids) (BadRequest ''duplicate order items'')
          (let items = filter (\<lambda>oi. o_sessionId oi = sid \<and> o_id oi \<in> set ids) (orderItems d) in
           require (length items = length ids) (BadRequest ''items not of this session'') (Inr items)))"

definition enqueueInvoiceEvent :: "string \<Rightarrow> id \<Rightarrow> orderSession \<Rightarrow> time \<Rightarrow> db \<Rightarrow> db" where
  "enqueueInvoiceEvent eventName vid s now d = enqueue ''order'' eventName vid (affectedTableIds [s_tableId s]) now d"

definition discountFor :: "id option \<Rightarrow> money \<Rightarrow> time \<Rightarrow> db \<Rightarrow> money option res" where
  "discountFor promotionId subTotal now d =
     (case promotionId of None \<Rightarrow> Inr None
      | Some p \<Rightarrow> andThen (calculateDiscountTx p (rat_of_int subTotal / 100) now d) (\<lambda>a. Inr (Some a)))"

definition quoteInvoice ::
  "(quotedData \<Rightarrow> 'h) \<Rightarrow> id \<Rightarrow> 'h createInvoiceInput \<Rightarrow> time \<Rightarrow> db \<Rightarrow> (id list \<times> invoiceCalculation \<times> 'h) res"
where
  "quoteInvoice hash emp i now d =
     require (activeEmployee emp d) (BadRequest ''employee'')
     (fetch (findSession d (ci_sessionId i)) (NotFound ''session'') (\<lambda>s.
      assertPosOrderMutationAllowed (s_online s)
      (assertActiveSession (s_status s)
      (andThen (getInvoiceItems (ci_sessionId i) (ci_itemIds i) d) (\<lambda>items.
       assertInvoiceItemsAreBillable items
       (andThen (discountFor (ci_promotionId i) (calculateSubTotal items) now d) (\<lambda>discount.
        andThen (calculateInvoice (calculateSubTotal items) discount (ci_taxRate i) Pay_UNPAID Method_CASH None) (\<lambda>c.
        Inr (map o_id items, c, quoteFingerprint hash i s items c))))))))) "

definition closeSessionIfFullyPaid :: "orderSession \<Rightarrow> db \<Rightarrow> db res" where
  "closeSessionIfFullyPaid s d =
     (if s_tableId s \<noteq> None \<or> s_status s \<noteq> Session_ACTIVE then Inr d
      else if \<exists>oi\<in>set (orderItems d). o_sessionId oi = s_id s \<and> o_status oi \<noteq> Serve_CANCELLED \<and> \<not> o_isPaid oi then Inr d
      else (let g = (\<lambda>r. s_id r = s_id s \<and> s_status r = Session_ACTIVE) in
        require (cnt g (orderSessions d) = 1) (Conflict ''session changed'')
          (Inr (d\<lparr>orderSessions := upd g (\<lambda>r. r\<lparr>s_status := Session_COMPLETED\<rparr>) (orderSessions d)\<rparr>))))"

definition reserveInvoiceStock :: "id \<Rightarrow> time \<Rightarrow> db \<Rightarrow> db res" where
  "reserveInvoiceStock vid now d = reservePendingItems (\<lambda>oi. o_invoiceId oi = Some vid) now d"

text \<open>\<open>Invoice_amounts_non_negative_check\<close> and \<open>Invoice_discount_not_above_subtotal_check\<close>.\<close>

definition invoiceChecks :: "invoice \<Rightarrow> bool" where
  "invoiceChecks v \<longleftrightarrow> 0 \<le> v_subTotal v \<and> 0 \<le> v_discount v \<and> 0 \<le> v_tax v \<and> 0 \<le> v_total v \<and>
     (case v_tendered v of None \<Rightarrow> True | Some t \<Rightarrow> 0 \<le> t) \<and>
     (case v_change v of None \<Rightarrow> True | Some t \<Rightarrow> 0 \<le> t) \<and>
     v_discount v \<le> v_subTotal v \<and> 0 \<le> v_taxRate v \<and> v_taxRate v \<le> 10000"

definition insertInvoice :: "invoice \<Rightarrow> db \<Rightarrow> (id \<times> db) res" where
  "insertInvoice v d =
     require (\<forall>r\<in>set (invoices d). v_number r \<noteq> v_number v) (UniqueViolation ''invoiceNumber'')
     (require (invoiceChecks v) (Conflict ''check invoice'')
       (Inr (nextId d, d\<lparr>nextId := Suc (nextId d), invoices := invoices d @ [v\<lparr>v_id := nextId d\<rparr>]\<rparr>)))"

definition newInvoice ::
  "string \<Rightarrow> invoiceCalculation \<Rightarrow> PaymentMethod \<Rightarrow> PaymentStatus \<Rightarrow> id \<Rightarrow> id \<Rightarrow> id option \<Rightarrow> id option \<Rightarrow> time \<Rightarrow> invoice"
where
  "newInvoice number c m st sid emp shift promo now =
     \<lparr>v_id = 0, v_number = number, v_subTotal = q_subTotal c, v_discount = q_discount c, v_tax = q_tax c,
      v_taxRate = q_taxRate c, v_total = q_total c, v_tendered = q_tendered c, v_change = q_change c,
      v_method = m, v_status = st, v_sessionId = sid, v_employeeId = emp, v_shiftId = shift,
      v_promotionId = promo, v_snapshot = True, v_createdAt = now, v_codeVersion = Some 0, v_codeIssuedAt = None\<rparr>"

definition quoteChanged :: "(quotedData \<Rightarrow> 'h) \<Rightarrow> 'h createInvoiceInput \<Rightarrow> orderSession \<Rightarrow> orderItem list \<Rightarrow> invoiceCalculation \<Rightarrow> bool res" where
  "quoteChanged hash i s items c =
     (if (case ci_fingerprint i of None \<Rightarrow> False | Some h \<Rightarrow> h \<noteq> quoteFingerprint hash i s items c) then Inr True
      else case ci_expectedTotal i of None \<Rightarrow> Inr False | Some e \<Rightarrow> andThen (toDecimal e) (\<lambda>x. Inr (q_total c \<noteq> x)))"

definition attachItems :: "id \<Rightarrow> id \<Rightarrow> PaymentStatus \<Rightarrow> orderItem list \<Rightarrow> db \<Rightarrow> db res" where
  "attachItems vid sid st items d =
     (let g = (\<lambda>oi. o_id oi \<in> o_id ` set items \<and> o_sessionId oi = sid \<and> \<not> o_isPaid oi \<and> o_invoiceId oi = None \<and>
                 o_status oi \<noteq> Serve_CANCELLED)
      in require (cnt g (orderItems d) = length items) (Conflict ''order items changed'')
        (Inr (d\<lparr>orderItems := upd g (\<lambda>oi. oi\<lparr>o_invoiceId := Some vid, o_isPaid := (o_isPaid oi \<or> st = Pay_PAID)\<rparr>)
           (orderItems d)\<rparr>)))"

record checkout =
  co_status :: PaymentStatus
  co_method :: PaymentMethod
  co_tendered :: "money option"
  co_close :: bool
  co_events :: "string list"

text \<open>The amounts of an invoice as they are agreed, before anything is written.\<close>

definition agreeInvoice ::
  "(quotedData \<Rightarrow> 'h) \<Rightarrow> checkout \<Rightarrow> 'h createInvoiceInput \<Rightarrow> orderSession \<Rightarrow> time \<Rightarrow> db \<Rightarrow> (orderItem list \<times> invoiceCalculation) res"
where
  "agreeInvoice hash co i s now d =
     andThen (getInvoiceItems (ci_sessionId i) (ci_itemIds i) d) (\<lambda>items.
     assertInvoiceItemsAreBillable items
     (andThen (discountFor (ci_promotionId i) (calculateSubTotal items) now d) (\<lambda>discount.
      andThen (calculateInvoice (calculateSubTotal items) discount (ci_taxRate i) (co_status co) (co_method co)
         (co_tendered co)) (\<lambda>c.
      andThen (quoteChanged hash i s items c) (\<lambda>changed.
      require (\<not> changed) (Conflict ''INVOICE_QUOTE_CHANGED'')
      ((if co_status co = Pay_PAID then assertPaidPaymentAmount (co_method co) (q_tendered c) (q_total c) else (\<lambda>k. k))
        (Inr (items, c))))))))"

definition invoiceEvents :: "string list \<Rightarrow> id \<Rightarrow> orderSession \<Rightarrow> time \<Rightarrow> db \<Rightarrow> db" where
  "invoiceEvents evs vid s now d = foldl (\<lambda>d ev. enqueueInvoiceEvent ev vid s now d) d evs"

definition createInvoiceInTransaction ::
  "(quotedData \<Rightarrow> 'h) \<Rightarrow> string \<Rightarrow> id \<Rightarrow> checkout \<Rightarrow> bool \<Rightarrow> 'h createInvoiceInput \<Rightarrow> time \<Rightarrow> db \<Rightarrow> (id \<times> db) res"
where
  "createInvoiceInTransaction hash prefix emp co onlinePickup i now d =
     require (activeEmployee emp d) (BadRequest ''employee'')
     (fetch (findSession d (ci_sessionId i)) (NotFound ''session'') (\<lambda>s.
      assertActiveSession (s_status s)
      ((if onlinePickup then (\<lambda>k. k) else assertPosOrderMutationAllowed (s_online s))
      (andThen (if co_status co = Pay_PAID then andThen (requireOpenShift emp d) (\<lambda>sh. Inr (Some sh)) else Inr None) (\<lambda>shift.
       andThen (agreeInvoice hash co i s now d) (\<lambda>ic.
       andThen (insertInvoice (newInvoice (generateNumber prefix d) (snd ic) (co_method co) (co_status co) (s_id s) emp
          (map_option fst shift) (ci_promotionId i) now) d) (\<lambda>vd.
       andThen (attachItems (fst vd) (s_id s) (co_status co) (fst ic) (snd vd)) (\<lambda>d2.
       andThen (reserveInvoiceStock (fst vd) now d2) (\<lambda>d3.
       andThen (case shift of
            Some sh \<Rightarrow> if co_method co = Method_CASH then recordCashInvoice sh (fst vd) emp (q_total (snd ic)) d3 else Inr d3
          | None \<Rightarrow> Inr d3) (\<lambda>d4.
       andThen (if co_status co = Pay_PAID \<and> co_close co then closeSessionIfFullyPaid s d4 else Inr d4) (\<lambda>d5.
       Inr (fst vd, invoiceEvents (co_events co) (fst vd) s now d5))))))))))))"

definition createInvoice :: "(quotedData \<Rightarrow> 'h) \<Rightarrow> string \<Rightarrow> id \<Rightarrow> 'h createInvoiceInput \<Rightarrow> time \<Rightarrow> db \<Rightarrow> (id \<times> db) res" where
  "createInvoice hash prefix emp i now d =
     createInvoiceInTransaction hash prefix emp \<lparr>co_status = Pay_UNPAID, co_method = Method_CASH, co_tendered = None,
       co_close = False, co_events = [''INVOICE_CREATED'']\<rparr> False i now d"

text \<open>The transaction of \<open>checkoutInvoice\<close>; with a key it runs under the idempotency service.\<close>

definition checkoutInvoice ::
  "(quotedData \<Rightarrow> 'h) \<Rightarrow> string \<Rightarrow> id \<Rightarrow> PaymentMethod \<Rightarrow> money option \<Rightarrow> bool \<Rightarrow> 'h createInvoiceInput \<Rightarrow> time \<Rightarrow> db \<Rightarrow> (id \<times> db) res"
where
  "checkoutInvoice hash prefix emp m tendered close i now d =
     require (m \<noteq> Method_TRANSFER) (BadRequest ''transfers need a payment attempt'')
     (createInvoiceInTransaction hash prefix emp \<lparr>co_status = Pay_PAID, co_method = m, co_tendered = tendered,
       co_close = close, co_events = [''INVOICE_CREATED'', ''INVOICE_PAID'']\<rparr> False i now d)"

definition checkoutOnlinePickup ::
  "(quotedData \<Rightarrow> 'h) \<Rightarrow> string \<Rightarrow> id \<Rightarrow> id \<Rightarrow> money \<Rightarrow> time \<Rightarrow> db \<Rightarrow> (id \<times> db) res"
where
  "checkoutOnlinePickup hash prefix emp sid tendered now d =
     createInvoiceInTransaction hash prefix emp \<lparr>co_status = Pay_PAID, co_method = Method_CASH, co_tendered = Some tendered,
       co_close = True, co_events = [''INVOICE_CREATED'', ''INVOICE_PAID'']\<rparr> True
       \<lparr>ci_sessionId = sid, ci_itemIds = None, ci_promotionId = None, ci_taxRate = None, ci_fingerprint = None,
        ci_expectedTotal = None\<rparr> now d"

section \<open>Paying and voiding\<close>

definition unresolvedAttempt :: "PaymentAttemptStatus \<Rightarrow> bool" where
  "unresolvedAttempt st \<longleftrightarrow> st = Attempt_PENDING \<or> st = Attempt_EXPIRED \<or> st = Attempt_REQUIRES_REVIEW"

definition assertNoUnresolvedOnlinePayment :: "id \<Rightarrow> db \<Rightarrow> 'a res \<Rightarrow> 'a res" where
  "assertNoUnresolvedOnlinePayment vid d k =
     require (\<forall>a\<in>set (paymentAttempts d). \<not> (a_invoiceId a = vid \<and> unresolvedAttempt (a_status a)))
       (Conflict ''unresolved online payment'') k"

definition payItems :: "id \<Rightarrow> db \<Rightarrow> db" where
  "payItems vid d =
     d\<lparr>orderItems := upd (\<lambda>oi. o_invoiceId oi = Some vid \<and> \<not> o_isPaid oi) (\<lambda>oi. oi\<lparr>o_isPaid := True\<rparr>) (orderItems d)\<rparr>"

definition setInvoice :: "id \<Rightarrow> (invoice \<Rightarrow> invoice) \<Rightarrow> db \<Rightarrow> db" where
  "setInvoice vid f d = d\<lparr>invoices := upd (\<lambda>v. v_id v = vid) f (invoices d)\<rparr>"

definition updatePayment :: "id \<Rightarrow> id \<Rightarrow> PaymentMethod option \<Rightarrow> money option \<Rightarrow> bool \<Rightarrow> time \<Rightarrow> db \<Rightarrow> db res" where
  "updatePayment vid emp method tendered close now d =
     require (activeEmployee emp d) (BadRequest ''employee'')
     (fetch (findInvoice d vid) (NotFound ''invoice'') (\<lambda>v.
      fetch (findSession d (v_sessionId v)) (NotFound ''session'') (\<lambda>s.
      assertInvoiceIsUnpaid v
      (assertPosOrderMutationAllowed (s_online s)
      (assertNoUnresolvedOnlinePayment vid d
      (let m = orElse method (v_method v) in
       require (m \<noteq> Method_TRANSFER) (BadRequest ''transfers are confirmed by the provider'')
       (andThen (resolvePaidAmountTendered m (v_total v) tendered) (\<lambda>paid.
        assertPaidPaymentAmount m paid (v_total v)
        (andThen (requireOpenShift emp d) (\<lambda>shift.
         let d1 = setInvoice vid (\<lambda>r. r\<lparr>v_status := Pay_PAID, v_method := m, v_tendered := paid,
               v_change := Some (case paid of None \<Rightarrow> 0 | Some t \<Rightarrow> t - v_total v), v_employeeId := emp,
               v_shiftId := Some (fst shift)\<rparr>) d
         in andThen (reserveInvoiceStock vid now (payItems vid d1)) (\<lambda>d2.
            andThen (if m = Method_CASH then recordCashInvoice shift vid emp (v_total v) d2 else Inr d2) (\<lambda>d3.
            andThen (if close then closeSessionIfFullyPaid s d3 else Inr d3) (\<lambda>d4.
            Inr (enqueueInvoiceEvent ''INVOICE_PAID'' vid s now d4))))))))))))))"

text \<open>
  Voiding frees the lines; the stock held for those still pending is released unless an accepted
  online order holds it.
\<close>

definition voidInvoice :: "id \<Rightarrow> id \<Rightarrow> time \<Rightarrow> db \<Rightarrow> db res" where
  "voidInvoice vid emp now d =
     require (activeEmployee emp d) (BadRequest ''employee'')
     (fetch (findInvoice d vid) (NotFound ''invoice'') (\<lambda>v.
      fetch (findSession d (v_sessionId v)) (NotFound ''session'') (\<lambda>s.
      assertInvoiceIsUnpaid v
      (assertNoUnresolvedOnlinePayment vid d
      (let pending = map o_id (filter (\<lambda>oi. o_status oi = Serve_PENDING) (invoiceItems d vid));
           d1 = setInvoice vid (\<lambda>r. r\<lparr>v_status := Pay_VOIDED, v_snapshot := True\<rparr>) d;
           d2 = d1\<lparr>orderItems := upd (\<lambda>oi. o_invoiceId oi = Some vid \<and> \<not> o_isPaid oi)
                  (\<lambda>oi. oi\<lparr>o_invoiceId := None, o_isPaid := False\<rparr>) (orderItems d1)\<rparr>
       in andThen (if s_online s = None then releaseReservations pending d2 else Inr d2) (\<lambda>d3.
          Inr (enqueueInvoiceEvent ''INVOICE_VOIDED'' vid s now (addLog emp ''INVOICE_VOIDED'' vid d3))))))))"

definition completeOnlinePayment :: "id \<Rightarrow> id \<Rightarrow> id \<Rightarrow> bool \<Rightarrow> time \<Rightarrow> db \<Rightarrow> db res" where
  "completeOnlinePayment vid emp shiftId close now d =
     fetch (findInvoice d vid) (NotFound ''invoice'') (\<lambda>v.
     fetch (findSession d (v_sessionId v)) (NotFound ''session'') (\<lambda>s.
     assertInvoiceIsUnpaid v
     (let g = (\<lambda>r. v_id r = vid \<and> v_status r = Pay_UNPAID) in
     require (cnt g (invoices d) = 1) (Conflict ''invoice changed'')
     (let d1 = d\<lparr>invoices := upd g (\<lambda>r. r\<lparr>v_status := Pay_PAID, v_method := Method_TRANSFER,
            v_tendered := Some (v_total v), v_change := Some 0, v_employeeId := emp,
            v_shiftId := Some shiftId\<rparr>) (invoices d)\<rparr>
      in andThen (if close then closeSessionIfFullyPaid s (payItems vid d1) else Inr (payItems vid d1)) (\<lambda>d2.
         Inr (enqueueInvoiceEvent ''INVOICE_PAID'' vid s now d2))))))"

end
