(* ===== verification/Payments.thy ===== *)
theory Payments
  imports Cashier Invoices
begin

text \<open>
  Online payments: creating a payment attempt for an invoice, its payment link, and the
  notifications of the three providers (\<open>src/app/payments/payments.service.ts\<close>, with the amount
  and failure rules of \<open>vnpay.service.ts\<close>, \<open>momo.service.ts\<close> and \<open>payos.service.ts\<close>). A
  notification comes in verified or not: the signatures, the hashes of payloads and requests and
  the providers' link services are parameters. The columns \<open>currency\<close> and \<open>state\<close> are guarded
  by CHECK constraints: they are checked where a row is inserted, and updates are proved to keep
  them. \<open>lastReconciledAt\<close>, titles and details are not kept.
\<close>

section \<open>Rows\<close>

definition attemptById :: "db \<Rightarrow> id \<Rightarrow> paymentAttempt option" where
  "attemptById d i = find (\<lambda>a. a_id a = i) (paymentAttempts d)"

definition attemptByReference :: "db \<Rightarrow> string \<Rightarrow> paymentAttempt option" where
  "attemptByReference d ref = find (\<lambda>a. a_merchantReference a = ref) (paymentAttempts d)"

definition attemptByKey :: "db \<Rightarrow> id \<Rightarrow> string \<Rightarrow> paymentAttempt option" where
  "attemptByKey d emp key = find (\<lambda>a. a_createdById a = emp \<and> a_idempotencyKey a = key) (paymentAttempts d)"

text \<open>\<open>PaymentAttempt_state_check\<close>, and the checks of amount, currency and expiry.\<close>

definition attemptState :: "paymentAttempt \<Rightarrow> bool" where
  "attemptState a \<longleftrightarrow>
     (case a_status a of
        Attempt_PENDING \<Rightarrow> a_completedAt a = None \<and> a_transactionNo a = None \<and> a_failureCode a = None
      | Attempt_SUCCEEDED \<Rightarrow> a_completedAt a \<noteq> None \<and> a_transactionNo a \<noteq> None \<and> a_failureCode a = None
      | Attempt_FAILED \<Rightarrow> a_completedAt a \<noteq> None \<and> a_failureCode a \<noteq> None
      | Attempt_EXPIRED \<Rightarrow> a_completedAt a \<noteq> None \<and> a_transactionNo a = None
      | Attempt_REQUIRES_REVIEW \<Rightarrow> a_completedAt a = None)"

definition attemptChecks :: "paymentAttempt \<Rightarrow> bool" where
  "attemptChecks a \<longleftrightarrow> 0 < a_amount a \<and> a_currency a = ''VND'' \<and> a_createdAt a < a_expiresAt a \<and> attemptState a"

text \<open>Unique per provider: transaction numbers and payment links.\<close>

definition attemptKeys :: "paymentAttempt list \<Rightarrow> bool" where
  "attemptKeys rows \<longleftrightarrow>
     distinct (map (\<lambda>a. (a_provider a, a_transactionNo a)) (filter (\<lambda>a. a_transactionNo a \<noteq> None) rows)) \<and>
     distinct (map (\<lambda>a. (a_provider a, a_linkId a)) (filter (\<lambda>a. a_linkId a \<noteq> None) rows))"

definition updateAttempts :: "(paymentAttempt \<Rightarrow> bool) \<Rightarrow> (paymentAttempt \<Rightarrow> paymentAttempt) \<Rightarrow> db \<Rightarrow> db res" where
  "updateAttempts g f d =
     (let rows = upd g f (paymentAttempts d)
      in require (attemptKeys rows) (UniqueViolation ''PaymentAttempt'') (Inr (d\<lparr>paymentAttempts := rows\<rparr>)))"

definition updateAttempt :: "id \<Rightarrow> (paymentAttempt \<Rightarrow> paymentAttempt) \<Rightarrow> db \<Rightarrow> db res" where
  "updateAttempt i f d = updateAttempts (\<lambda>a. a_id a = i) f d"

definition insertAttempt :: "paymentAttempt \<Rightarrow> db \<Rightarrow> (paymentAttempt \<times> db) res" where
  "insertAttempt a d =
     require (\<forall>r\<in>set (paymentAttempts d). a_merchantReference r \<noteq> a_merchantReference a \<and>
         \<not> (a_createdById r = a_createdById a \<and> a_idempotencyKey r = a_idempotencyKey a))
       (UniqueViolation ''PaymentAttempt'')
     (require (attemptChecks a) (Conflict ''check PaymentAttempt'')
       (let row = a\<lparr>a_id := nextId d\<rparr>
        in Inr (row, d\<lparr>nextId := Suc (nextId d), paymentAttempts := paymentAttempts d @ [row]\<rparr>)))"

text \<open>Webhook events: the same payload is stored once.\<close>

definition createWebhook :: "PaymentProvider \<Rightarrow> string \<Rightarrow> id option \<Rightarrow> db \<Rightarrow> (id \<times> db) res" where
  "createWebhook p h a d =
     require (\<forall>w\<in>set (webhookEvents d). wh_payloadHash w \<noteq> h) (UniqueViolation ''payloadHash'')
       (Inr (nextId d, d\<lparr>nextId := Suc (nextId d), webhookEvents := webhookEvents d @
          [\<lparr>wh_id = nextId d, wh_provider = p, wh_payloadHash = h, wh_processingCode = None, wh_attemptId = a\<rparr>]\<rparr>))"

definition completeWebhook :: "id \<Rightarrow> string \<Rightarrow> db \<Rightarrow> db" where
  "completeWebhook ev code d =
     d\<lparr>webhookEvents := upd (\<lambda>w. wh_id w = ev) (\<lambda>w. w\<lparr>wh_processingCode := Some code\<rparr>) (webhookEvents d)\<rparr>"

definition openIncident :: "PaymentIncidentType \<Rightarrow> incidentKey \<Rightarrow> id \<Rightarrow> id option \<Rightarrow> db \<Rightarrow> db" where
  "openIncident ty key a r d =
     (if \<exists>x\<in>set (incidents d). in_key x = key
      then d\<lparr>incidents := upd (\<lambda>x. in_key x = key) (\<lambda>x. x\<lparr>in_status := Incident_OPEN, in_resolvedById := None\<rparr>) (incidents d)\<rparr>
      else d\<lparr>nextId := Suc (nextId d), incidents := incidents d @
        [\<lparr>in_id = nextId d, in_type = ty, in_status = Incident_OPEN, in_key = key, in_attemptId = a, in_refundId = r,
          in_resolvedById = None\<rparr>]\<rparr>)"

definition incidentTypeName :: "PaymentIncidentType \<Rightarrow> string" where
  "incidentTypeName ty =
     (case ty of STALE_ATTEMPT \<Rightarrow> ''STALE_ATTEMPT'' | PAYMENT_STATE_CONFLICT \<Rightarrow> ''PAYMENT_STATE_CONFLICT''
      | PROVIDER_PAYMENT_MISMATCH \<Rightarrow> ''PROVIDER_PAYMENT_MISMATCH'' | REFUND_STATE_MISMATCH \<Rightarrow> ''REFUND_STATE_MISMATCH''
      | PROVIDER_UNAVAILABLE \<Rightarrow> ''PROVIDER_UNAVAILABLE'')"

text \<open>A confirmed attempt stays confirmed; anything else waits for somebody to look at it.\<close>

definition reviewed :: "bool \<Rightarrow> PaymentIncidentType \<Rightarrow> string option \<Rightarrow> paymentAttempt \<Rightarrow> paymentAttempt" where
  "reviewed confirmed ty txNo r =
     (if confirmed then r\<lparr>a_nextReconcileAt := None, a_lockedAt := None\<rparr>
      else r\<lparr>a_status := Attempt_REQUIRES_REVIEW, a_transactionNo := txNo, a_failureCode := Some (incidentTypeName ty),
        a_completedAt := None, a_nextReconcileAt := None, a_lockedAt := None\<rparr>)"

definition markPaymentReview :: "time \<Rightarrow> paymentAttempt \<Rightarrow> PaymentIncidentType \<Rightarrow> string option \<Rightarrow> db \<Rightarrow> db res" where
  "markPaymentReview now a ty txNo d =
     andThen (updateAttempt (a_id a) (reviewed (a_status a = Attempt_SUCCEEDED) ty txNo) d) (\<lambda>d1.
       Inr (addLog (a_createdById a) ''PAYMENT_RECONCILIATION_REQUIRED'' (a_id a)
         (enqueue ''payment'' ''PAYMENT_RECONCILIATION_REQUIRED'' (a_id a) [] now
           (openIncident ty (Attempt_incident ty (a_id a)) (a_id a) None d1))))"

section \<open>Creating an attempt\<close>

record attemptInput =
  ai_key :: string
  ai_provider :: "PaymentProvider option"
  ai_locale :: string
  ai_bankCode :: "string option"
  ai_close :: bool

text \<open>
  What is not in the database: which providers are configured, the request hash, the next
  reference (random, or payOS's sequence), the time to live in minutes, and the link service.
\<close>

record paymentEnv =
  ev_configured :: "PaymentProvider \<Rightarrow> bool"
  ev_hash :: "id \<times> PaymentProvider \<times> string \<times> string option \<times> bool \<Rightarrow> string"
  ev_reference :: string
  ev_ttlMinutes :: "PaymentProvider \<Rightarrow> int"
  ev_createUrl :: "paymentAttempt \<Rightarrow> attemptInput \<Rightarrow> string res"
  ev_linkId :: "string \<Rightarrow> string"

definition providerOf :: "attemptInput \<Rightarrow> PaymentProvider" where
  "providerOf i = (case ai_provider i of None \<Rightarrow> VNPAY | Some p \<Rightarrow> p)"

definition createRequestHash :: "paymentEnv \<Rightarrow> id \<Rightarrow> attemptInput \<Rightarrow> string" where
  "createRequestHash env vid i = ev_hash env (vid, providerOf i, ai_locale i, ai_bankCode i, ai_close i)"

definition assertIdempotentReplay :: "paymentAttempt \<Rightarrow> id \<Rightarrow> id \<Rightarrow> string \<Rightarrow> 'a res \<Rightarrow> 'a res" where
  "assertIdempotentReplay a vid emp h k =
     require (a_invoiceId a = vid \<and> a_createdById a = emp \<and> a_requestHash a = h)
       (Conflict ''idempotency key used for another payment'') k"

text \<open>In hundredths of a dong: MoMo takes whole amounts from 1,000 to 50,000,000, payOS safe integers.\<close>

definition providerAmount :: "PaymentProvider \<Rightarrow> money \<Rightarrow> bool" where
  "providerAmount p m \<longleftrightarrow>
     (case p of
        VNPAY \<Rightarrow> True
      | MOMO \<Rightarrow> m mod 100 = 0 \<and> 100000 \<le> m \<and> m \<le> 5000000000
      | PAYOS \<Rightarrow> m mod 100 = 0 \<and> 0 < m \<and> m \<le> 100 * (2 ^ 53 - 1))"

definition newAttempt :: "paymentEnv \<Rightarrow> id \<Rightarrow> id \<Rightarrow> id \<Rightarrow> money \<Rightarrow> attemptInput \<Rightarrow> time \<Rightarrow> paymentAttempt" where
  "newAttempt env vid emp shift amount i now =
     (let expiresAt = now + ev_ttlMinutes env (providerOf i) * 60 * 1000 in
      \<lparr>a_id = 0, a_provider = providerOf i, a_status = Attempt_PENDING, a_amount = amount, a_currency = ''VND'',
       a_merchantReference = ev_reference env, a_idempotencyKey = ai_key i, a_requestHash = createRequestHash env vid i,
       a_paymentUrl = None, a_linkId = None, a_transactionNo = None, a_failureCode = None, a_closeSession = ai_close i,
       a_createdAt = now, a_expiresAt = expiresAt, a_completedAt = None, a_nextReconcileAt = Some expiresAt,
       a_reconciliations = 0, a_lockedAt = None, a_invoiceId = vid, a_createdById = emp, a_shiftId = shift\<rparr>)"

definition noUnresolvedAttempt :: "id \<Rightarrow> db \<Rightarrow> bool" where
  "noUnresolvedAttempt vid d \<longleftrightarrow> (\<forall>a\<in>set (paymentAttempts d). \<not> (a_invoiceId a = vid \<and> unresolvedAttempt (a_status a)))"

text \<open>The transaction of \<open>createAttempt\<close>: a replay, or a new attempt for an unpaid invoice.\<close>

definition createAttemptTx ::
  "paymentEnv \<Rightarrow> id \<Rightarrow> id \<Rightarrow> attemptInput \<Rightarrow> time \<Rightarrow> db \<Rightarrow> (paymentAttempt \<times> db) res"
where
  "createAttemptTx env vid emp i now d =
     require (activeEmployee emp d) (Unauthorized ''employee'')
     (case attemptByKey d emp (ai_key i) of
        Some a \<Rightarrow> assertIdempotentReplay a vid emp (createRequestHash env vid i) (Inr (a, d))
      | None \<Rightarrow>
          fetch (findInvoice d vid) (NotFound ''invoice'') (\<lambda>v.
          (case findSession d (v_sessionId v) of None \<Rightarrow> (\<lambda>k. k) | Some s \<Rightarrow> assertPosOrderMutationAllowed (s_online s))
          (require (v_status v = Pay_UNPAID) (Conflict ''only unpaid invoices'')
          (require (providerAmount (providerOf i) (v_total v)) (BadRequest ''provider amount'')
          (require (noUnresolvedAttempt vid d) (Conflict ''unresolved payment attempt'')
          (andThen (requireOpenShift emp d) (\<lambda>shift.
           andThen (reserveInvoiceStock vid now d) (\<lambda>d1.
           andThen (insertAttempt (newAttempt env vid emp (fst shift) (v_total v) i now) d1) (\<lambda>ad.
           Inr (fst ad, addLog emp ''PAYMENT_ATTEMPT_CREATED'' (a_id (fst ad)) (snd ad)))))))))))"

section \<open>The payment link\<close>

definition payable :: "time \<Rightarrow> paymentAttempt \<Rightarrow> PaymentStatus \<Rightarrow> bool" where
  "payable now a st \<longleftrightarrow> a_status a = Attempt_PENDING \<and> now < a_expiresAt a \<and> st = Pay_UNPAID"

definition invoiceStatus :: "db \<Rightarrow> id \<Rightarrow> PaymentStatus option" where
  "invoiceStatus d vid = map_option v_status (findInvoice d vid)"

definition linked :: "paymentEnv \<Rightarrow> string \<Rightarrow> paymentAttempt \<Rightarrow> paymentAttempt" where
  "linked env url a =
     a\<lparr>a_paymentUrl := Some url, a_linkId := (if a_provider a = PAYOS then Some (ev_linkId env url) else a_linkId a)\<rparr>"

definition linkGuard :: "time \<Rightarrow> db \<Rightarrow> id \<Rightarrow> paymentAttempt \<Rightarrow> bool" where
  "linkGuard now d i r \<longleftrightarrow> a_id r = i \<and> a_status r = Attempt_PENDING \<and> now < a_expiresAt r \<and> a_paymentUrl r = None \<and>
     invoiceStatus d (a_invoiceId r) = Some Pay_UNPAID"

definition persistLink :: "paymentEnv \<Rightarrow> string \<Rightarrow> id \<Rightarrow> time \<Rightarrow> db \<Rightarrow> (bool \<times> db) res" where
  "persistLink env url i now d =
     andThen (updateAttempts (linkGuard now d i) (linked env url) d) (\<lambda>d1.
       Inr (cnt (linkGuard now d i) (paymentAttempts d) = 1, d1))"

text \<open>\<open>a\<close> and \<open>st\<close> are the attempt and the status of its invoice as they were read before the link was asked for.\<close>

definition presentAttempt ::
  "paymentEnv \<Rightarrow> paymentAttempt \<Rightarrow> PaymentStatus \<Rightarrow> attemptInput \<Rightarrow> time \<Rightarrow> db \<Rightarrow> (paymentAttempt \<times> db) res"
where
  "presentAttempt env a st i now d =
     (if \<not> payable now a st then Inr (a\<lparr>a_paymentUrl := None\<rparr>, d)
      else if a_paymentUrl a \<noteq> None then Inr (a, d)
      else andThen (ev_createUrl env a i) (\<lambda>url.
           andThen (persistLink env url (a_id a) now d) (\<lambda>pd.
           if fst pd then Inr (linked env url a, snd pd)
           else fetch (attemptById d (a_id a)) (NotFound ''payment attempt'') (\<lambda>current.
             Inr (if invoiceStatus d (a_invoiceId current) = Some Pay_UNPAID \<and> payable now current Pay_UNPAID then current
                  else current\<lparr>a_paymentUrl := None\<rparr>, snd pd)))))"

definition expireRow :: "time \<Rightarrow> paymentAttempt \<Rightarrow> paymentAttempt" where
  "expireRow now a = a\<lparr>a_status := Attempt_EXPIRED, a_completedAt := Some now, a_nextReconcileAt := Some now\<rparr>"

text \<open>\<open>a\<close> was read before, so it may no longer be pending.\<close>

definition expireAttempt :: "id \<Rightarrow> time \<Rightarrow> db \<Rightarrow> db" where
  "expireAttempt i now d =
     d\<lparr>paymentAttempts := upd (\<lambda>r. a_id r = i \<and> a_status r = Attempt_PENDING) (expireRow now) (paymentAttempts d)\<rparr>"

definition presentCurrent :: "paymentEnv \<Rightarrow> paymentAttempt \<Rightarrow> attemptInput \<Rightarrow> time \<Rightarrow> db \<Rightarrow> (paymentAttempt \<times> db) res" where
  "presentCurrent env a i now d =
     fetch (invoiceStatus d (a_invoiceId a)) (NotFound ''invoice'') (\<lambda>st. presentAttempt env a st i now d)"

definition resolveExistingAttempt ::
  "paymentEnv \<Rightarrow> paymentAttempt \<Rightarrow> id \<Rightarrow> id \<Rightarrow> attemptInput \<Rightarrow> time \<Rightarrow> db \<Rightarrow> (paymentAttempt \<times> db) res"
where
  "resolveExistingAttempt env a vid emp i now d =
     assertIdempotentReplay a vid emp (createRequestHash env vid i)
     (if a_status a = Attempt_PENDING \<and> a_expiresAt a \<le> now
      then if cnt (\<lambda>r. a_id r = a_id a \<and> a_status r = Attempt_PENDING) (paymentAttempts d) = 1
           then Inr ((expireRow now a)\<lparr>a_paymentUrl := None\<rparr>, expireAttempt (a_id a) now d)
           else fetch (attemptById d (a_id a)) (NotFound ''payment attempt'') (\<lambda>current.
             presentCurrent env (current\<lparr>a_paymentUrl := None, a_linkId := None\<rparr>) i now d)
      else presentCurrent env a i now d)"

text \<open>
  The whole call when nothing else commits meanwhile. When another call wins the race for the key,
  the insertion fails and the call goes on with \<open>resolveExistingAttempt\<close> on the other's row.
\<close>

definition createAttempt ::
  "paymentEnv \<Rightarrow> id \<Rightarrow> id \<Rightarrow> attemptInput \<Rightarrow> time \<Rightarrow> db \<Rightarrow> (paymentAttempt \<times> db) res"
where
  "createAttempt env vid emp i now d =
     require (ev_configured env (providerOf i)) (BadRequest ''provider not configured'')
     (require (providerOf i = VNPAY \<or> ai_bankCode i = None) (BadRequest ''only VNPay supports bankCode'')
     (case attemptByKey d emp (ai_key i) of
        Some a \<Rightarrow> resolveExistingAttempt env a vid emp i now d
      | None \<Rightarrow> andThen (createAttemptTx env vid emp i now d) (\<lambda>ad. presentCurrent env (fst ad) i now (snd ad))))"

section \<open>Reading\<close>

definition hideLink :: "paymentAttempt \<Rightarrow> paymentAttempt" where
  "hideLink a = a\<lparr>a_paymentUrl := None, a_linkId := None\<rparr>"

definition findAttempts ::
  "id \<Rightarrow> PaymentProvider option \<Rightarrow> PaymentAttemptStatus option \<Rightarrow> nat \<Rightarrow> nat \<Rightarrow> db \<Rightarrow> (nat \<times> paymentAttempt list) res"
where
  "findAttempts vid p st page itemPerPage d =
     fetch (findInvoice d vid) (NotFound ''invoice'') (\<lambda>_.
       let rows = filter (\<lambda>a. a_invoiceId a = vid \<and> (p = None \<or> p = Some (a_provider a)) \<and> (st = None \<or> st = Some (a_status a)))
             (paymentAttempts d)
       in Inr (length rows, map hideLink (pageOf page itemPerPage (rev (sort_key a_createdAt (sort_key a_id rows))))))"

definition findAttempt :: "id \<Rightarrow> db \<Rightarrow> paymentAttempt res" where
  "findAttempt i d = fetch (attemptById d i) (NotFound ''payment attempt'') (\<lambda>a. Inr (hideLink a))"

definition recoverPaymentLink :: "id \<Rightarrow> time \<Rightarrow> db \<Rightarrow> paymentAttempt res" where
  "recoverPaymentLink i now d =
     fetch (attemptById d i) (NotFound ''payment attempt'') (\<lambda>a.
     require (invoiceStatus d (a_invoiceId a) = Some Pay_UNPAID \<and> payable now a Pay_UNPAID \<and> a_paymentUrl a \<noteq> None)
       (Conflict ''PAYMENT_LINK_UNAVAILABLE'') (Inr a))"

end
