(* ===== verification/Payment_Webhooks.thy ===== *)
theory Payment_Webhooks
  imports Payments
begin

text \<open>
  The notifications of the payment providers (\<open>src/app/payments/payments.service.ts\<close>): VNPay's
  IPN, MoMo's IPN and payOS's webhook. A handler gets the verified fields, or \<open>None\<close> when the
  signature is wrong; it runs in one serializable transaction.
\<close>

section \<open>Fields\<close>

text \<open>\<open>x || null\<close> on a string.\<close>

definition nonEmpty :: "string option \<Rightarrow> string option" where
  "nonEmpty x = (if x = Some '''' then None else x)"

definition numeral_text :: "string \<Rightarrow> bool" where
  "numeral_text s \<longleftrightarrow> s \<noteq> [] \<and> list_all (\<lambda>c. (48 :: nat) \<le> of_char c \<and> (of_char c :: nat) \<le> 57) s"

record vnpayCallback =
  vn_payloadHash :: string
  vn_txnRef :: "string option"
  vn_amount :: "string option"
  vn_transactionNo :: "string option"
  vn_responseCode :: "string option"
  vn_transactionStatus :: "string option"

definition vnpaySucceeded :: "vnpayCallback \<Rightarrow> bool" where
  "vnpaySucceeded n \<longleftrightarrow> vn_responseCode n = Some ''00'' \<and> vn_transactionStatus n = Some ''00''"

definition vnpayTransactionNo :: "vnpayCallback \<Rightarrow> string option" where
  "vnpayTransactionNo n = (if nonEmpty (vn_transactionNo n) = Some ''0'' then None else nonEmpty (vn_transactionNo n))"

definition vnpayFinalFailure :: "string option \<Rightarrow> string option \<Rightarrow> bool" where
  "vnpayFinalFailure responseCode transactionStatus \<longleftrightarrow>
     transactionStatus \<in> Some ` set [''02'', ''08'', ''11''] \<and>
     responseCode \<in> Some ` set [''00'', ''09'', ''10'', ''11'', ''12'', ''13'', ''24'', ''51'', ''65'', ''75'', ''79'']"

text \<open>Whole dong; \<open>transId\<close> is not positive until MoMo has made the transaction.\<close>

record momoCallback =
  mo_payloadHash :: string
  mo_orderId :: string
  mo_orderInfo :: string
  mo_extraData :: string
  mo_amount :: int
  mo_resultCode :: int
  mo_transId :: int

definition momoFinalFailure :: "int \<Rightarrow> bool" where
  "momoFinalFailure code \<longleftrightarrow>
     code \<in> set [98, 99, 1001, 1002, 1003, 1004, 1005, 1006, 1007, 1017, 1026, 4001, 4002, 4100]"

definition intText :: "int \<Rightarrow> string" where
  "intText n = (if n < 0 then CHR ''-'' # digits (nat (- n)) else digits (nat n))"

definition momoTransactionNo :: "momoCallback \<Rightarrow> string option" where
  "momoTransactionNo n = (if 0 < mo_transId n then Some (intText (mo_transId n)) else None)"

record payosCallback =
  po_payloadHash :: string
  po_orderCode :: nat
  po_code :: string
  po_currency :: string
  po_paymentLinkId :: string

section \<open>Closing an attempt\<close>

definition failedRow :: "time \<Rightarrow> string option \<Rightarrow> string \<Rightarrow> paymentAttempt \<Rightarrow> paymentAttempt" where
  "failedRow now txNo code r =
     r\<lparr>a_status := Attempt_FAILED, a_transactionNo := txNo, a_failureCode := Some code, a_completedAt := Some now,
       a_nextReconcileAt := None, a_lockedAt := None\<rparr>"

definition succeededRow :: "time \<Rightarrow> string \<Rightarrow> paymentAttempt \<Rightarrow> paymentAttempt" where
  "succeededRow now txNo r =
     r\<lparr>a_status := Attempt_SUCCEEDED, a_transactionNo := Some txNo, a_failureCode := None, a_completedAt := Some now,
       a_nextReconcileAt := None, a_lockedAt := None\<rparr>"

definition rival :: "paymentAttempt \<Rightarrow> paymentAttempt \<Rightarrow> bool" where
  "rival a r \<longleftrightarrow> a_invoiceId r = a_invoiceId a \<and> a_id r \<noteq> a_id a \<and> a_status r = Attempt_PENDING"

text \<open>VNPay's handler also clears the lock of the attempts it supersedes.\<close>

definition supersededRow :: "time \<Rightarrow> bool \<Rightarrow> paymentAttempt \<Rightarrow> paymentAttempt" where
  "supersededRow now unlock r =
     r\<lparr>a_status := Attempt_FAILED, a_failureCode := Some ''SUPERSEDED'', a_completedAt := Some now,
       a_nextReconcileAt := None, a_lockedAt := (if unlock then None else a_lockedAt r)\<rparr>"

text \<open>The invoice is paid, the attempt confirmed, and pending attempts for the same invoice give way.\<close>

definition confirmPayment :: "time \<Rightarrow> bool \<Rightarrow> paymentAttempt \<Rightarrow> string \<Rightarrow> db \<Rightarrow> db res" where
  "confirmPayment now unlock a txNo d =
     andThen (completeOnlinePayment (a_invoiceId a) (a_createdById a) (a_shiftId a) (a_closeSession a) now d) (\<lambda>d1.
     andThen (updateAttempt (a_id a) (succeededRow now txNo) d1) (\<lambda>d2.
     updateAttempts (rival a) (supersededRow now unlock) d2))"

section \<open>VNPay\<close>

datatype vnpayResponse =
  Rsp_SUCCESS | Rsp_NOT_FOUND | Rsp_ALREADY_CONFIRMED | Rsp_INVALID_AMOUNT | Rsp_INVALID_SIGNATURE | Rsp_UNKNOWN_ERROR

definition reviewIf :: "bool \<Rightarrow> time \<Rightarrow> paymentAttempt \<Rightarrow> PaymentIncidentType \<Rightarrow> string option \<Rightarrow> db \<Rightarrow> db res" where
  "reviewIf b now a ty txNo d = (if b then markPaymentReview now a ty txNo d else Inr d)"

text \<open>The provider says an attempt whose invoice is still unpaid succeeded, or that it did not.\<close>

definition settleVnpay :: "time \<Rightarrow> vnpayCallback \<Rightarrow> paymentAttempt \<Rightarrow> id \<Rightarrow> db \<Rightarrow> (vnpayResponse \<times> db) res" where
  "settleVnpay now n a ev d =
     (case vnpayTransactionNo n of
        None \<Rightarrow> andThen (markPaymentReview now a PROVIDER_PAYMENT_MISMATCH None d) (\<lambda>d1.
          Inr (Rsp_UNKNOWN_ERROR, completeWebhook ev ''99'' d1))
      | Some txNo \<Rightarrow> andThen (confirmPayment now True a txNo d) (\<lambda>d1.
          Inr (Rsp_SUCCESS, addLog (a_createdById a) ''VNPAY_PAYMENT_SUCCEEDED'' (a_id a) (completeWebhook ev ''00'' d1))))"

definition failVnpay :: "time \<Rightarrow> vnpayCallback \<Rightarrow> paymentAttempt \<Rightarrow> id \<Rightarrow> db \<Rightarrow> (vnpayResponse \<times> db) res" where
  "failVnpay now n a ev d =
     (if \<not> vnpayFinalFailure (vn_responseCode n) (vn_transactionStatus n)
      then andThen (markPaymentReview now a PROVIDER_PAYMENT_MISMATCH (vnpayTransactionNo n) d) (\<lambda>d1.
        Inr (Rsp_SUCCESS, completeWebhook ev ''REQUIRES_REVIEW'' d1))
      else andThen (updateAttempt (a_id a) (failedRow now (vnpayTransactionNo n)
             (orElse (nonEmpty (vn_responseCode n)) ''UNKNOWN_FAILURE'')) d) (\<lambda>d1.
        Inr (Rsp_SUCCESS, addLog (a_createdById a) ''VNPAY_PAYMENT_FAILED'' (a_id a) (completeWebhook ev ''00'' d1))))"

definition processVnpayIpn :: "time \<Rightarrow> vnpayCallback \<Rightarrow> string \<Rightarrow> money \<Rightarrow> db \<Rightarrow> (vnpayResponse \<times> db) res" where
  "processVnpayIpn now n ref amount d =
     (let attempt = attemptByReference d ref; ok = vnpaySucceeded n; txNo = vnpayTransactionNo n in
      andThen (createWebhook VNPAY (vn_payloadHash n) (map_option a_id attempt) d) (\<lambda>ed.
      let ev = fst ed; d0 = snd ed; stop = (\<lambda>rsp code d. Inr (rsp, completeWebhook ev code d)) in
      case attempt of
        None \<Rightarrow> stop Rsp_NOT_FOUND ''01'' d0
      | Some a \<Rightarrow>
          if a_provider a \<noteq> VNPAY then stop Rsp_NOT_FOUND ''01'' d0
          else if a_amount a \<noteq> amount
          then andThen (reviewIf ok now a PROVIDER_PAYMENT_MISMATCH txNo d0) (stop Rsp_INVALID_AMOUNT ''04'')
          else if a_status a = Attempt_SUCCEEDED
          then andThen (reviewIf (ok \<and> txNo \<noteq> a_transactionNo a) now a PAYMENT_STATE_CONFLICT txNo d0)
                 (stop Rsp_ALREADY_CONFIRMED ''02'')
          else if a_status a = Attempt_REQUIRES_REVIEW then stop Rsp_ALREADY_CONFIRMED ''02_REQUIRES_REVIEW'' d0
          else fetch (invoiceStatus d0 (a_invoiceId a)) (NotFound ''invoice'') (\<lambda>st.
            if st \<noteq> Pay_UNPAID
            then andThen (reviewIf ok now a PAYMENT_STATE_CONFLICT txNo d0)
                   (stop Rsp_ALREADY_CONFIRMED (if ok then ''02_PAYMENT_STATE_CONFLICT'' else ''02''))
            else if ok then settleVnpay now n a ev d0
            else failVnpay now n a ev d0)))"

text \<open>Any error but a replayed payload leaves the database as it was and is answered with code 99.\<close>

definition handleVnpayIpn :: "time \<Rightarrow> vnpayCallback option \<Rightarrow> db \<Rightarrow> vnpayResponse \<times> db" where
  "handleVnpayIpn now verified d =
     (case verified of
        None \<Rightarrow> (Rsp_INVALID_SIGNATURE, d)
      | Some n \<Rightarrow>
          (case (nonEmpty (vn_txnRef n), vn_amount n) of
             (Some ref, Some raw) \<Rightarrow>
               if \<not> numeral_text raw then (Rsp_UNKNOWN_ERROR, d)
               else (case processVnpayIpn now n ref (int (textValue raw)) d of
                 Inr r \<Rightarrow> r
               | Inl e \<Rightarrow> (if e = UniqueViolation ''payloadHash'' then Rsp_ALREADY_CONFIRMED else Rsp_UNKNOWN_ERROR, d))
           | _ \<Rightarrow> (Rsp_UNKNOWN_ERROR, d)))"

section \<open>MoMo\<close>

definition momoReference :: "momoCallback \<Rightarrow> paymentAttempt \<Rightarrow> string \<Rightarrow> bool" where
  "momoReference n a number \<longleftrightarrow>
     mo_extraData n = '''' \<and> mo_orderInfo n = take 255 (''Thanh toan hoa don '' @ number) \<and>
     a_amount a = 100 * mo_amount n \<and> a_currency a = ''VND''"

definition settleMomo :: "time \<Rightarrow> momoCallback \<Rightarrow> paymentAttempt \<Rightarrow> id \<Rightarrow> db \<Rightarrow> db res" where
  "settleMomo now n a ev d =
     (if mo_resultCode n \<noteq> 0
      then andThen (updateAttempt (a_id a) (\<lambda>r. failedRow now (a_transactionNo r) (''MOMO_'' @ intText (mo_resultCode n)) r) d)
             (\<lambda>d1. Inr (completeWebhook ev ''FAILED'' d1))
      else andThen (confirmPayment now False a (intText (mo_transId n)) d) (\<lambda>d1.
        Inr (addLog (a_createdById a) ''MOMO_PAYMENT_SUCCEEDED'' (a_id a) (completeWebhook ev ''SUCCEEDED'' d1))))"

definition processMomoIpn :: "time \<Rightarrow> momoCallback \<Rightarrow> db \<Rightarrow> db res" where
  "processMomoIpn now n d =
     (let attempt = attemptByReference d (mo_orderId n); ok = (mo_resultCode n = 0) in
      andThen (createWebhook MOMO (mo_payloadHash n) (map_option a_id attempt) d) (\<lambda>ed.
      let ev = fst ed; d0 = snd ed; stop = (\<lambda>code d. Inr (completeWebhook ev code d)) in
      case attempt of
        None \<Rightarrow> stop ''NOT_FOUND'' d0
      | Some a \<Rightarrow>
          if a_provider a \<noteq> MOMO then stop ''NOT_FOUND'' d0
          else fetch (findInvoice d0 (a_invoiceId a)) (NotFound ''invoice'') (\<lambda>v.
            if \<not> momoReference n a (v_number v) \<or> ok \<and> mo_transId n \<le> 0
            then andThen (markPaymentReview now a PROVIDER_PAYMENT_MISMATCH (momoTransactionNo n) d0) (stop ''MISMATCH'')
            else if \<not> ok \<and> \<not> momoFinalFailure (mo_resultCode n) then stop ''PENDING'' d0
            else if a_status a = Attempt_SUCCEEDED
            then andThen (reviewIf (ok \<and> a_transactionNo a \<noteq> Some (intText (mo_transId n))) now a PAYMENT_STATE_CONFLICT
                     (momoTransactionNo n) d0)
                   (stop (if ok then ''ALREADY_CONFIRMED'' else ''STALE_FAILURE''))
            else if a_status a = Attempt_REQUIRES_REVIEW then stop ''REQUIRES_REVIEW'' d0
            else if v_status v \<noteq> Pay_UNPAID
            then andThen (reviewIf ok now a PAYMENT_STATE_CONFLICT (Some (intText (mo_transId n))) d0)
                   (stop ''PAYMENT_STATE_CONFLICT'')
            else settleMomo now n a ev d0)))"

definition handleMomoIpn :: "time \<Rightarrow> momoCallback option \<Rightarrow> db \<Rightarrow> db res" where
  "handleMomoIpn now verified d =
     fetch verified (BadRequest ''invalid MoMo notification'') (\<lambda>n.
       case processMomoIpn now n d of Inr d' \<Rightarrow> Inr d' | Inl e \<Rightarrow> if e = UniqueViolation ''payloadHash'' then Inr d else Inl e)"

section \<open>payOS\<close>

text \<open>payOS's webhook only asks for a reconciliation, through the outbox.\<close>

definition processPayosWebhook :: "time \<Rightarrow> payosCallback \<Rightarrow> db \<Rightarrow> db res" where
  "processPayosWebhook now n d =
     (case attemptByReference d (digits (po_orderCode n)) of
        None \<Rightarrow> Inr d
      | Some a \<Rightarrow>
          if a_provider a \<noteq> PAYOS then Inr d
          else andThen (createWebhook PAYOS (po_payloadHash n) (Some (a_id a)) d) (\<lambda>ed.
            let ev = fst ed; d0 = snd ed in
            if po_code n \<noteq> ''00'' then Inr (completeWebhook ev ''IGNORED'' d0)
            else if po_currency n \<noteq> ''VND'' \<or> a_linkId a \<noteq> None \<and> a_linkId a \<noteq> Some (po_paymentLinkId n)
            then andThen (markPaymentReview now a PROVIDER_PAYMENT_MISMATCH None d0) (\<lambda>d1.
              Inr (completeWebhook ev ''MISMATCH'' d1))
            else andThen (updateAttempts (\<lambda>r. a_id r = a_id a \<and> (a_status r = Attempt_PENDING \<or> a_status r = Attempt_EXPIRED))
                   (\<lambda>r. r\<lparr>a_nextReconcileAt := Some now\<rparr>) d0) (\<lambda>d1.
              Inr (completeWebhook ev ''RECONCILIATION_QUEUED''
                (enqueue ''payment'' ''PAYOS_PAYMENT_NOTIFIED'' (a_id a) [] now d1)))))"

definition handlePayosWebhook :: "time \<Rightarrow> payosCallback option \<Rightarrow> db \<Rightarrow> db res" where
  "handlePayosWebhook now verified d =
     fetch verified (BadRequest ''invalid payOS notification'') (\<lambda>n.
       case processPayosWebhook now n d of Inr d' \<Rightarrow> Inr d' | Inl e \<Rightarrow> if e = UniqueViolation ''payloadHash'' then Inr d else Inl e)"

section \<open>The customer's return\<close>

text \<open>What the return page may show of an attempt: nothing without a valid signature, nothing of another provider.\<close>

definition inspectReturn :: "PaymentProvider \<Rightarrow> paymentAttempt option \<Rightarrow> paymentAttempt option" where
  "inspectReturn p found = (case found of None \<Rightarrow> None | Some a \<Rightarrow> if a_provider a = p then Some a else None)"

definition inspectVnpayReturn :: "bool \<Rightarrow> string option \<Rightarrow> db \<Rightarrow> bool \<times> paymentAttempt option" where
  "inspectVnpayReturn valid ref d =
     (valid, inspectReturn VNPAY
        (case nonEmpty (if valid then ref else None) of None \<Rightarrow> None | Some r \<Rightarrow> attemptByReference d r))"

definition inspectMomoReturn :: "momoCallback option \<Rightarrow> db \<Rightarrow> bool \<times> paymentAttempt option" where
  "inspectMomoReturn verified d =
     (verified \<noteq> None, inspectReturn MOMO (case verified of None \<Rightarrow> None | Some n \<Rightarrow> attemptByReference d (mo_orderId n)))"

definition inspectPayosReturn :: "id option \<Rightarrow> db \<Rightarrow> bool \<times> paymentAttempt option" where
  "inspectPayosReturn verified d =
     (verified \<noteq> None, inspectReturn PAYOS (case verified of None \<Rightarrow> None | Some i \<Rightarrow> attemptById d i))"

end
