(* ===== verification/Payment_Reconciliation.thy ===== *)
theory Payment_Reconciliation
  imports Payment_Webhooks
begin

text \<open>
  Asking the providers (\<open>src/app/payments/payment-reconciliation.service.ts\<close>): which attempts are
  due, the lock on an attempt, what each provider's answer does to it, backoff and review, and the
  incidents a manager closes. A query is a sequence of transactions: claim, record the request,
  and apply the answer to the row as it is then; the answer, or the failure, is an argument.
\<close>

section \<open>Constants and locks\<close>

definition RECONCILE_BATCH_SIZE :: nat where "RECONCILE_BATCH_SIZE = 25"
definition MAX_QUERY_ATTEMPTS :: nat where "MAX_QUERY_ATTEMPTS = 5"
definition RECONCILE_LOCK_TIMEOUT_MS :: int where "RECONCILE_LOCK_TIMEOUT_MS = 600000"
definition RETRY_BASE_MS :: int where "RETRY_BASE_MS = 60000"

definition unlockedFor :: "time \<Rightarrow> paymentAttempt \<Rightarrow> bool" where
  "unlockedFor now a \<longleftrightarrow> (case a_lockedAt a of None \<Rightarrow> True | Some t \<Rightarrow> t < now - RECONCILE_LOCK_TIMEOUT_MS)"

definition reconcileDueNow :: "time \<Rightarrow> paymentAttempt \<Rightarrow> bool" where
  "reconcileDueNow now a \<longleftrightarrow> (a_status a = Attempt_PENDING \<or> a_status a = Attempt_EXPIRED) \<and>
     (case a_nextReconcileAt a of None \<Rightarrow> False | Some t \<Rightarrow> t \<le> now)"

definition claimGuard :: "bool \<Rightarrow> time \<Rightarrow> id \<Rightarrow> paymentAttempt \<Rightarrow> bool" where
  "claimGuard dueOnly now i a \<longleftrightarrow> a_id a = i \<and> (dueOnly \<longrightarrow> reconcileDueNow now a) \<and> unlockedFor now a"

definition claimAttempt :: "bool \<Rightarrow> time \<Rightarrow> id \<Rightarrow> db \<Rightarrow> bool \<times> db" where
  "claimAttempt dueOnly now i d =
     (cnt (claimGuard dueOnly now i) (paymentAttempts d) = 1,
      d\<lparr>paymentAttempts := upd (claimGuard dueOnly now i) (\<lambda>a. a\<lparr>a_lockedAt := Some now\<rparr>) (paymentAttempts d)\<rparr>)"

definition releaseAttempt :: "id \<Rightarrow> db \<Rightarrow> db" where
  "releaseAttempt i d = d\<lparr>paymentAttempts := upd (\<lambda>a. a_id a = i) (\<lambda>a. a\<lparr>a_lockedAt := None\<rparr>) (paymentAttempts d)\<rparr>"

definition dueAttempts :: "time \<Rightarrow> db \<Rightarrow> id list" where
  "dueAttempts now d =
     take RECONCILE_BATCH_SIZE (map a_id
       (sort_key (\<lambda>a. case a_nextReconcileAt a of None \<Rightarrow> 0 | Some t \<Rightarrow> t)
         (sort_key a_id (filter (\<lambda>a. reconcileDueNow now a \<and> unlockedFor now a) (paymentAttempts d)))))"

section \<open>Provider requests\<close>

definition createProviderRequest :: "PaymentProviderRequestType \<Rightarrow> id \<Rightarrow> id option \<Rightarrow> db \<Rightarrow> id \<times> db" where
  "createProviderRequest ty a r d =
     (nextId d, d\<lparr>nextId := Suc (nextId d), providerRequests := providerRequests d @
        [\<lparr>rq_id = nextId d, rq_type = ty, rq_status = Request_PENDING, rq_attemptId = a, rq_refundId = r\<rparr>]\<rparr>)"

definition setRequest :: "id \<Rightarrow> PaymentProviderRequestStatus \<Rightarrow> db \<Rightarrow> db" where
  "setRequest i st d =
     d\<lparr>providerRequests := upd (\<lambda>q. rq_id q = i) (\<lambda>q. q\<lparr>rq_status := st\<rparr>) (providerRequests d)\<rparr>"

section \<open>What an answer does\<close>

definition currentAttempt :: "id \<Rightarrow> db \<Rightarrow> (paymentAttempt \<Rightarrow> invoice \<Rightarrow> 'a res) \<Rightarrow> 'a res" where
  "currentAttempt i d k =
     fetch (attemptById d i) (NotFound ''payment attempt'') (\<lambda>a. fetch (findInvoice d (a_invoiceId a)) (NotFound ''invoice'') (k a))"

definition reviewedAgain :: "bool \<Rightarrow> PaymentIncidentType \<Rightarrow> paymentAttempt \<Rightarrow> paymentAttempt" where
  "reviewedAgain confirmed ty r =
     (let r' = (if confirmed then r
        else r\<lparr>a_status := Attempt_REQUIRES_REVIEW, a_completedAt := None, a_failureCode := Some (incidentTypeName ty)\<rparr>)
      in r'\<lparr>a_nextReconcileAt := None, a_lockedAt := None, a_reconciliations := Suc (a_reconciliations r')\<rparr>)"

definition enqueueAttempt :: "string \<Rightarrow> time \<Rightarrow> paymentAttempt \<Rightarrow> db \<Rightarrow> db" where
  "enqueueAttempt ev now a d = enqueue ''payment'' ev (a_id a) [] now d"

definition markForReview :: "time \<Rightarrow> paymentAttempt \<Rightarrow> PaymentIncidentType \<Rightarrow> db \<Rightarrow> db res" where
  "markForReview now a ty d =
     andThen (updateAttempt (a_id a) (reviewedAgain (a_status a = Attempt_SUCCEEDED) ty) d) (\<lambda>d1.
       Inr (enqueueAttempt ''PAYMENT_RECONCILIATION_REQUIRED'' now a
         (openIncident ty (Attempt_incident ty (a_id a)) (a_id a) None d1)))"

text \<open>A confirmed payment settles what was only unavailable or stale.\<close>

definition autoResolveIncidents :: "id \<Rightarrow> db \<Rightarrow> db" where
  "autoResolveIncidents i d =
     d\<lparr>incidents := upd (\<lambda>x. in_attemptId x = i \<and> in_refundId x = None \<and> in_status x = Incident_OPEN \<and>
            (in_type x = STALE_ATTEMPT \<or> in_type x = PROVIDER_UNAVAILABLE))
          (\<lambda>x. x\<lparr>in_status := Incident_RESOLVED\<rparr>) (incidents d)\<rparr>"

definition settledRow :: "paymentAttempt \<Rightarrow> paymentAttempt" where
  "settledRow r = r\<lparr>a_nextReconcileAt := None, a_lockedAt := None, a_reconciliations := Suc (a_reconciliations r)\<rparr>"

text \<open>A payOS payment also keeps its number as the payment link.\<close>

definition reconciledRow :: "time \<Rightarrow> string \<Rightarrow> paymentAttempt \<Rightarrow> paymentAttempt" where
  "reconciledRow now txNo r =
     (succeededRow now txNo r)\<lparr>a_linkId := (if a_provider r = PAYOS then Some txNo else a_linkId r),
       a_reconciliations := Suc (a_reconciliations r)\<rparr>"

definition confirmProviderPayment ::
  "time \<Rightarrow> paymentAttempt \<Rightarrow> PaymentStatus \<Rightarrow> string option \<Rightarrow> id option \<Rightarrow> db \<Rightarrow> db res"
where
  "confirmProviderPayment now a st txNo emp d =
     (case (if nonEmpty txNo = Some ''0'' then None else nonEmpty txNo) of
        None \<Rightarrow> markForReview now a PROVIDER_PAYMENT_MISMATCH d
      | Some no \<Rightarrow>
          if a_status a = Attempt_SUCCEEDED
          then (if a_transactionNo a \<noteq> Some no then markForReview now a PROVIDER_PAYMENT_MISMATCH d
                else if \<not> paidStatus st then markForReview now a PAYMENT_STATE_CONFLICT d
                else andThen (updateAttempt (a_id a) settledRow d) (\<lambda>d1. Inr (autoResolveIncidents (a_id a) d1)))
          else if st \<noteq> Pay_UNPAID then markForReview now a PAYMENT_STATE_CONFLICT d
          else andThen (completeOnlinePayment (a_invoiceId a) (a_createdById a) (a_shiftId a) (a_closeSession a) now d) (\<lambda>d1.
               andThen (updateAttempt (a_id a) (reconciledRow now no) d1) (\<lambda>d2.
               Inr (enqueueAttempt ''PAYMENT_RECONCILED'' now a
                 (addLog (orElse emp (a_createdById a)) ''PAYMENT_RECONCILED'' (a_id a) (autoResolveIncidents (a_id a) d2))))))"

definition providerName :: "PaymentProvider \<Rightarrow> string" where
  "providerName p = (case p of VNPAY \<Rightarrow> ''VNPAY'' | MOMO \<Rightarrow> ''MOMO'' | PAYOS \<Rightarrow> ''PAYOS'')"

definition refusedRow :: "time \<Rightarrow> string \<Rightarrow> paymentAttempt \<Rightarrow> paymentAttempt" where
  "refusedRow now transactionStatus r =
     (failedRow now None (providerName (a_provider r) @ ''_'' @ transactionStatus) r)\<lparr>
       a_reconciliations := Suc (a_reconciliations r)\<rparr>"

definition confirmProviderFailure :: "time \<Rightarrow> paymentAttempt \<Rightarrow> PaymentStatus \<Rightarrow> string \<Rightarrow> db \<Rightarrow> db res" where
  "confirmProviderFailure now a st transactionStatus d =
     (if a_status a = Attempt_SUCCEEDED \<or> st \<noteq> Pay_UNPAID then markForReview now a PROVIDER_PAYMENT_MISMATCH d
      else andThen (updateAttempt (a_id a) (refusedRow now transactionStatus) d) (\<lambda>d1.
        Inr (enqueueAttempt ''PAYMENT_RECONCILED'' now a d1)))"

definition retriedRow :: "time \<Rightarrow> nat \<Rightarrow> paymentAttempt \<Rightarrow> paymentAttempt" where
  "retriedRow now attempts r =
     r\<lparr>a_nextReconcileAt := Some (now + RETRY_BASE_MS * 2 ^ (attempts - 1)), a_lockedAt := None, a_reconciliations := attempts\<rparr>"

definition rescheduleOrReview :: "time \<Rightarrow> paymentAttempt \<Rightarrow> PaymentIncidentType \<Rightarrow> db \<Rightarrow> db res" where
  "rescheduleOrReview now a ty d =
     (let attempts = Suc (a_reconciliations a) in
      if a_status a = Attempt_SUCCEEDED
      then andThen (updateAttempt (a_id a) (\<lambda>r. r\<lparr>a_nextReconcileAt := None, a_lockedAt := None, a_reconciliations := attempts\<rparr>) d)
             (\<lambda>d1. Inr (openIncident ty (Attempt_incident ty (a_id a)) (a_id a) None d1))
      else if MAX_QUERY_ATTEMPTS \<le> attempts then markForReview now a ty d
      else updateAttempt (a_id a) (retriedRow now attempts) d)"

section \<open>The answers\<close>

record vnpayAnswer =
  va_responseCode :: "string option"
  va_transactionStatus :: "string option"
  va_txnRef :: "string option"
  va_amount :: "string option"
  va_transactionType :: "string option"
  va_transactionNo :: "string option"

definition responseMismatch :: "paymentAttempt \<Rightarrow> vnpayAnswer \<Rightarrow> bool" where
  "responseMismatch a r \<longleftrightarrow>
     va_txnRef r \<noteq> Some (a_merchantReference a) \<or> va_transactionType r \<noteq> Some ''01'' \<or>
     (case va_amount r of None \<Rightarrow> True | Some raw \<Rightarrow> \<not> numeral_text raw \<or> int (textValue raw) \<noteq> a_amount a)"

definition applyVnpay :: "time \<Rightarrow> paymentAttempt \<Rightarrow> PaymentStatus \<Rightarrow> vnpayAnswer \<Rightarrow> id option \<Rightarrow> db \<Rightarrow> db res" where
  "applyVnpay now a st r emp d =
     (if va_responseCode r \<noteq> Some ''00'' then rescheduleOrReview now a PROVIDER_UNAVAILABLE d
      else if responseMismatch a r then markForReview now a PROVIDER_PAYMENT_MISMATCH d
      else if va_transactionStatus r = Some ''00'' then confirmProviderPayment now a st (va_transactionNo r) emp d
      else case nonEmpty (va_transactionStatus r) of
        Some ts \<Rightarrow>
          if vnpayFinalFailure (va_responseCode r) (Some ts) then confirmProviderFailure now a st ts d
          else if ts = ''04'' \<or> ts = ''07'' then markForReview now a PROVIDER_PAYMENT_MISMATCH d
          else rescheduleOrReview now a STALE_ATTEMPT d
      | None \<Rightarrow> rescheduleOrReview now a STALE_ATTEMPT d)"

record momoAnswer =
  ma_resultCode :: int
  ma_amount :: "int option"
  ma_transId :: "int option"

definition applyMomo :: "time \<Rightarrow> paymentAttempt \<Rightarrow> PaymentStatus \<Rightarrow> momoAnswer \<Rightarrow> id option \<Rightarrow> db \<Rightarrow> db res" where
  "applyMomo now a st r emp d =
     (if ma_resultCode r = 0
      then (case (ma_amount r, ma_transId r) of
          (Some amount, Some transId) \<Rightarrow>
            if a_amount a \<noteq> 100 * amount \<or> transId \<le> 0 \<or>
               (nonEmpty (a_transactionNo a) \<noteq> None \<and> a_transactionNo a \<noteq> Some (intText transId))
            then markForReview now a PROVIDER_PAYMENT_MISMATCH d
            else confirmProviderPayment now a st (Some (intText transId)) emp d
        | _ \<Rightarrow> markForReview now a PROVIDER_PAYMENT_MISMATCH d)
      else if momoFinalFailure (ma_resultCode r) then confirmProviderFailure now a st (intText (ma_resultCode r)) d
      else rescheduleOrReview now a STALE_ATTEMPT d)"

record payosAnswer =
  pa_id :: string
  pa_orderCode :: nat
  pa_amount :: int
  pa_amountPaid :: int
  pa_amountRemaining :: int
  pa_status :: string
  pa_transactions :: "(string \<times> int) list"

definition payosMismatch :: "paymentAttempt \<Rightarrow> money \<Rightarrow> payosAnswer \<Rightarrow> string option \<Rightarrow> bool" where
  "payosMismatch a invoiceTotal r link \<longleftrightarrow>
     a_currency a \<noteq> ''VND'' \<or> digits (pa_orderCode r) \<noteq> a_merchantReference a \<or> a_amount a \<noteq> 100 * pa_amount r \<or>
     a_amount a \<noteq> invoiceTotal \<or> pa_amount r < pa_amountPaid r \<or> pa_amountRemaining r \<noteq> pa_amount r - pa_amountPaid r \<or>
     sum_list (map snd (pa_transactions r)) \<noteq> pa_amountPaid r \<or> \<not> distinct (map fst (pa_transactions r)) \<or>
     (nonEmpty (a_linkId a) \<noteq> None \<and> a_linkId a \<noteq> Some (pa_id r)) \<or> (nonEmpty link \<noteq> None \<and> link \<noteq> Some (pa_id r))"

definition applyPayos ::
  "time \<Rightarrow> paymentAttempt \<Rightarrow> invoice \<Rightarrow> payosAnswer \<Rightarrow> string option \<Rightarrow> id option \<Rightarrow> db \<Rightarrow> db res"
where
  "applyPayos now a v r link emp d =
     (if payosMismatch a (v_total v) r link then markForReview now a PROVIDER_PAYMENT_MISMATCH d
      else if pa_status r = ''PAID''
      then (if a_amount a \<noteq> 100 * pa_amountPaid r then markForReview now a PROVIDER_PAYMENT_MISMATCH d
            else confirmProviderPayment now a (v_status v) (Some (pa_id r)) emp d)
      else if pa_status r \<in> set [''CANCELLED'', ''EXPIRED'', ''FAILED'']
      then (if 0 < pa_amountPaid r then markForReview now a PROVIDER_PAYMENT_MISMATCH d
            else confirmProviderFailure now a (v_status v) (pa_status r) d)
      else rescheduleOrReview now a STALE_ATTEMPT d)"

section \<open>One query\<close>

datatype providerAnswer = Vnpay_says vnpayAnswer | Momo_says momoAnswer | Payos_says payosAnswer | No_answer

text \<open>The transaction that applies an answer to the row as it is by then.\<close>

definition applyAnswer :: "time \<Rightarrow> providerAnswer \<Rightarrow> string option \<Rightarrow> id option \<Rightarrow> id \<Rightarrow> db \<Rightarrow> db res" where
  "applyAnswer now ans link emp i d =
     currentAttempt i d (\<lambda>a v.
       case ans of
         Vnpay_says r \<Rightarrow> applyVnpay now a (v_status v) r emp d
       | Momo_says r \<Rightarrow> applyMomo now a (v_status v) r emp d
       | Payos_says r \<Rightarrow> applyPayos now a v r link emp d
       | No_answer \<Rightarrow> rescheduleOrReview now a PROVIDER_UNAVAILABLE d)"

text \<open>A failed query is recorded in one transaction with its consequence; the lock of an attempt whose answer
  could not be applied is given back.\<close>

definition recordQueryFailure :: "time \<Rightarrow> id \<Rightarrow> id \<Rightarrow> db \<Rightarrow> db res" where
  "recordQueryFailure now i q d =
     (case attemptById d i of
        None \<Rightarrow> Inr (setRequest q Request_FAILED d)
      | Some a \<Rightarrow> rescheduleOrReview now a PROVIDER_UNAVAILABLE (setRequest q Request_FAILED d))"

definition finishQuery :: "time \<Rightarrow> providerAnswer \<Rightarrow> string option \<Rightarrow> id option \<Rightarrow> id \<Rightarrow> id \<Rightarrow> db \<Rightarrow> error option \<times> db" where
  "finishQuery now ans link emp i q d =
     (if ans = No_answer
      then (case recordQueryFailure now i q d of
          Inr d1 \<Rightarrow> (Some (BadRequest ''reconciliation request failed''), d1)
        | Inl e \<Rightarrow> (Some e, d))
      else let d1 = setRequest q Request_SUCCEEDED d in
        (case applyAnswer now ans link emp i d1 of
           Inr d2 \<Rightarrow> (None, d2)
         | Inl e \<Rightarrow> (Some e, releaseAttempt i d1)))"

text \<open>\<open>queryProvider\<close>: the provider answers in its own format.\<close>

definition answersFor :: "PaymentProvider \<Rightarrow> providerAnswer \<Rightarrow> bool" where
  "answersFor p ans =
     (case ans of Vnpay_says _ \<Rightarrow> p = VNPAY | Momo_says _ \<Rightarrow> p = MOMO | Payos_says _ \<Rightarrow> p = PAYOS | No_answer \<Rightarrow> True)"

definition queryProvider ::
  "time \<Rightarrow> (paymentAttempt \<Rightarrow> providerAnswer) \<Rightarrow> string option \<Rightarrow> id option \<Rightarrow> id \<Rightarrow> db \<Rightarrow> error option \<times> db"
where
  "queryProvider now ask link emp i d =
     (case attemptById d i of
        None \<Rightarrow> (Some (NotFound ''payment attempt''), d)
      | Some a \<Rightarrow> (let (q, d1) = createProviderRequest Request_QUERY i None d in finishQuery now (ask a) link emp i q d1))"

definition reconcileAttempt ::
  "(PaymentProvider \<Rightarrow> bool) \<Rightarrow> time \<Rightarrow> (paymentAttempt \<Rightarrow> providerAnswer) \<Rightarrow> id \<Rightarrow> id \<Rightarrow> db \<Rightarrow> error option \<times> db"
where
  "reconcileAttempt configured now ask i emp d =
     (case attemptById d i of
        None \<Rightarrow> (Some (NotFound ''payment attempt''), d)
      | Some a \<Rightarrow>
          if \<not> configured (a_provider a) then (Some (BadRequest ''provider not configured''), d)
          else let (claimed, d1) = claimAttempt False now i d in
            if claimed then queryProvider now ask None (Some emp) i d1
            else (Some (Conflict ''already being reconciled''), d1))"

text \<open>The listener on payOS's notifications.\<close>

definition onPayosNotified ::
  "time \<Rightarrow> (paymentAttempt \<Rightarrow> providerAnswer) \<Rightarrow> id \<Rightarrow> string \<Rightarrow> db \<Rightarrow> error option \<times> db"
where
  "onPayosNotified now ask i link d =
     (case attemptById d i of
        None \<Rightarrow> (None, d)
      | Some a \<Rightarrow>
          if a_provider a \<noteq> PAYOS \<or> a_status a = Attempt_REQUIRES_REVIEW then (None, d)
          else let (claimed, d1) = claimAttempt False now i d in
            if claimed then queryProvider now ask (Some link) None i d1
            else (Some (Conflict ''reconciliation is already in progress''), d1))"

text \<open>
  The scheduled run: at most 25 due attempts, oldest first, each claimed again before it is
  queried. (The service works on three at a time; each of them is the transactions above.)
\<close>

definition reconcileOne :: "time \<Rightarrow> (paymentAttempt \<Rightarrow> providerAnswer) \<Rightarrow> db \<Rightarrow> id \<Rightarrow> db" where
  "reconcileOne now ask d i =
     (let (claimed, d1) = claimAttempt True now i d
      in if claimed then snd (queryProvider now ask None None i d1) else d1)"

definition reconcileDueAttempts :: "time \<Rightarrow> (paymentAttempt \<Rightarrow> providerAnswer) \<Rightarrow> db \<Rightarrow> db" where
  "reconcileDueAttempts now ask d = foldl (reconcileOne now ask) d (dueAttempts now d)"

section \<open>Incidents\<close>

datatype incidentAction = Resolve | Ignore

definition stillOpenState :: "incident \<Rightarrow> db \<Rightarrow> bool" where
  "stillOpenState x d \<longleftrightarrow>
     (case attemptById d (in_attemptId x) of None \<Rightarrow> False | Some a \<Rightarrow> a_status a = Attempt_REQUIRES_REVIEW) \<or>
     (case in_refundId x of None \<Rightarrow> False
      | Some r \<Rightarrow> (case find (\<lambda>p. pf_id p = r) (paymentRefunds d) of None \<Rightarrow> False | Some p \<Rightarrow> pf_status p = Refund_REQUIRES_REVIEW))"

definition resolveIncident :: "id \<Rightarrow> id \<Rightarrow> incidentAction \<Rightarrow> db \<Rightarrow> db res" where
  "resolveIncident i emp act d =
     fetch (find (\<lambda>x. in_id x = i) (incidents d)) (NotFound ''incident'') (\<lambda>x.
     require (in_status x = Incident_OPEN) (Conflict ''incident is already closed'')
     (require (\<not> (act = Resolve \<and> stillOpenState x d)) (Conflict ''reconcile the payment first'')
       (Inr (addLog emp ''PAYMENT_RECONCILIATION_INCIDENT_CLOSED'' i
         (d\<lparr>incidents := upd (\<lambda>y. in_id y = i \<and> in_status y = Incident_OPEN)
            (\<lambda>y. y\<lparr>in_status := (case act of Resolve \<Rightarrow> Incident_RESOLVED | Ignore \<Rightarrow> Incident_IGNORED), in_resolvedById := Some emp\<rparr>)
            (incidents d)\<rparr>)))))"

end
