(* ===== verification/Payment_Refunds.thy ===== *)
theory Payment_Refunds
  imports Payment_Reconciliation
begin

text \<open>
  Refunds of VNPay payments (\<open>src/app/payments/payment-refunds.service.ts\<close>) and the recovery of
  interrupted ones (\<open>payment-reconciliation.service.ts\<close>). A refund is requested, claimed and sent
  to VNPay; its answer, or an error, is written in a later transaction, which only knows the
  refund as it was claimed.
\<close>

section \<open>Requests\<close>

definition RESERVED_REFUND_STATUSES :: "PaymentRefundStatus list" where
  "RESERVED_REFUND_STATUSES = [Refund_PENDING, Refund_PROCESSING, Refund_SUCCEEDED, Refund_REQUIRES_REVIEW]"

definition reservedRefunds :: "id \<Rightarrow> db \<Rightarrow> money" where
  "reservedRefunds i d =
     sumw (\<lambda>r. pf_attemptId r = i \<and> pf_status r \<in> set RESERVED_REFUND_STATUSES) pf_amount (paymentRefunds d)"

definition refundedAmount :: "id \<Rightarrow> db \<Rightarrow> money" where
  "refundedAmount i d = sumw (\<lambda>r. pf_attemptId r = i \<and> pf_status r = Refund_SUCCEEDED) pf_amount (paymentRefunds d)"

definition refundById :: "db \<Rightarrow> id \<Rightarrow> paymentRefund option" where
  "refundById d i = find (\<lambda>r. pf_id r = i) (paymentRefunds d)"

definition findIdempotentRefund :: "id \<Rightarrow> string \<Rightarrow> db \<Rightarrow> paymentRefund option" where
  "findIdempotentRefund emp key d = find (\<lambda>r. pf_requestedById r = emp \<and> pf_idempotencyKey r = key) (paymentRefunds d)"

text \<open>The request DTO: a positive decimal with at most 16 integer digits. \<open>h\<close> is the hash of the request.\<close>

record refundInput =
  rf_amount :: money
  rf_key :: string
  rf_hash :: string

definition refundInputOk :: "refundInput \<Rightarrow> bool" where
  "refundInputOk i \<longleftrightarrow> 0 < rf_amount i \<and> rf_amount i < 10 ^ 18"

definition insertRefund :: "paymentRefund \<Rightarrow> db \<Rightarrow> (paymentRefund \<times> db) res" where
  "insertRefund r d =
     require (findIdempotentRefund (pf_requestedById r) (pf_idempotencyKey r) d = None) (UniqueViolation ''PaymentRefund'')
     (require (0 < pf_amount r) (Conflict ''check PaymentRefund'')
       (let row = r\<lparr>pf_id := nextId d\<rparr>
        in Inr (row, d\<lparr>nextId := Suc (nextId d), paymentRefunds := paymentRefunds d @ [row]\<rparr>)))"

definition assertRefundReplay :: "paymentRefund \<Rightarrow> id \<Rightarrow> string \<Rightarrow> 'a res \<Rightarrow> 'a res" where
  "assertRefundReplay r i h k =
     require (pf_attemptId r = i \<and> pf_requestHash r = h) (Conflict ''idempotency key used for another refund'') k"

definition refundableOnline :: "PaymentStatus \<Rightarrow> bool" where
  "refundableOnline st \<longleftrightarrow> st = Pay_PAID \<or> st = Pay_PARTIALLY_REFUNDED"

definition refundType :: "id \<Rightarrow> money \<Rightarrow> money \<Rightarrow> db \<Rightarrow> PaymentRefundType" where
  "refundType i amount captured d = (if reservedRefunds i d = 0 \<and> amount = captured then Refund_FULL else Refund_PARTIAL)"

definition createRefundTx :: "bool \<Rightarrow> id \<Rightarrow> id \<Rightarrow> refundInput \<Rightarrow> time \<Rightarrow> db \<Rightarrow> (paymentRefund \<times> db) res" where
  "createRefundTx configured i emp inp now d =
     require (activeEmployee emp d) (Unauthorized ''employee'')
     (case findIdempotentRefund emp (rf_key inp) d of
        Some r \<Rightarrow> assertRefundReplay r i (rf_hash inp) (Inr (r, d))
      | None \<Rightarrow>
          fetch (attemptById d i) (NotFound ''payment attempt'') (\<lambda>a.
          fetch (findInvoice d (a_invoiceId a)) (NotFound ''invoice'') (\<lambda>v.
          require (a_provider a = VNPAY) (Conflict ''no refunds for this provider'')
          (require configured (BadRequest ''provider not configured'')
          (require (a_status a = Attempt_SUCCEEDED \<and> nonEmpty (a_transactionNo a) \<noteq> None) (Conflict ''payment not confirmed'')
          (require (refundableOnline (v_status v)) (Conflict ''invoice not refundableOnline'')
          (require (rf_amount inp \<le> a_amount a - reservedRefunds i d) (Conflict ''amount above the remaining amount'')
          (andThen (insertRefund \<lparr>pf_id = 0, pf_type = refundType i (rf_amount inp) (a_amount a) d, pf_status = Refund_PENDING,
               pf_amount = rf_amount inp, pf_idempotencyKey = rf_key inp, pf_requestHash = rf_hash inp, pf_transactionNo = None,
               pf_requestedAt = now, pf_completedAt = None, pf_lockedAt = None, pf_attemptId = i, pf_requestedById = emp\<rparr> d) (\<lambda>rd.
           Inr (fst rd, enqueue ''payment'' ''PAYMENT_REFUND_REQUESTED'' (pf_id (fst rd)) [] now
             (addLog emp ''PAYMENT_REFUND_REQUESTED'' (pf_id (fst rd)) (snd rd))))))))))))"

section \<open>Claiming\<close>

text \<open>What the rest of the call knows: the refund and its payment as they were claimed, and the request row.\<close>

record refundClaim =
  cl_refund :: paymentRefund
  cl_attempt :: paymentAttempt
  cl_request :: id

definition claimGuardRefund :: "id \<Rightarrow> paymentRefund \<Rightarrow> bool" where
  "claimGuardRefund i r \<longleftrightarrow> pf_id r = i \<and> pf_status r = Refund_PENDING"

definition claimRefund :: "id \<Rightarrow> time \<Rightarrow> db \<Rightarrow> refundClaim option \<times> db" where
  "claimRefund i now d =
     (if cnt (claimGuardRefund i) (paymentRefunds d) \<noteq> 1 then (None, d)
      else let d1 = d\<lparr>paymentRefunds := upd (claimGuardRefund i)
             (\<lambda>r. r\<lparr>pf_status := Refund_PROCESSING, pf_lockedAt := Some now\<rparr>) (paymentRefunds d)\<rparr> in
        (case refundById d1 i of
           None \<Rightarrow> (None, d1)
         | Some r \<Rightarrow>
             (case attemptById d1 (pf_attemptId r) of
                None \<Rightarrow> (None, d1)
              | Some a \<Rightarrow> (let (q, d2) = createProviderRequest Request_REFUND (pf_attemptId r) (Some i) d1
                  in (Some \<lparr>cl_refund = r, cl_attempt = a, cl_request = q\<rparr>, d2)))))"

section \<open>VNPay's answer\<close>

definition refundOutcome :: "string option \<Rightarrow> string option \<Rightarrow> PaymentRefundStatus" where
  "refundOutcome responseCode transactionStatus =
     (if responseCode = Some ''00'' \<and> transactionStatus = Some ''00'' then Refund_SUCCEEDED
      else if responseCode = Some ''00'' \<and> transactionStatus = Some ''09'' then Refund_REJECTED
      else if responseCode = Some ''00'' \<and> transactionStatus = Some ''02'' then Refund_FAILED
      else if responseCode \<in> Some ` set [''02'', ''03'', ''04'', ''13'', ''91'', ''93'', ''95'', ''97''] then Refund_FAILED
      else Refund_REQUIRES_REVIEW)"

definition refundResponseMismatch :: "refundClaim \<Rightarrow> vnpayAnswer \<Rightarrow> bool" where
  "refundResponseMismatch c r \<longleftrightarrow>
     va_txnRef r \<noteq> Some (a_merchantReference (cl_attempt c)) \<or>
     va_amount r \<noteq> Some (intText (pf_amount (cl_refund c))) \<or>
     va_transactionType r \<noteq> Some (if pf_type (cl_refund c) = Refund_FULL then ''02'' else ''03'')"

definition setRefund :: "id \<Rightarrow> (paymentRefund \<Rightarrow> paymentRefund) \<Rightarrow> db \<Rightarrow> db" where
  "setRefund i f d = d\<lparr>paymentRefunds := upd (\<lambda>r. pf_id r = i) f (paymentRefunds d)\<rparr>"

definition answeredRow :: "PaymentRefundStatus \<Rightarrow> string option \<Rightarrow> time option \<Rightarrow> paymentRefund \<Rightarrow> paymentRefund" where
  "answeredRow st txNo completed r =
     r\<lparr>pf_status := st, pf_transactionNo := txNo, pf_completedAt := completed, pf_lockedAt := None\<rparr>"

definition refundEvent :: "string \<Rightarrow> time \<Rightarrow> paymentRefund \<Rightarrow> db \<Rightarrow> db" where
  "refundEvent ev now r d = enqueue ''payment'' ev (pf_id r) [] now (addLog (pf_requestedById r) ev (pf_id r) d)"

definition openRefundIncident :: "PaymentIncidentType \<Rightarrow> incidentKey \<Rightarrow> paymentRefund \<Rightarrow> db \<Rightarrow> db" where
  "openRefundIncident ty key r d = openIncident ty key (pf_attemptId r) (Some (pf_id r)) d"

text \<open>A successful refund sets the status of the invoice by what has been refunded of the payment so far.\<close>

definition targetStatus :: "money \<Rightarrow> money \<Rightarrow> PaymentStatus" where
  "targetStatus refunded captured = (if captured \<le> refunded then Pay_REFUNDED else Pay_PARTIALLY_REFUNDED)"

definition completeSuccessfulRefund :: "refundClaim \<Rightarrow> string option \<Rightarrow> time \<Rightarrow> db \<Rightarrow> db" where
  "completeSuccessfulRefund c txNo now d =
     (let r = cl_refund c; a = cl_attempt c;
          d1 = setRefund (pf_id r) (answeredRow Refund_SUCCEEDED txNo (Some now)) d;
          st = targetStatus (refundedAmount (a_id a) d1) (a_amount a);
          g = (\<lambda>v. v_id v = a_invoiceId a \<and> refundableOnline (v_status v));
          d2 = d1\<lparr>invoices := upd g (\<lambda>v. v\<lparr>v_status := st\<rparr>) (invoices d1)\<rparr>;
          d3 = (if cnt g (invoices d1) = 1 then d2
                else openRefundIncident PAYMENT_STATE_CONFLICT (Refund_invoice_state (pf_id r)) r d2)
      in refundEvent ''PAYMENT_REFUND_SUCCEEDED'' now r d3)"

definition refundStatusName :: "PaymentRefundStatus \<Rightarrow> string" where
  "refundStatusName st =
     (case st of Refund_PENDING \<Rightarrow> ''PENDING'' | Refund_PROCESSING \<Rightarrow> ''PROCESSING'' | Refund_SUCCEEDED \<Rightarrow> ''SUCCEEDED''
      | Refund_FAILED \<Rightarrow> ''FAILED'' | Refund_REJECTED \<Rightarrow> ''REJECTED'' | Refund_REQUIRES_REVIEW \<Rightarrow> ''REQUIRES_REVIEW'')"

definition applyProviderResponse :: "refundClaim \<Rightarrow> vnpayAnswer \<Rightarrow> time \<Rightarrow> db \<Rightarrow> db" where
  "applyProviderResponse c ans now d =
     (let r = cl_refund c;
          txNo = (if nonEmpty (va_transactionNo ans) = Some ''0'' then None else nonEmpty (va_transactionNo ans));
          outcome = (if refundResponseMismatch c ans then Refund_REQUIRES_REVIEW
                     else refundOutcome (va_responseCode ans) (va_transactionStatus ans));
          d1 = setRequest (cl_request c) Request_SUCCEEDED d
      in if outcome = Refund_SUCCEEDED then completeSuccessfulRefund c txNo now d1
         else let d2 = (if outcome = Refund_REQUIRES_REVIEW
                        then openRefundIncident REFUND_STATE_MISMATCH (Refund_state (pf_id r)) r d1 else d1);
                  completed = (if outcome = Refund_FAILED \<or> outcome = Refund_REJECTED then Some now else None)
              in refundEvent (''PAYMENT_REFUND_'' @ refundStatusName outcome) now r
                   (setRefund (pf_id r) (answeredRow outcome txNo completed) d2))"

text \<open>When VNPay could not be asked, the outcome is not known.\<close>

definition markProviderUncertain :: "refundClaim \<Rightarrow> time \<Rightarrow> db \<Rightarrow> db" where
  "markProviderUncertain c now d =
     (let r = cl_refund c in
      refundEvent ''PAYMENT_REFUND_REQUIRES_REVIEW'' now r
        (setRefund (pf_id r) (\<lambda>x. x\<lparr>pf_status := Refund_REQUIRES_REVIEW, pf_lockedAt := None\<rparr>)
          (openRefundIncident PROVIDER_UNAVAILABLE (Refund_provider (pf_id r)) r
            (setRequest (cl_request c) Request_FAILED d))))"

text \<open>
  The end of \<open>submitRefund\<close>: \<open>ask\<close> is VNPay's answer, or none if the call failed, and
  \<open>wrote\<close> says whether the transaction that applies the answer committed. The call does not wait for it
  inside its \<open>try\<close>, so a failure there is not caught.
\<close>

definition finishRefund :: "refundClaim \<Rightarrow> vnpayAnswer option \<Rightarrow> bool \<Rightarrow> time \<Rightarrow> db \<Rightarrow> db" where
  "finishRefund c ask wrote now d =
     (case ask of
        None \<Rightarrow> if wrote then markProviderUncertain c now d else d
      | Some ans \<Rightarrow> if wrote then applyProviderResponse c ans now d else d)"

definition submitRefund :: "id \<Rightarrow> (refundClaim \<Rightarrow> vnpayAnswer option) \<Rightarrow> bool \<Rightarrow> time \<Rightarrow> db \<Rightarrow> db" where
  "submitRefund i ask wrote now d =
     (case claimRefund i now d of (None, d1) \<Rightarrow> d1 | (Some c, d1) \<Rightarrow> finishRefund c (ask c) wrote now d1)"

definition createRefund ::
  "bool \<Rightarrow> id \<Rightarrow> id \<Rightarrow> refundInput \<Rightarrow> (refundClaim \<Rightarrow> vnpayAnswer option) \<Rightarrow> bool \<Rightarrow> time \<Rightarrow> db \<Rightarrow> (id \<times> db) res"
where
  "createRefund configured i emp inp ask wrote now d =
     require (refundInputOk inp) (BadRequest ''amount'')
     (let resume = (\<lambda>r d. Inr (pf_id r, if pf_status r = Refund_PENDING then submitRefund (pf_id r) ask wrote now d else d)) in
      case findIdempotentRefund emp (rf_key inp) d of
        Some r \<Rightarrow> assertRefundReplay r i (rf_hash inp) (resume r d)
      | None \<Rightarrow> andThen (createRefundTx configured i emp inp now d) (\<lambda>rd. resume (fst rd) (snd rd)))"

section \<open>Resuming\<close>

definition pendingRefunds :: "time \<Rightarrow> db \<Rightarrow> id list" where
  "pendingRefunds now d =
     take 25 (map pf_id (sort_key pf_requestedAt (sort_key pf_id
       (filter (\<lambda>r. pf_status r = Refund_PENDING \<and> pf_requestedAt r < now - 60000) (paymentRefunds d)))))"

definition recoverPendingRefunds :: "(refundClaim \<Rightarrow> vnpayAnswer option) \<Rightarrow> bool \<Rightarrow> time \<Rightarrow> db \<Rightarrow> db" where
  "recoverPendingRefunds ask wrote now d = foldl (\<lambda>d i. submitRefund i ask wrote now d) d (pendingRefunds now d)"

definition abandonedRefund :: "time \<Rightarrow> paymentRefund \<Rightarrow> bool" where
  "abandonedRefund now r \<longleftrightarrow> pf_status r = Refund_PROCESSING \<and>
     (case pf_lockedAt r of None \<Rightarrow> False | Some t \<Rightarrow> t < now - RECONCILE_LOCK_TIMEOUT_MS)"

definition recoverAbandonedRefund :: "time \<Rightarrow> id \<times> id \<Rightarrow> db \<Rightarrow> db" where
  "recoverAbandonedRefund now ri d =
     (let g = (\<lambda>r. pf_id r = fst ri \<and> abandonedRefund now r) in
      if cnt g (paymentRefunds d) \<noteq> 1 then d
      else openIncident REFUND_STATE_MISMATCH (Refund_interrupted (fst ri)) (snd ri) (Some (fst ri))
        (d\<lparr>paymentRefunds := upd g (\<lambda>r. r\<lparr>pf_status := Refund_REQUIRES_REVIEW, pf_lockedAt := None\<rparr>) (paymentRefunds d),
           providerRequests := upd (\<lambda>q. rq_refundId q = Some (fst ri) \<and> rq_status q = Request_PENDING)
             (\<lambda>q. q\<lparr>rq_status := Request_FAILED\<rparr>) (providerRequests d)\<rparr>))"

definition recoverAbandonedRefunds :: "time \<Rightarrow> db \<Rightarrow> db" where
  "recoverAbandonedRefunds now d =
     foldl (\<lambda>d ri. recoverAbandonedRefund now ri d) d
       (take RECONCILE_BATCH_SIZE (map (\<lambda>r. (pf_id r, pf_attemptId r)) (filter (abandonedRefund now) (paymentRefunds d))))"

definition reconcileDue :: "time \<Rightarrow> (paymentAttempt \<Rightarrow> providerAnswer) \<Rightarrow> db \<Rightarrow> db" where
  "reconcileDue now ask d = reconcileDueAttempts now ask (recoverAbandonedRefunds now d)"

text \<open>The scheduler's run.\<close>

definition schedulerRun ::
  "time \<Rightarrow> (paymentAttempt \<Rightarrow> providerAnswer) \<Rightarrow> (refundClaim \<Rightarrow> vnpayAnswer option) \<Rightarrow> bool \<Rightarrow> db \<Rightarrow> db"
where
  "schedulerRun now ask askRefund wrote d = reconcileDue now ask (recoverPendingRefunds askRefund wrote now d)"

section \<open>Reading\<close>

definition findRefund :: "id \<Rightarrow> db \<Rightarrow> paymentRefund res" where
  "findRefund i d = fetch (refundById d i) (NotFound ''payment refund'') Inr"

definition findRefunds ::
  "id \<Rightarrow> PaymentRefundStatus option \<Rightarrow> PaymentRefundType option \<Rightarrow> nat \<Rightarrow> nat \<Rightarrow> db \<Rightarrow> (nat \<times> paymentRefund list) res"
where
  "findRefunds i st ty page itemPerPage d =
     fetch (attemptById d i) (NotFound ''payment attempt'') (\<lambda>_.
       let rows = filter (\<lambda>r. pf_attemptId r = i \<and> (st = None \<or> st = Some (pf_status r)) \<and> (ty = None \<or> ty = Some (pf_type r)))
             (paymentRefunds d)
       in Inr (length rows, pageOf page itemPerPage (rev (sort_key pf_requestedAt (sort_key pf_id rows)))))"

end
