(* ===== verification/Promotion_Claims.thy ===== *)
theory Promotion_Claims
  imports Promotions
begin

text \<open>
  What a promotion can do to a bill, that the terms of a used promotion are frozen, and that the
  status filter of the search agrees with the status shown.
\<close>

section \<open>Rounding\<close>

lemma round_rat_mono: "x \<le> y \<Longrightarrow> round_rat x \<le> round_rat y"
proof -
  assume "x \<le> y"
  have "- \<lfloor>- x + 1 / 2\<rfloor> \<le> 0" if "x < 0" using that by simp
  moreover have "0 \<le> \<lfloor>y + 1 / 2\<rfloor>" if "0 \<le> y" using that by simp
  ultimately have "x < 0 \<Longrightarrow> 0 \<le> y \<Longrightarrow> - \<lfloor>- x + 1 / 2\<rfloor> \<le> \<lfloor>y + 1 / 2\<rfloor>" by linarith
  moreover have "\<lfloor>x + 1 / 2\<rfloor> \<le> \<lfloor>y + 1 / 2\<rfloor>" "\<lfloor>- y + 1 / 2\<rfloor> \<le> \<lfloor>- x + 1 / 2\<rfloor>"
    using \<open>x \<le> y\<close> by (auto intro: floor_mono)
  ultimately show ?thesis using \<open>x \<le> y\<close> unfolding round_rat_def by (auto split: if_splits)
qed

lemma round_rat_add_int: "0 \<le> x \<Longrightarrow> 0 \<le> k \<Longrightarrow> round_rat (x + of_int k) = round_rat x + k"
proof -
  assume "0 \<le> x" "0 \<le> k"
  then have "\<lfloor>x + of_int k + 1 / 2\<rfloor> = \<lfloor>x + 1 / 2\<rfloor> + k"
    by (metis add.assoc add.commute floor_add_int)
  then show ?thesis using \<open>0 \<le> x\<close> \<open>0 \<le> k\<close> by (simp add: round_rat_def)
qed

lemma round_rat_0 [simp]: "round_rat 0 = 0"
  using round_rat_of_int [of 0] by simp

lemma to_dp_numeral: "to_dp n (numeral k) = numeral k * 10 ^ n"
proof -
  have "(numeral k :: rat) * 10 ^ n = of_int (numeral k * 10 ^ n)" by simp
  then show ?thesis unfolding to_dp_def by (simp only: round_rat_of_int)
qed

section \<open>The discount\<close>

text \<open>Terms as the policy admits them: a percentage is at most 100, nothing is negative.\<close>

definition terms_ok :: "DiscountType \<Rightarrow> int \<Rightarrow> money option \<Rightarrow> bool" where
  "terms_ok ty v m \<longleftrightarrow> 0 \<le> v \<and> (ty = Discount_PERCENTAGE \<longrightarrow> v \<le> 10000) \<and> (\<forall>x. m = Some x \<longrightarrow> 0 \<le> x)"

text \<open>The discount before rounding, in hundredths, of a sub total in hundredths.\<close>

definition exactDiscount :: "DiscountType \<Rightarrow> int \<Rightarrow> money option \<Rightarrow> rat \<Rightarrow> rat" where
  "exactDiscount ty v m s =
     min (let raw = (if ty = Discount_PERCENTAGE then s * of_int v / 10000 else of_int v)
          in case m of None \<Rightarrow> raw | Some x \<Rightarrow> min raw (of_int x)) s"

lemma exactDiscount_bounds:
  assumes "terms_ok ty v m" and "0 \<le> s"
  shows "0 \<le> exactDiscount ty v m s" and "exactDiscount ty v m s \<le> s"
    and "m = Some x \<Longrightarrow> exactDiscount ty v m s \<le> of_int x"
  using assms by (auto simp: exactDiscount_def terms_ok_def Let_def min_def split: option.splits)

lemma exactDiscount_mono:
  assumes "terms_ok ty v m" and "0 \<le> s" and "s \<le> t"
  shows "exactDiscount ty v m s \<le> exactDiscount ty v m t"
    and "exactDiscount ty v m t \<le> exactDiscount ty v m s + (t - s)"
proof -
  let ?p = "rat_of_int v / 10000"
  have "0 \<le> v" using assms(1) by (simp add: terms_ok_def)
  then have up: "s * of_int v / 10000 \<le> t * of_int v / 10000" using assms(3)
    by (simp add: divide_right_mono mult_right_mono)
  have slope: "t * of_int v / 10000 \<le> s * of_int v / 10000 + (t - s)" if "v \<le> 10000"
  proof -
    have "(t - s) * ?p \<le> (t - s) * 1" using assms(3) that by (intro mult_left_mono) simp_all
    then show ?thesis by (simp add: field_simps)
  qed
  show "exactDiscount ty v m s \<le> exactDiscount ty v m t"
    using assms up by (auto simp: exactDiscount_def Let_def min_def split: option.splits)
  show "exactDiscount ty v m t \<le> exactDiscount ty v m s + (t - s)"
    using assms slope by (auto simp: exactDiscount_def terms_ok_def Let_def min_def split: option.splits)
qed

lemma calculateDiscountAmount_exact:
  assumes "terms_ok ty v m" and "0 \<le> s"
  shows "calculateDiscountAmount (of_int s / 100) ty v m = Inr (round_rat (exactDiscount ty v m (of_int s)))"
proof -
  let ?e = "exactDiscount ty v m (of_int s)"
  have scale: "min (case m of None \<Rightarrow> rawDiscount (of_int s / 100) ty v
        | Some x \<Rightarrow> min (rawDiscount (of_int s / 100) ty v) (of_int x / 100)) (of_int s / 100) * 100 = ?e"
    by (auto simp: exactDiscount_def rawDiscount_def Let_def min_def field_simps split: option.splits)
  have "0 \<le> ?e" and "?e \<le> of_int s" using exactDiscount_bounds [OF assms(1), of "of_int s"] assms(2) by simp_all
  then have "round_rat 0 \<le> round_rat ?e" and "round_rat ?e \<le> round_rat (of_int s)" by (simp_all only: round_rat_mono)
  then have "0 \<le> round_rat ?e" and "round_rat ?e \<le> s" by simp_all
  then show ?thesis
    using assms(2) by (simp add: calculateDiscountAmount_def Let_def to_dp_def scale divide_right_mono)
qed

lemma discount_lemma:
  assumes "terms_ok ty v m" and "0 \<le> s" and "s \<le> t"
  shows "\<exists>a b. calculateDiscountAmount (of_int s / 100) ty v m = Inr a \<and>
      calculateDiscountAmount (of_int t / 100) ty v m = Inr b \<and>
      0 \<le> a \<and> a \<le> s \<and> (\<forall>x. m = Some x \<longrightarrow> a \<le> x) \<and> a \<le> b \<and> s - a \<le> t - b"
proof -
  let ?e = "\<lambda>u :: int. exactDiscount ty v m (of_int u)"
  have t: "0 \<le> t" using assms by simp
  have s0: "0 \<le> rat_of_int s" "rat_of_int s \<le> rat_of_int t" using assms by simp_all
  note b = exactDiscount_bounds [OF assms(1) s0(1)] and mono = exactDiscount_mono [OF assms(1) s0]
  have "round_rat (?e t) \<le> round_rat (?e s + of_int (t - s))"
    using mono(2) by (intro round_rat_mono) simp
  also have "\<dots> = round_rat (?e s) + (t - s)" using b(1) assms by (intro round_rat_add_int) simp_all
  finally have slope: "round_rat (?e t) \<le> round_rat (?e s) + (t - s)" .
  have "round_rat 0 \<le> round_rat (?e s)" "round_rat (?e s) \<le> round_rat (of_int s)"
    "round_rat (?e s) \<le> round_rat (?e t)"
    using b mono(1) by (simp_all only: round_rat_mono)
  moreover have "round_rat (?e s) \<le> x" if "m = Some x" for x
    using round_rat_mono [OF b(3) [OF that]] by simp
  ultimately show ?thesis
    using calculateDiscountAmount_exact [OF assms(1,2)] calculateDiscountAmount_exact [OF assms(1) t] slope by auto
qed

text \<open>C15: The discount of a promotion whose terms the policy admits is never negative, never more
  than the bill or the promotion's cap, and is always defined for a bill in whole hundredths;
  ordering more never lowers the discount and never lowers what is left to pay.\<close>

theorem discount_fair:
  assumes "terms_ok ty v m" and "0 \<le> s" and "s \<le> t"
  shows "\<exists>a b. calculateDiscountAmount (of_int s / 100) ty v m = Inr a \<and>
      calculateDiscountAmount (of_int t / 100) ty v m = Inr b \<and>
      0 \<le> a \<and> a \<le> s \<and> (\<forall>x. m = Some x \<longrightarrow> a \<le> x) \<and> a \<le> b \<and> s - a \<le> t - b"
  by (rule discount_lemma [OF assms])

theorem discount_fair_witness:
  "\<exists>a b. calculateDiscountAmount (of_int 999 / 100) Discount_PERCENTAGE 1250 (Some 120) = Inr a \<and>
     calculateDiscountAmount (of_int 1000 / 100) Discount_PERCENTAGE 1250 (Some 120) = Inr b \<and>
     0 \<le> a \<and> a \<le> 999 \<and> a \<le> 120 \<and> a \<le> b \<and> 999 - a \<le> 1000 - b"
  using discount_fair [of Discount_PERCENTAGE 1250 "Some 120" 999 1000] by (simp add: terms_ok_def)

section \<open>Stored promotions\<close>

definition promotion_ok :: "promotion \<Rightarrow> bool" where
  "promotion_ok p \<longleftrightarrow> p_startDate p < p_endDate p \<and> terms_ok (p_discountType p) (p_discountValue p) (p_maxDiscount p)"

definition promotions_ok :: "db \<Rightarrow> bool" where
  "promotions_ok d \<longleftrightarrow> (\<forall>p\<in>set (promotions d). promotion_ok p)"

lemma columnMoney_exact [simp]: "columnMoney (v * 100) = v"
  using round_div_mult [of 100 v] by (simp add: columnMoney_def mult.commute)

lemma columnMoney_bounds: "0 \<le> v \<Longrightarrow> 0 \<le> columnMoney v" "0 \<le> v \<Longrightarrow> v \<le> 100 * k \<Longrightarrow> columnMoney v \<le> k"
  using round_div_mono_nonneg [of 100 v "100 * k"] round_div_mult [of 100 k]
  by (simp_all add: columnMoney_def round_div_nonneg)

definition input_ok :: "promotionInput \<Rightarrow> bool" where
  "input_ok i \<longleftrightarrow> \<not> (in_discountType i = Discount_PERCENTAGE \<and> 1000000 < in_discountValue i) \<and> 0 < in_discountValue i \<and>
     (case in_maxDiscount i of None \<Rightarrow> True | Some m \<Rightarrow> 0 < m)"

definition termsKept :: "nat \<Rightarrow> promotion \<Rightarrow> promotionInput \<Rightarrow> bool" where
  "termsKept used p nxt \<longleftrightarrow> used = 0 \<or> (p_discountType p = in_discountType nxt \<and>
     p_discountValue p * 100 = in_discountValue nxt \<and> map_option (\<lambda>m. m * 100) (p_maxDiscount p) = in_maxDiscount nxt)"

lemma promotion_policy_Inr_iff [simp]:
  "assertDateRangeValid a b k = Inr x \<longleftrightarrow> a < b \<and> k = Inr x"
  "assertDiscountValueValid i k = Inr x \<longleftrightarrow> input_ok i \<and> k = Inr x"
  "assertPromotionEmployee emp d k = Inr x \<longleftrightarrow> activeEmployee emp d \<and> k = Inr x"
  "assertFinancialFieldsNotChangedWhenUsed used p nxt k = Inr x \<longleftrightarrow> termsKept used p nxt \<and> k = Inr x"
  "ensureNameAvailable same n e d k = Inr x \<longleftrightarrow>
     (\<forall>p\<in>set (promotions d). \<not> (same (p_name p) n \<and> p_deletedAt p = None \<and> e \<noteq> Some (p_id p))) \<and> k = Inr x"
  by (auto simp: assertDateRangeValid_def assertDiscountValueValid_def assertPromotionEmployee_def input_ok_def
      assertFinancialFieldsNotChangedWhenUsed_def termsKept_def ensureNameAvailable_def)

lemma storeTerms_ok:
  assumes "in_startDate i < in_endDate i" and "input_ok i"
  shows "promotion_ok (storeTerms i now p)"
  using assms columnMoney_bounds(2) [of "in_discountValue i" 10000]
  by (auto simp: promotion_ok_def terms_ok_def storeTerms_def input_ok_def columnMoney_bounds(1) split: option.splits)

lemma addLog_promotions [simp]: "promotions (addLog e a s d) = promotions d"
  by (simp add: addLog_def)

lemma setPromotion_ok:
  "promotions_ok d \<Longrightarrow> (\<And>p. promotion_ok p \<Longrightarrow> promotion_ok (f p)) \<Longrightarrow> promotions_ok (setPromotion i f d)"
  by (auto simp: promotions_ok_def setPromotion_def set_upd)

lemma promotion_flags_ok [simp]:
  "promotion_ok (p\<lparr>p_deletedAt := a, p_show := b, p_updatedAt := c\<rparr>) = promotion_ok p"
  "promotion_ok (p\<lparr>p_deletedAt := a, p_updatedAt := c\<rparr>) = promotion_ok p"
  "promotion_ok (p\<lparr>p_show := b, p_description := t, p_updatedAt := c\<rparr>) = promotion_ok p"
  by (simp_all add: promotion_ok_def)

lemma createPromotion_ok:
  assumes "createPromotion sameName emp dto now d = Inr (i, d')" and "promotions_ok d"
  shows "promotions_ok d'"
proof -
  obtain input p0 where "in_startDate input < in_endDate input" "input_ok input"
    and d': "promotions d' = promotions d @ [storeTerms input now p0]"
    using assms(1) by (auto simp: createPromotion_def Let_def)
  then have "promotion_ok (storeTerms input now p0)" by (intro storeTerms_ok)
  then show ?thesis using assms(2) by (simp add: promotions_ok_def d')
qed

lemma updatePromotion_steps:
  assumes "updatePromotion sameName i emp dto now d = Inr d'"
  obtains p nxt where "findActivePromotion d i = Some p" "mergePromotionInput p dto = Inr nxt"
    "in_startDate nxt < in_endDate nxt" "input_ok nxt" "termsKept (countInvoicesUsingPromotion i d) p nxt"
    "d' = addLog emp ''PROMOTION_UPDATED'' i (setPromotion i (storeTerms nxt now) d)"
  using assms by (auto simp: updatePromotion_def split: if_split_asm)

lemma promotion_ops_ok:
  assumes "promotions_ok d"
  shows "updatePromotion sameName i emp dto now d = Inr d' \<Longrightarrow> promotions_ok d'"
    and "updateStorefront i emp showIt desc expected now d = Inr d' \<Longrightarrow> promotions_ok d'"
    and "removePromotion i emp now d = Inr d' \<Longrightarrow> promotions_ok d'"
    and "restorePromotion sameName i emp now d = Inr d' \<Longrightarrow> promotions_ok d'"
proof -
  assume "updatePromotion sameName i emp dto now d = Inr d'"
  then show "promotions_ok d'"
  proof (rule updatePromotion_steps)
    fix p nxt
    assume g: "in_startDate nxt < in_endDate nxt" "input_ok nxt"
      and d': "d' = addLog emp ''PROMOTION_UPDATED'' i (setPromotion i (storeTerms nxt now) d)"
    have "promotions_ok (setPromotion i (storeTerms nxt now) d)"
      by (rule setPromotion_ok [OF assms]) (rule storeTerms_ok [OF g])
    then show "promotions_ok d'" by (simp add: d' promotions_ok_def)
  qed
next
  assume "updateStorefront i emp showIt desc expected now d = Inr d'"
  then show "promotions_ok d'" using assms
    by (auto simp: updateStorefront_def Let_def promotions_ok_def set_upd)
next
  assume "removePromotion i emp now d = Inr d'"
  then show "promotions_ok d'" using assms
    by (auto simp: removePromotion_def setPromotion_def promotions_ok_def set_upd)
next
  assume "restorePromotion sameName i emp now d = Inr d'"
  then show "promotions_ok d'" using assms
    by (auto simp: restorePromotion_def setPromotion_def promotions_ok_def set_upd)
qed

text \<open>Once an invoice used a promotion its terms are frozen: whatever update succeeds, the
  promotion keeps its discount type, value and cap.\<close>

theorem used_promotion_frozen:
  assumes "updatePromotion sameName i emp dto now d = Inr d'" and "distinct (map p_id (promotions d))"
    and "p \<in> set (promotions d)" and "p_id p = i" and "v \<in> set (invoices d)" and "v_promotionId v = Some i"
  shows "\<exists>q\<in>set (promotions d'). p_id q = i \<and> p_discountType q = p_discountType p \<and>
    p_discountValue q = p_discountValue p \<and> p_maxDiscount q = p_maxDiscount p"
proof -
  obtain p0 nxt where p0: "findActivePromotion d i = Some p0"
    and fin: "termsKept (countInvoicesUsingPromotion i d) p0 nxt"
    and d': "d' = addLog emp ''PROMOTION_UPDATED'' i (setPromotion i (storeTerms nxt now) d)"
    by (rule updatePromotion_steps [OF assms(1)]) (rule that)
  have "p0 = p" using find_SomeD [OF p0 [unfolded findActivePromotion_def]] assms(2-4) distinct_key_eq by metis
  moreover have "0 < countInvoicesUsingPromotion i d" using assms(5,6) by (auto simp: countInvoicesUsingPromotion_def cnt_pos_iff)
  ultimately have "in_discountType nxt = p_discountType p" "in_discountValue nxt = p_discountValue p * 100"
    "in_maxDiscount nxt = map_option (\<lambda>m. m * 100) (p_maxDiscount p)"
    using fin by (simp_all add: termsKept_def)
  then have "p_discountType (storeTerms nxt now p) = p_discountType p"
    "p_discountValue (storeTerms nxt now p) = p_discountValue p" "p_maxDiscount (storeTerms nxt now p) = p_maxDiscount p"
    "p_id (storeTerms nxt now p) = i"
    using assms(4) by (simp_all add: storeTerms_def option.map_comp comp_def option.map_ident)
  moreover have "storeTerms nxt now p \<in> set (promotions d')"
    using assms(3,4) by (force simp: d' setPromotion_def set_upd)
  ultimately show ?thesis by blast
qed

definition sample_promotion :: promotion where
  "sample_promotion = \<lparr>p_id = 90, p_name = ''happy hour'', p_show = True, p_description = None, p_updatedAt = 5,
     p_discountType = Discount_PERCENTAGE, p_discountValue = 1000, p_maxDiscount = None,
     p_startDate = 0, p_endDate = 100, p_deletedAt = None\<rparr>"

definition sample_used_invoice :: invoice where
  "sample_used_invoice = \<lparr>v_id = 80, v_number = ''INV-20260101-000001'', v_subTotal = 1000, v_discount = 100, v_tax = 0,
     v_taxRate = 0, v_total = 900, v_tendered = None, v_change = None, v_method = Method_CASH, v_status = Pay_UNPAID,
     v_sessionId = 4, v_employeeId = 1, v_shiftId = None, v_promotionId = Some 90, v_snapshot = True, v_createdAt = 0,
     v_codeVersion = Some 0, v_codeIssuedAt = None\<rparr>"

definition sample_campaign :: db where
  "sample_campaign = empty_db\<lparr>employees := [\<lparr>e_id = 1, e_fullName = ''An'', e_isActive = True, e_deletedAt = None\<rparr>],
     promotions := [sample_promotion], invoices := [sample_used_invoice]\<rparr>"

definition rename_dto :: updatePromotionDto where
  "rename_dto = \<lparr>up_name = Some ''evening'', up_startDate = None, up_endDate = Some 200, up_discountType = None,
     up_discountValue = Some (10000400 / 1000000), up_maxDiscount = None\<rparr>"

definition extend_dto :: updatePromotionDto where
  "extend_dto = rename_dto\<lparr>up_discountValue := Some 10\<rparr>"

lemmas promotion_eval = updatePromotion_def findActivePromotion_def mergePromotionInput_def toPositiveDecimal_def
  to_dp_numeral orElse_def assertDateRangeValid_def assertDiscountValueValid_def assertPromotionEmployee_def
  activeEmployee_def assertFinancialFieldsNotChangedWhenUsed_def countInvoicesUsingPromotion_def ensureNameAvailable_def
  fitsColumns_def fitsMoney_def columnMoney_def round_div_def sample_campaign_def sample_promotion_def
  sample_used_invoice_def extend_dto_def rename_dto_def empty_db_def Let_def

lemma sample_extend_ok: "ok (updatePromotion (=) 90 1 extend_dto 7 sample_campaign)"
  by (simp add: promotion_eval)

theorem used_promotion_frozen_witness:
  "\<exists>q\<in>set (promotions (value_of (updatePromotion (=) 90 1 extend_dto 7 sample_campaign))).
     p_id q = 90 \<and> p_discountType q = Discount_PERCENTAGE \<and> p_discountValue q = 1000 \<and> p_maxDiscount q = None"
  using used_promotion_frozen [OF ok_value_of [OF sample_extend_ok], of sample_promotion sample_used_invoice]
  by (simp add: sample_campaign_def sample_promotion_def sample_used_invoice_def)

text \<open>The status filter of the promotion search and the status shown agree: without an explicit
  instant, a search for a status returns exactly the promotions that are shown with it.\<close>

theorem search_matches_status:
  assumes "promotions_ok d"
  shows "searchPromotions (Some st) None includeDeleted now d =
    map (\<lambda>p. (p, st)) (filter (\<lambda>p. resolveStatus p now = st) (promotions d))"
proof -
  have "searchWhere (Some st) None includeDeleted now p = (resolveStatus p now = st)" if "p \<in> set (promotions d)" for p
  proof -
    have "p_startDate p < p_endDate p" using that assms by (simp add: promotions_ok_def promotion_ok_def)
    then show ?thesis by (cases st) (auto simp: searchWhere_def resolveStatus_def orElse_def)
  qed
  then have "filter (searchWhere (Some st) None includeDeleted now) (promotions d)
      = filter (\<lambda>p. resolveStatus p now = st) (promotions d)" by (intro filter_cong) auto
  then show ?thesis by (auto simp: searchPromotions_def orElse_def)
qed

theorem search_matches_status_witness:
  "searchPromotions (Some Promo_EXPIRED) None False 100 sample_campaign = [(sample_promotion, Promo_EXPIRED)]"
proof -
  have "promotions_ok sample_campaign"
    by (simp add: promotions_ok_def promotion_ok_def terms_ok_def sample_campaign_def sample_promotion_def)
  from search_matches_status [OF this, of Promo_EXPIRED False 100] show ?thesis
    by (simp add: sample_campaign_def resolveStatus_def sample_promotion_def)
qed

section \<open>Two corners\<close>

text \<open>
  The policy asks for a positive value at four decimal places, the column keeps two: a discount
  of 0.004 passes the policy and is then refused by the check of the table, as 0.00.
\<close>

definition tiny_dto :: createPromotionDto where
  "tiny_dto = \<lparr>cp_name = ''tiny'', cp_startDate = 0, cp_endDate = 10, cp_discountType = Discount_FIXED,
     cp_discountValue = 4 / 1000, cp_maxDiscount = None\<rparr>"

lemma tiny_discount_only_refused_by_table:
  "toPositiveDecimal (4 / 1000) = Inr 40" "\<not> ok (createPromotion (=) 1 tiny_dto 0 sample_campaign)"
proof -
  have "to_dp 4 (4 / 1000) = 40" using to_dp_exact [of 4 40] by simp
  then show "toPositiveDecimal (4 / 1000) = Inr 40" by (simp add: toPositiveDecimal_def)
  then show "\<not> ok (createPromotion (=) 1 tiny_dto 0 sample_campaign)"
    by (simp add: createPromotion_def normalizeInput_def optPositive_def tiny_dto_def storeTerms_def fitsColumns_def
        columnMoney_def round_div_def assertDateRangeValid_def assertDiscountValueValid_def
        assertPromotionEmployee_def ensureNameAvailable_def andThen_def require_def ok_def)
qed

text \<open>With an explicit instant the status asked for is ignored, unless it is DELETED.\<close>

lemma search_with_instant_ignores_status:
  "searchPromotions (Some Promo_UPCOMING) (Some t) inc clock d = searchPromotions (Some Promo_ACTIVE) (Some t) inc clock d"
proof -
  have "searchWhere (Some Promo_UPCOMING) (Some t) inc n = searchWhere (Some Promo_ACTIVE) (Some t) inc n" for n
    by (rule ext) (simp add: searchWhere_def)
  then show ?thesis by (simp only: searchPromotions_def)
qed

text \<open>
  An estimate for a sub total with more than two decimal places may round above the sub total,
  and the calculator then throws instead of estimating.
\<close>

lemma fractional_estimate_throws:
  "findActivePromotions 50 (Some (5 / 1000)) (sample_campaign\<lparr>promotions := [sample_promotion\<lparr>p_discountValue := 10000\<rparr>]\<rparr>)
     = Inl (BadRequest ''discount exceeds sub total'')"
proof -
  have "to_dp 2 (5 / 1000) = 1" by (simp add: to_dp_def round_rat_def)
  then show ?thesis
    by (simp add: findActivePromotions_def calculateDiscountAmount_def rawDiscount_def sample_promotion_def Let_def)
qed

end
