(* ===== verification/Handovers.thy ===== *)
theory Handovers
  imports Cashier
begin

text \<open>
  \<open>CashHandoversService\<close> (\<open>src/app/cashier-shifts/cash-handovers.service.ts\<close>): the cashier of
  a closed shift asks to move the counted cash to another fund; a second employee approves, and
  for a BANK fund settles once the money is deposited. \<open>FundsService\<close>
  (\<open>src/app/cashier-shifts/funds.service.ts\<close>): creating, changing and deleting funds.
\<close>

section \<open>Requesting\<close>

text \<open>\<open>assertFundsHaveNoOpenShift\<close>: the source fund, and the destination when it is a CASH fund.\<close>

definition assertFundsHaveNoOpenShift :: "id \<Rightarrow> fund \<Rightarrow> db \<Rightarrow> 'a res \<Rightarrow> 'a res" where
  "assertFundsHaveNoOpenShift source dest d k =
     require (\<forall>c\<in>set (cashierShifts d). \<not> (c_status c = Shift_OPEN \<and>
         (c_fundId c = Some source \<or> f_type dest = Fund_CASH \<and> c_fundId c = Some (f_id dest))))
       (Conflict ''CASH_HANDOVER_FUND_BUSY'') k"

text \<open>The checks of the table and its unique index on an active handover per shift.\<close>

definition handoverChecks :: "cashHandover \<Rightarrow> bool" where
  "handoverChecks h \<longleftrightarrow>
     0 \<le> d_expectedCash h \<and> 0 \<le> d_countedCash h \<and> 0 \<le> d_retained h \<and>
     d_variance h = d_countedCash h - d_expectedCash h \<and> d_transfer h = d_countedCash h - d_retained h \<and>
     0 < d_transfer h \<and> d_sourceFundId h \<noteq> d_destinationFundId h"

definition activeHandover :: "cashHandover \<Rightarrow> bool" where
  "activeHandover h \<longleftrightarrow> d_status h = Req_PENDING \<or> d_status h = Req_APPROVED"

definition insertHandover :: "cashHandover \<Rightarrow> db \<Rightarrow> (id \<times> db) res" where
  "insertHandover h d =
     require (\<forall>r\<in>set (cashHandovers d). \<not> (d_shiftId r = d_shiftId h \<and> activeHandover r))
       (Conflict ''shift already handed over'')
     (require (handoverChecks h) (Conflict ''check handover'')
       (Inr (nextId d, d\<lparr>nextId := Suc (nextId d), cashHandovers := cashHandovers d @ [h\<lparr>d_id := nextId d\<rparr>]\<rparr>)))"

definition createHandover :: "id \<Rightarrow> id \<Rightarrow> id \<Rightarrow> money \<Rightarrow> db \<Rightarrow> (id \<times> db) res" where
  "createHandover emp cid destFund retained d =
     require (activeEmployee emp d) (Unauthorized ''employee'')
     (fetch (findShift d cid) (NotFound ''shift'') (\<lambda>c.
      require (c_employeeId c = emp) (Forbidden ''only the responsible cashier'')
      (require (c_status c = Shift_CLOSED) (Conflict ''only a closed shift'')
      (fetch (c_fundId c) (Conflict ''only a closed shift'') (\<lambda>source.
       fetch (findFund d source) (Conflict ''only a closed shift'') (\<lambda>sf.
       fetch (c_actualEndingCash c) (Conflict ''only a closed shift'') (\<lambda>actual.
       fetch (c_reportedEndingCash c) (Conflict ''only a closed shift'') (\<lambda>reported.
       require (activeCashFund sf) (Conflict ''source must be an active CASH fund'')
       (require (source \<noteq> destFund) (Conflict ''funds must differ'')
       (fetch (find (\<lambda>f. f_id f = destFund \<and> f_deletedAt f = None) (funds d)) (NotFound ''destination fund'') (\<lambda>df.
        assertFundsHaveNoOpenShift source df d
        (require (f_balance sf = actual) (Conflict ''balance changed after closing'')
        (require (retained < reported) (Conflict ''retained cash'')
        (andThen (insertHandover \<lparr>d_id = 0, d_status = Req_PENDING, d_shiftId = cid, d_sourceFundId = source,
            d_destinationFundId = destFund, d_requestedById = emp, d_resolvedById = None, d_expectedCash = actual,
            d_countedCash = reported, d_variance = reported - actual, d_retained = retained,
            d_transfer = reported - retained, d_settlement = Some Settle_NOT_REQUIRED, d_settlementDueAt = None,
            d_settledById = None, d_bankReference = None, d_evidence = None, d_sourceTxId = None,
            d_destinationTxId = None, d_varianceTxId = None\<rparr> d) (\<lambda>hd.
         Inr (fst hd, addLog emp ''CASH_HANDOVER_REQUESTED'' (fst hd) (snd hd)))))))))))))))))"

section \<open>Approving\<close>

definition findHandover :: "db \<Rightarrow> id \<Rightarrow> cashHandover option" where
  "findHandover d i = find (\<lambda>h. d_id h = i) (cashHandovers d)"

definition setHandover :: "id \<Rightarrow> (cashHandover \<Rightarrow> cashHandover) \<Rightarrow> db \<Rightarrow> db" where
  "setHandover i f d = d\<lparr>cashHandovers := upd (\<lambda>h. d_id h = i) f (cashHandovers d)\<rparr>"

definition plainTx :: "CashFlowType \<Rightarrow> money \<Rightarrow> id \<Rightarrow> id \<Rightarrow> cashTx" where
  "plainTx ty amt fid emp =
     \<lparr>k_id = 0, k_type = ty, k_amount = amt, k_fundId = fid, k_employeeId = emp, k_shiftId = None, k_invoiceId = None\<rparr>"

definition HANDOVER_SETTLEMENT_SLA_HOURS :: string where
  "HANDOVER_SETTLEMENT_SLA_HOURS = ''cash.handover_settlement_sla_hours''"

definition getSettlementSlaHours :: "db \<Rightarrow> int" where
  "getSettlementSlaHours d =
     (case findSetting HANDOVER_SETTLEMENT_SLA_HOURS d of
        None \<Rightarrow> 24
      | Some v \<Rightarrow> if v = rat_of_int \<lfloor>v\<rfloor> \<and> 0 < v \<and> v \<le> 720 then \<lfloor>v\<rfloor> else 24)"

definition postDestinationEntry :: "cashHandover \<Rightarrow> id \<Rightarrow> FundType \<Rightarrow> db \<Rightarrow> (id \<times> db) res" where
  "postDestinationEntry h emp expected d =
     (let g = (\<lambda>f. f_id f = d_destinationFundId h \<and> f_type f = expected \<and> f_deletedAt f = None) in
      require (cnt g (funds d) = 1) (Conflict ''destination fund unavailable'')
      (andThen (createCashTx (plainTx Flow_INCOME (d_transfer h) (d_destinationFundId h) emp)
          (d\<lparr>funds := upd g (addBalance (d_transfer h)) (funds d)\<rparr>)) (\<lambda>d'. Inr (nextId d, d'))))"

definition postVariance :: "cashHandover \<Rightarrow> id \<Rightarrow> db \<Rightarrow> (id option \<times> db) res" where
  "postVariance h emp d =
     (if d_variance h = 0 then Inr (None, d)
      else andThen (createCashTx (plainTx (if 0 < d_variance h then Flow_INCOME else Flow_EXPENSE) \<bar>d_variance h\<bar>
             (d_sourceFundId h) emp) d) (\<lambda>d'. Inr (Some (nextId d), d')))"

definition approveHandover :: "id \<Rightarrow> id \<Rightarrow> time \<Rightarrow> db \<Rightarrow> db res" where
  "approveHandover i emp now d =
     assertActiveEmployee emp d
     (fetch (findHandover d i) (NotFound ''handover'') (\<lambda>h.
      fetch (findFund d (d_sourceFundId h)) (NotFound ''fund'') (\<lambda>sf.
      fetch (findFund d (d_destinationFundId h)) (NotFound ''fund'') (\<lambda>df.
      require (d_status h = Req_PENDING) (Conflict ''no longer pending'')
      (require (d_requestedById h \<noteq> emp) (Forbidden ''own handover'')
      (require (activeCashFund sf \<and> f_deletedAt df = None) (Conflict ''funds must remain active'')
      (assertFundsHaveNoOpenShift (d_sourceFundId h) df d
      (let g = (\<lambda>f. f_id f = d_sourceFundId h \<and> f_deletedAt f = None \<and> f_balance f = d_expectedCash h);
           bank = (f_type df = Fund_BANK) in
       require (cnt g (funds d) = 1) (Conflict ''source balance changed'')
       (andThen (postVariance h emp (d\<lparr>funds := upd g (\<lambda>f. f\<lparr>f_balance := d_retained h\<rparr>) (funds d)\<rparr>)) (\<lambda>vd.
        andThen (createCashTx (plainTx Flow_EXPENSE (d_transfer h) (d_sourceFundId h) emp) (snd vd)) (\<lambda>d2.
        andThen (if bank then Inr (None, d2)
           else andThen (postDestinationEntry h emp (f_type df) d2) (\<lambda>td. Inr (Some (fst td), snd td))) (\<lambda>td.
        Inr (addLog emp ''CASH_HANDOVER_APPROVED'' i
          (setHandover i (\<lambda>r. r\<lparr>d_status := Req_APPROVED, d_resolvedById := Some emp,
             d_settlement := Some (if bank then Settle_PENDING else Settle_NOT_REQUIRED),
             d_settlementDueAt := (if bank then Some (now + getSettlementSlaHours d * 60 * 60 * 1000) else None),
             d_sourceTxId := Some (nextId (snd vd)), d_destinationTxId := fst td, d_varianceTxId := fst vd\<rparr>)
             (snd td)))))))))))))))"

section \<open>Depositing and settling\<close>

text \<open>\<open>CashHandover_destinationFundId_bankReference_key\<close>: a reference is used once per fund.\<close>

definition referenceFree :: "cashHandover \<Rightarrow> string \<Rightarrow> db \<Rightarrow> bool" where
  "referenceFree h ref d \<longleftrightarrow> (\<forall>r\<in>set (cashHandovers d).
     \<not> (d_id r \<noteq> d_id h \<and> d_destinationFundId r = d_destinationFundId h \<and> d_bankReference r = Some ref))"

definition awaitingSettlement :: "cashHandover \<Rightarrow> bool" where
  "awaitingSettlement h \<longleftrightarrow> d_status h = Req_APPROVED \<and> d_settlement h = Some Settle_PENDING"

definition registerDeposit :: "id \<Rightarrow> id \<Rightarrow> string \<Rightarrow> string \<Rightarrow> db \<Rightarrow> db res" where
  "registerDeposit i emp reference evidence d =
     assertActiveEmployee emp d
     (fetch (findHandover d i) (NotFound ''handover'') (\<lambda>h.
      fetch (findFund d (d_destinationFundId h)) (NotFound ''fund'') (\<lambda>df.
      require (awaitingSettlement h) (Conflict ''not awaiting settlement'')
      (require (d_requestedById h = emp) (Forbidden ''only the requester'')
      (require (f_deletedAt df = None \<and> f_type df = Fund_BANK) (Conflict ''active BANK fund required'')
      (let ref = toUpperCase reference in
       if given (d_bankReference h) \<or> given (d_evidence h)
       then require (d_bankReference h = Some ref \<and> d_evidence h = Some evidence) (Conflict ''evidence already registered'')
         (Inr d)
       else require (referenceFree h ref d) (Conflict ''reference already registered'')
         (Inr (addLog emp ''CASH_HANDOVER_DEPOSIT_REGISTERED'' i
           (setHandover i (\<lambda>r. r\<lparr>d_bankReference := Some ref, d_evidence := Some evidence\<rparr>) d)))))))))"

definition settleInTransaction :: "id \<Rightarrow> id \<Rightarrow> string \<Rightarrow> string \<Rightarrow> db \<Rightarrow> db res" where
  "settleInTransaction i emp reference evidence d =
     assertActiveEmployee emp d
     (fetch (findHandover d i) (NotFound ''handover'') (\<lambda>h.
      fetch (findFund d (d_destinationFundId h)) (NotFound ''fund'') (\<lambda>df.
      require (awaitingSettlement h) (Conflict ''not awaiting settlement'')
      (require (d_requestedById h \<noteq> emp) (Forbidden ''own handover'')
      (require (f_deletedAt df = None \<and> f_type df = Fund_BANK) (Conflict ''active BANK fund required'')
      (let ref = toUpperCase reference in
       require (\<not> (given (d_bankReference h) \<and> d_bankReference h \<noteq> Some ref) \<and>
           \<not> (given (d_evidence h) \<and> d_evidence h \<noteq> Some evidence)) (Conflict ''details do not match the deposit'')
       (andThen (postDestinationEntry h emp Fund_BANK d) (\<lambda>td.
        require (referenceFree h ref (snd td)) (Conflict ''reference already reconciled'')
        (Inr (addLog emp ''CASH_HANDOVER_SETTLED'' i
          (setHandover i (\<lambda>r. r\<lparr>d_settlement := Some Settle_SETTLED, d_settledById := Some emp,
             d_bankReference := Some ref, d_evidence := Some evidence, d_destinationTxId := Some (fst td)\<rparr>)
             (snd td))))))))))))"

section \<open>Refusing\<close>

definition rejectHandover :: "id \<Rightarrow> id \<Rightarrow> db \<Rightarrow> db res" where
  "rejectHandover i emp d =
     assertActiveEmployee emp d
     (fetch (findHandover d i) (NotFound ''handover'') (\<lambda>h.
      require (d_status h = Req_PENDING) (Conflict ''no longer pending'')
      (require (d_requestedById h \<noteq> emp) (Forbidden ''own handover'')
        (Inr (addLog emp ''CASH_HANDOVER_REJECTED'' i
          (setHandover i (\<lambda>r. r\<lparr>d_status := Req_REJECTED, d_resolvedById := Some emp\<rparr>) d))))))"

definition cancelHandover :: "id \<Rightarrow> id \<Rightarrow> db \<Rightarrow> db res" where
  "cancelHandover i emp d =
     assertActiveEmployee emp d
     (fetch (findHandover d i) (NotFound ''handover'') (\<lambda>h.
      require (d_status h = Req_PENDING) (Conflict ''no longer pending'')
      (require (d_requestedById h = emp) (Forbidden ''only the requester'')
        (Inr (addLog emp ''CASH_HANDOVER_CANCELLED'' i
          (setHandover i (\<lambda>r. r\<lparr>d_status := Req_CANCELLED, d_resolvedById := Some emp\<rparr>) d))))))"

section \<open>Funds\<close>

text \<open>\<open>Fund_active_name_unique_idx\<close> compares the names the way the database does (\<open>sameName\<close>).\<close>

definition fundNameFree :: "(string \<Rightarrow> string \<Rightarrow> bool) \<Rightarrow> id option \<Rightarrow> string \<Rightarrow> db \<Rightarrow> bool" where
  "fundNameFree sameName except name d \<longleftrightarrow>
     (\<forall>f\<in>set (funds d). \<not> (f_deletedAt f = None \<and> Some (f_id f) \<noteq> except \<and> sameName (f_name f) name))"

definition createFund :: "(string \<Rightarrow> string \<Rightarrow> bool) \<Rightarrow> id \<Rightarrow> string \<Rightarrow> FundType \<Rightarrow> money \<Rightarrow> db \<Rightarrow> (id \<times> db) res" where
  "createFund sameName emp name ty opening_balance d =
     require (activeEmployee emp d) (Unauthorized ''employee'')
     (require (fundNameFree sameName None name d) (Conflict ''fund name exists'')
     (require (0 \<le> opening_balance) (Conflict ''check balance'')
       (Inr (nextId d, addLog emp ''FUND_CREATED'' (nextId d)
         (d\<lparr>nextId := Suc (nextId d), funds := funds d @ [\<lparr>f_id = nextId d, f_name = name, f_type = ty,
            f_balance = opening_balance, f_deletedAt = None\<rparr>]\<rparr>)))))"

definition fundInHandover :: "id \<Rightarrow> db \<Rightarrow> bool" where
  "fundInHandover fid d \<longleftrightarrow> (\<exists>h\<in>set (cashHandovers d).
     (d_status h = Req_PENDING \<or> d_settlement h = Some Settle_PENDING) \<and>
     (d_sourceFundId h = fid \<or> d_destinationFundId h = fid))"

definition fundInShift :: "id \<Rightarrow> db \<Rightarrow> bool" where
  "fundInShift fid d \<longleftrightarrow> (\<exists>c\<in>set (cashierShifts d). c_fundId c = Some fid \<and> c_status c = Shift_OPEN)"

definition updateFund :: "(string \<Rightarrow> string \<Rightarrow> bool) \<Rightarrow> id \<Rightarrow> id \<Rightarrow> string option \<Rightarrow> FundType option \<Rightarrow> db \<Rightarrow> db res" where
  "updateFund sameName fid emp name ty d =
     assertActiveEmployee emp d
     (fetch (find (\<lambda>f. f_id f = fid \<and> f_deletedAt f = None) (funds d)) (NotFound ''fund'') (\<lambda>f.
      require (\<not> (ty \<noteq> None \<and> ty \<noteq> Some (f_type f) \<and> (\<exists>b\<in>set (bankImports d). bi_fundId b = fid)))
        (Conflict ''fund has bank statement history'')
      (require (\<not> (ty \<noteq> None \<and> ty \<noteq> Some (f_type f) \<and> fundInHandover fid d)) (Conflict ''fund used by a handover'')
      (require (\<not> (ty \<noteq> None \<and> ty \<noteq> Some (f_type f) \<and> fundInShift fid d)) (Conflict ''fund used by an open shift'')
      (require (case name of None \<Rightarrow> True | Some n \<Rightarrow> fundNameFree sameName (Some fid) n d) (Conflict ''fund name exists'')
        (Inr (addLog emp ''FUND_UPDATED'' fid
          (d\<lparr>funds := upd (\<lambda>r. f_id r = fid) (\<lambda>r. r\<lparr>f_name := orElse name (f_name r), f_type := orElse ty (f_type r)\<rparr>)
             (funds d)\<rparr>))))))))"

definition removeFund :: "id \<Rightarrow> id \<Rightarrow> time \<Rightarrow> db \<Rightarrow> db res" where
  "removeFund fid emp now d =
     assertActiveEmployee emp d
     (fetch (find (\<lambda>f. f_id f = fid \<and> f_deletedAt f = None) (funds d)) (NotFound ''fund'') (\<lambda>f.
      require (f_balance f = 0) (Conflict ''fund not empty'')
      (require (\<not> fundInShift fid d) (Conflict ''fund has an open shift'')
      (require (\<not> fundInHandover fid d) (Conflict ''fund used by a handover'')
        (Inr (addLog emp ''FUND_DELETED'' fid
          (d\<lparr>funds := upd (\<lambda>r. f_id r = fid) (\<lambda>r. r\<lparr>f_deletedAt := Some now\<rparr>) (funds d)\<rparr>)))))))"

end
