(* ===== verification/Cash_Facts.thy ===== *)
theory Cash_Facts
  imports Invoices Handovers Cashier Order_System
begin

text \<open>
  What the cash operations do to a drawer. \<open>drawer\<close> is the part of the reconciliation that
  changes while a shift is open; \<open>books\<close> says that for every open shift the balance of its fund
  is what the reconciliation expects. The lemmas compute both for the four elementary writes: a
  movement, a cash payment, a cash refund, and a payment that is not cash.
\<close>

section \<open>Definitions\<close>

definition cashView :: "db \<Rightarrow> fund list \<times> cashierShift list \<times> cashTx list \<times> cashRefund list \<times> invoice list" where
  "cashView d = (funds d, cashierShifts d, cashTxs d, cashRefunds d, invoices d)"

definition balanceOf :: "db \<Rightarrow> id \<Rightarrow> money" where
  "balanceOf d fid = (case findFund d fid of None \<Rightarrow> 0 | Some f \<Rightarrow> f_balance f)"

definition cashFund :: "db \<Rightarrow> id \<Rightarrow> bool" where
  "cashFund d fid \<longleftrightarrow> (\<exists>f\<in>set (funds d). f_id f = fid \<and> f_type f = Fund_CASH)"

definition drawer :: "id \<Rightarrow> db \<Rightarrow> money" where
  "drawer cid d = shiftSales (\<lambda>m. m = Method_CASH) cid d + manualFlow Flow_INCOME cid d
     - manualFlow Flow_EXPENSE cid d - shiftRefunds cid d"

definition openOn :: "db \<Rightarrow> cashierShift \<Rightarrow> id \<Rightarrow> bool" where
  "openOn d c fid \<longleftrightarrow> c \<in> set (cashierShifts d) \<and> c_status c = Shift_OPEN \<and> c_fundId c = Some fid"

definition books :: "db \<Rightarrow> bool" where
  "books d \<longleftrightarrow> (\<forall>c fid. openOn d c fid \<longrightarrow>
     cashFund d fid \<and> balanceOf d fid = c_expectedStartingCash c + drawer (c_id c) d)"

text \<open>Ids drawn later than everything the cash tables refer to.\<close>

definition cash_fresh :: "db \<Rightarrow> bool" where
  "cash_fresh d \<longleftrightarrow>
     (\<forall>f\<in>set (funds d). f_id f < nextId d) \<and>
     (\<forall>c\<in>set (cashierShifts d). c_id c < nextId d) \<and>
     (\<forall>k\<in>set (cashTxs d). k_id k < nextId d \<and> (\<forall>s. k_shiftId k = Some s \<longrightarrow> s < nextId d)) \<and>
     (\<forall>y\<in>set (cashRefunds d). y_cashTxId y < nextId d \<and> y_invoiceId y < nextId d) \<and>
     (\<forall>v\<in>set (invoices d). v_id v < nextId d \<and> (\<forall>s. v_shiftId v = Some s \<longrightarrow> s < nextId d))"

lemma reconciliation_drawer:
  "rc_actualEndingCash (calculateReconciliation c d) = c_expectedStartingCash c + drawer (c_id c) d"
  by (simp add: calculateReconciliation_def drawer_def Let_def)

section \<open>Frames\<close>

lemma cashViewD:
  assumes "cashView d' = cashView d"
  shows "funds d' = funds d" "cashierShifts d' = cashierShifts d" "cashTxs d' = cashTxs d"
    "cashRefunds d' = cashRefunds d" "invoices d' = invoices d"
  using assms by (simp_all add: cashView_def)

lemma cashView_parts:
  assumes "cashView d' = cashView d"
  shows "balanceOf d' = balanceOf d" "cashFund d' = cashFund d" "drawer cid d' = drawer cid d" "openOn d' = openOn d"
  using cashViewD [OF assms]
  by (simp_all add: balanceOf_def cashFund_def drawer_def openOn_def shiftSales_def manualFlow_def shiftRefunds_def
      refundTx_def txInShift_def findFund_def fun_eq_iff)

lemma books_cong:
  assumes "cashView d' = cashView d"
  shows "books d' = books d"
proof -
  have "drawer cid d' = drawer cid d" for cid by (rule cashView_parts [OF assms])
  then show ?thesis by (simp add: books_def cashView_parts(1,2,4) [OF assms])
qed

lemma cashView_log [simp]:
  "cashView (addLog e act s d) = cashView d" "cashView (enqueue p n a t w d) = cashView d"
  "cashView (enqueueOrderEvent n a t w d) = cashView d" "cashView (setTables g st d) = cashView d"
  "cashView (enqueueInvoiceEvent n v os w d) = cashView d"
  by (simp_all add: cashView_def enqueueOrderEvent_def setTables_def enqueueInvoiceEvent_def)

text \<open>Everything of the cash desk: the money, and the requests that move it.\<close>

definition deskView where
  "deskView d = (cashView d, cashHandovers d, expenseRequests d, paymentAttempts d, paymentRefunds d)"

lemma deskView_log [simp]:
  "deskView (addLog e act s d) = deskView d" "deskView (enqueue p n a t w d) = deskView d"
  "deskView (enqueueOrderEvent n a t w d) = deskView d" "deskView (setTables g st d) = deskView d"
  "deskView (enqueueInvoiceEvent n v os w d) = deskView d"
  by (simp_all add: deskView_def enqueueOrderEvent_def setTables_def enqueueInvoiceEvent_def cashView_def)

lemma deskView_blank: "deskView (nonStock d) = deskView d" "deskView (nonKitchen d) = deskView d"
  by (simp_all add: deskView_def cashView_def nonStock_def nonKitchen_def)

lemma deskView_nonStock: "nonStock d' = nonStock d \<Longrightarrow> deskView d' = deskView d"
  by (metis deskView_blank(1))

lemma deskView_nonKitchen: "nonKitchen d' = nonKitchen d \<Longrightarrow> deskView d' = deskView d"
  by (metis deskView_blank(2))

lemma deskView_stock:
  "reservePendingItems whr now d = Inr d' \<Longrightarrow> deskView d' = deskView d"
  "releaseReservations ids d = Inr d' \<Longrightarrow> deskView d' = deskView d"
  "consumeOrderItem oi now d = Inr (mvs, d') \<Longrightarrow> deskView d' = deskView d"
  "deskView (recordWaste oid emp reason d) = deskView d"
  by (rule deskView_nonStock; use reserve_frame release_frame consume_frame waste_frame in blast)+

lemma deskView_cash: "deskView d' = deskView d \<Longrightarrow> cashView d' = cashView d"
  by (simp add: deskView_def)

lemma cashView_blank: "cashView (nonStock d) = cashView d" "cashView (nonKitchen d) = cashView d"
  by (simp_all add: cashView_def nonStock_def nonKitchen_def)

lemma cashView_nonStock: "nonStock d' = nonStock d \<Longrightarrow> cashView d' = cashView d"
  by (metis cashView_blank(1))

lemma cashView_nonKitchen: "nonKitchen d' = nonKitchen d \<Longrightarrow> cashView d' = cashView d"
  by (metis cashView_blank(2))

lemma cashView_stock:
  "reservePendingItems whr now d = Inr d' \<Longrightarrow> cashView d' = cashView d"
  "releaseReservations ids d = Inr d' \<Longrightarrow> cashView d' = cashView d"
  "consumeOrderItem oi now d = Inr (mvs, d') \<Longrightarrow> cashView d' = cashView d"
  "cashView (recordWaste oid emp reason d) = cashView d"
  by (rule cashView_nonStock; use reserve_frame release_frame consume_frame waste_frame in blast)+

lemma closeSession_desk: "closeSessionIfFullyPaid s d = Inr d' \<Longrightarrow> deskView d' = deskView d"
  by (auto simp: closeSessionIfFullyPaid_def deskView_def cashView_def Let_def split: if_split_asm)

lemmas closeSession_cash = closeSession_desk [THEN deskView_cash]

section \<open>Balances\<close>

lemma balanceOf_mem: "distinct (map f_id (funds d)) \<Longrightarrow> f \<in> set (funds d) \<Longrightarrow> balanceOf d (f_id f) = f_balance f"
  using find_unique [of f_id "funds d" f "f_id f"] by (simp add: balanceOf_def findFund_def)

text \<open>An update that changes the balance of the one row of a fund.\<close>

lemma balanceOf_upd:
  assumes "distinct (map f_id (funds d))" and "r \<in> set (funds d)" and "g r" and "\<And>x. g x \<Longrightarrow> f_id x = fid"
    and "\<And>x. f_id (u x) = f_id x" and "funds d' = upd g u (funds d)"
  shows "balanceOf d' x = (if x = fid then f_balance (u r) else balanceOf d x)"
proof -
  have keys: "map f_id (funds d') = map f_id (funds d)" by (simp add: assms(5,6) map_key_upd)
  then have dist: "distinct (map f_id (funds d'))" using assms(1) by simp
  have rid: "f_id r = fid" using assms(3,4) by blast
  have mem: "(if g y then u y else y) \<in> set (funds d')" if "y \<in> set (funds d)" for y
    using that by (auto simp: assms(6) set_upd)
  show ?thesis
  proof (cases "x \<in> f_id ` set (funds d)")
    case True
    then obtain y where y: "y \<in> set (funds d)" "f_id y = x" by blast
    have id: "f_id (if g y then u y else y) = x" using y(2) assms(5) by simp
    have bal: "balanceOf d' x = f_balance (if g y then u y else y)"
      using balanceOf_mem [OF dist mem [OF y(1)]] id by simp
    show ?thesis
    proof (cases "x = fid")
      case True
      then have "y = r" using distinct_key_eq [OF assms(1) y(1) assms(2)] y(2) rid by simp
      then show ?thesis using bal True assms(3) by simp
    next
      case False
      then have "\<not> g y" using assms(4) y(2) by blast
      then show ?thesis using bal False balanceOf_mem [OF assms(1) y(1)] y(2) by simp
    qed
  next
    case False
    have "set (map f_id (funds d')) = set (map f_id (funds d))" by (simp only: keys)
    then have "\<forall>f\<in>set (funds d'). f_id f \<noteq> x" "\<forall>f\<in>set (funds d). f_id f \<noteq> x" using False by force+
    then have "findFund d' x = None" "findFund d x = None" by (simp_all add: findFund_def find_None_iff)
    moreover have "x \<noteq> fid" using False assms(2) rid by blast
    ultimately show ?thesis by (simp add: balanceOf_def)
  qed
qed

lemma balanceOf_add:
  assumes "distinct (map f_id (funds d))" and "cnt g (funds d) = 1" and "\<And>x. g x \<Longrightarrow> f_id x = fid"
    and "funds d' = upd g (addBalance a) (funds d)"
  shows "balanceOf d' x = balanceOf d x + (if x = fid then a else 0)"
proof -
  obtain r where r: "r \<in> set (funds d)" "g r" using cnt_1_obtain [OF assms(2)] by blast
  have "balanceOf d' x = (if x = fid then f_balance (addBalance a r) else balanceOf d x)"
    by (rule balanceOf_upd [OF assms(1) r assms(3) _ assms(4)]) (simp_all add: addBalance_def)
  moreover have "balanceOf d fid = f_balance r" using balanceOf_mem [OF assms(1) r(1)] assms(3) [OF r(2)] by simp
  ultimately show ?thesis by (simp add: addBalance_def)
qed

lemma cashFund_upd:
  assumes "cashFund d x" and "funds d' = upd g u (funds d)" and "\<And>f. f_id (u f) = f_id f" and "\<And>f. f_type (u f) = f_type f"
  shows "cashFund d' x"
proof -
  obtain f where f: "f \<in> set (funds d)" "f_id f = x" "f_type f = Fund_CASH" using assms(1) by (auto simp: cashFund_def)
  then have "(if g f then u f else f) \<in> set (funds d')" by (auto simp: assms(2) set_upd)
  then show ?thesis using f assms(3,4) unfolding cashFund_def by (metis (full_types))
qed

section \<open>Drawers\<close>

lemma shiftRefunds_append:
  assumes "\<forall>y\<in>set ys. y_cashTxId y \<noteq> k_id k"
  shows "sumw (\<lambda>y. \<exists>r\<in>set (ks @ [k]). k_id r = y_cashTxId y \<and> k_shiftId r = Some cid) y_amount ys =
     sumw (\<lambda>y. \<exists>r\<in>set ks. k_id r = y_cashTxId y \<and> k_shiftId r = Some cid) y_amount ys"
  using assms by (intro sumw_cong) auto

text \<open>A new ledger entry that no refund refers to.\<close>

lemma drawer_tx:
  assumes "\<forall>y\<in>set (cashRefunds d). y_cashTxId y \<noteq> n" and "cashTxs d' = cashTxs d @ [k\<lparr>k_id := n\<rparr>]"
    and "cashRefunds d' = cashRefunds d" and "invoices d' = invoices d"
  shows "drawer cid d' = drawer cid d +
     (if k_shiftId k = Some cid \<and> k_invoiceId k = None then flowSign (k_type k) (k_amount k) else 0)"
proof -
  have new: "\<forall>y\<in>set (cashRefunds d). y_cashTxId y \<noteq> k_id (k\<lparr>k_id := n\<rparr>)"
    using assms(1) by simp
  then have "\<not> refundTx d n" by (auto simp: refundTx_def)
  moreover have "refundTx d' x = refundTx d x" for x by (simp add: refundTx_def assms(3))
  moreover have "shiftRefunds cid d' = shiftRefunds cid d"
    using shiftRefunds_append [OF new] by (simp add: shiftRefunds_def txInShift_def assms(2,3))
  ultimately show ?thesis
    by (cases "k_type k") (simp_all add: drawer_def shiftSales_def manualFlow_def assms(2,4) flowSign_def)
qed

text \<open>A refund and the ledger entry it points to.\<close>

lemma drawer_refund:
  assumes "\<forall>y\<in>set (cashRefunds d). y_cashTxId y \<noteq> n" and "cashTxs d' = cashTxs d @ [k\<lparr>k_id := n\<rparr>]"
    and "\<forall>r\<in>set (cashTxs d). k_id r \<noteq> n"
    and "cashRefunds d' = cashRefunds d @ [y]" and "y_cashTxId y = n" and "invoices d' = invoices d"
  shows "drawer cid d' = drawer cid d - (if k_shiftId k = Some cid then y_amount y else 0)"
proof -
  have new: "\<forall>y\<in>set (cashRefunds d). y_cashTxId y \<noteq> k_id (k\<lparr>k_id := n\<rparr>)"
    and newk: "\<forall>r\<in>set (cashTxs d). k_id r \<noteq> n"
    using assms(1,3) by simp_all
  have "refundTx d' x = (refundTx d x \<or> x = n)" for x by (auto simp: refundTx_def assms(4,5))
  then have "manualFlow ty cid d' = manualFlow ty cid d" for ty
    using newk by (auto simp: manualFlow_def assms(2) intro!: sumw_cong)
  moreover have "shiftRefunds cid d' = shiftRefunds cid d + (if k_shiftId k = Some cid then y_amount y else 0)"
    using shiftRefunds_append [OF new] newk by (simp add: shiftRefunds_def txInShift_def assms(2,4,5))
  ultimately show ?thesis by (simp add: drawer_def shiftSales_def assms(6))
qed

text \<open>One invoice changes its state; everything else of the drawer stays.\<close>

definition cashSale :: "id \<Rightarrow> invoice \<Rightarrow> money" where
  "cashSale cid v = (if v_shiftId v = Some cid \<and> paidStatus (v_status v) \<and> v_method v = Method_CASH then v_total v else 0)"

lemma shiftSales_alt: "shiftSales (\<lambda>m. m = Method_CASH) cid d = (\<Sum>v\<leftarrow>invoices d. cashSale cid v)"
  unfolding shiftSales_def cashSale_def by (induction "invoices d" arbitrary: d) (auto simp: sumw_def sum_list_map_filter')

lemma drawer_invoice:
  assumes "distinct (map v_id (invoices d))" and "v \<in> set (invoices d)" and "g v" and "\<And>x. g x \<Longrightarrow> v_id x = v_id v"
    and "invoices d' = upd g u (invoices d)"
    and "cashTxs d' = cashTxs d" "cashRefunds d' = cashRefunds d"
  shows "drawer cid d' = drawer cid d - cashSale cid v + cashSale cid (u v)"
proof -
  have "shiftSales (\<lambda>m. m = Method_CASH) cid d' = shiftSales (\<lambda>m. m = Method_CASH) cid d - cashSale cid v + cashSale cid (u v)"
    unfolding shiftSales_def assms(5)
    using sumw_upd_one [where key = v_id and k = "v_id v" and P = g and t = "invoices d" and r = v and f = u and h = v_total
        and Q = "\<lambda>v. v_shiftId v = Some cid \<and> paidStatus (v_status v) \<and> v_method v = Method_CASH", OF assms(1-4)]
    by (simp add: cashSale_def)
  then show ?thesis by (simp add: drawer_def manualFlow_def shiftRefunds_def refundTx_def txInShift_def assms(6,7))
qed

lemma drawer_new_invoice:
  assumes "invoices d' = invoices d @ [v]" and "cashTxs d' = cashTxs d" and "cashRefunds d' = cashRefunds d"
  shows "drawer cid d' = drawer cid d + cashSale cid v"
  by (simp add: drawer_def shiftSales_def cashSale_def manualFlow_def shiftRefunds_def refundTx_def txInShift_def assms)

section \<open>Keeping the books\<close>

lemma openOn_unique:
  assumes "keys_ok d" and "openOn d c fid" and "openOn d c' fid"
  shows "c = c'"
proof -
  let ?t = "filter (\<lambda>c. c_status c = Shift_OPEN \<and> c_fundId c \<noteq> None) (cashierShifts d)"
  have "distinct (map c_fundId ?t)" using keys_okD(12) [OF assms(1)] by (simp add: one_open_shift_def)
  from distinct_key_eq [OF this, of c c'] show ?thesis using assms(2,3) by (simp add: openOn_def)
qed

lemma openOn_id:
  assumes "keys_ok d" and "openOn d c fid" and "openOn d c' fid'" and "c_id c = c_id c'"
  shows "c = c'"
proof -
  have "c \<in> set (cashierShifts d)" "c' \<in> set (cashierShifts d)" using assms(2,3) by (simp_all add: openOn_def)
  then show ?thesis by (rule distinct_key_eq [OF keys_okD(7) [OF assms(1)] _ _ assms(4)])
qed

text \<open>Money in the drawer of shift \<open>s\<close>: balance and drawer change by the same amount.\<close>

lemma books_flow:
  assumes "books d" and "keys_ok d" and "cashierShifts d' = cashierShifts d" and c: "openOn d c fid"
    and "\<And>x. balanceOf d' x = balanceOf d x + (if x = fid then a else 0)"
    and "\<And>cid. drawer cid d' = drawer cid d + (if cid = c_id c then a else 0)"
    and "\<And>x. cashFund d x \<Longrightarrow> cashFund d' x"
  shows "books d'"
  unfolding books_def
proof (intro allI impI)
  fix c1 f1 assume "openOn d' c1 f1"
  then have o: "openOn d c1 f1" by (simp add: openOn_def assms(3))
  then have b: "cashFund d f1" "balanceOf d f1 = c_expectedStartingCash c1 + drawer (c_id c1) d"
    using assms(1) by (auto simp: books_def)
  have "c1 = c" if "f1 = fid" using openOn_unique [OF assms(2) o [unfolded that] c] .
  moreover have "f1 = fid" if "c_id c1 = c_id c"
    using openOn_id [OF assms(2) o c that] o c by (simp add: openOn_def)
  ultimately have "f1 = fid \<longleftrightarrow> c_id c1 = c_id c" by blast
  then show "cashFund d' f1 \<and> balanceOf d' f1 = c_expectedStartingCash c1 + drawer (c_id c1) d'"
    using b assms(5-7) by simp
qed

text \<open>Money in funds without an open shift: no drawer changes.\<close>

lemma books_aside:
  assumes "books d" and "cashierShifts d' = cashierShifts d"
    and "\<And>c x. openOn d c x \<Longrightarrow> balanceOf d' x = balanceOf d x \<and> cashFund d' x"
    and "\<And>c x. openOn d c x \<Longrightarrow> drawer (c_id c) d' = drawer (c_id c) d"
  shows "books d'"
proof -
  have "openOn d' = openOn d" by (simp add: openOn_def assms(2) fun_eq_iff)
  then show ?thesis using assms(1,3,4) by (simp add: books_def)
qed

lemma requireOpenShift_openOn:
  assumes "requireOpenShift emp d = Inr shift"
  obtains c where "openOn d c (snd shift)" "c_id c = fst shift"
proof -
  obtain c fid where c: "findOpenShift emp d = Some c" "c_fundId c = Some fid" "shift = (c_id c, fid)"
    using assms by (auto simp: requireOpenShift_def)
  then have "c \<in> set (cashierShifts d)" "c_status c = Shift_OPEN"
    using find_SomeD [OF c(1) [unfolded findOpenShift_def]] by auto
  then show ?thesis using c by (intro that [of c]) (simp_all add: openOn_def)
qed

end
