(* ===== verification/Cash_Books.thy ===== *)
theory Cash_Books
  imports Cash_Facts
begin

text \<open>
  Every operation of the shop keeps the books: while a shift is open, the balance of its fund is
  what the reconciliation of the shift expects.
\<close>

section \<open>Fresh ids\<close>

lemma cash_freshD:
  assumes "cash_fresh d"
  shows "\<forall>y\<in>set (cashRefunds d). y_cashTxId y \<noteq> nextId d" "\<forall>r\<in>set (cashTxs d). k_id r \<noteq> nextId d"
    "\<forall>y\<in>set (cashRefunds d). y_cashTxId y < nextId d" "\<forall>f\<in>set (funds d). f_id f \<noteq> nextId d"
  using assms by (auto simp: cash_fresh_def)

lemma drawer_unused:
  assumes "cash_fresh d"
  shows "drawer (nextId d) d = 0"
proof -
  have "shiftSales (\<lambda>m. m = Method_CASH) (nextId d) d = 0" "manualFlow ty (nextId d) d = 0" "shiftRefunds (nextId d) d = 0" for ty
    using assms by (auto simp: shiftSales_def manualFlow_def shiftRefunds_def txInShift_def cash_fresh_def intro!: sumw_zero)
  then show ?thesis by (simp add: drawer_def)
qed

section \<open>Shifts\<close>

lemma openShift_effect:
  assumes "openShift emp fid startingCash d = Inr (cid, d')"
  obtains f where "f \<in> set (funds d)" "f_id f = fid" "f_type f = Fund_CASH" "f_deletedAt f = None" "cid = nextId d"
    "\<forall>h\<in>set (cashHandovers d). \<not> (d_sourceFundId h = fid \<and> d_status h = Req_PENDING)"
    "cashierShifts d' = cashierShifts d @ [\<lparr>c_id = nextId d, c_status = Shift_OPEN, c_employeeId = emp, c_fundId = Some fid,
       c_startingCash = startingCash, c_expectedStartingCash = f_balance f, c_openingDifference = startingCash - f_balance f,
       c_reportedEndingCash = None, c_actualEndingCash = None, c_closingNote = None, c_closedAt = None\<rparr>]"
    "cashView (d'\<lparr>cashierShifts := cashierShifts d\<rparr>) = cashView d"
    "cashHandovers d' = cashHandovers d" "expenseRequests d' = expenseRequests d"
  using assms
  by (auto simp: openShift_def insertShift_def cashView_def dest!: find_SomeD)

lemma openShift_books:
  assumes "openShift emp fid startingCash d = Inr (cid, d')" and "keys_ok d" and "cash_fresh d" and "books d"
  shows "books d'"
proof -
  obtain f where f: "f \<in> set (funds d)" "f_id f = fid" "f_type f = Fund_CASH"
    and cs: "cashierShifts d' = cashierShifts d @ [\<lparr>c_id = nextId d, c_status = Shift_OPEN, c_employeeId = emp, c_fundId = Some fid,
       c_startingCash = startingCash, c_expectedStartingCash = f_balance f, c_openingDifference = startingCash - f_balance f,
       c_reportedEndingCash = None, c_actualEndingCash = None, c_closingNote = None, c_closedAt = None\<rparr>]"
    and v: "cashView (d'\<lparr>cashierShifts := cashierShifts d\<rparr>) = cashView d"
    by (rule openShift_effect [OF assms(1)]) (rule that)
  have same: "balanceOf d' = balanceOf d" "cashFund d' = cashFund d" "\<And>c. drawer c d' = drawer c d"
    using cashViewD [OF v]
    by (simp_all add: balanceOf_def cashFund_def drawer_def shiftSales_def manualFlow_def shiftRefunds_def
      refundTx_def txInShift_def findFund_def fun_eq_iff)
  have "balanceOf d fid = f_balance f" using balanceOf_mem [OF keys_okD(6) [OF assms(2)] f(1)] f(2) by simp
  moreover have "cashFund d fid" using f by (auto simp: cashFund_def)
  ultimately show ?thesis
    using assms(4) drawer_unused [OF assms(3)] by (auto simp: books_def openOn_def cs same)
qed

lemma closeShift_steps:
  assumes "closeShift emp cid reported note now d = Inr d'"
  obtains c where "c \<in> set (cashierShifts d)" "c_id c = cid" "c_status c = Shift_OPEN" "c_employeeId c = emp"
    "d' = addLog emp ''CASHIER_SHIFT_CLOSED'' cid (d\<lparr>cashierShifts := upd (\<lambda>r. c_id r = cid \<and> c_status r = Shift_OPEN)
       (\<lambda>r. r\<lparr>c_status := Shift_CLOSED, c_closedAt := Some now, c_reportedEndingCash := Some reported,
         c_actualEndingCash := Some (rc_actualEndingCash (calculateReconciliation c d)), c_closingNote := note\<rparr>)
       (cashierShifts d)\<rparr>)"
    "\<forall>a\<in>set (paymentAttempts d). \<not> (a_shiftId a = cid \<and> unresolvedAttempt (a_status a))"
    "\<forall>s\<in>set (orderSessions d). \<not> (s_shiftId s = Some cid \<and> s_status s = Session_ACTIVE)"
    "\<forall>q\<in>set (expenseRequests d). \<not> (q_shiftId q = cid \<and> q_status q = Req_PENDING)"
  using assms by (auto simp: closeShift_def openWork_def Let_def unresolvedAttempt_def dest!: find_SomeD)

lemma closeShift_books:
  assumes "closeShift emp cid reported note now d = Inr d'" and "books d"
  shows "books d'"
proof -
  obtain c where d': "d' = addLog emp ''CASHIER_SHIFT_CLOSED'' cid (d\<lparr>cashierShifts := upd (\<lambda>r. c_id r = cid \<and> c_status r = Shift_OPEN)
       (\<lambda>r. r\<lparr>c_status := Shift_CLOSED, c_closedAt := Some now, c_reportedEndingCash := Some reported,
         c_actualEndingCash := Some (rc_actualEndingCash (calculateReconciliation c d)), c_closingNote := note\<rparr>)
       (cashierShifts d)\<rparr>)"
    by (rule closeShift_steps [OF assms(1)]) (rule that)
  have "funds d' = funds d" "cashTxs d' = cashTxs d" "cashRefunds d' = cashRefunds d" "invoices d' = invoices d"
    by (simp_all add: d')
  then have same: "balanceOf d' = balanceOf d" "cashFund d' = cashFund d" "\<And>c. drawer c d' = drawer c d"
    by (simp_all add: balanceOf_def cashFund_def drawer_def shiftSales_def manualFlow_def shiftRefunds_def
      refundTx_def txInShift_def findFund_def fun_eq_iff)
  have "openOn d c' x" if "openOn d' c' x" for c' x
    using that by (auto simp: openOn_def d' set_upd split: if_split_asm)
  with assms(2) show ?thesis unfolding books_def same by blast
qed

section \<open>Movements\<close>

lemma createCashTx_effect:
  assumes "createCashTx k d = Inr d'"
  shows "d' = d\<lparr>nextId := Suc (nextId d), cashTxs := cashTxs d @ [k\<lparr>k_id := nextId d\<rparr>]\<rparr>" "0 < k_amount k"
  using assms by (auto simp: createCashTx_def)

lemma postMovement_effect:
  assumes "postMovement shift emp ty amt d = Inr (n, d')"
  shows "n = nextId d" "cnt (movementGuard ty (snd shift) amt) (funds d) = 1" "0 < amt"
    "funds d' = upd (movementGuard ty (snd shift) amt) (addBalance (flowSign ty amt)) (funds d)"
    "cashTxs d' = cashTxs d @ [\<lparr>k_id = nextId d, k_type = ty, k_amount = amt, k_fundId = snd shift, k_employeeId = emp,
       k_shiftId = Some (fst shift), k_invoiceId = None\<rparr>]"
    "cashierShifts d' = cashierShifts d" "cashRefunds d' = cashRefunds d" "invoices d' = invoices d"
    "expenseRequests d' = expenseRequests d" "cashHandovers d' = cashHandovers d"
  using assms by (auto simp: postMovement_def Let_def createCashTx_def)

lemma postMovement_books:
  assumes "postMovement shift emp ty amt d = Inr (n, d')" and "keys_ok d" and "cash_fresh d" and "books d"
    and c: "openOn d c (snd shift)" "c_id c = fst shift"
  shows "books d'"
proof (rule books_flow [OF assms(4,2) postMovement_effect(6) [OF assms(1)] c(1)])
  note e = postMovement_effect [OF assms(1)]
  show "balanceOf d' x = balanceOf d x + (if x = snd shift then flowSign ty amt else 0)" for x
    by (rule balanceOf_add [OF keys_okD(6) [OF assms(2)] e(2) _ e(4)]) (simp add: movementGuard_def)
  show "drawer cid d' = drawer cid d + (if cid = c_id c then flowSign ty amt else 0)" for cid
    using drawer_tx [where d = d and d' = d' and n = "nextId d" and k = "\<lparr>k_id = 0, k_type = ty, k_amount = amt,
        k_fundId = snd shift, k_employeeId = emp, k_shiftId = Some (fst shift), k_invoiceId = None\<rparr>",
        OF cash_freshD(1) [OF assms(3)]] e c(2) by auto
  show "cashFund d x \<Longrightarrow> cashFund d' x" for x
    by (rule cashFund_upd [OF _ e(4)]) (simp_all add: addBalance_def)
qed

lemma addMovement_steps:
  assumes "addMovement emp expected ty amt desc d = Inr d'"
  shows "\<exists>shift. requireOpenShift emp d = Inr shift \<and>
    ((\<exists>q n d1. insertExpenseRequest q d = Inr (n, d1) \<and> d' = addLog emp ''CASH_EXPENSE_REQUESTED'' n d1) \<or>
     (\<exists>n d1. postMovement shift emp ty amt d = Inr (n, d1) \<and> d' = addLog emp ''CASH_MOVEMENT_CREATED'' n d1))"
  using assms by (simp add: addMovement_def split: if_split_asm) blast+

lemma addMovement_books:
  assumes "addMovement emp expected ty amt desc d = Inr d'" and "keys_ok d" and "cash_fresh d" and "books d"
  shows "books d'"
proof -
  obtain shift where sh: "requireOpenShift emp d = Inr shift"
    and r: "(\<exists>q n d1. insertExpenseRequest q d = Inr (n, d1) \<and> d' = addLog emp ''CASH_EXPENSE_REQUESTED'' n d1) \<or>
      (\<exists>n d1. postMovement shift emp ty amt d = Inr (n, d1) \<and> d' = addLog emp ''CASH_MOVEMENT_CREATED'' n d1)"
    using addMovement_steps [OF assms(1)] by blast
  obtain c where c: "openOn d c (snd shift)" "c_id c = fst shift" by (rule requireOpenShift_openOn [OF sh])
  from r show ?thesis
  proof (elim disjE exE conjE)
    fix q n d1 assume "insertExpenseRequest q d = Inr (n, d1)" "d' = addLog emp ''CASH_EXPENSE_REQUESTED'' n d1"
    then have "cashView d' = cashView d" by (auto simp: insertExpenseRequest_def cashView_def)
    then show ?thesis using assms(4) books_cong by blast
  next
    fix n d1 assume p: "postMovement shift emp ty amt d = Inr (n, d1)" "d' = addLog emp ''CASH_MOVEMENT_CREATED'' n d1"
    have "cashView d' = cashView d1" by (simp add: p(2))
    then show ?thesis using postMovement_books [OF p(1) assms(2-4) c] books_cong by blast
  qed
qed

lemma resolveRequest_cash: "resolveRequest i st emp tx d = Inr d' \<Longrightarrow> cashView d' = cashView d"
  by (auto simp: resolveRequest_def Let_def cashView_def)

lemma findShift_SomeD: "findShift d i = Some c \<Longrightarrow> c \<in> set (cashierShifts d) \<and> c_id c = i"
  unfolding findShift_def by (rule find_SomeD)

lemma approveExpense_steps:
  assumes "approveExpenseRequest i emp d = Inr d'"
  obtains q c n d1 d2 where "findExpenseRequest d i = Some q" "q_status q = Req_PENDING" "q_requestedById q \<noteq> emp"
    "openOn d c (q_fundId q)" "c_id c = q_shiftId q"
    "postMovement (q_shiftId q, q_fundId q) (q_requestedById q) Flow_EXPENSE (q_amount q) d = Inr (n, d1)"
    "resolveRequest i Req_APPROVED emp (Some n) d1 = Inr d2" "d' = addLog emp ''CASH_EXPENSE_APPROVED'' i d2"
  using assms by (auto simp: approveExpenseRequest_def openOn_def dest!: findShift_SomeD)

lemma approveExpense_books:
  assumes "approveExpenseRequest i emp d = Inr d'" and "keys_ok d" and "cash_fresh d" and "books d"
  shows "books d'"
proof -
  obtain q :: expenseRequest and c :: cashierShift and n d1 d2 where c: "openOn d c (q_fundId q)" "c_id c = q_shiftId q"
    and p: "postMovement (q_shiftId q, q_fundId q) (q_requestedById q) Flow_EXPENSE (q_amount q) d = Inr (n, d1)"
    and r: "resolveRequest i Req_APPROVED emp (Some n) d1 = Inr d2" and d': "d' = addLog emp ''CASH_EXPENSE_APPROVED'' i d2"
    by (rule approveExpense_steps [OF assms(1)]) (rule that)
  have "books d1" by (rule postMovement_books [OF p assms(2-4)]) (use c in simp_all)
  moreover have "cashView d' = cashView d1" using resolveRequest_cash [OF r] by (simp add: d')
  ultimately show ?thesis using books_cong by blast
qed

lemma resolveExpense_cash:
  "resolveExpenseRequest i emp st a b act d = Inr d' \<Longrightarrow> cashView d' = cashView d"
  by (auto simp: resolveExpenseRequest_def dest!: resolveRequest_cash)

section \<open>Handovers\<close>

lemma handover_cash:
  "createHandover emp cid df retained d = Inr (h, d') \<Longrightarrow> cashView d' = cashView d"
  "registerDeposit i emp ref ev d = Inr d' \<Longrightarrow> cashView d' = cashView d"
  "rejectHandover i emp d = Inr d' \<Longrightarrow> cashView d' = cashView d"
  "cancelHandover i emp d = Inr d' \<Longrightarrow> cashView d' = cashView d"
  by (auto simp: createHandover_def insertHandover_def assertFundsHaveNoOpenShift_def registerDeposit_def
      rejectHandover_def cancelHandover_def setHandover_def cashView_def Let_def split: if_split_asm)

lemma postDestinationEntry_effect:
  assumes "postDestinationEntry h emp ty d = Inr (n, d')"
  shows "n = nextId d"
    "cnt (\<lambda>f. f_id f = d_destinationFundId h \<and> f_type f = ty \<and> f_deletedAt f = None) (funds d) = 1"
    "funds d' = upd (\<lambda>f. f_id f = d_destinationFundId h \<and> f_type f = ty \<and> f_deletedAt f = None)
       (addBalance (d_transfer h)) (funds d)"
    "cashTxs d' = cashTxs d @ [(plainTx Flow_INCOME (d_transfer h) (d_destinationFundId h) emp)\<lparr>k_id := nextId d\<rparr>]"
    "cashierShifts d' = cashierShifts d" "cashRefunds d' = cashRefunds d" "invoices d' = invoices d"
    "cashHandovers d' = cashHandovers d" "nextId d' = Suc (nextId d)"
  using assms by (auto simp: postDestinationEntry_def Let_def createCashTx_def)

text \<open>An entry outside every shift does not show in a drawer.\<close>

lemma drawer_plain:
  assumes "\<forall>y\<in>set (cashRefunds d). y_cashTxId y \<noteq> n" and "cashTxs d' = cashTxs d @ [(plainTx ty a f e)\<lparr>k_id := n\<rparr>]"
    and "cashRefunds d' = cashRefunds d" and "invoices d' = invoices d"
  shows "drawer cid d' = drawer cid d"
  using drawer_tx [OF assms] by (simp add: plainTx_def)

lemma plain_entries:
  "flowSign ty a = (if ty = Flow_INCOME then a else - a)"
  by (cases ty) (simp_all add: flowSign_def)

text \<open>Approval: the ledger entries it writes, and the two balances it changes.\<close>

definition onlyPlain :: "id \<Rightarrow> cashTx list \<Rightarrow> bool" where
  "onlyPlain n ks \<longleftrightarrow> (\<forall>k\<in>set ks. k_shiftId k = None \<and> k_invoiceId k = None \<and> n \<le> k_id k)"

lemma drawer_plains:
  assumes "\<forall>y\<in>set (cashRefunds d). y_cashTxId y < n" and "cashTxs d' = cashTxs d @ ks" and "onlyPlain n ks"
    and "cashRefunds d' = cashRefunds d" and "invoices d' = invoices d"
  shows "drawer cid d' = drawer cid d"
proof -
  have "manualFlow ty cid d' = manualFlow ty cid d" for ty
  proof -
    have "sumw (\<lambda>k. k_type k = ty \<and> k_shiftId k = Some cid \<and> k_invoiceId k = None \<and> \<not> refundTx d (k_id k)) k_amount ks = 0"
      using assms(3) by (auto simp: onlyPlain_def intro!: sumw_zero)
    then show ?thesis by (simp add: manualFlow_def assms(2) refundTx_def assms(4) conj_ac)
  qed
  moreover have "txInShift d' x cid = txInShift d x cid" for x
    using assms(3) by (auto simp: txInShift_def assms(2) onlyPlain_def)
  ultimately have "shiftRefunds cid d' = shiftRefunds cid d"
    "manualFlow Flow_INCOME cid d' = manualFlow Flow_INCOME cid d" "manualFlow Flow_EXPENSE cid d' = manualFlow Flow_EXPENSE cid d"
    by (simp_all only: shiftRefunds_def assms(4))
  then show ?thesis by (simp add: drawer_def shiftSales_def assms(5))
qed

lemma postVariance_effect:
  assumes "postVariance h emp d = Inr (vid, d')"
  shows "\<exists>ks. cashTxs d' = cashTxs d @ ks \<and> onlyPlain (nextId d) ks"
    "funds d' = funds d" "cashierShifts d' = cashierShifts d" "cashRefunds d' = cashRefunds d" "invoices d' = invoices d"
    "cashHandovers d' = cashHandovers d" "nextId d \<le> nextId d'"
  using assms by (auto simp: postVariance_def createCashTx_def plainTx_def onlyPlain_def split: if_split_asm)

definition drainSource :: "cashHandover \<Rightarrow> db \<Rightarrow> db" where
  "drainSource h d = d\<lparr>funds := upd (\<lambda>f. f_id f = d_sourceFundId h \<and> f_deletedAt f = None \<and> f_balance f = d_expectedCash h)
     (\<lambda>f. f\<lparr>f_balance := d_retained h\<rparr>) (funds d)\<rparr>"

definition approved :: "id \<Rightarrow> time \<Rightarrow> db \<Rightarrow> bool \<Rightarrow> id option \<times> db \<Rightarrow> id option \<times> db \<Rightarrow> id \<Rightarrow> db" where
  "approved emp now d bank vd td i = addLog emp ''CASH_HANDOVER_APPROVED'' i
     (setHandover i (\<lambda>r. r\<lparr>d_status := Req_APPROVED, d_resolvedById := Some emp,
       d_settlement := Some (if bank then Settle_PENDING else Settle_NOT_REQUIRED),
       d_settlementDueAt := (if bank then Some (now + getSettlementSlaHours d * 60 * 60 * 1000) else None),
       d_sourceTxId := Some (nextId (snd vd)), d_destinationTxId := fst td, d_varianceTxId := fst vd\<rparr>) (snd td))"

lemma approveHandover_steps:
  assumes "approveHandover i emp now d = Inr d'"
  obtains h :: cashHandover and df :: fund and vd d2 td where
    "findHandover d i = Some h" "findFund d (d_destinationFundId h) = Some df" "d_status h = Req_PENDING"
    "d_requestedById h \<noteq> emp"
    "\<forall>c\<in>set (cashierShifts d). \<not> (c_status c = Shift_OPEN \<and>
         (c_fundId c = Some (d_sourceFundId h) \<or> f_type df = Fund_CASH \<and> c_fundId c = Some (f_id df)))"
    "cnt (\<lambda>f. f_id f = d_sourceFundId h \<and> f_deletedAt f = None \<and> f_balance f = d_expectedCash h) (funds d) = 1"
    "postVariance h emp (drainSource h d) = Inr vd"
    "createCashTx (plainTx Flow_EXPENSE (d_transfer h) (d_sourceFundId h) emp) (snd vd) = Inr d2"
    "(if f_type df = Fund_BANK then Inr (None, d2)
      else andThen (postDestinationEntry h emp (f_type df) d2) (\<lambda>td. Inr (Some (fst td), snd td))) = Inr td"
    "d' = approved emp now d (f_type df = Fund_BANK) vd td i"
proof -
  from assms show ?thesis
    unfolding approveHandover_def assertFundsHaveNoOpenShift_def Let_def assertActiveEmployee_Inr_iff
      fetch_Inr_iff require_Inr_iff andThen_Inr_iff [of "postVariance _ _ _"] andThen_Inr_iff [of "createCashTx _ _"]
      andThen_Inr_iff [of "if _ then _ else _"] drainSource_def [symmetric]
    by (elim exE conjE) (rule that, assumption+, simp add: approved_def)
qed

text \<open>Only the balances of the source and of a destination that is not a bank account change.\<close>

lemma approveHandover_effect:
  assumes "approveHandover i emp now d = Inr d'"
  obtains h :: cashHandover and df :: fund and ks where
    "findHandover d i = Some h" "findFund d (d_destinationFundId h) = Some df"
    "cashTxs d' = cashTxs d @ ks" "onlyPlain (nextId d) ks"
    "cashierShifts d' = cashierShifts d" "cashRefunds d' = cashRefunds d" "invoices d' = invoices d"
    "funds d' = (if f_type df = Fund_BANK then funds (drainSource h d)
       else upd (\<lambda>f. f_id f = d_destinationFundId h \<and> f_type f = f_type df \<and> f_deletedAt f = None)
         (addBalance (d_transfer h)) (funds (drainSource h d)))"
    "\<forall>c\<in>set (cashierShifts d). \<not> (c_status c = Shift_OPEN \<and>
         (c_fundId c = Some (d_sourceFundId h) \<or> f_type df = Fund_CASH \<and> c_fundId c = Some (f_id df)))"
    "cnt (\<lambda>f. f_id f = d_sourceFundId h \<and> f_deletedAt f = None \<and> f_balance f = d_expectedCash h) (funds d) = 1"
    "f_type df \<noteq> Fund_BANK \<longrightarrow> cnt (\<lambda>f. f_id f = d_destinationFundId h \<and> f_type f = f_type df \<and> f_deletedAt f = None)
       (funds (drainSource h d)) = 1"
proof -
  obtain h :: cashHandover and df :: fund and vd d2 td where
    h: "findHandover d i = Some h" "findFund d (d_destinationFundId h) = Some df"
    and free: "\<forall>c\<in>set (cashierShifts d). \<not> (c_status c = Shift_OPEN \<and>
         (c_fundId c = Some (d_sourceFundId h) \<or> f_type df = Fund_CASH \<and> c_fundId c = Some (f_id df)))"
    and src: "cnt (\<lambda>f. f_id f = d_sourceFundId h \<and> f_deletedAt f = None \<and> f_balance f = d_expectedCash h) (funds d) = 1"
    and v: "postVariance h emp (drainSource h d) = Inr vd"
    and e: "createCashTx (plainTx Flow_EXPENSE (d_transfer h) (d_sourceFundId h) emp) (snd vd) = Inr d2"
    and t: "(if f_type df = Fund_BANK then Inr (None, d2)
      else andThen (postDestinationEntry h emp (f_type df) d2) (\<lambda>td. Inr (Some (fst td), snd td))) = Inr td"
    and d': "d' = approved emp now d (f_type df = Fund_BANK) vd td i"
    by (rule approveHandover_steps [OF assms])
  have "postVariance h emp (drainSource h d) = Inr (fst vd, snd vd)" using v by simp
  note ve = postVariance_effect [OF this]
  note ee = createCashTx_effect(1) [OF e]
  obtain ks where ks: "cashTxs (snd vd) = cashTxs d @ ks" "onlyPlain (nextId d) ks"
    using ve(1) by (auto simp: drainSource_def)
  have n: "nextId d \<le> nextId (snd vd)" using ve(7) by (simp add: drainSource_def)
  let ?k = "(plainTx Flow_EXPENSE (d_transfer h) (d_sourceFundId h) emp)\<lparr>k_id := nextId (snd vd)\<rparr>"
  show ?thesis
  proof (cases "f_type df = Fund_BANK")
    case True
    then have "snd td = d2" using t by auto
    then show ?thesis
      by (intro that [OF h, of "ks @ [?k]"]) (use True ve ee ks free src n in
        \<open>simp_all add: d' approved_def setHandover_def drainSource_def onlyPlain_def plainTx_def\<close>)
  next
    case False
    then obtain x where p: "postDestinationEntry h emp (f_type df) d2 = Inr (x, snd td)" using t by auto
    note pe = postDestinationEntry_effect [OF p]
    show ?thesis
      by (intro that [OF h, of "ks @ [?k, (plainTx Flow_INCOME (d_transfer h) (d_destinationFundId h) emp)\<lparr>k_id := nextId d2\<rparr>]"])
        (use False ve ee pe ks free src n in
          \<open>simp_all add: d' approved_def setHandover_def drainSource_def onlyPlain_def plainTx_def\<close>)
  qed
qed

end
