(* ===== verification/Cash_System.thy ===== *)
theory Cash_System
  imports Cash_Books
begin

text \<open>
  The rest of the operations that move money, and the step relation of the tills: every operation
  of the cashier, of the handovers, of the funds, of the invoices and of the orders keeps the
  books.
\<close>

section \<open>Handovers\<close>

lemma books_openD: "books d \<Longrightarrow> openOn d c x \<Longrightarrow> cashFund d x"
  by (simp add: books_def)

lemma cashFund_type:
  assumes "keys_ok d" and "cashFund d x" and "f \<in> set (funds d)" and "f_id f = x"
  shows "f_type f = Fund_CASH"
proof -
  obtain f' where f': "f' \<in> set (funds d)" "f_id f' = x" "f_type f' = Fund_CASH" using assms(2) by (auto simp: cashFund_def)
  have "f = f'" by (rule distinct_key_eq [OF keys_okD(6) [OF assms(1)] assms(3) f'(1)]) (simp add: assms(4) f'(2))
  then show ?thesis using f'(3) by simp
qed

lemma findFund_SomeD: "findFund d i = Some f \<Longrightarrow> f \<in> set (funds d) \<and> f_id f = i"
  unfolding findFund_def by (rule find_SomeD)

lemma find_map_keep:
  assumes "\<And>f. f_id (u f) = f_id f" and "\<And>f. g f \<Longrightarrow> f_id f \<noteq> x"
  shows "find (\<lambda>f. f_id f = x) (upd g u fs) = find (\<lambda>f. f_id f = x) fs"
  using assms by (induction fs) (auto simp: upd_def)

lemma balance_keep:
  assumes "\<And>f. f_id (u f) = f_id f" and "\<And>f. g f \<Longrightarrow> f_id f \<noteq> x" and "funds d' = upd g u (funds d)"
  shows "balanceOf d' x = balanceOf d x"
  by (simp add: balanceOf_def findFund_def assms(3) find_map_keep [OF assms(1,2)])

lemma drainSource_keep:
  assumes "x \<noteq> d_sourceFundId h"
  shows "balanceOf (drainSource h d) x = balanceOf d x"
  by (rule balance_keep [where g = "\<lambda>f. f_id f = d_sourceFundId h \<and> f_deletedAt f = None \<and> f_balance f = d_expectedCash h"
        and u = "\<lambda>f. f\<lparr>f_balance := d_retained h\<rparr>"]) (use assms in \<open>auto simp: drainSource_def\<close>)

lemma drainSource_cash: "cashFund d x \<Longrightarrow> cashFund (drainSource h d) x"
  by (rule cashFund_upd [where g = "\<lambda>f. f_id f = d_sourceFundId h \<and> f_deletedAt f = None \<and> f_balance f = d_expectedCash h"
        and u = "\<lambda>f. f\<lparr>f_balance := d_retained h\<rparr>"]) (auto simp: drainSource_def)

lemma approveHandover_books:
  assumes "approveHandover i emp now d = Inr d'" and "keys_ok d" and "cash_fresh d" and "books d"
  shows "books d'"
proof -
  obtain h :: cashHandover and df :: fund and ks where
    df: "findFund d (d_destinationFundId h) = Some df"
    and k: "cashTxs d' = cashTxs d @ ks" "onlyPlain (nextId d) ks"
    and same: "cashierShifts d' = cashierShifts d" "cashRefunds d' = cashRefunds d" "invoices d' = invoices d"
    and f: "funds d' = (if f_type df = Fund_BANK then funds (drainSource h d)
       else upd (\<lambda>f. f_id f = d_destinationFundId h \<and> f_type f = f_type df \<and> f_deletedAt f = None)
         (addBalance (d_transfer h)) (funds (drainSource h d)))"
    and free: "\<forall>c\<in>set (cashierShifts d). \<not> (c_status c = Shift_OPEN \<and>
         (c_fundId c = Some (d_sourceFundId h) \<or> f_type df = Fund_CASH \<and> c_fundId c = Some (f_id df)))"
    by (rule approveHandover_effect [OF assms(1)])
  show ?thesis
  proof (rule books_aside [OF assms(4) same(1)])
    fix c x assume o: "openOn d c x"
    note dfd = findFund_SomeD [OF df]
    have cf: "cashFund d x" by (rule books_openD [OF assms(4) o])
    have ns: "x \<noteq> d_sourceFundId h" and nd: "f_type df = Fund_CASH \<Longrightarrow> x \<noteq> d_destinationFundId h"
      using free o dfd by (auto simp: openOn_def)
    have nb: "x \<noteq> d_destinationFundId h" if "f_type df \<noteq> Fund_BANK"
      using nd cashFund_type [OF assms(2) cf conjunct1 [OF dfd]] dfd by blast
    show "balanceOf d' x = balanceOf d x \<and> cashFund d' x"
    proof (cases "f_type df = Fund_BANK")
      case True
      then have "balanceOf d' x = balanceOf (drainSource h d) x" "cashFund d' x = cashFund (drainSource h d) x"
        using f by (simp_all add: balanceOf_def findFund_def cashFund_def)
      then show ?thesis using drainSource_keep [OF ns] drainSource_cash [OF cf] by simp
    next
      case False
      have f': "funds d' = upd (\<lambda>f. f_id f = d_destinationFundId h \<and> f_type f = f_type df \<and> f_deletedAt f = None)
         (addBalance (d_transfer h)) (funds (drainSource h d))" using f False by simp
      have "balanceOf d' x = balanceOf (drainSource h d) x"
        by (rule balance_keep [OF _ _ f']) (use nb [OF False] in \<open>auto simp: addBalance_def\<close>)
      moreover have "cashFund d' x"
        by (rule cashFund_upd [OF drainSource_cash [OF cf] f']) (simp_all add: addBalance_def)
      ultimately show ?thesis using drainSource_keep [OF ns] by simp
    qed
    show "drawer (c_id c) d' = drawer (c_id c) d"
      by (rule drawer_plains [OF cash_freshD(3) [OF assms(3)] k same(2,3)])
  qed
qed

lemma settle_steps:
  assumes "settleInTransaction i emp ref ev d = Inr d'"
  obtains h :: cashHandover and df :: fund and n d1 where
    "findHandover d i = Some h" "findFund d (d_destinationFundId h) = Some df" "awaitingSettlement h"
    "d_requestedById h \<noteq> emp" "f_type df = Fund_BANK"
    "postDestinationEntry h emp Fund_BANK d = Inr (n, d1)"
    "d' = addLog emp ''CASH_HANDOVER_SETTLED'' i
       (setHandover i (\<lambda>r. r\<lparr>d_settlement := Some Settle_SETTLED, d_settledById := Some emp,
          d_bankReference := Some (toUpperCase ref), d_evidence := Some ev, d_destinationTxId := Some n\<rparr>) d1)"
  using assms by (auto simp: settleInTransaction_def Let_def)

lemma settle_books:
  assumes "settleInTransaction i emp ref ev d = Inr d'" and "keys_ok d" and "cash_fresh d" and "books d"
  shows "books d'"
proof -
  obtain h :: cashHandover and df :: fund and n d1 where
    df: "findFund d (d_destinationFundId h) = Some df" "f_type df = Fund_BANK"
    and p: "postDestinationEntry h emp Fund_BANK d = Inr (n, d1)"
    and d': "d' = addLog emp ''CASH_HANDOVER_SETTLED'' i
       (setHandover i (\<lambda>r. r\<lparr>d_settlement := Some Settle_SETTLED, d_settledById := Some emp,
          d_bankReference := Some (toUpperCase ref), d_evidence := Some ev, d_destinationTxId := Some n\<rparr>) d1)"
    by (rule settle_steps [OF assms(1)])
  note e = postDestinationEntry_effect [OF p]
  show ?thesis
  proof (rule books_aside [OF assms(4)])
    show "cashierShifts d' = cashierShifts d" using e by (simp add: d' setHandover_def)
    fix c x assume o: "openOn d c x"
    have cf: "cashFund d x" by (rule books_openD [OF assms(4) o])
    have "x \<noteq> d_destinationFundId h"
      using cashFund_type [OF assms(2) cf conjunct1 [OF findFund_SomeD [OF df(1)]]] findFund_SomeD [OF df(1)] df(2) by auto
    moreover have f': "funds d' = upd (\<lambda>f. f_id f = d_destinationFundId h \<and> f_type f = Fund_BANK \<and> f_deletedAt f = None)
       (addBalance (d_transfer h)) (funds d)" using e by (simp add: d' setHandover_def)
    ultimately have "balanceOf d' x = balanceOf d x"
      by (intro balance_keep [OF _ _ f']) (auto simp: addBalance_def)
    moreover have "cashFund d' x" by (rule cashFund_upd [OF cf f']) (simp_all add: addBalance_def)
    ultimately show "balanceOf d' x = balanceOf d x \<and> cashFund d' x" by simp
    show "drawer (c_id c) d' = drawer (c_id c) d"
      by (rule drawer_plain [OF cash_freshD(1) [OF assms(3)], where ty = Flow_INCOME and a = "d_transfer h" and
            f = "d_destinationFundId h" and e = emp]) (use e in \<open>simp_all add: d' setHandover_def\<close>)
  qed
qed

section \<open>Funds\<close>

lemma find_append: "find P (xs @ ys) = (case find P xs of None \<Rightarrow> find P ys | Some x \<Rightarrow> Some x)"
  by (induction xs) auto

lemma createFund_books:
  assumes "createFund same emp name ty b d = Inr (n, d')" and "cash_fresh d" and "books d"
  shows "books d'"
proof (rule books_aside [OF assms(3)])
  let ?f = "\<lparr>f_id = nextId d, f_name = name, f_type = ty, f_balance = b, f_deletedAt = None\<rparr>"
  have f: "funds d' = funds d @ [?f]" and same: "cashierShifts d' = cashierShifts d" "cashTxs d' = cashTxs d"
    "cashRefunds d' = cashRefunds d" "invoices d' = invoices d"
    using assms(1) by (auto simp: createFund_def)
  show "cashierShifts d' = cashierShifts d" by (fact same)
  fix c x assume o: "openOn d c x"
  obtain r where r: "r \<in> set (funds d)" "f_id r = x" using books_openD [OF assms(3) o] by (auto simp: cashFund_def)
  then have "x \<noteq> nextId d" using cash_freshD(4) [OF assms(2)] by blast
  then have "balanceOf d' x = balanceOf d x"
    by (simp add: balanceOf_def findFund_def f find_append split: option.split)
  moreover have "cashFund d' x" using books_openD [OF assms(3) o] by (auto simp: cashFund_def f)
  ultimately show "balanceOf d' x = balanceOf d x \<and> cashFund d' x" by simp
  show "drawer (c_id c) d' = drawer (c_id c) d"
    by (simp add: drawer_def shiftSales_def manualFlow_def shiftRefunds_def refundTx_def txInShift_def same)
qed

lemma updateFund_effect:
  assumes "updateFund same fid emp name ty d = Inr d'"
  obtains f where "f \<in> set (funds d)" "f_id f = fid" "ty \<noteq> None \<and> ty \<noteq> Some (f_type f) \<longrightarrow> \<not> fundInShift fid d"
    "funds d' = upd (\<lambda>r. f_id r = fid) (\<lambda>r. r\<lparr>f_name := orElse name (f_name r), f_type := orElse ty (f_type r)\<rparr>) (funds d)"
    "cashierShifts d' = cashierShifts d" "cashTxs d' = cashTxs d" "cashRefunds d' = cashRefunds d" "invoices d' = invoices d"
  using assms by (auto simp: updateFund_def dest!: find_SomeD)

lemma find_upd_same:
  assumes "\<And>f. f_id (u f) = f_id f"
  shows "find (\<lambda>f. f_id f = x) (upd g u fs) = map_option (\<lambda>f. if g f then u f else f) (find (\<lambda>f. f_id f = x) fs)"
  using assms by (induction fs) (auto simp: upd_def)

lemma balance_same:
  assumes "\<And>f. f_id (u f) = f_id f" and "\<And>f. f_balance (u f) = f_balance f" and "funds d' = upd g u (funds d)"
  shows "balanceOf d' x = balanceOf d x"
  by (simp add: balanceOf_def findFund_def assms(3) find_upd_same [OF assms(1)] assms(2) split: option.split)

lemma openOn_inShift: "openOn d c x \<Longrightarrow> fundInShift x d"
  by (auto simp: openOn_def fundInShift_def)

lemma updateFund_books:
  assumes "updateFund same fid emp name ty d = Inr d'" and "keys_ok d" and "books d"
  shows "books d'"
proof -
  obtain f where m: "f \<in> set (funds d)" "f_id f = fid" and ok: "ty \<noteq> None \<and> ty \<noteq> Some (f_type f) \<longrightarrow> \<not> fundInShift fid d"
    and f: "funds d' = upd (\<lambda>r. f_id r = fid) (\<lambda>r. r\<lparr>f_name := orElse name (f_name r), f_type := orElse ty (f_type r)\<rparr>) (funds d)"
    and same: "cashierShifts d' = cashierShifts d" "cashTxs d' = cashTxs d" "cashRefunds d' = cashRefunds d" "invoices d' = invoices d"
    by (rule updateFund_effect [OF assms(1)])
  show ?thesis
  proof (rule books_aside [OF assms(3) same(1)])
    fix c x assume o: "openOn d c x"
    have cf: "cashFund d x" by (rule books_openD [OF assms(3) o])
    then obtain r where r: "r \<in> set (funds d)" "f_id r = x" "f_type r = Fund_CASH" by (auto simp: cashFund_def)
    have "cashFund d' x"
    proof (cases "x = fid")
      case True
      then have "f_type f = Fund_CASH" using cashFund_type [OF assms(2) cf m(1)] m(2) by simp
      then have "orElse ty Fund_CASH = Fund_CASH" using ok openOn_inShift [OF o] True by (cases ty) (auto simp: orElse_def)
      then have "f_type (r\<lparr>f_name := orElse name (f_name r), f_type := orElse ty (f_type r)\<rparr>) = Fund_CASH" using r(3) by simp
      moreover have "r\<lparr>f_name := orElse name (f_name r), f_type := orElse ty (f_type r)\<rparr> \<in> set (funds d')"
        using r(1,2) True by (auto simp: f set_upd)
      ultimately show ?thesis using r(2) unfolding cashFund_def by (metis fund.simps(1) fund.ext_inject fund.surjective fund.update_convs(2) fund.update_convs(3))
    next
      case False
      then have "r \<in> set (funds d')" using r by (auto simp: f set_upd)
      then show ?thesis using r by (auto simp: cashFund_def)
    qed
    moreover have "balanceOf d' x = balanceOf d x" by (rule balance_same [OF _ _ f]) simp_all
    ultimately show "balanceOf d' x = balanceOf d x \<and> cashFund d' x" by simp
    show "drawer (c_id c) d' = drawer (c_id c) d"
      by (simp add: drawer_def shiftSales_def manualFlow_def shiftRefunds_def refundTx_def txInShift_def same)
  qed
qed

lemma removeFund_books:
  assumes "removeFund fid emp now d = Inr d'" and "books d"
  shows "books d'"
proof (rule books_aside [OF assms(2)])
  have f: "funds d' = upd (\<lambda>r. f_id r = fid) (\<lambda>r. r\<lparr>f_deletedAt := Some now\<rparr>) (funds d)"
    and same: "cashierShifts d' = cashierShifts d" "cashTxs d' = cashTxs d" "cashRefunds d' = cashRefunds d" "invoices d' = invoices d"
    using assms(1) by (auto simp: removeFund_def)
  show "cashierShifts d' = cashierShifts d" by (fact same)
  fix c x assume o: "openOn d c x"
  have "cashFund d' x" by (rule cashFund_upd [OF books_openD [OF assms(2) o] f]) simp_all
  moreover have "balanceOf d' x = balanceOf d x" by (rule balance_same [OF _ _ f]) simp_all
  ultimately show "balanceOf d' x = balanceOf d x \<and> cashFund d' x" by simp
  show "drawer (c_id c) d' = drawer (c_id c) d"
    by (simp add: drawer_def shiftSales_def manualFlow_def shiftRefunds_def refundTx_def txInShift_def same)
qed

section \<open>Cash refunds\<close>

lemma createCashRefund_steps:
  assumes "createCashRefund vid emp amt reason shift key now d = Inr d'" and "d' \<noteq> d"
  obtains v sh where "findInvoice d vid = Some v" "paidStatus (v_status v)" "v_method v = Method_CASH"
    "refundedTotal d vid + amt \<le> v_total v" "requireOpenShift emp d = Inr sh" "fst sh = shift"
    "bookRefund v amt reason sh emp key now d = Inr d'"
  using assms by (auto simp: createCashRefund_def refundable_def paidStatus_def split: option.splits)

lemma bookRefund_effect:
  assumes "bookRefund v amt reason sh emp key now d = Inr d'"
  shows "0 < amt" "cnt (\<lambda>f. f_id f = snd sh \<and> f_deletedAt f = None \<and> amt \<le> f_balance f) (funds d) = 1"
    "funds d' = upd (\<lambda>f. f_id f = snd sh \<and> f_deletedAt f = None \<and> amt \<le> f_balance f) (addBalance (- amt)) (funds d)"
    "cashTxs d' = cashTxs d @ [\<lparr>k_id = nextId d, k_type = Flow_EXPENSE, k_amount = amt, k_fundId = snd sh, k_employeeId = emp,
       k_shiftId = Some (fst sh), k_invoiceId = None\<rparr>]"
    "cashRefunds d' = cashRefunds d @ [\<lparr>y_id = Suc (nextId d), y_invoiceId = v_id v, y_amount = amt, y_reason = reason,
       y_requestedById = emp, y_key = key, y_cashTxId = nextId d\<rparr>]"
    "cashierShifts d' = cashierShifts d"
    "cnt (\<lambda>r. v_id r = v_id v \<and> v_status r = v_status v) (invoices d) = 1"
    "invoices d' = upd (\<lambda>r. v_id r = v_id v \<and> v_status r = v_status v)
       (\<lambda>r. r\<lparr>v_status := refundStatus v (refundedTotal d (v_id v) + amt)\<rparr>) (invoices d)"
  using assms by (auto simp: bookRefund_def Let_def createCashTx_def decrementFund_def)

lemma paid_refundStatus: "paidStatus (refundStatus v x)"
  by (simp add: refundStatus_def paidStatus_def)

lemma refund_books:
  assumes "createCashRefund vid emp amt reason shift key now d = Inr d'" and "keys_ok d" and "cash_fresh d" and "books d"
  shows "books d'"
proof (cases "d' = d")
  case False
  obtain v sh where v: "findInvoice d vid = Some v" "paidStatus (v_status v)" and sh: "requireOpenShift emp d = Inr sh"
    and b: "bookRefund v amt reason sh emp key now d = Inr d'"
    by (rule createCashRefund_steps [OF assms(1) False])
  note e = bookRefund_effect [OF b]
  obtain c where c: "openOn d c (snd sh)" "c_id c = fst sh" by (rule requireOpenShift_openOn [OF sh])
  obtain r where r: "r \<in> set (invoices d)" "v_id r = v_id v \<and> v_status r = v_status v" using cnt_1_obtain [OF e(7)] by blast
  show ?thesis
  proof (rule books_flow [OF assms(4,2) e(6) c(1), where a = "- amt"])
    show "balanceOf d' x = balanceOf d x + (if x = snd sh then - amt else 0)" for x
      by (rule balanceOf_add [OF keys_okD(6) [OF assms(2)] e(2) _ e(3)]) simp
    show "cashFund d x \<Longrightarrow> cashFund d' x" for x
      by (rule cashFund_upd [OF _ e(3)]) (simp_all add: addBalance_def)
    fix cid
    let ?d1 = "d'\<lparr>invoices := invoices d\<rparr>"
    have "drawer cid ?d1 = drawer cid d - (if cid = c_id c then amt else 0)"
      using drawer_refund [where d = d and d' = ?d1 and n = "nextId d" and k = "\<lparr>k_id = 0, k_type = Flow_EXPENSE,
          k_amount = amt, k_fundId = snd sh, k_employeeId = emp, k_shiftId = Some (fst sh), k_invoiceId = None\<rparr>" and
          y = "\<lparr>y_id = Suc (nextId d), y_invoiceId = v_id v, y_amount = amt, y_reason = reason,
            y_requestedById = emp, y_key = key, y_cashTxId = nextId d\<rparr>", OF cash_freshD(1) [OF assms(3)]]
        cash_freshD(2) [OF assms(3)] e c(2) by auto
    moreover have "drawer cid d' = drawer cid ?d1 - cashSale cid r +
        cashSale cid (r\<lparr>v_status := refundStatus v (refundedTotal d (v_id v) + amt)\<rparr>)"
      by (rule drawer_invoice [where g = "\<lambda>r. v_id r = v_id v \<and> v_status r = v_status v"])
        (use keys_okD(5) [OF assms(2)] r e(8) in \<open>auto\<close>)
    moreover have "cashSale cid (r\<lparr>v_status := refundStatus v (refundedTotal d (v_id v) + amt)\<rparr>) = cashSale cid r"
      using r(2) v(2) by (simp add: cashSale_def paid_refundStatus)
    ultimately show "drawer cid d' = drawer cid d + (if cid = c_id c then - amt else 0)" by simp
  qed
qed (use assms(4) in simp)

section \<open>Invoices\<close>

text \<open>
  Taking a payment: invoice \<open>v\<close> becomes a sale of shift \<open>sh\<close>, and for cash the amount goes into
  the ledger and the fund. \<open>d1\<close> is the state with the changed invoice only.
\<close>

lemma recordCashInvoice_effect:
  assumes "recordCashInvoice sh vid emp amt d = Inr d'"
  shows "0 < amt" "cnt (\<lambda>f. f_id f = snd sh) (funds d) \<ge> 1"
    "funds d' = upd (\<lambda>f. f_id f = snd sh) (addBalance amt) (funds d)"
    "cashTxs d' = cashTxs d @ [\<lparr>k_id = nextId d, k_type = Flow_INCOME, k_amount = amt, k_fundId = snd sh, k_employeeId = emp,
       k_shiftId = Some (fst sh), k_invoiceId = Some vid\<rparr>]"
    "cashierShifts d' = cashierShifts d" "cashRefunds d' = cashRefunds d" "invoices d' = invoices d"
    "findFund d (snd sh) \<noteq> None" "orderItems d' = orderItems d" "orderSessions d' = orderSessions d"
proof -
  obtain f where f: "findFund d (snd sh) = Some f"
    using assms by (auto simp: recordCashInvoice_def incrementFund_def createCashTx_def findFund_def)
  have "0 < cnt (\<lambda>f. f_id f = snd sh) (funds d)"
    using findFund_SomeD [OF f] by (auto simp: cnt_def filter_empty_conv)
  then show "cnt (\<lambda>f. f_id f = snd sh) (funds d) \<ge> 1" by simp
  show "findFund d (snd sh) \<noteq> None" using f by simp
qed (use assms in \<open>auto simp: recordCashInvoice_def incrementFund_def createCashTx_def\<close>)

lemma distinct_cnt_le_1: "distinct (map key xs) \<Longrightarrow> cnt (\<lambda>x. key x = k) xs \<le> 1"
proof (induction xs)
  case (Cons a xs)
  then have "cnt (\<lambda>x. key x = key a) xs = 0" by (simp add: cnt_def filter_empty_conv) (metis image_eqI)
  then show ?case using Cons by (auto simp: cnt_def)
qed (simp add: cnt_def)

lemma cash_sale_books:
  assumes "books d" and "keys_ok d" and "cash_fresh d" and sh: "requireOpenShift emp0 d = Inr sh"
    and same: "funds d1 = funds d" "cashierShifts d1 = cashierShifts d" "cashTxs d1 = cashTxs d" "cashRefunds d1 = cashRefunds d"
    and n: "nextId d \<le> nextId d1"
    and sale: "\<And>cid. drawer cid d1 = drawer cid d + (if cid = fst sh then amt else 0)"
    and r: "recordCashInvoice sh vid emp amt d1 = Inr d'"
  shows "books d'"
proof -
  note e = recordCashInvoice_effect [OF r]
  obtain c where c: "openOn d c (snd sh)" "c_id c = fst sh" by (rule requireOpenShift_openOn [OF sh])
  show ?thesis
  proof (rule books_flow [OF assms(1,2) _ c(1), where a = amt])
    show "cashierShifts d' = cashierShifts d" using e(5) same by simp
    have "cnt (\<lambda>f. f_id f = snd sh) (funds d) = 1"
      using e(2) distinct_cnt_le_1 [OF keys_okD(6) [OF assms(2)], of "snd sh"] same by simp
    then show "balanceOf d' x = balanceOf d x + (if x = snd sh then amt else 0)" for x
      by (rule balanceOf_add [OF keys_okD(6) [OF assms(2)]]) (use e same in simp_all)
    show "cashFund d x \<Longrightarrow> cashFund d' x" for x
      by (rule cashFund_upd [where g = "\<lambda>f. f_id f = snd sh" and u = "addBalance amt"]) (use e same in \<open>simp_all add: addBalance_def\<close>)
    have "\<forall>y\<in>set (cashRefunds d1). y_cashTxId y \<noteq> nextId d1"
      using cash_freshD(3) [OF assms(3)] n same by force
    then have "drawer cid d' = drawer cid d1" for cid
      using drawer_tx [where d = d1 and d' = d' and n = "nextId d1" and k = "\<lparr>k_id = 0, k_type = Flow_INCOME,
          k_amount = amt, k_fundId = snd sh, k_employeeId = emp, k_shiftId = Some (fst sh), k_invoiceId = Some vid\<rparr>"] e
      by simp
    then show "drawer cid d' = drawer cid d + (if cid = c_id c then amt else 0)" for cid using sale c(2) by simp
  qed
qed

lemma books_same_drawer:
  assumes "books d" and "funds d1 = funds d" "cashierShifts d1 = cashierShifts d" and "\<And>cid. drawer cid d1 = drawer cid d"
  shows "books d1"
proof (rule books_aside [OF assms(1,3)])
  show "balanceOf d1 x = balanceOf d x \<and> cashFund d1 x" if "openOn d c x" for c x
    using books_openD [OF assms(1) that] by (simp add: balanceOf_def findFund_def cashFund_def assms(2))
qed (rule assms(4))

lemma attachItems_cash: "attachItems vid sid st items d = Inr d' \<Longrightarrow> cashView d' = cashView d \<and> nextId d' = nextId d"
  by (auto simp: attachItems_def Let_def cashView_def)

lemma reserve_nextId: "reservePendingItems whr now d = Inr d' \<Longrightarrow> nextId d \<le> nextId d'"
  by (auto simp: reservePendingItems_def Let_def snapshotLegacy_def)

lemma invoiceEvents_cash: "cashView (invoiceEvents evs vid s now d) = cashView d"
  unfolding invoiceEvents_def by (induction evs arbitrary: d) simp_all

lemma insertInvoice_effect:
  assumes "insertInvoice v d = Inr (n, d')"
  shows "n = nextId d" "nextId d' = Suc (nextId d)" "invoices d' = invoices d @ [v\<lparr>v_id := nextId d\<rparr>]"
    "funds d' = funds d" "cashierShifts d' = cashierShifts d" "cashTxs d' = cashTxs d" "cashRefunds d' = cashRefunds d"
    "orderItems d' = orderItems d" "orderSessions d' = orderSessions d" "invoiceChecks v"
    "\<forall>r\<in>set (invoices d). v_number r \<noteq> v_number v"
  using assms by (auto simp: insertInvoice_def)

lemma createInvoice_steps:
  assumes "createInvoiceInTransaction hash prefix emp co online i now d = Inr (vid, d')"
  obtains s :: orderSession and shift ic vd d2 d3 d4 d5 where
    "findSession d (ci_sessionId i) = Some s" "s_status s = Session_ACTIVE"
    "(if co_status co = Pay_PAID then andThen (requireOpenShift emp d) (\<lambda>sh. Inr (Some sh)) else Inr None) = Inr shift"
    "agreeInvoice hash co i s now d = Inr ic"
    "insertInvoice (newInvoice (generateNumber prefix d) (snd ic) (co_method co) (co_status co) (s_id s) emp
       (map_option fst shift) (ci_promotionId i) now) d = Inr vd"
    "attachItems (fst vd) (s_id s) (co_status co) (fst ic) (snd vd) = Inr d2"
    "reserveInvoiceStock (fst vd) now d2 = Inr d3"
    "(case shift of
        Some sh \<Rightarrow> if co_method co = Method_CASH then recordCashInvoice sh (fst vd) emp (q_total (snd ic)) d3 else Inr d3
      | None \<Rightarrow> Inr d3) = Inr d4"
    "(if co_status co = Pay_PAID \<and> co_close co then closeSessionIfFullyPaid s d4 else Inr d4) = Inr d5"
    "fst vd = vid" "invoiceEvents (co_events co) (fst vd) s now d5 = d'"
proof -
  have pos: "(if b then (\<lambda>k. k) else assertPosOrderMutationAllowed x) m = Inr y \<longleftrightarrow> (b \<or> x = None) \<and> m = Inr y" for b x and m :: "(id \<times> db) res" and y
    by (simp add: assertPosOrderMutationAllowed_def)
  from assms show ?thesis
    unfolding createInvoiceInTransaction_def require_Inr_iff fetch_Inr_iff policy_Inr_iff pos andThen_Inr_iff [of "If _ _ _"]
      andThen_Inr_iff [of "agreeInvoice _ _ _ _ _ _"] andThen_Inr_iff [of "insertInvoice _ _"]
      andThen_Inr_iff [of "attachItems _ _ _ _ _"] andThen_Inr_iff [of "reserveInvoiceStock _ _ _"]
      andThen_Inr_iff [of "case_option _ _ _"] sum.inject(2) [of "(_, _)"] prod.inject [of "fst _"]
    by (elim conjE exE) (rule that)
qed

lemma closing_books:
  assumes "(if b then closeSessionIfFullyPaid s d1 else Inr d1) = Inr d2" and "books d1"
  shows "books d2"
  using assms closeSession_cash books_cong by (metis sum.inject(2))

lemma createInvoice_books:
  assumes "createInvoiceInTransaction hash prefix emp co online i now d = Inr (vid, d')"
    and "keys_ok d" and "cash_fresh d" and "books d"
  shows "books d'"
proof -
  obtain s :: orderSession and shift ic vd d2 d3 d4 d5 where
    sh: "(if co_status co = Pay_PAID then andThen (requireOpenShift emp d) (\<lambda>sh. Inr (Some sh)) else Inr None) = Inr shift"
    and ins: "insertInvoice (newInvoice (generateNumber prefix d) (snd ic) (co_method co) (co_status co) (s_id s) emp
       (map_option fst shift) (ci_promotionId i) now) d = Inr vd"
    and att: "attachItems (fst vd) (s_id s) (co_status co) (fst ic) (snd vd) = Inr d2"
    and res: "reserveInvoiceStock (fst vd) now d2 = Inr d3"
    and cash: "(case shift of
        Some sh \<Rightarrow> if co_method co = Method_CASH then recordCashInvoice sh (fst vd) emp (q_total (snd ic)) d3 else Inr d3
      | None \<Rightarrow> Inr d3) = Inr d4"
    and close: "(if co_status co = Pay_PAID \<and> co_close co then closeSessionIfFullyPaid s d4 else Inr d4) = Inr d5"
    and d': "invoiceEvents (co_events co) (fst vd) s now d5 = d'"
    by (rule createInvoice_steps [OF assms(1)])
  let ?v = "(newInvoice (generateNumber prefix d) (snd ic) (co_method co) (co_status co) (s_id s) emp
     (map_option fst shift) (ci_promotionId i) now)\<lparr>v_id := nextId d\<rparr>"
  have "insertInvoice (newInvoice (generateNumber prefix d) (snd ic) (co_method co) (co_status co) (s_id s) emp
     (map_option fst shift) (ci_promotionId i) now) d = Inr (fst vd, snd vd)" using ins by simp
  note ie = insertInvoice_effect [OF this]
  have v3: "cashView d3 = cashView (snd vd)"
    using attachItems_cash [OF att] cashView_stock(1) [OF res [unfolded reserveInvoiceStock_def]] by simp
  have n3: "nextId d \<le> nextId d3"
    using attachItems_cash [OF att] reserve_nextId [OF res [unfolded reserveInvoiceStock_def]] ie(2) by simp
  note p3 = cashViewD [OF v3]
  have same: "funds d3 = funds d" "cashierShifts d3 = cashierShifts d" "cashTxs d3 = cashTxs d" "cashRefunds d3 = cashRefunds d"
    using p3 ie by simp_all
  have sale: "drawer cid d3 = drawer cid d + cashSale cid ?v" for cid
    by (rule drawer_new_invoice) (use p3 ie in simp_all)
  have "books d4"
  proof (cases "co_status co = Pay_PAID \<and> co_method co = Method_CASH")
    case True
    then obtain si where si: "requireOpenShift emp d = Inr si" "shift = Some si" using sh by auto
    show ?thesis
    proof (rule cash_sale_books [OF assms(4,2,3) si(1) same n3])
      show "drawer cid d3 = drawer cid d + (if cid = fst si then q_total (snd ic) else 0)" for cid
        using sale True si(2) by (auto simp: cashSale_def newInvoice_def paidStatus_def)
      show "recordCashInvoice si (fst vd) emp (q_total (snd ic)) d3 = Inr d4" using cash True si(2) by simp
    qed
  next
    case False
    then have "d4 = d3" using cash sh by (auto split: option.splits if_split_asm)
    moreover have "cashSale cid ?v = 0" for cid
      using False sh by (auto simp: cashSale_def newInvoice_def split: if_split_asm)
    ultimately show ?thesis using books_same_drawer [OF assms(4) same(1,2)] sale by simp
  qed
  then have "books d5" by (rule closing_books [OF close])
  moreover have "cashView d' = cashView d5" using invoiceEvents_cash d' by blast
  ultimately show ?thesis using books_cong by blast
qed

text \<open>Changing one invoice that was not a sale.\<close>

lemma findInvoice_SomeD: "findInvoice d vid = Some v \<Longrightarrow> v \<in> set (invoices d) \<and> v_id v = vid"
  unfolding findInvoice_def by (rule find_SomeD)

lemma drawer_set_unpaid:
  assumes "keys_ok d" and "v \<in> set (invoices d)" and "v_status v = Pay_UNPAID" and "g v" and "\<And>x. g x \<Longrightarrow> v_id x = v_id v"
    and "invoices d' = upd g u (invoices d)" and "cashTxs d' = cashTxs d" "cashRefunds d' = cashRefunds d"
  shows "drawer cid d' = drawer cid d + cashSale cid (u v)"
  using drawer_invoice [where cid = cid and g = g and u = u and d = d and d' = d' and v = v, OF keys_okD(5) [OF assms(1)] assms(2,4,5,6,7,8)] assms(3)
  by (simp add: cashSale_def paidStatus_def)

lemma updatePayment_steps:
  assumes "updatePayment vid emp method tendered close now d = Inr d'"
  obtains v and s :: orderSession and paid shift d2 d3 d4 where
    "findInvoice d vid = Some v" "v_status v = Pay_UNPAID" "orElse method (v_method v) \<noteq> Method_TRANSFER"
    "requireOpenShift emp d = Inr shift"
    "reserveInvoiceStock vid now (payItems vid (setInvoice vid (\<lambda>r. r\<lparr>v_status := Pay_PAID, v_method := orElse method (v_method v),
       v_tendered := paid, v_change := Some (case paid of None \<Rightarrow> 0 | Some t \<Rightarrow> t - v_total v), v_employeeId := emp,
       v_shiftId := Some (fst shift)\<rparr>) d)) = Inr d2"
    "(if orElse method (v_method v) = Method_CASH then recordCashInvoice shift vid emp (v_total v) d2 else Inr d2) = Inr d3"
    "(if close then closeSessionIfFullyPaid s d3 else Inr d3) = Inr d4"
    "d' = enqueueInvoiceEvent ''INVOICE_PAID'' vid s now d4"
proof -
  have amount: "assertPaidPaymentAmount m paid t k = Inr y \<Longrightarrow> k = Inr y" for m paid t and k :: "db res" and y
    by (auto simp: assertPaidPaymentAmount_def split: option.splits if_splits)
  from assms show ?thesis
    unfolding updatePayment_def Let_def require_Inr_iff fetch_Inr_iff assertInvoiceIsUnpaid_def assertNoUnresolvedOnlinePayment_def
      assertPosOrderMutationAllowed_def andThen_Inr_iff
    apply (elim conjE exE)
    apply (drule amount)
    unfolding andThen_Inr_iff
    by (elim conjE exE) (rule that, assumption+, simp)
qed

lemma updatePayment_books:
  assumes "updatePayment vid emp method tendered close now d = Inr d'" and "keys_ok d" and "cash_fresh d" and "books d"
  shows "books d'"
proof -
  obtain v and s :: orderSession and paid shift d2 d3 d4 where
    v: "findInvoice d vid = Some v" "v_status v = Pay_UNPAID" and sh: "requireOpenShift emp d = Inr shift"
    and res: "reserveInvoiceStock vid now (payItems vid (setInvoice vid (\<lambda>r. r\<lparr>v_status := Pay_PAID, v_method := orElse method (v_method v),
       v_tendered := paid, v_change := Some (case paid of None \<Rightarrow> 0 | Some t \<Rightarrow> t - v_total v), v_employeeId := emp,
       v_shiftId := Some (fst shift)\<rparr>) d)) = Inr d2"
    and cash: "(if orElse method (v_method v) = Method_CASH then recordCashInvoice shift vid emp (v_total v) d2 else Inr d2) = Inr d3"
    and close: "(if close then closeSessionIfFullyPaid s d3 else Inr d3) = Inr d4"
    and d': "d' = enqueueInvoiceEvent ''INVOICE_PAID'' vid s now d4"
    by (rule updatePayment_steps [OF assms(1)])
  let ?u = "\<lambda>r. r\<lparr>v_status := Pay_PAID, v_method := orElse method (v_method v),
       v_tendered := paid, v_change := Some (case paid of None \<Rightarrow> 0 | Some t \<Rightarrow> t - v_total v), v_employeeId := emp,
       v_shiftId := Some (fst shift)\<rparr>"
  note p2 = cashViewD [OF cashView_stock(1) [OF res [unfolded reserveInvoiceStock_def]]]
  have same: "funds d2 = funds d" "cashierShifts d2 = cashierShifts d" "cashTxs d2 = cashTxs d" "cashRefunds d2 = cashRefunds d"
    and inv: "invoices d2 = upd (\<lambda>r. v_id r = vid) ?u (invoices d)"
    using p2 by (simp_all add: payItems_def setInvoice_def)
  have n2: "nextId d \<le> nextId d2"
    using reserve_nextId [OF res [unfolded reserveInvoiceStock_def]] by (simp add: payItems_def setInvoice_def)
  note vD = findInvoice_SomeD [OF v(1)]
  have sale: "drawer cid d2 = drawer cid d + cashSale cid (?u v)" for cid
    by (rule drawer_set_unpaid [OF assms(2) conjunct1 [OF vD] v(2) _ _ inv same(3,4)]) (use vD in simp_all)
  have "books d3"
  proof (cases "orElse method (v_method v) = Method_CASH")
    case True
    show ?thesis
    proof (rule cash_sale_books [OF assms(4,2,3) sh same n2])
      show "drawer cid d2 = drawer cid d + (if cid = fst shift then v_total v else 0)" for cid
        using sale True by (auto simp: cashSale_def paidStatus_def)
      show "recordCashInvoice shift vid emp (v_total v) d2 = Inr d3" using cash True by simp
    qed
  next
    case False
    then show ?thesis
      using books_same_drawer [OF assms(4) same(1,2)] sale cash by (simp add: cashSale_def)
  qed
  then have "books d4" by (rule closing_books [OF close])
  moreover have "cashView d' = cashView d4" by (simp add: d')
  ultimately show ?thesis using books_cong by blast
qed

definition voided :: "id \<Rightarrow> db \<Rightarrow> db" where
  "voided vid d = (setInvoice vid (\<lambda>r. r\<lparr>v_status := Pay_VOIDED, v_snapshot := True\<rparr>) d)\<lparr>orderItems :=
     upd (\<lambda>oi. o_invoiceId oi = Some vid \<and> \<not> o_isPaid oi) (\<lambda>oi. oi\<lparr>o_invoiceId := None, o_isPaid := False\<rparr>)
       (orderItems (setInvoice vid (\<lambda>r. r\<lparr>v_status := Pay_VOIDED, v_snapshot := True\<rparr>) d))\<rparr>"

lemma void_steps:
  assumes "voidInvoice vid emp now d = Inr d'"
  obtains v and s :: orderSession and d3 where
    "findInvoice d vid = Some v" "findSession d (v_sessionId v) = Some s" "v_status v = Pay_UNPAID"
    "(if s_online s = None then releaseReservations (map o_id (filter (\<lambda>oi. o_status oi = Serve_PENDING) (invoiceItems d vid)))
        (voided vid d) else Inr (voided vid d)) = Inr d3"
    "enqueueInvoiceEvent ''INVOICE_VOIDED'' vid s now (addLog emp ''INVOICE_VOIDED'' vid d3) = d'"
proof -
  from assms show ?thesis
    unfolding voidInvoice_def Let_def require_Inr_iff fetch_Inr_iff assertInvoiceIsUnpaid_def assertNoUnresolvedOnlinePayment_def
      andThen_Inr_iff voided_def [symmetric] sum.inject(2)
    by (elim conjE exE) (rule that)
qed

lemma void_books:
  assumes "voidInvoice vid emp now d = Inr d'" and "keys_ok d" and "books d"
  shows "books d'"
proof -
  obtain v and s :: orderSession and d3 where
    v: "findInvoice d vid = Some v" "v_status v = Pay_UNPAID"
    and rel: "(if s_online s = None then releaseReservations (map o_id (filter (\<lambda>oi. o_status oi = Serve_PENDING) (invoiceItems d vid)))
        (voided vid d) else Inr (voided vid d)) = Inr d3"
    and d': "enqueueInvoiceEvent ''INVOICE_VOIDED'' vid s now (addLog emp ''INVOICE_VOIDED'' vid d3) = d'"
    by (rule void_steps [OF assms(1)])
  note vD = findInvoice_SomeD [OF v(1)]
  have "drawer cid (voided vid d) = drawer cid d + cashSale cid (v\<lparr>v_status := Pay_VOIDED, v_snapshot := True\<rparr>)" for cid
    by (rule drawer_set_unpaid [OF assms(2) conjunct1 [OF vD] v(2), where g = "\<lambda>v. v_id v = vid" and
        u = "\<lambda>r. r\<lparr>v_status := Pay_VOIDED, v_snapshot := True\<rparr>"]) (use vD in \<open>simp_all add: voided_def setInvoice_def\<close>)
  then have "drawer cid (voided vid d) = drawer cid d" for cid by (simp add: cashSale_def paidStatus_def)
  then have "books (voided vid d)" by (intro books_same_drawer [OF assms(3)]) (simp_all add: voided_def setInvoice_def)
  moreover have "cashView d3 = cashView (voided vid d)" using rel cashView_stock(2) by (auto split: if_split_asm)
  moreover have "cashView d' = cashView d3" using d' by auto
  ultimately show ?thesis using books_cong by metis
qed

lemma completeOnline_steps:
  assumes "completeOnlinePayment vid emp sid close now d = Inr d'"
  obtains v and s :: orderSession and d1 d2 where
    "findInvoice d vid = Some v" "v_status v = Pay_UNPAID"
    "d1 = payItems vid (d\<lparr>invoices := upd (\<lambda>r. v_id r = vid \<and> v_status r = Pay_UNPAID)
       (\<lambda>r. r\<lparr>v_status := Pay_PAID, v_method := Method_TRANSFER, v_tendered := Some (v_total v), v_change := Some 0,
         v_employeeId := emp, v_shiftId := Some sid\<rparr>) (invoices d)\<rparr>)"
    "(if close then closeSessionIfFullyPaid s d1 else Inr d1) = Inr d2"
    "d' = enqueueInvoiceEvent ''INVOICE_PAID'' vid s now d2"
proof -
  from assms show ?thesis
    unfolding completeOnlinePayment_def Let_def require_Inr_iff fetch_Inr_iff assertInvoiceIsUnpaid_def andThen_Inr_iff
    apply (elim conjE exE)
    by (rule that, assumption, assumption, rule refl, assumption, simp)
qed

lemma completeOnline_books:
  assumes "completeOnlinePayment vid emp sid close now d = Inr d'" and "keys_ok d" and "books d"
  shows "books d'"
proof -
  obtain v and s :: orderSession and d1 d2 where
    v: "findInvoice d vid = Some v" "v_status v = Pay_UNPAID"
    and d1: "d1 = payItems vid (d\<lparr>invoices := upd (\<lambda>r. v_id r = vid \<and> v_status r = Pay_UNPAID)
       (\<lambda>r. r\<lparr>v_status := Pay_PAID, v_method := Method_TRANSFER, v_tendered := Some (v_total v), v_change := Some 0,
         v_employeeId := emp, v_shiftId := Some sid\<rparr>) (invoices d)\<rparr>)"
    and close: "(if close then closeSessionIfFullyPaid s d1 else Inr d1) = Inr d2"
    and d': "d' = enqueueInvoiceEvent ''INVOICE_PAID'' vid s now d2"
    by (rule completeOnline_steps [OF assms(1)])
  note vD = findInvoice_SomeD [OF v(1)]
  let ?u = "\<lambda>r. r\<lparr>v_status := Pay_PAID, v_method := Method_TRANSFER, v_tendered := Some (v_total v), v_change := Some 0,
         v_employeeId := emp, v_shiftId := Some sid\<rparr>"
  have "drawer cid d1 = drawer cid d + cashSale cid (?u v)" for cid
    by (rule drawer_set_unpaid [OF assms(2) conjunct1 [OF vD] v(2), where g = "\<lambda>r. v_id r = vid \<and> v_status r = Pay_UNPAID" and
        u = ?u]) (use vD v(2) in \<open>simp_all add: d1 payItems_def\<close>)
  then have "drawer cid d1 = drawer cid d" for cid by (simp add: cashSale_def)
  then have "books d1" by (intro books_same_drawer [OF assms(3)]) (simp_all add: d1 payItems_def)
  then have "books d2" by (rule closing_books [OF close])
  moreover have "cashView d' = cashView d2" by (simp add: d')
  ultimately show ?thesis using books_cong by blast
qed

section \<open>Orders\<close>

text \<open>An order operation moves no money.\<close>

lemma kitchen_desk:
  "cancelKitchenItems ids emp now d = Inr d' \<Longrightarrow> deskView d' = deskView d"
  "createTickets sid mis ois p now d = Inr d' \<Longrightarrow> deskView d' = deskView d"
  "splitKitchenItems emp dest moves d = Inr d' \<Longrightarrow> deskView d' = deskView d"
  by (rule deskView_nonKitchen; use cancelKitchenItems_frame createTickets_frame splitKitchenItems_frame in blast)+

lemma deskView_table [simp]:
  "deskView (d\<lparr>orderItems := a\<rparr>) = deskView d" "deskView (d\<lparr>orderSessions := b\<rparr>) = deskView d"
  "deskView (d\<lparr>diningTables := t\<rparr>) = deskView d" "deskView (d\<lparr>tableReservations := r\<rparr>) = deskView d"
  "deskView (d\<lparr>nextId := n\<rparr>) = deskView d" "deskView (d\<lparr>recipeRows := e\<rparr>) = deskView d"
  "deskView (d\<lparr>orderRemakes := m\<rparr>) = deskView d"
  by (simp_all add: deskView_def cashView_def)

lemma insertSession_desk: "insertSession s d = Inr (sid, d') \<Longrightarrow> deskView d' = deskView d"
  by (auto simp: insertSession_def)

lemma createSession_desk: "createOrderSession t emp g now d = Inr (sid, d') \<Longrightarrow> deskView d' = deskView d"
  by (auto simp: createOrderSession_def claimTable_def Let_def dest!: insertSession_desk split: option.splits)

lemma insertPlanned_desk: "insertPlanned sid planned now d = Inr (created, d') \<Longrightarrow> deskView d' = deskView d"
  by (auto simp: insertPlanned_def Let_def)

lemma addItems_desk: "addOrderItemsInTransaction sid lines quotes p now d = Inr d' \<Longrightarrow> deskView d' = deskView d"
  by (erule addOrderItems_steps) (simp add: insertPlanned_desk kitchen_desk(2))

lemma cancelLines_desk: "cancelLines s emp now d = Inr d' \<Longrightarrow> deskView d' = deskView d"
  by (erule cancelLines_steps) (drule kitchen_desk(1), drule deskView_stock(2), simp)

lemma cancelItem_desk: "cancelItem oid emp reason now d = Inr d' \<Longrightarrow> deskView d' = deskView d"
  by (erule cancelItem_steps) (drule kitchen_desk(1), drule deskView_stock(2), simp add: deskView_stock(4))

lemma remake_desk: "remakeItem oid emp reason key now d = Inr d' \<Longrightarrow> deskView d' = deskView d"
  by (erule remake_steps)
     (auto simp: insertRemake_def insertReplacement_def Let_def deskView_stock(4) dest!: kitchen_desk(2))

lemma status_desk: "changeItemStatus sign oid emp st h p now d = Inr d' \<Longrightarrow> deskView d' = deskView d"
  by (erule changeItemStatus_steps)
     (auto simp: applyStatus_def Let_def dest!: deskView_stock(3) split: if_split_asm)

lemma splitLine_desk: "splitLine d0 src dest m (ms, d) = Inr (ms', d') \<Longrightarrow> deskView d' = deskView d"
  by (auto simp: splitLine_def splitPart_def splitTicketItem_def Let_def deskView_def cashView_def split: if_split_asm option.splits)

lemma split_desk:
  assumes "splitTable src destTable moves emp now d = Inr d'"
  shows "deskView d' = deskView d"
proof -
  obtain s :: orderSession and sid d1 ms d2 d3 g where
    ins: "insertSession \<lparr>s_id = 0, s_status = Session_ACTIVE, s_tableId = Some destTable, s_employeeId = s_employeeId s,
        s_shiftId = s_shiftId s, s_guestCount = None, s_online = None\<rparr> (setTables g Table_OCCUPIED d) = Inr (sid, d1)"
    and lines: "run_all (splitLine d src sid) moves ([], d1) = Inr (ms, d2)"
    and kit: "splitKitchenItems emp sid ms d2 = Inr d3"
    and d': "d' = enqueueOrderEvent ''SESSION_SPLIT'' src (affectedTableIds [s_tableId s, Some destTable]) now
       (addLog emp ''ORDER_TABLE_SPLIT'' src d3)"
    by (rule split_steps [OF assms]) (rule that)
  have "deskView (snd (ms, d2)) = deskView d1"
    by (rule run_all_invariant [where P = "\<lambda>st. deskView (snd st) = deskView d1", OF lines])
       (auto dest: splitLine_desk)
  then show ?thesis using insertSession_desk [OF ins] kitchen_desk(3) [OF kit] by (simp add: d')
qed

lemma order_step_desk:
  assumes "order_step sign d d'"
  shows "deskView d' = deskView d"
  using assms
proof (cases rule: order_step.cases)
  case (check_in_guest rid emp now sid)
  from this(1) show ?thesis by (rule checkIn_steps) (simp add: createSession_desk)
next
  case (accept_online emp lines quotes p now sid)
  from this(1) show ?thesis
    by (rule online_steps) (simp add: createSession_desk addItems_desk reserveSession_def deskView_stock(1))
next
  case (add_lines sid lines emp now)
  then show ?thesis by (auto simp: addOrderItems_def dest!: addItems_desk)
next
  case (cancel_order sid emp now)
  from this(1) show ?thesis by (rule cancelSession_steps) (simp add: cancelLines_desk split: option.split)
next
  case (clear_floor tid expected emp now)
  from this(1) show ?thesis by (rule clearTable_steps) (auto simp: cancelLines_desk split: option.splits)
next
  case (transfer_order sid fromT toT emp now)
  from this(1) show ?thesis by (rule transfer_steps) simp
next
  case (merge_orders ts t ss s emp now)
  from this(1) show ?thesis by (rule merge_steps) (hypsubst, unfold deskView_log, simp add: deskView_def cashView_def)
next
  case (complete_order sid emp now)
  from this(1) show ?thesis by (rule complete_steps) (simp, hypsubst, unfold deskView_log, simp)
qed (auto intro: createSession_desk remake_desk status_desk cancelItem_desk split_desk)

lemmas order_step_cash = order_step_desk [THEN deskView_cash]

end
