(* ===== verification/Cash_Claims.thy ===== *)
theory Cash_Claims
  imports Cash_System
begin

text \<open>
  The properties of the cash desk. \<open>till_step\<close> is the step relation of everything that moves
  money or could: the cashier, the handovers, the funds, the invoices and the orders. A step
  starts in a committed state, in which the keys of the database hold and new ids are new.
\<close>

inductive till_step :: "(quotedData \<Rightarrow> 'h) \<Rightarrow> 'c signer \<Rightarrow> (string \<Rightarrow> string \<Rightarrow> bool) \<Rightarrow> db \<Rightarrow> db \<Rightarrow> bool"
  for hash sign sameName where
  order: "order_step sign d d' \<Longrightarrow> till_step hash sign sameName d d'"
| open_shift: "openShift emp fid cash d = Inr (cid, d') \<Longrightarrow> committed d \<Longrightarrow> cash_fresh d \<Longrightarrow> till_step hash sign sameName d d'"
| close_shift: "closeShift emp cid reported note now d = Inr d' \<Longrightarrow> committed d \<Longrightarrow> cash_fresh d \<Longrightarrow>
    till_step hash sign sameName d d'"
| movement: "addMovement emp cid ty amt desc d = Inr d' \<Longrightarrow> committed d \<Longrightarrow> cash_fresh d \<Longrightarrow> till_step hash sign sameName d d'"
| approve_expense: "approveExpenseRequest i emp d = Inr d' \<Longrightarrow> committed d \<Longrightarrow> cash_fresh d \<Longrightarrow> till_step hash sign sameName d d'"
| reject_expense: "rejectExpenseRequest i emp d = Inr d' \<Longrightarrow> committed d \<Longrightarrow> cash_fresh d \<Longrightarrow> till_step hash sign sameName d d'"
| cancel_expense: "cancelExpenseRequest i emp d = Inr d' \<Longrightarrow> committed d \<Longrightarrow> cash_fresh d \<Longrightarrow> till_step hash sign sameName d d'"
| request_handover: "createHandover emp cid dest retained d = Inr (h, d') \<Longrightarrow> committed d \<Longrightarrow> cash_fresh d \<Longrightarrow>
    till_step hash sign sameName d d'"
| approve_handover: "approveHandover i emp now d = Inr d' \<Longrightarrow> committed d \<Longrightarrow> cash_fresh d \<Longrightarrow> till_step hash sign sameName d d'"
| register_deposit: "registerDeposit i emp ref ev d = Inr d' \<Longrightarrow> committed d \<Longrightarrow> cash_fresh d \<Longrightarrow> till_step hash sign sameName d d'"
| settle_handover: "settleInTransaction i emp ref ev d = Inr d' \<Longrightarrow> committed d \<Longrightarrow> cash_fresh d \<Longrightarrow>
    till_step hash sign sameName d d'"
| reject_handover: "rejectHandover i emp d = Inr d' \<Longrightarrow> committed d \<Longrightarrow> cash_fresh d \<Longrightarrow> till_step hash sign sameName d d'"
| cancel_handover: "cancelHandover i emp d = Inr d' \<Longrightarrow> committed d \<Longrightarrow> cash_fresh d \<Longrightarrow> till_step hash sign sameName d d'"
| create_fund: "createFund sameName emp name ft b d = Inr (n, d') \<Longrightarrow> committed d \<Longrightarrow> cash_fresh d \<Longrightarrow>
    till_step hash sign sameName d d'"
| update_fund: "updateFund sameName fid emp nm ft' d = Inr d' \<Longrightarrow> committed d \<Longrightarrow> cash_fresh d \<Longrightarrow>
    till_step hash sign sameName d d'"
| remove_fund: "removeFund fid emp now d = Inr d' \<Longrightarrow> committed d \<Longrightarrow> cash_fresh d \<Longrightarrow> till_step hash sign sameName d d'"
| bill: "createInvoiceInTransaction hash prefix emp co online inp now d = Inr (vid, d') \<Longrightarrow> committed d \<Longrightarrow> cash_fresh d \<Longrightarrow>
    till_step hash sign sameName d d'"
| pay: "updatePayment vid emp m tendered close now d = Inr d' \<Longrightarrow> committed d \<Longrightarrow> cash_fresh d \<Longrightarrow>
    till_step hash sign sameName d d'"
| void: "voidInvoice vid emp now d = Inr d' \<Longrightarrow> committed d \<Longrightarrow> cash_fresh d \<Longrightarrow> till_step hash sign sameName d d'"
| pay_online: "completeOnlinePayment vid emp shift close now d = Inr d' \<Longrightarrow> committed d \<Longrightarrow> cash_fresh d \<Longrightarrow>
    till_step hash sign sameName d d'"
| refund: "createCashRefund vid emp amt reason shift key now d = Inr d' \<Longrightarrow> committed d \<Longrightarrow> cash_fresh d \<Longrightarrow>
    till_step hash sign sameName d d'"

lemma till_step_committed: "till_step hash sign sameName d d' \<Longrightarrow> committed d"
  by (erule till_step.cases) (simp_all add: order_step_committed)

lemma till_step_books:
  assumes "till_step hash sign sameName d d'" and "books d"
  shows "books d'"
proof -
  have k: "keys_ok d" using till_step_committed [OF assms(1)] by (simp add: committed_def)
  from assms(1) show ?thesis
    by (cases rule: till_step.cases)
       (use k assms(2) in \<open>auto simp: rejectExpenseRequest_def cancelExpenseRequest_def books_cong [OF order_step_cash]
          books_cong [OF handover_cash(1)] books_cong [OF handover_cash(2)] books_cong [OF handover_cash(3)]
          books_cong [OF handover_cash(4)] books_cong [OF resolveExpense_cash]
          intro: openShift_books closeShift_books addMovement_books approveExpense_books approveHandover_books settle_books
            createFund_books updateFund_books removeFund_books createInvoice_books updatePayment_books void_books
            completeOnline_books refund_books\<close>)
qed

lemma till_steps_books: "(till_step hash sign sameName)\<^sup>*\<^sup>* d d' \<Longrightarrow> books d \<Longrightarrow> books d'"
  by (induction rule: rtranclp_induct) (auto intro: till_step_books)

section \<open>The sample till\<close>

definition sample_till :: db where
  "sample_till = empty_db\<lparr>nextId := 100,
     employees := [\<lparr>e_id = 1, e_fullName = ''An'', e_isActive = True, e_deletedAt = None\<rparr>,
       \<lparr>e_id = 2, e_fullName = ''Binh'', e_isActive = True, e_deletedAt = None\<rparr>],
     funds := [\<lparr>f_id = 10, f_name = ''Drawer'', f_type = Fund_CASH, f_balance = 50000, f_deletedAt = None\<rparr>,
       \<lparr>f_id = 11, f_name = ''Safe'', f_type = Fund_CASH, f_balance = 0, f_deletedAt = None\<rparr>]\<rparr>"

definition till_open :: db where
  "till_open = snd (value_of (openShift 1 10 49000 sample_till))"

definition till_moved :: db where
  "till_moved = value_of (addMovement 1 100 Flow_INCOME 2500 ''change'' till_open)"

definition till_closed :: db where
  "till_closed = value_of (closeShift 1 100 52000 (Some ''short'') 900 till_moved)"

lemmas till_simps = sample_till_def empty_db_def

lemma till_open_ok: "openShift 1 10 49000 sample_till = Inr (100, till_open)"
  by (simp add: till_open_def openShift_def insertShift_def till_simps activeEmployee_def activeCashFund_def Let_def)

lemmas till_eval = assertActiveEmployee_def activeEmployee_def activeCashFund_def Let_def addLog_def requireOpenShift_def
  findOpenShift_def findFund_def postMovement_def movementGuard_def createCashTx_def cnt_def upd_def addBalance_def flowSign_def

lemma till_open_simps:
  "cashierShifts till_open = [\<lparr>c_id = 100, c_status = Shift_OPEN, c_employeeId = 1, c_fundId = Some 10,
     c_startingCash = 49000, c_expectedStartingCash = 50000, c_openingDifference = -1000, c_reportedEndingCash = None,
     c_actualEndingCash = None, c_closingNote = None, c_closedAt = None\<rparr>]"
  "funds till_open = funds sample_till" "cashTxs till_open = []" "employees till_open = employees sample_till"
  "settings till_open = []" "invoices till_open = []" "cashRefunds till_open = []" "paymentAttempts till_open = []"
  "orderSessions till_open = []" "expenseRequests till_open = []" "cashHandovers till_open = []" "nextId till_open = 101"
  by (simp_all add: till_open_def openShift_def insertShift_def till_simps till_eval)

lemma committed_sample_till: "committed sample_till" "cash_fresh sample_till" "books sample_till"
  by (simp_all add: committed_def keys_ok_def stock_keys_def one_open_shift_def recipes_fresh_def lines_fresh_def till_simps
      cash_fresh_def books_def openOn_def)

lemma till_moved_ok: "addMovement 1 100 Flow_INCOME 2500 ''change'' till_open = Inr till_moved"
proof -
  have "ok (addMovement 1 100 Flow_INCOME 2500 ''change'' till_open)"
    by (simp add: addMovement_def till_open_simps till_simps till_eval)
  then show ?thesis by (simp add: till_moved_def ok_value_of)
qed

lemma till_moved_simps:
  "cashierShifts till_moved = cashierShifts till_open" "nextId till_moved = 102"
  "funds till_moved = [\<lparr>f_id = 10, f_name = ''Drawer'', f_type = Fund_CASH, f_balance = 52500, f_deletedAt = None\<rparr>,
     \<lparr>f_id = 11, f_name = ''Safe'', f_type = Fund_CASH, f_balance = 0, f_deletedAt = None\<rparr>]"
  "cashTxs till_moved = [\<lparr>k_id = 101, k_type = Flow_INCOME, k_amount = 2500, k_fundId = 10, k_employeeId = 1,
     k_shiftId = Some 100, k_invoiceId = None\<rparr>]" "employees till_moved = employees sample_till"
  "settings till_moved = []" "invoices till_moved = []" "cashRefunds till_moved = []" "paymentAttempts till_moved = []"
  "orderSessions till_moved = []" "expenseRequests till_moved = []" "cashHandovers till_moved = []"
  by (simp_all add: till_moved_def addMovement_def till_open_simps till_simps till_eval)

lemma committed_till_open: "committed till_open" "cash_fresh till_open"
  by (simp_all add: till_open_def openShift_def insertShift_def activeEmployee_def activeCashFund_def Let_def addLog_def
      committed_def keys_ok_def stock_keys_def one_open_shift_def recipes_fresh_def lines_fresh_def till_simps cash_fresh_def)

lemma till_moved_reached: "(till_step hash sign sameName)\<^sup>*\<^sup>* sample_till till_moved"
  by (rule converse_rtranclp_into_rtranclp [where r = "till_step hash sign sameName", OF till_step.open_shift [OF till_open_ok committed_sample_till(1,2)]],
      rule r_into_rtranclp, rule till_step.movement [OF till_moved_ok committed_till_open])

section \<open>Open shifts\<close>

text \<open>C1: The books of an open shift are always right. Start in any state in which they are, and run
  any sequence of operations of the shop: shifts opened and closed, movements and approved expenses,
  handovers requested, approved and settled, funds changed, invoices billed, paid in cash or online,
  voided and refunded, orders taken and changed. Then for every shift that is open, the money in its
  fund is exactly what the reconciliation of the shift expects: the opening balance plus its cash
  sales and manual income, less its expenses and its cash refunds.\<close>

theorem open_shift_reconciles:
  assumes "(till_step hash sign sameName)\<^sup>*\<^sup>* d d'" and "books d" and "openOn d' c fid"
  shows "balanceOf d' fid = rc_actualEndingCash (calculateReconciliation c d')"
  using till_steps_books [OF assms(1,2)] assms(3) by (simp add: books_def reconciliation_drawer)

theorem open_shift_reconciles_witness:
  "rc_actualEndingCash (calculateReconciliation (hd (cashierShifts till_moved)) till_moved) = 52500"
proof -
  have "openOn till_moved (hd (cashierShifts till_moved)) 10" by (simp add: openOn_def till_moved_simps till_open_simps)
  from open_shift_reconciles [OF till_moved_reached [of "\<lambda>_. ()" "\<lambda>_ _. ()" "(=)"] committed_sample_till(3) this]
  show ?thesis by (simp add: balanceOf_def findFund_def till_moved_simps)
qed

text \<open>Closing a shift freezes the right number: the \<open>actualEndingCash\<close> that is stored is the money
  in the fund at that moment, the counted cash is stored beside it, no payment, order or expense
  request of the shift is left open, and no balance changes.\<close>

theorem close_shift_freezes_balance:
  assumes "closeShift emp cid reported note now d = Inr d'" and "books d" and "keys_ok d" and "openOn d c fid" and "c_id c = cid"
  shows "cashierShifts d' = upd (\<lambda>r. r = c) (\<lambda>r. r\<lparr>c_status := Shift_CLOSED, c_closedAt := Some now,
       c_reportedEndingCash := Some reported, c_actualEndingCash := Some (balanceOf d fid), c_closingNote := note\<rparr>) (cashierShifts d) \<and>
    funds d' = funds d \<and>
    \<not> (\<exists>a\<in>set (paymentAttempts d). a_shiftId a = cid \<and> unresolvedAttempt (a_status a)) \<and>
    \<not> (\<exists>s\<in>set (orderSessions d). s_shiftId s = Some cid \<and> s_status s = Session_ACTIVE) \<and>
    \<not> (\<exists>q\<in>set (expenseRequests d). q_shiftId q = cid \<and> q_status q = Req_PENDING)"
proof -
  obtain c' where c': "c' \<in> set (cashierShifts d)" "c_id c' = cid" "c_status c' = Shift_OPEN"
    and d': "d' = addLog emp ''CASHIER_SHIFT_CLOSED'' cid (d\<lparr>cashierShifts := upd (\<lambda>r. c_id r = cid \<and> c_status r = Shift_OPEN)
       (\<lambda>r. r\<lparr>c_status := Shift_CLOSED, c_closedAt := Some now, c_reportedEndingCash := Some reported,
         c_actualEndingCash := Some (rc_actualEndingCash (calculateReconciliation c' d)), c_closingNote := note\<rparr>)
       (cashierShifts d)\<rparr>)"
    and free: "\<forall>a\<in>set (paymentAttempts d). \<not> (a_shiftId a = cid \<and> unresolvedAttempt (a_status a))"
    "\<forall>s\<in>set (orderSessions d). \<not> (s_shiftId s = Some cid \<and> s_status s = Session_ACTIVE)"
    "\<forall>q\<in>set (expenseRequests d). \<not> (q_shiftId q = cid \<and> q_status q = Req_PENDING)"
    by (rule closeShift_steps [OF assms(1)]) (rule that)
  have uniq: "r = c" if "r \<in> set (cashierShifts d)" "c_id r = cid" for r
    by (rule distinct_key_eq [OF keys_okD(7) [OF assms(3)] that(1)]) (use assms(4,5) that in \<open>simp_all add: openOn_def\<close>)
  have eq: "c' = c" by (rule uniq [OF c'(1,2)])
  have actual: "rc_actualEndingCash (calculateReconciliation c d) = balanceOf d fid"
    using assms(2,4) by (simp add: books_def reconciliation_drawer)
  have iff: "(c_id r = cid \<and> c_status r = Shift_OPEN) = (r = c)" if "r \<in> set (cashierShifts d)" for r
    using uniq [OF that] c'(2,3) eq by blast
  have only: "upd (\<lambda>r. c_id r = cid \<and> c_status r = Shift_OPEN) f (cashierShifts d) = upd (\<lambda>r. r = c) f (cashierShifts d)"
    for f :: "cashierShift \<Rightarrow> cashierShift"
    unfolding upd_def by (intro map_cong refl) (simp only: iff)
  have shifts: "cashierShifts d' = upd (\<lambda>r. r = c) (\<lambda>r. r\<lparr>c_status := Shift_CLOSED, c_closedAt := Some now,
       c_reportedEndingCash := Some reported, c_actualEndingCash := Some (balanceOf d fid), c_closingNote := note\<rparr>) (cashierShifts d)"
    unfolding d' eq actual only [symmetric] by simp
  have "funds d' = funds d" unfolding d' by simp
  with shifts show ?thesis using free by blast
qed

lemma till_closed_ok: "closeShift 1 100 52000 (Some ''short'') 900 till_moved = Inr till_closed"
proof -
  have "ok (closeShift 1 100 52000 (Some ''short'') 900 till_moved)"
    by (simp add: closeShift_def openWork_def noteRequired_def calculateReconciliation_def shiftSales_def manualFlow_def shiftRefunds_def
        refundTx_def sumw_def given_def till_moved_simps till_open_simps till_simps till_eval)
  then show ?thesis by (simp add: till_closed_def ok_value_of)
qed

lemma keys_till_moved: "keys_ok till_moved"
  by (simp add: till_moved_def addMovement_def till_eval till_open_def openShift_def insertShift_def till_simps
      keys_ok_def stock_keys_def one_open_shift_def)

theorem close_shift_freezes_balance_witness:
  "map c_actualEndingCash (cashierShifts till_closed) = [Some 52500]"
proof -
  have o: "openOn till_moved (hd (cashierShifts till_moved)) 10" "c_id (hd (cashierShifts till_moved)) = 100"
    by (simp_all add: openOn_def till_moved_simps till_open_simps)
  have b: "books till_moved" by (rule till_steps_books [OF till_moved_reached [of "\<lambda>_. ()" "\<lambda>_ _. ()" "(=)"] committed_sample_till(3)])
  show ?thesis
    using close_shift_freezes_balance [OF till_closed_ok b keys_till_moved o]
    by (simp add: balanceOf_def findFund_def till_moved_simps till_open_simps upd_def)
qed

end
