(* ===== verification/Handover_Claims.thy ===== *)
theory Handover_Claims
  imports Cash_Claims
begin

text \<open>
  What a cash handover moves, that it is settled once, that nobody resolves their own request, and
  that an invoice is never refunded beyond its total.
\<close>

section \<open>Balances of a handover\<close>

lemma drainSource_balance:
  assumes "keys_ok d"
    and "cnt (\<lambda>f. f_id f = d_sourceFundId h \<and> f_deletedAt f = None \<and> f_balance f = d_expectedCash h) (funds d) = 1"
  shows "balanceOf (drainSource h d) x = (if x = d_sourceFundId h then d_retained h else balanceOf d x)"
    "balanceOf d (d_sourceFundId h) = d_expectedCash h"
proof -
  obtain r where r: "r \<in> set (funds d)" "f_id r = d_sourceFundId h \<and> f_deletedAt r = None \<and> f_balance r = d_expectedCash h"
    using cnt_1_obtain [OF assms(2)] by blast
  show "balanceOf (drainSource h d) x = (if x = d_sourceFundId h then d_retained h else balanceOf d x)"
    using balanceOf_upd [where d = d and d' = "drainSource h d" and r = r and fid = "d_sourceFundId h" and x = x and
        g = "\<lambda>f. f_id f = d_sourceFundId h \<and> f_deletedAt f = None \<and> f_balance f = d_expectedCash h" and
        u = "\<lambda>f. f\<lparr>f_balance := d_retained h\<rparr>", OF keys_okD(6) [OF assms(1)] r]
    by (simp add: drainSource_def)
  show "balanceOf d (d_sourceFundId h) = d_expectedCash h"
    using balanceOf_mem [OF keys_okD(6) [OF assms(1)] r(1)] r(2) by simp
qed

lemma drainSource_keys: "map f_id (funds (drainSource h d)) = map f_id (funds d)"
  by (simp add: drainSource_def map_key_upd)

text \<open>C7: Approving a handover moves exactly the counted cash. Before it, the source fund held what the
  closed shift expected; after it, it holds the cash the cashier kept back, a destination that is not a BANK fund
  (CASH or OTHER) has gained the transfer, and no other balance has changed. A BANK destination gains nothing yet:
  the money is in transit until the deposit is settled.\<close>

theorem approve_moves_money:
  assumes "approveHandover i emp now d = Inr d'" and "keys_ok d" and "findHandover d i = Some h"
    and "findFund d (d_destinationFundId h) = Some df"
  shows "balanceOf d (d_sourceFundId h) = d_expectedCash h \<and>
    (\<forall>x. balanceOf d' x = (if x = d_sourceFundId h then d_retained h else balanceOf d x) +
       (if x = d_destinationFundId h \<and> f_type df \<noteq> Fund_BANK then d_transfer h else 0))"
proof -
  obtain h' :: cashHandover and df' :: fund and ks where e: "findHandover d i = Some h'" "findFund d (d_destinationFundId h') = Some df'"
    and f: "funds d' = (if f_type df' = Fund_BANK then funds (drainSource h' d)
       else upd (\<lambda>f. f_id f = d_destinationFundId h' \<and> f_type f = f_type df' \<and> f_deletedAt f = None)
         (addBalance (d_transfer h')) (funds (drainSource h' d)))"
    and src: "cnt (\<lambda>f. f_id f = d_sourceFundId h' \<and> f_deletedAt f = None \<and> f_balance f = d_expectedCash h') (funds d) = 1"
    and dst: "f_type df' \<noteq> Fund_BANK \<longrightarrow> cnt (\<lambda>f. f_id f = d_destinationFundId h' \<and> f_type f = f_type df' \<and> f_deletedAt f = None)
       (funds (drainSource h' d)) = 1"
    by (rule approveHandover_effect [OF assms(1)])
  have eq: "h' = h" "df' = df" using e assms(3,4) by auto
  note drained = drainSource_balance [OF assms(2) src [unfolded eq]]
  have "balanceOf d' x = (if x = d_sourceFundId h then d_retained h else balanceOf d x) +
       (if x = d_destinationFundId h \<and> f_type df \<noteq> Fund_BANK then d_transfer h else 0)" for x
  proof (cases "f_type df = Fund_BANK")
    case True
    then have "balanceOf d' x = balanceOf (drainSource h d) x" using f by (simp add: eq balanceOf_def findFund_def)
    then show ?thesis using drained True by simp
  next
    case False
    have "balanceOf d' x = balanceOf (drainSource h d) x + (if x = d_destinationFundId h then d_transfer h else 0)"
      by (rule balanceOf_add [OF _ mp [OF dst [unfolded eq] False]])
         (use False f keys_okD(6) [OF assms(2)] in \<open>simp_all add: eq drainSource_keys\<close>)
    then show ?thesis using drained False by simp
  qed
  then show ?thesis using drained(2) by blast
qed

text \<open>The sample shift handed over: 52,000 counted against 52,500 expected, 20,000 kept in the drawer.\<close>

definition till_asked :: db where
  "till_asked = snd (value_of (createHandover 1 100 11 20000 till_closed))"

definition till_approved :: db where
  "till_approved = value_of (approveHandover 102 2 901 till_asked)"

lemma till_closed_simps:
  "cashierShifts till_closed = [\<lparr>c_id = 100, c_status = Shift_CLOSED, c_employeeId = 1, c_fundId = Some 10,
     c_startingCash = 49000, c_expectedStartingCash = 50000, c_openingDifference = -1000, c_reportedEndingCash = Some 52000,
     c_actualEndingCash = Some 52500, c_closingNote = Some ''short'', c_closedAt = Some 900\<rparr>]"
  "funds till_closed = funds till_moved" "employees till_closed = employees sample_till" "cashHandovers till_closed = []"
  "nextId till_closed = 102" "cashTxs till_closed = cashTxs till_moved" "settings till_closed = []" "expenseRequests till_closed = []"
  by (simp_all add: till_closed_def closeShift_def openWork_def noteRequired_def calculateReconciliation_def shiftSales_def
      manualFlow_def shiftRefunds_def refundTx_def sumw_def given_def till_moved_simps till_open_simps till_simps till_eval)

lemma till_asked_simps:
  "cashHandovers till_asked = [\<lparr>d_id = 102, d_status = Req_PENDING, d_shiftId = 100, d_sourceFundId = 10, d_destinationFundId = 11,
     d_requestedById = 1, d_resolvedById = None, d_expectedCash = 52500, d_countedCash = 52000, d_variance = -500,
     d_retained = 20000, d_transfer = 32000, d_settlement = Some Settle_NOT_REQUIRED, d_settlementDueAt = None,
     d_settledById = None, d_bankReference = None, d_evidence = None, d_sourceTxId = None, d_destinationTxId = None,
     d_varianceTxId = None\<rparr>]"
  "funds till_asked = funds till_moved" "employees till_asked = employees sample_till" "cashierShifts till_asked = cashierShifts till_closed"
  "cashTxs till_asked = cashTxs till_moved" "nextId till_asked = 103" "settings till_asked = []" "expenseRequests till_asked = []"
  by (simp_all add: till_asked_def createHandover_def insertHandover_def handoverChecks_def findShift_def
      assertFundsHaveNoOpenShift_def till_closed_simps till_moved_simps till_simps till_eval)

lemma till_approved_ok: "approveHandover 102 2 901 till_asked = Inr till_approved"
proof -
  have "ok (approveHandover 102 2 901 till_asked)"
    by (simp add: approveHandover_def findHandover_def postVariance_def plainTx_def postDestinationEntry_def
        assertFundsHaveNoOpenShift_def till_asked_simps till_closed_simps till_moved_simps till_simps till_eval)
  then show ?thesis by (simp add: till_approved_def ok_value_of)
qed

lemma keys_till_asked: "keys_ok till_asked" "recipes_fresh till_asked" "lines_fresh till_asked" "cash_fresh till_asked"
  by (simp_all add: recipes_fresh_def lines_fresh_def cash_fresh_def till_asked_def createHandover_def insertHandover_def handoverChecks_def findShift_def
      assertFundsHaveNoOpenShift_def till_closed_def closeShift_def openWork_def noteRequired_def calculateReconciliation_def
      shiftSales_def manualFlow_def shiftRefunds_def refundTx_def sumw_def given_def till_moved_def addMovement_def
      till_open_def openShift_def insertShift_def till_simps till_eval keys_ok_def stock_keys_def one_open_shift_def)

theorem approve_moves_money_witness:
  "(balanceOf till_approved 10, balanceOf till_approved 11) = (20000, 32000)"
proof -
  have "findHandover till_asked 102 = Some (hd (cashHandovers till_asked))" "findFund till_asked (d_destinationFundId (hd (cashHandovers till_asked))) =
      Some \<lparr>f_id = 11, f_name = ''Safe'', f_type = Fund_CASH, f_balance = 0, f_deletedAt = None\<rparr>"
    by (simp_all add: findHandover_def till_asked_simps findFund_def till_moved_simps)
  from approve_moves_money [OF till_approved_ok keys_till_asked(1) this] show ?thesis
    by (simp add: till_asked_simps balanceOf_def [of till_asked] findFund_def till_moved_simps)
qed

section \<open>Settling once\<close>

lemma findHandover_SomeD: "findHandover d i = Some h \<Longrightarrow> h \<in> set (cashHandovers d) \<and> d_id h = i"
  unfolding findHandover_def by (rule find_SomeD)

lemma findHandover_set:
  assumes "findHandover d i = Some h" and "cashHandovers d' = cashHandovers (setHandover i f d)" and "\<And>r. d_id (f r) = d_id r"
  shows "findHandover d' i = Some (f h)"
proof -
  have "find (\<lambda>h. d_id h = i) (upd (\<lambda>h. d_id h = i) f hs) = map_option f (find (\<lambda>h. d_id h = i) hs)" for hs
    by (induction hs) (auto simp: upd_def assms(3))
  then show ?thesis using assms(1) by (simp add: findHandover_def assms(2) setHandover_def)
qed

lemma settle_effect:
  assumes "settleInTransaction i emp ref ev d = Inr d'" and "keys_ok d" and "findHandover d i = Some h"
  shows "balanceOf d' x = balanceOf d x + (if x = d_destinationFundId h then d_transfer h else 0)"
    "findHandover d' i = Some (h\<lparr>d_settlement := Some Settle_SETTLED, d_settledById := Some emp,
          d_bankReference := Some (toUpperCase ref), d_evidence := Some ev, d_destinationTxId := Some (nextId d)\<rparr>)"
proof -
  obtain h' :: cashHandover and df :: fund and n d1 where h': "findHandover d i = Some h'"
    and p: "postDestinationEntry h' emp Fund_BANK d = Inr (n, d1)"
    and d': "d' = addLog emp ''CASH_HANDOVER_SETTLED'' i
       (setHandover i (\<lambda>r. r\<lparr>d_settlement := Some Settle_SETTLED, d_settledById := Some emp,
          d_bankReference := Some (toUpperCase ref), d_evidence := Some ev, d_destinationTxId := Some n\<rparr>) d1)"
    by (rule settle_steps [OF assms(1)])
  have eq: "h' = h" using h' assms(3) by simp
  note e = postDestinationEntry_effect [OF p [unfolded eq]]
  show "balanceOf d' x = balanceOf d x + (if x = d_destinationFundId h then d_transfer h else 0)"
    by (rule balanceOf_add [OF keys_okD(6) [OF assms(2)] e(2)]) (use e in \<open>simp_all add: d' setHandover_def\<close>)
  have "findHandover d1 i = Some h" using assms(3) e(8) by (simp add: findHandover_def)
  then show "findHandover d' i = Some (h\<lparr>d_settlement := Some Settle_SETTLED, d_settledById := Some emp,
          d_bankReference := Some (toUpperCase ref), d_evidence := Some ev, d_destinationTxId := Some (nextId d)\<rparr>)"
    by (rule findHandover_set) (simp_all add: d' e(1))
qed

text \<open>C10: A deposit is settled exactly once: settling credits the destination fund with the transfer and
  changes no other balance, and in the state it leaves a second settlement of the same handover is refused, whoever
  asks and whatever the reference and the evidence.\<close>

theorem settle_once:
  assumes "settleInTransaction i emp ref ev d = Inr d'" and "keys_ok d" and "findHandover d i = Some h"
  shows "(\<forall>x. balanceOf d' x = balanceOf d x + (if x = d_destinationFundId h then d_transfer h else 0)) \<and>
    \<not> ok (settleInTransaction i emp' ref' ev' d')"
proof -
  note e = settle_effect [OF assms]
  have "\<not> awaitingSettlement (h\<lparr>d_settlement := Some Settle_SETTLED, d_settledById := Some emp,
          d_bankReference := Some (toUpperCase ref), d_evidence := Some ev, d_destinationTxId := Some (nextId d)\<rparr>)"
    by (simp add: awaitingSettlement_def)
  then have "settleInTransaction i emp' ref' ev' d' \<noteq> Inr y" for y
    using e(2) by (auto simp: settleInTransaction_def)
  then show ?thesis using e(1) by (auto simp: ok_def split: sum.splits)
qed

text \<open>The sample till with a bank account and a handover in transit.\<close>

definition till_transit :: db where
  "till_transit = sample_till\<lparr>funds := funds sample_till @ [\<lparr>f_id = 12, f_name = ''Bank'', f_type = Fund_BANK, f_balance = 0, f_deletedAt = None\<rparr>],
     cashHandovers := [\<lparr>d_id = 60, d_status = Req_APPROVED, d_shiftId = 50, d_sourceFundId = 10, d_destinationFundId = 12,
     d_requestedById = 1, d_resolvedById = Some 2, d_expectedCash = 52500, d_countedCash = 52000, d_variance = -500,
     d_retained = 20000, d_transfer = 32000, d_settlement = Some Settle_PENDING, d_settlementDueAt = Some 900,
     d_settledById = None, d_bankReference = Some ''77'', d_evidence = Some ''slip'', d_sourceTxId = None, d_destinationTxId = None,
     d_varianceTxId = None\<rparr>]\<rparr>"

lemma till_transit_ok: "ok (settleInTransaction 60 2 ''77'' ''slip'' till_transit)"
  by (simp add: settleInTransaction_def findHandover_def till_transit_def till_simps till_eval awaitingSettlement_def toUpperCase_def
      upperChar_def given_def postDestinationEntry_def plainTx_def referenceFree_def)

theorem settle_once_witness:
  "balanceOf (value_of (settleInTransaction 60 2 ''77'' ''slip'' till_transit)) 12 = 32000"
proof -
  have "keys_ok till_transit" "findHandover till_transit 60 = Some (hd (cashHandovers till_transit))"
    by (simp_all add: keys_ok_def stock_keys_def one_open_shift_def till_transit_def till_simps findHandover_def)
  from settle_once [OF ok_value_of [OF till_transit_ok] this] show ?thesis
    by (simp add: till_transit_def till_simps balanceOf_def [of "sample_till\<lparr>funds := _, cashHandovers := _\<rparr>"] findFund_def balanceOf_def)
qed

section \<open>Four eyes\<close>

definition handoverEyes :: "cashHandover \<Rightarrow> bool" where
  "handoverEyes h \<longleftrightarrow>
     (d_status h = Req_APPROVED \<longrightarrow> (\<exists>e. d_resolvedById h = Some e \<and> e \<noteq> d_requestedById h)) \<and>
     (d_settlement h = Some Settle_SETTLED \<longrightarrow> (\<exists>e. d_settledById h = Some e \<and> e \<noteq> d_requestedById h))"

definition expenseEyes :: "expenseRequest \<Rightarrow> bool" where
  "expenseEyes q \<longleftrightarrow> (q_status q = Req_APPROVED \<longrightarrow> (\<exists>e. q_resolvedById q = Some e \<and> e \<noteq> q_requestedById q))"

definition four_eyes :: "db \<Rightarrow> bool" where
  "four_eyes d \<longleftrightarrow> (\<forall>h\<in>set (cashHandovers d). handoverEyes h) \<and> (\<forall>q\<in>set (expenseRequests d). expenseEyes q)"

definition reqs :: "db \<Rightarrow> cashHandover list \<times> expenseRequest list" where
  "reqs d = (cashHandovers d, expenseRequests d)"

lemma reqs_desk: "deskView d' = deskView d \<Longrightarrow> reqs d' = reqs d"
  by (simp add: deskView_def reqs_def)

lemma reqs_log [simp]:
  "reqs (addLog e act s d) = reqs d" "reqs (enqueue p n a t w d) = reqs d" "reqs (enqueueInvoiceEvent n v os w d) = reqs d"
  by (rule reqs_desk, simp)+

lemma reqs_cong: "reqs d' = reqs d \<Longrightarrow> four_eyes d' = four_eyes d"
  by (simp add: four_eyes_def reqs_def)

lemma reqs_shift:
  "openShift emp fid cash d = Inr (cid, d') \<Longrightarrow> reqs d' = reqs d"
  "closeShift emp cid reported note now d = Inr d' \<Longrightarrow> reqs d' = reqs d"
  "postMovement sh emp ty amt d = Inr (n, d') \<Longrightarrow> reqs d' = reqs d"
  by (auto simp: openShift_def insertShift_def closeShift_def openWork_def Let_def postMovement_def createCashTx_def reqs_def)

lemma reqs_funds:
  "createFund same emp name ty b d = Inr (n, d') \<Longrightarrow> reqs d' = reqs d"
  "updateFund same fid emp nm ft d = Inr d' \<Longrightarrow> reqs d' = reqs d"
  "removeFund fid emp now d = Inr d' \<Longrightarrow> reqs d' = reqs d"
  by (auto simp: createFund_def updateFund_def removeFund_def reqs_def)

lemma reqs_parts:
  "insertInvoice v d = Inr (n, d') \<Longrightarrow> reqs d' = reqs d"
  "attachItems vid sid st items d = Inr d' \<Longrightarrow> reqs d' = reqs d"
  "reserveInvoiceStock vid now d = Inr d' \<Longrightarrow> reqs d' = reqs d"
  "recordCashInvoice sh vid emp amt d = Inr d' \<Longrightarrow> reqs d' = reqs d"
  "closeSessionIfFullyPaid s d = Inr d' \<Longrightarrow> reqs d' = reqs d"
  "releaseReservations ids d = Inr d' \<Longrightarrow> reqs d' = reqs d"
  "reqs (payItems vid d) = reqs d" "reqs (setInvoice vid f d) = reqs d" "reqs (invoiceEvents evs vid s now d) = reqs d"
proof -
  show "insertInvoice v d = Inr (n, d') \<Longrightarrow> reqs d' = reqs d" "attachItems vid sid st items d = Inr d' \<Longrightarrow> reqs d' = reqs d"
    "recordCashInvoice sh vid emp amt d = Inr d' \<Longrightarrow> reqs d' = reqs d"
    by (auto simp: insertInvoice_def attachItems_def Let_def recordCashInvoice_def incrementFund_def createCashTx_def reqs_def)
  show "reserveInvoiceStock vid now d = Inr d' \<Longrightarrow> reqs d' = reqs d" "closeSessionIfFullyPaid s d = Inr d' \<Longrightarrow> reqs d' = reqs d"
    "releaseReservations ids d = Inr d' \<Longrightarrow> reqs d' = reqs d"
    by (rule reqs_desk; simp add: reserveInvoiceStock_def deskView_stock closeSession_desk)+
  show "reqs (payItems vid d) = reqs d" "reqs (setInvoice vid f d) = reqs d" by (simp_all add: payItems_def setInvoice_def reqs_def)
  show "reqs (invoiceEvents evs vid s now d) = reqs d" unfolding invoiceEvents_def by (induction evs arbitrary: d) simp_all
qed

lemma reqs_bill:
  assumes "createInvoiceInTransaction hash prefix emp co online i now d = Inr (vid, d')"
  shows "reqs d' = reqs d"
proof -
  obtain s :: orderSession and shift ic vd d2 d3 d4 d5 where
    "insertInvoice (newInvoice (generateNumber prefix d) (snd ic) (co_method co) (co_status co) (s_id s) emp
       (map_option fst shift) (ci_promotionId i) now) d = Inr vd"
    "attachItems (fst vd) (s_id s) (co_status co) (fst ic) (snd vd) = Inr d2" "reserveInvoiceStock (fst vd) now d2 = Inr d3"
    "(case shift of
        Some sh \<Rightarrow> if co_method co = Method_CASH then recordCashInvoice sh (fst vd) emp (q_total (snd ic)) d3 else Inr d3
      | None \<Rightarrow> Inr d3) = Inr d4"
    "(if co_status co = Pay_PAID \<and> co_close co then closeSessionIfFullyPaid s d4 else Inr d4) = Inr d5"
    "invoiceEvents (co_events co) (fst vd) s now d5 = d'"
    by (rule createInvoice_steps [OF assms])
  then show ?thesis
    by (cases vd) (auto simp: reqs_parts dest!: reqs_parts(1-5) split: if_split_asm option.splits)
qed

lemma reqs_payment:
  "updatePayment vid emp m tendered close now d = Inr d' \<Longrightarrow> reqs d' = reqs d"
  "voidInvoice vid emp now d = Inr d' \<Longrightarrow> reqs d' = reqs d"
  "completeOnlinePayment vid emp sid close now d = Inr d' \<Longrightarrow> reqs d' = reqs d"
proof -
  show "reqs d' = reqs d" if "updatePayment vid emp m tendered close now d = Inr d'"
    by (rule updatePayment_steps [OF that]) (auto simp: reqs_parts dest!: reqs_parts(3-5) split: if_split_asm)
  have v: "reqs (voided vid d) = reqs d" by (simp add: voided_def setInvoice_def reqs_def)
  show "reqs d' = reqs d" if "voidInvoice vid emp now d = Inr d'"
    by (rule void_steps [OF that]) (auto simp: v dest!: reqs_parts(6) split: if_split_asm)
  have p: "reqs (payItems vid (d\<lparr>invoices := x\<rparr>)) = reqs d" for x by (simp add: payItems_def reqs_def)
  show "reqs d' = reqs d" if "completeOnlinePayment vid emp sid close now d = Inr d'"
    by (rule completeOnline_steps [OF that]) (auto simp: p dest!: reqs_parts(5) split: if_split_asm)
qed

lemma reqs_refund: "createCashRefund vid emp amt reason shift key now d = Inr d' \<Longrightarrow> reqs d' = reqs d"
  by (auto simp: createCashRefund_def refundable_def bookRefund_def decrementFund_def createCashTx_def Let_def reqs_def split: option.splits)

text \<open>The one row a request operation writes.\<close>

lemma eyes_upd:
  assumes "\<forall>h\<in>set hs. P h" and "\<And>r. r \<in> set hs \<Longrightarrow> g r \<Longrightarrow> P (f r)"
  shows "\<forall>h\<in>set (upd g f hs). P h"
  using assms by (auto simp: set_upd)

lemma setHandover_eyes:
  assumes "four_eyes d" and "keys_ok d" and "findHandover d i = Some h" and "handoverEyes (f h)"
    and "cashHandovers d' = upd (\<lambda>h. d_id h = i) f (cashHandovers d)" and "expenseRequests d' = expenseRequests d"
  shows "four_eyes d'"
proof -
  note h = findHandover_SomeD [OF assms(3)]
  have "r = h" if "r \<in> set (cashHandovers d)" "d_id r = i" for r
    by (rule distinct_key_eq [OF keys_okD(9) [OF assms(2)] that(1) conjunct1 [OF h]]) (simp add: that(2) conjunct2 [OF h])
  then have "\<forall>h\<in>set (cashHandovers d'). handoverEyes h"
    unfolding assms(5) using assms(1,4) by (intro eyes_upd) (auto simp: four_eyes_def)
  then show ?thesis using assms(1,6) by (simp add: four_eyes_def)
qed

lemma approveHandover_eyes:
  assumes "approveHandover i emp now d = Inr d'" and "four_eyes d" and "keys_ok d"
  shows "four_eyes d'"
proof -
  obtain h :: cashHandover and df :: fund and vd d2 td where
    h: "findHandover d i = Some h" "d_requestedById h \<noteq> emp"
    and v: "postVariance h emp (drainSource h d) = Inr vd"
    and e: "createCashTx (plainTx Flow_EXPENSE (d_transfer h) (d_sourceFundId h) emp) (snd vd) = Inr d2"
    and t: "(if f_type df = Fund_BANK then Inr (None, d2)
      else andThen (postDestinationEntry h emp (f_type df) d2) (\<lambda>td. Inr (Some (fst td), snd td))) = Inr td"
    and d': "d' = approved emp now d (f_type df = Fund_BANK) vd td i"
    by (rule approveHandover_steps [OF assms(1)])
  have "cashHandovers (snd vd) = cashHandovers d \<and> expenseRequests (snd vd) = expenseRequests d"
    using v by (auto simp: postVariance_def createCashTx_def drainSource_def split: if_split_asm)
  moreover have "cashHandovers (snd td) = cashHandovers (snd vd) \<and> expenseRequests (snd td) = expenseRequests (snd vd)"
    using e t by (auto simp: postDestinationEntry_def createCashTx_def Let_def split: if_split_asm)
  ultimately show ?thesis
    by (intro setHandover_eyes [OF assms(2,3) h(1), where f = "\<lambda>r. r\<lparr>d_status := Req_APPROVED, d_resolvedById := Some emp,
       d_settlement := Some (if f_type df = Fund_BANK then Settle_PENDING else Settle_NOT_REQUIRED),
       d_settlementDueAt := (if f_type df = Fund_BANK then Some (now + getSettlementSlaHours d * 60 * 60 * 1000) else None),
       d_sourceTxId := Some (nextId (snd vd)), d_destinationTxId := fst td, d_varianceTxId := fst vd\<rparr>"])
       (use h(2) in \<open>auto simp: handoverEyes_def d' approved_def setHandover_def\<close>)
qed

lemma settle_eyes:
  assumes "settleInTransaction i emp ref ev d = Inr d'" and "four_eyes d" and "keys_ok d"
  shows "four_eyes d'"
proof -
  obtain h :: cashHandover and n d1 where h: "findHandover d i = Some h" "d_requestedById h \<noteq> emp"
    and p: "postDestinationEntry h emp Fund_BANK d = Inr (n, d1)"
    and d': "d' = addLog emp ''CASH_HANDOVER_SETTLED'' i
       (setHandover i (\<lambda>r. r\<lparr>d_settlement := Some Settle_SETTLED, d_settledById := Some emp,
          d_bankReference := Some (toUpperCase ref), d_evidence := Some ev, d_destinationTxId := Some n\<rparr>) d1)"
    by (rule settle_steps [OF assms(1)])
  have "cashHandovers d1 = cashHandovers d \<and> expenseRequests d1 = expenseRequests d"
    using p by (auto simp: postDestinationEntry_def createCashTx_def Let_def)
  moreover have "handoverEyes h" using assms(2) findHandover_SomeD [OF h(1)] by (auto simp: four_eyes_def)
  ultimately show ?thesis
    by (intro setHandover_eyes [OF assms(2,3) h(1), where f = "\<lambda>r. r\<lparr>d_settlement := Some Settle_SETTLED, d_settledById := Some emp,
          d_bankReference := Some (toUpperCase ref), d_evidence := Some ev, d_destinationTxId := Some n\<rparr>"])
       (use h(2) in \<open>auto simp: handoverEyes_def d' setHandover_def\<close>)
qed

lemma otherHandover_eyes:
  "createHandover emp cid df retained d = Inr (n, d') \<Longrightarrow> four_eyes d \<Longrightarrow> four_eyes d'"
  "registerDeposit i emp ref ev d = Inr d' \<Longrightarrow> four_eyes d \<Longrightarrow> four_eyes d'"
  "rejectHandover i emp d = Inr d' \<Longrightarrow> four_eyes d \<Longrightarrow> keys_ok d \<Longrightarrow> four_eyes d'"
  "cancelHandover i emp d = Inr d' \<Longrightarrow> four_eyes d \<Longrightarrow> keys_ok d \<Longrightarrow> four_eyes d'"
proof -
  show "createHandover emp cid df retained d = Inr (n, d') \<Longrightarrow> four_eyes d \<Longrightarrow> four_eyes d'"
    by (auto simp: createHandover_def assertFundsHaveNoOpenShift_def insertHandover_def four_eyes_def handoverEyes_def)
  show "registerDeposit i emp ref ev d = Inr d' \<Longrightarrow> four_eyes d \<Longrightarrow> four_eyes d'"
    by (auto simp: registerDeposit_def setHandover_def four_eyes_def handoverEyes_def set_upd Let_def split: if_split_asm)
  show "four_eyes d'" if st: "rejectHandover i emp d = Inr d'" and e: "four_eyes d" and k: "keys_ok d"
  proof -
    obtain h where h: "findHandover d i = Some h" and f: "cashHandovers d' = upd (\<lambda>h. d_id h = i)
       (\<lambda>r. r\<lparr>d_status := Req_REJECTED, d_resolvedById := Some emp\<rparr>) (cashHandovers d)" "expenseRequests d' = expenseRequests d"
      using st by (auto simp: rejectHandover_def setHandover_def)
    have "handoverEyes h" using e findHandover_SomeD [OF h] by (auto simp: four_eyes_def)
    then show ?thesis by (intro setHandover_eyes [OF e k h _ f]) (auto simp: handoverEyes_def)
  qed
  show "four_eyes d'" if st: "cancelHandover i emp d = Inr d'" and e: "four_eyes d" and k: "keys_ok d"
  proof -
    obtain h where h: "findHandover d i = Some h" and f: "cashHandovers d' = upd (\<lambda>h. d_id h = i)
       (\<lambda>r. r\<lparr>d_status := Req_CANCELLED, d_resolvedById := Some emp\<rparr>) (cashHandovers d)" "expenseRequests d' = expenseRequests d"
      using st by (auto simp: cancelHandover_def setHandover_def)
    have "handoverEyes h" using e findHandover_SomeD [OF h] by (auto simp: four_eyes_def)
    then show ?thesis by (intro setHandover_eyes [OF e k h _ f]) (auto simp: handoverEyes_def)
  qed
qed

lemma resolveRequest_eyes:
  assumes "resolveRequest i st emp tx d = Inr d'" and "four_eyes d" and "distinct (map q_id (expenseRequests d))" and "q \<in> set (expenseRequests d)" "q_id q = i"
    and "st = Req_APPROVED \<Longrightarrow> q_requestedById q \<noteq> emp"
  shows "four_eyes d'"
proof -
  have f: "expenseRequests d' = upd (\<lambda>q. q_id q = i \<and> q_status q = Req_PENDING)
      (\<lambda>q. q\<lparr>q_status := st, q_resolvedById := Some emp, q_cashTxId := tx\<rparr>) (expenseRequests d)" "cashHandovers d' = cashHandovers d"
    using assms(1) by (auto simp: resolveRequest_def Let_def)
  have "r = q" if "r \<in> set (expenseRequests d)" "q_id r = i" for r
    by (rule distinct_key_eq [OF assms(3) that(1) assms(4)]) (simp add: that(2) assms(5))
  then have "\<forall>q\<in>set (expenseRequests d'). expenseEyes q"
    unfolding f(1) using assms(2,6) by (intro eyes_upd) (auto simp: four_eyes_def expenseEyes_def)
  then show ?thesis using assms(2) f(2) by (simp add: four_eyes_def)
qed

lemma findExpense_SomeD: "findExpenseRequest d i = Some q \<Longrightarrow> q \<in> set (expenseRequests d) \<and> q_id q = i"
  unfolding findExpenseRequest_def by (rule find_SomeD)

lemma approveExpense_eyes:
  assumes "approveExpenseRequest i emp d = Inr d'" and "four_eyes d" and "keys_ok d"
  shows "four_eyes d'"
proof -
  obtain q :: expenseRequest and c :: cashierShift and n d1 d2 where q: "findExpenseRequest d i = Some q" "q_requestedById q \<noteq> emp"
    and p: "postMovement (q_shiftId q, q_fundId q) (q_requestedById q) Flow_EXPENSE (q_amount q) d = Inr (n, d1)"
    and r: "resolveRequest i Req_APPROVED emp (Some n) d1 = Inr d2" and d': "d' = addLog emp ''CASH_EXPENSE_APPROVED'' i d2"
    by (rule approveExpense_steps [OF assms(1)]) (rule that)
  have s: "cashHandovers d1 = cashHandovers d" "expenseRequests d1 = expenseRequests d"
    using reqs_shift(3) [OF p] by (simp_all add: reqs_def)
  note m = findExpense_SomeD [OF q(1)]
  have "four_eyes d1" using assms(2) s by (simp add: four_eyes_def)
  then have "four_eyes d2"
    by (rule resolveRequest_eyes [OF r, where q = q]) (use s m q(2) keys_okD(15) [OF assms(3)] in simp_all)
  then show ?thesis using d' by (simp add: four_eyes_def)
qed

lemma resolveExpense_eyes:
  assumes "resolveExpenseRequest i emp st a b act d = Inr d'" and "st \<noteq> Req_APPROVED" and "four_eyes d" and "keys_ok d"
  shows "four_eyes d'"
proof -
  obtain q d2 where q: "findExpenseRequest d i = Some q" and r: "resolveRequest i st emp None d = Inr d2" and d': "d' = addLog emp act i d2"
    using assms(1) by (auto simp: resolveExpenseRequest_def)
  note m = findExpense_SomeD [OF q]
  have "four_eyes d2" by (rule resolveRequest_eyes [OF r assms(3), where q = q]) (use m assms(2) keys_okD(15) [OF assms(4)] in simp_all)
  then show ?thesis using d' by (simp add: four_eyes_def)
qed

lemma addMovement_eyes:
  assumes "addMovement emp cid ty amt desc d = Inr d'" and "four_eyes d"
  shows "four_eyes d'"
proof -
  have "d' = addLog emp ''CASH_EXPENSE_REQUESTED'' n d1 \<Longrightarrow> four_eyes d'"
    if "insertExpenseRequest \<lparr>q_id = 0, q_status = Req_PENDING, q_amount = amt, q_description = desc, q_requestedById = emp,
       q_shiftId = a, q_fundId = b, q_resolvedById = None, q_cashTxId = None\<rparr> d = Inr (n, d1)" for n d1 a b
    using that assms(2) by (auto simp: insertExpenseRequest_def four_eyes_def expenseEyes_def)
  moreover have "four_eyes (addLog emp ''CASH_MOVEMENT_CREATED'' n d1)" if "postMovement sh emp ty amt d = Inr (n, d1)" for sh n d1
    using reqs_shift(3) [OF that] assms(2) by (simp add: reqs_def four_eyes_def)
  ultimately show ?thesis using assms(1) by (auto simp: addMovement_def split: if_split_asm)
qed

lemmas reqs_frames = order_step_desk [THEN reqs_desk] reqs_shift reqs_funds reqs_bill reqs_payment reqs_refund

lemmas frames_eyes = reqs_frames [THEN reqs_cong, THEN iffD2]

lemma till_step_eyes:
  assumes "till_step hash sign sameName d d'" and eyes: "four_eyes d"
  shows "four_eyes d'"
proof -
  have k: "keys_ok d" using till_step_committed [OF assms(1)] by (simp add: committed_def)
  from assms(1) show ?thesis
    by (cases rule: till_step.cases)
       (use k eyes in \<open>auto simp: rejectExpenseRequest_def cancelExpenseRequest_def
          intro: frames_eyes addMovement_eyes approveExpense_eyes resolveExpense_eyes approveHandover_eyes settle_eyes otherHandover_eyes\<close>)
qed

text \<open>C4: Nobody approves or settles their own request. After any sequence of operations of the shop,
  every approved cash handover was approved, and every settled one settled, by an employee other
  than the one who asked for it; and every approved expense was approved by somebody else.\<close>

theorem nobody_approves_own_request:
  assumes "(till_step hash sign sameName)\<^sup>*\<^sup>* d d'" and "four_eyes d"
  shows "four_eyes d'"
  using assms by (induction rule: rtranclp_induct) (auto intro: till_step_eyes)

theorem nobody_approves_own_request_witness: "four_eyes till_approved \<and> map d_status (cashHandovers till_approved) = [Req_APPROVED]"
proof -
  have "till_step (\<lambda>_. ()) (\<lambda>_ _. ()) (=) till_asked till_approved"
    by (rule till_step.approve_handover [OF till_approved_ok]) (simp_all add: committed_def keys_till_asked)
  moreover have "four_eyes till_asked"
    by (simp add: four_eyes_def handoverEyes_def till_asked_simps)
  moreover have "map d_status (cashHandovers till_approved) = [Req_APPROVED]"
    by (simp add: till_approved_def approveHandover_def findHandover_def postVariance_def plainTx_def postDestinationEntry_def
        assertFundsHaveNoOpenShift_def till_asked_simps till_closed_simps till_moved_simps till_simps till_eval setHandover_def)
  ultimately show ?thesis using nobody_approves_own_request [OF r_into_rtranclp] by blast
qed

end
