(* ===== verification/Bank_Reconciliation.thy ===== *)
theory Bank_Reconciliation
  imports Handover_Claims
begin

text \<open>
  \<open>BankReconciliationService\<close> (\<open>src/app/cashier-shifts/bank-reconciliation.service.ts\<close>): importing
  the statement of a bank account, matching its credit lines against the cash handovers deposited
  there, and setting a line aside. \<open>localeCompare\<close> and the digest of a statement are parameters.
  The import a line belongs to is a row of \<open>bankImports\<close> for the rest of the shop; its other columns are
  kept here. The reasons of a mismatch are short, without the id of the handover. The paged lists
  only read.
\<close>

section \<open>Statements and their lines\<close>

datatype BankStatementEntryDirection = Bank_CREDIT | Bank_DEBIT

datatype BankStatementMatchStatus = Match_UNMATCHED | Match_MATCHED | Match_MISMATCH | Match_IGNORED

record 'c statement =
  sm_id :: id
  sm_sourceFileName :: string
  sm_statementFrom :: time
  sm_statementTo :: time
  sm_checksum :: 'c
  sm_fundId :: id
  sm_importedById :: id

record bankEntry =
  be_id :: id
  be_externalId :: string
  be_direction :: BankStatementEntryDirection
  be_amount :: money
  be_transactionDate :: time
  be_bankReference :: "string option"
  be_description :: "string option"
  be_matchStatus :: BankStatementMatchStatus
  be_mismatchReason :: "string option"
  be_matchedAt :: "time option"
  be_ignoredAt :: "time option"
  be_importId :: id
  be_fundId :: id
  be_matchedHandoverId :: "id option"

record 'c bank =
  till :: db
  statements :: "'c statement list"
  bankEntries :: "bankEntry list"
  nextEntryId :: id

record statementLine =
  sl_externalId :: string
  sl_direction :: BankStatementEntryDirection
  sl_amount :: money
  sl_transactionDate :: time
  sl_bankReference :: "string option"
  sl_description :: "string option"

record statementDto =
  sd_fundId :: id
  sd_sourceFileName :: string
  sd_statementFrom :: time
  sd_statementTo :: time
  sd_entries :: "statementLine list"

text \<open>The refinement of \<open>CreateBankStatementImportDto\<close>: the period is not empty, every line lies in it.\<close>

definition statementChecks :: "statementDto \<Rightarrow> bool" where
  "statementChecks dto \<longleftrightarrow> sd_statementFrom dto < sd_statementTo dto \<and>
     1 \<le> length (sd_entries dto) \<and> length (sd_entries dto) \<le> 100 \<and>
     (\<forall>l\<in>set (sd_entries dto). 0 < sl_amount l \<and> sd_statementFrom dto \<le> sl_transactionDate l \<and>
        sl_transactionDate l < sd_statementTo dto)"

text \<open>\<open>Array.sort\<close> with a comparison function: stable.\<close>

fun insertBy :: "('x \<Rightarrow> 'x \<Rightarrow> int) \<Rightarrow> 'x \<Rightarrow> 'x list \<Rightarrow> 'x list" where
  "insertBy cmp x [] = [x]"
| "insertBy cmp x (y # ys) = (if cmp x y \<le> 0 then x # y # ys else y # insertBy cmp x ys)"

type_synonym 'c digest = "id \<times> time \<times> time \<times> statementLine list \<Rightarrow> 'c"

definition createChecksum :: "'c digest \<Rightarrow> (string \<Rightarrow> string \<Rightarrow> int) \<Rightarrow> statementDto \<Rightarrow> 'c" where
  "createChecksum sha256 localeCompare dto =
     sha256 (sd_fundId dto, sd_statementFrom dto, sd_statementTo dto,
       foldr (insertBy (\<lambda>x y. localeCompare (sl_externalId x) (sl_externalId y))) (sd_entries dto) [])"

definition upperLine :: "statementLine \<Rightarrow> statementLine" where
  "upperLine l = l\<lparr>sl_externalId := toUpperCase (sl_externalId l),
     sl_bankReference := map_option toUpperCase (sl_bankReference l)\<rparr>"

definition importIdentity :: "'c digest \<Rightarrow> (string \<Rightarrow> string \<Rightarrow> int) \<Rightarrow> statementDto \<Rightarrow> (statementLine list \<times> 'c) res" where
  "importIdentity sha256 localeCompare dto =
     (let entries = map upperLine (sd_entries dto) in
      require (distinct (map sl_externalId entries)) (Conflict ''external ids must be unique'')
        (Inr (entries, createChecksum sha256 localeCompare (dto\<lparr>sd_entries := entries\<rparr>))))"

definition findByChecksum :: "id \<Rightarrow> 'c \<Rightarrow> 'c bank \<Rightarrow> 'c statement option" where
  "findByChecksum fid c b = find (\<lambda>s. sm_fundId s = fid \<and> sm_checksum s = c) (statements b)"

section \<open>Matching a line\<close>

text \<open>A line that may still be decided.\<close>

definition openEntry :: "bankEntry \<Rightarrow> bool" where
  "openEntry e \<longleftrightarrow> be_matchStatus e = Match_UNMATCHED \<or> be_matchStatus e = Match_MISMATCH"

definition findEntry :: "id \<Rightarrow> 'c bank \<Rightarrow> bankEntry option" where
  "findEntry i b = find (\<lambda>e. be_id e = i) (bankEntries b)"

definition markUnmatched :: "id \<Rightarrow> 'c bank \<Rightarrow> 'c bank" where
  "markUnmatched i b = b\<lparr>bankEntries := upd (\<lambda>e. be_id e = i \<and> be_matchStatus e = Match_MISMATCH)
     (\<lambda>e. e\<lparr>be_matchStatus := Match_UNMATCHED, be_mismatchReason := None\<rparr>) (bankEntries b)\<rparr>"

definition mismatched :: "string \<Rightarrow> bankEntry \<Rightarrow> bankEntry" where
  "mismatched reason e = e\<lparr>be_matchStatus := Match_MISMATCH, be_mismatchReason := Some (take 500 reason),
     be_matchedAt := None, be_ignoredAt := None, be_matchedHandoverId := None\<rparr>"

definition markMismatch :: "id \<Rightarrow> string \<Rightarrow> 'c bank \<Rightarrow> 'c bank" where
  "markMismatch i reason b = b\<lparr>bankEntries := upd (\<lambda>e. be_id e = i \<and> openEntry e) (mismatched reason) (bankEntries b)\<rparr>"

definition bankHandover :: "bankEntry \<Rightarrow> string \<Rightarrow> db \<Rightarrow> cashHandover option" where
  "bankHandover e ref d =
     find (\<lambda>h. d_destinationFundId h = be_fundId e \<and> d_bankReference h = Some ref) (cashHandovers d)"

definition matched :: "id \<Rightarrow> time \<Rightarrow> bankEntry \<Rightarrow> bankEntry" where
  "matched hid now e = e\<lparr>be_matchStatus := Match_MATCHED, be_mismatchReason := None, be_matchedAt := Some now,
     be_ignoredAt := None, be_matchedHandoverId := Some hid\<rparr>"

text \<open>The last step: a line is linked once and, by the index on \<open>matchedHandoverId\<close>, to a handover of its own.\<close>

definition linkEntry :: "id \<Rightarrow> id \<Rightarrow> time \<Rightarrow> 'c bank \<Rightarrow> 'c bank res" where
  "linkEntry i hid now b =
     (let g = (\<lambda>e. be_id e = i \<and> openEntry e) in
      require (\<forall>e\<in>set (bankEntries b). \<not> (\<not> g e \<and> be_matchedHandoverId e = Some hid)) (UniqueViolation ''matchedHandoverId'')
      (require (cnt g (bankEntries b) = 1) (Conflict ''entry changed'')
        (Inr (b\<lparr>bankEntries := upd g (matched hid now) (bankEntries b)\<rparr>))))"

text \<open>The transaction of \<open>reconcileEntry\<close>.\<close>

definition matchEntry :: "id \<Rightarrow> id \<Rightarrow> time \<Rightarrow> 'c bank \<Rightarrow> 'c bank res" where
  "matchEntry i emp now b =
     fetch (findEntry i b) (NotFound ''entry'') (\<lambda>e.
      if \<not> openEntry e then Inr b
      else if \<not> given (be_bankReference e) then Inr (markUnmatched i b)
      else let ref = the (be_bankReference e) in
        (case bankHandover e ref (till b) of
           None \<Rightarrow> Inr (markUnmatched i b)
         | Some h \<Rightarrow>
             if d_transfer h \<noteq> be_amount e then Inr (markMismatch i ''Amount does not match'' b)
             else if d_status h \<noteq> Req_APPROVED \<or>
               d_settlement h \<noteq> Some Settle_PENDING \<and> d_settlement h \<noteq> Some Settle_SETTLED
             then Inr (markMismatch i ''Handover is not eligible'' b)
             else if \<exists>x\<in>set (bankEntries b). be_matchedHandoverId x = Some (d_id h) \<and> be_id x \<noteq> i
             then Inr (markMismatch i ''Handover is already matched'' b)
             else if \<not> given (d_evidence h) then Inr (markMismatch i ''No deposit evidence'' b)
             else
               andThen (if d_settlement h = Some Settle_PENDING
                 then settleInTransaction (d_id h) emp ref (the (d_evidence h)) (till b) else Inr (till b)) (\<lambda>d'.
               andThen (linkEntry i (d_id h) now (b\<lparr>till := d'\<rparr>)) (\<lambda>b'.
                 Inr (b'\<lparr>till := addLog emp ''BANK_STATEMENT_ENTRY_MATCHED'' i (till b')\<rparr>)))))"

text \<open>An exception rolls the transaction back; three kinds of it are put on the line for a person to look at.\<close>

definition leftForReview :: "error \<Rightarrow> bool" where
  "leftForReview e = (case e of Conflict _ \<Rightarrow> True | Forbidden _ \<Rightarrow> True | UniqueViolation _ \<Rightarrow> True | _ \<Rightarrow> False)"

definition reconcileEntry :: "id \<Rightarrow> id \<Rightarrow> time \<Rightarrow> 'c bank \<Rightarrow> unit res \<times> 'c bank" where
  "reconcileEntry i emp now b =
     (case matchEntry i emp now b of
        Inr b' \<Rightarrow> (Inr (), b')
      | Inl e \<Rightarrow> if leftForReview e then (Inr (), markMismatch i ''Automatic settlement could not be confirmed'' b) else (Inl e, b))"

fun reconcileEntries :: "id list \<Rightarrow> id \<Rightarrow> time \<Rightarrow> 'c bank \<Rightarrow> unit res \<times> 'c bank" where
  "reconcileEntries [] emp now b = (Inr (), b)"
| "reconcileEntries (i # is) emp now b =
     (case reconcileEntry i emp now b of
        (Inl e, b') \<Rightarrow> (Inl e, b')
      | (Inr _, b') \<Rightarrow> reconcileEntries is emp now b')"

definition candidates :: "id \<Rightarrow> 'c bank \<Rightarrow> bankEntry list" where
  "candidates importId b = take 100 (sort_key be_transactionDate (sort_key be_id
     (filter (\<lambda>e. be_importId e = importId \<and> be_direction e = Bank_CREDIT \<and> openEntry e) (bankEntries b))))"

definition getSummary :: "id \<Rightarrow> 'c bank \<Rightarrow> (BankStatementMatchStatus \<times> nat \<times> money) list" where
  "getSummary importId b =
     map (\<lambda>s. (s, cnt (\<lambda>e. be_importId e = importId \<and> be_matchStatus e = s) (bankEntries b),
        sumw (\<lambda>e. be_importId e = importId \<and> be_matchStatus e = s) be_amount (bankEntries b)))
     [Match_UNMATCHED, Match_MATCHED, Match_MISMATCH, Match_IGNORED]"

text \<open>Lines decided before an exception stay decided: each has its own transaction.\<close>

definition reconcile :: "id \<Rightarrow> id \<Rightarrow> time \<Rightarrow> 'c bank \<Rightarrow> (BankStatementMatchStatus \<times> nat \<times> money) list res \<times> 'c bank" where
  "reconcile importId emp now b =
     (if \<not> activeEmployee emp (till b) then (Inl (Unauthorized ''employee''), b)
      else case find (\<lambda>s. sm_id s = importId) (statements b) of
        None \<Rightarrow> (Inl (NotFound ''bank statement import''), b)
      | Some s \<Rightarrow>
          (case reconcileEntries (map be_id (candidates importId b)) emp now b of
             (Inl e, b') \<Rightarrow> (Inl e, b')
           | (Inr _, b') \<Rightarrow> (Inr (getSummary importId b'),
               b'\<lparr>till := addLog emp ''BANK_STATEMENT_RECONCILED'' importId (till b')\<rparr>)))"

section \<open>Importing a statement\<close>

definition newEntry :: "id \<Rightarrow> id \<Rightarrow> time \<Rightarrow> id \<Rightarrow> statementLine \<Rightarrow> bankEntry" where
  "newEntry fid importId now i l =
     (let ignored = (sl_direction l = Bank_DEBIT) in
      \<lparr>be_id = i, be_externalId = sl_externalId l, be_direction = sl_direction l, be_amount = sl_amount l,
       be_transactionDate = sl_transactionDate l, be_bankReference = sl_bankReference l, be_description = sl_description l,
       be_matchStatus = (if ignored then Match_IGNORED else Match_UNMATCHED),
       be_mismatchReason = (if ignored then Some ''Debit entry is outside incoming cash handover reconciliation.'' else None),
       be_matchedAt = None, be_ignoredAt = (if ignored then Some now else None), be_importId = importId, be_fundId = fid,
       be_matchedHandoverId = None\<rparr>)"

text \<open>The transaction, with the indexes on the digest and on the bank's own ids, and the CHECKs of both tables.\<close>

definition insertStatement :: "id \<Rightarrow> statementDto \<Rightarrow> statementLine list \<Rightarrow> 'c \<Rightarrow> time \<Rightarrow> 'c bank \<Rightarrow> (id \<times> 'c bank) res" where
  "insertStatement emp dto entries c now b =
     (let d = till b; n = nextId d; fid = sd_fundId dto in
      require (findByChecksum fid c b = None) (UniqueViolation ''fundId, checksum'')
      (require (distinct (map sl_externalId entries) \<and>
          (\<forall>l\<in>set entries. \<forall>e\<in>set (bankEntries b). \<not> (be_fundId e = fid \<and> be_externalId e = sl_externalId l)))
        (UniqueViolation ''fundId, externalId'')
      (require (sd_statementFrom dto < sd_statementTo dto \<and> (\<forall>l\<in>set entries. 0 < sl_amount l)) (Conflict ''check statement'')
        (Inr (n, b\<lparr>till := addLog emp ''BANK_STATEMENT_IMPORTED'' n
              (d\<lparr>nextId := Suc n, bankImports := bankImports d @ [\<lparr>bi_id = n, bi_fundId = fid\<rparr>]\<rparr>),
            statements := statements b @ [\<lparr>sm_id = n, sm_sourceFileName = sd_sourceFileName dto,
              sm_statementFrom = sd_statementFrom dto, sm_statementTo = sd_statementTo dto, sm_checksum = c,
              sm_fundId = fid, sm_importedById = emp\<rparr>],
            bankEntries := bankEntries b @ map2 (newEntry fid n now) [nextEntryId b..<nextEntryId b + length entries] entries,
            nextEntryId := nextEntryId b + length entries\<rparr>)))))"

datatype importAnswer =
    Replayed id
  | Imported id "(BankStatementMatchStatus \<times> nat \<times> money) list option"

text \<open>\<open>Imported i None\<close>: stored, but the reconciliation that follows failed.\<close>

definition createImport :: "'c digest \<Rightarrow> (string \<Rightarrow> string \<Rightarrow> int) \<Rightarrow> id \<Rightarrow> statementDto \<Rightarrow> time \<Rightarrow> 'c bank \<Rightarrow>
    importAnswer res \<times> 'c bank" where
  "createImport sha256 localeCompare emp dto now b =
     (if \<not> activeEmployee emp (till b) then (Inl (Unauthorized ''employee''), b)
      else case importIdentity sha256 localeCompare dto of Inl e \<Rightarrow> (Inl e, b)
      | Inr (entries, c) \<Rightarrow>
        (case findByChecksum (sd_fundId dto) c b of Some s \<Rightarrow> (Inr (Replayed (sm_id s)), b)
         | None \<Rightarrow>
           if \<not> (\<exists>f\<in>set (funds (till b)). f_id f = sd_fundId dto \<and> f_type f = Fund_BANK \<and> f_deletedAt f = None)
           then (Inl (NotFound ''active bank fund''), b)
           else (case insertStatement emp dto entries c now b of
              Inl (UniqueViolation _) \<Rightarrow>
                (case findByChecksum (sd_fundId dto) c b of
                   Some s \<Rightarrow> (Inr (Replayed (sm_id s)), b)
                 | None \<Rightarrow> (Inl (Conflict ''statement or transaction already imported''), b))
            | Inl e \<Rightarrow> (Inl e, b)
            | Inr (n, b1) \<Rightarrow>
                (case reconcile n emp now b1 of
                   (Inl _, b2) \<Rightarrow> (Inr (Imported n None), b2)
                 | (Inr r, b2) \<Rightarrow> (Inr (Imported n (Some r)), b2)))))"

definition recoverImport :: "'c digest \<Rightarrow> (string \<Rightarrow> string \<Rightarrow> int) \<Rightarrow> id \<Rightarrow> statementDto \<Rightarrow> 'c bank \<Rightarrow> importAnswer res" where
  "recoverImport sha256 localeCompare emp dto b =
     require (activeEmployee emp (till b)) (Unauthorized ''employee'')
     (andThen (importIdentity sha256 localeCompare dto) (\<lambda>ec.
      fetch (findByChecksum (sd_fundId dto) (snd ec) b) (NotFound ''BANK_IMPORT_RECOVERY_NOT_FOUND'') (\<lambda>s.
        Inr (Replayed (sm_id s)))))"

section \<open>Setting a line aside\<close>

definition ignoreEntry :: "id \<Rightarrow> id \<Rightarrow> string \<Rightarrow> time \<Rightarrow> 'c bank \<Rightarrow> 'c bank res" where
  "ignoreEntry i emp reason now b =
     require (activeEmployee emp (till b)) (Unauthorized ''employee'')
     (fetch (findEntry i b) (NotFound ''bank statement entry'') (\<lambda>e.
      require (be_matchStatus e \<noteq> Match_MATCHED) (Conflict ''a matched entry cannot be ignored'')
      (if be_matchStatus e = Match_IGNORED then Inr b
       else let g = (\<lambda>e. be_id e = i \<and> openEntry e) in
         require (cnt g (bankEntries b) = 1) (Conflict ''entry changed'')
         (Inr (b\<lparr>till := addLog emp ''BANK_STATEMENT_ENTRY_IGNORED'' i (till b),
            bankEntries := upd g (\<lambda>e. e\<lparr>be_matchStatus := Match_IGNORED, be_mismatchReason := Some reason,
              be_ignoredAt := Some now, be_matchedAt := None, be_matchedHandoverId := None\<rparr>) (bankEntries b)\<rparr>)))))"

section \<open>Steps\<close>

text \<open>
  What can happen around a bank account, one transaction at a time: anything at the till, storing a
  statement, deciding a line (by \<open>reconcile\<close>, which is a run of such steps), noting that a statement
  was gone through, setting a line aside.
\<close>

inductive bank_step :: "(quotedData \<Rightarrow> 'h) \<Rightarrow> 's signer \<Rightarrow> (string \<Rightarrow> string \<Rightarrow> bool) \<Rightarrow> 'c digest \<Rightarrow>
    (string \<Rightarrow> string \<Rightarrow> int) \<Rightarrow> 'c bank \<Rightarrow> 'c bank \<Rightarrow> bool"
  for hash sign sameName sha256 localeCompare where
  shop: "till_step hash sign sameName (till b) d' \<Longrightarrow> bank_step hash sign sameName sha256 localeCompare b (b\<lparr>till := d'\<rparr>)"
| store: "statementChecks dto \<Longrightarrow> importIdentity sha256 localeCompare dto = Inr (entries, c) \<Longrightarrow> insertStatement emp dto entries c now b = Inr (n, b') \<Longrightarrow>
    bank_step hash sign sameName sha256 localeCompare b b'"
| line: "distinct (map d_id (cashHandovers (till b))) \<Longrightarrow>
    bank_step hash sign sameName sha256 localeCompare b (snd (reconcileEntry i emp now b))"
| noted: "bank_step hash sign sameName sha256 localeCompare b
    (b\<lparr>till := addLog emp ''BANK_STATEMENT_RECONCILED'' i (till b)\<rparr>)"
| set_aside: "ignoreEntry i emp reason now b = Inr b' \<Longrightarrow> bank_step hash sign sameName sha256 localeCompare b b'"

section \<open>What holds of the lines\<close>

text \<open>\<open>BankStatementEntry_state_check\<close> and \<open>BankStatementEntry_amount_check\<close>.\<close>

definition entryChecks :: "bankEntry \<Rightarrow> bool" where
  "entryChecks e \<longleftrightarrow> 0 < be_amount e \<and>
     (be_mismatchReason e \<noteq> None \<longleftrightarrow> be_matchStatus e = Match_MISMATCH \<or> be_matchStatus e = Match_IGNORED) \<and>
     (be_matchedAt e \<noteq> None \<longleftrightarrow> be_matchStatus e = Match_MATCHED) \<and>
     (be_ignoredAt e \<noteq> None \<longleftrightarrow> be_matchStatus e = Match_IGNORED) \<and>
     (be_matchedHandoverId e \<noteq> None \<longleftrightarrow> be_matchStatus e = Match_MATCHED)"

definition depositSettled :: "cashHandover \<Rightarrow> bool" where
  "depositSettled h \<longleftrightarrow> d_status h = Req_APPROVED \<and> d_settlement h = Some Settle_SETTLED"

text \<open>A matched line names a settled handover to its account with its amount and its reference.\<close>

definition lineConfirmed :: "db \<Rightarrow> bankEntry \<Rightarrow> bool" where
  "lineConfirmed d e \<longleftrightarrow> (\<exists>h\<in>set (cashHandovers d). be_matchedHandoverId e = Some (d_id h) \<and> depositSettled h \<and>
     d_destinationFundId h = be_fundId e \<and> d_transfer h = be_amount e \<and> d_bankReference h = be_bankReference e)"

definition entrySound :: "db \<Rightarrow> bankEntry \<Rightarrow> bool" where
  "entrySound d e \<longleftrightarrow> entryChecks e \<and> (be_direction e = Bank_DEBIT \<longrightarrow> be_matchStatus e = Match_IGNORED) \<and>
     map_option toUpperCase (be_bankReference e) = be_bankReference e \<and>
     (be_matchStatus e = Match_MATCHED \<longrightarrow> lineConfirmed d e)"

definition oncePerHandover :: "bankEntry list \<Rightarrow> bool" where
  "oncePerHandover es \<longleftrightarrow> (\<forall>x\<in>set es. \<forall>y\<in>set es. be_matchedHandoverId x \<noteq> None \<and>
     be_matchedHandoverId x = be_matchedHandoverId y \<longrightarrow> x = y)"

definition bank_sound :: "'c bank \<Rightarrow> bool" where
  "bank_sound b \<longleftrightarrow> (\<forall>e\<in>set (bankEntries b). entrySound (till b) e) \<and> oncePerHandover (bankEntries b) \<and>
     distinct (map be_id (bankEntries b)) \<and> (\<forall>e\<in>set (bankEntries b). be_id e < nextEntryId b)"

lemma bank_soundD:
  assumes "bank_sound b"
  shows "e \<in> set (bankEntries b) \<Longrightarrow> entrySound (till b) e" "oncePerHandover (bankEntries b)"
    "distinct (map be_id (bankEntries b))" "e \<in> set (bankEntries b) \<Longrightarrow> be_id e < nextEntryId b"
  using assms by (auto simp: bank_sound_def)

section \<open>Settled handovers stay\<close>

definition settledKept :: "db \<Rightarrow> db \<Rightarrow> bool" where
  "settledKept d d' \<longleftrightarrow> (\<forall>h\<in>set (cashHandovers d). depositSettled h \<longrightarrow> h \<in> set (cashHandovers d')) \<and>
     (\<forall>h\<in>set (cashHandovers d'). 0 < d_transfer h \<or> d_transfer h \<in> d_transfer ` set (cashHandovers d))"

lemma settledKept_refl: "cashHandovers d' = cashHandovers d \<Longrightarrow> settledKept d d'"
  by (simp add: settledKept_def)

lemma entrySound_kept: "entrySound d e \<Longrightarrow> settledKept d d' \<Longrightarrow> entrySound d' e"
  unfolding entrySound_def lineConfirmed_def settledKept_def by blast

lemma setHandover_kept:
  assumes "distinct (map d_id (cashHandovers d))" and "findHandover d i = Some h" and "\<not> depositSettled h"
    and "cashHandovers d' = upd (\<lambda>h. d_id h = i) f (cashHandovers d)" and "\<And>r. d_transfer (f r) = d_transfer r"
  shows "settledKept d d'"
  unfolding settledKept_def
proof (intro conjI ballI impI)
  fix r assume r: "r \<in> set (cashHandovers d)" "depositSettled r"
  note h = findHandover_SomeD [OF assms(2)]
  have "d_id r \<noteq> i"
  proof
    assume "d_id r = i"
    then have "r = h" by (intro distinct_key_eq [OF assms(1) r(1) conjunct1 [OF h]]) (simp add: conjunct2 [OF h])
    then show False using r(2) assms(3) by simp
  qed
  then show "r \<in> set (cashHandovers d')" using r(1) by (auto simp: assms(4) set_upd)
next
  fix r assume "r \<in> set (cashHandovers d')"
  then show "0 < d_transfer r \<or> d_transfer r \<in> d_transfer ` set (cashHandovers d)"
    by (auto simp: assms(4,5) set_upd)
qed

lemma settle_kept:
  assumes "settleInTransaction i emp ref ev d = Inr d'" and "distinct (map d_id (cashHandovers d))"
  shows "settledKept d d'"
proof -
  obtain h :: cashHandover and n d1 where h: "findHandover d i = Some h" "awaitingSettlement h"
    and p: "postDestinationEntry h emp Fund_BANK d = Inr (n, d1)"
    and d': "d' = addLog emp ''CASH_HANDOVER_SETTLED'' i
       (setHandover i (\<lambda>r. r\<lparr>d_settlement := Some Settle_SETTLED, d_settledById := Some emp,
          d_bankReference := Some (toUpperCase ref), d_evidence := Some ev, d_destinationTxId := Some n\<rparr>) d1)"
    by (rule settle_steps [OF assms(1)])
  have "cashHandovers d1 = cashHandovers d" by (rule postDestinationEntry_effect(8) [OF p])
  then show ?thesis
    by (intro setHandover_kept [OF assms(2) h(1), where f = "\<lambda>r. r\<lparr>d_settlement := Some Settle_SETTLED, d_settledById := Some emp,
          d_bankReference := Some (toUpperCase ref), d_evidence := Some ev, d_destinationTxId := Some n\<rparr>"])
       (use h(2) in \<open>auto simp: awaitingSettlement_def depositSettled_def d' setHandover_def\<close>)
qed

lemma approve_kept:
  assumes "approveHandover i emp now d = Inr d'" and "distinct (map d_id (cashHandovers d))"
  shows "settledKept d d'"
proof -
  obtain h :: cashHandover and df :: fund and vd d2 td where
    h: "findHandover d i = Some h" "d_status h = Req_PENDING"
    and v: "postVariance h emp (drainSource h d) = Inr vd"
    and e: "createCashTx (plainTx Flow_EXPENSE (d_transfer h) (d_sourceFundId h) emp) (snd vd) = Inr d2"
    and t: "(if f_type df = Fund_BANK then Inr (None, d2)
      else andThen (postDestinationEntry h emp (f_type df) d2) (\<lambda>td. Inr (Some (fst td), snd td))) = Inr td"
    and d': "d' = approved emp now d (f_type df = Fund_BANK) vd td i"
    by (rule approveHandover_steps [OF assms(1)])
  have "cashHandovers (snd vd) = cashHandovers d"
    using v by (auto simp: postVariance_def createCashTx_def drainSource_def split: if_split_asm)
  moreover have "cashHandovers (snd td) = cashHandovers (snd vd)"
    using e t by (auto simp: postDestinationEntry_def createCashTx_def Let_def split: if_split_asm)
  ultimately show ?thesis
    by (intro setHandover_kept [OF assms(2) h(1), where f = "\<lambda>r. r\<lparr>d_status := Req_APPROVED, d_resolvedById := Some emp,
       d_settlement := Some (if f_type df = Fund_BANK then Settle_PENDING else Settle_NOT_REQUIRED),
       d_settlementDueAt := (if f_type df = Fund_BANK then Some (now + getSettlementSlaHours d * 60 * 60 * 1000) else None),
       d_sourceTxId := Some (nextId (snd vd)), d_destinationTxId := fst td, d_varianceTxId := fst vd\<rparr>"])
       (use h(2) in \<open>auto simp: depositSettled_def d' approved_def setHandover_def\<close>)
qed

lemma otherHandover_kept:
  assumes "distinct (map d_id (cashHandovers d))"
  shows "createHandover emp cid df retained d = Inr (n, d') \<Longrightarrow> settledKept d d'"
    "registerDeposit i emp ref ev d = Inr d' \<Longrightarrow> settledKept d d'"
    "rejectHandover i emp d = Inr d' \<Longrightarrow> settledKept d d'"
    "cancelHandover i emp d = Inr d' \<Longrightarrow> settledKept d d'"
proof -
  show "createHandover emp cid df retained d = Inr (n, d') \<Longrightarrow> settledKept d d'"
    by (auto simp: createHandover_def assertFundsHaveNoOpenShift_def insertHandover_def handoverChecks_def settledKept_def)
  show "settledKept d d'" if st: "registerDeposit i emp ref ev d = Inr d'"
  proof -
    obtain h where h: "findHandover d i = Some h" "awaitingSettlement h"
      using st by (auto simp: registerDeposit_def)
    have "cashHandovers d' = cashHandovers d \<or>
        cashHandovers d' = upd (\<lambda>h. d_id h = i) (\<lambda>r. r\<lparr>d_bankReference := Some (toUpperCase ref), d_evidence := Some ev\<rparr>) (cashHandovers d)"
      using st h by (auto simp: registerDeposit_def setHandover_def Let_def split: if_split_asm)
    moreover have "\<not> depositSettled h" using h(2) by (simp add: awaitingSettlement_def depositSettled_def)
    ultimately show ?thesis using settledKept_refl [of d' d] setHandover_kept [OF assms h(1)] by fastforce
  qed
  show "settledKept d d'" if st: "rejectHandover i emp d = Inr d'"
  proof -
    obtain h where h: "findHandover d i = Some h" "\<not> depositSettled h"
      and f: "cashHandovers d' = upd (\<lambda>h. d_id h = i) (\<lambda>r. r\<lparr>d_status := Req_REJECTED, d_resolvedById := Some emp\<rparr>) (cashHandovers d)"
      using st by (auto simp: rejectHandover_def setHandover_def depositSettled_def)
    then show ?thesis by (intro setHandover_kept [OF assms h f]) simp
  qed
  show "settledKept d d'" if st: "cancelHandover i emp d = Inr d'"
  proof -
    obtain h where h: "findHandover d i = Some h" "\<not> depositSettled h"
      and f: "cashHandovers d' = upd (\<lambda>h. d_id h = i) (\<lambda>r. r\<lparr>d_status := Req_CANCELLED, d_resolvedById := Some emp\<rparr>) (cashHandovers d)"
      using st by (auto simp: cancelHandover_def setHandover_def depositSettled_def)
    then show ?thesis by (intro setHandover_kept [OF assms h f]) simp
  qed
qed

lemma reqs_kept: "reqs d' = reqs d \<Longrightarrow> settledKept d d'"
  by (simp add: reqs_def settledKept_refl)

end
