(* ===== verification/Bank_Claims.thy ===== *)
theory Bank_Claims
  imports Bank_Reconciliation
begin

text \<open>
  The properties of the bank reconciliation: every step keeps the lines sound, a statement sent again
  is answered from the first import, and what the decision about a line with a registered deposit is.
\<close>

section \<open>Steps keep the lines sound\<close>

lemma till_step_kept:
  assumes "till_step hash sign sameName d d'"
  shows "settledKept d d'"
proof -
  have k: "distinct (map d_id (cashHandovers d))"
    by (rule keys_okD(9)) (use till_step_committed [OF assms(1)] in \<open>simp add: committed_def\<close>)
  note frames = reqs_frames [THEN reqs_kept]
  have q: "settledKept d d'" if "addMovement emp cid ty amt desc d = Inr d'" for emp cid ty amt desc
    using that by (auto simp: addMovement_def insertExpenseRequest_def dest!: reqs_shift(3) split: if_split_asm intro!: settledKept_refl)
       (simp_all add: reqs_def)
  have a: "settledKept d d'" if "approveExpenseRequest i emp d = Inr d'" for i emp
    by (rule approveExpense_steps [OF that])
       (auto simp: resolveRequest_def Let_def reqs_def dest!: reqs_shift(3) intro!: settledKept_refl)
  have r: "settledKept d d'" if "resolveExpenseRequest i emp st x y act d = Inr d'" for i emp st x y act
    using that by (auto simp: resolveExpenseRequest_def resolveRequest_def Let_def intro!: settledKept_refl)
  from assms show ?thesis
    by (cases rule: till_step.cases)
       (use k in \<open>auto simp: rejectExpenseRequest_def cancelExpenseRequest_def
          intro: frames q a r approve_kept settle_kept otherHandover_kept\<close>)
qed

lemma soundI_once:
  assumes "bank_sound b" and "settledKept (till b) (till b')" and "bankEntries b' = upd g f (bankEntries b)"
    and "nextEntryId b' = nextEntryId b" and "\<And>e. be_id (f e) = be_id e"
    and "\<And>e. e \<in> set (bankEntries b) \<Longrightarrow> g e \<Longrightarrow> entrySound (till b') (f e)"
    and "oncePerHandover (bankEntries b')"
  shows "bank_sound b'"
proof -
  note s = bank_soundD [OF assms(1)]
  have "entrySound (till b') e" if "e \<in> set (bankEntries b')" for e
    using that s(1) assms(2,6) by (auto simp: assms(3) set_upd intro: entrySound_kept)
  moreover have "map be_id (bankEntries b') = map be_id (bankEntries b)"
    unfolding assms(3) by (rule map_key_upd) (rule assms(5))
  ultimately show ?thesis using s(3,4) assms(4,5,7) by (auto simp: bank_sound_def assms(3) set_upd)
qed

lemma soundI:
  assumes "bank_sound b" and "settledKept (till b) (till b')" and "bankEntries b' = upd g f (bankEntries b)"
    and "nextEntryId b' = nextEntryId b" and "\<And>e. be_id (f e) = be_id e"
    and "\<And>e. e \<in> set (bankEntries b) \<Longrightarrow> g e \<Longrightarrow> entrySound (till b') (f e)"
    and "\<And>e. e \<in> set (bankEntries b) \<Longrightarrow> g e \<Longrightarrow> be_matchedHandoverId (f e) = None"
  shows "bank_sound b'"
proof (rule soundI_once [OF assms(1-6)])
  have "x \<in> set (bankEntries b)" if "x \<in> set (bankEntries b')" "be_matchedHandoverId x \<noteq> None" for x
    using that assms(7) by (auto simp: assms(3) set_upd)
  then show "oncePerHandover (bankEntries b')"
    using bank_soundD(2) [OF assms(1)] unfolding oncePerHandover_def by metis
qed

lemma soundI_same:
  assumes "bank_sound b" and "settledKept (till b) (till b')" and "bankEntries b' = bankEntries b" and "nextEntryId b' = nextEntryId b"
  shows "bank_sound b'"
  unfolding bank_sound_def assms(3,4) using bank_soundD [OF assms(1)] entrySound_kept [OF _ assms(2)] by blast

lemma markMismatch_sound:
  assumes "bank_sound b" shows "bank_sound (markMismatch i reason b)"
proof (rule soundI [OF assms])
  show "bankEntries (markMismatch i reason b) = upd (\<lambda>e. be_id e = i \<and> openEntry e) (mismatched reason) (bankEntries b)"
    by (simp add: markMismatch_def)
  fix e assume e: "e \<in> set (bankEntries b)" "be_id e = i \<and> openEntry e"
  then show "entrySound (till (markMismatch i reason b)) (mismatched reason e)"
    using bank_soundD(1) [OF assms e(1)] by (auto simp: entrySound_def entryChecks_def mismatched_def openEntry_def)
qed (simp_all add: mismatched_def markMismatch_def settledKept_refl)

lemma markUnmatched_sound:
  assumes "bank_sound b" shows "bank_sound (markUnmatched i b)"
proof (rule soundI [OF assms])
  show "bankEntries (markUnmatched i b) = upd (\<lambda>e. be_id e = i \<and> be_matchStatus e = Match_MISMATCH)
     (\<lambda>e. e\<lparr>be_matchStatus := Match_UNMATCHED, be_mismatchReason := None\<rparr>) (bankEntries b)"
    by (simp add: markUnmatched_def)
  fix e assume e: "e \<in> set (bankEntries b)" "be_id e = i \<and> be_matchStatus e = Match_MISMATCH"
  have s: "entrySound (till b) e" by (rule bank_soundD(1) [OF assms e(1)])
  show "entrySound (till (markUnmatched i b)) (e\<lparr>be_matchStatus := Match_UNMATCHED, be_mismatchReason := None\<rparr>)"
    using s e(2) by (auto simp: entrySound_def entryChecks_def)
  show "be_matchedHandoverId (e\<lparr>be_matchStatus := Match_UNMATCHED, be_mismatchReason := None\<rparr>) = None"
    using s e(2) by (simp add: entrySound_def entryChecks_def)
qed (simp_all add: markUnmatched_def settledKept_refl)

lemma ignoreEntry_sound:
  assumes "ignoreEntry i emp reason now b = Inr b'" and "bank_sound b" shows "bank_sound b'"
proof -
  define f where "f e = e\<lparr>be_matchStatus := Match_IGNORED, be_mismatchReason := Some reason,
      be_ignoredAt := Some now, be_matchedAt := None, be_matchedHandoverId := None\<rparr>" for e :: bankEntry
  have c: "b' = b \<or> b' = b\<lparr>till := addLog emp ''BANK_STATEMENT_ENTRY_IGNORED'' i (till b),
      bankEntries := upd (\<lambda>e. be_id e = i \<and> openEntry e) f (bankEntries b)\<rparr>"
    using assms(1) by (auto simp: ignoreEntry_def Let_def f_def [abs_def] split: if_split_asm)
  have "entrySound d (f e)" if "e \<in> set (bankEntries b)" for d e
    using bank_soundD(1) [OF assms(2) that] by (auto simp: entrySound_def entryChecks_def f_def)
  then have "bank_sound (b\<lparr>till := addLog emp ''BANK_STATEMENT_ENTRY_IGNORED'' i (till b),
      bankEntries := upd (\<lambda>e. be_id e = i \<and> openEntry e) f (bankEntries b)\<rparr>)"
    by (intro soundI [OF assms(2), where f = f and g = "\<lambda>e. be_id e = i \<and> openEntry e"]) (simp_all add: f_def settledKept_refl)
  then show ?thesis using c assms(2) by auto
qed

lemma toUpperCase_idem: "toUpperCase (toUpperCase s) = toUpperCase s"
proof -
  have "upperChar (upperChar c) = upperChar c" for c
    by (cases "97 \<le> (of_char c :: nat) \<and> (of_char c :: nat) \<le> 122") (auto simp: upperChar_def)
  then show ?thesis by (simp add: toUpperCase_def)
qed

lemma newEntry_sound:
  assumes "0 < sl_amount l" and "map_option toUpperCase (sl_bankReference l) = sl_bankReference l"
  shows "entrySound d (newEntry fid n now i l)" "be_matchedHandoverId (newEntry fid n now i l) = None" "be_id (newEntry fid n now i l) = i"
  using assms by (auto simp: entrySound_def entryChecks_def newEntry_def Let_def)

lemma insertStatement_sound:
  assumes "importIdentity sha256 localeCompare dto = Inr (entries, c)" and ins: "insertStatement emp dto entries c now b = Inr (n, b')"
    and "bank_sound b"
  shows "bank_sound b'"
proof -
  define new where "new = map2 (newEntry (sd_fundId dto) n now) [nextEntryId b..<nextEntryId b + length entries] entries"
  have up: "entries = map upperLine (sd_entries dto)" using assms(1) by (simp add: importIdentity_def Let_def)
  have b': "bankEntries b' = bankEntries b @ new" "nextEntryId b' = nextEntryId b + length entries"
    "cashHandovers (till b') = cashHandovers (till b)" "\<forall>l\<in>set entries. 0 < sl_amount l"
    using ins by (auto simp: insertStatement_def Let_def new_def)
  have ref: "map_option toUpperCase (sl_bankReference l) = sl_bankReference l" if "l \<in> set entries" for l
    using that by (auto simp: up upperLine_def option.map_comp comp_def toUpperCase_idem)
  have new: "\<exists>l\<in>set entries. e = newEntry (sd_fundId dto) n now (be_id e) l \<and> nextEntryId b \<le> be_id e \<and> be_id e < nextEntryId b + length entries"
    if e: "e \<in> set new" for e
  proof -
    obtain j where j: "j < length entries" "e = newEntry (sd_fundId dto) n now (nextEntryId b + j) (entries ! j)"
      using e by (auto simp: new_def in_set_zip)
    then show ?thesis by (intro bexI [of _ "entries ! j"]) (simp_all add: newEntry_def Let_def)
  qed
  have ids: "map be_id new = [nextEntryId b..<nextEntryId b + length entries]"
    by (simp add: new_def newEntry_def Let_def comp_def case_prod_unfold map_fst_zip)
  note s = bank_soundD [OF assms(3)]
  have "entrySound (till b') e" if "e \<in> set (bankEntries b')" for e
  proof (cases "e \<in> set new")
    case True
    then obtain l where "l \<in> set entries" "e = newEntry (sd_fundId dto) n now (be_id e) l" using new by blast
    then show ?thesis using newEntry_sound(1) [of l "till b'" "sd_fundId dto" n now "be_id e"] b'(4) ref by metis
  next
    case False
    then show ?thesis using that s(1) [of e] b'(1,3) by (auto intro: entrySound_kept settledKept_refl)
  qed
  moreover have "oncePerHandover (bankEntries b')"
    using s(2) new newEntry_sound(2) b'(4) ref unfolding oncePerHandover_def b'(1) by (metis Un_iff set_append)
  moreover have "distinct (map be_id (bankEntries b'))"
    using s(3) by (auto simp: b'(1) ids dest!: s(4))
  moreover have "be_id e < nextEntryId b'" if "e \<in> set (bankEntries b')" for e
    using that s(4) [of e] new [of e] b'(2) by (auto simp: b'(1))
  ultimately show ?thesis by (simp add: bank_sound_def)
qed

text \<open>The outcomes of the transaction over a line.\<close>

lemma matchEntry_cases:
  assumes "matchEntry i emp now b = Inr b'"
  obtains "b' = b" | "b' = markUnmatched i b" | reason where "b' = markMismatch i reason b"
  | e h d' where "findEntry i b = Some e" "openEntry e" "given (be_bankReference e)"
      "bankHandover e (the (be_bankReference e)) (till b) = Some h" "d_transfer h = be_amount e" "d_status h = Req_APPROVED"
      "d_settlement h = Some Settle_PENDING \<and> settleInTransaction (d_id h) emp (the (be_bankReference e)) (the (d_evidence h)) (till b) = Inr d' \<or>
       d_settlement h = Some Settle_SETTLED \<and> d' = till b"
      "\<forall>x\<in>set (bankEntries b). be_matchedHandoverId x = Some (d_id h) \<longrightarrow> be_id x = i"
      "b' = b\<lparr>till := addLog emp ''BANK_STATEMENT_ENTRY_MATCHED'' i d',
         bankEntries := upd (\<lambda>e. be_id e = i \<and> openEntry e) (matched (d_id h) now) (bankEntries b)\<rparr>"
  using assms unfolding matchEntry_def linkEntry_def Let_def
  by (auto split: if_split_asm option.splits)

lemma bankHandover_SomeD:
  assumes "bankHandover e ref d = Some h"
  shows "h \<in> set (cashHandovers d)" "d_destinationFundId h = be_fundId e" "d_bankReference h = Some ref"
  using find_SomeD [OF assms [unfolded bankHandover_def]] by auto

lemma findEntry_SomeD: "findEntry i b = Some e \<Longrightarrow> e \<in> set (bankEntries b) \<and> be_id e = i"
  unfolding findEntry_def by (rule find_SomeD)

lemma settle_row:
  assumes "settleInTransaction (d_id h) emp ref ev d = Inr d'" and "h \<in> set (cashHandovers d)" and "distinct (map d_id (cashHandovers d))"
  shows "h\<lparr>d_settlement := Some Settle_SETTLED, d_settledById := Some emp, d_bankReference := Some (toUpperCase ref),
     d_evidence := Some ev, d_destinationTxId := Some (nextId d)\<rparr> \<in> set (cashHandovers d')"
proof -
  obtain h' :: cashHandover and n d1 where h: "findHandover d (d_id h) = Some h'"
    and p: "postDestinationEntry h' emp Fund_BANK d = Inr (n, d1)"
    and d': "d' = addLog emp ''CASH_HANDOVER_SETTLED'' (d_id h)
       (setHandover (d_id h) (\<lambda>r. r\<lparr>d_settlement := Some Settle_SETTLED, d_settledById := Some emp,
          d_bankReference := Some (toUpperCase ref), d_evidence := Some ev, d_destinationTxId := Some n\<rparr>) d1)"
    by (rule settle_steps [OF assms(1)])
  note e = postDestinationEntry_effect [OF p]
  show ?thesis using assms(2) by (force simp: d' setHandover_def set_upd e(8) e(1))
qed

lemma matchEntry_sound:
  assumes "matchEntry i emp now b = Inr b'" and "bank_sound b" and k: "distinct (map d_id (cashHandovers (till b)))"
  shows "bank_sound b'"
  using assms(1)
proof (cases rule: matchEntry_cases)
  case (4 e h d')
  note s = bank_soundD [OF assms(2)]
  note e = findEntry_SomeD [OF 4(1)] and h = bankHandover_SomeD [OF 4(4)]
  have ref: "be_bankReference e = Some (the (be_bankReference e))" using 4(3) by (cases "be_bankReference e") (auto simp: given_def)
  have up: "toUpperCase (the (be_bankReference e)) = the (be_bankReference e)"
    using s(1) [of e] e ref by (metis entrySound_def option.map(2) option.sel)
  have kept: "settledKept (till b) d'" using 4(7) settle_kept [OF _ k] settledKept_refl [of d' "till b"] by auto
  have "\<exists>r\<in>set (cashHandovers d'). d_id r = d_id h \<and> depositSettled r \<and> d_destinationFundId r = be_fundId e \<and>
      d_transfer r = be_amount e \<and> d_bankReference r = be_bankReference e"
    using 4(7)
  proof
    assume "d_settlement h = Some Settle_PENDING \<and>
      settleInTransaction (d_id h) emp (the (be_bankReference e)) (the (d_evidence h)) (till b) = Inr d'"
    note r = settle_row [OF conjunct2 [OF this] h(1) k]
    show ?thesis by (rule bexI [OF _ r]) (use h 4 ref up in \<open>simp add: depositSettled_def\<close>)
  next
    assume "d_settlement h = Some Settle_SETTLED \<and> d' = till b"
    then show ?thesis using h 4(5,6) ref by (auto simp: depositSettled_def intro!: bexI [of _ h])
  qed
  then obtain r where "r \<in> set (cashHandovers d')" "d_id r = d_id h" "depositSettled r" "d_destinationFundId r = be_fundId e"
      "d_transfer r = be_amount e" "d_bankReference r = be_bankReference e"
    by blast
  then have line: "lineConfirmed d' (matched (d_id h) now e)"
    unfolding lineConfirmed_def by (intro bexI [of _ r]) (simp_all add: matched_def)
  have only: "x = e" if "x \<in> set (bankEntries b)" "be_id x = i" for x
    by (rule distinct_key_eq [OF s(3) that(1)]) (use e that in auto)
  show ?thesis
  proof (rule soundI_once [OF assms(2)])
    show "bankEntries b' = upd (\<lambda>e. be_id e = i \<and> openEntry e) (matched (d_id h) now) (bankEntries b)" by (simp add: 4)
    show "settledKept (till b) (till b')" using kept by (simp add: 4 settledKept_def)
    show "be_id (matched (d_id h) now x) = be_id x" for x by (simp add: matched_def)
    fix x assume x: "x \<in> set (bankEntries b)" "be_id x = i \<and> openEntry x"
    have eq: "x = e" by (rule only) (use x in auto)
    have "lineConfirmed (till b') (matched (d_id h) now e)" using line by (simp add: 4 lineConfirmed_def)
    then show "entrySound (till b') (matched (d_id h) now x)"
      using s(1) [OF x(1)] x(2) unfolding eq by (auto simp: entrySound_def entryChecks_def openEntry_def matched_def)
  next
    have old: "x = matched (d_id h) now e \<or> x \<in> set (bankEntries b) \<and> be_matchedHandoverId x \<noteq> Some (d_id h)"
      if x: "x \<in> set (bankEntries b')" for x
    proof -
      obtain y where y: "y \<in> set (bankEntries b)" "x = (if be_id y = i \<and> openEntry y then matched (d_id h) now y else y)"
        using x by (auto simp: 4 upd_def)
      show ?thesis using y 4(2,8) only [of y] by (cases "be_id y = i") auto
    qed
    have m: "be_matchedHandoverId (matched (d_id h) now e) = Some (d_id h)" by (simp add: matched_def)
    show "oncePerHandover (bankEntries b')"
      unfolding oncePerHandover_def
    proof (intro ballI impI, elim conjE)
      fix x y assume "x \<in> set (bankEntries b')" "y \<in> set (bankEntries b')"
        and "be_matchedHandoverId x \<noteq> None" "be_matchedHandoverId x = be_matchedHandoverId y"
      then show "x = y" using old [of x] old [of y] m s(2) unfolding oncePerHandover_def by metis
    qed
  qed (simp add: 4)
qed (use assms(2) markMismatch_sound markUnmatched_sound in auto)

lemma reconcileEntry_sound:
  assumes "bank_sound b" and "distinct (map d_id (cashHandovers (till b)))"
  shows "bank_sound (snd (reconcileEntry i emp now b))"
  using assms matchEntry_sound [OF _ assms] markMismatch_sound [OF assms(1)]
  by (auto simp: reconcileEntry_def split: sum.splits)

lemma bank_step_sound:
  assumes "bank_step hash sign sameName sha256 localeCompare b b'" and "bank_sound b"
  shows "bank_sound b'"
  using assms
proof (cases rule: bank_step.cases)
  case (shop d')
  then show ?thesis by (intro soundI_same [OF assms(2)]) (auto intro: till_step_kept)
next
  case (noted emp i)
  then show ?thesis by (intro soundI_same [OF assms(2)]) (auto intro: settledKept_refl)
qed (auto intro: insertStatement_sound reconcileEntry_sound ignoreEntry_sound)

lemma bank_steps_sound:
  "(bank_step hash sign sameName sha256 localeCompare)\<^sup>*\<^sup>* b b' \<Longrightarrow> bank_sound b \<Longrightarrow> bank_sound b'"
  by (induction rule: rtranclp_induct) (auto intro: bank_step_sound)

text \<open>\<open>reconcile\<close> and \<open>createImport\<close> are runs of these steps.\<close>

lemma reconcileEntry_keys:
  assumes "distinct (map d_id (cashHandovers (till b)))"
  shows "distinct (map d_id (cashHandovers (till (snd (reconcileEntry i emp now b)))))"
proof -
  have settle: "map d_id (cashHandovers d') = map d_id (cashHandovers d)" if st: "settleInTransaction j emp ref ev d = Inr d'" for j ref ev d d'
  proof -
    obtain h' :: cashHandover and n d1 where p: "postDestinationEntry h' emp Fund_BANK d = Inr (n, d1)"
      and d': "d' = addLog emp ''CASH_HANDOVER_SETTLED'' j
       (setHandover j (\<lambda>r. r\<lparr>d_settlement := Some Settle_SETTLED, d_settledById := Some emp,
          d_bankReference := Some (toUpperCase ref), d_evidence := Some ev, d_destinationTxId := Some n\<rparr>) d1)"
      by (rule settle_steps [OF st])
    show ?thesis using postDestinationEntry_effect(8) [OF p] by (simp add: d' setHandover_def map_key_upd)
  qed
  have "map d_id (cashHandovers (till b')) = map d_id (cashHandovers (till b))" if "matchEntry i emp now b = Inr b'" for b'
    using that by (cases rule: matchEntry_cases) (auto simp: markMismatch_def markUnmatched_def settle)
  then show ?thesis using assms by (auto simp: reconcileEntry_def markMismatch_def split: sum.splits)
qed

lemma reconcileEntries_steps:
  assumes "distinct (map d_id (cashHandovers (till b)))"
  shows "(bank_step hash sign sameName sha256 localeCompare)\<^sup>*\<^sup>* b (snd (reconcileEntries is emp now b))"
  using assms
proof (induction "is" arbitrary: b)
  case (Cons i "is")
  have one: "bank_step hash sign sameName sha256 localeCompare b (snd (reconcileEntry i emp now b))"
    by (rule bank_step.line [OF Cons.prems])
  show ?case
  proof (cases "reconcileEntry i emp now b")
    case (Pair r b1)
    then show ?thesis
      using one Cons.IH [of b1] reconcileEntry_keys [OF Cons.prems, of i emp now]
      by (cases r) (auto intro: converse_rtranclp_into_rtranclp)
  qed
qed simp

lemma reconcile_steps:
  assumes "distinct (map d_id (cashHandovers (till b)))"
  shows "(bank_step hash sign sameName sha256 localeCompare)\<^sup>*\<^sup>* b (snd (reconcile i emp now b))"
proof -
  obtain r b1 where e: "reconcileEntries (map be_id (candidates i b)) emp now b = (r, b1)" by fastforce
  note s = reconcileEntries_steps [OF assms, of hash sign sameName sha256 localeCompare "map be_id (candidates i b)" emp now, unfolded e snd_conv]
  have "bank_step hash sign sameName sha256 localeCompare b1 (b1\<lparr>till := addLog emp ''BANK_STATEMENT_RECONCILED'' i (till b1)\<rparr>)"
    by (rule bank_step.noted)
  with s have "(bank_step hash sign sameName sha256 localeCompare)\<^sup>*\<^sup>* b (b1\<lparr>till := addLog emp ''BANK_STATEMENT_RECONCILED'' i (till b1)\<rparr>)"
    by (rule rtranclp.rtrancl_into_rtrancl)
  then show ?thesis using s by (auto simp: reconcile_def e split: option.splits sum.splits)
qed

lemma createImport_steps:
  assumes "distinct (map d_id (cashHandovers (till b)))" and "statementChecks dto"
  shows "(bank_step hash sign sameName sha256 localeCompare)\<^sup>*\<^sup>* b (snd (createImport sha256 localeCompare emp dto now b))"
proof -
  have "(bank_step hash sign sameName sha256 localeCompare)\<^sup>*\<^sup>* b (snd (reconcile n emp now b1))"
    if "importIdentity sha256 localeCompare dto = Inr (entries, c)" and ins: "insertStatement emp dto entries c now b = Inr (n, b1)" for entries c n b1
  proof -
    have "distinct (map d_id (cashHandovers (till b1)))" using ins assms(1) by (auto simp: insertStatement_def Let_def)
    then show ?thesis
      by (intro converse_rtranclp_into_rtranclp [where r = "bank_step hash sign sameName sha256 localeCompare", OF bank_step.store [OF assms(2) that]])
        (rule reconcile_steps)
  qed
  then show ?thesis
    unfolding createImport_def by (auto split: sum.splits option.splits error.splits prod.splits) (metis snd_conv)+
qed

text \<open>
  A statement sent again, whatever happened to its lines since, is answered from the first import and
  changes nothing; so is the recovery of an import whose answer was lost.
\<close>

lemma statement_stored:
  assumes "insertStatement emp dto entries c now b = Inr (n, b')"
  shows "findByChecksum (sd_fundId dto) c b' \<noteq> None"
proof -
  have "\<exists>s. statements b' = statements b @ [s] \<and> sm_fundId s = sd_fundId dto \<and> sm_checksum s = c"
    using assms by (auto simp: insertStatement_def Let_def)
  then show ?thesis by (auto simp: findByChecksum_def find_None_iff)
qed

lemma import_replayed:
  assumes "activeEmployee emp (till b)" and "importIdentity sha256 localeCompare dto = Inr (entries, c)"
    and "findByChecksum (sd_fundId dto) c b = Some s"
  shows "createImport sha256 localeCompare emp dto now b = (Inr (Replayed (sm_id s)), b)"
    "recoverImport sha256 localeCompare emp dto b = Inr (Replayed (sm_id s))"
  using assms by (simp_all add: createImport_def recoverImport_def)

section \<open>Lines and money\<close>

lemma matchEntry_kept:
  assumes "matchEntry i emp now b = Inr b'" and "distinct (map d_id (cashHandovers (till b)))"
  shows "settledKept (till b) (till b')"
  using assms(1)
proof (cases rule: matchEntry_cases)
  case (4 e h d')
  have "settledKept (till b) d'" using 4(7) settle_kept [OF _ assms(2)] settledKept_refl [of d' "till b"] by auto
  then show ?thesis by (simp add: 4 settledKept_def)
qed (simp_all add: markMismatch_def markUnmatched_def settledKept_refl)

lemma bank_step_kept:
  assumes "bank_step hash sign sameName sha256 localeCompare b b'"
  shows "settledKept (till b) (till b')"
  using assms
proof (cases rule: bank_step.cases)
  case (line i emp now)
  then show ?thesis using matchEntry_kept [of i emp now b]
    by (auto simp: reconcileEntry_def markMismatch_def settledKept_refl split: sum.splits)
next
  case (store dto entries c emp now n)
  then show ?thesis by (auto simp: insertStatement_def Let_def intro!: settledKept_refl)
next
  case (set_aside i emp reason now)
  then show ?thesis by (auto simp: ignoreEntry_def Let_def intro!: settledKept_refl split: if_split_asm)
qed (auto intro: till_step_kept settledKept_refl)

lemma bank_steps_positive:
  assumes "(bank_step hash sign sameName sha256 localeCompare)\<^sup>*\<^sup>* b b'" and "\<forall>h\<in>set (cashHandovers (till b)). 0 < d_transfer h"
  shows "\<forall>h\<in>set (cashHandovers (till b')). 0 < d_transfer h"
  using assms
proof (induction rule: rtranclp_induct)
  case (step y z)
  then show ?case using bank_step_kept [OF step.hyps(2)] unfolding settledKept_def by fastforce
qed simp

lemma sum_set_le: "(\<And>x. x \<in> set xs \<Longrightarrow> 0 \<le> g x) \<Longrightarrow> sum g (set xs) \<le> (\<Sum>x\<leftarrow>xs. g x :: int)"
proof (induction xs)
  case (Cons a xs)
  have "sum g (set (a # xs)) \<le> g a + sum g (set xs)" using Cons.prems by (simp add: sum.insert_if)
  then show ?case using Cons by simp
qed simp

lemma matched_total:
  assumes "bank_sound b" and "\<forall>h\<in>set (cashHandovers (till b)). 0 < d_transfer h"
  shows "sumw (\<lambda>e. be_matchStatus e = Match_MATCHED \<and> be_fundId e = f) be_amount (bankEntries b)
    \<le> sumw (\<lambda>h. depositSettled h \<and> d_destinationFundId h = f) d_transfer (cashHandovers (till b))"
proof -
  define M where "M = {e \<in> set (bankEntries b). be_matchStatus e = Match_MATCHED \<and> be_fundId e = f}"
  define hs where "hs = filter (\<lambda>h. depositSettled h \<and> d_destinationFundId h = f) (cashHandovers (till b))"
  note s = bank_soundD [OF assms(1)]
  have ex: "\<forall>e\<in>M. \<exists>h. h \<in> set hs \<and> be_matchedHandoverId e = Some (d_id h) \<and> d_transfer h = be_amount e"
    using s(1) unfolding M_def hs_def entrySound_def lineConfirmed_def by fastforce
  obtain k where k: "\<forall>e\<in>M. k e \<in> set hs \<and> be_matchedHandoverId e = Some (d_id (k e)) \<and> d_transfer (k e) = be_amount e"
    using bchoice [OF ex] by blast
  have inj: "inj_on k M"
    using s(2) k unfolding inj_on_def oncePerHandover_def M_def by (metis (mono_tags, lifting) mem_Collect_eq option.distinct(1))
  have dist: "distinct (bankEntries b)" using s(3) by (simp add: distinct_map)
  have "sumw (\<lambda>e. be_matchStatus e = Match_MATCHED \<and> be_fundId e = f) be_amount (bankEntries b) = sum be_amount M"
    unfolding sumw_def M_def using dist by (subst sum_list_distinct_conv_sum_set) auto
  also have "\<dots> = sum (\<lambda>e. d_transfer (k e)) M" using k by (intro sum.cong) auto
  also have "\<dots> = sum d_transfer (k ` M)" by (simp add: sum.reindex [OF inj])
  also have "\<dots> \<le> sum d_transfer (set hs)"
    using k assms(2) by (intro sum_mono2) (auto simp: hs_def intro: less_imp_le)
  also have "\<dots> \<le> (\<Sum>h\<leftarrow>hs. d_transfer h)"
    using assms(2) by (intro sum_set_le) (auto simp: hs_def intro: less_imp_le)
  finally show ?thesis by (simp add: sumw_def hs_def)
qed

text \<open>C16: However statements are imported, replayed, reconciled and set aside while the shop goes on, every
  bank line satisfies the CHECK constraint on its state; a matched line names a settled handover to
  its account with its amount and reference, different lines different handovers; so the lines
  matched for an account never add up to more than the handovers settled to it.\<close>

theorem matched_lines_settled:
  assumes "(bank_step hash sign sameName sha256 localeCompare)\<^sup>*\<^sup>* b b'" and "bank_sound b"
    and "\<forall>h\<in>set (cashHandovers (till b)). 0 < d_transfer h"
  shows "bank_sound b' \<and> (\<forall>f. sumw (\<lambda>e. be_matchStatus e = Match_MATCHED \<and> be_fundId e = f) be_amount (bankEntries b')
    \<le> sumw (\<lambda>h. depositSettled h \<and> d_destinationFundId h = f) d_transfer (cashHandovers (till b')))"
  using bank_steps_sound [OF assms(1,2)] matched_total [OF _ bank_steps_positive [OF assms(1,3)]] by blast

text \<open>The deposit of the sample till, and the line of the bank's statement that shows it.\<close>

definition bank_transit :: "nat bank" where
  "bank_transit = \<lparr>till = till_transit, statements = [],
     bankEntries = [\<lparr>be_id = 1, be_externalId = ''A'', be_direction = Bank_CREDIT, be_amount = 32000, be_transactionDate = 5,
       be_bankReference = Some ''77'', be_description = None, be_matchStatus = Match_UNMATCHED, be_mismatchReason = None,
       be_matchedAt = None, be_ignoredAt = None, be_importId = 900, be_fundId = 12, be_matchedHandoverId = None\<rparr>],
     nextEntryId = 2\<rparr>"

lemma bank_transit_sound: "bank_sound bank_transit" "distinct (map d_id (cashHandovers (till bank_transit)))"
  "\<forall>h\<in>set (cashHandovers (till bank_transit)). 0 < d_transfer h"
  by (simp_all add: bank_sound_def bank_transit_def entrySound_def entryChecks_def oncePerHandover_def toUpperCase_def upperChar_def
      till_transit_def)

theorem matched_lines_settled_witness:
  "bank_sound (snd (reconcileEntry 1 2 6 bank_transit)) \<and>
   map be_matchStatus (bankEntries (snd (reconcileEntry 1 2 6 bank_transit))) = [Match_MATCHED]"
proof -
  have "bank_step (\<lambda>_. ()) (\<lambda>_ _. ()) (=) (\<lambda>_. 0) (\<lambda>_ _. 0) bank_transit (snd (reconcileEntry 1 2 6 bank_transit))"
    by (rule bank_step.line [OF bank_transit_sound(2)])
  note t = matched_lines_settled [OF r_into_rtranclp [where r = "bank_step (\<lambda>_. ()) (\<lambda>_ _. ()) (=) (\<lambda>_. 0) (\<lambda>_ _. 0)", OF this]
      bank_transit_sound(1,3)]
  obtain d' where d': "settleInTransaction 60 2 ''77'' ''slip'' till_transit = Inr d'"
    using till_transit_ok by (auto simp: ok_def split: sum.splits)
  have "map be_matchStatus (bankEntries (snd (reconcileEntry 1 2 6 bank_transit))) = [Match_MATCHED]"
    using d' by (simp add: reconcileEntry_def matchEntry_def findEntry_def bank_transit_def openEntry_def given_def bankHandover_def
        till_transit_def linkEntry_def matched_def)
  then show ?thesis using t by simp
qed

section \<open>What happens to a registered deposit\<close>

lemma settle_ok:
  assumes "activeEmployee emp d" and "keys_ok d" and "findHandover d i = Some h" and "awaitingSettlement h"
    and "d_requestedById h \<noteq> emp" and "findFund d (d_destinationFundId h) = Some df" and "f_type df = Fund_BANK" "f_deletedAt df = None"
    and "0 < d_transfer h" and "d_bankReference h = Some (toUpperCase ref)" and "d_evidence h = Some ev"
    and "referenceFree h (toUpperCase ref) d"
  shows "ok (settleInTransaction i emp ref ev d)"
proof -
  note f = findFund_SomeD [OF assms(6)]
  have "cnt (\<lambda>f. f_id f = d_destinationFundId h \<and> f_type f = Fund_BANK \<and> f_deletedAt f = None) (funds d) = 1"
    using cnt_key_1_iff [OF keys_okD(6) [OF assms(2)], of "d_destinationFundId h" "\<lambda>f. f_type f = Fund_BANK \<and> f_deletedAt f = None"]
      f assms(7,8) by blast
  then have "ok (postDestinationEntry h emp Fund_BANK d)"
    using assms(9) by (simp add: postDestinationEntry_def createCashTx_def plainTx_def)
  then obtain n d1 where p: "postDestinationEntry h emp Fund_BANK d = Inr (n, d1)" by (auto simp: ok_def split: sum.splits)
  have "referenceFree h (toUpperCase ref) d1" using assms(12) postDestinationEntry_effect(8) [OF p] by (simp add: referenceFree_def)
  then show ?thesis using assms p by (simp add: settleInTransaction_def Let_def assertActiveEmployee_def)
qed

lemma findEntry_upd:
  assumes "findEntry i b = Some e" and "bankEntries b' = upd (\<lambda>e. be_id e = i \<and> openEntry e) f (bankEntries b)"
    and "\<And>e. be_id (f e) = be_id e" and "openEntry e"
  shows "findEntry i b' = Some (f e)"
proof -
  have "find (\<lambda>e. be_id e = i) es = Some e \<Longrightarrow> find (\<lambda>e. be_id e = i) (upd (\<lambda>e. be_id e = i \<and> openEntry e) f es) = Some (f e)" for es
    using assms(4) by (induction es) (auto simp: assms(3) split: if_split_asm)
  then show ?thesis using assms(1) by (simp add: findEntry_def assms(2))
qed

text \<open>C17: The line of the bank that shows a registered deposit, with its reference and amount, decides it: run by
  anybody but the employee who asked for the handover, the reconciliation settles it, credits the account
  with exactly that amount and links the line; run by that employee it moves nothing and leaves the
  line for review.\<close>

theorem deposit_line_decides:
  assumes "bank_sound b" and "keys_ok (till b)" and "activeEmployee emp (till b)"
    and "findEntry i b = Some e" and "openEntry e" and "be_bankReference e = Some ref" and "ref \<noteq> []"
    and "bankHandover e ref (till b) = Some h" and "awaitingSettlement h" and "d_transfer h = be_amount e"
    and "d_evidence h = Some ev" and "ev \<noteq> []" and "referenceFree h ref (till b)"
    and "findFund (till b) (be_fundId e) = Some df" and "f_type df = Fund_BANK" and "f_deletedAt df = None"
    and "\<forall>x\<in>set (bankEntries b). be_matchedHandoverId x \<noteq> Some (d_id h)"
  shows "\<exists>b' e'. reconcileEntry i emp now b = (Inr (), b') \<and> findEntry i b' = Some e' \<and>
    (if d_requestedById h = emp then be_matchStatus e' = Match_MISMATCH \<and> till b' = till b
     else be_matchStatus e' = Match_MATCHED \<and> be_matchedHandoverId e' = Some (d_id h) \<and>
       (\<forall>x. balanceOf (till b') x = balanceOf (till b) x + (if x = be_fundId e then be_amount e else 0)))"
proof -
  note s = bank_soundD [OF assms(1)] and en = findEntry_SomeD [OF assms(4)] and h = bankHandover_SomeD [OF assms(8)]
  have snd': "entrySound (till b) e" using s(1) en by blast
  have up: "toUpperCase ref = ref" and pos: "0 < be_amount e"
    using snd' assms(6) by (auto simp: entrySound_def entryChecks_def)
  have fh: "findHandover (till b) (d_id h) = Some h"
    unfolding findHandover_def by (rule find_unique [OF keys_okD(9) [OF assms(2)] h(1) refl])
  have m: "matchEntry i emp now b = andThen (settleInTransaction (d_id h) emp ref ev (till b)) (\<lambda>d'.
      andThen (linkEntry i (d_id h) now (b\<lparr>till := d'\<rparr>)) (\<lambda>b'. Inr (b'\<lparr>till := addLog emp ''BANK_STATEMENT_ENTRY_MATCHED'' i (till b')\<rparr>)))"
    unfolding matchEntry_def using assms(4-12,17) by (simp add: given_def awaitingSettlement_def Let_def)
  show ?thesis
  proof (cases "d_requestedById h = emp")
    case True
    have "settleInTransaction (d_id h) emp ref ev (till b) = Inl (Forbidden ''own handover'')"
      using assms(3,9,14) fh h(2) True by (simp add: settleInTransaction_def assertActiveEmployee_def)
    then have r: "reconcileEntry i emp now b = (Inr (), markMismatch i ''Automatic settlement could not be confirmed'' b)"
      by (simp add: reconcileEntry_def m leftForReview_def)
    show ?thesis
      using findEntry_upd [OF assms(4) _ _ assms(5), of "markMismatch i ''Automatic settlement could not be confirmed'' b"
          "mismatched ''Automatic settlement could not be confirmed''"]
      by (simp add: r True markMismatch_def mismatched_def)
  next
    case False
    have "ok (settleInTransaction (d_id h) emp ref ev (till b))"
      by (rule settle_ok [OF assms(3,2) fh assms(9) False]) (use assms h pos up in simp_all)
    then obtain d' where d': "settleInTransaction (d_id h) emp ref ev (till b) = Inr d'" by (auto simp: ok_def split: sum.splits)
    note bal = settle_effect(1) [OF d' assms(2) fh]
    define b' where "b' = b\<lparr>till := addLog emp ''BANK_STATEMENT_ENTRY_MATCHED'' i d',
         bankEntries := upd (\<lambda>e. be_id e = i \<and> openEntry e) (matched (d_id h) now) (bankEntries b)\<rparr>"
    have one: "cnt (\<lambda>e. be_id e = i \<and> openEntry e) (bankEntries b) = 1"
      using cnt_key_1_iff [OF s(3), of i openEntry] en assms(5) by blast
    have r: "reconcileEntry i emp now b = (Inr (), b')"
      using one assms(17) by (simp add: reconcileEntry_def m d' linkEntry_def b'_def)
    have "findEntry i b' = Some (matched (d_id h) now e)"
      by (rule findEntry_upd [OF assms(4) _ _ assms(5), where f = "matched (d_id h) now"]) (simp add: b'_def, simp add: matched_def)
    moreover have "balanceOf (till b') x = balanceOf d' x" for x by (simp add: b'_def balanceOf_def findFund_def)
    ultimately show ?thesis using False r bal h(2) assms(10) by (auto simp: matched_def)
  qed
qed

theorem deposit_line_decides_witness:
  "(balanceOf (till (snd (reconcileEntry 1 2 6 bank_transit))) 12, balanceOf till_transit 12) = (32000, 0)"
proof -
  have k: "keys_ok (till bank_transit)"
    by (simp add: keys_ok_def stock_keys_def one_open_shift_def bank_transit_def till_transit_def till_simps)
  have z: "balanceOf till_transit 12 = 0" by (simp add: balanceOf_def findFund_def till_transit_def till_simps)
  have "\<exists>b' e'. reconcileEntry 1 2 6 bank_transit = (Inr (), b') \<and> findEntry 1 b' = Some e' \<and>
    (if d_requestedById (hd (cashHandovers till_transit)) = 2 then be_matchStatus e' = Match_MISMATCH \<and> till b' = till bank_transit
     else be_matchStatus e' = Match_MATCHED \<and> be_matchedHandoverId e' = Some (d_id (hd (cashHandovers till_transit))) \<and>
       (\<forall>x. balanceOf (till b') x = balanceOf (till bank_transit) x +
         (if x = be_fundId (hd (bankEntries bank_transit)) then be_amount (hd (bankEntries bank_transit)) else 0)))"
    by (rule deposit_line_decides [OF bank_transit_sound(1) k, where ref = "''77''" and ev = "''slip''" and
        df = "\<lparr>f_id = 12, f_name = ''Bank'', f_type = Fund_BANK, f_balance = 0, f_deletedAt = None\<rparr>"])
      (simp_all add: bank_transit_def till_transit_def till_simps activeEmployee_def findEntry_def openEntry_def bankHandover_def
        awaitingSettlement_def referenceFree_def findFund_def)
  then obtain b' where "reconcileEntry 1 2 6 bank_transit = (Inr (), b')" "balanceOf (till b') 12 = balanceOf till_transit 12 + 32000"
    by (auto simp: bank_transit_def till_transit_def)
  then show ?thesis using z by auto
qed

end
