(* ===== verification/Refund_Claims.thy ===== *)
theory Refund_Claims
  imports Cash_Claims
begin

text \<open>
  Cash refunds: what one refund does to the invoice, the fund and the ledger, and that a repeated
  request pays once.
\<close>

lemma find_new:
  assumes "find P xs = None" and "P y"
  shows "find P (xs @ [y]) = Some y"
  using assms by (simp add: find_append)

lemma createCashRefund_new:
  assumes "createCashRefund vid emp amt reason shift key now d = Inr d'"
    and "find (\<lambda>y. y_requestedById y = emp \<and> y_key y = key) (cashRefunds d) = None"
  obtains v sh where "findInvoice d vid = Some v" "paidStatus (v_status v)" "v_method v = Method_CASH"
    "\<forall>oi\<in>set (invoiceItems d vid). o_status oi = Serve_SERVED"
    "refundedTotal d vid + amt \<le> v_total v" "requireOpenShift emp d = Inr sh" "fst sh = shift"
    "bookRefund v amt reason sh emp key now d = Inr d'"
proof -
  obtain v sh where v: "findInvoice d vid = Some v" "paidStatus (v_status v)" "v_method v = Method_CASH"
    "\<forall>oi\<in>set (invoiceItems d (v_id v)). o_status oi = Serve_SERVED"
    "refundedTotal d vid + amt \<le> v_total v" "requireOpenShift emp d = Inr sh" "fst sh = shift"
    "bookRefund v amt reason sh emp key now d = Inr d'"
    using assms by (auto simp: createCashRefund_def refundable_def paidStatus_def)
  moreover have "v_id v = vid" using findInvoice_SomeD [OF v(1)] by simp
  ultimately show ?thesis using that by simp
qed

text \<open>C14: A refund stays within the invoice. A new cash refund pays at most what the invoice was paid
  and not refunded yet, out of the fund of the cashier's own open shift and only once everything on
  the invoice was handed over; the invoice becomes REFUNDED exactly when nothing is left to refund,
  and no other balance changes.\<close>

theorem refund_within_total:
  assumes "createCashRefund vid emp amt reason shift key now d = Inr d'" and "keys_ok d"
    and "find (\<lambda>y. y_requestedById y = emp \<and> y_key y = key) (cashRefunds d) = None"
    and "findInvoice d vid = Some v" and "requireOpenShift emp d = Inr sh"
  shows "0 < amt \<and> refundedTotal d' vid = refundedTotal d vid + amt \<and> refundedTotal d' vid \<le> v_total v \<and>
    (\<forall>x. balanceOf d' x = balanceOf d x - (if x = snd sh then amt else 0)) \<and>
    (\<forall>oi\<in>set (invoiceItems d vid). o_status oi = Serve_SERVED) \<and>
    findInvoice d' vid = Some (v\<lparr>v_status := (if refundedTotal d' vid = v_total v then Pay_REFUNDED else Pay_PARTIALLY_REFUNDED)\<rparr>)"
proof -
  obtain v' sh' where v': "findInvoice d vid = Some v'" and served: "\<forall>oi\<in>set (invoiceItems d vid). o_status oi = Serve_SERVED"
    and le: "refundedTotal d vid + amt \<le> v_total v'" and sh': "requireOpenShift emp d = Inr sh'"
    and b: "bookRefund v' amt reason sh' emp key now d = Inr d'"
    by (rule createCashRefund_new [OF assms(1,3)])
  have eq: "v' = v" "sh' = sh" using v' sh' assms(4,5) by simp_all
  note e = bookRefund_effect [OF b [unfolded eq]]
  have vid: "v_id v = vid" and mem: "v \<in> set (invoices d)" using findInvoice_SomeD [OF assms(4)] by simp_all
  have total: "refundedTotal d' vid = refundedTotal d vid + amt" by (simp add: refundedTotal_def e(5) vid)
  have bal: "balanceOf d' x = balanceOf d x - (if x = snd sh then amt else 0)" for x
  proof -
    have "balanceOf d' x = balanceOf d x + (if x = snd sh then - amt else 0)"
      by (rule balanceOf_add [OF keys_okD(6) [OF assms(2)] e(2) _ e(3)]) simp
    then show ?thesis by simp
  qed
  let ?w = "v\<lparr>v_status := refundStatus v (refundedTotal d vid + amt)\<rparr>"
  have "distinct (map v_id (invoices d'))" using keys_okD(5) [OF assms(2)] by (simp add: e(8) map_key_upd)
  moreover have "?w \<in> set (invoices d')" using mem vid by (auto simp: e(8) set_upd)
  ultimately have "findInvoice d' vid = Some ?w"
    using find_unique [of v_id "invoices d'" ?w vid] vid by (simp add: findInvoice_def)
  then show ?thesis using e(1) total le bal served by (simp add: eq refundStatus_def)
qed

text \<open>The sample till after a sale of 120.00 in cash, handed over to the guest.\<close>

definition till_sold :: db where
  "till_sold = till_open\<lparr>nextId := 200, invoices := [\<lparr>v_id = 70, v_number = ''HD1'', v_subTotal = 12000, v_discount = 0, v_tax = 0,
     v_taxRate = 0, v_total = 12000, v_tendered = Some 12000, v_change = Some 0, v_method = Method_CASH, v_status = Pay_PAID,
     v_sessionId = 4, v_employeeId = 1, v_shiftId = Some 100, v_promotionId = None, v_snapshot = True, v_createdAt = 5,
     v_codeVersion = Some 0, v_codeIssuedAt = None\<rparr>],
     cashTxs := [\<lparr>k_id = 71, k_type = Flow_INCOME, k_amount = 12000, k_fundId = 10, k_employeeId = 1, k_shiftId = Some 100,
       k_invoiceId = Some 70\<rparr>],
     orderItems := [\<lparr>o_id = 72, o_sessionId = 4, o_menuItemId = 7, o_quantity = 2, o_price = 6000, o_note = None,
       o_options = [], o_recipeAt = None, o_status = Serve_SERVED, o_isPaid = True, o_invoiceId = Some 70, o_readyAt = None\<rparr>]\<rparr>"

definition till_refunded :: db where
  "till_refunded = value_of (createCashRefund 70 1 5000 ''cold'' 100 ''k1'' 950 till_sold)"

lemma till_sold_simps:
  "employees till_sold = employees sample_till" "cashRefunds till_sold = []" "funds till_sold = funds sample_till"
  "cashierShifts till_sold = cashierShifts till_open"
  by (simp_all add: till_sold_def till_open_simps)

lemmas refund_eval = createCashRefund_def refundable_def invoiceTx_def invoiceItems_def refundedTotal_def findInvoice_def
  bookRefund_def decrementFund_def sumw_def refundStatus_def till_sold_simps till_open_simps till_eval

lemma till_refunded_ok: "createCashRefund 70 1 5000 ''cold'' 100 ''k1'' 950 till_sold = Inr till_refunded"
proof -
  have "ok (createCashRefund 70 1 5000 ''cold'' 100 ''k1'' 950 till_sold)"
    by (simp add: refund_eval till_simps) (simp add: till_sold_def refund_eval till_simps)
  then show ?thesis by (simp add: till_refunded_def ok_value_of)
qed

lemma keys_till_sold: "keys_ok till_sold"
  by (simp add: till_sold_def till_open_def openShift_def insertShift_def till_simps till_eval keys_ok_def stock_keys_def one_open_shift_def)

theorem refund_within_total_witness:
  "balanceOf till_refunded 10 = 45000 \<and> refundedTotal till_refunded 70 = 5000"
proof -
  have h: "find (\<lambda>y. y_requestedById y = 1 \<and> y_key y = ''k1'') (cashRefunds till_sold) = None"
    "findInvoice till_sold 70 = Some (hd (invoices till_sold))" "requireOpenShift 1 till_sold = Inr (100, 10)"
    by (simp_all add: till_sold_simps) (simp_all add: till_sold_def till_open_simps till_simps till_eval findInvoice_def)
  have "balanceOf till_sold 10 = 50000" "refundedTotal till_sold 70 = 0"
    by (simp_all add: balanceOf_def findFund_def till_sold_simps refundedTotal_def till_simps)
  then show ?thesis using refund_within_total [OF till_refunded_ok keys_till_sold h] by simp
qed

text \<open>A refund is paid once. Whenever a cash refund went through, the same request sent again with the
  same key answers without changing anything, however much later: the refund row itself keeps the key.\<close>

theorem refund_paid_once:
  assumes "createCashRefund vid emp amt reason shift key now d = Inr d'"
  shows "createCashRefund vid emp amt reason shift key later d' = Inr d'"
proof (cases "find (\<lambda>y. y_requestedById y = emp \<and> y_key y = key) (cashRefunds d)")
  case (Some y)
  then have "d' = d" using assms by (simp add: createCashRefund_def)
  then show ?thesis using assms Some by (simp add: createCashRefund_def)
next
  case None
  obtain v sh where v: "findInvoice d vid = Some v" and sh: "fst sh = shift" and b: "bookRefund v amt reason sh emp key now d = Inr d'"
    by (rule createCashRefund_new [OF assms None])
  note e = bookRefund_effect [OF b]
  have "v_id v = vid" using findInvoice_SomeD [OF v] by simp
  then have "find (\<lambda>y. y_requestedById y = emp \<and> y_key y = key) (cashRefunds d') =
      Some \<lparr>y_id = Suc (nextId d), y_invoiceId = vid, y_amount = amt, y_reason = reason,
       y_requestedById = emp, y_key = key, y_cashTxId = nextId d\<rparr>"
    unfolding e(5) by (intro find_new [OF None, THEN trans]) simp_all
  moreover have "txInShift d' (nextId d) shift" by (simp add: txInShift_def e(4) sh)
  moreover have "employees d' = employees d"
    using b by (auto simp: bookRefund_def Let_def createCashTx_def decrementFund_def addLog_def enqueue_def)
  then have "activeEmployee emp d'" using assms by (auto simp: createCashRefund_def activeEmployee_def)
  ultimately show ?thesis by (simp add: createCashRefund_def assertActiveEmployee_def)
qed

theorem refund_paid_once_witness:
  "createCashRefund 70 1 5000 ''cold'' 100 ''k1'' 999 till_refunded = Inr till_refunded"
  by (rule refund_paid_once [OF till_refunded_ok])

end
