(* ===== verification/Inventory.thy ===== *)
theory Inventory
  imports Stock Promotions
begin

text \<open>
  The inventory module (\<open>src/app/inventory/\<close>) beside consumption: the policy, stock imports and
  exports (\<open>inventory-movement.service.ts\<close>), inventory items (\<open>inventory-item.service.ts\<close>), and
  units, categories and suppliers. Request amounts are rationals and the policy rounds them to
  the column's scale; comparing names is left to the database, the parameter \<open>sameName\<close>. A
  \<open>suppliers\<close> row keeps the supplier's code in \<open>n_name\<close>.
\<close>

section \<open>Policy\<close>

definition inventoryPositive :: "rat \<Rightarrow> qty res" where
  "inventoryPositive x =
     (let d = to_dp 4 x in require (0 < d) (BadRequest ''must be greater than 0'') (Inr d))"

definition inventoryNonNegative :: "rat \<Rightarrow> qty res" where
  "inventoryNonNegative x =
     (let d = to_dp 4 x in require (0 \<le> d) (BadRequest ''must not be negative'') (Inr d))"

definition inventoryMoney :: "rat \<Rightarrow> money res" where
  "inventoryMoney x =
     (let d = to_dp 2 x in require (0 \<le> d) (BadRequest ''must not be negative'') (Inr d))"

definition assertInventoryEmployee :: "id \<Rightarrow> db \<Rightarrow> 'a res \<Rightarrow> 'a res" where
  "assertInventoryEmployee emp d k = require (activeEmployee emp d) (BadRequest ''employee'') k"

definition assertBulkSize :: "nat \<Rightarrow> 'a res \<Rightarrow> 'a res" where
  "assertBulkSize n k = require (1 \<le> n \<and> n \<le> 100) (BadRequest ''bulk size'') k"

definition assertNoDuplicateInventoryItems :: "id list \<Rightarrow> 'a res \<Rightarrow> 'a res" where
  "assertNoDuplicateInventoryItems ids k = require (distinct ids) (Conflict ''duplicate items'') k"

definition assertCanDeleteItem :: "nat \<Rightarrow> nat \<Rightarrow> qty \<Rightarrow> 'a res \<Rightarrow> 'a res" where
  "assertCanDeleteItem activeRecipeLinks draftDocumentLinks stock k =
     require (activeRecipeLinks = 0) (Conflict ''recipes reference the item'')
     (require (draftDocumentLinks = 0) (Conflict ''drafts reference the item'')
     (require (stock = 0) (Conflict ''stock is not zero'') k))"

text \<open>
  The constraints of the \<open>InventoryItem\<close> and \<open>InventoryTransaction\<close> tables: the \<open>CHECK\<close>s of the
  migrations, and that a value fits its \<open>Decimal(18, n)\<close> column.
\<close>

definition itemCheck :: "inventoryItem \<Rightarrow> bool" where
  "itemCheck i \<longleftrightarrow> 0 \<le> i_reserved i \<and> i_reserved i \<le> i_stock i \<and> fitsMoney (i_stock i) \<and>
     0 \<le> i_avgCost i \<and> fitsMoney (i_avgCost i) \<and> 0 \<le> i_reorder i \<and> fitsMoney (i_reorder i)"

definition txCheck :: "inventoryTx \<Rightarrow> bool" where
  "txCheck x \<longleftrightarrow> 0 < x_quantity x \<and> fitsMoney (x_quantity x) \<and> 0 \<le> x_unitPrice x \<and> fitsMoney (x_unitPrice x) \<and>
     0 \<le> x_total x \<and> fitsMoney (x_total x)"

definition findActiveItem :: "db \<Rightarrow> id \<Rightarrow> inventoryItem option" where
  "findActiveItem d i = find (\<lambda>r. i_id r = i \<and> i_deletedAt r = None) (inventoryItems d)"

definition ensureActiveItemExists :: "id \<Rightarrow> db \<Rightarrow> (inventoryItem \<Rightarrow> 'a res) \<Rightarrow> 'a res" where
  "ensureActiveItemExists i d k = fetch (findActiveItem d i) (NotFound ''inventory item'') k"

section \<open>Imports and exports\<close>

record movementInput =
  im_inventoryItemId :: id
  im_type :: InventoryTxType
  im_quantity :: rat
  im_unitPrice :: "rat option"
  im_date :: "time option"

text \<open>The unit cost of a movement: what the import pays, or the average the export takes out.\<close>

definition movementCost :: "movementInput \<Rightarrow> inventoryItem \<Rightarrow> money res" where
  "movementCost m item =
     (if im_type m = Tx_IMPORT
      then fetch (im_unitPrice m) (BadRequest ''unitPrice is required'') inventoryMoney
      else Inr (i_avgCost item))"

text \<open>The guarded \<open>UPDATE\<close> of an export, and the plain one of an import, which moves the average.\<close>

definition exportable :: "qty \<Rightarrow> inventoryItem \<Rightarrow> inventoryItem \<Rightarrow> bool" where
  "exportable q item r \<longleftrightarrow>
     i_id r = i_id item \<and> q + i_reserved item \<le> i_stock r \<and> i_reserved r = i_reserved item"

definition exportRow :: "qty \<Rightarrow> inventoryItem \<Rightarrow> inventoryItem" where
  "exportRow q r = r\<lparr>i_stock := i_stock r - q\<rparr>"

definition importRow :: "inventoryItem \<Rightarrow> qty \<Rightarrow> money \<Rightarrow> inventoryItem \<Rightarrow> inventoryItem" where
  "importRow item q unitCost r =
     r\<lparr>i_stock := i_stock r + q,
       i_avgCost := calculateWeightedAverageCost (i_stock item) (i_avgCost item) q unitCost\<rparr>"

definition moveStock :: "InventoryTxType \<Rightarrow> inventoryItem \<Rightarrow> qty \<Rightarrow> money \<Rightarrow> inventoryItem list \<Rightarrow> inventoryItem list res" where
  "moveStock ty item q unitCost its =
     (if ty = Tx_EXPORT
      then require (cnt (exportable q item) its = 1) (Conflict ''insufficient stock'')
             (Inr (upd (exportable q item) (exportRow q) its))
      else let its' = upd (\<lambda>r. i_id r = i_id item) (importRow item q unitCost) its
           in require (\<forall>r\<in>set its'. i_id r = i_id item \<longrightarrow> itemCheck r) (Conflict ''check inventory item'') (Inr its'))"

definition movementTx :: "id \<Rightarrow> movementInput \<Rightarrow> qty \<Rightarrow> money \<Rightarrow> time \<Rightarrow> inventoryTx" where
  "movementTx i m q unitCost now =
     \<lparr>x_id = i, x_inventoryItemId = im_inventoryItemId m, x_orderItemId = None, x_documentLineId = None,
      x_type = im_type m, x_quantity = q, x_unitPrice = unitCost,
      x_total = calculateInventoryValue q unitCost, x_date = orElse (im_date m) now\<rparr>"

definition applyMovement :: "time \<Rightarrow> movementInput \<Rightarrow> db \<Rightarrow> (movementResult \<times> db) res" where
  "applyMovement now m d =
     ensureActiveItemExists (im_inventoryItemId m) d (\<lambda>item.
     andThen (inventoryPositive (im_quantity m)) (\<lambda>q.
     andThen (movementCost m item) (\<lambda>unitCost.
     andThen (moveStock (im_type m) item q unitCost (inventoryItems d)) (\<lambda>its.
     let x = movementTx (nextId d) m q unitCost now;
         d' = d\<lparr>nextId := Suc (nextId d), inventoryItems := its, inventoryTxs := inventoryTxs d @ [x]\<rparr>;
         after = findActiveItem d' (im_inventoryItemId m)
     in require (txCheck x) (Conflict ''check transaction'')
          (Inr (\<lparr>mv_inventoryItemId = im_inventoryItemId m, mv_transactionId = nextId d, mv_type = im_type m,
                 mv_quantity = q, mv_unitCost = unitCost, mv_total = x_total x,
                 mv_stockAfter = (case after of None \<Rightarrow> 0 | Some i \<Rightarrow> i_stock i),
                 mv_avgCost = (case after of None \<Rightarrow> 0 | Some i \<Rightarrow> i_avgCost i)\<rparr>, d'))))))"

text \<open>One turn of the loop \<open>results.push(await this.applyMovement(tx, movement))\<close>.\<close>

definition pushMovement :: "time \<Rightarrow> movementInput \<Rightarrow> movementResult list \<times> db \<Rightarrow> (movementResult list \<times> db) res" where
  "pushMovement now m rd =
     andThen (applyMovement now m (snd rd)) (\<lambda>r. Inr (fst rd @ [fst r], snd r))"

text \<open>The first movement names the event and the audit entry; without one the event is an import.\<close>

definition enqueueStockEvent :: "movementResult list \<Rightarrow> time \<Rightarrow> db \<Rightarrow> db" where
  "enqueueStockEvent mvs now d =
     (case mvs of
        [] \<Rightarrow> enqueue ''inventory'' ''STOCK_IMPORTED'' (nextId d) [] now (d\<lparr>nextId := Suc (nextId d)\<rparr>)
      | r # _ \<Rightarrow> enqueue ''inventory'' (if mv_type r = Tx_IMPORT then ''STOCK_IMPORTED'' else ''STOCK_EXPORTED'')
                  (mv_transactionId r) [] now d)"

definition movementAction :: "movementInput list \<Rightarrow> string" where
  "movementAction ms = (case ms of
      [] \<Rightarrow> ''INVENTORY_EXPORT''
    | m # _ \<Rightarrow> if im_type m = Tx_IMPORT then ''INVENTORY_IMPORT'' else ''INVENTORY_EXPORT'')"

definition moveStockInTransaction :: "id \<Rightarrow> movementInput list \<Rightarrow> time \<Rightarrow> db \<Rightarrow> (movementResult list \<times> db) res" where
  "moveStockInTransaction emp ms now d =
     assertInventoryEmployee emp d
       (andThen (run_all (pushMovement now) ms ([], d)) (\<lambda>rd.
        Inr (fst rd, enqueueStockEvent (fst rd) now (addLog emp (movementAction ms) 0 (snd rd)))))"

text \<open>
  The requests: the key of an idempotent request has 8 to 120 characters once trimmed. What the
  idempotency service does with a repeated key is modelled in \<open>Idempotency\<close>.
\<close>

definition validKey :: "string \<Rightarrow> bool" where
  "validKey key \<longleftrightarrow> 8 \<le> length (trim key) \<and> length (trim key) \<le> 120"

definition executeMovement :: "id \<Rightarrow> string \<Rightarrow> movementInput list \<Rightarrow> time \<Rightarrow> db \<Rightarrow> (movementResult list \<times> db) res" where
  "executeMovement emp key ms now d =
     require (validKey key) (BadRequest ''idempotency key'') (moveStockInTransaction emp ms now d)"

definition importItem :: "id \<Rightarrow> id \<Rightarrow> string \<Rightarrow> rat \<Rightarrow> rat \<Rightarrow> time option \<Rightarrow> time \<Rightarrow> db \<Rightarrow> (movementResult list \<times> db) res" where
  "importItem i emp key quantity unitPrice date now d =
     executeMovement emp key
       [\<lparr>im_inventoryItemId = i, im_type = Tx_IMPORT, im_quantity = quantity,
         im_unitPrice = Some unitPrice, im_date = date\<rparr>] now d"

definition exportItem :: "id \<Rightarrow> id \<Rightarrow> string \<Rightarrow> rat \<Rightarrow> time option \<Rightarrow> time \<Rightarrow> db \<Rightarrow> (movementResult list \<times> db) res" where
  "exportItem i emp key quantity date now d =
     executeMovement emp key
       [\<lparr>im_inventoryItemId = i, im_type = Tx_EXPORT, im_quantity = quantity,
         im_unitPrice = None, im_date = date\<rparr>] now d"

definition bulkMove :: "InventoryTxType \<Rightarrow> id \<Rightarrow> string \<Rightarrow> movementInput list \<Rightarrow> time \<Rightarrow> db \<Rightarrow> (movementResult list \<times> db) res" where
  "bulkMove ty emp key items now d =
     assertBulkSize (length items)
     (assertNoDuplicateInventoryItems (map im_inventoryItemId items)
       (executeMovement emp key
          (sort_key im_inventoryItemId (map (\<lambda>m. m\<lparr>im_type := ty\<rparr>) items)) now d))"

definition bulkImport :: "id \<Rightarrow> string \<Rightarrow> movementInput list \<Rightarrow> time \<Rightarrow> db \<Rightarrow> (movementResult list \<times> db) res" where
  "bulkImport = bulkMove Tx_IMPORT"

definition bulkExport :: "id \<Rightarrow> string \<Rightarrow> movementInput list \<Rightarrow> time \<Rightarrow> db \<Rightarrow> (movementResult list \<times> db) res" where
  "bulkExport = bulkMove Tx_EXPORT"

section \<open>Inventory items\<close>

definition activeNamed :: "id \<Rightarrow> namedRow list \<Rightarrow> bool" where
  "activeNamed i rows \<longleftrightarrow> (\<exists>n\<in>set rows. n_id n = i \<and> n_deletedAt n = None)"

definition ensureActiveCategoryExists :: "id \<Rightarrow> db \<Rightarrow> 'a res \<Rightarrow> 'a res" where
  "ensureActiveCategoryExists i d k = require (activeNamed i (categories d)) (NotFound ''inventory category'') k"

definition ensureActiveUnitExists :: "id \<Rightarrow> db \<Rightarrow> 'a res \<Rightarrow> 'a res" where
  "ensureActiveUnitExists i d k = require (activeNamed i (units d)) (NotFound ''unit'') k"

definition ensureItemNameAvailable ::
  "(string \<Rightarrow> string \<Rightarrow> bool) \<Rightarrow> string \<Rightarrow> id \<Rightarrow> id option \<Rightarrow> db \<Rightarrow> 'a res \<Rightarrow> 'a res"
where
  "ensureItemNameAvailable sameName name categoryId excludeId d k =
     require (\<forall>i\<in>set (inventoryItems d). \<not> (sameName (i_name i) name \<and> i_categoryId i = categoryId \<and>
          i_deletedAt i = None \<and> excludeId \<noteq> Some (i_id i)))
       (Conflict ''inventory item name'') k"

record createItemDto =
  ci_name :: string
  ci_stock :: "rat option"
  ci_initialUnitCost :: "rat option"
  ci_reorderPoint :: "rat option"
  ci_categoryId :: id
  ci_unitId :: id

definition optAmount :: "(rat \<Rightarrow> int res) \<Rightarrow> rat option \<Rightarrow> int res" where
  "optAmount f x = (case x of None \<Rightarrow> Inr 0 | Some v \<Rightarrow> f v)"

definition initialTx :: "id \<Rightarrow> id \<Rightarrow> qty \<Rightarrow> money \<Rightarrow> time \<Rightarrow> inventoryTx" where
  "initialTx i item q unitCost now =
     \<lparr>x_id = i, x_inventoryItemId = item, x_orderItemId = None, x_documentLineId = None, x_type = Tx_IMPORT,
      x_quantity = q, x_unitPrice = unitCost, x_total = calculateInventoryValue q unitCost, x_date = now\<rparr>"

definition recordInitialStock :: "id \<Rightarrow> qty \<Rightarrow> money \<Rightarrow> time \<Rightarrow> db \<Rightarrow> db res" where
  "recordInitialStock item q unitCost now d =
     (if 0 < q
      then let x = initialTx (nextId d) item q unitCost now
           in require (txCheck x) (Conflict ''check transaction'')
                (Inr (d\<lparr>nextId := Suc (nextId d), inventoryTxs := inventoryTxs d @ [x]\<rparr>))
      else Inr d)"

definition createItem :: "(string \<Rightarrow> string \<Rightarrow> bool) \<Rightarrow> id \<Rightarrow> createItemDto \<Rightarrow> time \<Rightarrow> db \<Rightarrow> (id \<times> db) res" where
  "createItem sameName emp dto now d =
     andThen (optAmount inventoryNonNegative (ci_stock dto)) (\<lambda>q.
     andThen (optAmount inventoryMoney (ci_initialUnitCost dto)) (\<lambda>unitCost.
     andThen (optAmount inventoryNonNegative (ci_reorderPoint dto)) (\<lambda>reorder.
     assertInventoryEmployee emp d
     (ensureActiveCategoryExists (ci_categoryId dto) d
     (ensureActiveUnitExists (ci_unitId dto) d
     (ensureItemNameAvailable sameName (ci_name dto) (ci_categoryId dto) None d
       (let item = \<lparr>i_id = nextId d, i_name = ci_name dto, i_stock = q, i_reserved = 0, i_avgCost = unitCost,
              i_reorder = reorder, i_categoryId = ci_categoryId dto, i_unitId = ci_unitId dto, i_deletedAt = None\<rparr>
        in require (itemCheck item) (Conflict ''check inventory item'')
           (andThen (recordInitialStock (i_id item) q unitCost now
               (d\<lparr>nextId := Suc (nextId d), inventoryItems := inventoryItems d @ [item]\<rparr>)) (\<lambda>d1.
            Inr (i_id item, enqueue ''inventory'' ''ITEM_CREATED'' (i_id item) [] now
                   (addLog emp ''INVENTORY_ITEM_CREATED'' (i_id item) d1)))))))))))"

record updateItemDto =
  ui_name :: "string option"
  ui_categoryId :: "id option"
  ui_unitId :: "id option"
  ui_reorderPoint :: "rat option"

definition mergeItem :: "updateItemDto \<Rightarrow> qty option \<Rightarrow> inventoryItem \<Rightarrow> inventoryItem" where
  "mergeItem dto reorder i =
     i\<lparr>i_name := orElse (ui_name dto) (i_name i), i_categoryId := orElse (ui_categoryId dto) (i_categoryId i),
       i_unitId := orElse (ui_unitId dto) (i_unitId i), i_reorder := orElse reorder (i_reorder i)\<rparr>"

definition optDecimal :: "rat option \<Rightarrow> qty option res" where
  "optDecimal x = (case x of None \<Rightarrow> Inr None | Some v \<Rightarrow> andThen (inventoryNonNegative v) (\<lambda>q. Inr (Some q)))"

definition updateItem :: "(string \<Rightarrow> string \<Rightarrow> bool) \<Rightarrow> id \<Rightarrow> id \<Rightarrow> updateItemDto \<Rightarrow> time \<Rightarrow> db \<Rightarrow> db res" where
  "updateItem sameName i emp dto now d =
     assertInventoryEmployee emp d
     (ensureActiveItemExists i d (\<lambda>item.
     require (ui_unitId dto = None \<or> ui_unitId dto = Some (i_unitId item)) (Conflict ''INVENTORY_UNIT_IMMUTABLE'')
     ((case ui_categoryId dto of None \<Rightarrow> (\<lambda>k. k) | Some c \<Rightarrow> ensureActiveCategoryExists c d)
     ((if ui_name dto \<noteq> None \<or> ui_categoryId dto \<noteq> None
       then ensureItemNameAvailable sameName (orElse (ui_name dto) (i_name item))
              (orElse (ui_categoryId dto) (i_categoryId item)) (Some i) d
       else (\<lambda>k. k))
     (andThen (optDecimal (ui_reorderPoint dto)) (\<lambda>reorder.
      require (itemCheck (mergeItem dto reorder item)) (Conflict ''check inventory item'')
       (Inr (enqueue ''inventory'' ''ITEM_UPDATED'' i [] now
          (addLog emp ''INVENTORY_ITEM_UPDATED'' i
            (d\<lparr>inventoryItems := upd (\<lambda>r. i_id r = i) (mergeItem dto reorder) (inventoryItems d)\<rparr>))))))))))"

text \<open>Recipes that name an item: of menu items, of their options, and of lines not cooked yet.\<close>

definition baseRecipeLinks :: "id \<Rightarrow> db \<Rightarrow> nat" where
  "baseRecipeLinks i d = cnt (\<lambda>g. g_inventoryItemId g = i) (menuIngredients d)"

definition optionRecipeLinks :: "id \<Rightarrow> db \<Rightarrow> nat" where
  "optionRecipeLinks i d =
     cnt (\<lambda>og. og_inventoryItemId og = i)
       (concat (map mo_ingredients (concat (map gr_options (concat (map mi_groups (menuItems d)))))))"

definition pendingOrderLinks :: "id \<Rightarrow> db \<Rightarrow> nat" where
  "pendingOrderLinks i d =
     cnt (\<lambda>r. r_inventoryItemId r = i \<and>
         (\<exists>oi\<in>set (orderItems d). o_id oi = r_orderItemId r \<and> o_status oi = Serve_PENDING \<and>
            (\<exists>s\<in>set (orderSessions d). s_id s = o_sessionId oi \<and> s_status s = Session_ACTIVE)))
       (recipeRows d)"

definition draftReceiptLinks :: "id \<Rightarrow> db \<Rightarrow> nat" where
  "draftReceiptLinks i d =
     cnt (\<lambda>l. rl_inventoryItemId l = i)
       (concat (map pr_lines (filter (\<lambda>r. pr_status r = Doc_DRAFT) (purchaseReceipts d))))"

definition draftStocktakeLinks :: "id \<Rightarrow> db \<Rightarrow> nat" where
  "draftStocktakeLinks i d =
     cnt (\<lambda>l. sl_inventoryItemId l = i)
       (concat (map st_lines (filter (\<lambda>t. st_status t = Doc_DRAFT) (stocktakes d))))"

definition removeItem :: "id \<Rightarrow> id \<Rightarrow> time \<Rightarrow> db \<Rightarrow> db res" where
  "removeItem i emp now d =
     assertInventoryEmployee emp d
     (ensureActiveItemExists i d (\<lambda>item.
      assertCanDeleteItem (baseRecipeLinks i d + optionRecipeLinks i d + pendingOrderLinks i d)
        (draftReceiptLinks i d + draftStocktakeLinks i d) (i_stock item)
        (Inr (enqueue ''inventory'' ''ITEM_DELETED'' i [] now
          (addLog emp ''INVENTORY_ITEM_DELETED'' i
            (d\<lparr>inventoryItems := upd (\<lambda>r. i_id r = i) (\<lambda>r. r\<lparr>i_deletedAt := Some now\<rparr>) (inventoryItems d)\<rparr>))))))"

section \<open>Units, categories and suppliers\<close>

text \<open>
  The extended client's \<open>findFirst\<close> sees active rows only. A unit's name is looked up before the
  transaction starts; here both read the same committed state.
\<close>

definition nameFree :: "(string \<Rightarrow> string \<Rightarrow> bool) \<Rightarrow> string \<Rightarrow> id option \<Rightarrow> namedRow list \<Rightarrow> bool" where
  "nameFree sameName name excludeId rows \<longleftrightarrow>
     (\<forall>n\<in>set rows. \<not> (sameName (n_name n) name \<and> n_deletedAt n = None \<and> excludeId \<noteq> Some (n_id n)))"

definition newNamed :: "id \<Rightarrow> string \<Rightarrow> namedRow" where
  "newNamed i name = \<lparr>n_id = i, n_name = name, n_deletedAt = None\<rparr>"

definition renameRow :: "id \<Rightarrow> string option \<Rightarrow> namedRow list \<Rightarrow> namedRow list" where
  "renameRow i name rows = upd (\<lambda>n. n_id n = i) (\<lambda>n. n\<lparr>n_name := orElse name (n_name n)\<rparr>) rows"

definition deleteRow :: "id \<Rightarrow> time \<Rightarrow> namedRow list \<Rightarrow> namedRow list" where
  "deleteRow i now rows = upd (\<lambda>n. n_id n = i) (\<lambda>n. n\<lparr>n_deletedAt := Some now\<rparr>) rows"

definition createUnit :: "(string \<Rightarrow> string \<Rightarrow> bool) \<Rightarrow> id \<Rightarrow> string \<Rightarrow> db \<Rightarrow> (id \<times> db) res" where
  "createUnit sameName emp name d =
     require (nameFree sameName name None (units d)) (Conflict ''unit name'')
     (assertInventoryEmployee emp d
       (Inr (nextId d, addLog emp ''INVENTORY_UNIT_CREATED'' (nextId d)
          (d\<lparr>nextId := Suc (nextId d), units := units d @ [newNamed (nextId d) name]\<rparr>))))"

definition updateUnit :: "(string \<Rightarrow> string \<Rightarrow> bool) \<Rightarrow> id \<Rightarrow> id \<Rightarrow> string option \<Rightarrow> db \<Rightarrow> db res" where
  "updateUnit sameName i emp name d =
     ensureActiveUnitExists i d
     (require (case name of None \<Rightarrow> True | Some n \<Rightarrow> nameFree sameName n (Some i) (units d)) (Conflict ''unit name'')
     (assertInventoryEmployee emp d
     (fetch (find (\<lambda>n. n_id n = i \<and> n_deletedAt n = None) (units d)) (NotFound ''unit'') (\<lambda>existing.
      require (name = None \<or> name = Some (n_name existing) \<or> (\<forall>it\<in>set (inventoryItems d). i_unitId it \<noteq> i))
        (Conflict ''INVENTORY_UNIT_IN_USE'')
        (Inr (addLog emp ''INVENTORY_UNIT_UPDATED'' i (d\<lparr>units := renameRow i name (units d)\<rparr>)))))))"

definition removeUnit :: "id \<Rightarrow> id \<Rightarrow> time \<Rightarrow> db \<Rightarrow> db res" where
  "removeUnit i emp now d =
     assertInventoryEmployee emp d
     (ensureActiveUnitExists i d
     (require (cnt (\<lambda>it. i_unitId it = i \<and> i_deletedAt it = None) (inventoryItems d) = 0) (Conflict ''unit in use'')
       (Inr (addLog emp ''INVENTORY_UNIT_DELETED'' i (d\<lparr>units := deleteRow i now (units d)\<rparr>)))))"

definition createCategory :: "(string \<Rightarrow> string \<Rightarrow> bool) \<Rightarrow> id \<Rightarrow> string \<Rightarrow> db \<Rightarrow> (id \<times> db) res" where
  "createCategory sameName emp name d =
     require (nameFree sameName name None (categories d)) (Conflict ''category name'')
     (assertInventoryEmployee emp d
       (Inr (nextId d, addLog emp ''INVENTORY_CATEGORY_CREATED'' (nextId d)
          (d\<lparr>nextId := Suc (nextId d), categories := categories d @ [newNamed (nextId d) name]\<rparr>))))"

definition updateCategory :: "(string \<Rightarrow> string \<Rightarrow> bool) \<Rightarrow> id \<Rightarrow> id \<Rightarrow> string option \<Rightarrow> db \<Rightarrow> db res" where
  "updateCategory sameName i emp name d =
     assertInventoryEmployee emp d
     (ensureActiveCategoryExists i d
     (require (case name of None \<Rightarrow> True | Some n \<Rightarrow> nameFree sameName n (Some i) (categories d)) (Conflict ''category name'')
       (Inr (addLog emp ''INVENTORY_CATEGORY_UPDATED'' i (d\<lparr>categories := renameRow i name (categories d)\<rparr>)))))"

definition removeCategory :: "id \<Rightarrow> id \<Rightarrow> time \<Rightarrow> db \<Rightarrow> db res" where
  "removeCategory i emp now d =
     assertInventoryEmployee emp d
     (ensureActiveCategoryExists i d
     (require (cnt (\<lambda>it. i_categoryId it = i \<and> i_deletedAt it = None) (inventoryItems d) = 0) (Conflict ''category in use'')
       (Inr (addLog emp ''INVENTORY_CATEGORY_DELETED'' i (d\<lparr>categories := deleteRow i now (categories d)\<rparr>)))))"

definition normalizeCode :: "string \<Rightarrow> string" where
  "normalizeCode code = toUpperCase (trim code)"

definition createSupplier :: "(string \<Rightarrow> string \<Rightarrow> bool) \<Rightarrow> id \<Rightarrow> string \<Rightarrow> db \<Rightarrow> (id \<times> db) res" where
  "createSupplier sameName emp code d =
     assertInventoryEmployee emp d
     (require (nameFree sameName (normalizeCode code) None (suppliers d)) (Conflict ''supplier code'')
       (Inr (nextId d, addLog emp ''INVENTORY_SUPPLIER_CREATED'' (nextId d)
          (d\<lparr>nextId := Suc (nextId d), suppliers := suppliers d @ [newNamed (nextId d) (normalizeCode code)]\<rparr>))))"

definition updateSupplier :: "(string \<Rightarrow> string \<Rightarrow> bool) \<Rightarrow> id \<Rightarrow> id \<Rightarrow> string option \<Rightarrow> db \<Rightarrow> db res" where
  "updateSupplier sameName i emp code d =
     assertInventoryEmployee emp d
     (fetch (find (\<lambda>n. n_id n = i \<and> n_deletedAt n = None) (suppliers d)) (NotFound ''supplier'') (\<lambda>existing.
      let newCode = (case code of None \<Rightarrow> n_name existing | Some c \<Rightarrow> normalizeCode c)
      in require (newCode = n_name existing \<or> nameFree sameName newCode (Some i) (suppliers d)) (Conflict ''supplier code'')
        (Inr (addLog emp ''INVENTORY_SUPPLIER_UPDATED'' i
           (d\<lparr>suppliers := renameRow i (Some newCode) (suppliers d)\<rparr>)))))"

definition removeSupplier :: "id \<Rightarrow> id \<Rightarrow> time \<Rightarrow> db \<Rightarrow> db res" where
  "removeSupplier i emp now d =
     assertInventoryEmployee emp d
     (require (activeNamed i (suppliers d)) (NotFound ''supplier'')
     (require (cnt (\<lambda>r. pr_supplierId r = i \<and> pr_status r = Doc_DRAFT) (purchaseReceipts d) = 0)
        (Conflict ''supplier has draft receipts'')
       (Inr (addLog emp ''INVENTORY_SUPPLIER_DELETED'' i (d\<lparr>suppliers := deleteRow i now (suppliers d)\<rparr>)))))"

end
