(* ===== verification/Stock_Documents.thy ===== *)
theory Stock_Documents
  imports Inventory
begin

text \<open>
  Purchase receipts (\<open>purchase-receipt.service.ts\<close>) and stocktakes (\<open>stocktake.service.ts\<close>):
  drafts that are edited, and posted once. Posting works on the rows it has read, so each line
  is a guarded update of its item; the ledger entries are written together after the loop. The
  idempotency service around creating and posting is modelled in \<open>Idempotency\<close>.
\<close>

section \<open>The ledger entries of a document\<close>

record pendingMovement =
  pm_lineId :: id
  pm_inventoryItemId :: id
  pm_type :: InventoryTxType
  pm_quantity :: qty
  pm_unitCost :: money
  pm_total :: money

definition documentTx :: "time \<Rightarrow> id \<times> pendingMovement \<Rightarrow> inventoryTx" where
  "documentTx date p =
     \<lparr>x_id = fst p, x_inventoryItemId = pm_inventoryItemId (snd p), x_orderItemId = None,
      x_documentLineId = Some (pm_lineId (snd p)), x_type = pm_type (snd p), x_quantity = pm_quantity (snd p),
      x_unitPrice = pm_unitCost (snd p), x_total = pm_total (snd p), x_date = date\<rparr>"

text \<open>
  \<open>createManyAndReturn\<close>: one entry per pending movement, at most one per document line
  (a unique index), subject to the table's checks.
\<close>

definition recordMovements ::
  "time \<Rightarrow> pendingMovement list \<Rightarrow> db \<Rightarrow> ((id \<times> pendingMovement) list \<times> db) res"
where
  "recordMovements date pend d =
     (let numbered = zip [nextId d..<nextId d + length pend] pend;
          txs = map (documentTx date) numbered
      in require (distinct (map pm_lineId pend) \<and>
             (\<forall>x\<in>set (inventoryTxs d). x_documentLineId x \<notin> Some ` pm_lineId ` set pend)) (UniqueViolation ''document line'')
         (require (\<forall>x\<in>set txs. txCheck x) (Conflict ''check transaction'')
           (Inr (numbered, d\<lparr>nextId := nextId d + length pend, inventoryTxs := inventoryTxs d @ txs\<rparr>))))"

section \<open>Purchase receipts\<close>

record receiptInput =
  ri_inventoryItemId :: id
  ri_quantity :: rat
  ri_unitPrice :: rat

definition findReceipt :: "db \<Rightarrow> id \<Rightarrow> purchaseReceipt option" where
  "findReceipt d i = find (\<lambda>r. pr_id r = i) (purchaseReceipts d)"

definition setReceipt :: "id \<Rightarrow> (purchaseReceipt \<Rightarrow> purchaseReceipt) \<Rightarrow> db \<Rightarrow> db" where
  "setReceipt i f d = d\<lparr>purchaseReceipts := upd (\<lambda>r. pr_id r = i) f (purchaseReceipts d)\<rparr>"

definition assertActiveSupplier :: "id \<Rightarrow> db \<Rightarrow> 'a res \<Rightarrow> 'a res" where
  "assertActiveSupplier i d k = require (activeNamed i (suppliers d)) (NotFound ''supplier'') k"

text \<open>A prepared line has no id of its own yet; \<open>items: { create: lines }\<close> gives it one.\<close>

definition prepareLine :: "receiptInput \<Rightarrow> receiptLine res" where
  "prepareLine l =
     andThen (inventoryPositive (ri_quantity l)) (\<lambda>q.
     andThen (inventoryMoney (ri_unitPrice l)) (\<lambda>price.
     Inr \<lparr>rl_id = 0, rl_inventoryItemId = ri_inventoryItemId l, rl_quantity = q, rl_unitPrice = price,
          rl_total = calculateInventoryValue q price\<rparr>))"

definition activeItemsAmong :: "id list \<Rightarrow> db \<Rightarrow> inventoryItem list" where
  "activeItemsAmong ids d = filter (\<lambda>i. i_id i \<in> set ids \<and> i_deletedAt i = None) (inventoryItems d)"

definition prepareLines :: "receiptInput list \<Rightarrow> db \<Rightarrow> receiptLine list res" where
  "prepareLines items d =
     (let ids = map ri_inventoryItemId items in
      assertNoDuplicateInventoryItems ids
      (require (length (activeItemsAmong ids d) = length ids) (NotFound ''active inventory items'')
      (andThen (mapM prepareLine items) (\<lambda>lines. Inr (sort_key rl_inventoryItemId lines)))))"

definition receiptTotal :: "receiptLine list \<Rightarrow> money" where
  "receiptTotal lines = foldl (\<lambda>acc l. acc + rl_total l) 0 lines"

definition lineCheck :: "receiptLine \<Rightarrow> bool" where
  "lineCheck l \<longleftrightarrow> 0 < rl_quantity l \<and> fitsMoney (rl_quantity l) \<and> 0 \<le> rl_unitPrice l \<and> fitsMoney (rl_unitPrice l) \<and>
     rl_total l = calculateInventoryValue (rl_quantity l) (rl_unitPrice l) \<and> fitsMoney (rl_total l)"

definition receiptCheck :: "receiptLine list \<Rightarrow> bool" where
  "receiptCheck lines \<longleftrightarrow>
     (\<forall>l\<in>set lines. lineCheck l) \<and> 0 \<le> receiptTotal lines \<and> fitsMoney (receiptTotal lines)"

definition numberLines :: "nat \<Rightarrow> receiptLine list \<Rightarrow> receiptLine list" where
  "numberLines n lines = map (\<lambda>(i, l). l\<lparr>rl_id := i\<rparr>) (zip [n..<n + length lines] lines)"

definition createReceipt ::
  "id \<Rightarrow> id \<Rightarrow> time option \<Rightarrow> receiptInput list \<Rightarrow> time \<Rightarrow> db \<Rightarrow> (id \<times> db) res"
where
  "createReceipt emp supplierId receivedAt items now d =
     assertInventoryEmployee emp d
     (assertActiveSupplier supplierId d
     (andThen (prepareLines items d) (\<lambda>lines.
      require (receiptCheck lines) (Conflict ''check receipt'')
       (let r = \<lparr>pr_id = nextId d, pr_status = Doc_DRAFT, pr_supplierId = supplierId, pr_createdById = emp,
              pr_receivedAt = orElse receivedAt now, pr_updatedAt = now, pr_total = receiptTotal lines,
              pr_lines = numberLines (Suc (nextId d)) lines\<rparr>
        in Inr (pr_id r, addLog emp ''INVENTORY_PURCHASE_RECEIPT_CREATED'' (pr_id r)
             (d\<lparr>nextId := Suc (nextId d + length lines), purchaseReceipts := purchaseReceipts d @ [r]\<rparr>))))))"

definition assertDraftReceipt :: "id \<Rightarrow> db \<Rightarrow> (purchaseReceipt \<Rightarrow> 'a res) \<Rightarrow> 'a res" where
  "assertDraftReceipt i d k =
     fetch (findReceipt d i) (NotFound ''purchase receipt'') (\<lambda>r.
     require (pr_status r = Doc_DRAFT) (Conflict ''only draft receipts'') (k r))"

record updateReceiptDto =
  ur_supplierId :: "id option"
  ur_receivedAt :: "time option"
  ur_items :: "receiptInput list option"

definition optLines :: "receiptInput list option \<Rightarrow> db \<Rightarrow> receiptLine list option res" where
  "optLines items d =
     (case items of None \<Rightarrow> Inr None | Some xs \<Rightarrow> andThen (prepareLines xs d) (\<lambda>lines. Inr (Some lines)))"

definition editReceipt :: "updateReceiptDto \<Rightarrow> receiptLine list option \<Rightarrow> nat \<Rightarrow> time \<Rightarrow> purchaseReceipt \<Rightarrow> purchaseReceipt" where
  "editReceipt dto lines n now r =
     r\<lparr>pr_supplierId := orElse (ur_supplierId dto) (pr_supplierId r),
       pr_receivedAt := orElse (ur_receivedAt dto) (pr_receivedAt r),
       pr_updatedAt := max now (pr_updatedAt r + 1),
       pr_total := (case lines of None \<Rightarrow> pr_total r | Some ls \<Rightarrow> receiptTotal ls),
       pr_lines := (case lines of None \<Rightarrow> pr_lines r | Some ls \<Rightarrow> numberLines n ls)\<rparr>"

definition updateReceipt :: "id \<Rightarrow> id \<Rightarrow> updateReceiptDto \<Rightarrow> time \<Rightarrow> db \<Rightarrow> db res" where
  "updateReceipt i emp dto now d =
     assertInventoryEmployee emp d
     (assertDraftReceipt i d (\<lambda>draft.
     (case ur_supplierId dto of None \<Rightarrow> (\<lambda>k. k) | Some s \<Rightarrow> assertActiveSupplier s d)
     (andThen (optLines (ur_items dto) d) (\<lambda>lines.
      require (case lines of None \<Rightarrow> True | Some ls \<Rightarrow> receiptCheck ls) (Conflict ''check receipt'')
       (Inr (addLog emp ''INVENTORY_PURCHASE_RECEIPT_UPDATED'' i
          (setReceipt i (editReceipt dto lines (nextId d) now)
            (d\<lparr>nextId := nextId d + (case lines of None \<Rightarrow> 0 | Some ls \<Rightarrow> length ls)\<rparr>))))))))"

text \<open>One line: the item as it was read, updated only if its stock and average are still the same.\<close>

definition unchangedCost :: "inventoryItem \<Rightarrow> inventoryItem \<Rightarrow> bool" where
  "unchangedCost item r \<longleftrightarrow> i_id r = i_id item \<and> i_deletedAt r = None \<and>
     i_stock r = i_stock item \<and> i_avgCost r = i_avgCost item"

definition receiveRow :: "inventoryItem \<Rightarrow> receiptLine \<Rightarrow> inventoryItem \<Rightarrow> inventoryItem" where
  "receiveRow item l r =
     r\<lparr>i_stock := i_stock item + rl_quantity l,
       i_avgCost := calculateWeightedAverageCost (i_stock item) (i_avgCost item) (rl_quantity l) (rl_unitPrice l)\<rparr>"

definition postReceiptLine ::
  "db \<Rightarrow> receiptLine \<Rightarrow> inventoryItem list \<times> pendingMovement list \<Rightarrow> (inventoryItem list \<times> pendingMovement list) res"
where
  "postReceiptLine d l st =
     fetch (findItem d (rl_inventoryItemId l)) (NotFound ''inventory item'') (\<lambda>item.
     require (i_deletedAt item = None) (Conflict ''inactive inventory item'')
     (require (cnt (unchangedCost item) (fst st) = 1) (Conflict ''item changed while posting'')
     (require (itemCheck (receiveRow item l item)) (Conflict ''check inventory item'')
       (Inr (upd (unchangedCost item) (receiveRow item l) (fst st),
             snd st @ [\<lparr>pm_lineId = rl_id l, pm_inventoryItemId = i_id item, pm_type = Tx_IMPORT,
               pm_quantity = rl_quantity l, pm_unitCost = rl_unitPrice l, pm_total = rl_total l\<rparr>])))))"

definition postReceipt :: "id \<Rightarrow> id \<Rightarrow> time \<Rightarrow> time \<Rightarrow> db \<Rightarrow> ((id \<times> pendingMovement) list \<times> db) res" where
  "postReceipt i emp expectedUpdatedAt now d =
     assertInventoryEmployee emp d
     (fetch (findReceipt d i) (NotFound ''purchase receipt'') (\<lambda>r.
     require (pr_status r = Doc_DRAFT) (Conflict ''no longer a draft'')
     (require (pr_updatedAt r = expectedUpdatedAt) (Conflict ''INVENTORY_PURCHASE_RECEIPT_CHANGED'')
     (require (\<forall>n\<in>set (suppliers d). n_id n = pr_supplierId r \<longrightarrow> n_deletedAt n = None) (Conflict ''supplier inactive'')
     (require (pr_lines r \<noteq> []) (Conflict ''receipt without items'')
     (let g = (\<lambda>x. pr_id x = i \<and> pr_status x = Doc_DRAFT \<and> pr_updatedAt x = expectedUpdatedAt) in
      require (cnt g (purchaseReceipts d) = 1) (Conflict ''no longer a draft'')
      (let d1 = d\<lparr>purchaseReceipts := upd g (\<lambda>x. x\<lparr>pr_status := Doc_POSTED, pr_updatedAt := now\<rparr>) (purchaseReceipts d)\<rparr>
       in andThen (run_all (postReceiptLine d) (sort_key rl_inventoryItemId (pr_lines r)) (inventoryItems d, [])) (\<lambda>st.
          andThen (recordMovements (pr_receivedAt r) (snd st) (d1\<lparr>inventoryItems := fst st\<rparr>)) (\<lambda>md.
          Inr (fst md, enqueue ''inventory'' ''PURCHASE_RECEIPT_POSTED'' i [] now
                 (addLog emp ''INVENTORY_PURCHASE_RECEIPT_POSTED'' i (snd md))))))))))))"

definition cancelReceipt :: "id \<Rightarrow> id \<Rightarrow> string \<Rightarrow> time \<Rightarrow> db \<Rightarrow> db res" where
  "cancelReceipt i emp reason now d =
     assertInventoryEmployee emp d
     (assertDraftReceipt i d (\<lambda>r.
      let g = (\<lambda>x. pr_id x = i \<and> pr_status x = Doc_DRAFT) in
      require (cnt g (purchaseReceipts d) = 1) (Conflict ''no longer a draft'')
      (require (trim reason \<noteq> []) (Conflict ''check cancellation'')
        (Inr (addLog emp ''INVENTORY_PURCHASE_RECEIPT_CANCELLED'' i
          (d\<lparr>purchaseReceipts := upd g (\<lambda>x. x\<lparr>pr_status := Doc_CANCELLED, pr_updatedAt := now\<rparr>) (purchaseReceipts d)\<rparr>))))))"

section \<open>Stocktakes\<close>

definition findStocktake :: "db \<Rightarrow> id \<Rightarrow> stocktakeRow option" where
  "findStocktake d i = find (\<lambda>t. st_id t = i) (stocktakes d)"

definition snapshotLine :: "id \<times> inventoryItem \<Rightarrow> stocktakeLine" where
  "snapshotLine p =
     \<lparr>sl_id = fst p, sl_inventoryItemId = i_id (snd p), sl_expected = i_stock (snd p), sl_counted = None, sl_difference = None\<rparr>"

definition createStocktake :: "id \<Rightarrow> id list \<Rightarrow> db \<Rightarrow> (id \<times> db) res" where
  "createStocktake emp itemIds d =
     assertInventoryEmployee emp d
     (assertNoDuplicateInventoryItems itemIds
       (let items = sort_key i_id (activeItemsAmong itemIds d);
            t = \<lparr>st_id = nextId d, st_status = Doc_DRAFT, st_createdById = emp,
                 st_lines = map snapshotLine (zip [Suc (nextId d)..<Suc (nextId d) + length items] items)\<rparr>
        in require (length items = length itemIds) (NotFound ''active inventory items'')
           (Inr (st_id t, addLog emp ''INVENTORY_STOCKTAKE_CREATED'' (st_id t)
              (d\<lparr>nextId := Suc (nextId d + length items), stocktakes := stocktakes d @ [t]\<rparr>)))))"

definition assertDraftStocktake :: "id \<Rightarrow> db \<Rightarrow> (stocktakeRow \<Rightarrow> 'a res) \<Rightarrow> 'a res" where
  "assertDraftStocktake i d k =
     fetch (findStocktake d i) (NotFound ''stocktake'') (\<lambda>t.
     require (st_status t = Doc_DRAFT) (Conflict ''only draft stocktakes'') (k t))"

text \<open>Writing one count; any difference from an earlier attempt is forgotten.\<close>

definition setCount :: "id \<times> rat \<Rightarrow> stocktakeLine list \<Rightarrow> stocktakeLine list res" where
  "setCount c lines =
     andThen (inventoryNonNegative (snd c)) (\<lambda>q.
     require (fitsMoney q) (Conflict ''check stocktake line'')
      (Inr (upd (\<lambda>l. sl_inventoryItemId l = fst c) (\<lambda>l. l\<lparr>sl_counted := Some q, sl_difference := None\<rparr>) lines)))"

definition setStocktake :: "id \<Rightarrow> (stocktakeRow \<Rightarrow> stocktakeRow) \<Rightarrow> db \<Rightarrow> db" where
  "setStocktake i f d = d\<lparr>stocktakes := upd (\<lambda>t. st_id t = i) f (stocktakes d)\<rparr>"

definition updateCounts :: "id \<Rightarrow> id \<Rightarrow> (id \<times> rat) list \<Rightarrow> db \<Rightarrow> db res" where
  "updateCounts i emp counts d =
     assertInventoryEmployee emp d
     (assertDraftStocktake i d (\<lambda>t.
     assertNoDuplicateInventoryItems (map fst counts)
     (require (length (filter (\<lambda>l. sl_inventoryItemId l \<in> fst ` set counts) (st_lines t)) = length counts)
        (NotFound ''items of this stocktake'')
     (andThen (run_all setCount (sort_key fst counts) (st_lines t)) (\<lambda>lines.
      Inr (addLog emp ''INVENTORY_STOCKTAKE_COUNTED'' i (setStocktake i (\<lambda>r. r\<lparr>st_lines := lines\<rparr>) d)))))))"

text \<open>The reviewed counts, if the request sends them, must be the stored ones.\<close>

definition decimalCount :: "id \<times> rat \<Rightarrow> (id \<times> qty) res" where
  "decimalCount c = andThen (inventoryNonNegative (snd c)) (\<lambda>q. Inr (fst c, q))"

definition assertReviewedCounts :: "(id \<times> rat) list option \<Rightarrow> stocktakeLine list \<Rightarrow> 'a res \<Rightarrow> 'a res" where
  "assertReviewedCounts expected lines k =
     (case expected of
        None \<Rightarrow> k
      | Some cs \<Rightarrow>
          assertNoDuplicateInventoryItems (map fst cs)
          (andThen (mapM decimalCount cs) (\<lambda>counts.
           require (length counts = length lines \<and> (\<forall>l\<in>set lines. map_of counts (sl_inventoryItemId l) = sl_counted l))
             (Conflict ''INVENTORY_STOCKTAKE_COUNTS_CHANGED'') k)))"

definition snapshotHolds :: "qty \<Rightarrow> qty \<Rightarrow> inventoryItem \<Rightarrow> inventoryItem \<Rightarrow> bool" where
  "snapshotHolds expected counted item r \<longleftrightarrow>
     i_id r = i_id item \<and> i_deletedAt r = None \<and> i_stock r = expected \<and> i_reserved r \<le> counted"

text \<open>The ledger entry of a difference, at the average cost of the item; none if the count agrees.\<close>

definition differenceMovement :: "stocktakeLine \<Rightarrow> inventoryItem \<Rightarrow> qty \<Rightarrow> pendingMovement list" where
  "differenceMovement l item difference =
     (if difference = 0 then []
      else [\<lparr>pm_lineId = sl_id l, pm_inventoryItemId = i_id item,
             pm_type = (if 0 < difference then Tx_IMPORT else Tx_EXPORT), pm_quantity = \<bar>difference\<bar>,
             pm_unitCost = i_avgCost item, pm_total = calculateInventoryValue \<bar>difference\<bar> (i_avgCost item)\<rparr>])"

type_synonym countState = "inventoryItem list \<times> pendingMovement list \<times> stocktakeLine list"

definition postStocktakeLine :: "db \<Rightarrow> stocktakeLine \<Rightarrow> countState \<Rightarrow> countState res" where
  "postStocktakeLine d l st =
     fetch (findItem d (sl_inventoryItemId l)) (NotFound ''inventory item'') (\<lambda>item.
     require (i_deletedAt item = None) (Conflict ''inactive inventory item'')
     (require (i_stock item = sl_expected l) (Conflict ''INVENTORY_STOCKTAKE_SNAPSHOT_STALE'')
     (fetch (sl_counted l) (Conflict ''not counted'') (\<lambda>counted.
     require (i_reserved item \<le> counted) (Conflict ''INVENTORY_STOCKTAKE_RESERVED_STOCK'')
     (let difference = counted - sl_expected l;
          g = snapshotHolds (sl_expected l) counted item
      in require (cnt g (fst st) = 1) (Conflict ''INVENTORY_STOCKTAKE_SNAPSHOT_STALE'')
          (Inr (upd g (\<lambda>r. r\<lparr>i_stock := counted\<rparr>) (fst st),
                fst (snd st) @ differenceMovement l item difference,
                upd (\<lambda>x. sl_id x = sl_id l) (\<lambda>x. x\<lparr>sl_difference := Some difference\<rparr>) (snd (snd st))))))))) "

definition postStocktake ::
  "id \<Rightarrow> id \<Rightarrow> (id \<times> rat) list option \<Rightarrow> time \<Rightarrow> db \<Rightarrow> ((id \<times> pendingMovement) list \<times> db) res"
where
  "postStocktake i emp expectedCounts now d =
     assertInventoryEmployee emp d
     (fetch (findStocktake d i) (NotFound ''stocktake'') (\<lambda>t.
     require (st_status t = Doc_DRAFT) (Conflict ''no longer a draft'')
     (require (st_lines t \<noteq> []) (Conflict ''stocktake without items'')
     (require (\<forall>l\<in>set (st_lines t). sl_counted l \<noteq> None) (Conflict ''every item must be counted'')
     (assertReviewedCounts expectedCounts (st_lines t)
     (let g = (\<lambda>x. st_id x = i \<and> st_status x = Doc_DRAFT) in
      require (cnt g (stocktakes d) = 1) (Conflict ''no longer a draft'')
      (andThen (run_all (postStocktakeLine d) (sort_key sl_inventoryItemId (st_lines t)) (inventoryItems d, [], st_lines t)) (\<lambda>st.
       let d1 = d\<lparr>inventoryItems := fst st,
              stocktakes := upd g (\<lambda>x. x\<lparr>st_status := Doc_POSTED, st_lines := snd (snd st)\<rparr>) (stocktakes d)\<rparr>
       in andThen (recordMovements now (fst (snd st)) d1) (\<lambda>md.
          Inr (fst md, enqueue ''inventory'' ''STOCKTAKE_POSTED'' i [] now
                 (addLog emp ''INVENTORY_STOCKTAKE_POSTED'' i (snd md))))))))))))"

definition cancelStocktake :: "id \<Rightarrow> id \<Rightarrow> string \<Rightarrow> db \<Rightarrow> db res" where
  "cancelStocktake i emp reason d =
     assertInventoryEmployee emp d
     (assertDraftStocktake i d (\<lambda>t.
      let g = (\<lambda>x. st_id x = i \<and> st_status x = Doc_DRAFT) in
      require (cnt g (stocktakes d) = 1) (Conflict ''no longer a draft'')
      (require (trim reason \<noteq> []) (Conflict ''check cancellation'')
        (Inr (addLog emp ''INVENTORY_STOCKTAKE_CANCELLED'' i
          (d\<lparr>stocktakes := upd g (\<lambda>x. x\<lparr>st_status := Doc_CANCELLED\<rparr>) (stocktakes d)\<rparr>))))))"

end
