(* ===== verification/Inventory_Facts.thy ===== *)
theory Inventory_Facts
  imports Stock_Documents Order_System
begin

text \<open>
  What the inventory operations do to the stock tables. Every movement of stock, by hand, by
  purchase receipt or by stocktake, is recorded in the ledger and leaves the reservations alone
  (\<open>restocked\<close>), which is the contract \<open>inventory_invariant\<close> adds to that of the consumption
  service: a property that survives it survives the whole inventory module.
\<close>

section \<open>Recorded movements\<close>

definition rowsMoved :: "(id \<Rightarrow> qty) \<Rightarrow> inventoryItem list \<Rightarrow> inventoryItem list \<Rightarrow> bool" where
  "rowsMoved delta its its' \<longleftrightarrow>
     list_all2 (\<lambda>i i'. i_id i' = i_id i \<and> i_reserved i' = i_reserved i \<and> i_stock i' = i_stock i + delta (i_id i) \<and>
       (i_reserved i \<le> i_stock i \<longrightarrow> i_reserved i' \<le> i_stock i')) its its'"

definition restocked :: "db \<Rightarrow> db \<Rightarrow> bool" where
  "restocked d d' \<longleftrightarrow> reservations d' = reservations d \<and>
     (\<exists>txs. inventoryTxs d' = inventoryTxs d @ txs \<and> rowsMoved (netTx txs) (inventoryItems d) (inventoryItems d'))"

lemma netTx_Nil [simp]: "netTx [] = (\<lambda>_. 0)"
  by (simp add: netTx_def fun_eq_iff)

lemma rowsMoved_refl: "rowsMoved (\<lambda>_. 0) its its"
  by (simp add: rowsMoved_def list_all2_same)

lemma rowsMoved_trans:
  assumes "rowsMoved f its its1" and "rowsMoved g its1 its2"
  shows "rowsMoved (\<lambda>i. f i + g i) its its2"
  unfolding rowsMoved_def
  by (rule list_all2_trans [OF _ assms(1) [unfolded rowsMoved_def] assms(2) [unfolded rowsMoved_def]]) auto

lemma rowsMoved_ids: "rowsMoved f its its' \<Longrightarrow> map i_id its' = map i_id its"
  unfolding rowsMoved_def by (induction rule: list_all2_induct) auto

lemma rowsMoved_mem:
  assumes "rowsMoved f its its'" and "i' \<in> set its'"
  shows "\<exists>i\<in>set its. i_id i' = i_id i \<and> i_reserved i' = i_reserved i \<and> i_stock i' = i_stock i + f (i_id i) \<and>
    (i_reserved i \<le> i_stock i \<longrightarrow> i_reserved i' \<le> i_stock i')"
  using assms unfolding rowsMoved_def by (induction rule: list_all2_induct) auto

lemma rowsMoved_upd:
  "rowsMoved f its (upd P g its) \<longleftrightarrow>
     (\<forall>r\<in>set its. let r' = (if P r then g r else r) in
        i_id r' = i_id r \<and> i_reserved r' = i_reserved r \<and> i_stock r' = i_stock r + f (i_id r) \<and>
        (i_reserved r \<le> i_stock r \<longrightarrow> i_reserved r' \<le> i_stock r'))"
  by (simp add: rowsMoved_def upd_def list_all2_conv_all_nth Let_def all_set_conv_all_nth)

lemma rowsMoved_reserved:
  assumes "rowsMoved f its its'" and "distinct (map i_id its)"
    and "i \<in> set its" and "i' \<in> set its'" and "i_id i' = i_id i"
  shows "i_reserved i' = i_reserved i"
proof -
  have len: "length its' = length its"
    and at: "\<And>k. k < length its \<Longrightarrow> i_id (its' ! k) = i_id (its ! k) \<and> i_reserved (its' ! k) = i_reserved (its ! k)"
    using assms(1) by (auto simp: rowsMoved_def list_all2_conv_all_nth)
  obtain m n where m: "m < length its" "i = its ! m" and n: "n < length its" "i' = its' ! n"
    using assms(3,4) len by (auto simp: in_set_conv_nth)
  have "map i_id its ! n = map i_id its ! m" using assms(5) m n at [of n] by simp
  then have "n = m" using nth_eq_iff_index_eq [OF assms(2), of n m] m n by simp
  then show ?thesis using m n at by simp
qed

lemma restocked_refl [intro]: "reservations d' = reservations d \<Longrightarrow> inventoryTxs d' = inventoryTxs d \<Longrightarrow>
    inventoryItems d' = inventoryItems d \<Longrightarrow> restocked d d'"
  by (simp add: restocked_def rowsMoved_refl)

lemma restocked_trans:
  assumes "restocked d d1" and "restocked d1 d2"
  shows "restocked d d2"
proof -
  obtain t1 t2 where
    t: "inventoryTxs d1 = inventoryTxs d @ t1" "inventoryTxs d2 = inventoryTxs d1 @ t2"
    and r: "reservations d1 = reservations d" "reservations d2 = reservations d1"
    and m: "rowsMoved (netTx t1) (inventoryItems d) (inventoryItems d1)"
      "rowsMoved (netTx t2) (inventoryItems d1) (inventoryItems d2)"
    using assms unfolding restocked_def by blast
  have "rowsMoved (netTx (t1 @ t2)) (inventoryItems d) (inventoryItems d2)"
    using rowsMoved_trans [OF m] by (simp add: rowsMoved_def)
  with t r show ?thesis unfolding restocked_def by auto
qed

lemma restocked_frame:
  "restocked d d1 \<Longrightarrow> inventoryItems d2 = inventoryItems d1 \<Longrightarrow> reservations d2 = reservations d1 \<Longrightarrow>
     inventoryTxs d2 = inventoryTxs d1 \<Longrightarrow> restocked d d2"
  by (simp add: restocked_def)

lemma restocked_ids: "restocked d d' \<Longrightarrow> map i_id (inventoryItems d') = map i_id (inventoryItems d)"
  unfolding restocked_def using rowsMoved_ids by blast

section \<open>Movements by hand\<close>

lemma findActiveItemD: "findActiveItem d i = Some it \<Longrightarrow> it \<in> set (inventoryItems d) \<and> i_id it = i \<and> i_deletedAt it = None"
  by (auto simp: findActiveItem_def dest: find_SomeD)

lemma findItemD: "findItem d i = Some it \<Longrightarrow> it \<in> set (inventoryItems d) \<and> i_id it = i"
  by (auto simp: findItem_def dest: find_SomeD)

lemma inventoryPositive_Inr: "inventoryPositive x = Inr q \<longleftrightarrow> 0 < q \<and> q = to_dp 4 x"
  by (auto simp: inventoryPositive_def Let_def)

lemma inventoryNonNegative_Inr: "inventoryNonNegative x = Inr q \<longleftrightarrow> 0 \<le> q \<and> q = to_dp 4 x"
  by (auto simp: inventoryNonNegative_def Let_def)

lemma inventoryMoney_Inr: "inventoryMoney x = Inr q \<longleftrightarrow> 0 \<le> q \<and> q = to_dp 2 x"
  by (auto simp: inventoryMoney_def Let_def)

text \<open>A guarded update that reports one row changed exactly the row of that key.\<close>

lemma guarded_row:
  assumes "distinct (map key t)" and "cnt P t = 1" and "\<And>r. P r \<Longrightarrow> key r = k" and "r \<in> set t" and "key r = k"
  shows "P r"
proof -
  obtain r0 where "r0 \<in> set t" "P r0" using assms(2) cnt_pos_iff [of P t] by auto
  moreover from this have "r0 = r" using distinct_key_eq [OF assms(1), of r0 r] assms(3,4,5) by metis
  ultimately show ?thesis by simp
qed

lemma moveStock_rows:
  assumes "moveStock ty item q c its = Inr its'" and "distinct (map i_id its)" and "0 < q"
  shows "rowsMoved (\<lambda>i. if i = i_id item then (if ty = Tx_IMPORT then q else - q) else 0) its its'"
proof (cases "ty = Tx_EXPORT")
  case True
  then have one: "cnt (exportable q item) its = 1" and its': "its' = upd (exportable q item) (exportRow q) its"
    using assms(1) by (auto simp: moveStock_def)
  have hit: "exportable q item r" if "r \<in> set its" "i_id r = i_id item" for r
    by (rule guarded_row [OF assms(2) one _ that]) (simp add: exportable_def)
  show ?thesis
    unfolding its' rowsMoved_upd
  proof
    fix r assume r: "r \<in> set its"
    show "let r' = if exportable q item r then exportRow q r else r in
        i_id r' = i_id r \<and> i_reserved r' = i_reserved r \<and>
        i_stock r' = i_stock r + (if i_id r = i_id item then (if ty = Tx_IMPORT then q else - q) else 0) \<and>
        (i_reserved r \<le> i_stock r \<longrightarrow> i_reserved r' \<le> i_stock r')"
    proof (cases "i_id r = i_id item")
      case eq: True
      then have "exportable q item r" using hit r by simp
      then show ?thesis using True eq by (simp add: exportRow_def) (simp add: exportable_def)
    next
      case False
      then have "\<not> exportable q item r" by (simp add: exportable_def)
      then show ?thesis using False by simp
    qed
  qed
next
  case False
  then have ty: "ty = Tx_IMPORT" by (cases ty) simp_all
  then have "its' = upd (\<lambda>r. i_id r = i_id item) (importRow item q c) its"
    using assms(1) by (auto simp: moveStock_def Let_def)
  then show ?thesis using ty assms(3) by (simp add: rowsMoved_upd importRow_def)
qed

lemma applyMovement_restocked:
  assumes "applyMovement now m d = Inr (mv, d')" and "distinct (map i_id (inventoryItems d))"
  shows "restocked d d'"
proof -
  obtain item q c its where
    item: "findActiveItem d (im_inventoryItemId m) = Some item" and q: "inventoryPositive (im_quantity m) = Inr q"
    and move: "moveStock (im_type m) item q c (inventoryItems d) = Inr its"
    and d': "d' = d\<lparr>nextId := Suc (nextId d), inventoryItems := its, inventoryTxs := inventoryTxs d @ [movementTx (nextId d) m q c now]\<rparr>"
    using assms(1) by (auto simp: applyMovement_def ensureActiveItemExists_def Let_def)
  have "rowsMoved (\<lambda>i. if i = i_id item then (if im_type m = Tx_IMPORT then q else - q) else 0) (inventoryItems d) its"
    by (rule moveStock_rows [OF move assms(2)]) (use q in \<open>simp add: inventoryPositive_Inr\<close>)
  moreover have "(\<lambda>i. if i = i_id item then (if im_type m = Tx_IMPORT then q else - q) else 0)
      = netTx [movementTx (nextId d) m q c now]"
    using findActiveItemD [OF item] by (auto simp: netTx_def movementTx_def signedQty_def fun_eq_iff split: InventoryTxType.splits)
  ultimately have "rowsMoved (netTx [movementTx (nextId d) m q c now]) (inventoryItems d) its" by simp
  then show ?thesis unfolding restocked_def d' by (intro conjI exI [of _ "[movementTx (nextId d) m q c now]"]) simp_all
qed

lemma pushMovement_Inr:
  "pushMovement now m (mvs, d) = Inr rd \<longleftrightarrow> (\<exists>mv d1. applyMovement now m d = Inr (mv, d1) \<and> rd = (mvs @ [mv], d1))"
  by (auto simp: pushMovement_def)

lemma movements_restocked:
  assumes "run_all (pushMovement now) ms (mvs, d) = Inr (mvs', d')" and "distinct (map i_id (inventoryItems d))"
  shows "restocked d d'"
  using assms
proof (induction ms arbitrary: mvs d)
  case Nil
  then show ?case by auto
next
  case (Cons m ms)
  obtain mv d1 where one: "applyMovement now m d = Inr (mv, d1)"
    and rest: "run_all (pushMovement now) ms (mvs @ [mv], d1) = Inr (mvs', d')"
    using Cons.prems(1) by (auto simp: pushMovement_Inr)
  have r: "restocked d d1" by (rule applyMovement_restocked [OF one Cons.prems(2)])
  have "restocked d1 d'" by (rule Cons.IH [OF rest]) (use restocked_ids [OF r] Cons.prems(2) in simp)
  with r show ?case by (rule restocked_trans)
qed

lemma stockEvent_sel:
  "inventoryItems (enqueueStockEvent mvs now d) = inventoryItems d" "reservations (enqueueStockEvent mvs now d) = reservations d"
  "inventoryTxs (enqueueStockEvent mvs now d) = inventoryTxs d"
  by (simp_all add: enqueueStockEvent_def split: list.splits)

lemma executeMovement_restocked:
  assumes "executeMovement emp key ms now d = Inr (mvs, d')" and "distinct (map i_id (inventoryItems d))"
  shows "restocked d d'"
proof -
  obtain rd where rd: "run_all (pushMovement now) ms ([], d) = Inr rd"
    and d': "d' = enqueueStockEvent (fst rd) now (addLog emp (movementAction ms) 0 (snd rd))"
    using assms(1) by (auto simp: executeMovement_def moveStockInTransaction_def assertInventoryEmployee_def)
  have "restocked d (snd rd)" by (rule movements_restocked [of now ms "[]" d "fst rd"]) (use rd assms(2) in simp_all)
  then show ?thesis by (rule restocked_frame) (simp_all add: d' stockEvent_sel)
qed

lemma importItem_restocked:
  "importItem i emp key q p date now d = Inr (mvs, d') \<Longrightarrow> distinct (map i_id (inventoryItems d)) \<Longrightarrow> restocked d d'"
  unfolding importItem_def by (rule executeMovement_restocked)

lemma exportItem_restocked:
  "exportItem i emp key q date now d = Inr (mvs, d') \<Longrightarrow> distinct (map i_id (inventoryItems d)) \<Longrightarrow> restocked d d'"
  unfolding exportItem_def by (rule executeMovement_restocked)

lemma bulkMove_restocked:
  assumes "bulkMove ty emp key items now d = Inr (mvs, d')" and "distinct (map i_id (inventoryItems d))"
  shows "restocked d d'"
  by (rule executeMovement_restocked [OF _ assms(2)])
     (use assms(1) in \<open>auto simp: bulkMove_def assertBulkSize_def assertNoDuplicateInventoryItems_def\<close>)

section \<open>Documents\<close>

definition pendingNet :: "pendingMovement list \<Rightarrow> id \<Rightarrow> qty" where
  "pendingNet pend i =
     sumw (\<lambda>p. pm_inventoryItemId p = i) (\<lambda>p. if pm_type p = Tx_IMPORT then pm_quantity p else - pm_quantity p) pend"

lemma pendingNet_Nil [simp]: "pendingNet [] = (\<lambda>_. 0)"
  by (simp add: pendingNet_def fun_eq_iff)

lemma pendingNet_append [simp]: "pendingNet (xs @ ys) i = pendingNet xs i + pendingNet ys i"
  by (simp add: pendingNet_def)

lemma netTx_documents:
  "length ns = length pend \<Longrightarrow> netTx (map (documentTx date) (zip ns pend)) = pendingNet pend"
  by (induction ns pend rule: list_induct2)
     (auto simp: netTx_def pendingNet_def documentTx_def signedQty_def fun_eq_iff split: InventoryTxType.splits)

lemma recordMovements_effect:
  assumes "recordMovements date pend d = Inr (numbered, d')"
  shows "inventoryItems d' = inventoryItems d" "reservations d' = reservations d"
    "\<exists>txs. inventoryTxs d' = inventoryTxs d @ txs \<and> netTx txs = pendingNet pend"
    "p \<in> set pend \<Longrightarrow> 0 < pm_quantity p"
proof -
  let ?ns = "[nextId d..<nextId d + length pend]"
  have d': "d' = d\<lparr>nextId := nextId d + length pend, inventoryTxs := inventoryTxs d @ map (documentTx date) (zip ?ns pend)\<rparr>"
    and check: "\<forall>x\<in>set (map (documentTx date) (zip ?ns pend)). txCheck x"
    using assms by (auto simp: recordMovements_def Let_def)
  show "inventoryItems d' = inventoryItems d" "reservations d' = reservations d" by (simp_all add: d')
  show "\<exists>txs. inventoryTxs d' = inventoryTxs d @ txs \<and> netTx txs = pendingNet pend"
    using netTx_documents [of ?ns pend date] by (auto simp: d')
  show "0 < pm_quantity p" if "p \<in> set pend"
  proof -
    from that have "p \<in> snd ` set (zip ?ns pend)" by (simp add: set_map [symmetric] del: set_map)
    then obtain x where "x \<in> set (zip ?ns pend)" "p = snd x" by blast
    with check show ?thesis by (fastforce simp: txCheck_def documentTx_def)
  qed
qed

lemma postReceiptLine_rows:
  assumes "postReceiptLine d l (its, pend) = Inr st'" and key: "distinct (map i_id (inventoryItems d))"
    and moved: "rowsMoved (pendingNet pend) (inventoryItems d) its" and "0 < rl_quantity l"
  shows "rowsMoved (pendingNet (snd st')) (inventoryItems d) (fst st')"
proof -
  obtain item where item: "findItem d (rl_inventoryItemId l) = Some item"
    and one: "cnt (unchangedCost item) its = 1"
    and st': "fst st' = upd (unchangedCost item) (receiveRow item l) its"
      "snd st' = pend @ [\<lparr>pm_lineId = rl_id l, pm_inventoryItemId = i_id item, pm_type = Tx_IMPORT,
               pm_quantity = rl_quantity l, pm_unitCost = rl_unitPrice l, pm_total = rl_total l\<rparr>]"
    using assms(1) by (auto simp: postReceiptLine_def)
  have dist: "distinct (map i_id its)" using key rowsMoved_ids [OF moved] by simp
  have hit: "unchangedCost item r" if "r \<in> set its" "i_id r = i_id item" for r
    by (rule guarded_row [OF dist one _ that]) (simp add: unchangedCost_def)
  have "rowsMoved (\<lambda>i. if i = i_id item then rl_quantity l else 0) its (fst st')"
    unfolding st' rowsMoved_upd
  proof
    fix r assume r: "r \<in> set its"
    show "let r' = if unchangedCost item r then receiveRow item l r else r in
        i_id r' = i_id r \<and> i_reserved r' = i_reserved r \<and>
        i_stock r' = i_stock r + (if i_id r = i_id item then rl_quantity l else 0) \<and>
        (i_reserved r \<le> i_stock r \<longrightarrow> i_reserved r' \<le> i_stock r')"
    proof (cases "i_id r = i_id item")
      case True
      then have "unchangedCost item r" using hit r by simp
      then show ?thesis using True assms(4) by (simp add: receiveRow_def) (simp add: unchangedCost_def)
    next
      case False
      then have "\<not> unchangedCost item r" by (simp add: unchangedCost_def)
      then show ?thesis using False by simp
    qed
  qed
  then have "rowsMoved (\<lambda>i. pendingNet pend i + (if i = i_id item then rl_quantity l else 0)) (inventoryItems d) (fst st')"
    by (rule rowsMoved_trans [OF moved])
  moreover have "pendingNet (snd st') = (\<lambda>i. pendingNet pend i + (if i = i_id item then rl_quantity l else 0))"
    by (simp add: st' fun_eq_iff) (simp add: pendingNet_def)
  ultimately show ?thesis by simp
qed

lemma postReceiptLines_pending:
  assumes "run_all (postReceiptLine d) lines st = Inr st'"
  shows "map pm_quantity (snd st') = map pm_quantity (snd st) @ map rl_quantity lines"
  using assms
proof (induction lines arbitrary: st)
  case (Cons l ls)
  then obtain st1 where one: "postReceiptLine d l st = Inr st1" and rest: "run_all (postReceiptLine d) ls st1 = Inr st'" by auto
  have "map pm_quantity (snd st1) = map pm_quantity (snd st) @ [rl_quantity l]"
    using one by (auto simp: postReceiptLine_def)
  then show ?case using Cons.IH [OF rest] by simp
qed simp

lemma postReceiptLines_rows:
  assumes "run_all (postReceiptLine d) lines st = Inr st'" and "distinct (map i_id (inventoryItems d))"
    and "rowsMoved (pendingNet (snd st)) (inventoryItems d) (fst st)" and "\<forall>l\<in>set lines. 0 < rl_quantity l"
  shows "rowsMoved (pendingNet (snd st')) (inventoryItems d) (fst st')"
  by (rule run_all_invariant [where P = "\<lambda>st. rowsMoved (pendingNet (snd st)) (inventoryItems d) (fst st)", OF assms(1,3)])
     (use assms(2,4) postReceiptLine_rows in \<open>metis prod.collapse\<close>)

text \<open>What posting a receipt did, for the proofs about it.\<close>

lemma postReceipt_steps:
  assumes "postReceipt i emp expected now d = Inr (mvs, d')"
  obtains r st md where
    "findReceipt d i = Some r" "pr_status r = Doc_DRAFT" "pr_updatedAt r = expected" "pr_lines r \<noteq> []"
    "run_all (postReceiptLine d) (sort_key rl_inventoryItemId (pr_lines r)) (inventoryItems d, []) = Inr st"
    "recordMovements (pr_receivedAt r) (snd st)
       (d\<lparr>purchaseReceipts := upd (\<lambda>x. pr_id x = i \<and> pr_status x = Doc_DRAFT \<and> pr_updatedAt x = expected)
            (\<lambda>x. x\<lparr>pr_status := Doc_POSTED, pr_updatedAt := now\<rparr>) (purchaseReceipts d), inventoryItems := fst st\<rparr>) = Inr (mvs, md)"
    "d' = enqueue ''inventory'' ''PURCHASE_RECEIPT_POSTED'' i [] now (addLog emp ''INVENTORY_PURCHASE_RECEIPT_POSTED'' i md)"
  using assms by (auto simp: postReceipt_def assertInventoryEmployee_def Let_def)

lemma postReceipt_restocked:
  assumes "postReceipt i emp expected now d = Inr (mvs, d')" and key: "distinct (map i_id (inventoryItems d))"
  shows "restocked d d'"
proof -
  obtain r :: purchaseReceipt and st md where
    run: "run_all (postReceiptLine d) (sort_key rl_inventoryItemId (pr_lines r)) (inventoryItems d, []) = Inr st"
    and rec: "recordMovements (pr_receivedAt r) (snd st) (d\<lparr>purchaseReceipts := upd (\<lambda>x. pr_id x = i \<and> pr_status x = Doc_DRAFT \<and> pr_updatedAt x = expected)
            (\<lambda>x. x\<lparr>pr_status := Doc_POSTED, pr_updatedAt := now\<rparr>) (purchaseReceipts d), inventoryItems := fst st\<rparr>) = Inr (mvs, md)"
    and d': "d' = enqueue ''inventory'' ''PURCHASE_RECEIPT_POSTED'' i [] now (addLog emp ''INVENTORY_PURCHASE_RECEIPT_POSTED'' i md)"
    by (rule postReceipt_steps [OF assms(1)]) (rule that, assumption+)
  note eff = recordMovements_effect [OF rec]
  have "q \<in> set (map pm_quantity (snd st)) \<Longrightarrow> 0 < q" for q using eff(4) by auto
  then have pos: "\<forall>l\<in>set (sort_key rl_inventoryItemId (pr_lines r)). 0 < rl_quantity l"
    using postReceiptLines_pending [OF run] by simp
  have "rowsMoved (pendingNet (snd st)) (inventoryItems d) (fst st)"
    by (rule postReceiptLines_rows [OF run key _ pos]) (simp add: rowsMoved_refl)
  then have "restocked d md" using eff(1,2,3) unfolding restocked_def by auto
  then show ?thesis by (rule restocked_frame) (simp_all add: d')
qed

lemma postStocktakeLine_rows:
  assumes "postStocktakeLine d l st = Inr st'" and key: "distinct (map i_id (inventoryItems d))"
    and moved: "rowsMoved (pendingNet (fst (snd st))) (inventoryItems d) (fst st)"
  shows "rowsMoved (pendingNet (fst (snd st'))) (inventoryItems d) (fst st')"
proof -
  obtain item counted where item: "findItem d (sl_inventoryItemId l) = Some item"
    and one: "cnt (snapshotHolds (sl_expected l) counted item) (fst st) = 1"
    and st': "fst st' = upd (snapshotHolds (sl_expected l) counted item) (\<lambda>r. r\<lparr>i_stock := counted\<rparr>) (fst st)"
      "fst (snd st') = fst (snd st) @ differenceMovement l item (counted - sl_expected l)"
    using assms(1) by (auto simp: postStocktakeLine_def Let_def)
  let ?g = "snapshotHolds (sl_expected l) counted item"
  have dist: "distinct (map i_id (fst st))" using key rowsMoved_ids [OF moved] by simp
  have hit: "?g r" if "r \<in> set (fst st)" "i_id r = i_id item" for r
    by (rule guarded_row [OF dist one _ that]) (simp add: snapshotHolds_def)
  have "rowsMoved (\<lambda>i. if i = i_id item then counted - sl_expected l else 0) (fst st) (fst st')"
    unfolding st' rowsMoved_upd
  proof
    fix r assume r: "r \<in> set (fst st)"
    show "let r' = if ?g r then r\<lparr>i_stock := counted\<rparr> else r in
        i_id r' = i_id r \<and> i_reserved r' = i_reserved r \<and>
        i_stock r' = i_stock r + (if i_id r = i_id item then counted - sl_expected l else 0) \<and>
        (i_reserved r \<le> i_stock r \<longrightarrow> i_reserved r' \<le> i_stock r')"
    proof (cases "i_id r = i_id item")
      case True
      then have "?g r" using hit r by simp
      then show ?thesis using True by simp (simp add: snapshotHolds_def)
    next
      case False
      then have "\<not> ?g r" by (simp add: snapshotHolds_def)
      then show ?thesis using False by simp
    qed
  qed
  then have "rowsMoved (\<lambda>i. pendingNet (fst (snd st)) i + (if i = i_id item then counted - sl_expected l else 0))
      (inventoryItems d) (fst st')"
    by (rule rowsMoved_trans [OF moved])
  moreover have "pendingNet (fst (snd st')) =
      (\<lambda>i. pendingNet (fst (snd st)) i + (if i = i_id item then counted - sl_expected l else 0))"
    by (simp add: st' fun_eq_iff) (simp add: pendingNet_def differenceMovement_def)
  ultimately show ?thesis by simp
qed

lemma postStocktakeLines_rows:
  assumes "run_all (postStocktakeLine d) lines st = Inr st'" and "distinct (map i_id (inventoryItems d))"
    and "rowsMoved (pendingNet (fst (snd st))) (inventoryItems d) (fst st)"
  shows "rowsMoved (pendingNet (fst (snd st'))) (inventoryItems d) (fst st')"
  by (rule run_all_invariant [where P = "\<lambda>st. rowsMoved (pendingNet (fst (snd st))) (inventoryItems d) (fst st)", OF assms(1,3)])
     (use assms(2) postStocktakeLine_rows in blast)

lemma reviewedCounts_Inr: "assertReviewedCounts expected lines k = Inr x \<Longrightarrow> k = Inr x"
  by (auto simp: assertReviewedCounts_def assertNoDuplicateInventoryItems_def split: option.splits)

lemma postStocktake_steps:
  assumes "postStocktake i emp expected now d = Inr (mvs, d')"
  obtains t st md where
    "findStocktake d i = Some t" "st_status t = Doc_DRAFT" "st_lines t \<noteq> []"
    "run_all (postStocktakeLine d) (sort_key sl_inventoryItemId (st_lines t)) (inventoryItems d, [], st_lines t) = Inr st"
    "recordMovements now (fst (snd st))
       (d\<lparr>inventoryItems := fst st,
          stocktakes := upd (\<lambda>x. st_id x = i \<and> st_status x = Doc_DRAFT)
            (\<lambda>x. x\<lparr>st_status := Doc_POSTED, st_lines := snd (snd st)\<rparr>) (stocktakes d)\<rparr>) = Inr (mvs, md)"
    "d' = enqueue ''inventory'' ''STOCKTAKE_POSTED'' i [] now (addLog emp ''INVENTORY_STOCKTAKE_POSTED'' i md)"
  using assms by (auto simp: postStocktake_def assertInventoryEmployee_def Let_def dest!: reviewedCounts_Inr)

lemma postStocktake_restocked:
  assumes "postStocktake i emp expected now d = Inr (mvs, d')" and key: "distinct (map i_id (inventoryItems d))"
  shows "restocked d d'"
proof -
  obtain t :: stocktakeRow and st md where
    run: "run_all (postStocktakeLine d) (sort_key sl_inventoryItemId (st_lines t)) (inventoryItems d, [], st_lines t) = Inr st"
    and rec: "recordMovements now (fst (snd st)) (d\<lparr>inventoryItems := fst st,
          stocktakes := upd (\<lambda>x. st_id x = i \<and> st_status x = Doc_DRAFT)
            (\<lambda>x. x\<lparr>st_status := Doc_POSTED, st_lines := snd (snd st)\<rparr>) (stocktakes d)\<rparr>) = Inr (mvs, md)"
    and d': "d' = enqueue ''inventory'' ''STOCKTAKE_POSTED'' i [] now (addLog emp ''INVENTORY_STOCKTAKE_POSTED'' i md)"
    by (rule postStocktake_steps [OF assms(1)]) (rule that, assumption+)
  note eff = recordMovements_effect [OF rec]
  have "rowsMoved (pendingNet (fst (snd st))) (inventoryItems d) (fst st)"
    using postStocktakeLines_rows [OF run key] by (simp add: rowsMoved_refl)
  then have "restocked d md" using eff(1,2,3) unfolding restocked_def by auto
  then show ?thesis by (rule restocked_frame) (simp_all add: d')
qed

section \<open>New items\<close>

text \<open>References point at existing rows, and new ids are new.\<close>

definition stock_refs :: "db \<Rightarrow> bool" where
  "stock_refs d \<longleftrightarrow> (\<forall>i\<in>set (inventoryItems d). i_id i < nextId d) \<and>
     (\<forall>h\<in>set (reservations d). h_inventoryItemId h < nextId d) \<and>
     (\<forall>x\<in>set (inventoryTxs d). x_inventoryItemId x < nextId d)"

definition item_added :: "db \<Rightarrow> db \<Rightarrow> bool" where
  "item_added d d' \<longleftrightarrow> reservations d' = reservations d \<and>
     (\<exists>it txs. inventoryItems d' = inventoryItems d @ [it] \<and> inventoryTxs d' = inventoryTxs d @ txs \<and>
        i_reserved it = 0 \<and> 0 \<le> i_stock it \<and> i_stock it = netTx txs (i_id it) \<and>
        (\<forall>x\<in>set txs. x_inventoryItemId x = i_id it) \<and>
        (\<forall>i\<in>set (inventoryItems d). i_id i \<noteq> i_id it) \<and>
        (\<forall>h\<in>set (reservations d). h_inventoryItemId h \<noteq> i_id it) \<and>
        (\<forall>x\<in>set (inventoryTxs d). x_inventoryItemId x \<noteq> i_id it))"

lemma recordInitialStock_effect:
  assumes "recordInitialStock item q c now d = Inr d'" and "0 \<le> q"
  shows "inventoryItems d' = inventoryItems d \<and> reservations d' = reservations d \<and>
    (\<exists>txs. inventoryTxs d' = inventoryTxs d @ txs \<and> netTx txs item = q \<and> (\<forall>x\<in>set txs. x_inventoryItemId x = item))"
proof (cases "0 < q")
  case True
  then have "d' = d\<lparr>nextId := Suc (nextId d), inventoryTxs := inventoryTxs d @ [initialTx (nextId d) item q c now]\<rparr>"
    using assms(1) by (simp add: recordInitialStock_def Let_def)
  then show ?thesis
    by (intro conjI exI [of _ "[initialTx (nextId d) item q c now]"]) (simp_all add: netTx_def initialTx_def signedQty_def)
next
  case False
  then show ?thesis using assms by (auto simp: recordInitialStock_def)
qed

lemma optAmount_nonneg: "optAmount inventoryNonNegative x = Inr q \<Longrightarrow> 0 \<le> q"
  by (auto simp: optAmount_def inventoryNonNegative_Inr split: option.splits)

lemma createItem_added:
  assumes "createItem sameName emp dto now d = Inr (n, d')" and refs: "stock_refs d"
  shows "item_added d d'"
proof -
  obtain q c reorder d1 where q: "optAmount inventoryNonNegative (ci_stock dto) = Inr q"
    and init: "recordInitialStock (nextId d) q c now (d\<lparr>nextId := Suc (nextId d), inventoryItems := inventoryItems d @
        [\<lparr>i_id = nextId d, i_name = ci_name dto, i_stock = q, i_reserved = 0, i_avgCost = c,
          i_reorder = reorder, i_categoryId = ci_categoryId dto, i_unitId = ci_unitId dto, i_deletedAt = None\<rparr>]\<rparr>) = Inr d1"
    and d': "d' = enqueue ''inventory'' ''ITEM_CREATED'' (nextId d) [] now (addLog emp ''INVENTORY_ITEM_CREATED'' (nextId d) d1)"
    using assms(1)
    by (auto simp: createItem_def assertInventoryEmployee_def ensureActiveCategoryExists_def ensureActiveUnitExists_def
        ensureItemNameAvailable_def Let_def)
  have q0: "0 \<le> q" by (rule optAmount_nonneg [OF q])
  obtain txs where "inventoryTxs d1 = inventoryTxs d @ txs" "netTx txs (nextId d) = q" "\<forall>x\<in>set txs. x_inventoryItemId x = nextId d"
    using recordInitialStock_effect [OF init q0] by auto
  moreover have "inventoryItems d1 = inventoryItems d @
        [\<lparr>i_id = nextId d, i_name = ci_name dto, i_stock = q, i_reserved = 0, i_avgCost = c,
          i_reorder = reorder, i_categoryId = ci_categoryId dto, i_unitId = ci_unitId dto, i_deletedAt = None\<rparr>]"
    "reservations d1 = reservations d"
    using recordInitialStock_effect [OF init q0] by simp_all
  ultimately show ?thesis
    using refs q0 by (auto simp: item_added_def d' stock_refs_def)
qed

section \<open>Changes that move no stock\<close>

lemma updateItem_restocked: "updateItem sameName i emp dto now d = Inr d' \<Longrightarrow> restocked d d'"
  unfolding restocked_def updateItem_def assertInventoryEmployee_def ensureActiveItemExists_def
  by (intro conjI exI [of _ "[]"])
     (auto simp: rowsMoved_upd mergeItem_def ensureActiveCategoryExists_def ensureItemNameAvailable_def
       split: option.splits if_splits)

lemma removeItem_restocked: "removeItem i emp now d = Inr d' \<Longrightarrow> restocked d d'"
  unfolding restocked_def removeItem_def assertInventoryEmployee_def ensureActiveItemExists_def assertCanDeleteItem_def
  by (intro conjI exI [of _ "[]"]) (auto simp: rowsMoved_upd)

lemma named_restocked:
  "createUnit sameName emp name d = Inr (n, d') \<Longrightarrow> restocked d d'"
  "updateUnit sameName i emp nm d = Inr d' \<Longrightarrow> restocked d d'"
  "removeUnit i emp now d = Inr d' \<Longrightarrow> restocked d d'"
  "createCategory sameName emp name d = Inr (n, d') \<Longrightarrow> restocked d d'"
  "updateCategory sameName i emp nm d = Inr d' \<Longrightarrow> restocked d d'"
  "removeCategory i emp now d = Inr d' \<Longrightarrow> restocked d d'"
  "createSupplier sameName emp name d = Inr (n, d') \<Longrightarrow> restocked d d'"
  "updateSupplier sameName i emp nm d = Inr d' \<Longrightarrow> restocked d d'"
  "removeSupplier i emp now d = Inr d' \<Longrightarrow> restocked d d'"
  by (auto simp: createUnit_def updateUnit_def removeUnit_def createCategory_def updateCategory_def removeCategory_def
      createSupplier_def updateSupplier_def removeSupplier_def assertInventoryEmployee_def ensureActiveUnitExists_def
      ensureActiveCategoryExists_def Let_def intro!: restocked_refl)

lemma draft_restocked:
  "createReceipt emp s at' items now d = Inr (n, d') \<Longrightarrow> restocked d d'"
  "updateReceipt i emp rdto now d = Inr d' \<Longrightarrow> restocked d d'"
  "cancelReceipt i emp reason now d = Inr d' \<Longrightarrow> restocked d d'"
  "createStocktake emp ids d = Inr (n, d') \<Longrightarrow> restocked d d'"
  "updateCounts i emp counts d = Inr d' \<Longrightarrow> restocked d d'"
  "cancelStocktake i emp reason d = Inr d' \<Longrightarrow> restocked d d'"
  by (auto simp: createReceipt_def updateReceipt_def cancelReceipt_def createStocktake_def updateCounts_def cancelStocktake_def
      assertInventoryEmployee_def assertActiveSupplier_def assertDraftReceipt_def assertDraftStocktake_def
      assertNoDuplicateInventoryItems_def setReceipt_def setStocktake_def Let_def split: option.splits intro!: restocked_refl)

section \<open>The contract of the inventory module\<close>

locale inventory_invariant = stock_invariant +
  assumes restock: "restocked d d' \<Longrightarrow> Inv d \<Longrightarrow> Inv d'"
    and new_item: "item_added d d' \<Longrightarrow> Inv d \<Longrightarrow> Inv d'"

lemma restocked_stock_inv:
  assumes "restocked d d'" and "stock_inv d"
  shows "stock_inv d'"
proof -
  obtain f where m: "rowsMoved f (inventoryItems d) (inventoryItems d')" and r: "reservations d' = reservations d"
    using assms(1) unfolding restocked_def by blast
  have "i_reserved i' = reservedIn (reservations d) (i_id i') \<and> i_reserved i' \<le> i_stock i'" if mem: "i' \<in> set (inventoryItems d')" for i'
  proof -
    obtain i where "i \<in> set (inventoryItems d)" "i_id i' = i_id i" "i_reserved i' = i_reserved i"
      "i_reserved i \<le> i_stock i \<longrightarrow> i_reserved i' \<le> i_stock i'"
      using rowsMoved_mem [OF m mem] by blast
    then show ?thesis using assms(2) by (auto simp: stock_inv_def stock_ok_def)
  qed
  then show ?thesis using assms(2) unfolding stock_inv_def stock_ok_def r by blast
qed

lemma restocked_ledger_ok:
  assumes "restocked d d'" and "ledger_ok op d"
  shows "ledger_ok op d'"
proof -
  obtain txs where m: "rowsMoved (netTx txs) (inventoryItems d) (inventoryItems d')" and t: "inventoryTxs d' = inventoryTxs d @ txs"
    using assms(1) unfolding restocked_def by blast
  have "i_stock i' = op (i_id i') + netTx (inventoryTxs d') (i_id i')" if mem: "i' \<in> set (inventoryItems d')" for i'
  proof -
    obtain i where "i \<in> set (inventoryItems d)" "i_id i' = i_id i" "i_stock i' = i_stock i + netTx txs (i_id i)"
      using rowsMoved_mem [OF m mem] by blast
    then show ?thesis using assms(2) t by (simp add: ledger_ok_def)
  qed
  then show ?thesis by (simp add: ledger_ok_def)
qed

lemma item_added_stock_inv:
  assumes "item_added d d'" and "stock_inv d"
  shows "stock_inv d'"
proof -
  obtain it where i: "inventoryItems d' = inventoryItems d @ [it]" "i_reserved it = 0" "0 \<le> i_stock it"
    and r: "reservations d' = reservations d" and new: "\<forall>h\<in>set (reservations d). h_inventoryItemId h \<noteq> i_id it"
    using assms(1) unfolding item_added_def by blast
  have "reservedIn (reservations d) (i_id it) = 0" unfolding reservedIn_def by (rule sumw_zero) (use new in blast)
  then show ?thesis using assms(2) i r by (auto simp: stock_inv_def stock_ok_def)
qed

lemma item_added_ledger_ok:
  assumes "item_added d d'" and "ledger_ok (\<lambda>_. 0) d"
  shows "ledger_ok (\<lambda>_. 0) d'"
proof -
  obtain it txs where i: "inventoryItems d' = inventoryItems d @ [it]" "i_stock it = netTx txs (i_id it)"
    and t: "inventoryTxs d' = inventoryTxs d @ txs"
    and new: "\<forall>x\<in>set txs. x_inventoryItemId x = i_id it" "\<forall>i\<in>set (inventoryItems d). i_id i \<noteq> i_id it"
      "\<forall>x\<in>set (inventoryTxs d). x_inventoryItemId x \<noteq> i_id it"
    using assms(1) unfolding item_added_def by blast
  have "netTx (inventoryTxs d) (i_id it) = 0" unfolding netTx_def by (rule sumw_zero) (use new in blast)
  moreover have "netTx txs (i_id i) = 0" if "i \<in> set (inventoryItems d)" for i
    unfolding netTx_def by (rule sumw_zero) (use new that in fastforce)
  ultimately show ?thesis using assms(2) i t by (auto simp: ledger_ok_def)
qed

interpretation stockRoom: inventory_invariant stock_inv
  by unfold_locales (rule restocked_stock_inv item_added_stock_inv; assumption)+

interpretation stockLedger: inventory_invariant "ledger_ok (\<lambda>_. 0)"
  by unfold_locales (rule restocked_ledger_ok item_added_ledger_ok; assumption)+

section \<open>Every operation of the module\<close>

inductive inventory_step :: "(string \<Rightarrow> string \<Rightarrow> bool) \<Rightarrow> db \<Rightarrow> db \<Rightarrow> bool" for sameName where
  import_stock: "importItem i emp key q price date now d = Inr (mvs, d') \<Longrightarrow> committed d \<Longrightarrow> inventory_step sameName d d'"
| export_stock: "exportItem i emp key q date now d = Inr (mvs, d') \<Longrightarrow> committed d \<Longrightarrow> inventory_step sameName d d'"
| move_bulk: "bulkMove ty emp key items now d = Inr (mvs, d') \<Longrightarrow> committed d \<Longrightarrow> inventory_step sameName d d'"
| create_item: "createItem sameName emp dto now d = Inr (n, d') \<Longrightarrow> committed d \<Longrightarrow> stock_refs d \<Longrightarrow> inventory_step sameName d d'"
| update_item: "updateItem sameName i emp udto now d = Inr d' \<Longrightarrow> committed d \<Longrightarrow> inventory_step sameName d d'"
| remove_item: "removeItem i emp now d = Inr d' \<Longrightarrow> committed d \<Longrightarrow> inventory_step sameName d d'"
| create_unit: "createUnit sameName emp name d = Inr (n, d') \<Longrightarrow> committed d \<Longrightarrow> inventory_step sameName d d'"
| update_unit: "updateUnit sameName i emp nm d = Inr d' \<Longrightarrow> committed d \<Longrightarrow> inventory_step sameName d d'"
| remove_unit: "removeUnit i emp now d = Inr d' \<Longrightarrow> committed d \<Longrightarrow> inventory_step sameName d d'"
| create_category: "createCategory sameName emp name d = Inr (n, d') \<Longrightarrow> committed d \<Longrightarrow> inventory_step sameName d d'"
| update_category: "updateCategory sameName i emp nm d = Inr d' \<Longrightarrow> committed d \<Longrightarrow> inventory_step sameName d d'"
| remove_category: "removeCategory i emp now d = Inr d' \<Longrightarrow> committed d \<Longrightarrow> inventory_step sameName d d'"
| create_supplier: "createSupplier sameName emp name d = Inr (n, d') \<Longrightarrow> committed d \<Longrightarrow> inventory_step sameName d d'"
| update_supplier: "updateSupplier sameName i emp nm d = Inr d' \<Longrightarrow> committed d \<Longrightarrow> inventory_step sameName d d'"
| remove_supplier: "removeSupplier i emp now d = Inr d' \<Longrightarrow> committed d \<Longrightarrow> inventory_step sameName d d'"
| create_receipt: "createReceipt emp s rcv lines now d = Inr (n, d') \<Longrightarrow> committed d \<Longrightarrow> inventory_step sameName d d'"
| update_receipt: "updateReceipt i emp rdto now d = Inr d' \<Longrightarrow> committed d \<Longrightarrow> inventory_step sameName d d'"
| post_receipt: "postReceipt i emp expected now d = Inr (docs, d') \<Longrightarrow> committed d \<Longrightarrow> inventory_step sameName d d'"
| cancel_receipt: "cancelReceipt i emp reason now d = Inr d' \<Longrightarrow> committed d \<Longrightarrow> inventory_step sameName d d'"
| create_stocktake: "createStocktake emp ids d = Inr (n, d') \<Longrightarrow> committed d \<Longrightarrow> inventory_step sameName d d'"
| count_stock: "updateCounts i emp counts d = Inr d' \<Longrightarrow> committed d \<Longrightarrow> inventory_step sameName d d'"
| post_stocktake: "postStocktake i emp reviewed now d = Inr (docs, d') \<Longrightarrow> committed d \<Longrightarrow> inventory_step sameName d d'"
| cancel_stocktake: "cancelStocktake i emp reason d = Inr d' \<Longrightarrow> committed d \<Longrightarrow> inventory_step sameName d d'"

inductive_cases inventory_stepE: "inventory_step sameName d d'"

lemma inventory_step_moves:
  assumes "inventory_step sameName d d'"
  shows "restocked d d' \<or> item_added d d'"
proof -
  have "committed d" using assms by cases
  then have key: "distinct (map i_id (inventoryItems d))"
    unfolding committed_def by (blast dest: keys_okD(4) stock_keysD(1))
  from assms show ?thesis
    by (cases rule: inventory_step.cases)
       (use key in \<open>blast intro: importItem_restocked exportItem_restocked bulkMove_restocked createItem_added
          updateItem_restocked removeItem_restocked named_restocked draft_restocked postReceipt_restocked postStocktake_restocked\<close>)+
qed

context inventory_invariant
begin

lemma inventory_step_keeps: "inventory_step sameName d d' \<Longrightarrow> Inv d \<Longrightarrow> Inv d'"
  using inventory_step_moves restock new_item by blast

end

end
