(* ===== verification/Stock_System.thy ===== *)
theory Stock_System
  imports Inventory_Facts Cash_Claims
begin

text \<open>
  The whole shop: orders, money and the stock room. Money moves without touching the stock
  tables; an invoice reserves what it bills and voiding it releases, so every property the
  contracts \<open>stock_invariant\<close> and \<open>inventory_invariant\<close> are proved for holds in every state the
  shop can reach.
\<close>

section \<open>Money leaves the stock alone\<close>

definition stockView :: "db \<Rightarrow> inventoryItem list \<times> reservation list \<times> inventoryTx list" where
  "stockView d = (inventoryItems d, reservations d, inventoryTxs d)"

lemma stockView_rules [simp]:
  "stockView (addLog e act s d) = stockView d" "stockView (enqueue p n a t w d) = stockView d"
  "stockView (enqueueInvoiceEvent ev vid os now d) = stockView d"
  by (simp_all add: stockView_def enqueueInvoiceEvent_def)

lemma stockView_fields [simp]:
  "stockView (d\<lparr>nextId := n, funds := fs, cashTxs := ks\<rparr>) = stockView d" "stockView (d\<lparr>funds := fs\<rparr>) = stockView d"
  "stockView (d\<lparr>nextId := n, cashTxs := ks\<rparr>) = stockView d" "stockView (setHandover i f d) = stockView d"
  "stockView (setInvoice vid g d) = stockView d" "stockView (payItems vid d) = stockView d"
  "stockView (d\<lparr>invoices := vs\<rparr>) = stockView d"
  by (simp_all add: stockView_def setHandover_def setInvoice_def payItems_def)

lemma createCashTx_stock: "createCashTx k d = Inr d' \<Longrightarrow> stockView d' = stockView d"
  by (auto dest: createCashTx_effect)

lemma postMovement_stock: "postMovement shift emp ty amt d = Inr (n, d') \<Longrightarrow> stockView d' = stockView d"
  by (auto simp: postMovement_def Let_def stockView_def createCashTx_def)

lemma drawer_ops_stock:
  "openShift emp fid cash d = Inr (n, d') \<Longrightarrow> stockView d' = stockView d"
  "closeShift emp cid reported note now d = Inr d' \<Longrightarrow> stockView d' = stockView d"
  "resolveRequest i st emp tx d = Inr d' \<Longrightarrow> stockView d' = stockView d"
  "createHandover emp cid dest retained d = Inr (n, d') \<Longrightarrow> stockView d' = stockView d"
  "registerDeposit i emp ref ev d = Inr d' \<Longrightarrow> stockView d' = stockView d"
  "rejectHandover i emp d = Inr d' \<Longrightarrow> stockView d' = stockView d"
  "cancelHandover i emp d = Inr d' \<Longrightarrow> stockView d' = stockView d"
  "createFund sameName emp name ft b d = Inr (n, d') \<Longrightarrow> stockView d' = stockView d"
  "updateFund sameName fid emp nm ft' d = Inr d' \<Longrightarrow> stockView d' = stockView d"
  "removeFund fid emp now d = Inr d' \<Longrightarrow> stockView d' = stockView d"
  by (auto simp: openShift_def insertShift_def closeShift_def openWork_def resolveRequest_def createHandover_def
      insertHandover_def assertFundsHaveNoOpenShift_def registerDeposit_def rejectHandover_def cancelHandover_def createFund_def updateFund_def
      removeFund_def setHandover_def Let_def stockView_def addLog_def split: option.splits if_splits)

lemma cash_ops_stock:
  "addMovement emp cid ty amt desc d = Inr d' \<Longrightarrow> stockView d' = stockView d"
  "approveExpenseRequest i emp d = Inr d' \<Longrightarrow> stockView d' = stockView d"
  "rejectExpenseRequest i emp d = Inr d' \<Longrightarrow> stockView d' = stockView d"
  "cancelExpenseRequest i emp d = Inr d' \<Longrightarrow> stockView d' = stockView d"
proof -
  have insert: "insertExpenseRequest q d = Inr (n, d1) \<Longrightarrow> stockView d1 = stockView d" for q n d1
    by (auto simp: insertExpenseRequest_def stockView_def)
  show "addMovement emp cid ty amt desc d = Inr d' \<Longrightarrow> stockView d' = stockView d"
    by (auto simp: addMovement_def insert dest: postMovement_stock split: if_splits)
  show "approveExpenseRequest i emp d = Inr d' \<Longrightarrow> stockView d' = stockView d"
    by (auto simp: approveExpenseRequest_def dest!: postMovement_stock drawer_ops_stock(3))
  show "rejectExpenseRequest i emp d = Inr d' \<Longrightarrow> stockView d' = stockView d"
    "cancelExpenseRequest i emp d = Inr d' \<Longrightarrow> stockView d' = stockView d"
    by (auto simp: rejectExpenseRequest_def cancelExpenseRequest_def resolveExpenseRequest_def dest: drawer_ops_stock(3))
qed

lemma destination_stock: "postDestinationEntry h emp ty d = Inr (n, d') \<Longrightarrow> stockView d' = stockView d"
  by (auto simp: postDestinationEntry_def Let_def dest: createCashTx_stock)

lemma variance_stock: "postVariance h emp d = Inr (n, d') \<Longrightarrow> stockView d' = stockView d"
  by (auto simp: postVariance_def dest: createCashTx_stock split: if_splits)

lemma approveHandover_stock: "approveHandover i emp now d = Inr d' \<Longrightarrow> stockView d' = stockView d"
  unfolding approveHandover_def
  by (auto simp: Let_def assertFundsHaveNoOpenShift_def split: if_splits
      dest!: variance_stock createCashTx_stock destination_stock)

lemma settle_stock: "settleInTransaction i emp ref ev d = Inr d' \<Longrightarrow> stockView d' = stockView d"
  by (erule settle_steps) (simp add: destination_stock)

lemma recordCashInvoice_stock: "recordCashInvoice sh vid emp amt d = Inr d' \<Longrightarrow> stockView d' = stockView d"
  by (auto simp: recordCashInvoice_def incrementFund_def dest: createCashTx_stock)

lemma refund_stock: "createCashRefund vid emp amt reason shift key now d = Inr d' \<Longrightarrow> stockView d' = stockView d"
proof (cases "d' = d")
  case False
  assume a: "createCashRefund vid emp amt reason shift key now d = Inr d'"
  obtain v :: invoice and sh where "bookRefund v amt reason sh emp key now d = Inr d'"
    by (rule createCashRefund_steps [OF a False]) (rule that)
  then show ?thesis by (auto simp: bookRefund_def Let_def createCashTx_def decrementFund_def stockView_def)
qed simp

section \<open>Invoices reserve and release\<close>

lemma closeSession_stock: "(if b then closeSessionIfFullyPaid s d else Inr d) = Inr d' \<Longrightarrow> stockView d' = stockView d"
  by (auto simp: closeSessionIfFullyPaid_def Let_def stockView_def split: if_splits)

lemma invoiceEvents_stock: "stockView (invoiceEvents evs vid s now d) = stockView d"
  unfolding invoiceEvents_def by (induction evs arbitrary: d) simp_all

lemma attachItems_stock:
  "attachItems vid sid st items d = Inr d' \<Longrightarrow> stockView d' = stockView d \<and> stock_keys d' = stock_keys d"
  by (auto simp: attachItems_def Let_def stockView_def stock_keys_def)

lemma insertInvoice_stock:
  "insertInvoice v d = Inr (n, d') \<Longrightarrow> stockView d' = stockView d \<and> stock_keys d' = stock_keys d"
  by (auto simp: insertInvoice_def stockView_def stock_keys_def)

lemma payItems_keys: "stock_keys (payItems vid d) = stock_keys d" "stock_keys (setInvoice vid g d) = stock_keys d"
  by (simp_all add: stock_keys_def payItems_def setInvoice_def)

context stock_invariant
begin

lemma view: "stockView d' = stockView d \<Longrightarrow> Inv d \<Longrightarrow> Inv d'"
  by (rule frame) (simp_all add: stockView_def)

lemma createInvoice_keeps:
  assumes "createInvoiceInTransaction hash prefix emp co online i now d = Inr (vid, d')" and keys: "stock_keys d" and inv: "Inv d"
  shows "Inv d'"
proof -
  obtain s :: orderSession and shift ic vd d2 d3 d4 d5 where
    ins: "insertInvoice (newInvoice (generateNumber prefix d) (snd ic) (co_method co) (co_status co) (s_id s) emp
       (map_option fst shift) (ci_promotionId i) now) d = Inr vd"
    and att: "attachItems (fst vd) (s_id s) (co_status co) (fst ic) (snd vd) = Inr d2"
    and res: "reserveInvoiceStock (fst vd) now d2 = Inr d3"
    and cash: "(case shift of
        Some sh \<Rightarrow> if co_method co = Method_CASH then recordCashInvoice sh (fst vd) emp (q_total (snd ic)) d3 else Inr d3
      | None \<Rightarrow> Inr d3) = Inr d4"
    and close: "(if co_status co = Pay_PAID \<and> co_close co then closeSessionIfFullyPaid s d4 else Inr d4) = Inr d5"
    and ev: "invoiceEvents (co_events co) (fst vd) s now d5 = d'"
    by (rule createInvoice_steps [OF assms(1)]) (rule that, assumption+)
  have "insertInvoice (newInvoice (generateNumber prefix d) (snd ic) (co_method co) (co_status co) (s_id s) emp
       (map_option fst shift) (ci_promotionId i) now) d = Inr (fst vd, snd vd)" using ins by simp
  from insertInvoice_stock [OF this] attachItems_stock [OF att]
  have "stockView d2 = stockView d" "stock_keys d2" using keys by simp_all
  then have "Inv d3" using reserve [OF res [unfolded reserveInvoiceStock_def]] view inv by blast
  moreover have "stockView d4 = stockView d3" using cash by (auto dest: recordCashInvoice_stock split: option.splits if_splits)
  moreover have "stockView d' = stockView d4" using closeSession_stock [OF close] invoiceEvents_stock ev by metis
  ultimately show ?thesis using view by metis
qed

lemma updatePayment_keeps:
  assumes "updatePayment vid emp method tendered close now d = Inr d'" and keys: "stock_keys d" and inv: "Inv d"
  shows "Inv d'"
proof -
  obtain v :: invoice and s :: orderSession and shift d1 d2 d3 d4 where
    d1: "stockView d1 = stockView d" "stock_keys d1" and res: "reserveInvoiceStock vid now d1 = Inr d2"
    and cash: "(if orElse method (v_method v) = Method_CASH then recordCashInvoice shift vid emp (v_total v) d2 else Inr d2) = Inr d3"
    and close: "(if close then closeSessionIfFullyPaid s d3 else Inr d3) = Inr d4"
    and d': "d' = enqueueInvoiceEvent ''INVOICE_PAID'' vid s now d4"
    by (rule updatePayment_steps [OF assms(1)], rule that) (simp_all add: payItems_keys keys)
  have "Inv d2" using reserve [OF res [unfolded reserveInvoiceStock_def]] d1 view inv by blast
  moreover have "stockView d3 = stockView d2" using cash by (auto dest: recordCashInvoice_stock split: if_splits)
  moreover have "stockView d' = stockView d3" using closeSession_stock [OF close] d' by simp
  ultimately show ?thesis using view by metis
qed

lemma void_keeps:
  assumes "voidInvoice vid emp now d = Inr d'" and keys: "stock_keys d" and inv: "Inv d"
  shows "Inv d'"
proof -
  obtain s :: orderSession and ids d3 where
    rel: "(if s_online s = None then releaseReservations ids (voided vid d) else Inr (voided vid d)) = Inr d3"
    and d': "enqueueInvoiceEvent ''INVOICE_VOIDED'' vid s now (addLog emp ''INVOICE_VOIDED'' vid d3) = d'"
    by (rule void_steps [OF assms(1)]) (rule that, assumption+)
  have "stockView (voided vid d) = stockView d" "stock_keys (voided vid d)"
    using keys by (simp_all add: voided_def stockView_def stock_keys_def setInvoice_def)
  then have "Inv d3" using rel release [of ids "voided vid d" d3] view [of "voided vid d" d] inv by (auto split: if_splits)
  moreover have "stockView d' = stockView d3" using d' by auto
  ultimately show ?thesis using view by metis
qed

lemma completeOnline_stock:
  assumes "completeOnlinePayment vid emp sid close now d = Inr d'"
  shows "stockView d' = stockView d"
  by (rule completeOnline_steps [OF assms]) (use closeSession_stock in \<open>fastforce\<close>)

lemma till_step_keeps:
  assumes "till_step hash sign sameName d d'" and inv: "Inv d"
  shows "Inv d'"
proof -
  have k: "stock_keys d" using till_step_committed [OF assms(1)] keys_okD(4) by (simp add: committed_def)
  note same = drawer_ops_stock cash_ops_stock approveHandover_stock settle_stock refund_stock completeOnline_stock
  from assms(1) show ?thesis
  proof (cases rule: till_step.cases)
    case order
    then show ?thesis using order_step_keeps inv by blast
  next
    case bill
    then show ?thesis using createInvoice_keeps k inv by blast
  next
    case pay
    then show ?thesis using updatePayment_keeps k inv by blast
  next
    case void
    then show ?thesis using void_keeps k inv by blast
  qed ((rule view [OF _ inv], erule same)+)
qed

end

section \<open>The shop\<close>

inductive shop_step :: "(quotedData \<Rightarrow> 'h) \<Rightarrow> 'c signer \<Rightarrow> (string \<Rightarrow> string \<Rightarrow> bool) \<Rightarrow> db \<Rightarrow> db \<Rightarrow> bool"
  for hash sign sameName where
  till: "till_step hash sign sameName d d' \<Longrightarrow> shop_step hash sign sameName d d'"
| inventory: "inventory_step sameName d d' \<Longrightarrow> shop_step hash sign sameName d d'"

context inventory_invariant
begin

lemma shop_step_keeps: "shop_step hash sign sameName d d' \<Longrightarrow> Inv d \<Longrightarrow> Inv d'"
  by (erule shop_step.cases) (auto intro: till_step_keeps inventory_step_keeps)

lemma shop_reachable: "(shop_step hash sign sameName)\<^sup>*\<^sup>* d d' \<Longrightarrow> Inv d \<Longrightarrow> Inv d'"
  by (induction rule: rtranclp_induct) (auto intro: shop_step_keeps)

end

end
