(* ===== verification/Idempotency.thy ===== *)
theory Idempotency
  imports Shop_Prelude
begin

text \<open>
  \<open>IdempotencyService\<close> (\<open>src/app/durable/idempotency.service.ts\<close>). A request is looked up by
  employee, operation and key before it runs, and again inside its transaction; the row and the
  effect of the operation commit together. The hash and the JSON serialization of a response are
  parameters, and so is the operation. Between the three moments a call looks at the table other
  calls may commit, so \<open>execute\<close> takes the rows of each moment.
\<close>

section \<open>Requests\<close>

text \<open>\<open>ir_response = None\<close> is a row that is not COMPLETED, or whose response is null.\<close>

record ('h, 'r) idempotencyRow =
  ir_employeeId :: nat
  ir_operation :: string
  ir_key :: string
  ir_requestHash :: 'h
  ir_response :: "'r option"

record 'q operationInput =
  op_employeeId :: nat
  op_operation :: string
  op_key :: string
  op_request :: 'q

definition rowKey :: "('h, 'r) idempotencyRow \<Rightarrow> nat \<times> string \<times> string" where
  "rowKey r = (ir_employeeId r, ir_operation r, ir_key r)"

definition inputKey :: "'q operationInput \<Rightarrow> nat \<times> string \<times> string" where
  "inputKey i = (op_employeeId i, op_operation i, op_key i)"

definition findExisting :: "('h, 'r) idempotencyRow list \<Rightarrow> 'q operationInput \<Rightarrow> ('h, 'r) idempotencyRow option" where
  "findExisting rows i = find (\<lambda>r. rowKey r = inputKey i) rows"

definition replay :: "('h, 'r) idempotencyRow \<Rightarrow> 'h \<Rightarrow> 'r res" where
  "replay row h =
     require (ir_requestHash row = h) (Conflict ''used with a different request'')
       (fetch (ir_response row) (Conflict ''operation is still running'') Inr)"

definition completedRow :: "'q operationInput \<Rightarrow> 'h \<Rightarrow> 'r \<Rightarrow> ('h, 'r) idempotencyRow" where
  "completedRow i h r = \<lparr>ir_employeeId = op_employeeId i, ir_operation = op_operation i, ir_key = op_key i,
     ir_requestHash = h, ir_response = Some r\<rparr>"

text \<open>What a call answers, with the state it leaves: the table of requests and the rest of the database.\<close>

type_synonym ('h, 'r, 's) outcome = "'r res \<times> ('h, 'r) idempotencyRow list \<times> 's"

text \<open>
  The transaction reads \<open>rows\<close>; if by the time it inserts its row the table (\<open>committed\<close>) holds
  the key, the unique index rejects it, the effect is rolled back and the row is replayed.
\<close>

definition runOnce ::
  "('q \<Rightarrow> 'h) \<Rightarrow> ('r \<Rightarrow> 'r) \<Rightarrow> ('q \<Rightarrow> 's \<Rightarrow> ('r \<times> 's) res) \<Rightarrow> 'q operationInput \<Rightarrow>
   ('h, 'r) idempotencyRow list \<Rightarrow> ('h, 'r) idempotencyRow list \<Rightarrow> 's \<Rightarrow> ('h, 'r, 's) outcome"
where
  "runOnce hash toJson operation i rows committed s =
     (let h = hash (op_request i) in
      case findExisting rows i of
        Some row \<Rightarrow> (replay row h, committed, s)
      | None \<Rightarrow>
          (case findExisting committed i of
             Some row \<Rightarrow> (replay row h, committed, s)
           | None \<Rightarrow>
               (case operation (op_request i) s of
                  Inl e \<Rightarrow> (Inl e, committed, s)
                | Inr (r, s') \<Rightarrow> (Inr r, committed @ [completedRow i h (toJson r)], s'))))"

definition execute ::
  "('q \<Rightarrow> 'h) \<Rightarrow> ('r \<Rightarrow> 'r) \<Rightarrow> ('q \<Rightarrow> 's \<Rightarrow> ('r \<times> 's) res) \<Rightarrow> 'q operationInput \<Rightarrow>
   ('h, 'r) idempotencyRow list \<Rightarrow> ('h, 'r) idempotencyRow list \<Rightarrow> ('h, 'r) idempotencyRow list \<Rightarrow> 's \<Rightarrow>
   ('h, 'r, 's) outcome"
where
  "execute hash toJson operation i before rows committed s =
     (case findExisting before i of
        Some row \<Rightarrow> (replay row (hash (op_request i)), committed, s)
      | None \<Rightarrow> runOnce hash toJson operation i rows committed s)"

section \<open>Histories\<close>

text \<open>
  A step is one call. A history lies within the time the rows are kept: the housekeeping of the outbox
  deletes completed rows 24 hours after they were written, except those of the operations
  \<open>inventory.stock\<close> and \<open>cashier-shift\<close>, which stay. So each later look at the table sees at least
  what an earlier one saw, up to the rows committed when the call ends.
\<close>

definition sees :: "('h, 'r) idempotencyRow list \<Rightarrow> ('h, 'r) idempotencyRow list \<Rightarrow> bool" where
  "sees early late \<longleftrightarrow> (\<exists>more. late = early @ more)"

inductive call_step ::
  "('q \<Rightarrow> 'h) \<Rightarrow> ('r \<Rightarrow> 'r) \<Rightarrow> ('q \<Rightarrow> 's \<Rightarrow> ('r \<times> 's) res) \<Rightarrow>
   ('h, 'r) idempotencyRow list \<times> 's \<Rightarrow> ('h, 'r) idempotencyRow list \<times> 's \<Rightarrow> bool"
  for hash toJson operation
where
  call: "sees before rows \<Longrightarrow> sees rows committed \<Longrightarrow>
    execute hash toJson operation i before rows committed s = (answer, rows', s') \<Longrightarrow>
    call_step hash toJson operation (committed, s) (rows', s')"

inductive_cases call_stepE: "call_step hash toJson operation c c'"

definition keysOnce :: "('h, 'r) idempotencyRow list \<Rightarrow> bool" where
  "keysOnce rows \<longleftrightarrow> distinct (map rowKey rows)"

lemma findExisting_SomeD: "findExisting rows i = Some r \<Longrightarrow> r \<in> set rows \<and> rowKey r = inputKey i"
  unfolding findExisting_def by (rule find_SomeD)

lemma findExisting_None_iff: "findExisting rows i = None \<longleftrightarrow> inputKey i \<notin> rowKey ` set rows"
  unfolding findExisting_def find_None_iff by (metis imageE imageI)

lemma findExisting_append:
  "findExisting (xs @ ys) i = (case findExisting xs i of None \<Rightarrow> findExisting ys i | Some r \<Rightarrow> Some r)"
  by (induction xs) (auto simp: findExisting_def)

lemma findExisting_sees: "sees early late \<Longrightarrow> findExisting early i = Some r \<Longrightarrow> findExisting late i = Some r"
  by (auto simp: sees_def findExisting_append)

lemma rowKey_completed [simp]: "rowKey (completedRow i h r) = inputKey i"
  by (simp add: rowKey_def inputKey_def completedRow_def)

text \<open>
  A call either leaves everything as it was, or its key was new and the operation's effect and its
  row were committed together.
\<close>

lemma execute_cases:
  assumes "execute hash toJson operation i before rows committed s = (answer, rows', s')"
    and "sees before rows" and "sees rows committed"
  obtains (unchanged) "rows' = committed" "s' = s"
  | (applied) r where "findExisting committed i = None" "operation (op_request i) s = Inr (r, s')" "answer = Inr r"
      "rows' = committed @ [completedRow i (hash (op_request i)) (toJson r)]"
proof (cases "findExisting before i = None \<and> findExisting rows i = None \<and> findExisting committed i = None")
  case True
  then have run: "(case operation (op_request i) s of
        Inl e \<Rightarrow> (Inl e, committed, s)
      | Inr (r, s') \<Rightarrow> (Inr r, committed @ [completedRow i (hash (op_request i)) (toJson r)], s')) = (answer, rows', s')"
    using assms(1) by (simp add: execute_def runOnce_def Let_def)
  show ?thesis
  proof (cases "operation (op_request i) s")
    case (Inl e)
    then show ?thesis using run unchanged by simp
  next
    case (Inr x)
    then show ?thesis using run applied [of "fst x"] True by (cases x) simp
  qed
next
  case False
  then have "rows' = committed \<and> s' = s"
    using assms(1) by (auto simp: execute_def runOnce_def Let_def split: option.splits)
  then show ?thesis using unchanged by blast
qed

lemma call_step_keysOnce:
  assumes "call_step hash toJson operation (rows, s) (rows', s')" and "keysOnce rows"
  shows "keysOnce rows'"
  using assms(1)
proof (cases rule: call_step.cases)
  case (call before rows1 i answer)
  from call(3,1,2) show ?thesis
    by (cases rule: execute_cases) (use assms(2) in \<open>auto simp: keysOnce_def findExisting_None_iff\<close>)
qed

text \<open>A row once committed stays, so a key is answered the same way for ever.\<close>

lemma call_step_sees:
  assumes "call_step hash toJson operation (rows, s) (rows', s')"
  shows "sees rows rows'"
  using assms
proof (cases rule: call_step.cases)
  case (call before rows1 i answer)
  from call(3,1,2) show ?thesis
    by (cases rule: execute_cases) (auto simp: sees_def)
qed

lemma calls_see:
  assumes "(call_step hash toJson operation)\<^sup>*\<^sup>* c c'"
  shows "sees (fst c) (fst c')"
  using assms
proof (induction rule: rtranclp_induct)
  case base
  show ?case by (simp add: sees_def)
next
  case (step y z)
  then have "sees (fst y) (fst z)" using call_step_sees [of hash toJson operation "fst y" "snd y" "fst z" "snd z"] by simp
  with step.IH show ?case by (auto simp: sees_def)
qed

lemma replay_completed: "replay (completedRow i h r) h' = (if h = h' then Inr r else Inl (Conflict ''used with a different request''))"
  by (simp add: replay_def completedRow_def require_def)

section \<open>What the service promises its clients\<close>

text \<open>
  A property of the database that the operation keeps is kept by any number of calls, however
  they interleave.
\<close>

locale kept_by_operation =
  fixes operation :: "'q \<Rightarrow> 's \<Rightarrow> ('r \<times> 's) res" and Inv :: "'s \<Rightarrow> bool"
  assumes keeps: "operation q s = Inr (r, s') \<Longrightarrow> Inv s \<Longrightarrow> Inv s'"
begin

lemma call_keeps:
  assumes "call_step hash toJson operation c c'" and "Inv (snd c)"
  shows "Inv (snd c')"
  using assms(1)
proof (cases rule: call_step.cases)
  case (call before rows1 committed i s answer rows' s')
  from call(5,3,4) show ?thesis
    by (cases rule: execute_cases) (use assms(2) call keeps in auto)
qed

lemma calls_keep: "(call_step hash toJson operation)\<^sup>*\<^sup>* c c' \<Longrightarrow> Inv (snd c) \<Longrightarrow> Inv (snd c')"
  by (induction rule: rtranclp_induct) (auto intro: call_keeps)

end

text \<open>C8: A request takes effect once: after a call has succeeded, while its row is kept, whatever calls
  follow and however they overlap, the same request sent again under the same key changes nothing and is answered
  with the stored response, and a different request under that key is refused.\<close>

theorem same_request_once:
  assumes "execute hash toJson operation i before rows committed s = (Inr r, rows1, s1)"
    and "sees before rows" and "sees rows committed" and "findExisting committed i = None"
    and "(call_step hash toJson operation)\<^sup>*\<^sup>* (rows1, s1) (rows2, s2)"
    and "sees rows1 before'" and "sees before' rows'" and "sees rows' rows2"
  shows "execute hash toJson operation (i\<lparr>op_request := q\<rparr>) before' rows' rows2 s2 =
    (if hash q = hash (op_request i) then Inr (toJson r)
     else Inl (Conflict ''used with a different request''), rows2, s2)"
proof -
  let ?row = "completedRow i (hash (op_request i)) (toJson r)"
  from assms(1,2,3) have rows1: "rows1 = committed @ [?row]"
  proof (cases rule: execute_cases)
    case unchanged
    have "findExisting before i = None" "findExisting rows i = None"
      using assms(2,3,4) findExisting_sees [of _ _ i] by (metis not_None_eq sees_def append_assoc)+
    then show ?thesis
      using assms(1,4) by (auto simp: execute_def runOnce_def Let_def split: sum.splits)
  next
    case (applied r')
    then show ?thesis by simp
  qed
  have "findExisting rows1 i = Some ?row"
    unfolding rows1 findExisting_append assms(4) by (simp add: findExisting_def)
  then have "findExisting before' i = Some ?row" using findExisting_sees [OF assms(6)] by blast
  then have "findExisting before' (i\<lparr>op_request := q\<rparr>) = Some ?row" by (simp add: findExisting_def inputKey_def)
  then show ?thesis by (simp add: execute_def replay_completed)
qed

definition tick :: "nat \<Rightarrow> nat \<Rightarrow> (nat \<times> nat) res" where
  "tick q s = Inr (s + q, s + q)"

definition tickInput :: "nat operationInput" where
  "tickInput = \<lparr>op_employeeId = 1, op_operation = ''tick'', op_key = ''key-0001'', op_request = 5\<rparr>"

theorem same_request_once_witness:
  "\<exists>rows1. execute (\<lambda>q. q) (\<lambda>r. r) tick tickInput [] [] [] 10 = (Inr 15, rows1, 15) \<and>
     execute (\<lambda>q. q) (\<lambda>r. r) tick (tickInput\<lparr>op_request := 5\<rparr>) rows1 rows1 rows1 15 = (Inr 15, rows1, 15) \<and>
     execute (\<lambda>q. q) (\<lambda>r. r) tick (tickInput\<lparr>op_request := 6\<rparr>) rows1 rows1 rows1 15 =
       (Inl (Conflict ''used with a different request''), rows1, 15)"
proof -
  let ?rows = "[completedRow tickInput (5 :: nat) (15 :: nat)]"
  have one: "execute (\<lambda>q. q) (\<lambda>r. r) tick tickInput [] [] [] 10 = (Inr 15, ?rows, 15)"
    by (simp add: execute_def runOnce_def findExisting_def tick_def tickInput_def)
  have s: "sees ?rows ?rows" "sees ([] :: (nat, nat) idempotencyRow list) []" by (simp_all add: sees_def)
  have none: "findExisting ([] :: (nat, nat) idempotencyRow list) tickInput = None" by (simp add: findExisting_def)
  have "execute (\<lambda>q. q) (\<lambda>r. r) tick (tickInput\<lparr>op_request := q\<rparr>) ?rows ?rows ?rows 15 =
      (if q = op_request tickInput then Inr 15 else Inl (Conflict ''used with a different request''), ?rows, 15)" for q
    by (rule same_request_once [OF one s(2) s(2) none rtranclp.rtrancl_refl s(1) s(1) s(1)])
  from one this [of 5] this [of 6] show ?thesis
    by (intro exI [of _ ?rows]) (simp add: tickInput_def)
qed

end
