(* ===== verification/Inventory_Claims.thy ===== *)
theory Inventory_Claims
  imports Stock_System Idempotency
begin

text \<open>
  The properties of the stock room: what posting a purchase receipt or a stocktake does, that
  idempotent stock movements keep the books, and the invariant of the stock over everything the
  shop does.
\<close>

section \<open>Idempotent movements\<close>

definition stockBooks :: "db \<Rightarrow> bool" where
  "stockBooks d \<longleftrightarrow> stock_inv d \<and> ledger_ok (\<lambda>_. 0) d \<and> distinct (map i_id (inventoryItems d))"

lemma restocked_books: "restocked d d' \<Longrightarrow> stockBooks d \<Longrightarrow> stockBooks d'"
  by (simp add: stockBooks_def restocked_stock_inv restocked_ledger_ok restocked_ids)

type_synonym movementRequest = "id \<times> movementInput list \<times> time"

definition movementCommand :: "movementRequest \<Rightarrow> db \<Rightarrow> (movementResult list \<times> db) res" where
  "movementCommand q d = moveStockInTransaction (fst q) (fst (snd q)) (snd (snd q)) d"

lemma movementCommand_restocked:
  "movementCommand q d = Inr (r, d') \<Longrightarrow> distinct (map i_id (inventoryItems d)) \<Longrightarrow> restocked d d'"
  unfolding movementCommand_def
  by (rule executeMovement_restocked [of "fst q" "replicate 8 CHR ''k''" "fst (snd q)" "snd (snd q)"])
     (simp_all add: executeMovement_def validKey_def trim_def whiteSpace_def eval_nat_numeral)

interpretation movements: kept_by_operation movementCommand stockBooks
  by unfold_locales (metis movementCommand_restocked restocked_books stockBooks_def)

section \<open>Purchase receipts\<close>

lemma ok_iff: "ok r \<longleftrightarrow> (\<exists>x. r = Inr x)"
  by (cases r) simp_all

lemma find_upd_key:
  assumes "\<And>r. key (f r) = key r"
  shows "find (\<lambda>r. key r = k) (upd P f t) = map_option (\<lambda>r. if P r then f r else r) (find (\<lambda>r. key r = k) t)"
  by (induction t) (auto simp: assms)

lemma sumw_insort: "sumw P g (insort_key k x xs) = sumw P g (x # xs)"
  by (induction xs) auto

lemma sumw_sort: "sumw P g (sort_key k xs) = sumw P g xs"
  by (induction xs) (simp_all add: sumw_insort)

lemma rowsMoved_map:
  "rowsMoved f its its' \<Longrightarrow> map (\<lambda>it. (i_id it, i_reserved it, i_stock it)) its' =
     map (\<lambda>it. (i_id it, i_reserved it, i_stock it + f (i_id it))) its"
  unfolding rowsMoved_def by (induction rule: list_all2_induct) auto

definition receivedQuantity :: "purchaseReceipt \<Rightarrow> id \<Rightarrow> qty" where
  "receivedQuantity r i = sumw (\<lambda>l. rl_inventoryItemId l = i) rl_quantity (pr_lines r)"

definition linePending :: "receiptLine \<Rightarrow> pendingMovement" where
  "linePending l = \<lparr>pm_lineId = rl_id l, pm_inventoryItemId = rl_inventoryItemId l, pm_type = Tx_IMPORT,
     pm_quantity = rl_quantity l, pm_unitCost = rl_unitPrice l, pm_total = rl_total l\<rparr>"

lemma postReceiptLines_movements:
  "run_all (postReceiptLine d) lines st = Inr st' \<Longrightarrow> snd st' = snd st @ map linePending lines"
proof (induction lines arbitrary: st)
  case (Cons l ls)
  then obtain st1 where one: "postReceiptLine d l st = Inr st1" and rest: "run_all (postReceiptLine d) ls st1 = Inr st'" by auto
  have "snd st1 = snd st @ [linePending l]"
    using one by (auto simp: postReceiptLine_def linePending_def dest!: findItemD)
  then show ?case using Cons.IH [OF rest] by simp
qed simp

lemma linePending_net:
  "pendingNet (map linePending ls) i = sumw (\<lambda>l. rl_inventoryItemId l = i) rl_quantity ls"
  by (induction ls) (simp_all add: pendingNet_def linePending_def)

text \<open>The ledger entry a receipt line leaves.\<close>

definition lineTx :: "time \<Rightarrow> id \<times> receiptLine \<Rightarrow> inventoryTx" where
  "lineTx date p = \<lparr>x_id = fst p, x_inventoryItemId = rl_inventoryItemId (snd p), x_orderItemId = None,
     x_documentLineId = Some (rl_id (snd p)), x_type = Tx_IMPORT, x_quantity = rl_quantity (snd p),
     x_unitPrice = rl_unitPrice (snd p), x_total = rl_total (snd p), x_date = date\<rparr>"

lemma lineTx_documents: "map (documentTx date) (zip ns (map linePending ls)) = map (lineTx date) (zip ns ls)"
  by (simp add: zip_map2 documentTx_def lineTx_def linePending_def case_prod_unfold)

lemma recordMovements_ledger:
  "recordMovements date pend d = Inr (mvs, d') \<Longrightarrow>
     inventoryTxs d' = inventoryTxs d @ map (documentTx date) (zip [nextId d..<nextId d + length pend] pend) \<and>
     purchaseReceipts d' = purchaseReceipts d \<and> stocktakes d' = stocktakes d"
  by (auto simp: recordMovements_def Let_def)

lemma findReceipt_frame: "purchaseReceipts d' = purchaseReceipts d \<Longrightarrow> findReceipt d' i = findReceipt d i"
  by (simp add: findReceipt_def)

lemma not_draft_receipt:
  assumes "findReceipt d i = Some r" and "pr_status r \<noteq> Doc_DRAFT"
  shows "\<not> ok (postReceipt i emp expected now d)" "\<not> ok (updateReceipt i emp dto now d)" "\<not> ok (cancelReceipt i emp reason now d)"
  using assms
  by (auto simp: ok_iff postReceipt_def updateReceipt_def cancelReceipt_def assertInventoryEmployee_def assertDraftReceipt_def)

text \<open>C32: Posting a purchase receipt adds to each item exactly what the receipt's lines say, and writes one
  ledger entry per line, at the line's price and dated when the goods were received. It happens
  once: in the state it leaves the receipt cannot be posted, edited or cancelled.\<close>

theorem receipt_posts_once:
  assumes "postReceipt i emp expected now d = Inr (mvs, d')" and "findReceipt d i = Some r"
    and "distinct (map i_id (inventoryItems d))"
  shows "map (\<lambda>it. (i_id it, i_reserved it, i_stock it)) (inventoryItems d') =
      map (\<lambda>it. (i_id it, i_reserved it, i_stock it + receivedQuantity r (i_id it))) (inventoryItems d) \<and>
    inventoryTxs d' = inventoryTxs d @ map (lineTx (pr_receivedAt r))
      (zip [nextId d..<nextId d + length (pr_lines r)] (sort_key rl_inventoryItemId (pr_lines r))) \<and>
    \<not> ok (postReceipt i emp2 expected2 now2 d') \<and> \<not> ok (updateReceipt i emp2 dto now2 d') \<and>
    \<not> ok (cancelReceipt i emp2 reason now2 d')"
proof -
  let ?g = "\<lambda>x. pr_id x = i \<and> pr_status x = Doc_DRAFT \<and> pr_updatedAt x = expected"
  let ?u = "\<lambda>x. x\<lparr>pr_status := Doc_POSTED, pr_updatedAt := now\<rparr>"
  let ?d1 = "\<lambda>st. d\<lparr>purchaseReceipts := upd ?g ?u (purchaseReceipts d), inventoryItems := fst st\<rparr>"
  obtain r0 :: purchaseReceipt and st md where r0: "findReceipt d i = Some r0" "pr_status r0 = Doc_DRAFT" "pr_updatedAt r0 = expected"
    and run: "run_all (postReceiptLine d) (sort_key rl_inventoryItemId (pr_lines r0)) (inventoryItems d, []) = Inr st"
    and rec: "recordMovements (pr_receivedAt r0) (snd st) (?d1 st) = Inr (mvs, md)"
    and d': "d' = enqueue ''inventory'' ''PURCHASE_RECEIPT_POSTED'' i [] now (addLog emp ''INVENTORY_PURCHASE_RECEIPT_POSTED'' i md)"
    by (rule postReceipt_steps [OF assms(1)]) (rule that, assumption+)
  have [simp]: "r0 = r" using r0(1) assms(2) by simp
  have pend: "snd st = map linePending (sort_key rl_inventoryItemId (pr_lines r))"
    using postReceiptLines_movements [OF run] by simp
  have "restocked d d'" by (rule postReceipt_restocked [OF assms(1,3)])
  then obtain txs where m: "rowsMoved (netTx txs) (inventoryItems d) (inventoryItems d')" "inventoryTxs d' = inventoryTxs d @ txs"
    unfolding restocked_def by blast
  have tx: "inventoryTxs d' = inventoryTxs d @ map (documentTx (pr_receivedAt r)) (zip [nextId d..<nextId d + length (snd st)] (snd st))"
    using recordMovements_ledger [OF rec] by (simp add: d' enqueue_def addLog_def)
  then have "txs = map (documentTx (pr_receivedAt r)) (zip [nextId d..<nextId d + length (snd st)] (snd st))" using m(2) by simp
  then have "netTx txs = pendingNet (snd st)" using netTx_documents [of "[nextId d..<nextId d + length (snd st)]" "snd st"] by simp
  then have net: "netTx txs = receivedQuantity r"
    by (simp add: fun_eq_iff pend linePending_net sumw_sort receivedQuantity_def)
  have "findReceipt d' i = map_option (\<lambda>r. if ?g r then ?u r else r) (findReceipt d i)"
    using recordMovements_ledger [OF rec] find_upd_key [of pr_id ?u i ?g]
    by (simp add: findReceipt_def d' enqueue_def addLog_def)
  then have posted: "findReceipt d' i = Some (?u r)" using r0 by (auto simp: findReceipt_def dest: find_SomeD)
  have status: "pr_status (?u r) \<noteq> Doc_DRAFT" by simp
  show ?thesis
    using rowsMoved_map [OF m(1)] tx not_draft_receipt [OF posted status]
    by (simp add: net pend lineTx_documents)
qed

definition sampleItem :: "id \<Rightarrow> inventoryItem" where
  "sampleItem i = \<lparr>i_id = i, i_name = ''item'', i_stock = 0, i_reserved = 0, i_avgCost = 0, i_reorder = 0,
     i_categoryId = 31, i_unitId = 30, i_deletedAt = None\<rparr>"

definition sampleReceipt :: purchaseReceipt where
  "sampleReceipt = \<lparr>pr_id = 50, pr_status = Doc_DRAFT, pr_supplierId = 20, pr_createdById = 1, pr_receivedAt = 7,
     pr_updatedAt = 9, pr_total = 4000,
     pr_lines = [\<lparr>rl_id = 52, rl_inventoryItemId = 41, rl_quantity = 10000, rl_unitPrice = 1000, rl_total = 1000\<rparr>,
       \<lparr>rl_id = 51, rl_inventoryItemId = 40, rl_quantity = 20000, rl_unitPrice = 1500, rl_total = 3000\<rparr>]\<rparr>"

definition sampleStocktake :: stocktakeRow where
  "sampleStocktake = \<lparr>st_id = 60, st_status = Doc_DRAFT, st_createdById = 1,
     st_lines = [\<lparr>sl_id = 61, sl_inventoryItemId = 40, sl_expected = 0, sl_counted = Some 5000, sl_difference = None\<rparr>,
       \<lparr>sl_id = 62, sl_inventoryItemId = 41, sl_expected = 0, sl_counted = Some 0, sl_difference = None\<rparr>]\<rparr>"

definition sample_room :: db where
  "sample_room = empty_db\<lparr>nextId := 100,
     employees := [\<lparr>e_id = 1, e_fullName = ''An'', e_isActive = True, e_deletedAt = None\<rparr>],
     suppliers := [\<lparr>n_id = 20, n_name = ''S20'', n_deletedAt = None\<rparr>],
     inventoryItems := [sampleItem 40, sampleItem 41], purchaseReceipts := [sampleReceipt], stocktakes := [sampleStocktake]\<rparr>"

lemmas room_simps = sample_room_def sampleItem_def sampleReceipt_def sampleStocktake_def empty_db_def

lemmas room_eval = assertInventoryEmployee_def activeEmployee_def findReceipt_def findStocktake_def findItem_def
  postReceiptLine_def postStocktakeLine_def unchangedCost_def receiveRow_def snapshotHolds_def differenceMovement_def
  itemCheck_def fitsMoney_def txCheck_def documentTx_def recordMovements_def calculateWeightedAverageCost_def
  calculateInventoryValue_def round_div_def cnt_def upd_def Let_def

definition room_received :: db where
  "room_received = snd (value_of (postReceipt 50 1 9 11 sample_room))"

lemma room_received_ok: "\<exists>mvs. postReceipt 50 1 9 11 sample_room = Inr (mvs, room_received)"
proof -
  have "ok (postReceipt 50 1 9 11 sample_room)"
    by (simp add: postReceipt_def room_simps room_eval)
  then obtain x where "postReceipt 50 1 9 11 sample_room = Inr x" unfolding ok_iff ..
  then show ?thesis by (cases x) (simp add: room_received_def)
qed

lemma room_facts:
  "findReceipt sample_room 50 = Some sampleReceipt" "distinct (map i_id (inventoryItems sample_room))"
  by (simp_all add: room_simps findReceipt_def)

theorem receipt_posts_once_witness:
  "map (\<lambda>it. (i_id it, i_reserved it, i_stock it)) (inventoryItems room_received) = [(40, 0, 20000), (41, 0, 10000)] \<and>
   \<not> ok (postReceipt 50 1 9 12 room_received)"
proof -
  obtain mvs where post: "postReceipt 50 1 9 11 sample_room = Inr (mvs, room_received)" using room_received_ok ..
  note once = receipt_posts_once [OF post room_facts, of 1 9 12 undefined undefined]
  have "map (\<lambda>it. (i_id it, i_reserved it, i_stock it + receivedQuantity sampleReceipt (i_id it))) (inventoryItems sample_room)
      = [(40, 0, 20000), (41, 0, 10000)]"
    by (simp add: room_simps receivedQuantity_def)
  then show ?thesis using once by presburger
qed

section \<open>Stocktakes\<close>

lemma postStocktakeLine_effect:
  assumes "postStocktakeLine d l st = Inr st'" and "distinct (map i_id (fst st))"
  obtains item counted where "findItem d (sl_inventoryItemId l) = Some item" "sl_counted l = Some counted"
    "i_stock item = sl_expected l" "i_reserved item \<le> counted"
    "\<forall>r\<in>set (fst st). i_id r = sl_inventoryItemId l \<longrightarrow> snapshotHolds (sl_expected l) counted item r"
    "fst st' = upd (\<lambda>r. i_id r = sl_inventoryItemId l) (\<lambda>r. r\<lparr>i_stock := counted\<rparr>) (fst st)"
proof -
  obtain item counted where item: "findItem d (sl_inventoryItemId l) = Some item" "sl_counted l = Some counted"
    "i_stock item = sl_expected l" "i_reserved item \<le> counted"
    and one: "cnt (snapshotHolds (sl_expected l) counted item) (fst st) = 1"
    and st': "fst st' = upd (snapshotHolds (sl_expected l) counted item) (\<lambda>r. r\<lparr>i_stock := counted\<rparr>) (fst st)"
    using assms(1) by (auto simp: postStocktakeLine_def Let_def)
  have i: "i_id item = sl_inventoryItemId l" using findItemD [OF item(1)] by simp
  have hit: "\<forall>r\<in>set (fst st). i_id r = sl_inventoryItemId l \<longrightarrow> snapshotHolds (sl_expected l) counted item r"
    using guarded_row [OF assms(2) one] i by (auto simp: snapshotHolds_def)
  then have "fst st' = upd (\<lambda>r. i_id r = sl_inventoryItemId l) (\<lambda>r. r\<lparr>i_stock := counted\<rparr>) (fst st)"
    unfolding st' upd_def using i by (auto simp: snapshotHolds_def)
  with item hit show ?thesis by (rule that)
qed

lemma postStocktakeLines_counts:
  assumes "run_all (postStocktakeLine d) lines st = Inr st'" and "distinct (map i_id (fst st))"
    and "distinct (map sl_inventoryItemId lines)"
  shows "map (\<lambda>r. (i_id r, i_stock r)) (fst st') =
    map (\<lambda>r. (i_id r, case find (\<lambda>l. sl_inventoryItemId l = i_id r) lines of None \<Rightarrow> i_stock r | Some l \<Rightarrow> the (sl_counted l))) (fst st)"
  using assms
proof (induction lines arbitrary: st)
  case (Cons l ls)
  then obtain st1 where one: "postStocktakeLine d l st = Inr st1" and rest: "run_all (postStocktakeLine d) ls st1 = Inr st'" by auto
  obtain item counted where c: "sl_counted l = Some counted"
    and st1: "fst st1 = upd (\<lambda>r. i_id r = sl_inventoryItemId l) (\<lambda>r. r\<lparr>i_stock := counted\<rparr>) (fst st)"
    using postStocktakeLine_effect [OF one Cons.prems(2)] by metis
  have "map (\<lambda>r. (i_id r, i_stock r)) (fst st') =
    map (\<lambda>r. (i_id r, case find (\<lambda>l. sl_inventoryItemId l = i_id r) ls of None \<Rightarrow> i_stock r | Some l \<Rightarrow> the (sl_counted l))) (fst st1)"
    using Cons.IH [OF rest] Cons.prems(2,3) by (simp add: st1 map_key_upd)
  moreover have "find (\<lambda>x. sl_inventoryItemId x = sl_inventoryItemId l) ls = None"
    using Cons.prems(3) by (auto simp: find_None_iff image_iff)
  ultimately show ?case by (simp add: st1 upd_def comp_def c)
qed simp

lemma find_sort_key:
  assumes "distinct (map k xs)"
  shows "find (\<lambda>l. k l = i) (sort_key k xs) = find (\<lambda>l. k l = i) xs"
proof (cases "i \<in> k ` set xs")
  case True
  then obtain l where "l \<in> set xs" "k l = i" by blast
  then show ?thesis
    using find_unique [of k xs l i] find_unique [of k "sort_key k xs" l i] assms by (simp add: distinct_map)
next
  case False
  then have "find (\<lambda>l. k l = i) xs = None" "find (\<lambda>l. k l = i) (sort_key k xs) = None" by (auto simp: find_None_iff)
  then show ?thesis by simp
qed

lemma postStocktakeLines_counted:
  assumes "run_all (postStocktakeLine d) lines st = Inr st'" and "distinct (map i_id (fst st))"
  shows "\<forall>l\<in>set lines. \<exists>it\<in>set (inventoryItems d). i_id it = sl_inventoryItemId l \<and> i_deletedAt it = None \<and> i_stock it = sl_expected l"
  using assms
proof (induction lines arbitrary: st)
  case (Cons l ls)
  then obtain st1 where one: "postStocktakeLine d l st = Inr st1" and rest: "run_all (postStocktakeLine d) ls st1 = Inr st'" by auto
  have "map i_id (fst st1) = map i_id (fst st)"
    by (rule postStocktakeLine_effect [OF one Cons.prems(2)]) (simp add: map_key_upd)
  moreover have "\<exists>it\<in>set (inventoryItems d). i_id it = sl_inventoryItemId l \<and> i_deletedAt it = None \<and> i_stock it = sl_expected l"
    using one by (auto simp: postStocktakeLine_def dest!: findItemD)
  ultimately show ?case using Cons.IH [OF rest] Cons.prems(2) by simp
qed simp

lemma not_draft_stocktake:
  assumes "findStocktake d i = Some t" and "st_status t \<noteq> Doc_DRAFT"
  shows "\<not> ok (postStocktake i emp expected now d)" "\<not> ok (updateCounts i emp counts d)" "\<not> ok (cancelStocktake i emp reason d)"
  using assms
  by (auto simp: ok_iff postStocktake_def updateCounts_def cancelStocktake_def assertInventoryEmployee_def assertDraftStocktake_def)

text \<open>C33: Posting a stocktake makes the stock of every counted item the count, and of no other item: the
  draft is refused if an item has moved since the snapshot, so each difference was measured
  against the stock it replaces. The differences are in the ledger, and the stocktake is final.\<close>

theorem stocktake_sets_counts:
  assumes "postStocktake i emp expected now d = Inr (mvs, d')" and "findStocktake d i = Some t"
    and "distinct (map i_id (inventoryItems d))" and "distinct (map sl_inventoryItemId (st_lines t))"
  shows "map (\<lambda>it. (i_id it, i_stock it)) (inventoryItems d') =
      map (\<lambda>it. (i_id it, case find (\<lambda>l. sl_inventoryItemId l = i_id it) (st_lines t) of
                   None \<Rightarrow> i_stock it | Some l \<Rightarrow> the (sl_counted l))) (inventoryItems d) \<and>
    (\<forall>l\<in>set (st_lines t). \<exists>it\<in>set (inventoryItems d).
       i_id it = sl_inventoryItemId l \<and> i_deletedAt it = None \<and> i_stock it = sl_expected l) \<and>
    restocked d d' \<and> \<not> ok (postStocktake i emp2 expected2 now2 d') \<and> \<not> ok (updateCounts i emp2 counts d')"
proof -
  let ?g = "\<lambda>x. st_id x = i \<and> st_status x = Doc_DRAFT"
  obtain t0 :: stocktakeRow and st md where t0: "findStocktake d i = Some t0" "st_status t0 = Doc_DRAFT"
    and run: "run_all (postStocktakeLine d) (sort_key sl_inventoryItemId (st_lines t0)) (inventoryItems d, [], st_lines t0) = Inr st"
    and rec: "recordMovements now (fst (snd st)) (d\<lparr>inventoryItems := fst st,
          stocktakes := upd ?g (\<lambda>x. x\<lparr>st_status := Doc_POSTED, st_lines := snd (snd st)\<rparr>) (stocktakes d)\<rparr>) = Inr (mvs, md)"
    and d': "d' = enqueue ''inventory'' ''STOCKTAKE_POSTED'' i [] now (addLog emp ''INVENTORY_STOCKTAKE_POSTED'' i md)"
    by (rule postStocktake_steps [OF assms(1)]) (rule that, assumption+)
  let ?u = "\<lambda>x. x\<lparr>st_status := Doc_POSTED, st_lines := snd (snd st)\<rparr>"
  have [simp]: "t0 = t" using t0(1) assms(2) by simp
  have items: "inventoryItems d' = fst st" using recordMovements_effect(1) [OF rec] by (simp add: d')
  have dist: "distinct (map sl_inventoryItemId (sort_key sl_inventoryItemId (st_lines t)))" using assms(4) by (simp add: distinct_map)
  note counts = postStocktakeLines_counts [OF run [simplified]] postStocktakeLines_counted [OF run [simplified]]
  have "findStocktake d' i = map_option (\<lambda>x. if ?g x then ?u x else x) (findStocktake d i)"
    using recordMovements_ledger [OF rec] find_upd_key [of st_id ?u i ?g]
    by (simp add: findStocktake_def d' enqueue_def addLog_def)
  then have posted: "findStocktake d' i = Some (?u t)" using t0 by (auto simp: findStocktake_def dest: find_SomeD)
  have status: "st_status (?u t) \<noteq> Doc_DRAFT" by simp
  show ?thesis
    using counts assms(3) dist find_sort_key [OF assms(4)] postStocktake_restocked [OF assms(1,3)] not_draft_stocktake [OF posted status]
    by (simp add: items)
qed

definition room_counted :: db where
  "room_counted = snd (value_of (postStocktake 60 1 None 11 sample_room))"

lemma room_counted_ok: "\<exists>mvs. postStocktake 60 1 None 11 sample_room = Inr (mvs, room_counted)"
proof -
  have "ok (postStocktake 60 1 None 11 sample_room)"
    by (simp add: postStocktake_def assertReviewedCounts_def room_simps room_eval)
  then obtain x where "postStocktake 60 1 None 11 sample_room = Inr x" unfolding ok_iff ..
  then show ?thesis by (cases x) (simp add: room_counted_def)
qed

theorem stocktake_sets_counts_witness:
  "map (\<lambda>it. (i_id it, i_stock it)) (inventoryItems room_counted) = [(40, 5000), (41, 0)] \<and>
   \<not> ok (postStocktake 60 1 None 12 room_counted)"
proof -
  obtain mvs where post: "postStocktake 60 1 None 11 sample_room = Inr (mvs, room_counted)" using room_counted_ok ..
  have find: "findStocktake sample_room 60 = Some sampleStocktake" "distinct (map sl_inventoryItemId (st_lines sampleStocktake))"
    by (simp_all add: room_simps findStocktake_def)
  note c = stocktake_sets_counts [OF post find(1) room_facts(2) find(2), of 1 None 12 undefined]
  have "map (\<lambda>it. (i_id it, case find (\<lambda>l. sl_inventoryItemId l = i_id it) (st_lines sampleStocktake) of
          None \<Rightarrow> i_stock it | Some l \<Rightarrow> the (sl_counted l))) (inventoryItems sample_room) = [(40, 5000), (41, 0)]"
    by (simp add: room_simps)
  then show ?thesis using c by presburger
qed

section \<open>Everything the shop does\<close>

text \<open>C2: Whatever sequence of orders, payments, refunds, handovers, stock movements, receipts and
  stocktakes the shop goes through, an item's reserved stock is the sum of the reservations that
  name it and never exceeds its stock, and every unit of stock is explained by the ledger.\<close>

theorem stock_explained:
  assumes "(shop_step hash sign sameName)\<^sup>*\<^sup>* d d'" and "stock_inv d" and "ledger_ok (\<lambda>_. 0) d"
    and "it \<in> set (inventoryItems d')"
  shows "i_reserved it = sumw (\<lambda>h. h_inventoryItemId h = i_id it) h_quantity (reservations d') \<and>
    0 \<le> i_reserved it \<and> i_reserved it \<le> i_stock it \<and>
    i_stock it = sumw (\<lambda>x. x_inventoryItemId x = i_id it) signedQty (inventoryTxs d')"
proof -
  have s: "stock_inv d'" by (rule stockRoom.shop_reachable [OF assms(1,2)])
  have l: "ledger_ok (\<lambda>_. 0) d'" by (rule stockLedger.shop_reachable [OF assms(1,3)])
  show ?thesis
    using stock_inv_reserved [OF s assms(4)] stock_inv_reserved_nonneg [OF s assms(4)] stock_inv_le [OF s assms(4)] l assms(4)
    by (simp add: reservedIn_def ledger_ok_def netTx_def)
qed

theorem stock_explained_witness:
  "\<exists>it\<in>set (inventoryItems room_received). i_id it = 40 \<and> i_stock it = 20000 \<and> i_reserved it \<le> i_stock it \<and>
     i_stock it = sumw (\<lambda>x. x_inventoryItemId x = 40) signedQty (inventoryTxs room_received)"
proof -
  obtain mvs where post: "postReceipt 50 1 9 11 sample_room = Inr (mvs, room_received)" using room_received_ok ..
  have c: "committed sample_room"
    by (simp add: committed_def keys_ok_def stock_keys_def one_open_shift_def recipes_fresh_def lines_fresh_def room_simps)
  have "inventory_step (=) sample_room room_received" by (rule inventory_step.post_receipt [OF post c])
  then have step: "(shop_step (\<lambda>q. q) (\<lambda>n e. n) (=))\<^sup>*\<^sup>* sample_room room_received"
    by (intro r_into_rtranclp shop_step.inventory)
  have start: "stock_inv sample_room" "ledger_ok (\<lambda>_. 0) sample_room"
    by (simp_all add: stock_inv_def stock_ok_def reservedIn_def ledger_ok_def netTx_def room_simps)
  have "(40, 0, 20000) \<in> set (map (\<lambda>it. (i_id it, i_reserved it, i_stock it)) (inventoryItems room_received))"
    using receipt_posts_once [OF post room_facts] by (simp add: room_simps receivedQuantity_def)
  then obtain it where it: "it \<in> set (inventoryItems room_received)" "i_id it = 40" "i_stock it = 20000" by auto
  then show ?thesis using stock_explained [OF step start it(1)] by (intro bexI [of _ it]) simp_all
qed

end
