(* ===== verification/Payment_Facts.thy ===== *)
theory Payment_Facts
  imports Payment_Refunds Stock_System
begin

text \<open>
  The books of the online payments: what holds of the attempts, the refunds and the invoices
  together (\<open>payments_ok\<close>), and that each kind of change the services make keeps it. The
  operations themselves follow in \<open>Payment_System\<close>.
\<close>

section \<open>The invariant\<close>

text \<open>The status an online invoice shows for an amount that was refunded of an amount that was captured.\<close>

definition onlineStatus :: "money \<Rightarrow> money \<Rightarrow> PaymentStatus" where
  "onlineStatus refunded captured = (if refunded = 0 then Pay_PAID else targetStatus refunded captured)"

definition reservedSum :: "id \<Rightarrow> paymentRefund list \<Rightarrow> money" where
  "reservedSum i rs = sumw (\<lambda>r. pf_attemptId r = i \<and> pf_status r \<in> set RESERVED_REFUND_STATUSES) pf_amount rs"

definition refundedSum :: "id \<Rightarrow> paymentRefund list \<Rightarrow> money" where
  "refundedSum i rs = sumw (\<lambda>r. pf_attemptId r = i \<and> pf_status r = Refund_SUCCEEDED) pf_amount rs"

text \<open>An attempt bills the total of its invoice; a confirmed one shows in the invoice with all that was refunded.\<close>

definition billed :: "paymentRefund list \<Rightarrow> invoice list \<Rightarrow> paymentAttempt \<Rightarrow> bool" where
  "billed rs vs a \<longleftrightarrow> (\<exists>v\<in>set vs. v_id v = a_invoiceId a \<and> v_total v = a_amount a \<and>
     (a_status a = Attempt_SUCCEEDED \<longrightarrow>
        v_method v = Method_TRANSFER \<and> v_status v = onlineStatus (refundedSum (a_id a) rs) (a_amount a)))"

definition confirmedOnce :: "paymentAttempt list \<Rightarrow> bool" where
  "confirmedOnce as \<longleftrightarrow> (\<forall>a\<in>set as. \<forall>b\<in>set as. a_status a = Attempt_SUCCEEDED \<and> a_status b = Attempt_SUCCEEDED \<and>
     a_invoiceId a = a_invoiceId b \<longrightarrow> a_id a = a_id b)"

text \<open>\<open>PaymentRefund_completion_check\<close>, and what a refund refunds.\<close>

definition refundState :: "paymentRefund \<Rightarrow> bool" where
  "refundState r \<longleftrightarrow> (pf_status r \<in> {Refund_SUCCEEDED, Refund_FAILED, Refund_REJECTED} \<longleftrightarrow> pf_completedAt r \<noteq> None)"

definition refundOf :: "paymentAttempt list \<Rightarrow> paymentRefund \<Rightarrow> bool" where
  "refundOf as r \<longleftrightarrow> 0 < pf_amount r \<and> refundState r \<and>
     (\<exists>a\<in>set as. a_id a = pf_attemptId r \<and> a_status a = Attempt_SUCCEEDED)"

definition ledger :: "paymentAttempt list \<Rightarrow> paymentRefund list \<Rightarrow> invoice list \<Rightarrow> bool" where
  "ledger as rs vs \<longleftrightarrow> (\<forall>a\<in>set as. attemptChecks a \<and> billed rs vs a \<and> reservedSum (a_id a) rs \<le> a_amount a) \<and>
     confirmedOnce as \<and> (\<forall>r\<in>set rs. refundOf as r)"

definition payments_ok :: "db \<Rightarrow> bool" where
  "payments_ok d \<longleftrightarrow> ledger (paymentAttempts d) (paymentRefunds d) (invoices d)"

definition payView :: "db \<Rightarrow> paymentAttempt list \<times> paymentRefund list \<times> invoice list" where
  "payView d = (paymentAttempts d, paymentRefunds d, invoices d)"

lemma payView_ok: "payView d' = payView d \<Longrightarrow> payments_ok d' = payments_ok d"
  by (simp add: payments_ok_def payView_def)

lemma payView_desk: "deskView d' = deskView d \<Longrightarrow> payView d' = payView d"
  by (simp add: deskView_def cashView_def payView_def)

lemma ledgerD:
  assumes "ledger as rs vs"
  shows "a \<in> set as \<Longrightarrow> attemptChecks a" "a \<in> set as \<Longrightarrow> billed rs vs a"
    "a \<in> set as \<Longrightarrow> reservedSum (a_id a) rs \<le> a_amount a" "confirmedOnce as" "r \<in> set rs \<Longrightarrow> refundOf as r"
  using assms by (simp_all add: ledger_def)

lemma onlineStatus_paid: "paidStatus (onlineStatus r c)"
  by (simp add: onlineStatus_def targetStatus_def paidStatus_def)

section \<open>Attempts change\<close>

text \<open>What no update of an attempt touches.\<close>

definition sameAttempt :: "paymentAttempt \<Rightarrow> paymentAttempt \<Rightarrow> bool" where
  "sameAttempt a b \<longleftrightarrow> a_id b = a_id a \<and> a_invoiceId b = a_invoiceId a \<and> a_amount b = a_amount a \<and>
     a_currency b = a_currency a \<and> a_createdAt b = a_createdAt a \<and> a_expiresAt b = a_expiresAt a"

lemma sameAttempt_refl [simp]: "sameAttempt a a"
  by (simp add: sameAttempt_def)

text \<open>An update that confirms nothing and takes no confirmation back.\<close>

definition steady :: "paymentAttempt \<Rightarrow> paymentAttempt \<Rightarrow> bool" where
  "steady a b \<longleftrightarrow> sameAttempt a b \<and> (a_status b = Attempt_SUCCEEDED \<longleftrightarrow> a_status a = Attempt_SUCCEEDED) \<and>
     (attemptState a \<longrightarrow> attemptState b)"

lemma steady_refl [simp]: "steady a a"
  by (simp add: steady_def)

lemma ledger_map:
  assumes "ledger as rs vs" and "\<And>a. a \<in> set as \<Longrightarrow> steady a (f a)"
  shows "ledger (map f as) rs vs"
proof -
  note s = assms(2) [unfolded steady_def sameAttempt_def]
  have "attemptChecks (f a) \<and> billed rs vs (f a) \<and> reservedSum (a_id (f a)) rs \<le> a_amount (f a)" if a: "a \<in> set as" for a
    using ledgerD(1-3) [OF assms(1) a] s [OF a] by (simp add: attemptChecks_def billed_def)
  moreover have "confirmedOnce (map f as)"
    unfolding confirmedOnce_def set_map ball_simps
    using ledgerD(4) [OF assms(1), unfolded confirmedOnce_def] s by metis
  moreover have "refundOf (map f as) r" if "r \<in> set rs" for r
    using ledgerD(5) [OF assms(1) that] s unfolding refundOf_def by force
  ultimately show ?thesis by (simp add: ledger_def)
qed

lemma ledger_upd:
  assumes "ledger as rs vs" and "\<And>a. a \<in> set as \<Longrightarrow> g a \<Longrightarrow> steady a (f a)"
  shows "ledger (upd g f as) rs vs"
  unfolding upd_def by (rule ledger_map [OF assms(1)]) (simp add: assms(2))

lemma ledger_new_attempt:
  assumes "ledger as rs vs" and "attemptChecks a" and "a_status a = Attempt_PENDING" and "v \<in> set vs"
    and "v_id v = a_invoiceId a" and "v_total v = a_amount a" and "a_id a \<notin> a_id ` set as"
  shows "ledger (as @ [a]) rs vs"
proof -
  have "pf_attemptId r \<noteq> a_id a" if "r \<in> set rs" for r
    using ledgerD(5) [OF assms(1) that] assms(7) unfolding refundOf_def by (metis imageI)
  then have "reservedSum (a_id a) rs = 0" unfolding reservedSum_def by (intro sumw_zero) blast
  moreover have "0 < a_amount a" using assms(2) by (simp add: attemptChecks_def)
  moreover have "billed rs vs a" using assms(3-6) by (auto simp: billed_def)
  moreover have "confirmedOnce (as @ [a])"
    unfolding confirmedOnce_def
  proof (intro ballI impI)
    fix x y assume xy: "x \<in> set (as @ [a])" "y \<in> set (as @ [a])"
      and eq: "a_status x = Attempt_SUCCEEDED \<and> a_status y = Attempt_SUCCEEDED \<and> a_invoiceId x = a_invoiceId y"
    have "x \<noteq> a" "y \<noteq> a" using eq assms(3) by auto
    then have "x \<in> set as" "y \<in> set as" using xy by simp_all
    then show "a_id x = a_id y" using ledgerD(4) [OF assms(1)] eq unfolding confirmedOnce_def by blast
  qed
  moreover have "refundOf (as @ [a]) r" if "r \<in> set rs" for r
    using ledgerD(5) [OF assms(1) that] by (auto simp: refundOf_def)
  ultimately show ?thesis using ledgerD(1-3) [OF assms(1)] assms(2) by (auto simp: ledger_def)
qed

section \<open>Invoices change\<close>

definition keepsInvoice :: "invoice \<Rightarrow> invoice \<Rightarrow> bool" where
  "keepsInvoice v w \<longleftrightarrow> v_id w = v_id v \<and> v_total w = v_total v \<and>
     (paidStatus (v_status v) \<and> v_method v = Method_TRANSFER \<longrightarrow> v_status w = v_status v \<and> v_method w = Method_TRANSFER)"

lemma ledger_invoices:
  assumes "ledger as rs vs" and "\<And>v. v \<in> set vs \<Longrightarrow> \<exists>w\<in>set ws. keepsInvoice v w"
  shows "ledger as rs ws"
proof -
  have "billed rs ws a" if a: "a \<in> set as" for a
  proof -
    obtain v where v: "v \<in> set vs" "v_id v = a_invoiceId a" "v_total v = a_amount a"
      "a_status a = Attempt_SUCCEEDED \<longrightarrow>
        v_method v = Method_TRANSFER \<and> v_status v = onlineStatus (refundedSum (a_id a) rs) (a_amount a)"
      using ledgerD(2) [OF assms(1) a] unfolding billed_def by blast
    obtain w where "w \<in> set ws" "keepsInvoice v w" using assms(2) [OF v(1)] by blast
    then show ?thesis using v(2-4) onlineStatus_paid unfolding billed_def keepsInvoice_def by metis
  qed
  then show ?thesis using assms(1) by (simp add: ledger_def)
qed

definition pay_frame :: "db \<Rightarrow> db \<Rightarrow> bool" where
  "pay_frame d d' \<longleftrightarrow> paymentAttempts d' = paymentAttempts d \<and> paymentRefunds d' = paymentRefunds d \<and>
     (\<forall>v\<in>set (invoices d). \<exists>w\<in>set (invoices d'). keepsInvoice v w)"

lemma pay_frame_ok: "pay_frame d d' \<Longrightarrow> payments_ok d \<Longrightarrow> payments_ok d'"
  unfolding payments_ok_def pay_frame_def by (metis ledger_invoices)

lemma keepsInvoice_refl [simp]: "keepsInvoice v v"
  by (simp add: keepsInvoice_def)

lemma keepsInvoice_trans: "keepsInvoice u v \<Longrightarrow> keepsInvoice v w \<Longrightarrow> keepsInvoice u w"
  by (auto simp: keepsInvoice_def)

lemma pay_frame_view: "payView d' = payView d \<Longrightarrow> pay_frame d d'"
  by (simp add: pay_frame_def payView_def) (blast intro: keepsInvoice_refl)

lemma pay_frame_trans: "pay_frame d d1 \<Longrightarrow> pay_frame d1 d2 \<Longrightarrow> pay_frame d d2"
  unfolding pay_frame_def by (metis keepsInvoice_trans)

lemma pay_frame_upd:
  assumes "paymentAttempts d' = paymentAttempts d" and "paymentRefunds d' = paymentRefunds d"
    and "invoices d' = upd g f (invoices d)" and "\<And>v. v \<in> set (invoices d) \<Longrightarrow> g v \<Longrightarrow> keepsInvoice v (f v)"
  shows "pay_frame d d'"
  unfolding pay_frame_def assms(1-3)
proof (intro conjI ballI refl)
  fix v assume v: "v \<in> set (invoices d)"
  then have "keepsInvoice v (if g v then f v else v)" by (simp add: assms(4))
  then show "\<exists>w\<in>set (upd g f (invoices d)). keepsInvoice v w"
    using v by (intro bexI [of _ "if g v then f v else v"]) (simp_all add: upd_def)
qed

section \<open>A payment is confirmed\<close>

text \<open>The row of one attempt becomes SUCCEEDED while its unpaid invoice becomes PAID.\<close>

lemma no_refund_unconfirmed:
  assumes "ledger as rs vs" and "distinct (map a_id as)" and "a \<in> set as" and "a_status a \<noteq> Attempt_SUCCEEDED"
    and "r \<in> set rs"
  shows "pf_attemptId r \<noteq> a_id a"
proof
  assume r: "pf_attemptId r = a_id a"
  obtain b where "b \<in> set as" "a_id b = pf_attemptId r" "a_status b = Attempt_SUCCEEDED"
    using ledgerD(5) [OF assms(1,5)] by (auto simp: refundOf_def)
  then show False using distinct_key_eq [OF assms(2) _ assms(3)] r assms(4) by metis
qed

lemma unpaid_unconfirmed:
  assumes "ledger as rs vs" and "distinct (map v_id vs)" and "v \<in> set vs" and "v_status v = Pay_UNPAID"
    and "b \<in> set as" and "a_invoiceId b = v_id v"
  shows "a_status b \<noteq> Attempt_SUCCEEDED"
proof
  assume b: "a_status b = Attempt_SUCCEEDED"
  obtain w where w: "w \<in> set vs" "v_id w = a_invoiceId b" "v_status w = onlineStatus (refundedSum (a_id b) rs) (a_amount b)"
    using ledgerD(2) [OF assms(1,5)] b by (auto simp: billed_def)
  have "w = v" using distinct_key_eq [OF assms(2) w(1) assms(3)] w(2) assms(6) by simp
  then show False using w(3) assms(4) onlineStatus_paid [of "refundedSum (a_id b) rs" "a_amount b"] by (simp add: paidStatus_def)
qed

definition confirmed :: "paymentAttempt \<Rightarrow> paymentAttempt \<Rightarrow> bool" where
  "confirmed a b \<longleftrightarrow> sameAttempt a b \<and> a_status b = Attempt_SUCCEEDED \<and> attemptState b"

definition paidOnline :: "invoice \<Rightarrow> invoice \<Rightarrow> bool" where
  "paidOnline v w \<longleftrightarrow> v_id w = v_id v \<and> v_total w = v_total v \<and> v_status w = Pay_PAID \<and> v_method w = Method_TRANSFER"

lemma ledger_confirm:
  assumes ok: "ledger as rs vs" and ids: "distinct (map a_id as)" "distinct (map v_id vs)"
    and a: "a \<in> set as" and v: "v \<in> set vs" "v_id v = a_invoiceId a" "v_status v = Pay_UNPAID"
    and f: "confirmed a (f a)" and h: "\<And>w. w \<in> set vs \<Longrightarrow> keepsInvoice w (h w)" "paidOnline v (h v)"
  shows "ledger (upd (\<lambda>r. a_id r = a_id a) f as) rs (map h vs)"
proof -
  let ?as = "upd (\<lambda>r. a_id r = a_id a) f as"
  have na: "a_status a \<noteq> Attempt_SUCCEEDED" by (rule unpaid_unconfirmed [OF ok ids(2) v(1,3) a]) (simp add: v(2))
  have row: "b = (if b0 = a then f a else b0)" if "b0 \<in> set as" "b = (if a_id b0 = a_id a then f b0 else b0)" for b b0
    using that distinct_key_eq [OF ids(1) that(1) a] by metis
  have ok': "ledger as rs (map h vs)" by (rule ledger_invoices [OF ok]) (use h(1) in auto)
  note s = f [unfolded confirmed_def sameAttempt_def]
  have none: "reservedSum (a_id a) rs = 0" "refundedSum (a_id a) rs = 0"
    using no_refund_unconfirmed [OF ok ids(1) a na] unfolding reservedSum_def refundedSum_def by (auto intro!: sumw_zero)
  have fa: "attemptChecks (f a) \<and> billed rs (map h vs) (f a) \<and> reservedSum (a_id (f a)) rs \<le> a_amount (f a)"
  proof -
    obtain w where w: "w \<in> set vs" "v_id w = a_invoiceId a" "v_total w = a_amount a"
      using ledgerD(2) [OF ok a] by (auto simp: billed_def)
    have "w = v" using distinct_key_eq [OF ids(2) w(1) v(1)] w(2) v(2) by simp
    then have "billed rs (map h vs) (f a)"
      using s h(2) w v(1) none(2) by (auto simp: billed_def paidOnline_def onlineStatus_def)
    then show ?thesis using ledgerD(1) [OF ok a] s none(1) by (simp add: attemptChecks_def)
  qed
  have "attemptChecks b \<and> billed rs (map h vs) b \<and> reservedSum (a_id b) rs \<le> a_amount b" if b: "b \<in> set ?as" for b
  proof -
    obtain b0 where b0: "b0 \<in> set as" "b = (if a_id b0 = a_id a then f b0 else b0)" by (rule mem_updE [OF b])
    show ?thesis using row [OF b0] fa ledgerD(1-3) [OF ok' b0(1)] by (cases "b0 = a") simp_all
  qed
  moreover have "confirmedOnce ?as"
    unfolding confirmedOnce_def
  proof (intro ballI impI)
    fix b c assume b: "b \<in> set ?as" and c: "c \<in> set ?as"
      and eq: "a_status b = Attempt_SUCCEEDED \<and> a_status c = Attempt_SUCCEEDED \<and> a_invoiceId b = a_invoiceId c"
    obtain b0 where b0: "b0 \<in> set as" "b = (if a_id b0 = a_id a then f b0 else b0)" by (rule mem_updE [OF b])
    obtain c0 where c0: "c0 \<in> set as" "c = (if a_id c0 = a_id a then f c0 else c0)" by (rule mem_updE [OF c])
    have other: "a_status x \<noteq> Attempt_SUCCEEDED" if "x \<in> set as" "a_invoiceId x = a_invoiceId a" for x
      by (rule unpaid_unconfirmed [OF ok ids(2) v(1,3) that(1)]) (simp add: that(2) v(2))
    show "a_id b = a_id c"
    proof (cases "b0 = a \<or> c0 = a")
      case True
      have "b0 = a \<and> c0 = a"
      proof (rule ccontr)
        assume "\<not> (b0 = a \<and> c0 = a)"
        with True consider "b0 = a" "c0 \<noteq> a" | "b0 \<noteq> a" "c0 = a" by blast
        then show False
        proof cases
          case 1
          then have "b = f a" "c = c0" using row [OF b0] row [OF c0] by simp_all
          then show False using eq s other [OF c0(1)] by simp
        next
          case 2
          then have "c = f a" "b = b0" using row [OF b0] row [OF c0] by simp_all
          then show False using eq s other [OF b0(1)] by simp
        qed
      qed
      then show ?thesis using row [OF b0] row [OF c0] by simp
    next
      case False
      then have "b = b0" "c = c0" using row [OF b0] row [OF c0] by simp_all
      then show ?thesis using ledgerD(4) [OF ok] b0(1) c0(1) eq unfolding confirmedOnce_def by blast
    qed
  qed
  moreover have "refundOf ?as r" if r: "r \<in> set rs" for r
  proof -
    obtain b where b: "b \<in> set as" "a_id b = pf_attemptId r" "a_status b = Attempt_SUCCEEDED"
      using ledgerD(5) [OF ok r] by (auto simp: refundOf_def)
    have "a_id b \<noteq> a_id a" using no_refund_unconfirmed [OF ok ids(1) a na r] b(2) by simp
    then have "b \<in> set ?as" using b(1) by (force simp: set_upd)
    then show ?thesis using ledgerD(5) [OF ok r] b(2,3) by (auto simp: refundOf_def)
  qed
  ultimately show ?thesis by (simp add: ledger_def)
qed

section \<open>Refunds change\<close>

definition reservedRefund :: "paymentRefund \<Rightarrow> bool" where
  "reservedRefund r \<longleftrightarrow> pf_status r \<in> set RESERVED_REFUND_STATUSES"

definition sameRefund :: "paymentRefund \<Rightarrow> paymentRefund \<Rightarrow> bool" where
  "sameRefund r s \<longleftrightarrow> pf_id s = pf_id r \<and> pf_attemptId s = pf_attemptId r \<and> pf_amount s = pf_amount r"

text \<open>A refund moves on without succeeding, and reserves no more than before.\<close>

definition refund_steady :: "paymentRefund \<Rightarrow> paymentRefund \<Rightarrow> bool" where
  "refund_steady r s \<longleftrightarrow> sameRefund r s \<and> refundState s \<and> (reservedRefund s \<longrightarrow> reservedRefund r) \<and>
     (pf_status s = Refund_SUCCEEDED \<longleftrightarrow> pf_status r = Refund_SUCCEEDED)"

lemma reservedRefund_iff:
  "reservedRefund r \<longleftrightarrow> pf_status r \<noteq> Refund_FAILED \<and> pf_status r \<noteq> Refund_REJECTED"
  by (cases "pf_status r") (simp_all add: reservedRefund_def RESERVED_REFUND_STATUSES_def)

lemma reservedSum_alt: "reservedSum i rs = sumw (\<lambda>r. pf_attemptId r = i \<and> reservedRefund r) pf_amount rs"
  by (simp add: reservedSum_def reservedRefund_def)

lemma ledger_new_refund:
  assumes ok: "ledger as rs vs" and ids: "distinct (map a_id as)" and a: "a \<in> set as" "a_id a = pf_attemptId r" "a_status a = Attempt_SUCCEEDED"
    and r: "pf_status r = Refund_PENDING" "pf_completedAt r = None" "0 < pf_amount r" "pf_amount r \<le> a_amount a - reservedSum (a_id a) rs"
  shows "ledger as (rs @ [r]) vs"
proof -
  have "refundedSum i (rs @ [r]) = refundedSum i rs" for i using r(1) by (simp add: refundedSum_def)
  then have "billed (rs @ [r]) vs b" if "b \<in> set as" for b using ledgerD(2) [OF ok that] by (simp add: billed_def)
  moreover have "reservedSum (a_id b) (rs @ [r]) \<le> a_amount b" if b: "b \<in> set as" for b
  proof (cases "a_id b = pf_attemptId r")
    case True
    then have "b = a" using distinct_key_eq [OF ids b a(1)] a(2) by simp
    then show ?thesis using r(1,4) True by (simp add: reservedSum_def RESERVED_REFUND_STATUSES_def)
  next
    case False
    then show ?thesis using ledgerD(3) [OF ok b] by (simp add: reservedSum_def)
  qed
  moreover have "refundOf as r" using a r(1-3) by (auto simp: refundOf_def refundState_def)
  ultimately show ?thesis using ledgerD(1,4,5) [OF ok] by (simp add: ledger_def)
qed

lemma sumw_upd_le:
  "(\<And>r. r \<in> set t \<Longrightarrow> P r \<Longrightarrow> (Q (f r) \<longrightarrow> Q r) \<and> g (f r) = g r \<and> (0 :: int) \<le> g r) \<Longrightarrow> sumw Q g (upd P f t) \<le> sumw Q g t"
  by (induction t) (auto, fastforce+)

lemma ledger_refund_upd:
  assumes ok: "ledger as rs vs" and f: "\<And>r. r \<in> set rs \<Longrightarrow> g r \<Longrightarrow> refund_steady r (f r)"
  shows "ledger as (upd g f rs) vs"
proof -
  note s = f [unfolded refund_steady_def sameRefund_def]
  have "refundedSum i (upd g f rs) = refundedSum i rs" for i
    unfolding refundedSum_def by (rule sumw_upd_same) (use s in auto)
  then have b: "billed (upd g f rs) vs b" if "b \<in> set as" for b using ledgerD(2) [OF ok that] by (simp add: billed_def)
  have "0 \<le> pf_amount r" if "r \<in> set rs" for r using ledgerD(5) [OF ok that] by (simp add: refundOf_def)
  then have "reservedSum i (upd g f rs) \<le> reservedSum i rs" for i
    unfolding reservedSum_alt by (intro sumw_upd_le) (use s in auto)
  then have "reservedSum (a_id b) (upd g f rs) \<le> a_amount b" if "b \<in> set as" for b
    using ledgerD(3) [OF ok that] order_trans by blast
  moreover have "refundOf as r" if mem: "r \<in> set (upd g f rs)" for r
  proof -
    obtain r0 where r0: "r0 \<in> set rs" "r = (if g r0 then f r0 else r0)" by (rule mem_updE [OF mem])
    show ?thesis using ledgerD(5) [OF ok r0(1)] s [OF r0(1)] r0(2) by (auto simp: refundOf_def)
  qed
  ultimately show ?thesis using ledgerD(1,4) [OF ok] b by (simp add: ledger_def)
qed

text \<open>A refund succeeds: its invoice shows what is refunded by now.\<close>

definition refundInvoice :: "id \<Rightarrow> PaymentStatus \<Rightarrow> invoice list \<Rightarrow> invoice list" where
  "refundInvoice vid st vs = upd (\<lambda>v. v_id v = vid \<and> refundableOnline (v_status v)) (\<lambda>v. v\<lparr>v_status := st\<rparr>) vs"

lemma refund_room:
  assumes "ledger as rs vs" and "a \<in> set as" and "r \<in> set rs" and "pf_attemptId r = a_id a"
    and "reservedRefund r" and "pf_status r \<noteq> Refund_SUCCEEDED"
  shows "refundedSum (a_id a) rs + pf_amount r \<le> a_amount a" and "0 \<le> refundedSum (a_id a) rs" and "0 < pf_amount r"
proof -
  have pos: "0 < pf_amount x" if "x \<in> set rs" for x using ledgerD(5) [OF assms(1) that] by (simp add: refundOf_def)
  let ?res = "\<lambda>x. pf_attemptId x = a_id a \<and> reservedRefund x"
  have "sumw ?res pf_amount rs = sumw (\<lambda>x. ?res x \<and> pf_status x = Refund_SUCCEEDED) pf_amount rs
      + sumw (\<lambda>x. ?res x \<and> pf_status x \<noteq> Refund_SUCCEEDED) pf_amount rs" by (rule sumw_split)
  moreover have "sumw (\<lambda>x. ?res x \<and> pf_status x = Refund_SUCCEEDED) pf_amount rs = refundedSum (a_id a) rs"
    unfolding refundedSum_def by (rule sumw_cong) (auto simp: reservedRefund_iff)
  moreover have "pf_amount r \<le> sumw (\<lambda>x. ?res x \<and> pf_status x \<noteq> Refund_SUCCEEDED) pf_amount rs"
    by (rule sumw_mem_le) (use assms(3-6) pos in \<open>auto intro: less_imp_le\<close>)
  ultimately show "refundedSum (a_id a) rs + pf_amount r \<le> a_amount a"
    using ledgerD(3) [OF assms(1,2)] by (simp add: reservedSum_alt)
  show "0 \<le> refundedSum (a_id a) rs"
    unfolding refundedSum_def by (rule sumw_nonneg) (use pos in \<open>auto intro: less_imp_le\<close>)
  show "0 < pf_amount r" by (rule pos [OF assms(3)])
qed

lemma ledger_refund_success:
  assumes ok: "ledger as rs vs" and ids: "distinct (map a_id as)" "distinct (map pf_id rs)" "distinct (map v_id vs)"
    and a: "a \<in> set as" and r: "r \<in> set rs" "pf_attemptId r = a_id a" "reservedRefund r" "pf_status r \<noteq> Refund_SUCCEEDED"
    and f: "sameRefund r (f r)" "pf_status (f r) = Refund_SUCCEEDED" "pf_completedAt (f r) \<noteq> None"
  defines "rs' \<equiv> upd (\<lambda>x. pf_id x = pf_id r) f rs"
  shows "ledger as rs' (refundInvoice (a_invoiceId a) (targetStatus (refundedSum (a_id a) rs') (a_amount a)) vs)"
    and "cnt (\<lambda>v. v_id v = a_invoiceId a \<and> refundableOnline (v_status v)) vs = 1"
proof -
  note room = refund_room [OF ok a r]
  let ?st = "targetStatus (refundedSum (a_id a) rs') (a_amount a)"
  have "a_status a = Attempt_SUCCEEDED"
    using ledgerD(5) [OF ok r(1)] distinct_key_eq [OF ids(1) _ a] r(2) by (auto simp: refundOf_def)
  then obtain v where v: "v \<in> set vs" "v_id v = a_invoiceId a" "v_total v = a_amount a" "v_method v = Method_TRANSFER"
      "v_status v = onlineStatus (refundedSum (a_id a) rs) (a_amount a)" and aS: "a_status a = Attempt_SUCCEEDED"
    using ledgerD(2) [OF ok a] by (auto simp: billed_def)
  have can: "refundableOnline (v_status v)"
    using room v(5) by (auto simp: onlineStatus_def targetStatus_def refundableOnline_def)
  then show "cnt (\<lambda>v. v_id v = a_invoiceId a \<and> refundableOnline (v_status v)) vs = 1"
    using cnt_key_1_iff [OF ids(3), of "a_invoiceId a" "\<lambda>v. refundableOnline (v_status v)"] v(1,2) by blast
  have refunded: "refundedSum i rs' = refundedSum i rs + (if i = a_id a then pf_amount r else 0)" for i
    unfolding refundedSum_def rs'_def
    by (subst sumw_upd_one [OF ids(2) r(1), of _ "pf_id r"]) (use f r in \<open>auto simp: sameRefund_def\<close>)
  have reserved: "reservedSum i rs' = reservedSum i rs" for i
    unfolding reservedSum_alt rs'_def
    by (subst sumw_upd_one [OF ids(2) r(1), of _ "pf_id r"]) (use f r in \<open>auto simp: sameRefund_def reservedRefund_iff\<close>)
  let ?vs = "refundInvoice (a_invoiceId a) ?st vs"
  have "billed rs' ?vs b" if b: "b \<in> set as" for b
  proof (cases "a_id b = a_id a")
    case True
    then have "b = a" using distinct_key_eq [OF ids(1) b a] by simp
    moreover have "?st = onlineStatus (refundedSum (a_id a) rs') (a_amount a)"
      using refunded room(2,3) by (simp add: onlineStatus_def)
    moreover have "v\<lparr>v_status := ?st\<rparr> \<in> set ?vs" using v(1,2) can by (force simp: refundInvoice_def set_upd)
    ultimately show ?thesis using v(2-4) by (auto simp: billed_def intro!: bexI [of _ "v\<lparr>v_status := ?st\<rparr>"])
  next
    case False
    obtain w where w: "w \<in> set vs" "v_id w = a_invoiceId b" "v_total w = a_amount b"
      "a_status b = Attempt_SUCCEEDED \<longrightarrow> v_method w = Method_TRANSFER \<and> v_status w = onlineStatus (refundedSum (a_id b) rs) (a_amount b)"
      using ledgerD(2) [OF ok b] unfolding billed_def by blast
    let ?w = "if v_id w = a_invoiceId a \<and> refundableOnline (v_status w) then w\<lparr>v_status := ?st\<rparr> else w"
    have "?w \<in> set ?vs" using w(1) by (auto simp: refundInvoice_def set_upd)
    moreover have "v_id w \<noteq> a_invoiceId a" if "a_status b = Attempt_SUCCEEDED"
      using ledgerD(4) [OF ok] a b aS that False w(2) unfolding confirmedOnce_def by metis
    ultimately show ?thesis
      unfolding billed_def using w(2-4) refunded [of "a_id b"] False by (intro bexI [of _ ?w]) auto
  qed
  moreover have "refundOf as x" if mem: "x \<in> set rs'" for x
  proof -
    obtain x0 where x0: "x0 \<in> set rs" "x = (if pf_id x0 = pf_id r then f x0 else x0)" by (rule mem_updE [OF mem [unfolded rs'_def]])
    then have "x = (if x0 = r then f r else x0)" using distinct_key_eq [OF ids(2) x0(1) r(1)] by auto
    moreover have "refundOf as (f r)" using ledgerD(5) [OF ok r(1)] f by (auto simp: refundOf_def sameRefund_def refundState_def)
    ultimately show ?thesis using ledgerD(5) [OF ok x0(1)] by simp
  qed
  ultimately show "ledger as rs' ?vs" using ledgerD(1,3,4) [OF ok] reserved by (simp add: ledger_def)
qed

end
