(* ===== verification/Payment_System.thy ===== *)
theory Payment_System
  imports Payment_Facts
begin

text \<open>
  Every operation of the shop against the payment books: the tills leave attempts and refunds
  alone and do not touch an invoice that was paid online; notifications keep the books.
\<close>

section \<open>The tills\<close>

lemma payView_rules [simp]:
  "payView (addLog e act s d) = payView d" "payView (enqueue p n a t w d) = payView d"
  "payView (enqueueInvoiceEvent ev vid os now d) = payView d" "payView (payItems vid d) = payView d"
  by (simp_all add: payView_def enqueueInvoiceEvent_def payItems_def)

lemma createCashTx_pay: "createCashTx k d = Inr d' \<Longrightarrow> payView d' = payView d"
  by (auto simp: createCashTx_def payView_def)

lemma postMovement_pay: "postMovement shift emp ty amt d = Inr (n, d') \<Longrightarrow> payView d' = payView d"
  by (auto simp: postMovement_def Let_def payView_def createCashTx_def)

lemma drawer_ops_pay:
  "openShift emp fid cash d = Inr (n, d') \<Longrightarrow> payView d' = payView d"
  "closeShift emp cid reported note now d = Inr d' \<Longrightarrow> payView d' = payView d"
  "resolveRequest i st emp tx d = Inr d' \<Longrightarrow> payView d' = payView d"
  "createHandover emp cid dest retained d = Inr (n, d') \<Longrightarrow> payView d' = payView d"
  "registerDeposit i emp ref ev d = Inr d' \<Longrightarrow> payView d' = payView d"
  "rejectHandover i emp d = Inr d' \<Longrightarrow> payView d' = payView d"
  "cancelHandover i emp d = Inr d' \<Longrightarrow> payView d' = payView d"
  "createFund sameName emp name ft b d = Inr (n, d') \<Longrightarrow> payView d' = payView d"
  "updateFund sameName fid emp nm ft' d = Inr d' \<Longrightarrow> payView d' = payView d"
  "removeFund fid emp now d = Inr d' \<Longrightarrow> payView d' = payView d"
  by (auto simp: openShift_def insertShift_def closeShift_def openWork_def resolveRequest_def createHandover_def
      insertHandover_def assertFundsHaveNoOpenShift_def registerDeposit_def rejectHandover_def cancelHandover_def createFund_def updateFund_def
      removeFund_def setHandover_def Let_def payView_def addLog_def split: option.splits if_splits)

lemma cash_ops_pay:
  "addMovement emp cid ty amt desc d = Inr d' \<Longrightarrow> payView d' = payView d"
  "approveExpenseRequest i emp d = Inr d' \<Longrightarrow> payView d' = payView d"
  "rejectExpenseRequest i emp d = Inr d' \<Longrightarrow> payView d' = payView d"
  "cancelExpenseRequest i emp d = Inr d' \<Longrightarrow> payView d' = payView d"
proof -
  have insert: "insertExpenseRequest q d = Inr (n, d1) \<Longrightarrow> payView d1 = payView d" for q n d1
    by (auto simp: insertExpenseRequest_def payView_def)
  show "addMovement emp cid ty amt desc d = Inr d' \<Longrightarrow> payView d' = payView d"
    by (auto simp: addMovement_def insert dest: postMovement_pay split: if_splits)
  show "approveExpenseRequest i emp d = Inr d' \<Longrightarrow> payView d' = payView d"
    by (auto simp: approveExpenseRequest_def dest!: postMovement_pay drawer_ops_pay(3))
  show "rejectExpenseRequest i emp d = Inr d' \<Longrightarrow> payView d' = payView d"
    "cancelExpenseRequest i emp d = Inr d' \<Longrightarrow> payView d' = payView d"
    by (auto simp: rejectExpenseRequest_def cancelExpenseRequest_def resolveExpenseRequest_def dest: drawer_ops_pay(3))
qed

lemma destination_pay: "postDestinationEntry h emp ty d = Inr (n, d') \<Longrightarrow> payView d' = payView d"
  by (auto simp: postDestinationEntry_def Let_def payView_def createCashTx_def)

lemma variance_pay: "postVariance h emp d = Inr (n, d') \<Longrightarrow> payView d' = payView d"
  by (auto simp: postVariance_def dest: createCashTx_pay split: if_splits)

lemma payView_funds [simp]:
  "payView (d\<lparr>funds := fs\<rparr>) = payView d" "payView (setHandover i f d) = payView d"
  "payView (d\<lparr>nextId := n, cashTxs := ks\<rparr>) = payView d" "payView (d\<lparr>nextId := n, funds := fs, cashTxs := ks\<rparr>) = payView d"
  by (simp_all add: payView_def setHandover_def)

lemma approveHandover_pay: "approveHandover i emp now d = Inr d' \<Longrightarrow> payView d' = payView d"
  unfolding approveHandover_def
  by (auto simp: Let_def assertFundsHaveNoOpenShift_def split: if_splits
      dest!: variance_pay createCashTx_pay destination_pay)

lemma settle_pay: "settleInTransaction i emp ref ev d = Inr d' \<Longrightarrow> payView d' = payView d"
  by (erule settle_steps) (simp add: destination_pay)

lemma recordCashInvoice_pay: "recordCashInvoice sh vid emp amt d = Inr d' \<Longrightarrow> payView d' = payView d"
  by (auto simp: recordCashInvoice_def incrementFund_def payView_def createCashTx_def)

lemma closing_pay: "(if b then closeSessionIfFullyPaid s d else Inr d) = Inr d' \<Longrightarrow> payView d' = payView d"
  by (auto split: if_splits dest: closeSession_desk [THEN payView_desk])

lemma invoiceEvents_pay: "payView (invoiceEvents evs vid s now d) = payView d"
  unfolding invoiceEvents_def by (induction evs arbitrary: d) simp_all

lemma reserve_pay: "reserveInvoiceStock vid now d = Inr d' \<Longrightarrow> payView d' = payView d"
  unfolding reserveInvoiceStock_def by (rule payView_desk, erule deskView_stock(1))

lemma unpaid_keeps: "v_status v = Pay_UNPAID \<Longrightarrow> v_id w = v_id v \<Longrightarrow> v_total w = v_total v \<Longrightarrow> keepsInvoice v w"
  by (simp add: keepsInvoice_def paidStatus_def)

lemma createInvoice_pay:
  assumes "createInvoiceInTransaction hash prefix emp co online i now d = Inr (vid, d')"
  shows "pay_frame d d'"
proof -
  obtain s :: orderSession and shift ic vd d2 d3 d4 d5 where
    ins: "insertInvoice (newInvoice (generateNumber prefix d) (snd ic) (co_method co) (co_status co) (s_id s) emp
       (map_option fst shift) (ci_promotionId i) now) d = Inr vd"
    and att: "attachItems (fst vd) (s_id s) (co_status co) (fst ic) (snd vd) = Inr d2"
    and res: "reserveInvoiceStock (fst vd) now d2 = Inr d3"
    and cash: "(case shift of
        Some sh \<Rightarrow> if co_method co = Method_CASH then recordCashInvoice sh (fst vd) emp (q_total (snd ic)) d3 else Inr d3
      | None \<Rightarrow> Inr d3) = Inr d4"
    and close: "(if co_status co = Pay_PAID \<and> co_close co then closeSessionIfFullyPaid s d4 else Inr d4) = Inr d5"
    and ev: "invoiceEvents (co_events co) (fst vd) s now d5 = d'"
    by (rule createInvoice_steps [OF assms(1)]) (rule that, assumption+)
  have "pay_frame d (snd vd)" using ins by (cases vd) (auto simp: insertInvoice_def pay_frame_def intro: keepsInvoice_refl)
  moreover have "payView d2 = payView (snd vd)" using att by (auto simp: attachItems_def Let_def payView_def)
  moreover have "payView d4 = payView d3" using cash by (auto dest: recordCashInvoice_pay split: option.splits if_splits)
  moreover have "payView d' = payView d4" using closing_pay [OF close] invoiceEvents_pay ev by metis
  ultimately show ?thesis using reserve_pay [OF res] pay_frame_view pay_frame_trans by metis
qed

lemma findInvoice_row:
  assumes "findInvoice d vid = Some v" and "distinct (map v_id (invoices d))" and "w \<in> set (invoices d)" and "v_id w = vid"
  shows "w = v"
  using findInvoice_SomeD [OF assms(1)] distinct_key_eq [OF assms(2,3)] assms(4) by simp

lemma updatePayment_pay:
  assumes "updatePayment vid emp method tendered close now d = Inr d'" and ids: "distinct (map v_id (invoices d))"
  shows "pay_frame d d'"
proof -
  obtain v and s :: orderSession and f :: "invoice \<Rightarrow> invoice" and shift d2 d3 d4 where
    v: "findInvoice d vid = Some v" "v_status v = Pay_UNPAID"
    and res: "reserveInvoiceStock vid now (payItems vid (setInvoice vid f d)) = Inr d2"
    and cash: "(if orElse method (v_method v) = Method_CASH then recordCashInvoice shift vid emp (v_total v) d2 else Inr d2) = Inr d3"
    and close: "(if close then closeSessionIfFullyPaid s d3 else Inr d3) = Inr d4"
    and d': "d' = enqueueInvoiceEvent ''INVOICE_PAID'' vid s now d4"
    and f: "\<And>r. v_id (f r) = v_id r" "\<And>r. v_total (f r) = v_total r"
    by (rule updatePayment_steps [OF assms(1)]) (rule that, assumption, assumption, assumption, assumption, assumption, assumption, simp, simp)
  have "pay_frame d (setInvoice vid f d)"
    by (rule pay_frame_upd [where g = "\<lambda>v. v_id v = vid" and f = f])
       (use findInvoice_row [OF v(1) ids] v(2) f in \<open>auto simp: setInvoice_def intro: unpaid_keeps\<close>)
  moreover have "payView d2 = payView (setInvoice vid f d)" using reserve_pay [OF res] by simp
  moreover have "payView d3 = payView d2" using cash by (auto dest: recordCashInvoice_pay split: if_splits)
  moreover have "payView d' = payView d3" using closing_pay [OF close] d' by simp
  ultimately show ?thesis using pay_frame_view pay_frame_trans by metis
qed

lemma void_pay:
  assumes "voidInvoice vid emp now d = Inr d'" and ids: "distinct (map v_id (invoices d))"
  shows "pay_frame d d'"
proof -
  obtain v and s :: orderSession and ids' d3 where
    v: "findInvoice d vid = Some v" "v_status v = Pay_UNPAID"
    and rel: "(if s_online s = None then releaseReservations ids' (voided vid d) else Inr (voided vid d)) = Inr d3"
    and d': "enqueueInvoiceEvent ''INVOICE_VOIDED'' vid s now (addLog emp ''INVOICE_VOIDED'' vid d3) = d'"
    by (rule void_steps [OF assms(1)]) (rule that, assumption+)
  have "pay_frame d (voided vid d)"
    by (rule pay_frame_upd [where g = "\<lambda>v. v_id v = vid" and f = "\<lambda>r. r\<lparr>v_status := Pay_VOIDED, v_snapshot := True\<rparr>"])
       (use findInvoice_row [OF v(1) ids] v(2) in \<open>auto simp: setInvoice_def voided_def intro: unpaid_keeps\<close>)
  moreover have "payView d3 = payView (voided vid d)"
    using rel by (auto split: if_splits dest: deskView_stock(2) [THEN payView_desk])
  moreover have "payView d' = payView d3" using d' by auto
  ultimately show ?thesis using pay_frame_view pay_frame_trans by metis
qed

text \<open>\<open>completeOnlinePayment\<close> pays one unpaid invoice and moves nothing else of the books.\<close>

lemma completeOnline_pay:
  assumes "completeOnlinePayment vid emp sid close now d = Inr d'" and ids: "distinct (map v_id (invoices d))"
  obtains v h where "v \<in> set (invoices d)" "v_id v = vid" "v_status v = Pay_UNPAID"
    "payView d' = (paymentAttempts d, paymentRefunds d, map h (invoices d))"
    "\<And>w. w \<in> set (invoices d) \<Longrightarrow> keepsInvoice w (h w)" "paidOnline v (h v)"
proof -
  obtain v and s :: orderSession and d1 d2 where
    v: "findInvoice d vid = Some v" "v_status v = Pay_UNPAID"
    and d1: "d1 = payItems vid (d\<lparr>invoices := upd (\<lambda>r. v_id r = vid \<and> v_status r = Pay_UNPAID)
       (\<lambda>r. r\<lparr>v_status := Pay_PAID, v_method := Method_TRANSFER, v_tendered := Some (v_total v), v_change := Some 0,
         v_employeeId := emp, v_shiftId := Some sid\<rparr>) (invoices d)\<rparr>)"
    and close: "(if close then closeSessionIfFullyPaid s d1 else Inr d1) = Inr d2"
    and d': "d' = enqueueInvoiceEvent ''INVOICE_PAID'' vid s now d2"
    by (rule completeOnline_steps [OF assms(1)])
  let ?h = "\<lambda>r. if v_id r = vid \<and> v_status r = Pay_UNPAID then r\<lparr>v_status := Pay_PAID, v_method := Method_TRANSFER,
      v_tendered := Some (v_total v), v_change := Some 0, v_employeeId := emp, v_shiftId := Some sid\<rparr> else r"
  note vD = findInvoice_SomeD [OF v(1)]
  have "payView d' = payView d1" using closing_pay [OF close] d' by simp
  then have "payView d' = (paymentAttempts d, paymentRefunds d, map ?h (invoices d))"
    by (simp add: d1) (simp add: payView_def upd_def)
  moreover have "keepsInvoice w (?h w)" for w by (simp add: unpaid_keeps)
  moreover have "paidOnline v (?h v)" using vD v(2) by (simp add: paidOnline_def)
  ultimately show thesis using that [of v ?h] vD v(2) by blast
qed

lemma completeOnline_frame:
  assumes "completeOnlinePayment vid emp sid close now d = Inr d'" and "distinct (map v_id (invoices d))"
  shows "pay_frame d d'"
proof -
  obtain v :: invoice and h where "payView d' = (paymentAttempts d, paymentRefunds d, map h (invoices d))"
    "\<And>w. w \<in> set (invoices d) \<Longrightarrow> keepsInvoice w (h w)"
    by (rule completeOnline_pay [OF assms]) (rule that, assumption+)
  then show ?thesis by (auto simp: pay_frame_def payView_def)
qed

lemma refund_pay:
  assumes "createCashRefund vid emp amt reason shift key now d = Inr d'" and ids: "distinct (map v_id (invoices d))"
  shows "pay_frame d d'"
proof (cases "d' = d")
  case True
  then show ?thesis by (simp add: pay_frame_view)
next
  case False
  obtain v :: invoice and sh where v: "findInvoice d vid = Some v" "v_method v = Method_CASH"
    and b: "bookRefund v amt reason sh emp key now d = Inr d'"
    by (rule createCashRefund_steps [OF assms(1) False])
  have "paymentAttempts d' = paymentAttempts d" "paymentRefunds d' = paymentRefunds d"
    using b by (auto simp: bookRefund_def Let_def createCashTx_def decrementFund_def)
  then show ?thesis
  proof (rule pay_frame_upd [OF _ _ bookRefund_effect(8) [OF b]])
    fix w assume w: "w \<in> set (invoices d)" "v_id w = v_id v \<and> v_status w = v_status v"
    then have "w = v" using findInvoice_row [OF v(1) ids w(1)] findInvoice_SomeD [OF v(1)] by simp
    then show "keepsInvoice w (w\<lparr>v_status := refundStatus v (refundedTotal d (v_id v) + amt)\<rparr>)"
      using v(2) by (simp add: keepsInvoice_def)
  qed
qed

lemma till_step_pay:
  assumes "till_step hash sign sameName d d'"
  shows "pay_frame d d'"
proof -
  have ids: "distinct (map v_id (invoices d))"
    using till_step_committed [OF assms] keys_okD(5) by (simp add: committed_def)
  note same = drawer_ops_pay cash_ops_pay approveHandover_pay settle_pay order_step_desk [THEN payView_desk]
  from assms show ?thesis
  proof (cases rule: till_step.cases)
    case bill
    then show ?thesis using createInvoice_pay by blast
  next
    case pay
    then show ?thesis using updatePayment_pay ids by blast
  next
    case void
    then show ?thesis using void_pay ids by blast
  next
    case pay_online
    then show ?thesis using completeOnline_frame ids by blast
  next
    case refund
    then show ?thesis using refund_pay ids by blast
  qed ((rule pay_frame_view, erule same)+)
qed

section \<open>Results\<close>

text \<open>\<open>ensures P r\<close>: if the call returns at all, its result satisfies \<open>P\<close>.\<close>

definition ensures :: "('a \<Rightarrow> bool) \<Rightarrow> 'a res \<Rightarrow> bool" where
  "ensures P r \<longleftrightarrow> (\<forall>x. r = Inr x \<longrightarrow> P x)"

lemma ensuresD: "ensures P r \<Longrightarrow> r = Inr x \<Longrightarrow> P x"
  by (simp add: ensures_def)

lemma ensures_Inr [intro]: "P x \<Longrightarrow> ensures P (Inr x)"
  by (simp add: ensures_def)

lemma ensures_Inr_iff [simp]: "ensures P (Inr x) \<longleftrightarrow> P x"
  by (simp add: ensures_def)

lemma ensures_require [intro]: "(b \<Longrightarrow> ensures P k) \<Longrightarrow> ensures P (require b e k)"
  by (simp add: ensures_def)

lemma ensures_fetch [intro]: "(\<And>a. x = Some a \<Longrightarrow> ensures P (k a)) \<Longrightarrow> ensures P (fetch x e k)"
  by (auto simp: ensures_def)

lemma ensures_andThen: "ensures Q m \<Longrightarrow> (\<And>x. Q x \<Longrightarrow> ensures P (k x)) \<Longrightarrow> ensures P (andThen m k)"
  by (auto simp: ensures_def)

lemma ensures_if [intro]: "(b \<Longrightarrow> ensures P r) \<Longrightarrow> (\<not> b \<Longrightarrow> ensures P s) \<Longrightarrow> ensures P (if b then r else s)"
  by simp

lemma ensures_option:
  "(x = None \<Longrightarrow> ensures P r) \<Longrightarrow> (\<And>a. x = Some a \<Longrightarrow> ensures P (f a)) \<Longrightarrow> ensures P (case x of None \<Rightarrow> r | Some a \<Rightarrow> f a)"
  by (cases x) auto

section \<open>Good books\<close>

definition pay_keys :: "db \<Rightarrow> bool" where
  "pay_keys d \<longleftrightarrow> distinct (map a_id (paymentAttempts d)) \<and> distinct (map pf_id (paymentRefunds d)) \<and> distinct (map v_id (invoices d))"

text \<open>
  A refund in flight: its row has left PENDING and is not closed, and the call knows its amount and
  its payment.
\<close>

definition inFlight :: "paymentAttempt list \<Rightarrow> paymentRefund list \<Rightarrow> refundClaim \<Rightarrow> bool" where
  "inFlight as rs c \<longleftrightarrow> (\<exists>r\<in>set rs. sameRefund (cl_refund c) r \<and> (pf_status r = Refund_PROCESSING \<or> pf_status r = Refund_REQUIRES_REVIEW)) \<and>
     (\<exists>a\<in>set as. sameAttempt (cl_attempt c) a \<and> a_id a = pf_attemptId (cl_refund c))"

definition pay_good :: "refundClaim set \<Rightarrow> db \<Rightarrow> bool" where
  "pay_good C d \<longleftrightarrow> payments_ok d \<and> pay_keys d \<and> (\<forall>c\<in>C. inFlight (paymentAttempts d) (paymentRefunds d) c)"

lemma sameAttempt_trans: "sameAttempt a b \<Longrightarrow> sameAttempt b c \<Longrightarrow> sameAttempt a c"
  by (simp add: sameAttempt_def)

lemma inFlight_attempts:
  assumes "inFlight as rs c" and "\<And>a. a \<in> set as \<Longrightarrow> sameAttempt a (h a)"
  shows "inFlight (map h as) rs c"
proof -
  obtain a where a: "a \<in> set as" "sameAttempt (cl_attempt c) a" "a_id a = pf_attemptId (cl_refund c)"
    using assms(1) unfolding inFlight_def by blast
  have "sameAttempt (cl_attempt c) (h a)" "a_id (h a) = pf_attemptId (cl_refund c)"
    using sameAttempt_trans [OF a(2) assms(2) [OF a(1)]] assms(2) [OF a(1)] a(3) by (simp_all add: sameAttempt_def)
  then show ?thesis using assms(1) a(1) unfolding inFlight_def by auto
qed

lemma good_view: "payView d' = payView d \<Longrightarrow> pay_good C d' = pay_good C d"
  by (simp add: pay_good_def pay_keys_def payments_ok_def payView_def)

lemma committed_keys: "keys_ok d \<Longrightarrow> pay_keys d"
  by (simp add: pay_keys_def keys_okD)

lemma attemptByReference_mem: "attemptByReference d ref = Some a \<Longrightarrow> a \<in> set (paymentAttempts d)"
  unfolding attemptByReference_def by (rule find_Some_mem)

lemma attemptById_mem: "attemptById d i = Some a \<Longrightarrow> a \<in> set (paymentAttempts d) \<and> a_id a = i"
  unfolding attemptById_def by (drule find_SomeD) simp

lemma payView_tables [simp]:
  "payView (completeWebhook ev code d) = payView d" "payView (openIncident ty key a r d) = payView d"
  "payView (setRequest q st d) = payView d" "payView (autoResolveIncidents i d) = payView d"
  "payView (snd (createProviderRequest q' a r d)) = payView d" "payView (enqueueAttempt n' now a' d) = payView d"
  by (simp_all add: payView_def completeWebhook_def openIncident_def setRequest_def autoResolveIncidents_def
      createProviderRequest_def enqueueAttempt_def)

lemma good_tables [simp]:
  "pay_good C (completeWebhook ev code d) = pay_good C d" "pay_good C (openIncident ty key a r d) = pay_good C d"
  "pay_good C (setRequest q st d) = pay_good C d" "pay_good C (autoResolveIncidents i d) = pay_good C d"
  "pay_good C (snd (createProviderRequest q' a r d)) = pay_good C d" "pay_good C (enqueueAttempt n' now a' d) = pay_good C d"
  "pay_good C (addLog e act s d) = pay_good C d" "pay_good C (enqueue p n i t w d) = pay_good C d"
  by (rule good_view, simp)+

lemma attempts_tables [simp]:
  "paymentAttempts (setRequest q st d) = paymentAttempts d" "paymentAttempts (openIncident ty key a r d) = paymentAttempts d"
  by (simp_all add: setRequest_def openIncident_def)

lemma createWebhook_view: "createWebhook p h a d = Inr (ev, d') \<Longrightarrow> payView d' = payView d"
  by (auto simp: createWebhook_def payView_def)

lemma good_attempts:
  assumes "pay_good C d" and "\<And>a. a \<in> set (paymentAttempts d) \<Longrightarrow> g a \<Longrightarrow> steady a (f a)"
  shows "pay_good C (d\<lparr>paymentAttempts := upd g f (paymentAttempts d)\<rparr>)"
proof -
  have "map a_id (upd g f (paymentAttempts d)) = map a_id (paymentAttempts d)"
    unfolding upd_def using assms(2) by (auto simp: steady_def sameAttempt_def)
  moreover have "inFlight (upd g f (paymentAttempts d)) (paymentRefunds d) c" if "c \<in> C" for c
    unfolding upd_def
    by (rule inFlight_attempts) (use assms that in \<open>auto simp: pay_good_def steady_def\<close>)
  ultimately show ?thesis
    using assms ledger_upd [of "paymentAttempts d" "paymentRefunds d" "invoices d" g f]
    by (simp add: pay_good_def payments_ok_def pay_keys_def)
qed

lemma updateAttempts_good:
  assumes "pay_good C d" and "\<And>a. a \<in> set (paymentAttempts d) \<Longrightarrow> g a \<Longrightarrow> steady a (f a)"
  shows "ensures (pay_good C) (updateAttempts g f d)"
  unfolding updateAttempts_def Let_def using good_attempts [OF assms] by blast

lemma updateAttempt_good:
  assumes "pay_good C d" and "a \<in> set (paymentAttempts d)" and "steady a (f a)"
  shows "ensures (pay_good C) (updateAttempt (a_id a) f d)"
  unfolding updateAttempt_def
proof (rule updateAttempts_good [OF assms(1)])
  fix b assume "b \<in> set (paymentAttempts d)" "a_id b = a_id a"
  then have "b = a" using distinct_key_eq assms(1,2) by (metis pay_good_def pay_keys_def)
  then show "steady b (f b)" using assms(3) by simp
qed

section \<open>Rows\<close>

lemmas row_defs = steady_def confirmed_def sameAttempt_def attemptState_def

lemma steady_rows:
  "steady a (reviewed (a_status a = Attempt_SUCCEEDED) ty txNo a)"
  "steady a (reviewedAgain (a_status a = Attempt_SUCCEEDED) ty a)"
  "a_status a \<noteq> Attempt_SUCCEEDED \<Longrightarrow> steady a (failedRow now txNo code a)"
  "a_status a \<noteq> Attempt_SUCCEEDED \<Longrightarrow> steady a (refusedRow now ts a)"
  "rival b a \<Longrightarrow> steady a (supersededRow now unlock a)"
  "steady a (settledRow a)" "steady a (retriedRow now n a)" "steady a (linked env url a)"
  "steady a (a\<lparr>a_nextReconcileAt := t\<rparr>)" "steady a (a\<lparr>a_lockedAt := t\<rparr>)"
  "steady a (a\<lparr>a_nextReconcileAt := t, a_lockedAt := u, a_reconciliations := n\<rparr>)"
  "a_status a = Attempt_PENDING \<Longrightarrow> steady a (expireRow now a)"
  by (simp_all add: row_defs reviewed_def reviewedAgain_def failedRow_def refusedRow_def rival_def supersededRow_def
      settledRow_def retriedRow_def linked_def expireRow_def Let_def split: PaymentAttemptStatus.splits)

lemma confirmed_rows:
  "confirmed a (succeededRow now txNo a)" "confirmed a (reconciledRow now txNo a)"
  by (simp_all add: row_defs succeededRow_def reconciledRow_def)

section \<open>Confirmation\<close>

lemma confirm_good:
  assumes good: "pay_good C d" and a: "a \<in> set (paymentAttempts d)"
    and paid: "completeOnlinePayment (a_invoiceId a) emp sid close now d = Inr d1" and f: "confirmed a (f a)"
  shows "ensures (pay_good C) (updateAttempt (a_id a) f d1)"
proof -
  have keys: "distinct (map a_id (paymentAttempts d))" "distinct (map v_id (invoices d))" "distinct (map pf_id (paymentRefunds d))"
    and ok: "ledger (paymentAttempts d) (paymentRefunds d) (invoices d)"
    using good by (simp_all add: pay_good_def pay_keys_def payments_ok_def)
  obtain v :: invoice and h where v: "v \<in> set (invoices d)" "v_id v = a_invoiceId a" "v_status v = Pay_UNPAID"
    and d1: "payView d1 = (paymentAttempts d, paymentRefunds d, map h (invoices d))"
    and h: "\<And>w. w \<in> set (invoices d) \<Longrightarrow> keepsInvoice w (h w)" "paidOnline v (h v)"
    by (rule completeOnline_pay [OF paid keys(2)]) (rule that, assumption+)
  have ids: "a_id (if a_id r = a_id a then f r else r) = a_id r" if "r \<in> set (paymentAttempts d)" for r
    using distinct_key_eq [OF keys(1) that a] f by (auto simp: confirmed_def sameAttempt_def)
  have vids: "v_id (h w) = v_id w" if "w \<in> set (invoices d)" for w using h(1) [OF that] by (simp add: keepsInvoice_def)
  have "map a_id (upd (\<lambda>r. a_id r = a_id a) f (paymentAttempts d)) = map a_id (paymentAttempts d)"
    unfolding upd_def list.map_comp by (rule map_cong [OF refl]) (use ids in simp)
  moreover have "map v_id (map h (invoices d)) = map v_id (invoices d)"
    unfolding list.map_comp by (rule map_cong [OF refl]) (use vids in simp)
  ultimately have k: "distinct (map a_id (upd (\<lambda>r. a_id r = a_id a) f (paymentAttempts d)))" "distinct (map v_id (map h (invoices d)))"
    using keys by metis+
  have l: "ledger (upd (\<lambda>r. a_id r = a_id a) f (paymentAttempts d)) (paymentRefunds d) (map h (invoices d))"
    by (rule ledger_confirm [where f = f and h = h, OF ok keys(1,2) a v f h])
  have "payView (d1\<lparr>paymentAttempts := upd (\<lambda>r. a_id r = a_id a) f (paymentAttempts d1)\<rparr>) =
      (upd (\<lambda>r. a_id r = a_id a) f (paymentAttempts d), paymentRefunds d, map h (invoices d))"
    using d1 by (simp add: payView_def)
  moreover have "inFlight (upd (\<lambda>r. a_id r = a_id a) f (paymentAttempts d)) (paymentRefunds d) c" if c: "c \<in> C" for c
    unfolding upd_def
  proof (rule inFlight_attempts)
    show "inFlight (paymentAttempts d) (paymentRefunds d) c" using good c by (simp add: pay_good_def)
    fix r assume "r \<in> set (paymentAttempts d)"
    then show "sameAttempt r (if a_id r = a_id a then f r else r)"
      using distinct_key_eq [OF keys(1) _ a] f by (auto simp: confirmed_def)
  qed
  ultimately have "pay_good C (d1\<lparr>paymentAttempts := upd (\<lambda>r. a_id r = a_id a) f (paymentAttempts d1)\<rparr>)"
    using k l keys(3) by (simp add: pay_good_def payments_ok_def pay_keys_def payView_def)
  then show ?thesis by (auto simp: updateAttempt_def updateAttempts_def Let_def)
qed

lemma confirmPayment_good:
  assumes "pay_good C d" and "a \<in> set (paymentAttempts d)"
  shows "ensures (pay_good C) (confirmPayment now unlock a txNo d)"
  unfolding confirmPayment_def
proof (rule ensures_andThen [where Q = "\<lambda>d1. completeOnlinePayment (a_invoiceId a) (a_createdById a) (a_shiftId a) (a_closeSession a) now d = Inr d1"])
  fix d1 assume d1: "completeOnlinePayment (a_invoiceId a) (a_createdById a) (a_shiftId a) (a_closeSession a) now d = Inr d1"
  show "ensures (pay_good C) (andThen (updateAttempt (a_id a) (succeededRow now txNo) d1) (updateAttempts (rival a) (supersededRow now unlock)))"
    by (rule ensures_andThen [OF confirm_good [where f = "succeededRow now txNo", OF assms d1 confirmed_rows(1)]])
       (rule updateAttempts_good, assumption, rule steady_rows(5))
qed (simp add: ensures_def)

section \<open>Notifications\<close>

lemma markPaymentReview_good:
  assumes "pay_good C d" and "a \<in> set (paymentAttempts d)"
  shows "ensures (pay_good C) (markPaymentReview now a ty txNo d)"
  unfolding markPaymentReview_def
  by (rule ensures_andThen [OF updateAttempt_good [where f = "reviewed (a_status a = Attempt_SUCCEEDED) ty txNo", OF assms steady_rows(1)]])
     simp

lemma reviewIf_good:
  assumes "pay_good C d" and "a \<in> set (paymentAttempts d)"
  shows "ensures (pay_good C) (reviewIf b now a ty txNo d)"
  unfolding reviewIf_def using assms markPaymentReview_good by blast

abbreviation good_snd :: "refundClaim set \<Rightarrow> 'x \<times> db \<Rightarrow> bool" where
  "good_snd C xd \<equiv> pay_good C (snd xd)"

lemma settleVnpay_good:
  assumes "pay_good C d" and "a \<in> set (paymentAttempts d)"
  shows "ensures (good_snd C) (settleVnpay now n a ev d)"
  unfolding settleVnpay_def
  by (rule ensures_option; rule ensures_andThen [OF markPaymentReview_good [OF assms]] ensures_andThen [OF confirmPayment_good [OF assms]])
     simp_all

lemma failVnpay_good:
  assumes "pay_good C d" and "a \<in> set (paymentAttempts d)" and "a_status a \<noteq> Attempt_SUCCEEDED"
  shows "ensures (good_snd C) (failVnpay now n a ev d)"
  unfolding failVnpay_def
  by (rule ensures_if; rule ensures_andThen [OF markPaymentReview_good [OF assms(1,2)]]
        ensures_andThen [OF updateAttempt_good [where f = "failedRow now (vnpayTransactionNo n)
          (orElse (nonEmpty (vn_responseCode n)) ''UNKNOWN_FAILURE'')", OF assms(1,2) steady_rows(3) [OF assms(3)]]])
     simp_all

lemma webhook_good:
  assumes "createWebhook p h i d = Inr (ev, d0)" and "pay_good C d" and "\<And>a. found = Some a \<Longrightarrow> a \<in> set (paymentAttempts d)"
  shows "pay_good C d0" and "\<And>a. found = Some a \<Longrightarrow> a \<in> set (paymentAttempts d0)"
proof -
  have v: "payView d0 = payView d" by (rule createWebhook_view [OF assms(1)])
  show "pay_good C d0" using good_view [OF v] assms(2) by simp
  show "found = Some a \<Longrightarrow> a \<in> set (paymentAttempts d0)" for a using v assms(3) by (simp add: payView_def)
qed

lemma stop_good:
  "ensures (pay_good C) m \<Longrightarrow> ensures (good_snd C) (andThen m (\<lambda>d. Inr (rsp, completeWebhook ev code d)))"
  by (erule ensures_andThen) simp

lemma processVnpayIpn_good:
  assumes "pay_good C d"
  shows "ensures (good_snd C) (processVnpayIpn now n ref amount d)"
  unfolding processVnpayIpn_def Let_def
proof (rule ensures_andThen [where Q = "\<lambda>ed. createWebhook VNPAY (vn_payloadHash n) (map_option a_id (attemptByReference d ref)) d = Inr ed"])
  fix ed assume ed: "createWebhook VNPAY (vn_payloadHash n) (map_option a_id (attemptByReference d ref)) d = Inr ed"
  have w: "createWebhook VNPAY (vn_payloadHash n) (map_option a_id (attemptByReference d ref)) d = Inr (fst ed, snd ed)" using ed by simp
  note g = webhook_good [OF w assms, of "attemptByReference d ref", OF attemptByReference_mem]
  show "ensures (good_snd C)
     (case attemptByReference d ref of None \<Rightarrow> Inr (Rsp_NOT_FOUND, completeWebhook (fst ed) ''01'' (snd ed))
      | Some a \<Rightarrow>
          if a_provider a \<noteq> VNPAY then Inr (Rsp_NOT_FOUND, completeWebhook (fst ed) ''01'' (snd ed))
          else if a_amount a \<noteq> amount
          then andThen (reviewIf (vnpaySucceeded n) now a PROVIDER_PAYMENT_MISMATCH (vnpayTransactionNo n) (snd ed))
            (\<lambda>d. Inr (Rsp_INVALID_AMOUNT, completeWebhook (fst ed) ''04'' d))
          else if a_status a = Attempt_SUCCEEDED
          then andThen (reviewIf (vnpaySucceeded n \<and> vnpayTransactionNo n \<noteq> a_transactionNo a) now a PAYMENT_STATE_CONFLICT
                 (vnpayTransactionNo n) (snd ed))
            (\<lambda>d. Inr (Rsp_ALREADY_CONFIRMED, completeWebhook (fst ed) ''02'' d))
          else if a_status a = Attempt_REQUIRES_REVIEW
          then Inr (Rsp_ALREADY_CONFIRMED, completeWebhook (fst ed) ''02_REQUIRES_REVIEW'' (snd ed))
          else fetch (invoiceStatus (snd ed) (a_invoiceId a)) (NotFound ''invoice'') (\<lambda>st.
            if st \<noteq> Pay_UNPAID
            then andThen (reviewIf (vnpaySucceeded n) now a PAYMENT_STATE_CONFLICT (vnpayTransactionNo n) (snd ed))
              (\<lambda>d. Inr (Rsp_ALREADY_CONFIRMED,
                 completeWebhook (fst ed) (if vnpaySucceeded n then ''02_PAYMENT_STATE_CONFLICT'' else ''02'') d))
            else if vnpaySucceeded n then settleVnpay now n a (fst ed) (snd ed)
            else failVnpay now n a (fst ed) (snd ed)))"
    using g by (intro ensures_option ensures_if ensures_fetch stop_good reviewIf_good settleVnpay_good failVnpay_good ensures_Inr) simp_all
qed (simp add: ensures_def)

lemma handleVnpayIpn_good:
  assumes "pay_good C d"
  shows "pay_good C (snd (handleVnpayIpn now verified d))"
  using assms processVnpayIpn_good [OF assms, THEN ensuresD]
  by (auto simp: handleVnpayIpn_def split: option.splits sum.splits prod.splits)

lemma settleMomo_good:
  assumes "pay_good C d" and "a \<in> set (paymentAttempts d)" and "a_status a \<noteq> Attempt_SUCCEEDED"
  shows "ensures (pay_good C) (settleMomo now n a ev d)"
  unfolding settleMomo_def
  by (rule ensures_if; rule ensures_andThen [OF confirmPayment_good [OF assms(1,2)]]
        ensures_andThen [OF updateAttempt_good [OF assms(1,2)]])
     (simp_all add: steady_rows(3) [OF assms(3)])

lemma stop_db_good:
  "ensures (pay_good C) m \<Longrightarrow> ensures (pay_good C) (andThen m (\<lambda>d. Inr (completeWebhook ev code d)))"
  by (erule ensures_andThen) simp

lemma processMomoIpn_good:
  assumes "pay_good C d"
  shows "ensures (pay_good C) (processMomoIpn now n d)"
proof -
  let ?found = "attemptByReference d (mo_orderId n)"
  have "ensures (pay_good C) (processMomoIpn now n d)"
    if "\<And>ed. createWebhook MOMO (mo_payloadHash n) (map_option a_id ?found) d = Inr ed \<Longrightarrow>
        pay_good C (snd ed) \<and> (\<forall>a. ?found = Some a \<longrightarrow> a \<in> set (paymentAttempts (snd ed)))"
    unfolding processMomoIpn_def Let_def
    by (rule ensures_andThen [where Q = "\<lambda>ed. createWebhook MOMO (mo_payloadHash n) (map_option a_id ?found) d = Inr ed"])
       (simp add: ensures_def, frule that,
        intro ensures_option ensures_if ensures_fetch stop_db_good reviewIf_good markPaymentReview_good settleMomo_good,
        auto)
  moreover have "pay_good C (snd ed) \<and> (\<forall>a. ?found = Some a \<longrightarrow> a \<in> set (paymentAttempts (snd ed)))"
    if "createWebhook MOMO (mo_payloadHash n) (map_option a_id ?found) d = Inr ed" for ed
    using webhook_good [of MOMO "mo_payloadHash n" "map_option a_id ?found" d "fst ed" "snd ed" C ?found] that assms attemptByReference_mem
    by auto
  ultimately show ?thesis by blast
qed

lemma processPayosWebhook_good:
  assumes "pay_good C d"
  shows "ensures (pay_good C) (processPayosWebhook now n d)"
  unfolding processPayosWebhook_def Let_def
proof (intro ensures_option ensures_if)
  fix a assume a: "attemptByReference d (digits (po_orderCode n)) = Some a"
  let ?w = "createWebhook PAYOS (po_payloadHash n) (Some (a_id a)) d"
  have g: "pay_good C (snd ed)" "a \<in> set (paymentAttempts (snd ed))" if "?w = Inr ed" for ed
    using webhook_good [of PAYOS "po_payloadHash n" "Some (a_id a)" d "fst ed" "snd ed" C "Some a"] that assms attemptByReference_mem [OF a]
    by auto
  show "ensures (pay_good C) (andThen ?w (\<lambda>ed.
      if po_code n \<noteq> ''00'' then Inr (completeWebhook (fst ed) ''IGNORED'' (snd ed))
      else if po_currency n \<noteq> ''VND'' \<or> a_linkId a \<noteq> None \<and> a_linkId a \<noteq> Some (po_paymentLinkId n)
      then andThen (markPaymentReview now a PROVIDER_PAYMENT_MISMATCH None (snd ed)) (\<lambda>d1. Inr (completeWebhook (fst ed) ''MISMATCH'' d1))
      else andThen (updateAttempts (\<lambda>r. a_id r = a_id a \<and> (a_status r = Attempt_PENDING \<or> a_status r = Attempt_EXPIRED))
             (\<lambda>r. r\<lparr>a_nextReconcileAt := Some now\<rparr>) (snd ed)) (\<lambda>d1.
        Inr (completeWebhook (fst ed) ''RECONCILIATION_QUEUED'' (enqueue ''payment'' ''PAYOS_PAYMENT_NOTIFIED'' (a_id a) [] now d1)))))"
  proof (rule ensures_andThen [where Q = "\<lambda>ed. ?w = Inr ed"])
    fix ed assume ed: "?w = Inr ed"
    show "ensures (pay_good C) (if po_code n \<noteq> ''00'' then Inr (completeWebhook (fst ed) ''IGNORED'' (snd ed))
      else if po_currency n \<noteq> ''VND'' \<or> a_linkId a \<noteq> None \<and> a_linkId a \<noteq> Some (po_paymentLinkId n)
      then andThen (markPaymentReview now a PROVIDER_PAYMENT_MISMATCH None (snd ed)) (\<lambda>d1. Inr (completeWebhook (fst ed) ''MISMATCH'' d1))
      else andThen (updateAttempts (\<lambda>r. a_id r = a_id a \<and> (a_status r = Attempt_PENDING \<or> a_status r = Attempt_EXPIRED))
             (\<lambda>r. r\<lparr>a_nextReconcileAt := Some now\<rparr>) (snd ed)) (\<lambda>d1.
        Inr (completeWebhook (fst ed) ''RECONCILIATION_QUEUED'' (enqueue ''payment'' ''PAYOS_PAYMENT_NOTIFIED'' (a_id a) [] now d1))))"
      using g [OF ed]
      by (intro ensures_if stop_db_good markPaymentReview_good ensures_andThen [OF updateAttempts_good])
         (simp_all add: steady_rows(9))
  qed (simp add: ensures_def)
qed (use assms in simp_all)

lemma replay_good:
  assumes "pay_good C d" and "ensures (pay_good C) r"
  shows "ensures (pay_good C) (case r of Inr d' \<Rightarrow> Inr d' | Inl e \<Rightarrow> if e = UniqueViolation ''payloadHash'' then Inr d else Inl e)"
  using assms by (cases r) (auto simp: ensures_def)

lemma handlers_good:
  assumes "pay_good C d"
  shows "ensures (pay_good C) (handleMomoIpn now m d)" and "ensures (pay_good C) (handlePayosWebhook now p d)"
  unfolding handleMomoIpn_def handlePayosWebhook_def
  by (intro ensures_fetch replay_good assms processMomoIpn_good processPayosWebhook_good)+

end
