(* ===== verification/Payment_Steps.thy ===== *)
theory Payment_Steps
  imports Payment_System
begin

text \<open>
  The rest of the payment services keeps the books: creating attempts and links, and the
  providers' answers.
\<close>

section \<open>Attempts\<close>

definition pay_fresh :: "db \<Rightarrow> bool" where
  "pay_fresh d \<longleftrightarrow> (\<forall>a\<in>set (paymentAttempts d). a_id a < nextId d) \<and> (\<forall>r\<in>set (paymentRefunds d). pf_id r < nextId d)"

lemma inFlight_more: "inFlight as rs c \<Longrightarrow> inFlight (as @ as') (rs @ rs') c"
  unfolding inFlight_def by auto

lemma insertAttempt_good:
  assumes good: "pay_good C d" and fresh: "nextId d \<notin> a_id ` set (paymentAttempts d)" and st: "a_status a = Attempt_PENDING"
    and v: "v \<in> set (invoices d)" "v_id v = a_invoiceId a" "v_total v = a_amount a"
  shows "ensures (good_snd C) (insertAttempt a d)"
  unfolding insertAttempt_def Let_def
proof (intro ensures_require)
  assume c: "attemptChecks a"
  let ?row = "a\<lparr>a_id := nextId d\<rparr>"
  have "ledger (paymentAttempts d @ [?row]) (paymentRefunds d) (invoices d)"
    by (rule ledger_new_attempt [of _ _ _ _ v])
       (use good fresh st v c in \<open>simp_all add: pay_good_def payments_ok_def attemptChecks_def attemptState_def\<close>)
  then show "ensures (good_snd C) (Inr (?row, d\<lparr>nextId := Suc (nextId d), paymentAttempts := paymentAttempts d @ [?row]\<rparr>))"
    using good fresh inFlight_more [of "paymentAttempts d" "paymentRefunds d" _ "[?row]" "[]"]
    by (simp add: pay_good_def payments_ok_def pay_keys_def)
qed

lemma createAttemptTx_good:
  assumes good: "pay_good C d" and fresh: "pay_fresh d"
  shows "ensures (good_snd C) (createAttemptTx env vid emp i now d)"
proof -
  have new: "ensures (good_snd C) (andThen (reserveInvoiceStock vid now d) (\<lambda>d1.
      andThen (insertAttempt (newAttempt env vid emp shift (v_total v) i now) d1) (\<lambda>ad.
      Inr (fst ad, addLog emp ''PAYMENT_ATTEMPT_CREATED'' (a_id (fst ad)) (snd ad)))))"
    if v: "findInvoice d vid = Some v" for v shift
  proof (rule ensures_andThen [where Q = "\<lambda>d1. reserveInvoiceStock vid now d = Inr d1"])
    fix d1 assume d1: "reserveInvoiceStock vid now d = Inr d1"
    have view: "payView d1 = payView d" by (rule reserve_pay [OF d1])
    have "nextId d \<le> nextId d1" by (rule reserve_nextId [OF d1 [unfolded reserveInvoiceStock_def]])
    then have "nextId d1 \<notin> a_id ` set (paymentAttempts d1)" using fresh view by (fastforce simp: pay_fresh_def payView_def)
    moreover have "v \<in> set (invoices d1)" "v_id v = vid" using findInvoice_SomeD [OF v] view by (simp_all add: payView_def)
    moreover have "pay_good C d1" using good good_view [OF view] by simp
    ultimately have "ensures (good_snd C) (insertAttempt (newAttempt env vid emp shift (v_total v) i now) d1)"
      by (intro insertAttempt_good) (simp_all add: newAttempt_def Let_def)
    then show "ensures (good_snd C) (andThen (insertAttempt (newAttempt env vid emp shift (v_total v) i now) d1) (\<lambda>ad.
        Inr (fst ad, addLog emp ''PAYMENT_ATTEMPT_CREATED'' (a_id (fst ad)) (snd ad))))"
      by (rule ensures_andThen) simp
  qed (simp add: ensures_def)
  have pos: "ensures P k \<Longrightarrow> ensures P ((case s of None \<Rightarrow> (\<lambda>k. k) | Some s' \<Rightarrow> assertPosOrderMutationAllowed (s_online s')) k)"
    for s and P :: "'y \<Rightarrow> bool" and k :: "'y res"
    by (cases s) (auto simp: assertPosOrderMutationAllowed_def)
  show ?thesis
    unfolding createAttemptTx_def assertIdempotentReplay_def
  proof (intro ensures_require ensures_option ensures_fetch pos)
    show "ensures (good_snd C) (Inr (a, d))" for a using good by simp
    fix v assume v: "findInvoice d vid = Some v"
    show "ensures (good_snd C) (andThen (requireOpenShift emp d) (\<lambda>shift. andThen (reserveInvoiceStock vid now d) (\<lambda>d1.
      andThen (insertAttempt (newAttempt env vid emp (fst shift) (v_total v) i now) d1) (\<lambda>ad.
      Inr (fst ad, addLog emp ''PAYMENT_ATTEMPT_CREATED'' (a_id (fst ad)) (snd ad))))))"
      by (rule ensures_andThen [where Q = "\<lambda>_. True"]) (simp add: ensures_def, rule new [OF v])
  qed
qed

lemma persistLink_good: "pay_good C d \<Longrightarrow> ensures (good_snd C) (persistLink env url i now d)"
  unfolding persistLink_def
  by (rule ensures_andThen [OF updateAttempts_good]) (simp_all add: steady_rows(8))

lemma expireAttempt_good: "pay_good C d \<Longrightarrow> pay_good C (expireAttempt i now d)"
  unfolding expireAttempt_def by (rule good_attempts) (simp_all add: steady_rows(12))

section \<open>Answers\<close>

lemma claimAttempt_good: "pay_good C d \<Longrightarrow> pay_good C (snd (claimAttempt due now i d))"
  unfolding claimAttempt_def snd_conv by (rule good_attempts) (simp_all add: steady_rows(10))

lemma releaseAttempt_good: "pay_good C d \<Longrightarrow> pay_good C (releaseAttempt i d)"
  unfolding releaseAttempt_def by (rule good_attempts) (simp_all add: steady_rows(10))

lemma markForReview_good:
  assumes "pay_good C d" and "a \<in> set (paymentAttempts d)"
  shows "ensures (pay_good C) (markForReview now a ty d)"
  unfolding markForReview_def
  by (rule ensures_andThen [OF updateAttempt_good [where f = "reviewedAgain (a_status a = Attempt_SUCCEEDED) ty", OF assms steady_rows(2)]])
     simp

lemma rescheduleOrReview_good:
  assumes "pay_good C d" and "a \<in> set (paymentAttempts d)"
  shows "ensures (pay_good C) (rescheduleOrReview now a ty d)"
  unfolding rescheduleOrReview_def Let_def
  by (intro ensures_if markForReview_good [OF assms] updateAttempt_good [OF assms] ensures_andThen [OF updateAttempt_good [OF assms]])
     (simp_all add: steady_rows)

lemma confirmProviderPayment_good:
  assumes "pay_good C d" and "a \<in> set (paymentAttempts d)"
  shows "ensures (pay_good C) (confirmProviderPayment now a st txNo emp d)"
  unfolding confirmProviderPayment_def
proof (intro ensures_option ensures_if markForReview_good [OF assms])
  show "ensures (pay_good C) (andThen (updateAttempt (a_id a) settledRow d) (\<lambda>d1. Inr (autoResolveIncidents (a_id a) d1)))"
    by (rule ensures_andThen [OF updateAttempt_good [where f = settledRow, OF assms steady_rows(6)]]) simp
  fix no
  show "ensures (pay_good C) (andThen (completeOnlinePayment (a_invoiceId a) (a_createdById a) (a_shiftId a) (a_closeSession a) now d)
     (\<lambda>d1. andThen (updateAttempt (a_id a) (reconciledRow now no) d1) (\<lambda>d2. Inr (enqueueAttempt ''PAYMENT_RECONCILED'' now a
        (addLog (orElse emp (a_createdById a)) ''PAYMENT_RECONCILED'' (a_id a) (autoResolveIncidents (a_id a) d2))))))"
    by (rule ensures_andThen [where Q = "\<lambda>d1. completeOnlinePayment (a_invoiceId a) (a_createdById a) (a_shiftId a) (a_closeSession a) now d = Inr d1"],
        simp add: ensures_def,
        rule ensures_andThen [OF confirm_good [where f = "reconciledRow now no", OF assms _ confirmed_rows(2)]]) simp_all
qed

lemma confirmProviderFailure_good:
  assumes "pay_good C d" and "a \<in> set (paymentAttempts d)"
  shows "ensures (pay_good C) (confirmProviderFailure now a st ts d)"
  unfolding confirmProviderFailure_def
  by (intro ensures_if markForReview_good [OF assms]
        ensures_andThen [OF updateAttempt_good [where f = "refusedRow now ts", OF assms steady_rows(4)]]) simp_all

lemmas answer_goods = markForReview_good rescheduleOrReview_good confirmProviderPayment_good confirmProviderFailure_good

lemma apply_good:
  assumes "pay_good C d" and "a \<in> set (paymentAttempts d)"
  shows "ensures (pay_good C) (applyVnpay now a st va emp d)" "ensures (pay_good C) (applyMomo now a st ma emp d)"
    "ensures (pay_good C) (applyPayos now a v pa link emp d)"
proof -
  note g = answer_goods [OF assms]
  show "ensures (pay_good C) (applyVnpay now a st va emp d)"
    unfolding applyVnpay_def by (intro ensures_if ensures_option g)
  show "ensures (pay_good C) (applyMomo now a st ma emp d)"
    unfolding applyMomo_def by (intro ensures_if g) (auto simp: g split: option.split)
  show "ensures (pay_good C) (applyPayos now a v pa link emp d)"
    unfolding applyPayos_def by (intro ensures_if g)
qed

lemma applyAnswer_good:
  assumes "pay_good C d"
  shows "ensures (pay_good C) (applyAnswer now ans link emp i d)"
  unfolding applyAnswer_def currentAttempt_def
proof (intro ensures_fetch)
  fix a v assume "attemptById d i = Some a"
  then have a: "a \<in> set (paymentAttempts d)" by (simp add: attemptById_mem)
  show "ensures (pay_good C) (case ans of Vnpay_says r \<Rightarrow> applyVnpay now a (v_status v) r emp d
      | Momo_says r \<Rightarrow> applyMomo now a (v_status v) r emp d | Payos_says r \<Rightarrow> applyPayos now a v r link emp d
      | No_answer \<Rightarrow> rescheduleOrReview now a PROVIDER_UNAVAILABLE d)"
    by (cases ans) (simp_all add: apply_good [OF assms a] rescheduleOrReview_good [OF assms a])
qed

lemma recordQueryFailure_good:
  assumes "pay_good C d"
  shows "ensures (pay_good C) (recordQueryFailure now i q d)"
  unfolding recordQueryFailure_def
  by (intro ensures_option rescheduleOrReview_good) (use assms in \<open>simp_all add: attemptById_mem\<close>)

lemma finishQuery_good:
  assumes "pay_good C d"
  shows "pay_good C (snd (finishQuery now ans link emp i q d))"
proof -
  have "pay_good C (setRequest q Request_SUCCEEDED d)" using assms by simp
  from applyAnswer_good [OF this, THEN ensuresD] releaseAttempt_good [OF this]
  show ?thesis using assms recordQueryFailure_good [OF assms, THEN ensuresD]
    by (auto simp: finishQuery_def Let_def split: sum.split)
qed

end
