(* ===== verification/Payment_Books.thy ===== *)
theory Payment_Books
  imports Payment_Steps
begin

text \<open>
  Refunds keep the books of the online payments. Then \<open>payment_step\<close>, the step relation of
  everything the payment services commit, together with what the calls that wait for a provider
  know, and the invariant of the states it reaches.
\<close>

section \<open>Refunds\<close>

definition flight :: "paymentRefund \<Rightarrow> bool" where
  "flight r \<longleftrightarrow> pf_status r = Refund_PROCESSING \<or> pf_status r = Refund_REQUIRES_REVIEW"

lemma flight_reserved: "flight r \<Longrightarrow> reservedRefund r \<and> pf_status r \<noteq> Refund_SUCCEEDED"
  by (auto simp: flight_def reservedRefund_iff)

lemma inFlight_refunds:
  assumes "inFlight as rs c" and "\<And>r. r \<in> set rs \<Longrightarrow> sameRefund r (h r)"
    and "\<And>r. r \<in> set rs \<Longrightarrow> sameRefund (cl_refund c) r \<Longrightarrow> flight r \<Longrightarrow> flight (h r)"
  shows "inFlight as (map h rs) c"
proof -
  obtain r where r: "r \<in> set rs" "sameRefund (cl_refund c) r" "flight r"
    using assms(1) unfolding inFlight_def flight_def by blast
  have "sameRefund (cl_refund c) (h r)" using r(2) assms(2) [OF r(1)] by (simp add: sameRefund_def)
  moreover have "h r \<in> set (map h rs)" using r(1) by simp
  moreover note assms(3) [OF r]
  ultimately show ?thesis using assms(1) unfolding inFlight_def flight_def by blast
qed

lemma good_refunds:
  assumes good: "pay_good C d" and C': "C' \<subseteq> C"
    and f: "\<And>r. r \<in> set (paymentRefunds d) \<Longrightarrow> g r \<Longrightarrow> refund_steady r (f r)"
    and fl: "\<And>r c. r \<in> set (paymentRefunds d) \<Longrightarrow> c \<in> C' \<Longrightarrow> sameRefund (cl_refund c) r \<Longrightarrow> flight r \<Longrightarrow> g r \<Longrightarrow> flight (f r)"
  shows "pay_good C' (d\<lparr>paymentRefunds := upd g f (paymentRefunds d)\<rparr>)"
proof -
  have "map pf_id (upd g f (paymentRefunds d)) = map pf_id (paymentRefunds d)"
    unfolding upd_def using f by (auto simp: refund_steady_def sameRefund_def)
  moreover have "inFlight (paymentAttempts d) (upd g f (paymentRefunds d)) c" if c: "c \<in> C'" for c
    unfolding upd_def
  proof (rule inFlight_refunds)
    show "inFlight (paymentAttempts d) (paymentRefunds d) c" using good C' c by (auto simp: pay_good_def)
    fix r assume r: "r \<in> set (paymentRefunds d)"
    show "sameRefund r (if g r then f r else r)" using f [OF r] by (auto simp: refund_steady_def sameRefund_def)
    show "flight (if g r then f r else r)" if "sameRefund (cl_refund c) r" "flight r" using fl [OF r c that] that by simp
  qed
  ultimately show ?thesis
    using good ledger_refund_upd [of "paymentAttempts d" "paymentRefunds d" "invoices d" g f, OF _ f]
    by (simp add: pay_good_def payments_ok_def pay_keys_def)
qed

lemma insertRefund_good:
  assumes good: "pay_good C d" and fresh: "nextId d \<notin> pf_id ` set (paymentRefunds d)"
    and a: "attemptById d (pf_attemptId r) = Some a" "a_status a = Attempt_SUCCEEDED"
    and r: "pf_status r = Refund_PENDING" "pf_completedAt r = None" "pf_amount r \<le> a_amount a - reservedRefunds (pf_attemptId r) d"
  shows "ensures (good_snd C) (insertRefund r d)"
  unfolding insertRefund_def Let_def
proof (intro ensures_require)
  assume pos: "0 < pf_amount r"
  let ?row = "r\<lparr>pf_id := nextId d\<rparr>"
  have "ledger (paymentAttempts d) (paymentRefunds d @ [?row]) (invoices d)"
    by (rule ledger_new_refund [of _ _ _ a])
       (use good attemptById_mem [OF a(1)] a(2) r pos in
         \<open>simp_all add: pay_good_def payments_ok_def pay_keys_def reservedRefunds_def reservedSum_def\<close>)
  then show "ensures (good_snd C) (Inr (?row, d\<lparr>nextId := Suc (nextId d), paymentRefunds := paymentRefunds d @ [?row]\<rparr>))"
    using good fresh inFlight_more [of "paymentAttempts d" "paymentRefunds d" _ "[]" "[?row]"]
    by (simp add: pay_good_def payments_ok_def pay_keys_def)
qed

lemma createRefundTx_good:
  assumes good: "pay_good C d" and fresh: "pay_fresh d"
  shows "ensures (good_snd C) (createRefundTx configured i emp inp now d)"
proof -
  have new: "ensures (good_snd C) (andThen (insertRefund \<lparr>pf_id = 0, pf_type = refundType i (rf_amount inp) (a_amount a) d,
        pf_status = Refund_PENDING, pf_amount = rf_amount inp, pf_idempotencyKey = rf_key inp, pf_requestHash = rf_hash inp,
        pf_transactionNo = None, pf_requestedAt = now, pf_completedAt = None, pf_lockedAt = None, pf_attemptId = i,
        pf_requestedById = emp\<rparr> d)
      (\<lambda>rd. Inr (fst rd, enqueue ''payment'' ''PAYMENT_REFUND_REQUESTED'' (pf_id (fst rd)) [] now
             (addLog emp ''PAYMENT_REFUND_REQUESTED'' (pf_id (fst rd)) (snd rd)))))"
    if "attemptById d i = Some a" "a_status a = Attempt_SUCCEEDED \<and> nonEmpty (a_transactionNo a) \<noteq> None"
      "rf_amount inp \<le> a_amount a - reservedRefunds i d" for a
    by (rule ensures_andThen [OF insertRefund_good [OF good, of _ a]])
       (use fresh that in \<open>auto simp: pay_fresh_def\<close>)
  show ?thesis
    unfolding createRefundTx_def assertRefundReplay_def
  proof (intro ensures_require ensures_option ensures_fetch)
    show "ensures (good_snd C) (Inr (r, d))" for r using good by simp
  qed (rule new)
qed

section \<open>Refunds in flight\<close>

text \<open>No refund is in flight twice.\<close>

definition once :: "refundClaim set \<Rightarrow> bool" where
  "once C \<longleftrightarrow> inj_on (\<lambda>c. pf_id (cl_refund c)) C"

lemma once_subset: "once C \<Longrightarrow> C' \<subseteq> C \<Longrightarrow> once C'"
  unfolding once_def by (rule inj_on_subset)

lemma onceD: "once C \<Longrightarrow> c \<in> C \<Longrightarrow> c' \<in> C \<Longrightarrow> pf_id (cl_refund c) = pf_id (cl_refund c') \<Longrightarrow> c = c'"
  unfolding once_def by (rule inj_onD)

lemma good_subset: "pay_good C d \<Longrightarrow> C' \<subseteq> C \<Longrightarrow> pay_good C' d"
  by (auto simp: pay_good_def)

lemma good_keys: "pay_good C d \<Longrightarrow> distinct (map pf_id (paymentRefunds d))"
  by (simp add: pay_good_def pay_keys_def)

lemma good_state: "pay_good C d \<Longrightarrow> r \<in> set (paymentRefunds d) \<Longrightarrow> refundState r"
  unfolding pay_good_def payments_ok_def by (blast dest: ledgerD(5) refundOf_def [THEN iffD1])

lemma good_open:
  "pay_good C d \<Longrightarrow> r \<in> set (paymentRefunds d) \<Longrightarrow> flight r \<or> pf_status r = Refund_PENDING \<Longrightarrow> pf_completedAt r = None"
  using good_state [of C d r] by (auto simp: refundState_def flight_def)

lemma claim_good:
  assumes good: "pay_good C d" and one: "once C"
  shows "pay_good (set_option (fst (claimRefund i now d)) \<union> C) (snd (claimRefund i now d)) \<and>
    once (set_option (fst (claimRefund i now d)) \<union> C)"
proof (cases "cnt (claimGuardRefund i) (paymentRefunds d) = 1")
  case False
  then show ?thesis using assms by (simp add: claimRefund_def)
next
  case True
  let ?f = "\<lambda>r. r\<lparr>pf_status := Refund_PROCESSING, pf_lockedAt := Some now\<rparr>"
  let ?d1 = "d\<lparr>paymentRefunds := upd (claimGuardRefund i) ?f (paymentRefunds d)\<rparr>"
  have g1: "pay_good C ?d1"
    by (rule good_refunds [OF good order_refl])
       (use good_open [OF good] in \<open>auto simp: claimGuardRefund_def refund_steady_def sameRefund_def refundState_def
          reservedRefund_iff flight_def\<close>)
  show ?thesis
  proof (cases "refundById ?d1 i")
    case None
    then show ?thesis using True g1 one by (simp add: claimRefund_def Let_def)
  next
    case r: (Some r)
    show ?thesis
    proof (cases "attemptById ?d1 (pf_attemptId r)")
      case None
      then show ?thesis using True g1 one r by (simp add: claimRefund_def Let_def)
    next
      case a: (Some a)
      obtain q d2 where q: "createProviderRequest Request_REFUND (pf_attemptId r) (Some i) ?d1 = (q, d2)"
        by fastforce
      let ?c = "\<lparr>cl_refund = r, cl_attempt = a, cl_request = q\<rparr>"
      have eq: "claimRefund i now d = (Some ?c, d2)"
        using True r a q by (simp add: claimRefund_def Let_def)
      have rmem: "r \<in> set (upd (claimGuardRefund i) ?f (paymentRefunds d))" and ri: "pf_id r = i"
        using r by (auto simp: refundById_def dest: find_SomeD)
      obtain r0 where r0: "r0 \<in> set (paymentRefunds d)" "claimGuardRefund i r0"
        using True cnt_pos_iff [of "claimGuardRefund i" "paymentRefunds d"] by auto
      have only: "x = r0" if "x \<in> set (paymentRefunds d)" "pf_id x = i" for x
        using distinct_key_eq [OF good_keys [OF good] that(1) r0(1)] r0(2) that(2) by (simp add: claimGuardRefund_def)
      obtain x where x: "x \<in> set (paymentRefunds d)" "r = (if claimGuardRefund i x then ?f x else x)"
        by (rule mem_updE [OF rmem])
      have "x = r0" by (rule only [OF x(1)]) (use x(2) ri in \<open>auto split: if_splits\<close>)
      then have rp: "pf_status r = Refund_PROCESSING" using x(2) r0(2) by simp
      have "a \<in> set (paymentAttempts ?d1)" "a_id a = pf_attemptId r" using attemptById_mem [OF a] by simp_all
      then have "inFlight (paymentAttempts ?d1) (paymentRefunds ?d1) ?c"
        using rmem rp by (auto simp: inFlight_def sameRefund_def sameAttempt_def)
      then have "pay_good (insert ?c C) ?d1" using g1 by (simp add: pay_good_def)
      moreover have other: "pf_id (cl_refund c) \<noteq> i" if c: "c \<in> C" for c
      proof
        assume "pf_id (cl_refund c) = i"
        moreover obtain y where "y \<in> set (paymentRefunds d)" "sameRefund (cl_refund c) y" "flight y"
          using good c unfolding pay_good_def inFlight_def flight_def by blast
        ultimately have "y = r0" "flight y" using only by (simp_all add: sameRefund_def)
        then show False using r0(2) by (simp add: claimGuardRefund_def flight_def)
      qed
      have "i \<notin> (\<lambda>c. pf_id (cl_refund c)) ` (C - {?c})" using other by blast
      then have "once (insert ?c C)" using one ri unfolding once_def inj_on_insert by simp
      moreover have "pay_good (insert ?c C) d2 = pay_good (insert ?c C) ?d1"
        using good_tables(5) [of "insert ?c C" Request_REFUND "pf_attemptId r" "Some i" ?d1] q by simp
      ultimately show ?thesis by (simp add: eq)
    qed
  qed
qed

section \<open>Answers to refunds\<close>

lemma payView_refundEvent [simp]:
  "payView (refundEvent ev now r d) = payView d" "payView (openRefundIncident ty key r d) = payView d"
  by (simp_all add: refundEvent_def openRefundIncident_def)

lemma good_refundEvent [simp]:
  "pay_good C (refundEvent ev now r d) = pay_good C d" "pay_good C (openRefundIncident ty key r d) = pay_good C d"
  by (rule good_view, simp)+

lemma claimed_row:
  assumes "pay_good C d" and "c \<in> C"
  obtains r a where "r \<in> set (paymentRefunds d)" "sameRefund (cl_refund c) r" "flight r"
    "a \<in> set (paymentAttempts d)" "sameAttempt (cl_attempt c) a" "a_id a = pf_attemptId r"
    "\<And>x. x \<in> set (paymentRefunds d) \<Longrightarrow> pf_id x = pf_id (cl_refund c) \<Longrightarrow> x = r"
proof -
  obtain r a where r: "r \<in> set (paymentRefunds d)" "sameRefund (cl_refund c) r" "flight r"
    and a: "a \<in> set (paymentAttempts d)" "sameAttempt (cl_attempt c) a" "a_id a = pf_attemptId (cl_refund c)"
    using assms unfolding pay_good_def inFlight_def flight_def by blast
  have "x = r" if "x \<in> set (paymentRefunds d)" "pf_id x = pf_id (cl_refund c)" for x
    using distinct_key_eq [OF good_keys [OF assms(1)] that(1) r(1)] r(2) that(2) by (simp add: sameRefund_def)
  then show ?thesis using that [OF r a(1,2)] r(2) a(3) by (simp add: sameRefund_def)
qed

text \<open>The claim of a refund that is answered is given up; an answer that leaves it to somebody keeps it open.\<close>

lemma setRefund_good:
  assumes good: "pay_good C d" and one: "once C" and c: "c \<in> C"
    and f: "\<And>r. flight r \<Longrightarrow> pf_completedAt r = None \<Longrightarrow> refund_steady r (f r)"
  shows "pay_good (C - {c}) (setRefund (pf_id (cl_refund c)) f d)"
  unfolding setRefund_def
proof (rule good_refunds [OF good])
  obtain r where r: "r \<in> set (paymentRefunds d)" "flight r"
    "\<And>x. x \<in> set (paymentRefunds d) \<Longrightarrow> pf_id x = pf_id (cl_refund c) \<Longrightarrow> x = r"
    by (rule claimed_row [OF good c]) (rule that, assumption+)
  show "refund_steady x (f x)" if "x \<in> set (paymentRefunds d)" "pf_id x = pf_id (cl_refund c)" for x
    using r(3) [OF that] f [OF r(2)] good_open [OF good r(1)] r(2) by simp
  show "flight (f x)" if "c' \<in> C - {c}" "sameRefund (cl_refund c') x" "pf_id x = pf_id (cl_refund c)" for x c'
    using onceD [OF one c, of c'] that by (auto simp: sameRefund_def)
qed simp

lemma answered_steady:
  "flight r \<Longrightarrow> st \<noteq> Refund_SUCCEEDED \<Longrightarrow> st \<noteq> Refund_PENDING \<Longrightarrow> (st \<in> {Refund_FAILED, Refund_REJECTED} \<longleftrightarrow> t \<noteq> None) \<Longrightarrow>
    refund_steady r (answeredRow st txNo t r)"
  by (auto simp: refund_steady_def answeredRow_def sameRefund_def refundState_def reservedRefund_iff flight_def)

lemma successfulRefund_good:
  assumes good: "pay_good C d" and one: "once C" and c: "c \<in> C"
  shows "pay_good (C - {c}) (completeSuccessfulRefund c txNo now d)"
    and "incidents (completeSuccessfulRefund c txNo now d) = incidents d"
proof -
  obtain r a where r: "r \<in> set (paymentRefunds d)" "sameRefund (cl_refund c) r" "flight r"
    and a: "a \<in> set (paymentAttempts d)" "sameAttempt (cl_attempt c) a" "a_id a = pf_attemptId r"
    and only: "\<And>x. x \<in> set (paymentRefunds d) \<Longrightarrow> pf_id x = pf_id (cl_refund c) \<Longrightarrow> x = r"
    by (rule claimed_row [OF good c]) (rule that, assumption+)
  have keys: "distinct (map a_id (paymentAttempts d))" "distinct (map pf_id (paymentRefunds d))" "distinct (map v_id (invoices d))"
    and ok: "ledger (paymentAttempts d) (paymentRefunds d) (invoices d)"
    using good by (simp_all add: pay_good_def pay_keys_def payments_ok_def)
  let ?f = "answeredRow Refund_SUCCEEDED txNo (Some now)"
  let ?rs = "upd (\<lambda>x. pf_id x = pf_id r) ?f (paymentRefunds d)"
  let ?st = "targetStatus (refundedSum (a_id a) ?rs) (a_amount a)"
  have same: "pf_id (cl_refund c) = pf_id r" "a_id (cl_attempt c) = a_id a" "a_amount (cl_attempt c) = a_amount a"
    "a_invoiceId (cl_attempt c) = a_invoiceId a"
    using r(2) a(2) by (simp_all add: sameRefund_def sameAttempt_def)
  have f: "sameRefund r (?f r)" "pf_status (?f r) = Refund_SUCCEEDED" "pf_completedAt (?f r) \<noteq> None"
    by (simp_all add: answeredRow_def sameRefund_def)
  note l = ledger_refund_success [where f = ?f, OF ok keys a(1) r(1) a(3) [symmetric] conjunct1 [OF flight_reserved [OF r(3)]]
      conjunct2 [OF flight_reserved [OF r(3)]] f]
  let ?done = "d\<lparr>paymentRefunds := ?rs, invoices := refundInvoice (a_invoiceId a) ?st (invoices d)\<rparr>"
  have eq: "completeSuccessfulRefund c txNo now d = refundEvent ''PAYMENT_REFUND_SUCCEEDED'' now (cl_refund c) ?done"
    using l(2) by (simp add: completeSuccessfulRefund_def Let_def setRefund_def same refundedAmount_def refundedSum_def
        refundInvoice_def)
  show "incidents (completeSuccessfulRefund c txNo now d) = incidents d"
    unfolding eq by (simp add: refundEvent_def enqueue_def addLog_def)
  have ids: "map pf_id ?rs = map pf_id (paymentRefunds d)" unfolding upd_def by (simp add: answeredRow_def)
  have vids: "map v_id (refundInvoice i st vs) = map v_id vs" for i st vs unfolding upd_def refundInvoice_def by simp
  have "inFlight (paymentAttempts d) ?rs c'" if c': "c' \<in> C - {c}" for c'
    unfolding upd_def
  proof (rule inFlight_refunds)
    show "inFlight (paymentAttempts d) (paymentRefunds d) c'" using good c' by (simp add: pay_good_def)
    fix x assume "x \<in> set (paymentRefunds d)"
    show "sameRefund x (if pf_id x = pf_id r then ?f x else x)" by (simp add: answeredRow_def sameRefund_def)
    show "flight (if pf_id x = pf_id r then ?f x else x)" if "sameRefund (cl_refund c') x" "flight x"
      using onceD [OF one c, of c'] c' that same(1) by (auto simp: sameRefund_def)
  qed
  then have "pay_good (C - {c}) ?done"
    using l(1) keys(1,3) good_keys [OF good] ids by (simp add: pay_good_def payments_ok_def pay_keys_def vids)
  then show "pay_good (C - {c}) (completeSuccessfulRefund c txNo now d)" by (simp add: eq)
qed

lemma successfulRefund_status:
  assumes good: "pay_good C d" and one: "once C" and c: "c \<in> C"
  shows "\<exists>v\<in>set (invoices (completeSuccessfulRefund c txNo now d)). v_id v = a_invoiceId (cl_attempt c) \<and>
    v_status v = targetStatus (refundedAmount (a_id (cl_attempt c)) d + pf_amount (cl_refund c)) (a_amount (cl_attempt c))"
proof -
  let ?d' = "completeSuccessfulRefund c txNo now d"
  obtain r a where r: "r \<in> set (paymentRefunds d)" "sameRefund (cl_refund c) r" "flight r"
    and a: "a \<in> set (paymentAttempts d)" "sameAttempt (cl_attempt c) a" "a_id a = pf_attemptId r"
    and only: "\<And>x. x \<in> set (paymentRefunds d) \<Longrightarrow> pf_id x = pf_id (cl_refund c) \<Longrightarrow> x = r"
    by (rule claimed_row [OF good c]) (rule that, assumption+)
  have ok: "ledger (paymentAttempts d) (paymentRefunds d) (invoices d)" using good by (simp add: pay_good_def payments_ok_def)
  note room = refund_room [OF ok a(1) r(1) a(3) [symmetric] conjunct1 [OF flight_reserved [OF r(3)]]
      conjunct2 [OF flight_reserved [OF r(3)]]]
  have rows: "paymentAttempts ?d' = paymentAttempts d"
    "paymentRefunds ?d' = upd (\<lambda>x. pf_id x = pf_id r) (answeredRow Refund_SUCCEEDED txNo (Some now)) (paymentRefunds d)"
    using r(2) by (simp_all add: completeSuccessfulRefund_def Let_def setRefund_def refundEvent_def openRefundIncident_def
        openIncident_def enqueue_def addLog_def sameRefund_def)
  have sum: "refundedSum (a_id a) (paymentRefunds ?d') = refundedSum (a_id a) (paymentRefunds d) + pf_amount r"
    unfolding refundedSum_def rows(2)
    by (subst sumw_upd_one [OF good_keys [OF good] r(1), of _ "pf_id r"])
       (use r(3) a(3) in \<open>auto simp: answeredRow_def flight_def\<close>)
  have ok': "ledger (paymentAttempts ?d') (paymentRefunds ?d') (invoices ?d')"
    using successfulRefund_good(1) [OF assms] by (simp add: pay_good_def payments_ok_def)
  have "a_status a = Attempt_SUCCEEDED"
  proof -
    obtain b where b: "b \<in> set (paymentAttempts d)" "a_id b = pf_attemptId r" "a_status b = Attempt_SUCCEEDED"
      using ledgerD(5) [OF ok r(1)] by (auto simp: refundOf_def)
    have ids: "distinct (map a_id (paymentAttempts d))" using good by (simp add: pay_good_def pay_keys_def)
    have "b = a" using distinct_key_eq [OF ids b(1) a(1)] b(2) a(3) by simp
    then show ?thesis using b(3) by simp
  qed
  then obtain v where "v \<in> set (invoices ?d')" "v_id v = a_invoiceId a"
    "v_status v = onlineStatus (refundedSum (a_id a) (paymentRefunds ?d')) (a_amount a)"
    using ledgerD(2) [OF ok'] a(1) rows(1) unfolding billed_def by metis
  then show ?thesis
    using sum room a(2) r(2)
    by (intro bexI [of _ v]) (simp_all add: onlineStatus_def refundedAmount_def refundedSum_def sameAttempt_def sameRefund_def)
qed

lemma response_good:
  assumes good: "pay_good C d" and one: "once C" and c: "c \<in> C"
  shows "pay_good (C - {c}) (applyProviderResponse c ans now d)"
proof -
  have g: "pay_good C (setRequest (cl_request c) Request_SUCCEEDED d)" using good by simp
  have s: "pay_good (C - {c}) (setRefund (pf_id (cl_refund c)) (answeredRow st txNo t) d1)"
    if "pay_good C d1" "st \<noteq> Refund_SUCCEEDED" "st \<noteq> Refund_PENDING" "st \<in> {Refund_FAILED, Refund_REJECTED} \<longleftrightarrow> t \<noteq> None"
    for st txNo t d1
    by (rule setRefund_good [OF that(1) one c answered_steady [OF _ that(2-4)]])
  have out: "refundOutcome x y \<in> {Refund_SUCCEEDED, Refund_REJECTED, Refund_FAILED, Refund_REQUIRES_REVIEW}" for x y
    by (simp add: refundOutcome_def)
  show ?thesis
    unfolding applyProviderResponse_def Let_def
    using successfulRefund_good(1) [OF g one c] g out [of "va_responseCode ans" "va_transactionStatus ans"]
    by (auto intro!: s)
qed

lemma uncertain_good:
  assumes "pay_good C d" and "once C" and "c \<in> C"
  shows "pay_good (C - {c}) (markProviderUncertain c now d)"
  unfolding markProviderUncertain_def Let_def good_refundEvent
  by (rule setRefund_good [OF _ assms(2,3)])
     (use assms(1) in \<open>auto simp: refund_steady_def sameRefund_def refundState_def reservedRefund_iff flight_def\<close>)

lemma abandon_good:
  assumes "pay_good C d"
  shows "pay_good C (recoverAbandonedRefund now ri d)"
proof -
  let ?g = "\<lambda>r. pf_id r = fst ri \<and> abandonedRefund now r"
  let ?d1 = "d\<lparr>paymentRefunds := upd ?g (\<lambda>r. r\<lparr>pf_status := Refund_REQUIRES_REVIEW, pf_lockedAt := None\<rparr>) (paymentRefunds d)\<rparr>"
  have "pay_good C ?d1"
    by (rule good_refunds [OF assms order_refl])
       (use good_open [OF assms] in \<open>auto simp: abandonedRefund_def refund_steady_def sameRefund_def refundState_def
          reservedRefund_iff flight_def\<close>)
  then have "pay_good C (?d1\<lparr>providerRequests := q\<rparr>)" for q
    using good_view [of "?d1\<lparr>providerRequests := q\<rparr>" ?d1 C] by (simp add: payView_def)
  then show ?thesis using assms by (simp add: recoverAbandonedRefund_def Let_def)
qed

lemma resolve_good: "pay_good C d \<Longrightarrow> ensures (pay_good C) (resolveIncident i emp act d)"
  unfolding resolveIncident_def
  by (intro ensures_fetch ensures_require) (simp add: good_view [of "d\<lparr>incidents := _\<rparr>" d C] payView_def)

section \<open>Everything that commits\<close>

text \<open>The database, and the refunds some call has claimed and waits for VNPay to answer.\<close>

record payments =
  pm_db :: db
  pm_claims :: "refundClaim set"

definition ready :: "payments \<Rightarrow> bool" where
  "ready s \<longleftrightarrow> committed (pm_db s) \<and> pay_fresh (pm_db s)"

inductive payment_step ::
  "(quotedData \<Rightarrow> 'h) \<Rightarrow> 'c signer \<Rightarrow> (string \<Rightarrow> string \<Rightarrow> bool) \<Rightarrow> payments \<Rightarrow> payments \<Rightarrow> bool"
  for hash sign sameName where
  till: "till_step hash sign sameName (pm_db s) d' \<Longrightarrow> payment_step hash sign sameName s (s\<lparr>pm_db := d'\<rparr>)"
| create_attempt: "createAttemptTx env vid emp i now (pm_db s) = Inr (a, d') \<Longrightarrow> ready s \<Longrightarrow>
    payment_step hash sign sameName s (s\<lparr>pm_db := d'\<rparr>)"
| link: "persistLink env url i now (pm_db s) = Inr (b, d') \<Longrightarrow> ready s \<Longrightarrow> payment_step hash sign sameName s (s\<lparr>pm_db := d'\<rparr>)"
| expire: "ready s \<Longrightarrow> payment_step hash sign sameName s (s\<lparr>pm_db := expireAttempt i now (pm_db s)\<rparr>)"
| vnpay: "handleVnpayIpn now verified (pm_db s) = (rsp, d') \<Longrightarrow> ready s \<Longrightarrow>
    payment_step hash sign sameName s (s\<lparr>pm_db := d'\<rparr>)"
| momo: "handleMomoIpn now m (pm_db s) = Inr d' \<Longrightarrow> ready s \<Longrightarrow> payment_step hash sign sameName s (s\<lparr>pm_db := d'\<rparr>)"
| payos: "handlePayosWebhook now p (pm_db s) = Inr d' \<Longrightarrow> ready s \<Longrightarrow> payment_step hash sign sameName s (s\<lparr>pm_db := d'\<rparr>)"
| claim_attempt: "claimAttempt due now i (pm_db s) = (b, d') \<Longrightarrow> ready s \<Longrightarrow>
    payment_step hash sign sameName s (s\<lparr>pm_db := d'\<rparr>)"
| ask: "createProviderRequest Request_QUERY i None (pm_db s) = (q, d') \<Longrightarrow> ready s \<Longrightarrow>
    payment_step hash sign sameName s (s\<lparr>pm_db := d'\<rparr>)"
| answer: "finishQuery now ans lk emp i q (pm_db s) = (e, d') \<Longrightarrow> ready s \<Longrightarrow>
    payment_step hash sign sameName s (s\<lparr>pm_db := d'\<rparr>)"
| request_refund: "createRefundTx configured i emp inp now (pm_db s) = Inr (r, d') \<Longrightarrow> ready s \<Longrightarrow>
    payment_step hash sign sameName s (s\<lparr>pm_db := d'\<rparr>)"
| claim_refund: "claimRefund i now (pm_db s) = (c, d') \<Longrightarrow> ready s \<Longrightarrow>
    payment_step hash sign sameName s (s\<lparr>pm_db := d', pm_claims := set_option c \<union> pm_claims s\<rparr>)"
| refund_answer: "c \<in> pm_claims s \<Longrightarrow> ready s \<Longrightarrow>
    payment_step hash sign sameName s (s\<lparr>pm_db := finishRefund c ans wrote now (pm_db s), pm_claims := pm_claims s - {c}\<rparr>)"
| abandon: "ready s \<Longrightarrow> payment_step hash sign sameName s (s\<lparr>pm_db := recoverAbandonedRefund now ri (pm_db s)\<rparr>)"
| resolve: "resolveIncident i emp act (pm_db s) = Inr d' \<Longrightarrow> ready s \<Longrightarrow>
    payment_step hash sign sameName s (s\<lparr>pm_db := d'\<rparr>)"
| crash: "C \<subseteq> pm_claims s \<Longrightarrow> payment_step hash sign sameName s (s\<lparr>pm_claims := C\<rparr>)"

definition payment_inv :: "payments \<Rightarrow> bool" where
  "payment_inv s \<longleftrightarrow> payments_ok (pm_db s) \<and> once (pm_claims s) \<and>
     (\<forall>c\<in>pm_claims s. inFlight (paymentAttempts (pm_db s)) (paymentRefunds (pm_db s)) c)"

lemma ready_good: "ready s \<Longrightarrow> payment_inv s \<Longrightarrow> pay_good (pm_claims s) (pm_db s)"
  by (simp add: ready_def payment_inv_def pay_good_def committed_def committed_keys)

lemma good_inv: "pay_good C d \<Longrightarrow> once C \<Longrightarrow> payment_inv \<lparr>pm_db = d, pm_claims = C\<rparr>"
  by (simp add: payment_inv_def pay_good_def)

lemma inv_update [simp]:
  "pay_good (pm_claims s) d' \<Longrightarrow> payment_inv s \<Longrightarrow> payment_inv (s\<lparr>pm_db := d'\<rparr>)"
  by (simp add: payment_inv_def pay_good_def)

lemma inv_till:
  assumes "till_step hash sign sameName (pm_db s) d'" and "payment_inv s"
  shows "payment_inv (s\<lparr>pm_db := d'\<rparr>)"
  using assms(2) till_step_pay [OF assms(1)] pay_frame_ok [OF till_step_pay [OF assms(1)]]
  by (simp add: payment_inv_def pay_frame_def)

lemma payment_step_inv:
  assumes "payment_step hash sign sameName s s'" and inv: "payment_inv s"
  shows "payment_inv s'"
proof -
  note good = ready_good [OF _ inv]
  have one: "once (pm_claims s)" using inv by (simp add: payment_inv_def)
  from assms(1) show ?thesis
  proof (cases rule: payment_step.cases)
    case (till d')
    then show ?thesis using inv inv_till by blast
  next
    case (create_attempt env vid emp i now a d')
    then show ?thesis
      using ensuresD [OF createAttemptTx_good [OF good]] inv by (fastforce simp: ready_def)
  next
    case (link env url i now b d')
    then show ?thesis using ensuresD [OF persistLink_good [OF good]] inv by fastforce
  next
    case (expire i now)
    then show ?thesis using expireAttempt_good [OF good] inv by simp
  next
    case (vnpay now verified rsp d')
    then show ?thesis using handleVnpayIpn_good [OF good, of now verified] inv by simp
  next
    case (momo now m d')
    then show ?thesis using ensuresD [OF handlers_good(1) [OF good]] inv by simp
  next
    case (payos now p d')
    then show ?thesis using ensuresD [OF handlers_good(2) [OF good]] inv by simp
  next
    case (claim_attempt due now i b d')
    then show ?thesis using claimAttempt_good [OF good, of due now i] inv by simp
  next
    case (ask i q d')
    then show ?thesis using good_tables(5) [of "pm_claims s" Request_QUERY i None "pm_db s"] good inv by simp
  next
    case (answer now ans lk emp i q e d')
    then show ?thesis using finishQuery_good [OF good, of now ans lk emp i q] inv by simp
  next
    case (request_refund configured i emp inp now r d')
    then show ?thesis
      using ensuresD [OF createRefundTx_good [OF good]] inv by (fastforce simp: ready_def)
  next
    case (claim_refund i now c d')
    then show ?thesis using claim_good [OF good one, of i now] by (simp add: payment_inv_def pay_good_def)
  next
    case (refund_answer c ans wrote now)
    then have g: "pay_good (pm_claims s) (pm_db s)" using good by simp
    have "pay_good (pm_claims s - {c}) (finishRefund c ans wrote now (pm_db s))"
      using response_good [OF g one refund_answer(2)] uncertain_good [OF g one refund_answer(2)] good_subset [OF g, of "pm_claims s - {c}"]
      by (auto simp: finishRefund_def split: option.split)
    moreover have "once (pm_claims s - {c})" using once_subset [OF one] by blast
    ultimately show ?thesis using refund_answer(1) by (simp add: payment_inv_def pay_good_def)
  next
    case (abandon now ri)
    then show ?thesis using abandon_good [OF good, of now ri] inv by simp
  next
    case (resolve i emp act d')
    then show ?thesis using ensuresD [OF resolve_good [OF good]] inv by simp
  next
    case (crash C)
    then show ?thesis using inv once_subset [OF one] by (auto simp: payment_inv_def)
  qed
qed

lemma payment_steps_inv:
  "(payment_step hash sign sameName)\<^sup>*\<^sup>* s s' \<Longrightarrow> payment_inv s \<Longrightarrow> payment_inv s'"
  by (induction rule: rtranclp_induct) (auto intro: payment_step_inv)

end
