(* ===== verification/Payment_Claims.thy ===== *)
theory Payment_Claims
  imports Payment_Books
begin

text \<open>The properties of the online payments, and a shop in which they are seen.\<close>

section \<open>A shop with two online payments\<close>

text \<open>Invoice 7 was paid by attempt 1, of which refund 3 is requested; attempt 2 is to pay invoice 8.\<close>

definition sample_attempt :: "id \<Rightarrow> id \<Rightarrow> money \<Rightarrow> string \<Rightarrow> paymentAttempt" where
  "sample_attempt i vid amount ref =
     \<lparr>a_id = i, a_provider = VNPAY, a_status = Attempt_PENDING, a_amount = amount, a_currency = ''VND'',
      a_merchantReference = ref, a_idempotencyKey = ref, a_requestHash = '''', a_paymentUrl = None, a_linkId = None,
      a_transactionNo = None, a_failureCode = None, a_closeSession = False, a_createdAt = 0, a_expiresAt = 900000,
      a_completedAt = None, a_nextReconcileAt = Some 900000, a_reconciliations = 0, a_lockedAt = None, a_invoiceId = vid,
      a_createdById = 1, a_shiftId = 100\<rparr>"

definition sample_bill :: "id \<Rightarrow> PaymentStatus \<Rightarrow> money \<Rightarrow> invoice" where
  "sample_bill i st amount =
     \<lparr>v_id = i, v_number = ''HD1'', v_subTotal = amount, v_discount = 0, v_tax = 0, v_taxRate = 0, v_total = amount,
      v_tendered = None, v_change = None, v_method = Method_TRANSFER, v_status = st, v_sessionId = 4, v_employeeId = 1,
      v_shiftId = Some 100, v_promotionId = None, v_snapshot = True, v_createdAt = 5, v_codeVersion = Some 0,
      v_codeIssuedAt = None\<rparr>"

definition sample_refund :: paymentRefund where
  "sample_refund = \<lparr>pf_id = 3, pf_type = Refund_PARTIAL, pf_status = Refund_PENDING, pf_amount = 2000, pf_idempotencyKey = ''r'',
     pf_requestHash = '''', pf_transactionNo = None, pf_requestedAt = 10, pf_completedAt = None, pf_lockedAt = None,
     pf_attemptId = 1, pf_requestedById = 1\<rparr>"

definition pay_shop :: db where
  "pay_shop = empty_db\<lparr>nextId := 100,
     orderSessions := [\<lparr>s_id = 4, s_status = Session_ACTIVE, s_tableId = None, s_employeeId = 1, s_shiftId = None,
       s_guestCount = None, s_online = None\<rparr>],
     invoices := [sample_bill 7 Pay_PAID 5000, sample_bill 8 Pay_UNPAID 9000],
     paymentAttempts := [succeededRow 9 ''T1'' (sample_attempt 1 7 5000 ''R1''), sample_attempt 2 8 9000 ''R2''],
     paymentRefunds := [sample_refund]\<rparr>"

definition pay_start :: payments where
  "pay_start = \<lparr>pm_db = pay_shop, pm_claims = {}\<rparr>"

definition sample_ipn :: vnpayCallback where
  "sample_ipn = \<lparr>vn_payloadHash = ''h'', vn_txnRef = Some ''R2'', vn_amount = Some ''9000'', vn_transactionNo = Some ''T2'',
     vn_responseCode = Some ''00'', vn_transactionStatus = Some ''00''\<rparr>"

text \<open>VNPay confirms the payment of invoice 8, and the refund is claimed.\<close>

definition pay_confirmed :: payments where
  "pay_confirmed = pay_start\<lparr>pm_db := snd (handleVnpayIpn 20 (Some sample_ipn) pay_shop)\<rparr>"

definition pay_claimed :: payments where
  "pay_claimed = (let r = claimRefund 3 30 (pm_db pay_confirmed)
     in pay_confirmed\<lparr>pm_db := snd r, pm_claims := set_option (fst r) \<union> pm_claims pay_confirmed\<rparr>)"

lemmas shop_simps = pay_shop_def empty_db_def sample_attempt_def sample_bill_def sample_refund_def succeededRow_def

lemma pay_start_ready: "ready pay_start" "payment_inv pay_start"
  by (simp_all add: ready_def pay_start_def committed_def keys_ok_def stock_keys_def one_open_shift_def recipes_fresh_def
      lines_fresh_def pay_fresh_def shop_simps payment_inv_def once_def payments_ok_def ledger_def attemptChecks_def
      attemptState_def billed_def confirmedOnce_def refundOf_def refundState_def reservedSum_def refundedSum_def
      RESERVED_REFUND_STATUSES_def onlineStatus_def)

lemmas ipn_eval = handleVnpayIpn_def sample_ipn_def nonEmpty_def numeral_text_def textValue_def processVnpayIpn_def Let_def
  attemptByReference_def createWebhook_def vnpaySucceeded_def vnpayTransactionNo_def invoiceStatus_def findInvoice_def
  settleVnpay_def confirmPayment_def completeOnlinePayment_def findSession_def assertInvoiceIsUnpaid_def cnt_def upd_def
  payItems_def enqueueInvoiceEvent_def updateAttempt_def updateAttempts_def attemptKeys_def rival_def

lemma ipn_value:
  "handleVnpayIpn 20 (Some sample_ipn) pay_shop = (Rsp_SUCCESS, pm_db pay_confirmed)"
  by (simp add: pay_confirmed_def pay_start_def ipn_eval shop_simps)

lemma pay_confirmed_simps:
  "invoices (pm_db pay_confirmed) = [sample_bill 7 Pay_PAID 5000,
     (sample_bill 8 Pay_PAID 9000)\<lparr>v_tendered := Some 9000, v_change := Some 0\<rparr>]"
  "paymentAttempts (pm_db pay_confirmed) = [succeededRow 9 ''T1'' (sample_attempt 1 7 5000 ''R1''),
     succeededRow 20 ''T2'' (sample_attempt 2 8 9000 ''R2'')]"
  "paymentRefunds (pm_db pay_confirmed) = [sample_refund]" "pm_claims pay_confirmed = {}"
  by (simp_all add: pay_confirmed_def pay_start_def ipn_eval shop_simps addLog_def enqueue_def completeWebhook_def)

lemma pay_confirmed_ready: "ready pay_confirmed"
  by (simp add: ready_def pay_confirmed_def pay_start_def ipn_eval addLog_def enqueue_def completeWebhook_def committed_def
      keys_ok_def stock_keys_def one_open_shift_def recipes_fresh_def lines_fresh_def pay_fresh_def shop_simps)

definition sample_claim :: refundClaim where
  "sample_claim = \<lparr>cl_refund = sample_refund\<lparr>pf_status := Refund_PROCESSING, pf_lockedAt := Some 30\<rparr>,
     cl_attempt = succeededRow 9 ''T1'' (sample_attempt 1 7 5000 ''R1''), cl_request = nextId (pm_db pay_confirmed)\<rparr>"

lemma claim_value: "claimRefund 3 30 (pm_db pay_confirmed) = (Some sample_claim, pm_db pay_claimed)"
  by (simp add: pay_claimed_def Let_def claimRefund_def claimGuardRefund_def pay_confirmed_simps cnt_def upd_def refundById_def
      attemptById_def createProviderRequest_def sample_claim_def) (simp add: shop_simps)

lemma pay_claimed_simps:
  "pm_claims pay_claimed = {sample_claim}" "invoices (pm_db pay_claimed) = invoices (pm_db pay_confirmed)"
  "paymentAttempts (pm_db pay_claimed) = paymentAttempts (pm_db pay_confirmed)"
  "paymentRefunds (pm_db pay_claimed) = [cl_refund sample_claim]"
proof -
  show "pm_claims pay_claimed = {sample_claim}"
    unfolding pay_claimed_def Let_def using arg_cong [OF claim_value, of fst] by (simp add: pay_confirmed_simps)
qed (simp_all add: pay_claimed_def Let_def claimRefund_def claimGuardRefund_def pay_confirmed_simps cnt_def upd_def refundById_def
      attemptById_def createProviderRequest_def sample_claim_def, simp_all add: shop_simps)

lemma pay_claimed_reached: "(payment_step hash sign sameName)\<^sup>*\<^sup>* pay_start pay_claimed"
proof -
  have "payment_step hash sign sameName pay_start pay_confirmed"
  proof -
    have "pay_confirmed = pay_start\<lparr>pm_db := pm_db pay_confirmed\<rparr>" "pm_db pay_start = pay_shop"
      by (rule payments.equality) (simp_all add: pay_confirmed_def pay_start_def)
    then show ?thesis
      using payment_step.vnpay [of 20 "Some sample_ipn" pay_start Rsp_SUCCESS "pm_db pay_confirmed" hash sign sameName]
        pay_start_ready(1) ipn_value by metis
  qed
  moreover have "payment_step hash sign sameName pay_confirmed pay_claimed"
  proof -
    have "pay_claimed = pay_confirmed\<lparr>pm_db := pm_db pay_claimed, pm_claims := set_option (Some sample_claim) \<union> pm_claims pay_confirmed\<rparr>"
      by (rule payments.equality) (simp_all add: pay_claimed_simps pay_confirmed_simps)
    then show ?thesis using payment_step.claim_refund [OF claim_value pay_confirmed_ready, of hash sign sameName] by simp
  qed
  ultimately show ?thesis
    by (rule converse_rtranclp_into_rtranclp [of "payment_step hash sign sameName", OF _ r_into_rtranclp])
qed

section \<open>The books\<close>

text \<open>C3: The books of the online payments are always right. From any state in which they are, run any
  sequence of what the shop commits: attempts created, linked, expired, confirmed or refused by
  notifications in any order or by the answers of later queries, refunds requested, claimed, answered,
  given up, and everything of the till. Then every attempt bills the total of its invoice; a
  confirmed one has its invoice paid by transfer, in exactly the status that what has been refunded
  of it gives; refunds never reserve more than was paid; and no two attempts of one invoice are
  confirmed.\<close>

theorem online_payment_books:
  assumes "(payment_step hash sign sameName)\<^sup>*\<^sup>* s s'" and "payment_inv s" and "a \<in> set (paymentAttempts (pm_db s'))"
  shows "(\<exists>v\<in>set (invoices (pm_db s')). v_id v = a_invoiceId a \<and> v_total v = a_amount a \<and>
       (a_status a = Attempt_SUCCEEDED \<longrightarrow> v_method v = Method_TRANSFER \<and>
          v_status v = onlineStatus (refundedAmount (a_id a) (pm_db s')) (a_amount a))) \<and>
     reservedRefunds (a_id a) (pm_db s') \<le> a_amount a \<and>
     (\<forall>b\<in>set (paymentAttempts (pm_db s')). a_status a = Attempt_SUCCEEDED \<and> a_status b = Attempt_SUCCEEDED \<and>
        a_invoiceId b = a_invoiceId a \<longrightarrow> a_id b = a_id a)"
proof -
  have ok: "ledger (paymentAttempts (pm_db s')) (paymentRefunds (pm_db s')) (invoices (pm_db s'))"
    using payment_steps_inv [OF assms(1,2)] by (simp add: payment_inv_def payments_ok_def)
  show ?thesis
  proof (intro conjI)
    show "\<forall>b\<in>set (paymentAttempts (pm_db s')). a_status a = Attempt_SUCCEEDED \<and> a_status b = Attempt_SUCCEEDED \<and>
        a_invoiceId b = a_invoiceId a \<longrightarrow> a_id b = a_id a"
      using ledgerD(4) [OF ok] assms(3) unfolding confirmedOnce_def by blast
  qed (use ledgerD(2,3) [OF ok assms(3)] in
    \<open>simp_all add: billed_def refundedAmount_def reservedRefunds_def refundedSum_def reservedSum_def\<close>)
qed

theorem online_payment_books_witness:
  "\<exists>v\<in>set (invoices (pm_db pay_claimed)). v_id v = 8 \<and> v_total v = 9000 \<and> v_status v = Pay_PAID"
proof -
  let ?a = "succeededRow 20 ''T2'' (sample_attempt 2 8 9000 ''R2'')"
  have mem: "?a \<in> set (paymentAttempts (pm_db pay_claimed))"
    by (simp add: pay_claimed_simps pay_confirmed_simps)
  have "refundedAmount 2 (pm_db pay_claimed) = 0"
    by (simp add: refundedAmount_def pay_claimed_simps sample_claim_def sample_refund_def)
  moreover have "a_id ?a = 2" "a_invoiceId ?a = 8" "a_amount ?a = 9000" "a_status ?a = Attempt_SUCCEEDED"
    by (simp_all add: succeededRow_def sample_attempt_def)
  ultimately show ?thesis
    using online_payment_books [OF pay_claimed_reached [of "\<lambda>_. ()" "\<lambda>_ _. ()" "(=)"] pay_start_ready(2) mem, THEN conjunct1]
    unfolding onlineStatus_def by (elim bexE) (rule bexI, simp_all)
qed

text \<open>The rows keep their types. Whatever is committed from such books on, every attempt satisfies the
  CHECK constraints of its table (positive amount, VND, expiry after creation, and in each status
  exactly the columns that status has), and every refund is positive, completed exactly in a final
  status, and refunds a confirmed payment; so no update of a payment service is ever refused by
  these constraints.\<close>

theorem payment_rows_checked:
  assumes "(payment_step hash sign sameName)\<^sup>*\<^sup>* s s'" and "payment_inv s"
  shows "list_all attemptChecks (paymentAttempts (pm_db s')) \<and>
    list_all (refundOf (paymentAttempts (pm_db s'))) (paymentRefunds (pm_db s'))"
  using payment_steps_inv [OF assms] by (simp add: payment_inv_def payments_ok_def ledger_def list_all_iff)

theorem payment_rows_checked_witness:
  "list_all attemptChecks (paymentAttempts (pm_db pay_claimed)) \<and> paymentRefunds (pm_db pay_claimed) \<noteq> []"
  using payment_rows_checked [OF pay_claimed_reached [of "\<lambda>_. ()" "\<lambda>_ _. ()" "(=)"] pay_start_ready(2)]
  by (simp add: pay_claimed_simps)

section \<open>Refunds\<close>

text \<open>C11: A refund that VNPay paid out reaches its invoice. However long the call waited, and whatever
  was committed meanwhile, when VNPay's matching success arrives for a claimed refund the invoice gets
  the status that all refunds of the payment so far and this one give, and the conflict the code
  guards against, an invoice that is no longer refundable, never occurs: no incident is opened.\<close>

theorem refund_reaches_invoice:
  assumes "(payment_step hash sign sameName)\<^sup>*\<^sup>* s s'" and "payment_inv s" and "committed (pm_db s')"
    and "c \<in> pm_claims s'" and "\<not> refundResponseMismatch c ans"
    and "va_responseCode ans = Some ''00''" and "va_transactionStatus ans = Some ''00''"
    and "d' = finishRefund c (Some ans) True now (pm_db s')"
  shows "incidents d' = incidents (pm_db s') \<and>
    (\<exists>v\<in>set (invoices d'). v_id v = a_invoiceId (cl_attempt c) \<and>
       v_status v = targetStatus (refundedAmount (a_id (cl_attempt c)) (pm_db s') + pf_amount (cl_refund c))
         (a_amount (cl_attempt c)))"
proof -
  let ?d = "setRequest (cl_request c) Request_SUCCEEDED (pm_db s')"
  have inv: "payment_inv s'" by (rule payment_steps_inv [OF assms(1,2)])
  then have one: "once (pm_claims s')" by (simp add: payment_inv_def)
  have "pay_good (pm_claims s') (pm_db s')"
    using inv assms(3) by (simp add: payment_inv_def pay_good_def committed_def committed_keys)
  then have good: "pay_good (pm_claims s') ?d" by simp
  obtain txNo where eq: "d' = completeSuccessfulRefund c txNo now ?d"
    using assms(5-8) by (simp add: finishRefund_def applyProviderResponse_def Let_def refundOutcome_def)
  have "incidents d' = incidents (pm_db s')"
    using successfulRefund_good(2) [OF good one assms(4)] by (simp add: eq setRequest_def)
  moreover have "\<exists>v\<in>set (invoices d'). v_id v = a_invoiceId (cl_attempt c) \<and>
       v_status v = targetStatus (refundedAmount (a_id (cl_attempt c)) ?d + pf_amount (cl_refund c)) (a_amount (cl_attempt c))"
    unfolding eq by (rule successfulRefund_status [OF good one assms(4)])
  ultimately show ?thesis by (simp add: refundedAmount_def setRequest_def)
qed

definition paid_out :: vnpayAnswer where
  "paid_out = \<lparr>va_responseCode = Some ''00'', va_transactionStatus = Some ''00'', va_txnRef = Some ''R1'',
     va_amount = Some (intText 2000), va_transactionType = Some ''03'', va_transactionNo = Some ''T3''\<rparr>"

lemma pay_claimed_committed: "committed (pm_db pay_claimed)"
  by (simp add: pay_claimed_def Let_def claimRefund_def claimGuardRefund_def cnt_def upd_def refundById_def attemptById_def
      createProviderRequest_def pay_confirmed_def pay_start_def ipn_eval addLog_def enqueue_def completeWebhook_def committed_def
      keys_ok_def stock_keys_def one_open_shift_def recipes_fresh_def lines_fresh_def shop_simps)

theorem refund_reaches_invoice_witness:
  "\<exists>v\<in>set (invoices (finishRefund sample_claim (Some paid_out) True 40 (pm_db pay_claimed))).
     v_id v = 7 \<and> v_status v = Pay_PARTIALLY_REFUNDED"
proof -
  have "\<not> refundResponseMismatch sample_claim paid_out"
    by (simp add: refundResponseMismatch_def paid_out_def sample_claim_def sample_refund_def succeededRow_def sample_attempt_def)
  moreover have "refundedAmount 1 (pm_db pay_claimed) = 0"
    by (simp add: refundedAmount_def pay_claimed_simps sample_claim_def)
  ultimately show ?thesis
    using refund_reaches_invoice [OF pay_claimed_reached [of "\<lambda>_. ()" "\<lambda>_ _. ()" "(=)"] pay_start_ready(2) pay_claimed_committed,
        of sample_claim paid_out _ 40]
    by (simp add: pay_claimed_simps paid_out_def sample_claim_def sample_refund_def succeededRow_def sample_attempt_def
        targetStatus_def)
qed

section \<open>Replays\<close>

text \<open>The payload of a notification stays stored whatever its handler does after storing it.\<close>

definition seen :: "string \<Rightarrow> db \<Rightarrow> bool" where
  "seen h d \<longleftrightarrow> h \<in> wh_payloadHash ` set (webhookEvents d)"

lemma seen_cong: "webhookEvents d' = webhookEvents d \<Longrightarrow> seen h d' = seen h d"
  by (simp add: seen_def)

lemma seen_tables [simp]:
  "seen h (completeWebhook ev code d) = seen h d" "seen h (openIncident ty key a r d) = seen h d"
  "seen h (addLog e act s d) = seen h d" "seen h (enqueue p n i t w d) = seen h d"
proof -
  have "map wh_payloadHash (webhookEvents (completeWebhook ev code d)) = map wh_payloadHash (webhookEvents d)"
    unfolding completeWebhook_def upd_def by simp
  then show "seen h (completeWebhook ev code d) = seen h d" unfolding seen_def by (metis set_map)
qed (simp_all add: seen_def openIncident_def addLog_def enqueue_def)

lemma seen_created: "createWebhook p h a d = Inr (ev, d') \<Longrightarrow> seen h d'"
  by (auto simp: createWebhook_def seen_def)

lemma seen_update: "seen h d \<Longrightarrow> ensures (seen h) (updateAttempts g f d)" "seen h d \<Longrightarrow> ensures (seen h) (updateAttempt i f d)"
  by (simp_all add: updateAttempt_def updateAttempts_def Let_def ensures_def seen_def)

lemma seen_review: "seen h d \<Longrightarrow> ensures (seen h) (reviewIf b now a ty txNo d)" "seen h d \<Longrightarrow> ensures (seen h) (markPaymentReview now a ty txNo d)"
  by (auto simp: reviewIf_def markPaymentReview_def intro!: ensures_andThen [OF seen_update(2)])

lemma seen_complete: "seen h d \<Longrightarrow> ensures (seen h) (completeOnlinePayment vid emp sid close now d)"
  unfolding ensures_def
proof (intro allI impI)
  fix d' assume s: "seen h d" and c: "completeOnlinePayment vid emp sid close now d = Inr d'"
  obtain v :: invoice and so :: orderSession and d1 d2 where "d1 = payItems vid (d\<lparr>invoices := upd (\<lambda>r. v_id r = vid \<and> v_status r = Pay_UNPAID)
       (\<lambda>r. r\<lparr>v_status := Pay_PAID, v_method := Method_TRANSFER, v_tendered := Some (v_total v), v_change := Some 0,
         v_employeeId := emp, v_shiftId := Some sid\<rparr>) (invoices d)\<rparr>)"
    and close: "(if close then closeSessionIfFullyPaid so d1 else Inr d1) = Inr d2"
    and d': "d' = enqueueInvoiceEvent ''INVOICE_PAID'' vid so now d2"
    by (rule completeOnline_steps [OF c]) (rule that, assumption+)
  then have "webhookEvents d1 = webhookEvents d" by (simp add: payItems_def)
  moreover have "webhookEvents d2 = webhookEvents d1"
    using close by (auto simp: closeSessionIfFullyPaid_def Let_def setTables_def enqueueOrderEvent_def enqueue_def addLog_def
        split: if_split_asm option.split_asm)
  ultimately show "seen h d'" using s by (simp add: d' enqueueInvoiceEvent_def seen_def enqueue_def)
qed

lemma seen_confirm: "seen h d \<Longrightarrow> ensures (seen h) (confirmPayment now unlock a txNo d)"
  unfolding confirmPayment_def
  by (rule ensures_andThen [OF seen_complete], assumption)
     (rule ensures_andThen [OF seen_update(2)], assumption, rule seen_update(1))

lemma seen_settle:
  assumes "seen h d"
  shows "ensures (\<lambda>rd. seen h (snd rd)) (settleVnpay now n a ev d)" "ensures (\<lambda>rd. seen h (snd rd)) (failVnpay now n a ev d)"
  unfolding settleVnpay_def failVnpay_def
  by ((intro ensures_option ensures_if ensures_andThen [OF seen_review(2) [OF assms]] ensures_andThen [OF seen_confirm [OF assms]]
      ensures_andThen [OF seen_update(2) [OF assms]]; simp)+)

lemma seen_processed: "ensures (\<lambda>rd. seen (vn_payloadHash n) (snd rd)) (processVnpayIpn now n ref amount d)"
proof -
  let ?h = "vn_payloadHash n"
  have stop: "ensures (\<lambda>rd. seen ?h (snd rd)) (andThen (reviewIf b now a ty txNo d0) (\<lambda>d. Inr (rsp, completeWebhook ev code d)))"
    if "seen ?h d0" for b a ty txNo d0 rsp ev code
    by (rule ensures_andThen [OF seen_review(1) [OF that]]) simp
  show ?thesis
    unfolding processVnpayIpn_def Let_def
  proof (rule ensures_andThen [where Q = "\<lambda>ed. seen ?h (snd ed)"])
    show "ensures (\<lambda>ed. seen ?h (snd ed)) (createWebhook VNPAY ?h (map_option a_id (attemptByReference d ref)) d)"
      by (auto simp: ensures_def dest: seen_created)
  qed (intro ensures_option ensures_if ensures_fetch stop seen_settle, simp_all)
qed

text \<open>C31: A notification counts once. When VNPay's notification changed anything, the same payload sent again
  at any later time, in any state that still has the stored notifications, is answered "already
  confirmed" and changes nothing.\<close>

theorem vnpay_replay:
  assumes "handleVnpayIpn now (Some n) d = (rsp, d1)" and "d1 \<noteq> d"
    and "wh_payloadHash ` set (webhookEvents d1) \<subseteq> wh_payloadHash ` set (webhookEvents d2)"
  shows "handleVnpayIpn later (Some n) d2 = (Rsp_ALREADY_CONFIRMED, d2)"
proof -
  obtain ref raw where f: "nonEmpty (vn_txnRef n) = Some ref" "vn_amount n = Some raw" "numeral_text raw"
    using assms(1,2) by (auto simp: handleVnpayIpn_def split: option.splits if_splits)
  have "processVnpayIpn now n ref (int (textValue raw)) d = Inr (rsp, d1)"
    using assms(1,2) f by (auto simp: handleVnpayIpn_def split: sum.splits)
  then have "seen (vn_payloadHash n) d2"
    using ensuresD [OF seen_processed] assms(3) by (fastforce simp: seen_def)
  then have "\<not> (\<forall>w\<in>set (webhookEvents d2). wh_payloadHash w \<noteq> vn_payloadHash n)" by (auto simp: seen_def)
  then have "createWebhook VNPAY (vn_payloadHash n) a d2 = Inl (UniqueViolation ''payloadHash'')" for a
    unfolding createWebhook_def by (simp only: require_def if_False)
  then have "processVnpayIpn later n ref amount d2 = Inl (UniqueViolation ''payloadHash'')" for amount
    by (simp add: processVnpayIpn_def Let_def)
  then show ?thesis using f by (simp add: handleVnpayIpn_def)
qed

theorem vnpay_replay_witness:
  "handleVnpayIpn 50 (Some sample_ipn) (pm_db pay_confirmed) = (Rsp_ALREADY_CONFIRMED, pm_db pay_confirmed)"
proof -
  have "invoices (pm_db pay_confirmed) \<noteq> invoices pay_shop" by (simp add: pay_confirmed_simps) (simp add: shop_simps)
  then have "pm_db pay_confirmed \<noteq> pay_shop" by metis
  then show ?thesis by (rule vnpay_replay [OF ipn_value]) simp
qed

end
