(* ===== verification/Access.thy ===== *)
theory Access
  imports Schema "HOL-Library.List_Lexorder" "HOL-Library.Char_ord"
begin

text \<open>
  Who may do what: accounts, roles and permissions (\<open>src/app/authorization\<close>, \<open>src/app/roles\<close>,
  \<open>src/app/permissions\<close>, \<open>src/app/positions\<close> and \<open>src/app/employees\<close>). The tables are a state of
  their own; of the employees they hold the columns these services read. Every operation runs in one
  serializable transaction. A password is a hash that was computed before; names, descriptions and
  addresses of employees are not kept, nor is what the audit log says beside actor, action and subject.
\<close>

section \<open>Tables\<close>

record account =
  ac_id :: id
  ac_email :: string
  ac_username :: string
  ac_phoneNumber :: "string option"
  ac_password :: string
  ac_googleSubject :: "string option"
  ac_isActive :: bool
  ac_deletedAt :: "time option"
  ac_updatedAt :: time
  ac_positionId :: id

record role =
  ro_id :: id
  ro_name :: string
  ro_description :: "string option"
  ro_isSystemRole :: bool
  ro_updatedAt :: time
  ro_deletedAt :: "time option"

record permission =
  pe_id :: id
  pe_name :: string
  pe_key :: string
  pe_isSystem :: bool
  pe_deletedAt :: "time option"

record position =
  ps_id :: id
  ps_name :: string
  ps_salary :: money
  ps_deletedAt :: "time option"

record authSession =
  ss_id :: id
  ss_familyId :: id
  ss_refreshTokenHash :: string
  ss_expiresAt :: time
  ss_lastUsedAt :: "time option"
  ss_revokedAt :: "time option"
  ss_revokeReason :: "string option"
  ss_employeeId :: id

record resetToken =
  rt_id :: id
  rt_tokenHash :: string
  rt_expiresAt :: time
  rt_usedAt :: "time option"
  rt_employeeId :: id

text \<open>\<open>EmployeeRole\<close> and \<open>RolePermission\<close> are pairs of ids; \<open>resetMails\<close> are the events that send the mails.\<close>

record accessDb =
  acc_nextId :: nat
  accounts :: "account list"
  roles :: "role list"
  permissions :: "permission list"
  employeeRoles :: "(id \<times> id) list"
  rolePermissions :: "(id \<times> id) list"
  positions :: "position list"
  authSessions :: "authSession list"
  resetTokens :: "resetToken list"
  resetMails :: "id list"
  accessLog :: "(id \<times> string \<times> id) list"

definition logAccess :: "id \<Rightarrow> string \<Rightarrow> id \<Rightarrow> accessDb \<Rightarrow> accessDb" where
  "logAccess emp act i d = d\<lparr>accessLog := accessLog d @ [(emp, act, i)]\<rparr>"

section \<open>Permission keys\<close>

text \<open>\<open>PermissionKeys\<close>: the keys the guards of the routes ask for.\<close>

definition PermissionKeys :: "string list" where
  "PermissionKeys =
  [''/permissions_read'', ''/permissions_create'', ''/permissions_update'', ''/permissions_delete'', ''/roles_read'',
   ''/roles_create'', ''/roles_update'', ''/roles_delete'', ''/roles_permissions_read'', ''/roles_permissions_update'',
   ''/employees_read'', ''/employees_create'', ''/employees_update'', ''/employees_delete'', ''/employees_roles_read'',
   ''/employees_roles_update'', ''/positions_read'', ''/positions_create'', ''/positions_update'', ''/positions_delete'',
   ''/dining-tables_read'', ''/dining-tables_create'', ''/dining-tables_update'', ''/dining-tables_delete'',
   ''/orders_sessions_read'', ''/orders_sessions_create'', ''/orders_sessions_cancel'', ''/orders_items_create'',
   ''/orders_items_update-status'', ''/orders_items_handoff'', ''/orders_items_cancel'', ''/orders_items_remake'',
   ''/orders_tables_transfer'', ''/orders_tables_merge'', ''/orders_tables_split'', ''/orders_tables_clear'',
   ''/kitchen-stations_read'', ''/kitchen-stations_manage'', ''/kitchen-tickets_read'', ''/menu_read'', ''/menu_create'',
   ''/menu_update'', ''/menu_delete'', ''/inventory_read'', ''/inventory_create'', ''/inventory_update'',
   ''/inventory_delete'', ''/inventory_stock_adjust'', ''/inventory_suppliers_read'', ''/inventory_suppliers_manage'',
   ''/inventory_purchase-receipts_read'', ''/inventory_purchase-receipts_create'', ''/inventory_purchase-receipts_post'',
   ''/inventory_stocktakes_read'', ''/inventory_stocktakes_create'', ''/inventory_stocktakes_post'', ''/invoices_read'',
   ''/invoices_create'', ''/invoices_update'', ''/invoices_pay'', ''/invoices_void'', ''/invoices_delete'',
   ''/payment-attempts_create'', ''/payment-attempts_read'', ''/payment-refunds_create'', ''/cash-refunds_create'',
   ''/payment-refunds_read'', ''/payment-reconciliation_read'', ''/payment-reconciliation_manage'', ''/print-devices_read'',
   ''/print-devices_manage'', ''/print-jobs_read'', ''/print-jobs_manage'', ''/receipts_reprint'', ''/reservations_read'',
   ''/reservations_create'', ''/reservations_update'', ''/reservations_delete'', ''/reservations_cancel'',
   ''/reservations_check-in'', ''/promotions_read'', ''/promotions_create'', ''/promotions_update'', ''/promotions_delete'',
   ''/equipment_read'', ''/equipment_create'', ''/equipment_update'', ''/equipment_delete'', ''/equipment_transition'',
   ''/system-settings_read'', ''/system-settings_create'', ''/system-settings_update'', ''/system-settings_delete'',
   ''/reports_read'', ''/reports_export'', ''/reports_close'', ''/reports_insights_generate'', ''/feedback_resolve'',
   ''/audit-logs_read'', ''/management-exceptions_read'', ''/outbox-events_retry'', ''/online-orders_read'',
   ''/online-orders_review'', ''/online-orders_manage-intake'', ''/funds_read'', ''/funds_manage'',
   ''/cashier-shifts_current'', ''/cashier-shifts_read'', ''/cashier-shifts_open'', ''/cashier-shifts_close'',
   ''/cashier-shifts_transactions-create'', ''/cashier-shifts_expenses-review'', ''/cash-handovers_create'',
   ''/cash-handovers_read'', ''/cash-handovers_review'', ''/cash-handovers_settle'', ''/bank-reconciliation_read'',
   ''/bank-reconciliation_import'', ''/bank-reconciliation_manage'']"

definition isSystemPermissionKey :: "string \<Rightarrow> bool" where
  "isSystemPermissionKey k \<longleftrightarrow> k \<in> set PermissionKeys"

definition OWNER :: string where "OWNER = ''OWNER''"

section \<open>Authorization\<close>

definition activeAccount :: "id \<Rightarrow> accessDb \<Rightarrow> account option" where
  "activeAccount e d = find (\<lambda>a. ac_id a = e \<and> ac_isActive a \<and> ac_deletedAt a = None) (accounts d)"

definition employeeRoleRows :: "id \<Rightarrow> accessDb \<Rightarrow> role list" where
  "employeeRoleRows e d = filter (\<lambda>r. ro_deletedAt r = None \<and> (e, ro_id r) \<in> set (employeeRoles d)) (roles d)"

definition rolePermissionRows :: "id \<Rightarrow> accessDb \<Rightarrow> permission list" where
  "rolePermissionRows r d = filter (\<lambda>p. pe_deletedAt p = None \<and> (r, pe_id p) \<in> set (rolePermissions d)) (permissions d)"

definition roleKeys :: "role list \<Rightarrow> accessDb \<Rightarrow> string list" where
  "roleKeys rs d = concat (map (\<lambda>r. map pe_key (rolePermissionRows (ro_id r) d)) rs)"

record authorizationContext =
  cx_employeeId :: id
  cx_employeeEmail :: string
  cx_permissionKeys :: "string list"
  cx_roleNames :: "string list"

definition getFreshAuthorizationContext :: "id \<Rightarrow> accessDb \<Rightarrow> authorizationContext res" where
  "getFreshAuthorizationContext e d =
     fetch (activeAccount e d) (Unauthorized ''inactive employee'') (\<lambda>a.
       let rs = employeeRoleRows e d in
       Inr \<lparr>cx_employeeId = e, cx_employeeEmail = ac_email a,
            cx_permissionKeys = sort (remdups (roleKeys rs d)), cx_roleNames = sort (remdups (map ro_name rs))\<rparr>)"

definition canGrantPermissions :: "authorizationContext \<Rightarrow> string list \<Rightarrow> bool" where
  "canGrantPermissions cx keys \<longleftrightarrow> list_all (\<lambda>k. k \<in> set (cx_permissionKeys cx)) keys"

definition assertCanGrantPermissions :: "authorizationContext \<Rightarrow> string list \<Rightarrow> 'a res \<Rightarrow> 'a res" where
  "assertCanGrantPermissions cx keys k = require (canGrantPermissions cx keys) (Forbidden ''outside your delegated scope'') k"

definition withActor :: "id \<Rightarrow> string list \<Rightarrow> accessDb \<Rightarrow> (authorizationContext \<Rightarrow> 'a res) \<Rightarrow> 'a res" where
  "withActor actor keys d k =
     andThen (getFreshAuthorizationContext actor d) (\<lambda>cx. assertCanGrantPermissions cx keys (k cx))"

section \<open>Roles\<close>

definition findRole :: "id \<Rightarrow> accessDb \<Rightarrow> role option" where
  "findRole i d = find (\<lambda>r. ro_id r = i \<and> ro_deletedAt r = None) (roles d)"

definition ensureRoleNameAvailable :: "string \<Rightarrow> id option \<Rightarrow> accessDb \<Rightarrow> 'a res \<Rightarrow> 'a res" where
  "ensureRoleNameAvailable name exclude d k =
     require (\<forall>r\<in>set (roles d). \<not> (ro_name r = name \<and> ro_deletedAt r = None \<and> Some (ro_id r) \<noteq> exclude))
       (Conflict ''role name exists'') k"

text \<open>What the caller saw is still what there is: the same ids, each once.\<close>

definition sameIds :: "id list \<Rightarrow> id list \<Rightarrow> bool" where
  "sameIds expected current \<longleftrightarrow> distinct expected \<and> length current = length expected \<and> set current \<subseteq> set expected"

definition expectIds :: "id list option \<Rightarrow> id list \<Rightarrow> 'a res \<Rightarrow> 'a res" where
  "expectIds expected current k =
     require (case expected of None \<Rightarrow> True | Some ids \<Rightarrow> sameIds ids current) (Conflict ''AUTHORIZATION_CHANGED'') k"

record roleInput =
  rn_name :: string
  rn_description :: "string option"
  rn_templateRoleId :: "id option"
  rn_expectedPermissionIds :: "id list option"

definition createRole :: "roleInput \<Rightarrow> id \<Rightarrow> time \<Rightarrow> accessDb \<Rightarrow> (id \<times> accessDb) res" where
  "createRole inp actor now d =
     withActor actor ([''/roles_create''] @ (if rn_templateRoleId inp = None then []
         else [''/roles_read'', ''/roles_permissions_read'', ''/roles_permissions_update''])) d (\<lambda>cx.
     ensureRoleNameAvailable (rn_name inp) None d
     (andThen (case rn_templateRoleId inp of None \<Rightarrow> Inr []
         | Some t \<Rightarrow> fetch (findRole t d) (NotFound ''role'') (\<lambda>r. Inr (rolePermissionRows (ro_id r) d))) (\<lambda>ps.
      assertCanGrantPermissions cx (map pe_key ps)
      (expectIds (if rn_templateRoleId inp = None then None else rn_expectedPermissionIds inp) (map pe_id ps)
       (Inr (acc_nextId d, logAccess actor ''ROLE_CREATED'' (acc_nextId d)
         (d\<lparr>acc_nextId := Suc (acc_nextId d),
            roles := roles d @ [\<lparr>ro_id = acc_nextId d, ro_name = rn_name inp, ro_description = rn_description inp,
              ro_isSystemRole = False, ro_updatedAt = now, ro_deletedAt = None\<rparr>],
            rolePermissions := rolePermissions d @ map (\<lambda>p. (acc_nextId d, pe_id p)) ps\<rparr>)))))))"

definition updateRole :: "id \<Rightarrow> string option \<Rightarrow> string option option \<Rightarrow> time \<Rightarrow> id \<Rightarrow> time \<Rightarrow> accessDb \<Rightarrow> accessDb res" where
  "updateRole i name description expectedUpdatedAt actor now d =
     withActor actor [''/roles_update''] d (\<lambda>cx.
     fetch (findRole i d) (NotFound ''role'') (\<lambda>r.
     require (\<not> ro_isSystemRole r) (BadRequest ''system role cannot be modified'')
     (require (ro_updatedAt r = expectedUpdatedAt) (Conflict ''ROLE_CHANGED'')
     ((case name of None \<Rightarrow> (\<lambda>k. k) | Some n \<Rightarrow> if n = [] then (\<lambda>k. k) else ensureRoleNameAvailable n (Some i) d)
      (if (name = None \<or> name = Some (ro_name r)) \<and> (description = None \<or> description = Some (ro_description r)) then Inr d
       else Inr (logAccess actor ''ROLE_UPDATED'' i
         (d\<lparr>roles := upd (\<lambda>x. ro_id x = i \<and> ro_deletedAt x = None \<and> ro_updatedAt x = expectedUpdatedAt)
            (\<lambda>x. x\<lparr>ro_name := (case name of None \<Rightarrow> ro_name x | Some n \<Rightarrow> n),
              ro_description := (case description of None \<Rightarrow> ro_description x | Some t \<Rightarrow> t),
              ro_updatedAt := max now (ro_updatedAt r + 1)\<rparr>) (roles d)\<rparr>)))))))"

definition loadManagedRole :: "id \<Rightarrow> id \<Rightarrow> string \<Rightarrow> accessDb \<Rightarrow> (role \<Rightarrow> authorizationContext \<Rightarrow> 'a res) \<Rightarrow> 'a res" where
  "loadManagedRole i actor required d k =
     withActor actor [required] d (\<lambda>cx.
     fetch (findRole i d) (NotFound ''role'') (\<lambda>r.
     assertCanGrantPermissions cx (roleKeys [r] d)
     (require ((actor, i) \<notin> set (employeeRoles d)) (Forbidden ''own access'') (k r cx))))"

definition deleteRole :: "id \<Rightarrow> id \<Rightarrow> time \<Rightarrow> accessDb \<Rightarrow> accessDb res" where
  "deleteRole i actor now d =
     loadManagedRole i actor ''/roles_delete'' d (\<lambda>r cx.
     require (\<not> ro_isSystemRole r) (BadRequest ''system role cannot be deleted'')
     (require (\<forall>er\<in>set (employeeRoles d). snd er \<noteq> i) (Conflict ''ROLE_IN_USE'')
      (Inr (logAccess actor ''ROLE_DELETED'' i
        (d\<lparr>rolePermissions := filter (\<lambda>rp. fst rp \<noteq> i) (rolePermissions d),
           roles := upd (\<lambda>x. ro_id x = i \<and> ro_deletedAt x = None) (\<lambda>x. x\<lparr>ro_updatedAt := now, ro_deletedAt := Some now\<rparr>) (roles d)\<rparr>)))))"

definition findPermissions :: "id list \<Rightarrow> accessDb \<Rightarrow> permission list" where
  "findPermissions ids d = filter (\<lambda>p. pe_id p \<in> set ids \<and> pe_deletedAt p = None) (permissions d)"

definition replaceRolePermissions :: "id \<Rightarrow> id list \<Rightarrow> id list option \<Rightarrow> id \<Rightarrow> accessDb \<Rightarrow> accessDb res" where
  "replaceRolePermissions i ids expected actor d =
     require (distinct ids) (BadRequest ''duplicate permission ids'')
     (loadManagedRole i actor ''/roles_permissions_update'' d (\<lambda>r cx.
      require (\<not> ro_isSystemRole r) (BadRequest ''system role cannot be modified'')
      (let ps = findPermissions ids d; before = map pe_id (rolePermissionRows i d) in
       require (length ps = length ids) (BadRequest ''invalid permission ids'')
       (assertCanGrantPermissions cx (map pe_key ps)
       (if length before = length ids \<and> set before \<subseteq> set ids then Inr d
        else expectIds expected before
          (Inr (logAccess actor ''ROLE_PERMISSIONS_REPLACED'' i
            (d\<lparr>rolePermissions := filter (\<lambda>rp. fst rp \<noteq> i) (rolePermissions d) @ map (Pair i) ids\<rparr>))))))))"

text \<open>Imported rows are inserted unless a live role has the name (\<open>skipDuplicates\<close>).\<close>

fun insertRoles :: "(string \<times> string option) list \<Rightarrow> time \<Rightarrow> accessDb \<Rightarrow> nat \<times> accessDb" where
  "insertRoles [] now d = (0, d)"
| "insertRoles ((name, description) # rows) now d =
     (if \<exists>r\<in>set (roles d). ro_name r = name \<and> ro_deletedAt r = None then insertRoles rows now d
      else let (n, d') = insertRoles rows now (d\<lparr>acc_nextId := Suc (acc_nextId d),
             roles := roles d @ [\<lparr>ro_id = acc_nextId d, ro_name = name, ro_description = description, ro_isSystemRole = False,
               ro_updatedAt = now, ro_deletedAt = None\<rparr>]\<rparr>)
           in (Suc n, d'))"

definition importRoles :: "(string \<times> string option) list \<Rightarrow> id \<Rightarrow> time \<Rightarrow> accessDb \<Rightarrow> (nat \<times> accessDb) res" where
  "importRoles rows actor now d =
     require (rows \<noteq> []) (BadRequest ''empty sheet'')
     (withActor actor [''/roles_create''] d (\<lambda>cx.
       let (n, d') = insertRoles rows now d in Inr (n, if n = 0 then d' else logAccess actor ''ROLES_IMPORTED'' n d')))"

definition canManageRole :: "id \<Rightarrow> id \<Rightarrow> accessDb \<Rightarrow> bool res" where
  "canManageRole i actor d =
     fetch (findRole i d) (NotFound ''role'') (\<lambda>r.
     andThen (getFreshAuthorizationContext actor d) (\<lambda>cx.
       Inr (\<not> ro_isSystemRole r \<and> (actor, i) \<notin> set (employeeRoles d) \<and>
         canGrantPermissions cx (''/roles_permissions_update'' # roleKeys [r] d))))"

end
