(* ===== verification/Employees.thy ===== *)
theory Employees
  imports Access
begin

text \<open>
  Employees, their roles, positions and custom permissions (\<open>src/app/employees/employees.service.ts\<close>,
  \<open>src/app/positions/positions.service.ts\<close>, \<open>src/app/permissions/permissions.service.ts\<close>).
\<close>

section \<open>Positions\<close>

definition findPosition :: "id \<Rightarrow> accessDb \<Rightarrow> position option" where
  "findPosition i d = find (\<lambda>p. ps_id p = i \<and> ps_deletedAt p = None) (positions d)"

definition assertActivePosition :: "id \<Rightarrow> accessDb \<Rightarrow> (position \<Rightarrow> 'a res) \<Rightarrow> 'a res" where
  "assertActivePosition i d k = fetch (findPosition i d) (NotFound ''position'') k"

definition assertActiveAccount :: "id \<Rightarrow> accessDb \<Rightarrow> 'a res \<Rightarrow> 'a res" where
  "assertActiveAccount e d k = require (activeAccount e d \<noteq> None) (Unauthorized ''employee'') k"

definition createPosition :: "string \<Rightarrow> money \<Rightarrow> id \<Rightarrow> accessDb \<Rightarrow> (id \<times> accessDb) res" where
  "createPosition name salary emp d =
     assertActiveAccount emp d
     (Inr (acc_nextId d, logAccess emp ''POSITION_CREATED'' (acc_nextId d)
       (d\<lparr>acc_nextId := Suc (acc_nextId d),
          positions := positions d @ [\<lparr>ps_id = acc_nextId d, ps_name = name, ps_salary = salary, ps_deletedAt = None\<rparr>]\<rparr>)))"

definition updatePosition :: "id \<Rightarrow> string option \<Rightarrow> money option \<Rightarrow> id \<Rightarrow> accessDb \<Rightarrow> accessDb res" where
  "updatePosition i name salary emp d =
     assertActiveAccount emp d
     (assertActivePosition i d (\<lambda>p.
       Inr (logAccess emp ''POSITION_UPDATED'' i
         (d\<lparr>positions := upd (\<lambda>x. ps_id x = i \<and> ps_deletedAt x = None)
            (\<lambda>x. x\<lparr>ps_name := (case name of None \<Rightarrow> ps_name x | Some n \<Rightarrow> n),
              ps_salary := (case salary of None \<Rightarrow> ps_salary x | Some m \<Rightarrow> m)\<rparr>) (positions d)\<rparr>))))"

definition deletePosition :: "id \<Rightarrow> id \<Rightarrow> time \<Rightarrow> accessDb \<Rightarrow> accessDb res" where
  "deletePosition i emp now d =
     assertActiveAccount emp d
     (assertActivePosition i d (\<lambda>p.
      require (cnt (\<lambda>a. ac_positionId a = i \<and> ac_deletedAt a = None) (accounts d) = 0) (Conflict ''POSITION_IN_USE'')
       (Inr (logAccess emp ''POSITION_DELETED'' i
         (d\<lparr>positions := upd (\<lambda>x. ps_id x = i \<and> ps_deletedAt x = None) (\<lambda>x. x\<lparr>ps_deletedAt := Some now\<rparr>) (positions d)\<rparr>)))))"

section \<open>Custom permissions\<close>

definition findPermission :: "id \<Rightarrow> accessDb \<Rightarrow> permission option" where
  "findPermission i d = find (\<lambda>p. pe_id p = i \<and> pe_deletedAt p = None) (permissions d)"

definition ensurePermissionKeyAvailable :: "string \<Rightarrow> id option \<Rightarrow> accessDb \<Rightarrow> 'a res \<Rightarrow> 'a res" where
  "ensurePermissionKeyAvailable key exclude d k =
     require (\<forall>p\<in>set (permissions d). \<not> (pe_key p = key \<and> pe_deletedAt p = None \<and> Some (pe_id p) \<noteq> exclude))
       (Conflict ''permission key exists'') k"

definition createPermission :: "string \<Rightarrow> string \<Rightarrow> accessDb \<Rightarrow> (id \<times> accessDb) res" where
  "createPermission name key d =
     require (\<not> isSystemPermissionKey key) (BadRequest ''system permission'')
     (ensurePermissionKeyAvailable key None d
      (Inr (acc_nextId d, d\<lparr>acc_nextId := Suc (acc_nextId d), permissions := permissions d @
         [\<lparr>pe_id = acc_nextId d, pe_name = name, pe_key = key, pe_isSystem = False, pe_deletedAt = None\<rparr>]\<rparr>)))"

definition systemPermission :: "permission \<Rightarrow> bool" where
  "systemPermission p \<longleftrightarrow> pe_isSystem p \<or> isSystemPermissionKey (pe_key p)"

definition updatePermission :: "id \<Rightarrow> string option \<Rightarrow> string option \<Rightarrow> accessDb \<Rightarrow> accessDb res" where
  "updatePermission i name key d =
     fetch (findPermission i d) (NotFound ''permission'') (\<lambda>p.
     require (\<not> (systemPermission p \<and> (name \<noteq> None \<or> key \<noteq> None))) (BadRequest ''system permission'')
     ((case key of None \<Rightarrow> (\<lambda>k. k) | Some s \<Rightarrow> if s = [] then (\<lambda>k. k)
        else (\<lambda>k. require (\<not> isSystemPermissionKey s) (BadRequest ''system permission'') (ensurePermissionKeyAvailable s (Some i) d k)))
      (Inr (d\<lparr>permissions := upd (\<lambda>x. pe_id x = i)
        (\<lambda>x. x\<lparr>pe_name := (case name of None \<Rightarrow> pe_name x | Some n \<Rightarrow> n),
          pe_key := (case key of None \<Rightarrow> pe_key x | Some s \<Rightarrow> s)\<rparr>) (permissions d)\<rparr>))))"

definition deletePermission :: "id \<Rightarrow> time \<Rightarrow> accessDb \<Rightarrow> accessDb res" where
  "deletePermission i now d =
     fetch (findPermission i d) (NotFound ''permission'') (\<lambda>p.
     require (\<not> systemPermission p) (BadRequest ''system permission cannot be deleted'')
      (Inr (d\<lparr>rolePermissions := filter (\<lambda>rp. snd rp \<noteq> i) (rolePermissions d),
         permissions := upd (\<lambda>x. pe_id x = i) (\<lambda>x. x\<lparr>pe_deletedAt := Some now\<rparr>) (permissions d)\<rparr>)))"

section \<open>Employees\<close>

text \<open>The unique columns of \<open>Employee\<close>; deleted rows keep theirs.\<close>

definition accountFree :: "account \<Rightarrow> accessDb \<Rightarrow> bool" where
  "accountFree a d \<longleftrightarrow> (\<forall>r\<in>set (accounts d). ac_id r \<noteq> ac_id a \<longrightarrow>
     ac_email r \<noteq> ac_email a \<and> ac_username r \<noteq> ac_username a \<and>
     (ac_googleSubject a \<noteq> None \<longrightarrow> ac_googleSubject r \<noteq> ac_googleSubject a))"

definition insertAccount :: "account \<Rightarrow> accessDb \<Rightarrow> (account \<times> accessDb) res" where
  "insertAccount a d =
     (let row = a\<lparr>ac_id := acc_nextId d\<rparr> in
      require (accountFree row d) (UniqueViolation ''Employee'')
        (Inr (row, d\<lparr>acc_nextId := Suc (acc_nextId d), accounts := accounts d @ [row]\<rparr>)))"

definition createEmployee :: "account \<Rightarrow> accessDb \<Rightarrow> (account \<times> accessDb) res" where
  "createEmployee a d = assertActivePosition (ac_positionId a) d (\<lambda>_. insertAccount a d)"

definition findAccount :: "id \<Rightarrow> accessDb \<Rightarrow> account option" where
  "findAccount i d = find (\<lambda>a. ac_id a = i \<and> ac_deletedAt a = None) (accounts d)"

definition loadManagedEmployee :: "id \<Rightarrow> authorizationContext \<Rightarrow> accessDb \<Rightarrow> (account \<Rightarrow> 'a res) \<Rightarrow> 'a res" where
  "loadManagedEmployee i cx d k =
     fetch (findAccount i d) (NotFound ''employee'') (\<lambda>a.
     assertCanGrantPermissions cx (roleKeys (employeeRoleRows i d) d) (k a))"

definition ownerRole :: "role \<Rightarrow> bool" where
  "ownerRole r \<longleftrightarrow> ro_isSystemRole r \<and> ro_name r = OWNER"

definition isOwner :: "id \<Rightarrow> accessDb \<Rightarrow> bool" where
  "isOwner i d \<longleftrightarrow> list_ex ownerRole (employeeRoleRows i d)"

definition assertOwnerRemains :: "account \<Rightarrow> accessDb \<Rightarrow> 'a res \<Rightarrow> 'a res" where
  "assertOwnerRemains a d k =
     require (\<not> (ac_isActive a \<and> isOwner (ac_id a) d) \<or>
         cnt (\<lambda>b. ac_id b \<noteq> ac_id a \<and> ac_isActive b \<and> ac_deletedAt b = None \<and> isOwner (ac_id b) d) (accounts d) \<noteq> 0)
       (Forbidden ''last owner'') k"

text \<open>All live sessions of an employee end, and unused reset tokens are used up.\<close>

definition revokeSessions :: "id \<Rightarrow> string \<Rightarrow> time \<Rightarrow> accessDb \<Rightarrow> accessDb" where
  "revokeSessions e reason now d =
     d\<lparr>authSessions := upd (\<lambda>s. ss_employeeId s = e \<and> ss_revokedAt s = None)
        (\<lambda>s. s\<lparr>ss_revokedAt := Some now, ss_revokeReason := Some reason\<rparr>) (authSessions d)\<rparr>"

definition useResetTokens :: "id \<Rightarrow> time \<Rightarrow> accessDb \<Rightarrow> accessDb" where
  "useResetTokens e now d =
     d\<lparr>resetTokens := upd (\<lambda>t. rt_employeeId t = e \<and> rt_usedAt t = None) (\<lambda>t. t\<lparr>rt_usedAt := Some now\<rparr>) (resetTokens d)\<rparr>"

record employeeChanges =
  ch_email :: "string option"
  ch_username :: "string option"
  ch_phoneNumber :: "string option option"
  ch_password :: "string option"
  ch_isActive :: "bool option"
  ch_positionId :: "id option"

definition changeAccount :: "employeeChanges \<Rightarrow> time \<Rightarrow> account \<Rightarrow> account" where
  "changeAccount ch now a =
     a\<lparr>ac_email := orOld (ch_email ch) (ac_email a), ac_username := orOld (ch_username ch) (ac_username a),
       ac_phoneNumber := orOld (ch_phoneNumber ch) (ac_phoneNumber a), ac_password := orOld (ch_password ch) (ac_password a),
       ac_isActive := orOld (ch_isActive ch) (ac_isActive a), ac_updatedAt := max now (ac_updatedAt a + 1),
       ac_positionId := orOld (ch_positionId ch) (ac_positionId a)\<rparr>"

definition credentialsChanged :: "employeeChanges \<Rightarrow> account \<Rightarrow> bool" where
  "credentialsChanged ch before \<longleftrightarrow> ch_password ch \<noteq> None \<or> ch_email ch \<noteq> None \<and> ch_email ch \<noteq> Some (ac_email before)"

definition updateEmployee :: "id \<Rightarrow> employeeChanges \<Rightarrow> time \<Rightarrow> id \<Rightarrow> time \<Rightarrow> accessDb \<Rightarrow> accessDb res" where
  "updateEmployee i ch expectedUpdatedAt actor now d =
     withActor actor [''/employees_update''] d (\<lambda>cx.
     loadManagedEmployee i cx d (\<lambda>before.
     require (ac_updatedAt before = expectedUpdatedAt) (Conflict ''EMPLOYEE_PROFILE_CHANGED'')
     ((case ch_positionId ch of None \<Rightarrow> (\<lambda>k. k) | Some p \<Rightarrow> (\<lambda>k. assertActivePosition p d (\<lambda>_. k)))
     ((if ch_isActive ch = Some False
       then (\<lambda>k. require (i \<noteq> actor) (Forbidden ''own access'') (assertOwnerRemains before d k)) else (\<lambda>k. k))
     (require (accountFree (changeAccount ch now before) d) (UniqueViolation ''Employee'')
       (let d1 = d\<lparr>accounts := upd (\<lambda>a. ac_id a = i \<and> ac_deletedAt a = None \<and> ac_updatedAt a = expectedUpdatedAt)
              (changeAccount ch now) (accounts d)\<rparr>;
            d2 = (if ch_isActive ch = Some False \<or> credentialsChanged ch before
              then useResetTokens i now (revokeSessions i
                (if ch_isActive ch = Some False then ''EMPLOYEE_DISABLED'' else ''CREDENTIALS_CHANGED'') now d1)
              else d1)
        in Inr (logAccess actor ''EMPLOYEE_UPDATED'' i d2)))))))"

definition deleteEmployee :: "id \<Rightarrow> id \<Rightarrow> time \<Rightarrow> accessDb \<Rightarrow> accessDb res" where
  "deleteEmployee i actor now d =
     withActor actor [''/employees_delete''] d (\<lambda>cx.
     require (i \<noteq> actor) (Forbidden ''own access'')
     (loadManagedEmployee i cx d (\<lambda>before.
      assertOwnerRemains before d
      (let d1 = useResetTokens i now (revokeSessions i ''EMPLOYEE_DELETED'' now d);
           d2 = d1\<lparr>employeeRoles := filter (\<lambda>er. fst er \<noteq> i) (employeeRoles d1),
             accounts := upd (\<lambda>a. ac_id a = i \<and> ac_deletedAt a = None)
               (\<lambda>a. a\<lparr>ac_isActive := False, ac_deletedAt := Some now, ac_updatedAt := now\<rparr>) (accounts d1)\<rparr>
       in Inr (logAccess actor ''EMPLOYEE_DELETED'' i d2)))))"

section \<open>Roles of an employee\<close>

definition findRoles :: "id list \<Rightarrow> accessDb \<Rightarrow> role list" where
  "findRoles ids d = filter (\<lambda>r. ro_id r \<in> set ids \<and> ro_deletedAt r = None) (roles d)"

definition replaceEmployeeRoles :: "id \<Rightarrow> id list \<Rightarrow> id list option \<Rightarrow> id \<Rightarrow> accessDb \<Rightarrow> accessDb res" where
  "replaceEmployeeRoles i ids expected actor d =
     require (distinct ids) (BadRequest ''duplicate role ids'')
     (withActor actor [''/employees_roles_update''] d (\<lambda>cx.
      require (i \<noteq> actor) (Forbidden ''own access'')
      (loadManagedEmployee i cx d (\<lambda>a.
       require (ac_isActive a) (BadRequest ''inactive employee'')
       (let rs = findRoles ids d; before = map ro_id (employeeRoleRows i d) in
        require (length rs = length ids) (BadRequest ''invalid role ids'')
        (assertCanGrantPermissions cx (roleKeys rs d)
        (if length before = length ids \<and> set before \<subseteq> set ids then Inr d
         else expectIds expected before
           ((if list_ex ownerRole rs then (\<lambda>k. k) else assertOwnerRemains a d)
            (Inr (logAccess actor ''EMPLOYEE_ROLES_REPLACED'' i
              (d\<lparr>employeeRoles := filter (\<lambda>er. fst er \<noteq> i) (employeeRoles d) @ map (Pair i) ids\<rparr>)))))))))))"

text \<open>\<open>getEmployeeRoles\<close>: the roles, whether the actor may change them, and the roles the actor could assign.\<close>

definition getEmployeeRoles :: "id \<Rightarrow> id \<Rightarrow> accessDb \<Rightarrow> (role list \<times> bool \<times> id list) res" where
  "getEmployeeRoles i actor d =
     fetch (findAccount i d) (NotFound ''employee'') (\<lambda>a.
     andThen (getFreshAuthorizationContext actor d) (\<lambda>cx.
       let mine = employeeRoleRows i d;
           can = (ac_isActive a \<and> i \<noteq> actor \<and> canGrantPermissions cx (''/employees_roles_update'' # roleKeys mine d))
       in Inr (mine, can, map ro_id (filter (\<lambda>r. canGrantPermissions cx (roleKeys [r] d))
            (if can then filter (\<lambda>r. ro_deletedAt r = None) (roles d) else [])))))"

end
