(* ===== verification/Sessions.thy ===== *)
theory Sessions
  imports Employees
begin

text \<open>
  Signing in and staying signed in (\<open>src/app/auth\<close>): sessions and the rotation of refresh tokens
  (\<open>auth-session.service.ts\<close>, \<open>auth-token.service.ts\<close>), signing up and in, linking Google accounts
  (\<open>auth.service.ts\<close>), and resetting passwords (\<open>password-reset.service.ts\<close>). The JSON web token
  library, the hashes and Google's verification are parameters. The ids of a new session and its
  family are fresh, as random UUIDs are; IP addresses and user agents are not kept.
\<close>

section \<open>Tokens\<close>

record tokenPayload =
  tp_tokenType :: string
  tp_sub :: "id option"
  tp_email :: string
  tp_sid :: "id option"
  tp_familyId :: "id option"

text \<open>
  \<open>te_sign p now\<close> and \<open>te_verify t now\<close> are \<open>signAsync\<close> and \<open>verifyAsync\<close> with the secret of the
  refresh tokens, \<open>te_hash\<close> SHA-256, \<open>te_compare\<close> bcrypt, \<open>te_resetToken\<close> the keyed hash of a reset id.
\<close>

record tokenEnv =
  te_sign :: "tokenPayload \<Rightarrow> time \<Rightarrow> string"
  te_verify :: "string \<Rightarrow> time \<Rightarrow> tokenPayload option"
  te_hash :: "string \<Rightarrow> string"
  te_compare :: "string \<Rightarrow> string \<Rightarrow> bool"
  te_resetToken :: "id \<Rightarrow> string"

record refreshPayload =
  rp_sub :: id
  rp_email :: string
  rp_sid :: id
  rp_familyId :: id

definition verifyRefreshToken :: "tokenEnv \<Rightarrow> string \<Rightarrow> time \<Rightarrow> refreshPayload res" where
  "verifyRefreshToken te t now =
     fetch (te_verify te t now) (Unauthorized ''token'') (\<lambda>p.
     require (tp_tokenType p = ''refresh'') (Unauthorized ''token'')
     (fetch (tp_sub p) (Unauthorized ''token'') (\<lambda>e.
      fetch (tp_sid p) (Unauthorized ''token'') (\<lambda>i.
      fetch (tp_familyId p) (Unauthorized ''token'') (\<lambda>f.
        Inr \<lparr>rp_sub = e, rp_email = tp_email p, rp_sid = i, rp_familyId = f\<rparr>)))))"

definition createRefreshToken :: "tokenEnv \<Rightarrow> refreshPayload \<Rightarrow> time \<Rightarrow> string" where
  "createRefreshToken te p now =
     te_sign te \<lparr>tp_tokenType = ''refresh'', tp_sub = Some (rp_sub p), tp_email = rp_email p, tp_sid = Some (rp_sid p),
       tp_familyId = Some (rp_familyId p)\<rparr> now"

definition tokenHashMatches :: "tokenEnv \<Rightarrow> string \<Rightarrow> string \<Rightarrow> bool" where
  "tokenHashMatches te t h \<longleftrightarrow> te_hash te t = h"

section \<open>Sessions\<close>

definition REFRESH_TOKEN_TTL_MS :: int where
  "REFRESH_TOKEN_TTL_MS = 30 * 24 * 60 * 60 * 1000"

definition insertAuthSession :: "id \<Rightarrow> id \<Rightarrow> id \<Rightarrow> string \<Rightarrow> time \<Rightarrow> accessDb \<Rightarrow> accessDb res" where
  "insertAuthSession i fam e h now d =
     require (\<forall>s\<in>set (authSessions d). ss_refreshTokenHash s \<noteq> h) (UniqueViolation ''AuthSession'')
       (Inr (d\<lparr>authSessions := authSessions d @
          [\<lparr>ss_id = i, ss_familyId = fam, ss_refreshTokenHash = h, ss_expiresAt = now + REFRESH_TOKEN_TTL_MS, ss_lastUsedAt = None,
            ss_revokedAt = None, ss_revokeReason = None, ss_employeeId = e\<rparr>]\<rparr>))"

text \<open>What has to be still true of the account when its session is created.\<close>

datatype credential = Unverified | GoogleSubject string | PasswordHash string

definition credentialHolds :: "credential \<Rightarrow> id \<Rightarrow> accessDb \<Rightarrow> bool" where
  "credentialHolds c e d =
     (case c of
        Unverified \<Rightarrow> True
      | GoogleSubject s \<Rightarrow> (case activeAccount e d of None \<Rightarrow> False | Some a \<Rightarrow> ac_googleSubject a = Some s)
      | PasswordHash h \<Rightarrow> (case activeAccount e d of None \<Rightarrow> False | Some a \<Rightarrow> ac_password a = h))"

text \<open>Returns the refresh token.\<close>

definition createSession :: "tokenEnv \<Rightarrow> id \<Rightarrow> string \<Rightarrow> credential \<Rightarrow> time \<Rightarrow> accessDb \<Rightarrow> (string \<times> accessDb) res" where
  "createSession te e email c now d =
     (let i = acc_nextId d; fam = Suc (acc_nextId d);
          t = createRefreshToken te \<lparr>rp_sub = e, rp_email = email, rp_sid = i, rp_familyId = fam\<rparr> now
      in require (credentialHolds c e d) (Unauthorized ''credentials'')
         (andThen (insertAuthSession i fam e (te_hash te t) now (d\<lparr>acc_nextId := Suc (Suc (acc_nextId d))\<rparr>)) (\<lambda>d1. Inr (t, d1))))"

definition liveSession :: "authSession \<Rightarrow> bool" where
  "liveSession s \<longleftrightarrow> ss_revokedAt s = None"

definition refreshValid :: "tokenEnv \<Rightarrow> string \<Rightarrow> refreshPayload \<Rightarrow> time \<Rightarrow> accessDb \<Rightarrow> authSession \<Rightarrow> bool" where
  "refreshValid te t p now d s \<longleftrightarrow>
     ss_employeeId s = rp_sub p \<and> ss_familyId s = rp_familyId p \<and>
     (case find (\<lambda>a. ac_id a = ss_employeeId s) (accounts d) of None \<Rightarrow> False
      | Some a \<Rightarrow> ac_isActive a \<and> ac_deletedAt a = None \<and> ac_email a = rp_email p) \<and>
     liveSession s \<and> now < ss_expiresAt s \<and> tokenHashMatches te t (ss_refreshTokenHash s)"

text \<open>The transaction of \<open>rotate\<close>: the new token, or none when the old one is no longer good.\<close>

definition rotateTx :: "tokenEnv \<Rightarrow> string \<Rightarrow> refreshPayload \<Rightarrow> time \<Rightarrow> accessDb \<Rightarrow> (string option \<times> accessDb) res" where
  "rotateTx te t p now d =
     (case find (\<lambda>s. ss_id s = rp_sid p) (authSessions d) of
        None \<Rightarrow> Inr (None, d)
      | Some s \<Rightarrow>
          if \<not> refreshValid te t p now d s then Inr (None, d)
          else let g = (\<lambda>x. ss_id x = ss_id s \<and> ss_revokedAt x = None \<and> now < ss_expiresAt x \<and>
                   ss_refreshTokenHash x = ss_refreshTokenHash s);
                 new = createRefreshToken te (p\<lparr>rp_sid := acc_nextId d\<rparr>) now in
            if cnt g (authSessions d) \<noteq> 1 then Inr (None, d)
            else andThen (insertAuthSession (acc_nextId d) (rp_familyId p) (rp_sub p) (te_hash te new) now
                   (d\<lparr>acc_nextId := Suc (acc_nextId d),
                      authSessions := upd g (\<lambda>x. x\<lparr>ss_revokedAt := Some now, ss_lastUsedAt := Some now,
                        ss_revokeReason := Some ''REFRESH_ROTATED''\<rparr>) (authSessions d)\<rparr>))
                 (\<lambda>d1. Inr (Some new, d1)))"

definition revokeFamily :: "id \<Rightarrow> id \<Rightarrow> string \<Rightarrow> time \<Rightarrow> accessDb \<Rightarrow> accessDb" where
  "revokeFamily e fam reason now d =
     d\<lparr>authSessions := upd (\<lambda>s. ss_employeeId s = e \<and> ss_familyId s = fam \<and> ss_revokedAt s = None)
        (\<lambda>s. s\<lparr>ss_revokedAt := Some now, ss_revokeReason := Some reason\<rparr>) (authSessions d)\<rparr>"

text \<open>A refused token revokes its whole family, in a transaction of its own.\<close>

definition rotate :: "tokenEnv \<Rightarrow> string \<Rightarrow> time \<Rightarrow> accessDb \<Rightarrow> string res \<times> accessDb" where
  "rotate te t now d =
     (case verifyRefreshToken te t now of
        Inl e \<Rightarrow> (Inl e, d)
      | Inr p \<Rightarrow>
          (case rotateTx te t p now d of
             Inl e \<Rightarrow> (Inl e, d)
           | Inr (Some new, d1) \<Rightarrow> (Inr new, d1)
           | Inr (None, d1) \<Rightarrow> (Inl (Unauthorized ''token''), revokeFamily (rp_sub p) (rp_familyId p) ''REFRESH_REUSE'' now d1)))"

definition revoke :: "tokenEnv \<Rightarrow> string option \<Rightarrow> time \<Rightarrow> accessDb \<Rightarrow> accessDb" where
  "revoke te token now d =
     (case token of None \<Rightarrow> d
      | Some t \<Rightarrow> (case verifyRefreshToken te t now of Inl _ \<Rightarrow> d
         | Inr p \<Rightarrow> (case find (\<lambda>s. ss_id s = rp_sid p \<and> ss_employeeId s = rp_sub p \<and> ss_familyId s = rp_familyId p) (authSessions d) of
             None \<Rightarrow> d
           | Some s \<Rightarrow> revokeFamily (rp_sub p) (rp_familyId p)
               (if tokenHashMatches te t (ss_refreshTokenHash s) then ''LOGOUT'' else ''REFRESH_REUSE'') now d)))"

definition refreshToken :: "tokenEnv \<Rightarrow> string \<Rightarrow> time \<Rightarrow> accessDb \<Rightarrow> string res \<times> accessDb" where
  "refreshToken te t now d = (if t = [] then (Inl (Unauthorized ''token''), d) else rotate te t now d)"

definition getAuthenticatedEmployee :: "id \<Rightarrow> id \<Rightarrow> time \<Rightarrow> accessDb \<Rightarrow> account res" where
  "getAuthenticatedEmployee e i now d =
     fetch (find (\<lambda>a. ac_id a = e \<and> ac_isActive a \<and> ac_deletedAt a = None \<and>
         (\<exists>s\<in>set (authSessions d). ss_employeeId s = e \<and> ss_id s = i \<and> ss_revokedAt s = None \<and> now < ss_expiresAt s)) (accounts d))
       (Unauthorized ''inactive employee'') Inr"

section \<open>Signing up and in\<close>

definition accountBy :: "(account \<Rightarrow> bool) \<Rightarrow> accessDb \<Rightarrow> account option" where
  "accountBy g d = find (\<lambda>a. g a \<and> ac_deletedAt a = None) (accounts d)"

record signUpInput =
  su_email :: string
  su_username :: string
  su_phoneNumber :: "string option"
  su_passwordHash :: string

text \<open>Signing up gives the default role, if there is one, in the transaction that creates the account.\<close>

definition signUpTx :: "signUpInput \<Rightarrow> time \<Rightarrow> accessDb \<Rightarrow> (account \<times> accessDb) res" where
  "signUpTx i now d =
     fetch (find (\<lambda>p. ps_name p = ''Staff'' \<and> ps_deletedAt p = None) (positions d)) (Unavailable ''default position'') (\<lambda>p.
     andThen (insertAccount \<lparr>ac_id = 0, ac_email = su_email i, ac_username = su_username i, ac_phoneNumber = su_phoneNumber i,
         ac_password = su_passwordHash i, ac_googleSubject = None, ac_isActive = True, ac_deletedAt = None, ac_updatedAt = now,
         ac_positionId = ps_id p\<rparr> d) (\<lambda>ad.
       Inr (fst ad, case find (\<lambda>r. ro_name r = ''WAITER'' \<and> ro_deletedAt r = None) (roles d) of
           None \<Rightarrow> snd ad
         | Some r \<Rightarrow> (snd ad)\<lparr>employeeRoles := employeeRoles (snd ad) @ [(ac_id (fst ad), ro_id r)]\<rparr>)))"

definition signUp :: "bool \<Rightarrow> bool \<Rightarrow> tokenEnv \<Rightarrow> signUpInput \<Rightarrow> time \<Rightarrow> accessDb \<Rightarrow> (string \<times> accessDb) res" where
  "signUp enabled production te i now d =
     require (enabled \<and> \<not> production) (Forbidden ''sign up disabled'')
     (require (accountBy (\<lambda>a. ac_email a = su_email i) d = None) (BadRequest ''email exists'')
     (require (accountBy (\<lambda>a. ac_username a = su_username i) d = None) (BadRequest ''username exists'')
     (andThen (signUpTx i now d) (\<lambda>ad. createSession te (ac_id (fst ad)) (ac_email (fst ad)) Unverified now (snd ad)))))"

definition signIn :: "bool \<Rightarrow> tokenEnv \<Rightarrow> string \<Rightarrow> string \<Rightarrow> time \<Rightarrow> accessDb \<Rightarrow> (string \<times> accessDb) res" where
  "signIn human te email password now d =
     require human (BadRequest ''turnstile'')
     (fetch (accountBy (\<lambda>a. ac_email a = email) d) (Unauthorized ''credentials'') (\<lambda>a.
      require (ac_password a \<noteq> [] \<and> ac_isActive a) (Unauthorized ''credentials'')
      (require (te_compare te password (ac_password a)) (Unauthorized ''credentials'')
       (createSession te (ac_id a) (ac_email a) (PasswordHash (ac_password a)) now d))))"

text \<open>An identity is the subject and the email that Google verified.\<close>

definition signInWithGoogle :: "bool \<Rightarrow> tokenEnv \<Rightarrow> (string \<times> string) res \<Rightarrow> time \<Rightarrow> accessDb \<Rightarrow> (string \<times> accessDb) res" where
  "signInWithGoogle human te identity now d =
     require human (BadRequest ''turnstile'')
     (andThen identity (\<lambda>s.
      fetch (accountBy (\<lambda>a. ac_googleSubject a = Some (fst s) \<and> ac_isActive a) d) (Unauthorized ''credentials'') (\<lambda>a.
        createSession te (ac_id a) (ac_email a) (GoogleSubject (fst s)) now d)))"

text \<open>\<open>lower\<close> is \<open>toLowerCase\<close>.\<close>

definition linkGoogle ::
  "(string \<Rightarrow> string) \<Rightarrow> tokenEnv \<Rightarrow> id \<Rightarrow> string \<Rightarrow> (string \<times> string) res \<Rightarrow> time \<Rightarrow> accessDb \<Rightarrow> accessDb res"
where
  "linkGoogle lower te e password identity now d =
     fetch (accountBy (\<lambda>a. ac_id a = e) d) (Unauthorized ''credentials'') (\<lambda>a.
     require (ac_isActive a \<and> te_compare te password (ac_password a)) (Unauthorized ''credentials'')
     (andThen identity (\<lambda>s.
      require (lower (snd s) = lower (ac_email a)) (BadRequest ''Google email must match'')
      (if ac_googleSubject a = Some (fst s) then Inr d
       else require (ac_googleSubject a = None) (BadRequest ''already linked'')
         (let g = (\<lambda>x. ac_id x = e \<and> ac_googleSubject x = None \<and> ac_isActive x \<and> ac_deletedAt x = None \<and>
                ac_email x = ac_email a \<and> ac_password x = ac_password a) in
          require (\<forall>x\<in>set (accounts d). ac_googleSubject x \<noteq> Some (fst s)) (BadRequest ''already linked'')
          (require (cnt g (accounts d) = 1) (BadRequest ''link changed'')
            (Inr (logAccess e ''GOOGLE_ACCOUNT_LINKED'' e
              (d\<lparr>accounts := upd g (\<lambda>x. x\<lparr>ac_googleSubject := Some (fst s), ac_updatedAt := now\<rparr>) (accounts d)\<rparr>)))))))))"

definition unlinkGoogle :: "tokenEnv \<Rightarrow> id \<Rightarrow> string \<Rightarrow> time \<Rightarrow> accessDb \<Rightarrow> accessDb res" where
  "unlinkGoogle te e password now d =
     fetch (accountBy (\<lambda>a. ac_id a = e) d) (Unauthorized ''credentials'') (\<lambda>a.
     require (ac_isActive a \<and> te_compare te password (ac_password a)) (Unauthorized ''credentials'')
     (if ac_googleSubject a = None then Inr d
      else let g = (\<lambda>x. ac_id x = e \<and> ac_googleSubject x = ac_googleSubject a \<and> ac_isActive x \<and> ac_deletedAt x = None \<and>
             ac_password x = ac_password a) in
        require (cnt g (accounts d) = 1) (BadRequest ''link changed'')
          (Inr (logAccess e ''GOOGLE_ACCOUNT_UNLINKED'' e (revokeSessions e ''GOOGLE_UNLINKED'' now
            (d\<lparr>accounts := upd g (\<lambda>x. x\<lparr>ac_googleSubject := None, ac_updatedAt := now\<rparr>) (accounts d)\<rparr>))))))"

section \<open>Passwords\<close>

definition PASSWORD_RESET_EXPIRE_IN_MINUTES :: int where
  "PASSWORD_RESET_EXPIRE_IN_MINUTES = 15"

definition requestReset :: "tokenEnv \<Rightarrow> string option \<Rightarrow> string option \<Rightarrow> time \<Rightarrow> accessDb \<Rightarrow> accessDb res" where
  "requestReset te email phone now d =
     (case accountBy (\<lambda>a. ac_isActive a \<and> (email \<noteq> None \<and> Some (ac_email a) = email \<or> phone \<noteq> None \<and> ac_phoneNumber a = phone)) d of
        None \<Rightarrow> Inr d
      | Some a \<Rightarrow>
          let i = acc_nextId d; h = te_hash te (te_resetToken te i);
              d1 = useResetTokens (ac_id a) now (d\<lparr>acc_nextId := Suc (acc_nextId d)\<rparr>)
          in require (\<forall>r\<in>set (resetTokens d). rt_tokenHash r \<noteq> h) (UniqueViolation ''PasswordResetToken'')
               (Inr (d1\<lparr>resetTokens := resetTokens d1 @
                  [\<lparr>rt_id = i, rt_tokenHash = h, rt_expiresAt = now + PASSWORD_RESET_EXPIRE_IN_MINUTES * 60 * 1000, rt_usedAt = None,
                    rt_employeeId = ac_id a\<rparr>], resetMails := resetMails d1 @ [i]\<rparr>)))"

definition accountUsable :: "id \<Rightarrow> accessDb \<Rightarrow> bool" where
  "accountUsable e d \<longleftrightarrow>
     (case find (\<lambda>a. ac_id a = e) (accounts d) of None \<Rightarrow> False | Some a \<Rightarrow> ac_isActive a \<and> ac_deletedAt a = None)"

text \<open>The mail to send for a queued event, if any: its address and the secret of its link.\<close>

definition sendResetEmail :: "tokenEnv \<Rightarrow> id \<Rightarrow> time \<Rightarrow> accessDb \<Rightarrow> (string \<times> string) option" where
  "sendResetEmail te i now d =
     (case find (\<lambda>r. rt_id r = i) (resetTokens d) of None \<Rightarrow> None
      | Some r \<Rightarrow>
          if rt_usedAt r \<noteq> None \<or> rt_expiresAt r \<le> now \<or> \<not> accountUsable (rt_employeeId r) d \<or>
             \<not> tokenHashMatches te (te_resetToken te i) (rt_tokenHash r) then None
          else map_option (\<lambda>a. (ac_email a, te_resetToken te i)) (find (\<lambda>a. ac_id a = rt_employeeId r) (accounts d)))"

definition resetUsable :: "tokenEnv \<Rightarrow> string \<Rightarrow> time \<Rightarrow> accessDb \<Rightarrow> resetToken \<Rightarrow> bool" where
  "resetUsable te t now d r \<longleftrightarrow> rt_usedAt r = None \<and> now < rt_expiresAt r \<and> accountUsable (rt_employeeId r) d"

definition resetPassword :: "tokenEnv \<Rightarrow> string \<Rightarrow> string \<Rightarrow> time \<Rightarrow> accessDb \<Rightarrow> accessDb res" where
  "resetPassword te t passwordHash now d =
     fetch (find (\<lambda>r. rt_tokenHash r = te_hash te t) (resetTokens d)) (Unauthorized ''token'') (\<lambda>r.
     require (resetUsable te t now d r) (Unauthorized ''token'')
     (let g = (\<lambda>x. rt_id x = rt_id r \<and> rt_usedAt x = None \<and> now < rt_expiresAt x) in
      require (cnt g (resetTokens d) = 1) (Unauthorized ''token'')
        (Inr (revokeSessions (rt_employeeId r) ''PASSWORD_RESET'' now
          (d\<lparr>resetTokens := upd g (\<lambda>x. x\<lparr>rt_usedAt := Some now\<rparr>) (resetTokens d),
             accounts := upd (\<lambda>a. ac_id a = rt_employeeId r) (\<lambda>a. a\<lparr>ac_password := passwordHash, ac_updatedAt := now\<rparr>) (accounts d)\<rparr>)))))"

end
