(* ===== verification/Access_Facts.thy ===== *)
theory Access_Facts
  imports Sessions
begin

text \<open>
  What an employee may do, as sets of pairs, and how each operation changes them.
\<close>

section \<open>Grants as sets\<close>

definition alive :: "accessDb \<Rightarrow> id set" where
  "alive d = {ac_id a | a. a \<in> set (accounts d) \<and> ac_isActive a \<and> ac_deletedAt a = None}"

definition liveRoles :: "accessDb \<Rightarrow> id set" where
  "liveRoles d = {ro_id r | r. r \<in> set (roles d) \<and> ro_deletedAt r = None}"

definition ownerRoles :: "accessDb \<Rightarrow> id set" where
  "ownerRoles d = {ro_id r | r. r \<in> set (roles d) \<and> ro_deletedAt r = None \<and> ownerRole r}"

definition livePermissions :: "accessDb \<Rightarrow> (id \<times> string) set" where
  "livePermissions d = {(pe_id p, pe_key p) | p. p \<in> set (permissions d) \<and> pe_deletedAt p = None}"

definition granted :: "string \<Rightarrow> id \<Rightarrow> accessDb \<Rightarrow> bool" where
  "granted k e d \<longleftrightarrow> (\<exists>i p. i \<in> liveRoles d \<and> (p, k) \<in> livePermissions d \<and> (e, i) \<in> set (employeeRoles d) \<and>
     (i, p) \<in> set (rolePermissions d))"

text \<open>What the guard of a route asks before it lets an employee through.\<close>

definition hasPermission :: "string \<Rightarrow> id \<Rightarrow> accessDb \<Rightarrow> bool" where
  "hasPermission k e d \<longleftrightarrow>
     (case getFreshAuthorizationContext e d of Inl _ \<Rightarrow> False | Inr cx \<Rightarrow> canGrantPermissions cx [k])"

lemma activeAccount_iff: "activeAccount e d \<noteq> None \<longleftrightarrow> e \<in> alive d"
  by (auto simp: activeAccount_def alive_def find_None_iff)

lemma roleKeys_iff:
  "k \<in> set (roleKeys rs d) \<longleftrightarrow> (\<exists>r\<in>set rs. \<exists>p. (p, k) \<in> livePermissions d \<and> (ro_id r, p) \<in> set (rolePermissions d))"
  by (auto simp: roleKeys_def rolePermissionRows_def livePermissions_def)

lemma roleKeys_employee: "k \<in> set (roleKeys (employeeRoleRows e d) d) \<longleftrightarrow> granted k e d"
  by (auto simp: roleKeys_iff granted_def employeeRoleRows_def liveRoles_def)

lemma context_keys:
  "getFreshAuthorizationContext e d = Inr cx \<Longrightarrow> e \<in> alive d \<and> (k \<in> set (cx_permissionKeys cx) \<longleftrightarrow> granted k e d)"
  using activeAccount_iff [of e d] roleKeys_employee [of k e d]
  by (auto simp: getFreshAuthorizationContext_def Let_def)

lemma hasPermission_iff: "hasPermission k e d \<longleftrightarrow> e \<in> alive d \<and> granted k e d"
proof (cases "getFreshAuthorizationContext e d")
  case (Inl x)
  then have "activeAccount e d = None" by (auto simp: getFreshAuthorizationContext_def fetch_def Let_def split: option.splits)
  then show ?thesis using Inl activeAccount_iff [of e d] by (simp add: hasPermission_def)
next
  case (Inr cx)
  then show ?thesis using context_keys [OF Inr, of k] by (simp add: hasPermission_def canGrantPermissions_def)
qed

lemma canGrant_actor:
  "getFreshAuthorizationContext a d = Inr cx \<Longrightarrow> canGrantPermissions cx ks \<Longrightarrow> k \<in> set ks \<Longrightarrow> hasPermission k a d"
  using context_keys [of a d cx k] by (auto simp: canGrantPermissions_def list_all_iff hasPermission_iff)

lemma withActor_Inr:
  "withActor a ks d k = Inr x \<longleftrightarrow> (\<exists>cx. getFreshAuthorizationContext a d = Inr cx \<and> canGrantPermissions cx ks \<and> k cx = Inr x)"
  by (auto simp: withActor_def assertCanGrantPermissions_def)

section \<open>Keys\<close>

text \<open>Primary keys, foreign keys and fresh ids: what the database guarantees when a transaction starts.\<close>

definition access_keys :: "accessDb \<Rightarrow> bool" where
  "access_keys d \<longleftrightarrow> distinct (map ac_id (accounts d)) \<and> distinct (map ro_id (roles d)) \<and> distinct (map pe_id (permissions d)) \<and>
     distinct (map ss_id (authSessions d)) \<and>
     (\<forall>er\<in>set (employeeRoles d). fst er < acc_nextId d \<and> snd er < acc_nextId d) \<and>
     (\<forall>rp\<in>set (rolePermissions d). fst rp < acc_nextId d \<and> snd rp < acc_nextId d) \<and>
     (\<forall>a\<in>set (accounts d). ac_id a < acc_nextId d) \<and>
     (\<forall>r\<in>set (roles d). ro_id r < acc_nextId d) \<and>
     (\<forall>s\<in>set (authSessions d). ss_id s < acc_nextId d \<and> ss_familyId s < acc_nextId d)"

section \<open>What an operation can do to grants\<close>

text \<open>Whatever somebody may do afterwards that a guard asks for, they could before, or the actor could.\<close>

definition no_gain :: "id \<Rightarrow> accessDb \<Rightarrow> accessDb \<Rightarrow> bool" where
  "no_gain a d d' \<longleftrightarrow> (\<forall>k e. isSystemPermissionKey k \<and> hasPermission k e d' \<longrightarrow> hasPermission k e d \<or> hasPermission k a d)"

definition hasOwner :: "accessDb \<Rightarrow> bool" where
  "hasOwner d \<longleftrightarrow> (\<exists>e i. e \<in> alive d \<and> i \<in> ownerRoles d \<and> (e, i) \<in> set (employeeRoles d))"

lemma no_gainI:
  assumes "\<And>k e. isSystemPermissionKey k \<Longrightarrow> e \<in> alive d' \<Longrightarrow> granted k e d' \<Longrightarrow> hasPermission k e d \<or> hasPermission k a d"
  shows "no_gain a d d'"
  using assms by (simp add: no_gain_def hasPermission_iff)

text \<open>The tables grants depend on.\<close>

definition grantView where
  "grantView d = (alive d, liveRoles d, ownerRoles d, livePermissions d, employeeRoles d, rolePermissions d)"

lemma grantView_D:
  assumes "grantView d' = grantView d"
  shows "hasPermission k e d' = hasPermission k e d" and "no_gain a d d'" and "hasOwner d' = hasOwner d"
  using assms by (simp_all add: grantView_def hasPermission_iff granted_def no_gain_def hasOwner_def)

lemma alive_cong: "accounts d' = accounts d \<Longrightarrow> alive d' = alive d"
  by (simp add: alive_def)

lemma grantView_simps [simp]:
  "grantView (logAccess e act i d) = grantView d" "grantView (d\<lparr>acc_nextId := n\<rparr>) = grantView d"
  "grantView (d\<lparr>positions := ps\<rparr>) = grantView d" "grantView (d\<lparr>authSessions := ss\<rparr>) = grantView d"
  "grantView (d\<lparr>resetTokens := rt\<rparr>) = grantView d" "grantView (d\<lparr>resetMails := ms\<rparr>) = grantView d"
  "grantView (revokeSessions e r now d) = grantView d" "grantView (useResetTokens e now d) = grantView d"
  "grantView (revokeFamily e f r now d) = grantView d"
  by (simp_all add: grantView_def alive_def liveRoles_def ownerRoles_def livePermissions_def logAccess_def revokeSessions_def
      useResetTokens_def revokeFamily_def)

lemma tables_log [simp]:
  "alive (logAccess e act i d) = alive d" "liveRoles (logAccess e act i d) = liveRoles d"
  "ownerRoles (logAccess e act i d) = ownerRoles d" "livePermissions (logAccess e act i d) = livePermissions d"
  "employeeRoles (logAccess e act i d) = employeeRoles d" "rolePermissions (logAccess e act i d) = rolePermissions d"
  by (simp_all add: alive_def liveRoles_def ownerRoles_def livePermissions_def logAccess_def)

lemma img_upd:
  assumes "\<And>a. a \<in> set t \<Longrightarrow> g a \<Longrightarrow> h (f a) = h a \<and> P (f a) = P a"
  shows "{h a |a. a \<in> set (upd g f t) \<and> P a} = {h a |a. a \<in> set t \<and> P a}"
proof -
  let ?u = "\<lambda>a. if g a then f a else a"
  have u: "h (?u a) = h a \<and> P (?u a) = P a" if "a \<in> set t" for a using assms [OF that] by simp
  then have A: "{a \<in> set (upd g f t). P a} = ?u ` {a \<in> set t. P a}" unfolding set_upd by blast
  have B: "h ` ?u ` {a \<in> set t. P a} = h ` {a \<in> set t. P a}"
    unfolding image_image by (rule image_cong) (use u in simp_all)
  have "{h a |a. a \<in> X \<and> P a} = h ` {a \<in> X. P a}" for X by blast
  then show ?thesis using A B by metis
qed

text \<open>An update that neither deactivates nor deletes anybody, and activates nobody.\<close>

lemma alive_upd_same:
  assumes "\<And>a. a \<in> set (accounts d) \<Longrightarrow> g a \<Longrightarrow>
    ac_id (f a) = ac_id a \<and> ac_isActive (f a) = ac_isActive a \<and> ac_deletedAt (f a) = ac_deletedAt a"
  shows "alive (d\<lparr>accounts := upd g f (accounts d)\<rparr>) = alive d"
  unfolding alive_def accessDb.simps using img_upd [of "accounts d" g ac_id f "\<lambda>a. ac_isActive a \<and> ac_deletedAt a = None"] assms
  by (simp add: conj_assoc)

section \<open>Roles\<close>

lemma findRole_SomeD: "findRole i d = Some r \<Longrightarrow> r \<in> set (roles d) \<and> ro_id r = i \<and> ro_deletedAt r = None"
  unfolding findRole_def by (drule find_SomeD) simp

lemma fewer_grants:
  assumes "alive d' \<subseteq> alive d" and "liveRoles d' \<subseteq> liveRoles d" and "livePermissions d' \<subseteq> livePermissions d"
    and "set (employeeRoles d') \<subseteq> set (employeeRoles d)" and "set (rolePermissions d') \<subseteq> set (rolePermissions d)"
  shows "no_gain a d d'"
  using assms by (fastforce simp: no_gain_def hasPermission_iff granted_def)

lemma createRole_grants:
  assumes "createRole inp a now d = Inr (i, d')" and keys: "access_keys d"
  shows "no_gain a d d'" and "hasOwner d \<Longrightarrow> hasOwner d'"
proof -
  obtain ps :: "permission list" where d': "d' = logAccess a ''ROLE_CREATED'' (acc_nextId d)
         (d\<lparr>acc_nextId := Suc (acc_nextId d),
            roles := roles d @ [\<lparr>ro_id = acc_nextId d, ro_name = rn_name inp, ro_description = rn_description inp,
              ro_isSystemRole = False, ro_updatedAt = now, ro_deletedAt = None\<rparr>],
            rolePermissions := rolePermissions d @ map (\<lambda>p. (acc_nextId d, pe_id p)) ps\<rparr>)"
    using assms(1)
    by (clarsimp simp: createRole_def withActor_Inr ensureRoleNameAvailable_def expectIds_def assertCanGrantPermissions_def)
  have t: "alive d' = alive d" "liveRoles d' \<subseteq> insert (acc_nextId d) (liveRoles d)" "ownerRoles d' = ownerRoles d"
    "livePermissions d' = livePermissions d" "employeeRoles d' = employeeRoles d"
    "set (rolePermissions d') = set (rolePermissions d) \<union> (\<lambda>p. (acc_nextId d, pe_id p)) ` set ps"
    by (auto simp: d' alive_def liveRoles_def ownerRoles_def livePermissions_def logAccess_def ownerRole_def)
  have no_one: "(e, acc_nextId d) \<notin> set (employeeRoles d)" for e using keys by (auto simp: access_keys_def)
  show "no_gain a d d'"
  proof (rule no_gainI)
    fix k e assume "e \<in> alive d'" "granted k e d'"
    then have "granted k e d" using no_one t(2) by (auto simp: granted_def t(3-))
    then show "hasPermission k e d \<or> hasPermission k a d" using \<open>e \<in> alive d'\<close> by (simp add: hasPermission_iff t)
  qed
  show "hasOwner d \<Longrightarrow> hasOwner d'" by (simp add: hasOwner_def t)
qed

lemma updateRole_grants:
  assumes "updateRole i nm ds seen_at a now d = Inr d'" and keys: "access_keys d"
  shows "no_gain a d d'" and "hasOwner d \<Longrightarrow> hasOwner d'"
proof -
  obtain r g f where r: "findRole i d = Some r" "\<not> ro_isSystemRole r"
    and d': "d' = d \<or> d' = logAccess a ''ROLE_UPDATED'' i (d\<lparr>roles := upd g f (roles d)\<rparr>)"
    and g: "\<And>x. g x \<Longrightarrow> ro_id x = i"
    and f: "\<And>x. ro_id (f x) = ro_id x \<and> ro_deletedAt (f x) = ro_deletedAt x \<and> ro_isSystemRole (f x) = ro_isSystemRole x"
  proof -
    let ?g = "\<lambda>x. ro_id x = i \<and> ro_deletedAt x = None \<and> ro_updatedAt x = seen_at"
    let ?f = "\<lambda>r x. x\<lparr>ro_name := (case nm of None \<Rightarrow> ro_name x | Some n \<Rightarrow> n),
              ro_description := (case ds of None \<Rightarrow> ro_description x | Some t \<Rightarrow> t), ro_updatedAt := max now (ro_updatedAt r + 1)\<rparr>"
    obtain r where "findRole i d = Some r" "\<not> ro_isSystemRole r"
      "d' = d \<or> d' = logAccess a ''ROLE_UPDATED'' i (d\<lparr>roles := upd ?g (?f r) (roles d)\<rparr>)"
      using assms(1) by (auto simp: updateRole_def withActor_Inr ensureRoleNameAvailable_def split: option.splits if_split_asm)
    then show ?thesis by (intro that [of r ?g "?f r"]) simp_all
  qed
  have nonsys: "\<not> ownerRole x \<and> \<not> ownerRole (f x)" if "x \<in> set (roles d)" "g x" for x
  proof -
    have ids: "distinct (map ro_id (roles d))" using keys by (simp add: access_keys_def)
    have "x = r" using distinct_key_eq [OF ids that(1)] findRole_SomeD [OF r(1)] g [OF that(2)] by simp
    then show ?thesis using r(2) f by (simp add: ownerRole_def)
  qed
  have v: "grantView d' = grantView d"
  proof (cases "d' = d")
    case False
    then have eq: "d' = logAccess a ''ROLE_UPDATED'' i (d\<lparr>roles := upd g f (roles d)\<rparr>)" using d' by blast
    have "liveRoles d' = liveRoles d"
      using img_upd [of "roles d" g ro_id f "\<lambda>r. ro_deletedAt r = None"] f by (simp add: eq logAccess_def liveRoles_def)
    moreover have "ownerRoles d' = ownerRoles d"
      using img_upd [of "roles d" g ro_id f "\<lambda>r. ro_deletedAt r = None \<and> ownerRole r"] f nonsys
      by (simp add: eq logAccess_def ownerRoles_def)
    ultimately show ?thesis by (simp add: grantView_def eq logAccess_def alive_def livePermissions_def)
  qed simp
  show "no_gain a d d'" by (rule grantView_D(2) [OF v])
  show "hasOwner d \<Longrightarrow> hasOwner d'" by (simp only: grantView_D(3) [OF v])
qed

lemma loadManagedRole_D:
  assumes "loadManagedRole i a req d k = Inr x"
  obtains r cx where "findRole i d = Some r" "getFreshAuthorizationContext a d = Inr cx"
    "canGrantPermissions cx (roleKeys [r] d)" "k r cx = Inr x"
  using assms that by (auto simp: loadManagedRole_def withActor_Inr assertCanGrantPermissions_def)

lemma role_row_unique: "access_keys d \<Longrightarrow> findRole i d = Some r \<Longrightarrow> x \<in> set (roles d) \<Longrightarrow> ro_id x = i \<Longrightarrow> x = r"
  using distinct_key_eq [of ro_id "roles d" x r] findRole_SomeD [of i d r] by (simp add: access_keys_def)

lemma deleteRole_grants:
  assumes "deleteRole i a now d = Inr d'" and keys: "access_keys d"
  shows "no_gain a d d'" and "hasOwner d \<Longrightarrow> hasOwner d'"
proof -
  obtain r :: role where r: "findRole i d = Some r" "\<not> ro_isSystemRole r"
    and d': "d' = logAccess a ''ROLE_DELETED'' i (d\<lparr>rolePermissions := filter (\<lambda>rp. fst rp \<noteq> i) (rolePermissions d),
       roles := upd (\<lambda>x. ro_id x = i \<and> ro_deletedAt x = None) (\<lambda>x. x\<lparr>ro_updatedAt := now, ro_deletedAt := Some now\<rparr>) (roles d)\<rparr>)"
    using assms(1) unfolding deleteRole_def by (auto elim!: loadManagedRole_D)
  have t: "alive d' = alive d" "livePermissions d' = livePermissions d" "employeeRoles d' = employeeRoles d"
    "set (rolePermissions d') \<subseteq> set (rolePermissions d)"
    by (auto simp: d' alive_def livePermissions_def logAccess_def)
  have "liveRoles d' \<subseteq> liveRoles d" by (auto simp: d' liveRoles_def logAccess_def set_upd)
  then show "no_gain a d d'" by (intro fewer_grants) (simp_all add: t)
  have "\<not> ownerRole x" if "x \<in> set (roles d)" "ro_id x = i" for x
    using role_row_unique [OF keys r(1) that] r(2) by (simp add: ownerRole_def)
  then have "ownerRoles d \<subseteq> ownerRoles d'" by (fastforce simp: d' ownerRoles_def logAccess_def set_upd)
  then show "hasOwner d \<Longrightarrow> hasOwner d'" by (auto simp: hasOwner_def t)
qed

lemma replaceRolePermissions_grants:
  assumes "replaceRolePermissions i ids ex a d = Inr d'"
  shows "no_gain a d d'" and "hasOwner d \<Longrightarrow> hasOwner d'"
proof -
  obtain r cx where cx: "getFreshAuthorizationContext a d = Inr cx" "canGrantPermissions cx (map pe_key (findPermissions ids d))"
    and d': "d' = d \<or> d' = logAccess a ''ROLE_PERMISSIONS_REPLACED'' i
       (d\<lparr>rolePermissions := filter (\<lambda>rp. fst rp \<noteq> i) (rolePermissions d) @ map (Pair i) ids\<rparr>)"
    using assms unfolding replaceRolePermissions_def
    by (auto elim!: loadManagedRole_D simp: Let_def assertCanGrantPermissions_def expectIds_def split: if_split_asm)
  have t: "alive d' = alive d" "liveRoles d' = liveRoles d" "ownerRoles d' = ownerRoles d" "livePermissions d' = livePermissions d"
    "employeeRoles d' = employeeRoles d"
    using d' by (auto simp: alive_def liveRoles_def ownerRoles_def livePermissions_def logAccess_def)
  have new: "set (rolePermissions d') \<subseteq> set (rolePermissions d) \<union> Pair i ` set ids"
    using d' by (auto simp: logAccess_def)
  show "no_gain a d d'"
  proof (rule no_gainI)
    fix k e assume e: "e \<in> alive d'" and g: "granted k e d'"
    then obtain j p where j: "j \<in> liveRoles d" "(p, k) \<in> livePermissions d" "(e, j) \<in> set (employeeRoles d)"
      and rp: "(j, p) \<in> set (rolePermissions d')"
      by (auto simp: granted_def t)
    show "hasPermission k e d \<or> hasPermission k a d"
    proof (cases "(j, p) \<in> set (rolePermissions d)")
      case True
      then show ?thesis using j e t by (auto simp: hasPermission_iff granted_def)
    next
      case False
      then have "p \<in> set ids" using rp new by auto
      then have "k \<in> set (map pe_key (findPermissions ids d))" using j(2) by (auto simp: findPermissions_def livePermissions_def)
      then show ?thesis using canGrant_actor [OF cx] by blast
    qed
  qed
  show "hasOwner d \<Longrightarrow> hasOwner d'" by (simp add: hasOwner_def t)
qed

lemma insertRoles_effect:
  "insertRoles rows now d = (n, d') \<Longrightarrow>
    accounts d' = accounts d \<and> permissions d' = permissions d \<and> employeeRoles d' = employeeRoles d \<and>
    rolePermissions d' = rolePermissions d \<and> authSessions d' = authSessions d \<and> ownerRoles d' = ownerRoles d \<and>
    liveRoles d' \<subseteq> liveRoles d \<union> {i. acc_nextId d \<le> i} \<and> acc_nextId d \<le> acc_nextId d'"
proof (induction rows now d arbitrary: n d' rule: insertRoles.induct)
  case (2 name description rows now d)
  show ?case
  proof (cases "\<exists>r\<in>set (roles d). ro_name r = name \<and> ro_deletedAt r = None")
    case True
    then show ?thesis using 2 by simp
  next
    case False
    let ?row = "\<lparr>ro_id = acc_nextId d, ro_name = name, ro_description = description, ro_isSystemRole = False,
               ro_updatedAt = now, ro_deletedAt = None\<rparr>"
    let ?d = "d\<lparr>acc_nextId := Suc (acc_nextId d), roles := roles d @ [?row]\<rparr>"
    obtain m d1 where r: "insertRoles rows now ?d = (m, d1)" by fastforce
    then have "d' = d1" using 2(3) False by (simp add: Let_def)
    moreover have "ownerRoles ?d = ownerRoles d" "liveRoles ?d \<subseteq> insert (acc_nextId d) (liveRoles d)"
      by (auto simp: ownerRoles_def liveRoles_def ownerRole_def)
    ultimately show ?thesis using 2(2) [OF False r] by auto
  qed
qed simp

lemma importRoles_grants:
  assumes "importRoles rows a now d = Inr (n, d')" and keys: "access_keys d"
  shows "no_gain a d d'" and "hasOwner d \<Longrightarrow> hasOwner d'"
proof -
  obtain d1 where d1: "insertRoles rows now d = (n, d1)" and d': "d' = d1 \<or> d' = logAccess a ''ROLES_IMPORTED'' n d1"
    using assms(1) by (auto simp: importRoles_def withActor_Inr split: prod.splits if_split_asm)
  note e = insertRoles_effect [OF d1]
  have v: "grantView d' = grantView d1" using d' by auto
  have t: "alive d1 = alive d" "livePermissions d1 = livePermissions d" using e by (simp_all add: alive_def livePermissions_def)
  have "no_gain a d d1"
  proof (rule no_gainI)
    fix k x assume x: "x \<in> alive d1" "granted k x d1"
    moreover have "i < acc_nextId d" if "(x, i) \<in> set (employeeRoles d)" for i using keys that by (auto simp: access_keys_def)
    ultimately have "granted k x d" using e t by (force simp: granted_def)
    then show "hasPermission k x d \<or> hasPermission k a d" using x(1) t by (simp add: hasPermission_iff)
  qed
  then show "no_gain a d d'" using grantView_D(1) [OF v] by (simp add: no_gain_def)
  show "hasOwner d \<Longrightarrow> hasOwner d'" using e t grantView_D(3) [OF v] by (simp add: hasOwner_def)
qed

section \<open>Permissions\<close>

lemma findPermission_SomeD: "findPermission i d = Some p \<Longrightarrow> p \<in> set (permissions d) \<and> pe_id p = i \<and> pe_deletedAt p = None"
  unfolding findPermission_def by (drule find_SomeD) simp

lemma permission_grants:
  assumes v: "alive d' = alive d" "liveRoles d' = liveRoles d" "ownerRoles d' = ownerRoles d" "employeeRoles d' = employeeRoles d"
    and rp: "set (rolePermissions d') \<subseteq> set (rolePermissions d)"
    and p: "\<And>r i k. (i, k) \<in> livePermissions d' \<Longrightarrow> isSystemPermissionKey k \<Longrightarrow> (r, i) \<in> set (rolePermissions d) \<Longrightarrow>
      (i, k) \<in> livePermissions d"
  shows "no_gain a d d'" and "hasOwner d \<Longrightarrow> hasOwner d'"
proof -
  show "no_gain a d d'"
  proof (rule no_gainI)
    fix k e assume "isSystemPermissionKey k" "e \<in> alive d'" "granted k e d'"
    then show "hasPermission k e d \<or> hasPermission k a d"
      unfolding hasPermission_iff granted_def v using rp p by blast
  qed
  show "hasOwner d \<Longrightarrow> hasOwner d'" by (simp add: hasOwner_def v)
qed

lemma createPermission_grants:
  assumes "createPermission nm key d = Inr (i, d')" and "access_keys d"
  shows "no_gain a d d'" and "hasOwner d \<Longrightarrow> hasOwner d'"
proof -
  have d': "d' = d\<lparr>acc_nextId := Suc (acc_nextId d), permissions := permissions d @
         [\<lparr>pe_id = acc_nextId d, pe_name = nm, pe_key = key, pe_isSystem = False, pe_deletedAt = None\<rparr>]\<rparr>"
    and key: "\<not> isSystemPermissionKey key"
    using assms(1) by (auto simp: createPermission_def ensurePermissionKeyAvailable_def)
  show "no_gain a d d'" and "hasOwner d \<Longrightarrow> hasOwner d'"
    by (rule permission_grants; use key in \<open>force simp: d' alive_def liveRoles_def ownerRoles_def livePermissions_def\<close>)+
qed

lemma updatePermission_grants:
  assumes "updatePermission i nm key d = Inr d'" and keys: "access_keys d"
  shows "no_gain a d d'" and "hasOwner d \<Longrightarrow> hasOwner d'"
proof -
  obtain p where p: "findPermission i d = Some p" "systemPermission p \<Longrightarrow> nm = None \<and> key = None"
    and key: "\<And>s. key = Some s \<Longrightarrow> \<not> isSystemPermissionKey s"
    and d': "d' = d\<lparr>permissions := upd (\<lambda>x. pe_id x = i)
        (\<lambda>x. x\<lparr>pe_name := (case nm of None \<Rightarrow> pe_name x | Some n \<Rightarrow> n),
          pe_key := (case key of None \<Rightarrow> pe_key x | Some s \<Rightarrow> s)\<rparr>) (permissions d)\<rparr>"
    using assms(1)
    by (auto simp: updatePermission_def ensurePermissionKeyAvailable_def isSystemPermissionKey_def PermissionKeys_def
        split: option.splits if_split_asm)
  have kept: "(j, k) \<in> livePermissions d" if "(j, k) \<in> livePermissions d'" "isSystemPermissionKey k" for j k
  proof -
    obtain x where x: "x \<in> set (permissions d')" "pe_deletedAt x = None" "pe_id x = j" "pe_key x = k"
      using \<open>(j, k) \<in> livePermissions d'\<close> by (auto simp: livePermissions_def)
    then obtain y where y: "y \<in> set (permissions d)" "x = (if pe_id y = i then
        y\<lparr>pe_name := (case nm of None \<Rightarrow> pe_name y | Some n \<Rightarrow> n), pe_key := (case key of None \<Rightarrow> pe_key y | Some s \<Rightarrow> s)\<rparr> else y)"
      using mem_updE [of x "\<lambda>x. pe_id x = i"] by (auto simp: d')
    have "pe_id y = j \<and> pe_deletedAt y = None \<and> pe_key y = k"
    proof (cases "pe_id y = i")
      case True
      then have "k = (case key of None \<Rightarrow> pe_key y | Some s \<Rightarrow> s)" using x(4) y(2) by simp
      then have "pe_key y = k" using key \<open>isSystemPermissionKey k\<close> by (cases key) simp_all
      then show ?thesis using x(2,3) y(2) True by simp
    qed (use x y(2) in simp)
    then show ?thesis using y(1) by (auto simp: livePermissions_def)
  qed
  have t: "alive d' = alive d" "liveRoles d' = liveRoles d" "ownerRoles d' = ownerRoles d" "employeeRoles d' = employeeRoles d"
    "set (rolePermissions d') \<subseteq> set (rolePermissions d)"
    by (simp_all add: d' alive_def liveRoles_def ownerRoles_def)
  show "no_gain a d d'" and "hasOwner d \<Longrightarrow> hasOwner d'"
    by (rule permission_grants(1) [OF t kept], assumption+, rule permission_grants(2) [OF t kept], assumption+)
qed

lemma deletePermission_grants:
  assumes "deletePermission i now d = Inr d'"
  shows "no_gain a d d'" and "hasOwner d \<Longrightarrow> hasOwner d'"
proof -
  have d': "d' = d\<lparr>rolePermissions := filter (\<lambda>rp. snd rp \<noteq> i) (rolePermissions d),
         permissions := upd (\<lambda>x. pe_id x = i) (\<lambda>x. x\<lparr>pe_deletedAt := Some now\<rparr>) (permissions d)\<rparr>"
    using assms by (auto simp: deletePermission_def)
  show "no_gain a d d'" and "hasOwner d \<Longrightarrow> hasOwner d'"
    by (rule permission_grants; force simp: d' alive_def liveRoles_def ownerRoles_def livePermissions_def set_upd)+
qed

section \<open>Employees\<close>

lemma findAccount_SomeD: "findAccount i d = Some a \<Longrightarrow> a \<in> set (accounts d) \<and> ac_id a = i \<and> ac_deletedAt a = None"
  unfolding findAccount_def by (drule find_SomeD) simp

lemma loadManaged_D:
  assumes "loadManagedEmployee i cx d k = Inr x"
  obtains b where "findAccount i d = Some b" "canGrantPermissions cx (roleKeys (employeeRoleRows i d) d)" "k b = Inr x"
  using assms that by (auto simp: loadManagedEmployee_def assertCanGrantPermissions_def)

lemma account_row_unique: "access_keys d \<Longrightarrow> findAccount i d = Some b \<Longrightarrow> x \<in> set (accounts d) \<Longrightarrow> ac_id x = i \<Longrightarrow> x = b"
  using distinct_key_eq [of ac_id "accounts d" x b] findAccount_SomeD [of i d b] by (simp add: access_keys_def)

lemma isOwner_iff: "isOwner i d \<longleftrightarrow> (\<exists>j\<in>ownerRoles d. (i, j) \<in> set (employeeRoles d))"
  by (auto simp: isOwner_def employeeRoleRows_def ownerRoles_def list_ex_iff)

text \<open>What \<open>assertOwnerRemains\<close> makes sure of: another owner, or the employee is none.\<close>

lemma assertOwnerRemains_D:
  assumes "assertOwnerRemains b d k = Inr x" and b: "findAccount i d = Some b" and keys: "access_keys d" and "hasOwner d"
  shows "k = Inr x \<and> (\<exists>e j. e \<noteq> i \<and> e \<in> alive d \<and> j \<in> ownerRoles d \<and> (e, j) \<in> set (employeeRoles d))"
proof -
  have bi: "ac_id b = i" "ac_deletedAt b = None" using findAccount_SomeD [OF b] by simp_all
  consider "\<not> (ac_isActive b \<and> isOwner i d)"
    | "cnt (\<lambda>c. ac_id c \<noteq> i \<and> ac_isActive c \<and> ac_deletedAt c = None \<and> isOwner (ac_id c) d) (accounts d) \<noteq> 0"
    using assms(1) bi by (auto simp: assertOwnerRemains_def)
  then have "\<exists>e j. e \<noteq> i \<and> e \<in> alive d \<and> j \<in> ownerRoles d \<and> (e, j) \<in> set (employeeRoles d)"
  proof cases
    case 1
    obtain e j where e: "e \<in> alive d" "j \<in> ownerRoles d" "(e, j) \<in> set (employeeRoles d)" using assms(4) by (auto simp: hasOwner_def)
    have "e \<noteq> i"
    proof
      assume "e = i"
      then have "isOwner i d" using e by (auto simp: isOwner_iff)
      moreover obtain c where "c \<in> set (accounts d)" "ac_id c = i" "ac_isActive c" using e(1) \<open>e = i\<close> by (auto simp: alive_def)
      ultimately show False using 1 account_row_unique [OF keys b] by blast
    qed
    then show ?thesis using e by blast
  next
    case 2
    then obtain c where "c \<in> set (accounts d)" "ac_id c \<noteq> i" "ac_isActive c" "ac_deletedAt c = None" "isOwner (ac_id c) d"
      by (auto simp: cnt_zero_iff)
    then show ?thesis unfolding isOwner_iff alive_def by blast
  qed
  then show ?thesis using assms(1) by (simp add: assertOwnerRemains_def)
qed

text \<open>Who is alive changes for one account at most.\<close>

lemma alive_upd_one:
  assumes "accounts d' = upd g f (accounts d)" and "\<And>x. x \<in> set (accounts d) \<Longrightarrow> g x \<Longrightarrow> ac_id x = i \<and> ac_id (f x) = i"
  shows "alive d' \<subseteq> insert i (alive d)" and "alive d - {i} \<subseteq> alive d'"
  using assms by (fastforce simp: alive_def set_upd)+

lemma grantView_emp [simp]:
  "liveRoles (useResetTokens e now d) = liveRoles d" "ownerRoles (useResetTokens e now d) = ownerRoles d"
  "livePermissions (useResetTokens e now d) = livePermissions d" "employeeRoles (useResetTokens e now d) = employeeRoles d"
  "rolePermissions (useResetTokens e now d) = rolePermissions d" "alive (useResetTokens e now d) = alive d"
  "accounts (useResetTokens e now d) = accounts d"
  "liveRoles (revokeSessions e r now d) = liveRoles d" "ownerRoles (revokeSessions e r now d) = ownerRoles d"
  "livePermissions (revokeSessions e r now d) = livePermissions d" "employeeRoles (revokeSessions e r now d) = employeeRoles d"
  "rolePermissions (revokeSessions e r now d) = rolePermissions d" "alive (revokeSessions e r now d) = alive d"
  "accounts (revokeSessions e r now d) = accounts d"
  by (simp_all add: alive_def liveRoles_def ownerRoles_def livePermissions_def revokeSessions_def useResetTokens_def)

lemma tables_accounts [simp]:
  "liveRoles (d\<lparr>accounts := as\<rparr>) = liveRoles d" "ownerRoles (d\<lparr>accounts := as\<rparr>) = ownerRoles d"
  "livePermissions (d\<lparr>accounts := as\<rparr>) = livePermissions d" "liveRoles (d\<lparr>employeeRoles := er\<rparr>) = liveRoles d"
  "ownerRoles (d\<lparr>employeeRoles := er\<rparr>) = ownerRoles d" "livePermissions (d\<lparr>employeeRoles := er\<rparr>) = livePermissions d"
  "alive (d\<lparr>employeeRoles := er\<rparr>) = alive d"
  by (simp_all add: alive_def liveRoles_def ownerRoles_def livePermissions_def)

lemma updateEmployee_effect:
  assumes "updateEmployee i ch ver a now d = Inr d'"
  obtains b :: account and cx :: authorizationContext and d1 where "findAccount i d = Some b"
    "getFreshAuthorizationContext a d = Inr cx" "canGrantPermissions cx (roleKeys (employeeRoleRows i d) d)"
    "ch_isActive ch = Some False \<Longrightarrow> assertOwnerRemains b d (Inr d) = Inr d"
    "d1 = d\<lparr>accounts := upd (\<lambda>x. ac_id x = i \<and> ac_deletedAt x = None \<and> ac_updatedAt x = ver) (changeAccount ch now) (accounts d)\<rparr>"
    "d' = logAccess a ''EMPLOYEE_UPDATED'' i (if ch_isActive ch = Some False \<or> credentialsChanged ch b
       then useResetTokens i now (revokeSessions i (if ch_isActive ch = Some False then ''EMPLOYEE_DISABLED''
         else ''CREDENTIALS_CHANGED'') now d1) else d1)"
  using assms unfolding updateEmployee_def withActor_Inr Let_def
  apply (elim exE conjE loadManaged_D)
  apply (rule that [OF _ _ _ _ refl], assumption, assumption, assumption)
   apply (auto simp: assertActivePosition_def assertOwnerRemains_def split: option.splits if_split_asm)
  done

lemma updateEmployee_grants:
  assumes "updateEmployee i ch ver a now d = Inr d'" and keys: "access_keys d"
  shows "no_gain a d d'" and "hasOwner d \<Longrightarrow> hasOwner d'"
proof -
  obtain b :: account and cx :: authorizationContext and d1 where b: "findAccount i d = Some b" and cx: "getFreshAuthorizationContext a d = Inr cx"
    "canGrantPermissions cx (roleKeys (employeeRoleRows i d) d)"
    and off: "ch_isActive ch = Some False \<Longrightarrow> assertOwnerRemains b d (Inr d) = Inr d"
    and d1: "d1 = d\<lparr>accounts := upd (\<lambda>x. ac_id x = i \<and> ac_deletedAt x = None \<and> ac_updatedAt x = ver) (changeAccount ch now) (accounts d)\<rparr>"
    and d': "d' = logAccess a ''EMPLOYEE_UPDATED'' i (if ch_isActive ch = Some False \<or> credentialsChanged ch b
       then useResetTokens i now (revokeSessions i (if ch_isActive ch = Some False then ''EMPLOYEE_DISABLED''
         else ''CREDENTIALS_CHANGED'') now d1) else d1)"
    by (rule updateEmployee_effect [OF assms(1)]) (rule that, assumption+)
  have t: "liveRoles d' = liveRoles d" "ownerRoles d' = ownerRoles d" "livePermissions d' = livePermissions d"
    "employeeRoles d' = employeeRoles d" "rolePermissions d' = rolePermissions d" and al: "alive d' = alive d1"
    by (simp_all add: d' d1)
  have ids: "ac_id (changeAccount ch now x) = ac_id x" for x by (simp add: changeAccount_def)
  have one: "alive d1 \<subseteq> insert i (alive d)" "alive d - {i} \<subseteq> alive d1"
    by (rule alive_upd_one [of d1 "\<lambda>x. ac_id x = i \<and> ac_deletedAt x = None \<and> ac_updatedAt x = ver" "changeAccount ch now"];
        simp add: d1 ids)+
  show "no_gain a d d'"
  proof (rule no_gainI)
    fix k e assume e: "e \<in> alive d'" "granted k e d'"
    then have gr: "granted k e d" by (simp add: granted_def t)
    show "hasPermission k e d \<or> hasPermission k a d"
    proof (cases "e = i")
      case True
      then show ?thesis using canGrant_actor [OF cx] gr roleKeys_employee by blast
    next
      case False
      then have "e \<in> alive d" using one(1) e(1) al by blast
      then show ?thesis using gr by (simp add: hasPermission_iff)
    qed
  qed
  assume own: "hasOwner d"
  show "hasOwner d'"
  proof (cases "ch_isActive ch = Some False")
    case True
    obtain e j where "e \<noteq> i" "e \<in> alive d" "j \<in> ownerRoles d" "(e, j) \<in> set (employeeRoles d)"
      using assertOwnerRemains_D [OF off [OF True] b keys own] by blast
    then show ?thesis using one(2) al by (auto simp: hasOwner_def t)
  next
    case False
    have "alive d \<subseteq> alive d'"
    proof
      fix e assume "e \<in> alive d"
      then obtain x where "x \<in> set (accounts d)" "ac_id x = e" "ac_isActive x" "ac_deletedAt x = None" by (auto simp: alive_def)
      moreover let ?y = "if ac_id x = i \<and> ac_deletedAt x = None \<and> ac_updatedAt x = ver then changeAccount ch now x else x"
      have "?y \<in> set (accounts d1)" using \<open>x \<in> set (accounts d)\<close> by (simp add: d1 set_upd)
      moreover have "orOld (ch_isActive ch) True" using False by (auto simp: orOld_def split: option.split)
      ultimately have "e \<in> alive d1"
        unfolding alive_def by (intro CollectI exI [of _ ?y]) (simp add: changeAccount_def)
      then show "e \<in> alive d'" by (simp add: al)
    qed
    then show ?thesis using own by (auto simp: hasOwner_def t)
  qed
qed

lemma deleteEmployee_grants:
  assumes "deleteEmployee i a now d = Inr d'" and keys: "access_keys d"
  shows "no_gain a d d'" and "hasOwner d \<Longrightarrow> hasOwner d'"
proof -
  obtain b :: account where b: "findAccount i d = Some b" and own: "assertOwnerRemains b d (Inr d) = Inr d"
    and t: "liveRoles d' = liveRoles d" "ownerRoles d' = ownerRoles d" "livePermissions d' = livePermissions d"
    "employeeRoles d' = filter (\<lambda>er. fst er \<noteq> i) (employeeRoles d)" "rolePermissions d' = rolePermissions d"
    and acc: "accounts d' = upd (\<lambda>a. ac_id a = i \<and> ac_deletedAt a = None)
      (\<lambda>a. a\<lparr>ac_isActive := False, ac_deletedAt := Some now, ac_updatedAt := now\<rparr>) (accounts d)"
    using assms(1) unfolding deleteEmployee_def withActor_Inr Let_def
    by (auto elim!: loadManaged_D simp: assertOwnerRemains_def) (simp_all add: logAccess_def)
  have "alive d' \<subseteq> alive d" unfolding alive_def acc by (auto simp: set_upd)
  then show "no_gain a d d'" by (rule fewer_grants) (auto simp: t)
  note one = alive_upd_one(2) [OF acc, of i]
  assume "hasOwner d"
  then obtain e j where "e \<noteq> i" "e \<in> alive d" "j \<in> ownerRoles d" "(e, j) \<in> set (employeeRoles d)"
    using assertOwnerRemains_D [OF own b keys] by blast
  moreover from this have "e \<in> alive d'" using one by auto
  ultimately show "hasOwner d'" by (auto simp: hasOwner_def t)
qed

lemma replaceEmployeeRoles_grants:
  assumes "replaceEmployeeRoles i ids ex a d = Inr d'" and keys: "access_keys d"
  shows "no_gain a d d'" and "hasOwner d \<Longrightarrow> hasOwner d'"
proof -
  obtain b :: account and cx :: authorizationContext where b: "findAccount i d = Some b" "ac_isActive b"
    and cx: "getFreshAuthorizationContext a d = Inr cx" "canGrantPermissions cx (roleKeys (findRoles ids d) d)"
    and d': "d' = d \<or> (d' = logAccess a ''EMPLOYEE_ROLES_REPLACED'' i
              (d\<lparr>employeeRoles := filter (\<lambda>er. fst er \<noteq> i) (employeeRoles d) @ map (Pair i) ids\<rparr>) \<and>
        (list_ex ownerRole (findRoles ids d) \<or> assertOwnerRemains b d (Inr d) = Inr d))"
    using assms(1) unfolding replaceEmployeeRoles_def Let_def
    by (auto elim!: loadManaged_D simp: withActor_Inr assertOwnerRemains_def assertCanGrantPermissions_def expectIds_def split: if_split_asm)
  have t: "alive d' = alive d" "liveRoles d' = liveRoles d" "ownerRoles d' = ownerRoles d" "livePermissions d' = livePermissions d"
    "rolePermissions d' = rolePermissions d"
    using d' by auto
  have new: "set (employeeRoles d') \<subseteq> set (employeeRoles d) \<union> Pair i ` set ids" using d' by auto
  show "no_gain a d d'"
  proof (rule no_gainI)
    fix k e assume e: "e \<in> alive d'" and "granted k e d'"
    then obtain j p where j: "j \<in> liveRoles d" "(p, k) \<in> livePermissions d" "(j, p) \<in> set (rolePermissions d)"
      and er: "(e, j) \<in> set (employeeRoles d')"
      by (auto simp: granted_def t)
    show "hasPermission k e d \<or> hasPermission k a d"
    proof (cases "(e, j) \<in> set (employeeRoles d)")
      case True
      then show ?thesis using j e t by (auto simp: hasPermission_iff granted_def)
    next
      case False
      then have "j \<in> set ids" using er new by auto
      then have "k \<in> set (roleKeys (findRoles ids d) d)" using j by (auto simp: roleKeys_iff findRoles_def liveRoles_def)
      then show ?thesis using canGrant_actor [OF cx] by blast
    qed
  qed
  assume own: "hasOwner d"
  show "hasOwner d'"
  proof (cases "d' = d")
    case False
    then have eq: "employeeRoles d' = filter (\<lambda>er. fst er \<noteq> i) (employeeRoles d) @ map (Pair i) ids" using d' by auto
    from False d' consider "list_ex ownerRole (findRoles ids d)" | "assertOwnerRemains b d (Inr d) = Inr d" by blast
    then show ?thesis
    proof cases
      case 1
      then obtain r where "r \<in> set (roles d)" "ro_id r \<in> set ids" "ro_deletedAt r = None" "ownerRole r"
        by (auto simp: findRoles_def list_ex_iff)
      then have "ro_id r \<in> ownerRoles d" "(i, ro_id r) \<in> set (employeeRoles d')" by (auto simp: ownerRoles_def eq)
      moreover have "i \<in> alive d" using findAccount_SomeD [OF b(1)] b(2) by (auto simp: alive_def)
      ultimately show ?thesis by (auto simp: hasOwner_def t)
    next
      case 2
      then obtain e j where "e \<noteq> i" "e \<in> alive d" "j \<in> ownerRoles d" "(e, j) \<in> set (employeeRoles d)"
        using assertOwnerRemains_D [OF 2 b(1) keys own] by blast
      then show ?thesis by (auto simp: hasOwner_def t eq)
    qed
  qed (use own in simp)
qed

lemma insertAccount_grants:
  assumes "insertAccount a d = Inr (row, d')" and keys: "access_keys d"
  shows "no_gain z d d'" and "hasOwner d \<Longrightarrow> hasOwner d'" and "ac_id row = acc_nextId d" and "employeeRoles d' = employeeRoles d"
    and "ownerRoles d' = ownerRoles d" and "roles d' = roles d"
proof -
  have d': "d' = d\<lparr>acc_nextId := Suc (acc_nextId d), accounts := accounts d @ [a\<lparr>ac_id := acc_nextId d\<rparr>]\<rparr>"
    and row: "row = a\<lparr>ac_id := acc_nextId d\<rparr>"
    using assms(1) by (auto simp: insertAccount_def Let_def)
  have t: "liveRoles d' = liveRoles d" "ownerRoles d' = ownerRoles d" "livePermissions d' = livePermissions d"
    "employeeRoles d' = employeeRoles d" "rolePermissions d' = rolePermissions d"
    and al: "alive d' \<subseteq> insert (acc_nextId d) (alive d)" "alive d \<subseteq> alive d'"
    by (auto simp: d' alive_def liveRoles_def ownerRoles_def livePermissions_def)
  show "no_gain z d d'"
  proof (rule no_gainI)
    fix k e assume e: "e \<in> alive d'" "granted k e d'"
    then have "granted k e d" by (simp add: granted_def t)
    moreover from this have "e < acc_nextId d" using keys by (auto simp: granted_def access_keys_def)
    ultimately show "hasPermission k e d \<or> hasPermission k z d" using e(1) al(1) by (auto simp: hasPermission_iff)
  qed
  show "hasOwner d \<Longrightarrow> hasOwner d'" using al(2) by (auto simp: hasOwner_def t)
  show "ac_id row = acc_nextId d" "employeeRoles d' = employeeRoles d" "ownerRoles d' = ownerRoles d" "roles d' = roles d"
    by (simp_all add: row t) (simp add: d')
qed

lemmas createEmployee_grants = insertAccount_grants(1,2)

end
