(* ===== verification/Access_System.thy ===== *)
theory Access_System
  imports Access_Facts
begin

text \<open>
  What signing in, rotating and resetting do to sessions, and \<open>access_step\<close>, the step relation of
  everything that changes accounts, roles, permissions and sessions.
\<close>

section \<open>Sessions\<close>

text \<open>A session keeps what it is, and once revoked stays revoked.\<close>

definition keepsSession :: "authSession \<Rightarrow> authSession \<Rightarrow> bool" where
  "keepsSession s s' \<longleftrightarrow> ss_id s' = ss_id s \<and> ss_familyId s' = ss_familyId s \<and> ss_employeeId s' = ss_employeeId s \<and>
     ss_refreshTokenHash s' = ss_refreshTokenHash s \<and> (liveSession s' \<longrightarrow> liveSession s)"

lemma keepsSession_refl [simp]: "keepsSession s s"
  by (simp add: keepsSession_def)

lemma keepsSession_trans: "keepsSession r s \<Longrightarrow> keepsSession s t \<Longrightarrow> keepsSession r t"
  by (auto simp: keepsSession_def)

text \<open>A family has one live session at most, and one employee.\<close>

definition families_ok :: "authSession list \<Rightarrow> bool" where
  "families_ok ss \<longleftrightarrow> (\<forall>s\<in>set ss. \<forall>t\<in>set ss. ss_familyId s = ss_familyId t \<longrightarrow>
     ss_employeeId s = ss_employeeId t \<and> (liveSession s \<and> liveSession t \<longrightarrow> ss_id s = ss_id t))"

definition sessions_kept :: "authSession list \<Rightarrow> authSession list \<Rightarrow> bool" where
  "sessions_kept ss ss' \<longleftrightarrow> (\<forall>s\<in>set ss. \<exists>s'\<in>set ss'. keepsSession s s') \<and> (families_ok ss \<longrightarrow> families_ok ss')"

lemma sessions_kept_refl [simp]: "sessions_kept ss ss"
  by (auto simp: sessions_kept_def intro: keepsSession_refl)

lemma sessions_kept_trans: "sessions_kept r s \<Longrightarrow> sessions_kept s t \<Longrightarrow> sessions_kept r t"
  unfolding sessions_kept_def by (meson keepsSession_trans)

lemma families_map:
  assumes "families_ok ss" and "\<And>s. s \<in> set ss \<Longrightarrow> keepsSession s (h s)"
  shows "families_ok (map h ss)"
  unfolding families_ok_def set_map ball_simps
  using assms unfolding families_ok_def keepsSession_def by metis

lemma kept_upd:
  assumes "\<And>s. s \<in> set ss \<Longrightarrow> g s \<Longrightarrow> keepsSession s (f s)"
  shows "sessions_kept ss (upd g f ss)"
proof -
  let ?h = "\<lambda>s. if g s then f s else s"
  have h: "keepsSession s (?h s)" if "s \<in> set ss" for s using assms [OF that] by simp
  have "\<exists>s'\<in>set (map ?h ss). keepsSession s s'" if "s \<in> set ss" for s
    unfolding set_map by (rule bexI [where x = "?h s"], rule h [OF that], rule imageI [OF that])
  then show ?thesis unfolding sessions_kept_def upd_def using families_map [of ss ?h] h by blast
qed

lemma families_new:
  assumes "families_ok ss" and "\<And>t. t \<in> set ss \<Longrightarrow> ss_familyId t = ss_familyId s \<Longrightarrow> ss_employeeId t = ss_employeeId s \<and> \<not> liveSession t"
  shows "families_ok (ss @ [s])"
  unfolding families_ok_def
proof (intro ballI impI)
  fix x y assume xy: "x \<in> set (ss @ [s])" "y \<in> set (ss @ [s])" "ss_familyId x = ss_familyId y"
  consider "x = s" "y = s" | "x = s" "y \<in> set ss" | "x \<in> set ss" "y = s" | "x \<in> set ss" "y \<in> set ss" using xy by auto
  then show "ss_employeeId x = ss_employeeId y \<and> (liveSession x \<and> liveSession y \<longrightarrow> ss_id x = ss_id y)"
  proof cases
    case 2
    then show ?thesis using assms(2) [of y] xy(3) by simp
  next
    case 3
    then show ?thesis using assms(2) [of x] xy(3) by simp
  next
    case 4
    then show ?thesis using assms(1) xy(3) unfolding families_ok_def by blast
  qed simp
qed

lemma kept_new:
  assumes "\<And>t. families_ok ss \<Longrightarrow> t \<in> set ss \<Longrightarrow> ss_familyId t = ss_familyId s \<Longrightarrow>
    ss_employeeId t = ss_employeeId s \<and> \<not> liveSession t"
  shows "sessions_kept ss (ss @ [s])"
  unfolding sessions_kept_def
proof (intro conjI impI)
  show "\<forall>t\<in>set ss. \<exists>s'\<in>set (ss @ [s]). keepsSession t s'" by (auto intro: keepsSession_refl)
  show "families_ok ss \<Longrightarrow> families_ok (ss @ [s])" by (rule families_new) (use assms in blast)+
qed

lemma sessions_tables [simp]:
  "authSessions (logAccess e act i d) = authSessions d" "authSessions (useResetTokens e now d) = authSessions d"
  by (simp_all add: logAccess_def useResetTokens_def)

lemma revoked_keeps:
  "sessions_kept (authSessions d) (authSessions (revokeSessions e r now d))"
  "sessions_kept (authSessions d) (authSessions (revokeFamily e f r now d))"
  by (auto simp: revokeSessions_def revokeFamily_def keepsSession_def liveSession_def intro!: kept_upd)

text \<open>An insertion only adds one row.\<close>

lemma insertAuthSession_D:
  "insertAuthSession i fam e h now d = Inr d' \<Longrightarrow>
    d' = d\<lparr>authSessions := authSessions d @ [\<lparr>ss_id = i, ss_familyId = fam, ss_refreshTokenHash = h,
      ss_expiresAt = now + REFRESH_TOKEN_TTL_MS, ss_lastUsedAt = None, ss_revokedAt = None, ss_revokeReason = None, ss_employeeId = e\<rparr>]\<rparr>"
  by (simp add: insertAuthSession_def)

lemma createSession_fresh:
  assumes "createSession te e email c now d = Inr (t, d')" and fresh: "\<And>s. s \<in> set (authSessions d) \<Longrightarrow> ss_familyId s < acc_nextId d"
  shows "grantView d' = grantView d" and "sessions_kept (authSessions d) (authSessions d')"
proof -
  obtain s where s: "authSessions d' = authSessions d @ [s]" "ss_familyId s = Suc (acc_nextId d)" and v: "grantView d' = grantView d"
    using assms(1) by (auto simp: createSession_def Let_def dest!: insertAuthSession_D)
  show "grantView d' = grantView d" by (rule v)
  show "sessions_kept (authSessions d) (authSessions d')"
    unfolding s(1) by (rule kept_new) (use fresh s(2) in force)
qed

lemma createSession_effect:
  assumes "createSession te e email c now d = Inr (t, d')" and "access_keys d"
  shows "grantView d' = grantView d" and "sessions_kept (authSessions d) (authSessions d')"
  using createSession_fresh [OF assms(1)] assms(2) by (auto simp: access_keys_def)

lemma rotateTx_effect:
  assumes "rotateTx te t p now d = Inr (Some new, d')" and keys: "access_keys d"
  obtains s where "s \<in> set (authSessions d)" "ss_id s = rp_sid p" "refreshValid te t p now d s"
    "new = createRefreshToken te (p\<lparr>rp_sid := acc_nextId d\<rparr>) now"
    "d' = d\<lparr>acc_nextId := Suc (acc_nextId d), authSessions :=
       upd (\<lambda>x. ss_id x = ss_id s) (\<lambda>x. x\<lparr>ss_revokedAt := Some now, ss_lastUsedAt := Some now,
         ss_revokeReason := Some ''REFRESH_ROTATED''\<rparr>) (authSessions d) @
       [\<lparr>ss_id = acc_nextId d, ss_familyId = rp_familyId p, ss_refreshTokenHash = te_hash te new,
         ss_expiresAt = now + REFRESH_TOKEN_TTL_MS, ss_lastUsedAt = None, ss_revokedAt = None, ss_revokeReason = None,
         ss_employeeId = rp_sub p\<rparr>]\<rparr>"
proof -
  obtain s where f: "find (\<lambda>s. ss_id s = rp_sid p) (authSessions d) = Some s" and v: "refreshValid te t p now d s"
    using assms(1) by (auto simp: rotateTx_def Let_def split: option.splits if_split_asm)
  let ?g = "\<lambda>x. ss_id x = ss_id s \<and> ss_revokedAt x = None \<and> now < ss_expiresAt x \<and> ss_refreshTokenHash x = ss_refreshTokenHash s"
  let ?f = "\<lambda>x. x\<lparr>ss_revokedAt := Some now, ss_lastUsedAt := Some now, ss_revokeReason := Some ''REFRESH_ROTATED''\<rparr>"
  have s: "s \<in> set (authSessions d)" "ss_id s = rp_sid p" using find_SomeD [OF f] by simp_all
  have "x = s" if "x \<in> set (authSessions d)" "ss_id x = ss_id s" for x
    using distinct_key_eq [of ss_id "authSessions d" x s] keys that s(1) by (simp add: access_keys_def)
  then have "upd ?g ?f (authSessions d) = upd (\<lambda>x. ss_id x = ss_id s) ?f (authSessions d)"
    using v unfolding upd_def by (intro map_cong [OF refl] if_cong refl) (auto simp: refreshValid_def liveSession_def)
  then show ?thesis
    using assms(1) f v that [OF s v] by (auto simp: rotateTx_def Let_def split: if_split_asm dest!: insertAuthSession_D)
qed

lemma rotateTx_none: "rotateTx te t p now d = Inr (None, d') \<Longrightarrow> d' = d"
  by (auto simp: rotateTx_def Let_def split: option.splits if_split_asm)

lemma rotateTx_kept:
  assumes "rotateTx te t p now d = Inr (new, d')" and keys: "access_keys d"
  shows "grantView d' = grantView d" and "sessions_kept (authSessions d) (authSessions d')"
proof -
  have "grantView d' = grantView d \<and> sessions_kept (authSessions d) (authSessions d')"
  proof (cases new)
    case None
    then show ?thesis using rotateTx_none [of te t p now d d'] assms(1) by simp
  next
    case (Some tok)
    obtain s where s: "s \<in> set (authSessions d)" "refreshValid te t p now d s"
      and d': "d' = d\<lparr>acc_nextId := Suc (acc_nextId d), authSessions :=
       upd (\<lambda>x. ss_id x = ss_id s) (\<lambda>x. x\<lparr>ss_revokedAt := Some now, ss_lastUsedAt := Some now,
         ss_revokeReason := Some ''REFRESH_ROTATED''\<rparr>) (authSessions d) @
       [\<lparr>ss_id = acc_nextId d, ss_familyId = rp_familyId p, ss_refreshTokenHash = te_hash te tok,
         ss_expiresAt = now + REFRESH_TOKEN_TTL_MS, ss_lastUsedAt = None, ss_revokedAt = None, ss_revokeReason = None,
         ss_employeeId = rp_sub p\<rparr>]\<rparr>"
      by (rule rotateTx_effect [OF assms(1) [unfolded Some] keys]) blast
    let ?f = "\<lambda>x. x\<lparr>ss_revokedAt := Some now, ss_lastUsedAt := Some now, ss_revokeReason := Some ''REFRESH_ROTATED''\<rparr>"
    let ?u = "upd (\<lambda>x. ss_id x = ss_id s) ?f (authSessions d)"
    let ?s = "\<lparr>ss_id = acc_nextId d, ss_familyId = rp_familyId p, ss_refreshTokenHash = te_hash te tok,
         ss_expiresAt = now + REFRESH_TOKEN_TTL_MS, ss_lastUsedAt = None, ss_revokedAt = None, ss_revokeReason = None,
         ss_employeeId = rp_sub p\<rparr>"
    have sv: "ss_familyId s = rp_familyId p" "ss_employeeId s = rp_sub p" "liveSession s" using s(2) by (simp_all add: refreshValid_def)
    have k: "sessions_kept (authSessions d) ?u" by (rule kept_upd) (simp add: keepsSession_def liveSession_def)
    have other: "ss_employeeId x = rp_sub p \<and> \<not> liveSession x"
      if ok: "families_ok (authSessions d)" and x: "x \<in> set ?u" "ss_familyId x = rp_familyId p" for x
    proof -
      obtain y where y: "y \<in> set (authSessions d)" "x = (if ss_id y = ss_id s then ?f y else y)" by (rule mem_updE [OF x(1)])
      have fam: "ss_familyId y = ss_familyId s" using x(2) y(2) sv(1) by (simp split: if_split_asm)
      have "ss_employeeId y = ss_employeeId s \<and> (liveSession y \<and> liveSession s \<longrightarrow> ss_id y = ss_id s)"
        using ok s(1) y(1) fam unfolding families_ok_def by blast
      then show ?thesis using y(2) sv by (auto simp: liveSession_def)
    qed
    have "sessions_kept (authSessions d) (?u @ [?s])"
      unfolding sessions_kept_def
    proof (intro conjI impI ballI)
      fix x assume "x \<in> set (authSessions d)"
      then show "\<exists>y\<in>set (?u @ [?s]). keepsSession x y" using k unfolding sessions_kept_def by auto
    next
      assume ok: "families_ok (authSessions d)"
      show "families_ok (?u @ [?s])"
        by (rule families_new) (use k ok other [OF ok] in \<open>simp_all add: sessions_kept_def\<close>)
    qed
    then show ?thesis by (simp add: d')
  qed
  then show "grantView d' = grantView d" and "sessions_kept (authSessions d) (authSessions d')" by simp_all
qed

lemma rotate_effect:
  assumes keys: "access_keys d"
  shows "grantView (snd (rotate te t now d)) = grantView d" and "sessions_kept (authSessions d) (authSessions (snd (rotate te t now d)))"
  using rotateTx_kept [OF _ keys, of te t] revoked_keeps(2) sessions_kept_trans
  by (fastforce simp: rotate_def split: sum.split option.split prod.split)+

lemma revoke_effect:
  "grantView (revoke te tok now d) = grantView d" "sessions_kept (authSessions d) (authSessions (revoke te tok now d))"
  by (auto simp: revoke_def revoked_keeps split: option.split sum.split)

lemma signIn_effect:
  assumes "signIn human te email pw now d = Inr (t, d')" and "access_keys d"
  shows "grantView d' = grantView d" and "sessions_kept (authSessions d) (authSessions d')"
  using assms createSession_effect by (auto simp: signIn_def)

lemma signInWithGoogle_effect:
  assumes "signInWithGoogle human te identity now d = Inr (t, d')" and "access_keys d"
  shows "grantView d' = grantView d" and "sessions_kept (authSessions d) (authSessions d')"
  using assms createSession_effect by (auto simp: signInWithGoogle_def)

lemma grantView_accounts:
  assumes "\<And>a. a \<in> set (accounts d) \<Longrightarrow> g a \<Longrightarrow>
    ac_id (f a) = ac_id a \<and> ac_isActive (f a) = ac_isActive a \<and> ac_deletedAt (f a) = ac_deletedAt a"
  shows "grantView (d\<lparr>accounts := upd g f (accounts d)\<rparr>) = grantView d"
  using alive_upd_same [OF assms] by (simp add: grantView_def)

lemma link_effect:
  "linkGoogle lower te e pw identity now d = Inr d' \<Longrightarrow> grantView d' = grantView d \<and> authSessions d' = authSessions d"
  by (auto simp: linkGoogle_def Let_def intro!: grantView_accounts split: if_split_asm)

lemma unlink_effect:
  assumes "unlinkGoogle te e pw now d = Inr d'"
  shows "grantView d' = grantView d" and "sessions_kept (authSessions d) (authSessions d')"
proof -
  have "grantView d' = grantView d \<and> sessions_kept (authSessions d) (authSessions d')"
    using assms revoked_keeps(1) [of "d\<lparr>accounts := _\<rparr>"]
    by (auto simp: unlinkGoogle_def Let_def intro!: grantView_accounts split: if_split_asm)
  then show "grantView d' = grantView d" and "sessions_kept (authSessions d) (authSessions d')" by simp_all
qed

lemma requestReset_effect:
  "requestReset te email phone now d = Inr d' \<Longrightarrow> grantView d' = grantView d \<and> authSessions d' = authSessions d"
  by (auto simp: requestReset_def Let_def split: option.splits)

lemma resetPassword_effect:
  assumes "resetPassword te t pw now d = Inr d'"
  shows "grantView d' = grantView d" and "sessions_kept (authSessions d) (authSessions d')"
proof -
  obtain e g r where d': "d' = revokeSessions e r now (d\<lparr>resetTokens := upd g (\<lambda>x. x\<lparr>rt_usedAt := Some now\<rparr>) (resetTokens d),
             accounts := upd (\<lambda>a. ac_id a = e) (\<lambda>a. a\<lparr>ac_password := pw, ac_updatedAt := now\<rparr>) (accounts d)\<rparr>)"
    using assms by (auto simp: resetPassword_def Let_def)
  show "grantView d' = grantView d"
    using grantView_accounts [of "d\<lparr>resetTokens := upd g (\<lambda>x. x\<lparr>rt_usedAt := Some now\<rparr>) (resetTokens d)\<rparr>" "\<lambda>a. ac_id a = e"]
    by (simp add: d')
  show "sessions_kept (authSessions d) (authSessions d')"
    using revoked_keeps(1) [of "d\<lparr>resetTokens := upd g (\<lambda>x. x\<lparr>rt_usedAt := Some now\<rparr>) (resetTokens d),
             accounts := upd (\<lambda>a. ac_id a = e) (\<lambda>a. a\<lparr>ac_password := pw, ac_updatedAt := now\<rparr>) (accounts d)\<rparr>"]
    by (simp add: d')
qed

section \<open>Every step\<close>

text \<open>
  Who acts: an employee with some authority, somebody for themselves, or a newcomer who signs up. The
  routes of positions, custom permissions and new employees are guarded by permissions before the
  service is called.
\<close>

datatype who = Actor id | Self | Newcomer

inductive access_step :: "tokenEnv \<Rightarrow> (string \<Rightarrow> string) \<Rightarrow> who \<Rightarrow> accessDb \<Rightarrow> accessDb \<Rightarrow> bool" for te lower where
  create_role: "createRole inp a now d = Inr (i, d') \<Longrightarrow> access_keys d \<Longrightarrow> access_step te lower (Actor a) d d'"
| update_role: "updateRole i nm ds ver a now d = Inr d' \<Longrightarrow> access_keys d \<Longrightarrow> access_step te lower (Actor a) d d'"
| delete_role: "deleteRole i a now d = Inr d' \<Longrightarrow> access_keys d \<Longrightarrow> access_step te lower (Actor a) d d'"
| role_permissions: "replaceRolePermissions i ids ex a d = Inr d' \<Longrightarrow> access_keys d \<Longrightarrow> access_step te lower (Actor a) d d'"
| import_roles: "importRoles rows a now d = Inr (n, d') \<Longrightarrow> access_keys d \<Longrightarrow> access_step te lower (Actor a) d d'"
| create_position: "createPosition nm sal a d = Inr (i, d') \<Longrightarrow> access_keys d \<Longrightarrow> access_step te lower (Actor a) d d'"
| update_position: "updatePosition i nm' sal' a d = Inr d' \<Longrightarrow> access_keys d \<Longrightarrow> access_step te lower (Actor a) d d'"
| delete_position: "deletePosition i a now d = Inr d' \<Longrightarrow> access_keys d \<Longrightarrow> access_step te lower (Actor a) d d'"
| create_permission: "createPermission n key d = Inr (i, d') \<Longrightarrow> access_keys d \<Longrightarrow> access_step te lower (Actor a) d d'"
| update_permission: "updatePermission i nm key' d = Inr d' \<Longrightarrow> access_keys d \<Longrightarrow> access_step te lower (Actor a) d d'"
| delete_permission: "deletePermission i now d = Inr d' \<Longrightarrow> access_keys d \<Longrightarrow> access_step te lower (Actor a) d d'"
| create_employee: "createEmployee acc d = Inr (row, d') \<Longrightarrow> access_keys d \<Longrightarrow> access_step te lower (Actor a) d d'"
| update_employee: "updateEmployee i ch ver a now d = Inr d' \<Longrightarrow> access_keys d \<Longrightarrow> access_step te lower (Actor a) d d'"
| delete_employee: "deleteEmployee i a now d = Inr d' \<Longrightarrow> access_keys d \<Longrightarrow> access_step te lower (Actor a) d d'"
| employee_roles: "replaceEmployeeRoles i ids ex a d = Inr d' \<Longrightarrow> access_keys d \<Longrightarrow> access_step te lower (Actor a) d d'"
| sign_up: "signUp enabled production te si now d = Inr (t, d') \<Longrightarrow> access_keys d \<Longrightarrow> access_step te lower Newcomer d d'"
| sign_in: "signIn human te email pw now d = Inr (t, d') \<Longrightarrow> access_keys d \<Longrightarrow> access_step te lower Self d d'"
| sign_in_google: "signInWithGoogle human te identity now d = Inr (t, d') \<Longrightarrow> access_keys d \<Longrightarrow> access_step te lower Self d d'"
| refresh: "refreshToken te t now d = (res, d') \<Longrightarrow> access_keys d \<Longrightarrow> access_step te lower Self d d'"
| sign_out: "access_keys d \<Longrightarrow> access_step te lower Self d (revoke te tok now d)"
| link_google: "linkGoogle lower te e pw identity now d = Inr d' \<Longrightarrow> access_keys d \<Longrightarrow> access_step te lower Self d d'"
| unlink_google: "unlinkGoogle te e pw now d = Inr d' \<Longrightarrow> access_keys d \<Longrightarrow> access_step te lower Self d d'"
| forgot_password: "requestReset te em phone now d = Inr d' \<Longrightarrow> access_keys d \<Longrightarrow> access_step te lower Self d d'"
| reset_password: "resetPassword te t pw now d = Inr d' \<Longrightarrow> access_keys d \<Longrightarrow> access_step te lower Self d d'"

lemma position_effects:
  "createPosition nm sal a d = Inr (i, d') \<Longrightarrow> grantView d' = grantView d \<and> authSessions d' = authSessions d"
  "updatePosition i nm' sal' a d = Inr d' \<Longrightarrow> grantView d' = grantView d \<and> authSessions d' = authSessions d"
  "deletePosition i a now d = Inr d' \<Longrightarrow> grantView d' = grantView d \<and> authSessions d' = authSessions d"
  by (auto simp: createPosition_def updatePosition_def deletePosition_def assertActiveAccount_def assertActivePosition_def)

lemma signUp_effect:
  assumes "signUp enabled production te si now d = Inr (t, d')" and keys: "access_keys d"
  shows "hasOwner d \<Longrightarrow> hasOwner d'" and "sessions_kept (authSessions d) (authSessions d')"
proof -
  obtain row d2 where tx: "signUpTx si now d = Inr (row, d2)" and cs: "createSession te (ac_id row) (ac_email row) Unverified now d2 = Inr (t, d')"
    using assms(1) by (auto simp: signUp_def)
  obtain acc d1 where ins: "insertAccount acc d = Inr (row, d1)" and d2: "d2 = d1 \<or> (\<exists>er. d2 = d1\<lparr>employeeRoles := employeeRoles d1 @ [er]\<rparr>)"
    using tx by (clarsimp simp: signUpTx_def split: option.splits) blast+
  have d1: "authSessions d1 = authSessions d" "acc_nextId d1 = Suc (acc_nextId d)"
    using ins by (auto simp: insertAccount_def Let_def)
  have ss: "authSessions d2 = authSessions d" "acc_nextId d2 = Suc (acc_nextId d)" using d2 d1 by auto
  have "ss_familyId s < acc_nextId d2" if "s \<in> set (authSessions d2)" for s
    using keys that by (auto simp: access_keys_def ss less_SucI)
  note c = createSession_fresh [OF cs this]
  show "hasOwner d \<Longrightarrow> hasOwner d'"
  proof -
    assume "hasOwner d"
    then have "hasOwner d1" by (rule insertAccount_grants(2) [OF ins keys])
    then have "hasOwner d2" using d2 by (auto simp: hasOwner_def) blast+
    then show "hasOwner d'" by (simp only: grantView_D(3) [OF c(1)])
  qed
  show "sessions_kept (authSessions d) (authSessions d')" using c(2) by (simp add: ss)
qed

text \<open>What each step does to grants, owners and sessions.\<close>

lemma refresh_effect:
  "refreshToken te t now d = (res, d') \<Longrightarrow> access_keys d \<Longrightarrow>
    grantView d' = grantView d \<and> sessions_kept (authSessions d) (authSessions d')"
  using rotate_effect [of d te t now] by (auto simp: refreshToken_def split: if_split_asm)

lemma createEmployee_D: "createEmployee acc d = Inr (row, d') \<Longrightarrow> insertAccount acc d = Inr (row, d')"
  by (simp add: createEmployee_def assertActivePosition_def)

lemma step_no_gain:
  assumes "access_step te lower (Actor a) d d'"
  shows "no_gain a d d'"
  using assms
  by (cases rule: access_step.cases)
     (auto intro: createRole_grants updateRole_grants deleteRole_grants replaceRolePermissions_grants importRoles_grants
        createPermission_grants updatePermission_grants deletePermission_grants insertAccount_grants(1) updateEmployee_grants
        deleteEmployee_grants replaceEmployeeRoles_grants grantView_D(2) dest: position_effects createEmployee_D)

lemma step_self:
  assumes "access_step te lower Self d d'"
  shows "grantView d' = grantView d"
  using assms
  by (cases rule: access_step.cases)
     (auto dest: signIn_effect(1) signInWithGoogle_effect(1) refresh_effect link_effect unlink_effect(1) requestReset_effect
        resetPassword_effect(1) simp: revoke_effect)

lemma step_owner:
  assumes "access_step te lower w d d'" and "hasOwner d"
  shows "hasOwner d'"
proof (cases w)
  case Self
  then show ?thesis using grantView_D(3) [OF step_self] assms by metis
next
  case Newcomer
  show ?thesis using assms(1) [unfolded Newcomer] assms(2) by (cases rule: access_step.cases) (auto intro: signUp_effect(1))
next
  case (Actor a)
  show ?thesis
    using assms(1) [unfolded Actor] assms(2)
    by (cases rule: access_step.cases)
       (auto intro: createRole_grants updateRole_grants deleteRole_grants replaceRolePermissions_grants importRoles_grants
        createPermission_grants updatePermission_grants deletePermission_grants insertAccount_grants(2) updateEmployee_grants
        deleteEmployee_grants replaceEmployeeRoles_grants grantView_D(3) [THEN iffD2] dest: position_effects createEmployee_D)
qed

lemma admin_sessions:
  "createRole inp a now d = Inr (i, d') \<Longrightarrow> authSessions d' = authSessions d"
  "updateRole i nm ds ver a now d = Inr d' \<Longrightarrow> authSessions d' = authSessions d"
  "deleteRole i a now d = Inr d' \<Longrightarrow> authSessions d' = authSessions d"
  "replaceRolePermissions i ids ex a d = Inr d' \<Longrightarrow> authSessions d' = authSessions d"
  "importRoles rows a now d = Inr (n, d') \<Longrightarrow> authSessions d' = authSessions d"
  "createPermission nm' key d = Inr (i, d') \<Longrightarrow> authSessions d' = authSessions d"
  "updatePermission i nm'' key' d = Inr d' \<Longrightarrow> authSessions d' = authSessions d"
  "deletePermission i now d = Inr d' \<Longrightarrow> authSessions d' = authSessions d"
  "createEmployee acc d = Inr (row, d') \<Longrightarrow> authSessions d' = authSessions d"
  "replaceEmployeeRoles i ids ex a d = Inr d' \<Longrightarrow> authSessions d' = authSessions d"
  "updateEmployee i ch ver a now d = Inr d' \<Longrightarrow> sessions_kept (authSessions d) (authSessions d')"
  "deleteEmployee i a now d = Inr d' \<Longrightarrow> sessions_kept (authSessions d) (authSessions d')"
proof -
  show "updateEmployee i ch ver a now d = Inr d' \<Longrightarrow> sessions_kept (authSessions d) (authSessions d')"
    by (erule updateEmployee_effect) (use revoked_keeps(1) [of "d\<lparr>accounts := _\<rparr>"] in auto)
  show "deleteEmployee i a now d = Inr d' \<Longrightarrow> sessions_kept (authSessions d) (authSessions d')"
    by (auto simp: deleteEmployee_def withActor_Inr Let_def assertOwnerRemains_def revoked_keeps elim!: loadManaged_D)
  show "importRoles rows a now d = Inr (n, d') \<Longrightarrow> authSessions d' = authSessions d"
    by (auto simp: importRoles_def withActor_Inr dest!: insertRoles_effect split: prod.splits if_split_asm)
qed (auto simp: createRole_def updateRole_def deleteRole_def replaceRolePermissions_def createPermission_def updatePermission_def
    deletePermission_def createEmployee_def insertAccount_def replaceEmployeeRoles_def withActor_Inr Let_def assertOwnerRemains_def
    assertCanGrantPermissions_def expectIds_def ensureRoleNameAvailable_def ensurePermissionKeyAvailable_def assertActivePosition_def
    elim!: loadManagedRole_D loadManaged_D split: option.splits if_split_asm)

lemma step_sessions:
  assumes "access_step te lower w d d'"
  shows "sessions_kept (authSessions d) (authSessions d')"
proof (cases w)
  case Self
  show ?thesis
    using assms [unfolded Self]
    by (cases rule: access_step.cases)
       (auto dest: signIn_effect(2) signInWithGoogle_effect(2) refresh_effect link_effect unlink_effect(2) requestReset_effect
          resetPassword_effect(2) simp: revoke_effect)
next
  case Newcomer
  show ?thesis using assms [unfolded Newcomer] by (cases rule: access_step.cases) (auto intro: signUp_effect(2))
next
  case (Actor a)
  show ?thesis
    using assms [unfolded Actor]
    by (cases rule: access_step.cases) (auto dest: admin_sessions position_effects)
qed

text \<open>The properties of accounts, roles and sessions, and a small shop in which they are seen.\<close>

section \<open>Delegation\<close>

text \<open>The steps of a group of employees, and of anybody for themselves.\<close>

definition inGroup :: "id set \<Rightarrow> who \<Rightarrow> bool" where
  "inGroup A w \<longleftrightarrow> (case w of Actor a \<Rightarrow> a \<in> A | Self \<Rightarrow> True | Newcomer \<Rightarrow> False)"

definition group_step :: "tokenEnv \<Rightarrow> (string \<Rightarrow> string) \<Rightarrow> id set \<Rightarrow> accessDb \<Rightarrow> accessDb \<Rightarrow> bool" where
  "group_step te lower A d d' \<longleftrightarrow> (\<exists>w. inGroup A w \<and> access_step te lower w d d')"

definition any_step :: "tokenEnv \<Rightarrow> (string \<Rightarrow> string) \<Rightarrow> accessDb \<Rightarrow> accessDb \<Rightarrow> bool" where
  "any_step te lower d d' \<longleftrightarrow> (\<exists>w. access_step te lower w d d')"

lemma group_step_gain:
  assumes "group_step te lower A d d'" and "isSystemPermissionKey k" and "hasPermission k e d'"
  shows "hasPermission k e d \<or> (\<exists>a\<in>A. hasPermission k a d)"
proof -
  obtain w where w: "inGroup A w" "access_step te lower w d d'" using assms(1) by (auto simp: group_step_def)
  show ?thesis
  proof (cases w)
    case (Actor a)
    then show ?thesis using step_no_gain [of te lower a d d'] w assms(2,3) by (auto simp: inGroup_def no_gain_def)
  next
    case Self
    then show ?thesis using grantView_D(1) [OF step_self [of te lower d d']] w assms(3) by simp
  qed (use w in \<open>simp add: inGroup_def\<close>)
qed

text \<open>The sample: an owner (1), a cashier (2) and somebody without a role (3).\<close>

definition sample_account :: "id \<Rightarrow> string \<Rightarrow> account" where
  "sample_account i email = \<lparr>ac_id = i, ac_email = email, ac_username = email, ac_phoneNumber = None, ac_password = ''h'',
     ac_googleSubject = None, ac_isActive = True, ac_deletedAt = None, ac_updatedAt = 0, ac_positionId = 5\<rparr>"

definition staff :: accessDb where
  "staff = \<lparr>acc_nextId = 50, accounts = [sample_account 1 ''a@x'', sample_account 2 ''b@x'', sample_account 3 ''c@x''],
     roles = [\<lparr>ro_id = 10, ro_name = OWNER, ro_description = None, ro_isSystemRole = True, ro_updatedAt = 0, ro_deletedAt = None\<rparr>,
       \<lparr>ro_id = 11, ro_name = ''CASHIER'', ro_description = None, ro_isSystemRole = True, ro_updatedAt = 0, ro_deletedAt = None\<rparr>],
     permissions = [\<lparr>pe_id = 20, pe_name = ''roles'', pe_key = ''/employees_roles_update'', pe_isSystem = True, pe_deletedAt = None\<rparr>,
       \<lparr>pe_id = 21, pe_name = ''pay'', pe_key = ''/invoices_pay'', pe_isSystem = True, pe_deletedAt = None\<rparr>],
     employeeRoles = [(1, 10), (2, 11)], rolePermissions = [(10, 20), (10, 21), (11, 21)], positions = [], authSessions = [],
     resetTokens = [], resetMails = [], accessLog = []\<rparr>"

definition staff_hired :: accessDb where
  "staff_hired = value_of (replaceEmployeeRoles 3 [11] None 1 staff)"

lemmas staff_eval = staff_def sample_account_def replaceEmployeeRoles_def withActor_def getFreshAuthorizationContext_def
  activeAccount_def employeeRoleRows_def rolePermissionRows_def roleKeys_def canGrantPermissions_def assertCanGrantPermissions_def
  loadManagedEmployee_def findAccount_def findRoles_def expectIds_def assertOwnerRemains_def isOwner_def ownerRole_def OWNER_def
  Let_def logAccess_def

lemma staff_hired_ok: "replaceEmployeeRoles 3 [11] None 1 staff = Inr staff_hired"
proof -
  have "ok (replaceEmployeeRoles 3 [11] None 1 staff)" by (simp add: staff_eval)
  then show ?thesis by (simp add: staff_hired_def ok_value_of)
qed

lemma staff_keys: "access_keys staff"
  by (simp add: access_keys_def staff_def sample_account_def)

lemma staff_step: "access_step te lower (Actor 1) staff staff_hired"
  by (rule access_step.employee_roles [OF staff_hired_ok staff_keys])

text \<open>C5: Nobody can hand out what they do not have. Whatever a group of employees does together, in any
  order, with roles, their permissions, employees and sessions, and whatever anybody does with their
  own account: a permission that the guards of the routes ask for and that an employee has
  afterwards, the employee had before, or somebody of the group had. In particular nobody widens
  their own access. (Signing up, which gives the waiter's role and is off in production, is aside.)\<close>

theorem no_escalation:
  assumes "(group_step te lower A)\<^sup>*\<^sup>* d d'" and "isSystemPermissionKey k" and "hasPermission k e d'"
  shows "hasPermission k e d \<or> (\<exists>a\<in>A. hasPermission k a d)"
  using assms(1,3)
proof (induction arbitrary: e rule: rtranclp_induct)
  case (step d1 d2)
  then show ?case using group_step_gain [OF step.hyps(2) assms(2)] by blast
qed simp

theorem no_escalation_witness: "hasPermission ''/invoices_pay'' 1 staff \<or> hasPermission ''/invoices_pay'' 3 staff"
proof -
  have "(group_step te lower {1})\<^sup>*\<^sup>* staff staff_hired" for te and lower :: "string \<Rightarrow> string"
    unfolding group_step_def
    by (intro r_into_rtranclp [of "\<lambda>d d'. \<exists>w. inGroup {1} w \<and> access_step te lower w d d'"] exI [of _ "Actor 1"] conjI staff_step)
      (simp add: inGroup_def)
  moreover have "isSystemPermissionKey ''/invoices_pay''" by (simp add: isSystemPermissionKey_def PermissionKeys_def)
  moreover have "hasPermission ''/invoices_pay'' 3 staff_hired"
    by (simp add: hasPermission_def staff_hired_def staff_eval)
  ultimately show ?thesis using no_escalation [of undefined undefined "{1}" staff staff_hired "''/invoices_pay''" 3] by blast
qed

text \<open>C6: The shop always has an owner who can get in: if some active employee has the system's OWNER
  role, then after any operations of anybody some active employee has it.\<close>

theorem owner_remains:
  assumes "(any_step te lower)\<^sup>*\<^sup>* d d'" and "\<exists>a\<in>set (accounts d). ac_isActive a \<and> ac_deletedAt a = None \<and> isOwner (ac_id a) d"
  shows "\<exists>a\<in>set (accounts d'). ac_isActive a \<and> ac_deletedAt a = None \<and> isOwner (ac_id a) d'"
proof -
  have iff: "hasOwner x \<longleftrightarrow> (\<exists>a\<in>set (accounts x). ac_isActive a \<and> ac_deletedAt a = None \<and> isOwner (ac_id a) x)" for x
    unfolding hasOwner_def isOwner_iff alive_def by blast
  from assms(1) have "hasOwner d'"
  proof (induction rule: rtranclp_induct)
    case base
    then show ?case using assms(2) iff by blast
  next
    case (step d1 d2)
    then show ?case using step_owner unfolding any_step_def by blast
  qed
  then show ?thesis using iff by blast
qed

theorem owner_remains_witness: "\<exists>a\<in>set (accounts staff_hired). ac_isActive a \<and> ac_deletedAt a = None \<and> isOwner (ac_id a) staff_hired"
proof -
  have "(any_step te lower)\<^sup>*\<^sup>* staff staff_hired" for te and lower :: "string \<Rightarrow> string"
    unfolding any_step_def
    by (intro r_into_rtranclp [of "\<lambda>d d'. \<exists>w. access_step te lower w d d'"] exI [of _ "Actor 1"] staff_step)
  moreover have "\<exists>a\<in>set (accounts staff). ac_isActive a \<and> ac_deletedAt a = None \<and> isOwner (ac_id a) staff" by (simp add: staff_eval)
  ultimately show ?thesis by (rule owner_remains [of undefined undefined])
qed

end
