(* ===== verification/Session_Claims.thy ===== *)
theory Session_Claims
  imports Access_System
begin

text \<open>The properties of sessions and refresh tokens, and a run in which a stolen token is used.\<close>

section \<open>The token of a family\<close>

text \<open>The abstraction: what a family of sessions accepts, as the hash of the one token it does.\<close>

definition familyToken :: "id \<Rightarrow> accessDb \<Rightarrow> string option" where
  "familyToken f d = map_option ss_refreshTokenHash (find (\<lambda>s. ss_familyId s = f \<and> liveSession s) (authSessions d))"

lemma familyToken_None: "familyToken f d = None \<longleftrightarrow> (\<forall>s\<in>set (authSessions d). ss_familyId s = f \<longrightarrow> \<not> liveSession s)"
  by (auto simp: familyToken_def find_None_iff)

lemma familyToken_Some:
  assumes ok: "families_ok (authSessions d)" and ids: "distinct (map ss_id (authSessions d))"
    and s: "s \<in> set (authSessions d)" "ss_familyId s = f" "liveSession s"
  shows "familyToken f d = Some (ss_refreshTokenHash s)"
proof -
  let ?P = "\<lambda>s. ss_familyId s = f \<and> liveSession s"
  obtain t where t: "find ?P (authSessions d) = Some t"
  proof (cases "find ?P (authSessions d)")
    case None
    then have "\<not> ?P s" using s(1) unfolding find_None_iff by blast
    then show ?thesis using s by simp
  qed (rule that)
  have tt: "t \<in> set (authSessions d)" "ss_familyId t = f" "liveSession t" using find_SomeD [OF t] by blast+
  then have "ss_id t = ss_id s" using ok [unfolded families_ok_def, rule_format, OF tt(1) s(1)] s tt by simp
  then have "t = s" by (rule distinct_key_eq [OF ids tt(1) s(1)])
  then show ?thesis using t by (simp add: familyToken_def)
qed

lemma find_upd_other:
  "(\<And>x. x \<in> set t \<Longrightarrow> g x \<Longrightarrow> \<not> P x \<and> \<not> P (u x)) \<Longrightarrow> find P (upd g u t) = find P t"
  by (induction t) auto

lemma find_append_other: "\<not> P y \<Longrightarrow> find P (xs @ [y]) = find P xs"
  by (induction xs) auto

lemma families_reachable:
  "(any_step te lower)\<^sup>*\<^sup>* d d' \<Longrightarrow> families_ok (authSessions d) \<Longrightarrow> families_ok (authSessions d')"
  by (induction rule: rtranclp_induct) (auto simp: any_step_def sessions_kept_def dest: step_sessions)

text \<open>C12: Refresh tokens refine a register. In every reachable state a family of sessions is a register that
  holds at most one token. Rotating a token whose family belongs to the employee it names reads and writes the
  register in one step: it answers with a new token only when the token that was shown was the one in the register,
  which holds the new one from then on; when the token is refused the register is empty afterwards; any other error
  changes nothing. The registers of other families are not touched.\<close>

theorem rotation_is_register:
  assumes "(any_step te lower)\<^sup>*\<^sup>* d0 d" and "families_ok (authSessions d0)" and keys: "access_keys d"
    and p: "verifyRefreshToken te t now = Inr p"
    and own: "\<forall>s\<in>set (authSessions d). ss_familyId s = rp_familyId p \<longrightarrow> ss_employeeId s = rp_sub p"
    and r: "rotate te t now d = (r, d')"
  shows "(case r of
      Inr new \<Rightarrow> familyToken (rp_familyId p) d = Some (te_hash te t) \<and> familyToken (rp_familyId p) d' = Some (te_hash te new)
    | Inl (Unauthorized _) \<Rightarrow> familyToken (rp_familyId p) d' = None
    | Inl _ \<Rightarrow> d' = d) \<and> (\<forall>f. f \<noteq> rp_familyId p \<longrightarrow> familyToken f d' = familyToken f d)"
proof -
  have ok: "families_ok (authSessions d)" by (rule families_reachable [OF assms(1,2)])
  have ids: "distinct (map ss_id (authSessions d))" using keys by (simp add: access_keys_def)
  consider (err) e where "rotateTx te t p now d = Inl e" "r = Inl e" "d' = d"
    | (no) "rotateTx te t p now d = Inr (None, d)" "r = Inl (Unauthorized ''token'')"
        "d' = revokeFamily (rp_sub p) (rp_familyId p) ''REFRESH_REUSE'' now d"
    | (yes) new where "rotateTx te t p now d = Inr (Some new, d')" "r = Inr new"
  proof (cases "rotateTx te t p now d")
    case (Inl e)
    moreover have "(r, d') = (Inl e, d)" unfolding r [symmetric] by (simp add: rotate_def p Inl)
    ultimately show ?thesis using that(1) by blast
  next
    case (Inr b)
    then obtain x d2 where x: "rotateTx te t p now d = Inr (x, d2)" by (cases b) simp
    show ?thesis
    proof (cases x)
      case None
      then have "d2 = d" using rotateTx_none x by blast
      then have "(r, d') = (Inl (Unauthorized ''token''), revokeFamily (rp_sub p) (rp_familyId p) ''REFRESH_REUSE'' now d)"
        unfolding r [symmetric] using x None by (simp add: rotate_def p)
      then show ?thesis using that(2) x None \<open>d2 = d\<close> by blast
    next
      case (Some new)
      then have "(r, d') = (Inr new, d2)" unfolding r [symmetric] using x by (simp add: rotate_def p)
      then show ?thesis using that(3) x Some by blast
    qed
  qed
  then show ?thesis
  proof cases
    case err
    have "e = UniqueViolation ''AuthSession''"
      using err(1) by (auto simp: rotateTx_def Let_def insertAuthSession_def require_Inl_iff andThen_Inl_iff split: option.splits if_split_asm)
    then show ?thesis using err by simp
  next
    case no
    have "familyToken (rp_familyId p) d' = None"
      using own by (auto simp: familyToken_None no(3) revokeFamily_def set_upd liveSession_def)
    moreover have "familyToken f d' = familyToken f d" if "f \<noteq> rp_familyId p" for f
      unfolding familyToken_def no(3) revokeFamily_def
      using that by (simp, intro arg_cong [where f = "map_option ss_refreshTokenHash"] find_upd_other) auto
    ultimately show ?thesis using no(2) by simp
  next
    case yes
    obtain s where s: "s \<in> set (authSessions d)" "ss_id s = rp_sid p" "refreshValid te t p now d s"
      and d': "d' = d\<lparr>acc_nextId := Suc (acc_nextId d), authSessions :=
       upd (\<lambda>x. ss_id x = ss_id s) (\<lambda>x. x\<lparr>ss_revokedAt := Some now, ss_lastUsedAt := Some now,
         ss_revokeReason := Some ''REFRESH_ROTATED''\<rparr>) (authSessions d) @
       [\<lparr>ss_id = acc_nextId d, ss_familyId = rp_familyId p, ss_refreshTokenHash = te_hash te new,
         ss_expiresAt = now + REFRESH_TOKEN_TTL_MS, ss_lastUsedAt = None, ss_revokedAt = None, ss_revokeReason = None,
         ss_employeeId = rp_sub p\<rparr>]\<rparr>"
      by (rule rotateTx_effect [OF yes(1) keys]) blast
    let ?f = "\<lambda>x. x\<lparr>ss_revokedAt := Some now, ss_lastUsedAt := Some now, ss_revokeReason := Some ''REFRESH_ROTATED''\<rparr>"
    let ?n = "\<lparr>ss_id = acc_nextId d, ss_familyId = rp_familyId p, ss_refreshTokenHash = te_hash te new,
         ss_expiresAt = now + REFRESH_TOKEN_TTL_MS, ss_lastUsedAt = None, ss_revokedAt = None, ss_revokeReason = None,
         ss_employeeId = rp_sub p\<rparr>"
    have sv: "ss_familyId s = rp_familyId p" "liveSession s" "ss_refreshTokenHash s = te_hash te t"
      using s(3) by (simp_all add: refreshValid_def tokenHashMatches_def)
    have same: "x = s" if "x \<in> set (authSessions d)" "ss_id x = ss_id s" for x by (rule distinct_key_eq [OF ids that(1) s(1) that(2)])
    have ss: "authSessions d' = upd (\<lambda>x. ss_id x = ss_id s) ?f (authSessions d) @ [?n]" by (simp add: d')
    have "familyToken (rp_familyId p) d = Some (te_hash te t)" using familyToken_Some [OF ok ids s(1) sv(1,2)] sv(3) by simp
    moreover have "familyToken (rp_familyId p) d' = Some (te_hash te new)"
    proof -
      have "families_ok (authSessions d')" using rotateTx_kept(2) [OF yes(1) keys] ok by (simp add: sessions_kept_def)
      moreover have "map ss_id (upd (\<lambda>x. ss_id x = ss_id s) ?f (authSessions d)) = map ss_id (authSessions d)" unfolding upd_def by simp
      then have "distinct (map ss_id (authSessions d'))" using keys by (auto simp: ss access_keys_def)
      ultimately have "familyToken (rp_familyId p) d' = Some (ss_refreshTokenHash ?n)"
        by (rule familyToken_Some) (simp_all add: ss liveSession_def)
      then show ?thesis by simp
    qed
    moreover have "familyToken f d' = familyToken f d" if f: "f \<noteq> rp_familyId p" for f
    proof -
      have "find (\<lambda>x. ss_familyId x = f \<and> liveSession x) (authSessions d') =
          find (\<lambda>x. ss_familyId x = f \<and> liveSession x) (upd (\<lambda>x. ss_id x = ss_id s) ?f (authSessions d))"
        unfolding ss by (rule find_append_other) (use f in simp)
      also have "\<dots> = find (\<lambda>x. ss_familyId x = f \<and> liveSession x) (authSessions d)"
        by (rule find_upd_other) (use same sv(1) f in \<open>auto simp: liveSession_def\<close>)
      finally show ?thesis by (simp add: familyToken_def)
    qed
    ultimately show ?thesis using yes(2) by simp
  qed
qed

section \<open>Stolen tokens\<close>

lemma step_keeps:
  "(any_step te lower)\<^sup>*\<^sup>* d d' \<Longrightarrow> s \<in> set (authSessions d) \<Longrightarrow> \<exists>s'\<in>set (authSessions d'). keepsSession s s'"
proof (induction arbitrary: s rule: rtranclp_induct)
  case base
  then show ?case by (blast intro: keepsSession_refl)
next
  case (step d1 d2)
  then obtain s1 where "s1 \<in> set (authSessions d1)" "keepsSession s s1" by blast
  moreover obtain s2 where "s2 \<in> set (authSessions d2)" "keepsSession s1 s2"
    using step.hyps(2) step_sessions calculation(1) unfolding any_step_def sessions_kept_def by blast
  ultimately show ?case using keepsSession_trans by blast
qed

text \<open>C13: A refresh token works once, and using it twice ends the session. After a token was rotated, and
  whatever happens then, showing it again (while its signature still verifies, as the same payload) is
  refused, and leaves no live session of that employee in its family: neither the one who copied the
  token nor the one it was copied from stays signed in.\<close>

theorem rotated_token_is_dead:
  assumes "refreshToken te t now d = (Inr new, d1)" and "access_keys d"
    and "verifyRefreshToken te t now = Inr p" and "(any_step te lower)\<^sup>*\<^sup>* d1 d2" and "access_keys d2"
    and "verifyRefreshToken te t later = Inr p" and "refreshToken te t later d2 = (r, d3)"
  shows "r = Inl (Unauthorized ''token'') \<and>
    (\<forall>s\<in>set (authSessions d3). ss_employeeId s = rp_sub p \<and> ss_familyId s = rp_familyId p \<longrightarrow> \<not> liveSession s)"
proof -
  have t: "t \<noteq> []" and rot: "rotate te t now d = (Inr new, d1)" using assms(1) by (auto simp: refreshToken_def split: if_split_asm)
  then have tx: "rotateTx te t p now d = Inr (Some new, d1)"
    using assms(3) by (auto simp: rotate_def split: sum.splits option.splits prod.splits)
  obtain s where s: "s \<in> set (authSessions d)" "ss_id s = rp_sid p"
    and d1: "d1 = d\<lparr>acc_nextId := Suc (acc_nextId d), authSessions :=
       upd (\<lambda>x. ss_id x = ss_id s) (\<lambda>x. x\<lparr>ss_revokedAt := Some now, ss_lastUsedAt := Some now,
         ss_revokeReason := Some ''REFRESH_ROTATED''\<rparr>) (authSessions d) @
       [\<lparr>ss_id = acc_nextId d, ss_familyId = rp_familyId p, ss_refreshTokenHash = te_hash te new,
         ss_expiresAt = now + REFRESH_TOKEN_TTL_MS, ss_lastUsedAt = None, ss_revokedAt = None, ss_revokeReason = None,
         ss_employeeId = rp_sub p\<rparr>]\<rparr>"
    by (rule rotateTx_effect [OF tx assms(2)]) blast
  let ?s = "s\<lparr>ss_revokedAt := Some now, ss_lastUsedAt := Some now, ss_revokeReason := Some ''REFRESH_ROTATED''\<rparr>"
  have "?s \<in> set (authSessions d1)" using s(1) by (force simp: d1 set_upd)
  then obtain s2 where s2: "s2 \<in> set (authSessions d2)" "keepsSession ?s s2" using step_keeps [OF assms(4)] by blast
  then have dead: "ss_id s2 = rp_sid p" "\<not> liveSession s2" using s(2) by (auto simp: keepsSession_def liveSession_def)
  have "find (\<lambda>s. ss_id s = rp_sid p) (authSessions d2) = Some s2"
    using find_unique [of ss_id "authSessions d2" s2 "rp_sid p"] assms(5) s2(1) dead(1) by (simp add: access_keys_def)
  then have "rotateTx te t p later d2 = Inr (None, d2)" using dead(2) by (simp add: rotateTx_def refreshValid_def)
  then have r: "r = Inl (Unauthorized ''token'')" "d3 = revokeFamily (rp_sub p) (rp_familyId p) ''REFRESH_REUSE'' later d2"
    using assms(6,7) t by (simp_all add: refreshToken_def rotate_def)
  then show ?thesis by (auto simp: revokeFamily_def set_upd liveSession_def)
qed

section \<open>A run\<close>

text \<open>A token that is as long as the id of its session; the cashier signs in and refreshes.\<close>

definition sample_env :: tokenEnv where
  "sample_env = \<lparr>te_sign = (\<lambda>p now. case tp_sid p of None \<Rightarrow> [] | Some i \<Rightarrow> replicate i CHR ''x''),
     te_verify = (\<lambda>t now. Some \<lparr>tp_tokenType = ''refresh'', tp_sub = Some 2, tp_email = ''b@x'', tp_sid = Some (length t),
       tp_familyId = Some 51\<rparr>), te_hash = (\<lambda>t. t), te_compare = (\<lambda>pw h. True), te_resetToken = (\<lambda>i. [])\<rparr>"

definition token :: "nat \<Rightarrow> string" where "token n = replicate n CHR ''x''"

definition staff_in :: accessDb where
  "staff_in = snd (value_of (signIn True sample_env ''b@x'' ''secret'' 100 staff))"

definition staff_fresh :: accessDb where
  "staff_fresh = snd (refreshToken sample_env (token 50) 200 staff_in)"

lemmas session_eval = signIn_def accountBy_def createSession_def createRefreshToken_def insertAuthSession_def credentialHolds_def
  activeAccount_def sample_env_def staff_def sample_account_def Let_def

lemma staff_in_simps:
  "signIn True sample_env ''b@x'' ''secret'' 100 staff = Inr (token 50, staff_in)"
  "authSessions staff_in = [\<lparr>ss_id = 50, ss_familyId = 51, ss_refreshTokenHash = token 50, ss_expiresAt = 100 + REFRESH_TOKEN_TTL_MS,
     ss_lastUsedAt = None, ss_revokedAt = None, ss_revokeReason = None, ss_employeeId = 2\<rparr>]"
  "accounts staff_in = accounts staff" "acc_nextId staff_in = 52"
  "access_keys staff_in"
  by (simp_all add: staff_in_def session_eval token_def access_keys_def)

lemma token_simps [simp]:
  "length (token n) = n" "token m = token n \<longleftrightarrow> m = n" "token n = [] \<longleftrightarrow> n = 0"
  by (simp_all add: token_def)

lemma sample_verifies:
  "verifyRefreshToken sample_env (token 50) now = Inr \<lparr>rp_sub = 2, rp_email = ''b@x'', rp_sid = 50, rp_familyId = 51\<rparr>"
  by (simp add: verifyRefreshToken_def sample_env_def)

lemma sample_session_valid:
  "s \<in> set (authSessions staff_in) \<Longrightarrow>
   refreshValid sample_env (token 50) \<lparr>rp_sub = 2, rp_email = ''b@x'', rp_sid = 50, rp_familyId = 51\<rparr> 200 staff_in s"
  by (simp add: staff_in_simps refreshValid_def tokenHashMatches_def liveSession_def REFRESH_TOKEN_TTL_MS_def)
    (simp add: staff_def sample_account_def sample_env_def)

lemma sample_signs: "createRefreshToken sample_env p now = token (rp_sid p)" "te_hash sample_env t = t"
  by (simp_all add: createRefreshToken_def sample_env_def token_def)

lemma staff_fresh_simps:
  "refreshToken sample_env (token 50) 200 staff_in = (Inr (token 52), staff_fresh)"
proof -
  have "fst (refreshToken sample_env (token 50) 200 staff_in) = Inr (token 52)"
    using sample_session_valid
    by (simp add: refreshToken_def rotate_def sample_verifies rotateTx_def staff_in_simps sample_signs
        insertAuthSession_def cnt_def upd_def REFRESH_TOKEN_TTL_MS_def Let_def)
  then show ?thesis by (simp add: staff_fresh_def prod_eq_iff)
qed

lemma staff_fresh_eq:
  "staff_fresh = staff_in\<lparr>acc_nextId := 53, authSessions :=
     [\<lparr>ss_id = 50, ss_familyId = 51, ss_refreshTokenHash = token 50, ss_expiresAt = 100 + REFRESH_TOKEN_TTL_MS,
       ss_lastUsedAt = Some 200, ss_revokedAt = Some 200, ss_revokeReason = Some ''REFRESH_ROTATED'', ss_employeeId = 2\<rparr>,
      \<lparr>ss_id = 52, ss_familyId = 51, ss_refreshTokenHash = token 52, ss_expiresAt = 200 + REFRESH_TOKEN_TTL_MS,
       ss_lastUsedAt = None, ss_revokedAt = None, ss_revokeReason = None, ss_employeeId = 2\<rparr>]\<rparr>"
  using sample_session_valid unfolding staff_fresh_def
  by (simp add: refreshToken_def rotate_def sample_verifies rotateTx_def staff_in_simps sample_signs
      insertAuthSession_def cnt_def upd_def REFRESH_TOKEN_TTL_MS_def Let_def)

lemma staff_fresh_keys: "access_keys staff_fresh"
  using staff_in_simps(4,5) by (auto simp: staff_fresh_eq access_keys_def)

lemma staff_in_ok: "families_ok (authSessions staff_in)" "access_keys staff_in"
  by (simp add: staff_in_simps families_ok_def, rule staff_in_simps(5))

theorem rotation_is_register_witness:
  "familyToken 51 staff_in = Some (token 50) \<and> familyToken 51 staff_fresh = Some (token 52)"
proof -
  have v: "verifyRefreshToken sample_env (token 50) 200 = Inr \<lparr>rp_sub = 2, rp_email = ''b@x'', rp_sid = 50, rp_familyId = 51\<rparr>"
    by (rule sample_verifies)
  have r: "rotate sample_env (token 50) 200 staff_in = (Inr (token 52), staff_fresh)"
    using staff_fresh_simps by (simp add: refreshToken_def)
  have own: "\<forall>s\<in>set (authSessions staff_in).
      ss_familyId s = rp_familyId \<lparr>rp_sub = 2, rp_email = ''b@x'', rp_sid = 50, rp_familyId = 51\<rparr> \<longrightarrow>
      ss_employeeId s = rp_sub \<lparr>rp_sub = 2, rp_email = ''b@x'', rp_sid = 50, rp_familyId = 51\<rparr>"
    by (simp add: staff_in_simps(2))
  show ?thesis
    using rotation_is_register [OF rtranclp.rtrancl_refl staff_in_ok v own r] by (simp add: sample_signs)
qed

text \<open>The token 50 is shown a second time, at 300: the session of its family, and the new token with it, ends.\<close>

theorem rotated_token_is_dead_witness:
  "fst (refreshToken sample_env (token 50) 300 staff_fresh) = Inl (Unauthorized ''token'')"
proof -
  obtain r d3 where rd: "refreshToken sample_env (token 50) 300 staff_fresh = (r, d3)" by (cases "refreshToken sample_env (token 50) 300 staff_fresh") simp
  have "r = Inl (Unauthorized ''token'')"
    using rotated_token_is_dead [OF staff_fresh_simps staff_in_ok(2) sample_verifies rtranclp.rtrancl_refl staff_fresh_keys
        sample_verifies rd] by blast
  then show ?thesis using rd by simp
qed

end
