(* ===== verification/Reservations.thy ===== *)
theory Reservations
  imports Orders "HOL-Library.List_Lexorder" "HOL-Library.Char_ord"
begin

text \<open>
  Table reservations (\<open>src/app/reservations/reservations.service.ts\<close>) and the tables themselves
  (\<open>src/app/dining-tables/dining-tables.service.ts\<close>). Reservations and the public's requests for them
  are tables beside the state of the shop, which holds employees, tables, sessions and the audit log;
  checking in (\<open>src/app/orders/orders.service.ts\<close>) writes to both.
\<close>

section \<open>Tables\<close>

datatype ReservationStatus = Res_PENDING | Res_ARRIVED | Res_CANCELLED | Res_NO_SHOW

datatype ReservationRequestStatus = Ask_PENDING | Ask_APPROVED | Ask_REJECTED | Ask_CANCELLED | Ask_EXPIRED

record booking =
  bk_id :: id
  bk_customerName :: "string option"
  bk_phoneNumber :: string
  bk_startsAt :: time
  bk_endsAt :: time
  bk_guestCount :: int
  bk_notes :: "string option"
  bk_checkedInAt :: "time option"
  bk_cancelledAt :: "time option"
  bk_cancellationReason :: "string option"
  bk_noShowAt :: "time option"
  bk_status :: ReservationStatus
  bk_updatedAt :: time
  bk_tableId :: id
  bk_employeeId :: id
  bk_orderSessionId :: "id option"

record bookingRequest =
  ask_id :: id
  ask_accessTokenHash :: string
  ask_customerName :: string
  ask_phoneNumber :: string
  ask_startsAt :: time
  ask_endsAt :: time
  ask_guestCount :: int
  ask_notes :: "string option"
  ask_status :: ReservationRequestStatus
  ask_rejectionReason :: "string option"
  ask_cancelledAt :: "time option"
  ask_reviewedAt :: "time option"
  ask_reviewedById :: "id option"
  ask_reservationId :: "id option"

record bookingDb =
  bk_nextId :: nat
  shop :: db
  tableName :: "id \<Rightarrow> string"
  bookings :: "booking list"
  asks :: "bookingRequest list"

definition logBooking :: "id \<Rightarrow> string \<Rightarrow> id \<Rightarrow> bookingDb \<Rightarrow> bookingDb" where
  "logBooking emp act i d = d\<lparr>shop := addLog emp act i (shop d)\<rparr>"

section \<open>Windows and slots\<close>

definition MIN_RESERVATION_DURATION_MS :: int where
  "MIN_RESERVATION_DURATION_MS = 15 * 60 * 1000"

definition MAX_RESERVATION_DURATION_MS :: int where
  "MAX_RESERVATION_DURATION_MS = 8 * 60 * 60 * 1000"

definition MAX_PUBLIC_BOOKING_ADVANCE_MS :: int where
  "MAX_PUBLIC_BOOKING_ADVANCE_MS = 30 * 24 * 60 * 60 * 1000"

definition assertValidWindow :: "time \<Rightarrow> time \<Rightarrow> bool \<Rightarrow> time \<Rightarrow> 'a res \<Rightarrow> 'a res" where
  "assertValidWindow s e requireFutureStart now k =
     require (\<not> (requireFutureStart \<and> s \<le> now)) (BadRequest ''starts in the past'')
     (require (MIN_RESERVATION_DURATION_MS \<le> e - s) (BadRequest ''too short'')
     (require (e - s \<le> MAX_RESERVATION_DURATION_MS) (BadRequest ''too long'')
     (require (now < e) (BadRequest ''ends in the past'') k)))"

definition activeBooking :: "booking \<Rightarrow> bool" where
  "activeBooking b \<longleftrightarrow> bk_status b = Res_PENDING \<or> bk_status b = Res_ARRIVED"

definition meets :: "time \<Rightarrow> time \<Rightarrow> booking \<Rightarrow> bool" where
  "meets s e b \<longleftrightarrow> bk_startsAt b < e \<and> s < bk_endsAt b"

text \<open>
  What the database checks of a row that is written: a window that ends after it starts, a guest, and the
  exclusion constraint \<open>Reservation_no_overlapping_active_slots\<close> on half-open ranges. The service turns
  the error of the constraint, which it takes to be P2004, into a conflict.
\<close>

definition slotFree :: "booking \<Rightarrow> booking list \<Rightarrow> bool" where
  "slotFree r bs \<longleftrightarrow> (activeBooking r \<longrightarrow> (\<forall>b\<in>set bs. bk_id b \<noteq> bk_id r \<and> activeBooking b \<and> bk_tableId b = bk_tableId r \<longrightarrow>
     \<not> meets (bk_startsAt r) (bk_endsAt r) b))"

definition rowAllowed :: "booking \<Rightarrow> booking list \<Rightarrow> bool" where
  "rowAllowed r bs \<longleftrightarrow> bk_startsAt r < bk_endsAt r \<and> 0 < bk_guestCount r \<and> slotFree r bs"

definition insertBooking :: "booking \<Rightarrow> bookingDb \<Rightarrow> (booking \<times> bookingDb) res" where
  "insertBooking b d =
     (let r = b\<lparr>bk_id := bk_nextId d\<rparr> in
      require (rowAllowed r (bookings d)) (Conflict ''overlapping reservation'')
        (Inr (r, d\<lparr>bk_nextId := Suc (bk_nextId d), bookings := bookings d @ [r]\<rparr>)))"

definition assertActiveTable :: "id \<Rightarrow> bookingDb \<Rightarrow> 'a res \<Rightarrow> 'a res" where
  "assertActiveTable t d k = require (findTable (shop d) t \<noteq> None) (NotFound ''table'') k"

definition assertStaff :: "id \<Rightarrow> bookingDb \<Rightarrow> 'a res \<Rightarrow> 'a res" where
  "assertStaff emp d k = require (activeEmployee emp (shop d)) (Unauthorized ''employee'') k"

section \<open>Available tables\<close>

record availabilityQuery =
  av_startsAt :: time
  av_endsAt :: time
  av_excludeReservationId :: "id option"
  av_tableId :: "id option"
  av_keyword :: "string option"

text \<open>\<open>contains k n\<close>: the name contains the keyword, case-insensitively. The result is the list that is then paged.\<close>

definition availableTables :: "(string \<Rightarrow> string \<Rightarrow> bool) \<Rightarrow> availabilityQuery \<Rightarrow> bookingDb \<Rightarrow> id list" where
  "availableTables contains q d =
     sort_key (tableName d) (map t_id (filter (\<lambda>t. t_deletedAt t = None \<and>
       (case av_tableId q of None \<Rightarrow> True | Some i \<Rightarrow> t_id t = i) \<and>
       (case av_keyword q of None \<Rightarrow> True | Some k \<Rightarrow> k = [] \<or> contains k (tableName d (t_id t))) \<and>
       (\<forall>b\<in>set (bookings d). \<not> (bk_tableId b = t_id t \<and> activeBooking b \<and> meets (av_startsAt q) (av_endsAt q) b \<and>
          Some (bk_id b) \<noteq> av_excludeReservationId q))) (diningTables (shop d))))"

definition findAvailableTables ::
  "(string \<Rightarrow> string \<Rightarrow> bool) \<Rightarrow> availabilityQuery \<Rightarrow> time \<Rightarrow> bookingDb \<Rightarrow> id list res"
where
  "findAvailableTables contains q now d =
     assertValidWindow (av_startsAt q) (av_endsAt q) False now (Inr (availableTables contains q d))"

section \<open>Reservations\<close>

record bookingInput =
  bi_customerName :: "string option"
  bi_phoneNumber :: string
  bi_startsAt :: time
  bi_endsAt :: time
  bi_guestCount :: int
  bi_notes :: "string option"
  bi_tableId :: id

definition newBooking :: "bookingInput \<Rightarrow> id \<Rightarrow> time \<Rightarrow> booking" where
  "newBooking i emp now =
     \<lparr>bk_id = 0, bk_customerName = bi_customerName i, bk_phoneNumber = bi_phoneNumber i, bk_startsAt = bi_startsAt i,
      bk_endsAt = bi_endsAt i, bk_guestCount = bi_guestCount i, bk_notes = bi_notes i, bk_checkedInAt = None,
      bk_cancelledAt = None, bk_cancellationReason = None, bk_noShowAt = None, bk_status = Res_PENDING,
      bk_updatedAt = now, bk_tableId = bi_tableId i, bk_employeeId = emp, bk_orderSessionId = None\<rparr>"

definition createBooking :: "id \<Rightarrow> bookingInput \<Rightarrow> time \<Rightarrow> bookingDb \<Rightarrow> (booking \<times> bookingDb) res" where
  "createBooking emp i now d =
     assertValidWindow (bi_startsAt i) (bi_endsAt i) True now
     (assertStaff emp d
     (assertActiveTable (bi_tableId i) d
     (andThen (insertBooking (newBooking i emp now) d) (\<lambda>rd.
       Inr (fst rd, logBooking emp ''RESERVATION_CREATED'' (bk_id (fst rd)) (snd rd))))))"

text \<open>Optional changes; \<open>Some None\<close> clears a field that may be empty.\<close>

record bookingChanges =
  bc_customerName :: "string option option"
  bc_phoneNumber :: "string option"
  bc_tableId :: "id option"
  bc_startsAt :: "time option"
  bc_endsAt :: "time option"
  bc_guestCount :: "int option"
  bc_notes :: "string option option"

definition changeBooking :: "bookingChanges \<Rightarrow> time \<Rightarrow> booking \<Rightarrow> booking" where
  "changeBooking c now b =
     b\<lparr>bk_customerName := orOld (bc_customerName c) (bk_customerName b), bk_phoneNumber := orOld (bc_phoneNumber c) (bk_phoneNumber b),
       bk_startsAt := orOld (bc_startsAt c) (bk_startsAt b), bk_endsAt := orOld (bc_endsAt c) (bk_endsAt b),
       bk_guestCount := orOld (bc_guestCount c) (bk_guestCount b), bk_notes := orOld (bc_notes c) (bk_notes b),
       bk_updatedAt := max now (bk_updatedAt b + 1), bk_tableId := orOld (bc_tableId c) (bk_tableId b)\<rparr>"

definition findBooking :: "id \<Rightarrow> bookingDb \<Rightarrow> booking option" where
  "findBooking i d = find (\<lambda>b. bk_id b = i) (bookings d)"

definition updateBooking :: "id \<Rightarrow> id \<Rightarrow> bookingChanges \<Rightarrow> time option \<Rightarrow> time \<Rightarrow> bookingDb \<Rightarrow> bookingDb res" where
  "updateBooking i emp c expectedUpdatedAt now d =
     assertStaff emp d
     (fetch (findBooking i d) (NotFound ''reservation'') (\<lambda>b.
      require (bk_status b = Res_PENDING) (Conflict ''only pending reservations can be updated'')
      (assertValidWindow (orOld (bc_startsAt c) (bk_startsAt b)) (orOld (bc_endsAt c) (bk_endsAt b)) False now
      ((case bc_tableId c of None \<Rightarrow> (\<lambda>k. k) | Some t \<Rightarrow> if t = bk_tableId b then (\<lambda>k. k) else assertActiveTable t d)
      (let g = (\<lambda>x. bk_id x = i \<and> bk_status x = Res_PENDING \<and> bk_updatedAt x = orOld expectedUpdatedAt (bk_updatedAt b)) in
       require (\<forall>x\<in>set (bookings d). g x \<longrightarrow> rowAllowed (changeBooking c now x) (bookings d)) (Conflict ''overlapping reservation'')
       (require (cnt g (bookings d) = 1) (Conflict ''reservation has changed'')
        (Inr (logBooking emp ''RESERVATION_UPDATED'' i (d\<lparr>bookings := upd g (changeBooking c now) (bookings d)\<rparr>)))))))))"

definition cancelBooking :: "id \<Rightarrow> id \<Rightarrow> string \<Rightarrow> time \<Rightarrow> bookingDb \<Rightarrow> bookingDb res" where
  "cancelBooking i emp reason now d =
     assertStaff emp d
     (fetch (findBooking i d) (NotFound ''reservation'') (\<lambda>b.
      require (bk_status b = Res_PENDING) (Conflict ''only pending reservations can be cancelled'')
      (let g = (\<lambda>x. bk_id x = i \<and> bk_status x = Res_PENDING) in
       require (cnt g (bookings d) = 1) (Conflict ''reservation status has changed'')
        (Inr (logBooking emp ''RESERVATION_CANCELLED'' i (d\<lparr>bookings := upd g
           (\<lambda>x. x\<lparr>bk_cancelledAt := Some now, bk_cancellationReason := Some reason, bk_status := Res_CANCELLED, bk_updatedAt := now\<rparr>)
           (bookings d)\<rparr>))))))"

definition markOverdueNoShows :: "time \<Rightarrow> bookingDb \<Rightarrow> nat \<times> bookingDb" where
  "markOverdueNoShows now d =
     (let g = (\<lambda>x. bk_status x = Res_PENDING \<and> bk_startsAt x \<le> now - RESERVATION_NO_SHOW_GRACE_MS) in
      (cnt g (bookings d), d\<lparr>bookings := upd g (\<lambda>x. x\<lparr>bk_noShowAt := Some now, bk_status := Res_NO_SHOW, bk_updatedAt := now\<rparr>) (bookings d)\<rparr>))"

text \<open>
  \<open>checkIn\<close> is \<open>OrdersService.checkInReservation\<close> on the rows kept here: the window of the check-in, the session at the
  table of the reservation, and the guarded update.
\<close>

definition arrive :: "id \<Rightarrow> time \<Rightarrow> booking \<Rightarrow> booking" where
  "arrive sid now b = b\<lparr>bk_checkedInAt := Some now, bk_status := Res_ARRIVED, bk_updatedAt := now, bk_orderSessionId := Some sid\<rparr>"

definition checkIn :: "id \<Rightarrow> id \<Rightarrow> time \<Rightarrow> bookingDb \<Rightarrow> (id \<times> bookingDb) res" where
  "checkIn i emp now d =
     fetch (findBooking i d) (NotFound ''reservation'') (\<lambda>b.
     require (bk_status b = Res_PENDING \<and> bk_orderSessionId b = None) (Conflict ''reservation not pending'')
     (require (bk_startsAt b - RESERVATION_CHECK_IN_EARLY_MS \<le> now) (BadRequest ''check-in early'')
     (require (now < bk_startsAt b + RESERVATION_NO_SHOW_GRACE_MS) (Conflict ''check-in closed'')
     (andThen (createOrderSession (Some (bk_tableId b)) emp (Some (bk_guestCount b)) now (shop d)) (\<lambda>sd.
      let g = (\<lambda>x. bk_id x = i \<and> bk_status x = Res_PENDING \<and> bk_orderSessionId x = None) in
      require (cnt g (bookings d) = 1) (Conflict ''reservation changed'')
        (Inr (fst sd, logBooking emp ''RESERVATION_CHECKED_IN'' i
          (d\<lparr>shop := snd sd, bookings := upd g (arrive (fst sd) now) (bookings d)\<rparr>))))))))"

section \<open>Requests of the public\<close>

definition normalizeReservationPhone :: "string \<Rightarrow> string" where
  "normalizeReservationPhone s = filter (\<lambda>c. c \<noteq> CHR ''('' \<and> c \<noteq> CHR '')'' \<and> c \<noteq> CHR ''-'' \<and> \<not> whiteSpace c) s"

record publicInput =
  pi_customerName :: string
  pi_clientRequestToken :: "string option"
  pi_phoneNumber :: string
  pi_startsAt :: time
  pi_endsAt :: time
  pi_guestCount :: int
  pi_notes :: "string option"

type_synonym askAnswer = "id \<times> ReservationRequestStatus \<times> string"

definition sameAsk :: "publicInput \<Rightarrow> bookingRequest \<Rightarrow> bool" where
  "sameAsk i a \<longleftrightarrow> ask_customerName a = pi_customerName i \<and> normalizeReservationPhone (ask_phoneNumber a) = pi_phoneNumber i \<and>
     ask_startsAt a = pi_startsAt i \<and> ask_endsAt a = pi_endsAt i \<and> ask_guestCount a = pi_guestCount i \<and> ask_notes a = pi_notes i"

definition findAsk :: "string \<Rightarrow> bookingDb \<Rightarrow> bookingRequest option" where
  "findAsk h d = find (\<lambda>a. ask_accessTokenHash a = h) (asks d)"

definition replayAsk :: "(string \<Rightarrow> string) \<Rightarrow> publicInput \<Rightarrow> string \<Rightarrow> bookingDb \<Rightarrow> askAnswer option res" where
  "replayAsk hash i token d =
     (case findAsk (hash token) d of
        None \<Rightarrow> Inr None
      | Some a \<Rightarrow> require (sameAsk i a) (Conflict ''token was reused'') (Inr (Some (ask_id a, ask_status a, token))))"

definition insertAsk :: "publicInput \<Rightarrow> string \<Rightarrow> bookingDb \<Rightarrow> (id \<times> bookingDb) res" where
  "insertAsk i h d =
     require (findAsk h d = None) (UniqueViolation ''ReservationRequest'')
     (Inr (bk_nextId d, d\<lparr>bk_nextId := Suc (bk_nextId d), asks := asks d @
        [\<lparr>ask_id = bk_nextId d, ask_accessTokenHash = h, ask_customerName = pi_customerName i, ask_phoneNumber = pi_phoneNumber i,
          ask_startsAt = pi_startsAt i, ask_endsAt = pi_endsAt i, ask_guestCount = pi_guestCount i, ask_notes = pi_notes i,
          ask_status = Ask_PENDING, ask_rejectionReason = None, ask_cancelledAt = None, ask_reviewedAt = None,
          ask_reviewedById = None, ask_reservationId = None\<rparr>]\<rparr>))"

text \<open>
  The first lookup reads the state \<open>d0\<close>, the insertion happens in \<open>d\<close>, which others may have changed since.
  \<open>fresh\<close> is the random token of a request without one, \<open>human\<close> what Turnstile says.
\<close>

definition createPublicRequest ::
  "(string \<Rightarrow> string) \<Rightarrow> string \<Rightarrow> bool \<Rightarrow> publicInput \<Rightarrow> time \<Rightarrow> bookingDb \<Rightarrow> bookingDb \<Rightarrow> (askAnswer \<times> bookingDb) res"
where
  "createPublicRequest hash fresh human i now d0 d =
     (let token = orOld (pi_clientRequestToken i) fresh in
      andThen (if pi_clientRequestToken i = None then Inr None else replayAsk hash i token d0) (\<lambda>x.
        case x of Some a \<Rightarrow> Inr (a, d)
        | None \<Rightarrow>
            require human (BadRequest ''turnstile'')
            (assertValidWindow (pi_startsAt i) (pi_endsAt i) True now
            (require (pi_startsAt i \<le> now + MAX_PUBLIC_BOOKING_ADVANCE_MS) (BadRequest ''30 days ahead'')
             (case insertAsk i (hash token) d of
                Inr r \<Rightarrow> Inr ((fst r, Ask_PENDING, token), snd r)
              | Inl e \<Rightarrow>
                  if pi_clientRequestToken i = None then Inl e
                  else andThen (replayAsk hash i token d) (\<lambda>y. case y of None \<Rightarrow> Inl e | Some a \<Rightarrow> Inr (a, d)))))))"

record trackedRequest =
  tr_requestId :: id
  tr_status :: ReservationRequestStatus
  tr_startsAt :: time
  tr_endsAt :: time
  tr_guestCount :: int
  tr_reservationStatus :: "ReservationStatus option"

definition trackPublicRequest :: "(string \<Rightarrow> string) \<Rightarrow> string \<Rightarrow> bookingDb \<Rightarrow> trackedRequest res" where
  "trackPublicRequest hash token d =
     fetch (findAsk (hash token) d) (NotFound ''request'') (\<lambda>a.
       let b = Option.bind (ask_reservationId a) (\<lambda>i. findBooking i d) in
       Inr \<lparr>tr_requestId = ask_id a, tr_status = ask_status a,
            tr_startsAt = (case b of None \<Rightarrow> ask_startsAt a | Some x \<Rightarrow> bk_startsAt x),
            tr_endsAt = (case b of None \<Rightarrow> ask_endsAt a | Some x \<Rightarrow> bk_endsAt x),
            tr_guestCount = (case b of None \<Rightarrow> ask_guestCount a | Some x \<Rightarrow> bk_guestCount x),
            tr_reservationStatus = map_option bk_status b\<rparr>)"

text \<open>Reads in \<open>d0\<close>, then writes (and reads again when it could not) in \<open>d\<close>.\<close>

definition cancelPublicRequest ::
  "(string \<Rightarrow> string) \<Rightarrow> string \<Rightarrow> time \<Rightarrow> bookingDb \<Rightarrow> bookingDb \<Rightarrow> (id \<times> bookingDb) res"
where
  "cancelPublicRequest hash token now d0 d =
     fetch (findAsk (hash token) d0) (NotFound ''request'') (\<lambda>a.
     if ask_status a = Ask_CANCELLED then Inr (ask_id a, d)
     else require (ask_status a = Ask_PENDING) (Conflict ''can no longer be withdrawn'')
       (let g = (\<lambda>x. ask_id x = ask_id a \<and> ask_status x = Ask_PENDING \<and> now < ask_startsAt x) in
        if cnt g (asks d) = 1
        then Inr (ask_id a, d\<lparr>asks := upd g (\<lambda>x. x\<lparr>ask_status := Ask_CANCELLED, ask_cancelledAt := Some now\<rparr>) (asks d)\<rparr>)
        else require (case find (\<lambda>x. ask_id x = ask_id a) (asks d) of None \<Rightarrow> False | Some x \<Rightarrow> ask_status x = Ask_CANCELLED)
          (Conflict ''can no longer be withdrawn'') (Inr (ask_id a, d))))"

definition findAskById :: "id \<Rightarrow> bookingDb \<Rightarrow> bookingRequest option" where
  "findAskById i d = find (\<lambda>a. ask_id a = i) (asks d)"

definition approveRequest :: "id \<Rightarrow> id \<Rightarrow> id \<Rightarrow> time \<Rightarrow> bookingDb \<Rightarrow> (booking \<times> bookingDb) res" where
  "approveRequest i emp t now d =
     assertStaff emp d
     (fetch (findAskById i d) (NotFound ''request'') (\<lambda>a.
      require (ask_status a = Ask_PENDING) (Conflict ''already reviewed'')
      (assertValidWindow (ask_startsAt a) (ask_endsAt a) True now
      (assertActiveTable t d
      (let g = (\<lambda>x. ask_id x = i \<and> ask_status x = Ask_PENDING) in
       require (cnt g (asks d) = 1) (Conflict ''already reviewed'')
       (let d1 = d\<lparr>asks := upd g (\<lambda>x. x\<lparr>ask_status := Ask_APPROVED, ask_reviewedAt := Some now, ask_reviewedById := Some emp\<rparr>) (asks d)\<rparr>
        in andThen (insertBooking (newBooking \<lparr>bi_customerName = Some (ask_customerName a), bi_phoneNumber = ask_phoneNumber a,
             bi_startsAt = ask_startsAt a, bi_endsAt = ask_endsAt a, bi_guestCount = ask_guestCount a, bi_notes = ask_notes a,
             bi_tableId = t\<rparr> emp now) d1) (\<lambda>rd.
           Inr (fst rd, logBooking emp ''RESERVATION_REQUEST_APPROVED'' i
             ((snd rd)\<lparr>asks := upd (\<lambda>x. ask_id x = i) (\<lambda>x. x\<lparr>ask_reservationId := Some (bk_id (fst rd))\<rparr>) (asks (snd rd))\<rparr>)))))))))"

definition rejectRequest :: "id \<Rightarrow> id \<Rightarrow> string \<Rightarrow> time \<Rightarrow> bookingDb \<Rightarrow> bookingDb res" where
  "rejectRequest i emp reason now d =
     assertStaff emp d
     (fetch (findAskById i d) (NotFound ''request'') (\<lambda>a.
      let g = (\<lambda>x. ask_id x = i \<and> ask_status x = Ask_PENDING) in
      require (cnt g (asks d) = 1) (Conflict ''already reviewed'')
        (Inr (logBooking emp ''RESERVATION_REQUEST_REJECTED'' i (d\<lparr>asks := upd g
           (\<lambda>x. x\<lparr>ask_status := Ask_REJECTED, ask_rejectionReason := Some reason, ask_reviewedAt := Some now,
              ask_reviewedById := Some emp\<rparr>) (asks d)\<rparr>)))))"

definition markExpiredPublicRequests :: "time \<Rightarrow> bookingDb \<Rightarrow> nat \<times> bookingDb" where
  "markExpiredPublicRequests now d =
     (let g = (\<lambda>x. ask_status x = Ask_PENDING \<and> ask_startsAt x \<le> now) in
      (cnt g (asks d), d\<lparr>asks := upd g (\<lambda>x. x\<lparr>ask_status := Ask_EXPIRED, ask_reviewedAt := Some now\<rparr>) (asks d)\<rparr>))"

definition refreshNoShows :: "time \<Rightarrow> bookingDb \<Rightarrow> bookingDb" where
  "refreshNoShows now d = snd (markExpiredPublicRequests now (snd (markOverdueNoShows now d)))"

definition findRequests :: "ReservationRequestStatus option option \<Rightarrow> time \<Rightarrow> bookingDb \<Rightarrow> bookingRequest list" where
  "findRequests status now d =
     filter (\<lambda>a. case status of None \<Rightarrow> ask_status a = Ask_PENDING \<and> now < ask_startsAt a
       | Some None \<Rightarrow> True | Some (Some st) \<Rightarrow> ask_status a = st) (asks d)"

section \<open>Dining tables\<close>

text \<open>\<open>lower\<close> is \<open>toLowerCase\<close>, which the database's case-insensitive comparison also uses.\<close>

definition nameTaken :: "(string \<Rightarrow> string) \<Rightarrow> string \<Rightarrow> id option \<Rightarrow> bookingDb \<Rightarrow> bool" where
  "nameTaken lower n exclude d \<longleftrightarrow> (\<exists>t\<in>set (diningTables (shop d)). t_deletedAt t = None \<and> Some (t_id t) \<noteq> exclude \<and>
     lower (tableName d (t_id t)) = lower n)"

definition createTable :: "(string \<Rightarrow> string) \<Rightarrow> string \<Rightarrow> bookingDb \<Rightarrow> (id \<times> bookingDb) res" where
  "createTable lower n d =
     require (\<not> nameTaken lower n None d) (Conflict ''table name exists'')
     (let s = shop d; i = nextId s in
      Inr (i, d\<lparr>shop := s\<lparr>nextId := Suc i, diningTables := diningTables s @ [\<lparr>t_id = i, t_status = Table_EMPTY, t_deletedAt = None\<rparr>]\<rparr>,
        tableName := (tableName d)(i := n)\<rparr>))"

definition updateTable :: "(string \<Rightarrow> string) \<Rightarrow> id \<Rightarrow> string option \<Rightarrow> bookingDb \<Rightarrow> bookingDb res" where
  "updateTable lower i name d =
     fetch (findTable (shop d) i) (NotFound ''table'') (\<lambda>t.
     case name of
       None \<Rightarrow> Inr d
     | Some n \<Rightarrow>
         require (\<not> (n \<noteq> [] \<and> lower n \<noteq> lower (tableName d i) \<and> nameTaken lower n (Some i) d)) (Conflict ''table name exists'')
         (Inr (d\<lparr>tableName := (tableName d)(i := n)\<rparr>)))"

definition deleteTable :: "id \<Rightarrow> time \<Rightarrow> bookingDb \<Rightarrow> bookingDb res" where
  "deleteTable i now d =
     fetch (findTable (shop d) i) (NotFound ''table'') (\<lambda>t.
     require (t_status t = Table_EMPTY) (BadRequest ''table not empty'')
     (let g = (\<lambda>x. t_id x = i \<and> t_deletedAt x = None \<and> t_status x = Table_EMPTY \<and> activeOn (shop d) i = None) in
      require (cnt g (diningTables (shop d)) = 1) (Conflict ''table changed'')
        (Inr (d\<lparr>shop := (shop d)\<lparr>diningTables := upd g (\<lambda>x. x\<lparr>t_deletedAt := Some now\<rparr>) (diningTables (shop d))\<rparr>\<rparr>))))"

definition getTables :: "bookingDb \<Rightarrow> (diningTable \<times> orderSession option) list" where
  "getTables d =
     map (\<lambda>t. (t, activeOn (shop d) (t_id t)))
       (sort_key (\<lambda>t. tableName d (t_id t)) (filter (\<lambda>t. t_deletedAt t = None) (diningTables (shop d))))"

end
