(* ===== verification/Booking_Facts.thy ===== *)
theory Booking_Facts
  imports Reservations Order_Invariants
begin

text \<open>The steps of reservations and requests, and what every step keeps: slots that do not overlap, and rows
  whose columns fit their status.\<close>

section \<open>Slots\<close>

definition disjoint_slots :: "booking list \<Rightarrow> bool" where
  "disjoint_slots bs \<longleftrightarrow> (\<forall>r\<in>set bs. slotFree r bs)"

lemma meets_sym: "meets (bk_startsAt a) (bk_endsAt a) b = meets (bk_startsAt b) (bk_endsAt b) a"
  by (auto simp: meets_def)

lemma disjoint_slots_append:
  assumes "disjoint_slots bs" and "slotFree r bs"
  shows "disjoint_slots (bs @ [r])"
proof -
  have "slotFree x (bs @ [r])" if x: "x \<in> set bs" for x
  proof -
    have "slotFree x bs" using assms(1) x by (simp add: disjoint_slots_def)
    moreover have "\<not> meets (bk_startsAt x) (bk_endsAt x) r"
      if "activeBooking x" "bk_id r \<noteq> bk_id x" "activeBooking r" "bk_tableId r = bk_tableId x"
      using assms(2) that x unfolding meets_sym [of x r] slotFree_def by simp
    ultimately show ?thesis unfolding slotFree_def by simp
  qed
  moreover have "slotFree r (bs @ [r])" using assms(2) by (simp add: slotFree_def)
  ultimately show ?thesis by (simp add: disjoint_slots_def)
qed

lemma disjoint_slots_write:
  assumes "disjoint_slots bs" and "\<And>x. x \<in> set bs \<Longrightarrow> g x \<Longrightarrow> slotFree (f x) bs \<and> bk_id (f x) = bk_id x"
    and "\<And>x y. x \<in> set bs \<Longrightarrow> y \<in> set bs \<Longrightarrow> g x \<Longrightarrow> g y \<Longrightarrow> bk_id x = bk_id y"
  shows "disjoint_slots (upd g f bs)"
proof -
  have "\<not> meets (bk_startsAt r) (bk_endsAt r) b"
    if r: "r \<in> set (upd g f bs)" "activeBooking r" and b: "b \<in> set (upd g f bs)" "bk_id b \<noteq> bk_id r" "activeBooking b" "bk_tableId b = bk_tableId r" for r b
  proof -
    obtain r0 b0 where r0: "r0 \<in> set bs" "r = (if g r0 then f r0 else r0)" and b0: "b0 \<in> set bs" "b = (if g b0 then f b0 else b0)"
      using r(1) b(1) by (auto elim!: mem_updE)
    have ids: "bk_id r = bk_id r0" "bk_id b = bk_id b0" using r0 b0 assms(2) by (auto split: if_splits)
    have one: "\<not> (g r0 \<and> g b0)" using assms(3) [OF r0(1) b0(1)] b(2) ids by auto
    show ?thesis
    proof (cases "g b0")
      case True
      then have "slotFree b bs" "r = r0" using assms(2) [OF b0(1)] b0(2) one r0(2) by auto
      then have "\<not> meets (bk_startsAt b) (bk_endsAt b) r" using r0(1) r(2) b(2-4) unfolding slotFree_def by auto
      then show ?thesis using meets_sym by blast
    next
      case False
      then have "slotFree r bs" "b = b0" using assms(1,2) r0 b0 unfolding disjoint_slots_def by auto
      then show ?thesis using b0(1) r(2) b(2-4) unfolding slotFree_def by auto
    qed
  qed
  then show ?thesis unfolding disjoint_slots_def slotFree_def by blast
qed

lemma disjoint_slots_free:
  assumes "disjoint_slots bs" and "\<And>x. g x \<Longrightarrow> \<not> activeBooking (f x)"
  shows "disjoint_slots (upd g f bs)"
  using assms unfolding disjoint_slots_def slotFree_def set_upd by auto

section \<open>Rows\<close>

definition bookingShape :: "booking \<Rightarrow> bool" where
  "bookingShape b \<longleftrightarrow>
     MIN_RESERVATION_DURATION_MS \<le> bk_endsAt b - bk_startsAt b \<and> bk_endsAt b - bk_startsAt b \<le> MAX_RESERVATION_DURATION_MS \<and>
     0 < bk_guestCount b \<and>
     (bk_checkedInAt b \<noteq> None \<longleftrightarrow> bk_status b = Res_ARRIVED) \<and> (bk_orderSessionId b \<noteq> None \<longleftrightarrow> bk_status b = Res_ARRIVED) \<and>
     (bk_cancelledAt b \<noteq> None \<longleftrightarrow> bk_status b = Res_CANCELLED) \<and> (bk_cancellationReason b \<noteq> None \<longleftrightarrow> bk_status b = Res_CANCELLED) \<and>
     (bk_noShowAt b \<noteq> None \<longleftrightarrow> bk_status b = Res_NO_SHOW)"

definition askShape :: "bookingRequest \<Rightarrow> bool" where
  "askShape a \<longleftrightarrow>
     (ask_reservationId a \<noteq> None \<longleftrightarrow> ask_status a = Ask_APPROVED) \<and>
     (ask_reviewedById a \<noteq> None \<longleftrightarrow> ask_status a \<in> {Ask_APPROVED, Ask_REJECTED}) \<and>
     (ask_reviewedAt a \<noteq> None \<longleftrightarrow> ask_status a \<in> {Ask_APPROVED, Ask_REJECTED, Ask_EXPIRED}) \<and>
     (ask_cancelledAt a \<noteq> None \<longleftrightarrow> ask_status a = Ask_CANCELLED) \<and> (ask_rejectionReason a \<noteq> None \<longleftrightarrow> ask_status a = Ask_REJECTED)"

definition booking_keys :: "bookingDb \<Rightarrow> bool" where
  "booking_keys d \<longleftrightarrow> distinct (map bk_id (bookings d)) \<and> distinct (map ask_id (asks d)) \<and>
     (\<forall>i\<in>bk_id ` set (bookings d). i < bk_nextId d) \<and> (\<forall>i\<in>ask_id ` set (asks d). i < bk_nextId d)"

definition own_reservations :: "bookingRequest list \<Rightarrow> booking list \<Rightarrow> bool" where
  "own_reservations as bs \<longleftrightarrow> distinct (List.map_filter ask_reservationId as) \<and>
     set (List.map_filter ask_reservationId as) \<subseteq> bk_id ` set bs"

lemma links_upd: "(\<And>x. ask_reservationId (f x) = ask_reservationId x) \<Longrightarrow>
  List.map_filter ask_reservationId (upd g f as) = List.map_filter ask_reservationId as"
  by (induction as) (simp_all add: List.map_filter_simps split: option.split)

definition booking_inv :: "bookingDb \<Rightarrow> bool" where
  "booking_inv d \<longleftrightarrow> booking_keys d \<and> disjoint_slots (bookings d) \<and> (\<forall>b\<in>set (bookings d). bookingShape b) \<and>
     (\<forall>a\<in>set (asks d). askShape a) \<and> own_reservations (asks d) (bookings d)"

section \<open>Steps\<close>

text \<open>
  Every operation, with any lookup state for those that read before they write, and any change of the rest of the
  shop in between.
\<close>

inductive booking_step :: "(string \<Rightarrow> string) \<Rightarrow> (string \<Rightarrow> string) \<Rightarrow> bookingDb \<Rightarrow> bookingDb \<Rightarrow> bool"
  for hash lower :: "string \<Rightarrow> string" where
  step_create: "createBooking emp i now d = Inr (b, d') \<Longrightarrow> booking_step hash lower d d'"
| step_update: "updateBooking i emp c exptd now d = Inr d' \<Longrightarrow> booking_step hash lower d d'"
| step_cancel: "cancelBooking i emp reason now d = Inr d' \<Longrightarrow> booking_step hash lower d d'"
| step_check_in: "checkIn i emp now d = Inr (s, d') \<Longrightarrow> booking_step hash lower d d'"
| step_no_shows: "booking_step hash lower d (snd (markOverdueNoShows now d))"
| step_ask: "createPublicRequest hash fresh human i now d0 d = Inr (a, d') \<Longrightarrow> booking_step hash lower d d'"
| step_withdraw: "cancelPublicRequest hash token now d0 d = Inr (j, d') \<Longrightarrow> booking_step hash lower d d'"
| step_approve: "approveRequest i emp t now d = Inr (b, d') \<Longrightarrow> booking_step hash lower d d'"
| step_reject: "rejectRequest i emp reason now d = Inr d' \<Longrightarrow> booking_step hash lower d d'"
| step_expire: "booking_step hash lower d (snd (markExpiredPublicRequests now d))"
| step_table: "createTable lower n d = Inr (i, d') \<Longrightarrow> booking_step hash lower d d'"
| step_rename: "updateTable lower i name d = Inr d' \<Longrightarrow> booking_step hash lower d d'"
| step_remove: "deleteTable i now d = Inr d' \<Longrightarrow> booking_step hash lower d d'"
| step_elsewhere: "booking_step hash lower d (d\<lparr>shop := s\<rparr>)"

section \<open>What the operations do to the rows\<close>

lemma bookings_log [simp]:
  "bookings (logBooking emp act i d) = bookings d" "asks (logBooking emp act i d) = asks d"
  "bk_nextId (logBooking emp act i d) = bk_nextId d"
  by (simp_all add: logBooking_def)

lemma tables_rows:
  "createTable lower n d = Inr (i, d') \<Longrightarrow> bookings d' = bookings d \<and> asks d' = asks d \<and> bk_nextId d' = bk_nextId d"
  "updateTable lower j name d = Inr d'' \<Longrightarrow> bookings d'' = bookings d \<and> asks d'' = asks d \<and> bk_nextId d'' = bk_nextId d"
  "deleteTable j now d = Inr d3 \<Longrightarrow> bookings d3 = bookings d \<and> asks d3 = asks d \<and> bk_nextId d3 = bk_nextId d"
  by (auto simp: createTable_def updateTable_def deleteTable_def Let_def split: option.splits)

lemma insertBooking_rows:
  assumes "insertBooking b d = Inr (r, d')"
  shows "r = b\<lparr>bk_id := bk_nextId d\<rparr> \<and> rowAllowed r (bookings d) \<and> bookings d' = bookings d @ [r] \<and> asks d' = asks d \<and>
    bk_nextId d' = Suc (bk_nextId d)"
  using assms by (auto simp: insertBooking_def Let_def)

lemma window_ok: "assertValidWindow s e f now k = Inr x \<longleftrightarrow>
    \<not> (f \<and> s \<le> now) \<and> MIN_RESERVATION_DURATION_MS \<le> e - s \<and> e - s \<le> MAX_RESERVATION_DURATION_MS \<and> now < e \<and> k = Inr x"
  by (auto simp: assertValidWindow_def)

lemma booking_inv_rows:
  "bookings d' = bookings d \<Longrightarrow> asks d' = asks d \<Longrightarrow> bk_nextId d' = bk_nextId d \<Longrightarrow> booking_inv d' = booking_inv d"
  by (simp add: booking_inv_def booking_keys_def)

lemma booking_inv_insert:
  assumes "booking_inv d" and "insertBooking b d = Inr (r, d')" and "bookingShape r"
  shows "booking_inv d'"
proof -
  have e: "bookings d' = bookings d @ [r]" "asks d' = asks d" "bk_nextId d' = Suc (bk_nextId d)" "bk_id r = bk_nextId d"
    "slotFree r (bookings d)"
    using insertBooking_rows [OF assms(2)] by (auto simp: rowAllowed_def)
  have "booking_keys d'" using assms(1) e by (auto simp: booking_inv_def booking_keys_def less_Suc_eq)
  moreover have "disjoint_slots (bookings d')" using assms(1) e by (simp add: booking_inv_def disjoint_slots_append)
  moreover have "own_reservations (asks d') (bookings d')"
    using assms(1) unfolding e(1,2) booking_inv_def own_reservations_def by auto
  ultimately show ?thesis using assms(1,3) e by (simp add: booking_inv_def)
qed

lemma booking_inv_write:
  assumes "booking_inv d" and "disjoint_slots (upd g f (bookings d))" and "\<And>x. bk_id (f x) = bk_id x"
    and "\<And>x. x \<in> set (bookings d) \<Longrightarrow> g x \<Longrightarrow> bookingShape (f x)" and "bookings d' = upd g f (bookings d)"
    and "asks d' = asks d" and "bk_nextId d' = bk_nextId d"
  shows "booking_inv d'"
proof -
  have ids: "map bk_id (bookings d') = map bk_id (bookings d)" using assms(3,5) by (simp add: map_key_upd)
  have mem: "bk_id ` set (bookings d') = bk_id ` set (bookings d)" using arg_cong [OF ids, of set] by simp
  have "booking_keys d'" using assms(1) unfolding booking_inv_def booking_keys_def ids mem assms(6,7) by (rule conjunct1)
  moreover have "own_reservations (asks d') (bookings d')"
    using assms(1) unfolding own_reservations_def mem assms(6) booking_inv_def by blast
  moreover have "\<forall>b\<in>set (bookings d'). bookingShape b"
    using assms(1,4) unfolding assms(5) ball_upd booking_inv_def by auto
  ultimately show ?thesis using assms(1,2,5,6) by (simp add: booking_inv_def)
qed

lemma booking_inv_asks:
  assumes "booking_inv d" and "\<And>x. ask_id (f x) = ask_id x" and "\<And>x. x \<in> set (asks d) \<Longrightarrow> g x \<Longrightarrow> askShape (f x)"
    and "\<And>x. ask_reservationId (f x) = ask_reservationId x" and "asks d' = upd g f (asks d)"
    and "bookings d' = bookings d" and "bk_nextId d' = bk_nextId d"
  shows "booking_inv d'"
proof -
  have ids: "map ask_id (asks d') = map ask_id (asks d)" using assms(2,5) by (simp add: map_key_upd)
  have mem: "ask_id ` set (asks d') = ask_id ` set (asks d)" using arg_cong [OF ids, of set] by simp
  have "booking_keys d'" using assms(1) unfolding booking_inv_def booking_keys_def ids mem assms(6,7) by (rule conjunct1)
  moreover have "own_reservations (asks d') (bookings d')"
    using assms(1) unfolding own_reservations_def assms(5,6) booking_inv_def links_upd [of f, OF assms(4)] by blast
  moreover have "\<forall>a\<in>set (asks d'). askShape a"
    using assms(1,3) unfolding assms(5) ball_upd booking_inv_def by auto
  ultimately show ?thesis using assms(1,6) by (simp add: booking_inv_def)
qed

section \<open>Checking in\<close>

lemma find_upd_by:
  "(\<And>r. key (f r) = key r) \<Longrightarrow>
   find (\<lambda>r. key r = k) (upd P f t) = map_option (\<lambda>r. if P r then f r else r) (find (\<lambda>r. key r = k) t)"
  by (induction t) auto

lemma checkIn_rows:
  assumes "checkIn i emp now d = Inr (sid, d')" and ids: "distinct (map bk_id (bookings d))"
  obtains b s where "b \<in> set (bookings d)" "bk_id b = i" "bk_status b = Res_PENDING" "bk_orderSessionId b = None"
    "bk_startsAt b - RESERVATION_CHECK_IN_EARLY_MS \<le> now" "now < bk_startsAt b + RESERVATION_NO_SHOW_GRACE_MS"
    "createOrderSession (Some (bk_tableId b)) emp (Some (bk_guestCount b)) now (shop d) = Inr (sid, s)"
    "shop d' = addLog emp ''RESERVATION_CHECKED_IN'' i s" "asks d' = asks d" "bk_nextId d' = bk_nextId d" "tableName d' = tableName d"
    "bookings d' = upd (\<lambda>x. bk_id x = i) (arrive sid now) (bookings d)"
proof -
  let ?g = "\<lambda>x. bk_id x = i \<and> bk_status x = Res_PENDING \<and> bk_orderSessionId x = None"
  obtain b s where f: "findBooking i d = Some b" and p: "bk_status b = Res_PENDING" "bk_orderSessionId b = None"
    and w: "bk_startsAt b - RESERVATION_CHECK_IN_EARLY_MS \<le> now" "now < bk_startsAt b + RESERVATION_NO_SHOW_GRACE_MS"
    and c: "createOrderSession (Some (bk_tableId b)) emp (Some (bk_guestCount b)) now (shop d) = Inr (sid, s)"
    and d': "d' = logBooking emp ''RESERVATION_CHECKED_IN'' i (d\<lparr>shop := s, bookings := upd ?g (arrive sid now) (bookings d)\<rparr>)"
    using assms(1) by (auto simp: checkIn_def Let_def)
  have b: "b \<in> set (bookings d)" "bk_id b = i" using find_SomeD [OF f [unfolded findBooking_def]] by blast+
  have same: "x = b" if "x \<in> set (bookings d)" "bk_id x = i" for x
    by (rule distinct_key_eq [OF ids that(1) b(1)]) (simp add: that(2) b(2))
  have "?g x = (bk_id x = i)" if "x \<in> set (bookings d)" for x using same [OF that] p by blast
  then have "upd ?g (arrive sid now) (bookings d) = upd (\<lambda>x. bk_id x = i) (arrive sid now) (bookings d)"
    unfolding upd_def by (intro map_cong) simp_all
  then show thesis by (intro that [OF b p w c]) (simp_all add: d' logBooking_def)
qed

text \<open>
  The orders are modelled on rows with fewer columns (\<open>tableReservations\<close> in \<open>Db_Core\<close>). Read as such rows, the
  reservations are checked in by \<open>checkInReservation\<close> of \<open>Orders\<close>, errors included.
\<close>

definition slotRow :: "booking \<Rightarrow> reservationRow" where
  "slotRow b =
     \<lparr>b_id = bk_id b, b_arrived = (bk_status b = Res_ARRIVED), b_pending = (bk_status b = Res_PENDING), b_startsAt = bk_startsAt b,
      b_tableId = bk_tableId b, b_guestCount = Some (bk_guestCount b), b_sessionId = bk_orderSessionId b,
      b_checkedInAt = bk_checkedInAt b\<rparr>"

definition shopView :: "bookingDb \<Rightarrow> db" where
  "shopView d = (shop d)\<lparr>tableReservations := map slotRow (bookings d)\<rparr>"

lemma createOrderSession_view:
  "createOrderSession t emp g now (s\<lparr>tableReservations := R\<rparr>) =
     map_sum id (\<lambda>(sid, s'). (sid, s'\<lparr>tableReservations := R\<rparr>)) (createOrderSession t emp g now s)"
  by (auto simp: createOrderSession_def claimTable_def insertSession_def findTable_def activeOn_def activeEmployee_def setTables_def
      findOpenShiftId_def findOpenShift_def enqueueOrderEvent_def enqueue_def Let_def andThen_def require_def fetch_def split: option.split
      intro!: db.equality)

lemma slotRow_upd:
  "map slotRow (upd (\<lambda>x. bk_id x = i \<and> bk_status x = Res_PENDING \<and> bk_orderSessionId x = None) (arrive sid now) bs) =
   upd (\<lambda>r. b_id r = i \<and> b_pending r \<and> b_sessionId r = None)
     (\<lambda>r. r\<lparr>b_pending := False, b_arrived := True, b_checkedInAt := Some now, b_sessionId := Some sid\<rparr>) (map slotRow bs)"
  by (induction bs) (auto simp: slotRow_def arrive_def)

lemma slotRow_cnt:
  "cnt (\<lambda>r. b_id r = i \<and> b_pending r \<and> b_sessionId r = None) (map slotRow bs) =
   cnt (\<lambda>x. bk_id x = i \<and> bk_status x = Res_PENDING \<and> bk_orderSessionId x = None) bs"
  by (induction bs) (auto simp: slotRow_def)

lemma slotRow_find: "find (\<lambda>r. b_id r = i) (map slotRow bs) = map_option slotRow (find (\<lambda>b. bk_id b = i) bs)"
  by (induction bs) (auto simp: slotRow_def)

lemma checkIn_on_view:
  "map_sum id (\<lambda>(sid, d'). (sid, shopView d')) (checkIn i emp now d) = checkInReservation i emp now (shopView d)"
proof (cases "find (\<lambda>b. bk_id b = i) (bookings d)")
  case (Some b)
  have cols: "b_pending (slotRow b) = (bk_status b = Res_PENDING)" "b_sessionId (slotRow b) = bk_orderSessionId b"
    "b_startsAt (slotRow b) = bk_startsAt b" "b_tableId (slotRow b) = bk_tableId b" "b_guestCount (slotRow b) = Some (bk_guestCount b)"
    by (simp_all add: slotRow_def)
  show ?thesis
    by (cases "createOrderSession (Some (bk_tableId b)) emp (Some (bk_guestCount b)) now (shop d)")
      (auto simp: checkIn_def checkInReservation_def shopView_def findBooking_def Some slotRow_find cols createOrderSession_view
        slotRow_cnt slotRow_upd require_def Let_def logBooking_def addLog_def)
qed (simp add: checkIn_def checkInReservation_def shopView_def findBooking_def slotRow_find)

section \<open>Every step keeps the invariant\<close>

lemma inv_ids: "booking_inv d \<Longrightarrow> distinct (map bk_id (bookings d))" "booking_inv d \<Longrightarrow> distinct (map ask_id (asks d))"
  by (simp_all add: booking_inv_def booking_keys_def)

lemma inv_row: "booking_inv d \<Longrightarrow> b \<in> set (bookings d) \<Longrightarrow> bookingShape b"
  "booking_inv d \<Longrightarrow> a \<in> set (asks d) \<Longrightarrow> askShape a"
  "booking_inv d \<Longrightarrow> b \<in> set (bookings d) \<Longrightarrow> slotFree b (bookings d)"
  by (simp_all add: booking_inv_def disjoint_slots_def)

lemma create_inv:
  assumes "createBooking emp i now d = Inr (b, d')" and "booking_inv d"
  shows "booking_inv d'"
proof -
  obtain d1 where ins: "insertBooking (newBooking i emp now) d = Inr (b, d1)" and d': "d' = logBooking emp ''RESERVATION_CREATED'' (bk_id b) d1"
    and w: "MIN_RESERVATION_DURATION_MS \<le> bi_endsAt i - bi_startsAt i" "bi_endsAt i - bi_startsAt i \<le> MAX_RESERVATION_DURATION_MS"
    using assms(1) by (auto simp: createBooking_def window_ok assertStaff_def assertActiveTable_def)
  have r: "b = (newBooking i emp now)\<lparr>bk_id := bk_nextId d\<rparr>" "rowAllowed b (bookings d)" using insertBooking_rows [OF ins] by blast+
  then have "0 < bi_guestCount i" by (simp add: rowAllowed_def newBooking_def)
  then have "bookingShape b" using w unfolding r(1) by (simp add: bookingShape_def newBooking_def)
  then have "booking_inv d1" by (rule booking_inv_insert [OF assms(2) ins])
  then show ?thesis by (subst booking_inv_rows [of _ d1]) (simp_all add: d')
qed

lemma table_change_Inr:
  "(case t of None \<Rightarrow> (\<lambda>k. k) | Some t \<Rightarrow> if t = u then (\<lambda>k. k) else assertActiveTable t d) k = Inr x \<Longrightarrow> k = Inr x"
  by (cases t) (auto simp: assertActiveTable_def split: if_split_asm)

lemma update_inv:
  assumes "updateBooking i emp c exptd now d = Inr d'" and inv: "booking_inv d"
  shows "booking_inv d'"
proof -
  obtain b where b: "findBooking i d = Some b" "bk_status b = Res_PENDING"
    and w: "MIN_RESERVATION_DURATION_MS \<le> orOld (bc_endsAt c) (bk_endsAt b) - orOld (bc_startsAt c) (bk_startsAt b)"
      "orOld (bc_endsAt c) (bk_endsAt b) - orOld (bc_startsAt c) (bk_startsAt b) \<le> MAX_RESERVATION_DURATION_MS"
    and g: "\<forall>x\<in>set (bookings d). bk_id x = i \<and> bk_status x = Res_PENDING \<and> bk_updatedAt x = orOld exptd (bk_updatedAt b) \<longrightarrow>
        rowAllowed (changeBooking c now x) (bookings d)"
    and d': "d' = logBooking emp ''RESERVATION_UPDATED'' i (d\<lparr>bookings := upd (\<lambda>x. bk_id x = i \<and> bk_status x = Res_PENDING \<and>
       bk_updatedAt x = orOld exptd (bk_updatedAt b)) (changeBooking c now) (bookings d)\<rparr>)"
    using assms(1) by (auto simp: updateBooking_def window_ok assertStaff_def Let_def dest!: table_change_Inr)
  let ?g = "\<lambda>x. bk_id x = i \<and> bk_status x = Res_PENDING \<and> bk_updatedAt x = orOld exptd (bk_updatedAt b)"
  have bb: "b \<in> set (bookings d)" "bk_id b = i" using find_SomeD [OF b(1) [unfolded findBooking_def]] by blast+
  have same: "x = b" if "x \<in> set (bookings d)" "?g x" for x
    by (rule distinct_key_eq [OF inv_ids(1) [OF inv] that(1) bb(1)]) (use that(2) bb(2) in simp)
  have ids: "bk_id (changeBooking c now x) = bk_id x" for x by (simp add: changeBooking_def)
  have slots: "disjoint_slots (upd ?g (changeBooking c now) (bookings d))"
    by (rule disjoint_slots_write) (use inv g ids in \<open>auto simp: booking_inv_def rowAllowed_def\<close>)
  show ?thesis
  proof (rule booking_inv_write [OF inv slots ids])
    fix x assume x: "x \<in> set (bookings d)" "?g x"
    have "bookingShape b" by (rule inv_row(1) [OF inv bb(1)])
    moreover have "0 < bk_guestCount (changeBooking c now b)" using g x same [OF x] by (auto simp: rowAllowed_def)
    ultimately show "bookingShape (changeBooking c now x)" using w b(2) unfolding same [OF x] by (simp add: bookingShape_def changeBooking_def)
  qed (simp_all add: d')
qed

lemma close_inv:
  assumes inv: "booking_inv d" and "\<And>x. bk_id (f x) = bk_id x"
    and "\<And>x. bookingShape x \<Longrightarrow> g x \<Longrightarrow> bookingShape (f x) \<and> \<not> activeBooking (f x)"
    and "bookings d' = upd g f (bookings d)" "asks d' = asks d" "bk_nextId d' = bk_nextId d"
  shows "booking_inv d'"
proof (rule booking_inv_write [OF inv _ assms(2) _ assms(4-6)])
  have "upd g f (bookings d) = upd (\<lambda>x. g x \<and> bookingShape x) f (bookings d)"
    unfolding upd_def by (rule map_cong) (use inv_row(1) [OF inv] in auto)
  moreover have "disjoint_slots (upd (\<lambda>x. g x \<and> bookingShape x) f (bookings d))"
    by (rule disjoint_slots_free) (use inv assms(3) in \<open>auto simp: booking_inv_def\<close>)
  ultimately show "disjoint_slots (upd g f (bookings d))" by simp
qed (use assms(3) inv_row(1) [OF inv] in blast)

lemma cancel_inv:
  assumes "cancelBooking i emp reason now d = Inr d'" and "booking_inv d"
  shows "booking_inv d'"
proof -
  have d': "d' = logBooking emp ''RESERVATION_CANCELLED'' i (d\<lparr>bookings := upd (\<lambda>x. bk_id x = i \<and> bk_status x = Res_PENDING)
      (\<lambda>x. x\<lparr>bk_cancelledAt := Some now, bk_cancellationReason := Some reason, bk_status := Res_CANCELLED, bk_updatedAt := now\<rparr>)
      (bookings d)\<rparr>)"
    using assms(1) by (auto simp: cancelBooking_def assertStaff_def Let_def)
  show ?thesis
  by (rule close_inv [where g = "\<lambda>x. bk_id x = i \<and> bk_status x = Res_PENDING" and f = "\<lambda>x. x\<lparr>bk_cancelledAt := Some now,
      bk_cancellationReason := Some reason, bk_status := Res_CANCELLED, bk_updatedAt := now\<rparr>", OF assms(2)])
    (auto simp: d' bookingShape_def activeBooking_def)
qed

lemma no_shows_inv: "booking_inv d \<Longrightarrow> booking_inv (snd (markOverdueNoShows now d))"
  by (rule close_inv [where g = "\<lambda>x. bk_status x = Res_PENDING \<and> bk_startsAt x \<le> now - RESERVATION_NO_SHOW_GRACE_MS" and
      f = "\<lambda>x. x\<lparr>bk_noShowAt := Some now, bk_status := Res_NO_SHOW, bk_updatedAt := now\<rparr>"])
    (auto simp: markOverdueNoShows_def Let_def bookingShape_def activeBooking_def)

lemma check_in_inv:
  assumes "checkIn i emp now d = Inr (sid, d')" and inv: "booking_inv d"
  shows "booking_inv d'"
proof -
  obtain b where b: "b \<in> set (bookings d)" "bk_id b = i" "bk_status b = Res_PENDING"
    and e: "asks d' = asks d" "bk_nextId d' = bk_nextId d" "bookings d' = upd (\<lambda>x. bk_id x = i) (arrive sid now) (bookings d)"
    by (rule checkIn_rows [OF assms(1) inv_ids(1) [OF inv]]) (rule that)
  have same: "x = b" if "x \<in> set (bookings d)" "bk_id x = i" for x
    by (rule distinct_key_eq [OF inv_ids(1) [OF inv] that(1) b(1)]) (simp add: that(2) b(2))
  have ids: "bk_id (arrive sid now x) = bk_id x" for x by (simp add: arrive_def)
  have free: "slotFree (arrive sid now b) (bookings d)"
    using inv_row(3) [OF inv b(1)] b(3) by (simp add: slotFree_def arrive_def activeBooking_def)
  have "disjoint_slots (upd (\<lambda>x. bk_id x = i) (arrive sid now) (bookings d))"
    by (rule disjoint_slots_write) (use inv free same ids in \<open>auto simp: booking_inv_def\<close>)
  then show ?thesis
    by (rule booking_inv_write [OF inv _ ids _ e(3,1,2)])
      (use same inv_row(1) [OF inv b(1)] b(3) in \<open>auto simp: bookingShape_def arrive_def\<close>)
qed

end
