(* ===== verification/Booking_System.thy ===== *)
theory Booking_System
  imports Booking_Facts
begin

text \<open>Requests of the public, and the steps of the whole: the invariant holds in every reachable state, and
  decisions are final.\<close>

section \<open>Requests\<close>

lemma insertAsk_rows:
  assumes "insertAsk i h d = Inr (j, d')"
  obtains a where "asks d' = asks d @ [a]" "ask_id a = bk_nextId d" "ask_reservationId a = None" "askShape a" "bookings d' = bookings d"
    "bk_nextId d' = Suc (bk_nextId d)" "ask_status a = Ask_PENDING"
  using assms by (auto simp: insertAsk_def askShape_def)

lemma insertAsk_inv:
  assumes "insertAsk i h d = Inr (j, d')" and inv: "booking_inv d"
  shows "booking_inv d'"
proof -
  obtain a where a: "asks d' = asks d @ [a]" "ask_id a = bk_nextId d" "ask_reservationId a = None" "askShape a"
    "bookings d' = bookings d" "bk_nextId d' = Suc (bk_nextId d)"
    by (rule insertAsk_rows [OF assms(1)]) blast
  have "booking_keys d'" using inv a by (auto simp: booking_inv_def booking_keys_def less_Suc_eq)
  moreover have "List.map_filter ask_reservationId (asks d @ [a]) = List.map_filter ask_reservationId (asks d)"
    using a(3) by (simp add: List.map_filter_def)
  ultimately show ?thesis using inv a(4) unfolding booking_inv_def own_reservations_def a(1,5) by simp
qed

lemma public_steps:
  assumes "createPublicRequest hash fresh human i now d0 d = Inr (a, d')"
  shows "d' = d \<or> (\<exists>h j. insertAsk i h d = Inr (j, d'))"
  using assms by (auto simp: createPublicRequest_def Let_def window_ok split: option.split_asm if_split_asm sum.split_asm)

lemma withdraw_rows:
  assumes "cancelPublicRequest hash token now d0 d = Inr (j, d')"
  shows "d' = d \<or> d' = d\<lparr>asks := upd (\<lambda>x. ask_id x = j \<and> ask_status x = Ask_PENDING \<and> now < ask_startsAt x)
    (\<lambda>x. x\<lparr>ask_status := Ask_CANCELLED, ask_cancelledAt := Some now\<rparr>) (asks d)\<rparr>"
  using assms by (auto simp: cancelPublicRequest_def Let_def split: if_split_asm)

lemma reject_rows:
  assumes "rejectRequest i emp reason now d = Inr d'"
  shows "d' = logBooking emp ''RESERVATION_REQUEST_REJECTED'' i (d\<lparr>asks := upd (\<lambda>x. ask_id x = i \<and> ask_status x = Ask_PENDING)
    (\<lambda>x. x\<lparr>ask_status := Ask_REJECTED, ask_rejectionReason := Some reason, ask_reviewedAt := Some now,
       ask_reviewedById := Some emp\<rparr>) (asks d)\<rparr>)"
  using assms by (auto simp: rejectRequest_def assertStaff_def Let_def)

definition approvedAsk :: "id \<Rightarrow> id \<Rightarrow> time \<Rightarrow> bookingRequest \<Rightarrow> bookingRequest" where
  "approvedAsk n emp now x =
     x\<lparr>ask_status := Ask_APPROVED, ask_reviewedAt := Some now, ask_reviewedById := Some emp, ask_reservationId := Some n\<rparr>"

lemma approve_rows:
  assumes "approveRequest i emp t now d = Inr (b, d')" and ids: "distinct (map ask_id (asks d))"
  obtains a where "a \<in> set (asks d)" "ask_id a = i" "ask_status a = Ask_PENDING"
    "asks d' = upd (\<lambda>x. ask_id x = i) (approvedAsk (bk_nextId d) emp now) (asks d)" "bookings d' = bookings d @ [b]"
    "bk_nextId d' = Suc (bk_nextId d)" "bk_id b = bk_nextId d" "rowAllowed b (bookings d)" "bookingShape b"
    "bk_startsAt b = ask_startsAt a" "bk_endsAt b = ask_endsAt a" "bk_guestCount b = ask_guestCount a" "bk_tableId b = t"
proof -
  let ?g = "\<lambda>x. ask_id x = i \<and> ask_status x = Ask_PENDING"
  let ?f = "\<lambda>x. x\<lparr>ask_status := Ask_APPROVED, ask_reviewedAt := Some now, ask_reviewedById := Some emp\<rparr>"
  obtain a d1 where a: "findAskById i d = Some a" "ask_status a = Ask_PENDING"
    and w: "MIN_RESERVATION_DURATION_MS \<le> ask_endsAt a - ask_startsAt a" "ask_endsAt a - ask_startsAt a \<le> MAX_RESERVATION_DURATION_MS"
    and ins: "insertBooking (newBooking \<lparr>bi_customerName = Some (ask_customerName a), bi_phoneNumber = ask_phoneNumber a,
             bi_startsAt = ask_startsAt a, bi_endsAt = ask_endsAt a, bi_guestCount = ask_guestCount a, bi_notes = ask_notes a,
             bi_tableId = t\<rparr> emp now) (d\<lparr>asks := upd ?g ?f (asks d)\<rparr>) = Inr (b, d1)"
    and d': "d' = logBooking emp ''RESERVATION_REQUEST_APPROVED'' i
         (d1\<lparr>asks := upd (\<lambda>x. ask_id x = i) (\<lambda>x. x\<lparr>ask_reservationId := Some (bk_id b)\<rparr>) (asks d1)\<rparr>)"
    using assms(1) by (auto simp: approveRequest_def assertStaff_def assertActiveTable_def window_ok Let_def)
  note row = insertBooking_rows [OF ins]
  have aa: "a \<in> set (asks d)" "ask_id a = i" using find_SomeD [OF a(1) [unfolded findAskById_def]] by blast+
  have same: "x = a" if "x \<in> set (asks d)" "ask_id x = i" for x by (rule distinct_key_eq [OF ids that(1) aa(1)]) (simp add: that(2) aa(2))
  have n: "bk_id b = bk_nextId d" using row by simp
  have "asks d' = upd (\<lambda>x. ask_id x = i) (\<lambda>x. x\<lparr>ask_reservationId := Some (bk_nextId d)\<rparr>) (upd ?g ?f (asks d))"
    using row n by (simp add: d')
  also have "\<dots> = upd (\<lambda>x. ask_id x = i) (approvedAsk (bk_nextId d) emp now) (asks d)"
  proof -
    have "(if ask_id (if ?g x then ?f x else x) = i then (if ?g x then ?f x else x)\<lparr>ask_reservationId := Some (bk_nextId d)\<rparr>
        else (if ?g x then ?f x else x)) = (if ask_id x = i then approvedAsk (bk_nextId d) emp now x else x)" if "x \<in> set (asks d)" for x
      using same [OF that] a(2) by (cases "ask_id x = i") (simp_all add: approvedAsk_def)
    then show ?thesis unfolding upd_def map_map comp_def by (intro map_cong) simp_all
  qed
  finally have asks': "asks d' = upd (\<lambda>x. ask_id x = i) (approvedAsk (bk_nextId d) emp now) (asks d)" .
  have rest: "bookings d' = bookings d @ [b]" "bk_nextId d' = Suc (bk_nextId d)" "rowAllowed b (bookings d)"
    using row [THEN conjunct2] by (simp_all add: d')
  have b: "b = (newBooking \<lparr>bi_customerName = Some (ask_customerName a), bi_phoneNumber = ask_phoneNumber a,
             bi_startsAt = ask_startsAt a, bi_endsAt = ask_endsAt a, bi_guestCount = ask_guestCount a, bi_notes = ask_notes a,
             bi_tableId = t\<rparr> emp now)\<lparr>bk_id := bk_nextId d\<rparr>" using row by simp
  have cols: "bk_startsAt b = ask_startsAt a" "bk_endsAt b = ask_endsAt a" "bk_guestCount b = ask_guestCount a" "bk_tableId b = t"
    unfolding b newBooking_def by simp_all
  have "0 < ask_guestCount a" using rest(3) cols(3) by (simp add: rowAllowed_def)
  then have "bookingShape b" using w unfolding b newBooking_def bookingShape_def by simp
  then show thesis using that [OF aa a(2) asks' rest(1,2) n rest(3) _ cols] by blast
qed

lemma links_approved:
  assumes "distinct (map ask_id as)" and "distinct (List.map_filter ask_reservationId as)" and "n \<notin> set (List.map_filter ask_reservationId as)"
    and "\<And>x. x \<in> set as \<Longrightarrow> ask_id x = i \<Longrightarrow> ask_reservationId x = None"
  shows "distinct (List.map_filter ask_reservationId (upd (\<lambda>x. ask_id x = i) (approvedAsk n emp now) as)) \<and>
    set (List.map_filter ask_reservationId (upd (\<lambda>x. ask_id x = i) (approvedAsk n emp now) as)) \<subseteq>
      insert n (set (List.map_filter ask_reservationId as))"
  using assms
proof (induction as)
  case (Cons a as)
  show ?case
  proof (cases "ask_id a = i")
    case True
    then have none: "upd (\<lambda>x. ask_id x = i) (approvedAsk n emp now) as = as"
      using Cons.prems(1) by (intro upd_none) (simp, metis imageI)
    have "ask_reservationId a = None" using Cons.prems(4) True by simp
    then show ?thesis using True Cons.prems(2,3) unfolding upd_rules none
      by (auto simp: List.map_filter_simps approvedAsk_def)
  next
    case False
    have "distinct (List.map_filter ask_reservationId as)" "n \<notin> set (List.map_filter ask_reservationId as)"
      using Cons.prems(2,3) by (simp_all add: List.map_filter_simps split: option.split_asm)
    then have IH: "distinct (List.map_filter ask_reservationId (upd (\<lambda>x. ask_id x = i) (approvedAsk n emp now) as)) \<and>
       set (List.map_filter ask_reservationId (upd (\<lambda>x. ask_id x = i) (approvedAsk n emp now) as)) \<subseteq>
         insert n (set (List.map_filter ask_reservationId as))"
      using Cons.IH Cons.prems(1,4) by simp
    show ?thesis
    proof (cases "ask_reservationId a")
      case None
      then show ?thesis using IH False by (simp add: List.map_filter_simps)
    next
      case (Some m)
      then have "m \<noteq> n" "m \<notin> set (List.map_filter ask_reservationId as)" using Cons.prems(2,3) by (simp_all add: List.map_filter_simps)
      then show ?thesis using IH False Some by (auto simp: List.map_filter_simps)
    qed
  qed
qed simp

lemma approve_inv:
  assumes "approveRequest i emp t now d = Inr (b, d')" and inv: "booking_inv d"
  shows "booking_inv d'"
proof -
  obtain a where a: "a \<in> set (asks d)" "ask_id a = i" "ask_status a = Ask_PENDING"
    and e: "asks d' = upd (\<lambda>x. ask_id x = i) (approvedAsk (bk_nextId d) emp now) (asks d)" "bookings d' = bookings d @ [b]"
    "bk_nextId d' = Suc (bk_nextId d)" "bk_id b = bk_nextId d"
    and rows: "rowAllowed b (bookings d)" "bookingShape b"
    by (rule approve_rows [OF assms(1) inv_ids(2) [OF inv]]) blast
  have same: "x = a" if "x \<in> set (asks d)" "ask_id x = i" for x
    by (rule distinct_key_eq [OF inv_ids(2) [OF inv] that(1) a(1)]) (simp add: that(2) a(2))
  have ashape: "askShape a" by (rule inv_row(2) [OF inv a(1)])
  have keys: "booking_keys d" and links: "own_reservations (asks d) (bookings d)" using inv by (simp_all add: booking_inv_def)
  have ids: "map ask_id (asks d') = map ask_id (asks d)" unfolding e(1) by (rule map_key_upd) (simp add: approvedAsk_def)
  have aids: "ask_id ` set (asks d') = ask_id ` set (asks d)" using arg_cong [OF ids, of set] by simp
  have fresh: "bk_nextId d \<notin> bk_id ` set (bookings d)" using keys by (auto simp: booking_keys_def)
  have "booking_keys d'" using keys fresh unfolding booking_keys_def ids aids e(2,3) by (auto simp: e(4) less_Suc_eq)
  moreover have "disjoint_slots (bookings d')" using inv rows(1) unfolding e(2)
    by (intro disjoint_slots_append) (simp_all add: booking_inv_def rowAllowed_def)
  moreover have "\<forall>x\<in>set (asks d'). askShape x"
    unfolding e(1) ball_upd using same ashape a(3) inv_row(2) [OF inv] by (auto simp: askShape_def approvedAsk_def)
  moreover have "own_reservations (asks d') (bookings d')"
  proof -
    have new: "bk_nextId d \<notin> set (List.map_filter ask_reservationId (asks d))" using links fresh by (auto simp: own_reservations_def)
    have none: "ask_reservationId x = None" if "x \<in> set (asks d)" "ask_id x = i" for x
      using same [OF that] ashape a(3) by (simp add: askShape_def)
    have d0: "distinct (List.map_filter ask_reservationId (asks d))" "set (List.map_filter ask_reservationId (asks d)) \<subseteq> bk_id ` set (bookings d)"
      using links by (simp_all add: own_reservations_def)
    have two: "bk_id ` set (bookings d @ [b]) = insert (bk_nextId d) (bk_id ` set (bookings d))" by (simp add: e(4))
    show ?thesis
      using links_approved [OF inv_ids(2) [OF inv] d0(1) new none, of i emp now] d0(2)
      unfolding own_reservations_def e(1,2) two by blast
  qed
  ultimately show ?thesis using inv rows(2) by (simp add: booking_inv_def e(2))
qed

lemma withdraw_inv:
  assumes "cancelPublicRequest hash token now d0 d = Inr (j, d')" and "booking_inv d"
  shows "booking_inv d'"
  using withdraw_rows [OF assms(1)]
proof
  assume d': "d' = d\<lparr>asks := upd (\<lambda>x. ask_id x = j \<and> ask_status x = Ask_PENDING \<and> now < ask_startsAt x)
    (\<lambda>x. x\<lparr>ask_status := Ask_CANCELLED, ask_cancelledAt := Some now\<rparr>) (asks d)\<rparr>"
  show ?thesis
    by (rule booking_inv_asks [OF assms(2), where g = "\<lambda>x. ask_id x = j \<and> ask_status x = Ask_PENDING \<and> now < ask_startsAt x" and
        f = "\<lambda>x. x\<lparr>ask_status := Ask_CANCELLED, ask_cancelledAt := Some now\<rparr>"])
      (use inv_row(2) [OF assms(2)] in \<open>auto simp: d' askShape_def\<close>)
qed (simp add: assms(2))

lemma reject_inv:
  assumes "rejectRequest i emp reason now d = Inr d'" and "booking_inv d"
  shows "booking_inv d'"
  by (rule booking_inv_asks [OF assms(2), where g = "\<lambda>x. ask_id x = i \<and> ask_status x = Ask_PENDING" and
      f = "\<lambda>x. x\<lparr>ask_status := Ask_REJECTED, ask_rejectionReason := Some reason, ask_reviewedAt := Some now, ask_reviewedById := Some emp\<rparr>"])
    (use inv_row(2) [OF assms(2)] in \<open>auto simp: reject_rows [OF assms(1)] askShape_def\<close>)

lemma expire_inv: "booking_inv d \<Longrightarrow> booking_inv (snd (markExpiredPublicRequests now d))"
  by (rule booking_inv_asks [where g = "\<lambda>x. ask_status x = Ask_PENDING \<and> ask_startsAt x \<le> now" and
      f = "\<lambda>x. x\<lparr>ask_status := Ask_EXPIRED, ask_reviewedAt := Some now\<rparr>"])
    (auto simp: markExpiredPublicRequests_def Let_def askShape_def dest: inv_row(2))

section \<open>Steps\<close>

lemma step_inv: "booking_step hash lower d d' \<Longrightarrow> booking_inv d \<Longrightarrow> booking_inv d'"
proof (induction rule: booking_step.cases)
  case (step_ask fresh human i now d0 a)
  then show ?case using public_steps [OF step_ask(3)] insertAsk_inv by blast
next
  case (step_table n i)
  then show ?case using booking_inv_rows tables_rows(1) by blast
next
  case (step_rename i name)
  then show ?case using booking_inv_rows tables_rows(2) by blast
next
  case (step_remove i now)
  then show ?case using booking_inv_rows tables_rows(3) by blast
next
  case (step_elsewhere s)
  then show ?case by (subst booking_inv_rows [of _ d]) simp_all
qed (simp_all only: create_inv update_inv cancel_inv check_in_inv no_shows_inv withdraw_inv approve_inv reject_inv expire_inv)

lemma steps_inv: "(booking_step hash lower)\<^sup>*\<^sup>* d d' \<Longrightarrow> booking_inv d \<Longrightarrow> booking_inv d'"
  by (induction rule: rtranclp_induct) (auto intro: step_inv)

section \<open>Decisions are final\<close>

definition decided :: "bookingDb \<Rightarrow> bookingDb \<Rightarrow> bool" where
  "decided d d' \<longleftrightarrow> (\<forall>a\<in>set (asks d). ask_status a \<noteq> Ask_PENDING \<longrightarrow> a \<in> set (asks d')) \<and>
     (\<forall>b\<in>set (bookings d). bk_status b \<noteq> Res_PENDING \<longrightarrow> b \<in> set (bookings d'))"

lemma decided_refl [simp]: "decided d d"
  by (simp add: decided_def)

lemma mem_upd_other: "x \<in> set t \<Longrightarrow> \<not> g x \<Longrightarrow> x \<in> set (upd g f t)"
  by (force simp: set_upd)

lemma decided_upd:
  "asks d' = upd g f (asks d) \<Longrightarrow> bookings d' = upd h k (bookings d) \<Longrightarrow>
   (\<And>x. x \<in> set (asks d) \<Longrightarrow> g x \<Longrightarrow> ask_status x = Ask_PENDING) \<Longrightarrow>
   (\<And>x. x \<in> set (bookings d) \<Longrightarrow> h x \<Longrightarrow> bk_status x = Res_PENDING) \<Longrightarrow> decided d d'"
  unfolding decided_def by (metis mem_upd_other)

lemma decided_bookings:
  "asks d' = asks d \<Longrightarrow> bookings d' = upd h k (bookings d) \<Longrightarrow>
   (\<And>x. x \<in> set (bookings d) \<Longrightarrow> h x \<Longrightarrow> bk_status x = Res_PENDING) \<Longrightarrow> decided d d'"
  unfolding decided_def by (metis mem_upd_other)

lemma decided_asks:
  "asks d' = upd g f (asks d) \<Longrightarrow> bookings d' = bookings d \<Longrightarrow>
   (\<And>x. x \<in> set (asks d) \<Longrightarrow> g x \<Longrightarrow> ask_status x = Ask_PENDING) \<Longrightarrow> decided d d'"
  unfolding decided_def by (metis mem_upd_other)

lemma decided_same: "asks d' = asks d \<Longrightarrow> bookings d' = bookings d \<Longrightarrow> decided d d'"
  by (simp add: decided_def)

end
