(* ===== verification/Booking_Claims.thy ===== *)
theory Booking_Claims
  imports Booking_System
begin

text \<open>The properties of table reservations, and a run in which a request is approved.\<close>

section \<open>Decisions\<close>

lemma step_decided:
  assumes "booking_step hash lower d d'" and inv: "booking_inv d"
  shows "decided d d'"
  using assms(1)
proof (cases rule: booking_step.cases)
  case (step_create emp i now b)
  then obtain d1 where "insertBooking (newBooking i emp now) d = Inr (b, d1)" "d' = logBooking emp ''RESERVATION_CREATED'' (bk_id b) d1"
    by (auto simp: createBooking_def window_ok assertStaff_def assertActiveTable_def)
  then show ?thesis using insertBooking_rows by (auto simp: decided_def)
next
  case (step_update i emp c exptd now)
  then obtain u where d': "d' = logBooking emp ''RESERVATION_UPDATED'' i (d\<lparr>bookings := upd (\<lambda>x. bk_id x = i \<and> bk_status x = Res_PENDING \<and>
       bk_updatedAt x = u) (changeBooking c now) (bookings d)\<rparr>)"
    by (auto simp: updateBooking_def window_ok assertStaff_def Let_def dest!: table_change_Inr)
  show ?thesis
    by (rule decided_bookings [where h = "\<lambda>x. bk_id x = i \<and> bk_status x = Res_PENDING \<and> bk_updatedAt x = u" and k = "changeBooking c now"])
      (auto simp: d')
next
  case (step_cancel i emp reason now)
  then have d': "d' = logBooking emp ''RESERVATION_CANCELLED'' i (d\<lparr>bookings := upd (\<lambda>x. bk_id x = i \<and> bk_status x = Res_PENDING)
      (\<lambda>x. x\<lparr>bk_cancelledAt := Some now, bk_cancellationReason := Some reason, bk_status := Res_CANCELLED, bk_updatedAt := now\<rparr>)
      (bookings d)\<rparr>)"
    by (auto simp: cancelBooking_def assertStaff_def Let_def)
  show ?thesis
    by (rule decided_bookings [where h = "\<lambda>x. bk_id x = i \<and> bk_status x = Res_PENDING" and k = "\<lambda>x. x\<lparr>bk_cancelledAt := Some now,
        bk_cancellationReason := Some reason, bk_status := Res_CANCELLED, bk_updatedAt := now\<rparr>"]) (auto simp: d')
next
  case (step_check_in i emp now sid)
  obtain b where b: "b \<in> set (bookings d)" "bk_id b = i" "bk_status b = Res_PENDING"
    and e: "asks d' = asks d" "bookings d' = upd (\<lambda>x. bk_id x = i) (arrive sid now) (bookings d)"
    by (rule checkIn_rows [OF step_check_in inv_ids(1) [OF inv]]) (rule that)
  have "bk_status x = Res_PENDING" if "x \<in> set (bookings d)" "bk_id x = i" for x
    using distinct_key_eq [OF inv_ids(1) [OF inv] that(1) b(1)] that(2) b(2,3) by simp
  then show ?thesis by (rule decided_bookings [OF e])
next
  case (step_no_shows now)
  show ?thesis
    by (rule decided_bookings [where h = "\<lambda>x. bk_status x = Res_PENDING \<and> bk_startsAt x \<le> now - RESERVATION_NO_SHOW_GRACE_MS" and
        k = "\<lambda>x. x\<lparr>bk_noShowAt := Some now, bk_status := Res_NO_SHOW, bk_updatedAt := now\<rparr>"])
      (auto simp: step_no_shows markOverdueNoShows_def Let_def)
next
  case (step_ask fresh human i now d0 a)
  from public_steps [OF step_ask] show ?thesis
  proof
    assume "\<exists>h j. insertAsk i h d = Inr (j, d')"
    then obtain h j where "insertAsk i h d = Inr (j, d')" by blast
    then show ?thesis by (rule insertAsk_rows) (simp add: decided_def)
  qed simp
next
  case (step_withdraw token now d0 j)
  from withdraw_rows [OF step_withdraw] show ?thesis
  proof
    assume d': "d' = d\<lparr>asks := upd (\<lambda>x. ask_id x = j \<and> ask_status x = Ask_PENDING \<and> now < ask_startsAt x)
      (\<lambda>x. x\<lparr>ask_status := Ask_CANCELLED, ask_cancelledAt := Some now\<rparr>) (asks d)\<rparr>"
    show ?thesis
      by (rule decided_asks [where g = "\<lambda>x. ask_id x = j \<and> ask_status x = Ask_PENDING \<and> now < ask_startsAt x" and
          f = "\<lambda>x. x\<lparr>ask_status := Ask_CANCELLED, ask_cancelledAt := Some now\<rparr>"]) (auto simp: d')
  qed simp
next
  case (step_approve i emp t now b)
  obtain a where a: "a \<in> set (asks d)" "ask_id a = i" "ask_status a = Ask_PENDING"
    and e: "asks d' = upd (\<lambda>x. ask_id x = i) (approvedAsk (bk_nextId d) emp now) (asks d)" "bookings d' = bookings d @ [b]"
    by (rule approve_rows [OF step_approve inv_ids(2) [OF inv]]) blast
  have "ask_status x = Ask_PENDING" if "x \<in> set (asks d)" "ask_id x = i" for x
    using distinct_key_eq [OF inv_ids(2) [OF inv] that(1) a(1)] that(2) a(2,3) by simp
  then have "decided d (d\<lparr>asks := asks d'\<rparr>)" by (intro decided_asks [where g = "\<lambda>x. ask_id x = i"]) (simp_all add: e(1))
  then show ?thesis by (simp add: decided_def e(2))
next
  case (step_reject i emp reason now)
  show ?thesis
    by (rule decided_asks [where g = "\<lambda>x. ask_id x = i \<and> ask_status x = Ask_PENDING" and
        f = "\<lambda>x. x\<lparr>ask_status := Ask_REJECTED, ask_rejectionReason := Some reason, ask_reviewedAt := Some now,
          ask_reviewedById := Some emp\<rparr>"]) (auto simp: reject_rows [OF step_reject])
next
  case (step_expire now)
  show ?thesis
    by (rule decided_asks [where g = "\<lambda>x. ask_status x = Ask_PENDING \<and> ask_startsAt x \<le> now" and
        f = "\<lambda>x. x\<lparr>ask_status := Ask_EXPIRED, ask_reviewedAt := Some now\<rparr>"])
      (auto simp: step_expire markExpiredPublicRequests_def Let_def)
qed (auto intro: decided_same dest: tables_rows)

section \<open>A run\<close>

definition house :: bookingDb where
  "house = \<lparr>bk_nextId = 1, shop = empty_db\<lparr>employees := [\<lparr>e_id = 1, e_fullName = ''Lan'', e_isActive = True, e_deletedAt = None\<rparr>],
     diningTables := [\<lparr>t_id = 7, t_status = Table_EMPTY, t_deletedAt = None\<rparr>]\<rparr>, tableName = (\<lambda>i. ''A''), bookings = [], asks = []\<rparr>"

definition wish :: publicInput where
  "wish = \<lparr>pi_customerName = ''An'', pi_clientRequestToken = Some ''tok'', pi_phoneNumber = ''0123456789'', pi_startsAt = 7200000,
     pi_endsAt = 10800000, pi_guestCount = 2, pi_notes = None\<rparr>"

definition house_asked :: bookingDb where
  "house_asked = snd (value_of (createPublicRequest (\<lambda>t. t) [] True wish 0 house house))"

definition house_booked :: bookingDb where
  "house_booked = snd (value_of (approveRequest 1 1 7 10 house_asked))"

lemma asked_ok: "createPublicRequest (\<lambda>t. t) [] True wish 0 house house = Inr ((1, Ask_PENDING, ''tok''), house_asked)"
  and asked_rows: "asks house_asked = [\<lparr>ask_id = 1, ask_accessTokenHash = ''tok'', ask_customerName = ''An'', ask_phoneNumber = ''0123456789'',
     ask_startsAt = 7200000, ask_endsAt = 10800000, ask_guestCount = 2, ask_notes = None, ask_status = Ask_PENDING,
     ask_rejectionReason = None, ask_cancelledAt = None, ask_reviewedAt = None, ask_reviewedById = None, ask_reservationId = None\<rparr>]"
    "bookings house_asked = []" "bk_nextId house_asked = 2" "shop house_asked = shop house"
  by (simp_all add: house_asked_def createPublicRequest_def replayAsk_def findAsk_def insertAsk_def wish_def house_def assertValidWindow_def
      MIN_RESERVATION_DURATION_MS_def MAX_RESERVATION_DURATION_MS_def MAX_PUBLIC_BOOKING_ADVANCE_MS_def Let_def)

definition theBooking :: booking where
  "theBooking = \<lparr>bk_id = 2, bk_customerName = Some ''An'', bk_phoneNumber = ''0123456789'', bk_startsAt = 7200000, bk_endsAt = 10800000,
     bk_guestCount = 2, bk_notes = None, bk_checkedInAt = None, bk_cancelledAt = None, bk_cancellationReason = None, bk_noShowAt = None,
     bk_status = Res_PENDING, bk_updatedAt = 10, bk_tableId = 7, bk_employeeId = 1, bk_orderSessionId = None\<rparr>"

lemma booked_ok: "approveRequest 1 1 7 10 house_asked = Inr (theBooking, house_booked)"
  and booked_rows: "asks house_booked = [\<lparr>ask_id = 1, ask_accessTokenHash = ''tok'', ask_customerName = ''An'', ask_phoneNumber = ''0123456789'',
     ask_startsAt = 7200000, ask_endsAt = 10800000, ask_guestCount = 2, ask_notes = None, ask_status = Ask_APPROVED,
     ask_rejectionReason = None, ask_cancelledAt = None, ask_reviewedAt = Some 10, ask_reviewedById = Some 1, ask_reservationId = Some 2\<rparr>]"
    "bookings house_booked = [theBooking]" "shop house_booked = addLog 1 ''RESERVATION_REQUEST_APPROVED'' 1 (shop house)"
  by (simp_all add: house_booked_def approveRequest_def assertStaff_def activeEmployee_def assertActiveTable_def findTable_def findAskById_def
      asked_rows house_def assertValidWindow_def insertBooking_def newBooking_def rowAllowed_def slotFree_def logBooking_def cnt_def upd_def
      theBooking_def MIN_RESERVATION_DURATION_MS_def MAX_RESERVATION_DURATION_MS_def Let_def)

lemma house_inv: "booking_inv house"
  by (simp add: house_def booking_inv_def booking_keys_def disjoint_slots_def own_reservations_def List.map_filter_simps)

lemma house_steps: "(booking_step (\<lambda>t. t) lower)\<^sup>*\<^sup>* house house_booked"
  using step_ask [OF asked_ok] step_approve [OF booked_ok] by (blast intro: rtranclp_trans r_into_rtranclp)

section \<open>Properties\<close>

lemma mem_map_filter: "x \<in> set xs \<Longrightarrow> f x = Some n \<Longrightarrow> n \<in> set (List.map_filter f xs)"
  by (force simp: List.map_filter_def)

lemma map_filter_inj:
  "distinct (List.map_filter f xs) \<Longrightarrow> x \<in> set xs \<Longrightarrow> y \<in> set xs \<Longrightarrow> f x = Some n \<Longrightarrow> f y = Some n \<Longrightarrow> x = y"
proof (induction xs)
  case (Cons a xs)
  have "n \<in> set (List.map_filter f xs)" if "z \<in> set xs" "f z = Some n" for z using that by (rule mem_map_filter)
  then show ?case using Cons by (cases "f a") (auto simp: List.map_filter_simps)
qed simp

text \<open>C18: A table is never promised twice. In every reachable state two reservations of one table that are
  pending or seated do not overlap in time; every reservation lasts between 15 minutes and 8 hours and its
  columns fit its status (a session and a check-in time exactly when the guests arrived); and an approved
  request has a reservation of its own.\<close>

theorem bookings_sound:
  assumes "(booking_step hash lower)\<^sup>*\<^sup>* d0 d" and "booking_inv d0"
  shows "(\<forall>a\<in>set (bookings d). \<forall>b\<in>set (bookings d). bk_id a \<noteq> bk_id b \<and> activeBooking a \<and> activeBooking b \<and> bk_tableId a = bk_tableId b \<longrightarrow>
      bk_endsAt a \<le> bk_startsAt b \<or> bk_endsAt b \<le> bk_startsAt a) \<and>
    (\<forall>b\<in>set (bookings d). bk_startsAt b + 15 * 60 * 1000 \<le> bk_endsAt b \<and> bk_endsAt b \<le> bk_startsAt b + 8 * 60 * 60 * 1000 \<and>
      (bk_orderSessionId b \<noteq> None \<longleftrightarrow> bk_status b = Res_ARRIVED) \<and> (bk_checkedInAt b \<noteq> None \<longleftrightarrow> bk_status b = Res_ARRIVED)) \<and>
    (\<forall>a\<in>set (asks d). ask_status a = Ask_APPROVED \<longrightarrow> (\<exists>b\<in>set (bookings d). ask_reservationId a = Some (bk_id b) \<and>
      (\<forall>a'\<in>set (asks d). ask_reservationId a' = Some (bk_id b) \<longrightarrow> a' = a)))"
proof (intro conjI ballI impI)
  have inv: "booking_inv d" by (rule steps_inv [OF assms])
  fix a b assume ab: "a \<in> set (bookings d)" "b \<in> set (bookings d)"
    "bk_id a \<noteq> bk_id b \<and> activeBooking a \<and> activeBooking b \<and> bk_tableId a = bk_tableId b"
  then have "\<not> meets (bk_startsAt b) (bk_endsAt b) a" using inv_row(3) [OF inv ab(2)] by (simp add: slotFree_def)
  then show "bk_endsAt a \<le> bk_startsAt b \<or> bk_endsAt b \<le> bk_startsAt a" by (auto simp: meets_def)
next
  fix b assume b: "b \<in> set (bookings d)"
  note shape = inv_row(1) [OF steps_inv [OF assms] b, unfolded bookingShape_def MIN_RESERVATION_DURATION_MS_def MAX_RESERVATION_DURATION_MS_def]
  show "bk_startsAt b + 15 * 60 * 1000 \<le> bk_endsAt b" "bk_endsAt b \<le> bk_startsAt b + 8 * 60 * 60 * 1000"
    "bk_orderSessionId b \<noteq> None \<longleftrightarrow> bk_status b = Res_ARRIVED" "bk_checkedInAt b \<noteq> None \<longleftrightarrow> bk_status b = Res_ARRIVED"
    using shape by simp_all
next
  have inv: "booking_inv d" by (rule steps_inv [OF assms])
  fix a assume a: "a \<in> set (asks d)" "ask_status a = Ask_APPROVED"
  then obtain n where n: "ask_reservationId a = Some n" using inv_row(2) [OF inv a(1)] by (auto simp: askShape_def)
  have "n \<in> set (List.map_filter ask_reservationId (asks d))" by (rule mem_map_filter [where f = ask_reservationId, OF a(1) n])
  then obtain b where b: "b \<in> set (bookings d)" "bk_id b = n" using inv by (auto simp: booking_inv_def own_reservations_def)
  have "a' = a" if "a' \<in> set (asks d)" "ask_reservationId a' = Some n" for a'
    by (rule map_filter_inj [of ask_reservationId "asks d", OF _ that(1) a(1) that(2) n]) (use inv in \<open>simp add: booking_inv_def own_reservations_def\<close>)
  then show "\<exists>b\<in>set (bookings d). ask_reservationId a = Some (bk_id b) \<and> (\<forall>a'\<in>set (asks d). ask_reservationId a' = Some (bk_id b) \<longrightarrow> a' = a)"
    using b n by blast
qed

theorem bookings_sound_witness: "bk_startsAt theBooking + 15 * 60 * 1000 \<le> bk_endsAt theBooking"
  using bookings_sound [OF house_steps house_inv] by (simp add: booked_rows)

lemma steps_decided:
  assumes "(booking_step hash lower)\<^sup>*\<^sup>* d d'" and "booking_inv d"
  shows "decided d d'"
  using assms
proof (induction rule: rtranclp_induct)
  case (step d1 d2)
  have "decided d1 d2" by (rule step_decided [OF step.hyps(2) steps_inv [OF step.hyps(1) step.prems]])
  then show ?case using step.IH [OF step.prems] unfolding decided_def by blast
qed simp

text \<open>C21: Decisions are final. A request that was approved, rejected, withdrawn or that expired, and a
  reservation whose guests arrived, that was cancelled or marked as a no-show, stays as it is, whatever
  happens afterwards.\<close>

theorem decisions_are_final:
  assumes "(booking_step hash lower)\<^sup>*\<^sup>* d d'" and "booking_inv d"
  shows "(\<forall>a\<in>set (asks d). ask_status a \<noteq> Ask_PENDING \<longrightarrow> a \<in> set (asks d')) \<and>
    (\<forall>b\<in>set (bookings d). bk_status b \<noteq> Res_PENDING \<longrightarrow> b \<in> set (bookings d'))"
  using steps_decided [OF assms] unfolding decided_def .

theorem decisions_are_final_witness:
  "\<exists>a\<in>set (asks (snd (markExpiredPublicRequests 9000000 house_booked))). ask_status a = Ask_APPROVED"
proof -
  have "(booking_step (\<lambda>t. t) (\<lambda>t. t))\<^sup>*\<^sup>* house_booked (snd (markExpiredPublicRequests 9000000 house_booked))"
    by (rule r_into_rtranclp) (rule step_expire)
  from decisions_are_final [OF this steps_inv [OF house_steps house_inv]] have "hd (asks house_booked) \<in> set (asks (snd (markExpiredPublicRequests 9000000 house_booked)))" by (simp add: booked_rows)
  then show ?thesis by (rule bexI [rotated]) (simp add: booked_rows)
qed

text \<open>C19: What is shown as available can be booked, and what is not cannot. A table is in the answer of
  \<open>findAvailableTables\<close> for a window that has not begun yet exactly when an active employee can at that moment create a
  reservation of it for the window and at least one guest. (The search answers for a window that has begun too, which the creation refuses.)\<close>

theorem available_is_bookable:
  assumes "findAvailableTables contains \<lparr>av_startsAt = bi_startsAt i, av_endsAt = bi_endsAt i, av_excludeReservationId = None,
      av_tableId = None, av_keyword = None\<rparr> now d = Inr ts"
    and "booking_inv d" and "activeEmployee emp (shop d)" and "0 < bi_guestCount i"
  shows "ok (createBooking emp i now d) \<longleftrightarrow> bi_tableId i \<in> set ts \<and> now < bi_startsAt i"
proof -
  let ?r = "(newBooking i emp now)\<lparr>bk_id := bk_nextId d\<rparr>"
  have w: "MIN_RESERVATION_DURATION_MS \<le> bi_endsAt i - bi_startsAt i" "bi_endsAt i - bi_startsAt i \<le> MAX_RESERVATION_DURATION_MS" "now < bi_endsAt i"
    using assms(1) by (simp_all add: findAvailableTables_def window_ok)
  have ids: "\<forall>b\<in>set (bookings d). bk_id b \<noteq> bk_nextId d" using assms(2) by (auto simp: booking_inv_def booking_keys_def)
  have "ok (createBooking emp i now d) \<longleftrightarrow> now < bi_startsAt i \<and> findTable (shop d) (bi_tableId i) \<noteq> None \<and> rowAllowed ?r (bookings d)"
    using w assms(3) by (simp add: createBooking_def assertValidWindow_def assertStaff_def assertActiveTable_def insertBooking_def Let_def
        require_def andThen_def ok_def)
  also have "rowAllowed ?r (bookings d) \<longleftrightarrow> (\<forall>b\<in>set (bookings d). \<not> (bk_tableId b = bi_tableId i \<and> activeBooking b \<and>
      meets (bi_startsAt i) (bi_endsAt i) b))"
  proof -
    have "bi_startsAt i < bi_endsAt i" using w(1) by (simp add: MIN_RESERVATION_DURATION_MS_def)
    then show ?thesis using ids assms(4) unfolding rowAllowed_def slotFree_def by (auto simp: newBooking_def activeBooking_def)
  qed
  also have "findTable (shop d) (bi_tableId i) \<noteq> None \<longleftrightarrow> (\<exists>t\<in>set (diningTables (shop d)). t_id t = bi_tableId i \<and> t_deletedAt t = None)"
    by (auto simp: findTable_def find_None_iff)
  finally have ok: "ok (createBooking emp i now d) \<longleftrightarrow> now < bi_startsAt i \<and> (\<exists>t\<in>set (diningTables (shop d)). t_id t = bi_tableId i \<and> t_deletedAt t = None) \<and>
      (\<forall>b\<in>set (bookings d). \<not> (bk_tableId b = bi_tableId i \<and> activeBooking b \<and> meets (bi_startsAt i) (bi_endsAt i) b))" .
  define free where "free t \<longleftrightarrow> t_deletedAt t = None \<and> (\<forall>b\<in>set (bookings d). \<not> (bk_tableId b = t_id t \<and> activeBooking b \<and>
      meets (bi_startsAt i) (bi_endsAt i) b))" for t :: diningTable
  have "ts = sort_key (tableName d) (map t_id (filter free (diningTables (shop d))))"
    using assms(1) by (simp add: findAvailableTables_def window_ok availableTables_def free_def [abs_def])
  then have "set ts = t_id ` {t \<in> set (diningTables (shop d)). free t}" by simp
  then have "bi_tableId i \<in> set ts \<longleftrightarrow> (\<exists>t\<in>set (diningTables (shop d)). t_id t = bi_tableId i \<and> free t)" by (auto simp: image_iff)
  then show ?thesis unfolding ok free_def by metis
qed

theorem available_is_bookable_witness:
  "\<not> ok (createBooking 1 \<lparr>bi_customerName = None, bi_phoneNumber = ''9'', bi_startsAt = 9000000, bi_endsAt = 12000000,
     bi_guestCount = 4, bi_notes = None, bi_tableId = 7\<rparr> 20 house_booked)"
proof -
  let ?i = "\<lparr>bi_customerName = None, bi_phoneNumber = ''9'', bi_startsAt = 9000000, bi_endsAt = 12000000,
     bi_guestCount = 4, bi_notes = None, bi_tableId = 7\<rparr>"
  let ?q = "\<lparr>av_startsAt = bi_startsAt ?i, av_endsAt = bi_endsAt ?i, av_excludeReservationId = None, av_tableId = None, av_keyword = None\<rparr>"
  have staff: "activeEmployee 1 (shop house_booked)" 
    by (simp add: house_booked_def approveRequest_def assertStaff_def activeEmployee_def assertActiveTable_def findTable_def findAskById_def
      asked_rows house_def assertValidWindow_def insertBooking_def newBooking_def rowAllowed_def slotFree_def logBooking_def addLog_def cnt_def upd_def
      MIN_RESERVATION_DURATION_MS_def MAX_RESERVATION_DURATION_MS_def Let_def)
  have a: "findAvailableTables (\<lambda>k n. True) ?q 20 house_booked = Inr (availableTables (\<lambda>k n. True) ?q house_booked)"
    by (simp add: findAvailableTables_def assertValidWindow_def MIN_RESERVATION_DURATION_MS_def MAX_RESERVATION_DURATION_MS_def)
  have "7 \<notin> set (availableTables (\<lambda>k n. True) ?q house_booked)"
    by (auto simp: availableTables_def booked_rows theBooking_def activeBooking_def meets_def)
  then show ?thesis
    using available_is_bookable [OF a steps_inv [OF house_steps house_inv] staff] by simp
qed

section \<open>Checking in\<close>

lemma created_session:
  assumes "createOrderSession (Some t) emp guests now d = Inr (sid, d')"
  shows "orderSessions d' = orderSessions d @ [\<lparr>s_id = sid, s_status = Session_ACTIVE, s_tableId = Some t, s_employeeId = emp,
      s_shiftId = findOpenShiftId emp d, s_guestCount = guests, s_online = None\<rparr>]" (is ?rows)
    and "activeOn d t = None" and "activeEmployee emp d"
    and "\<exists>r\<in>set (diningTables d). t_id r = t \<and> t_deletedAt r = None \<and> t_status r = Table_EMPTY"
    and "diningTables d' = upd (\<lambda>r. t_id r = t \<and> t_deletedAt r = None \<and> t_status r = Table_EMPTY)
       (\<lambda>r. r\<lparr>t_status := Table_OCCUPIED\<rparr>) (diningTables d)"
proof -
  show ?rows "activeOn d t = None" "activeEmployee emp d"
    using assms by (auto simp: createOrderSession_def claimTable_def setTables_def insertSession_def activeOn_def
        enqueueOrderEvent_def Let_def)
  show "\<exists>r\<in>set (diningTables d). t_id r = t \<and> t_deletedAt r = None \<and> t_status r = Table_EMPTY"
    and "diningTables d' = upd (\<lambda>r. t_id r = t \<and> t_deletedAt r = None \<and> t_status r = Table_EMPTY)
       (\<lambda>r. r\<lparr>t_status := Table_OCCUPIED\<rparr>) (diningTables d)"
    by (rule createOrderSession_effect [OF assms], simp)+
qed

lemma not_pending_refused:
  assumes "booking_inv d" and "b \<in> set (bookings d)" and "bk_status b \<noteq> Res_PENDING"
  shows "\<not> ok (checkIn (bk_id b) emp now d)" and "\<not> ok (cancelBooking (bk_id b) emp reason now d)"
    and "\<not> ok (updateBooking (bk_id b) emp c exptd now d)"
proof -
  have f: "findBooking (bk_id b) d = Some b"
    unfolding findBooking_def by (rule find_unique [OF inv_ids(1) [OF assms(1)]]) (use assms(2) in auto)
  show "\<not> ok (checkIn (bk_id b) emp now d)" and "\<not> ok (cancelBooking (bk_id b) emp reason now d)"
    and "\<not> ok (updateBooking (bk_id b) emp c exptd now d)"
    using assms(3) by (simp_all add: checkIn_def cancelBooking_def updateBooking_def assertStaff_def f require_def ok_def)
qed

text \<open>C20: Guests are seated once, and in time. A check-in succeeds only for a PENDING reservation, from 30 minutes before
  its start until 15 minutes after, by an active employee and at a table that is EMPTY and has no ACTIVE session. It
  marks that reservation ARRIVED and no other, occupies the table, and opens one session at it, for the guests of the
  reservation; and whatever happens afterwards, the reservation keeps that session and can be neither checked in
  again nor cancelled nor changed.\<close>

theorem check_in_seats_once:
  assumes "checkIn i emp now d = Inr (sid, d1)" and "booking_inv d" and "(booking_step hash lower)\<^sup>*\<^sup>* d1 d2"
  shows "\<exists>b\<in>set (bookings d). bk_id b = i \<and> bk_status b = Res_PENDING \<and>
     bk_startsAt b - 30 * 60 * 1000 \<le> now \<and> now < bk_startsAt b + 15 * 60 * 1000 \<and> activeEmployee emp (shop d) \<and>
     activeOn (shop d) (bk_tableId b) = None \<and>
     (\<exists>t\<in>set (diningTables (shop d)). t_id t = bk_tableId b \<and> t_deletedAt t = None \<and> t_status t = Table_EMPTY) \<and>
     bookings d1 = upd (\<lambda>x. bk_id x = i) (arrive sid now) (bookings d) \<and>
     diningTables (shop d1) = upd (\<lambda>t. t_id t = bk_tableId b \<and> t_deletedAt t = None \<and> t_status t = Table_EMPTY)
       (\<lambda>t. t\<lparr>t_status := Table_OCCUPIED\<rparr>) (diningTables (shop d)) \<and>
     orderSessions (shop d1) = orderSessions (shop d) @ [\<lparr>s_id = sid, s_status = Session_ACTIVE, s_tableId = Some (bk_tableId b),
       s_employeeId = emp, s_shiftId = findOpenShiftId emp (shop d), s_guestCount = Some (bk_guestCount b), s_online = None\<rparr>] \<and>
     arrive sid now b \<in> set (bookings d2) \<and> \<not> ok (checkIn i emp' now' d2) \<and> \<not> ok (cancelBooking i emp' reason now' d2) \<and>
     \<not> ok (updateBooking i emp' c exptd now' d2)"
proof -
  obtain b :: booking and s where b: "b \<in> set (bookings d)" "bk_id b = i" "bk_status b = Res_PENDING"
    and w: "bk_startsAt b - RESERVATION_CHECK_IN_EARLY_MS \<le> now" "now < bk_startsAt b + RESERVATION_NO_SHOW_GRACE_MS"
    and c: "createOrderSession (Some (bk_tableId b)) emp (Some (bk_guestCount b)) now (shop d) = Inr (sid, s)"
    and e: "shop d1 = addLog emp ''RESERVATION_CHECKED_IN'' i s" "bookings d1 = upd (\<lambda>x. bk_id x = i) (arrive sid now) (bookings d)"
    by (rule checkIn_rows [OF assms(1) inv_ids(1) [OF assms(2)]]) (rule that)
  have inv: "booking_inv d1" "booking_inv d2" using check_in_inv [OF assms(1,2)] steps_inv [OF assms(3)] by blast+
  let ?a = "arrive sid now b"
  have a: "bk_id ?a = i" "bk_status ?a \<noteq> Res_PENDING" using b(2) by (simp_all add: arrive_def)
  have "?a \<in> set (bookings d1)" using b(1,2) by (force simp: e(2) set_upd)
  then have kept: "?a \<in> set (bookings d2)" using steps_decided [OF assms(3) inv(1)] a(2) unfolding decided_def by blast
  note ref = not_pending_refused [OF inv(2) kept a(2), unfolded a(1)]
  note cs = created_session [OF c]
  show ?thesis
    by (intro bexI [OF _ b(1)] conjI)
      (use b w cs e kept ref in \<open>simp_all add: RESERVATION_CHECK_IN_EARLY_MS_def RESERVATION_NO_SHOW_GRACE_MS_def addLog_def\<close>)
qed

theorem check_in_seats_once_witness:
  "\<exists>sid d1. checkIn 2 1 7000000 house_booked = Inr (sid, d1) \<and> arrive sid 7000000 theBooking \<in> set (bookings d1) \<and>
     \<not> ok (checkIn 2 1 7000001 d1)"
proof -
  have "ok (checkIn 2 1 7000000 house_booked)"
    by (simp add: checkIn_def booked_rows findBooking_def theBooking_def createOrderSession_def claimTable_def insertSession_def findTable_def
        activeOn_def activeEmployee_def setTables_def house_def empty_db_def addLog_def upd_def cnt_def enqueueOrderEvent_def enqueue_def
        RESERVATION_CHECK_IN_EARLY_MS_def RESERVATION_NO_SHOW_GRACE_MS_def Let_def)
  then obtain sid d1 where c: "checkIn 2 1 7000000 house_booked = Inr (sid, d1)" by (metis ok_value_of surj_pair)
  from check_in_seats_once [OF c steps_inv [OF house_steps house_inv], of "\<lambda>t. t" "\<lambda>t. t" d1 1 7000001] c
  show ?thesis by (auto simp: booked_rows)
qed

end
