(* ===== verification/Pickup.thy ===== *)
theory Pickup
  imports Shop_Prelude Schema
begin

text \<open>
  When an online order may be placed and picked up: the schedule of pickup slots
  (\<open>src/app/online-orders/pickup-schedule.ts\<close>), the life of an access link (\<open>online-order-access.ts\<close>), and
  pausing the intake (\<open>online-order-intake.service.ts\<close>). Instants are milliseconds; the shop's clock is seven
  hours ahead of UTC.
\<close>

section \<open>Slots\<close>

definition PICKUP_SLOT_MS :: int where "PICKUP_SLOT_MS = 15 * 60 * 1000"

definition PICKUP_DAY_MS :: int where "PICKUP_DAY_MS = 24 * 60 * 60 * 1000"

record pickupSchedule =
  sc_capacity :: int
  sc_openMinute :: int
  sc_closeMinute :: int
  sc_leadMinutes :: int
  sc_daysAhead :: int

text \<open>
  The configuration holds the capacity of a slot, none or 0 when scheduled pickup is off, and the opening hours as
  \<open>HH:MM\<close>, whose format the schema of the environment checks.
\<close>

record pickupConfig =
  pc_capacity :: "int option"
  pc_open :: string
  pc_close :: string
  pc_leadMinutes :: "int option"
  pc_daysAhead :: "int option"

definition readDigits :: "string \<Rightarrow> int" where
  "readDigits s = foldl (\<lambda>n c. 10 * n + (of_char c - 48)) 0 s"

definition clockMinute :: "string \<Rightarrow> int" where
  "clockMinute s = readDigits (take 2 s) * 60 + readDigits (drop 3 s)"

definition readPickupSchedule :: "pickupConfig \<Rightarrow> pickupSchedule option" where
  "readPickupSchedule c =
     (case pc_capacity c of
        None \<Rightarrow> None
      | Some n \<Rightarrow> if n = 0 then None
          else Some \<lparr>sc_capacity = n, sc_openMinute = clockMinute (pc_open c), sc_closeMinute = clockMinute (pc_close c),
                 sc_leadMinutes = (case pc_leadMinutes c of None \<Rightarrow> 45 | Some m \<Rightarrow> m),
                 sc_daysAhead = (case pc_daysAhead c of None \<Rightarrow> 7 | Some k \<Rightarrow> k)\<rparr>)"

text \<open>\<open>(getUTCHours() * 60 + getUTCMinutes() + 420) % 1440\<close>.\<close>

definition localMinute :: "time \<Rightarrow> int" where
  "localMinute t = ((t div 60000) mod 1440 + 420) mod 1440"

definition slotAllowed :: "time \<Rightarrow> pickupSchedule \<Rightarrow> time \<Rightarrow> bool" where
  "slotAllowed t sc now \<longleftrightarrow>
     \<not> (t < now + sc_leadMinutes sc * 60000 \<or> t > now + sc_daysAhead sc * PICKUP_DAY_MS \<or>
        localMinute t < sc_openMinute sc \<or> localMinute t \<ge> sc_closeMinute sc \<or> localMinute t mod 15 \<noteq> 0 \<or>
        (t div 1000) mod 60 \<noteq> 0 \<or> t mod 1000 \<noteq> 0)"

definition assertPickupAt :: "time \<Rightarrow> pickupSchedule option \<Rightarrow> time \<Rightarrow> 'a res \<Rightarrow> 'a res" where
  "assertPickupAt t schedule now k =
     fetch schedule (Conflict ''scheduled pickup is not enabled'') (\<lambda>sc.
     require (slotAllowed t sc now) (Conflict ''outside available slots'') k)"

text \<open>The loop over the minutes of a day, from the opening in steps of 15.\<close>

function slotMinutes :: "int \<Rightarrow> int \<Rightarrow> int list" where
  "slotMinutes m close = (if m < close then m # slotMinutes (m + 15) close else [])"
  by pat_completeness auto
termination by (relation "measure (\<lambda>(m, close). nat (close - m))") auto

declare slotMinutes.simps [simp del]

text \<open>\<open>midnight\<close> is the instant at which the local date begins.\<close>

definition pickupSlotsForDate :: "time \<Rightarrow> pickupSchedule \<Rightarrow> time \<Rightarrow> time list" where
  "pickupSlotsForDate midnight sc now =
     filter (\<lambda>t. now + sc_leadMinutes sc * 60000 \<le> t \<and> t \<le> now + sc_daysAhead sc * PICKUP_DAY_MS)
       (map (\<lambda>m. midnight + m * 60000) (slotMinutes (sc_openMinute sc) (sc_closeMinute sc)))"

section \<open>Access links\<close>

definition ONLINE_ORDER_ACCESS_WINDOW_MS :: int where
  "ONLINE_ORDER_ACCESS_WINDOW_MS = 72 * 60 * 60 * 1000"

definition PICKUP_ACCESS_GRACE_MS :: int where
  "PICKUP_ACCESS_GRACE_MS = 24 * 60 * 60 * 1000"

definition onlineOrderAccessExpiresAt :: "time \<Rightarrow> time option \<Rightarrow> time" where
  "onlineOrderAccessExpiresAt createdAt pickupAt =
     max (createdAt + ONLINE_ORDER_ACCESS_WINDOW_MS) (case pickupAt of None \<Rightarrow> 0 | Some p \<Rightarrow> p + PICKUP_ACCESS_GRACE_MS)"

section \<open>Intake\<close>

text \<open>
  The row of the setting: \<open>in_value\<close> is none when the JSON does not parse as a pause; a pause has its end and its
  reason, or neither.
\<close>

record intakeSetting =
  in_value :: "(time option \<times> string option) option"
  in_isJson :: bool
  in_version :: int
  in_deletedAt :: "time option"

record intakeStatus =
  is_pausedUntil :: "time option"
  is_reason :: "string option"
  is_acceptingOrders :: bool
  is_version :: int

definition intakeValue :: "time option \<times> string option \<Rightarrow> bool" where
  "intakeValue v \<longleftrightarrow> (fst v = None) = (snd v = None)"

definition getStatus :: "intakeSetting option \<Rightarrow> time \<Rightarrow> intakeStatus res" where
  "getStatus setting now =
     fetch (case setting of None \<Rightarrow> Some (None, None) | Some s \<Rightarrow> in_value s) (Unavailable ''intake configuration'') (\<lambda>v.
     require (intakeValue v \<and> (case setting of None \<Rightarrow> True | Some s \<Rightarrow> in_deletedAt s = None \<and> in_isJson s))
       (Unavailable ''intake configuration'')
     (Inr \<lparr>is_pausedUntil = fst v, is_reason = snd v,
        is_acceptingOrders = \<not> (case fst v of None \<Rightarrow> False | Some t \<Rightarrow> now < t),
        is_version = (case setting of None \<Rightarrow> 0 | Some s \<Rightarrow> in_version s)\<rparr>))"

text \<open>The hours of immediate pickup, in minutes of the local day.\<close>

definition isAsapOpen :: "int \<times> int \<Rightarrow> time \<Rightarrow> bool" where
  "isAsapOpen hours now \<longleftrightarrow> fst hours \<le> localMinute now \<and> localMinute now < snd hours"

record availability =
  ay_acceptingOrders :: bool
  ay_acceptingAsap :: bool
  ay_pausedUntil :: "time option"
  ay_reason :: "string option"

definition getAvailability :: "int \<times> int \<Rightarrow> intakeSetting option \<Rightarrow> time \<Rightarrow> availability res" where
  "getAvailability hours setting now =
     andThen (getStatus setting now) (\<lambda>s.
       let acc = is_acceptingOrders s in
       Inr \<lparr>ay_acceptingOrders = acc, ay_acceptingAsap = acc \<and> isAsapOpen hours now,
            ay_pausedUntil = (if acc then None else is_pausedUntil s), ay_reason = (if acc then None else is_reason s)\<rparr>)"

definition assertAccepting :: "int \<times> int \<Rightarrow> bool \<Rightarrow> intakeSetting option \<Rightarrow> time \<Rightarrow> 'a res \<Rightarrow> 'a res" where
  "assertAccepting hours scheduled setting now k =
     andThen (getStatus setting now) (\<lambda>s.
     require (is_acceptingOrders s) (Conflict ''ONLINE_INTAKE_PAUSED'')
     (require (scheduled \<or> isAsapOpen hours now) (Conflict ''ONLINE_ASAP_CLOSED'') k))"

text \<open>The parsed request, the version it was based on; the result is the row that is stored.\<close>

definition updateIntake :: "bool \<Rightarrow> time option \<times> string option \<Rightarrow> int \<Rightarrow> time \<Rightarrow> intakeSetting option \<Rightarrow> intakeSetting res" where
  "updateIntake active v expected now setting =
     require active (Unauthorized ''employee'')
     (require (intakeValue v) (BadRequest ''intake value'')
     (require (case fst v of None \<Rightarrow> True | Some t \<Rightarrow> 0 < t - now \<and> t - now \<le> 24 * 60 * 60000) (BadRequest ''pause within 24 hours'')
     (andThen (getStatus setting now) (\<lambda>before.
      require (is_version before = expected) (Conflict ''ONLINE_INTAKE_CHANGED'')
      (if expected = 0
       then require (setting = None) (UniqueViolation ''SystemSetting'')
         (Inr \<lparr>in_value = Some v, in_isJson = True, in_version = 1, in_deletedAt = None\<rparr>)
       else fetch setting (Conflict ''ONLINE_INTAKE_CHANGED'') (\<lambda>s.
         require (in_version s = expected \<and> in_deletedAt s = None) (Conflict ''ONLINE_INTAKE_CHANGED'')
         (Inr (s\<lparr>in_value := Some v, in_version := in_version s + 1\<rparr>))))))))"

end
