(* ===== verification/Online_Orders.thy ===== *)
theory Online_Orders
  imports Invoices Pickup
begin

text \<open>
  Orders that customers place online (\<open>src/app/online-orders/online-orders.service.ts\<close>): quoting a basket,
  submitting and recovering a request, tracking it, reordering, withdrawing it, and what the staff do with
  it: accept, reject, cancel, mark as a no-show, and hand over against cash. The requests are a table beside
  the state of the shop; the link between a request and its session is stored on both. HMACs, hashes, random
  values and the configuration are parameters. The transaction of a collection runs under the idempotency
  service; here is the operation.
\<close>

section \<open>State and configuration\<close>

datatype OnlineOrderStatus = Online_PENDING | Online_ACCEPTED | Online_REJECTED | Online_CANCELLED

record onlineItem =
  on_lineNumber :: nat
  on_menuItemId :: id
  on_quotedName :: string
  on_quotedUnitPrice :: money
  on_quotedOptions :: "selectedOption list"
  on_quantity :: int
  on_note :: "string option"

record onlineRequest =
  or_id :: id
  or_clientRequestId :: string
  or_requestHash :: string
  or_reorderNonce :: "string option"
  or_pickupName :: string
  or_phoneNumber :: string
  or_quotedSubtotal :: money
  or_pickupAt :: "time option"
  or_telegramChatId :: "string option"
  or_telegramLinkTokenHash :: "string option"
  or_telegramLinkExpiresAt :: "time option"
  or_status :: OnlineOrderStatus
  or_rejectionReason :: "string option"
  or_cancellationReason :: "string option"
  or_createdAt :: time
  or_expiresAt :: time
  or_reviewedAt :: "time option"
  or_cancelledAt :: "time option"
  or_noShowAt :: "time option"
  or_customerId :: "id option"
  or_reviewedById :: "id option"
  or_orderSessionId :: "id option"
  or_items :: "onlineItem list"

record onlineDb =
  od_nextId :: nat
  od_shop :: db
  onlineRequests :: "onlineRequest list"
  intake :: "intakeSetting option"
  customers :: "id list"

record onlineInput =
  oi_clientRequestId :: string
  oi_pickupName :: string
  oi_phoneNumber :: string
  oi_pickupAt :: "time option"
  oi_maxSubtotal :: "money option"
  oi_items :: "orderLine list"

text \<open>
  \<open>oe_hash\<close> is the digest of a submission and its customer, \<open>oe_access\<close> and \<open>oe_reorder\<close> the keyed digests that
  sign a request's links, \<open>oe_sha\<close> SHA-256; \<open>oe_telegramBot\<close> and \<open>oe_telegramStaff\<close> say whether these are configured.
\<close>

record onlineEnv =
  oe_hash :: "onlineInput \<Rightarrow> id option \<Rightarrow> string"
  oe_access :: "id \<Rightarrow> string"
  oe_reorder :: "id \<Rightarrow> string \<Rightarrow> string"
  oe_sha :: "string \<Rightarrow> string"
  oe_menuName :: "id \<Rightarrow> string"
  oe_schedule :: "pickupSchedule option"
  oe_asapHours :: "int \<times> int"
  oe_telegramBot :: bool
  oe_telegramStaff :: bool

definition REVIEW_WINDOW_MS :: int where "REVIEW_WINDOW_MS = 30 * 60 * 1000"

definition REORDER_WINDOW_MS :: int where "REORDER_WINDOW_MS = 180 * 24 * 60 * 60 * 1000"

definition ONLINE_ORDER_NO_SHOW_GRACE_MS :: int where "ONLINE_ORDER_NO_SHOW_GRACE_MS = 15 * 60 * 1000"

definition CUSTOMER_CANCELLATION_REASON :: string where
  "CUSTOMER_CANCELLATION_REASON = ''Customer cancelled before preparation.''"

definition findRequest :: "id \<Rightarrow> onlineDb \<Rightarrow> onlineRequest option" where
  "findRequest i d = find (\<lambda>r. or_id r = i) (onlineRequests d)"

definition findByClient :: "string \<Rightarrow> onlineDb \<Rightarrow> onlineRequest option" where
  "findByClient c d = find (\<lambda>r. or_clientRequestId r = c) (onlineRequests d)"

section \<open>Credentials\<close>

definition hexToken :: "string \<Rightarrow> bool" where
  "hexToken t \<longleftrightarrow> length t = 64 \<and> list_all (\<lambda>c. c \<in> set ''0123456789abcdef'') t"

definition assertAccess :: "onlineEnv \<Rightarrow> id \<Rightarrow> string \<Rightarrow> 'a res \<Rightarrow> 'a res" where
  "assertAccess env i token k = require (hexToken token \<and> oe_access env i = token) (NotFound ''request'') k"

definition reorderExpiresAt :: "time \<Rightarrow> time" where
  "reorderExpiresAt createdAt = createdAt + REORDER_WINDOW_MS"

definition assertReorderAccess :: "onlineEnv \<Rightarrow> id \<Rightarrow> string option \<Rightarrow> string option \<Rightarrow> time \<Rightarrow> time \<Rightarrow> 'a res \<Rightarrow> 'a res" where
  "assertReorderAccess env i token nonce createdAt now k =
     fetch nonce (NotFound ''request'') (\<lambda>n.
     fetch token (NotFound ''request'') (\<lambda>t.
     require (n \<noteq> [] \<and> hexToken t \<and> now < reorderExpiresAt createdAt) (NotFound ''request'')
     (require (oe_reorder env i n = t) (NotFound ''request'') k)))"

definition accessLive :: "onlineRequest \<Rightarrow> time \<Rightarrow> bool" where
  "accessLive r now \<longleftrightarrow> now < onlineOrderAccessExpiresAt (or_createdAt r) (or_pickupAt r)"

section \<open>Quoting\<close>

definition availableMenuItems :: "id list \<Rightarrow> db \<Rightarrow> menuItem list" where
  "availableMenuItems ids d = filter (\<lambda>m. mi_id m \<in> set ids \<and> orderable d m) (menuItems d)"

definition menuItemOf :: "menuItem list \<Rightarrow> id \<Rightarrow> menuItem option" where
  "menuItemOf mis i = find (\<lambda>m. mi_id m = i) mis"

definition recipeFor :: "selection \<Rightarrow> int \<Rightarrow> (id \<times> qty) list" where
  "recipeFor sel n = map (\<lambda>(i, q). (i, q * n)) (sel_recipe sel)"

definition planBasket :: "orderLine list \<Rightarrow> db \<Rightarrow> (orderLine \<times> selection) list res" where
  "planBasket items d =
     (let ids = remdups (map ol_menuItemId items); mis = availableMenuItems ids d in
      require (length mis = length ids) (NotFound ''menu items'')
      (mapM (\<lambda>l. fetch (menuItemOf mis (ol_menuItemId l)) (NotFound ''menu items'') (\<lambda>mi.
         andThen (resolveMenuSelection d mi (ol_optionIds l)) (\<lambda>sel. Inr (l, sel)))) items))"

definition basketNeeds :: "(orderLine \<times> selection) list \<Rightarrow> (id \<times> qty) list" where
  "basketNeeds planned = concat (map (\<lambda>p. recipeFor (snd p) (ol_quantity (fst p))) planned)"

definition basketSubtotal :: "(orderLine \<times> selection) list \<Rightarrow> money" where
  "basketSubtotal planned = (\<Sum>p\<leftarrow>planned. sel_unitPrice (snd p) * ol_quantity (fst p))"

record basketQuote =
  bq_canFulfill :: bool
  bq_subtotal :: money
  bq_items :: "(id \<times> int \<times> money \<times> selectedOption list) list"

definition quoteBasket :: "orderLine list \<Rightarrow> onlineDb \<Rightarrow> basketQuote res" where
  "quoteBasket items d =
     andThen (planBasket items (od_shop d)) (\<lambda>planned.
       Inr \<lparr>bq_canFulfill = canFulfill (basketNeeds planned) (od_shop d), bq_subtotal = basketSubtotal planned,
            bq_items = map (\<lambda>p. (ol_menuItemId (fst p), ol_quantity (fst p), sel_unitPrice (snd p), sel_options (snd p))) planned\<rparr>)"

section \<open>Submitting\<close>

record onlineAnswer =
  oa_requestId :: id
  oa_status :: OnlineOrderStatus
  oa_expiresAt :: time
  oa_quotedSubtotal :: money
  oa_pickupAt :: "time option"
  oa_items :: "onlineItem list"
  oa_accessToken :: string
  oa_accessExpiresAt :: time
  oa_reorderToken :: "string option"
  oa_reorderExpiresAt :: "time option"

definition replayRequest :: "onlineEnv \<Rightarrow> onlineRequest \<Rightarrow> string \<Rightarrow> id option \<Rightarrow> time \<Rightarrow> onlineAnswer res" where
  "replayRequest env r h customer now =
     require (or_requestHash r = h \<and> or_customerId r = customer) (Conflict ''client request id was used'')
     (Inr \<lparr>oa_requestId = or_id r, oa_status = or_status r, oa_expiresAt = or_expiresAt r, oa_quotedSubtotal = or_quotedSubtotal r,
        oa_pickupAt = or_pickupAt r, oa_items = or_items r, oa_accessToken = oe_access env (or_id r),
        oa_accessExpiresAt = onlineOrderAccessExpiresAt (or_createdAt r) (or_pickupAt r),
        oa_reorderToken = (case or_reorderNonce r of None \<Rightarrow> None
          | Some n \<Rightarrow> if accessLive r now \<and> now < reorderExpiresAt (or_createdAt r) then Some (oe_reorder env (or_id r) n) else None),
        oa_reorderExpiresAt = map_option (\<lambda>n. reorderExpiresAt (or_createdAt r)) (or_reorderNonce r)\<rparr>)"

definition quotedItems :: "onlineEnv \<Rightarrow> (orderLine \<times> selection) list \<Rightarrow> onlineItem list" where
  "quotedItems env planned =
     map (\<lambda>(n, p). \<lparr>on_lineNumber = n, on_menuItemId = ol_menuItemId (fst p), on_quotedName = oe_menuName env (ol_menuItemId (fst p)),
            on_quotedUnitPrice = sel_unitPrice (snd p), on_quotedOptions = sel_options (snd p), on_quantity = ol_quantity (fst p),
            on_note = ol_note (fst p)\<rparr>) (zip [1..<Suc (length planned)] planned)"

definition newRequest ::
  "onlineEnv \<Rightarrow> onlineInput \<Rightarrow> id option \<Rightarrow> string \<Rightarrow> (orderLine \<times> selection) list \<Rightarrow> id \<Rightarrow> time \<Rightarrow> onlineRequest"
where
  "newRequest env i customer nonce planned n now =
     \<lparr>or_id = n, or_clientRequestId = oi_clientRequestId i, or_requestHash = oe_hash env i customer, or_reorderNonce = Some nonce,
      or_pickupName = oi_pickupName i, or_phoneNumber = oi_phoneNumber i, or_quotedSubtotal = basketSubtotal planned,
      or_pickupAt = oi_pickupAt i, or_telegramChatId = None, or_telegramLinkTokenHash = None, or_telegramLinkExpiresAt = None,
      or_status = Online_PENDING, or_rejectionReason = None, or_cancellationReason = None, or_createdAt = now,
      or_expiresAt = now + REVIEW_WINDOW_MS, or_reviewedAt = None, or_cancelledAt = None, or_noShowAt = None,
      or_customerId = customer, or_reviewedById = None, or_orderSessionId = None, or_items = quotedItems env planned\<rparr>"

text \<open>The transaction of \<open>createPublicRequest\<close>: the request there is, or a new one.\<close>

definition submitTx ::
  "onlineEnv \<Rightarrow> onlineInput \<Rightarrow> id option \<Rightarrow> string \<Rightarrow> (orderLine \<times> selection) list \<Rightarrow> time \<Rightarrow> onlineDb \<Rightarrow> (onlineRequest \<times> onlineDb) res"
where
  "submitTx env i customer nonce planned now d =
     (case findByClient (oi_clientRequestId i) d of
        Some r \<Rightarrow> Inr (r, d)
      | None \<Rightarrow>
          require (case customer of None \<Rightarrow> True | Some c \<Rightarrow> c \<in> set (customers d)) (Unauthorized ''customer'')
          (assertAccepting (oe_asapHours env) (oi_pickupAt i \<noteq> None) (intake d) now
            (let s = od_shop d; r = newRequest env i customer nonce planned (od_nextId d) now in
             Inr (r, d\<lparr>od_nextId := Suc (od_nextId d), onlineRequests := onlineRequests d @ [r],
               od_shop := (if oe_telegramStaff env then enqueue ''order'' ''online-order.telegram.staff-new'' (or_id r) [] now s else s)\<rparr>))))"

text \<open>
  What is read before the transaction is read in \<open>d0\<close>; the transaction sees \<open>d\<close>. The unique violation the
  service catches cannot arise after the transaction's own lookup.
\<close>

definition createOnlineRequest ::
  "onlineEnv \<Rightarrow> bool \<Rightarrow> onlineInput \<Rightarrow> id option \<Rightarrow> string \<Rightarrow> time \<Rightarrow> onlineDb \<Rightarrow> onlineDb \<Rightarrow> (onlineAnswer \<times> onlineDb) res"
where
  "createOnlineRequest env human i customer nonce now d0 d =
     (let h = oe_hash env i customer in
      case findByClient (oi_clientRequestId i) d0 of
        Some r \<Rightarrow> andThen (replayRequest env r h customer now) (\<lambda>a. Inr (a, d))
      | None \<Rightarrow>
          require human (BadRequest ''turnstile'')
          ((case oi_pickupAt i of None \<Rightarrow> (\<lambda>k. k) | Some t \<Rightarrow> assertPickupAt t (oe_schedule env) now)
          (andThen (planBasket (oi_items i) (od_shop d0)) (\<lambda>planned.
           require (case oi_maxSubtotal i of None \<Rightarrow> True | Some m \<Rightarrow> basketSubtotal planned \<le> m) (Conflict ''price increased'')
           (require (canFulfill (basketNeeds planned) (od_shop d0)) (Conflict ''INVENTORY_INSUFFICIENT_STOCK'')
            (andThen (submitTx env i customer nonce planned now d) (\<lambda>rd.
             andThen (replayRequest env (fst rd) h customer now) (\<lambda>a. Inr (a, snd rd))))))))) "

definition recoverByKey :: "onlineEnv \<Rightarrow> string \<Rightarrow> string \<Rightarrow> id option \<Rightarrow> time \<Rightarrow> onlineDb \<Rightarrow> onlineAnswer res" where
  "recoverByKey env clientId h customer now d =
     fetch (findByClient clientId d) (NotFound ''ONLINE_ORDER_RECOVERY_NOT_FOUND'') (\<lambda>r. replayRequest env r h customer now)"

definition recoverPublicRequest :: "onlineEnv \<Rightarrow> onlineInput \<Rightarrow> id option \<Rightarrow> time \<Rightarrow> onlineDb \<Rightarrow> onlineAnswer res" where
  "recoverPublicRequest env i customer now d =
     recoverByKey env (oi_clientRequestId i) (oe_hash env i customer) customer now d"

text \<open>The free places of the slots of a day: none when the intake is paused or the schedule is off.\<close>

definition acceptedAt :: "time \<Rightarrow> onlineDb \<Rightarrow> int" where
  "acceptedAt t d = int (cnt (\<lambda>r. or_status r = Online_ACCEPTED \<and> or_pickupAt r = Some t) (onlineRequests d))"

definition getPickupSlots :: "onlineEnv \<Rightarrow> time \<Rightarrow> time \<Rightarrow> onlineDb \<Rightarrow> (time \<times> int) list res" where
  "getPickupSlots env midnight now d =
     (case oe_schedule env of
        None \<Rightarrow> Inr []
      | Some sc \<Rightarrow> andThen (getAvailability (oe_asapHours env) (intake d) now) (\<lambda>a.
          Inr (if \<not> ay_acceptingOrders a then []
            else map (\<lambda>t. (t, max 0 (sc_capacity sc - acceptedAt t d))) (pickupSlotsForDate midnight sc now))))"

section \<open>Tracking\<close>

datatype fulfillment = COLLECTED | NEEDS_REVIEW | READY | PARTIALLY_READY | PREPARING

definition lineDone :: "orderItem \<Rightarrow> bool" where
  "lineDone oi \<longleftrightarrow> o_status oi = Serve_READY \<or> o_status oi = Serve_SERVED"

definition fulfillmentStatus :: "OnlineOrderStatus \<Rightarrow> orderItem list \<Rightarrow> fulfillment option" where
  "fulfillmentStatus st items =
     (if st \<noteq> Online_ACCEPTED \<or> items = [] then None
      else if list_all (\<lambda>oi. o_status oi = Serve_SERVED) items then Some COLLECTED
      else if list_ex (\<lambda>oi. o_status oi = Serve_CANCELLED) items then Some NEEDS_REVIEW
      else if list_all lineDone items then Some READY
      else if list_ex lineDone items then Some PARTIALLY_READY
      else Some PREPARING)"

text \<open>The lines of the session of a request; those shown are not replacements.\<close>

definition linesOf :: "onlineRequest \<Rightarrow> db \<Rightarrow> orderItem list" where
  "linesOf r s = (case or_orderSessionId r of None \<Rightarrow> [] | Some i \<Rightarrow> filter (\<lambda>oi. o_sessionId oi = i) (orderItems s))"

definition shownLines :: "onlineRequest \<Rightarrow> db \<Rightarrow> orderItem list" where
  "shownLines r s = filter (\<lambda>oi. \<not> isReplacement s (o_id oi)) (linesOf r s)"

record trackedOrder =
  to_requestId :: id
  to_status :: "OnlineOrderStatus option"
  to_rejectionReason :: "string option"
  to_cancellationReason :: "string option"
  to_noShowAt :: "time option"
  to_quotedSubtotal :: money
  to_items :: "onlineItem list"
  to_fulfillment :: "fulfillment option"
  to_accessExpiresAt :: time
  to_isPaid :: bool
  to_orderItems :: "orderItem list"
  to_pickupToken :: "string option"

text \<open>A status of none is \<open>EXPIRED\<close>. Feedback and invoices of the answer are left out.\<close>

definition readTrackedRequest :: "onlineEnv \<Rightarrow> id \<Rightarrow> id option \<Rightarrow> time \<Rightarrow> onlineDb \<Rightarrow> trackedOrder res" where
  "readTrackedRequest env i customer now d =
     fetch (find (\<lambda>r. or_id r = i \<and> (customer = None \<or> or_customerId r = customer)) (onlineRequests d)) (NotFound ''request'') (\<lambda>r.
     require (customer \<noteq> None \<or> accessLive r now) (NotFound ''request'')
     (let items = shownLines r (od_shop d); live = filter (\<lambda>oi. o_status oi \<noteq> Serve_CANCELLED) items;
          f = fulfillmentStatus (or_status r) items in
      Inr \<lparr>to_requestId = or_id r,
           to_status = (if or_status r = Online_PENDING \<and> or_expiresAt r \<le> now then None else Some (or_status r)),
           to_rejectionReason = or_rejectionReason r, to_cancellationReason = or_cancellationReason r, to_noShowAt = or_noShowAt r,
           to_quotedSubtotal = or_quotedSubtotal r, to_items = or_items r, to_fulfillment = f,
           to_accessExpiresAt = onlineOrderAccessExpiresAt (or_createdAt r) (or_pickupAt r),
           to_isPaid = (live \<noteq> [] \<and> list_all o_isPaid live), to_orderItems = items,
           to_pickupToken = (if customer \<noteq> None \<and> or_status r = Online_ACCEPTED \<and> f \<noteq> Some COLLECTED \<and> or_noShowAt r = None \<and>
               accessLive r now then Some (oe_access env (or_id r)) else None)\<rparr>))"

definition trackOnlineRequest :: "onlineEnv \<Rightarrow> id \<Rightarrow> string \<Rightarrow> time \<Rightarrow> onlineDb \<Rightarrow> trackedOrder res" where
  "trackOnlineRequest env i token now d = assertAccess env i token (readTrackedRequest env i None now d)"

definition getCustomerOrder :: "onlineEnv \<Rightarrow> id \<Rightarrow> id \<Rightarrow> time \<Rightarrow> onlineDb \<Rightarrow> trackedOrder res" where
  "getCustomerOrder env customer i now d = readTrackedRequest env i (Some customer) now d"

end
