(* ===== verification/Online_Handling.thy ===== *)
theory Online_Handling
  imports Online_Orders
begin

text \<open>
  What happens to an online order after it was submitted (\<open>online-orders.service.ts\<close>, continued): ordering again,
  the key for it, the Telegram link, withdrawal by the customer, and the operations of the staff.
\<close>

section \<open>Ordering again\<close>

record reorderLine =
  rl_lineNumber :: nat
  rl_previousName :: string
  rl_previousUnitPrice :: money
  rl_reason :: "string option"
  rl_currentUnitPrice :: "money option"

text \<open>A line is available when it has no reason not to be.\<close>

record reorderAnswer =
  rt_items :: "orderLine list"
  rt_previousSubtotal :: money
  rt_currentSubtotal :: "money option"
  rt_canSubmit :: bool
  rt_stockAvailable :: bool
  rt_lines :: "reorderLine list"

definition itemLine :: "onlineItem \<Rightarrow> orderLine res" where
  "itemLine it =
     andThen (readSelectedOptions (on_quotedOptions it)) (\<lambda>opts.
       Inr \<lparr>ol_menuItemId = on_menuItemId it, ol_optionIds = map so_id opts, ol_quantity = on_quantity it, ol_note = on_note it\<rparr>)"

text \<open>The line, and its selection when it can be ordered. Errors other than a conflict are not caught.\<close>

definition reorderOne :: "db \<Rightarrow> menuItem list \<Rightarrow> nat \<times> onlineItem \<times> orderLine \<Rightarrow> (reorderLine \<times> selection option) res" where
  "reorderOne s mis x =
     (case x of (n, it, l) \<Rightarrow>
      let prev = \<lparr>rl_lineNumber = n, rl_previousName = on_quotedName it, rl_previousUnitPrice = on_quotedUnitPrice it,
            rl_reason = None, rl_currentUnitPrice = None\<rparr> in
      case menuItemOf mis (ol_menuItemId l) of
        None \<Rightarrow> Inr (prev\<lparr>rl_reason := Some ''ITEM_UNAVAILABLE''\<rparr>, None)
      | Some mi \<Rightarrow>
          (case resolveMenuSelection s mi (ol_optionIds l) of
             Inr sel \<Rightarrow> Inr (prev\<lparr>rl_currentUnitPrice := Some (sel_unitPrice sel)\<rparr>, Some sel)
           | Inl (Conflict _) \<Rightarrow> Inr (prev\<lparr>rl_reason := Some ''SELECTION_UNAVAILABLE''\<rparr>, None)
           | Inl e \<Rightarrow> Inl e))"

definition buildReorderTemplate :: "onlineRequest \<Rightarrow> db \<Rightarrow> reorderAnswer res" where
  "buildReorderTemplate r s =
     andThen (mapM itemLine (or_items r)) (\<lambda>lines.
     let mis = availableMenuItems (remdups (map ol_menuItemId lines)) s in
     andThen (mapM (reorderOne s mis) (zip [1..<Suc (length lines)] (zip (or_items r) lines))) (\<lambda>xs.
       let selectable = list_all (\<lambda>x. rl_reason (fst x) = None) xs;
           needs = concat (map (\<lambda>(x, l). case snd x of None \<Rightarrow> [] | Some sel \<Rightarrow> recipeFor sel (ol_quantity l)) (zip xs lines));
           stock = (selectable \<and> canFulfill needs s);
           subtotal = (\<Sum>(x, l)\<leftarrow>zip xs lines. (case rl_currentUnitPrice (fst x) of None \<Rightarrow> 0 | Some p \<Rightarrow> p) * ol_quantity l) in
       Inr \<lparr>rt_items = lines, rt_previousSubtotal = or_quotedSubtotal r,
            rt_currentSubtotal = (if selectable \<and> stock then Some subtotal else None), rt_canSubmit = (selectable \<and> stock),
            rt_stockAvailable = stock, rt_lines = map fst xs\<rparr>))"

definition reorderTemplate :: "onlineEnv \<Rightarrow> id \<Rightarrow> string option \<Rightarrow> string option \<Rightarrow> time \<Rightarrow> onlineDb \<Rightarrow> reorderAnswer res" where
  "reorderTemplate env i accessToken reorderToken now d =
     (case accessToken of
        Some t \<Rightarrow> assertAccess env i t (fetch (findRequest i d) (NotFound ''request'') (\<lambda>r.
          require (accessLive r now) (NotFound ''request'') (buildReorderTemplate r (od_shop d))))
      | None \<Rightarrow> fetch (findRequest i d) (NotFound ''request'') (\<lambda>r.
          assertReorderAccess env i reorderToken (or_reorderNonce r) (or_createdAt r) now (buildReorderTemplate r (od_shop d))))"

definition customerReorderTemplate :: "id \<Rightarrow> id \<Rightarrow> onlineDb \<Rightarrow> reorderAnswer res" where
  "customerReorderTemplate customer i d =
     fetch (find (\<lambda>r. or_id r = i \<and> or_customerId r = Some customer) (onlineRequests d)) (NotFound ''request'') (\<lambda>r.
       buildReorderTemplate r (od_shop d))"

text \<open>The key is signed with the nonce of the request, or with the random \<open>candidate\<close> when it has none.\<close>

definition issueReorderKey :: "onlineEnv \<Rightarrow> id \<Rightarrow> string \<Rightarrow> string \<Rightarrow> time \<Rightarrow> onlineDb \<Rightarrow> ((string \<times> time) \<times> onlineDb) res" where
  "issueReorderKey env i token candidate now d =
     assertAccess env i token
     (fetch (findRequest i d) (NotFound ''request'') (\<lambda>r.
      require (accessLive r now) (NotFound ''request'')
      (case or_reorderNonce r of
         Some n \<Rightarrow> require (n \<noteq> []) (NotFound ''request'') (Inr ((oe_reorder env i n, reorderExpiresAt (or_createdAt r)), d))
       | None \<Rightarrow> Inr ((oe_reorder env i candidate, reorderExpiresAt (or_createdAt r)),
           d\<lparr>onlineRequests := upd (\<lambda>x. or_id x = i \<and> or_reorderNonce x = None) (\<lambda>x. x\<lparr>or_reorderNonce := Some candidate\<rparr>)
              (onlineRequests d)\<rparr>))))"

definition revokeReorderKey :: "onlineEnv \<Rightarrow> id \<Rightarrow> string \<Rightarrow> time \<Rightarrow> onlineDb \<Rightarrow> onlineDb res" where
  "revokeReorderKey env i token now d =
     fetch (findRequest i d) (NotFound ''request'') (\<lambda>r.
     assertReorderAccess env i (Some token) (or_reorderNonce r) (or_createdAt r) now
     (let g = (\<lambda>x. or_id x = i \<and> or_reorderNonce x = or_reorderNonce r) in
      require (cnt g (onlineRequests d) = 1) (NotFound ''request'')
        (Inr (d\<lparr>onlineRequests := upd g (\<lambda>x. x\<lparr>or_reorderNonce := None\<rparr>) (onlineRequests d)\<rparr>))))"

definition linkable :: "time \<Rightarrow> onlineRequest \<Rightarrow> bool" where
  "linkable now r \<longleftrightarrow> or_status r = Online_ACCEPTED \<or> or_status r = Online_PENDING \<and> now < or_expiresAt r"

definition createTelegramLink :: "onlineEnv \<Rightarrow> id \<Rightarrow> string \<Rightarrow> string \<Rightarrow> time \<Rightarrow> onlineDb \<Rightarrow> (time \<times> onlineDb) res" where
  "createTelegramLink env i accessToken random now d =
     require (oe_telegramBot env) (Unavailable ''telegram'')
     (assertAccess env i accessToken
     (fetch (findRequest i d) (NotFound ''request'') (\<lambda>r.
      require (accessLive r now) (NotFound ''request'')
      (require (\<not> ((or_telegramChatId r \<noteq> None \<and> or_telegramChatId r \<noteq> Some []) \<or> \<not> linkable now r)) (Conflict ''cannot be linked'')
      (let g = (\<lambda>x. or_id x = i \<and> or_telegramChatId x = None \<and> linkable now x) in
       require (cnt g (onlineRequests d) = 1) (Conflict ''cannot be linked'')
        (Inr (now + 30 * 60000, d\<lparr>onlineRequests := upd g (\<lambda>x. x\<lparr>or_telegramLinkTokenHash := Some (oe_sha env random),
           or_telegramLinkExpiresAt := Some (now + 30 * 60000)\<rparr>) (onlineRequests d)\<rparr>)))))))"

section \<open>Events\<close>

definition enqueueTelegramStatus :: "onlineEnv \<Rightarrow> id \<Rightarrow> time \<Rightarrow> db \<Rightarrow> db" where
  "enqueueTelegramStatus env i now s =
     (if oe_telegramBot env then enqueue ''order'' ''online-order.telegram.status-changed'' i [] now s else s)"

definition enqueueItemStatusEvents :: "id list \<Rightarrow> time \<Rightarrow> db \<Rightarrow> db" where
  "enqueueItemStatusEvents ids now s = foldl (\<lambda>s i. enqueue ''order'' ''ITEM_STATUS_UPDATED'' i [] now s) s ids"

definition enqueueCancellationEvents :: "onlineEnv \<Rightarrow> id \<Rightarrow> id \<Rightarrow> id list \<Rightarrow> time \<Rightarrow> db \<Rightarrow> db" where
  "enqueueCancellationEvents env i sid ids now s =
     enqueue ''order'' ''SESSION_CANCELLED'' sid [] now (enqueueItemStatusEvents ids now (enqueueTelegramStatus env i now s))"

section \<open>Withdrawal by the customer\<close>

text \<open>The session of an accepted request that is still a takeaway being served.\<close>

definition activeTakeaway :: "onlineRequest \<Rightarrow> db \<Rightarrow> orderSession option" where
  "activeTakeaway r s =
     (if or_status r \<noteq> Online_ACCEPTED then None
      else case or_orderSessionId r of None \<Rightarrow> None
        | Some i \<Rightarrow> (case findSession s i of None \<Rightarrow> None
            | Some x \<Rightarrow> if s_tableId x = None \<and> s_status x = Session_ACTIVE then Some x else None))"

definition sessionJobs :: "id \<Rightarrow> db \<Rightarrow> printJob list" where
  "sessionJobs sid s =
     filter (\<lambda>j. \<exists>t\<in>set (kitchenTickets s). kt_sessionId t = sid \<and> j_ticketId j = Some (kt_id t)) (printJobs s)"

definition untouched :: "orderItem \<Rightarrow> bool" where
  "untouched oi \<longleftrightarrow> o_status oi = Serve_PENDING \<and> \<not> o_isPaid oi \<and> o_invoiceId oi = None"

definition closeSession :: "id \<Rightarrow> db \<Rightarrow> db" where
  "closeSession sid s =
     s\<lparr>orderSessions := upd (\<lambda>x. s_id x = sid \<and> s_status x = Session_ACTIVE) (\<lambda>x. x\<lparr>s_status := Session_CANCELLED\<rparr>) (orderSessions s)\<rparr>"

definition sessionOpen :: "id \<Rightarrow> db \<Rightarrow> bool" where
  "sessionOpen sid s \<longleftrightarrow> cnt (\<lambda>x. s_id x = sid \<and> s_status x = Session_ACTIVE) (orderSessions s) = 1"

definition acceptedFor :: "id \<Rightarrow> id \<Rightarrow> onlineRequest \<Rightarrow> bool" where
  "acceptedFor i sid x \<longleftrightarrow> or_id x = i \<and> or_status x = Online_ACCEPTED \<and> or_orderSessionId x = Some sid"

definition withdrawTx :: "onlineEnv \<Rightarrow> id \<Rightarrow> time \<Rightarrow> onlineDb \<Rightarrow> onlineDb res" where
  "withdrawTx env i now d =
     fetch (findRequest i d) (NotFound ''request'') (\<lambda>r.
     if or_status r = Online_CANCELLED then Inr d
     else require (accessLive r now) (NotFound ''request'')
     (fetch (activeTakeaway r (od_shop d)) (Conflict ''contact the shop'') (\<lambda>x.
      let s = od_shop d; sid = s_id x; items = linesOf r s; jobs = sessionJobs sid s in
      require (items \<noteq> [] \<and> list_all untouched items \<and> list_all (\<lambda>j. j_status j = Print_PENDING) jobs) (Conflict ''contact the shop'')
      (let gj = (\<lambda>j. j_id j \<in> j_id ` set jobs \<and> j_status j = Print_PENDING);
           gi = (\<lambda>oi. o_id oi \<in> o_id ` set items \<and> o_sessionId oi = sid \<and> untouched oi);
           s1 = s\<lparr>printJobs := upd gj (\<lambda>j. j\<lparr>j_status := Print_CANCELLED\<rparr>) (printJobs s)\<rparr>;
           s2 = s1\<lparr>orderItems := upd gi (\<lambda>oi. oi\<lparr>o_status := Serve_CANCELLED\<rparr>) (orderItems s1)\<rparr> in
       require (jobs = [] \<or> cnt gj (printJobs s) = length jobs) (Conflict ''printing has started'')
       (require (cnt gi (orderItems s1) = length items \<and> sessionOpen sid s2 \<and> cnt (acceptedFor i sid) (onlineRequests d) = 1)
          (Conflict ''changed during cancellation'')
        (andThen (releaseReservations (map o_id items) (closeSession sid s2)) (\<lambda>s3.
         Inr (d\<lparr>od_shop := enqueueCancellationEvents env i sid (map o_id items) now s3,
           onlineRequests := upd (acceptedFor i sid) (\<lambda>x. x\<lparr>or_status := Online_CANCELLED,
             or_cancellationReason := Some CUSTOMER_CANCELLATION_REASON, or_cancelledAt := Some now\<rparr>) (onlineRequests d)\<rparr>))))))))"

text \<open>A request that nobody reviewed is withdrawn by one update; an accepted one by the transaction above.\<close>

definition cancelOnlineRequest :: "onlineEnv \<Rightarrow> id \<Rightarrow> string \<Rightarrow> time \<Rightarrow> onlineDb \<Rightarrow> onlineDb res" where
  "cancelOnlineRequest env i token now d =
     assertAccess env i token
     (let g = (\<lambda>x. or_id x = i \<and> or_status x = Online_PENDING \<and> now < or_expiresAt x) in
      if cnt g (onlineRequests d) = 1
      then Inr (d\<lparr>onlineRequests := upd g (\<lambda>x. x\<lparr>or_status := Online_CANCELLED, or_cancelledAt := Some now\<rparr>) (onlineRequests d)\<rparr>)
      else fetch (findRequest i d) (NotFound ''request'') (\<lambda>r.
        if or_status r = Online_CANCELLED then Inr d
        else require (or_status r = Online_ACCEPTED) (Conflict ''can no longer be cancelled'') (withdrawTx env i now d)))"

section \<open>Lists of the staff\<close>

definition findPending :: "nat \<Rightarrow> nat \<Rightarrow> time \<Rightarrow> onlineDb \<Rightarrow> nat \<times> onlineRequest list" where
  "findPending page itemPerPage now d =
     (let rows = filter (\<lambda>r. or_status r = Online_PENDING \<and> now < or_expiresAt r) (onlineRequests d) in
      (length rows, pageOf page itemPerPage (sort_key or_expiresAt (sort_key or_id rows))))"

text \<open>The rows of a customer: the id, the status with none for \<open>EXPIRED\<close>, the subtotal and the number of items.\<close>

definition getCustomerOrders ::
  "id \<Rightarrow> nat \<Rightarrow> nat \<Rightarrow> time \<Rightarrow> onlineDb \<Rightarrow> nat \<times> (id \<times> OnlineOrderStatus option \<times> money \<times> nat) list"
where
  "getCustomerOrders customer page itemPerPage now d =
     (let rows = filter (\<lambda>r. or_customerId r = Some customer) (onlineRequests d) in
      (length rows, map (\<lambda>r. (or_id r,
          (if or_status r = Online_PENDING \<and> or_expiresAt r \<le> now then None else Some (or_status r)),
          or_quotedSubtotal r, length (or_items r)))
        (pageOf page itemPerPage (rev (sort_key or_createdAt (sort_key or_id rows))))))"

definition uncollectedLine :: "orderItem \<Rightarrow> bool" where
  "uncollectedLine oi \<longleftrightarrow> o_status oi = Serve_PENDING \<or> o_status oi = Serve_COOKING \<or> o_status oi = Serve_READY"

definition waitingSince :: "time \<Rightarrow> orderItem \<Rightarrow> bool" where
  "waitingSince t oi \<longleftrightarrow> \<not> (o_status oi \<noteq> Serve_READY \<or> o_readyAt oi = None \<or> (case o_readyAt oi of None \<Rightarrow> False | Some x \<Rightarrow> t < x) \<or>
     o_isPaid oi \<or> o_invoiceId oi \<noteq> None)"

definition fulfillmentWhere :: "time option \<Rightarrow> db \<Rightarrow> onlineRequest \<Rightarrow> bool" where
  "fulfillmentWhere overdueAsOf s r \<longleftrightarrow>
     or_status r = Online_ACCEPTED \<and>
     (case overdueAsOf of None \<Rightarrow> True
      | Some t \<Rightarrow> let before = t - ONLINE_ORDER_NO_SHOW_GRACE_MS in
          (case or_pickupAt r of Some p \<Rightarrow> p < before
           | None \<Rightarrow> list_ex (\<lambda>oi. o_status oi = Serve_READY) (shownLines r s) \<and>
               list_all (\<lambda>oi. o_status oi \<noteq> Serve_CANCELLED \<longrightarrow> waitingSince before oi) (shownLines r s))) \<and>
     list_ex uncollectedLine (shownLines r s)"

definition isNoShowEligible :: "time option \<Rightarrow> orderItem list \<Rightarrow> time \<Rightarrow> bool" where
  "isNoShowEligible pickupAt items now =
     (let active = filter (\<lambda>oi. o_status oi \<noteq> Serve_CANCELLED) items in
      if active = [] \<or> list_ex (\<lambda>oi. o_status oi \<noteq> Serve_READY \<or> o_readyAt oi = None \<or> o_isPaid oi \<or> o_invoiceId oi \<noteq> None) active
      then False
      else max (case pickupAt of None \<Rightarrow> 0 | Some p \<Rightarrow> p) (Max (set (map (\<lambda>oi. the (o_readyAt oi)) active))) +
             ONLINE_ORDER_NO_SHOW_GRACE_MS \<le> now)"

record fulfillmentRow =
  fr_request :: onlineRequest
  fr_isOverdue :: bool
  fr_isNoShowEligible :: bool
  fr_sessionStatus :: "SessionStatus option"
  fr_orderItems :: "orderItem list"
  fr_fulfillment :: "fulfillment option"

definition fulfillmentRowOf :: "time \<Rightarrow> db \<Rightarrow> onlineRequest \<Rightarrow> fulfillmentRow" where
  "fulfillmentRowOf now s r =
     (let items = shownLines r s in
      \<lparr>fr_request = r,
       fr_isOverdue = (case or_pickupAt r of Some p \<Rightarrow> p < now - ONLINE_ORDER_NO_SHOW_GRACE_MS | None \<Rightarrow> isNoShowEligible None items now),
       fr_isNoShowEligible = isNoShowEligible (or_pickupAt r) items now,
       fr_sessionStatus = Option.bind (or_orderSessionId r) (\<lambda>i. map_option s_status (findSession s i)),
       fr_orderItems = items, fr_fulfillment = fulfillmentStatus (or_status r) items\<rparr>)"

definition findFulfillment :: "nat \<Rightarrow> nat \<Rightarrow> bool \<Rightarrow> time \<Rightarrow> onlineDb \<Rightarrow> nat \<times> fulfillmentRow list" where
  "findFulfillment page itemPerPage overdueOnly now d =
     (let rows = filter (fulfillmentWhere (if overdueOnly then Some now else None) (od_shop d)) (onlineRequests d) in
      (length rows, map (fulfillmentRowOf now (od_shop d))
        (pageOf page itemPerPage (sort_key or_createdAt (sort_key or_id rows)))))"

definition findOne :: "id \<Rightarrow> time \<Rightarrow> onlineDb \<Rightarrow> fulfillmentRow res" where
  "findOne i now d = fetch (findRequest i d) (NotFound ''request'') (\<lambda>r. Inr (fulfillmentRowOf now (od_shop d) r))"

section \<open>Collection against cash\<close>

definition collectTx ::
  "(quotedData \<Rightarrow> 'h) \<Rightarrow> string \<Rightarrow> id \<Rightarrow> id \<Rightarrow> money \<Rightarrow> time \<Rightarrow> onlineDb \<Rightarrow> ((id \<times> id list) \<times> onlineDb) res"
where
  "collectTx hash prefix i emp tendered now d =
     fetch (Option.bind (findRequest i d) (\<lambda>r. map_option (Pair r) (activeTakeaway r (od_shop d)))) (Conflict ''not available for pickup'') (\<lambda>(r, x).
     let s = od_shop d; sid = s_id x; items = linesOf r s; ids = map o_id items in
     require (items \<noteq> [] \<and> list_all (\<lambda>oi. o_status oi = Serve_READY \<and> \<not> o_isPaid oi \<and> o_invoiceId oi = None) items)
       (Conflict ''ready and unpaid'')
     (require ((\<Sum>oi\<leftarrow>items. o_price oi * o_quantity oi) = or_quotedSubtotal r) (Conflict ''total changed'')
      (andThen (checkoutOnlinePickup hash prefix emp sid tendered now s) (\<lambda>vs.
       let s1 = snd vs;
           g = (\<lambda>oi. o_id oi \<in> set ids \<and> o_sessionId oi = sid \<and> o_status oi = Serve_READY \<and> o_isPaid oi \<and> o_invoiceId oi = Some (fst vs)) in
       require (cnt g (orderItems s1) = length ids) (Conflict ''items changed'')
        (Inr ((fst vs, ids), d\<lparr>od_shop := enqueueItemStatusEvents ids now (addLog emp ''ONLINE_ORDER_COD_COLLECTED'' i
           (s1\<lparr>orderItems := upd g (\<lambda>oi. oi\<lparr>o_status := Serve_SERVED\<rparr>) (orderItems s1)\<rparr>))\<rparr>))))))"

definition collect ::
  "onlineEnv \<Rightarrow> (quotedData \<Rightarrow> 'h) \<Rightarrow> string \<Rightarrow> id \<Rightarrow> string \<Rightarrow> id \<Rightarrow> money \<Rightarrow> time \<Rightarrow> onlineDb \<Rightarrow> ((id \<times> id list) \<times> onlineDb) res"
where
  "collect env hash prefix i token emp tendered now d =
     assertAccess env i token
     (fetch (findRequest i d) (NotFound ''request'') (\<lambda>r.
      require (accessLive r now) (NotFound ''request'') (collectTx hash prefix i emp tendered now d)))"

section \<open>Cancelling an accepted order\<close>

definition wasteLines :: "id \<Rightarrow> string \<Rightarrow> orderItem list \<Rightarrow> db \<Rightarrow> db" where
  "wasteLines emp reason items s =
     foldl (\<lambda>s oi. if o_status oi = Serve_COOKING \<or> o_status oi = Serve_READY then recordWaste (o_id oi) emp reason s else s) s items"

definition cancelAcceptedRequest :: "onlineEnv \<Rightarrow> id \<Rightarrow> id \<Rightarrow> string \<Rightarrow> bool \<Rightarrow> time \<Rightarrow> onlineDb \<Rightarrow> onlineDb res" where
  "cancelAcceptedRequest env i emp reason noShow now d =
     require (activeEmployee emp (od_shop d)) (Unauthorized ''employee'')
     (fetch (findRequest i d) (NotFound ''request'') (\<lambda>r.
      if or_status r = Online_CANCELLED \<and> or_cancellationReason r = Some reason \<and> (or_noShowAt r \<noteq> None) = noShow then Inr d
      else fetch (activeTakeaway r (od_shop d)) (Conflict ''only an unpaid, uncollected order'') (\<lambda>x.
        let s = od_shop d; sid = s_id x; items = linesOf r s; active = filter (\<lambda>oi. o_status oi \<noteq> Serve_CANCELLED) items; ids = map o_id active in
        require (\<not> list_ex (\<lambda>oi. o_isPaid oi \<or> o_invoiceId oi \<noteq> None \<or> o_status oi = Serve_SERVED) items)
          (Conflict ''only an unpaid, uncollected order'')
        (require (noShow \<longrightarrow> isNoShowEligible (or_pickupAt r) items now) (Conflict ''no-show requires a prepared order'')
        (let s1 = wasteLines emp reason active s;
             g = (\<lambda>oi. o_id oi \<in> set ids \<and> o_sessionId oi = sid \<and> uncollectedLine oi \<and> \<not> o_isPaid oi \<and> o_invoiceId oi = None) in
         require (active = [] \<or> cnt g (orderItems s1) = length active) (Conflict ''items changed during cancellation'')
         (andThen (releaseReservations ids (s1\<lparr>orderItems := upd g (\<lambda>oi. oi\<lparr>o_status := Serve_CANCELLED\<rparr>) (orderItems s1)\<rparr>)) (\<lambda>s2.
          andThen (cancelKitchenItems ids emp now s2) (\<lambda>s3.
          require (sessionOpen sid s3 \<and> cnt (acceptedFor i sid) (onlineRequests d) = 1) (Conflict ''changed during cancellation'')
           (Inr (d\<lparr>od_shop := enqueueCancellationEvents env i sid ids now
                (addLog emp (if noShow then ''ONLINE_ORDER_NO_SHOW'' else ''ONLINE_ORDER_CANCELLED'') i (closeSession sid s3)),
              onlineRequests := upd (acceptedFor i sid) (\<lambda>y. y\<lparr>or_status := Online_CANCELLED, or_cancellationReason := Some reason,
                or_cancelledAt := Some now, or_noShowAt := (if noShow then Some now else or_noShowAt y)\<rparr>) (onlineRequests d)\<rparr>)))))))))) "

definition cancelAccepted :: "onlineEnv \<Rightarrow> id \<Rightarrow> id \<Rightarrow> string \<Rightarrow> time \<Rightarrow> onlineDb \<Rightarrow> onlineDb res" where
  "cancelAccepted env i emp reason now d = cancelAcceptedRequest env i emp reason False now d"

definition markNoShow :: "onlineEnv \<Rightarrow> id \<Rightarrow> id \<Rightarrow> time \<Rightarrow> onlineDb \<Rightarrow> onlineDb res" where
  "markNoShow env i emp now d = cancelAcceptedRequest env i emp ''Customer did not collect the prepared order.'' True now d"

section \<open>Review\<close>

definition stillPending :: "id \<Rightarrow> time \<Rightarrow> onlineRequest \<Rightarrow> bool" where
  "stillPending i now x \<longleftrightarrow> or_id x = i \<and> or_status x = Online_PENDING \<and> now < or_expiresAt x"

text \<open>The session of the request is linked to it on both sides.\<close>

definition linkSession :: "id \<Rightarrow> id \<Rightarrow> db \<Rightarrow> db" where
  "linkSession i sid s = s\<lparr>orderSessions := upd (\<lambda>x. s_id x = sid) (\<lambda>x. x\<lparr>s_online := Some i\<rparr>) (orderSessions s)\<rparr>"

definition accept :: "onlineEnv \<Rightarrow> id \<Rightarrow> id \<Rightarrow> time \<Rightarrow> onlineDb \<Rightarrow> (id \<times> onlineDb) res" where
  "accept env i emp now d =
     fetch (findRequest i d) (NotFound ''request'') (\<lambda>r.
     require (or_status r = Online_PENDING \<and> now < or_expiresAt r) (Conflict ''no longer pending'')
     ((case or_pickupAt r of None \<Rightarrow> (\<lambda>k. k)
       | Some p \<Rightarrow> (\<lambda>k. fetch (oe_schedule env) (Conflict ''pickup time has passed'') (\<lambda>sc.
           require (now < p) (Conflict ''pickup time has passed'')
           (require (acceptedAt p d < sc_capacity sc) (Conflict ''slot is full'') k))))
     (andThen (mapM (\<lambda>it. andThen (readSelectedOptions (on_quotedOptions it)) (\<lambda>os. Inr (on_quotedUnitPrice it, os))) (or_items r)) (\<lambda>quotes.
      andThen (mapM itemLine (or_items r)) (\<lambda>lines.
      andThen (createOnlineTakeawaySession emp lines quotes (or_pickupAt r) now (od_shop d)) (\<lambda>ss.
      require (cnt (stillPending i now) (onlineRequests d) = 1) (Conflict ''no longer pending'')
       (Inr (fst ss, d\<lparr>od_shop := enqueueTelegramStatus env i now (addLog emp ''ONLINE_ORDER_ACCEPTED'' i (linkSession i (fst ss) (snd ss))),
          onlineRequests := upd (stillPending i now) (\<lambda>x. x\<lparr>or_status := Online_ACCEPTED, or_reviewedAt := Some now,
            or_reviewedById := Some emp, or_orderSessionId := Some (fst ss)\<rparr>) (onlineRequests d)\<rparr>))))))))"

definition reject :: "onlineEnv \<Rightarrow> id \<Rightarrow> id \<Rightarrow> string \<Rightarrow> time \<Rightarrow> onlineDb \<Rightarrow> onlineDb res" where
  "reject env i emp reason now d =
     require (activeEmployee emp (od_shop d)) (Unauthorized ''employee'')
     (require (cnt (stillPending i now) (onlineRequests d) = 1) (Conflict ''no longer pending'')
      (Inr (d\<lparr>od_shop := enqueueTelegramStatus env i now (addLog emp ''ONLINE_ORDER_REJECTED'' i (od_shop d)),
         onlineRequests := upd (stillPending i now) (\<lambda>x. x\<lparr>or_status := Online_REJECTED, or_rejectionReason := Some reason,
           or_reviewedAt := Some now, or_reviewedById := Some emp\<rparr>) (onlineRequests d)\<rparr>)))"

section \<open>Pausing the intake\<close>

definition updateOnlineIntake :: "id \<Rightarrow> time option \<times> string option \<Rightarrow> int \<Rightarrow> time \<Rightarrow> onlineDb \<Rightarrow> onlineDb res" where
  "updateOnlineIntake emp v expected now d =
     andThen (updateIntake (activeEmployee emp (od_shop d)) v expected now (intake d)) (\<lambda>s.
       Inr (d\<lparr>intake := Some s, od_shop := addLog emp ''ONLINE_ORDER_INTAKE_UPDATED'' 0 (od_shop d)\<rparr>))"

end
