(* ===== verification/Online_System.thy ===== *)
theory Online_System
  imports Online_Handling
begin

text \<open>
  The steps of online ordering, and the invariant of the requests: a client's submission is stored once, the
  columns of a request fit its status, its subtotal is that of its quoted items, and no pickup slot is
  promised more often than the schedule allows.
\<close>

definition slotCapacity :: "onlineEnv \<Rightarrow> int" where
  "slotCapacity env = (case oe_schedule env of None \<Rightarrow> 0 | Some sc \<Rightarrow> sc_capacity sc)"

definition itemsTotal :: "onlineItem list \<Rightarrow> money" where
  "itemsTotal its = (\<Sum>it\<leftarrow>its. on_quotedUnitPrice it * on_quantity it)"

definition onlineShape :: "onlineRequest \<Rightarrow> bool" where
  "onlineShape r \<longleftrightarrow>
     (or_status r = Online_ACCEPTED \<longrightarrow> or_orderSessionId r \<noteq> None \<and> or_reviewedById r \<noteq> None \<and> or_reviewedAt r \<noteq> None) \<and>
     (or_orderSessionId r \<noteq> None \<longrightarrow> or_status r = Online_ACCEPTED \<or> or_status r = Online_CANCELLED) \<and>
     (or_cancelledAt r \<noteq> None \<longleftrightarrow> or_status r = Online_CANCELLED) \<and> (or_rejectionReason r \<noteq> None \<longleftrightarrow> or_status r = Online_REJECTED) \<and>
     (or_noShowAt r \<noteq> None \<longrightarrow> or_status r = Online_CANCELLED) \<and> or_quotedSubtotal r = itemsTotal (or_items r)"

definition online_inv :: "onlineEnv \<Rightarrow> onlineDb \<Rightarrow> bool" where
  "online_inv env d \<longleftrightarrow>
     distinct (map or_id (onlineRequests d)) \<and> (\<forall>i\<in>or_id ` set (onlineRequests d). i < od_nextId d) \<and>
     distinct (map or_clientRequestId (onlineRequests d)) \<and> (\<forall>r\<in>set (onlineRequests d). onlineShape r) \<and>
     (\<forall>t. acceptedAt t d \<le> slotCapacity env)"

text \<open>
  Any change of the shop and of the customers may happen in between, and the Telegram service may write any Telegram
  columns of any requests (\<open>telegram-notifications.service.ts\<close>: a chat is linked, leaves or cannot be reached; the
  column that says that the message of a ready order was queued is not modelled).
\<close>

inductive online_step :: "(quotedData \<Rightarrow> 'h) \<Rightarrow> onlineEnv \<Rightarrow> onlineDb \<Rightarrow> onlineDb \<Rightarrow> bool" for hash env where
  submit: "createOnlineRequest env human i customer nonce now d0 d = Inr (a, d') \<Longrightarrow> online_step hash env d d'"
| issue_key: "issueReorderKey env i token candidate now d = Inr (k, d') \<Longrightarrow> online_step hash env d d'"
| revoke_key: "revokeReorderKey env i token now d = Inr d' \<Longrightarrow> online_step hash env d d'"
| telegram_link: "createTelegramLink env i token random now d = Inr (e, d') \<Longrightarrow> online_step hash env d d'"
| withdraw: "cancelOnlineRequest env i token now d = Inr d' \<Longrightarrow> online_step hash env d d'"
| collect_order: "collect env hash prefix i token emp tendered now d = Inr (c, d') \<Longrightarrow> online_step hash env d d'"
| cancel_order: "cancelAcceptedRequest env i emp reason noShow now d = Inr d' \<Longrightarrow> online_step hash env d d'"
| accept_order: "accept env i emp now d = Inr (sid, d') \<Longrightarrow> online_step hash env d d'"
| reject_order: "reject env i emp reason now d = Inr d' \<Longrightarrow> online_step hash env d d'"
| pause: "updateOnlineIntake emp v exptd now d = Inr d' \<Longrightarrow> online_step hash env d d'"
| telegram_write: "online_step hash env d (d\<lparr>onlineRequests := upd g (\<lambda>x. x\<lparr>or_telegramChatId := c x,
    or_telegramLinkTokenHash := h x, or_telegramLinkExpiresAt := e x\<rparr>) (onlineRequests d)\<rparr>)"
| elsewhere: "online_step hash env d (d\<lparr>od_shop := s, customers := cs\<rparr>)"

section \<open>What the operations do to the requests\<close>

definition touches :: "(onlineRequest \<Rightarrow> onlineRequest) \<Rightarrow> (onlineRequest \<Rightarrow> bool) \<Rightarrow> bool" where
  "touches f g \<longleftrightarrow> (\<forall>x. or_id (f x) = or_id x \<and> or_clientRequestId (f x) = or_clientRequestId x) \<and>
     (\<forall>x. g x \<longrightarrow> onlineShape x \<longrightarrow> onlineShape (f x) \<and> or_pickupAt (f x) = or_pickupAt x \<and>
        (or_status (f x) = Online_ACCEPTED \<longrightarrow> or_status x = Online_ACCEPTED))"

definition retains :: "onlineDb \<Rightarrow> onlineDb \<Rightarrow> bool" where
  "retains d d' \<longleftrightarrow> od_nextId d' = od_nextId d \<and>
     (onlineRequests d' = onlineRequests d \<or> (\<exists>g f. touches f g \<and> onlineRequests d' = upd g f (onlineRequests d)))"

lemma retains_same: "od_nextId d' = od_nextId d \<Longrightarrow> onlineRequests d' = onlineRequests d \<Longrightarrow> retains d d'"
  by (simp add: retains_def)

lemma retains_upd: "od_nextId d' = od_nextId d \<Longrightarrow> onlineRequests d' = upd g f (onlineRequests d) \<Longrightarrow> touches f g \<Longrightarrow> retains d d'"
  unfolding retains_def by blast

lemma cnt_upd_le: "cnt Q (upd g f t) \<le> cnt Q t + cnt (\<lambda>x. g x \<and> Q (f x)) t"
  by (induction t) auto

lemma cnt_upd_mono: "(\<And>x. x \<in> set t \<Longrightarrow> g x \<Longrightarrow> Q (f x) \<Longrightarrow> Q x) \<Longrightarrow> cnt Q (upd g f t) \<le> cnt Q t"
  by (induction t) (auto simp: le_SucI)

lemma retains_inv:
  assumes "retains d d'" and inv: "online_inv env d"
  shows "online_inv env d'"
proof -
  consider "onlineRequests d' = onlineRequests d" | f g where "touches f g" "onlineRequests d' = upd g f (onlineRequests d)"
    using assms(1) unfolding retains_def by blast
  then show ?thesis
  proof cases
    case 1
    then show ?thesis using inv assms(1) by (simp add: online_inv_def retains_def acceptedAt_def)
  next
    case 2
    have ids: "map or_id (onlineRequests d') = map or_id (onlineRequests d)"
      and cids: "map or_clientRequestId (onlineRequests d') = map or_clientRequestId (onlineRequests d)"
      using 2 by (simp_all add: touches_def map_key_upd)
    have iset: "or_id ` set (onlineRequests d') = or_id ` set (onlineRequests d)" using arg_cong [OF ids, of set] by simp
    have shape: "\<forall>r\<in>set (onlineRequests d'). onlineShape r"
      using inv 2(1) unfolding 2(2) ball_upd online_inv_def touches_def by auto
    have "acceptedAt t d' \<le> acceptedAt t d" for t
      unfolding acceptedAt_def 2(2) of_nat_le_iff
      by (rule cnt_upd_mono) (use inv 2(1) in \<open>auto simp: online_inv_def touches_def\<close>)
    then have "\<forall>t. acceptedAt t d' \<le> slotCapacity env" using inv unfolding online_inv_def by (meson order_trans)
    then show ?thesis using inv shape assms(1) unfolding online_inv_def ids cids iset retains_def by simp
  qed
qed

lemma key_retains: "issueReorderKey env i token candidate now d = Inr (k, d') \<Longrightarrow> retains d d'"
proof -
  let ?g = "\<lambda>x. or_id x = i \<and> or_reorderNonce x = None" and ?f = "\<lambda>x. x\<lparr>or_reorderNonce := Some candidate\<rparr>"
  assume "issueReorderKey env i token candidate now d = Inr (k, d')"
  then have "d' = d \<or> d' = d\<lparr>onlineRequests := upd ?g ?f (onlineRequests d)\<rparr>"
    by (auto simp: issueReorderKey_def assertAccess_def split: option.split_asm)
  then show ?thesis
  proof
    assume "d' = d\<lparr>onlineRequests := upd ?g ?f (onlineRequests d)\<rparr>"
    then show ?thesis by (intro retains_upd [where g = ?g and f = ?f]) (auto simp: touches_def onlineShape_def)
  qed (simp add: retains_same)
qed

lemma revoke_retains:
  assumes "revokeReorderKey env i token now d = Inr d'"
  shows "retains d d'"
proof -
  obtain n where "d' = d\<lparr>onlineRequests := upd (\<lambda>x. or_id x = i \<and> or_reorderNonce x = n)
      (\<lambda>x. x\<lparr>or_reorderNonce := None\<rparr>) (onlineRequests d)\<rparr>"
    using assms by (auto simp: revokeReorderKey_def assertReorderAccess_def Let_def)
  then show ?thesis
    by (intro retains_upd [where g = "\<lambda>x. or_id x = i \<and> or_reorderNonce x = n" and f = "\<lambda>x. x\<lparr>or_reorderNonce := None\<rparr>"])
      (auto simp: touches_def onlineShape_def)
qed

lemma link_retains:
  assumes "createTelegramLink env i token random now d = Inr (e, d')"
  shows "retains d d'"
proof -
  have "d' = d\<lparr>onlineRequests := upd (\<lambda>x. or_id x = i \<and> or_telegramChatId x = None \<and> linkable now x)
      (\<lambda>x. x\<lparr>or_telegramLinkTokenHash := Some (oe_sha env random), or_telegramLinkExpiresAt := Some (now + 30 * 60000)\<rparr>) (onlineRequests d)\<rparr>"
    using assms by (auto simp: createTelegramLink_def assertAccess_def Let_def)
  then show ?thesis
    by (intro retains_upd [where g = "\<lambda>x. or_id x = i \<and> or_telegramChatId x = None \<and> linkable now x" and
        f = "\<lambda>x. x\<lparr>or_telegramLinkTokenHash := Some (oe_sha env random), or_telegramLinkExpiresAt := Some (now + 30 * 60000)\<rparr>"])
      (auto simp: touches_def onlineShape_def)
qed

lemma telegram_retains:
  "retains d (d\<lparr>onlineRequests := upd g (\<lambda>x. x\<lparr>or_telegramChatId := c x, or_telegramLinkTokenHash := h x,
     or_telegramLinkExpiresAt := e x\<rparr>) (onlineRequests d)\<rparr>)"
  by (rule retains_upd [where g = g and f = "\<lambda>x. x\<lparr>or_telegramChatId := c x, or_telegramLinkTokenHash := h x,
        or_telegramLinkExpiresAt := e x\<rparr>"]) (simp_all add: touches_def onlineShape_def)

lemma withdrawTx_steps:
  assumes "withdrawTx env i now d = Inr d'" and "\<forall>r. findRequest i d = Some r \<longrightarrow> or_status r \<noteq> Online_CANCELLED"
  obtains r x s3 where "findRequest i d = Some r" "activeTakeaway r (od_shop d) = Some x"
    "linesOf r (od_shop d) \<noteq> []" "list_all untouched (linesOf r (od_shop d))"
    "cnt (\<lambda>oi. o_id oi \<in> o_id ` set (linesOf r (od_shop d)) \<and> o_sessionId oi = s_id x \<and> untouched oi) (orderItems (od_shop d)) =
       length (linesOf r (od_shop d))"
    "releaseReservations (map o_id (linesOf r (od_shop d))) (closeSession (s_id x) ((od_shop d)\<lparr>
       printJobs := upd (\<lambda>j. j_id j \<in> j_id ` set (sessionJobs (s_id x) (od_shop d)) \<and> j_status j = Print_PENDING)
         (\<lambda>j. j\<lparr>j_status := Print_CANCELLED\<rparr>) (printJobs (od_shop d)),
       orderItems := upd (\<lambda>oi. o_id oi \<in> o_id ` set (linesOf r (od_shop d)) \<and> o_sessionId oi = s_id x \<and> untouched oi)
         (\<lambda>oi. oi\<lparr>o_status := Serve_CANCELLED\<rparr>) (orderItems (od_shop d))\<rparr>)) = Inr s3"
    "d' = d\<lparr>od_shop := enqueueCancellationEvents env i (s_id x) (map o_id (linesOf r (od_shop d))) now s3,
       onlineRequests := upd (acceptedFor i (s_id x)) (\<lambda>x. x\<lparr>or_status := Online_CANCELLED,
         or_cancellationReason := Some CUSTOMER_CANCELLATION_REASON, or_cancelledAt := Some now\<rparr>) (onlineRequests d)\<rparr>"
proof -
  from assms obtain r where r: "findRequest i d = Some r" "or_status r \<noteq> Online_CANCELLED"
    by (auto simp: withdrawTx_def)
  from assms(1) show thesis
    unfolding withdrawTx_def r(1) fetch_simps(1) if_not_P [OF r(2)] Let_def require_Inr_iff fetch_Inr_iff andThen_Inr_iff
    by (elim conjE exE) (rule that [OF r(1)], (assumption | simp)+)
qed

lemma withdrawTx_retains:
  assumes "withdrawTx env i now d = Inr d'"
  shows "retains d d'"
proof (cases "\<forall>r. findRequest i d = Some r \<longrightarrow> or_status r \<noteq> Online_CANCELLED")
  case True
  obtain r s3 and x :: orderSession where d': "d' = d\<lparr>od_shop := enqueueCancellationEvents env i (s_id x) (map o_id (linesOf r (od_shop d))) now s3,
       onlineRequests := upd (acceptedFor i (s_id x)) (\<lambda>x. x\<lparr>or_status := Online_CANCELLED,
         or_cancellationReason := Some CUSTOMER_CANCELLATION_REASON, or_cancelledAt := Some now\<rparr>) (onlineRequests d)\<rparr>"
    by (rule withdrawTx_steps [OF assms True]) (rule that, assumption)
  show ?thesis
    by (rule retains_upd [where g = "acceptedFor i (s_id x)" and f = "\<lambda>x. x\<lparr>or_status := Online_CANCELLED,
         or_cancellationReason := Some CUSTOMER_CANCELLATION_REASON, or_cancelledAt := Some now\<rparr>"])
      (auto simp: d' touches_def onlineShape_def acceptedFor_def)
next
  case False
  then have "d' = d" using assms by (auto simp: withdrawTx_def)
  then show ?thesis by (simp add: retains_same)
qed

lemma withdraw_retains:
  assumes "cancelOnlineRequest env i token now d = Inr d'"
  shows "retains d d'"
proof -
  let ?g = "\<lambda>x. or_id x = i \<and> or_status x = Online_PENDING \<and> now < or_expiresAt x"
  let ?f = "\<lambda>x. x\<lparr>or_status := Online_CANCELLED, or_cancelledAt := Some now\<rparr>"
  consider "d' = d\<lparr>onlineRequests := upd ?g ?f (onlineRequests d)\<rparr>" | "d' = d" | "withdrawTx env i now d = Inr d'"
  proof -
    assume *: "d' = d\<lparr>onlineRequests := upd ?g ?f (onlineRequests d)\<rparr> \<Longrightarrow> thesis" "d' = d \<Longrightarrow> thesis"
      "withdrawTx env i now d = Inr d' \<Longrightarrow> thesis"
    show thesis
    proof (cases "cnt ?g (onlineRequests d) = 1")
      case True
      then show ?thesis using assms unfolding cancelOnlineRequest_def assertAccess_def Let_def require_Inr_iff if_P [OF True]
        by (intro *(1)) simp
    next
      case False
      then obtain r :: onlineRequest where "(if or_status r = Online_CANCELLED then Inr d
          else require (or_status r = Online_ACCEPTED) (Conflict ''can no longer be cancelled'') (withdrawTx env i now d)) = Inr d'"
        using assms unfolding cancelOnlineRequest_def assertAccess_def Let_def require_Inr_iff if_not_P [OF False] fetch_Inr_iff by blast
      then show ?thesis using *(2,3) by (cases "or_status r = Online_CANCELLED") simp_all
    qed
  qed
  then show ?thesis
  proof cases
    case 1
    then show ?thesis by (intro retains_upd [where g = ?g and f = ?f]) (auto simp: touches_def onlineShape_def)
  qed (auto intro: retains_same withdrawTx_retains)
qed

lemma collect_retains: "collect env hash prefix i token emp tendered now d = Inr (c, d') \<Longrightarrow> retains d d'"
  by (auto simp: collect_def collectTx_def assertAccess_def Let_def intro!: retains_same)

lemma cancel_retains:
  assumes "cancelAcceptedRequest env i emp reason noShow now d = Inr d'"
  shows "retains d d'"
proof -
  let ?f = "\<lambda>y. y\<lparr>or_status := Online_CANCELLED, or_cancellationReason := Some reason,
    or_cancelledAt := Some now, or_noShowAt := (if noShow then Some now else or_noShowAt y)\<rparr>"
  obtain r where r: "findRequest i d = Some r" using assms by (auto simp: cancelAcceptedRequest_def)
  have "d' = d \<or> (\<exists>sid s. d' = d\<lparr>od_shop := s, onlineRequests := upd (acceptedFor i sid) ?f (onlineRequests d)\<rparr>)"
    using assms unfolding cancelAcceptedRequest_def r fetch_simps(1) Let_def
    by (auto simp del: cancelKitchenItems_def releaseReservations_def split: if_split_asm)
  then show ?thesis
  proof (elim disjE exE)
    fix sid s assume d': "d' = d\<lparr>od_shop := s, onlineRequests := upd (acceptedFor i sid) ?f (onlineRequests d)\<rparr>"
    show ?thesis
      by (rule retains_upd [where g = "acceptedFor i sid" and f = ?f]) (auto simp: d' touches_def onlineShape_def acceptedFor_def)
  qed (simp add: retains_same)
qed

lemma reject_retains:
  assumes "reject env i emp reason now d = Inr d'"
  shows "retains d d'"
proof -
  let ?f = "\<lambda>x. x\<lparr>or_status := Online_REJECTED, or_rejectionReason := Some reason, or_reviewedAt := Some now, or_reviewedById := Some emp\<rparr>"
  have "od_nextId d' = od_nextId d" "onlineRequests d' = upd (stillPending i now) ?f (onlineRequests d)" using assms by (auto simp: reject_def)
  then show ?thesis
    by (rule retains_upd) (auto simp: touches_def onlineShape_def stillPending_def)
qed

lemma pause_retains: "updateOnlineIntake emp v exptd now d = Inr d' \<Longrightarrow> retains d d'"
  by (auto simp: updateOnlineIntake_def intro!: retains_same)

section \<open>Submitting and accepting\<close>

lemma submit_steps:
  assumes "createOnlineRequest env human i customer nonce now d0 d = Inr (a, d')"
  shows "onlineRequests d' = onlineRequests d \<and> od_nextId d' = od_nextId d \<or>
    (\<exists>planned. findByClient (oi_clientRequestId i) d = None \<and> od_nextId d' = Suc (od_nextId d) \<and>
       onlineRequests d' = onlineRequests d @ [newRequest env i customer nonce planned (od_nextId d) now])"
proof -
  consider "d' = d" | planned r where "submitTx env i customer nonce planned now d = Inr (r, d')"
    using assms by (auto simp: createOnlineRequest_def Let_def assertPickupAt_def split: option.split_asm)
  then show ?thesis
    by cases (auto simp: submitTx_def Let_def assertAccepting_def split: option.split_asm)
qed

lemma quoted_total: "itemsTotal (quotedItems env planned) = basketSubtotal planned"
proof -
  have "(\<Sum>it\<leftarrow>map (\<lambda>(n, p). \<lparr>on_lineNumber = n, on_menuItemId = ol_menuItemId (fst p), on_quotedName = oe_menuName env (ol_menuItemId (fst p)),
       on_quotedUnitPrice = sel_unitPrice (snd p), on_quotedOptions = sel_options (snd p), on_quantity = ol_quantity (fst p),
       on_note = ol_note (fst p)\<rparr>) (zip ns planned). on_quotedUnitPrice it * on_quantity it) = basketSubtotal planned"
    if "length ns = length planned" for ns :: "nat list"
    using that by (induction ns planned rule: list_induct2) (simp_all add: basketSubtotal_def)
  from this [of "[1..<Suc (length planned)]"] show ?thesis by (simp add: itemsTotal_def quotedItems_def del: upt_Suc)
qed

lemma submit_inv:
  assumes "createOnlineRequest env human i customer nonce now d0 d = Inr (a, d')" and inv: "online_inv env d"
  shows "online_inv env d'"
  using submit_steps [OF assms(1)]
proof (elim disjE conjE exE)
  fix planned
  assume none: "findByClient (oi_clientRequestId i) d = None" and n: "od_nextId d' = Suc (od_nextId d)"
    and rs: "onlineRequests d' = onlineRequests d @ [newRequest env i customer nonce planned (od_nextId d) now]"
  let ?r = "newRequest env i customer nonce planned (od_nextId d) now"
  have r: "or_id ?r = od_nextId d" "or_clientRequestId ?r = oi_clientRequestId i" "or_status ?r = Online_PENDING" "onlineShape ?r"
    by (simp_all add: newRequest_def onlineShape_def quoted_total)
  have "oi_clientRequestId i \<notin> or_clientRequestId ` set (onlineRequests d)"
    using none by (auto simp: findByClient_def find_None_iff)
  moreover have "acceptedAt t d' = acceptedAt t d" for t by (simp add: acceptedAt_def rs r(3))
  moreover have "od_nextId d \<notin> or_id ` set (onlineRequests d)" using inv by (auto simp: online_inv_def)
  ultimately show ?thesis using inv r unfolding online_inv_def rs n by (auto simp: less_Suc_eq)
qed (use inv in \<open>simp add: online_inv_def acceptedAt_def\<close>)

lemma accept_steps:
  assumes "accept env i emp now d = Inr (sid, d')"
  obtains r quotes lines s where "findRequest i d = Some r" "or_status r = Online_PENDING"
    "\<And>p. or_pickupAt r = Some p \<Longrightarrow> \<exists>sc. oe_schedule env = Some sc \<and> acceptedAt p d < sc_capacity sc"
    "mapM (\<lambda>it. andThen (readSelectedOptions (on_quotedOptions it)) (\<lambda>os. Inr (on_quotedUnitPrice it, os))) (or_items r) = Inr quotes"
    "mapM itemLine (or_items r) = Inr lines"
    "createOnlineTakeawaySession emp lines quotes (or_pickupAt r) now (od_shop d) = Inr (sid, s)"
    "cnt (stillPending i now) (onlineRequests d) = 1"
    "d' = d\<lparr>od_shop := enqueueTelegramStatus env i now (addLog emp ''ONLINE_ORDER_ACCEPTED'' i (linkSession i sid s)),
       onlineRequests := upd (stillPending i now) (\<lambda>x. x\<lparr>or_status := Online_ACCEPTED, or_reviewedAt := Some now,
         or_reviewedById := Some emp, or_orderSessionId := Some sid\<rparr>) (onlineRequests d)\<rparr>"
proof -
  obtain r where r: "findRequest i d = Some r" using assms by (auto simp: accept_def)
  have slot: "(case or_pickupAt r of None \<Rightarrow> (\<lambda>k. k)
       | Some p \<Rightarrow> (\<lambda>k. fetch (oe_schedule env) e1 (\<lambda>sc. require (now < p) e1 (require (acceptedAt p d < sc_capacity sc) e2 k)))) k = Inr y \<longleftrightarrow>
     (\<forall>p. or_pickupAt r = Some p \<longrightarrow> (\<exists>sc. oe_schedule env = Some sc \<and> now < p \<and> acceptedAt p d < sc_capacity sc)) \<and> k = Inr y"
    for e1 e2 and k :: "(id \<times> onlineDb) res" and y by (cases "or_pickupAt r") auto
  from assms show thesis
    unfolding accept_def r fetch_simps(1) slot require_Inr_iff
    by (auto split: prod.splits intro!: that [OF r])
qed

lemma accept_inv:
  assumes "accept env i emp now d = Inr (sid, d')" and inv: "online_inv env d"
  shows "online_inv env d'"
proof -
  let ?f = "\<lambda>x. x\<lparr>or_status := Online_ACCEPTED, or_reviewedAt := Some now, or_reviewedById := Some emp, or_orderSessionId := Some sid\<rparr>"
  obtain r s where r: "findRequest i d = Some r" "or_status r = Online_PENDING"
    and slot: "\<And>p. or_pickupAt r = Some p \<Longrightarrow> \<exists>sc. oe_schedule env = Some sc \<and> acceptedAt p d < sc_capacity sc"
    and one: "cnt (stillPending i now) (onlineRequests d) = 1"
    and d': "d' = d\<lparr>od_shop := s, onlineRequests := upd (stillPending i now) ?f (onlineRequests d)\<rparr>"
    by (rule accept_steps [OF assms(1)]) blast
  have rm: "r \<in> set (onlineRequests d)" "or_id r = i" using find_SomeD [OF r(1) [unfolded findRequest_def]] by blast+
  have idd: "distinct (map or_id (onlineRequests d))" using inv by (simp add: online_inv_def)
  have same: "x = r" if "x \<in> set (onlineRequests d)" "or_id x = i" for x
    by (rule distinct_key_eq [OF idd that(1) rm(1)]) (simp add: that(2) rm(2))
  have rs: "onlineRequests d' = upd (stillPending i now) ?f (onlineRequests d)" and n: "od_nextId d' = od_nextId d" by (simp_all add: d')
  have ids: "map or_id (onlineRequests d') = map or_id (onlineRequests d)"
    and cids: "map or_clientRequestId (onlineRequests d') = map or_clientRequestId (onlineRequests d)"
    unfolding rs by (rule map_key_upd, simp)+
  have iset: "or_id ` set (onlineRequests d') = or_id ` set (onlineRequests d)" using arg_cong [OF ids, of set] by simp
  have shape: "\<forall>x\<in>set (onlineRequests d'). onlineShape x"
    using inv unfolding rs ball_upd online_inv_def by (auto simp: onlineShape_def stillPending_def)
  have "acceptedAt t d' \<le> slotCapacity env" for t
  proof -
    let ?Q = "\<lambda>x. or_status x = Online_ACCEPTED \<and> or_pickupAt x = Some t"
    have le: "cnt ?Q (onlineRequests d') \<le> cnt ?Q (onlineRequests d) + cnt (\<lambda>x. stillPending i now x \<and> ?Q (?f x)) (onlineRequests d)"
      unfolding rs by (rule cnt_upd_le)
    show ?thesis
    proof (cases "or_pickupAt r = Some t")
      case True
      have "cnt (\<lambda>x. stillPending i now x \<and> ?Q (?f x)) (onlineRequests d) \<le> cnt (stillPending i now) (onlineRequests d)"
        by (rule cnt_le) blast
      then show ?thesis using le one slot [OF True] unfolding acceptedAt_def slotCapacity_def by auto
    next
      case False
      have "cnt (\<lambda>x. stillPending i now x \<and> ?Q (?f x)) (onlineRequests d) = 0"
        using same False by (auto simp: cnt_def filter_empty_conv stillPending_def)
      then have "acceptedAt t d' \<le> acceptedAt t d" using le by (simp add: acceptedAt_def)
      then show ?thesis using inv unfolding online_inv_def by (meson order_trans)
    qed
  qed
  then show ?thesis using inv shape unfolding online_inv_def ids cids iset n by simp
qed

lemma online_step_inv:
  assumes "online_step hash env d d'" and inv: "online_inv env d"
  shows "online_inv env d'"
  using assms(1)
proof (cases rule: online_step.cases)
  case submit
  then show ?thesis by (rule submit_inv [OF _ inv])
next
  case issue_key
  then show ?thesis by (rule key_retains [THEN retains_inv, OF _ inv])
next
  case revoke_key
  then show ?thesis by (rule revoke_retains [THEN retains_inv, OF _ inv])
next
  case telegram_link
  then show ?thesis by (rule link_retains [THEN retains_inv, OF _ inv])
next
  case withdraw
  then show ?thesis by (rule withdraw_retains [THEN retains_inv, OF _ inv])
next
  case collect_order
  then show ?thesis by (rule collect_retains [THEN retains_inv, OF _ inv])
next
  case cancel_order
  then show ?thesis by (rule cancel_retains [THEN retains_inv, OF _ inv])
next
  case accept_order
  then show ?thesis by (rule accept_inv [OF _ inv])
next
  case reject_order
  then show ?thesis by (rule reject_retains [THEN retains_inv, OF _ inv])
next
  case pause
  then show ?thesis by (rule pause_retains [THEN retains_inv, OF _ inv])
next
  case telegram_write
  show ?thesis unfolding telegram_write(1) by (rule retains_inv [OF telegram_retains inv])
next
  case elsewhere
  then have "od_nextId d' = od_nextId d" "onlineRequests d' = onlineRequests d" by simp_all
  then show ?thesis by (rule retains_inv [OF retains_same inv])
qed

lemma online_steps_inv: "(online_step hash env)\<^sup>*\<^sup>* d d' \<Longrightarrow> online_inv env d \<Longrightarrow> online_inv env d'"
  by (induction rule: rtranclp_induct) (auto intro: online_step_inv)

end
