(* ===== verification/Online_Claims.thy ===== *)
theory Online_Claims
  imports Online_System Order_Claims
begin

text \<open>
  The properties of online ordering: the slots promised, the price charged, the stock a withdrawal gives back,
  and that a collected order is final; and a run in which an order is submitted and accepted.
\<close>

lemma ok_ex: "ok x \<longleftrightarrow> (\<exists>y. x = Inr y)"
  by (cases x) simp_all

section \<open>The price of an accepted order\<close>

lemma quoted_lines_total:
  "mapM (\<lambda>it. andThen (readSelectedOptions (on_quotedOptions it)) (\<lambda>os. Inr (on_quotedUnitPrice it, os))) its = Inr quotes \<Longrightarrow>
   mapM itemLine its = Inr lines \<Longrightarrow>
   (\<Sum>t\<leftarrow>map (\<lambda>(l, q). (ol_menuItemId l, ol_quantity l, fst q, snd q)) (zip lines quotes). fst (snd (snd t)) * fst (snd t)) = itemsTotal its"
proof (induction its arbitrary: quotes lines)
  case (Cons it its)
  then show ?case by (auto simp: itemsTotal_def itemLine_def)
qed (simp add: itemsTotal_def)

lemma sum_fields:
  "(\<Sum>oi\<leftarrow>xs. o_price oi * o_quantity oi) =
     (\<Sum>t\<leftarrow>map (\<lambda>oi. (o_menuItemId oi, o_quantity oi, o_price oi, o_options oi)) xs. fst (snd (snd t)) * fst (snd t))"
  by (simp add: comp_def)

lemma accept_shop:
  "orderItems (enqueueTelegramStatus env i now (addLog emp a b (linkSession j sid s))) = orderItems s"
  "inventoryItems (enqueueTelegramStatus env i now (addLog emp a b (linkSession j sid s))) = inventoryItems s"
  "reservations (enqueueTelegramStatus env i now (addLog emp a b (linkSession j sid s))) = reservations s"
  by (simp_all add: enqueueTelegramStatus_def linkSession_def)

text \<open>C25: What an accepted online order costs is what the customer was quoted: the lines put on the new
  session add up to the subtotal of the request, whatever happened to the menu's prices in between.\<close>

theorem accepted_total_is_quote:
  assumes "accept env i emp now d = Inr (sid, d')" and "online_inv env d" and "lines_fresh (od_shop d)"
  shows "\<exists>r. findRequest i d = Some r \<and>
    (\<Sum>oi\<leftarrow>sessionItems (od_shop d') sid. o_price oi * o_quantity oi) = or_quotedSubtotal r"
proof -
  obtain r quotes lines s where r: "findRequest i d = Some r"
    and q: "mapM (\<lambda>it. andThen (readSelectedOptions (on_quotedOptions it)) (\<lambda>os. Inr (on_quotedUnitPrice it, os))) (or_items r) = Inr quotes"
    and l: "mapM itemLine (or_items r) = Inr lines"
    and c: "createOnlineTakeawaySession emp lines quotes (or_pickupAt r) now (od_shop d) = Inr (sid, s)"
    and shop: "od_shop d' = enqueueTelegramStatus env i now (addLog emp ''ONLINE_ORDER_ACCEPTED'' i (linkSession i sid s))"
    by (rule accept_steps [OF assms(1)]) (simp add: that)
  have "r \<in> set (onlineRequests d)" using find_SomeD [OF r [unfolded findRequest_def]] by blast
  then have "or_quotedSubtotal r = itemsTotal (or_items r)" using assms(2) by (auto simp: online_inv_def onlineShape_def)
  moreover have "sessionItems (od_shop d') sid = sessionItems s sid" by (simp add: sessionItems_def shop accept_shop)
  ultimately show ?thesis
    using online_order_as_quoted [OF c assms(3)] quoted_lines_total [OF q l] r by (simp add: sum_fields del: map_map)
qed

section \<open>Withdrawing an accepted order\<close>

lemma release_same:
  assumes "releaseReservations ids a = Inr a'" and "releaseReservations ids b = Inr b'"
    and "inventoryItems a = inventoryItems b" "reservations a = reservations b"
  shows "inventoryItems a' = inventoryItems b'" "reservations a' = reservations b'"
  using assms by (auto simp: releaseReservations_def Let_def split: if_splits)

definition holds_fresh :: "db \<Rightarrow> bool" where
  "holds_fresh d \<longleftrightarrow> (\<forall>h\<in>set (reservations d). h_orderItemId h < nextId d)"

lemma accept_request:
  assumes "accept env i emp now d = Inr (sid, d')" and inv: "online_inv env d"
  obtains r where "findRequest i d' = Some r" "or_status r = Online_ACCEPTED" "or_orderSessionId r = Some sid"
proof -
  let ?f = "\<lambda>x. x\<lparr>or_status := Online_ACCEPTED, or_reviewedAt := Some now, or_reviewedById := Some emp, or_orderSessionId := Some sid\<rparr>"
  obtain s where one: "cnt (stillPending i now) (onlineRequests d) = 1"
    and d': "d' = d\<lparr>od_shop := s, onlineRequests := upd (stillPending i now) ?f (onlineRequests d)\<rparr>"
    by (rule accept_steps [OF assms(1)]) blast
  obtain x where x: "x \<in> set (onlineRequests d)" "stillPending i now x" using cnt_1_obtain [OF one] by blast
  have "distinct (map or_id (onlineRequests d'))"
    using accept_inv [OF assms] by (simp add: online_inv_def)
  moreover have "?f x \<in> set (onlineRequests d')" using x by (auto simp: d' set_upd)
  ultimately have "findRequest i d' = Some (?f x)"
    unfolding findRequest_def by (rule find_unique) (use x(2) in \<open>simp add: stillPending_def\<close>)
  then show ?thesis by (rule that) simp_all
qed

lemma withdraw_accepted:
  assumes "cancelOnlineRequest env i token now d = Inr d'" and "online_inv env d"
    and "findRequest i d = Some r" "or_status r = Online_ACCEPTED"
  shows "withdrawTx env i now d = Inr d'"
proof -
  let ?g = "\<lambda>x. or_id x = i \<and> or_status x = Online_PENDING \<and> now < or_expiresAt x"
  have rm: "r \<in> set (onlineRequests d)" "or_id r = i" using find_SomeD [OF assms(3) [unfolded findRequest_def]] by blast+
  have "distinct (map or_id (onlineRequests d))" using assms(2) by (simp add: online_inv_def)
  then have "x = r" if "x \<in> set (onlineRequests d)" "or_id x = i" for x
    by (rule distinct_key_eq [OF _ that(1) rm(1)]) (simp add: that(2) rm(2))
  then have "cnt ?g (onlineRequests d) = 0" using assms(4) by (auto simp: cnt_zero_iff)
  then show ?thesis
    using assms(1,4) unfolding cancelOnlineRequest_def assertAccess_def Let_def require_Inr_iff assms(3) fetch_simps by simp
qed

lemma new_lines_unheld:
  assumes "createOrderSession None emp None now d = Inr (sid, d1)" and "addOrderItemsInTransaction sid lines quotes p now d1 = Inr d2"
    and "lines_fresh d" "holds_fresh d" and oi: "oi \<in> set (orderItems d2)" "o_sessionId oi = sid"
  shows "heldBy d2 (o_id oi) = []"
proof -
  obtain e: "orderItems d1 = orderItems d" "reservations d1 = reservations d" "nextId d \<le> nextId d1" "sid = nextId d"
    by (rule createOrderSession_effect [OF assms(1)]) (rule that)
  obtain s :: orderSession and mis planned created d3 d4 where ins: "insertPlanned sid planned now d1 = Inr (created, d3)"
    and kit: "createTickets sid mis created p now d3 = Inr d4"
    and d2: "d2 = enqueueOrderEvent ''ITEMS_ADDED'' sid (affectedTableIds [s_tableId s]) now d4"
    by (rule addOrderItems_steps [OF assms(2)]) (rule that)
  have items: "orderItems d2 = orderItems d @ created"
    using createTickets_sel [OF kit] insertPlanned_effect(2) [OF ins] by (simp add: d2 e(1))
  have "oi \<notin> set (orderItems d)" using oi(2) e(4) assms(3) by (auto simp: lines_fresh_def)
  then have "oi \<in> set created" using oi(1) items by simp
  then have "nextId d1 \<le> o_id oi"
    unfolding insertPlanned_effect(1) [OF ins] by (auto simp: plannedItem_def dest!: set_zip_leftD)
  then have "nextId d \<le> o_id oi" using e(3) by linarith
  moreover have "reservations d2 = reservations d" using addOrderItems_effect(4) [OF assms(2)] e(2) by simp
  ultimately show ?thesis using assms(4) by (auto simp: heldBy_def holds_fresh_def filter_empty_conv)
qed

lemma session_pending_ids:
  assumes "list_all (\<lambda>oi. o_status oi = Serve_PENDING) (filter (\<lambda>oi. o_sessionId oi = sid) (upd P (\<lambda>oi. oi\<lparr>o_recipeAt := t\<rparr>) xs))"
  shows "map o_id (filter (\<lambda>oi. o_sessionId oi = sid) (upd P (\<lambda>oi. oi\<lparr>o_recipeAt := t\<rparr>) xs)) =
    map o_id (filter (\<lambda>oi. o_sessionId oi = sid \<and> o_status oi = Serve_PENDING) xs)"
  using assms by (induction xs) (auto split: if_split_asm)

lemma online_release:
  assumes c: "createOnlineTakeawaySession emp lines quotes p now d = Inr (sid, s)"
    and inv: "stock_keys d" "stock_inv d" "lines_fresh d" "recipes_fresh d" "holds_fresh d"
    and pend: "list_all (\<lambda>oi. o_status oi = Serve_PENDING) (sessionItems s sid)"
  shows "\<exists>e. releaseReservations (map o_id (sessionItems s sid)) s = Inr e \<and>
    inventoryItems e = inventoryItems d \<and> reservations e = reservations d"
proof -
  obtain d1 d2 where st: "createOrderSession None emp None now d = Inr (sid, d1)"
    "addOrderItemsInTransaction sid lines (Some quotes) p now d1 = Inr d2" "reserveSession sid now d2 = Inr s"
    by (rule online_steps [OF c]) (rule that)
  obtain e: "inventoryItems d1 = inventoryItems d" "reservations d1 = reservations d"
    "menuIngredients d1 = menuIngredients d" "recipeRows d1 = recipeRows d" "nextId d \<le> nextId d1"
    by (rule createOrderSession_effect [OF st(1)]) (rule that)
  have "stock_keys d1" using inv(1) e by (simp add: stock_keys_def)
  moreover have "recipes_fresh d1" using inv(4) e(4,5) by (auto simp: recipes_fresh_def intro: less_le_trans)
  ultimately have keys: "stock_keys d2" by (rule add_keys [OF st(2)])
  have same: "inventoryItems d2 = inventoryItems d" "reservations d2 = reservations d"
    using addOrderItems_effect(3,4) [OF st(2)] e by simp_all
  have sinv: "stock_inv d2" using inv(2) by (simp add: stock_inv_def same)
  let ?w = "\<lambda>oi. o_sessionId oi = sid"
  have res: "reservePendingItems ?w now d2 = Inr s" using st(3) by (simp add: reserveSession_def)
  have fresh: "\<forall>oi\<in>set (selected ?w d2). heldBy d2 (o_id oi) = []"
    using new_lines_unheld [OF st(1,2) inv(3,5)] by (auto simp: selected_def)
  obtain P where items: "orderItems s = upd P (\<lambda>oi. oi\<lparr>o_recipeAt := Some now\<rparr>) (orderItems d2)"
    by (rule reserve_lines [OF res])
  have "map o_id (sessionItems s sid) = map o_id (selected ?w d2)"
    using session_pending_ids [of sid P "Some now" "orderItems d2"] pend by (simp add: sessionItems_def selected_def items)
  then show ?thesis using reserve_release_roundtrip [OF res keys sinv fresh] by (simp add: same)
qed

lemma events_shop [simp]:
  "orderItems (enqueueCancellationEvents env i sid ids now s) = orderItems s"
  "inventoryItems (enqueueCancellationEvents env i sid ids now s) = inventoryItems s"
  "reservations (enqueueCancellationEvents env i sid ids now s) = reservations s"
proof -
  have "orderItems (foldl (\<lambda>s i. enqueue a b i [] now s) t js) = orderItems t \<and>
      inventoryItems (foldl (\<lambda>s i. enqueue a b i [] now s) t js) = inventoryItems t \<and>
      reservations (foldl (\<lambda>s i. enqueue a b i [] now s) t js) = reservations t" for a b js t
    by (induction js arbitrary: t) simp_all
  then show "orderItems (enqueueCancellationEvents env i sid ids now s) = orderItems s"
    "inventoryItems (enqueueCancellationEvents env i sid ids now s) = inventoryItems s"
    "reservations (enqueueCancellationEvents env i sid ids now s) = reservations s"
    by (simp_all add: enqueueCancellationEvents_def enqueueItemStatusEvents_def enqueueTelegramStatus_def)
qed

lemma item_events_shop [simp]: "orderItems (enqueueItemStatusEvents ids now s) = orderItems s"
proof -
  have "orderItems (foldl (\<lambda>s i. enqueue a b i [] now s) t js) = orderItems t" for a b js t
    by (induction js arbitrary: t) simp_all
  then show ?thesis by (simp add: enqueueItemStatusEvents_def)
qed

lemma cancel_all_lines:
  "list_all (\<lambda>oi. o_sessionId oi = sid \<longrightarrow> g oi) xs \<Longrightarrow>
   \<forall>oi\<in>set (filter (\<lambda>oi. o_sessionId oi = sid) (upd g (\<lambda>oi. oi\<lparr>o_status := Serve_CANCELLED\<rparr>) xs)). o_status oi = Serve_CANCELLED"
  by (induction xs) auto

text \<open>C23: Withdrawing undoes accepting. When the customer withdraws an order that was just accepted, the stock
  and the reservations are what they were before the acceptance, and every line of the order's session is
  cancelled.\<close>

theorem withdrawal_undoes_acceptance:
  assumes "accept env i emp now d = Inr (sid, d1)" and "cancelOnlineRequest env i token now' d1 = Inr d2"
    and "online_inv env d" and "stock_keys (od_shop d)" and "stock_inv (od_shop d)"
    and "lines_fresh (od_shop d)" and "recipes_fresh (od_shop d)" and "holds_fresh (od_shop d)"
  shows "inventoryItems (od_shop d2) = inventoryItems (od_shop d) \<and> reservations (od_shop d2) = reservations (od_shop d) \<and>
    (\<forall>oi\<in>set (sessionItems (od_shop d2) sid). o_status oi = Serve_CANCELLED)"
proof -
  obtain quotes lines p s where c: "createOnlineTakeawaySession emp lines quotes p now (od_shop d) = Inr (sid, s)"
    and shop: "od_shop d1 = enqueueTelegramStatus env i now (addLog emp ''ONLINE_ORDER_ACCEPTED'' i (linkSession i sid s))"
    by (rule accept_steps [OF assms(1)]) (simp add: that)
  obtain r where r: "findRequest i d1 = Some r" "or_status r = Online_ACCEPTED" "or_orderSessionId r = Some sid"
    by (rule accept_request [OF assms(1,3)])
  have lines: "linesOf r (od_shop d1) = sessionItems s sid" by (simp add: linesOf_def r(3) sessionItems_def shop accept_shop)
  have wt: "withdrawTx env i now' d1 = Inr d2" by (rule withdraw_accepted [OF assms(2) accept_inv [OF assms(1,3)] r(1,2)])
  let ?g = "\<lambda>oi x. o_id oi \<in> o_id ` set (sessionItems s sid) \<and> o_sessionId oi = s_id x \<and> untouched oi"
  obtain r' s3 and x :: orderSession and B where a: "findRequest i d1 = Some r'" "activeTakeaway r' (od_shop d1) = Some x"
    and un: "list_all untouched (linesOf r' (od_shop d1))"
    and rel: "releaseReservations (map o_id (linesOf r' (od_shop d1))) B = Inr s3"
    and B: "B = closeSession (s_id x) ((od_shop d1)\<lparr>
       printJobs := upd (\<lambda>j. j_id j \<in> j_id ` set (sessionJobs (s_id x) (od_shop d1)) \<and> j_status j = Print_PENDING)
         (\<lambda>j. j\<lparr>j_status := Print_CANCELLED\<rparr>) (printJobs (od_shop d1)),
       orderItems := upd (\<lambda>oi. o_id oi \<in> o_id ` set (linesOf r' (od_shop d1)) \<and> o_sessionId oi = s_id x \<and> untouched oi)
         (\<lambda>oi. oi\<lparr>o_status := Serve_CANCELLED\<rparr>) (orderItems (od_shop d1))\<rparr>)"
    and d2: "od_shop d2 = enqueueCancellationEvents env i (s_id x) (map o_id (linesOf r' (od_shop d1))) now' s3"
    by (rule withdrawTx_steps [OF wt]) (use r in simp, rule that, assumption+, rule refl, simp)
  have rr: "r' = r" using a(1) r(1) by simp
  have sid: "s_id x = sid"
    using a(2) r(3) by (auto simp: rr activeTakeaway_def findSession_def split: if_split_asm option.split_asm dest!: find_SomeD)
  have Bs: "inventoryItems B = inventoryItems s" "reservations B = reservations s"
    by (simp_all add: B closeSession_def shop accept_shop)
  have un': "list_all untouched (sessionItems s sid)" using un by (simp add: rr lines)
  then have "list_all (\<lambda>oi. o_status oi = Serve_PENDING) (sessionItems s sid)" by (simp add: list_all_iff untouched_def)
  then obtain e where e: "releaseReservations (map o_id (sessionItems s sid)) s = Inr e"
    "inventoryItems e = inventoryItems (od_shop d)" "reservations e = reservations (od_shop d)"
    using online_release [OF c assms(4-8)] by blast
  have stock: "inventoryItems s3 = inventoryItems (od_shop d)" "reservations s3 = reservations (od_shop d)"
    using release_same [OF rel [unfolded rr lines] e(1) Bs] e(2,3) by simp_all
  have "orderItems s3 = upd (\<lambda>oi. o_id oi \<in> o_id ` set (sessionItems s sid) \<and> o_sessionId oi = sid \<and> untouched oi)
      (\<lambda>oi. oi\<lparr>o_status := Serve_CANCELLED\<rparr>) (orderItems s)"
    using release_lines [OF rel] unfolding B closeSession_def rr lines sid by (simp add: shop accept_shop)
  then have "\<forall>oi\<in>set (sessionItems s3 sid). o_status oi = Serve_CANCELLED"
    unfolding sessionItems_def [of s3] using un'
    by (simp only:) (rule cancel_all_lines, auto simp: list_all_iff sessionItems_def)
  then show ?thesis by (simp add: d2 stock sessionItems_def)
qed

section \<open>Collected orders\<close>

lemma serving_blocks:
  assumes "findRequest i d = Some r" "or_status r = Online_ACCEPTED" "or_orderSessionId r = Some sid"
    and x: "x \<in> set (orderItems (od_shop d))" "o_sessionId x = sid" "o_status x = Serve_SERVED"
    and inv: "online_inv env d"
  shows "\<not> ok (collect env hash prefix i token emp tendered now d)" "\<not> ok (cancelOnlineRequest env i token now d)"
    "\<not> ok (cancelAcceptedRequest env i emp reason noShow now d)"
proof -
  have mem: "x \<in> set (linesOf r (od_shop d))" using x assms(3) by (simp add: linesOf_def)
  have no_collect: "collectTx hash prefix i emp tendered now d \<noteq> Inr y" for y
  proof
    assume "collectTx hash prefix i emp tendered now d = Inr y"
    then have "list_all (\<lambda>oi. o_status oi = Serve_READY \<and> \<not> o_isPaid oi \<and> o_invoiceId oi = None) (linesOf r (od_shop d))"
      by (auto simp: collectTx_def assms(1) Let_def split: option.split_asm bind_splits)
    then show False using mem x(3) by (auto simp: list_all_iff)
  qed
  show "\<not> ok (collect env hash prefix i token emp tendered now d)"
    using no_collect by (auto simp: ok_ex collect_def assertAccess_def)
  have no_withdraw: "withdrawTx env i now d \<noteq> Inr d'" for d'
  proof
    assume "withdrawTx env i now d = Inr d'"
    then have "list_all untouched (linesOf r (od_shop d))" using assms(1,2)
      by (auto simp: withdrawTx_def Let_def)
    then show False using mem x(3) by (auto simp: list_all_iff untouched_def)
  qed
  show "\<not> ok (cancelOnlineRequest env i token now d)"
    using withdraw_accepted [OF _ inv assms(1,2)] no_withdraw by (auto simp: ok_ex)
  show "\<not> ok (cancelAcceptedRequest env i emp reason noShow now d)"
  proof
    assume "ok (cancelAcceptedRequest env i emp reason noShow now d)"
    then obtain d' where "cancelAcceptedRequest env i emp reason noShow now d = Inr d'" by (auto simp: ok_ex)
    then have "\<not> list_ex (\<lambda>oi. o_isPaid oi \<or> o_invoiceId oi \<noteq> None \<or> o_status oi = Serve_SERVED) (linesOf r (od_shop d))"
      unfolding cancelAcceptedRequest_def assms(1) fetch_simps Let_def require_Inr_iff fetch_Inr_iff
      using assms(2) by simp blast
    then show False using mem x(3) by (auto simp: list_ex_iff)
  qed
qed

text \<open>C24: A collected order is final. In the state that a collection leaves the order can neither be collected a
  second time (under another idempotency key) nor withdrawn by the customer, cancelled by the staff or marked as a
  no-show, at whatever time and with whatever credentials.\<close>

theorem collected_is_final:
  assumes "collect env hash prefix i token emp tendered now d = Inr (c, d')" and "online_inv env d"
  shows "\<not> ok (collect env hash' prefix' i token' emp' tendered' now' d') \<and> \<not> ok (cancelOnlineRequest env i token' now' d') \<and>
    \<not> ok (cancelAcceptedRequest env i emp' reason noShow now' d')"
proof -
  obtain r where r: "findRequest i d = Some r" and tx: "collectTx hash prefix i emp tendered now d = Inr (c, d')"
    using assms(1) by (auto simp: collect_def assertAccess_def)
  have act: "activeTakeaway r (od_shop d) \<noteq> None" using tx r by (auto simp: collectTx_def)
  then obtain x where x: "activeTakeaway r (od_shop d) = Some x" by blast
  have st: "or_status r = Online_ACCEPTED" and sid: "or_orderSessionId r = Some (s_id x)"
    using x by (auto simp: activeTakeaway_def findSession_def split: if_split_asm option.split_asm dest!: find_SomeD)
  let ?ids = "map o_id (linesOf r (od_shop d))"
  let ?g = "\<lambda>v oi. o_id oi \<in> set ?ids \<and> o_sessionId oi = s_id x \<and> o_status oi = Serve_READY \<and> o_isPaid oi \<and> o_invoiceId oi = Some v"
  obtain v and s1 :: db where ne: "linesOf r (od_shop d) \<noteq> []" and n: "cnt (?g v) (orderItems s1) = length ?ids"
    and d': "d' = d\<lparr>od_shop := enqueueItemStatusEvents ?ids now (addLog emp ''ONLINE_ORDER_COD_COLLECTED'' i
           (s1\<lparr>orderItems := upd (?g v) (\<lambda>oi. oi\<lparr>o_status := Serve_SERVED\<rparr>) (orderItems s1)\<rparr>))\<rparr>"
    using tx by (auto simp: collectTx_def r x Let_def)
  obtain y where y: "y \<in> set (orderItems s1)" "?g v y"
    using n ne cnt_pos_iff [of "?g v" "orderItems s1"] by auto
  let ?y = "y\<lparr>o_status := Serve_SERVED\<rparr>"
  have "orderItems (od_shop d') = upd (?g v) (\<lambda>oi. oi\<lparr>o_status := Serve_SERVED\<rparr>) (orderItems s1)"
    by (simp add: d')
  then have "?y \<in> set (orderItems (od_shop d'))" using y by (auto simp: set_upd)
  moreover have "findRequest i d' = Some r" using r by (simp add: findRequest_def d')
  moreover have "online_inv env d'" by (rule retains_inv [OF collect_retains [OF assms(1)] assms(2)])
  ultimately show ?thesis
    using serving_blocks [of i d' r "s_id x" ?y] st sid y(2) by simp
qed

section \<open>The promised slots\<close>

text \<open>C22: From an empty list of requests on, whatever is submitted, accepted, rejected, withdrawn, collected,
  cancelled, linked to a chat or unlinked or paused, and whatever happens in the rest of the shop in between: no pickup slot is ever
  promised to more accepted orders than its capacity, no submission is stored twice, and every row is coherent:
  an accepted request has its session and reviewer, times and reasons fit the status, and the subtotal is the
  sum of the quoted items.\<close>

theorem online_slots:
  assumes "onlineRequests d = []" and "0 \<le> slotCapacity env" and "(online_step hash env)\<^sup>*\<^sup>* d d'"
  shows "(\<forall>t. acceptedAt t d' \<le> slotCapacity env) \<and> distinct (map or_clientRequestId (onlineRequests d')) \<and>
    (\<forall>r\<in>set (onlineRequests d'). onlineShape r)"
proof -
  have "online_inv env d" using assms(1,2) by (simp add: online_inv_def acceptedAt_def)
  then have "online_inv env d'" by (rule online_steps_inv [OF assms(3)])
  then show ?thesis by (simp add: online_inv_def)
qed

section \<open>A run\<close>

definition sample_front :: onlineEnv where
  "sample_front = \<lparr>oe_hash = (\<lambda>i c. ''digest''), oe_access = (\<lambda>i. replicate 64 (CHR ''a'')), oe_reorder = (\<lambda>i n. replicate 64 (CHR ''b'')),
     oe_sha = (\<lambda>s. s), oe_menuName = (\<lambda>i. ''Latte''),
     oe_schedule = Some \<lparr>sc_capacity = 1, sc_openMinute = 420, sc_closeMinute = 1320, sc_leadMinutes = 45, sc_daysAhead = 7\<rparr>,
     oe_asapHours = (420, 1320), oe_telegramBot = False, oe_telegramStaff = False\<rparr>"

definition sample_order :: onlineInput where
  "sample_order = \<lparr>oi_clientRequestId = ''c1'', oi_pickupName = ''An'', oi_phoneNumber = ''0900000000'', oi_pickupAt = Some 3600000,
     oi_maxSubtotal = None, oi_items = sample_online_lines\<rparr>"

definition sample_shop :: db where
  "sample_shop = sample_floor\<lparr>menuIngredients := [\<lparr>g_menuItemId = 20, g_inventoryItemId = 10, g_quantity = 2500\<rparr>]\<rparr>"

definition sample_empty :: onlineDb where
  "sample_empty = \<lparr>od_nextId = 900, od_shop = sample_shop, onlineRequests = [], intake = None, customers = []\<rparr>"

definition sample_plan :: "(orderLine \<times> selection) list" where
  "sample_plan = [(hd sample_online_lines, \<lparr>sel_unitPrice = 4500, sel_options = [], sel_recipe = [(10, 2500)]\<rparr>)]"

definition sample_request :: onlineRequest where
  "sample_request = newRequest sample_front sample_order None ''nonce'' sample_plan 900 0"

definition sample_pending :: onlineDb where
  "sample_pending = sample_empty\<lparr>od_nextId := 901, onlineRequests := [sample_request]\<rparr>"

lemma sample_planned: "planBasket sample_online_lines sample_shop = Inr sample_plan"
  by (simp add: planBasket_def availableMenuItems_def menuItemOf_def orderable_def resolveMenuSelection_def selectGroup_def
      selectedIn_def maxPrice_def addIngredient_def addRequirement_def findItem_def sample_plan_def sample_online_lines_def
      sample_latte_def sample_shop_def sample_floor_simps)

lemma sample_fulfil: "canFulfill (basketNeeds sample_plan) sample_shop"
  by (simp add: canFulfill_def basketNeeds_def recipeFor_def sample_plan_def sample_online_lines_def totalRequirements_def
      addRequirement_def itemActive_def sample_shop_def sample_floor_simps)

lemma sample_slot: "assertPickupAt 3600000 (oe_schedule sample_front) 0 k = k"
  by (simp add: assertPickupAt_def slotAllowed_def localMinute_def sample_front_def PICKUP_DAY_MS_def)

lemma sample_submitted:
  "\<exists>a. createOnlineRequest sample_front True sample_order None ''nonce'' 0 sample_empty sample_empty = Inr (a, sample_pending)"
proof -
  have tx: "submitTx sample_front sample_order None ''nonce'' sample_plan 0 sample_empty = Inr (sample_request, sample_pending)"
    by (simp add: submitTx_def findByClient_def assertAccepting_def getStatus_def intakeValue_def sample_empty_def sample_pending_def
        sample_request_def sample_order_def Let_def newRequest_def) (simp add: sample_front_def)
  have h: "or_requestHash sample_request = oe_hash sample_front sample_order None" "or_customerId sample_request = None"
    by (simp_all add: sample_request_def newRequest_def)
  have e: "findByClient (oi_clientRequestId sample_order) sample_empty = None" "oi_pickupAt sample_order = Some 3600000"
    "oi_items sample_order = sample_online_lines" "oi_maxSubtotal sample_order = None" "od_shop sample_empty = sample_shop"
    by (simp_all add: findByClient_def sample_empty_def sample_order_def)
  show ?thesis
    by (simp add: createOnlineRequest_def Let_def e sample_slot sample_planned sample_fulfil tx replayRequest_def h)
qed

lemma sample_shop_ok: "stock_keys sample_shop" "stock_inv sample_shop" "lines_fresh sample_shop" "recipes_fresh sample_shop"
    "holds_fresh sample_shop"
  by (simp_all add: stock_keys_def stock_inv_def stock_ok_def reservedIn_def lines_fresh_def recipes_fresh_def holds_fresh_def
      sample_shop_def sample_floor_simps)

lemma sample_session_ok: "ok (createOnlineTakeawaySession 1 sample_online_lines [(4500, [])] (Some 3600000) 10 sample_shop)"
  by (simp add: order_eval stock_eval addIngredient_def findItem_def sample_online_lines_def sample_latte_def sample_shop_def
      sample_floor_simps)

definition sample_takeaway :: "id \<times> db" where
  "sample_takeaway = value_of (createOnlineTakeawaySession 1 sample_online_lines [(4500, [])] (Some 3600000) 10 sample_shop)"

abbreviation sample_row :: onlineRequest where
  "sample_row \<equiv> sample_request\<lparr>or_status := Online_ACCEPTED, or_reviewedAt := Some 10, or_reviewedById := Some 1,
     or_orderSessionId := Some (fst sample_takeaway)\<rparr>"

definition sample_linked :: db where
  "sample_linked = enqueueTelegramStatus sample_front 900 10 (addLog 1 ''ONLINE_ORDER_ACCEPTED'' 900
     (linkSession 900 (fst sample_takeaway) (snd sample_takeaway)))"

lemma sample_accepted_value:
  "accept sample_front 900 1 10 sample_pending = Inr (fst sample_takeaway, sample_pending\<lparr>od_shop := sample_linked, onlineRequests := [sample_row]\<rparr>)"
proof -
  have x: "createOnlineTakeawaySession 1 sample_online_lines [(4500, [])] (Some 3600000) 10 sample_shop = Inr sample_takeaway"
    unfolding sample_takeaway_def by (rule ok_value_of [OF sample_session_ok])
  have r: "findRequest 900 sample_pending = Some sample_request" "or_status sample_request = Online_PENDING"
    "or_expiresAt sample_request = 1800000" "or_pickupAt sample_request = Some 3600000" "od_shop sample_pending = sample_shop"
    "onlineRequests sample_pending = [sample_request]" "stillPending 900 10 sample_request"
    by (simp_all add: findRequest_def sample_pending_def sample_request_def newRequest_def sample_order_def REVIEW_WINDOW_MS_def
        sample_empty_def stillPending_def)
  have its: "mapM (\<lambda>it. andThen (readSelectedOptions (on_quotedOptions it)) (\<lambda>os. Inr (on_quotedUnitPrice it, os))) (or_items sample_request)
      = Inr [(4500, [])]" "mapM itemLine (or_items sample_request) = Inr sample_online_lines"
    by (simp_all add: sample_request_def newRequest_def quotedItems_def sample_plan_def readSelectedOptions_def itemLine_def
        sample_online_lines_def)
  obtain sc where sc: "oe_schedule sample_front = Some sc" "sc_capacity sc = 1" by (simp add: sample_front_def)
  have "acceptedAt 3600000 sample_pending = 0" using r(2,6) by (simp add: acceptedAt_def)
  then show ?thesis by (simp add: accept_def r its x sc sample_linked_def del: One_nat_def)
qed

lemma sample_accepted: "ok (accept sample_front 900 1 10 sample_pending)"
  unfolding sample_accepted_value by (rule ok_simps)

lemma sample_pending_inv: "online_inv sample_front sample_pending"
proof -
  have "online_inv sample_front sample_empty" by (simp add: online_inv_def acceptedAt_def slotCapacity_def sample_front_def sample_empty_def)
  then show ?thesis using submit_inv sample_submitted by blast
qed

theorem online_slots_witness:
  "\<exists>sid d. accept sample_front 900 1 10 sample_pending = Inr (sid, d) \<and> acceptedAt 3600000 d \<le> 1"
proof -
  obtain sid d where a: "accept sample_front 900 1 10 sample_pending = Inr (sid, d)"
    using sample_accepted by (auto simp: ok_ex)
  obtain b where b: "createOnlineRequest sample_front True sample_order None ''nonce'' 0 sample_empty sample_empty = Inr (b, sample_pending)"
    using sample_submitted by blast
  have "online_step (\<lambda>_. ()) sample_front sample_empty sample_pending" by (rule submit [OF b])
  moreover have "online_step (\<lambda>_. ()) sample_front sample_pending d" by (rule accept_order [OF a])
  ultimately have run: "(online_step (\<lambda>_. ()) sample_front)\<^sup>*\<^sup>* sample_empty d"
    by (meson converse_rtranclp_into_rtranclp rtranclp.rtrancl_refl)
  have "slotCapacity sample_front = 1" "onlineRequests sample_empty = []"
    by (simp_all add: slotCapacity_def sample_front_def sample_empty_def)
  then show ?thesis using online_slots [OF _ _ run] a by auto
qed

theorem accepted_total_is_quote_witness:
  "\<exists>sid d. accept sample_front 900 1 10 sample_pending = Inr (sid, d) \<and>
     (\<Sum>oi\<leftarrow>sessionItems (od_shop d) sid. o_price oi * o_quantity oi) = 13500"
proof -
  obtain sid d where a: "accept sample_front 900 1 10 sample_pending = Inr (sid, d)"
    using sample_accepted by (auto simp: ok_ex)
  have "lines_fresh (od_shop sample_pending)" using sample_shop_ok(3) by (simp add: sample_pending_def sample_empty_def)
  from accepted_total_is_quote [OF a sample_pending_inv this] obtain r where "findRequest 900 sample_pending = Some r"
    "(\<Sum>oi\<leftarrow>sessionItems (od_shop d) sid. o_price oi * o_quantity oi) = or_quotedSubtotal r" by blast
  moreover have "findRequest 900 sample_pending = Some sample_request" "or_quotedSubtotal sample_request = 13500"
    by (simp_all add: findRequest_def sample_pending_def sample_request_def newRequest_def basketSubtotal_def sample_plan_def
        sample_online_lines_def)
  ultimately show ?thesis using a by auto
qed

section \<open>A collection\<close>

definition sample_counter :: db where
  "sample_counter = empty_db\<lparr>
     employees := [\<lparr>e_id = 1, e_fullName = ''An'', e_isActive = True, e_deletedAt = None\<rparr>],
     orderSessions := [\<lparr>s_id = 700, s_status = Session_ACTIVE, s_tableId = None, s_employeeId = 1, s_shiftId = None,
       s_guestCount = None, s_online = Some 900\<rparr>],
     orderItems := [\<lparr>o_id = 701, o_sessionId = 700, o_menuItemId = 20, o_quantity = 3, o_price = 4500, o_note = None, o_options = [],
        o_recipeAt = Some 0, o_status = Serve_READY, o_isPaid = False, o_invoiceId = None, o_readyAt = Some 15\<rparr>],
     funds := [\<lparr>f_id = 10, f_name = ''Drawer'', f_type = Fund_CASH, f_balance = 50000, f_deletedAt = None\<rparr>],
     cashierShifts := [\<lparr>c_id = 11, c_status = Shift_OPEN, c_employeeId = 1, c_fundId = Some 10, c_startingCash = 50000,
       c_expectedStartingCash = 50000, c_openingDifference = 0, c_reportedEndingCash = None, c_actualEndingCash = None,
       c_closingNote = None, c_closedAt = None\<rparr>]\<rparr>"

definition sample_ready :: onlineDb where
  "sample_ready = sample_empty\<lparr>od_nextId := 901, od_shop := sample_counter,
     onlineRequests := [sample_request\<lparr>or_status := Online_ACCEPTED, or_reviewedAt := Some 10, or_reviewedById := Some 1,
       or_orderSessionId := Some 700\<rparr>]\<rparr>"

definition sample_paid :: "id \<times> db" where
  "sample_paid = value_of (checkoutOnlinePickup (\<lambda>_. ()) ''INV'' 1 700 20000 20 sample_counter)"

lemmas checkout_eval = checkoutOnlinePickup_def createInvoiceInTransaction_def activeEmployee_def findSession_def
  assertActiveSession_def requireOpenShift_def findOpenShift_def findFund_def activeCashFund_def agreeInvoice_def getInvoiceItems_def
  assertInvoiceItemsAreBillable_def discountFor_def calculateSubTotal_def calculateInvoice_def taxRateInput_def round_div_def
  resolvePaidAmountTendered_def toDecimal_def moneyInput_def quoteChanged_def assertPaidPaymentAmount_def insertInvoice_def
  newInvoice_def invoiceChecks_def attachItems_def reserveInvoiceStock_def recordCashInvoice_def createCashTx_def incrementFund_def
  closeSessionIfFullyPaid_def invoiceEvents_def enqueueInvoiceEvent_def affectedTableIds_def enqueue_def orElse_def billable_def

lemma sample_paid_ok: "checkoutOnlinePickup (\<lambda>_. ()) ''INV'' 1 700 20000 20 sample_counter = Inr sample_paid"
    "map (\<lambda>oi. (o_id oi, o_sessionId oi, o_status oi, o_isPaid oi, o_invoiceId oi = Some (fst sample_paid))) (orderItems (snd sample_paid)) =
      [(701, 700, Serve_READY, True, True)]"
  by (simp_all add: sample_paid_def checkout_eval stock_eval sample_counter_def empty_db_def)

lemma sample_collected: "ok (collect sample_front (\<lambda>_. ()) ''INV'' 900 (replicate 64 (CHR ''a'')) 1 20000 20 sample_ready)"
proof -
  let ?r = "sample_request\<lparr>or_status := Online_ACCEPTED, or_reviewedAt := Some 10, or_reviewedById := Some 1, or_orderSessionId := Some 700\<rparr>"
  have token: "hexToken (replicate 64 (CHR ''a''))" "oe_access sample_front 900 = replicate 64 (CHR ''a'')"
    by (simp_all add: hexToken_def sample_front_def list_all_iff)
  have r: "findRequest 900 sample_ready = Some ?r" and shop: "od_shop sample_ready = sample_counter"
    by (simp_all add: findRequest_def sample_ready_def sample_request_def newRequest_def)
  have live: "accessLive ?r 20" "or_quotedSubtotal ?r = 13500"
    by (simp_all add: accessLive_def sample_request_def newRequest_def sample_order_def onlineOrderAccessExpiresAt_def
        ONLINE_ORDER_ACCESS_WINDOW_MS_def basketSubtotal_def sample_plan_def sample_online_lines_def)
  have x: "activeTakeaway ?r sample_counter = Some (hd (orderSessions sample_counter))" "s_id (hd (orderSessions sample_counter)) = 700"
    by (simp_all add: activeTakeaway_def findSession_def sample_counter_def)
  have items: "linesOf ?r sample_counter = orderItems sample_counter" by (simp add: linesOf_def sample_counter_def)
  have line: "\<exists>oi. orderItems sample_counter = [oi] \<and> o_id oi = 701 \<and> o_status oi = Serve_READY \<and> \<not> o_isPaid oi \<and> o_invoiceId oi = None \<and>
      o_price oi * o_quantity oi = 13500" by (simp add: sample_counter_def)
  obtain oi where oi: "orderItems (snd sample_paid) = [oi]" "o_id oi = 701" "o_sessionId oi = 700" "o_status oi = Serve_READY" "o_isPaid oi"
    "o_invoiceId oi = Some (fst sample_paid)" using sample_paid_ok(2) by auto
  show ?thesis
    using line by (auto simp: collect_def assertAccess_def token r live shop collectTx_def x items Let_def sample_paid_ok(1) oi
        simp del: One_nat_def)
qed

lemma sample_ready_inv: "online_inv sample_front sample_ready"
proof -
  have e: "onlineRequests sample_ready = [sample_request\<lparr>or_status := Online_ACCEPTED, or_reviewedAt := Some 10, or_reviewedById := Some 1,
      or_orderSessionId := Some 700\<rparr>]" "od_nextId sample_ready = 901" "slotCapacity sample_front = 1" "or_id sample_request = 900"
    by (simp_all add: sample_ready_def slotCapacity_def sample_front_def sample_request_def newRequest_def)
  have "onlineShape sample_request" using sample_pending_inv by (simp add: online_inv_def sample_pending_def)
  then show ?thesis
    by (simp add: online_inv_def e acceptedAt_def) (simp add: onlineShape_def sample_request_def newRequest_def)
qed

theorem collected_is_final_witness:
  "\<exists>c d. collect sample_front (\<lambda>_. ()) ''INV'' 900 (replicate 64 (CHR ''a'')) 1 20000 20 sample_ready = Inr (c, d) \<and>
     \<not> ok (cancelAcceptedRequest sample_front 900 1 ''late'' True 9000000 d)"
proof -
  obtain c d where "collect sample_front (\<lambda>_. ()) ''INV'' 900 (replicate 64 (CHR ''a'')) 1 20000 20 sample_ready = Inr (c, d)"
    using sample_collected by (auto simp: ok_ex)
  from this collected_is_final [OF this sample_ready_inv] show ?thesis by blast
qed

section \<open>A withdrawal\<close>

lemma sample_takeaway_simps:
  "map (\<lambda>x. (s_id x, s_tableId x, s_status x)) (filter (\<lambda>x. s_id x = fst sample_takeaway) (orderSessions (snd sample_takeaway))) =
     [(fst sample_takeaway, None, Session_ACTIVE)]"
  "map untouched (filter (\<lambda>oi. o_sessionId oi = fst sample_takeaway) (orderItems (snd sample_takeaway))) = [True]"
  "list_all (\<lambda>j. j_status j = Print_PENDING) (printJobs (snd sample_takeaway))" "distinct (map j_id (printJobs (snd sample_takeaway)))"
  "distinct (map o_id (orderItems (snd sample_takeaway)))"
  by (simp_all add: sample_takeaway_def order_eval stock_eval addIngredient_def findItem_def sample_online_lines_def sample_latte_def
      untouched_def sample_shop_def sample_floor_simps)

lemma cnt_own:
  "distinct (map key xs) \<Longrightarrow> (\<And>x. x \<in> set xs \<Longrightarrow> Q x \<Longrightarrow> P x) \<Longrightarrow>
     cnt (\<lambda>x. key x \<in> key ` set (filter Q xs) \<and> P x) xs = length (filter Q xs)"
proof -
  assume d: "distinct (map key xs)" and q: "\<And>x. x \<in> set xs \<Longrightarrow> Q x \<Longrightarrow> P x"
  have "key x \<in> key ` set (filter Q xs) \<and> P x \<longleftrightarrow> Q x" if "x \<in> set xs" for x
    using distinct_key_eq [OF d that] q that by auto
  then have "cnt (\<lambda>x. key x \<in> key ` set (filter Q xs) \<and> P x) xs = cnt Q xs" by (rule cnt_cong)
  then show ?thesis by (simp add: cnt_def)
qed

lemma find_of_filter: "filter P xs = x # ys \<Longrightarrow> find P xs = Some x"
  by (induction xs) (auto split: if_split_asm)

lemma release_ok_same:
  assumes "ok (releaseReservations ids a)" and "inventoryItems a = inventoryItems b" "reservations a = reservations b"
  shows "ok (releaseReservations ids b)"
  using assms by (auto simp: releaseReservations_def Let_def ok_ex)

lemma sample_withdrawn:
  "ok (cancelOnlineRequest sample_front 900 (replicate 64 (CHR ''a'')) 20
     (sample_pending\<lparr>od_shop := sample_linked, onlineRequests := [sample_row]\<rparr>))"
proof -
  let ?d = "sample_pending\<lparr>od_shop := sample_linked, onlineRequests := [sample_row]\<rparr>" and ?sid = "fst sample_takeaway"
  let ?t = "snd sample_takeaway"
  have token: "hexToken (replicate 64 (CHR ''a''))" "oe_access sample_front 900 = replicate 64 (CHR ''a'')"
    by (simp_all add: hexToken_def sample_front_def list_all_iff)
  have id: "or_id sample_request = 900" by (simp add: sample_request_def newRequest_def)
  have live: "accessLive sample_row 20"
    by (simp add: accessLive_def sample_request_def newRequest_def sample_order_def onlineOrderAccessExpiresAt_def
        ONLINE_ORDER_ACCESS_WINDOW_MS_def)
  have tabs: "orderSessions sample_linked = upd (\<lambda>x. s_id x = ?sid) (\<lambda>x. x\<lparr>s_online := Some 900\<rparr>) (orderSessions ?t)"
    "orderItems sample_linked = orderItems ?t" "printJobs sample_linked = printJobs ?t"
    "inventoryItems sample_linked = inventoryItems ?t" "reservations sample_linked = reservations ?t"
    by (simp_all add: sample_linked_def enqueueTelegramStatus_def linkSession_def sample_front_def addLog_def)
  obtain x0 where x0: "filter (\<lambda>x. s_id x = ?sid) (orderSessions ?t) = [x0]" "s_id x0 = ?sid" "s_tableId x0 = None" "s_status x0 = Session_ACTIVE"
    using sample_takeaway_simps(1) by (auto simp: map_eq_Cons_conv)
  let ?x = "x0\<lparr>s_online := Some 900\<rparr>"
  have f: "filter (\<lambda>x. s_id x = ?sid) (orderSessions sample_linked) = [?x]"
    unfolding tabs(1) using x0(1,2) by (simp add: upd_def filter_map comp_def cong: filter_cong)
  have act: "activeTakeaway sample_row sample_linked = Some ?x"
  proof -
    have "find (\<lambda>x. s_id x = ?sid) (orderSessions sample_linked) = Some ?x" using f by (rule find_of_filter)
    then show ?thesis using x0 by (simp add: activeTakeaway_def findSession_def)
  qed
  let ?items = "sessionItems ?t ?sid"
  have items: "linesOf sample_row sample_linked = ?items" by (simp add: linesOf_def sessionItems_def tabs)
  have un: "?items \<noteq> []" "list_all untouched ?items" using sample_takeaway_simps(2) by (auto simp: sessionItems_def)
  have jobs: "set (sessionJobs ?sid sample_linked) \<subseteq> set (printJobs ?t)" by (auto simp: sessionJobs_def tabs)
  then have pend: "list_all (\<lambda>j. j_status j = Print_PENDING) (sessionJobs ?sid sample_linked)"
    using sample_takeaway_simps(3) by (auto simp: list_all_iff)
  have nj: "cnt (\<lambda>j. j_id j \<in> j_id ` set (sessionJobs ?sid sample_linked) \<and> j_status j = Print_PENDING) (printJobs ?t) =
      length (sessionJobs ?sid sample_linked)"
    unfolding sessionJobs_def tabs by (rule cnt_own) (use sample_takeaway_simps(3,4) in \<open>auto simp: list_all_iff\<close>)
  have ni: "cnt (\<lambda>oi. o_id oi \<in> o_id ` set ?items \<and> o_sessionId oi = ?sid \<and> untouched oi) (orderItems ?t) = length ?items"
    unfolding sessionItems_def by (rule cnt_own)
      (use sample_takeaway_simps(5) un(2) in \<open>auto simp: list_all_iff sessionItems_def\<close>)
  have open_one: "cnt (\<lambda>x. s_id x = ?sid \<and> s_status x = Session_ACTIVE) (orderSessions sample_linked) = 1"
  proof -
    have "filter (\<lambda>x. s_id x = ?sid \<and> s_status x = Session_ACTIVE) (orderSessions sample_linked) =
        filter (\<lambda>x. s_status x = Session_ACTIVE) (filter (\<lambda>x. s_id x = ?sid) (orderSessions sample_linked))" by simp
    then show ?thesis unfolding cnt_def f using x0(4) by simp
  qed
  have "createOnlineTakeawaySession 1 sample_online_lines [(4500, [])] (Some 3600000) 10 sample_shop = Inr (?sid, ?t)"
    unfolding prod.collapse sample_takeaway_def by (rule ok_value_of [OF sample_session_ok])
  moreover have "list_all (\<lambda>oi. o_status oi = Serve_PENDING) ?items" using un(2) by (simp add: list_all_iff untouched_def)
  ultimately have rel: "ok (releaseReservations (map o_id ?items) ?t)"
    using online_release sample_shop_ok by (fastforce simp: ok_ex)
  have one: "cnt (acceptedFor 900 ?sid) [sample_row] = 1" by (simp add: acceptedFor_def id)
  have find: "findRequest 900 ?d = Some sample_row" by (simp add: findRequest_def id)
  define S1 where "S1 = sample_linked\<lparr>printJobs := upd (\<lambda>j. j_id j \<in> j_id ` set (sessionJobs ?sid sample_linked) \<and> j_status j = Print_PENDING)
      (\<lambda>j. j\<lparr>j_status := Print_CANCELLED\<rparr>) (printJobs sample_linked)\<rparr>"
  define S2 where "S2 = S1\<lparr>orderItems := upd (\<lambda>oi. o_id oi \<in> o_id ` set ?items \<and> o_sessionId oi = ?sid \<and> untouched oi)
      (\<lambda>oi. oi\<lparr>o_status := Serve_CANCELLED\<rparr>) (orderItems S1)\<rparr>"
  have s1: "orderItems S1 = orderItems ?t" by (simp add: S1_def tabs)
  have opened: "sessionOpen ?sid S2" using open_one by (simp add: sessionOpen_def S2_def S1_def)
  have "ok (releaseReservations (map o_id ?items) (closeSession ?sid S2))"
    by (rule release_ok_same [OF rel]) (simp_all add: closeSession_def S2_def S1_def tabs)
  then obtain s3 where s3: "releaseReservations (map o_id ?items) (closeSession ?sid S2) = Inr s3" by (auto simp: ok_ex)
  have shop: "od_shop ?d = sample_linked" "onlineRequests ?d = [sample_row]" by simp_all
  have st: "or_status sample_row \<noteq> Online_CANCELLED" by simp
  have sid: "s_id ?x = ?sid" using x0(2) by simp
  have "ok (withdrawTx sample_front 900 20 ?d)"
    unfolding withdrawTx_def find fetch_simps if_not_P [OF st] shop act Let_def sid items S1_def [symmetric] S2_def [symmetric]
    using live un pend nj ni s1 opened one s3 by (simp add: tabs)
  then show ?thesis
    by (simp add: cancelOnlineRequest_def assertAccess_def token find id del: One_nat_def)
qed

theorem withdrawal_undoes_acceptance_witness:
  "\<exists>sid d1 d2. accept sample_front 900 1 10 sample_pending = Inr (sid, d1) \<and>
     cancelOnlineRequest sample_front 900 (replicate 64 (CHR ''a'')) 20 d1 = Inr d2 \<and>
     inventoryItems (od_shop d2) = inventoryItems (od_shop sample_pending)"
proof -
  obtain d2 where w: "cancelOnlineRequest sample_front 900 (replicate 64 (CHR ''a'')) 20
      (sample_pending\<lparr>od_shop := sample_linked, onlineRequests := [sample_row]\<rparr>) = Inr d2"
    using sample_withdrawn by (auto simp: ok_ex)
  have "od_shop sample_pending = sample_shop" by (simp add: sample_pending_def sample_empty_def)
  then show ?thesis
    using withdrawal_undoes_acceptance [OF sample_accepted_value w sample_pending_inv] sample_shop_ok sample_accepted_value w by auto
qed

end
