(* ===== verification/Print_Queue.thy ===== *)
theory Print_Queue
  imports Invoices
begin

text \<open>
  The print queue (\<open>printing.service.ts\<close>): printers with their keys, and jobs that an agent claims under a
  lease, prints and acknowledges. The rows here have all the columns of \<open>PrintJob\<close> and \<open>PrintDevice\<close>; the kitchen
  work of an order is in \<open>Kitchen\<close>. A job locked by another transaction is skipped: \<open>busy\<close> lists those. One
  reading of the clock per operation.
\<close>

section \<open>Rows\<close>

datatype PrintDeviceType = Device_RECEIPT | Device_KITCHEN
datatype PrintDeviceStatus = Device_READY | Device_ERROR | Device_PAUSED

record documentLine =
  rx_orderItemId :: id
  rx_quantity :: int
  rx_unitPrice :: money
  rx_lineTotal :: money
  rx_options :: "selectedOption list"

record receiptDocument =
  rc_isReprint :: bool
  rc_invoiceId :: id
  rc_number :: string
  rc_createdAt :: time
  rc_method :: PaymentMethod
  rc_status :: PaymentStatus
  rc_amounts :: "money \<times> money \<times> money \<times> money"
  rc_tendered :: "money option"
  rc_change :: "money option"
  rc_items :: "documentLine list"

record precheckDocument =
  pk_sessionId :: id
  pk_promotionId :: "id option"
  pk_amounts :: "money \<times> money \<times> money \<times> int \<times> money"
  pk_items :: "documentLine list"

datatype printPayload =
    Kitchen_order "printLine list"
  | Kitchen_cancellation "printLine list"
  | Receipt_payload receiptDocument
  | Precheck_payload precheckDocument
  | Malformed_payload

datatype queueKey = Kitchen_key dedupKey | Auto_receipt id | Reprint_key id id string | Precheck_key id string

record queueJob =
  pj_id :: id
  pj_type :: PrintJobType
  pj_status :: PrintJobStatus
  pj_payload :: printPayload
  pj_copies :: int
  pj_attempts :: int
  pj_maxAttempts :: int
  pj_availableAt :: time
  pj_lockedAt :: "time option"
  pj_leaseExpiresAt :: "time option"
  pj_leaseTokenHash :: "string option"
  pj_printedAt :: "time option"
  pj_failedAt :: "time option"
  pj_lastError :: "string option"
  pj_dedup :: "queueKey option"
  pj_createdAt :: time
  pj_updatedAt :: time
  pj_deviceId :: "id option"
  pj_requestedById :: "id option"
  pj_invoiceId :: "id option"
  pj_sessionId :: "id option"
  pj_ticketId :: "id option"
  pj_reprintOfId :: "id option"

record printerRow =
  pv_id :: id
  pv_name :: string
  pv_type :: PrintDeviceType
  pv_paperSize :: string
  pv_isActive :: bool
  pv_isDefault :: bool
  pv_apiKeyHash :: string
  pv_status :: PrintDeviceStatus
  pv_lastSeenAt :: "time option"
  pv_lastError :: "string option"
  pv_deletedAt :: "time option"

text \<open>\<open>pq_documents\<close> holds the lines of the invoices whose document was stored at the sale.\<close>

record queueDb =
  pq_nextId :: nat
  pq_printers :: "printerRow list"
  pq_jobs :: "queueJob list"
  pq_documents :: "(id \<times> documentLine list) list"
  pq_shop :: db

text \<open>SHA-256 in hexadecimal, and the database's \<open>upper\<close>.\<close>

record printEnv =
  pe_hash :: "string \<Rightarrow> string"
  pe_upper :: "string \<Rightarrow> string"

definition PRINT_JOB_LEASE_MS :: int where "PRINT_JOB_LEASE_MS = 60000"

definition PRINT_DEVICE_ONLINE_MS :: int where "PRINT_DEVICE_ONLINE_MS = 90000"

section \<open>The checks of the tables\<close>

definition valuesCheck :: "queueJob \<Rightarrow> bool" where
  "valuesCheck j \<longleftrightarrow> 1 \<le> pj_copies j \<and> pj_copies j \<le> 10 \<and> 0 \<le> pj_attempts j \<and> pj_attempts j \<le> pj_maxAttempts j \<and>
     1 \<le> pj_maxAttempts j \<and> pj_maxAttempts j \<le> 20"

definition sourceCheck :: "queueJob \<Rightarrow> bool" where
  "sourceCheck j \<longleftrightarrow> length (filter (\<lambda>x. x \<noteq> None) [pj_invoiceId j, pj_ticketId j, pj_sessionId j]) = 1 \<and>
     (case pj_type j of Job_RECEIPT \<Rightarrow> pj_invoiceId j \<noteq> None | Job_KITCHEN_TICKET \<Rightarrow> pj_ticketId j \<noteq> None
        | Job_PRECHECK \<Rightarrow> pj_sessionId j \<noteq> None)"

definition stateCheck :: "queueJob \<Rightarrow> bool" where
  "stateCheck j \<longleftrightarrow>
     (case pj_status j of
        Print_PENDING \<Rightarrow> pj_lockedAt j = None \<and> pj_leaseExpiresAt j = None \<and> pj_leaseTokenHash j = None \<and> pj_printedAt j = None \<and> pj_failedAt j = None
      | Print_PROCESSING \<Rightarrow> pj_deviceId j \<noteq> None \<and> pj_lockedAt j \<noteq> None \<and> pj_leaseExpiresAt j \<noteq> None \<and> pj_leaseTokenHash j \<noteq> None \<and>
          pj_printedAt j = None \<and> pj_failedAt j = None
      | Print_REQUIRES_REVIEW \<Rightarrow> pj_lockedAt j = None \<and> pj_leaseExpiresAt j = None \<and> pj_printedAt j = None \<and> pj_failedAt j = None
      | Print_PRINTED \<Rightarrow> pj_deviceId j \<noteq> None \<and> pj_lockedAt j = None \<and> pj_leaseExpiresAt j = None \<and> pj_printedAt j \<noteq> None \<and> pj_failedAt j = None
      | Print_FAILED \<Rightarrow> pj_lockedAt j = None \<and> pj_leaseExpiresAt j = None \<and> pj_leaseTokenHash j = None \<and> pj_printedAt j = None \<and> pj_failedAt j \<noteq> None
      | Print_CANCELLED \<Rightarrow> pj_lockedAt j = None \<and> pj_leaseExpiresAt j = None \<and> pj_leaseTokenHash j = None \<and> pj_printedAt j = None \<and> pj_failedAt j = None)"

definition receiptDefault :: "printerRow \<Rightarrow> bool" where
  "receiptDefault v \<longleftrightarrow> pv_type v = Device_RECEIPT \<and> pv_isActive v \<and> pv_isDefault v \<and> pv_deletedAt v = None"

text \<open>The unique indexes of live names and of keys.\<close>

definition printersUnique :: "printEnv \<Rightarrow> printerRow list \<Rightarrow> bool" where
  "printersUnique env vs \<longleftrightarrow> distinct (map (pe_upper env \<circ> pv_name) (filter (\<lambda>v. pv_deletedAt v = None) vs)) \<and>
     distinct (map pv_apiKeyHash vs)"

section \<open>Helpers\<close>

definition auditPrint :: "id \<Rightarrow> string \<Rightarrow> id \<Rightarrow> queueDb \<Rightarrow> queueDb" where
  "auditPrint emp act subj d = d\<lparr>pq_shop := addLog emp act subj (pq_shop d)\<rparr>"

definition withActiveEmployee :: "id \<Rightarrow> queueDb \<Rightarrow> 'a res \<Rightarrow> 'a res" where
  "withActiveEmployee emp d k = require (activeEmployee emp (pq_shop d)) (Unauthorized ''employee'') k"

definition findJob :: "id \<Rightarrow> queueDb \<Rightarrow> queueJob option" where
  "findJob i d = find (\<lambda>j. pj_id j = i) (pq_jobs d)"

definition findPrinter :: "id \<Rightarrow> queueDb \<Rightarrow> printerRow option" where
  "findPrinter i d = find (\<lambda>v. pv_id v = i \<and> pv_deletedAt v = None) (pq_printers d)"

definition clearDefault :: "PrintDeviceType \<Rightarrow> id option \<Rightarrow> printerRow list \<Rightarrow> printerRow list" where
  "clearDefault ty exceptId = upd (\<lambda>v. pv_type v = ty \<and> pv_isDefault v \<and> pv_deletedAt v = None \<and> exceptId \<noteq> Some (pv_id v))
     (\<lambda>v. v\<lparr>pv_isDefault := False\<rparr>)"

definition assignPendingDefaultJobs :: "id \<Rightarrow> time \<Rightarrow> queueJob list \<Rightarrow> queueJob list" where
  "assignPendingDefaultJobs i now = upd (\<lambda>j. (pj_type j = Job_RECEIPT \<or> pj_type j = Job_PRECHECK) \<and> pj_status j = Print_PENDING \<and> pj_deviceId j = None)
     (\<lambda>j. j\<lparr>pj_deviceId := Some i, pj_updatedAt := now\<rparr>)"

definition expectedDevice :: "PrintJobType \<Rightarrow> PrintDeviceType" where
  "expectedDevice ty = (if ty = Job_KITCHEN_TICKET then Device_KITCHEN else Device_RECEIPT)"

definition assertCompatibleDevice :: "id \<Rightarrow> PrintJobType \<Rightarrow> queueDb \<Rightarrow> 'a res \<Rightarrow> 'a res" where
  "assertCompatibleDevice i ty d k =
     require (\<exists>v\<in>set (pq_printers d). pv_id v = i \<and> pv_type v = expectedDevice ty \<and> pv_isActive v \<and> pv_deletedAt v = None)
       (Conflict ''an active print device is required'') k"

definition resolveReceiptDevice :: "id option \<Rightarrow> queueDb \<Rightarrow> id option res" where
  "resolveReceiptDevice requested d =
     (case requested of
        Some i \<Rightarrow> assertCompatibleDevice i Job_RECEIPT d (Inr (Some i))
      | None \<Rightarrow> Inr (map_option pv_id (find receiptDefault (pq_printers d))))"

definition leaseExpired :: "id list \<Rightarrow> id option \<Rightarrow> time \<Rightarrow> queueJob \<Rightarrow> bool" where
  "leaseExpired busy dev now j \<longleftrightarrow> pj_status j = Print_PROCESSING \<and> (case pj_leaseExpiresAt j of None \<Rightarrow> False | Some t \<Rightarrow> t < now) \<and>
     (dev = None \<or> pj_deviceId j = dev) \<and> pj_id j \<notin> set busy"

text \<open>At most 200 jobs at a time, those whose lease ended first.\<close>

definition recoverExpiredJobs :: "id list \<Rightarrow> id option \<Rightarrow> time \<Rightarrow> queueJob list \<Rightarrow> queueJob list" where
  "recoverExpiredJobs busy dev now js =
     (let ids = map pj_id (take 200 (sort_key (\<lambda>j. the (pj_leaseExpiresAt j)) (sort_key pj_id (filter (leaseExpired busy dev now) js)))) in
      upd (\<lambda>j. pj_id j \<in> set ids \<and> leaseExpired busy dev now j)
        (\<lambda>j. j\<lparr>pj_status := Print_REQUIRES_REVIEW, pj_lockedAt := None, pj_leaseExpiresAt := None,
               pj_lastError := Some ''Print acknowledgement missing.'', pj_updatedAt := now\<rparr>) js)"

definition recoverExpiredLeases :: "id list \<Rightarrow> time \<Rightarrow> queueDb \<Rightarrow> queueDb" where
  "recoverExpiredLeases busy now d = d\<lparr>pq_jobs := recoverExpiredJobs busy None now (pq_jobs d)\<rparr>"

text \<open>The lines of the ticket that are cancelled.\<close>

definition cancelledOn :: "id option \<Rightarrow> db \<Rightarrow> id list" where
  "cancelledOn ticket s =
     map ki_orderItemId (filter (\<lambda>k. Some (ki_ticketId k) = ticket \<and>
       (\<exists>oi\<in>set (orderItems s). o_id oi = ki_orderItemId k \<and> o_status oi = Serve_CANCELLED)) (kitchenTicketItems s))"

definition keptPayload :: "queueJob \<Rightarrow> db \<Rightarrow> printPayload" where
  "keptPayload j s =
     (case pj_payload j of
        Kitchen_order ls \<Rightarrow> if pj_type j = Job_KITCHEN_TICKET
          then Kitchen_order (filter (\<lambda>l. pl_orderItemId l \<notin> set (cancelledOn (pj_ticketId j) s)) ls) else Kitchen_order ls
      | p \<Rightarrow> p)"

definition nothingLeft :: "queueJob \<Rightarrow> db \<Rightarrow> bool" where
  "nothingLeft j s \<longleftrightarrow> pj_type j = Job_KITCHEN_TICKET \<and> keptPayload j s = Kitchen_order []"

definition withOnlineState :: "time \<Rightarrow> printerRow \<Rightarrow> printerRow \<times> bool" where
  "withOnlineState now v =
     (v, pv_isActive v \<and> (case pv_lastSeenAt v of None \<Rightarrow> False | Some t \<Rightarrow> now - PRINT_DEVICE_ONLINE_MS \<le> t))"

section \<open>Printers\<close>

definition newPrinter :: "id \<Rightarrow> string \<Rightarrow> PrintDeviceType \<Rightarrow> string \<Rightarrow> bool \<Rightarrow> string \<Rightarrow> printerRow" where
  "newPrinter i name ty paper def key = \<lparr>pv_id = i, pv_name = name, pv_type = ty, pv_paperSize = paper, pv_isActive = True,
     pv_isDefault = def, pv_apiKeyHash = key, pv_status = Device_READY, pv_lastSeenAt = None, pv_lastError = None, pv_deletedAt = None\<rparr>"

definition createDevice ::
  "printEnv \<Rightarrow> id \<Rightarrow> string \<Rightarrow> PrintDeviceType \<Rightarrow> string \<Rightarrow> bool option \<Rightarrow> string \<Rightarrow> time \<Rightarrow> queueDb \<Rightarrow> (id \<times> queueDb) res"
where
  "createDevice env emp name ty paper isDefault apiKey now d =
     require (\<not> (ty = Device_KITCHEN \<and> isDefault = Some True)) (Conflict ''kitchen printers are assigned to a station'')
     (withActiveEmployee emp d
      (let n = (if ty = Device_RECEIPT then cnt receiptDefault (pq_printers d) else 0);
           def = (ty = Device_RECEIPT \<and> (case isDefault of Some b \<Rightarrow> b | None \<Rightarrow> n = 0));
           vs = (if def then clearDefault ty None (pq_printers d) else pq_printers d) @
             [newPrinter (pq_nextId d) name ty paper def (pe_hash env apiKey)] in
       require (printersUnique env vs) (UniqueViolation ''PrintDevice'')
        (Inr (pq_nextId d, auditPrint emp ''PRINT_DEVICE_CREATED'' (pq_nextId d)
          (d\<lparr>pq_nextId := Suc (pq_nextId d), pq_printers := vs,
            pq_jobs := (if def then assignPendingDefaultJobs (pq_nextId d) now (pq_jobs d) else pq_jobs d)\<rparr>)))))"

definition getDevice :: "id \<Rightarrow> time \<Rightarrow> queueDb \<Rightarrow> (printerRow \<times> bool) res" where
  "getDevice i now d = fetch (findPrinter i d) (NotFound ''print device'') (\<lambda>v. Inr (withOnlineState now v))"

record updatePrintDeviceDto =
  du_name :: "string option"
  du_type :: "PrintDeviceType option"
  du_paperSize :: "string option"
  du_isDefault :: "bool option"
  du_isActive :: "bool option"
  du_status :: "PrintDeviceStatus option"

definition orSame :: "'a option \<Rightarrow> 'a \<Rightarrow> 'a" where
  "orSame x y = (case x of None \<Rightarrow> y | Some a \<Rightarrow> a)"

definition stationsOf :: "id \<Rightarrow> db \<Rightarrow> kitchenStation list" where
  "stationsOf i s = filter (\<lambda>ks. ks_printDeviceId ks = Some i) (kitchenStations s)"

definition releasePending :: "id \<Rightarrow> time \<Rightarrow> queueJob list \<Rightarrow> queueJob list" where
  "releasePending i now = upd (\<lambda>j. pj_deviceId j = Some i \<and> pj_status j = Print_PENDING) (\<lambda>j. j\<lparr>pj_deviceId := None, pj_updatedAt := now\<rparr>)"

definition updateDevice :: "printEnv \<Rightarrow> id list \<Rightarrow> id \<Rightarrow> id \<Rightarrow> updatePrintDeviceDto \<Rightarrow> time \<Rightarrow> queueDb \<Rightarrow> queueDb res" where
  "updateDevice env busy i emp dto now d =
     withActiveEmployee emp d
     (fetch (findPrinter i d) (NotFound ''print device'') (\<lambda>v.
      let ty = orSame (du_type dto) (pv_type v) in
      require (\<not> (ty = Device_KITCHEN \<and> du_isDefault dto = Some True)) (Conflict ''kitchen printers are assigned to a station'')
      (require (\<not> (ty \<noteq> Device_KITCHEN \<and> stationsOf i (pq_shop d) \<noteq> [])) (Conflict ''must remain a kitchen printer'')
      (require (\<not> (ty \<noteq> pv_type v \<and> (\<exists>j\<in>set (pq_jobs d). pj_deviceId j = Some i))) (Conflict ''type cannot change'')
      (let active = orSame (du_isActive dto) (pv_isActive v);
           def = (active \<and> ty = Device_RECEIPT \<and> orSame (du_isDefault dto) (ty = pv_type v \<and> pv_isDefault v));
           js = (if du_isActive dto = Some False then recoverExpiredJobs busy (Some i) now (pq_jobs d) else pq_jobs d) in
       require (du_isActive dto = Some False \<longrightarrow> (\<forall>j\<in>set js. \<not> (pj_deviceId j = Some i \<and> pj_status j = Print_PROCESSING)))
         (Conflict ''wait for active print leases'')
       (let vs = upd (\<lambda>x. pv_id x = i) (\<lambda>x. x\<lparr>pv_name := orSame (du_name dto) (pv_name x), pv_type := ty,
               pv_paperSize := orSame (du_paperSize dto) (pv_paperSize x), pv_isActive := active, pv_isDefault := def,
               pv_status := orSame (du_status dto) (case du_isActive dto of Some False \<Rightarrow> Device_PAUSED | Some True \<Rightarrow> Device_READY
                 | None \<Rightarrow> pv_status x)\<rparr>)
             (if def then clearDefault ty (Some i) (pq_printers d) else pq_printers d) in
        require (printersUnique env vs) (UniqueViolation ''PrintDevice'')
         (Inr (auditPrint emp ''PRINT_DEVICE_UPDATED'' i (d\<lparr>pq_printers := vs,
            pq_jobs := (if du_isActive dto = Some False then releasePending i now js
              else if def then assignPendingDefaultJobs i now js else js)\<rparr>)))))))))"

definition deleteDevice :: "id list \<Rightarrow> id \<Rightarrow> id \<Rightarrow> time \<Rightarrow> queueDb \<Rightarrow> queueDb res" where
  "deleteDevice busy i emp now d =
     withActiveEmployee emp d
     (fetch (findPrinter i d) (NotFound ''print device'') (\<lambda>v.
      let js = recoverExpiredJobs busy (Some i) now (pq_jobs d) in
      require (\<forall>j\<in>set js. \<not> (pj_deviceId j = Some i \<and> pj_status j = Print_PROCESSING)) (Conflict ''leased jobs'')
       (Inr (auditPrint emp ''PRINT_DEVICE_DELETED'' i (d\<lparr>
          pq_shop := (pq_shop d)\<lparr>kitchenStations := upd (\<lambda>ks. ks_printDeviceId ks = Some i) (\<lambda>ks. ks\<lparr>ks_printDeviceId := None\<rparr>)
            (kitchenStations (pq_shop d))\<rparr>,
          pq_jobs := releasePending i now js,
          pq_printers := upd (\<lambda>x. pv_id x = i) (\<lambda>x. x\<lparr>pv_deletedAt := Some now, pv_isActive := False, pv_isDefault := False,
            pv_status := Device_PAUSED\<rparr>) (pq_printers d)\<rparr>)))))"

definition rotateDeviceKey :: "printEnv \<Rightarrow> id \<Rightarrow> id \<Rightarrow> string \<Rightarrow> queueDb \<Rightarrow> queueDb res" where
  "rotateDeviceKey env i emp apiKey d =
     withActiveEmployee emp d
     (let g = (\<lambda>v. pv_id v = i \<and> pv_deletedAt v = None);
          vs = upd g (\<lambda>v. v\<lparr>pv_apiKeyHash := pe_hash env apiKey\<rparr>) (pq_printers d) in
      require (printersUnique env vs) (UniqueViolation ''PrintDevice'')
      (require (cnt g (pq_printers d) = 1) (NotFound ''print device'')
        (Inr (auditPrint emp ''PRINT_DEVICE_KEY_ROTATED'' i (d\<lparr>pq_printers := vs\<rparr>)))))"

text \<open>The guard of the agent's routes.\<close>

definition canActivate :: "printEnv \<Rightarrow> id option \<Rightarrow> string option \<Rightarrow> queueDb \<Rightarrow> printerRow res" where
  "canActivate env deviceId apiKey d =
     fetch deviceId (Unauthorized ''credentials are required'') (\<lambda>i.
     fetch (if apiKey = Some [] then None else apiKey) (Unauthorized ''credentials are required'') (\<lambda>k.
     fetch (find (\<lambda>v. pv_id v = i \<and> pv_isActive v \<and> pv_deletedAt v = None) (pq_printers d)) (Unauthorized ''invalid credentials'') (\<lambda>v.
     require (pe_hash env k = pv_apiKeyHash v) (Unauthorized ''invalid credentials'') (Inr v))))"

end
