(* ===== verification/Print_Jobs.thy ===== *)
theory Print_Jobs
  imports Print_Queue
begin

text \<open>
  The jobs of the print queue: the documents of receipts and pre-checks, the requests that create jobs, retrying
  and reconciling them, and the agent's protocol of claiming under a lease and reporting the outcome.
\<close>

section \<open>Documents\<close>

definition lineOf :: "orderItem \<Rightarrow> documentLine res" where
  "lineOf oi = andThen (readSelectedOptions (o_options oi)) (\<lambda>os.
     Inr \<lparr>rx_orderItemId = o_id oi, rx_quantity = o_quantity oi, rx_unitPrice = o_price oi,
       rx_lineTotal = o_price oi * o_quantity oi, rx_options = os\<rparr>)"

text \<open>The lines come from the document stored with the invoice, or from its order items.\<close>

definition receiptPayload :: "invoice \<Rightarrow> queueDb \<Rightarrow> receiptDocument res" where
  "receiptPayload v d =
     andThen (case map_of (pq_documents d) (v_id v) of
         Some ls \<Rightarrow> Inr (map (\<lambda>l. l\<lparr>rx_lineTotal := rx_unitPrice l * rx_quantity l\<rparr>) ls)
       | None \<Rightarrow> mapM lineOf (invoiceItems (pq_shop d) (v_id v))) (\<lambda>ls.
     Inr \<lparr>rc_isReprint = False, rc_invoiceId = v_id v, rc_number = v_number v, rc_createdAt = v_createdAt v, rc_method = v_method v,
       rc_status = v_status v, rc_amounts = (v_subTotal v, v_discount v, v_tax v, v_total v), rc_tendered = v_tendered v,
       rc_change = v_change v, rc_items = ls\<rparr>)"

definition printableInvoice :: "id \<Rightarrow> queueDb \<Rightarrow> invoice option" where
  "printableInvoice i d = find (\<lambda>v. v_id v = i \<and> v_status v \<in> {Pay_PAID, Pay_PARTIALLY_REFUNDED, Pay_REFUNDED}) (invoices (pq_shop d))"

definition findPrintableInvoice :: "id \<Rightarrow> queueDb \<Rightarrow> invoice res" where
  "findPrintableInvoice i d = fetch (printableInvoice i d) (Conflict ''only paid invoices can be printed'') Inr"

definition newJob :: "PrintJobType \<Rightarrow> printPayload \<Rightarrow> id option \<Rightarrow> queueKey \<Rightarrow> time \<Rightarrow> id \<Rightarrow> queueJob" where
  "newJob ty p dev key now n = \<lparr>pj_id = n, pj_type = ty, pj_status = Print_PENDING, pj_payload = p, pj_copies = 1, pj_attempts = 0,
     pj_maxAttempts = 5, pj_availableAt = now, pj_lockedAt = None, pj_leaseExpiresAt = None, pj_leaseTokenHash = None,
     pj_printedAt = None, pj_failedAt = None, pj_lastError = None, pj_dedup = Some key, pj_createdAt = now, pj_updatedAt = now,
     pj_deviceId = dev, pj_requestedById = None, pj_invoiceId = None, pj_sessionId = None, pj_ticketId = None, pj_reprintOfId = None\<rparr>"

text \<open>A key is used once.\<close>

definition insertJob :: "queueJob \<Rightarrow> queueDb \<Rightarrow> (id \<times> queueDb) res" where
  "insertJob j d =
     require (\<forall>x\<in>set (pq_jobs d). pj_dedup x = None \<or> pj_dedup x \<noteq> pj_dedup j) (UniqueViolation ''deduplicationKey'')
       (Inr (pq_nextId d, d\<lparr>pq_nextId := Suc (pq_nextId d), pq_jobs := pq_jobs d @ [j\<lparr>pj_id := pq_nextId d\<rparr>]\<rparr>))"

definition createPrecheck ::
  "(quotedData \<Rightarrow> 'h) \<Rightarrow> id \<Rightarrow> 'h createInvoiceInput \<Rightarrow> int \<Rightarrow> id option \<Rightarrow> string \<Rightarrow> time \<Rightarrow> queueDb \<Rightarrow> (id \<times> queueDb) res"
where
  "createPrecheck hash emp i copies device key now d =
     andThen (quoteInvoice hash emp i now (pq_shop d)) (\<lambda>(ids, c, fp).
     andThen (mapM lineOf (filter (\<lambda>oi. o_sessionId oi = ci_sessionId i \<and> o_id oi \<in> set ids) (orderItems (pq_shop d)))) (\<lambda>ls.
     andThen (resolveReceiptDevice device d) (\<lambda>dev.
     andThen (insertJob (newJob Job_PRECHECK (Precheck_payload \<lparr>pk_sessionId = ci_sessionId i, pk_promotionId = ci_promotionId i,
         pk_amounts = (q_subTotal c, q_discount c, q_tax c, q_taxRate c, q_total c), pk_items = ls\<rparr>) dev (Precheck_key emp key) now 0
         \<lparr>pj_copies := copies, pj_sessionId := Some (ci_sessionId i), pj_requestedById := Some emp\<rparr>) d) (\<lambda>nd.
     Inr (fst nd, auditPrint emp ''PRECHECK_PRINT_REQUESTED'' (fst nd) (snd nd))))))"

definition isReceiptOf :: "id \<Rightarrow> queueJob \<Rightarrow> bool" where
  "isReceiptOf v j \<longleftrightarrow> pj_invoiceId j = Some v \<and> pj_type j = Job_RECEIPT"

definition originalReceipt :: "id \<Rightarrow> queueDb \<Rightarrow> queueJob option" where
  "originalReceipt v d =
     (case sort_key pj_createdAt (sort_key pj_id (filter (\<lambda>j. isReceiptOf v j \<and> pj_reprintOfId j = None) (pq_jobs d))) of
        [] \<Rightarrow> None | j # js \<Rightarrow> Some j)"

definition asReprint :: "printPayload \<Rightarrow> printPayload" where
  "asReprint p = (case p of Receipt_payload r \<Rightarrow> Receipt_payload (r\<lparr>rc_isReprint := True\<rparr>) | q \<Rightarrow> q)"

definition reprintReceipt :: "id \<Rightarrow> id \<Rightarrow> int \<Rightarrow> id option \<Rightarrow> string \<Rightarrow> time \<Rightarrow> queueDb \<Rightarrow> (id \<times> queueDb) res" where
  "reprintReceipt v emp copies device key now d =
     require (activeEmployee emp (pq_shop d)) (Unauthorized ''employee'')
     (andThen (findPrintableInvoice v d) (\<lambda>inv.
      require (\<forall>j\<in>set (pq_jobs d). \<not> (isReceiptOf v j \<and> pj_status j = Print_REQUIRES_REVIEW)) (Conflict ''PRINT_JOB_REQUIRES_REVIEW'')
      (andThen (resolveReceiptDevice device d) (\<lambda>dev.
       let orig = originalReceipt v d in
       andThen (if orig = None \<or> map_option pj_payload orig = Some Malformed_payload
           then andThen (receiptPayload inv d) (\<lambda>r. Inr (Receipt_payload r)) else Inr (pj_payload (the orig))) (\<lambda>p.
       andThen (insertJob (newJob Job_RECEIPT (asReprint p) dev (Reprint_key v emp key) now 0
           \<lparr>pj_copies := copies, pj_invoiceId := Some v, pj_requestedById := Some emp, pj_reprintOfId := map_option pj_id orig\<rparr>) d) (\<lambda>nd.
       Inr (fst nd, auditPrint emp ''RECEIPT_REPRINT_REQUESTED'' v (snd nd))))))))"

text \<open>The receipt of a payment event: made once per invoice, the event may come again.\<close>

definition createAutomaticReceipt :: "id \<Rightarrow> time \<Rightarrow> queueDb \<Rightarrow> (id option \<times> queueDb) res" where
  "createAutomaticReceipt v now d =
     (case find (\<lambda>j. pj_dedup j = Some (Auto_receipt v)) (pq_jobs d) of
        Some j \<Rightarrow> Inr (Some (pj_id j), d)
      | None \<Rightarrow> (case printableInvoice v d of
          None \<Rightarrow> Inr (None, d)
        | Some w \<Rightarrow> andThen (resolveReceiptDevice None d) (\<lambda>dev.
            andThen (receiptPayload w d) (\<lambda>r.
            andThen (insertJob (newJob Job_RECEIPT (Receipt_payload r) dev (Auto_receipt v) now 0\<lparr>pj_invoiceId := Some v\<rparr>) d) (\<lambda>nd.
            Inr (Some (fst nd), snd nd))))))"

definition cancelPendingReceiptJobs :: "id \<Rightarrow> time \<Rightarrow> queueDb \<Rightarrow> queueDb" where
  "cancelPendingReceiptJobs v now d =
     d\<lparr>pq_jobs := upd (\<lambda>j. isReceiptOf v j \<and> pj_status j = Print_PENDING) (\<lambda>j. j\<lparr>pj_status := Print_CANCELLED, pj_updatedAt := now\<rparr>) (pq_jobs d)\<rparr>"

definition getJobs ::
  "PrintJobType option \<Rightarrow> PrintJobStatus option \<Rightarrow> id option \<Rightarrow> id option \<Rightarrow> id option \<Rightarrow> nat \<Rightarrow> nat \<Rightarrow> queueDb \<Rightarrow> nat \<times> queueJob list"
where
  "getJobs ty st dev v sid page itemPerPage d =
     (let rows = filter (\<lambda>j. (ty = None \<or> Some (pj_type j) = ty) \<and> (st = None \<or> Some (pj_status j) = st) \<and> (dev = None \<or> pj_deviceId j = dev) \<and>
        (v = None \<or> pj_invoiceId j = v) \<and> (sid = None \<or> pj_sessionId j = sid)) (pq_jobs d) in
      (length rows, pageOf page itemPerPage (rev (sort_key pj_createdAt (sort_key pj_id rows)))))"

definition getJob :: "id \<Rightarrow> queueDb \<Rightarrow> queueJob res" where
  "getJob i d = fetch (findJob i d) (NotFound ''print job'') Inr"

definition getAgentJob :: "id \<Rightarrow> id \<Rightarrow> queueDb \<Rightarrow> queueJob res" where
  "getAgentJob dev i d = fetch (find (\<lambda>j. pj_id j = i \<and> pj_deviceId j = Some dev) (pq_jobs d)) (NotFound ''print job'') Inr"

section \<open>Retrying and reconciling\<close>

definition ticketAvailableAt :: "queueJob \<Rightarrow> db \<Rightarrow> time" where
  "ticketAvailableAt j s =
     (case find (\<lambda>t. Some (kt_id t) = pj_ticketId j) (kitchenTickets s) of None \<Rightarrow> 0
      | Some t \<Rightarrow> (case kt_availableAt t of None \<Rightarrow> 0 | Some x \<Rightarrow> x))"

definition retryJob :: "id \<Rightarrow> id \<Rightarrow> id option option \<Rightarrow> time \<Rightarrow> queueDb \<Rightarrow> queueDb res" where
  "retryJob i emp device now d =
     withActiveEmployee emp d
     (fetch (findJob i d) (NotFound ''print job'') (\<lambda>j.
      require (pj_status j \<noteq> Print_REQUIRES_REVIEW) (Conflict ''PRINT_JOB_REQUIRES_REVIEW'')
      (require (pj_status j = Print_PENDING \<or> pj_status j = Print_FAILED) (Conflict ''only pending or failed jobs'')
      (let dev = orSame device (pj_deviceId j); g = (\<lambda>x. pj_id x = i \<and> pj_status x = pj_status j) in
       (case dev of None \<Rightarrow> (\<lambda>k. k) | Some x \<Rightarrow> assertCompatibleDevice x (pj_type j) d)
       (require (\<not> nothingLeft j (pq_shop d)) (Conflict ''cancelled kitchen items'')
       (require (cnt g (pq_jobs d) = 1) (Conflict ''print job state changed'')
        (Inr (auditPrint emp ''PRINT_JOB_RETRIED'' i (d\<lparr>pq_jobs := upd g (\<lambda>x. x\<lparr>pj_status := Print_PENDING, pj_deviceId := dev,
           pj_attempts := 0, pj_availableAt := max now (ticketAvailableAt j (pq_shop d)), pj_failedAt := None, pj_lastError := None,
           pj_payload := keptPayload j (pq_shop d), pj_updatedAt := now\<rparr>) (pq_jobs d)\<rparr>)))))))))"

text \<open>What the operator found at the printer.\<close>

definition resolveJob :: "id \<Rightarrow> id \<Rightarrow> bool \<Rightarrow> time \<Rightarrow> time \<Rightarrow> queueDb \<Rightarrow> queueDb res" where
  "resolveJob i emp printed expectedUpdatedAt now d =
     withActiveEmployee emp d
     (fetch (findJob i d) (NotFound ''print job'') (\<lambda>j.
      require (pj_status j = Print_REQUIRES_REVIEW \<and> pj_updatedAt j = expectedUpdatedAt) (Conflict ''print job state changed'')
      (require (\<not> (printed \<and> pj_deviceId j = None)) (Conflict ''without an assigned device'')
      (let g = (\<lambda>x. pj_id x = i \<and> pj_status x = Print_REQUIRES_REVIEW \<and> pj_updatedAt x = pj_updatedAt j) in
       require (cnt g (pq_jobs d) = 1) (Conflict ''print job state changed'')
        (Inr (auditPrint emp ''PRINT_JOB_RESOLVED'' i (d\<lparr>pq_jobs := upd g (\<lambda>x. x\<lparr>pj_status := (if printed then Print_PRINTED else Print_FAILED),
           pj_printedAt := (if printed then Some now else None), pj_failedAt := (if printed then None else Some now),
           pj_leaseTokenHash := None, pj_lastError := (if printed then None else Some ''Operator confirmed no paper was printed.''),
           pj_updatedAt := now\<rparr>) (pq_jobs d)\<rparr>)))))))"

section \<open>The agent\<close>

definition heardFrom :: "id \<Rightarrow> PrintDeviceStatus \<Rightarrow> string option \<Rightarrow> time \<Rightarrow> printerRow list \<Rightarrow> printerRow list" where
  "heardFrom i st err now vs =
     (let live = (\<lambda>v. pv_id v = i \<and> pv_isActive v \<and> pv_deletedAt v = None); g = (\<lambda>v. live v \<and> pv_status v \<noteq> Device_PAUSED) in
      if cnt g vs = 0 then upd live (\<lambda>v. v\<lparr>pv_lastSeenAt := Some now\<rparr>) vs
      else upd g (\<lambda>v. v\<lparr>pv_status := st, pv_lastSeenAt := Some now, pv_lastError := (if st = Device_ERROR then err else None)\<rparr>) vs)"

definition heartbeat :: "id \<Rightarrow> PrintDeviceStatus \<Rightarrow> string option \<Rightarrow> time \<Rightarrow> queueDb \<Rightarrow> ((printerRow \<times> bool) \<times> queueDb) res" where
  "heartbeat i st err now d =
     (let d' = d\<lparr>pq_printers := heardFrom i st err now (pq_printers d)\<rparr> in
      andThen (getDevice i now d') (\<lambda>v. Inr (v, d')))"

definition canClaim :: "id list \<Rightarrow> id \<Rightarrow> time \<Rightarrow> queueJob \<Rightarrow> bool" where
  "canClaim busy dev now j \<longleftrightarrow> pj_deviceId j = Some dev \<and> pj_status j = Print_PENDING \<and> pj_availableAt j \<le> now \<and>
     pj_attempts j < pj_maxAttempts j \<and> pj_id j \<notin> set busy"

definition claimJobs :: "printEnv \<Rightarrow> id list \<Rightarrow> id \<Rightarrow> nat \<Rightarrow> string \<Rightarrow> time \<Rightarrow> queueDb \<Rightarrow> (id list \<times> queueDb) res" where
  "claimJobs env busy dev limit token now d =
     require (cnt (\<lambda>v. pv_id v = dev \<and> pv_isActive v \<and> pv_deletedAt v = None \<and> pv_status v = Device_READY) (pq_printers d) = 1)
       (Conflict ''print device is not ready'')
     (let js = recoverExpiredJobs busy (Some dev) now (pq_jobs d);
          ids = map pj_id (take limit (sort_key pj_createdAt (sort_key pj_id (filter (canClaim busy dev now) js)))) in
      Inr (ids, d\<lparr>pq_jobs := upd (\<lambda>j. pj_id j \<in> set ids \<and> canClaim busy dev now j)
        (\<lambda>j. j\<lparr>pj_status := Print_PROCESSING, pj_attempts := pj_attempts j + 1, pj_lockedAt := Some now,
               pj_leaseExpiresAt := Some (now + PRINT_JOB_LEASE_MS), pj_leaseTokenHash := Some (pe_hash env token), pj_updatedAt := now\<rparr>) js\<rparr>))"

text \<open>An acknowledgement that was lost may be sent again, also after the lease ended.\<close>

definition completeJob :: "printEnv \<Rightarrow> id \<Rightarrow> id \<Rightarrow> string \<Rightarrow> time \<Rightarrow> queueDb \<Rightarrow> queueDb res" where
  "completeJob env dev i token now d =
     (let h = Some (pe_hash env token);
          g = (\<lambda>j. pj_id j = i \<and> pj_deviceId j = Some dev \<and> (pj_status j = Print_PROCESSING \<or> pj_status j = Print_REQUIRES_REVIEW) \<and>
                 pj_leaseTokenHash j = h);
          d' = d\<lparr>pq_jobs := upd g (\<lambda>j. j\<lparr>pj_status := Print_PRINTED, pj_printedAt := Some now, pj_lockedAt := None,
             pj_leaseExpiresAt := None, pj_lastError := None, pj_updatedAt := now\<rparr>) (pq_jobs d)\<rparr> in
      if cnt g (pq_jobs d) = 1 then Inr d'
      else require (\<exists>j\<in>set (pq_jobs d'). pj_id j = i \<and> pj_deviceId j = Some dev \<and> pj_status j = Print_PRINTED \<and> pj_leaseTokenHash j = h)
        (Conflict ''print job lease is stale or invalid'') (Inr d'))"

definition failDelay :: "int \<Rightarrow> int" where
  "failDelay attempts = min 300 (2 ^ nat (attempts - 1)) * 1000"

definition failJob :: "printEnv \<Rightarrow> id \<Rightarrow> id \<Rightarrow> string \<Rightarrow> string \<Rightarrow> bool \<Rightarrow> time \<Rightarrow> queueDb \<Rightarrow> (bool \<times> queueDb) res" where
  "failJob env dev i token err uncertain now d =
     fetch (find (\<lambda>j. pj_id j = i \<and> pj_deviceId j = Some dev \<and> pj_status j = Print_PROCESSING \<and>
         pj_leaseTokenHash j = Some (pe_hash env token) \<and> (case pj_leaseExpiresAt j of None \<Rightarrow> False | Some t \<Rightarrow> now \<le> t)) (pq_jobs d))
       (Conflict ''print job lease is stale or invalid'') (\<lambda>j.
     let exhausted = (pj_maxAttempts j \<le> pj_attempts j);
         cancelled = (\<not> uncertain \<and> nothingLeft j (pq_shop d));
         g = (\<lambda>x. pj_id x = i \<and> pj_status x = Print_PROCESSING \<and> pj_leaseTokenHash x = pj_leaseTokenHash j) in
     require (cnt g (pq_jobs d) = 1) (Conflict ''print job state changed'')
      (Inr (\<not> cancelled \<and> \<not> uncertain \<and> \<not> exhausted, d\<lparr>pq_jobs := upd g (\<lambda>x. x\<lparr>
         pj_status := (if cancelled then Print_CANCELLED else if uncertain then Print_REQUIRES_REVIEW
           else if exhausted then Print_FAILED else Print_PENDING),
         pj_availableAt := now + failDelay (pj_attempts j), pj_lockedAt := None, pj_leaseExpiresAt := None,
         pj_leaseTokenHash := (if uncertain then pj_leaseTokenHash j else None),
         pj_failedAt := (if \<not> cancelled \<and> \<not> uncertain \<and> exhausted then Some now else None), pj_lastError := Some err,
         pj_payload := (if uncertain then pj_payload j else keptPayload j (pq_shop d)), pj_updatedAt := now\<rparr>) (pq_jobs d)\<rparr>)))"

end
