(* ===== verification/Print_System.thy ===== *)
theory Print_System
  imports Print_Jobs
begin

text \<open>
  The steps of the print queue. \<open>np\<close> says of which jobs it may be reported that no paper came out: by the agent
  under its lease, or by an operator reconciling the job. The invariant: every job row satisfies the CHECK
  constraints of its table although no operation tests them, and there is at most one default printer.
\<close>

definition rowOk :: "queueJob \<Rightarrow> bool" where
  "rowOk j \<longleftrightarrow> valuesCheck j \<and> sourceCheck j \<and> stateCheck j"

definition jobs_ok :: "nat \<Rightarrow> queueJob list \<Rightarrow> bool" where
  "jobs_ok n js \<longleftrightarrow> distinct (map pj_id js) \<and> (\<forall>i\<in>pj_id ` set js. i < n) \<and> (\<forall>j\<in>set js. rowOk j)"

text \<open>A job that was handed to a printer and of which nobody said that it came to nothing.\<close>

definition handedOut :: "queueJob \<Rightarrow> bool" where
  "handedOut j \<longleftrightarrow> pj_status j = Print_PROCESSING \<or> pj_status j = Print_REQUIRES_REVIEW \<or> pj_status j = Print_PRINTED"

definition heldIn :: "id \<Rightarrow> int \<Rightarrow> queueJob list \<Rightarrow> bool" where
  "heldIn i a js \<longleftrightarrow> (\<exists>j\<in>set js. pj_id j = i \<and> pj_attempts j = a \<and> handedOut j)"

definition safe :: "(id \<Rightarrow> bool) \<Rightarrow> (queueJob list \<Rightarrow> queueJob list) \<Rightarrow> bool" where
  "safe np F \<longleftrightarrow> (\<forall>n js. jobs_ok n js \<longrightarrow> jobs_ok n (F js)) \<and> (\<forall>i a js. \<not> np i \<longrightarrow> heldIn i a js \<longrightarrow> heldIn i a (F js))"

lemma safe_id [intro]: "safe np (\<lambda>js. js)"
  by (simp add: safe_def)

lemma safe_comp [intro]: "safe np F \<Longrightarrow> safe np G \<Longrightarrow> safe np (\<lambda>js. F (G js))"
  by (simp add: safe_def)

lemma safe_upd:
  assumes "\<And>j. g j \<Longrightarrow> rowOk j \<Longrightarrow> rowOk (f j)" and "\<And>j. pj_id (f j) = pj_id j"
    and "\<And>j. g j \<Longrightarrow> handedOut j \<Longrightarrow> \<not> np (pj_id j) \<Longrightarrow> handedOut (f j) \<and> pj_attempts (f j) = pj_attempts j"
  shows "safe np (upd g f)"
  unfolding safe_def
proof (intro conjI allI impI)
  fix n js assume ok: "jobs_ok n js"
  have ids: "map pj_id (upd g f js) = map pj_id js" by (rule map_key_upd) (simp add: assms(2))
  have "pj_id ` set (upd g f js) = pj_id ` set js" using arg_cong [OF ids, of set] by simp
  then show "jobs_ok n (upd g f js)" using ok assms(1) unfolding jobs_ok_def ids ball_upd by auto
next
  fix i a js assume "\<not> np i" "heldIn i a js"
  then obtain j where j: "j \<in> set js" "pj_id j = i" "pj_attempts j = a" "handedOut j" by (auto simp: heldIn_def)
  then have "(if g j then f j else j) \<in> set (upd g f js)" by (auto simp: set_upd)
  then show "heldIn i a (upd g f js)" unfolding heldIn_def using j assms(2,3) \<open>\<not> np i\<close> by (intro bexI) auto
qed

lemma source_upd [simp]:
  "sourceCheck (j\<lparr>pj_status := x0\<rparr>) = sourceCheck j"
  "sourceCheck (j\<lparr>pj_id := x12\<rparr>) = sourceCheck j"
  "sourceCheck (j\<lparr>pj_payload := x1\<rparr>) = sourceCheck j"
  "sourceCheck (j\<lparr>pj_attempts := x2\<rparr>) = sourceCheck j"
  "sourceCheck (j\<lparr>pj_availableAt := x3\<rparr>) = sourceCheck j"
  "sourceCheck (j\<lparr>pj_lockedAt := x4\<rparr>) = sourceCheck j"
  "sourceCheck (j\<lparr>pj_leaseExpiresAt := x5\<rparr>) = sourceCheck j"
  "sourceCheck (j\<lparr>pj_leaseTokenHash := x6\<rparr>) = sourceCheck j"
  "sourceCheck (j\<lparr>pj_printedAt := x7\<rparr>) = sourceCheck j"
  "sourceCheck (j\<lparr>pj_failedAt := x8\<rparr>) = sourceCheck j"
  "sourceCheck (j\<lparr>pj_lastError := x9\<rparr>) = sourceCheck j"
  "sourceCheck (j\<lparr>pj_updatedAt := x10\<rparr>) = sourceCheck j"
  "sourceCheck (j\<lparr>pj_deviceId := x11\<rparr>) = sourceCheck j"
  by (simp_all add: sourceCheck_def split: PrintJobType.split)

lemmas check_defs = rowOk_def valuesCheck_def stateCheck_def handedOut_def

lemma safe_recover: "safe np (recoverExpiredJobs busy dev now)"
  unfolding recoverExpiredJobs_def Let_def
proof -
  have "safe np (upd (\<lambda>j. pj_id j \<in> S \<and> leaseExpired busy dev now j)
      (\<lambda>j. j\<lparr>pj_status := Print_REQUIRES_REVIEW, pj_lockedAt := None, pj_leaseExpiresAt := None,
         pj_lastError := e, pj_updatedAt := now\<rparr>))" for S e
    by (rule safe_upd) (auto simp: check_defs leaseExpired_def)
  then show "safe np (\<lambda>js. upd (\<lambda>j. pj_id j \<in> set (map pj_id (take 200 (sort_key (\<lambda>j. the (pj_leaseExpiresAt j))
        (sort_key pj_id (filter (leaseExpired busy dev now) js))))) \<and> leaseExpired busy dev now j)
      (\<lambda>j. j\<lparr>pj_status := Print_REQUIRES_REVIEW, pj_lockedAt := None, pj_leaseExpiresAt := None,
         pj_lastError := Some ''Print acknowledgement missing.'', pj_updatedAt := now\<rparr>) js)"
    unfolding safe_def by blast
qed

lemma safe_assign: "safe np (assignPendingDefaultJobs i now)"
  unfolding assignPendingDefaultJobs_def by (rule safe_upd) (auto simp: check_defs)

lemma safe_release: "safe np (releasePending i now)"
  unfolding releasePending_def by (rule safe_upd) (auto simp: check_defs)

lemma safe_cancel: "safe np (upd (\<lambda>j. isReceiptOf v j \<and> pj_status j = Print_PENDING) (\<lambda>j. j\<lparr>pj_status := Print_CANCELLED, pj_updatedAt := now\<rparr>))"
  by (rule safe_upd) (auto simp: check_defs)

lemma safe_claim:
  "safe np (upd (\<lambda>j. pj_id j \<in> S \<and> canClaim busy dev now j) (\<lambda>j. j\<lparr>pj_status := Print_PROCESSING, pj_attempts := pj_attempts j + 1,
     pj_lockedAt := Some now, pj_leaseExpiresAt := Some t, pj_leaseTokenHash := Some h, pj_updatedAt := now\<rparr>))"
  by (rule safe_upd) (auto simp: check_defs canClaim_def)

lemma safe_complete:
  "safe np (upd (\<lambda>j. pj_id j = i \<and> pj_deviceId j = Some dev \<and> (pj_status j = Print_PROCESSING \<or> pj_status j = Print_REQUIRES_REVIEW) \<and>
       pj_leaseTokenHash j = h)
     (\<lambda>j. j\<lparr>pj_status := Print_PRINTED, pj_printedAt := Some now, pj_lockedAt := None, pj_leaseExpiresAt := None, pj_lastError := None,
        pj_updatedAt := now\<rparr>))"
  by (rule safe_upd) (auto simp: check_defs)

lemma safe_fail:
  assumes "uncertain \<or> np i"
  shows "safe np (upd (\<lambda>x. pj_id x = i \<and> pj_status x = Print_PROCESSING \<and> pj_leaseTokenHash x = h)
     (\<lambda>x. x\<lparr>pj_status := (if c \<and> \<not> uncertain then Print_CANCELLED else if uncertain then Print_REQUIRES_REVIEW
          else if e then Print_FAILED else Print_PENDING),
        pj_availableAt := t, pj_lockedAt := None, pj_leaseExpiresAt := None,
        pj_leaseTokenHash := (if uncertain then h' else None),
        pj_failedAt := (if \<not> (c \<and> \<not> uncertain) \<and> \<not> uncertain \<and> e then Some now else None), pj_lastError := Some err,
        pj_payload := p, pj_updatedAt := now\<rparr>))"
  by (rule safe_upd) (use assms in \<open>auto simp: check_defs\<close>)

lemma safe_retry:
  assumes "st = Print_PENDING \<or> st = Print_FAILED"
  shows "safe np (upd (\<lambda>x. pj_id x = i \<and> pj_status x = st) (\<lambda>x. x\<lparr>pj_status := Print_PENDING, pj_deviceId := dev,
     pj_attempts := 0, pj_availableAt := t, pj_failedAt := None, pj_lastError := None, pj_payload := p, pj_updatedAt := now\<rparr>))"
  by (rule safe_upd) (use assms in \<open>auto simp: check_defs\<close>)

lemma safe_resolve:
  assumes "printed \<or> np i"
  shows "safe np (upd (\<lambda>x. pj_id x = i \<and> pj_status x = Print_REQUIRES_REVIEW \<and> pj_updatedAt x = u \<and> (printed \<longrightarrow> pj_deviceId x \<noteq> None))
     (\<lambda>x. x\<lparr>pj_status := (if printed then Print_PRINTED else Print_FAILED), pj_printedAt := (if printed then Some now else None),
        pj_failedAt := (if printed then None else Some now), pj_leaseTokenHash := None, pj_lastError := e, pj_updatedAt := now\<rparr>))"
  by (rule safe_upd) (use assms in \<open>auto simp: check_defs\<close>)

lemma safe_drop:
  "safe np (upd (\<lambda>x. pj_id x = i \<and> (pj_status x = Print_PENDING \<or> pj_status x = Print_FAILED))
     (\<lambda>x. x\<lparr>pj_payload := p, pj_status := (if c then Print_CANCELLED else pj_status x), pj_failedAt := (if c then None else pj_failedAt x)\<rparr>))"
  by (rule safe_upd) (auto simp: check_defs)

section \<open>Printers\<close>

definition printers_ok :: "nat \<Rightarrow> printerRow list \<Rightarrow> bool" where
  "printers_ok n vs \<longleftrightarrow> distinct (map pv_id vs) \<and> (\<forall>i\<in>pv_id ` set vs. i < n) \<and> cnt receiptDefault vs \<le> 1 \<and>
     (\<forall>v\<in>set vs. pv_isDefault v \<longrightarrow> pv_type v = Device_RECEIPT \<and> pv_isActive v \<and> pv_deletedAt v = None)"

lemma printers_upd:
  assumes "printers_ok n vs" and "\<And>v. pv_id (f v) = pv_id v"
    and "\<And>v. v \<in> set vs \<Longrightarrow> g v \<Longrightarrow> pv_isDefault (f v) \<Longrightarrow>
      pv_isDefault v \<and> pv_type (f v) = Device_RECEIPT \<and> pv_isActive (f v) \<and> pv_deletedAt (f v) = None"
  shows "printers_ok n (upd g f vs)"
proof -
  have ids: "map pv_id (upd g f vs) = map pv_id vs" by (rule map_key_upd) (simp add: assms(2))
  have iset: "pv_id ` set (upd g f vs) = pv_id ` set vs" using arg_cong [OF ids, of set] by simp
  have def: "pv_isDefault v \<Longrightarrow> v \<in> set vs \<Longrightarrow> receiptDefault v" for v
    using assms(1) by (auto simp: printers_ok_def receiptDefault_def)
  have "cnt receiptDefault (upd g f vs) \<le> cnt receiptDefault vs"
    unfolding upd_def cnt_def
  proof -
    have "length (filter receiptDefault (map (\<lambda>r. if g r then f r else r) xs)) \<le> length (filter receiptDefault xs)"
      if "set xs \<subseteq> set vs" for xs using that
    proof (induction xs)
      case (Cons x xs)
      have "receiptDefault (f x) \<Longrightarrow> g x \<Longrightarrow> receiptDefault x" using assms(3) def Cons.prems by (auto simp: receiptDefault_def)
      then show ?case using Cons by auto
    qed simp
    then show "length (filter receiptDefault (map (\<lambda>r. if g r then f r else r) vs)) \<le> length (filter receiptDefault vs)" by blast
  qed
  then show ?thesis using assms(1,3) unfolding printers_ok_def ids iset ball_upd by fastforce
qed

lemma clearDefault_ok:
  assumes "printers_ok n vs"
  shows "printers_ok n (clearDefault ty x vs)"
  unfolding clearDefault_def by (rule printers_upd [OF assms]) auto

lemma clearDefault_only:
  assumes "printers_ok n vs" and "v \<in> set (clearDefault Device_RECEIPT x vs)" "pv_isDefault v"
  shows "x = Some (pv_id v)"
  using assms unfolding clearDefault_def printers_ok_def by (auto simp: set_upd split: if_split_asm)

lemma create_effect:
  assumes "createDevice env emp name ty paper isDefault key now d = Inr (n, d')"
  shows "\<exists>def. (def \<longrightarrow> ty = Device_RECEIPT) \<and> pq_nextId d' = Suc (pq_nextId d) \<and>
    pq_printers d' = (if def then clearDefault ty None (pq_printers d) else pq_printers d) @
       [newPrinter (pq_nextId d) name ty paper def (pe_hash env key)] \<and>
    pq_jobs d' = (if def then assignPendingDefaultJobs (pq_nextId d) now (pq_jobs d) else pq_jobs d)"
proof -
  define def where "def = (ty = Device_RECEIPT \<and> (case isDefault of Some b \<Rightarrow> b
    | None \<Rightarrow> (if ty = Device_RECEIPT then cnt receiptDefault (pq_printers d) else 0) = 0))"
  show ?thesis
    using assms unfolding createDevice_def withActiveEmployee_def Let_def def_def [symmetric] require_Inr_iff
    by (intro exI [of _ def]) (auto simp: auditPrint_def def_def)
qed

lemma create_printers:
  assumes "createDevice env emp name ty paper isDefault key now d = Inr (n, d')" and ok: "printers_ok (pq_nextId d) (pq_printers d)"
  shows "printers_ok (pq_nextId d') (pq_printers d')"
proof -
  obtain def where def: "def \<longrightarrow> ty = Device_RECEIPT" and n: "pq_nextId d' = Suc (pq_nextId d)"
    and vs: "pq_printers d' = (if def then clearDefault ty None (pq_printers d) else pq_printers d) @
       [newPrinter (pq_nextId d) name ty paper def (pe_hash env key)]"
    using create_effect [OF assms(1)] by blast
  let ?vs = "if def then clearDefault ty None (pq_printers d) else pq_printers d"
  have o: "printers_ok (pq_nextId d) ?vs" using ok clearDefault_ok by simp
  have none: "cnt receiptDefault ?vs = 0" if def
  proof -
    have "\<not> receiptDefault v" if "v \<in> set ?vs" for v
      using clearDefault_only [OF ok, of v None] \<open>def\<close> def that by (auto simp: receiptDefault_def)
    then show ?thesis by (simp add: cnt_zero_iff)
  qed
  have "pq_nextId d \<notin> pv_id ` set ?vs" using o by (auto simp: printers_ok_def)
  then show ?thesis using o none def unfolding vs n printers_ok_def
    by (auto simp: newPrinter_def receiptDefault_def less_Suc_eq)
qed

lemma update_printers:
  assumes "updateDevice env busy i emp dto now d = Inr d'" and ok: "printers_ok (pq_nextId d) (pq_printers d)"
  shows "printers_ok (pq_nextId d') (pq_printers d')"
proof -
  obtain v where v: "findPrinter i d = Some v" using assms(1) by (auto simp: updateDevice_def withActiveEmployee_def)
  define ty where "ty = orSame (du_type dto) (pv_type v)"
  define active where "active = orSame (du_isActive dto) (pv_isActive v)"
  define def where "def = (active \<and> ty = Device_RECEIPT \<and> orSame (du_isDefault dto) (ty = pv_type v \<and> pv_isDefault v))"
  let ?f = "\<lambda>x. x\<lparr>pv_name := orSame (du_name dto) (pv_name x), pv_type := ty, pv_paperSize := orSame (du_paperSize dto) (pv_paperSize x),
      pv_isActive := active, pv_isDefault := def, pv_status := orSame (du_status dto) (case du_isActive dto of Some False \<Rightarrow> Device_PAUSED
        | Some True \<Rightarrow> Device_READY | None \<Rightarrow> pv_status x)\<rparr>"
  let ?vs = "if def then clearDefault ty (Some i) (pq_printers d) else pq_printers d"
  have n: "pq_nextId d' = pq_nextId d" and vs: "pq_printers d' = upd (\<lambda>x. pv_id x = i) ?f ?vs"
    using assms(1) unfolding updateDevice_def withActiveEmployee_def v fetch_simps Let_def require_Inr_iff
      ty_def [symmetric] active_def [symmetric] def_def [symmetric]
    by (auto simp: auditPrint_def)
  have o: "printers_ok (pq_nextId d) ?vs" using ok clearDefault_ok by simp
  show ?thesis
  proof (cases def)
    case False
    show ?thesis unfolding vs n by (rule printers_upd [OF o]) (simp_all add: False)
  next
    case True
    then have t: "ty = Device_RECEIPT" "active" by (simp_all add: def_def)
    have only: "pv_id x = i" if "x \<in> set ?vs" "pv_isDefault x" for x
      using clearDefault_only [OF ok, of x "Some i"] that True t(1) by simp
    have ids: "map pv_id (upd (\<lambda>x. pv_id x = i) ?f ?vs) = map pv_id ?vs" by (rule map_key_upd) simp
    have iset: "pv_id ` set (upd (\<lambda>x. pv_id x = i) ?f ?vs) = pv_id ` set ?vs" using arg_cong [OF ids, of set] by simp
    have dist: "distinct (map pv_id (pq_printers d'))" using o by (simp add: vs ids printers_ok_def)
    have "cnt receiptDefault (pq_printers d') \<le> cnt (\<lambda>x. pv_id x = i \<and> receiptDefault x) (pq_printers d')"
      by (rule cnt_le) (use only in \<open>auto simp: vs set_upd receiptDefault_def split: if_split_asm\<close>)
    also have "\<dots> \<le> 1" by (rule cnt_key_le_1 [OF dist])
    finally have one: "cnt receiptDefault (pq_printers d') \<le> 1" .
    have "pv_deletedAt x = None" if x: "x \<in> set ?vs" "pv_id x = i" for x
    proof -
      have vm: "v \<in> set (pq_printers d)" "pv_id v = i" "pv_deletedAt v = None"
        using find_SomeD [OF v [unfolded findPrinter_def]] by blast+
      have "x \<in> set (clearDefault ty (Some i) (pq_printers d))" using x(1) True by simp
      then obtain y :: printerRow where y: "y \<in> set (pq_printers d)" "pv_id y = i" "pv_deletedAt x = pv_deletedAt y"
        using x(2) by (auto simp: clearDefault_def set_upd split: if_split_asm)
      have "distinct (map pv_id (pq_printers d))" using ok by (simp add: printers_ok_def)
      then have "y = v" by (rule distinct_key_eq [OF _ y(1) vm(1)]) (simp add: y(2) vm(2))
      then show ?thesis using y(3) vm(3) by simp
    qed
    then have "\<forall>x\<in>set (pq_printers d'). pv_isDefault x \<longrightarrow> pv_type x = Device_RECEIPT \<and> pv_isActive x \<and> pv_deletedAt x = None"
      using only t unfolding vs by (auto simp: set_upd)
    then show ?thesis using one dist o iset unfolding printers_ok_def n vs by simp
  qed
qed

lemma printers_frame:
  assumes "printers_ok n vs" and "\<And>v. pv_id (f v) = pv_id v" and "\<And>v. pv_isDefault (f v) = pv_isDefault v"
    and "\<And>v. pv_type (f v) = pv_type v" and "\<And>v. pv_isActive (f v) = pv_isActive v" and "\<And>v. pv_deletedAt (f v) = pv_deletedAt v"
  shows "printers_ok n (upd g f vs)"
  by (rule printers_upd [OF assms(1,2)]) (use assms in \<open>auto simp: printers_ok_def\<close>)

lemma printers_mono: "printers_ok n vs \<Longrightarrow> n \<le> m \<Longrightarrow> printers_ok m vs"
  by (fastforce simp: printers_ok_def)

lemma delete_printers:
  assumes "deleteDevice busy i emp now d = Inr d'" and "printers_ok (pq_nextId d) (pq_printers d)"
  shows "printers_ok (pq_nextId d') (pq_printers d')"
proof -
  have "pq_nextId d' = pq_nextId d" "pq_printers d' = upd (\<lambda>x. pv_id x = i) (\<lambda>x. x\<lparr>pv_deletedAt := Some now, pv_isActive := False,
      pv_isDefault := False, pv_status := Device_PAUSED\<rparr>) (pq_printers d)"
    using assms(1) by (auto simp: deleteDevice_def withActiveEmployee_def auditPrint_def Let_def)
  then show ?thesis by (simp only:) (rule printers_upd [OF assms(2)]; simp)
qed

lemma rotate_printers:
  assumes "rotateDeviceKey env i emp key d = Inr d'"
  shows "pq_jobs d' = pq_jobs d" and "pq_nextId d' = pq_nextId d"
    and "printers_ok (pq_nextId d) (pq_printers d) \<Longrightarrow> printers_ok (pq_nextId d') (pq_printers d')"
  using assms printers_frame [of "pq_nextId d" "pq_printers d" "\<lambda>v. v\<lparr>pv_apiKeyHash := pe_hash env key\<rparr>"]
  by (auto simp: rotateDeviceKey_def withActiveEmployee_def auditPrint_def Let_def)

lemma heardFrom_ok: "printers_ok n vs \<Longrightarrow> printers_ok n (heardFrom i st err now vs)"
  unfolding heardFrom_def Let_def by (simp add: printers_frame)

lemma heartbeat_heard: "heartbeat i st err now d = Inr (v, d') \<Longrightarrow> d' = d\<lparr>pq_printers := heardFrom i st err now (pq_printers d)\<rparr>"
  unfolding heartbeat_def Let_def andThen_Inr_iff sum.inject prod.inject by blast

end
