(* ===== verification/Print_Steps.thy ===== *)
theory Print_Steps
  imports Print_System
begin

text \<open>
  What the operations of the print queue and the kitchen write to it (\<open>queue_write\<close>), and the writes that the database
  accepts (\<open>queue_step\<close>). Every step keeps the invariant of \<open>Print_System\<close> and does not touch a job that was handed
  to a printer, unless it reports that nothing was printed; every write but one keeps it by itself.
\<close>

definition queue_ok :: "queueDb \<Rightarrow> bool" where
  "queue_ok d \<longleftrightarrow> jobs_ok (pq_nextId d) (pq_jobs d) \<and> printers_ok (pq_nextId d) (pq_printers d)"

definition kept :: "(id \<Rightarrow> bool) \<Rightarrow> queueDb \<Rightarrow> queueDb \<Rightarrow> bool" where
  "kept np d d' \<longleftrightarrow> (queue_ok d \<longrightarrow> queue_ok d') \<and> (\<forall>i a. \<not> np i \<longrightarrow> heldIn i a (pq_jobs d) \<longrightarrow> heldIn i a (pq_jobs d'))"

lemma kept_refl [simp]: "kept np d d"
  by (simp add: kept_def)

lemma kept_jobs:
  assumes "safe np F" and "pq_jobs d' = F (pq_jobs d)" and "pq_nextId d' = pq_nextId d"
    and "printers_ok (pq_nextId d) (pq_printers d) \<Longrightarrow> printers_ok (pq_nextId d') (pq_printers d')"
  shows "kept np d d'"
  using assms unfolding kept_def queue_ok_def safe_def by simp

lemma jobs_mono: "jobs_ok n js \<Longrightarrow> n \<le> m \<Longrightarrow> jobs_ok m js"
  by (fastforce simp: jobs_ok_def)

lemma rowOk_id [simp]: "rowOk (j\<lparr>pj_id := i\<rparr>) = rowOk j"
  by (cases "pj_status j") (simp_all add: rowOk_def valuesCheck_def stateCheck_def)

lemma kept_insert:
  assumes "insertJob j d = Inr (n, d')" and "rowOk j"
  shows "kept np d d'"
proof -
  have d': "d' = d\<lparr>pq_nextId := Suc (pq_nextId d), pq_jobs := pq_jobs d @ [j\<lparr>pj_id := pq_nextId d\<rparr>]\<rparr>"
    using assms(1) unfolding insertJob_def require_Inr_iff sum.inject prod.inject by blast
  have row: "rowOk (j\<lparr>pj_id := pq_nextId d\<rparr>)" using assms(2) by simp
  have "jobs_ok (Suc (pq_nextId d)) (pq_jobs d')" if "jobs_ok (pq_nextId d) (pq_jobs d)"
    using that row by (auto simp: d' jobs_ok_def less_Suc_eq)
  then show ?thesis unfolding kept_def queue_ok_def heldIn_def
    using printers_mono [of "pq_nextId d" "pq_printers d" "Suc (pq_nextId d)"] by (auto simp: d')
qed

lemma kept_audit [simp]: "kept np d (auditPrint emp act subj d') = kept np d d'"
  by (simp add: kept_def queue_ok_def auditPrint_def)

lemma newJob_ok:
  assumes "1 \<le> copies" "copies \<le> 10"
  shows "rowOk (newJob Job_PRECHECK p dev k now n\<lparr>pj_copies := copies, pj_sessionId := Some s, pj_requestedById := r\<rparr>)"
    and "rowOk (newJob Job_RECEIPT p dev k now n\<lparr>pj_copies := copies, pj_invoiceId := Some v, pj_requestedById := r, pj_reprintOfId := o'\<rparr>)"
    and "rowOk (newJob Job_RECEIPT p dev k now n\<lparr>pj_invoiceId := Some v\<rparr>)"
    and "rowOk (newJob Job_KITCHEN_TICKET p dev k now n\<lparr>pj_ticketId := Some t, pj_requestedById := r\<rparr>)"
  using assms by (simp_all add: newJob_def rowOk_def valuesCheck_def sourceCheck_def stateCheck_def)

lemma newTicket_ok:
  "rowOk (newJob Job_KITCHEN_TICKET p dev k now n\<lparr>pj_ticketId := Some t, pj_requestedById := r, pj_availableAt := a\<rparr>)"
  by (simp add: newJob_def rowOk_def valuesCheck_def sourceCheck_def stateCheck_def)

lemma kept_create:
  assumes "createDevice env emp name ty paper isDefault key now d = Inr (n, d')"
  shows "kept np d d'"
proof -
  have n: "pq_nextId d' = Suc (pq_nextId d)"
    and js: "pq_jobs d' = assignPendingDefaultJobs (pq_nextId d) now (pq_jobs d) \<or> pq_jobs d' = pq_jobs d"
    using create_effect [OF assms] by auto
  have "jobs_ok (pq_nextId d') (pq_jobs d')" if "jobs_ok (pq_nextId d) (pq_jobs d)"
    using that js n safe_assign [of np "pq_nextId d" now] jobs_mono [of "pq_nextId d" _ "Suc (pq_nextId d)"] unfolding safe_def by auto
  moreover have "heldIn i a (pq_jobs d')" if "\<not> np i" "heldIn i a (pq_jobs d)" for i a
    using that js safe_assign [of np "pq_nextId d" now] unfolding safe_def by auto
  ultimately show ?thesis using create_printers [OF assms] unfolding kept_def queue_ok_def by blast
qed

lemma kept_update:
  assumes "updateDevice env busy i emp dto now d = Inr d'"
  shows "kept np d d'"
proof -
  obtain v where v: "findPrinter i d = Some v" using assms by (auto simp: updateDevice_def withActiveEmployee_def)
  define def where "def = (orSame (du_isActive dto) (pv_isActive v) \<and> orSame (du_type dto) (pv_type v) = Device_RECEIPT \<and>
    orSame (du_isDefault dto) (orSame (du_type dto) (pv_type v) = pv_type v \<and> pv_isDefault v))"
  have n: "pq_nextId d' = pq_nextId d" and js: "pq_jobs d' = releasePending i now (recoverExpiredJobs busy (Some i) now (pq_jobs d)) \<or>
      pq_jobs d' = assignPendingDefaultJobs i now (pq_jobs d) \<or> pq_jobs d' = pq_jobs d"
    using assms unfolding updateDevice_def withActiveEmployee_def v fetch_simps Let_def require_Inr_iff def_def [symmetric]
    by (auto simp: auditPrint_def)
  note k = kept_jobs [OF _ _ n update_printers [OF assms]]
  show ?thesis using js k [OF safe_comp [OF safe_release safe_recover]] k [OF safe_assign] k [OF safe_id] by blast
qed

lemma kept_delete:
  assumes "deleteDevice busy i emp now d = Inr d'"
  shows "kept np d d'"
proof (rule kept_jobs [OF safe_comp [OF safe_release safe_recover] _ _ delete_printers [OF assms]])
  show "pq_jobs d' = releasePending i now (recoverExpiredJobs busy (Some i) now (pq_jobs d))" "pq_nextId d' = pq_nextId d"
    using assms by (auto simp: deleteDevice_def withActiveEmployee_def auditPrint_def Let_def)
qed

lemma kept_rotate: "rotateDeviceKey env i emp key d = Inr d' \<Longrightarrow> kept np d d'"
  by (rule kept_jobs [OF safe_id rotate_printers])

lemma kept_heartbeat: "heartbeat i st err now d = Inr (v, d') \<Longrightarrow> kept np d d'"
  by (drule heartbeat_heard) (rule kept_jobs [OF safe_id], simp_all add: heardFrom_ok)

lemma kept_precheck:
  assumes "createPrecheck hash emp ci copies device key now d = Inr (n, d')" and "1 \<le> copies" "copies \<le> 10"
  shows "kept np d d'"
proof -
  obtain p dev d1 where i: "insertJob (newJob Job_PRECHECK p dev (Precheck_key emp key) now 0
      \<lparr>pj_copies := copies, pj_sessionId := Some (ci_sessionId ci), pj_requestedById := Some emp\<rparr>) d = Inr (n, d1)"
    and d': "d' = auditPrint emp ''PRECHECK_PRINT_REQUESTED'' n d1"
    using assms(1) by (auto simp: createPrecheck_def)
  show ?thesis unfolding d' kept_audit by (rule kept_insert [OF i newJob_ok(1) [OF assms(2,3)]])
qed

lemma kept_reprint:
  assumes "reprintReceipt v emp copies device key now d = Inr (n, d')" and "1 \<le> copies" "copies \<le> 10"
  shows "kept np d d'"
proof -
  obtain p dev o' d1 where i: "insertJob (newJob Job_RECEIPT p dev (Reprint_key v emp key) now 0
      \<lparr>pj_copies := copies, pj_invoiceId := Some v, pj_requestedById := Some emp, pj_reprintOfId := o'\<rparr>) d = Inr (n, d1)"
    and d': "d' = auditPrint emp ''RECEIPT_REPRINT_REQUESTED'' v d1"
    using assms(1) by (auto simp: reprintReceipt_def Let_def)
  show ?thesis unfolding d' kept_audit by (rule kept_insert [OF i newJob_ok(2) [OF assms(2,3)]])
qed

lemma kept_automatic: "createAutomaticReceipt v now d = Inr (r, d') \<Longrightarrow> kept np d d'"
  using kept_insert [OF _ newJob_ok(3) [of 1]] by (auto simp: createAutomaticReceipt_def split: option.splits)

lemma compatible_Inr:
  "(case dev of None \<Rightarrow> (\<lambda>k. k) | Some x \<Rightarrow> assertCompatibleDevice x ty d) k = Inr y \<Longrightarrow> k = Inr y"
  by (cases dev) (auto simp: assertCompatibleDevice_def)

lemma kept_retry:
  assumes "retryJob i emp device now d = Inr d'"
  shows "kept np d d'"
proof -
  obtain j where j: "findJob i d = Some j" using assms by (auto simp: retryJob_def withActiveEmployee_def)
  define dev where "dev = orSame device (pj_deviceId j)"
  have st: "pj_status j = Print_PENDING \<or> pj_status j = Print_FAILED"
    using assms by (simp add: retryJob_def withActiveEmployee_def j)
  have n: "pq_nextId d' = pq_nextId d" and vs: "pq_printers d' = pq_printers d"
    and js: "pq_jobs d' = upd (\<lambda>x. pj_id x = i \<and> pj_status x = pj_status j) (\<lambda>x. x\<lparr>pj_status := Print_PENDING, pj_deviceId := dev,
     pj_attempts := 0, pj_availableAt := max now (ticketAvailableAt j (pq_shop d)), pj_failedAt := None, pj_lastError := None,
     pj_payload := keptPayload j (pq_shop d), pj_updatedAt := now\<rparr>) (pq_jobs d)"
    using assms unfolding retryJob_def withActiveEmployee_def j fetch_simps Let_def require_Inr_iff dev_def [symmetric]
    by (auto simp: auditPrint_def dest!: compatible_Inr)
  show ?thesis by (rule kept_jobs [OF safe_retry [OF st] js n]) (simp add: n vs)
qed

lemma kept_recover: "kept np d (recoverExpiredLeases busy now d)"
  by (rule kept_jobs [OF safe_recover]) (simp_all add: recoverExpiredLeases_def)

lemma kept_cancel: "kept np d (cancelPendingReceiptJobs v now d)"
  by (rule kept_jobs [OF safe_cancel]) (simp_all add: cancelPendingReceiptJobs_def)

definition leasedTo :: "string \<Rightarrow> time \<Rightarrow> queueJob \<Rightarrow> queueJob" where
  "leasedTo h now j = j\<lparr>pj_status := Print_PROCESSING, pj_attempts := pj_attempts j + 1, pj_lockedAt := Some now,
     pj_leaseExpiresAt := Some (now + PRINT_JOB_LEASE_MS), pj_leaseTokenHash := Some h, pj_updatedAt := now\<rparr>"

lemma claim_effect:
  assumes "claimJobs env busy dev limit token now d = Inr (ids, d')"
  shows "pq_jobs d' = upd (\<lambda>j. pj_id j \<in> set ids \<and> canClaim busy dev now j) (leasedTo (pe_hash env token) now)
      (recoverExpiredJobs busy (Some dev) now (pq_jobs d))"
    and "pq_nextId d' = pq_nextId d" "pq_printers d' = pq_printers d"
  using assms by (auto simp: claimJobs_def Let_def leasedTo_def [abs_def])

lemma kept_claim:
  assumes "claimJobs env busy dev limit token now d = Inr (ids, d')"
  shows "kept np d d'"
proof -
  have "safe np (\<lambda>js. upd (\<lambda>j. pj_id j \<in> set ids \<and> canClaim busy dev now j) (leasedTo (pe_hash env token) now)
      (recoverExpiredJobs busy (Some dev) now js))"
    unfolding leasedTo_def [abs_def] by (rule safe_comp [OF safe_claim safe_recover])
  then show ?thesis by (rule kept_jobs) (simp_all add: claim_effect [OF assms])
qed

lemma kept_complete:
  assumes "completeJob env dev i token now d = Inr d'"
  shows "kept np d d'"
proof -
  have "d' = d\<lparr>pq_jobs := pq_jobs d'\<rparr>" and js: "pq_jobs d' = upd (\<lambda>j. pj_id j = i \<and> pj_deviceId j = Some dev \<and>
        (pj_status j = Print_PROCESSING \<or> pj_status j = Print_REQUIRES_REVIEW) \<and> pj_leaseTokenHash j = Some (pe_hash env token))
     (\<lambda>j. j\<lparr>pj_status := Print_PRINTED, pj_printedAt := Some now, pj_lockedAt := None, pj_leaseExpiresAt := None, pj_lastError := None,
        pj_updatedAt := now\<rparr>) (pq_jobs d)"
    using assms by (auto simp: completeJob_def Let_def split: if_split_asm)
  then have "pq_nextId d' = pq_nextId d" "pq_printers d' = pq_printers d" by (metis queueDb.simps(1,2,6,7,8) queueDb.surjective queueDb.update_convs(3))+
  then show ?thesis by (intro kept_jobs [OF safe_complete js]) simp_all
qed

lemma kept_resolve:
  assumes "resolveJob i emp printed u now d = Inr d'" and "\<not> printed \<longrightarrow> np i" and ok: "queue_ok d"
  shows "kept np d d'"
proof -
  obtain j where j: "findJob i d = Some j" using assms by (auto simp: resolveJob_def withActiveEmployee_def)
  have dev: "printed \<longrightarrow> pj_deviceId j \<noteq> None" using assms(1) by (auto simp: resolveJob_def withActiveEmployee_def j)
  have jm: "j \<in> set (pq_jobs d)" "pj_id j = i" using find_SomeD [OF j [unfolded findJob_def]] by blast+
  have "distinct (map pj_id (pq_jobs d))" using ok by (simp add: queue_ok_def jobs_ok_def)
  then have only: "x = j" if "x \<in> set (pq_jobs d)" "pj_id x = i" for x
    using distinct_key_eq [of pj_id "pq_jobs d" x j] that jm by simp
  let ?f = "\<lambda>x. x\<lparr>pj_status := (if printed then Print_PRINTED else Print_FAILED), pj_printedAt := (if printed then Some now else None),
        pj_failedAt := (if printed then None else Some now), pj_leaseTokenHash := None,
        pj_lastError := (if printed then None else Some ''Operator confirmed no paper was printed.''), pj_updatedAt := now\<rparr>"
  have n: "pq_nextId d' = pq_nextId d" "pq_printers d' = pq_printers d"
    and js: "pq_jobs d' = upd (\<lambda>x. pj_id x = i \<and> pj_status x = Print_REQUIRES_REVIEW \<and> pj_updatedAt x = pj_updatedAt j) ?f (pq_jobs d)"
    using assms(1) unfolding resolveJob_def withActiveEmployee_def j fetch_simps Let_def require_Inr_iff by (auto simp: auditPrint_def)
  have eq: "(pj_id x = i \<and> pj_status x = Print_REQUIRES_REVIEW \<and> pj_updatedAt x = pj_updatedAt j) =
      (pj_id x = i \<and> pj_status x = Print_REQUIRES_REVIEW \<and> pj_updatedAt x = pj_updatedAt j \<and> (printed \<longrightarrow> pj_deviceId x \<noteq> None))"
    if "x \<in> set (pq_jobs d)" for x using only [OF that] dev by blast
  have "pq_jobs d' = upd (\<lambda>x. pj_id x = i \<and> pj_status x = Print_REQUIRES_REVIEW \<and> pj_updatedAt x = pj_updatedAt j \<and>
      (printed \<longrightarrow> pj_deviceId x \<noteq> None)) ?f (pq_jobs d)"
    unfolding js upd_def by (rule map_cong [OF refl]) (simp only: eq)
  then show ?thesis using assms(2) by (intro kept_jobs [OF safe_resolve _ n(1)]) (auto simp: n)
qed

lemma kept_fail:
  assumes "failJob env dev i token err uncertain now d = Inr (r, d')" and "\<not> uncertain \<longrightarrow> np i"
  shows "kept np d d'"
proof -
  obtain j where n: "pq_nextId d' = pq_nextId d" "pq_printers d' = pq_printers d"
    and js: "pq_jobs d' = upd (\<lambda>x. pj_id x = i \<and> pj_status x = Print_PROCESSING \<and> pj_leaseTokenHash x = pj_leaseTokenHash j)
     (\<lambda>x. x\<lparr>pj_status := (if nothingLeft j (pq_shop d) \<and> \<not> uncertain then Print_CANCELLED else if uncertain then Print_REQUIRES_REVIEW
          else if pj_maxAttempts j \<le> pj_attempts j then Print_FAILED else Print_PENDING),
        pj_availableAt := now + failDelay (pj_attempts j), pj_lockedAt := None, pj_leaseExpiresAt := None,
        pj_leaseTokenHash := (if uncertain then pj_leaseTokenHash j else None),
        pj_failedAt := (if \<not> (nothingLeft j (pq_shop d) \<and> \<not> uncertain) \<and> \<not> uncertain \<and> pj_maxAttempts j \<le> pj_attempts j then Some now else None),
        pj_lastError := Some err,
        pj_payload := (if uncertain then pj_payload j else keptPayload j (pq_shop d)), pj_updatedAt := now\<rparr>) (pq_jobs d)"
    using assms(1) unfolding failJob_def Let_def fetch_Inr_iff require_Inr_iff sum.inject prod.inject
    by (clarsimp simp: conj_commute)
  show ?thesis using assms(2) by (intro kept_jobs [OF safe_fail js n(1)]) (auto simp: n)
qed

section \<open>The kitchen's writes\<close>

lemma kept_drop:
  assumes "j \<in> set (pq_jobs d)"
  shows "kept np d (d\<lparr>pq_jobs := upd (\<lambda>x. pj_id x = i \<and> (pj_status x = Print_PENDING \<or> pj_status x = Print_FAILED))
     (\<lambda>x. x\<lparr>pj_payload := p, pj_status := (if c then Print_CANCELLED else pj_status x), pj_failedAt := (if c then None else pj_failedAt x)\<rparr>)
     (pq_jobs d)\<rparr>)"
  by (rule kept_jobs [OF safe_drop]) simp_all

definition splitSlip :: "id \<Rightarrow> dedupKey \<Rightarrow> printLine list \<Rightarrow> time \<Rightarrow> queueJob \<Rightarrow> queueJob" where
  "splitSlip emp key ls now j = newJob Job_KITCHEN_TICKET (Kitchen_order ls) (pj_deviceId j) (Kitchen_key key) now 0
     \<lparr>pj_ticketId := pj_ticketId j, pj_requestedById := Some emp, pj_status := pj_status j, pj_copies := pj_copies j,
      pj_maxAttempts := pj_maxAttempts j, pj_availableAt := pj_availableAt j\<rparr>"

text \<open>The slip of a PENDING ticket is a valid row; that of a FAILED one never is, for it has no \<open>failedAt\<close>.\<close>

lemma splitSlip_ok:
  assumes "rowOk j" "pj_type j = Job_KITCHEN_TICKET" "pj_status j = Print_PENDING"
  shows "rowOk (splitSlip emp key ls now j)"
  using assms unfolding rowOk_def
  by (auto simp: splitSlip_def newJob_def valuesCheck_def sourceCheck_def stateCheck_def split: if_split_asm)

lemma failed_slip: "pj_status j = Print_FAILED \<Longrightarrow> \<not> stateCheck (splitSlip emp key ls now j\<lparr>pj_id := i\<rparr>)"
  by (simp add: splitSlip_def newJob_def stateCheck_def)

section \<open>Steps\<close>

text \<open>What the operations write. The kitchen inserts the job of a ticket, slips for cancelled lines, and takes lines off paper that
  is not printed or splits it. The rest of the program changes its own tables only. The copies are bounded by the request's schema.\<close>

inductive queue_write :: "(quotedData \<Rightarrow> 'h) \<Rightarrow> printEnv \<Rightarrow> (id \<Rightarrow> bool) \<Rightarrow> queueDb \<Rightarrow> queueDb \<Rightarrow> bool"
  for hash :: "quotedData \<Rightarrow> 'h" and env :: printEnv and np :: "id \<Rightarrow> bool" where
  create: "createDevice env emp name ty paper isDefault key now d = Inr (n, d') \<Longrightarrow> queue_write hash env np d d'"
| update: "updateDevice env busy i emp dto now d = Inr d' \<Longrightarrow> queue_write hash env np d d'"
| delete: "deleteDevice busy i emp now d = Inr d' \<Longrightarrow> queue_write hash env np d d'"
| rotate: "rotateDeviceKey env i emp key d = Inr d' \<Longrightarrow> queue_write hash env np d d'"
| beat: "heartbeat i st err now d = Inr (v, d') \<Longrightarrow> queue_write hash env np d d'"
| precheck: "createPrecheck hash emp ci copies device key now d = Inr (n, d') \<Longrightarrow> 1 \<le> copies \<Longrightarrow> copies \<le> 5 \<Longrightarrow>
    queue_write hash env np d d'"
| reprint: "reprintReceipt v emp copies device key now d = Inr (n, d') \<Longrightarrow> 1 \<le> copies \<Longrightarrow> copies \<le> 5 \<Longrightarrow>
    queue_write hash env np d d'"
| automatic: "createAutomaticReceipt v now d = Inr (r, d') \<Longrightarrow> queue_write hash env np d d'"
| cancel: "queue_write hash env np d (cancelPendingReceiptJobs v now d)"
| retry: "retryJob i emp device now d = Inr d' \<Longrightarrow> queue_write hash env np d d'"
| resolve: "resolveJob i emp printed u now d = Inr d' \<Longrightarrow> \<not> printed \<longrightarrow> np i \<Longrightarrow> queue_write hash env np d d'"
| claim: "claimJobs env busy dev limit token now d = Inr (ids, d') \<Longrightarrow> queue_write hash env np d d'"
| complete: "completeJob env dev i token now d = Inr d' \<Longrightarrow> queue_write hash env np d d'"
| fail: "failJob env dev i token err uncertain now d = Inr (r, d') \<Longrightarrow> \<not> uncertain \<longrightarrow> np i \<Longrightarrow> queue_write hash env np d d'"
| recover: "queue_write hash env np d (recoverExpiredLeases busy now d)"
| ticket: "insertJob (newJob Job_KITCHEN_TICKET p dev (Kitchen_key key) now 0\<lparr>pj_ticketId := Some t, pj_requestedById := r, pj_availableAt := a\<rparr>) d
    = Inr (n, d') \<Longrightarrow> queue_write hash env np d d'"
| split: "j \<in> set (pq_jobs d) \<Longrightarrow> pj_type j = Job_KITCHEN_TICKET \<Longrightarrow> pj_status j = Print_PENDING \<or> pj_status j = Print_FAILED \<Longrightarrow>
    insertJob (splitSlip emp key ls now j) d = Inr (n, d') \<Longrightarrow> queue_write hash env np d d'"
| drop: "j \<in> set (pq_jobs d) \<Longrightarrow> queue_write hash env np d
    (d\<lparr>pq_jobs := upd (\<lambda>x. pj_id x = pj_id j \<and> (pj_status x = Print_PENDING \<or> pj_status x = Print_FAILED))
     (\<lambda>x. x\<lparr>pj_payload := p, pj_status := (if c then Print_CANCELLED else pj_status x), pj_failedAt := (if c then None else pj_failedAt x)\<rparr>)
     (pq_jobs d)\<rparr>)"
| elsewhere: "pq_nextId d \<le> n \<Longrightarrow> queue_write hash env np d (d\<lparr>pq_nextId := n, pq_shop := s, pq_documents := ls\<rparr>)"

text \<open>A step is a write that the CHECK constraints of the job table accept.\<close>

definition rowsChecked :: "queueDb \<Rightarrow> bool" where
  "rowsChecked d \<longleftrightarrow> (\<forall>j\<in>set (pq_jobs d). valuesCheck j \<and> sourceCheck j \<and> stateCheck j)"

inductive queue_step :: "(quotedData \<Rightarrow> 'h) \<Rightarrow> printEnv \<Rightarrow> (id \<Rightarrow> bool) \<Rightarrow> queueDb \<Rightarrow> queueDb \<Rightarrow> bool"
  for hash :: "quotedData \<Rightarrow> 'h" and env :: printEnv and np :: "id \<Rightarrow> bool" where
  accepted: "queue_write hash env np d d' \<Longrightarrow> rowsChecked d' \<Longrightarrow> queue_step hash env np d d'"

lemma rowsChecked_ok: "queue_ok d \<Longrightarrow> rowsChecked d"
  by (simp add: rowsChecked_def queue_ok_def jobs_ok_def rowOk_def)

text \<open>The division of a FAILED ticket is the one write that the invariant does not cover.\<close>

definition splitsFailed :: "queueDb \<Rightarrow> queueDb \<Rightarrow> bool" where
  "splitsFailed d d' \<longleftrightarrow> (\<exists>j emp key ls now. j \<in> set (pq_jobs d) \<and> pj_type j = Job_KITCHEN_TICKET \<and> pj_status j = Print_FAILED \<and>
     insertJob (splitSlip emp key ls now j) d = Inr (pq_nextId d, d'))"

lemma insertJob_id: "insertJob j d = Inr (n, d') \<Longrightarrow> n = pq_nextId d"
  by (simp add: insertJob_def)

lemma insertJob_rows:
  "insertJob j d = Inr (n, d') \<Longrightarrow> pq_jobs d' = pq_jobs d @ [j\<lparr>pj_id := pq_nextId d\<rparr>] \<and> pq_printers d' = pq_printers d"
  by (auto simp: insertJob_def)

lemma splitsFailed_unchecked:
  assumes "splitsFailed d d'"
  shows "\<not> rowsChecked d'" and "pq_printers d' = pq_printers d"
proof -
  obtain j emp key ls now where "pj_status j = Print_FAILED" "insertJob (splitSlip emp key ls now j) d = Inr (pq_nextId d, d')"
    using assms by (auto simp: splitsFailed_def)
  then show "\<not> rowsChecked d'" and "pq_printers d' = pq_printers d"
    using insertJob_rows failed_slip by (auto simp: rowsChecked_def)
qed

lemma queue_write_kept:
  assumes "queue_write hash env np d d'" and "queue_ok d" and pend: "\<not> splitsFailed d d'"
  shows "kept np d d'"
  using assms(1)
proof cases
  case (ticket p dev key now t r a n)
  show ?thesis by (rule kept_insert [OF ticket newTicket_ok])
next
  case (split j emp key ls now n)
  have "rowOk j" using assms(2) split(1) by (simp add: queue_ok_def jobs_ok_def)
  moreover have "pj_status j = Print_PENDING"
    using pend split insertJob_id [OF split(4)] unfolding splitsFailed_def by blast
  ultimately show ?thesis by (intro kept_insert [OF split(4) splitSlip_ok]) (rule split(2) | assumption)+
next
  case (elsewhere n s ls)
  then show ?thesis unfolding kept_def queue_ok_def using jobs_mono printers_mono by auto
next
  case create
  then show ?thesis by (rule kept_create)
next
  case update
  then show ?thesis by (rule kept_update)
next
  case delete
  then show ?thesis by (rule kept_delete)
next
  case rotate
  then show ?thesis by (rule kept_rotate)
next
  case beat
  then show ?thesis by (rule kept_heartbeat)
next
  case automatic
  then show ?thesis by (rule kept_automatic)
next
  case retry
  then show ?thesis by (rule kept_retry)
next
  case claim
  then show ?thesis by (rule kept_claim)
next
  case complete
  then show ?thesis by (rule kept_complete)
next
  case cancel
  then show ?thesis by (simp add: kept_cancel)
next
  case recover
  then show ?thesis by (simp add: kept_recover)
next
  case precheck
  show ?thesis by (rule kept_precheck [OF precheck(1,2)]) (use precheck(3) in simp)
next
  case reprint
  show ?thesis by (rule kept_reprint [OF reprint(1,2)]) (use reprint(3) in simp)
next
  case resolve
  then show ?thesis by (rule kept_resolve) (rule assms(2))
next
  case fail
  then show ?thesis by (rule kept_fail)
next
  case drop
  show ?thesis unfolding drop(1) by (rule kept_drop [OF drop(2)])
qed

lemma queue_step_kept:
  assumes "queue_step hash env np d d'" and "queue_ok d"
  shows "kept np d d'"
  using assms splitsFailed_unchecked(1) by (auto elim!: queue_step.cases intro: queue_write_kept)

lemma queue_run:
  assumes "(queue_step hash env np)\<^sup>*\<^sup>* d d'" and "queue_ok d"
  shows "queue_ok d' \<and> (\<forall>i a. \<not> np i \<longrightarrow> heldIn i a (pq_jobs d) \<longrightarrow> heldIn i a (pq_jobs d'))"
  using assms
proof (induction rule: rtranclp_induct)
  case (step y z)
  then have "kept np y z" by (intro queue_step_kept) simp_all
  then show ?case using step unfolding kept_def by blast
qed simp

text \<open>Who claims does not get a job that is still held.\<close>

lemma take_sorted: "k \<in> set (take n (sort_key f (sort_key g xs))) \<Longrightarrow> k \<in> set xs"
  using set_take_subset [of n "sort_key f (sort_key g xs)"] by auto

lemma claim_candidate:
  assumes "claimJobs env busy dev limit token now d = Inr (ids, d')" and "i \<in> set ids"
  shows "\<exists>k\<in>set (recoverExpiredJobs busy (Some dev) now (pq_jobs d)). canClaim busy dev now k \<and> pj_id k = i"
proof -
  define js where "js = filter (canClaim busy dev now) (recoverExpiredJobs busy (Some dev) now (pq_jobs d))"
  have "i \<in> pj_id ` set (take limit (sort_key pj_createdAt (sort_key pj_id js)))"
    using assms unfolding claimJobs_def Let_def js_def [symmetric] by auto
  then have "i \<in> pj_id ` set js" using take_sorted by fast
  then show ?thesis by (auto simp: js_def)
qed

lemma claim_not_held:
  assumes "claimJobs env busy dev limit token now d = Inr (ids, d')" and "queue_ok d" and "heldIn i a (pq_jobs d)"
  shows "i \<notin> set ids"
proof
  assume "i \<in> set ids"
  define js where "js = recoverExpiredJobs busy (Some dev) now (pq_jobs d)"
  obtain k where k: "k \<in> set js" "canClaim busy dev now k" "pj_id k = i"
    using claim_candidate [OF assms(1) \<open>i \<in> set ids\<close>] unfolding js_def by blast
  have "jobs_ok (pq_nextId d) js" "heldIn i a js"
    using assms(2,3) safe_recover [of "\<lambda>_. False" busy "Some dev" now] by (simp_all add: js_def safe_def queue_ok_def)
  then obtain j where j: "j \<in> set js" "pj_id j = i" "handedOut j" and dist: "distinct (map pj_id js)"
    by (auto simp: heldIn_def jobs_ok_def)
  have "k = j" by (rule distinct_key_eq [OF dist k(1) j(1)]) (simp add: j(2) k(3))
  then show False using k(2) j(3) by (simp add: canClaim_def handedOut_def)
qed

lemma claim_held:
  assumes "claimJobs env busy dev limit token now d = Inr (ids, d')" and "i \<in> set ids"
  shows "\<exists>a. heldIn i a (pq_jobs d')"
proof -
  define js where "js = recoverExpiredJobs busy (Some dev) now (pq_jobs d)"
  define f where "f = leasedTo (pe_hash env token) now"
  note d' = claim_effect(1) [OF assms(1), folded js_def f_def]
  obtain k where k: "k \<in> set js" "canClaim busy dev now k" "pj_id k = i"
    using claim_candidate [OF assms] unfolding js_def by blast
  then have "f k \<in> set (pq_jobs d')" unfolding d' set_upd using assms(2) by force
  moreover have "pj_id (f k) = i" "handedOut (f k)" using k(3) by (simp_all add: f_def leasedTo_def handedOut_def)
  ultimately show ?thesis unfolding heldIn_def by blast
qed

text \<open>
  What the print queue promises: paper that may have come out is not printed again by itself, and the rows always
  satisfy the checks of their tables.
\<close>

definition press_job :: queueJob where
  "press_job = newJob Job_KITCHEN_TICKET (Kitchen_order [\<lparr>pl_orderItemId = 3, pl_quantity = 2\<rparr>]) (Some 1)
     (Kitchen_key (KitchenTicketKey 4)) 0 7\<lparr>pj_ticketId := Some 4\<rparr>"

definition press :: queueDb where
  "press = \<lparr>pq_nextId = 10, pq_printers = [newPrinter 1 ''bar'' Device_KITCHEN ''K80'' False ''k''], pq_jobs = [press_job],
     pq_documents = [], pq_shop = empty_db\<rparr>"

definition press_env :: printEnv where
  "press_env = \<lparr>pe_hash = (\<lambda>s. s), pe_upper = (\<lambda>s. s)\<rparr>"

lemmas press_simps = press_def press_job_def press_env_def newJob_def newPrinter_def leasedTo_def PRINT_JOB_LEASE_MS_def

lemma press_ok: "queue_ok press"
  by (simp add: press_simps queue_ok_def jobs_ok_def printers_ok_def rowOk_def valuesCheck_def sourceCheck_def stateCheck_def
      cnt_def receiptDefault_def)

lemma press_recover [simp]: "recoverExpiredJobs [] dev now [press_job] = [press_job]"
  by (simp add: recoverExpiredJobs_def press_simps leaseExpired_def upd_def)

lemma press_claim:
  "claimJobs press_env [] 1 5 ''t'' 100 press = Inr ([7], press\<lparr>pq_jobs := [leasedTo ''t'' 100 press_job]\<rparr>)"
proof -
  have "canClaim [] 1 100 press_job" "pj_id press_job = 7" by (simp_all add: canClaim_def press_simps)
  then show ?thesis
    by (simp add: claimJobs_def press_def newPrinter_def cnt_def upd_def press_env_def leasedTo_def)
qed

lemma press_review:
  "recoverExpiredLeases [] 90000 (press\<lparr>pq_jobs := [leasedTo ''t'' 100 press_job]\<rparr>) =
     press\<lparr>pq_jobs := [leasedTo ''t'' 100 press_job\<lparr>pj_status := Print_REQUIRES_REVIEW, pj_lockedAt := None, pj_leaseExpiresAt := None,
       pj_lastError := Some ''Print acknowledgement missing.'', pj_updatedAt := 90000\<rparr>]\<rparr>"
  by (simp add: recoverExpiredLeases_def recoverExpiredJobs_def leaseExpired_def upd_def press_simps)

lemma press_recovered: "queue_ok (recoverExpiredLeases [] 90000 (press\<lparr>pq_jobs := [leasedTo ''t'' 100 press_job]\<rparr>))"
  using kept_claim [OF press_claim] kept_recover [of "\<lambda>_. False"] press_ok unfolding kept_def by blast

lemma press_again:
  "claimJobs press_env [] 1 5 ''u'' 200000 (recoverExpiredLeases [] 90000 (press\<lparr>pq_jobs := [leasedTo ''t'' 100 press_job]\<rparr>)) =
     Inr ([], recoverExpiredLeases [] 90000 (press\<lparr>pq_jobs := [leasedTo ''t'' 100 press_job]\<rparr>))"
  unfolding press_review
  by (simp add: claimJobs_def recoverExpiredJobs_def leaseExpired_def canClaim_def upd_def cnt_def press_simps)

text \<open>C26: A job that an agent claimed is not handed out again, to this or another printer, whatever is requested,
  retried, recovered or moved in between, until the agent or an operator reports that no paper came out of it.\<close>

theorem claimed_once:
  assumes "queue_ok d" and "claimJobs env busy dev limit token now d = Inr (ids, d1)" and "i \<in> set ids"
    and "(queue_step hash env np)\<^sup>*\<^sup>* d1 d2" and "\<not> np i"
    and "claimJobs env busy' dev' limit' token' now' d2 = Inr (ids', d3)"
  shows "i \<notin> set ids'"
proof -
  obtain a where a: "heldIn i a (pq_jobs d1)" using claim_held [OF assms(2,3)] by blast
  have "queue_ok d1" using kept_claim [OF assms(2)] assms(1) by (simp add: kept_def)
  from queue_run [OF assms(4) this] show ?thesis using claim_not_held [OF assms(6)] a assms(5) by blast
qed

theorem claimed_once_witness:
  "\<exists>ids d. claimJobs press_env [] 1 5 ''u'' 200000 (recoverExpiredLeases [] 90000 (press\<lparr>pq_jobs := [leasedTo ''t'' 100 press_job]\<rparr>)) =
     Inr (ids, d) \<and> 7 \<notin> set ids"
proof -
  let ?d1 = "press\<lparr>pq_jobs := [leasedTo ''t'' 100 press_job]\<rparr>"
  have steps: "(queue_step (\<lambda>q. q) press_env (\<lambda>_. False))\<^sup>*\<^sup>* ?d1 (recoverExpiredLeases [] 90000 ?d1)"
    by (rule r_into_rtranclp) (rule queue_step.accepted [OF queue_write.recover rowsChecked_ok [OF press_recovered]])
  have "7 \<notin> set ([] :: id list)"
    by (rule claimed_once [OF press_ok press_claim _ steps _ press_again]) simp_all
  then show ?thesis using press_again by blast
qed

text \<open>C27: The CHECK constraints on the values, the source and the state of a print job are needed for one write only.
  From an empty queue, after any run of writes that the database accepted, every further write leaves only rows that
  satisfy them, although no operation tests them, except one: the division of a FAILED kitchen ticket appends a slip without
  \<open>failedAt\<close>, which they always refuse. And there is at most one default receipt printer, whatever is written.\<close>

theorem queue_rows_checked:
  assumes "(queue_step hash env np)\<^sup>*\<^sup>* d d1" and "pq_jobs d = []" and "pq_printers d = []" and "queue_write hash env np d1 d2"
  shows "(if \<exists>j\<in>set (pq_jobs d1). \<exists>emp key ls now. pj_type j = Job_KITCHEN_TICKET \<and> pj_status j = Print_FAILED \<and>
        insertJob (splitSlip emp key ls now j) d1 = Inr (pq_nextId d1, d2)
      then \<exists>j\<in>set (pq_jobs d2). \<not> stateCheck j
      else \<forall>j\<in>set (pq_jobs d2). valuesCheck j \<and> sourceCheck j \<and> stateCheck j) \<and>
    cnt receiptDefault (pq_printers d2) \<le> 1"
proof -
  have "queue_ok d" using assms(2,3) by (simp add: queue_ok_def jobs_ok_def printers_ok_def cnt_def)
  then have ok: "queue_ok d1" using queue_run [OF assms(1)] by blast
  note sf = splitsFailed_def [of d1 d2]
  show ?thesis
  proof (cases "splitsFailed d1 d2")
    case True
    obtain j emp key ls now where "pj_status j = Print_FAILED" "insertJob (splitSlip emp key ls now j) d1 = Inr (pq_nextId d1, d2)"
      using True unfolding sf by blast
    then have "\<exists>j\<in>set (pq_jobs d2). \<not> stateCheck j" using insertJob_rows failed_slip by force
    then show ?thesis using True ok splitsFailed_unchecked(2) [OF True] unfolding sf
      by (auto simp: queue_ok_def printers_ok_def)
  next
    case False
    then have "queue_ok d2" using queue_write_kept [OF assms(4) ok False] ok by (simp add: kept_def)
    then show ?thesis using False rowsChecked_ok [of d2] unfolding sf by (auto simp: queue_ok_def printers_ok_def rowsChecked_def)
  qed
qed

definition counter :: queueDb where
  "counter = \<lparr>pq_nextId = 1, pq_printers = [], pq_jobs = [], pq_documents = [],
     pq_shop = empty_db\<lparr>employees := [\<lparr>e_id = 5, e_fullName = ''Lan'', e_isActive = True, e_deletedAt = None\<rparr>]\<rparr>\<rparr>"

theorem queue_rows_checked_witness:
  "\<exists>d'. createDevice press_env 5 ''till'' Device_RECEIPT ''K80'' None ''k'' 0 counter = Inr (1, d') \<and> cnt receiptDefault (pq_printers d') \<le> 1"
proof -
  obtain d' where c: "createDevice press_env 5 ''till'' Device_RECEIPT ''K80'' None ''k'' 0 counter = Inr (1, d')"
    by (simp add: createDevice_def withActiveEmployee_def activeEmployee_def counter_def empty_db_def cnt_def clearDefault_def upd_def
        printersUnique_def press_env_def newPrinter_def Let_def)
  have "queue_write (\<lambda>q. q) press_env (\<lambda>_. False) counter d'" by (rule queue_write.create [OF c])
  from queue_rows_checked [OF _ _ _ this, of counter] show ?thesis using c by (auto simp: counter_def)
qed

end
