(* ===== verification/Kitchen_Board.thy ===== *)
theory Kitchen_Board
  imports Print_Queue "HOL-Library.Char_ord" "HOL-Library.List_Lexorder"
begin

text \<open>
  Kitchen stations and the board of tickets (\<open>src/app/kitchen/kitchen.service.ts\<close>). A station's code and name, and a
  ticket's number and creation time, are beside the tables of the shop; printers are those of the print queue. A
  ticket shows the state that the lines on it are in. \<open>toUpperCase\<close> is a parameter.
\<close>

section \<open>State\<close>

record stationText =
  sx_code :: string
  sx_name :: string

record boardDb =
  bd_queue :: queueDb
  bd_stations :: "id \<rightharpoonup> stationText"
  bd_createdAt :: "id \<Rightarrow> time"
  bd_sequence :: "id \<Rightarrow> nat"

abbreviation bd_shop :: "boardDb \<Rightarrow> db" where
  "bd_shop d \<equiv> pq_shop (bd_queue d)"

definition boardLog :: "id \<Rightarrow> string \<Rightarrow> id \<Rightarrow> boardDb \<Rightarrow> boardDb" where
  "boardLog emp act subj d = d\<lparr>bd_queue := auditPrint emp act subj (bd_queue d)\<rparr>"

definition setStations :: "kitchenStation list \<Rightarrow> boardDb \<Rightarrow> boardDb" where
  "setStations ss d = d\<lparr>bd_queue := (bd_queue d)\<lparr>pq_shop := (bd_shop d)\<lparr>kitchenStations := ss\<rparr>\<rparr>\<rparr>"

section \<open>Stations\<close>

definition assertKitchenDevice :: "id \<Rightarrow> boardDb \<Rightarrow> 'a res \<Rightarrow> 'a res" where
  "assertKitchenDevice i d k =
     require (\<exists>v\<in>set (pq_printers (bd_queue d)). pv_id v = i \<and> pv_type v = Device_KITCHEN \<and> pv_isActive v \<and> pv_deletedAt v = None)
       (Conflict ''an active kitchen print device is required'') k"

definition deviceGiven :: "id option \<Rightarrow> boardDb \<Rightarrow> 'a res \<Rightarrow> 'a res" where
  "deviceGiven dev d k = (case dev of None \<Rightarrow> k | Some i \<Rightarrow> assertKitchenDevice i d k)"

text \<open>The statuses of the lines on a ticket.\<close>

definition ticketStatuses :: "db \<Rightarrow> id \<Rightarrow> ServeStatus list" where
  "ticketStatuses s t = map o_status (filter (\<lambda>oi. \<exists>k\<in>set (kitchenTicketItems s). ki_ticketId k = t \<and> ki_orderItemId k = o_id oi) (orderItems s))"

definition openLine :: "ServeStatus \<Rightarrow> bool" where
  "openLine st \<longleftrightarrow> st = Serve_PENDING \<or> st = Serve_COOKING"

definition assertNoActiveTickets :: "id \<Rightarrow> boardDb \<Rightarrow> 'a res \<Rightarrow> 'a res" where
  "assertNoActiveTickets i d k =
     require (cnt (\<lambda>t. kt_stationId t = i \<and> (\<exists>st\<in>set (ticketStatuses (bd_shop d) (kt_id t)). openLine st)) (kitchenTickets (bd_shop d)) = 0)
       (Conflict ''pending or cooking tickets'') k"

definition stationCodes :: "(id \<rightharpoonup> stationText) \<Rightarrow> kitchenStation list \<Rightarrow> bool" where
  "stationCodes texts ss \<longleftrightarrow> distinct (map (\<lambda>s. map_option sx_code (texts (ks_id s))) (filter (\<lambda>s. ks_deletedAt s = None) ss))"

definition findStation :: "id \<Rightarrow> boardDb \<Rightarrow> kitchenStation option" where
  "findStation i d = find (\<lambda>s. ks_id s = i \<and> ks_deletedAt s = None) (kitchenStations (bd_shop d))"

definition createStation ::
  "(string \<Rightarrow> string) \<Rightarrow> id \<Rightarrow> string \<Rightarrow> string \<Rightarrow> int \<Rightarrow> id option \<Rightarrow> boardDb \<Rightarrow> (id \<times> boardDb) res"
where
  "createStation upper emp code name sla dev d =
     require (activeEmployee emp (bd_shop d)) (Unauthorized ''employee'')
     (deviceGiven dev d
     (let i = pq_nextId (bd_queue d);
          ss = kitchenStations (bd_shop d) @ [\<lparr>ks_id = i, ks_isActive = True, ks_deletedAt = None, ks_prepSlaSeconds = sla, ks_printDeviceId = dev\<rparr>];
          texts = (bd_stations d)(i \<mapsto> \<lparr>sx_code = upper code, sx_name = name\<rparr>) in
      require (stationCodes texts ss) (UniqueViolation ''KitchenStation'')
       (Inr (i, boardLog emp ''KITCHEN_STATION_CREATED'' i (setStations ss
         (d\<lparr>bd_stations := texts, bd_queue := (bd_queue d)\<lparr>pq_nextId := Suc i\<rparr>\<rparr>))))))"

record updateStationDto =
  us_code :: "string option"
  us_name :: "string option"
  us_sla :: "int option"
  us_device :: "id option option"
  us_isActive :: "bool option"

definition updateStation :: "(string \<Rightarrow> string) \<Rightarrow> id \<Rightarrow> id \<Rightarrow> updateStationDto \<Rightarrow> boardDb \<Rightarrow> boardDb res" where
  "updateStation upper i emp dto d =
     require (activeEmployee emp (bd_shop d)) (Unauthorized ''employee'')
     (fetch (findStation i d) (NotFound ''kitchen station'') (\<lambda>s.
      fetch (bd_stations d i) (NotFound ''kitchen station'') (\<lambda>x.
      deviceGiven (orSame (us_device dto) None) d
      ((if us_isActive dto = Some False \<and> ks_isActive s then assertNoActiveTickets i d else (\<lambda>k. k))
      (let ss = upd (\<lambda>s. ks_id s = i) (\<lambda>s. s\<lparr>ks_prepSlaSeconds := orSame (us_sla dto) (ks_prepSlaSeconds s),
             ks_printDeviceId := orSame (us_device dto) (ks_printDeviceId s), ks_isActive := orSame (us_isActive dto) (ks_isActive s)\<rparr>)
             (kitchenStations (bd_shop d));
           texts = (bd_stations d)(i \<mapsto> \<lparr>sx_code = orSame (map_option upper (us_code dto)) (sx_code x), sx_name = orSame (us_name dto) (sx_name x)\<rparr>) in
       require (stationCodes texts ss) (UniqueViolation ''KitchenStation'')
        (Inr (boardLog emp ''KITCHEN_STATION_UPDATED'' i (setStations ss (d\<lparr>bd_stations := texts\<rparr>)))))))))"

definition deleteStation :: "id \<Rightarrow> id \<Rightarrow> time \<Rightarrow> boardDb \<Rightarrow> boardDb res" where
  "deleteStation i emp now d =
     require (activeEmployee emp (bd_shop d)) (Unauthorized ''employee'')
     (fetch (findStation i d) (NotFound ''kitchen station'') (\<lambda>s.
      assertNoActiveTickets i d
      (require (cnt (\<lambda>m. mi_stationId m = Some i \<and> mi_deletedAt m = None) (menuItems (bd_shop d)) = 0) (Conflict ''unassign active menu items'')
       (Inr (boardLog emp ''KITCHEN_STATION_DELETED'' i (setStations
         (upd (\<lambda>s. ks_id s = i) (\<lambda>s. s\<lparr>ks_deletedAt := Some now, ks_isActive := False, ks_printDeviceId := None\<rparr>) (kitchenStations (bd_shop d))) d))))))"

definition getStation :: "id \<Rightarrow> boardDb \<Rightarrow> kitchenStation res" where
  "getStation i d = fetch (findStation i d) (NotFound ''kitchen station'') Inr"

section \<open>The board\<close>

datatype ticketState = Ticket_PENDING | Ticket_IN_PROGRESS | Ticket_COMPLETED | Ticket_CANCELLED

definition ticketStateOf :: "ServeStatus list \<Rightarrow> ticketState" where
  "ticketStateOf sts =
     (if \<forall>st\<in>set sts. st = Serve_CANCELLED then Ticket_CANCELLED
      else if \<forall>st\<in>set sts. st = Serve_READY \<or> st = Serve_SERVED \<or> st = Serve_CANCELLED then Ticket_COMPLETED
      else if \<exists>st\<in>set sts. st = Serve_COOKING \<or> st = Serve_READY \<or> st = Serve_SERVED then Ticket_IN_PROGRESS
      else Ticket_PENDING)"

record ticketView =
  tv_id :: id
  tv_sequence :: nat
  tv_code :: "string option"
  tv_state :: ticketState
  tv_isOverdue :: bool
  tv_dueAt :: time
  tv_availableAt :: time
  tv_isScheduled :: bool
  tv_sessionId :: id
  tv_items :: "(id \<times> int) list"

definition ticketViewOf :: "time \<Rightarrow> boardDb \<Rightarrow> kitchenTicket \<Rightarrow> ticketView" where
  "ticketViewOf now d t =
     (let st = ticketStateOf (ticketStatuses (bd_shop d) (kt_id t)) in
      \<lparr>tv_id = kt_id t, tv_sequence = bd_sequence d (kt_id t), tv_code = map_option sx_code (bd_stations d (kt_stationId t)), tv_state = st,
       tv_isOverdue = ((st = Ticket_PENDING \<or> st = Ticket_IN_PROGRESS) \<and> kt_dueAt t < now), tv_dueAt = kt_dueAt t,
       tv_availableAt = (case kt_availableAt t of None \<Rightarrow> bd_createdAt d (kt_id t) | Some a \<Rightarrow> a),
       tv_isScheduled = (case kt_availableAt t of None \<Rightarrow> False | Some a \<Rightarrow> now < a), tv_sessionId = kt_sessionId t,
       tv_items = map (\<lambda>k. (ki_orderItemId k, ki_quantity k)) (filter (\<lambda>k. ki_ticketId k = kt_id t) (kitchenTicketItems (bd_shop d)))\<rparr>)"

definition ticketWhere :: "id option \<Rightarrow> bool \<Rightarrow> bool \<Rightarrow> time \<Rightarrow> db \<Rightarrow> kitchenTicket \<Rightarrow> bool" where
  "ticketWhere station scheduled completed now s t \<longleftrightarrow>
     (station = None \<or> station = Some (kt_stationId t)) \<and>
     (scheduled \<or> (case kt_availableAt t of None \<Rightarrow> True | Some a \<Rightarrow> a \<le> now)) \<and>
     (completed \<or> (\<exists>st\<in>set (ticketStatuses s (kt_id t)). st = Serve_PENDING \<or> st = Serve_COOKING \<or> st = Serve_READY))"

definition getTickets :: "id option \<Rightarrow> bool \<Rightarrow> bool \<Rightarrow> nat \<Rightarrow> nat \<Rightarrow> time \<Rightarrow> boardDb \<Rightarrow> nat \<times> ticketView list" where
  "getTickets station scheduled completed page itemPerPage now d =
     (let rows = filter (ticketWhere station scheduled completed now (bd_shop d)) (kitchenTickets (bd_shop d)) in
      (length rows, map (ticketViewOf now d) (pageOf page itemPerPage (sort_key kt_dueAt (sort_key (\<lambda>t. bd_sequence d (kt_id t)) rows)))))"

definition getTicket :: "id \<Rightarrow> time \<Rightarrow> boardDb \<Rightarrow> ticketView res" where
  "getTicket i now d = fetch (find (\<lambda>t. kt_id t = i) (kitchenTickets (bd_shop d))) (NotFound ''kitchen ticket'') (\<lambda>t. Inr (ticketViewOf now d t))"

section \<open>Workload\<close>

definition DUE_SOON_WINDOW_MS :: time where
  "DUE_SOON_WINDOW_MS = 300000"

text \<open>The query joins lines, ticket items and tickets; \<open>openUnits\<close> sums the quantities of the open lines of a ticket.\<close>

definition openRows :: "time \<Rightarrow> db \<Rightarrow> (kitchenTicket \<times> int) list" where
  "openRows now s = concat (map (\<lambda>oi. concat (map (\<lambda>k. map (\<lambda>t. (t, ki_quantity k))
       (filter (\<lambda>t. kt_id t = ki_ticketId k \<and> (case kt_availableAt t of None \<Rightarrow> True | Some a \<Rightarrow> a \<le> now)) (kitchenTickets s)))
     (filter (\<lambda>k. ki_orderItemId k = o_id oi) (kitchenTicketItems s)))) (filter (\<lambda>oi. openLine (o_status oi)) (orderItems s)))"

definition activeTickets :: "time \<Rightarrow> db \<Rightarrow> (kitchenTicket \<times> int) list" where
  "activeTickets now s = (let rows = openRows now s in
     map (\<lambda>t. (t, sum_list (map snd (filter (\<lambda>r. kt_id (fst r) = kt_id t) rows)))) (remdups (map fst rows)))"

record workloadRow =
  wl_stationId :: id
  wl_openTickets :: nat
  wl_openUnits :: int
  wl_overdue :: nat
  wl_dueSoon :: nat
  wl_oldestOpenAt :: "time option"
  wl_nextDueAt :: "time option"

definition minOf :: "time list \<Rightarrow> time option" where
  "minOf ts = (if ts = [] then None else Some (Min (set ts)))"

definition stationWorkload :: "time \<Rightarrow> boardDb \<Rightarrow> kitchenStation \<Rightarrow> workloadRow" where
  "stationWorkload now d s =
     (let rows = filter (\<lambda>a. kt_stationId (fst a) = ks_id s) (activeTickets now (bd_shop d)); ts = map fst rows in
      \<lparr>wl_stationId = ks_id s, wl_openTickets = length rows, wl_openUnits = sum_list (map snd rows),
       wl_overdue = length (filter (\<lambda>t. kt_dueAt t < now) ts),
       wl_dueSoon = length (filter (\<lambda>t. now \<le> kt_dueAt t \<and> kt_dueAt t < now + DUE_SOON_WINDOW_MS) ts),
       wl_oldestOpenAt = minOf (map (\<lambda>t. case kt_availableAt t of None \<Rightarrow> bd_createdAt d (kt_id t) | Some a \<Rightarrow> a) ts),
       wl_nextDueAt = minOf (map kt_dueAt ts)\<rparr>)"

text \<open>The stations with the most overdue tickets first, then the most due soon, then the next one due.\<close>

definition getWorkload :: "time \<Rightarrow> boardDb \<Rightarrow> workloadRow list" where
  "getWorkload now d =
     (let code = (\<lambda>w. case bd_stations d (wl_stationId w) of None \<Rightarrow> [] | Some x \<Rightarrow> sx_code x);
          rows = map (stationWorkload now d) (filter (\<lambda>s. ks_deletedAt s = None) (kitchenStations (bd_shop d))) in
      sort_key (\<lambda>w. - int (wl_overdue w)) (sort_key (\<lambda>w. - int (wl_dueSoon w))
        (sort_key (\<lambda>w. if wl_nextDueAt w = None then 1 else 0 :: int) (sort_key (\<lambda>w. case wl_nextDueAt w of None \<Rightarrow> 0 | Some t \<Rightarrow> t)
        (sort_key code (sort_key wl_stationId rows))))))"

text \<open>
  The board of tickets and the workload of the stations are computed in two ways, one from the states shown, one by
  a query over the lines; they agree. A station is closed only when its board is clear.
\<close>

definition shownOpen :: "ticketView \<Rightarrow> bool" where
  "shownOpen v \<longleftrightarrow> tv_state v = Ticket_PENDING \<or> tv_state v = Ticket_IN_PROGRESS"

lemma state_open: "ticketStateOf sts = Ticket_PENDING \<or> ticketStateOf sts = Ticket_IN_PROGRESS \<longleftrightarrow> (\<exists>st\<in>set sts. openLine st)"
proof -
  have "(\<forall>st\<in>set sts. st = Serve_READY \<or> st = Serve_SERVED \<or> st = Serve_CANCELLED) \<longleftrightarrow> \<not> (\<exists>st\<in>set sts. openLine st)"
    unfolding openLine_def by (metis ServeStatus.distinct ServeStatus.exhaust)
  then show ?thesis unfolding ticketStateOf_def by (auto simp: openLine_def)
qed

lemma shownOpen_view: "shownOpen (ticketViewOf now d t) \<longleftrightarrow> (\<exists>st\<in>set (ticketStatuses (bd_shop d) (kt_id t)). openLine st)"
  unfolding state_open [symmetric] by (simp add: shownOpen_def ticketViewOf_def Let_def)

lemma overdue_view: "tv_isOverdue (ticketViewOf now d t) \<longleftrightarrow> shownOpen (ticketViewOf now d t) \<and> kt_dueAt t < now"
  by (simp add: shownOpen_def ticketViewOf_def Let_def)

section \<open>Workload\<close>

definition startedTicket :: "time \<Rightarrow> kitchenTicket \<Rightarrow> bool" where
  "startedTicket now t \<longleftrightarrow> (case kt_availableAt t of None \<Rightarrow> True | Some a \<Rightarrow> a \<le> now)"

lemma openRows_tickets:
  "fst ` set (openRows now s) = {t \<in> set (kitchenTickets s). startedTicket now t \<and> (\<exists>st\<in>set (ticketStatuses s (kt_id t)). openLine st)}"
  by (force simp: openRows_def ticketStatuses_def startedTicket_def image_iff)

lemma active_tickets: "map fst (activeTickets now s) = remdups (map fst (openRows now s))"
  by (simp add: activeTickets_def Let_def comp_def)

lemma length_filter_remdups:
  assumes "set xs = set (filter P ys)" and "distinct ys"
  shows "length (filter Q (remdups xs)) = length (filter (\<lambda>y. P y \<and> Q y) ys)"
proof -
  have "length (filter Q (remdups xs)) = card {x \<in> set xs. Q x}"
    using distinct_card [of "filter Q (remdups xs)"] by simp
  also have "{x \<in> set xs. Q x} = set (filter (\<lambda>y. P y \<and> Q y) ys)" using assms(1) by auto
  also have "card \<dots> = length (filter (\<lambda>y. P y \<and> Q y) ys)" using assms(2) by (intro distinct_card) simp
  finally show ?thesis .
qed

lemma active_count:
  assumes "distinct (kitchenTickets (bd_shop d))"
  shows "length (filter Q (map fst (activeTickets now (bd_shop d)))) =
    length (filter (\<lambda>t. (startedTicket now t \<and> shownOpen (ticketViewOf now d t)) \<and> Q t) (kitchenTickets (bd_shop d)))"
  unfolding active_tickets
proof (rule length_filter_remdups [OF _ assms])
  show "set (map fst (openRows now (bd_shop d))) =
      set (filter (\<lambda>t. startedTicket now t \<and> shownOpen (ticketViewOf now d t)) (kitchenTickets (bd_shop d)))"
    using openRows_tickets [of now "bd_shop d"] by (simp add: shownOpen_view)
qed

lemma where_board:
  "ticketWhere (Some i) False False now (bd_shop d) t \<and> shownOpen (ticketViewOf now d t) \<longleftrightarrow>
     (startedTicket now t \<and> shownOpen (ticketViewOf now d t)) \<and> kt_stationId t = i"
  unfolding shownOpen_view ticketWhere_def startedTicket_def openLine_def by auto

definition boardOf :: "id \<Rightarrow> time \<Rightarrow> boardDb \<Rightarrow> ticketView list" where
  "boardOf i now d = map (ticketViewOf now d) (filter (ticketWhere (Some i) False False now (bd_shop d)) (kitchenTickets (bd_shop d)))"

text \<open>The workload query counts as open tickets of a station exactly the tickets its board shows as pending or in
  progress, and as overdue exactly those it marks overdue.\<close>

theorem workload_is_board:
  assumes "distinct (map kt_id (kitchenTickets (bd_shop d)))"
  shows "wl_openTickets (stationWorkload now d s) = length (filter shownOpen (boardOf (ks_id s) now d)) \<and>
    wl_overdue (stationWorkload now d s) = length (filter tv_isOverdue (boardOf (ks_id s) now d))"
proof
  let ?T = "kitchenTickets (bd_shop d)"
  have dist: "distinct ?T" using assms by (simp add: distinct_map)
  have map_first: "map fst (filter (\<lambda>a. kt_stationId (fst a) = i) xs) = filter (\<lambda>t. kt_stationId t = i) (map fst xs)" for i xs
    by (induction xs) simp_all
  have "wl_openTickets (stationWorkload now d s) = length (filter (\<lambda>t. kt_stationId t = ks_id s) (map fst (activeTickets now (bd_shop d))))"
    unfolding map_first [symmetric] by (simp add: stationWorkload_def Let_def)
  also have "\<dots> = length (filter (\<lambda>t. (startedTicket now t \<and> shownOpen (ticketViewOf now d t)) \<and> kt_stationId t = ks_id s) ?T)"
    by (rule active_count [OF dist])
  also have "\<dots> = length (filter shownOpen (boardOf (ks_id s) now d))"
    unfolding where_board [symmetric] by (simp add: boardOf_def filter_map comp_def conj_commute)
  finally show "wl_openTickets (stationWorkload now d s) = length (filter shownOpen (boardOf (ks_id s) now d))" .
  have "wl_overdue (stationWorkload now d s) =
      length (filter (\<lambda>t. kt_stationId t = ks_id s \<and> kt_dueAt t < now) (map fst (activeTickets now (bd_shop d))))"
    by (simp add: stationWorkload_def Let_def filter_map comp_def conj_commute)
  also have "\<dots> = length (filter (\<lambda>t. (startedTicket now t \<and> shownOpen (ticketViewOf now d t)) \<and> (kt_stationId t = ks_id s \<and> kt_dueAt t < now)) ?T)"
    by (rule active_count [OF dist])
  also have "\<dots> = length (filter (\<lambda>t. ticketWhere (Some (ks_id s)) False False now (bd_shop d) t \<and> tv_isOverdue (ticketViewOf now d t)) ?T)"
    unfolding overdue_view conj_assoc [symmetric] where_board ..
  also have "\<dots> = length (filter tv_isOverdue (boardOf (ks_id s) now d))"
    by (simp add: boardOf_def filter_map comp_def conj_commute)
  finally show "wl_overdue (stationWorkload now d s) = length (filter tv_isOverdue (boardOf (ks_id s) now d))" .
qed

section \<open>Closing a station\<close>

lemma no_active_tickets:
  "assertNoActiveTickets i d k = Inr x \<longleftrightarrow>
     (\<forall>t\<in>set (kitchenTickets (bd_shop d)). kt_stationId t = i \<longrightarrow> \<not> shownOpen (ticketViewOf now d t)) \<and> k = Inr x"
  unfolding assertNoActiveTickets_def require_Inr_iff cnt_zero_iff shownOpen_view by auto

lemma deleted_station_clear:
  assumes "deleteStation i emp now d = Inr d'"
  shows "(\<forall>t\<in>set (kitchenTickets (bd_shop d')). kt_stationId t = i \<longrightarrow> \<not> shownOpen (ticketViewOf now d' t)) \<and>
    (\<forall>m\<in>set (menuItems (bd_shop d')). mi_stationId m = Some i \<longrightarrow> mi_deletedAt m \<noteq> None) \<and> findStation i d' = None"
proof -
  have d': "d' = boardLog emp ''KITCHEN_STATION_DELETED'' i (setStations
         (upd (\<lambda>s. ks_id s = i) (\<lambda>s. s\<lparr>ks_deletedAt := Some now, ks_isActive := False, ks_printDeviceId := None\<rparr>) (kitchenStations (bd_shop d))) d)"
    and clear: "\<forall>t\<in>set (kitchenTickets (bd_shop d)). kt_stationId t = i \<longrightarrow> \<not> shownOpen (ticketViewOf now d t)"
    and items: "\<forall>m\<in>set (menuItems (bd_shop d)). \<not> (mi_stationId m = Some i \<and> mi_deletedAt m = None)"
    using assms unfolding deleteStation_def require_Inr_iff fetch_Inr_iff no_active_tickets [of _ _ _ _ now] cnt_zero_iff sum.inject by blast+
  have same: "kitchenTickets (bd_shop d') = kitchenTickets (bd_shop d)" "menuItems (bd_shop d') = menuItems (bd_shop d)"
    "ticketStatuses (bd_shop d') t = ticketStatuses (bd_shop d) t" for t
    by (simp_all add: d' boardLog_def auditPrint_def setStations_def addLog_def ticketStatuses_def)
  let ?f = "\<lambda>s. s\<lparr>ks_deletedAt := Some now, ks_isActive := False, ks_printDeviceId := None\<rparr>"
  have ss: "kitchenStations (bd_shop d') = upd (\<lambda>s. ks_id s = i) ?f (kitchenStations (bd_shop d))"
    by (simp add: d' boardLog_def auditPrint_def setStations_def addLog_def)
  have "\<forall>s\<in>set (kitchenStations (bd_shop d')). \<not> (ks_id s = i \<and> ks_deletedAt s = None)"
    unfolding ss ball_upd by simp
  then have "findStation i d' = None" unfolding findStation_def find_None_iff by blast
  moreover have "\<forall>t\<in>set (kitchenTickets (bd_shop d')). kt_stationId t = i \<longrightarrow> \<not> shownOpen (ticketViewOf now d' t)"
    unfolding shownOpen_view same by (rule clear [unfolded shownOpen_view])
  moreover have "\<forall>m\<in>set (menuItems (bd_shop d')). mi_stationId m = Some i \<longrightarrow> mi_deletedAt m \<noteq> None"
    unfolding same using items by simp
  ultimately show ?thesis by (intro conjI)
qed

section \<open>A kitchen\<close>

definition galley :: boardDb where
  "galley = \<lparr>bd_queue = \<lparr>pq_nextId = 50, pq_printers = [], pq_jobs = [], pq_documents = [],
     pq_shop = empty_db\<lparr>kitchenStations := [\<lparr>ks_id = 1, ks_isActive = True, ks_deletedAt = None, ks_prepSlaSeconds = 60, ks_printDeviceId = None\<rparr>],
       kitchenTickets := [\<lparr>kt_id = 2, kt_stationId = 1, kt_sessionId = 9, kt_dueAt = 100, kt_availableAt = None\<rparr>],
       kitchenTicketItems := [\<lparr>ki_id = 3, ki_ticketId = 2, ki_orderItemId = 4, ki_quantity = 2\<rparr>],
       orderItems := [\<lparr>o_id = 4, o_sessionId = 9, o_menuItemId = 5, o_quantity = 2, o_price = 300, o_note = None, o_options = [],
         o_recipeAt = None, o_status = Serve_COOKING, o_isPaid = False, o_invoiceId = None, o_readyAt = None\<rparr>]\<rparr>\<rparr>,
     bd_stations = [1 \<mapsto> \<lparr>sx_code = ''BAR'', sx_name = ''Bar''\<rparr>], bd_createdAt = (\<lambda>_. 0), bd_sequence = (\<lambda>t. t)\<rparr>"

theorem workload_is_board_witness:
  "wl_openTickets (stationWorkload 500 galley (hd (kitchenStations (bd_shop galley)))) = 1 \<and> length (filter shownOpen (boardOf 1 500 galley)) = 1"
proof -
  have s: "ks_id (hd (kitchenStations (bd_shop galley))) = 1" by (simp add: galley_def)
  have "length (filter shownOpen (boardOf 1 500 galley)) = 1"
    by (simp add: boardOf_def galley_def empty_db_def ticketWhere_def ticketStatuses_def shownOpen_view openLine_def filter_map comp_def)
  then show ?thesis
    using workload_is_board [of galley 500 "hd (kitchenStations (bd_shop galley))"] unfolding s by (simp add: galley_def)
qed

end
