(* ===== verification/Menu_Admin.thy ===== *)
theory Menu_Admin
  imports Inventory Menu_Facts "HOL-Library.Char_ord" "HOL-Library.List_Lexorder"
begin

text \<open>
  Editing the menu (\<open>src/app/menu/menu.service.ts\<close>): categories, items, their recipes and options, and the
  reference an item holds to an uploaded picture (\<open>menu-images.service.ts\<close>). Prices, categories, recipes and
  options are the tables of the shop; the texts of an item and the uploads are beside it. Recipes and options are
  replaced as a whole, by an editor who has seen the current configuration: the revision is its hash. The hashes,
  the database's \<open>lower(btrim(..))\<close>, the public addresses of the storage and the test whether an address lies in
  it are parameters. Descriptions of categories are not kept.
\<close>

section \<open>State\<close>

datatype MenuImageStatus = Image_UPLOADING | Image_READY | Image_ATTACHED | Image_DELETING

record imageUpload =
  up_id :: id
  up_objectKey :: string
  up_url :: string
  up_status :: MenuImageStatus
  up_expiresAt :: "time option"
  up_employeeId :: id
  up_menuItemId :: "id option"

record menuText =
  mx_name :: string
  mx_description :: "string option"
  mx_imageUrl :: "string option"

record menuDb =
  md_shop :: db
  md_texts :: "id \<rightharpoonup> menuText"
  md_uploads :: "imageUpload list"

type_synonym optionConfig = "(string \<times> nat \<times> nat \<times> (string \<times> money \<times> (id \<times> qty) list) list) list"

record menuEnv =
  me_lower :: "string \<Rightarrow> string"
  me_recipeHash :: "(id \<times> qty) list \<Rightarrow> string"
  me_optionHash :: "optionConfig \<Rightarrow> string"
  me_key :: "id \<Rightarrow> string"
  me_publicUrl :: "string \<Rightarrow> string"
  me_managed :: "string \<Rightarrow> bool"

definition menuLog :: "id \<Rightarrow> string \<Rightarrow> id \<Rightarrow> menuDb \<Rightarrow> menuDb" where
  "menuLog emp act subj d = d\<lparr>md_shop := addLog emp act subj (md_shop d)\<rparr>"

definition menuEmployee :: "id \<Rightarrow> menuDb \<Rightarrow> 'a res \<Rightarrow> 'a res" where
  "menuEmployee emp d k = require (activeEmployee emp (md_shop d)) (Unauthorized ''employee'') k"

text \<open>\<open>menuChange f d\<close> changes the tables of the shop.\<close>

definition menuChange :: "(db \<Rightarrow> db) \<Rightarrow> menuDb \<Rightarrow> menuDb" where
  "menuChange f d = d\<lparr>md_shop := f (md_shop d)\<rparr>"

section \<open>Amounts\<close>

definition decimals :: "nat \<Rightarrow> rat \<Rightarrow> bool" where
  "decimals n v \<longleftrightarrow> of_int \<lfloor>v * 10 ^ n\<rfloor> = v * 10 ^ n"

definition toPrice :: "rat \<Rightarrow> money res" where
  "toPrice v = require (0 \<le> v \<and> decimals 2 v) (BadRequest ''price'') (Inr \<lfloor>v * 10 ^ 2\<rfloor>)"

text \<open>decimal.js calls zero positive.\<close>

definition toQuantity :: "rat \<Rightarrow> qty res" where
  "toQuantity v = require (0 \<le> v \<and> decimals 4 v) (BadRequest ''quantity'') (Inr \<lfloor>v * 10 ^ 4\<rfloor>)"

section \<open>Categories\<close>

definition findActiveCategory :: "id \<Rightarrow> menuDb \<Rightarrow> namedRow option" where
  "findActiveCategory i d = find (\<lambda>c. n_id c = i \<and> n_deletedAt c = None) (menuCategories (md_shop d))"

definition categoryNames :: "menuEnv \<Rightarrow> namedRow list \<Rightarrow> bool" where
  "categoryNames env cs \<longleftrightarrow> distinct (map (me_lower env \<circ> n_name) (filter (\<lambda>c. n_deletedAt c = None) cs))"

definition createMenuCategory :: "menuEnv \<Rightarrow> id \<Rightarrow> string \<Rightarrow> menuDb \<Rightarrow> (id \<times> menuDb) res" where
  "createMenuCategory env emp name d =
     menuEmployee emp d
     (let i = nextId (md_shop d); cs = menuCategories (md_shop d) @ [\<lparr>n_id = i, n_name = name, n_deletedAt = None\<rparr>] in
      require (categoryNames env cs) (UniqueViolation ''MenuCategory'')
       (Inr (i, menuLog emp ''MENU_CATEGORY_CREATED'' i (menuChange (\<lambda>s. s\<lparr>nextId := Suc i, menuCategories := cs\<rparr>) d))))"

definition updateMenuCategory :: "menuEnv \<Rightarrow> id \<Rightarrow> id \<Rightarrow> string option \<Rightarrow> menuDb \<Rightarrow> menuDb res" where
  "updateMenuCategory env i emp name d =
     menuEmployee emp d
     (fetch (findActiveCategory i d) (NotFound ''menu category'') (\<lambda>c.
      let cs = upd (\<lambda>c. n_id c = i) (\<lambda>c. c\<lparr>n_name := orElse name (n_name c)\<rparr>) (menuCategories (md_shop d)) in
      require (categoryNames env cs) (UniqueViolation ''MenuCategory'')
       (Inr (menuLog emp ''MENU_CATEGORY_UPDATED'' i (menuChange (\<lambda>s. s\<lparr>menuCategories := cs\<rparr>) d)))))"

definition deleteMenuCategory :: "id \<Rightarrow> id \<Rightarrow> time \<Rightarrow> menuDb \<Rightarrow> menuDb res" where
  "deleteMenuCategory i emp now d =
     menuEmployee emp d
     (fetch (findActiveCategory i d) (NotFound ''menu category'') (\<lambda>c.
      require (cnt (\<lambda>m. mi_categoryId m = i \<and> mi_deletedAt m = None) (menuItems (md_shop d)) = 0) (Conflict ''active menu items reference it'')
       (Inr (menuLog emp ''MENU_CATEGORY_DELETED'' i
         (menuChange (\<lambda>s. s\<lparr>menuCategories := upd (\<lambda>c. n_id c = i) (\<lambda>c. c\<lparr>n_deletedAt := Some now\<rparr>) (menuCategories s)\<rparr>) d)))))"

section \<open>Pictures\<close>

definition MENU_IMAGE_DRAFT_TTL_MS :: time where
  "MENU_IMAGE_DRAFT_TTL_MS = 86400000"

text \<open>A file is attached to the item it was uploaded for, or was attached to already; the file it replaces is left to the cleaner.\<close>

definition attachable :: "id \<Rightarrow> id \<Rightarrow> time \<Rightarrow> imageUpload \<Rightarrow> bool" where
  "attachable emp i now x \<longleftrightarrow>
     (up_status x = Image_READY \<and> up_employeeId x = emp \<and> up_menuItemId x = None \<and>
       (case up_expiresAt x of None \<Rightarrow> False | Some t \<Rightarrow> now < t)) \<or>
     (up_status x = Image_ATTACHED \<and> up_menuItemId x = Some i)"

definition syncReference :: "menuEnv \<Rightarrow> id \<Rightarrow> id \<Rightarrow> string option \<Rightarrow> time \<Rightarrow> imageUpload list \<Rightarrow> imageUpload list res" where
  "syncReference env emp i url now ups =
     andThen (case url of None \<Rightarrow> Inr ups
       | Some u \<Rightarrow> (case find (\<lambda>a. up_url a = u) ups of
           Some a \<Rightarrow> (let g = (\<lambda>x. up_id x = up_id a \<and> attachable emp i now x) in
             require (cnt g ups = 1) (Conflict ''IMAGE_UPLOAD_NOT_AVAILABLE'')
              (Inr (upd g (\<lambda>x. x\<lparr>up_status := Image_ATTACHED, up_menuItemId := Some i, up_expiresAt := None\<rparr>) ups)))
         | None \<Rightarrow> require (\<not> me_managed env u) (Conflict ''IMAGE_UPLOAD_NOT_AVAILABLE'') (Inr ups))) (\<lambda>ups.
     Inr (upd (\<lambda>x. up_menuItemId x = Some i \<and> up_status x = Image_ATTACHED \<and> url \<noteq> Some (up_url x))
       (\<lambda>x. x\<lparr>up_status := Image_DELETING, up_expiresAt := Some (now + MENU_IMAGE_DRAFT_TTL_MS)\<rparr>) ups))"

section \<open>Items\<close>

definition findActiveMenuItem :: "id \<Rightarrow> menuDb \<Rightarrow> menuItem option" where
  "findActiveMenuItem i d = find (\<lambda>m. mi_id m = i \<and> mi_deletedAt m = None \<and>
     (\<exists>c\<in>set (menuCategories (md_shop d)). n_id c = mi_categoryId m \<and> n_deletedAt c = None)) (menuItems (md_shop d))"

definition findActiveKitchenStation :: "id \<Rightarrow> menuDb \<Rightarrow> 'a res \<Rightarrow> 'a res" where
  "findActiveKitchenStation i d k =
     require (\<exists>s\<in>set (kitchenStations (md_shop d)). ks_id s = i \<and> ks_isActive s \<and> ks_deletedAt s = None) (NotFound ''kitchen station'') k"

definition stationGiven :: "id option \<Rightarrow> menuDb \<Rightarrow> 'a res \<Rightarrow> 'a res" where
  "stationGiven st d k = (case st of None \<Rightarrow> k | Some i \<Rightarrow> findActiveKitchenStation i d k)"

text \<open>Names of live items are unique within their category.\<close>

definition itemNames :: "menuEnv \<Rightarrow> (id \<rightharpoonup> menuText) \<Rightarrow> menuItem list \<Rightarrow> bool" where
  "itemNames env texts ms \<longleftrightarrow> distinct (map (\<lambda>m. (mi_categoryId m, map_option (me_lower env \<circ> mx_name) (texts (mi_id m))))
     (filter (\<lambda>m. mi_deletedAt m = None) ms))"

record createMenuItemDto =
  cm_name :: string
  cm_price :: rat
  cm_description :: "string option"
  cm_imageUrl :: "string option"
  cm_categoryId :: id
  cm_stationId :: "id option"

definition createMenuItem :: "menuEnv \<Rightarrow> id \<Rightarrow> createMenuItemDto \<Rightarrow> time \<Rightarrow> menuDb \<Rightarrow> (id \<times> menuDb) res" where
  "createMenuItem env emp dto now d =
     menuEmployee emp d
     (fetch (findActiveCategory (cm_categoryId dto) d) (NotFound ''menu category'') (\<lambda>c.
      stationGiven (cm_stationId dto) d
      (andThen (toPrice (cm_price dto)) (\<lambda>price.
       let i = nextId (md_shop d);
           ms = menuItems (md_shop d) @ [\<lparr>mi_id = i, mi_price = price, mi_isAvailable = True, mi_deletedAt = None,
             mi_categoryId = cm_categoryId dto, mi_stationId = cm_stationId dto, mi_groups = []\<rparr>];
           texts = (md_texts d)(i \<mapsto> \<lparr>mx_name = cm_name dto, mx_description = cm_description dto, mx_imageUrl = cm_imageUrl dto\<rparr>) in
       require (itemNames env texts ms) (UniqueViolation ''MenuItem'')
       (andThen (if cm_imageUrl dto = None then Inr (md_uploads d) else syncReference env emp i (cm_imageUrl dto) now (md_uploads d)) (\<lambda>ups.
        Inr (i, menuLog emp ''MENU_ITEM_CREATED'' i
          (menuChange (\<lambda>s. s\<lparr>nextId := Suc i, menuItems := ms\<rparr>) (d\<lparr>md_texts := texts, md_uploads := ups\<rparr>)))))))))"

text \<open>A field of the request that is missing keeps the column; the outer option tells them apart.\<close>

record updateMenuItemDto =
  um_name :: "string option"
  um_price :: "rat option"
  um_description :: "string option option"
  um_imageUrl :: "string option option"
  um_categoryId :: "id option"
  um_stationId :: "id option option"

definition updateMenuItem :: "menuEnv \<Rightarrow> id \<Rightarrow> id \<Rightarrow> updateMenuItemDto \<Rightarrow> time \<Rightarrow> menuDb \<Rightarrow> menuDb res" where
  "updateMenuItem env i emp dto now d =
     menuEmployee emp d
     (fetch (findActiveMenuItem i d) (NotFound ''menu item'') (\<lambda>m.
      fetch (md_texts d i) (NotFound ''menu item'') (\<lambda>t.
      (case um_categoryId dto of None \<Rightarrow> (\<lambda>k. k) | Some c \<Rightarrow> require (findActiveCategory c d \<noteq> None) (NotFound ''menu category''))
      (stationGiven (orElse (um_stationId dto) None) d
      (andThen (case um_price dto of None \<Rightarrow> Inr (mi_price m) | Some v \<Rightarrow> toPrice v) (\<lambda>price.
       let ms = upd (\<lambda>x. mi_id x = i) (\<lambda>x. x\<lparr>mi_price := price, mi_categoryId := orElse (um_categoryId dto) (mi_categoryId x),
             mi_stationId := orElse (um_stationId dto) (mi_stationId x)\<rparr>) (menuItems (md_shop d));
           texts = (md_texts d)(i \<mapsto> \<lparr>mx_name = orElse (um_name dto) (mx_name t), mx_description = orElse (um_description dto) (mx_description t),
             mx_imageUrl = orElse (um_imageUrl dto) (mx_imageUrl t)\<rparr>);
           url = orElse (um_imageUrl dto) (mx_imageUrl t) in
       require (itemNames env texts ms) (UniqueViolation ''MenuItem'')
       (andThen (if url = mx_imageUrl t then Inr (md_uploads d) else syncReference env emp i url now (md_uploads d)) (\<lambda>ups.
        Inr (menuLog emp ''MENU_ITEM_UPDATED'' i
          (menuChange (\<lambda>s. s\<lparr>menuItems := ms\<rparr>) (d\<lparr>md_texts := texts, md_uploads := ups\<rparr>)))))))))))"

definition updateItemAvailability :: "id \<Rightarrow> id \<Rightarrow> bool \<Rightarrow> menuDb \<Rightarrow> menuDb res" where
  "updateItemAvailability i emp avail d =
     menuEmployee emp d
     (fetch (findActiveMenuItem i d) (NotFound ''menu item'') (\<lambda>m.
      if mi_isAvailable m = avail then Inr d
      else Inr (menuLog emp ''MENU_ITEM_AVAILABILITY_UPDATED'' i
        (menuChange (\<lambda>s. s\<lparr>menuItems := upd (\<lambda>x. mi_id x = i) (\<lambda>x. x\<lparr>mi_isAvailable := avail\<rparr>) (menuItems s)\<rparr>) d))))"

definition deleteMenuItem :: "menuEnv \<Rightarrow> id \<Rightarrow> id \<Rightarrow> time \<Rightarrow> menuDb \<Rightarrow> menuDb res" where
  "deleteMenuItem env i emp now d =
     menuEmployee emp d
     (fetch (findActiveMenuItem i d) (NotFound ''menu item'') (\<lambda>m.
      require (\<forall>oi\<in>set (orderItems (md_shop d)). \<not> (o_menuItemId oi = i \<and> (o_status oi = Serve_PENDING \<or> o_status oi = Serve_COOKING) \<and>
          (\<exists>s\<in>set (orderSessions (md_shop d)). s_id s = o_sessionId oi \<and> s_status s = Session_ACTIVE))) (Conflict ''pending or cooking orders'')
      (andThen (syncReference env emp i None now (md_uploads d)) (\<lambda>ups.
       Inr (menuLog emp ''MENU_ITEM_DELETED'' i
         (menuChange (\<lambda>s. s\<lparr>menuItems := upd (\<lambda>x. mi_id x = i) (\<lambda>x. x\<lparr>mi_deletedAt := Some now, mi_isAvailable := False\<rparr>) (menuItems s),
            menuIngredients := del (\<lambda>g. g_menuItemId g = i) (menuIngredients s)\<rparr>) (d\<lparr>md_uploads := ups\<rparr>)))))))"

text \<open>
  The recipe and the options of a menu item (\<open>src/app/menu/menu.service.ts\<close>): reading them with their revision,
  and replacing them by an editor who names the revision seen. Identifiers are compared by their order in the
  database and by \<open>localeCompare\<close>, which agree on UUIDs.
\<close>

section \<open>Snapshots and revisions\<close>

definition recipeConfigSnapshot :: "(id \<times> qty) list \<Rightarrow> (id \<times> qty) list" where
  "recipeConfigSnapshot gs = sort_key fst gs"

definition optionSnapshot :: "menuOption \<Rightarrow> string \<times> money \<times> (id \<times> qty) list" where
  "optionSnapshot mo = (mo_name mo, mo_priceDelta mo, sort_key fst (map (\<lambda>og. (og_inventoryItemId og, og_quantity og)) (mo_ingredients mo)))"

definition optionConfigSnapshot :: "optionGroup list \<Rightarrow> optionConfig" where
  "optionConfigSnapshot gs = map (\<lambda>gr. (gr_name gr, gr_minSelected gr, gr_maxSelected gr, map optionSnapshot (gr_options gr))) gs"

text \<open>The revision is compared before the change is checked further.\<close>

definition assertRevision :: "string \<Rightarrow> string \<Rightarrow> 'a res \<Rightarrow> 'a res" where
  "assertRevision expected actual k = require (expected = actual) (Conflict ''MENU_CONFIGURATION_CHANGED'') k"

definition menuRecipe :: "id \<Rightarrow> db \<Rightarrow> (id \<times> qty) list" where
  "menuRecipe i s = sort_key fst (map (\<lambda>g. (g_inventoryItemId g, g_quantity g)) (filter (\<lambda>g. g_menuItemId g = i) (menuIngredients s)))"

definition activeIngredient :: "db \<Rightarrow> id \<Rightarrow> bool" where
  "activeIngredient s i \<longleftrightarrow> (\<exists>r\<in>set (inventoryItems s). i_id r = i \<and> i_deletedAt r = None)"

definition activeCount :: "db \<Rightarrow> id list \<Rightarrow> nat" where
  "activeCount s ids = cnt (\<lambda>r. i_id r \<in> set ids \<and> i_deletedAt r = None) (inventoryItems s)"

section \<open>The recipe\<close>

definition getItemRecipe :: "menuEnv \<Rightarrow> id \<Rightarrow> menuDb \<Rightarrow> ((id \<times> qty) list \<times> string) res" where
  "getItemRecipe env i d =
     fetch (findActiveMenuItem i d) (NotFound ''menu item'') (\<lambda>m.
     let gs = menuRecipe i (md_shop d) in
     Inr (filter (\<lambda>g. activeIngredient (md_shop d) (fst g)) gs, me_recipeHash env (recipeConfigSnapshot gs)))"

definition recipeCheck :: "menuIngredient list \<Rightarrow> bool" where
  "recipeCheck gs \<longleftrightarrow> (\<forall>g\<in>set gs. 0 < g_quantity g)"

definition replaceItemRecipe ::
  "menuEnv \<Rightarrow> id \<Rightarrow> id \<Rightarrow> string \<Rightarrow> (id \<times> rat) list \<Rightarrow> menuDb \<Rightarrow> (((id \<times> qty) list \<times> string) \<times> menuDb) res"
where
  "replaceItemRecipe env i emp expected gs d =
     menuEmployee emp d
     (fetch (findActiveMenuItem i d) (NotFound ''menu item'') (\<lambda>m.
      require (distinct (map fst gs)) (Conflict ''duplicate inventory items'')
      (require (activeCount (md_shop d) (map fst gs) = length gs) (NotFound ''inventory items'')
      (andThen (mapM (\<lambda>g. andThen (toQuantity (snd g)) (\<lambda>q. Inr (fst g, q))) gs) (\<lambda>qs.
       let next = sort_key fst qs; cur = menuRecipe i (md_shop d);
           rows = map (\<lambda>g. \<lparr>g_menuItemId = i, g_inventoryItemId = fst g, g_quantity = snd g\<rparr>) next in
       assertRevision expected (me_recipeHash env (recipeConfigSnapshot cur))
       (require (cur = next \<or> recipeCheck rows) (Conflict ''check MenuItemIngredient'')
       (let d' = (if cur = next then d else menuLog emp ''MENU_RECIPE_REPLACED'' i
             (menuChange (\<lambda>s. s\<lparr>menuIngredients := del (\<lambda>g. g_menuItemId g = i) (menuIngredients s) @ rows\<rparr>) d));
            seen = filter (\<lambda>g. activeIngredient (md_shop d') (fst g)) (menuRecipe i (md_shop d')) in
        Inr ((seen, me_recipeHash env (recipeConfigSnapshot seen)), d'))))))))"

section \<open>Options\<close>

record optionInput =
  ox_name :: string
  ox_priceDelta :: rat
  ox_ingredients :: "(id \<times> rat) list"

record groupInput =
  gx_name :: string
  gx_minSelected :: nat
  gx_maxSelected :: nat
  gx_options :: "optionInput list"

text \<open>The schema of the request, and the checks of the tables.\<close>

definition groupSchema :: "(string \<Rightarrow> string) \<Rightarrow> groupInput \<Rightarrow> bool" where
  "groupSchema lower gr \<longleftrightarrow> gx_minSelected gr \<le> gx_maxSelected gr \<and> 1 \<le> gx_maxSelected gr \<and> gx_maxSelected gr \<le> length (gx_options gr) \<and>
     length (gx_options gr) \<le> 10 \<and> distinct (map (lower \<circ> ox_name) (gx_options gr)) \<and>
     (\<forall>ox\<in>set (gx_options gr). length (ox_ingredients ox) \<le> 10 \<and> distinct (map fst (ox_ingredients ox)))"

definition optionsSchema :: "(string \<Rightarrow> string) \<Rightarrow> groupInput list \<Rightarrow> bool" where
  "optionsSchema lower gs \<longleftrightarrow> length gs \<le> 5 \<and> (\<forall>gr\<in>set gs. groupSchema lower gr) \<and> sum_list (map gx_minSelected gs) \<le> 20 \<and>
     distinct (map (lower \<circ> gx_name) gs)"

definition groupsCheck :: "optionGroup list \<Rightarrow> bool" where
  "groupsCheck gs \<longleftrightarrow> distinct (map gr_name gs) \<and>
     (\<forall>gr\<in>set gs. 1 \<le> gr_maxSelected gr \<and> gr_maxSelected gr \<le> 20 \<and> gr_minSelected gr \<le> gr_maxSelected gr \<and>
       distinct (map mo_name (gr_options gr)) \<and>
       (\<forall>mo\<in>set (gr_options gr). 0 \<le> mo_priceDelta mo \<and> distinct (map og_inventoryItemId (mo_ingredients mo)) \<and>
         (\<forall>og\<in>set (mo_ingredients mo). 0 < og_quantity og)))"

text \<open>\<open>toFixed\<close> rounds what was asked for.\<close>

definition inputSnapshot :: "groupInput list \<Rightarrow> optionConfig" where
  "inputSnapshot gs = map (\<lambda>gr. (gx_name gr, gx_minSelected gr, gx_maxSelected gr,
     map (\<lambda>ox. (ox_name ox, to_dp 2 (ox_priceDelta ox), sort_key fst (map (\<lambda>g. (fst g, to_dp 4 (snd g))) (ox_ingredients ox)))) (gx_options gr))) gs"

fun optionRows :: "id \<Rightarrow> optionInput list \<Rightarrow> menuOption list res" where
  "optionRows n [] = Inr []"
| "optionRows n (ox # oxs) =
     andThen (toPrice (ox_priceDelta ox)) (\<lambda>p.
     andThen (mapM (\<lambda>g. andThen (toQuantity (snd g)) (\<lambda>q. Inr \<lparr>og_inventoryItemId = fst g, og_quantity = q\<rparr>)) (ox_ingredients ox)) (\<lambda>ogs.
     andThen (optionRows (Suc n) oxs) (\<lambda>mos.
     Inr (\<lparr>mo_id = n, mo_name = ox_name ox, mo_priceDelta = p, mo_ingredients = ogs\<rparr> # mos))))"

fun groupRows :: "id \<Rightarrow> groupInput list \<Rightarrow> optionGroup list res" where
  "groupRows n [] = Inr []"
| "groupRows n (gr # grs) =
     andThen (optionRows n (gx_options gr)) (\<lambda>mos.
     andThen (groupRows (n + length mos) grs) (\<lambda>rest.
     Inr (\<lparr>gr_name = gx_name gr, gr_minSelected = gx_minSelected gr, gr_maxSelected = gx_maxSelected gr, gr_options = mos\<rparr> # rest)))"

definition optionIngredientIds :: "groupInput list \<Rightarrow> id list" where
  "optionIngredientIds gs = remdups (concat (map (\<lambda>gr. concat (map (\<lambda>ox. map fst (ox_ingredients ox)) (gx_options gr))) gs))"

definition getItemOptions :: "menuEnv \<Rightarrow> id \<Rightarrow> menuDb \<Rightarrow> (optionGroup list \<times> string) res" where
  "getItemOptions env i d =
     fetch (findActiveMenuItem i d) (NotFound ''menu item'') (\<lambda>m.
     Inr (mi_groups m, me_optionHash env (optionConfigSnapshot (mi_groups m))))"

definition replaceItemOptions ::
  "menuEnv \<Rightarrow> id \<Rightarrow> id \<Rightarrow> string \<Rightarrow> groupInput list \<Rightarrow> menuDb \<Rightarrow> ((optionGroup list \<times> string) \<times> menuDb) res"
where
  "replaceItemOptions env i emp expected gs d =
     menuEmployee emp d
     (fetch (findActiveMenuItem i d) (NotFound ''menu item'') (\<lambda>m.
      require (activeCount (md_shop d) (optionIngredientIds gs) = length (optionIngredientIds gs)) (NotFound ''inventory items'')
      (let before = optionConfigSnapshot (mi_groups m) in
       assertRevision expected (me_optionHash env before)
       (if before = inputSnapshot gs then Inr ((mi_groups m, me_optionHash env before), d)
        else andThen (groupRows (nextId (md_shop d)) gs) (\<lambda>rows.
          require (groupsCheck rows) (Conflict ''check MenuItemOptionGroup'')
           (Inr ((rows, me_optionHash env (optionConfigSnapshot rows)), menuLog emp ''MENU_OPTIONS_REPLACED'' i
             (menuChange (\<lambda>s. s\<lparr>nextId := nextId s + length (concat (map gr_options rows)),
                menuItems := upd (\<lambda>x. mi_id x = i) (\<lambda>x. x\<lparr>mi_groups := rows\<rparr>) (menuItems s)\<rparr>) d))))))))"

section \<open>What the public sees, and stock\<close>

definition publicMenuItem :: "menuDb \<Rightarrow> menuItem \<Rightarrow> bool" where
  "publicMenuItem d m \<longleftrightarrow> mi_deletedAt m = None \<and> mi_isAvailable m \<and>
     (\<exists>c\<in>set (menuCategories (md_shop d)). n_id c = mi_categoryId m \<and> n_deletedAt c = None) \<and>
     (mi_stationId m = None \<or> (\<exists>s\<in>set (kitchenStations (md_shop d)). Some (ks_id s) = mi_stationId m \<and> ks_isActive s \<and> ks_deletedAt s = None))"

definition getPublicCategories :: "menuDb \<Rightarrow> namedRow list" where
  "getPublicCategories d = sort_key n_name (sort_key n_id (filter (\<lambda>c. n_deletedAt c = None \<and>
     (\<exists>m\<in>set (menuItems (md_shop d)). mi_categoryId m = n_id c \<and> mi_deletedAt m = None \<and> mi_isAvailable m \<and>
        (mi_stationId m = None \<or> (\<exists>s\<in>set (kitchenStations (md_shop d)). Some (ks_id s) = mi_stationId m \<and> ks_isActive s \<and> ks_deletedAt s = None))))
     (menuCategories (md_shop d))))"

datatype stockStatus = Stock_UNTRACKED | Stock_INSUFFICIENT | Stock_LOW | Stock_OK

text \<open>The risk of a recipe: an ingredient that is gone or does not suffice for one cup, else one at its reorder point.\<close>

definition itemRisk :: "(qty \<times> inventoryItem) list \<Rightarrow> stockStatus \<times> id list" where
  "itemRisk gs =
     (let insufficient = filter (\<lambda>(q, r). i_deletedAt r \<noteq> None \<or> i_stock r < q) gs;
          low = filter (\<lambda>(q, r). i_deletedAt r = None \<and> i_stock r \<le> i_reorder r) gs in
      (if gs = [] then Stock_UNTRACKED else if insufficient \<noteq> [] then Stock_INSUFFICIENT else if low \<noteq> [] then Stock_LOW else Stock_OK,
       map (i_id \<circ> snd) (if insufficient \<noteq> [] then insufficient else low)))"

definition getMenuItemById :: "id \<Rightarrow> menuDb \<Rightarrow> menuItem res" where
  "getMenuItemById i d = fetch (findActiveMenuItem i d) (NotFound ''menu item'') Inr"

end
