(* ===== verification/Menu_Images.thy ===== *)
theory Menu_Images
  imports Menu_Admin
begin

text \<open>
  Pictures of menu items (\<open>src/app/menu/menu-images.service.ts\<close>). A file is announced in the database before it is
  sent to the storage, and marked for deletion in the database before it is removed, so the storage and the
  database are never changed together. \<open>imageWorld\<close> holds the database, the files of the bucket, the uploads under
  way (with the answer of the storage) and the files a cleaner claimed. Decoding and converting a picture is the
  sharp library's. The configuration is fixed while the server runs.
\<close>

section \<open>Accepting a file\<close>

datatype imageFormat = Jpeg | Png | Webp

definition imageFormatOf :: "string \<Rightarrow> int list \<Rightarrow> imageFormat option" where
  "imageFormatOf mime bytes =
     (if mime = ''image/jpeg'' \<and> take 3 bytes = [255, 216, 255] then Some Jpeg
      else if mime = ''image/png'' \<and> take 8 bytes = [137, 80, 78, 71, 13, 10, 26, 10] then Some Png
      else if mime = ''image/webp'' \<and> take 4 bytes = [82, 73, 70, 70] \<and> take 4 (drop 8 bytes) = [87, 69, 66, 80] then Some Webp
      else None)"

definition MENU_IMAGE_MAX_BYTES :: nat where "MENU_IMAGE_MAX_BYTES = 2097152"

text \<open>\<open>decode\<close> is what sharp reads: the format, the number of pages, and the converted picture.\<close>

definition normalizeImage :: "(int list \<Rightarrow> (imageFormat \<times> nat \<times> 'p) option) \<Rightarrow> (string \<times> int list) option \<Rightarrow> 'p res" where
  "normalizeImage decode file =
     fetch file (BadRequest ''IMAGE_UPLOAD_INVALID'') (\<lambda>(mime, bytes).
     require (bytes \<noteq> [] \<and> length bytes \<le> MENU_IMAGE_MAX_BYTES) (BadRequest ''IMAGE_UPLOAD_INVALID'')
     (fetch (imageFormatOf mime bytes) (BadRequest ''IMAGE_UPLOAD_INVALID'') (\<lambda>fmt.
      fetch (decode bytes) (BadRequest ''IMAGE_UPLOAD_INVALID'') (\<lambda>(real, pages, picture).
      require (real = fmt \<and> pages \<le> 1) (BadRequest ''IMAGE_UPLOAD_INVALID'') (Inr picture)))))"

section \<open>Uploading\<close>

definition announceUpload :: "menuEnv \<Rightarrow> id \<Rightarrow> time \<Rightarrow> menuDb \<Rightarrow> id \<times> menuDb" where
  "announceUpload env emp now d =
     (let i = nextId (md_shop d) in
      (i, menuChange (\<lambda>s. s\<lparr>nextId := Suc i\<rparr>) (d\<lparr>md_uploads := md_uploads d @ [\<lparr>up_id = i, up_objectKey = me_key env i,
         up_url = me_publicUrl env (me_key env i), up_status = Image_UPLOADING, up_expiresAt = Some (now + MENU_IMAGE_DRAFT_TTL_MS),
         up_employeeId = emp, up_menuItemId = None\<rparr>]\<rparr>)))"

definition finishUpload :: "id \<Rightarrow> id \<Rightarrow> time \<Rightarrow> menuDb \<Rightarrow> menuDb res" where
  "finishUpload i emp now d =
     (let g = (\<lambda>x. up_id x = i \<and> up_status x = Image_UPLOADING \<and> (case up_expiresAt x of None \<Rightarrow> False | Some t \<Rightarrow> now < t)) in
      require (cnt g (md_uploads d) = 1) (Conflict ''IMAGE_UPLOAD_NOT_AVAILABLE'')
       (Inr (menuLog emp ''MENU_IMAGE_UPLOADED'' i (d\<lparr>md_uploads := upd g (\<lambda>x. x\<lparr>up_status := Image_READY\<rparr>) (md_uploads d)\<rparr>))))"

section \<open>Cleaning\<close>

definition cleanable :: "time \<Rightarrow> imageUpload \<Rightarrow> bool" where
  "cleanable now x \<longleftrightarrow> up_status x \<noteq> Image_ATTACHED \<and> (case up_expiresAt x of None \<Rightarrow> False | Some t \<Rightarrow> t \<le> now)"

definition cleanupCandidates :: "time \<Rightarrow> menuDb \<Rightarrow> imageUpload list" where
  "cleanupCandidates now d = take 25 (sort_key (\<lambda>x. the (up_expiresAt x)) (sort_key up_id (filter (cleanable now) (md_uploads d))))"

text \<open>An upload of another configuration is put off.\<close>

definition postponeUpload :: "id \<Rightarrow> time \<Rightarrow> time \<Rightarrow> menuDb \<Rightarrow> menuDb" where
  "postponeUpload i now now' d = d\<lparr>md_uploads := upd (\<lambda>x. up_id x = i \<and> cleanable now x)
     (\<lambda>x. x\<lparr>up_expiresAt := Some (now' + MENU_IMAGE_DRAFT_TTL_MS)\<rparr>) (md_uploads d)\<rparr>"

definition claimUpload :: "id \<Rightarrow> time \<Rightarrow> time \<Rightarrow> menuDb \<Rightarrow> menuDb option" where
  "claimUpload i now lease d =
     (let g = (\<lambda>x. up_id x = i \<and> cleanable now x) in
      if cnt g (md_uploads d) = 0 then None
      else Some (d\<lparr>md_uploads := upd g (\<lambda>x. x\<lparr>up_status := Image_DELETING, up_expiresAt := Some lease\<rparr>) (md_uploads d)\<rparr>))"

definition forgetUpload :: "id \<Rightarrow> time \<Rightarrow> menuDb \<Rightarrow> menuDb" where
  "forgetUpload i lease d =
     d\<lparr>md_uploads := del (\<lambda>x. up_id x = i \<and> up_status x = Image_DELETING \<and> up_expiresAt x = Some lease) (md_uploads d)\<rparr>"

section \<open>Steps\<close>

record imageWorld =
  iw_db :: menuDb
  iw_files :: "string set"
  iw_uploading :: "(id \<times> bool) list"
  iw_removing :: "(id \<times> string \<times> time) list"

text \<open>An upload that is not answered may still have stored its file, at any later time; a removal that is not answered may have
  removed it. \<open>finish\<close> also stands for the upload that comes too late, whose row is gone or claimed.\<close>

inductive image_step :: "menuEnv \<Rightarrow> imageWorld \<Rightarrow> imageWorld \<Rightarrow> bool" for env :: menuEnv where
  announce: "announceUpload env emp now (iw_db w) = (i, d') \<Longrightarrow>
    image_step env w (w\<lparr>iw_db := d', iw_uploading := iw_uploading w @ [(i, False)]\<rparr>)"
| stored: "(i, b) \<in> set (iw_uploading w) \<Longrightarrow>
    image_step env w (w\<lparr>iw_files := insert (me_key env i) (iw_files w), iw_uploading := iw_uploading w @ [(i, True)]\<rparr>)"
| stored_unknown: "(i, b) \<in> set (iw_uploading w) \<Longrightarrow> image_step env w (w\<lparr>iw_files := insert (me_key env i) (iw_files w)\<rparr>)"
| finish: "(i, True) \<in> set (iw_uploading w) \<Longrightarrow> finishUpload i emp now (iw_db w) = Inr d' \<Longrightarrow> image_step env w (w\<lparr>iw_db := d'\<rparr>)"
| postpone: "image_step env w (w\<lparr>iw_db := postponeUpload i now now' (iw_db w)\<rparr>)"
| claim: "x \<in> set (md_uploads (iw_db w)) \<Longrightarrow> claimUpload (up_id x) now lease (iw_db w) = Some d' \<Longrightarrow>
    image_step env w (w\<lparr>iw_db := d', iw_removing := iw_removing w @ [(up_id x, up_objectKey x, lease)]\<rparr>)"
| remove: "(i, k, lease) \<in> set (iw_removing w) \<Longrightarrow> image_step env w (w\<lparr>iw_files := iw_files w - {k}\<rparr>)"
| forget: "(i, k, lease) \<in> set (iw_removing w) \<Longrightarrow> image_step env w (w\<lparr>iw_db := forgetUpload i lease (iw_db w)\<rparr>)"
| create_item: "createMenuItem env emp dto now (iw_db w) = Inr (i, d') \<Longrightarrow> image_step env w (w\<lparr>iw_db := d'\<rparr>)"
| update_item: "updateMenuItem env i emp udto now (iw_db w) = Inr d' \<Longrightarrow> image_step env w (w\<lparr>iw_db := d'\<rparr>)"
| delete_item: "deleteMenuItem env i emp now (iw_db w) = Inr d' \<Longrightarrow> image_step env w (w\<lparr>iw_db := d'\<rparr>)"
| availability: "updateItemAvailability i emp b (iw_db w) = Inr d' \<Longrightarrow> image_step env w (w\<lparr>iw_db := d'\<rparr>)"
| recipe: "replaceItemRecipe env i emp rv gs (iw_db w) = Inr (r, d') \<Longrightarrow> image_step env w (w\<lparr>iw_db := d'\<rparr>)"
| options: "replaceItemOptions env i emp rv ogs (iw_db w) = Inr (ro, d') \<Longrightarrow> image_step env w (w\<lparr>iw_db := d'\<rparr>)"
| new_category: "createMenuCategory env emp name (iw_db w) = Inr (i, d') \<Longrightarrow> image_step env w (w\<lparr>iw_db := d'\<rparr>)"
| change_category: "updateMenuCategory env i emp oname (iw_db w) = Inr d' \<Longrightarrow> image_step env w (w\<lparr>iw_db := d'\<rparr>)"
| delete_category: "deleteMenuCategory i emp now (iw_db w) = Inr d' \<Longrightarrow> image_step env w (w\<lparr>iw_db := d'\<rparr>)"
| elsewhere: "nextId (md_shop (iw_db w)) \<le> nextId s \<Longrightarrow> menuItems s = menuItems (md_shop (iw_db w)) \<Longrightarrow>
    image_step env w (w\<lparr>iw_db := (iw_db w)\<lparr>md_shop := s\<rparr>\<rparr>)"

end
