(* ===== verification/Menu_Images_Facts.thy ===== *)
theory Menu_Images_Facts
  imports Menu_Images
begin

text \<open>
  The pictures of the menu are there: what links items and uploads, what links uploads and files, and that every
  step keeps both.
\<close>

section \<open>Items and uploads\<close>

definition liveItem :: "id \<Rightarrow> menuItem list \<Rightarrow> bool" where
  "liveItem i ms \<longleftrightarrow> (\<exists>m\<in>set ms. mi_id m = i \<and> mi_deletedAt m = None)"

text \<open>The address a live item shows.\<close>

definition pictures :: "menuDb \<Rightarrow> id \<Rightarrow> string option" where
  "pictures d i = (if liveItem i (menuItems (md_shop d)) then Option.bind (md_texts d i) mx_imageUrl else None)"

definition pictureLinks :: "menuEnv \<Rightarrow> imageUpload list \<Rightarrow> (id \<Rightarrow> string option) \<Rightarrow> bool" where
  "pictureLinks env ups pic \<longleftrightarrow>
     (\<forall>x\<in>set ups. up_status x = Image_ATTACHED \<longrightarrow> (\<exists>i. up_menuItemId x = Some i \<and> pic i = Some (up_url x))) \<and>
     (\<forall>i u. pic i = Some u \<longrightarrow> me_managed env u \<longrightarrow>
        (\<exists>x\<in>set ups. up_status x = Image_ATTACHED \<and> up_menuItemId x = Some i \<and> up_url x = u))"

text \<open>The life of a row: what it is never changes, and a row that is being deleted stays so.\<close>

definition ripens :: "imageUpload \<Rightarrow> imageUpload \<Rightarrow> bool" where
  "ripens x y \<longleftrightarrow> up_id y = up_id x \<and> up_objectKey y = up_objectKey x \<and> up_url y = up_url x \<and>
     (up_status x = Image_DELETING \<longrightarrow> up_status y = Image_DELETING) \<and>
     (up_status y = Image_UPLOADING \<longrightarrow> up_status x = Image_UPLOADING) \<and>
     (up_status x = Image_UPLOADING \<longrightarrow> up_status y \<noteq> Image_ATTACHED \<and> up_status y \<noteq> Image_READY)"

definition syncRow :: "id \<Rightarrow> id \<Rightarrow> string option \<Rightarrow> time \<Rightarrow> imageUpload \<Rightarrow> imageUpload" where
  "syncRow emp i url now x =
     (if url = Some (up_url x) then x\<lparr>up_status := Image_ATTACHED, up_menuItemId := Some i, up_expiresAt := None\<rparr>
      else if up_menuItemId x = Some i \<and> up_status x = Image_ATTACHED
      then x\<lparr>up_status := Image_DELETING, up_expiresAt := Some (now + MENU_IMAGE_DRAFT_TTL_MS)\<rparr> else x)"

text \<open>The whole of \<open>syncReference\<close>, row by row.\<close>

lemma sync_rows:
  assumes "syncReference env emp i url now ups = Inr ups'" and "distinct (map up_id ups)" "distinct (map up_url ups)"
  shows "ups' = map (syncRow emp i url now) ups"
    and "\<forall>x\<in>set ups. url = Some (up_url x) \<longrightarrow> attachable emp i now x"
    and "\<forall>u. url = Some u \<longrightarrow> me_managed env u \<longrightarrow> (\<exists>x\<in>set ups. up_url x = u)"
proof -
  let ?g = "\<lambda>x. up_menuItemId x = Some i \<and> up_status x = Image_ATTACHED \<and> url \<noteq> Some (up_url x)"
  let ?f = "\<lambda>x. x\<lparr>up_status := Image_DELETING, up_expiresAt := Some (now + MENU_IMAGE_DRAFT_TTL_MS)\<rparr>"
  let ?h = "\<lambda>x. x\<lparr>up_status := Image_ATTACHED, up_menuItemId := Some i, up_expiresAt := None\<rparr>"
  have "ups' = map (syncRow emp i url now) ups \<and> (\<forall>x\<in>set ups. url = Some (up_url x) \<longrightarrow> attachable emp i now x) \<and>
      (\<forall>u. url = Some u \<longrightarrow> me_managed env u \<longrightarrow> (\<exists>x\<in>set ups. up_url x = u))"
  proof (cases url)
    case None
    then have "ups' = upd ?g ?f ups" using assms(1) by (simp add: syncReference_def)
    then show ?thesis by (auto simp: None upd_def syncRow_def)
  next
    case (Some u)
    show ?thesis
    proof (cases "find (\<lambda>a. up_url a = u) ups")
      case None
      then have nu: "\<forall>x\<in>set ups. up_url x \<noteq> u" by (auto simp: find_None_iff)
      have "ups' = upd ?g ?f ups" "\<not> me_managed env u" using assms(1) by (auto simp: syncReference_def Some None)
      then show ?thesis using nu by (auto simp: Some upd_def syncRow_def)
    next
      case f: (Some a)
      have a: "a \<in> set ups" "up_url a = u" using find_SomeD [OF f] by blast+
      let ?k = "\<lambda>x. up_id x = up_id a \<and> attachable emp i now x"
      have one: "cnt ?k ups = 1" and ups': "ups' = upd ?g ?f (upd ?k ?h ups)"
        using assms(1) by (auto simp: syncReference_def Some f Let_def)
      obtain b :: imageUpload where b: "b \<in> set ups" "up_id b = up_id a" "attachable emp i now b" using cnt_1_obtain [OF one] by blast
      have ab: "b = a" by (rule distinct_key_eq [OF assms(2) b(1) a(1) b(2)])
      have same_id: "x = a" if "x \<in> set ups" "up_id x = up_id a" for x by (rule distinct_key_eq [OF assms(2) that(1) a(1) that(2)])
      have same_url: "x = a" if "x \<in> set ups" "up_url x = u" for x
        by (rule distinct_key_eq [OF assms(3) that(1) a(1)]) (simp add: that(2) a(2))
      have key: "?k x \<longleftrightarrow> up_url x = u" if "x \<in> set ups" for x
        using same_id [OF that] same_url [OF that] b(3) ab a(2) by metis
      have "ups' = map (syncRow emp i url now) ups"
        unfolding ups' upd_def map_map by (rule map_cong [OF refl]) (simp add: key Some syncRow_def)
      moreover have "\<forall>x\<in>set ups. url = Some (up_url x) \<longrightarrow> attachable emp i now x" using same_url b(3) ab by (auto simp: Some)
      ultimately show ?thesis using a by (auto simp: Some)
    qed
  qed
  then show "ups' = map (syncRow emp i url now) ups" "\<forall>x\<in>set ups. url = Some (up_url x) \<longrightarrow> attachable emp i now x"
    "\<forall>u. url = Some u \<longrightarrow> me_managed env u \<longrightarrow> (\<exists>x\<in>set ups. up_url x = u)" by blast+
qed

lemma picture_sync:
  assumes "syncReference env emp i url now ups = Inr ups'" and "distinct (map up_id ups)" "distinct (map up_url ups)"
    and l: "pictureLinks env ups pic"
  shows "pictureLinks env ups' (pic(i := url))"
proof -
  note s = sync_rows [OF assms(1-3)]
  show ?thesis unfolding pictureLinks_def
  proof (intro conjI ballI allI impI)
    fix y assume "y \<in> set ups'" and at: "up_status y = Image_ATTACHED"
    then obtain x where x: "x \<in> set ups" "y = syncRow emp i url now x" unfolding s(1) by auto
    show "\<exists>j. up_menuItemId y = Some j \<and> (pic(i := url)) j = Some (up_url y)"
    proof (cases "url = Some (up_url x)")
      case True
      then show ?thesis by (simp add: x(2) syncRow_def)
    next
      case False
      then have y: "y = x" "up_menuItemId x \<noteq> Some i" using at by (auto simp: x(2) syncRow_def split: if_split_asm)
      then obtain j where "up_menuItemId x = Some j" "pic j = Some (up_url x)" using l at x(1) unfolding pictureLinks_def by blast
      then show ?thesis using y by auto
    qed
  next
    fix j u assume p: "(pic(i := url)) j = Some u" and m: "me_managed env u"
    show "\<exists>y\<in>set ups'. up_status y = Image_ATTACHED \<and> up_menuItemId y = Some j \<and> up_url y = u"
    proof (cases "j = i")
      case True
      then have u: "url = Some u" using p by simp
      then obtain x where "x \<in> set ups" "up_url x = u" using s(3) m by blast
      then have "syncRow emp i url now x \<in> set ups'" unfolding s(1) by simp
      then show ?thesis using \<open>up_url x = u\<close> True u by (intro bexI [of _ "syncRow emp i url now x"]) (simp_all add: syncRow_def)
    next
      case False
      then have "pic j = Some u" using p by simp
      then obtain x where x: "x \<in> set ups" "up_status x = Image_ATTACHED" "up_menuItemId x = Some j" "up_url x = u"
        using l m unfolding pictureLinks_def by blast
      have "url \<noteq> Some (up_url x)"
      proof
        assume "url = Some (up_url x)"
        then have "attachable emp i now x" using s(2) x(1) by blast
        then show False using x(2,3) False by (simp add: attachable_def)
      qed
      then have "syncRow emp i url now x = x" using x(3) False by (simp add: syncRow_def)
      then have "x \<in> set ups'" unfolding s(1) using x(1) by (metis image_eqI set_map)
      then show ?thesis using x by blast
    qed
  qed
qed

lemma picture_upd:
  assumes "\<And>x. g x \<Longrightarrow> up_status x \<noteq> Image_ATTACHED \<and> up_status (f x) \<noteq> Image_ATTACHED" and l: "pictureLinks env ups pic"
  shows "pictureLinks env (upd g f ups) pic"
proof -
  have same: "y \<in> set (upd g f ups) \<and> up_status y = Image_ATTACHED \<longleftrightarrow> y \<in> set ups \<and> up_status y = Image_ATTACHED" for y
    using assms(1) by (force simp: set_upd image_iff)
  show ?thesis using l same unfolding pictureLinks_def by metis
qed

section \<open>Uploads and files\<close>

definition rowsOk :: "menuEnv \<Rightarrow> menuDb \<Rightarrow> bool" where
  "rowsOk env d \<longleftrightarrow> distinct (map up_id (md_uploads d)) \<and> (\<forall>x\<in>set (md_uploads d). up_id x < nextId (md_shop d) \<and>
     up_objectKey x = me_key env (up_id x) \<and> up_url x = me_publicUrl env (me_key env (up_id x))) \<and>
     (\<forall>m\<in>set (menuItems (md_shop d)). mi_id m < nextId (md_shop d))"

definition filesOk :: "menuEnv \<Rightarrow> imageWorld \<Rightarrow> bool" where
  "filesOk env w \<longleftrightarrow>
     (\<forall>x\<in>set (md_uploads (iw_db w)). up_status x = Image_READY \<or> up_status x = Image_ATTACHED \<longrightarrow> up_objectKey x \<in> iw_files w) \<and>
     (\<forall>i b. (i, b) \<in> set (iw_uploading w) \<longrightarrow> i < nextId (md_shop (iw_db w))) \<and>
     (\<forall>i x. (i, True) \<in> set (iw_uploading w) \<longrightarrow> x \<in> set (md_uploads (iw_db w)) \<longrightarrow> up_id x = i \<longrightarrow> up_status x = Image_UPLOADING \<longrightarrow>
        me_key env i \<in> iw_files w) \<and>
     (\<forall>i k l. (i, k, l) \<in> set (iw_removing w) \<longrightarrow> i < nextId (md_shop (iw_db w)) \<and> k = me_key env i) \<and>
     (\<forall>i k l x. (i, k, l) \<in> set (iw_removing w) \<longrightarrow> x \<in> set (md_uploads (iw_db w)) \<longrightarrow> up_id x = i \<longrightarrow> up_status x = Image_DELETING)"

lemma filesOkI:
  assumes "\<And>x. x \<in> set (md_uploads (iw_db w)) \<Longrightarrow> up_status x = Image_READY \<or> up_status x = Image_ATTACHED \<Longrightarrow> up_objectKey x \<in> iw_files w"
    and "\<And>i b. (i, b) \<in> set (iw_uploading w) \<Longrightarrow> i < nextId (md_shop (iw_db w))"
    and "\<And>i x. (i, True) \<in> set (iw_uploading w) \<Longrightarrow> x \<in> set (md_uploads (iw_db w)) \<Longrightarrow> up_id x = i \<Longrightarrow> up_status x = Image_UPLOADING \<Longrightarrow>
      me_key env i \<in> iw_files w"
    and "\<And>i k l. (i, k, l) \<in> set (iw_removing w) \<Longrightarrow> i < nextId (md_shop (iw_db w)) \<and> k = me_key env i"
    and "\<And>i k l x. (i, k, l) \<in> set (iw_removing w) \<Longrightarrow> x \<in> set (md_uploads (iw_db w)) \<Longrightarrow> up_id x = i \<Longrightarrow> up_status x = Image_DELETING"
  shows "filesOk env w"
  unfolding filesOk_def by (intro conjI ballI allI impI) (use assms in blast)+

lemma filesOkD:
  assumes "filesOk env w"
  shows "x \<in> set (md_uploads (iw_db w)) \<Longrightarrow> up_status x = Image_READY \<or> up_status x = Image_ATTACHED \<Longrightarrow> up_objectKey x \<in> iw_files w"
    and "(i, b) \<in> set (iw_uploading w) \<Longrightarrow> i < nextId (md_shop (iw_db w))"
    and "(i, True) \<in> set (iw_uploading w) \<Longrightarrow> x \<in> set (md_uploads (iw_db w)) \<Longrightarrow> up_id x = i \<Longrightarrow> up_status x = Image_UPLOADING \<Longrightarrow>
      me_key env i \<in> iw_files w"
    and "(i, k, l) \<in> set (iw_removing w) \<Longrightarrow> i < nextId (md_shop (iw_db w))"
    and "(i, k, l) \<in> set (iw_removing w) \<Longrightarrow> k = me_key env i"
    and "(i, k, l) \<in> set (iw_removing w) \<Longrightarrow> x \<in> set (md_uploads (iw_db w)) \<Longrightarrow> up_id x = i \<Longrightarrow> up_status x = Image_DELETING"
    and "x \<in> set (md_uploads (iw_db w)) \<Longrightarrow> up_status x = Image_READY \<Longrightarrow> up_objectKey x \<in> iw_files w"
    and "x \<in> set (md_uploads (iw_db w)) \<Longrightarrow> up_status x = Image_ATTACHED \<Longrightarrow> up_objectKey x \<in> iw_files w"
  using assms unfolding filesOk_def by blast+

definition image_inv :: "menuEnv \<Rightarrow> imageWorld \<Rightarrow> bool" where
  "image_inv env w \<longleftrightarrow> rowsOk env (iw_db w) \<and> filesOk env w \<and> pictureLinks env (md_uploads (iw_db w)) (pictures (iw_db w))"

lemma distinct_urls:
  assumes "rowsOk env d" and "inj (\<lambda>i. me_publicUrl env (me_key env i))"
  shows "distinct (map up_url (md_uploads d))"
proof -
  have eq: "map up_url (md_uploads d) = map (\<lambda>i. me_publicUrl env (me_key env i)) (map up_id (md_uploads d))"
    using assms(1) by (simp add: rowsOk_def)
  show ?thesis unfolding eq using assms by (subst distinct_map) (auto simp: rowsOk_def intro: inj_on_subset)
qed

text \<open>Rows that ripen keep what is known of the files.\<close>

lemma ripe_rows:
  assumes ok: "rowsOk env (iw_db w)" "filesOk env w" and ups: "md_uploads d' = map f (md_uploads (iw_db w))"
    and f: "\<forall>x\<in>set (md_uploads (iw_db w)). ripens x (f x)" and n: "nextId (md_shop (iw_db w)) \<le> nextId (md_shop d')"
    and ms: "\<forall>m\<in>set (menuItems (md_shop d')). mi_id m < nextId (md_shop d')"
  shows "rowsOk env d' \<and> filesOk env (w\<lparr>iw_db := d'\<rparr>)"
proof
  let ?U = "md_uploads (iw_db w)"
  have ids: "map up_id (md_uploads d') = map up_id ?U" using f by (simp add: ups ripens_def)
  have all: "(\<forall>y\<in>set (md_uploads d'). P y) \<longleftrightarrow> (\<forall>x\<in>set ?U. P (f x))" for P by (simp add: ups)
  have key: "up_id (f x) = up_id x" "up_objectKey (f x) = up_objectKey x" "up_url (f x) = up_url x" if "x \<in> set ?U" for x
    using f that by (simp_all add: ripens_def)
  show "rowsOk env d'" using ok(1) n ms key unfolding rowsOk_def ids all by fastforce
  have live: "up_status x = Image_READY \<or> up_status x = Image_ATTACHED"
    if "x \<in> set ?U" "up_status (f x) = Image_READY \<or> up_status (f x) = Image_ATTACHED" for x
    using f that unfolding ripens_def by (cases "up_status x") auto
  have up: "up_status x = Image_UPLOADING" if "x \<in> set ?U" "up_status (f x) = Image_UPLOADING" for x
    using f that unfolding ripens_def by blast
  have del: "up_status (f x) = Image_DELETING" if "x \<in> set ?U" "up_status x = Image_DELETING" for x
    using f that unfolding ripens_def by blast
  note D = filesOkD [OF ok(2)]
  have row: "(up_status y = Image_READY \<or> up_status y = Image_ATTACHED \<longrightarrow> up_objectKey y \<in> iw_files w) \<and>
      ((up_id y, True) \<in> set (iw_uploading w) \<longrightarrow> up_status y = Image_UPLOADING \<longrightarrow> me_key env (up_id y) \<in> iw_files w) \<and>
      ((up_id y, k, l) \<in> set (iw_removing w) \<longrightarrow> up_status y = Image_DELETING)" if y: "y \<in> set (md_uploads d')" for y k l
  proof -
    obtain x where x: "x \<in> set ?U" "y = f x" using y by (auto simp: ups)
    show ?thesis using live [OF x(1)] D(1) [OF x(1)] up [OF x(1)] D(3) [OF _ x(1) refl] del [OF x(1)] D(6) [OF _ x(1) refl, of k l] key(1,2) [OF x(1)]
      unfolding x(2) by simp
  qed
  have low: "i < nextId (md_shop d')" if "i < nextId (md_shop (iw_db w))" for i using that n by simp
  show "filesOk env (w\<lparr>iw_db := d'\<rparr>)"
    by (rule filesOkI; simp; insert row low D(2,4,5); blast)
qed

section \<open>Steps\<close>

lemma image_frame:
  assumes inv: "image_inv env w" and "md_uploads d' = md_uploads (iw_db w)" "pictures d' = pictures (iw_db w)"
    and n: "nextId (md_shop (iw_db w)) \<le> nextId (md_shop d')"
    and ms: "\<forall>m\<in>set (menuItems (md_shop d')). mi_id m < nextId (md_shop d')"
  shows "image_inv env (w\<lparr>iw_db := d'\<rparr>)"
proof -
  have ok: "rowsOk env (iw_db w)" "filesOk env w" using inv by (simp_all add: image_inv_def)
  have "rowsOk env d' \<and> filesOk env (w\<lparr>iw_db := d'\<rparr>)"
    by (rule ripe_rows [OF ok _ _ n ms, of "\<lambda>x. x"]) (use assms(2) in \<open>auto simp: ripens_def\<close>)
  then show ?thesis using inv assms(2,3) by (simp add: image_inv_def)
qed

lemma image_sync:
  assumes inv: "image_inv env w" and inj: "inj (\<lambda>i. me_publicUrl env (me_key env i))"
    and s: "syncReference env emp i url now (md_uploads (iw_db w)) = Inr (md_uploads d')" and pic: "pictures d' = (pictures (iw_db w))(i := url)"
    and n: "nextId (md_shop (iw_db w)) \<le> nextId (md_shop d')"
    and ms: "\<forall>m\<in>set (menuItems (md_shop d')). mi_id m < nextId (md_shop d')"
  shows "image_inv env (w\<lparr>iw_db := d'\<rparr>)"
proof -
  have ok: "rowsOk env (iw_db w)" "filesOk env w" and l: "pictureLinks env (md_uploads (iw_db w)) (pictures (iw_db w))"
    using inv by (simp_all add: image_inv_def)
  have ids: "distinct (map up_id (md_uploads (iw_db w)))" using ok(1) by (simp add: rowsOk_def)
  note r = sync_rows [OF s ids distinct_urls [OF ok(1) inj]]
  have "ripens x (syncRow emp i url now x)" if "x \<in> set (md_uploads (iw_db w))" for x
    using r(2) that by (auto simp: ripens_def syncRow_def attachable_def)
  then have "rowsOk env d' \<and> filesOk env (w\<lparr>iw_db := d'\<rparr>)" by (intro ripe_rows [OF ok r(1) _ n ms]) blast
  moreover have "pictureLinks env (md_uploads d') (pictures d')" unfolding pic by (rule picture_sync [OF s ids distinct_urls [OF ok(1) inj] l])
  ultimately show ?thesis by (simp add: image_inv_def)
qed

lemma liveItem_upd:
  assumes "\<And>m. mi_id (f m) = mi_id m" "\<And>m. mi_deletedAt (f m) = mi_deletedAt m"
  shows "liveItem j (upd g f ms) = liveItem j ms"
  unfolding liveItem_def set_upd bex_simps(7) by (rule bex_cong [OF refl]) (simp add: assms)

lemma live_found: "findActiveMenuItem i d = Some m \<Longrightarrow> liveItem i (menuItems (md_shop d))"
  unfolding findActiveMenuItem_def liveItem_def by (drule find_SomeD) blast

lemma image_ids: "image_inv env w \<Longrightarrow> \<forall>m\<in>set (menuItems (md_shop (iw_db w))). mi_id m < nextId (md_shop (iw_db w))"
  by (simp add: image_inv_def rowsOk_def)

lemma create_image:
  assumes inv: "image_inv env w" and inj: "inj (\<lambda>i. me_publicUrl env (me_key env i))"
    and c: "createMenuItem env emp dto now (iw_db w) = Inr (i, d')"
  shows "image_inv env (w\<lparr>iw_db := d'\<rparr>)"
proof -
  obtain price ups where i: "i = nextId (md_shop (iw_db w))" and n: "nextId (md_shop d') = Suc i"
    and ms: "menuItems (md_shop d') = menuItems (md_shop (iw_db w)) @ [\<lparr>mi_id = i, mi_price = price, mi_isAvailable = True, mi_deletedAt = None,
             mi_categoryId = cm_categoryId dto, mi_stationId = cm_stationId dto, mi_groups = []\<rparr>]"
    and tx: "md_texts d' = (md_texts (iw_db w))(i \<mapsto> \<lparr>mx_name = cm_name dto, mx_description = cm_description dto, mx_imageUrl = cm_imageUrl dto\<rparr>)"
    and up: "md_uploads d' = ups"
    and s: "(if cm_imageUrl dto = None then Inr (md_uploads (iw_db w)) else syncReference env emp i (cm_imageUrl dto) now (md_uploads (iw_db w))) = Inr ups"
    using c unfolding createMenuItem_def menuEmployee_def stationGiven_def findActiveKitchenStation_def Let_def
    by (auto simp: menuLog_def menuChange_def addLog_def split: option.splits)
  have ids: "\<forall>m\<in>set (menuItems (md_shop (iw_db w))). mi_id m < i" using image_ids [OF inv] i by simp
  then have dead: "\<not> liveItem i (menuItems (md_shop (iw_db w)))" by (auto simp: liveItem_def)
  have pic: "pictures d' = (pictures (iw_db w))(i := cm_imageUrl dto)"
    by (rule ext) (auto simp: pictures_def ms tx liveItem_def)
  have ms': "\<forall>m\<in>set (menuItems (md_shop d')). mi_id m < nextId (md_shop d')" using ids unfolding ms n by (auto simp: less_Suc_eq)
  have n': "nextId (md_shop (iw_db w)) \<le> nextId (md_shop d')" using i n by simp
  show ?thesis
  proof (cases "cm_imageUrl dto")
    case None
    have "pictures (iw_db w) i = None" using dead by (simp add: pictures_def)
    then have "pictures d' = pictures (iw_db w)" unfolding pic None by auto
    moreover have "md_uploads d' = md_uploads (iw_db w)" using s None up by simp
    ultimately show ?thesis using image_frame [OF inv _ _ n' ms'] by blast
  next
    case (Some u)
    then have "syncReference env emp i (cm_imageUrl dto) now (md_uploads (iw_db w)) = Inr (md_uploads d')" using s up by simp
    then show ?thesis by (rule image_sync [OF inv inj _ pic n' ms'])
  qed
qed

lemma update_image:
  assumes inv: "image_inv env w" and inj: "inj (\<lambda>i. me_publicUrl env (me_key env i))"
    and c: "updateMenuItem env i emp dto now (iw_db w) = Inr d'"
  shows "image_inv env (w\<lparr>iw_db := d'\<rparr>)"
proof -
  obtain m t where f: "findActiveMenuItem i (iw_db w) = Some m" and t: "md_texts (iw_db w) i = Some t"
    using c by (auto simp: updateMenuItem_def menuEmployee_def)
  define url where "url = orElse (um_imageUrl dto) (mx_imageUrl t)"
  define emps where "emps = (case um_categoryId dto of None \<Rightarrow> (\<lambda>k :: menuDb res. k)
    | Some c \<Rightarrow> require (findActiveCategory c (iw_db w) \<noteq> None) (NotFound ''menu category''))"
  have emps: "emps k = Inr y \<Longrightarrow> k = Inr y" for k y by (auto simp: emps_def split: option.splits)
  have stat: "stationGiven st d k = Inr y \<Longrightarrow> k = Inr y" for st d and k :: "menuDb res" and y
    by (auto simp: stationGiven_def findActiveKitchenStation_def split: option.splits)
  obtain price ups where n: "nextId (md_shop d') = nextId (md_shop (iw_db w))"
    and ms: "menuItems (md_shop d') = upd (\<lambda>x. mi_id x = i) (\<lambda>x. x\<lparr>mi_price := price, mi_categoryId := orElse (um_categoryId dto) (mi_categoryId x),
             mi_stationId := orElse (um_stationId dto) (mi_stationId x)\<rparr>) (menuItems (md_shop (iw_db w)))"
    and tx: "Option.bind (md_texts d' i) mx_imageUrl = url" "\<And>j. j \<noteq> i \<Longrightarrow> md_texts d' j = md_texts (iw_db w) j"
    and up: "md_uploads d' = ups"
    and s: "(if url = mx_imageUrl t then Inr (md_uploads (iw_db w)) else syncReference env emp i url now (md_uploads (iw_db w))) = Inr ups"
    using c unfolding updateMenuItem_def menuEmployee_def f t fetch_simps Let_def url_def [symmetric] emps_def [symmetric] require_Inr_iff
    by (auto simp: menuLog_def menuChange_def addLog_def dest!: emps stat)
  have live: "liveItem i (menuItems (md_shop (iw_db w)))" by (rule live_found [OF f])
  have lv: "liveItem j (menuItems (md_shop d')) = liveItem j (menuItems (md_shop (iw_db w)))" for j unfolding ms by (rule liveItem_upd) simp_all
  have pic: "pictures d' = (pictures (iw_db w))(i := url)"
    using tx live by (auto simp: pictures_def lv fun_eq_iff)
  have ms': "\<forall>m\<in>set (menuItems (md_shop d')). mi_id m < nextId (md_shop d')" unfolding n ms ball_upd using image_ids [OF inv] by auto
  have n': "nextId (md_shop (iw_db w)) \<le> nextId (md_shop d')" by (simp add: n)
  show ?thesis
  proof (cases "url = mx_imageUrl t")
    case True
    have "pictures (iw_db w) i = url" using live t True by (simp add: pictures_def)
    then have "pictures d' = pictures (iw_db w)" unfolding pic by auto
    moreover have "md_uploads d' = md_uploads (iw_db w)" using s True up by simp
    ultimately show ?thesis using image_frame [OF inv _ _ n' ms'] by blast
  next
    case False
    then have "syncReference env emp i url now (md_uploads (iw_db w)) = Inr (md_uploads d')" using s up by simp
    then show ?thesis by (rule image_sync [OF inv inj _ pic n' ms'])
  qed
qed

lemma delete_image:
  assumes inv: "image_inv env w" and inj: "inj (\<lambda>i. me_publicUrl env (me_key env i))"
    and c: "deleteMenuItem env i emp now (iw_db w) = Inr d'"
  shows "image_inv env (w\<lparr>iw_db := d'\<rparr>)"
proof -
  have n: "nextId (md_shop d') = nextId (md_shop (iw_db w))"
    and ms: "menuItems (md_shop d') = upd (\<lambda>x. mi_id x = i) (\<lambda>x. x\<lparr>mi_deletedAt := Some now, mi_isAvailable := False\<rparr>) (menuItems (md_shop (iw_db w)))"
    and tx: "md_texts d' = md_texts (iw_db w)"
    and s: "syncReference env emp i None now (md_uploads (iw_db w)) = Inr (md_uploads d')"
    using c by (auto simp: deleteMenuItem_def menuEmployee_def menuLog_def menuChange_def addLog_def)
  have lv: "liveItem j (menuItems (md_shop d')) \<longleftrightarrow> j \<noteq> i \<and> liveItem j (menuItems (md_shop (iw_db w)))" for j
    by (force simp: ms liveItem_def set_upd image_iff)
  have pic: "pictures d' = (pictures (iw_db w))(i := None)" by (rule ext) (simp add: pictures_def lv tx)
  have ms': "\<forall>m\<in>set (menuItems (md_shop d')). mi_id m < nextId (md_shop d')" unfolding n ms ball_upd using image_ids [OF inv] by auto
  show ?thesis by (rule image_sync [OF inv inj s pic _ ms']) (simp add: n)
qed

lemma frame_steps:
  assumes inv: "image_inv env w" and d': "md_uploads d' = md_uploads (iw_db w)" "md_texts d' = md_texts (iw_db w)"
    and n: "nextId (md_shop (iw_db w)) \<le> nextId (md_shop d')"
    and ms: "\<exists>g f. menuItems (md_shop d') = upd g f (menuItems (md_shop (iw_db w))) \<and>
      (\<forall>m. mi_id (f m) = mi_id m \<and> mi_deletedAt (f m) = mi_deletedAt m)"
  shows "image_inv env (w\<lparr>iw_db := d'\<rparr>)"
proof -
  obtain g and f :: "menuItem \<Rightarrow> menuItem" where f: "menuItems (md_shop d') = upd g f (menuItems (md_shop (iw_db w)))"
    "\<And>m. mi_id (f m) = mi_id m" "\<And>m. mi_deletedAt (f m) = mi_deletedAt m" using ms by blast
  have "pictures d' = pictures (iw_db w)" by (rule ext) (simp add: pictures_def f(1) d'(2) liveItem_upd [OF f(2,3)])
  moreover have "\<forall>m\<in>set (menuItems (md_shop d')). mi_id m < nextId (md_shop d')"
    unfolding f(1) ball_upd using image_ids [OF inv] n by (auto simp: f(2) intro: less_le_trans)
  ultimately show ?thesis using image_frame [OF inv d'(1) _ n] by blast
qed

lemma upd_nothing: "upd (\<lambda>_. False) (\<lambda>x. x) xs = xs"
  by (simp add: upd_def)

lemma same_items:
  assumes "ms = (ms' :: menuItem list)"
  shows "\<exists>g f. ms = upd g f ms' \<and> (\<forall>m. mi_id (f m) = mi_id m \<and> mi_deletedAt (f m) = mi_deletedAt m)"
  by (rule exI [of _ "\<lambda>_. False"], rule exI [of _ "\<lambda>x. x"]) (simp add: assms upd_nothing)

lemma availability_image:
  assumes "image_inv env w" and "updateItemAvailability i emp b (iw_db w) = Inr d'"
  shows "image_inv env (w\<lparr>iw_db := d'\<rparr>)"
proof -
  have "d' = iw_db w \<or> d' = menuLog emp ''MENU_ITEM_AVAILABILITY_UPDATED'' i
      (menuChange (\<lambda>s. s\<lparr>menuItems := upd (\<lambda>x. mi_id x = i) (\<lambda>x. x\<lparr>mi_isAvailable := b\<rparr>) (menuItems s)\<rparr>) (iw_db w))"
    using assms(2) by (auto simp: updateItemAvailability_def menuEmployee_def split: if_split_asm)
  then show ?thesis
  proof
    assume "d' = iw_db w"
    then show ?thesis using assms(1) by simp
  next
    assume d': "d' = menuLog emp ''MENU_ITEM_AVAILABILITY_UPDATED'' i
      (menuChange (\<lambda>s. s\<lparr>menuItems := upd (\<lambda>x. mi_id x = i) (\<lambda>x. x\<lparr>mi_isAvailable := b\<rparr>) (menuItems s)\<rparr>) (iw_db w))"
    show ?thesis
      by (rule frame_steps [OF assms(1)], simp_all add: d' menuLog_def menuChange_def addLog_def)
         (rule exI, rule exI, rule conjI, rule refl, simp)
  qed
qed

lemma recipe_image:
  assumes "image_inv env w" and c: "replaceItemRecipe env i emp rv gs (iw_db w) = Inr (r, d')"
  shows "image_inv env (w\<lparr>iw_db := d'\<rparr>)"
proof -
  obtain qs where d': "d' = (if menuRecipe i (md_shop (iw_db w)) = sort_key fst qs then iw_db w else menuLog emp ''MENU_RECIPE_REPLACED'' i
      (menuChange (\<lambda>s. s\<lparr>menuIngredients := del (\<lambda>g. g_menuItemId g = i) (menuIngredients s) @
        map (\<lambda>g. \<lparr>g_menuItemId = i, g_inventoryItemId = fst g, g_quantity = snd g\<rparr>) (sort_key fst qs)\<rparr>) (iw_db w)))"
    using c unfolding replaceItemRecipe_def menuEmployee_def assertRevision_def Let_def require_Inr_iff fetch_Inr_iff andThen_Inr_iff
      sum.inject prod.inject by blast
  show ?thesis by (rule frame_steps [OF assms(1)], simp_all add: d' menuLog_def menuChange_def addLog_def) (rule same_items, simp)
qed

lemma options_image:
  assumes "image_inv env w" and "replaceItemOptions env i emp rv gs (iw_db w) = Inr (r, d')"
  shows "image_inv env (w\<lparr>iw_db := d'\<rparr>)"
proof -
  have "d' = iw_db w \<or> (\<exists>rows. d' = menuLog emp ''MENU_OPTIONS_REPLACED'' i (menuChange (\<lambda>s. s\<lparr>nextId := nextId s + length (concat (map gr_options rows)),
      menuItems := upd (\<lambda>x. mi_id x = i) (\<lambda>x. x\<lparr>mi_groups := rows\<rparr>) (menuItems s)\<rparr>) (iw_db w)))"
    using assms(2) by (auto simp: replaceItemOptions_def menuEmployee_def assertRevision_def Let_def split: if_split_asm)
  then show ?thesis
  proof (elim disjE exE)
    assume "d' = iw_db w"
    then show ?thesis using assms(1) by simp
  next
    fix rows assume d': "d' = menuLog emp ''MENU_OPTIONS_REPLACED'' i (menuChange (\<lambda>s. s\<lparr>nextId := nextId s + length (concat (map gr_options rows)),
      menuItems := upd (\<lambda>x. mi_id x = i) (\<lambda>x. x\<lparr>mi_groups := rows\<rparr>) (menuItems s)\<rparr>) (iw_db w))"
    show ?thesis
      by (rule frame_steps [OF assms(1)], simp_all add: d' menuLog_def menuChange_def addLog_def)
         (rule exI, rule exI, rule conjI, rule refl, simp)
  qed
qed

lemma category_image:
  assumes "image_inv env w"
  shows "createMenuCategory env emp name (iw_db w) = Inr (i, d') \<Longrightarrow> image_inv env (w\<lparr>iw_db := d'\<rparr>)"
    and "updateMenuCategory env i emp oname (iw_db w) = Inr d' \<Longrightarrow> image_inv env (w\<lparr>iw_db := d'\<rparr>)"
    and "deleteMenuCategory i emp now (iw_db w) = Inr d' \<Longrightarrow> image_inv env (w\<lparr>iw_db := d'\<rparr>)"
  by (rule frame_steps [OF assms]; auto simp: createMenuCategory_def updateMenuCategory_def deleteMenuCategory_def menuEmployee_def Let_def
      menuLog_def menuChange_def addLog_def intro!: same_items)+

end
