(* ===== verification/Menu_Claims.thy ===== *)
theory Menu_Claims
  imports Menu_Images_Facts "HOL-Library.Countable"
begin

text \<open>
  The properties of the menu: its pictures exist, however uploads, edits and cleaning interleave; and nobody overwrites
  a configuration they have not seen.
\<close>

section \<open>Uploads and cleaning\<close>

lemma announce_image:
  assumes inv: "image_inv env w" and c: "announceUpload env emp now (iw_db w) = (i, d')"
  shows "image_inv env (w\<lparr>iw_db := d', iw_uploading := iw_uploading w @ [(i, False)]\<rparr>)"
proof -
  define x where "x = \<lparr>up_id = i, up_objectKey = me_key env i, up_url = me_publicUrl env (me_key env i), up_status = Image_UPLOADING,
    up_expiresAt = Some (now + MENU_IMAGE_DRAFT_TTL_MS), up_employeeId = emp, up_menuItemId = None\<rparr>"
  have i: "i = nextId (md_shop (iw_db w))" and n: "nextId (md_shop d') = Suc i" and up: "md_uploads d' = md_uploads (iw_db w) @ [x]"
    and ms: "menuItems (md_shop d') = menuItems (md_shop (iw_db w))" and tx: "md_texts d' = md_texts (iw_db w)"
    using c by (auto simp: announceUpload_def Let_def menuChange_def x_def)
  have pic: "pictures d' = pictures (iw_db w)" by (rule ext) (simp add: pictures_def ms tx)
  have x: "up_id x = i" "up_status x = Image_UPLOADING" "up_objectKey x = me_key env i" "up_url x = me_publicUrl env (me_key env i)"
    by (simp_all add: x_def)
  have r: "rowsOk env (iw_db w)" "filesOk env w" "pictureLinks env (md_uploads (iw_db w)) (pictures (iw_db w))"
    using inv by (simp_all add: image_inv_def)
  have new: "\<forall>y\<in>set (md_uploads (iw_db w)). up_id y < i" using r(1) by (simp add: rowsOk_def i)
  have "rowsOk env d'" using r(1) new x unfolding rowsOk_def up n ms by (fastforce simp: i [symmetric])
  moreover have "filesOk env (w\<lparr>iw_db := d', iw_uploading := iw_uploading w @ [(i, False)]\<rparr>)"
    by (rule filesOkI) (use new x in \<open>auto simp: up n i [symmetric] less_Suc_eq dest: filesOkD [OF r(2)]\<close>)
  moreover have "pictureLinks env (md_uploads d') (pictures d')"
    using r(3) x(2) unfolding pictureLinks_def up pic by fastforce
  ultimately show ?thesis by (simp add: image_inv_def)
qed

lemma stored_image:
  assumes "image_inv env w" and "(i, b) \<in> set (iw_uploading w)"
  shows "image_inv env (w\<lparr>iw_files := insert (me_key env i) (iw_files w), iw_uploading := iw_uploading w @ [(i, True)]\<rparr>)"
    and "image_inv env (w\<lparr>iw_files := insert (me_key env i) (iw_files w)\<rparr>)"
proof -
  have r: "rowsOk env (iw_db w)" "filesOk env w" "pictureLinks env (md_uploads (iw_db w)) (pictures (iw_db w))"
    using assms(1) by (simp_all add: image_inv_def)
  note D = filesOkD [OF r(2)]
  have "filesOk env (w\<lparr>iw_files := insert (me_key env i) (iw_files w), iw_uploading := iw_uploading w @ [(i, True)]\<rparr>)"
    by (rule filesOkI) (use assms(2) in \<open>auto dest: D\<close>)
  moreover have "filesOk env (w\<lparr>iw_files := insert (me_key env i) (iw_files w)\<rparr>)"
    by (rule filesOkI) (auto dest: D)
  ultimately show "image_inv env (w\<lparr>iw_files := insert (me_key env i) (iw_files w), iw_uploading := iw_uploading w @ [(i, True)]\<rparr>)"
    "image_inv env (w\<lparr>iw_files := insert (me_key env i) (iw_files w)\<rparr>)"
    using r by (simp_all add: image_inv_def)
qed

lemma finish_image:
  assumes inv: "image_inv env w" and i: "(i, True) \<in> set (iw_uploading w)" and c: "finishUpload i emp now (iw_db w) = Inr d'"
  shows "image_inv env (w\<lparr>iw_db := d'\<rparr>)"
proof -
  define g where "g = (\<lambda>x :: imageUpload. up_id x = i \<and> up_status x = Image_UPLOADING \<and> (case up_expiresAt x of None \<Rightarrow> False | Some t \<Rightarrow> now < t))"
  have up: "md_uploads d' = upd g (\<lambda>x. x\<lparr>up_status := Image_READY\<rparr>) (md_uploads (iw_db w))"
    and sh: "nextId (md_shop d') = nextId (md_shop (iw_db w))" "menuItems (md_shop d') = menuItems (md_shop (iw_db w))"
    and tx: "md_texts d' = md_texts (iw_db w)"
    using c by (auto simp: finishUpload_def Let_def menuLog_def addLog_def g_def)
  have r: "rowsOk env (iw_db w)" "filesOk env w" "pictureLinks env (md_uploads (iw_db w)) (pictures (iw_db w))"
    using inv by (simp_all add: image_inv_def)
  have pic: "pictures d' = pictures (iw_db w)" by (rule ext) (simp add: pictures_def sh tx)
  have ids: "map up_id (md_uploads d') = map up_id (md_uploads (iw_db w))" unfolding up by (rule map_key_upd) simp
  have there: "up_objectKey x \<in> iw_files w" if "x \<in> set (md_uploads (iw_db w))" "g x" for x
    using r(1) filesOkD(3) [OF r(2) i that(1)] that unfolding rowsOk_def g_def by simp
  have "rowsOk env d'" using r(1) unfolding rowsOk_def ids sh unfolding up ball_upd by simp
  moreover have "filesOk env (w\<lparr>iw_db := d'\<rparr>)"
  proof -
    note D = filesOkD [OF r(2)]
    have row: "(up_status y = Image_READY \<or> up_status y = Image_ATTACHED \<longrightarrow> up_objectKey y \<in> iw_files w) \<and>
        ((up_id y, True) \<in> set (iw_uploading w) \<longrightarrow> up_status y = Image_UPLOADING \<longrightarrow> me_key env (up_id y) \<in> iw_files w) \<and>
        ((up_id y, k, l) \<in> set (iw_removing w) \<longrightarrow> up_status y = Image_DELETING)" if y: "y \<in> set (md_uploads d')" for y k l
    proof -
      obtain x :: imageUpload where x: "x \<in> set (md_uploads (iw_db w))" "y = (if g x then x\<lparr>up_status := Image_READY\<rparr> else x)"
        using y unfolding up set_upd by blast
      have "g x \<Longrightarrow> (up_id x, k, l) \<notin> set (iw_removing w)" using D(6) [OF _ x(1) refl] by (auto simp: g_def)
      then show ?thesis using D(1) [OF x(1)] D(3) [OF _ x(1) refl] D(6) [OF _ x(1) refl, of k l] there [OF x(1)] unfolding x(2) by simp
    qed
    show ?thesis by (rule filesOkI; simp add: sh; insert row D(2,4,5); blast)
  qed
  moreover have "pictureLinks env (md_uploads d') (pictures d')" unfolding up pic by (rule picture_upd [OF _ r(3)]) (simp add: g_def)
  ultimately show ?thesis by (simp add: image_inv_def)
qed

lemma put_off_image:
  assumes inv: "image_inv env w" and g: "\<And>x. g x \<Longrightarrow> up_status x \<noteq> Image_ATTACHED"
    and f: "\<And>x. g x \<Longrightarrow> ripens x (f x) \<and> up_status (f x) \<noteq> Image_ATTACHED"
  shows "image_inv env (w\<lparr>iw_db := (iw_db w)\<lparr>md_uploads := upd g f (md_uploads (iw_db w))\<rparr>\<rparr>)"
proof -
  have r: "rowsOk env (iw_db w)" "filesOk env w" "pictureLinks env (md_uploads (iw_db w)) (pictures (iw_db w))"
    using inv by (simp_all add: image_inv_def)
  let ?d = "(iw_db w)\<lparr>md_uploads := upd g f (md_uploads (iw_db w))\<rparr>"
  have "rowsOk env ?d \<and> filesOk env (w\<lparr>iw_db := ?d\<rparr>)"
    by (rule ripe_rows [OF r(1,2), of _ "\<lambda>x. if g x then f x else x"]) (use f image_ids [OF inv] in \<open>auto simp: upd_def ripens_def\<close>)
  moreover have "pictures ?d = pictures (iw_db w)" by (rule ext) (simp add: pictures_def)
  moreover have "pictureLinks env (md_uploads ?d) (pictures (iw_db w))" using picture_upd [OF _ r(3), of g f] f g by simp
  ultimately show ?thesis by (simp add: image_inv_def)
qed

lemma claim_image:
  assumes inv: "image_inv env w" and x: "x \<in> set (md_uploads (iw_db w))" and c: "claimUpload (up_id x) now lease (iw_db w) = Some d'"
  shows "image_inv env (w\<lparr>iw_db := d', iw_removing := iw_removing w @ [(up_id x, up_objectKey x, lease)]\<rparr>)"
proof -
  let ?g = "\<lambda>y. up_id y = up_id x \<and> cleanable now y"
  let ?f = "\<lambda>y. y\<lparr>up_status := Image_DELETING, up_expiresAt := Some lease\<rparr>"
  have d': "d' = (iw_db w)\<lparr>md_uploads := upd ?g ?f (md_uploads (iw_db w))\<rparr>" and some: "cnt ?g (md_uploads (iw_db w)) \<noteq> 0"
    using c by (auto simp: claimUpload_def Let_def split: if_split_asm)
  have i: "image_inv env (w\<lparr>iw_db := d'\<rparr>)" unfolding d'
    by (rule put_off_image [OF inv]) (auto simp: cleanable_def ripens_def)
  have r: "rowsOk env (iw_db w)" using inv by (simp add: image_inv_def)
  obtain y :: imageUpload where y: "y \<in> set (md_uploads (iw_db w))" "up_id y = up_id x" "cleanable now y" using some by (auto simp: cnt_zero_iff)
  have only: "z = y" if "z \<in> set (md_uploads (iw_db w))" "up_id z = up_id x" for z
    using r distinct_key_eq [of up_id "md_uploads (iw_db w)" z y] that y by (simp add: rowsOk_def)
  have "\<forall>z\<in>set (md_uploads d'). up_id z = up_id x \<longrightarrow> up_status z = Image_DELETING"
    unfolding d' using only y(3) by (auto simp: set_upd)
  moreover have "up_id x < nextId (md_shop d') \<and> up_objectKey x = me_key env (up_id x)" using r x by (simp add: rowsOk_def d')
  moreover have "filesOk env (w\<lparr>iw_db := d'\<rparr>)" using i by (simp add: image_inv_def)
  note D = filesOkD [OF this, simplified]
  ultimately have "filesOk env (w\<lparr>iw_db := d', iw_removing := iw_removing w @ [(up_id x, up_objectKey x, lease)]\<rparr>)"
    by (intro filesOkI) (auto dest: D)
  then show ?thesis using i by (simp add: image_inv_def)
qed

lemma remove_image:
  assumes inv: "image_inv env w" and inj: "inj (me_key env)" and k: "(i, k, lease) \<in> set (iw_removing w)"
  shows "image_inv env (w\<lparr>iw_files := iw_files w - {k}\<rparr>)"
proof -
  have r: "rowsOk env (iw_db w)" "filesOk env w" using inv by (simp_all add: image_inv_def)
  have ki: "k = me_key env i" and gone: "\<And>x. x \<in> set (md_uploads (iw_db w)) \<Longrightarrow> up_id x = i \<Longrightarrow> up_status x = Image_DELETING"
    using filesOkD(5,6) [OF r(2) k] by blast+
  have ne: "me_key env j \<noteq> k" if "j \<noteq> i" for j using inj that by (auto simp: ki inj_def)
  have "filesOk env (w\<lparr>iw_files := iw_files w - {k}\<rparr>)"
  proof -
    note D = filesOkD [OF r(2)]
    have key: "up_objectKey x = me_key env (up_id x)" if "x \<in> set (md_uploads (iw_db w))" for x using r(1) that by (simp add: rowsOk_def)
    have safe: "up_objectKey x \<noteq> k" if "x \<in> set (md_uploads (iw_db w))" "up_status x \<noteq> Image_DELETING" for x
      using key [OF that(1)] gone [OF that(1)] ne that(2) by metis
    have 1: "up_objectKey x \<in> iw_files w - {k}" if "x \<in> set (md_uploads (iw_db w))" "up_status x = Image_READY \<or> up_status x = Image_ATTACHED" for x
      using D(1) [OF that] safe [OF that(1)] that(2) by auto
    have 2: "me_key env (up_id x) \<in> iw_files w - {k}"
      if "(up_id x, True) \<in> set (iw_uploading w)" "x \<in> set (md_uploads (iw_db w))" "up_status x = Image_UPLOADING" for x
      using D(3) [OF that(1,2) refl that(3)] safe [OF that(2)] key [OF that(2)] that(3) by auto
    show ?thesis by (rule filesOkI; simp; insert 1 2 D(2,4,5,6); blast)
  qed
  then show ?thesis using inv by (simp add: image_inv_def)
qed

lemma forget_image:
  assumes inv: "image_inv env w"
  shows "image_inv env (w\<lparr>iw_db := forgetUpload i lease (iw_db w)\<rparr>)"
proof -
  let ?d = "forgetUpload i lease (iw_db w)"
  have r: "rowsOk env (iw_db w)" "filesOk env w" "pictureLinks env (md_uploads (iw_db w)) (pictures (iw_db w))"
    using inv by (simp_all add: image_inv_def)
  have sub: "x \<in> set (md_uploads ?d) \<Longrightarrow> x \<in> set (md_uploads (iw_db w))" for x by (auto simp: forgetUpload_def del_def)
  have keep: "x \<in> set (md_uploads (iw_db w)) \<Longrightarrow> up_status x = Image_ATTACHED \<Longrightarrow> x \<in> set (md_uploads ?d)" for x
    by (auto simp: forgetUpload_def del_def)
  have sh: "md_shop ?d = md_shop (iw_db w)" by (simp add: forgetUpload_def)
  have pic: "pictures ?d = pictures (iw_db w)" by (rule ext) (simp add: pictures_def forgetUpload_def)
  have "distinct (map up_id (md_uploads ?d))" using r(1) by (simp add: rowsOk_def forgetUpload_def del_def distinct_map_filter)
  then have "rowsOk env ?d" using r(1) sub unfolding rowsOk_def sh by blast
  moreover have "filesOk env (w\<lparr>iw_db := ?d\<rparr>)"
    by (rule filesOkI) (auto simp: sh dest: sub filesOkD [OF r(2)])
  moreover have "pictureLinks env (md_uploads ?d) (pictures ?d)" unfolding pic using r(3) sub keep unfolding pictureLinks_def by metis
  ultimately show ?thesis by (simp add: image_inv_def)
qed

section \<open>The pictures of the menu\<close>

lemma image_step_inv:
  assumes "image_step env w w'" and inv: "image_inv env w" and inj: "inj (\<lambda>i. me_publicUrl env (me_key env i))"
  shows "image_inv env w'"
  using assms(1)
proof cases
  case announce
  then show ?thesis using announce_image [OF inv] by blast
next
  case stored
  then show ?thesis using stored_image(1) [OF inv] by blast
next
  case stored_unknown
  then show ?thesis using stored_image(2) [OF inv] by blast
next
  case finish
  then show ?thesis using finish_image [OF inv] by blast
next
  case (postpone i now now')
  show ?thesis unfolding postpone postponeUpload_def by (rule put_off_image [OF inv]) (auto simp: cleanable_def ripens_def)
next
  case claim
  then show ?thesis using claim_image [OF inv] by blast
next
  case remove
  have "inj (me_key env)" using inj by (auto simp: inj_def)
  then show ?thesis using remove remove_image [OF inv] by blast
next
  case forget
  then show ?thesis using forget_image [OF inv] by blast
next
  case create_item
  then show ?thesis using create_image [OF inv inj] by blast
next
  case update_item
  then show ?thesis using update_image [OF inv inj] by blast
next
  case delete_item
  then show ?thesis using delete_image [OF inv inj] by blast
next
  case availability
  then show ?thesis using availability_image [OF inv] by blast
next
  case recipe
  then show ?thesis using recipe_image [OF inv] by blast
next
  case options
  then show ?thesis using options_image [OF inv] by blast
next
  case new_category
  then show ?thesis using category_image(1) [OF inv] by blast
next
  case change_category
  then show ?thesis using category_image(2) [OF inv] by blast
next
  case delete_category
  then show ?thesis using category_image(3) [OF inv] by blast
next
  case (elsewhere s)
  have pic: "pictures ((iw_db w)\<lparr>md_shop := s\<rparr>) = pictures (iw_db w)" by (rule ext) (simp add: pictures_def elsewhere)
  show ?thesis unfolding elsewhere(1)
    by (rule image_frame [OF inv _ pic]) (use elsewhere(2,3) image_ids [OF inv] in \<open>auto intro: less_le_trans\<close>)
qed

lemma image_run:
  assumes "(image_step env)\<^sup>*\<^sup>* w w'" and "image_inv env w" and "inj (\<lambda>i. me_publicUrl env (me_key env i))"
  shows "image_inv env w'"
  using assms by (induction rule: rtranclp_induct) (auto intro: image_step_inv)

definition emptyMenu :: "imageWorld \<Rightarrow> bool" where
  "emptyMenu w \<longleftrightarrow> md_uploads (iw_db w) = [] \<and> menuItems (md_shop (iw_db w)) = [] \<and> iw_uploading w = [] \<and> iw_removing w = []"

lemma emptyMenu_inv: "emptyMenu w \<Longrightarrow> image_inv env w"
  by (simp add: emptyMenu_def image_inv_def rowsOk_def filesOk_def pictureLinks_def pictures_def liveItem_def)

text \<open>C28: Whatever is uploaded, edited, deleted and cleaned, in any order and with any answer of the storage lost: the picture
  that a live menu item shows, when its address is one of the shop's storage, is a file in the storage, and no second live
  item shows it.\<close>

theorem menu_pictures_exist:
  assumes "inj (\<lambda>i. me_publicUrl env (me_key env i))" and "(image_step env)\<^sup>*\<^sup>* w w'" and "emptyMenu w"
    and "pictures (iw_db w') i = Some u" and "me_managed env u"
  shows "(\<exists>k\<in>iw_files w'. me_publicUrl env k = u) \<and> (\<forall>j. pictures (iw_db w') j = Some u \<longrightarrow> j = i)"
proof -
  have inv: "image_inv env w'" by (rule image_run [OF assms(2) emptyMenu_inv [OF assms(3)] assms(1)])
  let ?U = "md_uploads (iw_db w')"
  have shown: "\<exists>x\<in>set ?U. up_status x = Image_ATTACHED \<and> up_menuItemId x = Some j \<and> up_url x = u"
    if "pictures (iw_db w') j = Some u" for j using inv that assms(5) unfolding image_inv_def pictureLinks_def by blast
  obtain x where x: "x \<in> set ?U" "up_status x = Image_ATTACHED" "up_menuItemId x = Some i" "up_url x = u" using shown [OF assms(4)] by blast
  have "up_objectKey x \<in> iw_files w'" using inv x(1,2) filesOkD(8) by (auto simp: image_inv_def)
  moreover have "me_publicUrl env (up_objectKey x) = u" using inv x(1,4) by (auto simp: image_inv_def rowsOk_def)
  moreover have "j = i" if j: "pictures (iw_db w') j = Some u" for j
  proof -
    obtain y where y: "y \<in> set ?U" "up_menuItemId y = Some j" "up_url y = u" using shown [OF j] by blast
    have "distinct (map up_url ?U)" using distinct_urls [OF _ assms(1)] inv by (simp add: image_inv_def)
    then have "y = x" by (rule distinct_key_eq [OF _ y(1) x(1)]) (simp add: y(3) x(4))
    then show ?thesis using x(3) y(2) by simp
  qed
  ultimately show ?thesis by blast
qed

section \<open>A recipe that was saved\<close>

lemma sort_twice [simp]: "sort_key f (sort_key f xs) = sort_key f xs"
  by (rule sort_key_id_if_sorted) simp

lemma menuRecipe_new:
  "menuRecipe i (s\<lparr>menuIngredients := del (\<lambda>g. g_menuItemId g = i) (menuIngredients s) @
      map (\<lambda>g. \<lparr>g_menuItemId = i, g_inventoryItemId = fst g, g_quantity = snd g\<rparr>) qs\<rparr>) = sort_key fst qs"
proof -
  have "filter (\<lambda>g. g_menuItemId g = i) (del (\<lambda>g. g_menuItemId g = i) (menuIngredients s)) = []"
    by (simp add: del_def filter_empty_conv)
  then show ?thesis by (simp add: menuRecipe_def comp_def filter_map)
qed

text \<open>All that the request named is there.\<close>

lemma all_active:
  assumes "activeCount s ids = length ids" and "distinct ids" and "distinct (map i_id (inventoryItems s))" and "j \<in> set ids"
  shows "activeIngredient s j"
proof -
  let ?R = "filter (\<lambda>r. i_id r \<in> set ids \<and> i_deletedAt r = None) (inventoryItems s)"
  have dist: "distinct (map i_id ?R)" using assms(3) by (simp add: distinct_map_filter)
  have "card (set (map i_id ?R)) = card (set ids)"
    using assms(1) distinct_card [OF dist] distinct_card [OF assms(2)] by (simp add: activeCount_def cnt_def)
  moreover have "set (map i_id ?R) \<subseteq> set ids" by auto
  ultimately have "set (map i_id ?R) = set ids" by (simp add: card_subset_eq)
  then show ?thesis using assms(4) by (force simp: activeIngredient_def)
qed

lemma findActiveMenuItem_frame:
  "menuItems (md_shop d') = menuItems (md_shop d) \<Longrightarrow> menuCategories (md_shop d') = menuCategories (md_shop d) \<Longrightarrow>
    findActiveMenuItem i d' = findActiveMenuItem i d"
  by (simp add: findActiveMenuItem_def)

lemma replace_recipe:
  assumes c: "replaceItemRecipe env i emp rv gs d = Inr ((saved, r), d')" and ids: "distinct (map i_id (inventoryItems (md_shop d)))"
  obtains qs where "mapM (\<lambda>g. andThen (toQuantity (snd g)) (\<lambda>q. Inr (fst g, q))) gs = Inr qs"
    "menuRecipe i (md_shop d') = sort_key fst qs" "saved = sort_key fst qs" "r = me_recipeHash env (sort_key fst qs)"
    "findActiveMenuItem i d' = findActiveMenuItem i d" "inventoryItems (md_shop d') = inventoryItems (md_shop d)"
    "findActiveMenuItem i d \<noteq> None" "\<forall>g\<in>set qs. activeIngredient (md_shop d') (fst g)"
proof -
  obtain m qs where m: "findActiveMenuItem i d = Some m" and dist: "distinct (map fst gs)" and act: "activeCount (md_shop d) (map fst gs) = length gs"
    and qs: "mapM (\<lambda>g. andThen (toQuantity (snd g)) (\<lambda>q. Inr (fst g, q))) gs = Inr qs"
    and d': "d' = (if menuRecipe i (md_shop d) = sort_key fst qs then d else menuLog emp ''MENU_RECIPE_REPLACED'' i
      (menuChange (\<lambda>s. s\<lparr>menuIngredients := del (\<lambda>g. g_menuItemId g = i) (menuIngredients s) @
        map (\<lambda>g. \<lparr>g_menuItemId = i, g_inventoryItemId = fst g, g_quantity = snd g\<rparr>) (sort_key fst qs)\<rparr>) d))"
    and sv: "saved = filter (\<lambda>g. activeIngredient (md_shop d') (fst g)) (menuRecipe i (md_shop d'))"
    and r: "r = me_recipeHash env (recipeConfigSnapshot saved)"
    using c unfolding replaceItemRecipe_def menuEmployee_def assertRevision_def Let_def require_Inr_iff fetch_Inr_iff andThen_Inr_iff
      sum.inject prod.inject by blast
  have inv: "inventoryItems (md_shop d') = inventoryItems (md_shop d)" "menuItems (md_shop d') = menuItems (md_shop d)"
    "menuCategories (md_shop d') = menuCategories (md_shop d)"
    by (simp_all add: d' menuLog_def menuChange_def addLog_def)
  have rec: "menuRecipe i (md_shop d') = sort_key fst qs"
  proof (cases "menuRecipe i (md_shop d) = sort_key fst qs")
    case False
    have "menuRecipe i (md_shop d') = menuRecipe i ((md_shop d)\<lparr>menuIngredients := del (\<lambda>g. g_menuItemId g = i) (menuIngredients (md_shop d)) @
        map (\<lambda>g. \<lparr>g_menuItemId = i, g_inventoryItemId = fst g, g_quantity = snd g\<rparr>) (sort_key fst qs)\<rparr>)"
      using False by (simp add: d' menuLog_def menuChange_def addLog_def menuRecipe_def)
    then show ?thesis unfolding menuRecipe_new by simp
  qed (simp add: d')
  have fsts: "map fst qs = map fst gs" by (rule mapM_map [OF qs]) auto
  have active: "\<forall>g\<in>set qs. activeIngredient (md_shop d') (fst g)"
  proof
    fix g assume "g \<in> set qs"
    then have "fst g \<in> fst ` set qs" by (rule imageI)
    then have "fst g \<in> set (map fst gs)" using arg_cong [OF fsts, of set] by simp
    then have "activeIngredient (md_shop d) (fst g)" using all_active [of "md_shop d" "map fst gs"] act dist ids by simp
    then show "activeIngredient (md_shop d') (fst g)" by (simp add: activeIngredient_def inv)
  qed
  have "filter (\<lambda>g. activeIngredient (md_shop d') (fst g)) (sort_key fst qs) = sort_key fst qs" using active by (simp add: filter_id_conv)
  then have "saved = sort_key fst qs" using sv rec by simp
  moreover have "r = me_recipeHash env (sort_key fst qs)" using r calculation by (simp add: recipeConfigSnapshot_def)
  ultimately show ?thesis using that qs rec inv findActiveMenuItem_frame [OF inv(2,3)] m active by simp
qed

text \<open>C29: Who reads a recipe after it was saved reads exactly the amounts that were asked for and the revision the save answered
  with; and an editor who read the recipe while it was another cannot save over it.\<close>

theorem saved_recipe_stands:
  assumes "inj (me_recipeHash env)" and "distinct (map i_id (inventoryItems (md_shop d)))"
    and "replaceItemRecipe env i emp rv gs d = Inr ((saved, r), d')"
    and "getItemRecipe env i d0 = Inr (seen, r0)" and "menuRecipe i (md_shop d0) \<noteq> menuRecipe i (md_shop d')"
  shows "getItemRecipe env i d' = Inr (saved, r) \<and> set saved = (\<lambda>(j, v). (j, \<lfloor>v * 10 ^ 4\<rfloor>)) ` set gs \<and>
    \<not> ok (replaceItemRecipe env i emp' r0 gs' d')"
proof -
  obtain qs where q: "mapM (\<lambda>g. andThen (toQuantity (snd g)) (\<lambda>q. Inr (fst g, q))) gs = Inr qs"
    "menuRecipe i (md_shop d') = sort_key fst qs" "saved = sort_key fst qs" "r = me_recipeHash env (sort_key fst qs)"
    "findActiveMenuItem i d' = findActiveMenuItem i d" "inventoryItems (md_shop d') = inventoryItems (md_shop d)"
    "findActiveMenuItem i d \<noteq> None" "\<forall>g\<in>set qs. activeIngredient (md_shop d') (fst g)"
    by (rule replace_recipe [OF assms(3,2)])
  have "filter (\<lambda>g. activeIngredient (md_shop d') (fst g)) (sort_key fst qs) = sort_key fst qs" using q(8) by (simp add: filter_id_conv)
  then have "getItemRecipe env i d' = Inr (saved, r)"
    using q(2,3,4,5,7) by (auto simp: getItemRecipe_def recipeConfigSnapshot_def Let_def)
  moreover have "map id qs = map (\<lambda>(j, v). (j, \<lfloor>v * 10 ^ 4\<rfloor>)) gs"
    by (rule mapM_map [OF q(1)]) (auto simp: toQuantity_def)
  then have "set saved = (\<lambda>(j, v). (j, \<lfloor>v * 10 ^ 4\<rfloor>)) ` set gs" unfolding q(3) by (metis list.map_id0 id_apply set_map set_sort)
  moreover have "r0 = me_recipeHash env (recipeConfigSnapshot (menuRecipe i (md_shop d0)))"
    using assms(4) by (auto simp: getItemRecipe_def Let_def)
  then have "r0 \<noteq> me_recipeHash env (recipeConfigSnapshot (menuRecipe i (md_shop d')))"
    using assms(1,5) by (simp add: inj_eq recipeConfigSnapshot_def menuRecipe_def)
  then have "\<not> ok (replaceItemRecipe env i emp' r0 gs' d')"
    unfolding replaceItemRecipe_def menuEmployee_def assertRevision_def Let_def
    by (cases "findActiveMenuItem i d'"; cases "mapM (\<lambda>g. andThen (toQuantity (snd g)) (\<lambda>q. Inr (fst g, q))) gs'") (auto simp: require_def)
  ultimately show ?thesis by blast
qed

section \<open>A small menu\<close>

definition cafe_env :: menuEnv where
  "cafe_env = \<lparr>me_lower = (\<lambda>s. s), me_recipeHash = (\<lambda>gs. replicate (to_nat gs) CHR ''h''), me_optionHash = (\<lambda>_. []),
     me_key = (\<lambda>i. replicate i CHR ''k''), me_publicUrl = (\<lambda>k. k), me_managed = (\<lambda>_. True)\<rparr>"

definition cafe :: menuDb where
  "cafe = \<lparr>md_shop = empty_db\<lparr>nextId := 3, employees := [\<lparr>e_id = 1, e_fullName = ''Lan'', e_isActive = True, e_deletedAt = None\<rparr>],
     menuCategories := [\<lparr>n_id = 2, n_name = ''Coffee'', n_deletedAt = None\<rparr>]\<rparr>, md_texts = Map.empty, md_uploads = []\<rparr>"

definition cafe_upload :: "MenuImageStatus \<Rightarrow> imageUpload" where
  "cafe_upload st = \<lparr>up_id = 3, up_objectKey = ''kkk'', up_url = ''kkk'', up_status = st, up_expiresAt = Some 86400000, up_employeeId = 1,
     up_menuItemId = None\<rparr>"

definition cafe_uploading :: menuDb where
  "cafe_uploading = menuChange (\<lambda>s. s\<lparr>nextId := 4\<rparr>) (cafe\<lparr>md_uploads := [cafe_upload Image_UPLOADING]\<rparr>)"

definition cafe_ready :: menuDb where
  "cafe_ready = menuLog 1 ''MENU_IMAGE_UPLOADED'' 3 (cafe_uploading\<lparr>md_uploads := [cafe_upload Image_READY]\<rparr>)"

definition cafe_latte :: createMenuItemDto where
  "cafe_latte = \<lparr>cm_name = ''Latte'', cm_price = 45, cm_description = None, cm_imageUrl = Some ''kkk'', cm_categoryId = 2, cm_stationId = None\<rparr>"

lemmas cafe_simps = cafe_def cafe_env_def cafe_upload_def cafe_uploading_def cafe_ready_def cafe_latte_def empty_db_def menuChange_def menuLog_def
  addLog_def MENU_IMAGE_DRAFT_TTL_MS_def

lemma three_k: "replicate 3 CHR ''k'' = ''kkk''" "replicate (Suc (Suc (Suc 0))) CHR ''k'' = ''kkk''"
  by (simp_all add: numeral_3_eq_3)

lemma cafe_announce: "announceUpload cafe_env 1 0 cafe = (3, cafe_uploading)"
  by (simp add: announceUpload_def cafe_simps Let_def three_k)

lemma cafe_finish: "finishUpload 3 1 10 cafe_uploading = Inr cafe_ready"
  by (simp add: finishUpload_def cafe_simps Let_def)

lemma cafe_create: "\<exists>d. createMenuItem cafe_env 1 cafe_latte 20 cafe_ready = Inr (4, d) \<and> pictures d 4 = Some ''kkk''"
  by (simp add: createMenuItem_def menuEmployee_def activeEmployee_def findActiveCategory_def stationGiven_def toPrice_def decimals_def
      itemNames_def syncReference_def attachable_def cafe_simps Let_def pictures_def liveItem_def)

lemma cafe_urls: "inj (\<lambda>i. me_publicUrl cafe_env (me_key cafe_env i))"
  by (simp add: inj_def cafe_env_def)

theorem menu_pictures_exist_witness:
  "\<exists>w. (image_step cafe_env)\<^sup>*\<^sup>* \<lparr>iw_db = cafe, iw_files = {}, iw_uploading = [], iw_removing = []\<rparr> w \<and> pictures (iw_db w) 4 = Some ''kkk'' \<and>
     (\<exists>k\<in>iw_files w. me_publicUrl cafe_env k = ''kkk'')"
proof -
  let ?w = "\<lparr>iw_db = cafe, iw_files = {}, iw_uploading = [], iw_removing = []\<rparr>"
  let ?w1 = "\<lparr>iw_db = cafe_uploading, iw_files = {}, iw_uploading = [(3, False)], iw_removing = []\<rparr>"
  let ?w2 = "\<lparr>iw_db = cafe_uploading, iw_files = {me_key cafe_env 3}, iw_uploading = [(3, False), (3, True)], iw_removing = []\<rparr>"
  let ?w3 = "\<lparr>iw_db = cafe_ready, iw_files = {me_key cafe_env 3}, iw_uploading = [(3, False), (3, True)], iw_removing = []\<rparr>"
  obtain d where d: "createMenuItem cafe_env 1 cafe_latte 20 cafe_ready = Inr (4, d)" "pictures d 4 = Some ''kkk''" using cafe_create by blast
  have "image_step cafe_env ?w ?w1" using image_step.announce [of cafe_env 1 0 ?w 3 cafe_uploading] cafe_announce by simp
  moreover have "image_step cafe_env ?w1 ?w2" using image_step.stored [of 3 False ?w1 cafe_env] by simp
  moreover have "image_step cafe_env ?w2 ?w3" using image_step.finish [of 3 ?w2 1 10 cafe_ready cafe_env] cafe_finish by simp
  moreover have "image_step cafe_env ?w3 (?w3\<lparr>iw_db := d\<rparr>)" using image_step.create_item [of cafe_env 1 cafe_latte 20 ?w3 4 d] d(1) by simp
  ultimately have run: "(image_step cafe_env)\<^sup>*\<^sup>* ?w (?w3\<lparr>iw_db := d\<rparr>)" by (meson converse_rtranclp_into_rtranclp rtranclp.rtrancl_refl)
  have "emptyMenu ?w" by (simp add: emptyMenu_def cafe_simps)
  from menu_pictures_exist [OF cafe_urls run this, of 4 "''kkk''"] d(2)
  have "\<exists>k\<in>iw_files (?w3\<lparr>iw_db := d\<rparr>). me_publicUrl cafe_env k = ''kkk''" by (simp add: cafe_env_def)
  then show ?thesis using run d(2) by (intro exI [of _ "?w3\<lparr>iw_db := d\<rparr>"]) simp
qed

definition cafe_recipe :: menuDb where
  "cafe_recipe = menuChange (\<lambda>s. s\<lparr>menuItems := [\<lparr>mi_id = 20, mi_price = 4500, mi_isAvailable = True, mi_deletedAt = None, mi_categoryId = 2,
      mi_stationId = None, mi_groups = []\<rparr>], inventoryItems := [\<lparr>i_id = 10, i_name = ''Milk'', i_stock = 0, i_reserved = 0, i_avgCost = 0,
      i_reorder = 0, i_categoryId = 5, i_unitId = 6, i_deletedAt = None\<rparr>]\<rparr>) cafe"

lemma cafe_read: "getItemRecipe cafe_env 20 cafe_recipe = Inr ([], me_recipeHash cafe_env [])"
  by (simp add: getItemRecipe_def findActiveMenuItem_def menuRecipe_def recipeConfigSnapshot_def cafe_recipe_def cafe_simps Let_def)

lemma cafe_replace:
  "\<exists>r d'. replaceItemRecipe cafe_env 20 1 (me_recipeHash cafe_env []) [(10, 5 / 2)] cafe_recipe = Inr (([(10, 25000)], r), d') \<and>
     menuRecipe 20 (md_shop d') = [(10, 25000)]"
  by (simp add: replaceItemRecipe_def menuEmployee_def activeEmployee_def findActiveMenuItem_def activeCount_def cnt_def toQuantity_def
      decimals_def menuRecipe_def recipeConfigSnapshot_def assertRevision_def recipeCheck_def activeIngredient_def del_def cafe_recipe_def cafe_simps Let_def)

theorem saved_recipe_stands_witness:
  "\<exists>r d'. getItemRecipe cafe_env 20 d' = Inr ([(10, 25000)], r) \<and> \<not> ok (replaceItemRecipe cafe_env 20 1 (me_recipeHash cafe_env []) [] d')"
proof -
  obtain r d' where c: "replaceItemRecipe cafe_env 20 1 (me_recipeHash cafe_env []) [(10, 5 / 2)] cafe_recipe = Inr (([(10, 25000)], r), d')"
    "menuRecipe 20 (md_shop d') = [(10, 25000)]" using cafe_replace by blast
  have h: "inj (me_recipeHash cafe_env)"
    by (simp add: inj_def cafe_env_def)
  have "menuRecipe 20 (md_shop cafe_recipe) = []" "distinct (map i_id (inventoryItems (md_shop cafe_recipe)))"
    by (simp_all add: cafe_recipe_def cafe_simps menuRecipe_def)
  then have "distinct (map i_id (inventoryItems (md_shop cafe_recipe)))" "menuRecipe 20 (md_shop cafe_recipe) \<noteq> menuRecipe 20 (md_shop d')"
    by (simp_all add: c(2))
  then show ?thesis using saved_recipe_stands [OF h _ c(1) cafe_read, of 1 "[]"] by blast
qed

end
