(* ===== verification/Equipment.thy ===== *)
theory Equipment
  imports Db_Core
begin

text \<open>
  The shop's equipment (\<open>src/app/equipment/equipment.service.ts\<close>): registering a machine, editing it under
  the time stamp its editor saw, and its life from use over repair to liquidation, each step of it
  recorded. The names, places and notes are not computed with; the paged lists only read.
\<close>

section \<open>Machines and their life\<close>

datatype EquipmentStatus = IN_USE | MAINTENANCE | BROKEN | LIQUIDATED

record equipment =
  eq_id :: id
  eq_assetCode :: string
  eq_serialNumber :: "string option"
  eq_quantity :: int
  eq_unitPrice :: money
  eq_totalAmount :: money
  eq_purchaseDate :: time
  eq_warrantyExpiresAt :: "time option"
  eq_nextMaintenanceAt :: "time option"
  eq_status :: EquipmentStatus
  eq_liquidatedAt :: "time option"
  eq_updatedAt :: time
  eq_deletedAt :: "time option"
  eq_employeeId :: id

record lifecycleEvent =
  le_id :: id
  le_fromStatus :: "EquipmentStatus option"
  le_toStatus :: EquipmentStatus
  le_reason :: string
  le_cost :: money
  le_occurredAt :: time
  le_equipmentId :: id
  le_employeeId :: id

record equipmentDb =
  house :: db
  equipments :: "equipment list"
  lifecycleEvents :: "lifecycleEvent list"
  nextEquipmentId :: id

fun ALLOWED_TRANSITIONS :: "EquipmentStatus \<Rightarrow> EquipmentStatus list" where
  "ALLOWED_TRANSITIONS IN_USE = [MAINTENANCE, BROKEN, LIQUIDATED]"
| "ALLOWED_TRANSITIONS MAINTENANCE = [IN_USE, BROKEN, LIQUIDATED]"
| "ALLOWED_TRANSITIONS BROKEN = [MAINTENANCE, LIQUIDATED]"
| "ALLOWED_TRANSITIONS LIQUIDATED = []"

definition MAX_EQUIPMENT_AMOUNT :: money where
  "MAX_EQUIPMENT_AMOUNT = 999999999999999999"

definition assertEquipmentDates :: "time \<Rightarrow> time option \<Rightarrow> time \<Rightarrow> 'a res \<Rightarrow> 'a res" where
  "assertEquipmentDates purchase warranty now k =
     require (purchase \<le> now) (BadRequest ''purchaseDate cannot be in the future'')
     (require (case warranty of None \<Rightarrow> True | Some w \<Rightarrow> purchase \<le> w) (BadRequest ''warrantyExpiresAt cannot be before purchaseDate'') k)"

definition calculateEquipmentTotal :: "money \<Rightarrow> int \<Rightarrow> money res" where
  "calculateEquipmentTotal unitPrice quantity =
     require (unitPrice * quantity \<le> MAX_EQUIPMENT_AMOUNT) (BadRequest ''totalAmount is too large'') (Inr (unitPrice * quantity))"

text \<open>The CHECK constraints of the table, and its two unique indexes.\<close>

definition equipmentChecks :: "equipment \<Rightarrow> bool" where
  "equipmentChecks e \<longleftrightarrow> 0 < eq_quantity e \<and> 0 \<le> eq_unitPrice e \<and> 0 \<le> eq_totalAmount e \<and>
     eq_totalAmount e = eq_quantity e * eq_unitPrice e \<and>
     (case eq_warrantyExpiresAt e of None \<Rightarrow> True | Some w \<Rightarrow> eq_purchaseDate e \<le> w) \<and>
     (eq_liquidatedAt e \<noteq> None \<longleftrightarrow> eq_status e = LIQUIDATED)"

definition codesFree :: "equipment \<Rightarrow> equipmentDb \<Rightarrow> bool" where
  "codesFree e d \<longleftrightarrow> (\<forall>r\<in>set (equipments d). eq_id r \<noteq> eq_id e \<longrightarrow>
     eq_assetCode r \<noteq> eq_assetCode e \<and> (eq_serialNumber e \<noteq> None \<longrightarrow> eq_serialNumber r \<noteq> eq_serialNumber e))"

definition findEquipment :: "id \<Rightarrow> equipmentDb \<Rightarrow> equipment option" where
  "findEquipment i d = find (\<lambda>e. eq_id e = i \<and> eq_deletedAt e = None) (equipments d)"

definition equipmentLog :: "id \<Rightarrow> string \<Rightarrow> id \<Rightarrow> equipmentDb \<Rightarrow> equipmentDb" where
  "equipmentLog emp act i d = d\<lparr>house := addLog emp act i (house d)\<rparr>"

section \<open>Registering\<close>

record createEquipmentDto =
  ce_assetCode :: string
  ce_serialNumber :: "string option"
  ce_quantity :: int
  ce_unitPrice :: money
  ce_purchaseDate :: time
  ce_warrantyExpiresAt :: "time option"
  ce_nextMaintenanceAt :: "time option"

definition createEquipment :: "id \<Rightarrow> createEquipmentDto \<Rightarrow> time \<Rightarrow> equipmentDb \<Rightarrow> equipmentDb res" where
  "createEquipment emp dto now d =
     assertEquipmentDates (ce_purchaseDate dto) (ce_warrantyExpiresAt dto) now
     (andThen (calculateEquipmentTotal (ce_unitPrice dto) (ce_quantity dto)) (\<lambda>sum.
      require (activeEmployee emp (house d)) (Unauthorized ''employee'')
      (let i = nextEquipmentId d;
           e = \<lparr>eq_id = i, eq_assetCode = ce_assetCode dto, eq_serialNumber = ce_serialNumber dto, eq_quantity = ce_quantity dto,
             eq_unitPrice = ce_unitPrice dto, eq_totalAmount = sum, eq_purchaseDate = ce_purchaseDate dto,
             eq_warrantyExpiresAt = ce_warrantyExpiresAt dto, eq_nextMaintenanceAt = ce_nextMaintenanceAt dto,
             eq_status = IN_USE, eq_liquidatedAt = None, eq_updatedAt = now, eq_deletedAt = None, eq_employeeId = emp\<rparr>
       in require (codesFree e d) (Conflict ''assetCode or serialNumber already exists'')
         (require (equipmentChecks e) (Conflict ''check equipment'')
           (Inr (equipmentLog emp ''EQUIPMENT_CREATED'' i (d\<lparr>equipments := equipments d @ [e],
              lifecycleEvents := lifecycleEvents d @ [\<lparr>le_id = Suc i, le_fromStatus = None, le_toStatus = IN_USE,
                le_reason = ''Equipment registered'', le_cost = 0, le_occurredAt = now, le_equipmentId = i, le_employeeId = emp\<rparr>],
              nextEquipmentId := i + 2\<rparr>)))))))"

section \<open>Editing\<close>

text \<open>A nullable field of an edit is left alone (\<open>None\<close>), cleared (\<open>Some None\<close>) or set.\<close>

record updateEquipmentDto =
  ue_expectedUpdatedAt :: time
  ue_serialNumber :: "string option option"
  ue_quantity :: "int option"
  ue_unitPrice :: "money option"
  ue_purchaseDate :: "time option"
  ue_warrantyExpiresAt :: "time option option"
  ue_nextMaintenanceAt :: "time option option"

definition updateEquipment :: "id \<Rightarrow> id \<Rightarrow> updateEquipmentDto \<Rightarrow> time \<Rightarrow> equipmentDb \<Rightarrow> equipmentDb res" where
  "updateEquipment i emp dto now d =
     require (activeEmployee emp (house d)) (Unauthorized ''employee'')
     (fetch (findEquipment i d) (NotFound ''equipment'') (\<lambda>e.
      require (eq_status e \<noteq> LIQUIDATED) (Conflict ''liquidated equipment is immutable'')
      (require (eq_updatedAt e = ue_expectedUpdatedAt dto) (Conflict ''EQUIPMENT_CHANGED'')
      (let purchase = orOld (ue_purchaseDate dto) (eq_purchaseDate e);
           warranty = orOld (ue_warrantyExpiresAt dto) (eq_warrantyExpiresAt e);
           quantity = orOld (ue_quantity dto) (eq_quantity e);
           unitPrice = orOld (ue_unitPrice dto) (eq_unitPrice e)
       in assertEquipmentDates purchase warranty now
         (andThen (calculateEquipmentTotal unitPrice quantity) (\<lambda>sum.
          let e' = e\<lparr>eq_serialNumber := orOld (ue_serialNumber dto) (eq_serialNumber e), eq_quantity := quantity,
                eq_unitPrice := unitPrice, eq_totalAmount := sum, eq_purchaseDate := purchase, eq_warrantyExpiresAt := warranty,
                eq_nextMaintenanceAt := orOld (ue_nextMaintenanceAt dto) (eq_nextMaintenanceAt e),
                eq_updatedAt := max now (ue_expectedUpdatedAt dto + 1)\<rparr>
          in require (codesFree e' d) (Conflict ''assetCode or serialNumber already exists'')
            (require (equipmentChecks e') (Conflict ''check equipment'')
              (Inr (equipmentLog emp ''EQUIPMENT_UPDATED'' i
                (d\<lparr>equipments := upd (\<lambda>r. eq_id r = i) (\<lambda>_. e') (equipments d)\<rparr>))))))))))"

section \<open>Changing status\<close>

record transitionDto =
  te_status :: EquipmentStatus
  te_reason :: string
  te_cost :: money
  te_occurredAt :: "time option"
  te_nextMaintenanceAt :: "time option option"

definition transitionEquipment :: "id \<Rightarrow> id \<Rightarrow> transitionDto \<Rightarrow> time \<Rightarrow> equipmentDb \<Rightarrow> equipmentDb res" where
  "transitionEquipment i emp dto now d =
     (let occurredAt = orOld (te_occurredAt dto) now; gone = (te_status dto = LIQUIDATED) in
      require (occurredAt \<le> now) (BadRequest ''occurredAt cannot be in the future'')
      (require (activeEmployee emp (house d)) (Unauthorized ''employee'')
      (fetch (findEquipment i d) (NotFound ''equipment'') (\<lambda>e.
       require (te_status dto \<in> set (ALLOWED_TRANSITIONS (eq_status e))) (Conflict ''cannot transition'')
       (require (eq_purchaseDate e \<le> occurredAt) (BadRequest ''occurredAt cannot be before purchaseDate'')
       (let g = (\<lambda>r. eq_id r = i \<and> eq_status r = eq_status e \<and> eq_deletedAt r = None) in
        require (cnt g (equipments d) = 1) (Conflict ''status has changed'')
        (require (0 \<le> te_cost dto) (Conflict ''check cost'')
          (Inr (equipmentLog emp ''EQUIPMENT_STATUS_CHANGED'' i (d\<lparr>
             equipments := upd g (\<lambda>r. r\<lparr>eq_status := te_status dto,
               eq_nextMaintenanceAt := (if gone then None else orOld (te_nextMaintenanceAt dto) (eq_nextMaintenanceAt r)),
               eq_liquidatedAt := (if gone then Some occurredAt else None), eq_updatedAt := now\<rparr>) (equipments d),
             lifecycleEvents := lifecycleEvents d @ [\<lparr>le_id = nextEquipmentId d, le_fromStatus = Some (eq_status e),
               le_toStatus = te_status dto, le_reason = te_reason dto, le_cost = te_cost dto, le_occurredAt = occurredAt,
               le_equipmentId = i, le_employeeId = emp\<rparr>],
             nextEquipmentId := Suc (nextEquipmentId d)\<rparr>))))))))))"

section \<open>Steps\<close>

text \<open>The rest of the shop changes its own tables only.\<close>

inductive equipment_step :: "equipmentDb \<Rightarrow> equipmentDb \<Rightarrow> bool" where
  register: "createEquipment emp dto now d = Inr d' \<Longrightarrow> equipment_step d d'"
| edit: "updateEquipment i emp dto now d = Inr d' \<Longrightarrow> equipment_step d d'"
| transition: "transitionEquipment i emp tdto now d = Inr d' \<Longrightarrow> equipment_step d d'"
| elsewhere: "equipment_step d (d\<lparr>house := h\<rparr>)"

inductive_cases equipment_stepE: "equipment_step d d'"

text \<open>\<open>walk s es t\<close>: the events lead from status \<open>s\<close> to status \<open>t\<close>, each by an allowed transition; only the first has no \<open>fromStatus\<close>.\<close>

fun walk :: "EquipmentStatus option \<Rightarrow> lifecycleEvent list \<Rightarrow> EquipmentStatus option \<Rightarrow> bool" where
  "walk s [] t = (s = t)"
| "walk s (v # vs) t = (le_fromStatus v = s \<and>
     (case s of None \<Rightarrow> True | Some x \<Rightarrow> le_toStatus v \<in> set (ALLOWED_TRANSITIONS x)) \<and> walk (Some (le_toStatus v)) vs t)"

definition eventsOf :: "id \<Rightarrow> equipmentDb \<Rightarrow> lifecycleEvent list" where
  "eventsOf i d = filter (\<lambda>v. le_equipmentId v = i) (lifecycleEvents d)"

definition equipment_inv :: "equipmentDb \<Rightarrow> bool" where
  "equipment_inv d \<longleftrightarrow> distinct (map eq_id (equipments d)) \<and>
     (\<forall>e\<in>set (equipments d). eq_id e < nextEquipmentId d \<and> equipmentChecks e \<and> walk None (eventsOf (eq_id e) d) (Some (eq_status e))) \<and>
     (\<forall>v\<in>set (lifecycleEvents d). le_equipmentId v < nextEquipmentId d \<and> 0 \<le> le_cost v)"

lemma equipment_invD:
  assumes "equipment_inv d"
  shows "distinct (map eq_id (equipments d))" "e \<in> set (equipments d) \<Longrightarrow> eq_id e < nextEquipmentId d"
    "e \<in> set (equipments d) \<Longrightarrow> equipmentChecks e"
    "e \<in> set (equipments d) \<Longrightarrow> walk None (eventsOf (eq_id e) d) (Some (eq_status e))"
    "v \<in> set (lifecycleEvents d) \<Longrightarrow> le_equipmentId v < nextEquipmentId d"
    "v \<in> set (lifecycleEvents d) \<Longrightarrow> 0 \<le> le_cost v"
  using assms by (auto simp: equipment_inv_def)

lemma walk_snoc:
  "walk s (vs @ [v]) t \<longleftrightarrow> (\<exists>m. walk s vs m \<and> le_fromStatus v = m \<and>
     (case m of None \<Rightarrow> True | Some x \<Rightarrow> le_toStatus v \<in> set (ALLOWED_TRANSITIONS x)) \<and> t = Some (le_toStatus v))"
  by (induction vs arbitrary: s) auto

lemma findEquipment_SomeD: "findEquipment i d = Some e \<Longrightarrow> e \<in> set (equipments d) \<and> eq_id e = i \<and> eq_deletedAt e = None"
  unfolding findEquipment_def by (drule find_SomeD) simp

lemma equipment_eq: "equipment_inv d \<Longrightarrow> r \<in> set (equipments d) \<Longrightarrow> e \<in> set (equipments d) \<Longrightarrow> eq_id r = eq_id e \<Longrightarrow> r = e"
  by (rule distinct_key_eq [OF equipment_invD(1)])

definition finalKept :: "equipmentDb \<Rightarrow> equipmentDb \<Rightarrow> bool" where
  "finalKept d d' \<longleftrightarrow> (\<forall>e\<in>set (equipments d). eq_status e = LIQUIDATED \<longrightarrow> e \<in> set (equipments d'))"

lemma createEquipment_inv:
  assumes "createEquipment emp dto now d = Inr d'" and "equipment_inv d"
  shows "equipment_inv d' \<and> finalKept d d'"
proof -
  note i = equipment_invD [OF assms(2)]
  obtain e v where d': "equipments d' = equipments d @ [e]" "lifecycleEvents d' = lifecycleEvents d @ [v]"
    "nextEquipmentId d' = nextEquipmentId d + 2"
    and e: "eq_id e = nextEquipmentId d" "eq_status e = IN_USE" "equipmentChecks e"
    and v: "le_equipmentId v = nextEquipmentId d" "le_fromStatus v = None" "le_toStatus v = IN_USE" "le_cost v = 0"
    using assms(1) by (auto simp: createEquipment_def assertEquipmentDates_def Let_def equipmentLog_def)
  have "\<forall>w\<in>set (lifecycleEvents d). le_equipmentId w \<noteq> nextEquipmentId d" using i(5) by fastforce
  then have new: "eventsOf (nextEquipmentId d) d' = [v]" by (simp add: eventsOf_def d' v(1) filter_empty_conv)
  have old: "eventsOf (eq_id r) d' = eventsOf (eq_id r) d" if "r \<in> set (equipments d)" for r
    using i(2) [OF that] by (simp add: eventsOf_def d' v(1))
  have "walk None (eventsOf (eq_id r) d') (Some (eq_status r))" if "r \<in> set (equipments d')" for r
    using that i(4) [of r] old [of r] new e v by (auto simp: d')
  moreover have "eq_id r < nextEquipmentId d' \<and> equipmentChecks r" if "r \<in> set (equipments d')" for r
    using that i(2,3) [of r] e by (auto simp: d')
  moreover have "le_equipmentId w < nextEquipmentId d' \<and> 0 \<le> le_cost w" if "w \<in> set (lifecycleEvents d')" for w
    using that i(5,6) [of w] v by (auto simp: d')
  moreover have "distinct (map eq_id (equipments d'))" using i(1) e(1) by (auto simp: d' dest: i(2))
  ultimately show ?thesis by (simp add: equipment_inv_def finalKept_def d'(1))
qed

lemma updateEquipment_inv:
  assumes "updateEquipment i emp dto now d = Inr d'" and "equipment_inv d"
  shows "equipment_inv d' \<and> finalKept d d'"
proof -
  note I = equipment_invD [OF assms(2)]
  obtain e e' where f: "findEquipment i d = Some e" "eq_status e \<noteq> LIQUIDATED"
    and d': "equipments d' = upd (\<lambda>r. eq_id r = i) (\<lambda>_. e') (equipments d)" "lifecycleEvents d' = lifecycleEvents d"
      "nextEquipmentId d' = nextEquipmentId d"
    and e': "eq_id e' = eq_id e" "eq_status e' = eq_status e" "equipmentChecks e'"
    using assms(1) by (auto simp: updateEquipment_def assertEquipmentDates_def Let_def equipmentLog_def)
  note e = findEquipment_SomeD [OF f(1)]
  have keys: "map eq_id (equipments d') = map eq_id (equipments d)"
    using e e' by (auto simp: d'(1) upd_def)
  have mem: "r = e' \<or> r \<in> set (equipments d)" if "r \<in> set (equipments d')" for r
    using that by (auto simp: d'(1) set_upd)
  have ev: "eventsOf x d' = eventsOf x d" for x by (simp add: eventsOf_def d')
  have "eq_id r < nextEquipmentId d' \<and> equipmentChecks r \<and> walk None (eventsOf (eq_id r) d') (Some (eq_status r))"
    if "r \<in> set (equipments d')" for r
    using mem [OF that] I(2-4) [of r] I(2-4) [of e] e e' by (auto simp: ev d'(3))
  moreover have "finalKept d d'"
    unfolding finalKept_def using f(2) e equipment_eq [OF assms(2)] by (auto simp: d'(1) set_upd)
  ultimately show ?thesis using I(1,5,6) keys by (simp add: equipment_inv_def d')
qed

lemma transitionEquipment_inv:
  assumes "transitionEquipment i emp dto now d = Inr d'" and "equipment_inv d"
  shows "equipment_inv d' \<and> finalKept d d'"
proof -
  note I = equipment_invD [OF assms(2)]
  define g where "g e r \<longleftrightarrow> eq_id r = i \<and> eq_status r = eq_status e \<and> eq_deletedAt r = None" for e r :: equipment
  define u where "u r = r\<lparr>eq_status := te_status dto,
     eq_nextMaintenanceAt := (if te_status dto = LIQUIDATED then None else orOld (te_nextMaintenanceAt dto) (eq_nextMaintenanceAt r)),
     eq_liquidatedAt := (if te_status dto = LIQUIDATED then Some (orOld (te_occurredAt dto) now) else None), eq_updatedAt := now\<rparr>"
    for r :: equipment
  obtain e v where f: "findEquipment i d = Some e" "te_status dto \<in> set (ALLOWED_TRANSITIONS (eq_status e))"
    and d': "equipments d' = upd (g e) u (equipments d)" "lifecycleEvents d' = lifecycleEvents d @ [v]"
      "nextEquipmentId d' = Suc (nextEquipmentId d)"
    and v: "le_equipmentId v = i" "le_fromStatus v = Some (eq_status e)" "le_toStatus v = te_status dto" "0 \<le> le_cost v"
    using assms(1) by (auto simp: transitionEquipment_def Let_def equipmentLog_def g_def [abs_def] u_def [abs_def])
  note e = findEquipment_SomeD [OF f(1)]
  have only: "r = e" if "r \<in> set (equipments d)" "eq_id r = i" for r
    using equipment_eq [OF assms(2) that(1)] e that(2) by simp
  have u: "eq_id (u r) = eq_id r" "eq_status (u r) = te_status dto" for r by (simp_all add: u_def)
  have chk: "equipmentChecks (u e)" using I(3) [of e] e by (simp add: equipmentChecks_def u_def split: option.splits)
  have keys: "map eq_id (equipments d') = map eq_id (equipments d)" unfolding d'(1) by (rule map_key_upd) (simp add: u)
  have mem: "r = u e \<or> r \<in> set (equipments d) \<and> eq_id r \<noteq> i" if r: "r \<in> set (equipments d')" for r
  proof -
    obtain y where y: "y \<in> set (equipments d)" "r = (if g e y then u y else y)" using r by (auto simp: d'(1) upd_def)
    show ?thesis using y only [of y] e by (cases "eq_id y = i") (auto simp: g_def)
  qed
  have here: "walk None (eventsOf i d') (Some (te_status dto))"
    using I(4) [of e] e f(2) by (auto simp: eventsOf_def d'(2) v walk_snoc)
  have there: "eventsOf x d' = eventsOf x d" if "x \<noteq> i" for x using that by (simp add: eventsOf_def d'(2) v(1))
  have "eq_id r < nextEquipmentId d' \<and> equipmentChecks r \<and> walk None (eventsOf (eq_id r) d') (Some (eq_status r))"
    if "r \<in> set (equipments d')" for r
    using mem [OF that]
  proof
    assume "r = u e"
    then show ?thesis using here chk I(2) [of e] e by (simp add: u d'(3))
  next
    assume "r \<in> set (equipments d) \<and> eq_id r \<noteq> i"
    then show ?thesis using there I(2-4) [of r] by (simp add: d'(3) less_Suc_eq)
  qed
  moreover have "le_equipmentId w < nextEquipmentId d' \<and> 0 \<le> le_cost w" if "w \<in> set (lifecycleEvents d')" for w
    using that I(5,6) [of w] I(2) [of e] e v by (auto simp: d'(2,3) less_Suc_eq)
  moreover have "finalKept d d'"
    unfolding finalKept_def
  proof (intro ballI impI)
    fix r assume r: "r \<in> set (equipments d)" "eq_status r = LIQUIDATED"
    have "eq_status e \<noteq> LIQUIDATED" using f(2) by (cases "eq_status e") auto
    then have "\<not> g e r" using r(2) by (auto simp: g_def)
    then show "r \<in> set (equipments d')" using r(1) by (auto simp: d'(1) set_upd)
  qed
  ultimately show ?thesis using I(1) keys by (simp add: equipment_inv_def)
qed

lemma equipment_step_inv:
  assumes "equipment_step d d'" and "equipment_inv d"
  shows "equipment_inv d' \<and> finalKept d d'"
  using assms(1)
proof (cases rule: equipment_step.cases)
  case (elsewhere h)
  have "eventsOf i (d\<lparr>house := h\<rparr>) = eventsOf i d" for i by (simp add: eventsOf_def)
  then show ?thesis using assms(2) elsewhere by (simp add: equipment_inv_def finalKept_def)
qed (use assms(2) createEquipment_inv updateEquipment_inv transitionEquipment_inv in blast)+

text \<open>C30: The record of a machine is its life: in every reachable state the events of a machine, in the
  order they were written, lead from its registration to its present status, each by an allowed transition,
  its row satisfies the CHECK constraints, its amount being quantity times price; and a machine that
  was liquidated is never changed again.\<close>

theorem equipment_life:
  assumes "equipment_step\<^sup>*\<^sup>* d d'" and "equipment_inv d"
  shows "equipment_inv d' \<and> (\<forall>e\<in>set (equipments d). eq_status e = LIQUIDATED \<longrightarrow> e \<in> set (equipments d'))"
  using assms
proof (induction rule: rtranclp_induct)
  case (step y z)
  then show ?case using equipment_step_inv [OF step.hyps(2)] unfolding finalKept_def by blast
qed simp

text \<open>A grinder, registered, repaired and sold.\<close>

definition grinder :: createEquipmentDto where
  "grinder = \<lparr>ce_assetCode = ''EQ-1'', ce_serialNumber = None, ce_quantity = 2, ce_unitPrice = 150000, ce_purchaseDate = 5,
     ce_warrantyExpiresAt = Some 900, ce_nextMaintenanceAt = None\<rparr>"

definition empty_room :: equipmentDb where
  "empty_room = \<lparr>house = empty_db\<lparr>employees := [\<lparr>e_id = 1, e_fullName = ''An'', e_isActive = True, e_deletedAt = None\<rparr>]\<rparr>,
     equipments = [], lifecycleEvents = [], nextEquipmentId = 10\<rparr>"

definition toStatus :: "EquipmentStatus \<Rightarrow> transitionDto" where
  "toStatus s = \<lparr>te_status = s, te_reason = ''r'', te_cost = 0, te_occurredAt = None, te_nextMaintenanceAt = None\<rparr>"

definition room_1 :: equipmentDb where "room_1 = value_of (createEquipment 1 grinder 100 empty_room)"
definition room_2 :: equipmentDb where "room_2 = value_of (transitionEquipment 10 1 (toStatus MAINTENANCE) 110 room_1)"
definition room_3 :: equipmentDb where "room_3 = value_of (transitionEquipment 10 1 (toStatus LIQUIDATED) 120 room_2)"

lemmas machine_eval = createEquipment_def grinder_def empty_room_def assertEquipmentDates_def calculateEquipmentTotal_def
  MAX_EQUIPMENT_AMOUNT_def activeEmployee_def codesFree_def equipmentChecks_def equipmentLog_def Let_def
  transitionEquipment_def toStatus_def findEquipment_def addLog_def empty_db_def

lemma room_1_ok: "createEquipment 1 grinder 100 empty_room = Inr room_1"
proof -
  have "ok (createEquipment 1 grinder 100 empty_room)" by (simp add: machine_eval)
  then show ?thesis unfolding room_1_def by (rule ok_value_of)
qed

lemma room_2_ok: "transitionEquipment 10 1 (toStatus MAINTENANCE) 110 room_1 = Inr room_2"
proof -
  have "ok (transitionEquipment 10 1 (toStatus MAINTENANCE) 110 room_1)" by (simp add: machine_eval room_1_def)
  then show ?thesis unfolding room_2_def by (rule ok_value_of)
qed

lemma room_3_ok: "transitionEquipment 10 1 (toStatus LIQUIDATED) 120 room_2 = Inr room_3"
proof -
  have "ok (transitionEquipment 10 1 (toStatus LIQUIDATED) 120 room_2)" by (simp add: machine_eval room_1_def room_2_def)
  then show ?thesis unfolding room_3_def by (rule ok_value_of)
qed

theorem equipment_life_witness:
  "equipment_inv room_3 \<and> map le_toStatus (lifecycleEvents room_3) = [IN_USE, MAINTENANCE, LIQUIDATED]"
proof -
  have "equipment_step\<^sup>*\<^sup>* empty_room room_3"
    by (rule converse_rtranclp_into_rtranclp [where r = equipment_step, OF equipment_step.register [OF room_1_ok]],
        rule converse_rtranclp_into_rtranclp [where r = equipment_step, OF equipment_step.transition [OF room_2_ok]],
        rule r_into_rtranclp, rule equipment_step.transition [OF room_3_ok])
  moreover have "equipment_inv empty_room" by (simp add: equipment_inv_def empty_room_def)
  moreover have "map le_toStatus (lifecycleEvents room_3) = [IN_USE, MAINTENANCE, LIQUIDATED]"
    by (simp add: machine_eval room_1_def room_2_def room_3_def)
  ultimately show ?thesis using equipment_life by blast
qed

section \<open>Two editors\<close>

text \<open>Of two editors who saw the same version, the second is refused.\<close>

lemma second_edit_refused:
  assumes "updateEquipment i emp dto now d = Inr d'" and "equipment_inv d" and "ue_expectedUpdatedAt dto' = ue_expectedUpdatedAt dto"
  shows "\<not> ok (updateEquipment i emp' dto' now' d')"
proof -
  obtain e e' where f: "findEquipment i d = Some e"
    and d': "equipments d' = upd (\<lambda>r. eq_id r = i) (\<lambda>_. e') (equipments d)"
    and e': "eq_id e' = eq_id e" "ue_expectedUpdatedAt dto < eq_updatedAt e'"
    using assms(1) by (auto simp: updateEquipment_def assertEquipmentDates_def Let_def equipmentLog_def)
  have "r = e'" if "findEquipment i d' = Some r" for r
    using findEquipment_SomeD [OF that] by (auto simp: d' set_upd)
  then show ?thesis using e'(2) assms(3) by (auto simp: updateEquipment_def ok_def split: sum.splits)
qed

text \<open>
  But a change of status sets the time stamp to the clock, also when an edit had set it past the clock:
  then the version an editor saw comes back, and an edit made from before the first is accepted.
\<close>

definition edit_at :: "time \<Rightarrow> int \<Rightarrow> updateEquipmentDto" where
  "edit_at v q = \<lparr>ue_expectedUpdatedAt = v, ue_serialNumber = None, ue_quantity = Some q, ue_unitPrice = None,
     ue_purchaseDate = None, ue_warrantyExpiresAt = None, ue_nextMaintenanceAt = None\<rparr>"

lemma stale_edit_after_transition:
  "\<exists>d1 d2 d3. updateEquipment 10 1 (edit_at 100 3) 100 room_1 = Inr d1 \<and>
     transitionEquipment 10 1 (toStatus MAINTENANCE) 100 d1 = Inr d2 \<and> updateEquipment 10 1 (edit_at 100 4) 101 d2 = Inr d3"
  by (simp add: machine_eval room_1_def updateEquipment_def edit_at_def)

end
