(* ===== verification/Spec2Isabelle.thy ===== *)
theory Spec2Isabelle
  imports Order_System Outbox_Claims Payment_Refunds Promotion_Claims Bank_Claims Refund_Claims Inventory_Claims Payment_Claims Session_Claims Booking_Claims Online_Claims Print_Steps Kitchen_Board Menu_Claims Equipment
begin

text \<open>
  A verification of the backend of a coffee shop: a NestJS service over PostgreSQL, written in
  TypeScript under \<open>src/src/app\<close> and \<open>src/src/common\<close>, with its tables, CHECK constraints and unique indexes
  in \<open>src/prisma\<close>. The theories model the services that take orders, cook, bill, take payments, keep
  cash and stock, print, book tables, take online orders, edit the menu and decide who may do what.

  \<^bold>\<open>How the program is put together, and how the theories follow it.\<close> A controller checks a request
  against a schema and calls a method of a service; the method runs in one database transaction
  (\<open>runSerializableTransaction\<close>) and returns or throws. So a method is here a function from its arguments, the
  time and the database to \<open>error + database\<close> (\<open>'a res\<close> in \<open>Shop_Prelude\<close>): every exception is a branch, and the state of
  a call that throws is the old one, because the transaction rolls back. Where a method commits more
  than once, or asks a provider in between, each transaction is a function of its own and a step
  relation interleaves them with everything else. A table is a list of records (\<open>Schema\<close>, \<open>Db_Core\<close>): \<open>findFirst\<close> is \<open>find\<close>,
  \<open>updateMany\<close> is \<open>upd\<close>, \<open>count\<close> is \<open>cnt\<close>, an aggregate is \<open>sumw\<close>. What the database refuses (CHECK constraints, unique
  indexes) is a guard of the insert, or an invariant proved of the rows. Amounts are integers of hundredths,
  quantities integers of ten-thousandths (\<open>Fixed_Point\<close>, with the rounding of \<open>decimal.js\<close>); times are integers of
  milliseconds; ids are natural numbers drawn from a counter, where the program draws UUIDs.

  \<^bold>\<open>The parts.\<close>

  \<^item> Foundations: \<open>Shop_Prelude\<close>, \<open>Fixed_Point\<close>, \<open>Schema\<close>, \<open>Db_Core\<close>; \<open>Transactions\<close> is the retry loop of \<open>transaction.util.ts\<close> and the
    pagination; \<open>Idempotency\<close> is \<open>durable/idempotency.service.ts\<close>, with the interleavings of calls that share a key
    (\<open>call_step\<close>) and the locale \<open>kept_by_operation\<close>; \<open>Outbox_Dispatch\<close> and \<open>Outbox_Claims\<close> are the outbox, its dispatchers and
    workers (\<open>durable/outbox-dispatcher.service.ts\<close>), whose leases and crashes are \<open>dispatch_step\<close>.
  \<^item> Stock: \<open>Stock\<close>, \<open>Stock_Facts\<close>, \<open>Stock_Claims\<close> are the consumption service (\<open>inventory-consumption.service.ts\<close>);
    \<open>Inventory\<close>, \<open>Stock_Documents\<close>, \<open>Inventory_Facts\<close>, \<open>Inventory_Claims\<close> the movements, items, units, suppliers, receipts and
    stocktakes under \<open>inventory/services\<close> (\<open>inventory_step\<close>).
  \<^item> Orders: \<open>Menu_Selection\<close> and \<open>Menu_Facts\<close> (\<open>menu-option-selection.ts\<close>), \<open>Kitchen\<close> (\<open>kitchen-routing.service.ts\<close>), \<open>Takeaway\<close>
    (pickup codes), \<open>Order_Policy\<close>, \<open>Orders\<close> and \<open>Order_Tables\<close> (\<open>orders.service.ts\<close>: sessions, lines, splitting, merging, remakes,
    handing over), then \<open>Table_Facts\<close>, \<open>Order_Facts\<close>, \<open>Order_Invariants\<close>, \<open>Order_Stock\<close>, and the properties in \<open>Split_Claims\<close>,
    \<open>Kitchen_Claims\<close>, \<open>Order_Claims\<close>; \<open>Order_System\<close> has \<open>order_step\<close>.
  \<^item> Money: \<open>Promotions\<close>, \<open>Invoices\<close>, \<open>Cash_Ledger\<close>, \<open>Cashier\<close> (shifts, movements, expense requests, cash refunds), \<open>Handovers\<close>
    (handovers and funds); \<open>Cash_Facts\<close>, \<open>Cash_Books\<close>, \<open>Cash_System\<close>, \<open>Cash_Claims\<close> (\<open>till_step\<close>), \<open>Handover_Claims\<close>, \<open>Refund_Claims\<close>,
    \<open>Promotion_Claims\<close>; \<open>Bank_Reconciliation\<close> and \<open>Bank_Claims\<close> match bank statements with handovers (\<open>bank_step\<close>). \<open>Stock_System\<close>
    joins orders, money and stock in \<open>shop_step\<close>.
  \<^item> Online payments: \<open>Payments\<close>, \<open>Payment_Webhooks\<close>, \<open>Payment_Reconciliation\<close>, \<open>Payment_Refunds\<close> (the services of \<open>payments\<close> with the
    providers VNPay, MoMo and PayOS); \<open>Payment_Facts\<close>, \<open>Payment_System\<close>, \<open>Payment_Steps\<close>, \<open>Payment_Books\<close> (\<open>payment_step\<close>), \<open>Payment_Claims\<close>.
  \<^item> Access: \<open>Access\<close>, \<open>Employees\<close>, \<open>Sessions\<close> (roles, permissions, employees, signing in, refresh tokens, password resets);
    \<open>Access_Facts\<close>, \<open>Access_System\<close> (\<open>access_step\<close>), \<open>Session_Claims\<close>, where the rotation of refresh tokens refines a
    register that holds at most one token.
  \<^item> Guests: \<open>Reservations\<close>, \<open>Booking_Facts\<close>, \<open>Booking_System\<close>, \<open>Booking_Claims\<close> (tables and reservations, \<open>booking_step\<close>);
    \<open>Pickup\<close>, \<open>Online_Orders\<close>, \<open>Online_Handling\<close>, \<open>Online_System\<close>, \<open>Online_Claims\<close> (online orders and pickup slots, \<open>online_step\<close>).
  \<^item> Paper and pictures: \<open>Print_Queue\<close>, \<open>Print_Jobs\<close>, \<open>Print_System\<close>, \<open>Print_Steps\<close> (printers, jobs and the agent's leases;
    \<open>queue_write\<close> is what the operations write, \<open>queue_step\<close> a write that the CHECK constraints accept); \<open>Kitchen_Board\<close> (stations and the kitchen display); \<open>Equipment\<close>
    (\<open>equipment.service.ts\<close>, \<open>equipment_step\<close>); \<open>Menu_Admin\<close>, \<open>Menu_Images\<close>, \<open>Menu_Images_Facts\<close>, \<open>Menu_Claims\<close> (the
    menu, and its pictures against a file store whose answers may be lost, \<open>image_step\<close>).

  \<^bold>\<open>Interfaces.\<close> Services that use stock rely on a contract, the locale \<open>stock_invariant\<close>: a predicate of the database that
    every reserving, releasing and consuming keeps. It is interpreted for the reservation books (\<open>reserved\<close>) and for
    the stock ledger (\<open>ledger\<close>), and the orders, invoices and the whole shop are proved against it once.
    \<open>inventory_invariant\<close> extends it by the stock room's movements (\<open>stockRoom\<close>, \<open>stockLedger\<close>). \<open>kept_by_operation\<close> is the contract of the
    command an idempotent call runs; stock movements interpret it.

  \<^bold>\<open>What is shown.\<close> Invariants of every reachable state: the balance of an open shift's fund is what its
    reconciliation expects; reserved stock is the sum of the reservations and stock on hand that of the ledger;
    online payments, attempts and refunds agree with their invoices; a matched bank line names its own
    settled handover; reservations of a table do not overlap; a pickup slot is not promised beyond its capacity; a
    live menu item's picture exists; a machine's record leads to its status; there is always an owner; nobody approves their own request. What single
    operations do: approving and settling handovers, refunds, receipts, stocktakes, splitting, withdrawing an
    online order. Safety under interleaving: idempotent requests take effect once, outbox events are published only
    after delivery, a print job is handed out once, guests are seated once, a rotated token is dead. Equivalence and refinement: the
    availability check and the reservation loop, free tables and bookable tables, the workload query and the
    board, the check-in over the rows of the reservations and over what the orders see of them (\<open>checkIn_on_view\<close>).
    Liveness: a reserved line that was not cooked before can be cooked, a refund whose answer comes late still reaches its
    invoice. The loop of \<open>runSerializableTransaction\<close> ends.

  \<^bold>\<open>Steps, bounds and assumptions.\<close> A step of the shop starts in a \<open>committed\<close> state, in which primary keys and unique indexes hold
    and new ids are new; the database enforces both. Loops are structural recursions over rows already read,
    so nothing needs fuel: the retry loop is bounded by \<open>maxRetries\<close>, the batches by the program's own constants (50 events
    of the outbox, 500 purged rows, 25 reconciled payments, 25 cleaned uploads, 100 bank lines), and
    the theorems hold for runs of any length over them. Reading a batch and
    writing its rows are separate steps, so rows may change in between. Isolation between
    transactions that the program runs as SERIALIZABLE, or guards with \<open>FOR UPDATE\<close> or a conditional update, is that of
    the database: a transaction is one step.

  \<^bold>\<open>Parameters.\<close> Code outside the repository is an argument: hashes, HMACs and password digests, the signing of pickup codes and of
    providers' messages, the providers' answers (success, refusal, no answer), random tokens and codes, the sameness of names under
    the database's collation (\<open>sameName\<close>), \<open>localeCompare\<close>, the JSON of a stored answer, the time zone's day, the image decoder and the
    file store. What a theorem needs of them (that a hash has no collision, that a signature is
    verified) is a named hypothesis, and its witness gives a concrete function.

  \<^bold>\<open>Not modelled.\<close> Controllers, modules, request schemas beyond the rules the services rely on, Swagger and error
    texts: they parse and route. Paged searches and exports, reports, insights, recommendations and the audit log's view only read;
    their code is queries whose meaning is SQL's. Real-time gateways, mail, Telegram and the providers' HTTP clients are
    input and output: what they are told is the outbox, which is modelled (what Telegram writes to an online
    request is a step of \<open>online_step\<close>). Metrics, logging, health checks,
    throttling, the configuration, the seed and the command-line tools do not take part in the operations.
    Customers' accounts, the settings' editor, the daily sales close and takeaway feedback are state of their own
    which no modelled operation depends on except by reading a setting (a table of the model). Text columns
    nothing computes with (descriptions, notes, titles) are left out where a record says so.
\<close>

end
